(* ===== verification/Prelude.thy ===== *)
theory Prelude
  imports Main "HOL-Library.State_Monad"
begin

text \<open>
  Shared vocabulary of the development. It holds
  the state actions every stateful component is written in (\<open>gets\<close>, \<open>modify\<close>,
  over the library's state monad),
  total-correctness triples for them with one rule per construct (collection \<open>wp\<close>),
  the loop combinator of the bounded retry loops,
  and first-match search in a list, which is how the C code looks everything up.
\<close>

named_theorems wp \<open>triple rules, one per action\<close>
named_theorems run_simps \<open>evaluation of actions on a state\<close>
named_theorems cap_simps \<open>capacity and well-formedness facts\<close>

section \<open>State actions\<close>

definition gets :: "('s \<Rightarrow> 'a) \<Rightarrow> ('s, 'a) state" where
  "gets f = State (\<lambda>s. (f s, s))"

definition modify :: "('s \<Rightarrow> 's) \<Rightarrow> ('s, unit) state" where
  "modify f = State (\<lambda>s. ((), f s))"

abbreviation skip :: "('s, unit) state" where
  "skip \<equiv> State_Monad.return ()"

lemma run_gets [simp, run_simps]: "run_state (gets f) s = (f s, s)"
  by (simp add: gets_def)

lemma run_modify [simp, run_simps]: "run_state (modify f) s = ((), f s)"
  by (simp add: modify_def)

lemma run_state_if [run_simps]:
  "run_state (if b then m else n) s = (if b then run_state m s else run_state n s)"
  by simp

section \<open>Triples\<close>

text \<open>
  \<open>triple P m Q\<close>: from every state that satisfies \<open>P\<close> the action \<open>m\<close> returns a value and
  a state that satisfy \<open>Q\<close>. Actions are total functions, so this is total correctness.
\<close>

definition triple :: "('s \<Rightarrow> bool) \<Rightarrow> ('s, 'a) state \<Rightarrow> ('a \<Rightarrow> 's \<Rightarrow> bool) \<Rightarrow> bool" where
  "triple P m Q \<longleftrightarrow> (\<forall>s. P s \<longrightarrow> Q (fst (run_state m s)) (snd (run_state m s)))"

definition preserves :: "('s \<Rightarrow> bool) \<Rightarrow> ('s, 'a) state \<Rightarrow> bool" where
  "preserves I m \<longleftrightarrow> triple I m (\<lambda>_. I)"

lemma tripleI: "(\<And>s a t. P s \<Longrightarrow> run_state m s = (a, t) \<Longrightarrow> Q a t) \<Longrightarrow> triple P m Q"
  by (simp add: triple_def)

lemma tripleD: "triple P m Q \<Longrightarrow> P s \<Longrightarrow> run_state m s = (a, t) \<Longrightarrow> Q a t"
  by (fastforce simp: triple_def)

lemma triple_weaken:
  "triple P' m Q' \<Longrightarrow> (\<And>s. P s \<Longrightarrow> P' s) \<Longrightarrow> (\<And>a s. Q' a s \<Longrightarrow> Q a s) \<Longrightarrow> triple P m Q"
  by (simp add: triple_def)

lemma triple_strengthen_pre: "triple P' m Q \<Longrightarrow> (\<And>s. P s \<Longrightarrow> P' s) \<Longrightarrow> triple P m Q"
  by (simp add: triple_def)

lemma triple_return [wp]: "(\<And>s. P s \<Longrightarrow> Q a s) \<Longrightarrow> triple P (State_Monad.return a) Q"
  by (simp add: triple_def)

lemma triple_gets [wp]: "(\<And>s. P s \<Longrightarrow> Q (f s) s) \<Longrightarrow> triple P (gets f) Q"
  by (simp add: triple_def)

lemma triple_modify [wp]: "(\<And>s. P s \<Longrightarrow> Q () (f s)) \<Longrightarrow> triple P (modify f) Q"
  by (simp add: triple_def)

lemma triple_bind:
  "triple P m R \<Longrightarrow> (\<And>a. triple (R a) (f a) Q) \<Longrightarrow> triple P (State_Monad.bind m f) Q"
  by (simp add: triple_def split: prod.splits) (metis fst_conv snd_conv)

lemma triple_if [wp]:
  "(b \<Longrightarrow> triple P m Q) \<Longrightarrow> (\<not> b \<Longrightarrow> triple P n Q) \<Longrightarrow> triple P (if b then m else n) Q"
  by simp

lemma triple_case_option [wp]:
  "(x = None \<Longrightarrow> triple P m Q) \<Longrightarrow> (\<And>y. x = Some y \<Longrightarrow> triple P (n y) Q) \<Longrightarrow>
   triple P (case x of None \<Rightarrow> m | Some y \<Rightarrow> n y) Q"
  by (cases x) simp_all

lemma triple_case_prod [wp]:
  "(\<And>y z. x = (y, z) \<Longrightarrow> triple P (n y z) Q) \<Longrightarrow> triple P (case x of (y, z) \<Rightarrow> n y z) Q"
  by (cases x) simp

lemma triple_let [wp]: "triple P (f x) Q \<Longrightarrow> triple P (let y = x in f y) Q"
  by simp

lemma triple_conj: "triple P m Q \<Longrightarrow> triple P m R \<Longrightarrow> triple P m (\<lambda>a s. Q a s \<and> R a s)"
  by (simp add: triple_def)

lemma triple_pull: "(\<And>x. triple (\<lambda>s. P s \<and> x = f s) m Q) \<Longrightarrow> triple P m Q"
  by (simp add: triple_def)

lemma preservesI: "(\<And>s a t. I s \<Longrightarrow> run_state m s = (a, t) \<Longrightarrow> I t) \<Longrightarrow> preserves I m"
  unfolding preserves_def by (rule tripleI)

lemma preservesD: "preserves I m \<Longrightarrow> I s \<Longrightarrow> run_state m s = (a, t) \<Longrightarrow> I t"
  by (fastforce simp: preserves_def triple_def)

lemma preserves_return [wp]: "preserves I (State_Monad.return a)"
  by (simp add: preserves_def triple_def)

lemma preserves_gets [wp]: "preserves I (gets f)"
  by (simp add: preserves_def triple_def)

lemma preserves_modify [wp]: "(\<And>s. I s \<Longrightarrow> I (f s)) \<Longrightarrow> preserves I (modify f)"
  by (simp add: preserves_def triple_def)

lemma preserves_bind [wp]:
  "preserves I m \<Longrightarrow> (\<And>a. preserves I (f a)) \<Longrightarrow> preserves I (State_Monad.bind m f)"
  unfolding preserves_def by (rule triple_bind)

lemma preserves_bind_gets:
  "(\<And>s. I s \<Longrightarrow> P (f s)) \<Longrightarrow> (\<And>a. P a \<Longrightarrow> preserves I (g a)) \<Longrightarrow>
   preserves I (State_Monad.bind (gets f) g)"
  by (simp add: preserves_def triple_def)

lemma preserves_if [wp]:
  "(b \<Longrightarrow> preserves I m) \<Longrightarrow> (\<not> b \<Longrightarrow> preserves I n) \<Longrightarrow> preserves I (if b then m else n)"
  by simp

lemma preserves_case_option [wp]:
  "(x = None \<Longrightarrow> preserves I m) \<Longrightarrow> (\<And>y. x = Some y \<Longrightarrow> preserves I (n y)) \<Longrightarrow>
   preserves I (case x of None \<Rightarrow> m | Some y \<Rightarrow> n y)"
  by (cases x) simp_all

lemma preserves_case_prod [wp]:
  "(\<And>y z. x = (y, z) \<Longrightarrow> preserves I (n y z)) \<Longrightarrow> preserves I (case x of (y, z) \<Rightarrow> n y z)"
  by (cases x) simp

lemma preserves_let [wp]: "preserves I (f x) \<Longrightarrow> preserves I (let y = x in f y)"
  by simp

text \<open>A step that keeps the precondition, and then the rest.\<close>

lemma triple_seq:
  "preserves I m \<Longrightarrow> (\<And>a. triple I (f a) Q) \<Longrightarrow> triple I (State_Monad.bind m f) Q"
  unfolding preserves_def by (rule triple_bind)

lemma triple_read:
  "(\<And>a. triple (\<lambda>s. P s \<and> a = f s) (g a) Q) \<Longrightarrow> triple P (State_Monad.bind (gets f) g) Q"
  by (simp add: triple_def)

lemma preserves_True: "preserves (\<lambda>_. True) m"
  by (simp add: preserves_def triple_def)

lemma triple_of_preserves: "preserves I m \<Longrightarrow> (\<And>a s. I s \<Longrightarrow> Q a s) \<Longrightarrow> triple I m Q"
  unfolding preserves_def by (rule triple_weaken)

section \<open>First match in a list\<close>

text \<open>
  Every lookup of the C code is the loop \<open>for (i = 0; i < count; i++) if (match(a[i])) return &a[i];\<close>.
  Where the code keeps the pointer to write through it, the model keeps the index.
\<close>

fun find_index :: "('a \<Rightarrow> bool) \<Rightarrow> 'a list \<Rightarrow> nat option" where
  "find_index P [] = None"
| "find_index P (x # xs) = (if P x then Some 0 else map_option Suc (find_index P xs))"

lemma find_index_Some:
  "find_index P xs = Some i \<Longrightarrow> i < length xs \<and> P (xs ! i) \<and> (\<forall>j<i. \<not> P (xs ! j))"
proof (induction xs arbitrary: i)
  case Nil
  then show ?case by simp
next
  case (Cons x xs)
  show ?case
  proof (cases "P x")
    case True
    with Cons.prems show ?thesis by simp
  next
    case False
    with Cons.prems obtain j where "find_index P xs = Some j" "i = Suc j" by auto
    with Cons.IH [of j] False show ?thesis by (auto simp: nth_Cons split: nat.splits)
  qed
qed

lemmas find_index_less = find_index_Some [THEN conjunct1]
lemmas find_index_hit = find_index_Some [THEN conjunct2, THEN conjunct1]

lemma find_index_None: "find_index P xs = None \<longleftrightarrow> (\<forall>x\<in>set xs. \<not> P x)"
  by (induction xs) auto

lemma find_index_append:
  "find_index P (xs @ ys) =
   (case find_index P xs of Some i \<Rightarrow> Some i | None \<Rightarrow> map_option ((+) (length xs)) (find_index P ys))"
  by (induction xs; cases "find_index P ys") (auto split: option.splits)

lemma find_index_cong:
  "length xs = length ys \<Longrightarrow> (\<And>i. i < length xs \<Longrightarrow> P (xs ! i) = Q (ys ! i)) \<Longrightarrow>
   find_index P xs = find_index Q ys"
proof (induction xs ys rule: list_induct2)
  case Nil
  then show ?case by simp
next
  case (Cons x xs y ys)
  have "P x = Q y" using Cons.prems [of 0] by simp
  moreover have "find_index P xs = find_index Q ys"
    using Cons.IH Cons.prems [of "Suc i" for i] by simp
  ultimately show ?case by simp
qed

lemma find_index_update_same:
  "i < length xs \<Longrightarrow> P y = P (xs ! i) \<Longrightarrow> find_index P (xs[i := y]) = find_index P xs"
  by (rule find_index_cong) (auto simp: nth_list_update)

lemma find_is_index:
  "find P xs = map_option (\<lambda>i. xs ! i) (find_index P xs)"
  by (induction xs) (auto simp: option.map_comp comp_def)

lemma find_Some_mem: "find P xs = Some x \<Longrightarrow> x \<in> set xs \<and> P x"
  by (induction xs) (auto split: if_splits)

lemma find_None_all: "find P xs = None \<longleftrightarrow> (\<forall>x\<in>set xs. \<not> P x)"
  by (induction xs) auto

section \<open>Keyed registries\<close>

text \<open>
  A registry is a list whose entries have distinct keys. Overwriting the entry that has the
  new entry's key, or appending where there is none, keeps it one.
\<close>

lemma distinct_map_update:
  assumes "distinct (map k xs)" and "find_index (\<lambda>x. k x = k y) xs = Some i"
  shows "distinct (map k (xs[i := y]))"
proof -
  have "k (xs ! i) = k y" and i: "i < length xs"
    using assms(2) find_index_hit find_index_less by fastforce+
  then have "map k (xs[i := y]) = map k xs"
    by (simp add: map_update list_update_same_conv)
  with assms(1) show ?thesis by simp
qed

lemma distinct_map_append:
  "distinct (map k xs) \<Longrightarrow> find_index (\<lambda>x. k x = k y) xs = None \<Longrightarrow> distinct (map k (xs @ [y]))"
  by (fastforce simp: find_index_None)

lemma map_update_same: "k y = k (xs ! i) \<Longrightarrow> map k (xs[i := y]) = map k xs"
  by (cases "i < length xs") (simp_all add: map_update list_update_same_conv list_update_beyond)

lemma find_update:
  "find_index P xs = Some i \<Longrightarrow> P y \<Longrightarrow> find P (xs[i := y]) = Some y"
  by (induction P xs arbitrary: i rule: find_index.induct) (auto split: if_splits)

lemma find_update_other:
  "\<not> P (xs ! i) \<Longrightarrow> \<not> P y \<Longrightarrow> find P (xs[i := y]) = find P xs"
  by (induction xs arbitrary: i) (auto split: nat.splits simp: nth_Cons)

lemma find_append_hit: "find P (xs @ [y]) = (case find P xs of Some x \<Rightarrow> Some x | None \<Rightarrow> if P y then Some y else None)"
  by (induction xs) auto

section \<open>Bounded retry loops\<close>

text \<open>
  \<open>for (attempt = 0; attempt <= retry_count; attempt++)\<close>: run the body, return its
  error code when it is a success or the attempt is the last, otherwise wait and go on.
  \<open>left\<close> is \<open>retry_count - attempt\<close>, so the recursion is on the attempts that remain.
\<close>

primrec retry_loop ::
  "nat \<Rightarrow> nat \<Rightarrow> 'e \<Rightarrow> ('s, 'e) state \<Rightarrow> (nat \<Rightarrow> ('s, unit) state) \<Rightarrow> ('s, 'e) state" where
  "retry_loop 0 attempt ok body wait = body"
| "retry_loop (Suc left) attempt ok body wait = do {
     e \<leftarrow> body;
     if e = ok then State_Monad.return e
     else do { _ \<leftarrow> wait attempt; retry_loop left (Suc attempt) ok body wait }
   }"

lemma preserves_retry_loop [wp]:
  "preserves I body \<Longrightarrow> (\<And>k. preserves I (wait k)) \<Longrightarrow>
   preserves I (retry_loop n k ok body wait)"
  by (induction n arbitrary: k) (auto intro!: wp)

text \<open>
  The rule of the loop: an invariant \<open>I\<close> holds before every attempt; a successful attempt
  establishes \<open>Q ok\<close>, a failed one \<open>F e\<close>, from which the wait re-establishes \<open>I\<close>.
\<close>

lemma triple_retry_loop:
  assumes body: "triple I body (\<lambda>e s. if e = ok then Q ok s else F e s)"
    and wait: "\<And>k e. triple (F e) (wait k) (\<lambda>_. I)"
    and final: "\<And>e s. e \<noteq> ok \<Longrightarrow> F e s \<Longrightarrow> Q e s"
  shows "triple I (retry_loop n k ok body wait) Q"
proof (induction n arbitrary: k)
  case 0
  show ?case using body final by (auto intro!: triple_weaken [OF body] split: if_splits)
next
  case (Suc n)
  show ?case
    unfolding retry_loop.simps
    by (rule triple_bind [OF body], rule triple_if, rule triple_return, simp,
        rule triple_bind, rule triple_strengthen_pre [OF wait], simp, rule Suc.IH)
qed

lemma retry_loop_first_success:
  "run_state body s = (ok, t) \<Longrightarrow> run_state (retry_loop n k ok body wait) s = (ok, t)"
  by (cases n) simp_all

lemma retry_loop_step:
  "run_state body s = (e, t) \<Longrightarrow> e \<noteq> ok \<Longrightarrow> run_state (wait k) t = ((), u) \<Longrightarrow>
   run_state (retry_loop (Suc n) k ok body wait) s = run_state (retry_loop n (Suc k) ok body wait) u"
  by simp

end
