(* ===== verification/CLib.thy ===== *)
theory CLib
  imports Prelude "HOL-Library.Char_ord"
begin

text \<open>
  The part of the C standard library the sources use, on strings without their
  terminating NUL: \<open>string\<close> is the list of bytes before it. A fixed buffer
  \<open>char b[n]\<close> holds at most \<open>n - 1\<close> bytes, and every copy into one writes the truncation out.
  A pointer that may be \<open>NULL\<close> is an \<open>option\<close>.
\<close>

section \<open>Characters\<close>

definition code :: "char \<Rightarrow> nat" where
  "code c = of_char c"

text \<open>The classification functions of \<open><ctype.h>\<close> in the C locale.\<close>

definition isdigit :: "char \<Rightarrow> bool" where
  "isdigit c \<longleftrightarrow> 48 \<le> code c \<and> code c \<le> 57"

definition isalnum :: "char \<Rightarrow> bool" where
  "isalnum c \<longleftrightarrow> isdigit c \<or> (65 \<le> code c \<and> code c \<le> 90) \<or> (97 \<le> code c \<and> code c \<le> 122)"

definition isspace :: "char \<Rightarrow> bool" where
  "isspace c \<longleftrightarrow> code c = 32 \<or> (9 \<le> code c \<and> code c \<le> 13)"

definition tolower :: "char \<Rightarrow> char" where
  "tolower c = (if 65 \<le> code c \<and> code c \<le> 90 then char_of (code c + 32) else c)"

text \<open>Carriage return and line feed, which have no literal in a HOL string.\<close>

definition CR :: char where "CR = CHR 0x0D"
definition LF :: char where "LF = CHR 0x0A"
definition TAB :: char where "TAB = CHR 0x09"
definition DQ :: char where "DQ = CHR 0x22"
definition BSLASH :: char where "BSLASH = CHR 0x5C"

lemmas char_consts = CR_def LF_def TAB_def DQ_def BSLASH_def

lemma code_inj: "code c = code d \<longleftrightarrow> c = d"
  by (simp add: code_def)

lemma isspace_not_alnum: "isspace c \<Longrightarrow> \<not> isalnum c"
  by (auto simp: isspace_def isalnum_def isdigit_def)

text \<open>The same by the bits of the byte, for evaluation.\<close>

definition letter_bits :: "bool \<Rightarrow> bool \<Rightarrow> bool \<Rightarrow> bool \<Rightarrow> bool \<Rightarrow> bool" where
  "letter_bits b0 b1 b2 b3 b4 \<longleftrightarrow> (b0 \<or> b1 \<or> b2 \<or> b3 \<or> b4) \<and> \<not> (b4 \<and> b3 \<and> (b2 \<or> (b1 \<and> b0)))"

lemma isdigit_bits [code]:
  "isdigit (Char b0 b1 b2 b3 b4 b5 b6 b7) \<longleftrightarrow> \<not> b7 \<and> \<not> b6 \<and> b5 \<and> b4 \<and> \<not> (b3 \<and> (b2 \<or> b1))"
  by (cases b0; cases b1; cases b2; cases b3; cases b4; cases b5; cases b6; cases b7; simp add: isdigit_def code_def)

lemma isalnum_bits [code]:
  "isalnum (Char b0 b1 b2 b3 b4 b5 b6 b7) \<longleftrightarrow>
   \<not> b7 \<and> (if b6 then letter_bits b0 b1 b2 b3 b4 else b5 \<and> b4 \<and> \<not> (b3 \<and> (b2 \<or> b1)))"
  by (cases b0; cases b1; cases b2; cases b3; cases b4; cases b5; cases b6; cases b7;
      simp add: isalnum_def isdigit_def code_def letter_bits_def)

lemma isspace_bits [code]:
  "isspace (Char b0 b1 b2 b3 b4 b5 b6 b7) \<longleftrightarrow> \<not> b7 \<and> \<not> b6 \<and> \<not> b4 \<and>
     (if b5 then \<not> b3 \<and> \<not> b2 \<and> \<not> b1 \<and> \<not> b0 else b3 \<and> (b2 \<or> b1 \<or> b0) \<and> \<not> (b2 \<and> b1))"
  by (cases b0; cases b1; cases b2; cases b3; cases b4; cases b5; cases b6; cases b7; simp add: isspace_def code_def)

lemma tolower_bits [code]:
  "tolower (Char b0 b1 b2 b3 b4 b5 b6 b7) =
   Char b0 b1 b2 b3 b4 (b5 \<or> (\<not> b7 \<and> b6 \<and> letter_bits b0 b1 b2 b3 b4)) b6 b7"
  by (cases b0; cases b1; cases b2; cases b3; cases b4; cases b5; cases b6; cases b7;
      simp add: tolower_def code_def letter_bits_def char_of_def bit_Suc_0_iff)

section \<open>Strings\<close>

text \<open>\<open>strcmp\<close>: the sign of the first difference; the bytes compare as unsigned.\<close>

fun strcmp :: "string \<Rightarrow> string \<Rightarrow> int" where
  "strcmp [] [] = 0"
| "strcmp [] (y # ys) = - 1"
| "strcmp (x # xs) [] = 1"
| "strcmp (x # xs) (y # ys) =
     (if x = y then strcmp xs ys else if code x < code y then - 1 else 1)"

lemma strcmp_eq_0 [simp]: "strcmp a b = 0 \<longleftrightarrow> a = b"
  by (induction a b rule: strcmp.induct) auto

lemma strcmp_refl [simp]: "strcmp a a = 0"
  by simp

lemma strcmp_antisym: "strcmp b a = - strcmp a b"
  by (induction a b rule: strcmp.induct)
    (auto simp: not_less order_le_less code_inj)

lemma strcmp_less_trans: "strcmp a b < 0 \<Longrightarrow> strcmp b c < 0 \<Longrightarrow> strcmp a c < 0"
proof (induction a b arbitrary: c rule: strcmp.induct)
  case (4 x xs y ys)
  then show ?case by (cases c) (auto split: if_splits)
next
  case (2 y ys)
  then show ?case by (cases c) auto
qed auto

lemma strcmp_less_asym: "strcmp a b < 0 \<Longrightarrow> \<not> strcmp b a < 0"
  using strcmp_antisym [of a b] by simp

lemma strcmp_range: "strcmp a b = 0 \<or> strcmp a b = 1 \<or> strcmp a b = - 1"
  by (induction a b rule: strcmp.induct) auto

text \<open>\<open>strncmp(s, prefix, strlen(prefix)) == 0\<close>.\<close>

fun starts_with :: "string \<Rightarrow> string \<Rightarrow> bool" where
  "starts_with s [] = True"
| "starts_with [] (p # ps) = False"
| "starts_with (c # s) (p # ps) = (c = p \<and> starts_with s ps)"

lemma starts_with_iff: "starts_with s p \<longleftrightarrow> (\<exists>r. s = p @ r)"
  by (induction s p rule: starts_with.induct) auto

lemma starts_with_append [simp]: "starts_with (p @ r) p"
  by (auto simp: starts_with_iff)

lemma starts_with_drop: "starts_with s p \<Longrightarrow> s = p @ drop (length p) s"
  by (auto simp: starts_with_iff)

text \<open>\<open>strstr\<close>: the suffix that starts at the first occurrence.\<close>

fun strstr :: "string \<Rightarrow> string \<Rightarrow> string option" where
  "strstr [] needle = (if needle = [] then Some [] else None)"
| "strstr (c # s) needle = (if starts_with (c # s) needle then Some (c # s) else strstr s needle)"

text \<open>\<open>strrchr\<close>: the suffix that starts at the last occurrence.\<close>

fun strrchr :: "string \<Rightarrow> char \<Rightarrow> string option" where
  "strrchr [] d = None"
| "strrchr (c # s) d =
     (case strrchr s d of Some r \<Rightarrow> Some r | None \<Rightarrow> if c = d then Some (c # s) else None)"

text \<open>
  \<open>strtok\<close> over the delimiters: maximal runs of bytes that are not delimiters, in order.
  The first argument is the token read so far.
\<close>

fun tokens_aux :: "(char \<Rightarrow> bool) \<Rightarrow> string \<Rightarrow> string \<Rightarrow> string list" where
  "tokens_aux sep acc [] = (if acc = [] then [] else [acc])"
| "tokens_aux sep acc (c # s) =
     (if sep c then (if acc = [] then tokens_aux sep [] s else acc # tokens_aux sep [] s)
      else tokens_aux sep (acc @ [c]) s)"

definition strtok_all :: "(char \<Rightarrow> bool) \<Rightarrow> string \<Rightarrow> string list" where
  "strtok_all sep s = tokens_aux sep [] s"

lemma tokens_aux_chars:
  "t \<in> set (tokens_aux sep acc s) \<Longrightarrow> set t \<subseteq> set acc \<union> {c \<in> set s. \<not> sep c} \<and> t \<noteq> []"
  by (induction sep acc s rule: tokens_aux.induct) (fastforce split: if_splits)+

lemma strtok_all_chars:
  "t \<in> set (strtok_all sep s) \<Longrightarrow> c \<in> set t \<Longrightarrow> c \<in> set s \<and> \<not> sep c"
  using tokens_aux_chars [of t sep "[]" s] by (auto simp: strtok_all_def)

lemma strtok_all_nonempty: "t \<in> set (strtok_all sep s) \<Longrightarrow> t \<noteq> []"
  using tokens_aux_chars [of t sep "[]" s] by (auto simp: strtok_all_def)

lemma tokens_aux_count: "length (tokens_aux sep acc s) \<le> Suc (length (filter sep s))"
proof (induction sep acc s rule: tokens_aux.induct)
  case (2 sep acc c s)
  then show ?case by (cases "sep c"; cases "acc = []") auto
qed simp

lemma tokens_aux_Cons_nonempty: "acc \<noteq> [] \<Longrightarrow> tokens_aux sep acc s \<noteq> []"
  by (induction sep acc s rule: tokens_aux.induct) auto

lemma strtok_all_nonempty_list: "s \<noteq> [] \<Longrightarrow> \<not> sep (hd s) \<Longrightarrow> strtok_all sep s \<noteq> []"
  by (cases s) (auto simp: strtok_all_def tokens_aux_Cons_nonempty)

text \<open>Words joined by single blanks, which \<open>strtok\<close> splits again.\<close>

fun unwords :: "string list \<Rightarrow> string" where
  "unwords [] = []"
| "unwords [w] = w"
| "unwords (w # v # ws) = w @ CHR '' '' # unwords (v # ws)"

definition word_over :: "(char \<Rightarrow> bool) \<Rightarrow> string \<Rightarrow> bool" where
  "word_over sep w \<longleftrightarrow> w \<noteq> [] \<and> list_all (\<lambda>c. \<not> sep c) w"

lemma tokens_aux_word:
  "list_all (\<lambda>c. \<not> sep c) w \<Longrightarrow> tokens_aux sep acc (w @ s) = tokens_aux sep (acc @ w) s"
  by (induction w arbitrary: acc) simp_all

lemma strtok_unwords:
  assumes "sep (CHR '' '')" "list_all (word_over sep) ws"
  shows "strtok_all sep (unwords ws) = ws"
  using assms(2)
proof (induction ws rule: unwords.induct)
  case 1
  show ?case by (simp add: strtok_all_def)
next
  case (2 w)
  then show ?case using tokens_aux_word [of sep w "[]" "[]"] by (simp add: strtok_all_def word_over_def)
next
  case (3 w v ws)
  then show ?case
    using assms(1) tokens_aux_word [of sep w "[]" "CHR '' '' # unwords (v # ws)"]
    by (simp add: strtok_all_def word_over_def)
qed

text \<open>The bytes the sources admit in command arguments and observed identifiers.\<close>

definition token_char :: "char \<Rightarrow> bool" where
  "token_char c \<longleftrightarrow> isalnum c \<or> c = CHR '':'' \<or> c = CHR ''/'' \<or> c = CHR ''.'' \<or> c = CHR ''_'' \<or> c = CHR ''-''"

definition blank :: "char \<Rightarrow> bool" where
  "blank c \<longleftrightarrow> c = CHR '' '' \<or> c = TAB \<or> c = CR \<or> c = LF"

lemma token_char_not_blank: "token_char c \<Longrightarrow> \<not> blank c"
  by (auto simp: token_char_def blank_def isalnum_def isdigit_def code_def char_consts)

section \<open>Copies into buffers and decimal output\<close>

text \<open>\<open>snprintf(buf, n, "%s", s)\<close> stores the first \<open>n - 1\<close> bytes.\<close>

definition fit :: "nat \<Rightarrow> string \<Rightarrow> string" where
  "fit n s = take (n - 1) s"

lemma fit_code [code]: "fit n s = (if length s < n then s else take (n - 1) s)"
  by (simp add: fit_def)

lemma fit_id [cap_simps]: "length s < n \<Longrightarrow> fit n s = s"
  by (simp add: fit_def)

lemma fit_length [cap_simps]: "0 < n \<Longrightarrow> length (fit n s) < n"
  by (auto simp: fit_def min_def)

lemma fit_Nil [simp]: "fit n [] = []"
  by (simp add: fit_def)

text \<open>\<open>%d\<close> and \<open>%ld\<close>.\<close>

fun nat_to_dec :: "nat \<Rightarrow> string" where
  "nat_to_dec n =
     (if n < 10 then [char_of (48 + n)] else nat_to_dec (n div 10) @ [char_of (48 + n mod 10)])"

declare nat_to_dec.simps [simp del]

definition int_to_dec :: "int \<Rightarrow> string" where
  "int_to_dec i = (if i < 0 then CHR ''-'' # nat_to_dec (nat (- i)) else nat_to_dec (nat i))"

lemma code_digit: "(n::nat) < 10 \<Longrightarrow> code (char_of (48 + n)) = 48 + n"
  by (simp add: code_def)

lemma isdigit_digit: "(n::nat) < 10 \<Longrightarrow> isdigit (char_of (48 + n))"
  by (simp add: isdigit_def code_digit)

lemma digit_chars [simp]:
  "char_of (48::nat) = CHR ''0''" "char_of (49::nat) = CHR ''1''" "char_of (50::nat) = CHR ''2''"
  "char_of (51::nat) = CHR ''3''" "char_of (52::nat) = CHR ''4''" "char_of (53::nat) = CHR ''5''"
  "char_of (54::nat) = CHR ''6''" "char_of (55::nat) = CHR ''7''" "char_of (56::nat) = CHR ''8''"
  "char_of (57::nat) = CHR ''9''"
  by (simp_all add: char_of_def bit_0)

lemma nat_to_dec_digits: "\<forall>c\<in>set (nat_to_dec n). isdigit c"
proof (induction n rule: nat_to_dec.induct)
  case (1 n)
  then show ?case by (subst nat_to_dec.simps) (auto simp: isdigit_digit)
qed

lemma nat_to_dec_nonempty: "nat_to_dec n \<noteq> []"
  by (subst nat_to_dec.simps) simp

text \<open>Reading digits back, for the round trip.\<close>

fun dec_value :: "nat \<Rightarrow> string \<Rightarrow> nat" where
  "dec_value acc [] = acc"
| "dec_value acc (c # s) = dec_value (10 * acc + (code c - 48)) s"

lemma dec_value_append: "dec_value acc (s @ t) = dec_value (dec_value acc s) t"
  by (induction acc s rule: dec_value.induct) auto

lemma dec_value_nat_to_dec: "dec_value 0 (nat_to_dec n) = n"
proof (induction n rule: nat_to_dec.induct)
  case (1 n)
  show ?case
    by (subst nat_to_dec.simps)
      (use 1 in \<open>auto simp: dec_value_append code_digit\<close>)
qed

lemma nat_to_dec_inj: "nat_to_dec m = nat_to_dec n \<Longrightarrow> m = n"
  by (metis dec_value_nat_to_dec)

lemma nat_to_dec_no_minus: "nat_to_dec n = CHR ''-'' # s \<Longrightarrow> False"
  using nat_to_dec_digits [of n] by (auto simp: isdigit_def code_def)

lemma int_to_dec_inj: "int_to_dec i = int_to_dec j \<Longrightarrow> i = j"
  by (auto simp: int_to_dec_def split: if_splits
      dest: nat_to_dec_inj nat_to_dec_no_minus nat_to_dec_no_minus [OF sym])

lemma nat_to_dec_length: "n < 10 ^ k \<Longrightarrow> 0 < k \<Longrightarrow> length (nat_to_dec n) \<le> k"
proof (induction n arbitrary: k rule: nat_to_dec.induct)
  case (1 n)
  show ?case
  proof (cases "n < 10")
    case True
    with 1 show ?thesis by (subst nat_to_dec.simps) simp
  next
    case False
    with "1.prems" obtain j where k: "k = Suc j" "0 < j"
      by (cases k; cases "k - 1") auto
    with "1.prems" have "n div 10 < 10 ^ j" by (simp add: less_mult_imp_div_less mult.commute)
    with "1.IH" False k show ?thesis by (subst nat_to_dec.simps) simp
  qed
qed

text \<open>Every 32-bit \<open>int\<close> prints in at most eleven bytes.\<close>

definition int32 :: "int \<Rightarrow> bool" where
  "int32 i \<longleftrightarrow> - (2 ^ 31) \<le> i \<and> i < 2 ^ 31"

definition INT_MAX :: int where "INT_MAX = 2147483647"
definition INT_MIN :: int where "INT_MIN = - 2147483648"

lemma int_to_dec_length: "int32 i \<Longrightarrow> length (int_to_dec i) \<le> 11"
proof -
  assume "int32 i"
  then have "nat (- i) < 10 ^ 10" "nat i < 10 ^ 10" by (auto simp: int32_def)
  then show ?thesis
    using nat_to_dec_length [of "nat (- i)" 10] nat_to_dec_length [of "nat i" 10]
    by (auto simp: int_to_dec_def)
qed

lemma int_to_dec_chars: "c \<in> set (int_to_dec i) \<Longrightarrow> isdigit c \<or> c = CHR ''-''"
  using nat_to_dec_digits by (auto simp: int_to_dec_def split: if_splits)

lemma int_to_dec_chars_nonneg: "0 \<le> i \<Longrightarrow> c \<in> set (int_to_dec i) \<Longrightarrow> isdigit c"
  using nat_to_dec_digits by (auto simp: int_to_dec_def split: if_splits)

end
