(* ===== verification/CDouble.thy ===== *)
theory CDouble
  imports Complex_Main "HOL-Library.Log_Nat"
begin

text \<open>
  IEEE 754 binary64, the \<open>double\<close> of the sources, as far as they use it: comparison,
  \<open>-\<close>, \<open>*\<close>, \<open>/\<close>, \<open>fabs\<close>, \<open>fmax\<close> and the conversion from \<open>int\<close>. A finite double is the
  rational number it denotes; arithmetic is exact arithmetic followed by \<open>round64\<close>, which
  rounds to nearest, ties to even, with gradual underflow and overflow to infinity.
  The two zeros are one value: no operation here tells them apart except a division by
  zero, and the only division of the sources has a divisor of at least 1.
\<close>

datatype cdouble = NaN | PInf | NInf | Fin rat

section \<open>Rounding\<close>

text \<open>\<open>pow2 e\<close> is \<open>2\<close> to the integer power \<open>e\<close>.\<close>

definition pow2 :: "int \<Rightarrow> rat" where
  "pow2 e = (if 0 \<le> e then 2 ^ nat e else 1 / 2 ^ nat (- e))"

lemma pow2_pos [simp]: "0 < pow2 e"
  by (simp add: pow2_def)

text \<open>The exponent of the leading bit of a positive rational.\<close>

definition ilog2 :: "rat \<Rightarrow> int" where
  "ilog2 q =
     (let (n, d) = quotient_of q;
          e = int (floorlog 2 (nat n)) - int (floorlog 2 (nat d))
      in if pow2 e \<le> q then e else e - 1)"

definition round_half_even :: "rat \<Rightarrow> int" where
  "round_half_even x =
     (let f = \<lfloor>x\<rfloor>; r = x - of_int f
      in if r < 1 / 2 then f else if 1 / 2 < r then f + 1 else if even f then f else f + 1)"

text \<open>A positive rational to 53 significant bits, the last bit at \<open>2 ^ - 1074\<close> or above.\<close>

definition round_pos :: "rat \<Rightarrow> rat" where
  "round_pos q =
     (let u = max (ilog2 q - 52) (- 1074)
      in of_int (round_half_even (q / pow2 u)) * pow2 u)"

definition round64 :: "rat \<Rightarrow> cdouble" where
  "round64 q =
     (if q = 0 then Fin 0
      else if 0 < q then (let v = round_pos q in if pow2 1024 \<le> v then PInf else Fin v)
      else (let v = round_pos (- q) in if pow2 1024 \<le> v then NInf else Fin (- v)))"

definition DBL_MAX :: cdouble where
  "DBL_MAX = Fin (pow2 1024 - pow2 971)"

lemma round_half_even_nonneg: "0 \<le> x \<Longrightarrow> 0 \<le> round_half_even x"
  by (auto simp: round_half_even_def Let_def)

lemma round_pos_nonneg: "0 \<le> q \<Longrightarrow> 0 \<le> round_pos q"
  by (auto simp: round_pos_def Let_def less_imp_le
      intro!: mult_nonneg_nonneg round_half_even_nonneg divide_nonneg_pos)

text \<open>\<open>pow2\<close> is the integer power of the library, and \<open>ilog2\<close> gives a power that is not above.\<close>

lemma pow2_powi: "pow2 e = 2 powi e"
  by (simp add: pow2_def power_int_def inverse_eq_divide power_one_over)

lemma pow2_mono: "a \<le> b \<Longrightarrow> pow2 a \<le> pow2 b"
  by (simp add: pow2_powi power_int_increasing)

lemma pow2_ilog2_le:
  assumes "0 < q"
  shows "pow2 (ilog2 q) \<le> q"
proof -
  obtain n d where nd: "quotient_of q = (n, d)" by (meson surj_pair)
  have d: "0 < d" and q: "q = of_int n / of_int d" using quotient_of_denom_pos [OF nd] quotient_of_div [OF nd] by auto
  with assms have n: "0 < n" by (simp add: zero_less_divide_iff)
  define a b where "a = floorlog 2 (nat n)" and "b = floorlog 2 (nat d)"
  have a: "2 ^ (a - 1) \<le> nat n" "0 < a" and b: "nat d < 2 ^ b"
    using n d floorlog_bounds [of "nat n" 2] floorlog_bounds [of "nat d" 2] by (simp_all add: a_def b_def floorlog_def)
  have "(of_nat (2 ^ (a - 1)) :: rat) \<le> of_nat (nat n)" "(of_nat (nat d) :: rat) \<le> of_nat (2 ^ b)"
    using a(1) b by (simp_all only: of_nat_le_iff order_less_imp_le)
  then have nd': "2 ^ (a - 1) \<le> (of_int n :: rat)" "(of_int d :: rat) \<le> 2 ^ b" using n d by simp_all
  have "int a - int b - 1 = int (a - 1) - int b" using a(2) by simp
  moreover have "pow2 (int (a - 1) - int b) = 2 ^ (a - 1) / 2 ^ b"
    unfolding pow2_powi by (subst power_int_diff) simp_all
  ultimately have "pow2 (int a - int b - 1) = 2 ^ (a - 1) / 2 ^ b" by (simp only:)
  also have "\<dots> \<le> q" unfolding q using nd' d n by (intro frac_le) simp_all
  finally show ?thesis by (simp add: ilog2_def nd Let_def a_def b_def)
qed

text \<open>Integers of 53 bits are doubles; with this as its code, rounding them needs no shift of a fraction.\<close>

lemma round_pos_int:
  assumes "0 < i" "i < 2 ^ 53"
  shows "round_pos (of_int i) = of_int i"
proof -
  let ?q = "of_int i :: rat"
  define u where "u = max (ilog2 ?q - 52) (- 1074)"
  have pos: "0 < ?q" using assms(1) by simp
  have "u \<le> 0"
  proof (rule ccontr)
    assume "\<not> u \<le> 0"
    then have "53 \<le> ilog2 ?q" by (simp add: u_def)
    then have "pow2 53 \<le> ?q" using pow2_ilog2_le [OF pos] pow2_mono order_trans by blast
    moreover have "pow2 53 = of_int (2 ^ 53)" by (simp add: pow2_def)
    ultimately show False using assms(2) by (simp only: of_int_le_iff)
  qed
  then have scaled: "?q / pow2 u = of_int (i * 2 ^ nat (- u))" by (auto simp: pow2_def)
  have whole: "round_half_even (of_int k) = k" for k by (simp add: round_half_even_def Let_def)
  have "round_half_even (?q / pow2 u) = i * 2 ^ nat (- u)" unfolding scaled by (rule whole)
  then have "round_pos ?q = of_int (i * 2 ^ nat (- u)) * pow2 u" by (simp add: round_pos_def Let_def flip: u_def)
  also have "\<dots> = ?q" using \<open>u \<le> 0\<close> by (auto simp: pow2_def)
  finally show ?thesis .
qed

lemma round64_code [code]:
  "round64 q =
     (if snd (quotient_of q) = 1 \<and> 0 < q \<and> fst (quotient_of q) < 2 ^ 53 then Fin q
      else if q = 0 then Fin 0
      else if 0 < q then (let v = round_pos q in if pow2 1024 \<le> v then PInf else Fin v)
      else (let v = round_pos (- q) in if pow2 1024 \<le> v then NInf else Fin (- v)))"
proof (cases "snd (quotient_of q) = 1 \<and> 0 < q \<and> fst (quotient_of q) < 2 ^ 53")
  case True
  then have "quotient_of q = (fst (quotient_of q), 1)" by (metis prod.collapse)
  from quotient_of_div [OF this] have q: "q = of_int (fst (quotient_of q))" by simp
  let ?n = "fst (quotient_of q)"
  have n: "0 < ?n" "?n < 2 ^ 53" using True q by (metis of_int_0_less_iff) (use True in simp)
  have "round_pos q = q" using round_pos_int [OF n] q by simp
  moreover have "\<not> pow2 1024 \<le> q"
  proof
    assume "pow2 1024 \<le> q"
    then have "pow2 53 \<le> q" using pow2_mono [of 53 1024] by simp
    moreover have "pow2 53 = of_int (2 ^ 53)" by (simp add: pow2_def)
    ultimately show False using n(2) q by (metis not_le of_int_le_iff)
  qed
  ultimately show ?thesis using True by (simp add: round64_def Let_def)
next
  case False
  show ?thesis unfolding if_not_P [OF False] by (rule round64_def)
qed

lemma round64_0 [simp]: "round64 0 = Fin 0"
  by (simp add: round64_def)

section \<open>Comparison\<close>

text \<open>\<open><\<close> and \<open><=\<close> are false when an operand is not a number, as in C.\<close>

instantiation cdouble :: ord
begin

fun less_cdouble :: "cdouble \<Rightarrow> cdouble \<Rightarrow> bool" where
  "less_cdouble NaN y = False"
| "less_cdouble x NaN = False"
| "less_cdouble PInf y = False"
| "less_cdouble x NInf = False"
| "less_cdouble NInf y = True"
| "less_cdouble x PInf = True"
| "less_cdouble (Fin a) (Fin b) = (a < b)"

definition less_eq_cdouble :: "cdouble \<Rightarrow> cdouble \<Rightarrow> bool" where
  "less_eq_cdouble x y = (x \<noteq> NaN \<and> y \<noteq> NaN \<and> (x < y \<or> x = y))"

instance ..

end

lemma cdouble_less_irrefl [simp]: "\<not> (x :: cdouble) < x"
  by (cases x) auto

lemma cdouble_less_trans: "(x :: cdouble) < y \<Longrightarrow> y < z \<Longrightarrow> x < z"
  by (cases x; cases y; cases z) auto

lemma cdouble_less_asym: "(x :: cdouble) < y \<Longrightarrow> \<not> y < x"
  by (cases x; cases y) auto

lemma cdouble_trichotomy: "x \<noteq> NaN \<Longrightarrow> y \<noteq> NaN \<Longrightarrow> x < y \<or> x = y \<or> y < x"
  by (cases x; cases y) auto

lemma cdouble_less_not_NaN: "(x :: cdouble) < y \<Longrightarrow> x \<noteq> NaN \<and> y \<noteq> NaN"
  by (cases x; cases y) auto

lemma cdouble_not_less_trans:
  assumes "x \<noteq> NaN" "y \<noteq> NaN" "z \<noteq> NaN" "\<not> x < y" "\<not> y < z"
  shows "\<not> x < (z :: cdouble)"
  using assms cdouble_trichotomy [of x y] cdouble_trichotomy [of y z] cdouble_trichotomy [of x z]
  by (auto dest: cdouble_less_trans)

definition isfinite :: "cdouble \<Rightarrow> bool" where
  "isfinite x \<longleftrightarrow> (case x of Fin _ \<Rightarrow> True | _ \<Rightarrow> False)"

lemma isfinite_Fin [simp]: "isfinite (Fin q)"
  by (simp add: isfinite_def)

lemma isfinite_iff: "isfinite x \<longleftrightarrow> (\<exists>q. x = Fin q)"
  by (cases x) (simp_all add: isfinite_def)

section \<open>Arithmetic\<close>

text \<open>The conversion from \<open>int\<close> and from small \<open>size_t\<close> values is exact.\<close>

definition d_of_int :: "int \<Rightarrow> cdouble" where
  "d_of_int i = Fin (of_int i)"

fun d_neg :: "cdouble \<Rightarrow> cdouble" where
  "d_neg NaN = NaN"
| "d_neg PInf = NInf"
| "d_neg NInf = PInf"
| "d_neg (Fin a) = Fin (- a)"

fun fabs :: "cdouble \<Rightarrow> cdouble" where
  "fabs NaN = NaN"
| "fabs PInf = PInf"
| "fabs NInf = PInf"
| "fabs (Fin a) = Fin \<bar>a\<bar>"

text \<open>\<open>fmax\<close> returns the other operand when one is not a number.\<close>

definition fmax :: "cdouble \<Rightarrow> cdouble \<Rightarrow> cdouble" where
  "fmax x y = (if x = NaN then y else if y = NaN then x else if x < y then y else x)"

fun d_add :: "cdouble \<Rightarrow> cdouble \<Rightarrow> cdouble" where
  "d_add (Fin a) (Fin b) = round64 (a + b)"
| "d_add NaN y = NaN"
| "d_add x NaN = NaN"
| "d_add PInf NInf = NaN"
| "d_add NInf PInf = NaN"
| "d_add PInf y = PInf"
| "d_add x PInf = PInf"
| "d_add NInf y = NInf"
| "d_add x NInf = NInf"

definition d_sub :: "cdouble \<Rightarrow> cdouble \<Rightarrow> cdouble" where
  "d_sub x y = d_add x (d_neg y)"

definition d_sign :: "cdouble \<Rightarrow> rat" where
  "d_sign x = (case x of NaN \<Rightarrow> 0 | PInf \<Rightarrow> 1 | NInf \<Rightarrow> - 1 | Fin a \<Rightarrow> sgn a)"

definition d_inf :: "rat \<Rightarrow> cdouble" where
  "d_inf s = (if s = 0 then NaN else if 0 < s then PInf else NInf)"

definition d_mul :: "cdouble \<Rightarrow> cdouble \<Rightarrow> cdouble" where
  "d_mul x y =
     (case (x, y) of
        (Fin a, Fin b) \<Rightarrow> round64 (a * b)
      | _ \<Rightarrow> if x = NaN \<or> y = NaN then NaN else d_inf (d_sign x * d_sign y))"

definition d_div :: "cdouble \<Rightarrow> cdouble \<Rightarrow> cdouble" where
  "d_div x y =
     (case (x, y) of
        (Fin a, Fin b) \<Rightarrow> if b = 0 then d_inf (sgn a) else round64 (a / b)
      | (Fin a, NaN) \<Rightarrow> NaN
      | (Fin a, _) \<Rightarrow> Fin 0
      | (NaN, _) \<Rightarrow> NaN
      | (_, Fin b) \<Rightarrow> if b = 0 then x else d_inf (d_sign x * sgn b)
      | _ \<Rightarrow> NaN)"

text \<open>The sign of a rounded value is that of the exact one.\<close>

lemma round64_nonneg: "0 \<le> q \<Longrightarrow> \<not> round64 q < Fin 0 \<and> round64 q \<noteq> NaN"
  using round_pos_nonneg [of q] by (auto simp: round64_def Let_def)

lemma round64_nonpos: "q \<le> 0 \<Longrightarrow> \<not> Fin 0 < round64 q \<and> round64 q \<noteq> NaN"
  using round_pos_nonneg [of "- q"] by (auto simp: round64_def Let_def)

lemma round64_not_NaN [simp]: "round64 q \<noteq> NaN"
  by (simp add: round64_def Let_def)

text \<open>A difference of finite values that is not positive stays so through scaling.\<close>

lemma d_sub_nonpos: "isfinite x \<Longrightarrow> isfinite y \<Longrightarrow> \<not> y < x \<Longrightarrow> \<not> Fin 0 < d_sub x y \<and> d_sub x y \<noteq> NaN"
  by (cases x; cases y) (auto simp: d_sub_def isfinite_def round64_nonpos)

lemma d_div_nonpos:
  "\<not> Fin 0 < x \<Longrightarrow> x \<noteq> NaN \<Longrightarrow> 1 \<le> b \<Longrightarrow> \<not> Fin 0 < d_div x (Fin b) \<and> d_div x (Fin b) \<noteq> NaN"
  by (cases x) (auto simp: d_div_def d_inf_def d_sign_def divide_nonpos_nonneg
      intro!: round64_nonpos [THEN conjunct1])

lemma d_mul_nonpos:
  "\<not> Fin 0 < x \<Longrightarrow> x \<noteq> NaN \<Longrightarrow> 0 < b \<Longrightarrow> \<not> Fin 0 < d_mul x (Fin b) \<and> d_mul x (Fin b) \<noteq> NaN"
  by (cases x) (auto simp: d_mul_def d_inf_def d_sign_def mult_nonpos_nonneg
      intro!: round64_nonpos [THEN conjunct1])

lemma fmax_fabs_1: "isfinite x \<Longrightarrow> \<exists>b\<ge>1. fmax (fabs x) (Fin 1) = Fin b"
  by (cases x) (auto simp: fmax_def isfinite_def not_less)

end
