(* ===== verification/EnTypes.thy ===== *)
theory EnTypes
  imports CLib CDouble
begin

text \<open>
  The data model, from \<open>include/eventnet/types.h\<close>. An array with its count becomes a list
  whose length is the count, so a count above the capacity is a longer list and the code's
  capacity checks compare lengths. An identifier buffer of \<open>EN_MAX_ID_LEN\<close> bytes is a string;
  that it fits is an invariant where it matters, never a type. \<open>int\<close>, \<open>size_t\<close> and
  \<open>long long\<close> are \<open>int\<close> and \<open>nat\<close>, with bounds where the code checks or relies on them,
  and \<open>double\<close> is \<open>cdouble\<close>. Field names carry a prefix per struct, since C keeps
  one name space per struct and HOL one per theory.
\<close>

section \<open>Capacities\<close>

abbreviation EN_MAX_ID_LEN :: nat where "EN_MAX_ID_LEN \<equiv> 64"
abbreviation EN_MAX_ENDPOINTS :: nat where "EN_MAX_ENDPOINTS \<equiv> 8"
abbreviation EN_MAX_CAPABILITIES :: nat where "EN_MAX_CAPABILITIES \<equiv> 8"
abbreviation EN_MAX_NODES :: nat where "EN_MAX_NODES \<equiv> 16"
abbreviation EN_MAX_PATHS :: nat where "EN_MAX_PATHS \<equiv> 16"
abbreviation EN_MAX_SEGMENTS :: nat where "EN_MAX_SEGMENTS \<equiv> 8"
abbreviation EN_MAX_TUNNELS :: nat where "EN_MAX_TUNNELS \<equiv> 32"
abbreviation EN_MAX_CANDIDATES :: nat where "EN_MAX_CANDIDATES \<equiv> 16"
abbreviation EN_MAX_EVENTS :: nat where "EN_MAX_EVENTS \<equiv> 256"
abbreviation EN_MAX_ERRORS :: nat where "EN_MAX_ERRORS \<equiv> 64"
abbreviation EN_MAX_WAYPOINTS :: nat where "EN_MAX_WAYPOINTS \<equiv> 8"
abbreviation EN_MAX_COMPARISONS :: nat where "EN_MAX_COMPARISONS \<equiv> 8"
abbreviation EN_MAX_VPP_EDGES :: nat where "EN_MAX_VPP_EDGES \<equiv> 16"
abbreviation EN_MAX_ALLOWED_VLANS :: nat where "EN_MAX_ALLOWED_VLANS \<equiv> 32"
abbreviation EN_MAX_ROUTES :: nat where "EN_MAX_ROUTES \<equiv> 16"
abbreviation EN_MAX_TRAFFIC_KEY_LEN :: nat where "EN_MAX_TRAFFIC_KEY_LEN \<equiv> 152"

section \<open>Enumerations\<close>

datatype en_admin_state = EN_ADMIN_ENABLED | EN_ADMIN_DISABLED

datatype en_tunnel_state =
    EN_TUNNEL_ABSENT | EN_TUNNEL_CONFIGURED | EN_TUNNEL_ESTABLISHING | EN_TUNNEL_ESTABLISHED
  | EN_TUNNEL_REKEYING | EN_TUNNEL_DEGRADED | EN_TUNNEL_FAILED | EN_TUNNEL_DELETING
  | EN_TUNNEL_UNKNOWN

datatype en_path_state =
    EN_PATH_UNAVAILABLE | EN_PATH_PREPARING | EN_PATH_READY | EN_PATH_ACTIVE | EN_PATH_STANDBY
  | EN_PATH_DEGRADED | EN_PATH_FAILED | EN_PATH_DRAINING | EN_PATH_UNKNOWN

datatype en_health_state =
    EN_HEALTH_UNKNOWN | EN_HEALTH_HEALTHY | EN_HEALTH_DEGRADED | EN_HEALTH_UNHEALTHY
  | EN_HEALTH_FAILED

datatype en_transition_state =
    EN_TRANSITION_IDLE | EN_TRANSITION_CANDIDATE_SELECTED | EN_TRANSITION_PREPARING
  | EN_TRANSITION_VALIDATING | EN_TRANSITION_READY | EN_TRANSITION_PAUSING
  | EN_TRANSITION_DRAINING | EN_TRANSITION_SWITCHING | EN_TRANSITION_VERIFYING
  | EN_TRANSITION_COMPLETED | EN_TRANSITION_ROLLING_BACK | EN_TRANSITION_FAILED

datatype en_error_code =
    EN_ERR_NONE | EN_ERR_TUNNEL_ESTABLISH_TIMEOUT | EN_ERR_PATH_VALIDATION_FAILED
  | EN_ERR_FORWARDING_UPDATE_FAILED | EN_ERR_STATE_CONFLICT | EN_ERR_ROLLBACK_FAILED
  | EN_ERR_OBSERVATION_TIMEOUT | EN_ERR_INVALID_ARGUMENT | EN_ERR_NOT_FOUND
  | EN_ERR_NO_CANDIDATE

datatype en_path_selection_mode = EN_SELECT_EXPLICIT | EN_SELECT_PRIORITY | EN_SELECT_EVALUATED

datatype en_transition_strategy =
    EN_TRANSITION_IMMEDIATE | EN_TRANSITION_GRACEFUL | EN_TRANSITION_FLOW_PRESERVE

datatype en_comparison_key =
    EN_COMPARE_PACKET_LOSS | EN_COMPARE_LATENCY | EN_COMPARE_HOP_COUNT
  | EN_COMPARE_ADMIN_PRIORITY | EN_COMPARE_PATH_ID

section \<open>Structures\<close>

record en_node =
  nd_node_id :: string
  nd_role :: string
  nd_endpoints :: "string list"
  nd_capabilities :: "string list"
  nd_administrative_state :: en_admin_state

record en_tunnel =
  tn_tunnel_id :: string
  tn_tunnel_type :: string
  tn_local_node :: string
  tn_remote_node :: string
  tn_local_endpoint :: string
  tn_remote_endpoint :: string
  tn_local_id :: string
  tn_remote_id :: string
  tn_psk :: string
  tn_auth_method :: string
  tn_local_cert :: string
  tn_remote_cacerts :: string
  tn_local_traffic_selector :: string
  tn_remote_traffic_selector :: string
  tn_gre_interface :: string
  tn_gre_outer_local_endpoint :: string
  tn_gre_outer_remote_endpoint :: string
  tn_gre_local_address :: string
  tn_gre_remote_address :: string
  tn_gre_instance :: int
  tn_gre_mtu :: int
  tn_vpp_local_sa_id :: int
  tn_vpp_remote_sa_id :: int
  tn_vpp_local_spi :: int
  tn_vpp_remote_spi :: int
  tn_vpp_crypto_algorithm :: string
  tn_vpp_crypto_key :: string
  tn_vpp_integrity_algorithm :: string
  tn_vpp_integrity_key :: string
  tn_protocol :: string
  tn_state :: en_tunnel_state
  tn_health :: en_health_state

record en_segment =
  sg_segment_id :: string
  sg_from_node :: string
  sg_to_node :: string
  sg_tunnel_id :: string

record en_route =
  rt_route_id :: string
  rt_node_id :: string
  rt_destination_prefix :: string
  rt_next_hop :: string
  rt_interface_name :: string
  rt_table_id :: int
  rt_metric :: int

record en_path =
  pt_path_id :: string
  pt_source :: string
  pt_destination :: string
  pt_route_destination_prefix :: string
  pt_route_next_hop :: string
  pt_egress_tunnel_id :: string
  pt_waypoints :: "string list"
  pt_routes :: "en_route list"
  pt_routes_explicit :: bool
  pt_segments :: "en_segment list"
  pt_priority :: int
  pt_administrative_state :: en_admin_state
  pt_operational_state :: en_path_state

record en_traffic_selector =
  ts_source :: string
  ts_destination :: string
  ts_has_vlan_id :: bool
  ts_vlan_id :: int

record en_path_constraints =
  pc_has_max_rtt_ms :: bool
  pc_max_rtt_ms :: cdouble
  pc_has_max_packet_loss_percent :: bool
  pc_max_packet_loss_percent :: cdouble
  pc_has_hysteresis_percent :: bool
  pc_hysteresis_percent :: cdouble
  pc_failure_threshold :: int
  pc_recovery_threshold :: int
  pc_hold_down_ms :: int
  pc_forbidden_waypoints :: "string list"
  pc_required_waypoints :: "string list"
  pc_required_capabilities :: "string list"

record en_path_selection =
  ps_mode :: en_path_selection_mode
  ps_path_id :: string
  ps_candidates :: "string list"
  ps_constraints :: en_path_constraints
  ps_comparison_order :: "en_comparison_key list"

record en_transition_policy =
  tp_strategy :: en_transition_strategy
  tp_max_pause_ms :: int
  tp_drain_timeout_ms :: int
  tp_timeout_ms :: int
  tp_retry_count :: int
  tp_retry_backoff_ms :: int

record en_fallback_policy =
  fp_enabled :: bool
  fp_path_id :: string

record en_intent =
  it_intent_id :: string
  it_traffic :: en_traffic_selector
  it_block_non_ipsec :: bool
  it_deny_unmatched_vlan :: bool
  it_path_selection :: en_path_selection
  it_transition :: en_transition_policy
  it_fallback :: en_fallback_policy

record en_vpp_edge =
  ve_node_id :: string
  ve_port_id :: string
  ve_host_interface :: string
  ve_vpp_interface :: string
  ve_namespace_interface :: string
  ve_namespace_address :: string
  ve_vpp_address :: string
  ve_vpp_socket :: string
  ve_next_hop :: string
  ve_allowed_vlans :: "int list"

record en_path_health =
  ph_path_id :: string
  ph_source_node :: string
  ph_target :: string
  ph_sequence :: int
  ph_state :: en_health_state
  ph_rtt_ms :: cdouble
  ph_packet_loss_percent :: cdouble
  ph_jitter_ms :: cdouble
  ph_consecutive_failures :: int
  ph_consecutive_successes :: int
  ph_has_table_id :: bool
  ph_table_id :: int
  ph_observed_destination_prefix :: string
  ph_observed_next_hop :: string
  ph_observed_tunnel_id :: string
  ph_observed_interface_name :: string
  ph_has_route_observation :: bool
  ph_has_interface_observation :: bool
  ph_route_state :: en_health_state
  ph_interface_state :: en_health_state
  ph_last_updated_ms :: int

record en_audit_event =
  au_event_type :: string
  au_message :: string
  au_ref_id :: string
  au_timestamp_ms :: int

record en_error =
  er_code :: en_error_code
  er_message :: string

record en_selection_result =
  sr_selected_path :: string
  sr_candidates :: "string list"
  sr_excluded_path_ids :: "string list"
  sr_excluded_reasons :: "string list"
  sr_reason :: string

record en_reconcile_result =
  rr_intent_id :: string
  rr_selected_path :: string
  rr_transition_state :: en_transition_state
  rr_explanation :: en_selection_result

section \<open>Zero-initialised values\<close>

text \<open>\<open>T x = {0}\<close> and \<open>memset(&x, 0, sizeof x)\<close>.\<close>

definition zero_tunnel :: en_tunnel where
  "zero_tunnel = \<lparr>tn_tunnel_id = [], tn_tunnel_type = [], tn_local_node = [], tn_remote_node = [],
     tn_local_endpoint = [], tn_remote_endpoint = [], tn_local_id = [], tn_remote_id = [],
     tn_psk = [], tn_auth_method = [], tn_local_cert = [], tn_remote_cacerts = [],
     tn_local_traffic_selector = [], tn_remote_traffic_selector = [], tn_gre_interface = [],
     tn_gre_outer_local_endpoint = [], tn_gre_outer_remote_endpoint = [],
     tn_gre_local_address = [], tn_gre_remote_address = [], tn_gre_instance = 0, tn_gre_mtu = 0,
     tn_vpp_local_sa_id = 0, tn_vpp_remote_sa_id = 0, tn_vpp_local_spi = 0,
     tn_vpp_remote_spi = 0, tn_vpp_crypto_algorithm = [], tn_vpp_crypto_key = [],
     tn_vpp_integrity_algorithm = [], tn_vpp_integrity_key = [], tn_protocol = [],
     tn_state = EN_TUNNEL_ABSENT, tn_health = EN_HEALTH_UNKNOWN\<rparr>"

definition zero_route :: en_route where
  "zero_route = \<lparr>rt_route_id = [], rt_node_id = [], rt_destination_prefix = [], rt_next_hop = [],
     rt_interface_name = [], rt_table_id = 0, rt_metric = 0\<rparr>"

definition zero_segment :: en_segment where
  "zero_segment = \<lparr>sg_segment_id = [], sg_from_node = [], sg_to_node = [], sg_tunnel_id = []\<rparr>"

definition zero_path :: en_path where
  "zero_path = \<lparr>pt_path_id = [], pt_source = [], pt_destination = [],
     pt_route_destination_prefix = [], pt_route_next_hop = [], pt_egress_tunnel_id = [],
     pt_waypoints = [], pt_routes = [], pt_routes_explicit = False, pt_segments = [],
     pt_priority = 0, pt_administrative_state = EN_ADMIN_ENABLED,
     pt_operational_state = EN_PATH_UNAVAILABLE\<rparr>"

definition zero_health :: en_path_health where
  "zero_health = \<lparr>ph_path_id = [], ph_source_node = [], ph_target = [], ph_sequence = 0,
     ph_state = EN_HEALTH_UNKNOWN, ph_rtt_ms = Fin 0, ph_packet_loss_percent = Fin 0,
     ph_jitter_ms = Fin 0, ph_consecutive_failures = 0, ph_consecutive_successes = 0,
     ph_has_table_id = False, ph_table_id = 0, ph_observed_destination_prefix = [],
     ph_observed_next_hop = [], ph_observed_tunnel_id = [], ph_observed_interface_name = [],
     ph_has_route_observation = False, ph_has_interface_observation = False,
     ph_route_state = EN_HEALTH_UNKNOWN, ph_interface_state = EN_HEALTH_UNKNOWN,
     ph_last_updated_ms = 0\<rparr>"

definition zero_selection_result :: en_selection_result where
  "zero_selection_result = \<lparr>sr_selected_path = [], sr_candidates = [],
     sr_excluded_path_ids = [], sr_excluded_reasons = [], sr_reason = []\<rparr>"

definition zero_reconcile_result :: en_reconcile_result where
  "zero_reconcile_result = \<lparr>rr_intent_id = [], rr_selected_path = [],
     rr_transition_state = EN_TRANSITION_IDLE, rr_explanation = zero_selection_result\<rparr>"

definition zero_constraints :: en_path_constraints where
  "zero_constraints = \<lparr>pc_has_max_rtt_ms = False, pc_max_rtt_ms = Fin 0,
     pc_has_max_packet_loss_percent = False, pc_max_packet_loss_percent = Fin 0,
     pc_has_hysteresis_percent = False, pc_hysteresis_percent = Fin 0,
     pc_failure_threshold = 0, pc_recovery_threshold = 0, pc_hold_down_ms = 0,
     pc_forbidden_waypoints = [], pc_required_waypoints = [], pc_required_capabilities = []\<rparr>"

definition zero_intent :: en_intent where
  "zero_intent = \<lparr>it_intent_id = [],
     it_traffic = \<lparr>ts_source = [], ts_destination = [], ts_has_vlan_id = False, ts_vlan_id = 0\<rparr>,
     it_block_non_ipsec = False, it_deny_unmatched_vlan = False,
     it_path_selection = \<lparr>ps_mode = EN_SELECT_EXPLICIT, ps_path_id = [], ps_candidates = [],
       ps_constraints = zero_constraints, ps_comparison_order = []\<rparr>,
     it_transition = \<lparr>tp_strategy = EN_TRANSITION_IMMEDIATE, tp_max_pause_ms = 0,
       tp_drain_timeout_ms = 0, tp_timeout_ms = 0, tp_retry_count = 0, tp_retry_backoff_ms = 0\<rparr>,
     it_fallback = \<lparr>fp_enabled = False, fp_path_id = []\<rparr>\<rparr>"

lemmas zero_defs = zero_tunnel_def zero_route_def zero_segment_def zero_path_def zero_health_def
  zero_selection_result_def zero_reconcile_result_def zero_constraints_def zero_intent_def

section \<open>Copies, comparison and capacity checks\<close>

text \<open>
  \<open>en_copy_id\<close>, \<open>en_streq\<close>, \<open>en_path_hop_count\<close> and the three validity checks of
  \<open>src/state.c\<close>. A \<open>NULL\<close> source copies as the empty string, and a \<open>NULL\<close> operand makes
  \<open>en_streq\<close> false, even against another \<open>NULL\<close>.
\<close>

definition en_copy_id :: "nat \<Rightarrow> string option \<Rightarrow> string" where
  "en_copy_id n src = (case src of None \<Rightarrow> [] | Some s \<Rightarrow> take (n - 1) s)"

definition en_streq :: "string option \<Rightarrow> string option \<Rightarrow> bool" where
  "en_streq left right =
     (case (left, right) of (Some l, Some r) \<Rightarrow> strcmp l r = 0 | _ \<Rightarrow> False)"

definition en_path_hop_count :: "en_path \<Rightarrow> nat" where
  "en_path_hop_count p = length (pt_waypoints p) + 1"

definition en_path_counts_valid :: "en_path \<Rightarrow> bool" where
  "en_path_counts_valid p \<longleftrightarrow>
     length (pt_waypoints p) \<le> EN_MAX_WAYPOINTS \<and>
     length (pt_segments p) \<le> EN_MAX_SEGMENTS \<and>
     length (pt_routes p) \<le> EN_MAX_ROUTES"

definition en_intent_counts_valid :: "en_intent \<Rightarrow> bool" where
  "en_intent_counts_valid i \<longleftrightarrow>
     (let s = it_path_selection i; c = ps_constraints s
      in length (ps_candidates s) \<le> EN_MAX_CANDIDATES \<and>
         length (ps_comparison_order s) \<le> EN_MAX_COMPARISONS \<and>
         length (pc_forbidden_waypoints c) \<le> EN_MAX_WAYPOINTS \<and>
         length (pc_required_waypoints c) \<le> EN_MAX_WAYPOINTS \<and>
         length (pc_required_capabilities c) \<le> EN_MAX_CAPABILITIES)"

definition en_transition_policy_valid :: "en_transition_policy \<Rightarrow> bool" where
  "en_transition_policy_valid p \<longleftrightarrow>
     0 \<le> tp_retry_count p \<and> 0 \<le> tp_retry_backoff_ms p \<and> 0 \<le> tp_max_pause_ms p \<and>
     0 \<le> tp_drain_timeout_ms p \<and> 0 \<le> tp_timeout_ms p"

lemma en_streq_Some [simp]: "en_streq (Some l) (Some r) \<longleftrightarrow> l = r"
  by (simp add: en_streq_def)

lemma en_streq_None [simp]: "\<not> en_streq None x" "\<not> en_streq x None"
  by (simp_all add: en_streq_def split: option.splits)

lemma en_streq_iff: "en_streq x (Some r) \<longleftrightarrow> x = Some r"
  by (cases x) auto

lemma en_copy_id_None [simp]: "en_copy_id n None = []"
  by (simp add: en_copy_id_def)

lemma en_copy_id_fits [cap_simps]: "length s < n \<Longrightarrow> en_copy_id n (Some s) = s"
  by (simp add: en_copy_id_def)

lemma en_copy_id_length [cap_simps]: "0 < n \<Longrightarrow> length (en_copy_id n s) < n"
  by (auto simp: en_copy_id_def min_def split: option.splits)

section \<open>Names of states and codes\<close>

fun en_health_state_name :: "en_health_state \<Rightarrow> string" where
  "en_health_state_name EN_HEALTH_UNKNOWN = ''unknown''"
| "en_health_state_name EN_HEALTH_HEALTHY = ''healthy''"
| "en_health_state_name EN_HEALTH_DEGRADED = ''degraded''"
| "en_health_state_name EN_HEALTH_UNHEALTHY = ''unhealthy''"
| "en_health_state_name EN_HEALTH_FAILED = ''failed''"

fun en_transition_state_name :: "en_transition_state \<Rightarrow> string" where
  "en_transition_state_name EN_TRANSITION_IDLE = ''idle''"
| "en_transition_state_name EN_TRANSITION_CANDIDATE_SELECTED = ''candidate_selected''"
| "en_transition_state_name EN_TRANSITION_PREPARING = ''preparing''"
| "en_transition_state_name EN_TRANSITION_VALIDATING = ''validating''"
| "en_transition_state_name EN_TRANSITION_READY = ''ready''"
| "en_transition_state_name EN_TRANSITION_PAUSING = ''pausing''"
| "en_transition_state_name EN_TRANSITION_DRAINING = ''draining''"
| "en_transition_state_name EN_TRANSITION_SWITCHING = ''switching''"
| "en_transition_state_name EN_TRANSITION_VERIFYING = ''verifying''"
| "en_transition_state_name EN_TRANSITION_COMPLETED = ''completed''"
| "en_transition_state_name EN_TRANSITION_ROLLING_BACK = ''rolling_back''"
| "en_transition_state_name EN_TRANSITION_FAILED = ''failed''"

fun en_error_code_name :: "en_error_code \<Rightarrow> string" where
  "en_error_code_name EN_ERR_NONE = ''none''"
| "en_error_code_name EN_ERR_TUNNEL_ESTABLISH_TIMEOUT = ''tunnel_establish_timeout''"
| "en_error_code_name EN_ERR_PATH_VALIDATION_FAILED = ''path_validation_failed''"
| "en_error_code_name EN_ERR_FORWARDING_UPDATE_FAILED = ''forwarding_update_failed''"
| "en_error_code_name EN_ERR_STATE_CONFLICT = ''state_conflict''"
| "en_error_code_name EN_ERR_ROLLBACK_FAILED = ''rollback_failed''"
| "en_error_code_name EN_ERR_OBSERVATION_TIMEOUT = ''observation_timeout''"
| "en_error_code_name EN_ERR_INVALID_ARGUMENT = ''invalid_argument''"
| "en_error_code_name EN_ERR_NOT_FOUND = ''not_found''"
| "en_error_code_name EN_ERR_NO_CANDIDATE = ''no_candidate''"

lemma en_health_state_name_inj: "en_health_state_name a = en_health_state_name b \<Longrightarrow> a = b"
  by (cases a; cases b) simp_all

lemma en_error_code_name_inj: "en_error_code_name a = en_error_code_name b \<Longrightarrow> a = b"
  by (cases a; cases b) simp_all

section \<open>The traffic key\<close>

text \<open>
  \<open>en_make_traffic_key\<close> of \<open>src/state.c\<close>: the key under which the controller and the
  forwarding adapters remember the path of a traffic selector.
\<close>

definition en_make_traffic_key :: "en_traffic_selector \<Rightarrow> nat \<Rightarrow> string" where
  "en_make_traffic_key t buf_len =
     (if ts_has_vlan_id t
      then fit buf_len (ts_source t @ ''->'' @ ts_destination t @ ''|vlan='' @ int_to_dec (ts_vlan_id t))
      else fit buf_len (ts_source t @ ''->'' @ ts_destination t))"

text \<open>A selector as the code stores it: identifiers in their buffers, the VLAN a C \<open>int\<close>.\<close>

definition wf_selector :: "en_traffic_selector \<Rightarrow> bool" where
  "wf_selector t \<longleftrightarrow> length (ts_source t) < EN_MAX_ID_LEN \<and>
     length (ts_destination t) < EN_MAX_ID_LEN \<and> int32 (ts_vlan_id t)"

text \<open>The buffer of \<open>EN_MAX_TRAFFIC_KEY_LEN\<close> bytes never truncates the key.\<close>

lemma en_make_traffic_key_full:
  assumes "wf_selector t"
  shows "en_make_traffic_key t EN_MAX_TRAFFIC_KEY_LEN =
    ts_source t @ ''->'' @ ts_destination t @
    (if ts_has_vlan_id t then ''|vlan='' @ int_to_dec (ts_vlan_id t) else [])"
proof -
  have "length (int_to_dec (ts_vlan_id t)) \<le> 11"
    using assms by (simp add: wf_selector_def int_to_dec_length)
  with assms show ?thesis
    by (simp add: en_make_traffic_key_def wf_selector_def fit_id)
qed

lemma append_sep_inj:
  "c \<notin> set a \<Longrightarrow> c \<notin> set b \<Longrightarrow> a @ c # x = b @ c # y \<longleftrightarrow> a = b \<and> x = y"
  by (induction a arbitrary: b) (case_tac b; auto)+

end
