(* ===== verification/EnState.thy ===== *)
theory EnState
  imports EnTypes "HOL-Library.Sublist"
begin

text \<open>
  The controller's state and its primitive operations: \<open>src/internal.h\<close>, \<open>src/state.c\<close>,
  \<open>src/audit.c\<close> and the adapter interfaces of \<open>include/eventnet/controller.h\<close>.

  A \<open>machine\<close> is the controller object together with everything outside it: the clock and
  whatever the adapters' \<open>ctx\<close> pointers lead to. A callback is an action on the outside
  part; a function pointer the code compares with \<open>NULL\<close> is an \<open>option\<close>.
\<close>

section \<open>The outside world\<close>

text \<open>
  \<open>clock n\<close> is what the \<open>n\<close>-th call of \<open>en_now_ms\<close> reads: any sequence, also one that runs
  backwards. \<open>slept\<close> lists the arguments of the sleeps, the latest first. \<open>dev\<close> is the
  adapters' own state, of any type.
\<close>

record 'w world =
  clock :: "nat \<Rightarrow> int"
  ticks :: nat
  slept :: "int list"
  dev :: 'w

type_synonym ('w, 'a) world_act = "('w world, 'a) state"

definition en_now_ms :: "('w, int) world_act" where
  "en_now_ms = State (\<lambda>w. (clock w (ticks w), w\<lparr>ticks := Suc (ticks w)\<rparr>))"

definition sleep_ms :: "int \<Rightarrow> ('w, unit) world_act" where
  "sleep_ms ms = (if ms \<le> 0 then skip else modify (\<lambda>w. w\<lparr>slept := ms # slept w\<rparr>))"

lemma run_en_now_ms [simp, run_simps]:
  "run_state en_now_ms w = (clock w (ticks w), w\<lparr>ticks := Suc (ticks w)\<rparr>)"
  by (simp add: en_now_ms_def)

text \<open>An action on the adapters' own state alone.\<close>

definition on_dev :: "('w, 'a) state \<Rightarrow> ('w, 'a) world_act" where
  "on_dev m = State (\<lambda>w. case run_state m (dev w) of (a, d) \<Rightarrow> (a, w\<lparr>dev := d\<rparr>))"

section \<open>Adapters\<close>

text \<open>
  The callbacks. \<open>ensure_tunnel\<close> and \<open>remove_tunnel\<close> get the initial contents of their out
  parameter \<open>observed\<close> and return its final contents, like \<open>validate_path\<close> for \<open>health\<close>.
  The code calls \<open>ensure_tunnel\<close> without a \<open>NULL\<close> check, so the model takes it as present.
\<close>

record 'w en_strongswan_adapter =
  ensure_tunnel :: "en_tunnel \<Rightarrow> en_tunnel \<Rightarrow> ('w, en_error_code \<times> en_tunnel) world_act"
  remove_tunnel :: "(en_tunnel \<Rightarrow> en_tunnel \<Rightarrow> ('w, en_error_code \<times> en_tunnel) world_act) option"

record 'w en_vpp_adapter =
  install_path :: "(string \<Rightarrow> en_path \<Rightarrow> ('w, en_error_code) world_act) option"
  remove_path :: "(string \<Rightarrow> en_path \<Rightarrow> ('w, en_error_code) world_act) option"
  active_path :: "(string \<Rightarrow> ('w, string option) world_act) option"

record 'w en_health_probe =
  validate_path :: "(en_path \<Rightarrow> en_path_health \<Rightarrow> ('w, en_error_code \<times> en_path_health) world_act) option"

section \<open>The controller\<close>

text \<open>
  The parallel arrays \<open>traffic_keys\<close>, \<open>applied_paths\<close> and \<open>applied_since_ms\<close> share the count
  \<open>applied_count\<close> and are written together: one list of entries.
\<close>

record applied_entry =
  ae_traffic_key :: string
  ae_applied_path :: string
  ae_applied_since_ms :: int

record en_controller_state =
  nodes :: "en_node list"
  paths :: "en_path list"
  intents :: "en_intent list"
  desired_tunnels :: "en_tunnel list"
  observed_tunnels :: "en_tunnel list"
  health :: "en_path_health list"
  applied :: "applied_entry list"
  transition_state :: en_transition_state
  errors :: "en_error list"

record 'w en_controller =
  cstate :: en_controller_state
  audit_events :: "en_audit_event list"
  strongswan :: "'w en_strongswan_adapter"
  vpp :: "'w en_vpp_adapter"
  health_probe :: "'w en_health_probe"

record 'w machine =
  ctl :: "'w en_controller"
  world :: "'w world"

type_synonym ('w, 'a) act = "('w machine, 'a) state"

definition on_world :: "('w, 'a) world_act \<Rightarrow> ('w, 'a) act" where
  "on_world m = State (\<lambda>s. case run_state m (world s) of (a, w) \<Rightarrow> (a, s\<lparr>world := w\<rparr>))"

text \<open>The controller's state record inside the machine.\<close>

definition st :: "'w machine \<Rightarrow> en_controller_state" where
  "st s = cstate (ctl s)"

definition upd_st :: "(en_controller_state \<Rightarrow> en_controller_state) \<Rightarrow> 'w machine \<Rightarrow> 'w machine" where
  "upd_st f s = s\<lparr>ctl := (ctl s)\<lparr>cstate := f (cstate (ctl s))\<rparr>\<rparr>"

lemma st_upd_st [simp]: "st (upd_st f s) = f (st s)"
  by (simp add: st_def upd_st_def)

lemma world_upd_st [simp]: "world (upd_st f s) = world s"
  by (simp add: upd_st_def)

lemma ctl_upd_st [simp]:
  "audit_events (ctl (upd_st f s)) = audit_events (ctl s)"
  "strongswan (ctl (upd_st f s)) = strongswan (ctl s)"
  "vpp (ctl (upd_st f s)) = vpp (ctl s)"
  "health_probe (ctl (upd_st f s)) = health_probe (ctl s)"
  by (simp_all add: upd_st_def)

lemma st_world [simp]: "st (s\<lparr>world := w\<rparr>) = st s"
  by (simp add: st_def)

lemma st_audit [simp]: "st (s\<lparr>ctl := c\<lparr>audit_events := e\<rparr>\<rparr>) = cstate c"
  by (simp add: st_def)

lemma run_on_world [run_simps]:
  "run_state (on_world m) s =
   (fst (run_state m (world s)), s\<lparr>world := snd (run_state m (world s))\<rparr>)"
  by (simp add: on_world_def split: prod.splits)

definition set_transition_state :: "en_transition_state \<Rightarrow> ('w, unit) act" where
  "set_transition_state t = modify (upd_st (\<lambda>c. c\<lparr>transition_state := t\<rparr>))"

section \<open>Audit log and error list\<close>

definition en_audit_append :: "string \<Rightarrow> string \<Rightarrow> string option \<Rightarrow> ('w, unit) act" where
  "en_audit_append event_type message ref_id = do {
     n \<leftarrow> gets (\<lambda>s. length (audit_events (ctl s)));
     if EN_MAX_EVENTS \<le> n then skip
     else do {
       now \<leftarrow> on_world en_now_ms;
       modify (\<lambda>s. s\<lparr>ctl := (ctl s)\<lparr>audit_events := audit_events (ctl s) @
         [\<lparr>au_event_type = en_copy_id EN_MAX_ID_LEN (Some event_type),
           au_message = fit 128 message,
           au_ref_id = en_copy_id EN_MAX_ID_LEN ref_id,
           au_timestamp_ms = now\<rparr>]\<rparr>\<rparr>)
     }
   }"

definition en_error_append :: "en_error_code \<Rightarrow> string \<Rightarrow> ('w, unit) act" where
  "en_error_append err message =
     modify (upd_st (\<lambda>c. if EN_MAX_ERRORS \<le> length (errors c) then c
       else c\<lparr>errors := errors c @ [\<lparr>er_code = err, er_message = fit 128 message\<rparr>]\<rparr>))"

definition en_controller_audit_events :: "'w machine \<Rightarrow> en_audit_event list" where
  "en_controller_audit_events s = audit_events (ctl s)"

definition en_controller_errors :: "'w machine \<Rightarrow> en_error list" where
  "en_controller_errors s = errors (st s)"

section \<open>Lookups\<close>

text \<open>
  The lookups return the index of the first entry with the wanted identifier, where the C
  code returns a pointer to it. Two pointers into one array are equal iff the indices are.
\<close>

definition en_find_path :: "en_controller_state \<Rightarrow> string option \<Rightarrow> nat option" where
  "en_find_path c path_id = find_index (\<lambda>p. en_streq (Some (pt_path_id p)) path_id) (paths c)"

definition en_find_health :: "en_controller_state \<Rightarrow> string option \<Rightarrow> nat option" where
  "en_find_health c path_id = find_index (\<lambda>h. en_streq (Some (ph_path_id h)) path_id) (health c)"

definition en_find_tunnel :: "en_controller_state \<Rightarrow> string option \<Rightarrow> nat option" where
  "en_find_tunnel c tunnel_id =
     find_index (\<lambda>t. en_streq (Some (tn_tunnel_id t)) tunnel_id) (observed_tunnels c)"

definition en_find_desired_tunnel :: "en_controller_state \<Rightarrow> string option \<Rightarrow> en_tunnel option" where
  "en_find_desired_tunnel c tunnel_id =
     find (\<lambda>t. en_streq (Some (tn_tunnel_id t)) tunnel_id) (desired_tunnels c)"

definition en_find_node :: "en_controller_state \<Rightarrow> string option \<Rightarrow> en_node option" where
  "en_find_node c node_id = find (\<lambda>n. en_streq (Some (nd_node_id n)) node_id) (nodes c)"

definition health_of :: "en_controller_state \<Rightarrow> string option \<Rightarrow> en_path_health option" where
  "health_of c path_id = map_option (\<lambda>i. health c ! i) (en_find_health c path_id)"

definition node_enabled :: "en_controller_state \<Rightarrow> string \<Rightarrow> bool" where
  "node_enabled c node_id =
     (case en_find_node c (Some node_id) of
        None \<Rightarrow> False
      | Some n \<Rightarrow> nd_administrative_state n = EN_ADMIN_ENABLED)"

definition path_nodes_enabled :: "en_controller_state \<Rightarrow> en_path \<Rightarrow> bool" where
  "path_nodes_enabled c p \<longleftrightarrow>
     (if nodes c = [] then True
      else if \<not> (node_enabled c (pt_source p) \<and> node_enabled c (pt_destination p)) then False
      else if \<not> list_all (node_enabled c) (pt_waypoints p) then False
      else list_all (\<lambda>g. node_enabled c (sg_from_node g) \<and> node_enabled c (sg_to_node g)) (pt_segments p))"

definition en_controller_find_path :: "'w machine \<Rightarrow> string option \<Rightarrow> en_path option" where
  "en_controller_find_path s path_id =
     map_option (\<lambda>i. paths (st s) ! i) (en_find_path (st s) path_id)"

definition en_controller_path_nodes_enabled :: "'w machine \<Rightarrow> en_path \<Rightarrow> bool" where
  "en_controller_path_nodes_enabled s p = path_nodes_enabled (st s) p"

section \<open>The applied paths\<close>

definition find_applied :: "en_controller_state \<Rightarrow> string \<Rightarrow> applied_entry option" where
  "find_applied c key = find (\<lambda>e. en_streq (Some (ae_traffic_key e)) (Some key)) (applied c)"

definition en_get_applied_path :: "en_controller_state \<Rightarrow> string \<Rightarrow> string option" where
  "en_get_applied_path c key = map_option ae_applied_path (find_applied c key)"

definition en_get_applied_since_ms :: "en_controller_state \<Rightarrow> string \<Rightarrow> int" where
  "en_get_applied_since_ms c key =
     (case find_applied c key of None \<Rightarrow> 0 | Some e \<Rightarrow> ae_applied_since_ms e)"

definition en_controller_applied_path :: "'w machine \<Rightarrow> string \<Rightarrow> string option" where
  "en_controller_applied_path s key = en_get_applied_path (st s) key"

definition en_set_applied_path :: "string \<Rightarrow> string \<Rightarrow> ('w, unit) act" where
  "en_set_applied_path key path_id = do {
     hit \<leftarrow> gets (\<lambda>s. find_index (\<lambda>e. en_streq (Some (ae_traffic_key e)) (Some key)) (applied (st s)));
     case hit of
       Some i \<Rightarrow> do {
         now \<leftarrow> on_world en_now_ms;
         modify (upd_st (\<lambda>c. c\<lparr>applied := (applied c)[i := (applied c ! i)
           \<lparr>ae_applied_path := en_copy_id EN_MAX_ID_LEN (Some path_id), ae_applied_since_ms := now\<rparr>]\<rparr>))
       }
     | None \<Rightarrow> do {
         n \<leftarrow> gets (\<lambda>s. length (applied (st s)));
         if n < EN_MAX_CANDIDATES then do {
           now \<leftarrow> on_world en_now_ms;
           modify (upd_st (\<lambda>c. c\<lparr>applied := applied c @
             [\<lparr>ae_traffic_key = en_copy_id EN_MAX_TRAFFIC_KEY_LEN (Some key),
               ae_applied_path = en_copy_id EN_MAX_ID_LEN (Some path_id),
               ae_applied_since_ms = now\<rparr>]\<rparr>))
         } else skip
       }
   }"

definition set_operational_state :: "nat \<Rightarrow> en_path_state \<Rightarrow> ('w, unit) act" where
  "set_operational_state i v =
     modify (upd_st (\<lambda>c. c\<lparr>paths := (paths c)[i := (paths c ! i)\<lparr>pt_operational_state := v\<rparr>]\<rparr>))"

definition en_controller_restore_applied_path ::
  "string option \<Rightarrow> string option \<Rightarrow> ('w, en_error_code) act" where
  "en_controller_restore_applied_path key_ptr path_ptr =
     (case (key_ptr, path_ptr) of
        (Some key, Some path_id) \<Rightarrow>
          if key = [] \<or> path_id = [] then State_Monad.return EN_ERR_INVALID_ARGUMENT
          else do {
            c \<leftarrow> gets st;
            case en_find_path c (Some path_id) of
              None \<Rightarrow> State_Monad.return EN_ERR_NOT_FOUND
            | Some i \<Rightarrow>
                if pt_administrative_state (paths c ! i) \<noteq> EN_ADMIN_ENABLED \<or>
                   \<not> path_nodes_enabled c (paths c ! i)
                then State_Monad.return EN_ERR_STATE_CONFLICT
                else do {
                  _ \<leftarrow> set_operational_state i EN_PATH_ACTIVE;
                  _ \<leftarrow> en_set_applied_path key path_id;
                  State_Monad.return EN_ERR_NONE
                }
          }
      | _ \<Rightarrow> State_Monad.return EN_ERR_INVALID_ARGUMENT)"

section \<open>What the primitive operations leave alone\<close>

text \<open>
  An invariant of the controller state, lifted to machines. Everything that only reads the
  clock, appends to the audit log or calls an adapter keeps it; the other primitives keep it
  when it survives a change of the one field they write.
\<close>

abbreviation on_st :: "(en_controller_state \<Rightarrow> bool) \<Rightarrow> 'w machine \<Rightarrow> bool" where
  "on_st J \<equiv> \<lambda>s. J (st s)"

lemma st_ctl_update [simp]: "st (s\<lparr>ctl := c\<rparr>) = cstate c"
  by (simp add: st_def)

lemma preserves_on_world [wp]: "preserves (on_st J) (on_world m)"
  by (rule preservesI) (auto simp: run_on_world)

lemma cstate_ctl: "cstate (ctl s) = st s"
  by (simp add: st_def)

lemma preserves_audit [wp]: "preserves (on_st J) (en_audit_append ty msg ref)"
  unfolding en_audit_append_def by (auto intro!: wp simp: cstate_ctl)

lemma preserves_error [wp]:
  "(\<And>c e. J c \<Longrightarrow> length e \<le> EN_MAX_ERRORS \<Longrightarrow> J (c\<lparr>errors := e\<rparr>)) \<Longrightarrow>
   preserves (on_st J) (en_error_append err msg)"
  unfolding en_error_append_def by (auto intro!: wp simp: not_le)

lemma preserves_set_transition_state [wp]:
  "(\<And>c. J c \<Longrightarrow> J (c\<lparr>transition_state := t\<rparr>)) \<Longrightarrow> preserves (on_st J) (set_transition_state t)"
  unfolding set_transition_state_def by (auto intro!: wp)

lemma preserves_set_operational_state [wp]:
  "(\<And>c. J c \<Longrightarrow> J (c\<lparr>paths := (paths c)[i := (paths c ! i)\<lparr>pt_operational_state := v\<rparr>]\<rparr>)) \<Longrightarrow>
   preserves (on_st J) (set_operational_state i v)"
  unfolding set_operational_state_def by (auto intro!: wp)

text \<open>The adapters are set at creation and never change.\<close>

type_synonym 'w adapters = "'w en_strongswan_adapter \<times> 'w en_vpp_adapter \<times> 'w en_health_probe"

definition adapters :: "'w machine \<Rightarrow> 'w adapters" where
  "adapters s = (strongswan (ctl s), vpp (ctl s), health_probe (ctl s))"

text \<open>
  What the controller does to the outside world when it works for a traffic key: it reads the
  clock, sleeps, or calls one of its adapters, with that key where the callback takes one.
\<close>

inductive outside_step :: "'w adapters \<Rightarrow> string \<Rightarrow> 'w world \<Rightarrow> 'w world \<Rightarrow> bool"
  for A :: "'w adapters" and key :: string where
  clock_step: "outside_step A key w (snd (run_state en_now_ms w))"
| sleep_step: "outside_step A key w (snd (run_state (sleep_ms ms) w))"
| ensure_step: "A = (S, V, H) \<Longrightarrow> outside_step A key w (snd (run_state (ensure_tunnel S t t') w))"
| remove_tunnel_step:
    "A = (S, V, H) \<Longrightarrow> remove_tunnel S = Some f \<Longrightarrow> outside_step A key w (snd (run_state (f t t') w))"
| install_step:
    "A = (S, V, H) \<Longrightarrow> install_path V = Some f \<Longrightarrow> outside_step A key w (snd (run_state (f key p) w))"
| remove_path_step:
    "A = (S, V, H) \<Longrightarrow> remove_path V = Some f \<Longrightarrow> outside_step A key w (snd (run_state (f key p) w))"
| active_step:
    "A = (S, V, H) \<Longrightarrow> active_path V = Some f \<Longrightarrow> outside_step A key w (snd (run_state (f key) w))"
| validate_step:
    "A = (S, V, H) \<Longrightarrow> validate_path H = Some f \<Longrightarrow> outside_step A key w (snd (run_state (f p h) w))"

abbreviation has_adapters where
  "has_adapters A \<equiv> \<lambda>s. adapters s = A"

lemma adapters_simps [simp]:
  "adapters (upd_st f s) = adapters s"
  "adapters (s\<lparr>world := w\<rparr>) = adapters s"
  "adapters (s\<lparr>ctl := (ctl s)\<lparr>audit_events := e\<rparr>\<rparr>) = adapters s"
  by (simp_all add: adapters_def)

lemma adapters_on_world [wp]: "preserves (has_adapters A) (on_world m)"
  by (rule preservesI) (auto simp: run_on_world)

lemma adapters_audit [wp]: "preserves (has_adapters A) (en_audit_append ty msg ref)"
  unfolding en_audit_append_def by (auto intro!: wp)

lemma adapters_error [wp]: "preserves (has_adapters A) (en_error_append err msg)"
  unfolding en_error_append_def by (auto intro!: wp)

lemma adapters_set_transition_state [wp]: "preserves (has_adapters A) (set_transition_state t)"
  unfolding set_transition_state_def by (auto intro!: wp)

lemma adapters_set_operational_state [wp]: "preserves (has_adapters A) (set_operational_state i v)"
  unfolding set_operational_state_def by (auto intro!: wp)

lemma adapters_set_applied [wp]: "preserves (has_adapters A) (en_set_applied_path key path_id)"
  unfolding en_set_applied_path_def by (auto intro!: wp)

text \<open>
  The audit log only grows, and never beyond its capacity: \<open>log_grows es\<close> holds of every
  machine whose log starts with \<open>es\<close>.
\<close>

definition log_grows :: "en_audit_event list \<Rightarrow> 'w machine \<Rightarrow> bool" where
  "log_grows es s \<longleftrightarrow> prefix es (audit_events (ctl s)) \<and> length (audit_events (ctl s)) \<le> EN_MAX_EVENTS"

lemma log_grows_simps [simp]:
  "log_grows es (upd_st f s) = log_grows es s"
  "log_grows es (s\<lparr>world := w\<rparr>) = log_grows es s"
  by (simp_all add: log_grows_def)

lemma log_grows_audit [wp]: "preserves (log_grows es) (en_audit_append ty msg r)"
proof (rule preservesI)
  fix s :: "'w machine" and a t
  assume I: "log_grows es s" and run: "run_state (en_audit_append ty msg r) s = (a, t)"
  show "log_grows es t"
    using I run
    by (auto simp: en_audit_append_def log_grows_def run_on_world prefix_def split: if_splits)
qed

lemma log_grows_error [wp]: "preserves (log_grows es) (en_error_append err msg)"
  unfolding en_error_append_def by (auto intro!: wp)

lemma log_grows_set_transition_state [wp]: "preserves (log_grows es) (set_transition_state t)"
  unfolding set_transition_state_def by (auto intro!: wp)

lemma log_grows_set_operational_state [wp]: "preserves (log_grows es) (set_operational_state i v)"
  unfolding set_operational_state_def by (auto intro!: wp)

lemma log_grows_on_world [wp]: "preserves (log_grows es) (on_world m)"
  by (rule preservesI) (auto simp: run_on_world)

lemma log_grows_set_applied [wp]: "preserves (log_grows es) (en_set_applied_path key path_id)"
  unfolding en_set_applied_path_def by (auto intro!: wp)

section \<open>The applied paths as a map\<close>

text \<open>
  \<open>en_set_applied_path\<close> is a map update on the keys the table knows or has room for.
  A key that finds the table full is dropped without an error.
\<close>

definition applied_room :: "string \<Rightarrow> en_controller_state \<Rightarrow> bool" where
  "applied_room key c \<longleftrightarrow> find_applied c key \<noteq> None \<or> length (applied c) < EN_MAX_CANDIDATES"

definition put_applied :: "string \<Rightarrow> string \<Rightarrow> int \<Rightarrow> en_controller_state \<Rightarrow> en_controller_state" where
  "put_applied key path_id now c =
     (case find_index (\<lambda>e. ae_traffic_key e = key) (applied c) of
        Some i \<Rightarrow> c\<lparr>applied := (applied c)[i := (applied c ! i)
           \<lparr>ae_applied_path := en_copy_id EN_MAX_ID_LEN (Some path_id), ae_applied_since_ms := now\<rparr>]\<rparr>
      | None \<Rightarrow> if length (applied c) < EN_MAX_CANDIDATES
          then c\<lparr>applied := applied c @
             [\<lparr>ae_traffic_key = en_copy_id EN_MAX_TRAFFIC_KEY_LEN (Some key),
               ae_applied_path = en_copy_id EN_MAX_ID_LEN (Some path_id),
               ae_applied_since_ms = now\<rparr>]\<rparr>
          else c)"

lemma run_set_applied:
  "\<exists>now w'. run_state (en_set_applied_path key path_id) s =
     ((), upd_st (put_applied key path_id now) s\<lparr>world := w'\<rparr>)"
proof (cases "find_index (\<lambda>e. ae_traffic_key e = key) (applied (st s))")
  case None
  show ?thesis
  proof (cases "length (applied (st s)) < EN_MAX_CANDIDATES")
    case True
    with None show ?thesis
      by (intro exI [of _ "clock (world s) (ticks (world s))"]
          exI [of _ "(world s)\<lparr>ticks := Suc (ticks (world s))\<rparr>"])
        (simp add: en_set_applied_path_def run_on_world put_applied_def upd_st_def st_def)
  next
    case False
    with None show ?thesis
      by (intro exI [of _ 0] exI [of _ "world s"])
        (simp add: en_set_applied_path_def put_applied_def upd_st_def st_def)
  qed
next
  case (Some i)
  then show ?thesis
    by (intro exI [of _ "clock (world s) (ticks (world s))"]
        exI [of _ "(world s)\<lparr>ticks := Suc (ticks (world s))\<rparr>"])
      (simp add: en_set_applied_path_def run_on_world put_applied_def upd_st_def st_def)
qed

lemma preserves_set_applied [wp]:
  "(\<And>c now. J c \<Longrightarrow> J (put_applied key path_id now c)) \<Longrightarrow>
   preserves (on_st J) (en_set_applied_path key path_id)"
  by (rule preservesI) (metis run_set_applied snd_conv st_upd_st st_world)

lemma find_applied_simps: "find_applied c key = find (\<lambda>e. ae_traffic_key e = key) (applied c)"
  by (simp add: find_applied_def)

lemma find_applied_put_same:
  assumes "applied_room key c" "length key < EN_MAX_TRAFFIC_KEY_LEN"
  shows "find_applied (put_applied key path_id now c) key =
    Some \<lparr>ae_traffic_key = key, ae_applied_path = en_copy_id EN_MAX_ID_LEN (Some path_id),
          ae_applied_since_ms = now\<rparr>"
proof (cases "find_index (\<lambda>e. ae_traffic_key e = key) (applied c)")
  case None
  then have none: "find (\<lambda>e. ae_traffic_key e = key) (applied c) = None"
    by (simp add: find_None_all find_index_None)
  with assms have "length (applied c) < EN_MAX_CANDIDATES"
    by (auto simp: applied_room_def find_applied_simps)
  with None none assms show ?thesis
    by (simp add: put_applied_def find_applied_simps find_append_hit cap_simps)
next
  case (Some i)
  let ?e = "(applied c ! i)\<lparr>ae_applied_path := en_copy_id EN_MAX_ID_LEN (Some path_id),
              ae_applied_since_ms := now\<rparr>"
  have key: "ae_traffic_key (applied c ! i) = key"
    using find_index_hit [OF Some] .
  then have "find (\<lambda>e. ae_traffic_key e = key) ((applied c)[i := ?e]) = Some ?e"
    by (intro find_update [OF Some]) simp
  with Some key show ?thesis
    by (simp add: put_applied_def find_applied_simps)
qed

lemma find_applied_put_other:
  "other \<noteq> key \<Longrightarrow> length key < EN_MAX_TRAFFIC_KEY_LEN \<Longrightarrow>
   find_applied (put_applied key path_id now c) other = find_applied c other"
  by (cases "find_index (\<lambda>e. ae_traffic_key e = key) (applied c)")
    (auto simp: put_applied_def find_applied_simps find_append_hit cap_simps
      dest: find_index_hit split: option.splits intro!: find_update_other)

lemma put_applied_fields [simp]:
  "nodes (put_applied key p now c) = nodes c"
  "paths (put_applied key p now c) = paths c"
  "intents (put_applied key p now c) = intents c"
  "desired_tunnels (put_applied key p now c) = desired_tunnels c"
  "observed_tunnels (put_applied key p now c) = observed_tunnels c"
  "health (put_applied key p now c) = health c"
  "transition_state (put_applied key p now c) = transition_state c"
  "errors (put_applied key p now c) = errors c"
  by (simp_all add: put_applied_def split: option.splits)

lemma applied_room_put [simp]:
  "applied_room key c \<Longrightarrow> length key < EN_MAX_TRAFFIC_KEY_LEN \<Longrightarrow>
   applied_room key (put_applied key p now c)"
  by (simp add: applied_room_def [of key "put_applied key p now c"] find_applied_put_same)

section \<open>What an operation for one traffic key may change\<close>

text \<open>
  \<open>frame key c d\<close>: from \<open>c\<close> to \<open>d\<close> the configuration is the same, the paths differ at most in
  their operational states, and every other traffic key has the applied path it had.
\<close>

definition configured_path :: "en_path \<Rightarrow> en_path" where
  "configured_path p = p\<lparr>pt_operational_state := EN_PATH_UNKNOWN\<rparr>"

definition frame :: "string \<Rightarrow> en_controller_state \<Rightarrow> en_controller_state \<Rightarrow> bool" where
  "frame key c d \<longleftrightarrow> nodes d = nodes c \<and> intents d = intents c \<and>
     desired_tunnels d = desired_tunnels c \<and>
     map configured_path (paths d) = map configured_path (paths c) \<and>
     (\<forall>other. other \<noteq> key \<longrightarrow> find_applied d other = find_applied c other)"

lemma frame_refl [simp]: "frame key c c"
  by (simp add: frame_def)

lemma configured_path_operational [simp]:
  "configured_path (p\<lparr>pt_operational_state := v\<rparr>) = configured_path p"
  by (simp add: configured_path_def)

lemma configured_path_fields:
  assumes "configured_path p = configured_path q"
  shows "pt_path_id p = pt_path_id q" "pt_segments p = pt_segments q"
    "pt_administrative_state p = pt_administrative_state q"
  using assms [THEN arg_cong [where f = pt_path_id]] assms [THEN arg_cong [where f = pt_segments]]
    assms [THEN arg_cong [where f = pt_administrative_state]]
  by (simp_all add: configured_path_def)

lemma frame_length: "frame key c d \<Longrightarrow> length (paths d) = length (paths c)"
  unfolding frame_def using map_eq_imp_length_eq by blast

lemma frame_path:
  assumes "frame key c d" "i < length (paths c)"
  shows "configured_path (paths d ! i) = configured_path (paths c ! i)"
proof -
  have "map configured_path (paths d) ! i = map configured_path (paths c) ! i"
    using assms(1) by (simp add: frame_def)
  with assms(2) frame_length [OF assms(1)] show ?thesis by simp
qed

lemma frame_find_path: "frame key c d \<Longrightarrow> en_find_path d x = en_find_path c x"
  unfolding en_find_path_def
  by (rule find_index_cong)
    (simp_all add: frame_length configured_path_fields(1) [OF frame_path])

lemma frame_operational:
  "frame key c d \<Longrightarrow> frame key c (d\<lparr>paths := (paths d)[i := (paths d ! i)\<lparr>pt_operational_state := v\<rparr>]\<rparr>)"
  by (simp add: frame_def find_applied_def map_update_same)

lemma frame_put_applied:
  "frame key c d \<Longrightarrow> length key < EN_MAX_TRAFFIC_KEY_LEN \<Longrightarrow> frame key c (put_applied key p now d)"
  by (simp add: frame_def find_applied_put_other)

section \<open>The state invariant\<close>

text \<open>
  Every array is within its capacity, every stored path passed the count check, the
  registries that are searched by key before an insertion have distinct keys, and the
  identifiers the controller copies fit their buffers.
\<close>

definition wf_path :: "en_path \<Rightarrow> bool" where
  "wf_path p \<longleftrightarrow> en_path_counts_valid p \<and> length (pt_path_id p) < EN_MAX_ID_LEN"

definition wf_node :: "en_node \<Rightarrow> bool" where
  "wf_node n \<longleftrightarrow> length (nd_endpoints n) \<le> EN_MAX_ENDPOINTS \<and>
     length (nd_capabilities n) \<le> EN_MAX_CAPABILITIES"

definition wf_entry :: "applied_entry \<Rightarrow> bool" where
  "wf_entry e \<longleftrightarrow> length (ae_traffic_key e) < EN_MAX_TRAFFIC_KEY_LEN \<and>
     length (ae_applied_path e) < EN_MAX_ID_LEN"

definition wf_config :: "en_controller_state \<Rightarrow> bool" where
  "wf_config c \<longleftrightarrow> length (nodes c) \<le> EN_MAX_NODES \<and> list_all wf_node (nodes c) \<and>
     length (paths c) \<le> EN_MAX_PATHS \<and> list_all wf_path (paths c) \<and>
     length (desired_tunnels c) \<le> EN_MAX_TUNNELS"

definition wf_registries :: "en_controller_state \<Rightarrow> bool" where
  "wf_registries c \<longleftrightarrow>
     length (intents c) \<le> EN_MAX_CANDIDATES \<and> distinct (map it_intent_id (intents c)) \<and>
     length (observed_tunnels c) \<le> EN_MAX_TUNNELS \<and>
     distinct (map tn_tunnel_id (observed_tunnels c)) \<and>
     length (health c) \<le> EN_MAX_PATHS \<and> distinct (map ph_path_id (health c)) \<and>
     length (applied c) \<le> EN_MAX_CANDIDATES \<and> distinct (map ae_traffic_key (applied c)) \<and>
     list_all wf_entry (applied c) \<and> length (errors c) \<le> EN_MAX_ERRORS"

definition wf_state :: "en_controller_state \<Rightarrow> bool" where
  "wf_state c \<longleftrightarrow> wf_config c \<and> wf_registries c"

lemma list_all_update: "list_all P xs \<Longrightarrow> P y \<Longrightarrow> list_all P (xs[i := y])"
  by (cases "i < length xs") (auto simp: list_all_length nth_list_update list_update_beyond)

lemma list_all_nth: "list_all P xs \<Longrightarrow> i < length xs \<Longrightarrow> P (xs ! i)"
  by (simp add: list_all_length)

lemma wf_path_operational [simp]: "wf_path (p\<lparr>pt_operational_state := v\<rparr>) = wf_path p"
  by (simp add: wf_path_def en_path_counts_valid_def)

lemma wf_put_applied:
  assumes "wf_state c" "length key < EN_MAX_TRAFFIC_KEY_LEN"
  shows "wf_state (put_applied key path_id now c)"
proof (cases "find_index (\<lambda>e. ae_traffic_key e = key) (applied c)")
  case None
  have "ae_traffic_key e \<noteq> key" if "e \<in> set (applied c)" for e
    using None that by (auto simp: find_index_None)
  with None assms show ?thesis
    by (auto simp: wf_state_def wf_config_def wf_registries_def wf_entry_def put_applied_def cap_simps)
next
  case (Some i)
  have key: "ae_traffic_key (applied c ! i) = key" and i: "i < length (applied c)"
    using find_index_hit [OF Some] find_index_less [OF Some] by auto
  with Some assms show ?thesis
    by (auto simp: wf_state_def wf_config_def wf_registries_def wf_entry_def put_applied_def
        cap_simps map_update_same intro!: list_all_update)
qed

lemma wf_set_operational:
  assumes "wf_state c"
  shows "wf_state (c\<lparr>paths := (paths c)[i := (paths c ! i)\<lparr>pt_operational_state := v\<rparr>]\<rparr>)"
proof (cases "i < length (paths c)")
  case True
  with assms show ?thesis
    by (auto simp: wf_state_def wf_config_def wf_registries_def list_all_nth intro!: list_all_update)
next
  case False
  with assms show ?thesis
    by (simp add: wf_state_def wf_config_def wf_registries_def list_update_beyond)
qed

lemma wf_errors: "wf_state c \<Longrightarrow> length e \<le> EN_MAX_ERRORS \<Longrightarrow> wf_state (c\<lparr>errors := e\<rparr>)"
  by (simp add: wf_state_def wf_config_def wf_registries_def)

lemma wf_transition_state [simp]: "wf_state (c\<lparr>transition_state := t\<rparr>) = wf_state c"
  by (simp add: wf_state_def wf_config_def wf_registries_def)

end
