(* ===== verification/Topology.thy ===== *)
theory Topology
  imports EnTypes
begin

text \<open>
  The built-in demonstration topology of \<open>src/topology.c\<close>: three paths between two sites, one
  over a hub, one direct and one over a relay. The properties say that every path is a chain
  of segments from its source over its waypoints to its destination and that the identifiers
  are distinct. The witnesses of the other theories use it as their sample configuration.
\<close>

definition set_segment :: "string \<Rightarrow> string \<Rightarrow> string \<Rightarrow> string \<Rightarrow> en_segment" where
  "set_segment segment_id from_node to_node tunnel_id =
     \<lparr>sg_segment_id = fit EN_MAX_ID_LEN segment_id, sg_from_node = fit EN_MAX_ID_LEN from_node,
      sg_to_node = fit EN_MAX_ID_LEN to_node, sg_tunnel_id = fit EN_MAX_ID_LEN tunnel_id\<rparr>"

definition demo_hub :: en_path where
  "demo_hub = zero_path\<lparr>
     pt_path_id := ''path-via-hub'', pt_source := ''site-a'', pt_destination := ''site-b'',
     pt_route_destination_prefix := ''10.0.2.0/24'', pt_route_next_hop := ''203.0.113.1'',
     pt_egress_tunnel_id := ''tun-a-hub'', pt_waypoints := [''hub-1''], pt_priority := 30,
     pt_administrative_state := EN_ADMIN_ENABLED, pt_operational_state := EN_PATH_UNKNOWN,
     pt_segments := [set_segment ''seg-a-hub'' ''site-a'' ''hub-1'' ''tun-a-hub'',
                     set_segment ''seg-hub-b'' ''hub-1'' ''site-b'' ''tun-hub-b'']\<rparr>"

definition demo_direct :: en_path where
  "demo_direct = zero_path\<lparr>
     pt_path_id := ''path-direct'', pt_source := ''site-a'', pt_destination := ''site-b'',
     pt_route_destination_prefix := ''10.0.2.0/24'', pt_route_next_hop := ''203.0.113.20'',
     pt_egress_tunnel_id := ''tun-a-b'', pt_waypoints := [], pt_priority := 10,
     pt_administrative_state := EN_ADMIN_ENABLED, pt_operational_state := EN_PATH_UNKNOWN,
     pt_segments := [set_segment ''seg-a-b'' ''site-a'' ''site-b'' ''tun-a-b'']\<rparr>"

definition demo_relay :: en_path where
  "demo_relay = zero_path\<lparr>
     pt_path_id := ''path-via-relay-c'', pt_source := ''site-a'', pt_destination := ''site-b'',
     pt_route_destination_prefix := ''10.0.2.0/24'', pt_route_next_hop := ''203.0.113.30'',
     pt_egress_tunnel_id := ''tun-a-relay-c'', pt_waypoints := [''relay-c''], pt_priority := 20,
     pt_administrative_state := EN_ADMIN_ENABLED, pt_operational_state := EN_PATH_UNKNOWN,
     pt_segments := [set_segment ''seg-a-relay-c'' ''site-a'' ''relay-c'' ''tun-a-relay-c'',
                     set_segment ''seg-relay-c-b'' ''relay-c'' ''site-b'' ''tun-relay-c-b'']\<rparr>"

text \<open>The caller's array, when it has room for three entries.\<close>

definition en_initial_demo_paths :: "nat \<Rightarrow> en_path list" where
  "en_initial_demo_paths capacity = (if capacity < 3 then [] else [demo_hub, demo_direct, demo_relay])"

lemmas demo_defs = demo_hub_def demo_direct_def demo_relay_def set_segment_def fit_def zero_path_def

text \<open>
  A path is a chain when its segments lead from the source through the waypoints, in order,
  to the destination.
\<close>

fun segment_chain :: "string \<Rightarrow> en_segment list \<Rightarrow> string list \<Rightarrow> bool" where
  "segment_chain from [] hops = (hops = [])"
| "segment_chain from (g # gs) [] = False"
| "segment_chain from (g # gs) (hop # hops) =
     (sg_from_node g = from \<and> sg_to_node g = hop \<and> segment_chain hop gs hops)"

definition path_chain :: "en_path \<Rightarrow> bool" where
  "path_chain p \<longleftrightarrow> segment_chain (pt_source p) (pt_segments p) (pt_waypoints p @ [pt_destination p])"

lemma demo_paths_well_formed:
  "list_all (\<lambda>p. path_chain p \<and> en_path_counts_valid p \<and>
       pt_egress_tunnel_id p = sg_tunnel_id (hd (pt_segments p)) \<and>
       length (pt_segments p) = en_path_hop_count p) (en_initial_demo_paths n)"
  "distinct (map pt_path_id (en_initial_demo_paths n))"
  by (simp_all add: en_initial_demo_paths_def demo_defs path_chain_def en_path_counts_valid_def
      en_path_hop_count_def)

end
