(* ===== verification/Samples.thy ===== *)
theory Samples
  imports EnState Topology
begin

text \<open>
  Concrete configurations, built on the demonstration topology, at which the witnesses of the
  other theories apply the properties.
\<close>

definition sample_node :: "string \<Rightarrow> en_node" where
  "sample_node i = \<lparr>nd_node_id = i, nd_role = ''site'', nd_endpoints = [],
     nd_capabilities = [''can_observe_state'', ''can_rekey''],
     nd_administrative_state = EN_ADMIN_ENABLED\<rparr>"

definition sample_health :: "string \<Rightarrow> rat \<Rightarrow> en_path_health" where
  "sample_health i rtt = zero_health\<lparr>ph_path_id := i, ph_state := EN_HEALTH_HEALTHY,
     ph_rtt_ms := Fin rtt, ph_consecutive_successes := 3\<rparr>"

text \<open>All three demonstration paths, with their nodes and a measurement of each.\<close>

definition sample_state :: en_controller_state where
  "sample_state = \<lparr>
     nodes = map sample_node [''site-a'', ''site-b'', ''hub-1'', ''relay-c''],
     paths = en_initial_demo_paths 3, intents = [], desired_tunnels = [], observed_tunnels = [],
     health = [sample_health ''path-via-hub'' 20, sample_health ''path-direct'' 10,
               sample_health ''path-via-relay-c'' 30],
     applied = [], transition_state = EN_TRANSITION_IDLE, errors = []\<rparr>"

text \<open>The same with one path applied for the traffic from \<open>lan-a\<close> to \<open>lan-b\<close> since time 100.\<close>

definition sample_active :: "string \<Rightarrow> en_controller_state" where
  "sample_active p = sample_state\<lparr>applied :=
     [\<lparr>ae_traffic_key = ''lan-a->lan-b'', ae_applied_path = p, ae_applied_since_ms = 100\<rparr>]\<rparr>"

definition sample_intent :: "en_path_selection_mode \<Rightarrow> en_path_constraints \<Rightarrow> en_intent" where
  "sample_intent m k = zero_intent\<lparr>it_intent_id := ''intent-a-b'',
     it_traffic := \<lparr>ts_source = ''lan-a'', ts_destination = ''lan-b'', ts_has_vlan_id = False,
       ts_vlan_id = 0\<rparr>,
     it_path_selection := \<lparr>ps_mode = m, ps_path_id = ''path-direct'',
       ps_candidates = [''path-via-hub'', ''path-direct'', ''path-via-relay-c''],
       ps_constraints = k, ps_comparison_order = [EN_COMPARE_LATENCY, EN_COMPARE_HOP_COUNT]\<rparr>\<rparr>"

definition sample_world :: "'w \<Rightarrow> 'w world" where
  "sample_world d = \<lparr>clock = (\<lambda>n. 1000 + int n), ticks = 0, slept = [], dev = d\<rparr>"

lemmas sample_defs = sample_node_def sample_health_def sample_state_def sample_active_def
  sample_intent_def sample_world_def zero_defs demo_defs en_initial_demo_paths_def

lemma wf_sample_state: "wf_state sample_state" and wf_sample_active: "length p < 64 \<Longrightarrow> wf_state (sample_active p)"
  by (simp_all add: wf_state_def wf_config_def wf_registries_def wf_node_def wf_path_def wf_entry_def
      en_path_counts_valid_def sample_defs)

end
