(* ===== verification/PathSelection.thy ===== *)
theory PathSelection
  imports Samples
begin

text \<open>
  Path selection, from \<open>src/path_selection.c\<close>: the exclusion tests, the comparison of two
  candidates, and \<open>en_select_path\<close> with its three modes. Selection reads the controller
  state and the clock and writes neither the controller nor the devices, so it is an action
  on the outside world with the controller state as an argument.

  The properties: what is selected satisfies the intent's policy in every mode, priority
  mode takes the first usable candidate, evaluated mode takes an optimum of the comparison
  order, hold-down and hysteresis keep the active path, and the explanation accounts for
  every candidate.
\<close>

section \<open>Exclusion\<close>

definition node_has_capability :: "en_controller_state \<Rightarrow> string \<Rightarrow> string \<Rightarrow> bool" where
  "node_has_capability c node_id capability =
     (case en_find_node c (Some node_id) of
        None \<Rightarrow> False
      | Some n \<Rightarrow> list_ex (\<lambda>x. en_streq (Some x) (Some capability)) (nd_capabilities n))"

definition path_supports_capabilities ::
  "en_controller_state \<Rightarrow> en_path \<Rightarrow> en_path_constraints \<Rightarrow> bool" where
  "path_supports_capabilities c p k =
     list_all (\<lambda>cap.
       node_has_capability c (pt_source p) cap \<and> node_has_capability c (pt_destination p) cap \<and>
       list_all (\<lambda>g. node_has_capability c (sg_from_node g) cap \<and>
                     node_has_capability c (sg_to_node g) cap) (pt_segments p))
       (pc_required_capabilities k)"

definition waypoint_contains :: "string list \<Rightarrow> string \<Rightarrow> bool" where
  "waypoint_contains ws needle = list_ex (\<lambda>x. en_streq (Some x) (Some needle)) ws"

definition health_usable :: "en_path_health \<Rightarrow> bool" where
  "health_usable h \<longleftrightarrow> ph_state h = EN_HEALTH_HEALTHY \<or> ph_state h = EN_HEALTH_DEGRADED"

definition health_broken :: "en_path_health \<Rightarrow> bool" where
  "health_broken h \<longleftrightarrow> ph_state h = EN_HEALTH_UNHEALTHY \<or> ph_state h = EN_HEALTH_FAILED"

text \<open>What selection knows of the active path of the intent's traffic.\<close>

record selection_ctx =
  sc_active_path_id :: "string option"
  sc_active_path_exists :: bool
  sc_active_since_ms :: int
  sc_active_health :: "en_path_health option"

definition selection_ctx_of :: "en_controller_state \<Rightarrow> en_intent \<Rightarrow> selection_ctx" where
  "selection_ctx_of c intent =
     (let key = en_make_traffic_key (it_traffic intent) EN_MAX_TRAFFIC_KEY_LEN;
          active = en_get_applied_path c key;
          exists = (case active of None \<Rightarrow> False | Some a \<Rightarrow> a \<noteq> [])
      in \<lparr>sc_active_path_id = active, sc_active_path_exists = exists,
          sc_active_since_ms = en_get_applied_since_ms c key,
          sc_active_health = (if exists then health_of c active else None)\<rparr>)"

text \<open>The tests of \<open>exclusion_reason\<close> after the hold-down test, in the code's order.\<close>

definition exclusion_checks ::
  "en_controller_state \<Rightarrow> en_path \<Rightarrow> en_path_health option \<Rightarrow> en_path_constraints \<Rightarrow> bool \<Rightarrow> bool \<Rightarrow>
   string option" where
  "exclusion_checks c p h k active active_path_exists =
     (if (case h of None \<Rightarrow> False | Some x \<Rightarrow> health_broken x \<and>
            \<not> (active \<and> 0 < pc_failure_threshold k \<and>
               ph_consecutive_failures x < pc_failure_threshold k))
      then map_option (\<lambda>x. ''health is '' @ en_health_state_name (ph_state x)) h
      else if (case h of None \<Rightarrow> False | Some x \<Rightarrow> active_path_exists \<and> \<not> active \<and>
            pt_operational_state p = EN_PATH_STANDBY \<and> 0 < pc_recovery_threshold k \<and>
            health_usable x \<and> ph_consecutive_successes x < pc_recovery_threshold k)
      then Some ''recovery threshold not met''
      else if (case h of None \<Rightarrow> False | Some x \<Rightarrow>
            pc_has_max_rtt_ms k \<and> pc_max_rtt_ms k < ph_rtt_ms x)
      then Some ''rtt constraint violation''
      else if (case h of None \<Rightarrow> False | Some x \<Rightarrow>
            pc_has_max_packet_loss_percent k \<and>
            pc_max_packet_loss_percent k < ph_packet_loss_percent x)
      then Some ''packet loss constraint violation''
      else if list_ex (waypoint_contains (pt_waypoints p)) (pc_forbidden_waypoints k)
      then Some ''forbidden waypoint constraint violation''
      else if list_ex (\<lambda>n. \<not> waypoint_contains (pt_waypoints p) n) (pc_required_waypoints k)
      then Some ''required waypoint constraint violation''
      else if \<not> path_supports_capabilities c p k
      then Some ''required node capability is unavailable''
      else None)"

definition hold_down_guard :: "selection_ctx \<Rightarrow> en_path_constraints \<Rightarrow> bool \<Rightarrow> bool" where
  "hold_down_guard x k active \<longleftrightarrow>
     \<not> active \<and> sc_active_path_exists x \<and> 0 < sc_active_since_ms x \<and> 0 < pc_hold_down_ms k \<and>
     (case sc_active_health x of None \<Rightarrow> False | Some h \<Rightarrow> health_usable h)"

definition exclusion_reason ::
  "en_controller_state \<Rightarrow> selection_ctx \<Rightarrow> en_path_constraints \<Rightarrow> en_path \<Rightarrow> en_path_health option \<Rightarrow>
   ('w, string option) world_act" where
  "exclusion_reason c x k p h =
     (let active = en_streq (sc_active_path_id x) (Some (pt_path_id p)) in
      if pt_administrative_state p \<noteq> EN_ADMIN_ENABLED
      then State_Monad.return (Some ''administratively disabled'')
      else if \<not> path_nodes_enabled c p
      then State_Monad.return (Some ''path node is administratively disabled'')
      else do {
        held \<leftarrow> (if hold_down_guard x k active
                 then do {
                   now \<leftarrow> en_now_ms;
                   State_Monad.return (0 \<le> now - sc_active_since_ms x \<and>
                     now - sc_active_since_ms x < pc_hold_down_ms k)
                 }
                 else State_Monad.return False);
        if held then State_Monad.return (Some ''active path hold-down not elapsed'')
        else State_Monad.return (exclusion_checks c p h k active (sc_active_path_exists x))
      })"

section \<open>Comparison\<close>

fun metric_value :: "en_path \<Rightarrow> en_path_health option \<Rightarrow> en_comparison_key \<Rightarrow> cdouble" where
  "metric_value p h EN_COMPARE_PACKET_LOSS =
     (case h of None \<Rightarrow> DBL_MAX | Some x \<Rightarrow> ph_packet_loss_percent x)"
| "metric_value p h EN_COMPARE_LATENCY = (case h of None \<Rightarrow> DBL_MAX | Some x \<Rightarrow> ph_rtt_ms x)"
| "metric_value p h EN_COMPARE_HOP_COUNT = d_of_int (int (en_path_hop_count p))"
| "metric_value p h EN_COMPARE_ADMIN_PRIORITY = d_of_int (pt_priority p)"
| "metric_value p h EN_COMPARE_PATH_ID = Fin 0"

type_synonym candidate = "en_path \<times> en_path_health option"

fun compare_keys :: "en_comparison_key list \<Rightarrow> candidate \<Rightarrow> candidate \<Rightarrow> int" where
  "compare_keys [] l r = strcmp (pt_path_id (fst l)) (pt_path_id (fst r))"
| "compare_keys (key # keys) l r =
     (if key = EN_COMPARE_PATH_ID
      then let cmp = strcmp (pt_path_id (fst l)) (pt_path_id (fst r))
           in if cmp \<noteq> 0 then cmp else compare_keys keys l r
      else let lv = metric_value (fst l) (snd l) key; rv = metric_value (fst r) (snd r) key
           in if lv < rv then - 1 else if rv < lv then 1 else compare_keys keys l r)"

definition comparison_keys :: "en_path_selection \<Rightarrow> en_comparison_key list" where
  "comparison_keys s =
     (if ps_comparison_order s = [] then [EN_COMPARE_PATH_ID] else ps_comparison_order s)"

definition compare_paths :: "en_path_selection \<Rightarrow> candidate \<Rightarrow> candidate \<Rightarrow> int" where
  "compare_paths s l r = compare_keys (comparison_keys s) l r"

section \<open>Selection\<close>

definition add_excluded :: "string \<Rightarrow> string \<Rightarrow> en_selection_result \<Rightarrow> en_selection_result" where
  "add_excluded path_id why r =
     r\<lparr>sr_excluded_path_ids := sr_excluded_path_ids r @ [en_copy_id EN_MAX_ID_LEN (Some path_id)],
       sr_excluded_reasons := sr_excluded_reasons r @ [fit 128 why]\<rparr>"

definition select_explicit ::
  "en_controller_state \<Rightarrow> selection_ctx \<Rightarrow> en_path_selection \<Rightarrow> en_selection_result \<Rightarrow>
   ('w, en_error_code \<times> en_selection_result) world_act" where
  "select_explicit c x s r =
     (case en_find_path c (Some (ps_path_id s)) of
        None \<Rightarrow> State_Monad.return (EN_ERR_NOT_FOUND, r)
      | Some i \<Rightarrow> do {
          let p = paths c ! i;
          reason \<leftarrow> exclusion_reason c x (ps_constraints s) p (health_of c (Some (pt_path_id p)));
          case reason of
            Some why \<Rightarrow> State_Monad.return (EN_ERR_NO_CANDIDATE, add_excluded (pt_path_id p) why r)
          | None \<Rightarrow> State_Monad.return (EN_ERR_NONE,
              r\<lparr>sr_selected_path := en_copy_id EN_MAX_ID_LEN (Some (pt_path_id p)),
                sr_candidates := [en_copy_id EN_MAX_ID_LEN (Some (pt_path_id p))],
                sr_reason := ''explicit path requested''\<rparr>)
        })"

fun select_priority ::
  "en_controller_state \<Rightarrow> selection_ctx \<Rightarrow> en_path_constraints \<Rightarrow> string list \<Rightarrow> en_selection_result \<Rightarrow>
   ('w, en_error_code \<times> en_selection_result) world_act" where
  "select_priority c x k [] r = State_Monad.return (EN_ERR_NO_CANDIDATE, r)"
| "select_priority c x k (cand # cands) r =
     (case en_find_path c (Some cand) of
        None \<Rightarrow> State_Monad.return (EN_ERR_NOT_FOUND, r)
      | Some i \<Rightarrow> do {
          let p = paths c ! i;
          reason \<leftarrow> exclusion_reason c x k p (health_of c (Some (pt_path_id p)));
          case reason of
            None \<Rightarrow> State_Monad.return (EN_ERR_NONE,
              r\<lparr>sr_selected_path := en_copy_id EN_MAX_ID_LEN (Some (pt_path_id p)),
                sr_reason := ''first usable priority candidate''\<rparr>)
          | Some why \<Rightarrow> select_priority c x k cands (add_excluded (pt_path_id p) why r)
        })"

text \<open>
  The loop of the evaluated mode. Its state is the best candidate so far, whether the
  active path is among the usable ones, and the explanation; \<open>Inl\<close> is the early return
  for an unknown candidate.
\<close>

fun evaluate_candidates ::
  "en_controller_state \<Rightarrow> selection_ctx \<Rightarrow> en_path_selection \<Rightarrow> string list \<Rightarrow>
   candidate option \<Rightarrow> bool \<Rightarrow> en_selection_result \<Rightarrow>
   ('w, en_selection_result + (candidate option \<times> bool \<times> en_selection_result)) world_act" where
  "evaluate_candidates c x s [] best eligible r = State_Monad.return (Inr (best, eligible, r))"
| "evaluate_candidates c x s (cand # cands) best eligible r =
     (case en_find_path c (Some cand) of
        None \<Rightarrow> State_Monad.return (Inl r)
      | Some i \<Rightarrow> do {
          let p = paths c ! i;
          let h = health_of c (Some (pt_path_id p));
          reason \<leftarrow> exclusion_reason c x (ps_constraints s) p h;
          case reason of
            Some why \<Rightarrow>
              evaluate_candidates c x s cands best eligible (add_excluded (pt_path_id p) why r)
          | None \<Rightarrow>
              evaluate_candidates c x s cands
                (case best of
                   None \<Rightarrow> Some (p, h)
                 | Some b \<Rightarrow> if compare_paths s (p, h) b < 0 then Some (p, h) else best)
                (eligible \<or> en_streq (sc_active_path_id x) (Some (pt_path_id p))) r
        })"

definition primary_key :: "en_path_selection \<Rightarrow> en_comparison_key" where
  "primary_key s =
     (case ps_comparison_order s of [] \<Rightarrow> EN_COMPARE_PATH_ID | key # _ \<Rightarrow> key)"

text \<open>\<open>((active_value - best_value) / fmax(fabs(active_value), 1.0)) * 100.0\<close>\<close>

definition improvement_percent :: "cdouble \<Rightarrow> cdouble \<Rightarrow> cdouble" where
  "improvement_percent active_value best_value =
     d_mul (d_div (d_sub active_value best_value) (fmax (fabs active_value) (Fin 1))) (Fin 100)"

definition retained_by_hysteresis ::
  "en_controller_state \<Rightarrow> selection_ctx \<Rightarrow> en_path_selection \<Rightarrow> bool \<Rightarrow> candidate \<Rightarrow> bool" where
  "retained_by_hysteresis c x s eligible best =
     (case sc_active_health x of
        None \<Rightarrow> False
      | Some ah \<Rightarrow>
          eligible \<and> pc_has_hysteresis_percent (ps_constraints s) \<and>
          \<not> en_streq (Some (pt_path_id (fst best))) (sc_active_path_id x) \<and> health_usable ah \<and>
          (case en_find_path c (sc_active_path_id x) of
             None \<Rightarrow> False
           | Some i \<Rightarrow> primary_key s \<noteq> EN_COMPARE_PATH_ID \<and>
               improvement_percent (metric_value (paths c ! i) (Some ah) (primary_key s))
                 (metric_value (fst best) (snd best) (primary_key s))
               < pc_hysteresis_percent (ps_constraints s)))"

definition select_evaluated ::
  "en_controller_state \<Rightarrow> selection_ctx \<Rightarrow> en_path_selection \<Rightarrow> en_selection_result \<Rightarrow>
   ('w, en_error_code \<times> en_selection_result) world_act" where
  "select_evaluated c x s r0 = do {
     res \<leftarrow> evaluate_candidates c x s (ps_candidates s) None False r0;
     case res of
       Inl r \<Rightarrow> State_Monad.return (EN_ERR_NOT_FOUND, r)
     | Inr (best, eligible, r) \<Rightarrow>
         (case best of
            None \<Rightarrow> State_Monad.return (EN_ERR_NO_CANDIDATE, r)
          | Some b \<Rightarrow>
              if retained_by_hysteresis c x s eligible b
              then State_Monad.return (EN_ERR_NONE,
                r\<lparr>sr_selected_path := en_copy_id EN_MAX_ID_LEN (sc_active_path_id x),
                  sr_reason := ''active path retained by hysteresis''\<rparr>)
              else State_Monad.return (EN_ERR_NONE,
                r\<lparr>sr_selected_path := en_copy_id EN_MAX_ID_LEN (Some (pt_path_id (fst b))),
                  sr_reason := ''best evaluated candidate by comparison_order''\<rparr>))
   }"

text \<open>\<open>memset(result, 0)\<close>, then the candidates copied into the explanation.\<close>

definition start_result :: "en_path_selection \<Rightarrow> en_selection_result" where
  "start_result s = zero_selection_result
     \<lparr>sr_candidates := map (\<lambda>i. en_copy_id EN_MAX_ID_LEN (Some i)) (ps_candidates s)\<rparr>"

definition en_select_path ::
  "en_controller_state \<Rightarrow> en_intent \<Rightarrow> ('w, en_error_code \<times> en_selection_result) world_act" where
  "en_select_path c intent =
     (let r = zero_selection_result; s = it_path_selection intent; x = selection_ctx_of c intent
      in if \<not> en_intent_counts_valid intent
         then State_Monad.return (EN_ERR_INVALID_ARGUMENT, r)
         else (case ps_mode s of
             EN_SELECT_EXPLICIT \<Rightarrow> select_explicit c x s r
           | EN_SELECT_PRIORITY \<Rightarrow> select_priority c x (ps_constraints s) (ps_candidates s) (start_result s)
           | EN_SELECT_EVALUATED \<Rightarrow> select_evaluated c x s (start_result s)))"

section \<open>The policy a selected path satisfies\<close>

text \<open>
  The specification side: the policy of an intent on a path, stated on sets, without the
  order of the tests. \<open>path_usable\<close> is the health side of it.
\<close>

definition endpoint_nodes :: "en_path \<Rightarrow> string set" where
  "endpoint_nodes p = {pt_source p, pt_destination p} \<union>
     sg_from_node ` set (pt_segments p) \<union> sg_to_node ` set (pt_segments p)"

definition satisfies_policy :: "en_controller_state \<Rightarrow> en_path_constraints \<Rightarrow> en_path \<Rightarrow> bool" where
  "satisfies_policy c k p \<longleftrightarrow>
     pt_administrative_state p = EN_ADMIN_ENABLED \<and>
     (nodes c \<noteq> [] \<longrightarrow> (\<forall>n \<in> endpoint_nodes p \<union> set (pt_waypoints p). node_enabled c n)) \<and>
     set (pc_forbidden_waypoints k) \<inter> set (pt_waypoints p) = {} \<and>
     set (pc_required_waypoints k) \<subseteq> set (pt_waypoints p) \<and>
     (\<forall>cap \<in> set (pc_required_capabilities k). \<forall>n \<in> endpoint_nodes p. node_has_capability c n cap)"

definition path_usable ::
  "en_path_constraints \<Rightarrow> bool \<Rightarrow> en_path_health option \<Rightarrow> bool" where
  "path_usable k active h \<longleftrightarrow>
     (case h of
        None \<Rightarrow> True
      | Some x \<Rightarrow>
          (health_broken x \<longrightarrow> active \<and> 0 < pc_failure_threshold k \<and>
             ph_consecutive_failures x < pc_failure_threshold k) \<and>
          (pc_has_max_rtt_ms k \<longrightarrow> \<not> pc_max_rtt_ms k < ph_rtt_ms x) \<and>
          (pc_has_max_packet_loss_percent k \<longrightarrow>
             \<not> pc_max_packet_loss_percent k < ph_packet_loss_percent x))"

text \<open>
  The constraints on leaving the path that carries the traffic: a path in standby has recovered long enough, and the
  hold-down of a usable applied path is over at some reading of the clock since \<open>w\<close>.
\<close>

definition recovered :: "en_path_constraints \<Rightarrow> selection_ctx \<Rightarrow> en_path \<Rightarrow> en_path_health option \<Rightarrow> bool" where
  "recovered k x p h \<longleftrightarrow>
     (case h of
        None \<Rightarrow> True
      | Some y \<Rightarrow>
          sc_active_path_exists x \<and> sc_active_path_id x \<noteq> Some (pt_path_id p) \<and>
          pt_operational_state p = EN_PATH_STANDBY \<and> health_usable y \<and> 0 < pc_recovery_threshold k \<longrightarrow>
          pc_recovery_threshold k \<le> ph_consecutive_successes y)"

definition held_down :: "en_path_constraints \<Rightarrow> selection_ctx \<Rightarrow> int \<Rightarrow> bool" where
  "held_down k x now \<longleftrightarrow>
     sc_active_path_exists x \<and> (case sc_active_health x of None \<Rightarrow> False | Some y \<Rightarrow> health_usable y) \<and>
     0 < sc_active_since_ms x \<and> sc_active_since_ms x \<le> now \<and> now < sc_active_since_ms x + pc_hold_down_ms k"

definition may_leave :: "'w world \<Rightarrow> en_path_constraints \<Rightarrow> selection_ctx \<Rightarrow> en_path \<Rightarrow> bool" where
  "may_leave w k x p \<longleftrightarrow>
     sc_active_path_id x = Some (pt_path_id p) \<or> (\<exists>n\<ge>ticks w. \<not> held_down k x (clock w n))"

lemma waypoint_contains_iff [simp]: "waypoint_contains ws n \<longleftrightarrow> n \<in> set ws"
  by (auto simp: waypoint_contains_def list_ex_iff)

lemma path_nodes_enabled_iff:
  "path_nodes_enabled c p \<longleftrightarrow>
   (nodes c \<noteq> [] \<longrightarrow> (\<forall>n \<in> endpoint_nodes p \<union> set (pt_waypoints p). node_enabled c n))"
  by (auto simp: path_nodes_enabled_def endpoint_nodes_def list_all_iff)

lemma path_supports_capabilities_iff:
  "path_supports_capabilities c p k \<longleftrightarrow>
   (\<forall>cap \<in> set (pc_required_capabilities k). \<forall>n \<in> endpoint_nodes p. node_has_capability c n cap)"
  by (auto simp: path_supports_capabilities_def endpoint_nodes_def list_all_iff)

lemma exclusion_checks_None:
  assumes "exclusion_checks c p h k active exists = None"
  shows "path_usable k active h"
    and "set (pc_forbidden_waypoints k) \<inter> set (pt_waypoints p) = {}"
    and "set (pc_required_waypoints k) \<subseteq> set (pt_waypoints p)"
    and "path_supports_capabilities c p k"
    and "\<lbrakk>exists = sc_active_path_exists x; active = en_streq (sc_active_path_id x) (Some (pt_path_id p))\<rbrakk> \<Longrightarrow> recovered k x p h"
  using assms
  by (auto simp: exclusion_checks_def path_usable_def recovered_def list_ex_iff en_streq_iff
      split: if_splits option.splits)

text \<open>The only effect of an exclusion test is that it may read the clock once.\<close>

lemma exclusion_reason_run:
  "run_state (exclusion_reason c x k p h) w = (res, w') \<Longrightarrow>
   w' = w \<or> w' = w\<lparr>ticks := Suc (ticks w)\<rparr>"
  by (auto simp: exclusion_reason_def Let_def split: if_splits)

lemma exclusion_reason_None:
  assumes "run_state (exclusion_reason c x k p h) w = (None, w')"
  shows "satisfies_policy c k p"
    and "path_usable k (en_streq (sc_active_path_id x) (Some (pt_path_id p))) h"
    and "recovered k x p h" and "may_leave w k x p"
proof -
  let ?active = "en_streq (sc_active_path_id x) (Some (pt_path_id p))"
  have checks: "exclusion_checks c p h k ?active (sc_active_path_exists x) = None"
    using assms by (auto simp: exclusion_reason_def Let_def split: if_splits)
  show "satisfies_policy c k p"
    using assms exclusion_checks_None(2-4) [OF checks]
    by (auto simp: exclusion_reason_def Let_def satisfies_policy_def path_nodes_enabled_iff
        path_supports_capabilities_iff [symmetric] split: if_splits)
  show "path_usable k ?active h" by (rule exclusion_checks_None(1) [OF checks])
  show "recovered k x p h" by (rule exclusion_checks_None(5) [OF checks refl refl])
  have "hold_down_guard x k ?active \<Longrightarrow> \<not> held_down k x (clock w (ticks w))"
    using assms by (auto simp: exclusion_reason_def Let_def held_down_def split: if_splits)
  moreover have "?active \<or> \<not> held_down k x (clock w (ticks w))" if "\<not> hold_down_guard x k ?active"
    using that by (auto simp: hold_down_guard_def held_down_def split: option.splits)
  ultimately show "may_leave w k x p" by (auto simp: may_leave_def en_streq_iff)
qed

lemma hold_down_excludes:
  assumes "run_state (exclusion_reason c x k p h) w = (res, w')"
    and "hold_down_guard x k (en_streq (sc_active_path_id x) (Some (pt_path_id p)))"
    and "0 \<le> clock w (ticks w) - sc_active_since_ms x"
    and "clock w (ticks w) - sc_active_since_ms x < pc_hold_down_ms k"
  shows "res \<noteq> None"
  using assms by (auto simp: exclusion_reason_def Let_def split: if_splits)

text \<open>
  A candidate that the lookup finds and that passed the exclusion tests at some moment of a
  selection begun in \<open>w0\<close>: the clock is the same and no reading was taken back.
\<close>

definition later :: "'w world \<Rightarrow> 'w world \<Rightarrow> bool" where
  "later w0 w \<longleftrightarrow> clock w = clock w0 \<and> ticks w0 \<le> ticks w"

definition passes ::
  "'w world \<Rightarrow> en_controller_state \<Rightarrow> selection_ctx \<Rightarrow> en_path_constraints \<Rightarrow> string \<Rightarrow> nat \<Rightarrow> bool" where
  "passes w0 c x k cand i \<longleftrightarrow> en_find_path c (Some cand) = Some i \<and>
     (\<exists>w w'. later w0 w \<and> run_state (exclusion_reason c x k (paths c ! i)
        (health_of c (Some (pt_path_id (paths c ! i))))) w = (None, w'))"

lemma later_refl: "later w w"
  by (simp add: later_def)

lemma later_exclusion:
  "later w0 w \<Longrightarrow> run_state (exclusion_reason c x k p h) w = (res, w') \<Longrightarrow> later w0 w'"
  using exclusion_reason_run [of c x k p h w res w'] by (auto simp: later_def)

lemma passes_policy:
  "passes w0 c x k cand i \<Longrightarrow> satisfies_policy c k (paths c ! i) \<and>
   path_usable k (en_streq (sc_active_path_id x) (Some (pt_path_id (paths c ! i))))
     (health_of c (Some (pt_path_id (paths c ! i))))"
  unfolding passes_def by (blast dest: exclusion_reason_None)

lemma passes_leaves:
  "passes w0 c x k cand i \<Longrightarrow> recovered k x (paths c ! i) (health_of c (Some (pt_path_id (paths c ! i)))) \<and>
   may_leave w0 k x (paths c ! i)"
proof -
  assume "passes w0 c x k cand i"
  then obtain w w' where w: "later w0 w" "run_state (exclusion_reason c x k (paths c ! i)
      (health_of c (Some (pt_path_id (paths c ! i))))) w = (None, w')" unfolding passes_def by blast
  from exclusion_reason_None(3,4) [OF w(2)] w(1) show ?thesis
    by (auto simp: may_leave_def later_def intro: le_trans)
qed

lemma find_path_id: "en_find_path c (Some q) = Some i \<Longrightarrow> pt_path_id (paths c ! i) = q \<and> i < length (paths c)"
  by (auto simp: en_find_path_def dest: find_index_Some)

lemma find_path_wf: "wf_state c \<Longrightarrow> en_find_path c (Some q) = Some i \<Longrightarrow> length q < EN_MAX_ID_LEN"
  using find_path_id [of c q i]
  by (auto simp: wf_state_def wf_config_def list_all_length wf_path_def)

text \<open>Facts the three modes share: what their results say about the selected path.\<close>

lemma priority_None:
  assumes "run_state (select_priority c x k cands r) w = ((EN_ERR_NONE, r'), w')" "wf_state c"
    "later w0 w"
  shows "\<exists>n<length cands. \<exists>i. sr_selected_path r' = cands ! n \<and> passes w0 c x k (sr_selected_path r') i \<and>
    sr_excluded_path_ids r' = sr_excluded_path_ids r @ take n cands"
  using assms
proof (induction cands arbitrary: r w)
  case Nil
  then show ?case by simp
next
  case (Cons cand cands)
  then obtain i where i: "en_find_path c (Some cand) = Some i"
    by (auto split: option.splits)
  obtain reason w1 where ex: "run_state (exclusion_reason c x k (paths c ! i)
      (health_of c (Some (pt_path_id (paths c ! i))))) w = (reason, w1)"
    by (meson surj_pair)
  have len: "length cand < EN_MAX_ID_LEN" and id: "pt_path_id (paths c ! i) = cand"
    using find_path_wf [OF Cons.prems(2) i] find_path_id [OF i] by auto
  show ?case
  proof (cases reason)
    case None
    with Cons.prems i ex have "sr_selected_path r' = cand" "sr_excluded_path_ids r' = sr_excluded_path_ids r"
      by (auto simp: Let_def id cap_simps len)
    with None ex i Cons.prems(3) show ?thesis
      by (intro exI [of _ 0]) (auto simp: passes_def)
  next
    case (Some why)
    with Cons.prems i ex have "run_state (select_priority c x k cands (add_excluded cand why r)) w1
        = ((EN_ERR_NONE, r'), w')"
      by (simp add: Let_def id)
    from Cons.IH [OF this Cons.prems(2) later_exclusion [OF Cons.prems(3) ex]]
    obtain n j where "n < length cands" "sr_selected_path r' = cands ! n"
      "passes w0 c x k (sr_selected_path r') j"
      "sr_excluded_path_ids r' = sr_excluded_path_ids (add_excluded cand why r) @ take n cands"
      by blast
    then show ?thesis
      by (intro exI [of _ "Suc n"]) (auto simp: add_excluded_def cap_simps len)
  qed
qed

lemma explicit_None:
  assumes "run_state (select_explicit c x s r) w = ((EN_ERR_NONE, r'), w')" "wf_state c"
  shows "sr_selected_path r' = ps_path_id s \<and> (\<exists>i. passes w c x (ps_constraints s) (sr_selected_path r') i)"
proof -
  from assms obtain i where i: "en_find_path c (Some (ps_path_id s)) = Some i"
    by (auto simp: select_explicit_def split: option.splits)
  obtain reason w1 where ex: "run_state (exclusion_reason c x (ps_constraints s) (paths c ! i)
      (health_of c (Some (pt_path_id (paths c ! i))))) w = (reason, w1)"
    by (meson surj_pair)
  with assms i have none: "reason = None"
    by (auto simp: select_explicit_def Let_def split: option.splits)
  with assms i ex have "sr_selected_path r' = ps_path_id s"
    by (auto simp: select_explicit_def Let_def find_path_id [OF i] cap_simps find_path_wf)
  with ex [unfolded none] i show ?thesis
    by (auto simp: passes_def intro: later_refl)
qed

section \<open>The evaluated mode\<close>

text \<open>Where no metric is NaN the comparison is transitive, so a running minimum is a minimum.\<close>

definition numeric :: "candidate \<Rightarrow> bool" where
  "numeric b \<longleftrightarrow> (\<forall>key. metric_value (fst b) (snd b) key \<noteq> NaN)"

definition numeric_health :: "en_controller_state \<Rightarrow> bool" where
  "numeric_health c \<longleftrightarrow>
     list_all (\<lambda>h. ph_rtt_ms h \<noteq> NaN \<and> ph_packet_loss_percent h \<noteq> NaN) (health c)"

definition candidate_at :: "en_controller_state \<Rightarrow> nat \<Rightarrow> candidate" where
  "candidate_at c i = (paths c ! i, health_of c (Some (pt_path_id (paths c ! i))))"

lemma numeric_candidate_at: "numeric_health c \<Longrightarrow> numeric (candidate_at c i)"
  unfolding numeric_def
proof (intro allI)
  fix key
  assume nh: "numeric_health c"
  have "h \<in> set (health c)" if "health_of c q = Some h" for q h
    using that by (auto simp: health_of_def en_find_health_def dest: find_index_less)
  with nh show "metric_value (fst (candidate_at c i)) (snd (candidate_at c i)) key \<noteq> NaN"
    by (cases key)
      (auto simp: candidate_at_def numeric_health_def list_all_iff DBL_MAX_def d_of_int_def
        split: option.splits)
qed

lemma compare_keys_trans:
  assumes "numeric a" "numeric b" "numeric d"
  shows "compare_keys keys a b < 0 \<Longrightarrow> compare_keys keys b d < 0 \<Longrightarrow> compare_keys keys a d < 0"
proof (induction keys)
  case Nil
  then show ?case by (auto intro: strcmp_less_trans)
next
  case (Cons key keys)
  show ?case
  proof (cases "key = EN_COMPARE_PATH_ID")
    case True
    with Cons show ?thesis
      by (auto simp: Let_def split: if_splits dest: strcmp_less_asym intro: strcmp_less_trans)
  next
    case False
    let ?v = "\<lambda>z. metric_value (fst z) (snd z) key"
    have num: "?v a \<noteq> NaN" "?v b \<noteq> NaN" "?v d \<noteq> NaN"
      using assms by (simp_all add: numeric_def)
    have ab: "?v a < ?v b \<or> (?v a = ?v b \<and> compare_keys keys a b < 0)"
      using Cons.prems(1) False num cdouble_trichotomy [of "?v a" "?v b"]
      by (auto simp: Let_def split: if_splits)
    have bd: "?v b < ?v d \<or> (?v b = ?v d \<and> compare_keys keys b d < 0)"
      using Cons.prems(2) False num cdouble_trichotomy [of "?v b" "?v d"]
      by (auto simp: Let_def split: if_splits)
    from ab bd have "?v a < ?v d \<or> (?v a = ?v d \<and> compare_keys keys a d < 0)"
      using Cons.IH by (auto dest: cdouble_less_trans)
    with False show ?thesis by (auto simp: Let_def)
  qed
qed

lemma compare_keys_irrefl: "\<not> compare_keys keys a a < 0"
  by (induction keys) (auto simp: Let_def)

text \<open>
  The loop invariant. \<open>seen\<close> are the candidates already visited: the best one so far passed
  the tests, no visited candidate that passed is better, and \<open>eligible\<close> says the active path
  passed.
\<close>

definition eval_inv ::
  "'w world \<Rightarrow> en_controller_state \<Rightarrow> selection_ctx \<Rightarrow> en_path_selection \<Rightarrow> string set \<Rightarrow>
   candidate option \<Rightarrow> bool \<Rightarrow> en_selection_result \<Rightarrow> bool" where
  "eval_inv w0 c x s seen best eligible r \<longleftrightarrow>
     (\<forall>b. best = Some b \<longrightarrow> (\<exists>cand\<in>seen. \<exists>i. passes w0 c x (ps_constraints s) cand i \<and> b = candidate_at c i)) \<and>
     (\<forall>cand\<in>seen. cand \<in> set (sr_excluded_path_ids r) \<or>
        (\<exists>i b. en_find_path c (Some cand) = Some i \<and> best = Some b \<and>
           (numeric_health c \<longrightarrow> \<not> compare_paths s (candidate_at c i) b < 0))) \<and>
     (eligible \<longrightarrow> (\<exists>cand\<in>seen. \<exists>i. sc_active_path_id x = Some cand \<and> passes w0 c x (ps_constraints s) cand i)) \<and>
     (\<forall>cand\<in>seen. sc_active_path_id x = Some cand \<and> cand \<notin> set (sr_excluded_path_ids r) \<longrightarrow> eligible) \<and>
     set (sr_excluded_path_ids r) \<subseteq> seen"

lemma eval_inv_excluded:
  "eval_inv w0 c x s seen best eligible r \<Longrightarrow> length cand < EN_MAX_ID_LEN \<Longrightarrow>
   eval_inv w0 c x s (insert cand seen) best eligible (add_excluded cand why r)"
  unfolding eval_inv_def add_excluded_def by (auto simp: cap_simps; blast)

lemma eval_inv_usable:
  assumes inv: "eval_inv w0 c x s seen best eligible r"
    and i: "passes w0 c x (ps_constraints s) cand i"
    and best': "best' = (case best of None \<Rightarrow> Some (candidate_at c i)
      | Some b \<Rightarrow> if compare_paths s (candidate_at c i) b < 0 then Some (candidate_at c i) else best)"
  shows "eval_inv w0 c x s (insert cand seen) best' (eligible \<or> sc_active_path_id x = Some cand) r"
proof -
  let ?n = "candidate_at c i"
  have find: "en_find_path c (Some cand) = Some i" using i by (simp add: passes_def)
  obtain b' where b': "best' = Some b'" "\<not> compare_paths s ?n b' < 0"
    "b' = ?n \<or> best = Some b'"
    using best' by (auto simp: compare_paths_def compare_keys_irrefl split: option.splits if_splits)
  have keep: "numeric_health c \<longrightarrow> \<not> compare_paths s (candidate_at c j) b' < 0"
    if "best = Some b" "numeric_health c \<longrightarrow> \<not> compare_paths s (candidate_at c j) b < 0" for j b
  proof
    assume nh: "numeric_health c"
    have "numeric b" using inv that(1) nh
      by (auto simp: eval_inv_def numeric_candidate_at)
    then show "\<not> compare_paths s (candidate_at c j) b' < 0"
      using that nh best' b'(1) numeric_candidate_at [OF nh]
        compare_keys_trans [of "candidate_at c j" "candidate_at c i" b "comparison_keys s"]
      by (auto simp: compare_paths_def split: if_splits)
  qed
  have A: "\<exists>cand\<in>insert cand seen. \<exists>i. passes w0 c x (ps_constraints s) cand i \<and> b' = candidate_at c i"
    using b'(3) inv i unfolding eval_inv_def by blast
  have B: "cd \<in> set (sr_excluded_path_ids r) \<or>
     (\<exists>j. en_find_path c (Some cd) = Some j \<and>
        (numeric_health c \<longrightarrow> \<not> compare_paths s (candidate_at c j) b' < 0))"
    if "cd \<in> insert cand seen" for cd
  proof (cases "cd = cand")
    case True
    with find b'(2) show ?thesis by blast
  next
    case False
    with that have "cd \<in> seen" by simp
    with inv keep show ?thesis unfolding eval_inv_def by blast
  qed
  have C: "eligible \<or> sc_active_path_id x = Some cand \<Longrightarrow>
     \<exists>cd\<in>insert cand seen. \<exists>i. sc_active_path_id x = Some cd \<and> passes w0 c x (ps_constraints s) cd i"
    using inv i unfolding eval_inv_def by blast
  have D: "\<forall>cd\<in>insert cand seen. sc_active_path_id x = Some cd \<and> cd \<notin> set (sr_excluded_path_ids r) \<longrightarrow>
      eligible \<or> sc_active_path_id x = Some cand"
    and E: "set (sr_excluded_path_ids r) \<subseteq> insert cand seen"
    using inv unfolding eval_inv_def by auto
  show ?thesis
    unfolding eval_inv_def using A B C D E b'(1) by (intro conjI) auto
qed

lemma evaluate_inv:
  assumes "run_state (evaluate_candidates c x s cands best eligible r) w = (Inr (best', eligible', r'), w')"
    and "wf_state c" "eval_inv w0 c x s seen best eligible r" "later w0 w"
  shows "eval_inv w0 c x s (seen \<union> set cands) best' eligible' r'"
  using assms
proof (induction cands arbitrary: best eligible r w seen)
  case Nil
  then show ?case by simp
next
  case (Cons cand cands)
  then obtain i where i: "en_find_path c (Some cand) = Some i"
    by (auto split: option.splits)
  have id: "pt_path_id (paths c ! i) = cand" and len: "length cand < EN_MAX_ID_LEN"
    using find_path_id [OF i] find_path_wf [OF Cons.prems(2) i] by auto
  obtain reason w1 where ex: "run_state (exclusion_reason c x (ps_constraints s) (paths c ! i)
      (health_of c (Some cand))) w = (reason, w1)"
    by (meson surj_pair)
  show ?case
  proof (cases reason)
    case (Some why)
    have "run_state (evaluate_candidates c x s cands best eligible (add_excluded cand why r)) w1
        = (Inr (best', eligible', r'), w')"
      using Cons.prems(1) i ex Some id by (simp add: Let_def)
    from Cons.IH [OF this Cons.prems(2) eval_inv_excluded [OF Cons.prems(3) len]
        later_exclusion [OF Cons.prems(4) ex]]
    show ?thesis by simp
  next
    case None
    have p: "passes w0 c x (ps_constraints s) cand i"
      using ex [unfolded None] i id Cons.prems(4) by (auto simp: passes_def)
    let ?b = "case best of None \<Rightarrow> Some (candidate_at c i)
      | Some b \<Rightarrow> if compare_paths s (candidate_at c i) b < 0 then Some (candidate_at c i) else best"
    have "run_state (evaluate_candidates c x s cands ?b
        (eligible \<or> sc_active_path_id x = Some cand) r) w1 = (Inr (best', eligible', r'), w')"
      using Cons.prems(1) i ex None id by (simp add: Let_def candidate_at_def en_streq_iff cong: option.case_cong if_cong)
    from Cons.IH [OF this Cons.prems(2) eval_inv_usable [OF Cons.prems(3) p refl]
        later_exclusion [OF Cons.prems(4) ex]]
    show ?thesis by simp
  qed
qed

text \<open>What a successful evaluated selection means, from the invariant at the end of the loop.\<close>

lemma evaluated_None:
  assumes "run_state (select_evaluated c x s r) w = ((EN_ERR_NONE, r'), w')" "wf_state c"
    and "sr_excluded_path_ids r = []"
  obtains b eligible cand i where
    "eval_inv w c x s (set (ps_candidates s)) (Some b) eligible r'"
    "cand \<in> set (ps_candidates s)" "passes w c x (ps_constraints s) cand i" "b = candidate_at c i"
    "if retained_by_hysteresis c x s eligible b
     then sc_active_path_id x = Some (sr_selected_path r') else sr_selected_path r' = cand"
proof -
  obtain res w1 where ev: "run_state (evaluate_candidates c x s (ps_candidates s) None False r) w = (res, w1)"
    by (meson surj_pair)
  with assms(1) obtain b eligible r1 where res: "res = Inr (Some b, eligible, r1)"
    by (auto simp: select_evaluated_def split: sum.splits option.splits)
  have "eval_inv w c x s {} None False r"
    using assms(3) by (simp add: eval_inv_def)
  from evaluate_inv [OF ev [unfolded res] assms(2) this later_refl]
  have inv: "eval_inv w c x s (set (ps_candidates s)) (Some b) eligible r1" by simp
  then obtain cand i where ci: "cand \<in> set (ps_candidates s)" "passes w c x (ps_constraints s) cand i"
      "b = candidate_at c i"
    unfolding eval_inv_def by blast
  have id: "pt_path_id (fst b) = cand" "length cand < EN_MAX_ID_LEN"
    using ci find_path_id [of c cand i] find_path_wf [OF assms(2), of cand i]
    by (auto simp: passes_def candidate_at_def)
  have r': "sr_excluded_path_ids r' = sr_excluded_path_ids r1" and
    sel: "sr_selected_path r' = (if retained_by_hysteresis c x s eligible b
      then en_copy_id EN_MAX_ID_LEN (sc_active_path_id x) else cand)"
    using assms(1) ev res id by (auto simp: select_evaluated_def cap_simps split: if_splits)
  have act: "\<exists>a. sc_active_path_id x = Some a \<and> length a < EN_MAX_ID_LEN"
    if "retained_by_hysteresis c x s eligible b"
  proof -
    have eligible
      using that by (auto simp: retained_by_hysteresis_def split: option.splits)
    with inv obtain a j where "sc_active_path_id x = Some a" "passes w c x (ps_constraints s) a j"
      unfolding eval_inv_def by blast
    then show ?thesis using find_path_wf [OF assms(2), of a j] by (auto simp: passes_def)
  qed
  show ?thesis
  proof (rule that [OF _ ci])
    show "eval_inv w c x s (set (ps_candidates s)) (Some b) eligible r'"
      using inv r' unfolding eval_inv_def by simp
    show "if retained_by_hysteresis c x s eligible b
      then sc_active_path_id x = Some (sr_selected_path r') else sr_selected_path r' = cand"
      using sel act by (auto simp: cap_simps)
  qed
qed

lemma en_select_path_modes:
  assumes "run_state (en_select_path c intent) w = ((EN_ERR_NONE, r), w')"
  obtains
    "ps_mode (it_path_selection intent) = EN_SELECT_EXPLICIT"
    "run_state (select_explicit c (selection_ctx_of c intent) (it_path_selection intent)
       zero_selection_result) w = ((EN_ERR_NONE, r), w')"
  | "ps_mode (it_path_selection intent) = EN_SELECT_PRIORITY"
    "run_state (select_priority c (selection_ctx_of c intent)
       (ps_constraints (it_path_selection intent)) (ps_candidates (it_path_selection intent))
       (start_result (it_path_selection intent))) w = ((EN_ERR_NONE, r), w')"
  | "ps_mode (it_path_selection intent) = EN_SELECT_EVALUATED"
    "run_state (select_evaluated c (selection_ctx_of c intent) (it_path_selection intent)
       (start_result (it_path_selection intent))) w = ((EN_ERR_NONE, r), w')"
  using assms
  by (auto simp: en_select_path_def Let_def split: if_splits en_path_selection_mode.splits)

lemma start_result_simps [simp]:
  "sr_excluded_path_ids (start_result s) = []"
  "sr_excluded_reasons (start_result s) = []"
  "sr_candidates (start_result s) = map (\<lambda>i. en_copy_id EN_MAX_ID_LEN (Some i)) (ps_candidates s)"
  by (simp_all add: start_result_def zero_selection_result_def)

lemma selected_passes:
  assumes "run_state (en_select_path c intent) w = ((EN_ERR_NONE, r), w')" "wf_state c"
  shows "\<exists>i. passes w c (selection_ctx_of c intent) (ps_constraints (it_path_selection intent))
    (sr_selected_path r) i"
  using assms(1)
proof (cases rule: en_select_path_modes)
  case 1
  then show ?thesis using explicit_None assms(2) by blast
next
  case 2
  from priority_None [OF 2(2) assms(2) later_refl] show ?thesis by blast
next
  case 3
  from 3(2) assms(2) start_result_simps(1) show ?thesis
  proof (rule evaluated_None)
    fix b eligible cand i
    assume inv: "eval_inv w c (selection_ctx_of c intent) (it_path_selection intent)
        (set (ps_candidates (it_path_selection intent))) (Some b) eligible r"
      and p: "passes w c (selection_ctx_of c intent) (ps_constraints (it_path_selection intent)) cand i"
      and sel: "if retained_by_hysteresis c (selection_ctx_of c intent) (it_path_selection intent) eligible b
        then sc_active_path_id (selection_ctx_of c intent) = Some (sr_selected_path r)
        else sr_selected_path r = cand"
    show ?thesis
    proof (cases "retained_by_hysteresis c (selection_ctx_of c intent) (it_path_selection intent) eligible b")
      case True
      then have eligible by (auto simp: retained_by_hysteresis_def split: option.splits)
      with inv True sel show ?thesis unfolding eval_inv_def by force
    next
      case False
      with sel p show ?thesis by auto
    qed
  qed
qed

section \<open>Properties\<close>

lemma run_fst_iff: "fst (run_state m w) = a \<longleftrightarrow> (\<exists>w'. run_state m w = (a, w'))"
  by (cases "run_state m w") auto

text \<open>
  C2. Whatever the mode, a path that selection returns exists in the controller and
  satisfies the intent's policy: it and all its nodes are administratively enabled, it
  avoids every forbidden waypoint, contains every required one, and its endpoints have the
  required capabilities. Its health is within the RTT and loss limits, and it is not
  unhealthy unless it is the active path below its failure threshold. If it is not the active
  path, then in standby it has reached the recovery threshold, and the hold-down of a usable
  active path does not cover every reading of the clock.
\<close>

theorem selected_path_satisfies_policy:
  assumes "fst (run_state (en_select_path c intent) w) = (EN_ERR_NONE, r)" and "wf_state c"
  shows "\<exists>i. en_find_path c (Some (sr_selected_path r)) = Some i \<and>
    satisfies_policy c (ps_constraints (it_path_selection intent)) (paths c ! i) \<and>
    path_usable (ps_constraints (it_path_selection intent))
      (en_streq (sc_active_path_id (selection_ctx_of c intent)) (Some (sr_selected_path r)))
      (health_of c (Some (sr_selected_path r))) \<and>
    recovered (ps_constraints (it_path_selection intent)) (selection_ctx_of c intent) (paths c ! i)
      (health_of c (Some (sr_selected_path r))) \<and>
    may_leave w (ps_constraints (it_path_selection intent)) (selection_ctx_of c intent) (paths c ! i)"
proof -
  obtain w' where "run_state (en_select_path c intent) w = ((EN_ERR_NONE, r), w')"
    using assms(1) by (auto simp: run_fst_iff)
  then obtain i where p: "passes w c (selection_ctx_of c intent) (ps_constraints (it_path_selection intent))
      (sr_selected_path r) i"
    using selected_passes assms(2) by blast
  then have find: "en_find_path c (Some (sr_selected_path r)) = Some i" by (simp add: passes_def)
  with passes_policy [OF p] passes_leaves [OF p] find_path_id [OF find] show ?thesis by auto
qed

text \<open>The intent of the witness wants the relay, forbids the hub and asks for a capability.\<close>

definition relay_only :: en_path_constraints where
  "relay_only = zero_constraints\<lparr>pc_forbidden_waypoints := [''hub-1''],
     pc_required_waypoints := [''relay-c''], pc_required_capabilities := [''can_rekey'']\<rparr>"

lemmas select_eval = en_select_path_def select_explicit_def select_evaluated_def selection_ctx_of_def
  en_make_traffic_key_def en_get_applied_path_def find_applied_def en_get_applied_since_ms_def
  en_find_path_def en_find_health_def health_of_def exclusion_reason_def exclusion_checks_def
  hold_down_guard_def path_nodes_enabled_def node_enabled_def en_find_node_def waypoint_contains_def
  path_supports_capabilities_def node_has_capability_def health_usable_def health_broken_def
  add_excluded_def start_result_def en_copy_id_def en_intent_counts_valid_def Let_def
  retained_by_hysteresis_def compare_paths_def comparison_keys_def primary_key_def
  en_path_hop_count_def d_of_int_def code_def

lemma select_relay:
  "fst (run_state (en_select_path sample_state (sample_intent EN_SELECT_EVALUATED relay_only)) (sample_world ()))
   = (EN_ERR_NONE, \<lparr>sr_selected_path = ''path-via-relay-c'',
      sr_candidates = [''path-via-hub'', ''path-direct'', ''path-via-relay-c''],
      sr_excluded_path_ids = [''path-via-hub'', ''path-direct''],
      sr_excluded_reasons = [''forbidden waypoint constraint violation'',
        ''required waypoint constraint violation''],
      sr_reason = ''best evaluated candidate by comparison_order''\<rparr>)"
  by (simp add: select_eval sample_defs relay_only_def)

theorem selected_path_satisfies_policy_witness:
  "\<exists>i. en_find_path sample_state (Some ''path-via-relay-c'') = Some i \<and>
    satisfies_policy sample_state relay_only (paths sample_state ! i)"
  using selected_path_satisfies_policy [OF select_relay wf_sample_state]
  by (auto simp: sample_intent_def)

lemma evaluate_None_keeps:
  "run_state (evaluate_candidates c x s cands (Some b) e r) w = (Inr (best', e', r'), w') \<Longrightarrow> best' \<noteq> None"
proof (induction cands arbitrary: b e r w)
  case Nil
  then show ?case by (cases b) auto
next
  case (Cons cand cands)
  then obtain i where i: "en_find_path c (Some cand) = Some i"
    by (auto split: option.splits)
  obtain reason w1 where ex: "run_state (exclusion_reason c x (ps_constraints s) (paths c ! i)
      (health_of c (Some (pt_path_id (paths c ! i))))) w = (reason, w1)"
    by (meson surj_pair)
  have "\<exists>b1 e1 r1. run_state (evaluate_candidates c x s cands (Some b1) e1 r1) w1 = (Inr (best', e', r'), w')"
  proof (cases reason)
    case None
    then show ?thesis using Cons.prems i ex
      by (cases b; cases "compare_paths s (candidate_at c i) b < 0") (auto simp: Let_def candidate_at_def)
  next
    case (Some why)
    then show ?thesis using Cons.prems i ex by (cases b) (auto simp: Let_def)
  qed
  then show ?case using Cons.IH by blast
qed

lemma evaluate_all_excluded:
  assumes "run_state (evaluate_candidates c x s cands None e r) w = (Inr (None, e', r'), w')" "wf_state c"
  shows "sr_excluded_path_ids r' = sr_excluded_path_ids r @ cands \<and> sr_candidates r' = sr_candidates r \<and>
    length (sr_excluded_reasons r') = length (sr_excluded_reasons r) + length cands"
  using assms(1)
proof (induction cands arbitrary: e r w)
  case Nil
  then show ?case by simp
next
  case (Cons cand cands)
  then obtain i where i: "en_find_path c (Some cand) = Some i"
    by (auto split: option.splits)
  have len: "length cand < EN_MAX_ID_LEN" and id: "pt_path_id (paths c ! i) = cand"
    using find_path_wf [OF assms(2) i] find_path_id [OF i] by auto
  obtain reason w1 where ex: "run_state (exclusion_reason c x (ps_constraints s) (paths c ! i)
      (health_of c (Some cand))) w = (reason, w1)"
    by (meson surj_pair)
  from Cons.prems i ex id obtain why where "reason = Some why"
    using evaluate_None_keeps by (cases reason) (fastforce simp: Let_def)+
  with Cons.prems i ex id have "run_state (evaluate_candidates c x s cands None e (add_excluded cand why r)) w1
      = (Inr (None, e', r'), w')"
    by (simp add: Let_def)
  from Cons.IH [OF this] show ?case
    by (simp add: add_excluded_def cap_simps len)
qed

lemma priority_all_excluded:
  assumes "run_state (select_priority c x k cands r) w = ((EN_ERR_NO_CANDIDATE, r'), w')" "wf_state c"
  shows "sr_excluded_path_ids r' = sr_excluded_path_ids r @ cands \<and> sr_candidates r' = sr_candidates r \<and>
    length (sr_excluded_reasons r') = length (sr_excluded_reasons r) + length cands"
  using assms(1)
proof (induction cands arbitrary: r w)
  case Nil
  then show ?case by simp
next
  case (Cons cand cands)
  then obtain i where i: "en_find_path c (Some cand) = Some i"
    by (auto split: option.splits)
  have len: "length cand < EN_MAX_ID_LEN" and id: "pt_path_id (paths c ! i) = cand"
    using find_path_wf [OF assms(2) i] find_path_id [OF i] by auto
  obtain reason w1 where ex: "run_state (exclusion_reason c x k (paths c ! i)
      (health_of c (Some cand))) w = (reason, w1)"
    by (meson surj_pair)
  from Cons.prems i ex id obtain why where "reason = Some why"
    by (cases reason) (auto simp: Let_def)
  with Cons.prems i ex id have "run_state (select_priority c x k cands (add_excluded cand why r)) w1
      = ((EN_ERR_NO_CANDIDATE, r'), w')"
    by (simp add: Let_def)
  from Cons.IH [OF this] show ?case
    by (simp add: add_excluded_def cap_simps len)
qed

text \<open>
  In priority mode the selected path is the first usable candidate: it is some candidate
  of the list, and the explanation lists exactly the candidates before it, in order, as
  excluded.
\<close>

lemma priority_selects_first_usable:
  assumes "fst (run_state (en_select_path c intent) w) = (EN_ERR_NONE, r)" and "wf_state c"
    and "ps_mode (it_path_selection intent) = EN_SELECT_PRIORITY"
  shows "\<exists>n < length (ps_candidates (it_path_selection intent)).
    sr_selected_path r = ps_candidates (it_path_selection intent) ! n \<and>
    sr_excluded_path_ids r = take n (ps_candidates (it_path_selection intent))"
proof -
  obtain w' where "run_state (en_select_path c intent) w = ((EN_ERR_NONE, r), w')"
    using assms(1) by (auto simp: run_fst_iff)
  then have "run_state (select_priority c (selection_ctx_of c intent)
       (ps_constraints (it_path_selection intent)) (ps_candidates (it_path_selection intent))
       (start_result (it_path_selection intent))) w = ((EN_ERR_NONE, r), w')"
    using assms(3) by (cases rule: en_select_path_modes) auto
  from priority_None [OF this assms(2) later_refl] show ?thesis by auto
qed

definition avoid_hub :: en_path_constraints where
  "avoid_hub = zero_constraints\<lparr>pc_forbidden_waypoints := [''hub-1'']\<rparr>"

lemma priority_selects_first_usable_witness:
  "\<exists>r. fst (run_state (en_select_path sample_state (sample_intent EN_SELECT_PRIORITY avoid_hub)) (sample_world ()))
     = (EN_ERR_NONE, r) \<and>
   (\<exists>n < 3. sr_selected_path r = [''path-via-hub'', ''path-direct'', ''path-via-relay-c''] ! n \<and>
    sr_excluded_path_ids r = take n [''path-via-hub'', ''path-direct'', ''path-via-relay-c''])"
proof -
  let ?i = "sample_intent EN_SELECT_PRIORITY avoid_hub"
  let ?r = "\<lparr>sr_selected_path = ''path-direct'',
      sr_candidates = [''path-via-hub'', ''path-direct'', ''path-via-relay-c''],
      sr_excluded_path_ids = [''path-via-hub''],
      sr_excluded_reasons = [''forbidden waypoint constraint violation''],
      sr_reason = ''first usable priority candidate''\<rparr>"
  have run: "fst (run_state (en_select_path sample_state ?i) (sample_world ())) = (EN_ERR_NONE, ?r)"
    by (simp add: select_eval sample_defs avoid_hub_def)
  have "ps_mode (it_path_selection ?i) = EN_SELECT_PRIORITY" by (simp add: sample_intent_def)
  note first = priority_selects_first_usable [OF run wf_sample_state this]
  have "ps_candidates (it_path_selection ?i) = [''path-via-hub'', ''path-direct'', ''path-via-relay-c'']"
    by (simp add: sample_intent_def)
  then have "\<exists>n < 3. sr_selected_path ?r = [''path-via-hub'', ''path-direct'', ''path-via-relay-c''] ! n \<and>
      sr_excluded_path_ids ?r = take n [''path-via-hub'', ''path-direct'', ''path-via-relay-c'']"
    using first by (simp add: eval_nat_numeral)
  with run show ?thesis by (intro exI [of _ ?r] conjI)
qed

text \<open>
  C11. A selection over candidates that reports "no candidate" has excluded every candidate:
  the explanation lists all of them in order, with one reason each.
\<close>

theorem no_candidate_excludes_all:
  assumes "fst (run_state (en_select_path c intent) w) = (EN_ERR_NO_CANDIDATE, r)" and "wf_state c"
    and "ps_mode (it_path_selection intent) \<noteq> EN_SELECT_EXPLICIT"
  shows "sr_excluded_path_ids r = ps_candidates (it_path_selection intent) \<and>
    length (sr_excluded_reasons r) = length (ps_candidates (it_path_selection intent))"
proof -
  let ?s = "it_path_selection intent"
  obtain w' where run: "run_state (en_select_path c intent) w = ((EN_ERR_NO_CANDIDATE, r), w')"
    using assms(1) by (auto simp: run_fst_iff)
  show ?thesis
  proof (cases "ps_mode ?s")
    case EN_SELECT_PRIORITY
    with run priority_all_excluded [OF _ assms(2)] show ?thesis
      by (fastforce simp: en_select_path_def Let_def split: if_splits)
  next
    case EN_SELECT_EVALUATED
    obtain res w1 where ev: "run_state (evaluate_candidates c (selection_ctx_of c intent) ?s
        (ps_candidates ?s) None False (start_result ?s)) w = (res, w1)"
      by (meson surj_pair)
    with run EN_SELECT_EVALUATED obtain e where "res = Inr (None, e, r)"
      by (auto simp: en_select_path_def select_evaluated_def Let_def
          split: if_splits sum.splits option.splits)
    with ev evaluate_all_excluded [OF _ assms(2)] show ?thesis by fastforce
  qed (use assms(3) in simp)
qed

definition avoid_all :: en_path_constraints where
  "avoid_all = zero_constraints\<lparr>pc_required_waypoints := [''nowhere'']\<rparr>"

theorem no_candidate_excludes_all_witness:
  "\<exists>r. fst (run_state (en_select_path sample_state (sample_intent EN_SELECT_EVALUATED avoid_all)) (sample_world ()))
     = (EN_ERR_NO_CANDIDATE, r) \<and>
   sr_excluded_path_ids r = [''path-via-hub'', ''path-direct'', ''path-via-relay-c'']"
proof -
  let ?i = "sample_intent EN_SELECT_EVALUATED avoid_all"
  let ?c = "[''path-via-hub'', ''path-direct'', ''path-via-relay-c'']"
  let ?r = "\<lparr>sr_selected_path = [], sr_candidates = ?c, sr_excluded_path_ids = ?c,
      sr_excluded_reasons = replicate 3 ''required waypoint constraint violation'', sr_reason = []\<rparr>"
  have run: "fst (run_state (en_select_path sample_state ?i) (sample_world ())) = (EN_ERR_NO_CANDIDATE, ?r)"
    by (simp add: select_eval sample_defs avoid_all_def eval_nat_numeral)
  have "ps_mode (it_path_selection ?i) \<noteq> EN_SELECT_EXPLICIT" by (simp add: sample_intent_def)
  from no_candidate_excludes_all [OF run wf_sample_state this] run show ?thesis
    by (auto simp: sample_intent_def)
qed

text \<open>The health of the active path is that of its record.\<close>

lemma active_health_of: "sc_active_health (selection_ctx_of c intent) = Some ah \<Longrightarrow>
  health_of c (sc_active_path_id (selection_ctx_of c intent)) = Some ah"
  by (simp add: selection_ctx_of_def Let_def split: if_splits)

text \<open>
  C8. Where no metric is NaN, the evaluated mode determines a candidate that no candidate which passed the exclusion
  tests compares before, in the comparison order of the intent. It selects this candidate, unless the intent has a
  hysteresis: then it may keep the active path, and only if the improvement of the candidate over the active path in
  the first key is below the hysteresis.
\<close>

theorem evaluated_selects_optimum:
  assumes "fst (run_state (en_select_path c intent) w) = (EN_ERR_NONE, r)" and "wf_state c"
    and "ps_mode (it_path_selection intent) = EN_SELECT_EVALUATED" and "numeric_health c"
  shows "\<exists>best j. best \<in> set (ps_candidates (it_path_selection intent)) \<and> en_find_path c (Some best) = Some j \<and>
    (\<forall>cand\<in>set (ps_candidates (it_path_selection intent)) - set (sr_excluded_path_ids r).
       \<exists>i. en_find_path c (Some cand) = Some i \<and>
         \<not> compare_paths (it_path_selection intent) (candidate_at c i) (candidate_at c j) < 0) \<and>
    (sr_selected_path r = best \<or>
     (\<exists>i. pc_has_hysteresis_percent (ps_constraints (it_path_selection intent)) \<and>
        sc_active_path_id (selection_ctx_of c intent) = Some (sr_selected_path r) \<and>
        en_find_path c (Some (sr_selected_path r)) = Some i \<and>
        improvement_percent (metric_value (paths c ! i) (snd (candidate_at c i)) (primary_key (it_path_selection intent)))
          (metric_value (paths c ! j) (snd (candidate_at c j)) (primary_key (it_path_selection intent)))
        < pc_hysteresis_percent (ps_constraints (it_path_selection intent))))"
proof -
  let ?s = "it_path_selection intent" and ?x = "selection_ctx_of c intent"
  obtain w' where "run_state (en_select_path c intent) w = ((EN_ERR_NONE, r), w')"
    using assms(1) by (auto simp: run_fst_iff)
  then have "run_state (select_evaluated c ?x ?s (start_result ?s)) w = ((EN_ERR_NONE, r), w')"
    using assms(3) by (cases rule: en_select_path_modes) auto
  from this assms(2) start_result_simps(1) show ?thesis
  proof (rule evaluated_None)
    fix b eligible sel j
    assume inv: "eval_inv w c ?x ?s (set (ps_candidates ?s)) (Some b) eligible r"
      and sel: "sel \<in> set (ps_candidates ?s)" and p: "passes w c ?x (ps_constraints ?s) sel j" and b: "b = candidate_at c j"
      and res: "if retained_by_hysteresis c ?x ?s eligible b
        then sc_active_path_id ?x = Some (sr_selected_path r) else sr_selected_path r = sel"
    have best: "\<forall>cand\<in>set (ps_candidates ?s) - set (sr_excluded_path_ids r).
        \<exists>i. en_find_path c (Some cand) = Some i \<and> \<not> compare_paths ?s (candidate_at c i) (candidate_at c j) < 0"
      using inv b assms(4) unfolding eval_inv_def by blast
    have kept: "sr_selected_path r = sel \<or>
      (\<exists>i. pc_has_hysteresis_percent (ps_constraints ?s) \<and> sc_active_path_id ?x = Some (sr_selected_path r) \<and>
        en_find_path c (Some (sr_selected_path r)) = Some i \<and>
        improvement_percent (metric_value (paths c ! i) (snd (candidate_at c i)) (primary_key ?s))
          (metric_value (paths c ! j) (snd (candidate_at c j)) (primary_key ?s)) < pc_hysteresis_percent (ps_constraints ?s))"
    proof (cases "retained_by_hysteresis c ?x ?s eligible b")
      case True
      then obtain ah i where ah: "sc_active_health ?x = Some ah" and i: "en_find_path c (sc_active_path_id ?x) = Some i"
        and small: "improvement_percent (metric_value (paths c ! i) (Some ah) (primary_key ?s))
          (metric_value (fst b) (snd b) (primary_key ?s)) < pc_hysteresis_percent (ps_constraints ?s)"
        and has: "pc_has_hysteresis_percent (ps_constraints ?s)"
        unfolding retained_by_hysteresis_def by (auto split: option.splits)
      have act: "sc_active_path_id ?x = Some (sr_selected_path r)" using res True by simp
      then have "health_of c (Some (pt_path_id (paths c ! i))) = Some ah"
        using active_health_of [OF ah] find_path_id i by fastforce
      with act i small has b show ?thesis by (simp add: candidate_at_def)
    qed (use res in simp)
    from sel p best kept show ?thesis unfolding passes_def by blast
  qed
qed

lemma select_fastest:
  "fst (run_state (en_select_path sample_state (sample_intent EN_SELECT_EVALUATED avoid_hub)) (sample_world ()))
   = (EN_ERR_NONE, \<lparr>sr_selected_path = ''path-direct'',
      sr_candidates = [''path-via-hub'', ''path-direct'', ''path-via-relay-c''],
      sr_excluded_path_ids = [''path-via-hub''],
      sr_excluded_reasons = [''forbidden waypoint constraint violation''],
      sr_reason = ''best evaluated candidate by comparison_order''\<rparr>)"
  by (simp add: select_eval sample_defs avoid_hub_def)

theorem evaluated_selects_optimum_witness:
  "\<exists>best j. en_find_path sample_state (Some best) = Some j \<and> best = ''path-direct'' \<and>
    (\<exists>i. en_find_path sample_state (Some ''path-via-relay-c'') = Some i \<and>
      \<not> compare_paths (it_path_selection (sample_intent EN_SELECT_EVALUATED avoid_hub))
        (candidate_at sample_state i) (candidate_at sample_state j) < 0)"
proof -
  let ?i = "sample_intent EN_SELECT_EVALUATED avoid_hub"
  have "ps_mode (it_path_selection ?i) = EN_SELECT_EVALUATED" "numeric_health sample_state"
    and facts: "\<not> pc_has_hysteresis_percent (ps_constraints (it_path_selection ?i))"
      "''path-via-relay-c'' \<in> set (ps_candidates (it_path_selection ?i))"
    by (simp_all add: sample_defs avoid_hub_def numeric_health_def)
  with evaluated_selects_optimum [OF select_fastest wf_sample_state] show ?thesis by fastforce
qed

text \<open>
  C9. Hysteresis: when the active path is a usable candidate with measured, usable health,
  and the intent has a positive hysteresis and a first comparison key other than the path
  id, whose values are finite, selection leaves it only for a path whose value of that key is
  strictly smaller and improves on it by at least the hysteresis: the difference, in percent
  of the value of the active path or of 1 if that is larger, is not below it.
\<close>

theorem hysteresis_leaves_only_for_better:
  assumes "fst (run_state (en_select_path c intent) w) = (EN_ERR_NONE, r)" and "wf_state c"
    and "ps_mode (it_path_selection intent) = EN_SELECT_EVALUATED"
    and "sc_active_path_id (selection_ctx_of c intent) = Some a"
    and "a \<in> set (ps_candidates (it_path_selection intent))" and "a \<notin> set (sr_excluded_path_ids r)"
    and "sc_active_health (selection_ctx_of c intent) = Some ah" and "health_usable ah"
    and "pc_has_hysteresis_percent (ps_constraints (it_path_selection intent))"
    and "Fin 0 < pc_hysteresis_percent (ps_constraints (it_path_selection intent))"
    and "primary_key (it_path_selection intent) \<noteq> EN_COMPARE_PATH_ID"
    and "\<forall>i<length (paths c). isfinite (metric_value (paths c ! i) (health_of c (Some (pt_path_id (paths c ! i))))
           (primary_key (it_path_selection intent)))"
  shows "sr_selected_path r = a \<or>
    (\<exists>i j. en_find_path c (Some a) = Some i \<and> en_find_path c (Some (sr_selected_path r)) = Some j \<and>
      metric_value (paths c ! j) (snd (candidate_at c j)) (primary_key (it_path_selection intent)) <
      metric_value (paths c ! i) (snd (candidate_at c i)) (primary_key (it_path_selection intent)) \<and>
      \<not> d_mul (d_div (d_sub
            (metric_value (paths c ! i) (snd (candidate_at c i)) (primary_key (it_path_selection intent)))
            (metric_value (paths c ! j) (snd (candidate_at c j)) (primary_key (it_path_selection intent))))
          (fmax (fabs (metric_value (paths c ! i) (snd (candidate_at c i)) (primary_key (it_path_selection intent)))) (Fin 1)))
        (Fin 100)
        < pc_hysteresis_percent (ps_constraints (it_path_selection intent)))"
proof -
  let ?s = "it_path_selection intent" and ?x = "selection_ctx_of c intent"
  let ?m = "\<lambda>i. metric_value (paths c ! i) (snd (candidate_at c i)) (primary_key ?s)"
  obtain w' where "run_state (en_select_path c intent) w = ((EN_ERR_NONE, r), w')"
    using assms(1) by (auto simp: run_fst_iff)
  then have "run_state (select_evaluated c ?x ?s (start_result ?s)) w = ((EN_ERR_NONE, r), w')"
    using assms(3) by (cases rule: en_select_path_modes) auto
  from this assms(2) start_result_simps(1) show ?thesis
  proof (rule evaluated_None)
    fix b eligible sel j
    assume inv: "eval_inv w c ?x ?s (set (ps_candidates ?s)) (Some b) eligible r"
      and p: "passes w c ?x (ps_constraints ?s) sel j" and b: "b = candidate_at c j"
      and res: "if retained_by_hysteresis c ?x ?s eligible b
        then sc_active_path_id ?x = Some (sr_selected_path r) else sr_selected_path r = sel"
    have el: eligible using inv assms(4-6) unfolding eval_inv_def by blast
    then obtain i where i: "en_find_path c (Some a) = Some i"
      using inv assms(4) unfolding eval_inv_def passes_def by auto
    have j: "en_find_path c (Some sel) = Some j" "pt_path_id (fst b) = sel"
      using p find_path_id [of c sel j] b by (auto simp: passes_def candidate_at_def)
    have ah: "health_of c (Some (pt_path_id (paths c ! i))) = Some ah"
      using assms(4,7) find_path_id [OF i]
      by (auto simp: selection_ctx_of_def Let_def split: if_splits)
    have fin: "isfinite (?m i)" "isfinite (?m j)"
      using assms(12) find_path_id [OF i, THEN conjunct2] find_path_id [OF j(1), THEN conjunct2]
      by (simp_all add: candidate_at_def)
    have worse: "improvement_percent (?m i) (?m j) < pc_hysteresis_percent (ps_constraints ?s)" if "\<not> ?m j < ?m i"
    proof -
      obtain d where d: "1 \<le> d" "fmax (fabs (?m i)) (Fin 1) = Fin d"
        using fmax_fabs_1 [OF fin(1)] by auto
      have "\<not> Fin 0 < improvement_percent (?m i) (?m j) \<and> improvement_percent (?m i) (?m j) \<noteq> NaN"
        unfolding improvement_percent_def d(2)
        by (intro d_mul_nonpos d_div_nonpos [THEN conjunct1] d_div_nonpos [THEN conjunct2]
            d_sub_nonpos [THEN conjunct1] d_sub_nonpos [THEN conjunct2] fin that d(1)) simp
      then show ?thesis
        using assms(10)
        by (cases "improvement_percent (?m i) (?m j)"; cases "pc_hysteresis_percent (ps_constraints ?s)") auto
    qed
    have retained: "retained_by_hysteresis c ?x ?s eligible b \<or> sel = a"
      if "improvement_percent (?m i) (?m j) < pc_hysteresis_percent (ps_constraints ?s)"
      using that el i j assms(4,7,8,9,11) b ah
      by (simp add: retained_by_hysteresis_def candidate_at_def disj_commute)
    show ?thesis
    proof (cases "improvement_percent (?m i) (?m j) < pc_hysteresis_percent (ps_constraints ?s)")
      case True
      from retained [OF this] res assms(4) show ?thesis by (auto split: if_splits)
    next
      case False
      with worse have "?m j < ?m i" by blast
      with False res i j assms(4) show ?thesis unfolding improvement_percent_def by (auto split: if_splits)
    qed
  qed
qed

text \<open>The witness: hub and relay tie on the hop count, so the active relay is retained.\<close>

definition hop_intent :: en_intent where
  "hop_intent = zero_intent\<lparr>it_traffic := it_traffic (sample_intent EN_SELECT_EVALUATED zero_constraints),
     it_path_selection := \<lparr>ps_mode = EN_SELECT_EVALUATED, ps_path_id = [],
       ps_candidates = [''path-via-hub'', ''path-via-relay-c''],
       ps_constraints = zero_constraints\<lparr>pc_has_hysteresis_percent := True,
         pc_hysteresis_percent := Fin 20\<rparr>,
       ps_comparison_order = [EN_COMPARE_HOP_COUNT]\<rparr>\<rparr>"

theorem hysteresis_leaves_only_for_better_witness:
  "fst (run_state (en_select_path (sample_active ''path-via-relay-c'') hop_intent) (sample_world ()))
     = (EN_ERR_NONE, \<lparr>sr_selected_path = ''path-via-relay-c'',
        sr_candidates = [''path-via-hub'', ''path-via-relay-c''], sr_excluded_path_ids = [],
        sr_excluded_reasons = [], sr_reason = ''active path retained by hysteresis''\<rparr>) \<and>
   (\<exists>i. en_find_path (sample_active ''path-via-relay-c'') (Some ''path-via-relay-c'') = Some i)"
  (is "fst (run_state (en_select_path ?c _) _) = (_, ?r) \<and> _")
proof -
  have run: "fst (run_state (en_select_path ?c hop_intent) (sample_world ())) = (EN_ERR_NONE, ?r)"
    by (simp add: select_eval sample_defs hop_intent_def improvement_percent_def d_sub_def d_div_def
        d_mul_def fmax_def)
  have wf: "wf_state ?c" by (simp add: wf_sample_active)
  have "ps_mode (it_path_selection hop_intent) = EN_SELECT_EVALUATED"
    "sc_active_path_id (selection_ctx_of ?c hop_intent) = Some ''path-via-relay-c''"
    "''path-via-relay-c'' \<in> set (ps_candidates (it_path_selection hop_intent))"
    "''path-via-relay-c'' \<notin> set (sr_excluded_path_ids ?r)"
    "sc_active_health (selection_ctx_of ?c hop_intent) = Some (sample_health ''path-via-relay-c'' 30)"
    "health_usable (sample_health ''path-via-relay-c'' 30)"
    "pc_has_hysteresis_percent (ps_constraints (it_path_selection hop_intent))"
    "Fin 0 < pc_hysteresis_percent (ps_constraints (it_path_selection hop_intent))"
    "primary_key (it_path_selection hop_intent) \<noteq> EN_COMPARE_PATH_ID"
    "\<forall>i<length (paths ?c). isfinite (metric_value (paths ?c ! i) (health_of ?c (Some (pt_path_id (paths ?c ! i))))
       (primary_key (it_path_selection hop_intent)))"
    by (simp_all add: hop_intent_def sample_defs select_eval)
  from hysteresis_leaves_only_for_better [OF run wf this] run show ?thesis
    by (auto simp: en_find_path_def sample_defs)
qed

text \<open>
  C10. Hold-down: while the applied path has measured, usable health and every clock reading
  of the selection lies inside the hold-down interval that began when the path was applied,
  a successful selection returns the applied path, in every mode.
\<close>

theorem hold_down_keeps_active_path:
  assumes "fst (run_state (en_select_path c intent) w) = (EN_ERR_NONE, r)" and "wf_state c"
    and "sc_active_path_id (selection_ctx_of c intent) = Some a" and "a \<noteq> []"
    and "sc_active_health (selection_ctx_of c intent) = Some ah" and "health_usable ah"
    and "0 < sc_active_since_ms (selection_ctx_of c intent)"
    and "0 < pc_hold_down_ms (ps_constraints (it_path_selection intent))"
    and "\<And>n. ticks w \<le> n \<Longrightarrow> sc_active_since_ms (selection_ctx_of c intent) \<le> clock w n \<and>
      clock w n < sc_active_since_ms (selection_ctx_of c intent) +
        pc_hold_down_ms (ps_constraints (it_path_selection intent))"
  shows "sr_selected_path r = a"
proof (rule ccontr)
  assume other: "sr_selected_path r \<noteq> a"
  let ?x = "selection_ctx_of c intent" and ?k = "ps_constraints (it_path_selection intent)"
  obtain w' where "run_state (en_select_path c intent) w = ((EN_ERR_NONE, r), w')"
    using assms(1) by (auto simp: run_fst_iff)
  then obtain i where p: "passes w c ?x ?k (sr_selected_path r) i"
    using selected_passes assms(2) by blast
  then obtain w1 w2 where ex: "run_state (exclusion_reason c ?x ?k (paths c ! i)
      (health_of c (Some (pt_path_id (paths c ! i))))) w1 = (None, w2)" and "later w w1"
    unfolding passes_def by blast
  have "pt_path_id (paths c ! i) = sr_selected_path r"
    using p find_path_id by (auto simp: passes_def)
  with other assms(3-8) have "hold_down_guard ?x ?k
      (en_streq (sc_active_path_id ?x) (Some (pt_path_id (paths c ! i))))"
    by (auto simp: hold_down_guard_def selection_ctx_of_def Let_def)
  from hold_down_excludes [OF ex this] assms(9) [of "ticks w1"] \<open>later w w1\<close> show False
    by (auto simp: later_def)
qed

definition hold_down :: en_path_constraints where
  "hold_down = zero_constraints\<lparr>pc_hold_down_ms := 5000\<rparr>"

theorem hold_down_keeps_active_path_witness:
  "\<exists>r. fst (run_state (en_select_path (sample_active ''path-via-hub'')
       (sample_intent EN_SELECT_EVALUATED hold_down)) ((sample_world ())\<lparr>clock := \<lambda>_. 1000\<rparr>)) = (EN_ERR_NONE, r) \<and>
     sr_selected_path r = ''path-via-hub'' \<and>
     sr_excluded_reasons r = replicate 2 ''active path hold-down not elapsed''"
proof -
  let ?c = "sample_active ''path-via-hub''" and ?i = "sample_intent EN_SELECT_EVALUATED hold_down"
  let ?w = "(sample_world ())\<lparr>clock := \<lambda>_. 1000\<rparr>"
  let ?r = "\<lparr>sr_selected_path = ''path-via-hub'',
    sr_candidates = [''path-via-hub'', ''path-direct'', ''path-via-relay-c''],
    sr_excluded_path_ids = [''path-direct'', ''path-via-relay-c''],
    sr_excluded_reasons = replicate 2 ''active path hold-down not elapsed'',
    sr_reason = ''best evaluated candidate by comparison_order''\<rparr>"
  have run: "fst (run_state (en_select_path ?c ?i) ?w) = (EN_ERR_NONE, ?r)"
    by (simp add: select_eval sample_defs hold_down_def eval_nat_numeral)
  have wf: "wf_state ?c" by (simp add: wf_sample_active)
  have "sr_selected_path ?r = ''path-via-hub''"
    by (rule hold_down_keeps_active_path [OF run wf, of _ "sample_health ''path-via-hub'' 20"])
      (simp_all add: select_eval sample_defs hold_down_def)
  with run show ?thesis by (intro exI [of _ ?r] conjI) simp_all
qed

text \<open>The sizes of an explanation, in terms of its buffers.\<close>

definition explanation_within :: "nat \<Rightarrow> en_selection_result \<Rightarrow> bool" where
  "explanation_within n r \<longleftrightarrow>
     length (sr_excluded_path_ids r) \<le> n \<and> length (sr_excluded_reasons r) \<le> n \<and>
     list_all (\<lambda>x. length x < EN_MAX_ID_LEN) (sr_excluded_path_ids r) \<and>
     list_all (\<lambda>x. length x < 128) (sr_excluded_reasons r) \<and>
     length (sr_candidates r) \<le> EN_MAX_CANDIDATES \<and>
     list_all (\<lambda>x. length x < EN_MAX_ID_LEN) (sr_candidates r) \<and>
     length (sr_selected_path r) < EN_MAX_ID_LEN \<and> length (sr_reason r) < 128"

lemma explanation_add_excluded:
  "explanation_within n r \<Longrightarrow> explanation_within (Suc n) (add_excluded i why r)"
  by (simp add: explanation_within_def add_excluded_def cap_simps)

lemma explanation_mono: "explanation_within n r \<Longrightarrow> n \<le> m \<Longrightarrow> explanation_within m r"
  by (auto simp: explanation_within_def)

lemma explanation_select:
  "explanation_within n r \<Longrightarrow> length why < 128 \<Longrightarrow>
   explanation_within n (r\<lparr>sr_selected_path := en_copy_id EN_MAX_ID_LEN q, sr_reason := why\<rparr>)"
  by (simp add: explanation_within_def cap_simps)

lemma priority_within:
  "explanation_within n r \<Longrightarrow> n + length cands \<le> m \<Longrightarrow>
   explanation_within m (snd (fst (run_state (select_priority c x k cands r) w)))"
proof (induction cands arbitrary: n r w)
  case Nil
  then show ?case by (auto intro: explanation_mono)
next
  case (Cons cand cands)
  have r: "explanation_within m r" using Cons.prems by (auto intro: explanation_mono)
  show ?case
  proof (cases "en_find_path c (Some cand)")
    case None
    with r show ?thesis by simp
  next
    case (Some i)
    obtain reason w1 where ex: "run_state (exclusion_reason c x k (paths c ! i)
        (health_of c (Some (pt_path_id (paths c ! i))))) w = (reason, w1)"
      by (meson surj_pair)
    have step: "explanation_within (Suc n) (add_excluded i why r)" for i why
      using Cons.prems(1) by (rule explanation_add_excluded)
    show ?thesis
      using Some ex Cons.IH [OF step] Cons.prems(2) explanation_select [OF r]
      by (cases reason) (simp_all add: Let_def)
  qed
qed

lemma evaluate_within:
  "explanation_within n r \<Longrightarrow> n + length cands \<le> m \<Longrightarrow>
   (case fst (run_state (evaluate_candidates c x s cands best e r) w) of
      Inl r' \<Rightarrow> explanation_within m r' | Inr (_, _, r') \<Rightarrow> explanation_within m r')"
proof (induction cands arbitrary: n r w best e)
  case Nil
  then show ?case by (auto intro: explanation_mono)
next
  case (Cons cand cands)
  have r: "explanation_within m r" using Cons.prems by (auto intro: explanation_mono)
  show ?case
  proof (cases "en_find_path c (Some cand)")
    case None
    with r show ?thesis by simp
  next
    case (Some i)
    obtain reason w1 where ex: "run_state (exclusion_reason c x (ps_constraints s) (paths c ! i)
        (health_of c (Some (pt_path_id (paths c ! i))))) w = (reason, w1)"
      by (meson surj_pair)
    have step: "explanation_within (Suc n) (add_excluded i why r)" for i why
      using Cons.prems(1) by (rule explanation_add_excluded)
    show ?thesis
      using Some ex Cons.IH [OF step] Cons.IH [OF Cons.prems(1)] Cons.prems(2)
      by (cases reason) (simp_all add: Let_def)
  qed
qed

text \<open>
  The explanation fits its arrays: for any intent and any controller state, with any
  outcome, selection writes at most \<open>EN_MAX_CANDIDATES\<close> candidates and excluded entries, and
  every string it writes fits its buffer.
\<close>

theorem selection_explanation_fits:
  "explanation_within EN_MAX_CANDIDATES (snd (fst (run_state (en_select_path c intent) w)))"
proof (cases "en_intent_counts_valid intent")
  case False
  then show ?thesis
    by (simp add: en_select_path_def Let_def explanation_within_def zero_selection_result_def)
next
  case True
  let ?s = "it_path_selection intent" and ?x = "selection_ctx_of c intent"
  have n: "length (ps_candidates ?s) \<le> EN_MAX_CANDIDATES"
    using True by (simp add: en_intent_counts_valid_def Let_def)
  then have start: "explanation_within 0 (start_result ?s)" "explanation_within 0 zero_selection_result"
    by (auto simp: explanation_within_def start_result_def zero_selection_result_def list_all_iff cap_simps)
  show ?thesis
  proof (cases "ps_mode ?s")
    case EN_SELECT_EXPLICIT
    have "explanation_within EN_MAX_CANDIDATES (snd (fst (run_state (select_explicit c ?x ?s zero_selection_result) w)))"
      using explanation_mono [OF start(2), of EN_MAX_CANDIDATES]
        explanation_mono [OF explanation_add_excluded [OF start(2)], of EN_MAX_CANDIDATES]
      by (auto simp: select_explicit_def Let_def zero_selection_result_def explanation_within_def cap_simps
          split: option.splits prod.splits)
    with True EN_SELECT_EXPLICIT show ?thesis by (simp add: en_select_path_def Let_def)
  next
    case EN_SELECT_PRIORITY
    with True priority_within [OF start(1), of "ps_candidates ?s" EN_MAX_CANDIDATES] n show ?thesis
      by (simp add: en_select_path_def Let_def)
  next
    case EN_SELECT_EVALUATED
    obtain res w1 where ev: "run_state (evaluate_candidates c ?x ?s (ps_candidates ?s) None False
        (start_result ?s)) w = (res, w1)"
      by (meson surj_pair)
    with evaluate_within [OF start(1), of "ps_candidates ?s" EN_MAX_CANDIDATES c ?x ?s None False w] n
    have "case res of Inl r' \<Rightarrow> explanation_within EN_MAX_CANDIDATES r'
        | Inr (_, _, r') \<Rightarrow> explanation_within EN_MAX_CANDIDATES r'"
      by simp
    with True EN_SELECT_EVALUATED ev show ?thesis
      by (auto simp: en_select_path_def select_evaluated_def Let_def
          split: sum.splits option.splits intro!: explanation_select)
  qed
qed

end
