(* ===== verification/MockAdapters.thy ===== *)
theory MockAdapters
  imports Samples
begin

text \<open>
  The in-memory adapters of \<open>src/vpp_adapter_mock.c\<close>, \<open>src/strongswan_adapter_mock.c\<close> and
  \<open>src/health_probe.c\<close>, which the tests and the demonstration programs run the controller on.
  A \<open>ctx\<close> pointer leads to a component of the outside state \<open>mocks\<close>; it is \<open>None\<close> where the
  program passes \<open>NULL\<close>.
\<close>

section \<open>Forwarding\<close>

record mock_route =
  mr_traffic_key :: string
  mr_active_path :: string

record en_vpp_mock =
  vm_fail_next_update :: bool
  vm_routes :: "mock_route list"
  vm_install_count :: nat
  vm_remove_count :: nat

record mocks =
  mc_vpp :: "en_vpp_mock option"
  mc_health :: "(en_path_health list \<times> bool) option"

definition mock_install :: "string \<Rightarrow> en_path \<Rightarrow> en_vpp_mock \<Rightarrow> en_error_code \<times> en_vpp_mock" where
  "mock_install key p m =
     (if vm_fail_next_update m then (EN_ERR_FORWARDING_UPDATE_FAILED, m\<lparr>vm_fail_next_update := False\<rparr>)
      else let m1 = m\<lparr>vm_install_count := vm_install_count m + 1\<rparr>
        in case find_index (\<lambda>r. strcmp (mr_traffic_key r) key = 0) (vm_routes m) of
             Some i \<Rightarrow> (EN_ERR_NONE, m1\<lparr>vm_routes := (vm_routes m)[i := (vm_routes m ! i)
                \<lparr>mr_active_path := fit EN_MAX_ID_LEN (pt_path_id p)\<rparr>]\<rparr>)
           | None \<Rightarrow>
               if EN_MAX_CANDIDATES \<le> length (vm_routes m) then (EN_ERR_INVALID_ARGUMENT, m1)
               else (EN_ERR_NONE, m1\<lparr>vm_routes := vm_routes m @
                 [\<lparr>mr_traffic_key = fit EN_MAX_TRAFFIC_KEY_LEN key,
                   mr_active_path = fit EN_MAX_ID_LEN (pt_path_id p)\<rparr>]\<rparr>))"

definition mock_active :: "string \<Rightarrow> en_vpp_mock \<Rightarrow> string option" where
  "mock_active key m =
     map_option mr_active_path (find (\<lambda>r. strcmp (mr_traffic_key r) key = 0) (vm_routes m))"

definition mock_remove :: "string \<Rightarrow> en_path \<Rightarrow> en_vpp_mock \<Rightarrow> en_error_code \<times> en_vpp_mock" where
  "mock_remove key p m =
     (let m1 = m\<lparr>vm_remove_count := vm_remove_count m + 1\<rparr>
      in case find_index (\<lambda>r. strcmp (mr_traffic_key r) key = 0 \<and>
                strcmp (mr_active_path r) (pt_path_id p) = 0) (vm_routes m) of
           Some i \<Rightarrow> (EN_ERR_NONE, m1\<lparr>vm_routes := take i (vm_routes m) @ drop (Suc i) (vm_routes m)\<rparr>)
         | None \<Rightarrow> (EN_ERR_NONE, m1))"

definition on_vpp_mock ::
  "'a \<Rightarrow> (en_vpp_mock \<Rightarrow> 'a \<times> en_vpp_mock) \<Rightarrow> (mocks, 'a) world_act" where
  "on_vpp_mock missing f = State (\<lambda>w.
     case mc_vpp (dev w) of
       None \<Rightarrow> (missing, w)
     | Some m \<Rightarrow> (case f m of (a, m') \<Rightarrow> (a, w\<lparr>dev := (dev w)\<lparr>mc_vpp := Some m'\<rparr>\<rparr>)))"

definition en_vpp_mock_adapter :: "mocks en_vpp_adapter" where
  "en_vpp_mock_adapter = \<lparr>
     install_path = Some (\<lambda>key p. on_vpp_mock EN_ERR_INVALID_ARGUMENT (mock_install key p)),
     remove_path = Some (\<lambda>key p. on_vpp_mock EN_ERR_INVALID_ARGUMENT (mock_remove key p)),
     active_path = Some (\<lambda>key. on_vpp_mock None (\<lambda>m. (mock_active key m, m)))\<rparr>"

section \<open>Tunnels\<close>

definition mock_ensure_tunnel :: "en_tunnel \<Rightarrow> en_tunnel \<Rightarrow> ('w, en_error_code \<times> en_tunnel) world_act" where
  "mock_ensure_tunnel desired observed = State_Monad.return
     (EN_ERR_NONE, desired\<lparr>tn_state := EN_TUNNEL_ESTABLISHED, tn_health := EN_HEALTH_HEALTHY\<rparr>)"

definition mock_remove_tunnel :: "en_tunnel \<Rightarrow> en_tunnel \<Rightarrow> ('w, en_error_code \<times> en_tunnel) world_act" where
  "mock_remove_tunnel desired observed = State_Monad.return
     (EN_ERR_NONE, desired\<lparr>tn_state := EN_TUNNEL_ABSENT, tn_health := EN_HEALTH_UNKNOWN\<rparr>)"

definition en_strongswan_mock_adapter :: "'w en_strongswan_adapter" where
  "en_strongswan_mock_adapter =
     \<lparr>ensure_tunnel = mock_ensure_tunnel, remove_tunnel = Some mock_remove_tunnel\<rparr>"

section \<open>The health probe\<close>

text \<open>The mock's fields \<open>overrides\<close> and \<open>require_interface_and_route\<close> are the pair in \<open>mc_health\<close>.\<close>

definition observed_override :: "bool \<Rightarrow> int \<Rightarrow> en_path_health \<Rightarrow> en_path_health" where
  "observed_override required now h =
     (let h1 = (if required \<and> (\<not> ph_has_interface_observation h \<or> \<not> ph_has_route_observation h)
                then h\<lparr>ph_state := EN_HEALTH_FAILED, ph_packet_loss_percent := Fin 100\<rparr> else h)
      in h1\<lparr>ph_last_updated_ms := now\<rparr>)"

definition default_health :: "en_path \<Rightarrow> int \<Rightarrow> en_path_health \<Rightarrow> en_path_health" where
  "default_health p now h = h\<lparr>ph_path_id := fit EN_MAX_ID_LEN (pt_path_id p),
     ph_state := EN_HEALTH_HEALTHY,
     ph_rtt_ms := d_mul (Fin 10) (d_of_int (int (en_path_hop_count p))),
     ph_packet_loss_percent := Fin 0, ph_jitter_ms := Fin 1,
     ph_consecutive_failures := 0, ph_consecutive_successes := 3, ph_last_updated_ms := now\<rparr>"

definition probe_override ::
  "(en_path_health list \<times> bool) option \<Rightarrow> en_path \<Rightarrow> (en_path_health \<times> bool) option" where
  "probe_override mock p =
     (case mock of
        None \<Rightarrow> None
      | Some (overrides, required) \<Rightarrow>
          map_option (\<lambda>h. (h, required))
            (find (\<lambda>h. strcmp (ph_path_id h) (pt_path_id p) = 0) overrides))"

definition mock_validate_path ::
  "en_path \<Rightarrow> en_path_health \<Rightarrow> (mocks, en_error_code \<times> en_path_health) world_act" where
  "mock_validate_path p h = do {
     w \<leftarrow> gets (\<lambda>w. w);
     now \<leftarrow> en_now_ms;
     case probe_override (mc_health (dev w)) p of
       Some (found, required) \<Rightarrow> State_Monad.return (EN_ERR_NONE, observed_override required now found)
     | None \<Rightarrow> State_Monad.return (EN_ERR_NONE, default_health p now h)
   }"

definition en_health_probe_mock_adapter :: "mocks en_health_probe" where
  "en_health_probe_mock_adapter = \<lparr>validate_path = Some mock_validate_path\<rparr>"

section \<open>Merging a measurement into the overrides\<close>

text \<open>
  \<open>en_health_probe_mock_set\<close>. A record that is older than the stored one is ignored; so is one
  of the same time, from the same source, with a smaller sequence number. A record that observes
  the route or the interface updates these parts; a measurement replaces the rest.
\<close>

definition stale :: "en_path_health \<Rightarrow> en_path_health \<Rightarrow> bool" where
  "stale current h \<longleftrightarrow> ph_last_updated_ms h < ph_last_updated_ms current \<or>
     (ph_last_updated_ms h = ph_last_updated_ms current \<and>
      0 < ph_sequence h \<and> 0 < ph_sequence current \<and> ph_source_node h \<noteq> [] \<and>
      strcmp (ph_source_node h) (ph_source_node current) = 0 \<and>
      ph_sequence h < ph_sequence current)"

definition merge_route :: "en_path_health \<Rightarrow> en_path_health \<Rightarrow> en_path_health" where
  "merge_route h c = (if ph_has_route_observation h
     then c\<lparr>ph_has_route_observation := True, ph_route_state := ph_route_state h\<rparr> else c)"

definition merge_interface :: "en_path_health \<Rightarrow> en_path_health \<Rightarrow> en_path_health" where
  "merge_interface h c = (if ph_has_interface_observation h
     then c\<lparr>ph_has_interface_observation := True, ph_interface_state := ph_interface_state h,
       ph_observed_interface_name := fit EN_MAX_ID_LEN (ph_observed_interface_name h)\<rparr> else c)"

definition merge_prefix :: "en_path_health \<Rightarrow> en_path_health \<Rightarrow> en_path_health" where
  "merge_prefix h c = (if ph_observed_destination_prefix h \<noteq> []
     then c\<lparr>ph_observed_destination_prefix := fit EN_MAX_ID_LEN (ph_observed_destination_prefix h),
       ph_observed_next_hop := fit EN_MAX_ID_LEN (ph_observed_next_hop h),
       ph_has_table_id := ph_has_table_id h, ph_table_id := ph_table_id h\<rparr> else c)"

definition observation_state :: "en_path_health \<Rightarrow> en_health_state" where
  "observation_state c =
     (if (ph_has_route_observation c \<and> ph_route_state c = EN_HEALTH_FAILED) \<or>
         (ph_has_interface_observation c \<and> ph_interface_state c = EN_HEALTH_FAILED)
      then EN_HEALTH_FAILED else EN_HEALTH_HEALTHY)"

definition merge_observation :: "en_path_health \<Rightarrow> en_path_health \<Rightarrow> en_path_health" where
  "merge_observation c h =
     (let m = merge_prefix h (merge_interface h (merge_route h c))
      in m\<lparr>ph_state := observation_state m,
           ph_packet_loss_percent :=
             (if observation_state m = EN_HEALTH_FAILED then Fin 100 else Fin 0),
           ph_last_updated_ms := ph_last_updated_ms h\<rparr>)"

definition merge_measurement :: "en_path_health \<Rightarrow> en_path_health \<Rightarrow> en_path_health" where
  "merge_measurement c h = h\<lparr>
     ph_has_route_observation := ph_has_route_observation c, ph_route_state := ph_route_state c,
     ph_has_interface_observation := ph_has_interface_observation c,
     ph_interface_state := ph_interface_state c,
     ph_has_table_id := ph_has_table_id c, ph_table_id := ph_table_id c,
     ph_observed_destination_prefix := fit EN_MAX_ID_LEN (ph_observed_destination_prefix c),
     ph_observed_next_hop := fit EN_MAX_ID_LEN (ph_observed_next_hop c),
     ph_observed_interface_name := fit EN_MAX_ID_LEN (ph_observed_interface_name c)\<rparr>"

definition merge_health :: "en_path_health \<Rightarrow> en_path_health \<Rightarrow> en_path_health" where
  "merge_health c h =
     (if stale c h then c
      else if ph_has_route_observation h \<or> ph_has_interface_observation h then merge_observation c h
      else merge_measurement c h)"

definition en_health_probe_mock_set :: "en_path_health \<Rightarrow> en_path_health list \<Rightarrow> en_path_health list" where
  "en_health_probe_mock_set h overrides =
     (case find_index (\<lambda>o'. strcmp (ph_path_id o') (ph_path_id h) = 0) overrides of
        Some i \<Rightarrow> overrides[i := merge_health (overrides ! i) h]
      | None \<Rightarrow> if length overrides < EN_MAX_PATHS then overrides @ [h] else overrides)"

section \<open>A machine on the mock adapters\<close>

definition sample_mocks :: "bool \<Rightarrow> mocks" where
  "sample_mocks fail_next = \<lparr>mc_vpp = Some \<lparr>vm_fail_next_update = fail_next, vm_routes = [],
     vm_install_count = 0, vm_remove_count = 0\<rparr>,
     mc_health = Some ([sample_health ''path-via-hub'' 20, sample_health ''path-direct'' 10,
       sample_health ''path-via-relay-c'' 30], False)\<rparr>"

definition sample_machine :: "bool \<Rightarrow> en_controller_state \<Rightarrow> mocks machine" where
  "sample_machine fail_next c = \<lparr>ctl = \<lparr>cstate = c, audit_events = [],
     strongswan = en_strongswan_mock_adapter, vpp = en_vpp_mock_adapter,
     health_probe = en_health_probe_mock_adapter\<rparr>, world = sample_world (sample_mocks fail_next)\<rparr>"

lemma st_sample_machine [simp]: "st (sample_machine fail_next c) = c"
  by (simp add: sample_machine_def st_def)

end
