(* ===== verification/Transition.thy ===== *)
theory Transition
  imports MockAdapters
begin

text \<open>
  The path transition of \<open>src/transition.c\<close>: prepare the target's tunnels, validate the
  target, commit the forwarding switch, confirm it, clean the previous path up, and roll back
  when a step fails. Every step up to the confirmation is retried within the intent's policy.

  A path pointer is its index in \<open>paths\<close>: the code only passes pointers into that array.
  \<open>rollback\<close> is always called with a target and a buffer, so its two \<open>NULL\<close> tests do not occur.
\<close>

section \<open>Retries\<close>

definition path_at :: "nat \<Rightarrow> 'w machine \<Rightarrow> en_path" where
  "path_at i s = paths (st s) ! i"

definition retry_delay :: "int \<Rightarrow> nat \<Rightarrow> int" where
  "retry_delay backoff attempt =
     (let delay = backoff * (int attempt + 1) in if INT_MAX < delay then INT_MAX else delay)"

definition transition_retry_wait ::
  "en_intent \<Rightarrow> nat \<Rightarrow> string \<Rightarrow> string \<Rightarrow> ('w, unit) act" where
  "transition_retry_wait intent attempt phase path_id =
     (if tp_retry_backoff_ms (it_transition intent) \<le> 0 then skip
      else do {
        _ \<leftarrow> en_audit_append ''TRANSITION_RETRY'' phase (Some path_id);
        on_world (sleep_ms (retry_delay (tp_retry_backoff_ms (it_transition intent)) attempt))
      })"

definition retry_phase ::
  "en_intent \<Rightarrow> string \<Rightarrow> nat \<Rightarrow> ('w, en_error_code) act \<Rightarrow> ('w, en_error_code) act" where
  "retry_phase intent phase i body =
     retry_loop (nat (tp_retry_count (it_transition intent))) 0 EN_ERR_NONE body
       (\<lambda>attempt. do {
          p \<leftarrow> gets (path_at i);
          transition_retry_wait intent attempt phase (pt_path_id p)
        })"

section \<open>Tunnels\<close>

definition path_uses_tunnel :: "en_path option \<Rightarrow> string \<Rightarrow> bool" where
  "path_uses_tunnel p tunnel_id =
     (case p of
        None \<Rightarrow> False
      | Some q \<Rightarrow> list_ex (\<lambda>g. en_streq (Some (sg_tunnel_id g)) (Some tunnel_id)) (pt_segments q))"

definition desired_tunnel_for :: "en_controller_state \<Rightarrow> en_segment \<Rightarrow> en_tunnel" where
  "desired_tunnel_for c g =
     (case en_find_desired_tunnel c (Some (sg_tunnel_id g)) of
        Some t \<Rightarrow> t
      | None \<Rightarrow> zero_tunnel\<lparr>
          tn_tunnel_id := en_copy_id EN_MAX_ID_LEN (Some (sg_tunnel_id g)),
          tn_local_node := en_copy_id EN_MAX_ID_LEN (Some (sg_from_node g)),
          tn_remote_node := en_copy_id EN_MAX_ID_LEN (Some (sg_to_node g)),
          tn_protocol := en_copy_id EN_MAX_ID_LEN (Some ''ipsec''),
          tn_state := EN_TUNNEL_CONFIGURED,
          tn_health := EN_HEALTH_UNKNOWN\<rparr>)"

text \<open>Store what was observed over the entry with its identifier; append it where there is room.\<close>

definition put_observed :: "en_tunnel \<Rightarrow> en_controller_state \<Rightarrow> en_controller_state option" where
  "put_observed t c =
     (case en_find_tunnel c (Some (tn_tunnel_id t)) of
        Some i \<Rightarrow> Some (c\<lparr>observed_tunnels := (observed_tunnels c)[i := t]\<rparr>)
      | None \<Rightarrow> if length (observed_tunnels c) < EN_MAX_TUNNELS
          then Some (c\<lparr>observed_tunnels := observed_tunnels c @ [t]\<rparr>) else None)"

definition prepare_segment :: "en_segment \<Rightarrow> ('w, en_error_code) act" where
  "prepare_segment g = do {
     s \<leftarrow> gets (\<lambda>s. s);
     (err, observed) \<leftarrow> on_world (ensure_tunnel (strongswan (ctl s)) (desired_tunnel_for (st s) g) zero_tunnel);
     if err \<noteq> EN_ERR_NONE then State_Monad.return err
     else do {
       c \<leftarrow> gets st;
       case put_observed observed c of
         Some c' \<Rightarrow> do { _ \<leftarrow> modify (upd_st (\<lambda>_. c')); State_Monad.return EN_ERR_NONE }
       | None \<Rightarrow> State_Monad.return EN_ERR_INVALID_ARGUMENT
     }
   }"

primrec prepare_segments :: "en_segment list \<Rightarrow> ('w, en_error_code) act" where
  "prepare_segments [] = State_Monad.return EN_ERR_NONE"
| "prepare_segments (g # gs) = do {
     err \<leftarrow> prepare_segment g;
     if err \<noteq> EN_ERR_NONE then State_Monad.return err else prepare_segments gs
   }"

primrec remove_segments :: "en_segment list \<Rightarrow> en_path option \<Rightarrow> ('w, en_error_code) act" where
  "remove_segments [] keep = State_Monad.return EN_ERR_NONE"
| "remove_segments (g # gs) keep =
     (if path_uses_tunnel keep (sg_tunnel_id g) then remove_segments gs keep
      else do {
        s \<leftarrow> gets (\<lambda>s. s);
        case (en_find_tunnel (st s) (Some (sg_tunnel_id g)), remove_tunnel (strongswan (ctl s))) of
          (Some i, Some rm) \<Rightarrow> do {
            (err, removed) \<leftarrow> on_world (rm (observed_tunnels (st s) ! i) zero_tunnel);
            if err \<noteq> EN_ERR_NONE then State_Monad.return err else remove_segments gs keep
          }
        | _ \<Rightarrow> remove_segments gs keep
      })"

text \<open>Called under the test that \<open>remove_tunnel\<close> is set.\<close>

definition remove_unshared_tunnels :: "en_path \<Rightarrow> en_path option \<Rightarrow> ('w, en_error_code) act" where
  "remove_unshared_tunnels target keep = remove_segments (pt_segments target) keep"

section \<open>The phases\<close>

definition transition_prepare :: "nat \<Rightarrow> ('w, en_error_code) act" where
  "transition_prepare i = do {
     _ \<leftarrow> set_operational_state i EN_PATH_PREPARING;
     p \<leftarrow> gets (path_at i);
     _ \<leftarrow> en_audit_append ''PREPARE'' ''prepare target tunnels'' (Some (pt_path_id p));
     err \<leftarrow> prepare_segments (pt_segments p);
     if err \<noteq> EN_ERR_NONE then State_Monad.return err
     else do {
       _ \<leftarrow> set_operational_state i EN_PATH_READY;
       State_Monad.return EN_ERR_NONE
     }
   }"

text \<open>Shared with \<open>store_health\<close> of \<open>src/controller.c\<close>: a full table drops a new entry.\<close>

definition put_health :: "en_path_health \<Rightarrow> en_controller_state \<Rightarrow> en_controller_state" where
  "put_health h c =
     (case en_find_health c (Some (ph_path_id h)) of
        Some i \<Rightarrow> c\<lparr>health := (health c)[i := h]\<rparr>
      | None \<Rightarrow> if length (health c) < EN_MAX_PATHS then c\<lparr>health := health c @ [h]\<rparr> else c)"

definition transition_ready :: "nat \<Rightarrow> ('w, en_error_code) act" where
  "transition_ready i = do {
     _ \<leftarrow> set_transition_state EN_TRANSITION_VALIDATING;
     p \<leftarrow> gets (path_at i);
     _ \<leftarrow> en_audit_append ''READY'' ''validate target path'' (Some (pt_path_id p));
     probe \<leftarrow> gets (\<lambda>s. validate_path (health_probe (ctl s)));
     case probe of
       None \<Rightarrow> State_Monad.return EN_ERR_INVALID_ARGUMENT
     | Some validate \<Rightarrow> do {
         (err, h) \<leftarrow> on_world (validate p zero_health);
         if err \<noteq> EN_ERR_NONE then State_Monad.return err
         else do {
           _ \<leftarrow> modify (upd_st (put_health h));
           if ph_state h \<noteq> EN_HEALTH_HEALTHY \<and> ph_state h \<noteq> EN_HEALTH_DEGRADED
           then State_Monad.return EN_ERR_PATH_VALIDATION_FAILED
           else do {
             _ \<leftarrow> set_transition_state EN_TRANSITION_READY;
             State_Monad.return EN_ERR_NONE
           }
         }
       }
   }"

definition graceful_pause :: "en_intent \<Rightarrow> nat \<Rightarrow> nat option \<Rightarrow> ('w, unit) act" where
  "graceful_pause intent target previous = do {
     _ \<leftarrow> set_transition_state EN_TRANSITION_PAUSING;
     _ \<leftarrow> (case previous of
        None \<Rightarrow> skip
      | Some i \<Rightarrow> if i = target then skip
          else do {
            _ \<leftarrow> set_operational_state i EN_PATH_DRAINING;
            p \<leftarrow> gets (path_at i);
            en_audit_append ''DRAINING'' ''previous path is draining'' (Some (pt_path_id p))
          });
     _ \<leftarrow> on_world (sleep_ms (tp_max_pause_ms (it_transition intent)));
     _ \<leftarrow> set_transition_state EN_TRANSITION_DRAINING;
     _ \<leftarrow> set_operational_state target EN_PATH_DRAINING;
     on_world (sleep_ms (tp_drain_timeout_ms (it_transition intent)))
   }"

definition switch_forwarding :: "nat \<Rightarrow> string \<Rightarrow> ('w, en_error_code) act" where
  "switch_forwarding target key = do {
     _ \<leftarrow> set_transition_state EN_TRANSITION_SWITCHING;
     callback \<leftarrow> gets (\<lambda>s. install_path (vpp (ctl s)));
     case callback of
       None \<Rightarrow> do {
         _ \<leftarrow> en_error_append EN_ERR_INVALID_ARGUMENT ''vpp adapter is missing install_path'';
         State_Monad.return EN_ERR_INVALID_ARGUMENT
       }
     | Some install \<Rightarrow> do {
         p \<leftarrow> gets (path_at target);
         err \<leftarrow> on_world (install key p);
         if err \<noteq> EN_ERR_NONE then do {
           _ \<leftarrow> en_error_append EN_ERR_FORWARDING_UPDATE_FAILED ''forwarding update failed'';
           State_Monad.return EN_ERR_FORWARDING_UPDATE_FAILED
         } else do {
           _ \<leftarrow> en_set_applied_path key (pt_path_id p);
           _ \<leftarrow> set_operational_state target EN_PATH_ACTIVE;
           State_Monad.return EN_ERR_NONE
         }
       }
   }"

definition transition_commit :: "en_intent \<Rightarrow> nat \<Rightarrow> nat option \<Rightarrow> string \<Rightarrow> ('w, en_error_code) act" where
  "transition_commit intent target previous key = do {
     p \<leftarrow> gets (path_at target);
     _ \<leftarrow> en_audit_append ''COMMIT'' ''commit forwarding switch'' (Some (pt_path_id p));
     case tp_strategy (it_transition intent) of
       EN_TRANSITION_GRACEFUL \<Rightarrow> do {
         _ \<leftarrow> graceful_pause intent target previous;
         switch_forwarding target key
       }
     | EN_TRANSITION_FLOW_PRESERVE \<Rightarrow> do {
         _ \<leftarrow> en_error_append EN_ERR_STATE_CONFLICT ''flow-preserve is reserved for stage 2'';
         State_Monad.return EN_ERR_STATE_CONFLICT
       }
     | EN_TRANSITION_IMMEDIATE \<Rightarrow> switch_forwarding target key
   }"

definition transition_confirm :: "nat \<Rightarrow> string \<Rightarrow> ('w, en_error_code) act" where
  "transition_confirm target key = do {
     _ \<leftarrow> set_transition_state EN_TRANSITION_VERIFYING;
     p \<leftarrow> gets (path_at target);
     _ \<leftarrow> en_audit_append ''CONFIRM'' ''confirm forwarding state'' (Some (pt_path_id p));
     callback \<leftarrow> gets (\<lambda>s. active_path (vpp (ctl s)));
     case callback of
       None \<Rightarrow> State_Monad.return EN_ERR_NONE
     | Some active \<Rightarrow> do {
         a \<leftarrow> on_world (active key);
         if \<not> en_streq a (Some (pt_path_id p)) then do {
           _ \<leftarrow> en_error_append EN_ERR_FORWARDING_UPDATE_FAILED ''forwarding verification failed'';
           State_Monad.return EN_ERR_FORWARDING_UPDATE_FAILED
         } else State_Monad.return EN_ERR_NONE
       }
   }"

text \<open>The optional callback \<open>remove_path\<close>: where it is not set, nothing is to be removed.\<close>

definition call_remove_path :: "string \<Rightarrow> nat \<Rightarrow> ('w, en_error_code) act" where
  "call_remove_path key i = do {
     callback \<leftarrow> gets (\<lambda>s. remove_path (vpp (ctl s)));
     p \<leftarrow> gets (path_at i);
     case callback of
       None \<Rightarrow> State_Monad.return EN_ERR_NONE
     | Some rm \<Rightarrow> on_world (rm key p)
   }"

definition call_remove_tunnels :: "nat \<Rightarrow> nat option \<Rightarrow> ('w, en_error_code) act" where
  "call_remove_tunnels i keep = do {
     callback \<leftarrow> gets (\<lambda>s. remove_tunnel (strongswan (ctl s)));
     p \<leftarrow> gets (path_at i);
     k \<leftarrow> gets (\<lambda>s. map_option (\<lambda>j. path_at j s) keep);
     case callback of
       None \<Rightarrow> State_Monad.return EN_ERR_NONE
     | Some _ \<Rightarrow> remove_unshared_tunnels p k
   }"

definition transition_cleanup_previous :: "string \<Rightarrow> nat option \<Rightarrow> nat \<Rightarrow> ('w, en_error_code) act" where
  "transition_cleanup_previous key previous target =
     (case previous of
        None \<Rightarrow> State_Monad.return EN_ERR_NONE
      | Some i \<Rightarrow> if i = target then State_Monad.return EN_ERR_NONE
          else do {
            err \<leftarrow> call_remove_path key i;
            if err \<noteq> EN_ERR_NONE then State_Monad.return EN_ERR_FORWARDING_UPDATE_FAILED
            else do {
              err' \<leftarrow> call_remove_tunnels i (Some target);
              if err' \<noteq> EN_ERR_NONE then State_Monad.return EN_ERR_TUNNEL_ESTABLISH_TIMEOUT
              else do {
                _ \<leftarrow> set_operational_state i EN_PATH_STANDBY;
                p \<leftarrow> gets (path_at i);
                _ \<leftarrow> en_audit_append ''PREVIOUS_PATH_REMOVED'' ''previous path cleanup completed''
                      (Some (pt_path_id p));
                State_Monad.return EN_ERR_NONE
              }
            }
          })"

section \<open>Rollback\<close>

definition rollback_fails :: "string \<Rightarrow> ('w, en_error_code) act" where
  "rollback_fails message = do {
     _ \<leftarrow> en_error_append EN_ERR_ROLLBACK_FAILED message;
     _ \<leftarrow> set_transition_state EN_TRANSITION_FAILED;
     State_Monad.return EN_ERR_ROLLBACK_FAILED
   }"

definition reinstall :: "string \<Rightarrow> nat option \<Rightarrow> ('w, bool) act" where
  "reinstall key previous = do {
     callback \<leftarrow> gets (\<lambda>s. install_path (vpp (ctl s)));
     case previous of
       None \<Rightarrow> State_Monad.return False
     | Some i \<Rightarrow>
         (case callback of
            None \<Rightarrow> State_Monad.return False
          | Some install \<Rightarrow> do {
              err \<leftarrow> transition_prepare i;
              if err \<noteq> EN_ERR_NONE then State_Monad.return False
              else do {
                p \<leftarrow> gets (path_at i);
                err' \<leftarrow> on_world (install key p);
                State_Monad.return (err' = EN_ERR_NONE)
              }
            })
   }"

definition rollback :: "string \<Rightarrow> string \<Rightarrow> nat \<Rightarrow> ('w, en_error_code) act" where
  "rollback key rollback_path_id target = do {
     _ \<leftarrow> set_transition_state EN_TRANSITION_ROLLING_BACK;
     previous \<leftarrow> gets (\<lambda>s. en_find_path (st s) (Some rollback_path_id));
     err \<leftarrow> call_remove_tunnels target previous;
     if err \<noteq> EN_ERR_NONE then rollback_fails ''new tunnel removal failed''
     else do {
       err' \<leftarrow> call_remove_path key target;
       if err' \<noteq> EN_ERR_NONE then rollback_fails ''new path removal failed''
       else if rollback_path_id = [] then do {
         _ \<leftarrow> en_audit_append ''ROLLBACK_SKIPPED'' ''no previous path exists'' (Some []);
         _ \<leftarrow> set_transition_state EN_TRANSITION_FAILED;
         State_Monad.return EN_ERR_ROLLBACK_FAILED
       } else do {
         ok \<leftarrow> reinstall key previous;
         if \<not> ok then rollback_fails ''previous path reinstall failed''
         else do {
           _ \<leftarrow> en_set_applied_path key rollback_path_id;
           _ \<leftarrow> en_audit_append ''ROLLBACK_COMPLETED'' ''previous path restored'' (Some rollback_path_id);
           _ \<leftarrow> set_transition_state EN_TRANSITION_IDLE;
           State_Monad.return EN_ERR_NONE
         }
       }
     }
   }"

section \<open>The transition\<close>

definition transition_key :: "en_intent \<Rightarrow> string" where
  "transition_key intent = en_make_traffic_key (it_traffic intent) EN_MAX_TRAFFIC_KEY_LEN"

text \<open>Give up with \<open>err\<close>: log \<open>logged\<close> where the code does, and roll back.\<close>

definition abort_with ::
  "(en_error_code \<times> string) option \<Rightarrow> en_error_code \<Rightarrow> string \<Rightarrow> string \<Rightarrow> nat \<Rightarrow> ('w, en_error_code) act" where
  "abort_with logged err key rollback_path_id target = do {
     _ \<leftarrow> (case logged of None \<Rightarrow> skip | Some (ec, message) \<Rightarrow> en_error_append ec message);
     _ \<leftarrow> rollback key rollback_path_id target;
     State_Monad.return err
   }"

definition complete_transition :: "nat \<Rightarrow> ('w, en_error_code) act" where
  "complete_transition target = do {
     _ \<leftarrow> set_transition_state EN_TRANSITION_COMPLETED;
     p \<leftarrow> gets (path_at target);
     _ \<leftarrow> en_audit_append ''TRANSITION_COMPLETED'' ''target path is active'' (Some (pt_path_id p));
     _ \<leftarrow> set_transition_state EN_TRANSITION_IDLE;
     State_Monad.return EN_ERR_NONE
   }"

text \<open>From the commit on: the previous path is looked up once, before the commit.\<close>

definition transition_switch :: "en_intent \<Rightarrow> nat \<Rightarrow> string \<Rightarrow> string \<Rightarrow> ('w, en_error_code) act" where
  "transition_switch intent target key rollback_path_id = do {
     previous \<leftarrow> gets (\<lambda>s. en_find_path (st s) (Some rollback_path_id));
     err \<leftarrow> retry_phase intent ''retry forwarding commit'' target
       (transition_commit intent target previous key);
     if err \<noteq> EN_ERR_NONE then
       abort_with (Some (EN_ERR_FORWARDING_UPDATE_FAILED, ''forwarding update failed''))
         EN_ERR_FORWARDING_UPDATE_FAILED key rollback_path_id target
     else do {
       err \<leftarrow> retry_phase intent ''retry forwarding verification'' target (transition_confirm target key);
       if err \<noteq> EN_ERR_NONE then abort_with None err key rollback_path_id target
       else do {
         err \<leftarrow> transition_cleanup_previous key previous target;
         if err \<noteq> EN_ERR_NONE then
           abort_with (Some (err, ''previous path cleanup failed'')) err key rollback_path_id target
         else complete_transition target
       }
     }
   }"

definition en_transition_path :: "en_intent \<Rightarrow> nat \<Rightarrow> ('w, en_error_code) act" where
  "en_transition_path intent target = do {
     p \<leftarrow> gets (path_at target);
     if \<not> en_path_counts_valid p \<or> \<not> en_transition_policy_valid (it_transition intent)
     then State_Monad.return EN_ERR_INVALID_ARGUMENT
     else do {
       current \<leftarrow> gets (\<lambda>s. en_get_applied_path (st s) (transition_key intent));
       let key = transition_key intent;
       let rollback_path_id = en_copy_id EN_MAX_ID_LEN current;
       _ \<leftarrow> set_transition_state EN_TRANSITION_PREPARING;
       _ \<leftarrow> en_audit_append ''TRANSITION_STARTED'' ''preparing target path'' (Some (pt_path_id p));
       err \<leftarrow> retry_phase intent ''retry target preparation'' target (transition_prepare target);
       if err \<noteq> EN_ERR_NONE then
         abort_with (Some (err, ''target path preparation failed'')) err key rollback_path_id target
       else do {
         err \<leftarrow> retry_phase intent ''retry target validation'' target (transition_ready target);
         if err \<noteq> EN_ERR_NONE then
           abort_with (Some (err, ''target path validation failed'')) err key rollback_path_id target
         else transition_switch intent target key rollback_path_id
       }
     }
   }"

section \<open>Invariants of a transition\<close>

text \<open>
  What a property of the machine has to satisfy to survive a transition to the path \<open>target\<close>
  for the traffic key \<open>key\<close>: it survives each primitive operation the transition is made of.
  \<open>ids\<close> are the path identifiers the transition may record as applied: the target's, and the
  one applied before.
\<close>

locale transition_stable =
  fixes I :: "'w machine \<Rightarrow> bool" and A :: "'w adapters" and key :: string and target :: nat and ids :: "string set"
  assumes fixed_adapters: "\<And>s. I s \<Longrightarrow> adapters s = A"
    and world_ok: "\<And>s w. I s \<Longrightarrow> outside_step A key (world s) w \<Longrightarrow> I (s\<lparr>world := w\<rparr>)"
    and audit_ok: "\<And>ty msg r. preserves I (en_audit_append ty msg r)"
    and error_ok: "\<And>e msg. preserves I (en_error_append e msg)"
    and state_ok: "\<And>t. preserves I (set_transition_state t)"
    and operational_ok: "\<And>i v. preserves I (set_operational_state i v)"
    and applied_ok: "\<And>p. p \<in> ids \<Longrightarrow> preserves I (en_set_applied_path key p)"
    and target_id: "\<And>s. I s \<Longrightarrow> pt_path_id (path_at target s) \<in> ids"
    and current_id: "\<And>s. I s \<Longrightarrow> en_get_applied_path (st s) key = Some p \<Longrightarrow>
      en_copy_id EN_MAX_ID_LEN (Some p) \<in> ids"
    and observed_ok: "\<And>s t c. I s \<Longrightarrow> put_observed t (st s) = Some c \<Longrightarrow> I (upd_st (\<lambda>_. c) s)"
    and health_ok: "\<And>s h. I s \<Longrightarrow> I (upd_st (put_health h) s)"
begin

lemmas primitive_ok = audit_ok error_ok state_ok operational_ok

text \<open>A call keeps \<open>I\<close>, and what is read of an adapter is \<open>A\<close>'s.\<close>

lemma call_ok:
  assumes "\<And>w. outside_step A key w (snd (run_state m w))"
  shows "preserves I (on_world m)"
  by (rule preservesI) (auto simp: run_on_world intro: world_ok assms)

lemma sleep_ok: "preserves I (on_world (sleep_ms ms))"
  by (intro call_ok outside_step.intros)

lemma ensure_ok: "preserves I (on_world (ensure_tunnel (fst A) t t'))"
  by (cases A) (auto intro: call_ok outside_step.intros)

lemma remove_tunnel_ok: "remove_tunnel (fst A) = Some f \<Longrightarrow> preserves I (on_world (f t t'))"
  by (cases A) (auto intro: call_ok outside_step.intros)

lemma install_ok: "install_path (fst (snd A)) = Some f \<Longrightarrow> preserves I (on_world (f key p))"
  by (cases A) (auto intro: call_ok outside_step.intros)

lemma remove_path_call_ok: "remove_path (fst (snd A)) = Some f \<Longrightarrow> preserves I (on_world (f key p))"
  by (cases A) (auto intro: call_ok outside_step.intros)

lemma active_ok: "active_path (fst (snd A)) = Some f \<Longrightarrow> preserves I (on_world (f key))"
  by (cases A) (auto intro: call_ok outside_step.intros)

lemma validate_ok: "validate_path (snd (snd A)) = Some f \<Longrightarrow> preserves I (on_world (f p h))"
  by (cases A) (auto intro: call_ok outside_step.intros)

lemmas calls_ok = sleep_ok ensure_ok remove_tunnel_ok install_ok remove_path_call_ok active_ok validate_ok

lemma read_ok:
  assumes "\<And>s. adapters s = A \<Longrightarrow> f s = x" and "preserves I (g x)"
  shows "preserves I (gets f \<bind> g)"
  using assms by (intro preserves_bind_gets [where P = "\<lambda>y. y = x"]) (auto dest: fixed_adapters)

lemma adapter_fields:
  "adapters s = A \<Longrightarrow> strongswan (ctl s) = fst A"
  "adapters s = A \<Longrightarrow> vpp (ctl s) = fst (snd A)"
  "adapters s = A \<Longrightarrow> health_probe (ctl s) = snd (snd A)"
  by (auto simp: adapters_def)

lemma read_callback:
  "preserves I (g1 (validate_path (snd (snd A)))) \<Longrightarrow>
   preserves I (gets (\<lambda>s. validate_path (health_probe (ctl s))) \<bind> g1)"
  "preserves I (g2 (install_path (fst (snd A)))) \<Longrightarrow>
   preserves I (gets (\<lambda>s. install_path (vpp (ctl s))) \<bind> g2)"
  "preserves I (g3 (remove_path (fst (snd A)))) \<Longrightarrow>
   preserves I (gets (\<lambda>s. remove_path (vpp (ctl s))) \<bind> g3)"
  "preserves I (g4 (active_path (fst (snd A)))) \<Longrightarrow>
   preserves I (gets (\<lambda>s. active_path (vpp (ctl s))) \<bind> g4)"
  "preserves I (g5 (remove_tunnel (fst A))) \<Longrightarrow>
   preserves I (gets (\<lambda>s. remove_tunnel (strongswan (ctl s))) \<bind> g5)"
  by (rule read_ok; simp add: adapter_fields)+

lemma store_observed_ok:
  "preserves I (do {
     c \<leftarrow> gets st;
     case put_observed t c of
       Some c' \<Rightarrow> do { _ \<leftarrow> modify (upd_st (\<lambda>_. c')); State_Monad.return EN_ERR_NONE }
     | None \<Rightarrow> State_Monad.return EN_ERR_INVALID_ARGUMENT })"
  by (rule preservesI) (auto split: option.splits dest: observed_ok)

lemma read_machine:
  "(\<And>s. adapters s = A \<Longrightarrow> preserves I (g s)) \<Longrightarrow> preserves I (gets (\<lambda>s. s) \<bind> g)"
  by (intro preserves_bind_gets [where P = "\<lambda>s. adapters s = A"]) (auto dest: fixed_adapters)

lemma prepare_segment_ok: "preserves I (prepare_segment g)"
  unfolding prepare_segment_def
  by (rule read_machine, simp only: adapter_fields)
    (intro preserves_bind ensure_ok preserves_case_prod preserves_if preserves_return store_observed_ok)

lemma prepare_segments_ok: "preserves I (prepare_segments gs)"
  by (induction gs) (auto intro!: wp prepare_segment_ok)

lemma remove_segments_ok: "preserves I (remove_segments gs keep)"
proof (induction gs)
  case Nil
  show ?case by (simp add: preserves_return)
next
  case (Cons g gs)
  show ?case
    unfolding remove_segments.simps
    by (intro preserves_if Cons read_machine, simp only: adapter_fields)
      (auto intro!: Cons preserves_bind preserves_return remove_tunnel_ok split: option.splits)
qed

lemma prepare_ok: "preserves I (transition_prepare i)"
  unfolding transition_prepare_def by (intro wp primitive_ok prepare_segments_ok)

lemma ready_ok: "preserves I (transition_ready i)"
  unfolding transition_ready_def by (intro read_callback wp primitive_ok calls_ok health_ok) simp

lemma pause_ok: "preserves I (graceful_pause intent i previous)"
  unfolding graceful_pause_def by (intro read_callback wp primitive_ok calls_ok)

lemma switch_ok: "preserves I (switch_forwarding target key)"
  unfolding switch_forwarding_def
  by (intro read_callback preserves_bind_gets [where P = "\<lambda>p. pt_path_id p \<in> ids"] wp primitive_ok
      target_id applied_ok calls_ok) (auto simp: adapter_fields)

lemma commit_ok: "preserves I (transition_commit intent target previous key)"
  unfolding transition_commit_def
  by (intro read_callback wp primitive_ok calls_ok)
    (auto intro!: wp primitive_ok pause_ok switch_ok split: en_transition_strategy.splits)

lemma confirm_ok: "preserves I (transition_confirm target key)"
  unfolding transition_confirm_def by (intro read_callback wp primitive_ok calls_ok)

lemma remove_path_ok: "preserves I (call_remove_path key i)"
  unfolding call_remove_path_def by (intro read_callback wp primitive_ok calls_ok)

lemma remove_tunnels_ok: "preserves I (call_remove_tunnels i keep)"
  unfolding call_remove_tunnels_def remove_unshared_tunnels_def by (intro wp remove_segments_ok)

lemma cleanup_ok: "preserves I (transition_cleanup_previous key previous target)"
  unfolding transition_cleanup_previous_def
  by (intro read_callback wp primitive_ok calls_ok remove_path_ok remove_tunnels_ok)

lemma rollback_fails_ok: "preserves I (rollback_fails msg)"
  unfolding rollback_fails_def by (intro read_callback wp primitive_ok calls_ok)

lemma reinstall_ok: "preserves I (reinstall key previous)"
  unfolding reinstall_def by (intro read_callback wp primitive_ok calls_ok prepare_ok)

lemma rollback_ok: "(rid \<noteq> [] \<Longrightarrow> rid \<in> ids) \<Longrightarrow> preserves I (rollback key rid i)"
  unfolding rollback_def
  by (intro read_callback wp primitive_ok calls_ok applied_ok remove_path_ok remove_tunnels_ok rollback_fails_ok reinstall_ok)

lemma abort_ok: "(rid \<noteq> [] \<Longrightarrow> rid \<in> ids) \<Longrightarrow> preserves I (abort_with logged err key rid i)"
  unfolding abort_with_def by (intro read_callback wp primitive_ok calls_ok rollback_ok)

lemma retry_ok: "preserves I body \<Longrightarrow> preserves I (retry_phase intent phase i body)"
  unfolding retry_phase_def transition_retry_wait_def by (intro read_callback wp primitive_ok calls_ok)

lemma complete_ok: "preserves I (complete_transition target)"
  unfolding complete_transition_def by (intro read_callback wp primitive_ok calls_ok)

lemma transition_switch_ok:
  "(rid \<noteq> [] \<Longrightarrow> rid \<in> ids) \<Longrightarrow> preserves I (transition_switch intent target key rid)"
  unfolding transition_switch_def
  by (intro wp retry_ok commit_ok confirm_ok cleanup_ok abort_ok complete_ok)

lemma transition_ok:
  assumes "transition_key intent = key"
  shows "preserves I (en_transition_path intent target)"
proof -
  define R where "R = (\<lambda>x. en_copy_id EN_MAX_ID_LEN x \<noteq> [] \<longrightarrow> en_copy_id EN_MAX_ID_LEN x \<in> ids)"
  have R: "R (en_get_applied_path (st s) key)" if "I s" for s
    using current_id [OF that] by (cases "en_get_applied_path (st s) key") (auto simp: R_def)
  show ?thesis
    unfolding en_transition_path_def Let_def assms
    by (intro preserves_bind_gets [where P = R] wp primitive_ok retry_ok prepare_ok ready_ok
        abort_ok transition_switch_ok R)
      (auto simp: R_def)
qed

end

text \<open>The key fits its buffer by construction.\<close>

lemma transition_key_length [cap_simps]: "length (transition_key intent) < EN_MAX_TRAFFIC_KEY_LEN"
  by (simp add: transition_key_def en_make_traffic_key_def fit_length)

subsection \<open>The adapters stay\<close>

interpretation keeps_adapters: transition_stable "has_adapters A" A key target UNIV
  by unfold_locales (auto intro!: wp)

text \<open>A property of the state alone survives whatever the adapters do.\<close>

abbreviation with_adapters where
  "with_adapters A J \<equiv> \<lambda>s. adapters s = A \<and> J s"

lemma drop_adapters: "(\<And>A. preserves (with_adapters A I) m) \<Longrightarrow> preserves I m"
  by (auto simp: preserves_def triple_def)

lemma with_adaptersI [wp]: "preserves (has_adapters A) m \<Longrightarrow> preserves I m \<Longrightarrow> preserves (with_adapters A I) m"
  by (auto simp: preserves_def triple_def)

subsection \<open>Capacities and keys\<close>

lemma put_observed_wf: "wf_state c \<Longrightarrow> put_observed t c = Some c' \<Longrightarrow> wf_state c'"
  by (auto simp: put_observed_def wf_state_def wf_config_def wf_registries_def en_find_tunnel_def
      split: option.splits if_splits dest: distinct_map_update distinct_map_append)

lemma put_health_wf: "wf_state c \<Longrightarrow> wf_state (put_health h c)"
  by (auto simp: put_health_def wf_state_def wf_config_def wf_registries_def en_find_health_def
      split: option.splits dest: distinct_map_update distinct_map_append)

interpretation keeps_wf: transition_stable "with_adapters A (on_st wf_state)" A "transition_key intent" target UNIV
  by unfold_locales
    (auto intro!: wp wf_errors wf_set_operational wf_put_applied transition_key_length
      dest: put_observed_wf simp: put_health_wf)

subsection \<open>The audit log only grows\<close>

interpretation keeps_log: transition_stable "with_adapters A (log_grows es)" A key target UNIV
  by unfold_locales (auto intro!: wp)

subsection \<open>Only the one traffic key and operational states change\<close>

text \<open>
  \<open>transitioning c0 key target c\<close>: \<open>c\<close> arises in a transition of \<open>key\<close> to \<open>target\<close> that began in \<open>c0\<close>.
\<close>

definition transitioning :: "en_controller_state \<Rightarrow> string \<Rightarrow> nat \<Rightarrow> en_controller_state \<Rightarrow> bool" where
  "transitioning c0 key target c \<longleftrightarrow>
     wf_state c0 \<and> target < length (paths c0) \<and> length key < EN_MAX_TRAFFIC_KEY_LEN \<and>
     frame key c0 c \<and> (applied_room key c0 \<longrightarrow> applied_room key c) \<and>
     (en_get_applied_path c key = en_get_applied_path c0 key \<or>
      en_get_applied_path c key = Some (pt_path_id (paths c0 ! target)))"

definition transition_ids :: "en_controller_state \<Rightarrow> string \<Rightarrow> nat \<Rightarrow> string set" where
  "transition_ids c0 key target =
     {p. length p < EN_MAX_ID_LEN \<and>
         (p = pt_path_id (paths c0 ! target) \<or> Some p = en_get_applied_path c0 key)}"

lemma applied_path_length:
  assumes "wf_state c" "en_get_applied_path c key = Some p"
  shows "length p < EN_MAX_ID_LEN"
proof -
  obtain e where "e \<in> set (applied c)" "p = ae_applied_path e"
    using assms(2) by (auto simp: en_get_applied_path_def find_applied_def dest: find_Some_mem)
  with assms(1) show ?thesis
    by (auto simp: wf_state_def wf_registries_def wf_entry_def list_all_iff)
qed

lemma path_id_length:
  "wf_state c \<Longrightarrow> i < length (paths c) \<Longrightarrow> length (pt_path_id (paths c ! i)) < EN_MAX_ID_LEN"
  by (auto simp: wf_state_def wf_config_def wf_path_def list_all_length)

lemma transitioning_refl:
  "wf_state c \<Longrightarrow> target < length (paths c) \<Longrightarrow> transitioning c (transition_key intent) target c"
  by (simp add: transitioning_def transition_key_length)

lemma transitioning_operational:
  "transitioning c0 key target c \<Longrightarrow>
   transitioning c0 key target (c\<lparr>paths := (paths c)[i := (paths c ! i)\<lparr>pt_operational_state := v\<rparr>]\<rparr>)"
  by (simp add: transitioning_def frame_operational applied_room_def find_applied_def en_get_applied_path_def)

text \<open>The fields no clause of \<open>transitioning\<close> reads.\<close>

lemma transitioning_other_fields [simp]:
  "transitioning c0 key target (c\<lparr>errors := e\<rparr>) = transitioning c0 key target c"
  "transitioning c0 key target (c\<lparr>transition_state := t\<rparr>) = transitioning c0 key target c"
  "transitioning c0 key target (c\<lparr>observed_tunnels := o'\<rparr>) = transitioning c0 key target c"
  "transitioning c0 key target (c\<lparr>health := h\<rparr>) = transitioning c0 key target c"
  by (simp_all add: transitioning_def frame_def applied_room_def find_applied_def en_get_applied_path_def)

lemma get_applied_put:
  assumes "length key < EN_MAX_TRAFFIC_KEY_LEN" "length p < EN_MAX_ID_LEN"
  shows "en_get_applied_path (put_applied key p now c) key =
    (if applied_room key c then Some p else None)"
proof (cases "applied_room key c")
  case True
  with assms show ?thesis
    by (simp add: en_get_applied_path_def find_applied_put_same cap_simps)
next
  case False
  then have none: "find_applied c key = None" and full: "\<not> length (applied c) < EN_MAX_CANDIDATES"
    by (auto simp: applied_room_def)
  then have "find_index (\<lambda>e. ae_traffic_key e = key) (applied c) = None"
    by (simp add: find_applied_def find_None_all find_index_None)
  with full have "put_applied key p now c = c" by (simp add: put_applied_def)
  with none False show ?thesis by (simp add: en_get_applied_path_def)
qed

lemma no_room_no_entry: "\<not> applied_room key c \<Longrightarrow> en_get_applied_path c key = None"
  by (simp add: applied_room_def en_get_applied_path_def)

lemma put_applied_no_room:
  assumes "\<not> applied_room key c"
  shows "put_applied key p now c = c"
proof -
  have "find_index (\<lambda>e. ae_traffic_key e = key) (applied c) = None"
    using assms by (simp add: applied_room_def find_applied_def find_None_all find_index_None)
  with assms show ?thesis by (simp add: put_applied_def applied_room_def)
qed

lemma transitioning_put_applied:
  assumes "transitioning c0 key target c" "p \<in> transition_ids c0 key target"
  shows "transitioning c0 key target (put_applied key p now c)"
proof (cases "applied_room key c")
  case True
  with assms show ?thesis
    by (auto simp: transitioning_def transition_ids_def frame_put_applied get_applied_put)
next
  case False
  with assms show ?thesis by (simp add: put_applied_no_room)
qed

lemma transitioning_path_id:
  "transitioning c0 key target c \<Longrightarrow> pt_path_id (paths c ! target) = pt_path_id (paths c0 ! target)"
  by (auto simp: transitioning_def intro: configured_path_fields dest: frame_path)

interpretation keeps_frame:
  transition_stable "with_adapters A (on_st (transitioning c0 key target))" A key target
    "transition_ids c0 key target"
proof unfold_locales
  fix s :: "'a machine" and t c
  assume "with_adapters A (on_st (transitioning c0 key target)) s" "put_observed t (st s) = Some c"
  then show "with_adapters A (on_st (transitioning c0 key target)) (upd_st (\<lambda>_. c) s)"
    by (auto simp: put_observed_def split: option.splits if_splits)
next
  fix s :: "'a machine" and h
  assume "with_adapters A (on_st (transitioning c0 key target)) s"
  then show "with_adapters A (on_st (transitioning c0 key target)) (upd_st (put_health h) s)"
    by (simp add: put_health_def split: option.splits)
next
  fix s :: "'a machine" and p
  assume I: "with_adapters A (on_st (transitioning c0 key target)) s" and p: "en_get_applied_path (st s) key = Some p"
  then have "length p < EN_MAX_ID_LEN"
    by (auto simp: transitioning_def dest: applied_path_length applied_path_length [OF _ sym] intro: path_id_length)
  with I p show "en_copy_id EN_MAX_ID_LEN (Some p) \<in> transition_ids c0 key target"
    by (auto simp: transitioning_def transition_ids_def cap_simps)
next
  fix s :: "'a machine"
  assume "with_adapters A (on_st (transitioning c0 key target)) s"
  then have T: "transitioning c0 key target (st s)" by simp
  from transitioning_path_id [OF T] T show "pt_path_id (path_at target s) \<in> transition_ids c0 key target"
    by (simp add: path_at_def transition_ids_def transitioning_def path_id_length)
qed (auto intro!: wp transitioning_operational transitioning_put_applied)

lemmas transitioning_kept =
  drop_adapters [OF keeps_frame.error_ok] drop_adapters [OF keeps_frame.state_ok]
  drop_adapters [OF keeps_frame.audit_ok] drop_adapters [OF keeps_frame.applied_ok]
  drop_adapters [OF keeps_frame.pause_ok] drop_adapters [OF keeps_frame.abort_ok]
  drop_adapters [OF keeps_frame.prepare_ok] drop_adapters [OF keeps_frame.ready_ok]

section \<open>How a transition ends\<close>

lemma transitioning_ok_simps [simp]:
  "on_st (transitioning c0 key target) (upd_st (\<lambda>c. c\<lparr>transition_state := t\<rparr>) s) =
   on_st (transitioning c0 key target) s"
  by simp

text \<open>A rollback ends in \<open>FAILED\<close>, or in \<open>IDLE\<close> with the path it was given applied again.\<close>

definition rolled_back :: "string \<Rightarrow> string \<Rightarrow> en_controller_state \<Rightarrow> bool" where
  "rolled_back key rid c \<longleftrightarrow> transition_state c = EN_TRANSITION_FAILED \<or>
     (transition_state c = EN_TRANSITION_IDLE \<and> rid \<noteq> [] \<and>
      (applied_room key c \<longrightarrow> en_get_applied_path c key = Some rid))"

lemma set_applied_triple:
  assumes "length key < EN_MAX_TRAFFIC_KEY_LEN" "length p < EN_MAX_ID_LEN"
  shows "triple (\<lambda>s. True) (en_set_applied_path key p)
    (\<lambda>_ s. applied_room key (st s) \<longrightarrow> en_get_applied_path (st s) key = Some p)"
proof (rule tripleI)
  fix s :: "'w machine" and a t
  assume "run_state (en_set_applied_path key p) s = (a, t)"
  then obtain now where "st t = put_applied key p now (st s)"
    by (metis run_set_applied snd_conv st_upd_st st_world)
  then show "applied_room key (st t) \<longrightarrow> en_get_applied_path (st t) key = Some p"
    using assms put_applied_no_room [of key "st s"] get_applied_put [of key p now "st s"]
    by (cases "applied_room key (st s)") auto
qed

lemma rollback_fails_triple:
  "triple P (rollback_fails msg) (\<lambda>_ s. transition_state (st s) = EN_TRANSITION_FAILED)"
  unfolding rollback_fails_def set_transition_state_def
  by (rule triple_def [THEN iffD2]) (simp add: en_error_append_def)

lemma rollback_triple:
  assumes key: "length key < EN_MAX_TRAFFIC_KEY_LEN" and rid: "length rid < EN_MAX_ID_LEN"
  shows "triple (\<lambda>_. True) (rollback key rid target) (\<lambda>_ s. rolled_back key rid (st s))"
proof -
  let ?done = "\<lambda>s. applied_room key (st s) \<longrightarrow> en_get_applied_path (st s) key = Some rid"
  have fails: "triple (\<lambda>_. True) (rollback_fails msg) (\<lambda>_ s. rolled_back key rid (st s))"
    for msg
    by (rule triple_weaken [OF rollback_fails_triple]) (auto simp: rolled_back_def)
  have final: "triple ?done (set_transition_state EN_TRANSITION_IDLE \<bind> (\<lambda>_. State_Monad.return EN_ERR_NONE))
      (\<lambda>_ s. rolled_back key rid (st s))" if "rid \<noteq> []"
    using that unfolding set_transition_state_def
    by (auto simp: triple_def rolled_back_def applied_room_def find_applied_def en_get_applied_path_def)
  have skipped: "triple (\<lambda>_. True)
      (set_transition_state EN_TRANSITION_FAILED \<bind> (\<lambda>_. State_Monad.return EN_ERR_ROLLBACK_FAILED))
      (\<lambda>_ s. rolled_back key rid (st s))"
    unfolding set_transition_state_def by (simp add: triple_def rolled_back_def)
  show ?thesis
    unfolding rollback_def
    by (intro triple_bind [OF set_applied_triple [OF key rid]] triple_if fails skipped final
        triple_seq [OF preserves_True]
        triple_seq [OF preserves_audit [where J = "\<lambda>c. applied_room key c \<longrightarrow> en_get_applied_path c key = Some rid"]])
qed

definition committed :: "en_controller_state \<Rightarrow> string \<Rightarrow> nat \<Rightarrow> en_controller_state \<Rightarrow> bool" where
  "committed c0 key target c \<longleftrightarrow> transitioning c0 key target c \<and>
     (applied_room key c \<longrightarrow> en_get_applied_path c key = Some (pt_path_id (paths c0 ! target))) \<and>
     pt_operational_state (paths c ! target) = EN_PATH_ACTIVE"

lemma committed_other_fields [simp]:
  "committed c0 key target (c\<lparr>errors := e\<rparr>) = committed c0 key target c"
  "committed c0 key target (c\<lparr>transition_state := t\<rparr>) = committed c0 key target c"
  by (simp_all add: committed_def applied_room_def find_applied_def en_get_applied_path_def)

lemma transitioning_target: "transitioning c0 key target c \<Longrightarrow> target < length (paths c)"
  by (auto simp: transitioning_def dest: frame_length)

lemma switch_forwarding_triple:
  "triple (on_st (transitioning c0 key target)) (switch_forwarding target key)
     (\<lambda>e s. transitioning c0 key target (st s) \<and> (e = EN_ERR_NONE \<longrightarrow> committed c0 key target (st s)))"
  (is "triple ?T _ ?Q")
proof -
  let ?id = "pt_path_id (paths c0 ! target)"
  let ?A = "\<lambda>s. transitioning c0 key target (st s) \<and>
     (applied_room key (st s) \<longrightarrow> en_get_applied_path (st s) key = Some ?id)"
  have fail: "triple ?T (en_error_append x msg \<bind> (\<lambda>_. State_Monad.return e)) ?Q"
    if "e \<noteq> EN_ERR_NONE" for x msg and e
    by (rule triple_seq [OF transitioning_kept(1)], rule triple_return) (simp add: that)
  have fits: "transitioning c0 key target c \<Longrightarrow> length key < EN_MAX_TRAFFIC_KEY_LEN \<and>
      length ?id < EN_MAX_ID_LEN \<and> ?id \<in> transition_ids c0 key target" for c
    by (auto simp: transitioning_def transition_ids_def path_id_length)
  have set: "triple ?T (en_set_applied_path key ?id) (\<lambda>_. ?A)"
  proof (rule tripleI)
    fix s :: "'a machine" and a t
    assume T: "?T s" and run: "run_state (en_set_applied_path key ?id) s = (a, t)"
    have ok: "length key < EN_MAX_TRAFFIC_KEY_LEN" "length ?id < EN_MAX_ID_LEN"
      "?id \<in> transition_ids c0 key target"
      using fits [OF T] by auto
    have "?T t" by (rule preservesD [OF transitioning_kept(4) [OF ok(3)] T run])
    moreover have "applied_room key (st t) \<longrightarrow> en_get_applied_path (st t) key = Some ?id"
      by (rule tripleD [OF set_applied_triple [OF ok(1,2)] TrueI run])
    ultimately show "?A t" by simp
  qed
  have active: "triple ?A (set_operational_state target EN_PATH_ACTIVE \<bind>
      (\<lambda>_. State_Monad.return EN_ERR_NONE)) ?Q"
    unfolding set_operational_state_def
    by (auto simp: triple_def committed_def transitioning_target applied_room_def
        find_applied_def en_get_applied_path_def intro: transitioning_operational)
  have rest: "triple (\<lambda>s. ?T s \<and> pt_path_id p = ?id) (on_world (install key p) \<bind> (\<lambda>err.
      if err \<noteq> EN_ERR_NONE
      then en_error_append EN_ERR_FORWARDING_UPDATE_FAILED ''forwarding update failed'' \<bind>
        (\<lambda>_. State_Monad.return EN_ERR_FORWARDING_UPDATE_FAILED)
      else en_set_applied_path key (pt_path_id p) \<bind> (\<lambda>_.
        set_operational_state target EN_PATH_ACTIVE \<bind> (\<lambda>_. State_Monad.return EN_ERR_NONE)))) ?Q"
    for p install
  proof (cases "pt_path_id p = ?id")
    case True
    show ?thesis
      unfolding True
      by (rule triple_strengthen_pre [where P' = ?T],
          intro triple_if fail triple_bind [OF set] active triple_seq [OF preserves_on_world])
        simp_all
  next
    case False
    then show ?thesis by (simp add: triple_def)
  qed
  show ?thesis
    unfolding switch_forwarding_def
    by (intro triple_read [where f = "path_at target"] triple_seq [OF transitioning_kept(2)]
        triple_seq [OF preserves_gets] triple_case_option fail triple_strengthen_pre [OF rest])
      (auto simp: path_at_def transitioning_path_id)
qed

lemma commit_triple:
  "triple (on_st (transitioning c0 key target)) (transition_commit intent target previous key)
     (\<lambda>e s. transitioning c0 key target (st s) \<and> (e = EN_ERR_NONE \<longrightarrow> committed c0 key target (st s)))"
proof -
  have preserve: "triple (on_st (transitioning c0 key target))
      (en_error_append EN_ERR_STATE_CONFLICT m \<bind> (\<lambda>_. State_Monad.return EN_ERR_STATE_CONFLICT))
      (\<lambda>e s. transitioning c0 key target (st s) \<and> (e = EN_ERR_NONE \<longrightarrow> committed c0 key target (st s)))"
    for m
    by (intro triple_seq [OF transitioning_kept(1)] triple_return) simp
  show ?thesis
    unfolding transition_commit_def
    by (intro triple_seq [OF preserves_gets] triple_seq [OF transitioning_kept(3)])
      (auto intro!: triple_seq [OF transitioning_kept(5)] switch_forwarding_triple preserve
        split: en_transition_strategy.splits)
qed

text \<open>Confirming, waiting and completing keep a commit.\<close>

lemma preserves_wait [wp]:
  "preserves (on_st J) (transition_retry_wait intent attempt phase p)"
  unfolding transition_retry_wait_def by (intro wp)

lemma preserves_confirm:
  "(\<And>c e. J c \<Longrightarrow> J (c\<lparr>errors := e\<rparr>)) \<Longrightarrow> (\<And>c t. J c \<Longrightarrow> J (c\<lparr>transition_state := t\<rparr>)) \<Longrightarrow>
   preserves (on_st J) (transition_confirm target key)"
  unfolding transition_confirm_def by (intro wp) auto

lemma retry_phase_triple:
  assumes "triple I body (\<lambda>e s. I s \<and> (e = EN_ERR_NONE \<longrightarrow> Q s))"
    and "\<And>attempt p. preserves I (transition_retry_wait intent attempt phase p)"
  shows "triple I (retry_phase intent phase i body) (\<lambda>e s. I s \<and> (e = EN_ERR_NONE \<longrightarrow> Q s))"
  unfolding retry_phase_def
proof (rule triple_retry_loop [where F = "\<lambda>_ s. I s"])
  show "triple I body (\<lambda>e s. if e = EN_ERR_NONE then I s \<and> (EN_ERR_NONE = EN_ERR_NONE \<longrightarrow> Q s) else I s)"
    by (rule triple_weaken [OF assms(1)]) auto
  show "triple I (gets (path_at i) \<bind> (\<lambda>p. transition_retry_wait intent k phase (pt_path_id p))) (\<lambda>_. I)" for k
    by (intro triple_seq [OF preserves_gets] assms(2) [unfolded preserves_def])
qed simp

definition retired :: "nat option \<Rightarrow> nat \<Rightarrow> en_controller_state \<Rightarrow> bool" where
  "retired previous target c \<longleftrightarrow>
     (\<forall>i. previous = Some i \<longrightarrow> i \<noteq> target \<longrightarrow> i < length (paths c) \<longrightarrow>
        pt_operational_state (paths c ! i) = EN_PATH_STANDBY)"

lemma committed_set_other:
  "committed c0 key target c \<Longrightarrow> i \<noteq> target \<Longrightarrow>
   committed c0 key target (c\<lparr>paths := (paths c)[i := (paths c ! i)\<lparr>pt_operational_state := v\<rparr>]\<rparr>)"
  by (auto simp: committed_def applied_room_def find_applied_def en_get_applied_path_def
      intro: transitioning_operational)

lemma preserves_remove_segments: "preserves (on_st J) (remove_segments gs keep)"
  by (induction gs) (auto intro!: wp split: option.splits)

lemma preserves_call_remove_path: "preserves (on_st J) (call_remove_path key i)"
  unfolding call_remove_path_def by (intro wp)

lemma preserves_call_remove_tunnels: "preserves (on_st J) (call_remove_tunnels i keep)"
  unfolding call_remove_tunnels_def remove_unshared_tunnels_def by (intro wp preserves_remove_segments)

lemma cleanup_triple:
  "triple (on_st (committed c0 key target)) (transition_cleanup_previous key previous target)
     (\<lambda>e s. transitioning c0 key target (st s) \<and>
        (e = EN_ERR_NONE \<longrightarrow> committed c0 key target (st s) \<and> retired previous target (st s)))"
  (is "triple ?C _ ?Q")
proof -
  let ?R = "\<lambda>i c. committed c0 key target c \<and> retired (Some i) target c"
  have early: "triple ?C (State_Monad.return e) ?Q" if "e \<noteq> EN_ERR_NONE" for e
    by (rule triple_return) (simp add: that committed_def)
  have final: "triple ?C (set_operational_state i EN_PATH_STANDBY \<bind> (\<lambda>_.
      gets (path_at i) \<bind> (\<lambda>p. en_audit_append ty msg (Some (pt_path_id p)) \<bind>
      (\<lambda>_. State_Monad.return EN_ERR_NONE)))) (\<lambda>e s. e = EN_ERR_NONE \<and> ?R i (st s))"
    if "i \<noteq> target" for i ty msg
  proof -
    have "triple ?C (set_operational_state i EN_PATH_STANDBY) (\<lambda>_ s. ?R i (st s))"
      unfolding set_operational_state_def
      by (rule triple_modify) (simp add: committed_set_other that retired_def)
    then show ?thesis
      by (rule triple_bind) (intro triple_seq [OF preserves_gets] triple_seq [OF preserves_audit]
          triple_return, simp)
  qed
  have weak: "triple ?C m (\<lambda>e s. e = EN_ERR_NONE \<and> ?R i (st s)) \<Longrightarrow> previous = Some i \<Longrightarrow> triple ?C m ?Q"
    for m i
    by (erule triple_weaken) (auto simp: committed_def)
  show ?thesis
    unfolding transition_cleanup_previous_def
    by (intro triple_case_option triple_if weak [OF final]
        early [of EN_ERR_FORWARDING_UPDATE_FAILED] early [of EN_ERR_TUNNEL_ESTABLISH_TIMEOUT]
        triple_seq [OF preserves_call_remove_path] triple_seq [OF preserves_call_remove_tunnels])
      (auto intro!: triple_return simp: committed_def retired_def)
qed

definition settled :: "en_controller_state \<Rightarrow> string \<Rightarrow> nat \<Rightarrow> nat option \<Rightarrow> en_controller_state \<Rightarrow> bool" where
  "settled c0 key target previous c \<longleftrightarrow>
     committed c0 key target c \<and> retired previous target c \<and> transition_state c = EN_TRANSITION_IDLE"

lemma complete_triple:
  "triple (\<lambda>s. committed c0 key target (st s) \<and> retired previous target (st s)) (complete_transition target)
     (\<lambda>e s. e = EN_ERR_NONE \<and> settled c0 key target previous (st s))"
proof -
  let ?J = "\<lambda>c. committed c0 key target c \<and> retired previous target c"
  have final: "triple (on_st ?J) (set_transition_state EN_TRANSITION_IDLE \<bind> (\<lambda>_. State_Monad.return EN_ERR_NONE))
      (\<lambda>e s. e = EN_ERR_NONE \<and> settled c0 key target previous (st s))"
    unfolding set_transition_state_def by (simp add: triple_def settled_def retired_def)
  show ?thesis
    unfolding complete_transition_def
    by (intro final triple_seq [OF preserves_set_transition_state [where J = ?J]] triple_seq [OF preserves_gets]
        triple_seq [OF preserves_audit [where J = ?J]])
      (auto simp: retired_def)
qed

text \<open>What every exit of a transition establishes.\<close>

definition transition_outcome ::
  "en_controller_state \<Rightarrow> string \<Rightarrow> string \<Rightarrow> nat \<Rightarrow> nat option \<Rightarrow> en_error_code \<Rightarrow> en_controller_state \<Rightarrow> bool" where
  "transition_outcome c0 key rid target previous e c \<longleftrightarrow>
     (if e = EN_ERR_NONE then settled c0 key target previous c
      else transitioning c0 key target c \<and> rolled_back key rid c)"

lemma transition_outcome_settled:
  "e = EN_ERR_NONE \<and> settled c0 key target previous c \<Longrightarrow>
   transition_outcome c0 key rid target previous e c"
  by (simp add: transition_outcome_def)

lemma abort_triple:
  assumes err: "err \<noteq> EN_ERR_NONE" and rid: "rid \<noteq> [] \<Longrightarrow> rid \<in> transition_ids c0 key target"
  shows "triple (on_st (transitioning c0 key target)) (abort_with logged err key rid target)
    (\<lambda>e s. transition_outcome c0 key rid target previous e (st s))"
proof (rule tripleI)
  fix s :: "'w machine" and a t
  assume T: "transitioning c0 key target (st s)" and run: "run_state (abort_with logged err key rid target) s = (a, t)"
  have "length rid < EN_MAX_ID_LEN"
    using rid by (cases "rid = []") (auto simp: transition_ids_def)
  then have undone: "triple (\<lambda>_. True) (rollback key rid target) (\<lambda>_ s. rolled_back key rid (st s))"
    using T by (intro rollback_triple) (auto simp: transitioning_def)
  have "triple (\<lambda>_. True) (abort_with logged err key rid target) (\<lambda>e s. e = err \<and> rolled_back key rid (st s))"
    unfolding abort_with_def
    by (intro triple_bind [OF undone] triple_seq [OF preserves_True] triple_return) simp
  from tripleD [OF this TrueI run] preservesD [OF transitioning_kept(6) [OF rid] T run] err
  show "transition_outcome c0 key rid target previous a (st t)"
    by (simp add: transition_outcome_def)
qed

lemma transition_switch_triple:
  assumes rid: "rid \<noteq> [] \<Longrightarrow> rid \<in> transition_ids c0 key target"
  shows "triple (on_st (transitioning c0 key target)) (transition_switch intent target key rid)
    (\<lambda>e s. transition_outcome c0 key rid target (en_find_path c0 (Some rid)) e (st s))"
  (is "triple ?T _ ?Q")
proof -
  let ?C = "on_st (committed c0 key target)"
  have abort: "err \<noteq> EN_ERR_NONE \<Longrightarrow> triple ?T (abort_with logged err key rid target) ?Q" for logged err
    using abort_triple rid by blast
  have clean: "triple ?C (transition_cleanup_previous key previous target \<bind> (\<lambda>err.
      if err \<noteq> EN_ERR_NONE then abort_with (Some (err, m)) err key rid target
      else complete_transition target)) ?Q" if "previous = en_find_path c0 (Some rid)" for previous m
    by (rule triple_bind [OF cleanup_triple], rule triple_if)
      (auto intro: triple_strengthen_pre [OF abort] triple_weaken [OF complete_triple] that
        transition_outcome_settled simp: that)
  have confirm: "triple ?C (retry_phase intent ph target (transition_confirm target key)) (\<lambda>_. ?C)" for ph
    unfolding retry_phase_def preserves_def [symmetric] by (intro wp preserves_confirm) simp_all
  have tail: "triple (\<lambda>s. ?T s \<and> previous = en_find_path (st s) (Some rid))
      (retry_phase intent ph target (transition_commit intent target previous key) \<bind> (\<lambda>err.
        if err \<noteq> EN_ERR_NONE
        then abort_with lg EN_ERR_FORWARDING_UPDATE_FAILED key rid target
        else retry_phase intent ph' target (transition_confirm target key) \<bind> (\<lambda>err.
          if err \<noteq> EN_ERR_NONE then abort_with None err key rid target
          else transition_cleanup_previous key previous target \<bind> (\<lambda>err.
            if err \<noteq> EN_ERR_NONE then abort_with (Some (err, m)) err key rid target
            else complete_transition target)))) ?Q" for previous ph ph' lg m
  proof (cases "previous = en_find_path c0 (Some rid)")
    case True
    show ?thesis
      by (rule triple_strengthen_pre [where P' = ?T],
          rule triple_bind [OF retry_phase_triple [OF commit_triple preserves_wait]], rule triple_if,
          rule triple_strengthen_pre [OF abort], simp, simp,
          rule triple_strengthen_pre [where P' = ?C],
          rule triple_bind [OF confirm], rule triple_if,
          rule triple_strengthen_pre [OF abort], assumption, simp add: committed_def,
          rule clean [OF True], simp, erule conjunct1)
  next
    case False
    then show ?thesis
      by (auto simp: triple_def transitioning_def dest: frame_find_path)
  qed
  show ?thesis
    unfolding transition_switch_def by (rule triple_read) (rule tail)
qed

lemma transition_triple:
  assumes c0: "transitioning c0 key target c0" and key: "transition_key intent = key"
    and rid: "rid = en_copy_id EN_MAX_ID_LEN (en_get_applied_path c0 key)"
    and valid: "en_path_counts_valid (paths c0 ! target)" "en_transition_policy_valid (it_transition intent)"
  shows "triple (\<lambda>s. st s = c0) (en_transition_path intent target)
    (\<lambda>e s. transition_outcome c0 key rid target (en_find_path c0 (Some rid)) e (st s))"
  (is "triple _ _ ?Q")
proof -
  let ?T = "on_st (transitioning c0 key target)"
  have ids: "rid \<in> transition_ids c0 key target" if "rid \<noteq> []"
  proof (cases "en_get_applied_path c0 key")
    case None
    with that rid show ?thesis by simp
  next
    case (Some p)
    moreover from this c0 have "length p < EN_MAX_ID_LEN"
      by (auto simp: transitioning_def dest: applied_path_length)
    ultimately show ?thesis by (simp add: rid transition_ids_def cap_simps)
  qed
  have retry: "preserves ?T body \<Longrightarrow> preserves ?T (retry_phase intent ph target body)" for body ph
    unfolding retry_phase_def by (intro wp preserves_wait)
  have body: "triple ?T (set_transition_state x \<bind> (\<lambda>_. en_audit_append ty m r \<bind> (\<lambda>_.
      retry_phase intent ph target (transition_prepare target) \<bind> (\<lambda>err.
        if err \<noteq> EN_ERR_NONE then abort_with (lg err) err key rid target
        else retry_phase intent ph' target (transition_ready target) \<bind> (\<lambda>err.
          if err \<noteq> EN_ERR_NONE then abort_with (lg' err) err key rid target
          else transition_switch intent target key rid))))) ?Q" for x ty m r ph ph' lg lg'
    by (intro triple_seq [OF transitioning_kept(2)] triple_seq [OF transitioning_kept(3)]
        triple_seq [OF retry [OF transitioning_kept(7)]] triple_seq [OF retry [OF transitioning_kept(8)]]
        triple_if abort_triple ids transition_switch_triple)
  show ?thesis
    unfolding en_transition_path_def Let_def key
  proof (rule triple_read, goal_cases)
    case (1 p)
    show ?case
    proof (cases "p = paths c0 ! target")
      case True
      have "triple (\<lambda>s. (st s = c0 \<and> p = path_at target s) \<and> current = en_get_applied_path (st s) key)
          (set_transition_state x \<bind> (\<lambda>_. en_audit_append ty m r \<bind> (\<lambda>_.
            retry_phase intent ph target (transition_prepare target) \<bind> (\<lambda>err.
              if err \<noteq> EN_ERR_NONE
              then abort_with (lg err) err key (en_copy_id EN_MAX_ID_LEN current) target
              else retry_phase intent ph' target (transition_ready target) \<bind> (\<lambda>err.
                if err \<noteq> EN_ERR_NONE
                then abort_with (lg' err) err key (en_copy_id EN_MAX_ID_LEN current) target
                else transition_switch intent target key (en_copy_id EN_MAX_ID_LEN current)))))) ?Q"
        for current x ty m r ph ph' lg lg'
      proof (cases "current = en_get_applied_path c0 key")
        case True
        show ?thesis
          unfolding True rid [symmetric]
          by (rule triple_strengthen_pre [OF body]) (auto simp: c0)
      next
        case False
        then show ?thesis by (auto simp: triple_def)
      qed
      with valid True show ?thesis
        by (auto intro!: triple_read)
    next
      case False
      then show ?thesis by (auto simp: triple_def path_at_def)
    qed
  qed
qed

lemma transition_outcome_run:
  assumes wf: "wf_state (st s)" "target < length (paths (st s))"
    and run: "run_state (en_transition_path intent target) s = (e, t)"
    and valid: "en_path_counts_valid (paths (st s) ! target)"
      "en_transition_policy_valid (it_transition intent)"
  shows "transition_outcome (st s) (transition_key intent)
    (en_copy_id EN_MAX_ID_LEN (en_get_applied_path (st s) (transition_key intent))) target
    (en_find_path (st s) (Some (en_copy_id EN_MAX_ID_LEN
       (en_get_applied_path (st s) (transition_key intent))))) e (st t)"
  using tripleD [OF transition_triple [OF transitioning_refl [OF wf] refl refl valid] refl run] .

lemma transition_rejected:
  "\<not> en_path_counts_valid (paths (st s) ! target) \<or> \<not> en_transition_policy_valid (it_transition intent) \<Longrightarrow>
   run_state (en_transition_path intent target) s = (EN_ERR_INVALID_ARGUMENT, s)"
  by (auto simp: en_transition_path_def path_at_def)

lemma transition_success_valid:
  "run_state (en_transition_path intent target) s = (EN_ERR_NONE, t) \<Longrightarrow>
   en_path_counts_valid (paths (st s) ! target) \<and> en_transition_policy_valid (it_transition intent)"
  using transition_rejected [of s target intent] by auto

lemma applied_path_copy:
  "wf_state c \<Longrightarrow> en_get_applied_path c key = Some p \<Longrightarrow> en_copy_id EN_MAX_ID_LEN (Some p) = p"
  by (simp add: cap_simps applied_path_length)

text \<open>The transitions at which the witnesses apply the properties.\<close>

definition sample_transition :: "bool \<Rightarrow> en_error_code \<times> mocks machine" where
  "sample_transition fail_next =
     run_state (en_transition_path (sample_intent EN_SELECT_EXPLICIT zero_constraints) 1)
       (sample_machine fail_next (sample_active ''path-via-hub''))"

lemma sample_transition_code:
  "fst (sample_transition False) = EN_ERR_NONE"
  "fst (sample_transition True) = EN_ERR_FORWARDING_UPDATE_FAILED"
  by code_simp+

lemma sample_transition_run:
  "run_state (en_transition_path (sample_intent EN_SELECT_EXPLICIT zero_constraints) 1)
     (sample_machine fail_next (sample_active ''path-via-hub'')) =
   (fst (sample_transition fail_next), snd (sample_transition fail_next))"
  by (simp add: sample_transition_def)

lemma sample_admitted:
  "wf_state (sample_active ''path-via-hub'')" "1 < length (paths (sample_active ''path-via-hub''))"
  "applied_room (transition_key (sample_intent EN_SELECT_EXPLICIT zero_constraints)) (sample_active ''path-via-hub'')"
  "en_path_counts_valid (paths (sample_active ''path-via-hub'') ! 1)"
  "en_transition_policy_valid (it_transition (sample_intent EN_SELECT_EXPLICIT zero_constraints))"
  by (simp add: wf_sample_active, code_simp+)

lemma sample_key: "transition_key (sample_intent EN_SELECT_EXPLICIT zero_constraints) = ''lan-a->lan-b''"
  by code_simp

lemma sample_target: "pt_path_id (paths (sample_active ''path-via-hub'') ! 1) = ''path-direct''"
  by code_simp

section \<open>Properties\<close>

text \<open>
  C4. A transition that returns without an error leaves the target recorded as the applied path
  of the intent's traffic and \<open>ACTIVE\<close>, the path applied before in \<open>STANDBY\<close>, and the controller
  \<open>IDLE\<close>. The record needs a free entry where the traffic had none.
\<close>

theorem transition_success:
  assumes "wf_state (st s)" "target < length (paths (st s))"
    and "applied_room (transition_key intent) (st s)"
    and "run_state (en_transition_path intent target) s = (EN_ERR_NONE, t)"
  shows "en_get_applied_path (st t) (transition_key intent) = Some (pt_path_id (paths (st s) ! target)) \<and>
    pt_operational_state (paths (st t) ! target) = EN_PATH_ACTIVE \<and>
    transition_state (st t) = EN_TRANSITION_IDLE \<and>
    (\<forall>p previous. en_get_applied_path (st s) (transition_key intent) = Some p \<longrightarrow>
       en_find_path (st s) (Some p) = Some previous \<longrightarrow> previous \<noteq> target \<longrightarrow>
       pt_operational_state (paths (st t) ! previous) = EN_PATH_STANDBY)"
proof -
  let ?rid = "en_copy_id EN_MAX_ID_LEN (en_get_applied_path (st s) (transition_key intent))"
  have settled: "settled (st s) (transition_key intent) target (en_find_path (st s) (Some ?rid)) (st t)"
    using transition_outcome_run [OF assms(1,2,4)] transition_success_valid [OF assms(4)]
    by (simp add: transition_outcome_def)
  then have room: "applied_room (transition_key intent) (st t)"
    and len: "length (paths (st t)) = length (paths (st s))"
    using assms(3) by (auto simp: settled_def committed_def transitioning_def dest: frame_length)
  have "pt_operational_state (paths (st t) ! previous) = EN_PATH_STANDBY"
    if "en_get_applied_path (st s) (transition_key intent) = Some p"
      "en_find_path (st s) (Some p) = Some previous" "previous \<noteq> target" for p previous
    using settled that applied_path_copy [OF assms(1) that(1)] find_index_less [of _ "paths (st s)" previous]
    by (auto simp: settled_def retired_def len en_find_path_def)
  with settled room show ?thesis by (auto simp: settled_def committed_def)
qed

theorem transition_success_witness:
  "en_get_applied_path (st (snd (sample_transition False))) ''lan-a->lan-b'' = Some ''path-direct''"
  using transition_success [OF _ _ _ sample_transition_run [of False, unfolded sample_transition_code]]
    sample_admitted sample_target
  by (simp add: sample_key)


text \<open>
  C3. A transition that was admitted and fails never ends half-way: the controller is \<open>FAILED\<close>,
  or it is \<open>IDLE\<close> again and the path that was applied before the transition is the applied one.
\<close>

theorem transition_failure:
  assumes "wf_state (st s)" "target < length (paths (st s))"
    and "en_path_counts_valid (paths (st s) ! target)" "en_transition_policy_valid (it_transition intent)"
    and "run_state (en_transition_path intent target) s = (e, t)" "e \<noteq> EN_ERR_NONE"
  shows "transition_state (st t) = EN_TRANSITION_FAILED \<or>
    (transition_state (st t) = EN_TRANSITION_IDLE \<and>
     en_get_applied_path (st s) (transition_key intent) \<noteq> None \<and>
     en_get_applied_path (st t) (transition_key intent) = en_get_applied_path (st s) (transition_key intent))"
proof -
  let ?old = "en_get_applied_path (st s) (transition_key intent)"
  have out: "rolled_back (transition_key intent) (en_copy_id EN_MAX_ID_LEN ?old) (st t)"
    and T: "transitioning (st s) (transition_key intent) target (st t)"
    using transition_outcome_run [OF assms(1,2,5,3,4)] assms(6) by (auto simp: transition_outcome_def)
  show ?thesis
  proof (cases ?old)
    case None
    with out show ?thesis by (simp add: rolled_back_def)
  next
    case (Some p)
    then have "applied_room (transition_key intent) (st t)"
      using T by (auto simp: transitioning_def applied_room_def en_get_applied_path_def)
    with out Some applied_path_copy [OF assms(1) Some] show ?thesis
      by (auto simp: rolled_back_def)
  qed
qed

theorem transition_failure_witness:
  "transition_state (st (snd (sample_transition True))) = EN_TRANSITION_FAILED \<or>
   en_get_applied_path (st (snd (sample_transition True))) ''lan-a->lan-b'' = Some ''path-via-hub''"
proof -
  have "en_get_applied_path (sample_active ''path-via-hub'') ''lan-a->lan-b'' = Some ''path-via-hub''"
    by code_simp
  then show ?thesis
    using transition_failure [OF _ _ _ _ sample_transition_run [of True]] sample_admitted
    by (auto simp: sample_key sample_transition_code)
qed


text \<open>
  C6. Whatever its outcome, a transition leaves the configuration and the other traffic alone: the
  nodes, the intents, the configured tunnels, the configuration of the paths, the adapters and the
  applied paths of all other traffic keys stay as they are, and the applied path of its own key is
  the one from before or the target. What a transition may change besides are the observed tunnels,
  the health and the operational states of the paths, the transition state of the controller, the
  recorded error and the audit log.
\<close>

theorem transition_frame:
  assumes "wf_state (st s)" "target < length (paths (st s))"
    and "run_state (en_transition_path intent target) s = (e, t)"
  shows "frame (transition_key intent) (st s) (st t) \<and> adapters t = adapters s \<and>
    (en_get_applied_path (st t) (transition_key intent) = en_get_applied_path (st s) (transition_key intent) \<or>
     en_get_applied_path (st t) (transition_key intent) = Some (pt_path_id (paths (st s) ! target)))"
proof -
  have "adapters t = adapters s \<and> transitioning (st s) (transition_key intent) target (st t)"
    using preservesD [OF keeps_frame.transition_ok [OF refl] _ assms(3)] transitioning_refl [OF assms(1,2)]
    by blast
  then show ?thesis by (auto simp: transitioning_def)
qed

theorem transition_frame_witness:
  "frame ''lan-a->lan-b'' (sample_active ''path-via-hub'') (st (snd (sample_transition True)))"
  using transition_frame [OF _ _ sample_transition_run [of True]] sample_admitted
  by (simp add: sample_key)


text \<open>A transition keeps every capacity and the distinctness of every registry.\<close>

lemma transition_keeps_wf:
  assumes "wf_state (st s)" "run_state (en_transition_path intent target) s = (e, t)"
  shows "wf_state (st t)"
  using preservesD [OF drop_adapters [OF keeps_wf.transition_ok [OF refl]] assms] .

theorem transition_keeps_wf_witness: "wf_state (st (snd (sample_transition True)))"
  using transition_keeps_wf [OF _ sample_transition_run [of True]] sample_admitted by simp

end
