(* ===== verification/ControllerCore.thy ===== *)
theory ControllerCore
  imports PathSelection Transition
begin

text \<open>
  The controller of \<open>src/controller.c\<close>: its creation, the observation of the candidates' health,
  and the reconciliation of an intent, \<open>en_controller_submit_intent\<close>, which stores the intent,
  observes, selects a path and, unless the selected path is applied already, makes the
  transition to it.
\<close>

section \<open>Creation\<close>

text \<open>
  An array argument is a pointer with a count: \<open>None\<close> for \<open>NULL\<close>, otherwise a list at least as
  long as the count. \<open>memory\<close> says whether \<open>calloc\<close> succeeds.
\<close>

definition elements :: "'a list option \<Rightarrow> nat \<Rightarrow> 'a list" where
  "elements ptr n = (case ptr of None \<Rightarrow> [] | Some xs \<Rightarrow> take n xs)"

definition en_controller_create_with_nodes_and_tunnels ::
  "bool \<Rightarrow> en_node list option \<Rightarrow> nat \<Rightarrow> en_path list option \<Rightarrow> nat \<Rightarrow> en_tunnel list option \<Rightarrow> nat \<Rightarrow>
   'w en_strongswan_adapter \<Rightarrow> 'w en_vpp_adapter \<Rightarrow> 'w en_health_probe \<Rightarrow> 'w en_controller option" where
  "en_controller_create_with_nodes_and_tunnels memory nodes_ptr node_count paths_ptr path_count
      tunnels_ptr tunnel_count ssw vp hp =
     (if paths_ptr = None \<or> EN_MAX_PATHS < path_count \<or> EN_MAX_NODES < node_count \<or>
         EN_MAX_TUNNELS < tunnel_count \<or> (0 < node_count \<and> nodes_ptr = None) \<or>
         (0 < tunnel_count \<and> tunnels_ptr = None) then None
      else if \<not> list_all en_path_counts_valid (elements paths_ptr path_count) then None
      else if \<not> list_all (\<lambda>n. length (nd_endpoints n) \<le> EN_MAX_ENDPOINTS \<and>
                 length (nd_capabilities n) \<le> EN_MAX_CAPABILITIES) (elements nodes_ptr node_count) then None
      else if \<not> memory then None
      else Some \<lparr>
        cstate = \<lparr>nodes = elements nodes_ptr node_count, paths = elements paths_ptr path_count,
          intents = [], desired_tunnels = elements tunnels_ptr tunnel_count, observed_tunnels = [],
          health = [], applied = [], transition_state = EN_TRANSITION_IDLE, errors = []\<rparr>,
        audit_events = [], strongswan = ssw, vpp = vp, health_probe = hp\<rparr>)"

definition en_controller_create_with_tunnels ::
  "bool \<Rightarrow> en_path list option \<Rightarrow> nat \<Rightarrow> en_tunnel list option \<Rightarrow> nat \<Rightarrow>
   'w en_strongswan_adapter \<Rightarrow> 'w en_vpp_adapter \<Rightarrow> 'w en_health_probe \<Rightarrow> 'w en_controller option" where
  "en_controller_create_with_tunnels memory =
     en_controller_create_with_nodes_and_tunnels memory None 0"

definition en_controller_create ::
  "bool \<Rightarrow> en_path list option \<Rightarrow> nat \<Rightarrow>
   'w en_strongswan_adapter \<Rightarrow> 'w en_vpp_adapter \<Rightarrow> 'w en_health_probe \<Rightarrow> 'w en_controller option" where
  "en_controller_create memory paths_ptr path_count =
     en_controller_create_with_nodes_and_tunnels memory None 0 paths_ptr path_count None 0"

section \<open>Observation\<close>

definition store_health :: "en_path_health \<Rightarrow> ('w, unit) act" where
  "store_health h = modify (upd_st (put_health h))"

definition observe_one :: "string \<Rightarrow> ('w, en_error_code) act" where
  "observe_one path_id = do {
     c \<leftarrow> gets st;
     callback \<leftarrow> gets (\<lambda>s. validate_path (health_probe (ctl s)));
     case en_find_path c (Some path_id) of
       None \<Rightarrow> State_Monad.return EN_ERR_NOT_FOUND
     | Some i \<Rightarrow>
         (case callback of
            None \<Rightarrow> State_Monad.return EN_ERR_INVALID_ARGUMENT
          | Some validate \<Rightarrow> do {
              (err, h) \<leftarrow> on_world (validate (paths c ! i) zero_health);
              if err \<noteq> EN_ERR_NONE then State_Monad.return err
              else do { _ \<leftarrow> store_health h; State_Monad.return EN_ERR_NONE }
            })
   }"

primrec observe_all :: "string list \<Rightarrow> ('w, en_error_code) act" where
  "observe_all [] = State_Monad.return EN_ERR_NONE"
| "observe_all (p # ps) = do {
     err \<leftarrow> observe_one p;
     if err \<noteq> EN_ERR_NONE then State_Monad.return err else observe_all ps
   }"

definition observe_candidate_health :: "en_intent \<Rightarrow> ('w, en_error_code) act" where
  "observe_candidate_health intent =
     (if ps_candidates (it_path_selection intent) \<noteq> []
      then observe_all (ps_candidates (it_path_selection intent))
      else if ps_mode (it_path_selection intent) = EN_SELECT_EXPLICIT
      then observe_one (ps_path_id (it_path_selection intent))
      else do { c \<leftarrow> gets st; observe_all (map pt_path_id (paths c)) })"

section \<open>Submitting an intent\<close>

text \<open>Overwrite the stored intent with the same identifier, or append it where there is room.\<close>

definition put_intent :: "en_intent \<Rightarrow> en_controller_state \<Rightarrow> en_controller_state option" where
  "put_intent intent c =
     (case find_index (\<lambda>i. en_streq (Some (it_intent_id i)) (Some (it_intent_id intent))) (intents c) of
        Some i \<Rightarrow> Some (c\<lparr>intents := (intents c)[i := intent]\<rparr>)
      | None \<Rightarrow> if EN_MAX_CANDIDATES \<le> length (intents c) then None
          else Some (c\<lparr>intents := intents c @ [intent]\<rparr>))"

definition reconcile_result ::
  "en_intent \<Rightarrow> string \<Rightarrow> en_transition_state \<Rightarrow> en_selection_result \<Rightarrow> en_reconcile_result" where
  "reconcile_result intent selected state selection = zero_reconcile_result\<lparr>
     rr_intent_id := en_copy_id EN_MAX_ID_LEN (Some (it_intent_id intent)),
     rr_selected_path := selected, rr_transition_state := state, rr_explanation := selection\<rparr>"

definition apply_selection ::
  "en_intent \<Rightarrow> en_selection_result \<Rightarrow> en_reconcile_result \<Rightarrow> ('w, en_error_code \<times> en_reconcile_result) act" where
  "apply_selection intent selection result = do {
     _ \<leftarrow> set_transition_state EN_TRANSITION_CANDIDATE_SELECTED;
     _ \<leftarrow> en_audit_append ''PATH_SELECTED'' (sr_reason selection) (Some (sr_selected_path selection));
     c \<leftarrow> gets st;
     case en_find_path c (Some (sr_selected_path selection)) of
       None \<Rightarrow> State_Monad.return (EN_ERR_NOT_FOUND, result)
     | Some target \<Rightarrow>
         let selected = en_copy_id EN_MAX_ID_LEN (Some (sr_selected_path selection)) in
         if en_streq (en_get_applied_path c (transition_key intent)) (Some (pt_path_id (paths c ! target)))
         then do {
           _ \<leftarrow> set_transition_state EN_TRANSITION_IDLE;
           _ \<leftarrow> en_audit_append ''PATH_MAINTAINED'' ''active path remains selected''
             (Some (pt_path_id (paths c ! target)));
           state \<leftarrow> gets (\<lambda>s. transition_state (st s));
           State_Monad.return (EN_ERR_NONE, reconcile_result intent selected state selection)
         } else do {
           err \<leftarrow> en_transition_path intent target;
           state \<leftarrow> gets (\<lambda>s. transition_state (st s));
           State_Monad.return (err, reconcile_result intent selected state selection)
         }
   }"

definition reconcile ::
  "en_intent \<Rightarrow> en_reconcile_result \<Rightarrow> ('w, en_error_code \<times> en_reconcile_result) act" where
  "reconcile intent result = do {
     _ \<leftarrow> en_audit_append ''INTENT_CREATED'' ''intent accepted'' (Some (it_intent_id intent));
     err \<leftarrow> observe_candidate_health intent;
     if err \<noteq> EN_ERR_NONE then State_Monad.return (err, result)
     else do {
       c \<leftarrow> gets st;
       (err', selection) \<leftarrow> on_world (en_select_path c intent);
       if err' \<noteq> EN_ERR_NONE then do {
         state \<leftarrow> gets (\<lambda>s. transition_state (st s));
         _ \<leftarrow> en_error_append err' ''path selection failed'';
         State_Monad.return (err', reconcile_result intent [] state selection)
       } else apply_selection intent selection result
     }
   }"

definition en_controller_submit_intent ::
  "en_intent option \<Rightarrow> en_reconcile_result option \<Rightarrow>
   ('w, en_error_code \<times> en_reconcile_result option) act" where
  "en_controller_submit_intent intent_ptr result_ptr =
     (case (intent_ptr, result_ptr) of
        (Some intent, Some result) \<Rightarrow>
          if \<not> en_intent_counts_valid intent \<or> \<not> en_transition_policy_valid (it_transition intent)
          then State_Monad.return (EN_ERR_INVALID_ARGUMENT, result_ptr)
          else do {
            c \<leftarrow> gets st;
            case put_intent intent c of
              None \<Rightarrow> State_Monad.return (EN_ERR_INVALID_ARGUMENT, result_ptr)
            | Some c' \<Rightarrow> do {
                _ \<leftarrow> modify (upd_st (\<lambda>_. c'));
                (err, result') \<leftarrow> reconcile intent result;
                State_Monad.return (err, Some result')
              }
          }
      | _ \<Rightarrow> State_Monad.return (EN_ERR_INVALID_ARGUMENT, result_ptr))"

section \<open>Invariants\<close>

lemma created_wf:
  assumes "en_controller_create_with_nodes_and_tunnels memory nodes_ptr node_count paths_ptr path_count
      tunnels_ptr tunnel_count ssw vp hp = Some c"
    and "\<And>p. p \<in> set (elements paths_ptr path_count) \<Longrightarrow> length (pt_path_id p) < EN_MAX_ID_LEN"
  shows "wf_state (cstate c)"
  using assms
  by (auto simp: en_controller_create_with_nodes_and_tunnels_def wf_state_def wf_config_def
      wf_registries_def wf_node_def wf_path_def elements_def list_all_iff
      split: if_splits option.splits)

text \<open>A reconciliation is an observation and a transition: its invariants are the transition's.\<close>

context transition_stable begin

lemma observe_one_ok: "preserves I (observe_one p)"
  unfolding observe_one_def store_health_def
  by (rule preserves_bind, rule preserves_gets, rule read_callback)
    (intro wp validate_ok health_ok)

lemma observe_all_ok: "preserves I (observe_all ps)"
  by (induction ps) (auto intro!: preserves_bind preserves_if preserves_return observe_one_ok)

lemma observe_candidates_ok: "preserves I (observe_candidate_health intent)"
  unfolding observe_candidate_health_def by (intro wp observe_all_ok observe_one_ok)

end


text \<open>
  What survives the parts of a submission survives the submission, whichever path is selected.
\<close>

locale submission_stable =
  fixes I :: "'w machine \<Rightarrow> bool" and intent :: en_intent
  assumes intent_ok: "\<And>s c. I s \<Longrightarrow> put_intent intent (st s) = Some c \<Longrightarrow> I (upd_st (\<lambda>_. c) s)"
    and audit_kept: "\<And>ty msg r. preserves I (en_audit_append ty msg r)"
    and error_kept: "\<And>e msg. preserves I (en_error_append e msg)"
    and state_kept: "\<And>t. preserves I (set_transition_state t)"
    and observe_kept: "preserves I (observe_candidate_health intent)"
    and select_kept: "\<And>c. preserves I (on_world (en_select_path c intent))"
    and transition_kept: "\<And>target. preserves I (en_transition_path intent target)"
begin

lemma apply_selection_kept: "preserves I (apply_selection intent selection result)"
  unfolding apply_selection_def Let_def
  by (intro wp audit_kept state_kept transition_kept)

lemma reconcile_kept: "preserves I (reconcile intent result)"
  unfolding reconcile_def
  by (intro wp audit_kept error_kept observe_kept select_kept apply_selection_kept)

lemma store_intent_kept:
  "preserves I m \<Longrightarrow> preserves I (do {
     c \<leftarrow> gets st;
     case put_intent intent c of
       None \<Rightarrow> State_Monad.return x
     | Some c' \<Rightarrow> do { _ \<leftarrow> modify (upd_st (\<lambda>_. c')); m } })"
  by (rule preservesI) (auto split: option.splits dest: intent_ok intro: preservesD)

lemma submit_kept: "preserves I (en_controller_submit_intent (Some intent) result)"
  unfolding en_controller_submit_intent_def
  by (cases result) (auto intro!: preserves_return store_intent_kept preserves_bind preserves_case_prod reconcile_kept)

end

lemma put_intent_wf: "wf_state c \<Longrightarrow> put_intent intent c = Some c' \<Longrightarrow> wf_state c'"
  by (auto simp: put_intent_def wf_state_def wf_config_def wf_registries_def
      split: option.splits if_splits dest: distinct_map_update distinct_map_append)

interpretation submit_wf: submission_stable "on_st wf_state" intent
  by unfold_locales
    (auto intro!: wp wf_errors drop_adapters [OF keeps_wf.observe_candidates_ok]
      drop_adapters [OF keeps_wf.transition_ok] dest: put_intent_wf)

interpretation submit_log: submission_stable "log_grows es" intent
  by unfold_locales
    (auto intro!: wp drop_adapters [OF keeps_log.observe_candidates_ok]
      drop_adapters [OF keeps_log.transition_ok [OF refl]])

interpretation submit_adapters: submission_stable "has_adapters A" intent
  by unfold_locales
    (auto intro!: wp keeps_adapters.observe_candidates_ok keeps_adapters.transition_ok [OF refl])

section \<open>What a successful submission achieves\<close>

text \<open>
  \<open>observing c0 c\<close>: from \<open>c0\<close> to \<open>c\<close> only intents, health and errors may differ.
\<close>

definition observing :: "en_controller_state \<Rightarrow> en_controller_state \<Rightarrow> bool" where
  "observing c0 c \<longleftrightarrow> nodes c = nodes c0 \<and> paths c = paths c0 \<and> applied c = applied c0 \<and>
     desired_tunnels c = desired_tunnels c0 \<and> wf_state c"

lemma observing_get_applied: "observing c0 c \<Longrightarrow> en_get_applied_path c key = en_get_applied_path c0 key"
  by (simp add: observing_def en_get_applied_path_def find_applied_def)

lemma observing_find_path: "observing c0 c \<Longrightarrow> en_find_path c x = en_find_path c0 x"
  by (simp add: observing_def en_find_path_def)

lemma observing_transition_state [simp]: "observing c0 (c\<lparr>transition_state := t\<rparr>) = observing c0 c"
  by (simp add: observing_def)

lemma observing_put_health: "observing c0 c \<Longrightarrow> observing c0 (put_health h c)"
  by (simp add: observing_def put_health_wf) (simp add: put_health_def split: option.splits)

lemma observing_put_intent: "wf_state c \<Longrightarrow> put_intent intent c = Some c' \<Longrightarrow> observing c c'"
  by (auto simp: observing_def put_intent_wf) (auto simp: put_intent_def split: option.splits if_splits)

lemma observing_observe_one: "preserves (on_st (observing c0)) (observe_one p)"
  unfolding observe_one_def store_health_def by (intro wp) (simp add: observing_put_health)

lemma observing_observe_all: "preserves (on_st (observing c0)) (observe_all ps)"
  by (induction ps) (auto intro!: wp observing_observe_one)

lemma observing_candidates: "preserves (on_st (observing c0)) (observe_candidate_health intent)"
  unfolding observe_candidate_health_def by (intro wp observing_observe_one observing_observe_all)

text \<open>The policy reads the nodes and the configuration of the path only.\<close>

lemma satisfies_policy_cong:
  "nodes c = nodes d \<Longrightarrow> satisfies_policy c k p = satisfies_policy d k p"
  by (simp add: satisfies_policy_def node_enabled_def node_has_capability_def en_find_node_def)

definition intent_settled :: "en_controller_state \<Rightarrow> en_intent \<Rightarrow> string \<Rightarrow> en_controller_state \<Rightarrow> bool" where
  "intent_settled c0 intent p c \<longleftrightarrow>
     (\<exists>target. en_find_path c0 (Some p) = Some target \<and>
        satisfies_policy c0 (ps_constraints (it_path_selection intent)) (paths c0 ! target)) \<and>
     en_get_applied_path c (transition_key intent) = Some p \<and>
     transition_state c = EN_TRANSITION_IDLE"

definition submission_post ::
  "en_controller_state \<Rightarrow> en_intent \<Rightarrow> en_error_code \<times> en_reconcile_result \<Rightarrow> en_controller_state \<Rightarrow> bool" where
  "submission_post c0 intent r c \<longleftrightarrow>
     (fst r = EN_ERR_NONE \<longrightarrow> applied_room (transition_key intent) c0 \<longrightarrow>
        intent_settled c0 intent (rr_selected_path (snd r)) c \<and>
        rr_transition_state (snd r) = EN_TRANSITION_IDLE)"

lemma submission_failed: "e \<noteq> EN_ERR_NONE \<Longrightarrow> submission_post c0 intent (e, r) c"
  by (simp add: submission_post_def)

lemma transition_settles:
  assumes obs: "observing c0 (st s)" and room: "applied_room (transition_key intent) c0"
    and target: "en_find_path c0 (Some p) = Some target"
    and run: "run_state (en_transition_path intent target) s = (EN_ERR_NONE, t)"
  shows "en_get_applied_path (st t) (transition_key intent) = Some p \<and> transition_state (st t) = EN_TRANSITION_IDLE"
proof -
  have wf: "wf_state (st s)" "target < length (paths (st s))" and p: "pt_path_id (paths (st s) ! target) = p"
    using obs find_path_id [OF target] by (auto simp: observing_def)
  have settled: "settled (st s) (transition_key intent) target
      (en_find_path (st s) (Some (en_copy_id EN_MAX_ID_LEN
        (en_get_applied_path (st s) (transition_key intent))))) (st t)"
    using transition_outcome_run [OF wf run] transition_success_valid [OF run]
    by (simp add: transition_outcome_def)
  moreover have "applied_room (transition_key intent) (st s)"
    using obs room by (simp add: observing_def applied_room_def find_applied_def)
  ultimately show ?thesis
    using p by (auto simp: settled_def committed_def transitioning_def)
qed

lemma transition_submission:
  assumes sat: "satisfies_policy c0 (ps_constraints (it_path_selection intent)) (paths c0 ! target)"
    and target: "en_find_path c0 (Some p) = Some target" and len: "length p < EN_MAX_ID_LEN"
  shows "triple (on_st (observing c0)) (do {
       err \<leftarrow> en_transition_path intent target;
       state \<leftarrow> gets (\<lambda>s. transition_state (st s));
       State_Monad.return (err, reconcile_result intent (en_copy_id EN_MAX_ID_LEN (Some p)) state selection) })
     (\<lambda>r s. submission_post c0 intent r (st s))"
proof (rule tripleI)
  fix s :: "'w machine" and r t
  assume obs: "observing c0 (st s)"
    and run: "run_state (do {
       err \<leftarrow> en_transition_path intent target;
       state \<leftarrow> gets (\<lambda>s. transition_state (st s));
       State_Monad.return (err, reconcile_result intent (en_copy_id EN_MAX_ID_LEN (Some p)) state selection) }) s = (r, t)"
  obtain err where err: "run_state (en_transition_path intent target) s = (err, t)"
    "r = (err, reconcile_result intent p (transition_state (st t)) selection)"
    using run len by (auto simp: cap_simps split: prod.splits)
  show "submission_post c0 intent r (st t)"
  proof (cases "err = EN_ERR_NONE \<and> applied_room (transition_key intent) c0")
    case True
    then show ?thesis
      using transition_settles [OF obs _ target] err sat target
      by (auto simp: submission_post_def intent_settled_def reconcile_result_def)
  next
    case False
    then show ?thesis by (auto simp: submission_post_def err)
  qed
qed

lemma apply_selection_triple:
  assumes target: "en_find_path c0 (Some (sr_selected_path sel)) = Some target"
    and sat: "satisfies_policy c0 (ps_constraints (it_path_selection intent)) (paths c0 ! target)"
    and wf: "wf_state c0"
  shows "triple (on_st (observing c0)) (apply_selection intent sel result)
    (\<lambda>r s. submission_post c0 intent r (st s))"
proof -
  have len: "length (sr_selected_path sel) < EN_MAX_ID_LEN" by (rule find_path_wf [OF wf target])
  have id: "pt_path_id (paths c0 ! target) = sr_selected_path sel" using find_path_id [OF target] by simp
  let ?J = "\<lambda>c. observing c0 c \<and> transition_state c = EN_TRANSITION_IDLE"
  have maintained: "triple (on_st (observing c0)) (do {
       _ \<leftarrow> set_transition_state EN_TRANSITION_IDLE;
       _ \<leftarrow> en_audit_append ty msg ref;
       state \<leftarrow> gets (\<lambda>s. transition_state (st s));
       State_Monad.return (EN_ERR_NONE,
         reconcile_result intent (en_copy_id EN_MAX_ID_LEN (Some (sr_selected_path sel))) state sel) })
     (\<lambda>r s. submission_post c0 intent r (st s))"
    if "en_get_applied_path c0 (transition_key intent) = Some (sr_selected_path sel)" for ty msg ref
  proof (rule triple_bind [where R = "\<lambda>_. on_st ?J"])
    show "triple (on_st (observing c0)) (set_transition_state EN_TRANSITION_IDLE) (\<lambda>_. on_st ?J)"
      unfolding set_transition_state_def by (rule triple_modify) simp
  next
    show "triple (on_st ?J) (do {
       _ \<leftarrow> en_audit_append ty msg ref;
       state \<leftarrow> gets (\<lambda>s. transition_state (st s));
       State_Monad.return (EN_ERR_NONE,
         reconcile_result intent (en_copy_id EN_MAX_ID_LEN (Some (sr_selected_path sel))) state sel) })
     (\<lambda>r s. submission_post c0 intent r (st s))"
      by (intro triple_seq [OF preserves_audit] triple_read triple_return)
        (use that target sat len in \<open>auto simp: submission_post_def intent_settled_def reconcile_result_def
          cap_simps observing_get_applied\<close>)
  qed
  have "triple (\<lambda>s. observing c0 (st s) \<and> c = st s)
      (case en_find_path c (Some (sr_selected_path sel)) of
         None \<Rightarrow> State_Monad.return (EN_ERR_NOT_FOUND, result)
       | Some target \<Rightarrow>
         let selected = en_copy_id EN_MAX_ID_LEN (Some (sr_selected_path sel)) in
         if en_streq (en_get_applied_path c (transition_key intent)) (Some (pt_path_id (paths c ! target)))
         then do {
           _ \<leftarrow> set_transition_state EN_TRANSITION_IDLE;
           _ \<leftarrow> en_audit_append ty msg (Some (pt_path_id (paths c ! target)));
           state \<leftarrow> gets (\<lambda>s. transition_state (st s));
           State_Monad.return (EN_ERR_NONE, reconcile_result intent selected state sel)
         } else do {
           err \<leftarrow> en_transition_path intent target;
           state \<leftarrow> gets (\<lambda>s. transition_state (st s));
           State_Monad.return (err, reconcile_result intent selected state sel)
         }) (\<lambda>r s. submission_post c0 intent r (st s))" for c ty msg
  proof (cases "observing c0 c")
    case True
    then have "paths c = paths c0" by (simp add: observing_def)
    show ?thesis
      by (rule triple_strengthen_pre [where P' = "on_st (observing c0)"])
        (auto simp: observing_find_path [OF True] observing_get_applied [OF True] target Let_def
          en_streq_iff id \<open>paths c = paths c0\<close> intro!: maintained transition_submission [OF sat target len])
  next
    case False
    then show ?thesis by (auto simp: triple_def)
  qed
  then show ?thesis
    unfolding apply_selection_def
    by (intro triple_seq [OF preserves_set_transition_state [where J = "observing c0"]]
        triple_seq [OF preserves_audit [where J = "observing c0"]] triple_read) simp_all
qed

lemma selection_policy:
  assumes obs: "observing c0 c"
    and run: "run_state (en_select_path c intent) w = ((EN_ERR_NONE, sel), w')"
  shows "\<exists>target. en_find_path c0 (Some (sr_selected_path sel)) = Some target \<and>
    satisfies_policy c0 (ps_constraints (it_path_selection intent)) (paths c0 ! target)"
proof -
  have wf: "wf_state c" using obs by (simp add: observing_def)
  obtain i where p: "passes w c (selection_ctx_of c intent) (ps_constraints (it_path_selection intent))
      (sr_selected_path sel) i"
    using selected_passes [OF run wf] by blast
  then have "en_find_path c (Some (sr_selected_path sel)) = Some i" by (simp add: passes_def)
  moreover have "satisfies_policy c (ps_constraints (it_path_selection intent)) (paths c ! i)"
    using passes_policy [OF p] by simp
  ultimately show ?thesis
    using obs satisfies_policy_cong [of c c0] by (auto simp: observing_def observing_find_path [OF obs])
qed

lemma select_triple:
  assumes wf: "wf_state c0"
  shows "triple (\<lambda>s. observing c0 (st s) \<and> c = st s) (do {
       (err', selection) \<leftarrow> on_world (en_select_path c intent);
       if err' \<noteq> EN_ERR_NONE then do {
         state \<leftarrow> gets (\<lambda>s. transition_state (st s));
         _ \<leftarrow> en_error_append err' msg;
         State_Monad.return (err', reconcile_result intent [] state selection)
       } else apply_selection intent selection result })
    (\<lambda>r s. submission_post c0 intent r (st s))"
proof (cases "observing c0 c")
  case True
  let ?sel = "\<lambda>r. fst r = EN_ERR_NONE \<longrightarrow>
    (\<exists>target. en_find_path c0 (Some (sr_selected_path (snd r))) = Some target \<and>
       satisfies_policy c0 (ps_constraints (it_path_selection intent)) (paths c0 ! target))"
  have select: "triple (on_st (observing c0)) (on_world (en_select_path c intent)) (\<lambda>r s. observing c0 (st s) \<and> ?sel r)"
  proof (rule tripleI)
    fix s :: "'w machine" and r t
    assume "observing c0 (st s)" and run: "run_state (on_world (en_select_path c intent)) s = (r, t)"
    moreover have "?sel r"
    proof
      assume "fst r = EN_ERR_NONE"
      then have "run_state (en_select_path c intent) (world s) = ((EN_ERR_NONE, snd r), world t)"
        using run by (auto simp: run_on_world prod_eq_iff)
      then show "\<exists>target. en_find_path c0 (Some (sr_selected_path (snd r))) = Some target \<and>
          satisfies_policy c0 (ps_constraints (it_path_selection intent)) (paths c0 ! target)"
        by (rule selection_policy [OF True])
    qed
    ultimately show "observing c0 (st t) \<and> ?sel r" by (auto simp: run_on_world)
  qed
  have rest: "triple (\<lambda>s. observing c0 (st s) \<and> ?sel (e, sel)) (if e \<noteq> EN_ERR_NONE then do {
         state \<leftarrow> gets (\<lambda>s. transition_state (st s));
         _ \<leftarrow> en_error_append e msg;
         State_Monad.return (e, reconcile_result intent [] state sel)
       } else apply_selection intent sel result) (\<lambda>r s. submission_post c0 intent r (st s))" for e sel
  proof (cases "e = EN_ERR_NONE \<and> ?sel (e, sel)")
    case True
    then obtain target where "en_find_path c0 (Some (sr_selected_path sel)) = Some target"
      "satisfies_policy c0 (ps_constraints (it_path_selection intent)) (paths c0 ! target)"
      by auto
    from apply_selection_triple [OF this wf] True show ?thesis
      by (auto intro: triple_strengthen_pre)
  next
    case False
    then show ?thesis
      by (cases "e = EN_ERR_NONE") (auto simp: triple_def submission_failed run_on_world en_error_append_def)
  qed
  show ?thesis
    by (rule triple_strengthen_pre [where P' = "on_st (observing c0)"], rule triple_bind [OF select],
        rule triple_case_prod, simp only: rest) simp
next
  case False
  then show ?thesis by (auto simp: triple_def)
qed

lemma reconcile_triple:
  assumes wf: "wf_state c0"
  shows "triple (on_st (observing c0)) (reconcile intent result)
    (\<lambda>r s. submission_post c0 intent r (st s))"
proof -
  have early: "triple (on_st (observing c0)) (State_Monad.return (e, result))
      (\<lambda>r s. submission_post c0 intent r (st s))" if "e \<noteq> EN_ERR_NONE" for e
    by (rule triple_return) (simp add: submission_failed that)
  show ?thesis
    unfolding reconcile_def
    by (intro triple_seq [OF preserves_audit] triple_seq [OF observing_candidates] triple_if early
        triple_read select_triple wf)
qed

lemma submission_outcome:
  assumes wf: "wf_state (st s)"
    and run: "run_state (en_controller_submit_intent (Some intent) (Some r0)) s = ((EN_ERR_NONE, r'), t)"
  shows "\<exists>r c. r' = Some r \<and> put_intent intent (st s) = Some c \<and> submission_post c intent (EN_ERR_NONE, r) (st t)"
proof -
  obtain c r where c: "put_intent intent (st s) = Some c"
    and r: "r' = Some r" "run_state (reconcile intent r0) (upd_st (\<lambda>_. c) s) = ((EN_ERR_NONE, r), t)"
    using run by (auto simp: en_controller_submit_intent_def split: if_splits option.splits prod.splits)
  have "wf_state c" by (rule put_intent_wf [OF wf c])
  moreover from this have "observing c (st (upd_st (\<lambda>_. c) s))" by (simp add: observing_def)
  ultimately have "submission_post c intent (EN_ERR_NONE, r) (st t)"
    using tripleD [OF reconcile_triple _ r(2)] by blast
  with c r show ?thesis by blast
qed

lemma submission_settled:
  assumes "wf_state (st s)" and "applied_room (transition_key intent) (st s)"
    and "run_state (en_controller_submit_intent (Some intent) (Some r0)) s = ((EN_ERR_NONE, Some r), t)"
  shows "(\<exists>target. en_find_path (st s) (Some (rr_selected_path r)) = Some target \<and>
        satisfies_policy (st s) (ps_constraints (it_path_selection intent)) (paths (st s) ! target)) \<and>
     en_get_applied_path (st t) (transition_key intent) = Some (rr_selected_path r) \<and>
     transition_state (st t) = EN_TRANSITION_IDLE \<and> rr_transition_state r = EN_TRANSITION_IDLE"
proof -
  obtain c where c: "put_intent intent (st s) = Some c"
    and post: "submission_post c intent (EN_ERR_NONE, r) (st t)"
    using submission_outcome [OF assms(1,3)] by auto
  have obs: "observing (st s) c" by (rule observing_put_intent [OF assms(1) c])
  then have "applied_room (transition_key intent) c"
    using assms(2) by (simp add: observing_def applied_room_def find_applied_def)
  with post have "intent_settled c intent (rr_selected_path r) (st t)"
    "rr_transition_state r = EN_TRANSITION_IDLE" by (auto simp: submission_post_def)
  moreover have "paths c = paths (st s)" "nodes c = nodes (st s)" using obs by (auto simp: observing_def)
  ultimately show ?thesis
    using satisfies_policy_cong [of c "st s"] by (auto simp: intent_settled_def observing_find_path [OF obs])
qed

section \<open>Properties\<close>

text \<open>
  C1. A successful submission settles the intent: the path it reports exists in the controller,
  satisfies the intent's policy on nodes, waypoints and capabilities, and is the applied path of
  the intent's traffic, and the controller is \<open>IDLE\<close>. The traffic needs a free applied-path entry
  where it has none.
\<close>

theorem submission_settles_intent:
  assumes "wf_state (st s)" and "applied_room (transition_key intent) (st s)"
    and "run_state (en_controller_submit_intent (Some intent) (Some r0)) s = ((EN_ERR_NONE, Some r), t)"
  shows "(\<exists>target. en_find_path (st s) (Some (rr_selected_path r)) = Some target \<and>
        satisfies_policy (st s) (ps_constraints (it_path_selection intent)) (paths (st s) ! target)) \<and>
     en_get_applied_path (st t) (transition_key intent) = Some (rr_selected_path r) \<and>
     transition_state (st t) = EN_TRANSITION_IDLE \<and> rr_transition_state r = EN_TRANSITION_IDLE"
  using assms by (rule submission_settled)

text \<open>
  C7. A submission keeps the controller well formed, whatever its outcome: every array within its
  capacity, no intent, tunnel, health record or traffic key stored twice, and the audit log a
  continuation of the one before of at most 256 events.
\<close>

theorem submission_keeps_invariants:
  assumes "wf_state (st s)" and "length (audit_events (ctl s)) \<le> EN_MAX_EVENTS"
    and "run_state (en_controller_submit_intent (Some intent) r0) s = (r, t)"
  shows "wf_state (st t) \<and> prefix (audit_events (ctl s)) (audit_events (ctl t)) \<and>
    length (audit_events (ctl t)) \<le> EN_MAX_EVENTS \<and> adapters t = adapters s"
proof -
  have "log_grows (audit_events (ctl s)) s" using assms(2) by (simp add: log_grows_def)
  then have "log_grows (audit_events (ctl s)) t"
    using preservesD [OF submit_log.submit_kept _ assms(3)] by blast
  then show ?thesis
    using preservesD [OF submit_wf.submit_kept assms(1,3)]
      preservesD [OF submit_adapters.submit_kept refl assms(3)]
    by (simp add: log_grows_def)
qed

text \<open>
  A controller that creation returns satisfies the state invariant, is idle, and holds
  exactly the configuration it was given. Creation rejects a path or node over its capacities.
\<close>

lemma created_controller_wf:
  assumes "en_controller_create_with_nodes_and_tunnels memory nodes_ptr node_count paths_ptr path_count
      tunnels_ptr tunnel_count ssw vp hp = Some c"
    and "\<forall>p \<in> set (elements paths_ptr path_count). length (pt_path_id p) < EN_MAX_ID_LEN"
  shows "wf_state (cstate c) \<and> transition_state (cstate c) = EN_TRANSITION_IDLE \<and>
    paths (cstate c) = elements paths_ptr path_count \<and> nodes (cstate c) = elements nodes_ptr node_count \<and>
    audit_events c = [] \<and> (\<forall>key. en_get_applied_path (cstate c) key = None)"
  using assms created_wf [OF assms(1)]
  by (auto simp: en_controller_create_with_nodes_and_tunnels_def en_get_applied_path_def
      find_applied_def split: if_splits)

theorem created_controller_wf_witness:
  "\<exists>c. en_controller_create_with_nodes_and_tunnels True (Some [sample_node ''site-a'']) 1
      (Some (en_initial_demo_paths 3)) 3 None 0 en_strongswan_mock_adapter en_vpp_mock_adapter
      en_health_probe_mock_adapter = Some c \<and> wf_state (cstate c)"
proof -
  let ?f = "en_controller_create_with_nodes_and_tunnels True (Some [sample_node ''site-a'']) 1
      (Some (en_initial_demo_paths 3)) 3 None 0 en_strongswan_mock_adapter en_vpp_mock_adapter
      en_health_probe_mock_adapter"
  have "?f \<noteq> None"
    by (simp add: en_controller_create_with_nodes_and_tunnels_def elements_def sample_defs
        en_path_counts_valid_def)
  then obtain c where c: "?f = Some c" by blast
  have "\<forall>p \<in> set (elements (Some (en_initial_demo_paths 3)) 3). length (pt_path_id p) < EN_MAX_ID_LEN"
    by (simp add: elements_def sample_defs)
  with created_controller_wf [OF c] c show ?thesis by blast
qed

text \<open>The submission the other witnesses run: the direct path is selected, and the hub path retired.\<close>

definition sample_submission :: "(en_error_code \<times> en_reconcile_result option) \<times> mocks machine" where
  "sample_submission = run_state
     (en_controller_submit_intent (Some (sample_intent EN_SELECT_EXPLICIT zero_constraints))
        (Some zero_reconcile_result))
     (sample_machine False (sample_active ''path-via-hub''))"

lemma sample_submission_code:
  "fst (fst sample_submission) = EN_ERR_NONE \<and>
   map_option rr_selected_path (snd (fst sample_submission)) = Some ''path-direct''"
  by code_simp

lemma sample_submission_room:
  "applied_room (transition_key (sample_intent EN_SELECT_EXPLICIT zero_constraints)) (sample_active ''path-via-hub'')"
  by code_simp

theorem submission_settles_intent_witness:
  "en_get_applied_path (st (snd sample_submission))
     (transition_key (sample_intent EN_SELECT_EXPLICIT zero_constraints)) = Some ''path-direct''"
proof -
  obtain r where r: "snd (fst sample_submission) = Some r" "rr_selected_path r = ''path-direct''"
    using sample_submission_code by auto
  then have "run_state
     (en_controller_submit_intent (Some (sample_intent EN_SELECT_EXPLICIT zero_constraints))
        (Some zero_reconcile_result))
     (sample_machine False (sample_active ''path-via-hub'')) = ((EN_ERR_NONE, Some r), snd sample_submission)"
    using sample_submission_code by (simp add: sample_submission_def prod_eq_iff)
  from submission_settles_intent [OF _ _ this] sample_submission_room r show ?thesis
    by (simp add: wf_sample_active)
qed

lemma sample_submission_run:
  "run_state (en_controller_submit_intent (Some (sample_intent EN_SELECT_EXPLICIT zero_constraints))
     (Some zero_reconcile_result)) (sample_machine False (sample_active ''path-via-hub'')) =
   (fst sample_submission, snd sample_submission)"
  by (simp add: sample_submission_def)

theorem submission_keeps_invariants_witness: "wf_state (st (snd sample_submission))"
  using submission_keeps_invariants [OF _ _ sample_submission_run]
  by (simp add: wf_sample_active) (simp add: sample_machine_def)

end
