(* ===== verification/RenderCommands.thy ===== *)
theory RenderCommands
  imports Samples
begin

text \<open>
  The command texts of \<open>src/render_commands.c\<close>. A renderer gets the size of the caller's buffer and
  returns the text, or the error code; after an error the code's callers do not read the
  buffer, whose contents the model leaves out. A pointer argument that may be \<open>NULL\<close> is an option.
\<close>

type_synonym rendered = "en_error_code + string"

definition valid_command_token :: "string \<Rightarrow> bool" where
  "valid_command_token s \<longleftrightarrow> s \<noteq> [] \<and> list_all token_char s"

definition is_gre :: "en_tunnel \<Rightarrow> bool" where
  "is_gre t \<longleftrightarrow> strcmp (tn_tunnel_type t) ''gre_over_ipsec'' = 0"

definition valid_gre_tunnel :: "en_tunnel \<Rightarrow> bool" where
  "valid_gre_tunnel t \<longleftrightarrow> is_gre t \<and>
     valid_command_token (tn_local_endpoint t) \<and> valid_command_token (tn_remote_endpoint t) \<and>
     (tn_gre_outer_local_endpoint t = [] \<or> valid_command_token (tn_gre_outer_local_endpoint t)) \<and>
     (tn_gre_outer_remote_endpoint t = [] \<or> valid_command_token (tn_gre_outer_remote_endpoint t)) \<and>
     valid_command_token (tn_gre_interface t) \<and> valid_command_token (tn_gre_local_address t) \<and>
     valid_command_token (tn_gre_remote_address t) \<and> -1 \<le> tn_gre_instance t \<and>
     tn_gre_instance t \<le> 1048575 \<and> 0 \<le> tn_gre_mtu t \<and> tn_gre_mtu t \<le> 65535"

text \<open>\<open>FORMAT_COMMAND\<close>: a text that does not fit is an error, never a truncated command.\<close>

definition format_command :: "nat \<Rightarrow> string \<Rightarrow> rendered" where
  "format_command buf_len s = (if buf_len \<le> length s then Inl EN_ERR_INVALID_ARGUMENT else Inr s)"

section \<open>swanctl\<close>

definition uri_admitted :: "string option \<Rightarrow> bool" where
  "uri_admitted uri = (case uri of None \<Rightarrow> True | Some u \<Rightarrow> u = [] \<or> valid_command_token u)"

definition uri_option :: "string option \<Rightarrow> string" where
  "uri_option uri = (case uri of None \<Rightarrow> [] | Some u \<Rightarrow> if u = [] then [] else ''--uri '' @ u @ '' '')"

definition en_render_swanctl_initiate_uri :: "en_tunnel \<Rightarrow> string option \<Rightarrow> nat \<Rightarrow> rendered" where
  "en_render_swanctl_initiate_uri t uri buf_len =
     (if buf_len = 0 \<or> tn_tunnel_id t = [] \<or> \<not> valid_command_token (tn_tunnel_id t)
      then Inl EN_ERR_INVALID_ARGUMENT
      else if \<not> uri_admitted uri then Inl EN_ERR_INVALID_ARGUMENT
      else format_command buf_len (''swanctl '' @ uri_option uri @ ''--initiate --child '' @ tn_tunnel_id t))"

definition en_render_swanctl_initiate :: "en_tunnel \<Rightarrow> nat \<Rightarrow> rendered" where
  "en_render_swanctl_initiate t buf_len = en_render_swanctl_initiate_uri t None buf_len"

definition en_render_swanctl_terminate_uri :: "en_tunnel \<Rightarrow> string option \<Rightarrow> nat \<Rightarrow> rendered" where
  "en_render_swanctl_terminate_uri t uri buf_len =
     (if buf_len = 0 \<or> tn_tunnel_id t = [] \<or> \<not> valid_command_token (tn_tunnel_id t)
      then Inl EN_ERR_INVALID_ARGUMENT
      else if \<not> uri_admitted uri then Inl EN_ERR_INVALID_ARGUMENT
      else format_command buf_len (''swanctl '' @ uri_option uri @ ''--terminate --child '' @ tn_tunnel_id t))"

definition en_render_swanctl_terminate :: "en_tunnel \<Rightarrow> nat \<Rightarrow> rendered" where
  "en_render_swanctl_terminate t buf_len = en_render_swanctl_terminate_uri t None buf_len"

definition en_render_swanctl_list_sas_uri :: "en_tunnel \<Rightarrow> string option \<Rightarrow> nat \<Rightarrow> rendered" where
  "en_render_swanctl_list_sas_uri t uri buf_len =
     (if buf_len = 0 \<or> tn_tunnel_id t = [] \<or> \<not> valid_command_token (tn_tunnel_id t)
      then Inl EN_ERR_INVALID_ARGUMENT
      else if \<not> uri_admitted uri then Inl EN_ERR_INVALID_ARGUMENT
      else format_command buf_len (''swanctl '' @ uri_option uri @ ''--list-sas --child '' @ tn_tunnel_id t))"

definition en_render_swanctl_load_conns_uri :: "string option \<Rightarrow> string option \<Rightarrow> nat \<Rightarrow> rendered" where
  "en_render_swanctl_load_conns_uri uri filename buf_len =
     (case filename of
        None \<Rightarrow> Inl EN_ERR_INVALID_ARGUMENT
      | Some f \<Rightarrow>
          if f = [] \<or> buf_len = 0 \<or> \<not> valid_command_token f then Inl EN_ERR_INVALID_ARGUMENT
          else if \<not> uri_admitted uri then Inl EN_ERR_INVALID_ARGUMENT
          else format_command buf_len (''swanctl '' @ uri_option uri @ ''--load-conns --file '' @ f))"

definition outer_local :: "en_tunnel \<Rightarrow> string" where
  "outer_local t = (if tn_gre_outer_local_endpoint t = [] then tn_local_endpoint t else tn_gre_outer_local_endpoint t)"

definition outer_remote :: "en_tunnel \<Rightarrow> string" where
  "outer_remote t = (if tn_gre_outer_remote_endpoint t = [] then tn_remote_endpoint t else tn_gre_outer_remote_endpoint t)"

text \<open>The traffic selectors of a tunnel: \<open>None\<close> when a GRE selector does not fit its buffer.\<close>

definition gre_selector :: "string \<Rightarrow> string option" where
  "gre_selector endpoint =
     (if EN_MAX_ID_LEN + 16 \<le> length (endpoint @ ''/32[gre]'') then None else Some (endpoint @ ''/32[gre]''))"

definition traffic_selectors :: "en_tunnel \<Rightarrow> (string \<times> string) option" where
  "traffic_selectors t =
     (if is_gre t then
        (case (gre_selector (outer_local t), gre_selector (outer_remote t)) of
           (Some l, Some r) \<Rightarrow> Some (l, r) | _ \<Rightarrow> None)
      else Some (tn_local_traffic_selector t, tn_remote_traffic_selector t))"

definition transport_mode :: "en_tunnel \<Rightarrow> bool" where
  "transport_mode t \<longleftrightarrow> is_gre t \<and> strcmp (outer_local t) (tn_local_endpoint t) = 0 \<and>
     strcmp (outer_remote t) (tn_remote_endpoint t) = 0"

definition en_render_swanctl_conf :: "en_tunnel \<Rightarrow> nat \<Rightarrow> rendered" where
  "en_render_swanctl_conf t buf_len =
     (if buf_len = 0 \<or> tn_tunnel_id t = [] \<or> \<not> valid_command_token (tn_tunnel_id t) \<or>
         \<not> valid_command_token (tn_local_endpoint t) \<or> \<not> valid_command_token (tn_remote_endpoint t)
      then Inl EN_ERR_INVALID_ARGUMENT
      else if (\<not> is_gre t \<and> (\<not> valid_command_token (tn_local_traffic_selector t) \<or>
                 \<not> valid_command_token (tn_remote_traffic_selector t))) \<or>
              (is_gre t \<and> (\<not> valid_command_token (tn_gre_interface t) \<or>
                 \<not> valid_command_token (tn_gre_local_address t) \<or> \<not> valid_command_token (tn_gre_remote_address t)))
      then Inl EN_ERR_INVALID_ARGUMENT
      else case traffic_selectors t of
        None \<Rightarrow> Inl EN_ERR_INVALID_ARGUMENT
      | Some (local_ts, remote_ts) \<Rightarrow>
          let i = tn_tunnel_id t; child = ''connections.'' @ i @ ''.children.'' @ i in
          format_command buf_len
            (''connections.'' @ i @ ''.local_addrs='' @ tn_local_endpoint t @
             '' connections.'' @ i @ ''.remote_addrs='' @ tn_remote_endpoint t @
             '' '' @ child @ ''.mode='' @ (if transport_mode t then ''transport'' else ''tunnel'') @
             '' '' @ child @ ''.local_ts='' @ local_ts @
             '' '' @ child @ ''.remote_ts='' @ remote_ts))"

section \<open>VPP routes\<close>

definition route_suffix :: "en_route \<Rightarrow> string" where
  "route_suffix r = fit 128
     (if 0 \<le> rt_table_id r \<and> 0 \<le> rt_metric r
      then '' table '' @ int_to_dec (rt_table_id r) @ '' preference '' @ int_to_dec (rt_metric r)
      else if 0 \<le> rt_table_id r then '' table '' @ int_to_dec (rt_table_id r)
      else if 0 \<le> rt_metric r then '' preference '' @ int_to_dec (rt_metric r)
      else [])"

definition en_render_vpp_route_replace_entry :: "en_route \<Rightarrow> nat \<Rightarrow> rendered" where
  "en_render_vpp_route_replace_entry r buf_len =
     (if buf_len = 0 then Inl EN_ERR_INVALID_ARGUMENT
      else if rt_destination_prefix r = [] \<or> rt_next_hop r = [] \<or>
         \<not> valid_command_token (rt_destination_prefix r) \<or> \<not> valid_command_token (rt_next_hop r) \<or>
         (rt_interface_name r \<noteq> [] \<and> \<not> valid_command_token (rt_interface_name r))
      then Inl EN_ERR_INVALID_ARGUMENT
      else if rt_interface_name r \<noteq> []
      then format_command buf_len (''vppctl ip route add '' @ rt_destination_prefix r @ route_suffix r @
             '' via '' @ rt_next_hop r @ '' '' @ rt_interface_name r)
      else format_command buf_len (''vppctl ip route add '' @ rt_destination_prefix r @ route_suffix r @
             '' via '' @ rt_next_hop r))"

definition en_route_resolve_tunnel_egress :: "en_route \<Rightarrow> en_tunnel \<Rightarrow> en_error_code \<times> en_route" where
  "en_route_resolve_tunnel_egress r t =
     (if rt_next_hop r \<noteq> [] \<and> rt_interface_name r \<noteq> [] then (EN_ERR_NONE, r)
      else
        let r1 = (if is_gre t then
              (let q = (if rt_next_hop r = [] then r\<lparr>rt_next_hop := fit EN_MAX_ID_LEN (tn_gre_remote_address t)\<rparr> else r)
               in if rt_interface_name q = [] then q\<lparr>rt_interface_name := fit EN_MAX_ID_LEN (tn_gre_interface t)\<rparr> else q)
            else if rt_next_hop r = [] then r\<lparr>rt_next_hop := fit EN_MAX_ID_LEN (tn_remote_endpoint t)\<rparr>
            else r)
        in (if rt_next_hop r1 = [] then EN_ERR_INVALID_ARGUMENT else EN_ERR_NONE, r1))"

definition default_route :: "en_path \<Rightarrow> en_route" where
  "default_route p = zero_route\<lparr>rt_table_id := -1, rt_metric := -1,
     rt_destination_prefix := fit EN_MAX_ID_LEN (pt_route_destination_prefix p)\<rparr>"

definition en_render_vpp_route_replace :: "en_path \<Rightarrow> en_tunnel option \<Rightarrow> nat \<Rightarrow> rendered" where
  "en_render_vpp_route_replace p egress buf_len =
     (case egress of
        None \<Rightarrow> Inl EN_ERR_INVALID_ARGUMENT
      | Some t \<Rightarrow>
          if buf_len = 0 then Inl EN_ERR_INVALID_ARGUMENT
          else case en_route_resolve_tunnel_egress
              ((default_route p)\<lparr>rt_next_hop := fit EN_MAX_ID_LEN (pt_route_next_hop p)\<rparr>) t of
            (err, r) \<Rightarrow> if err \<noteq> EN_ERR_NONE then Inl EN_ERR_INVALID_ARGUMENT
              else en_render_vpp_route_replace_entry r buf_len)"

definition en_render_vpp_route_delete :: "en_path \<Rightarrow> nat \<Rightarrow> rendered" where
  "en_render_vpp_route_delete p buf_len =
     (if buf_len = 0 \<or> pt_route_destination_prefix p = [] \<or> \<not> valid_command_token (pt_route_destination_prefix p)
      then Inl EN_ERR_INVALID_ARGUMENT
      else format_command buf_len (''vppctl ip route del '' @ pt_route_destination_prefix p))"

definition en_render_vpp_route_delete_entry :: "en_route \<Rightarrow> nat \<Rightarrow> rendered" where
  "en_render_vpp_route_delete_entry r buf_len =
     (if buf_len = 0 \<or> rt_destination_prefix r = [] \<or> \<not> valid_command_token (rt_destination_prefix r) \<or>
         (rt_next_hop r \<noteq> [] \<and> \<not> valid_command_token (rt_next_hop r)) \<or>
         (rt_interface_name r \<noteq> [] \<and> \<not> valid_command_token (rt_interface_name r))
      then Inl EN_ERR_INVALID_ARGUMENT
      else
        let del = ''vppctl ip route del '' @ rt_destination_prefix r;
            table = '' table '' @ int_to_dec (rt_table_id r);
            via = '' via '' @ rt_next_hop r; ifc = '' '' @ rt_interface_name r in
        if rt_next_hop r \<noteq> [] then
          (if 0 \<le> rt_table_id r \<and> rt_interface_name r \<noteq> [] then format_command buf_len (del @ table @ via @ ifc)
           else if 0 \<le> rt_table_id r then format_command buf_len (del @ table @ via)
           else if rt_interface_name r \<noteq> [] then format_command buf_len (del @ via @ ifc)
           else format_command buf_len (del @ via))
        else if 0 \<le> rt_table_id r \<and> rt_interface_name r \<noteq> [] then format_command buf_len (del @ ifc @ table)
        else if 0 \<le> rt_table_id r then format_command buf_len (del @ table)
        else if rt_interface_name r \<noteq> [] then format_command buf_len (del @ ifc)
        else format_command buf_len del)"

definition en_render_vpp_route_delete_with_tunnel :: "en_path \<Rightarrow> en_tunnel option \<Rightarrow> nat \<Rightarrow> rendered" where
  "en_render_vpp_route_delete_with_tunnel p egress buf_len =
     (case egress of
        None \<Rightarrow> Inl EN_ERR_INVALID_ARGUMENT
      | Some t \<Rightarrow>
          if buf_len = 0 then Inl EN_ERR_INVALID_ARGUMENT
          else case en_route_resolve_tunnel_egress (default_route p) t of
            (err, r) \<Rightarrow> if err \<noteq> EN_ERR_NONE then Inl EN_ERR_INVALID_ARGUMENT
              else en_render_vpp_route_delete_entry r buf_len)"

section \<open>GRE interfaces\<close>

definition gre_instance_option :: "en_tunnel \<Rightarrow> string" where
  "gre_instance_option t = (if 0 \<le> tn_gre_instance t then '' instance '' @ int_to_dec (tn_gre_instance t) else [])"

definition en_render_vpp_gre_create :: "en_tunnel \<Rightarrow> nat \<Rightarrow> rendered" where
  "en_render_vpp_gre_create t buf_len =
     (if \<not> valid_gre_tunnel t \<or> buf_len = 0 then Inl EN_ERR_INVALID_ARGUMENT
      else format_command buf_len (''vppctl create gre tunnel src '' @ outer_local t @ '' dst '' @ outer_remote t @
             gre_instance_option t))"

definition en_render_vpp_gre_delete :: "en_tunnel \<Rightarrow> nat \<Rightarrow> rendered" where
  "en_render_vpp_gre_delete t buf_len =
     (if \<not> valid_gre_tunnel t \<or> buf_len = 0 then Inl EN_ERR_INVALID_ARGUMENT
      else format_command buf_len (''vppctl create gre tunnel src '' @ outer_local t @ '' dst '' @ outer_remote t @
             gre_instance_option t @ '' del''))"

definition en_render_vpp_gre_set_address :: "en_tunnel \<Rightarrow> nat \<Rightarrow> rendered" where
  "en_render_vpp_gre_set_address t buf_len =
     (if \<not> valid_gre_tunnel t \<or> buf_len = 0 then Inl EN_ERR_INVALID_ARGUMENT
      else format_command buf_len (''vppctl set interface ip address '' @ tn_gre_interface t @ '' '' @ tn_gre_local_address t))"

definition en_render_vpp_gre_set_mtu :: "en_tunnel \<Rightarrow> nat \<Rightarrow> rendered" where
  "en_render_vpp_gre_set_mtu t buf_len =
     (if \<not> valid_gre_tunnel t \<or> buf_len = 0 \<or> tn_gre_mtu t \<le> 0 then Inl EN_ERR_INVALID_ARGUMENT
      else format_command buf_len (''vppctl set interface mtu '' @ int_to_dec (tn_gre_mtu t) @ '' '' @ tn_gre_interface t))"

definition en_render_vpp_gre_set_up :: "en_tunnel \<Rightarrow> nat \<Rightarrow> rendered" where
  "en_render_vpp_gre_set_up t buf_len =
     (if \<not> valid_gre_tunnel t \<or> buf_len = 0 then Inl EN_ERR_INVALID_ARGUMENT
      else format_command buf_len (''vppctl set interface state '' @ tn_gre_interface t @ '' up''))"

definition en_render_vpp_gre_route_replace :: "en_path \<Rightarrow> en_tunnel \<Rightarrow> nat \<Rightarrow> rendered" where
  "en_render_vpp_gre_route_replace p t buf_len =
     (if \<not> valid_gre_tunnel t \<or> buf_len = 0 \<or> pt_route_destination_prefix p = [] \<or>
         \<not> valid_command_token (pt_route_destination_prefix p) then Inl EN_ERR_INVALID_ARGUMENT
      else format_command buf_len (''vppctl ip route add '' @ pt_route_destination_prefix p @ '' via '' @
             tn_gre_remote_address t @ '' '' @ tn_gre_interface t))"

definition en_render_vpp_gre_route_delete :: "en_path \<Rightarrow> en_tunnel \<Rightarrow> nat \<Rightarrow> rendered" where
  "en_render_vpp_gre_route_delete p t buf_len =
     (if \<not> valid_gre_tunnel t \<or> buf_len = 0 \<or> pt_route_destination_prefix p = [] \<or>
         \<not> valid_command_token (pt_route_destination_prefix p) then Inl EN_ERR_INVALID_ARGUMENT
      else format_command buf_len (''vppctl ip route del '' @ pt_route_destination_prefix p @ '' via '' @
             tn_gre_remote_address t @ '' '' @ tn_gre_interface t))"

section \<open>Commands are words\<close>

text \<open>
  A command is a list of words over the admitted bytes joined by single blanks, so that splitting
  it at blanks gives back exactly these words: no argument can bring in another.
\<close>

definition is_command :: "string list \<Rightarrow> string \<Rightarrow> bool" where
  "is_command ws s \<longleftrightarrow> s = unwords ws \<and> ws \<noteq> [] \<and> list_all valid_command_token ws"

lemma valid_token_word: "valid_command_token w \<Longrightarrow> word_over blank w"
  by (auto simp: valid_command_token_def word_over_def list_all_iff dest: token_char_not_blank)

lemma command_tokens:
  assumes "is_command ws s"
  shows "strtok_all blank s = ws"
proof -
  have "list_all (word_over blank) ws"
    using assms by (auto simp: is_command_def list_all_iff valid_token_word)
  then have "strtok_all blank (unwords ws) = ws" by (rule strtok_unwords [rotated]) (simp add: blank_def)
  with assms show ?thesis by (simp add: is_command_def)
qed

lemma unwords_append:
  "a \<noteq> [] \<Longrightarrow> b \<noteq> [] \<Longrightarrow> unwords (a @ b) = unwords a @ CHR '' '' # unwords b"
  by (induction a rule: unwords.induct) (auto simp: neq_Nil_conv)

lemma int_token: "0 \<le> i \<Longrightarrow> valid_command_token (int_to_dec i)"
  using int_to_dec_chars_nonneg [of i] nat_to_dec_nonempty
  by (auto simp: valid_command_token_def list_all_iff token_char_def isalnum_def) (auto simp: int_to_dec_def)

lemma literal_tokens [simp]:
  "valid_command_token ''swanctl''" "valid_command_token ''--uri''" "valid_command_token ''--initiate''"
  "valid_command_token ''--terminate''" "valid_command_token ''--list-sas''" "valid_command_token ''--load-conns''"
  "valid_command_token ''--child''" "valid_command_token ''--file''" "valid_command_token ''vppctl''"
  "valid_command_token ''ip''" "valid_command_token ''route''" "valid_command_token ''add''"
  "valid_command_token ''del''" "valid_command_token ''via''" "valid_command_token ''table''"
  "valid_command_token ''preference''" "valid_command_token ''create''" "valid_command_token ''gre''"
  "valid_command_token ''tunnel''" "valid_command_token ''src''" "valid_command_token ''dst''"
  "valid_command_token ''instance''" "valid_command_token ''set''" "valid_command_token ''interface''"
  "valid_command_token ''address''" "valid_command_token ''mtu''" "valid_command_token ''state''"
  "valid_command_token ''up''"
  by (simp_all add: valid_command_token_def token_char_def isalnum_def isdigit_def code_def)

lemma format_command_Inr: "format_command n x = Inr s \<longleftrightarrow> s = x \<and> length x < n"
  by (auto simp: format_command_def)

definition uri_words :: "string option \<Rightarrow> string list" where
  "uri_words uri = (case uri of None \<Rightarrow> [] | Some u \<Rightarrow> if u = [] then [] else [''--uri'', u])"

definition opt :: "bool \<Rightarrow> string list \<Rightarrow> string list" where
  "opt b ws = (if b then ws else [])"

text \<open>The argument vectors of the commands.\<close>

definition swanctl_words :: "string option \<Rightarrow> string list \<Rightarrow> string list" where
  "swanctl_words uri ws = [''swanctl''] @ uri_words uri @ ws"

definition route_add_words :: "en_route \<Rightarrow> string list" where
  "route_add_words r = [''vppctl'', ''ip'', ''route'', ''add'', rt_destination_prefix r] @
     opt (0 \<le> rt_table_id r) [''table'', int_to_dec (rt_table_id r)] @
     opt (0 \<le> rt_metric r) [''preference'', int_to_dec (rt_metric r)] @
     [''via'', rt_next_hop r] @ opt (rt_interface_name r \<noteq> []) [rt_interface_name r]"

definition route_del_words :: "en_route \<Rightarrow> string list" where
  "route_del_words r = [''vppctl'', ''ip'', ''route'', ''del'', rt_destination_prefix r] @
     (let table = opt (0 \<le> rt_table_id r) [''table'', int_to_dec (rt_table_id r)];
          ifc = opt (rt_interface_name r \<noteq> []) [rt_interface_name r]
      in if rt_next_hop r = [] then ifc @ table else table @ [''via'', rt_next_hop r] @ ifc)"

definition gre_words :: "en_tunnel \<Rightarrow> string list" where
  "gre_words t = [''vppctl'', ''create'', ''gre'', ''tunnel'', ''src'', outer_local t, ''dst'', outer_remote t] @
     opt (0 \<le> tn_gre_instance t) [''instance'', int_to_dec (tn_gre_instance t)]"

lemmas words_defs = is_command_def swanctl_words_def route_add_words_def route_del_words_def gre_words_def
  opt_def uri_words_def uri_option_def uri_admitted_def

lemma swanctl_command:
  "uri_admitted uri \<Longrightarrow> list_all valid_command_token [a, b, c] \<Longrightarrow>
   is_command (swanctl_words uri [a, b, c]) (''swanctl '' @ uri_option uri @ a @ '' '' @ b @ '' '' @ c)"
  by (auto simp: words_defs split: option.splits if_splits)

lemma render_initiate:
  "en_render_swanctl_initiate_uri t uri n = Inr s \<Longrightarrow>
   is_command (swanctl_words uri [''--initiate'', ''--child'', tn_tunnel_id t]) s"
  using swanctl_command [of uri "''--initiate''" "''--child''" "tn_tunnel_id t"]
  by (auto simp: en_render_swanctl_initiate_uri_def format_command_Inr split: if_splits)

lemma render_terminate:
  "en_render_swanctl_terminate_uri t uri n = Inr s \<Longrightarrow>
   is_command (swanctl_words uri [''--terminate'', ''--child'', tn_tunnel_id t]) s"
  using swanctl_command [of uri "''--terminate''" "''--child''" "tn_tunnel_id t"]
  by (auto simp: en_render_swanctl_terminate_uri_def format_command_Inr split: if_splits)

lemma render_list_sas:
  "en_render_swanctl_list_sas_uri t uri n = Inr s \<Longrightarrow>
   is_command (swanctl_words uri [''--list-sas'', ''--child'', tn_tunnel_id t]) s"
  using swanctl_command [of uri "''--list-sas''" "''--child''" "tn_tunnel_id t"]
  by (auto simp: en_render_swanctl_list_sas_uri_def format_command_Inr split: if_splits)

lemma render_load_conns:
  "en_render_swanctl_load_conns_uri uri (Some f) n = Inr s \<Longrightarrow>
   is_command (swanctl_words uri [''--load-conns'', ''--file'', f]) s"
  using swanctl_command [of uri "''--load-conns''" "''--file''" f]
  by (auto simp: en_render_swanctl_load_conns_uri_def format_command_Inr split: if_splits)

text \<open>The table and preference suffix never fills its buffer: the numbers are C \<open>int\<close>s.\<close>

definition wf_route :: "en_route \<Rightarrow> bool" where
  "wf_route r \<longleftrightarrow> int32 (rt_table_id r) \<and> int32 (rt_metric r)"

lemma route_suffix_full:
  "wf_route r \<Longrightarrow> route_suffix r =
   (if 0 \<le> rt_table_id r then '' table '' @ int_to_dec (rt_table_id r) else []) @
   (if 0 \<le> rt_metric r then '' preference '' @ int_to_dec (rt_metric r) else [])"
  using int_to_dec_length [of "rt_table_id r"] int_to_dec_length [of "rt_metric r"]
  by (auto simp: route_suffix_def wf_route_def intro!: fit_id)

lemma render_route_add:
  assumes "en_render_vpp_route_replace_entry r n = Inr s" "wf_route r"
  shows "is_command (route_add_words r) s"
  using assms(1)
  by (auto simp: en_render_vpp_route_replace_entry_def format_command_Inr route_suffix_full [OF assms(2)]
      words_defs int_token split: if_splits)

lemma render_route_del:
  "en_render_vpp_route_delete_entry r n = Inr s \<Longrightarrow> is_command (route_del_words r) s"
  by (auto simp: en_render_vpp_route_delete_entry_def format_command_Inr Let_def words_defs int_token
      split: if_splits)

lemma outer_tokens:
  "valid_gre_tunnel t \<Longrightarrow> valid_command_token (outer_local t) \<and> valid_command_token (outer_remote t) \<and>
   valid_command_token (tn_gre_interface t) \<and> valid_command_token (tn_gre_local_address t) \<and>
   valid_command_token (tn_gre_remote_address t)"
  by (auto simp: valid_gre_tunnel_def outer_local_def outer_remote_def)

lemma render_gre_create: "en_render_vpp_gre_create t n = Inr s \<Longrightarrow> is_command (gre_words t) s"
  using outer_tokens [of t]
  by (auto simp: en_render_vpp_gre_create_def format_command_Inr words_defs gre_instance_option_def int_token
      split: if_splits)

lemma render_gre_delete: "en_render_vpp_gre_delete t n = Inr s \<Longrightarrow> is_command (gre_words t @ [''del'']) s"
  using outer_tokens [of t]
  by (auto simp: en_render_vpp_gre_delete_def format_command_Inr words_defs gre_instance_option_def int_token
      split: if_splits)

lemma render_gre_settings:
  "en_render_vpp_gre_set_address t n = Inr s \<Longrightarrow>
   is_command [''vppctl'', ''set'', ''interface'', ''ip'', ''address'', tn_gre_interface t, tn_gre_local_address t] s"
  "en_render_vpp_gre_set_mtu t n = Inr s \<Longrightarrow>
   is_command [''vppctl'', ''set'', ''interface'', ''mtu'', int_to_dec (tn_gre_mtu t), tn_gre_interface t] s"
  "en_render_vpp_gre_set_up t n = Inr s \<Longrightarrow>
   is_command [''vppctl'', ''set'', ''interface'', ''state'', tn_gre_interface t, ''up''] s"
  using outer_tokens [of t]
  by (auto simp: en_render_vpp_gre_set_address_def en_render_vpp_gre_set_mtu_def en_render_vpp_gre_set_up_def
      format_command_Inr words_defs int_token split: if_splits)

section \<open>Properties\<close>

text \<open>
  A rendered route command fits its buffer and splits into exactly the argument vector the
  route means, and so does the command that deletes the route: no field of a route can add an
  argument or spill into the next.
\<close>

theorem route_commands_tokenize:
  assumes "wf_route r" "en_render_vpp_route_replace_entry r n = Inr a" "en_render_vpp_route_delete_entry r m = Inr d"
  shows "strtok_all blank a = route_add_words r \<and> length a < n \<and>
    strtok_all blank d = route_del_words r \<and> length d < m"
  using command_tokens [OF render_route_add [OF assms(2,1)]] command_tokens [OF render_route_del [OF assms(3)]] assms(2,3)
  by (auto simp: en_render_vpp_route_replace_entry_def en_render_vpp_route_delete_entry_def Let_def
      format_command_Inr split: if_splits)

definition sample_route :: en_route where
  "sample_route = zero_route\<lparr>rt_route_id := ''r1'', rt_node_id := ''site-a'',
     rt_destination_prefix := ''10.0.2.0/24'', rt_next_hop := ''203.0.113.1'',
     rt_interface_name := ''gre0'', rt_table_id := 100, rt_metric := -1\<rparr>"

lemmas render_eval = format_command_def valid_command_token_def token_char_def isalnum_def isdigit_def code_def
  sample_route_def zero_defs route_suffix_def int_to_dec_def nat_to_dec.simps fit_def

theorem route_commands_tokenize_witness:
  "strtok_all blank ''vppctl ip route add 10.0.2.0/24 table 100 via 203.0.113.1 gre0'' = route_add_words sample_route"
proof -
  have "en_render_vpp_route_replace_entry sample_route 512 =
      Inr ''vppctl ip route add 10.0.2.0/24 table 100 via 203.0.113.1 gre0''"
    by (simp add: en_render_vpp_route_replace_entry_def render_eval)
  moreover have "en_render_vpp_route_delete_entry sample_route 512 =
      Inr ''vppctl ip route del 10.0.2.0/24 table 100 via 203.0.113.1 gre0''"
    by (simp add: en_render_vpp_route_delete_entry_def render_eval)
  moreover have "wf_route sample_route" by (simp add: wf_route_def sample_route_def zero_defs int32_def INT_MAX_def INT_MIN_def)
  ultimately show ?thesis using route_commands_tokenize by blast
qed

text \<open>
  The command that deletes a GRE tunnel is the command that created it with one more argument,
  \<open>del\<close>: it names the same endpoints and instance.
\<close>

lemma gre_delete_undoes_create:
  assumes "en_render_vpp_gre_create t n = Inr c" "en_render_vpp_gre_delete t m = Inr d"
  shows "strtok_all blank d = strtok_all blank c @ [''del''] \<and> strtok_all blank c = gre_words t"
  using command_tokens [OF render_gre_create [OF assms(1)]] command_tokens [OF render_gre_delete [OF assms(2)]]
  by simp

definition sample_gre :: en_tunnel where
  "sample_gre = zero_tunnel\<lparr>tn_tunnel_id := ''tun-a-b'', tn_tunnel_type := ''gre_over_ipsec'',
     tn_local_endpoint := ''192.0.2.1'', tn_remote_endpoint := ''192.0.2.2'',
     tn_local_traffic_selector := ''10.0.1.0/24'', tn_remote_traffic_selector := ''10.0.2.0/24'',
     tn_gre_interface := ''gre7'', tn_gre_local_address := ''169.254.0.1/30'',
     tn_gre_remote_address := ''169.254.0.2'', tn_gre_instance := 7\<rparr>"

end
