(* ===== verification/YamlConfig.thy ===== *)
theory YamlConfig
  imports Samples
begin

text \<open>
  The configuration of \<open>include/eventnet/yaml_config.h\<close>: what the reader fills and the plan builder
  and the daemon use.
\<close>

record en_yaml_config =
  yc_nodes :: "en_node list"
  yc_tunnels :: "en_tunnel list"
  yc_paths :: "en_path list"
  yc_intents :: "en_intent list"
  yc_vpp_edges :: "en_vpp_edge list"

end
