(* ===== verification/ApplyPlan.thy ===== *)
theory ApplyPlan
  imports RenderCommands YamlConfig
begin

text \<open>
  The apply plan of \<open>src/apply_plan.c\<close>: the swanctl configuration and the command list that realise
  a path, with the commands that undo them, and the runner that executes the list without a
  shell and rolls back on the first failure. Executing a program is a parameter.

  The parallel arrays \<open>commands\<close>, \<open>command_rollbacks\<close> and \<open>command_has_rollback\<close> share one count and
  are one list. A step of the builder returns the extended plan or the error code; after an
  error the callers do not use the plan.
\<close>

abbreviation EN_MAX_PLAN_COMMANDS :: nat where "EN_MAX_PLAN_COMMANDS \<equiv> 128"
abbreviation EN_MAX_COMMAND_LEN :: nat where "EN_MAX_COMMAND_LEN \<equiv> 512"
abbreviation EN_MAX_CONFIG_TEXT :: nat where "EN_MAX_CONFIG_TEXT \<equiv> 8192"

record en_apply_plan =
  pl_commands :: "(string \<times> string option) list"
  pl_rollback_commands :: "string list"
  pl_has_command_rollbacks :: bool
  pl_swanctl_conf :: string

type_synonym plan_step = "en_apply_plan \<Rightarrow> en_error_code + en_apply_plan"

definition empty_plan :: en_apply_plan where
  "empty_plan = \<lparr>pl_commands = [], pl_rollback_commands = [], pl_has_command_rollbacks = False, pl_swanctl_conf = []\<rparr>"

definition and_then :: "plan_step \<Rightarrow> plan_step \<Rightarrow> plan_step" where
  "and_then f g p = (case f p of Inl e \<Rightarrow> Inl e | Inr q \<Rightarrow> g q)"

primrec steps :: "('a \<Rightarrow> plan_step) \<Rightarrow> 'a list \<Rightarrow> plan_step" where
  "steps f [] p = Inr p"
| "steps f (x # xs) p = and_then (f x) (steps f xs) p"

section \<open>Appending\<close>

definition append_conf :: "string \<Rightarrow> plan_step" where
  "append_conf text p =
     (if EN_MAX_CONFIG_TEXT \<le> length (pl_swanctl_conf p) \<or>
         EN_MAX_CONFIG_TEXT - length (pl_swanctl_conf p) \<le> length text
      then Inl EN_ERR_INVALID_ARGUMENT
      else Inr (p\<lparr>pl_swanctl_conf := pl_swanctl_conf p @ text\<rparr>))"

definition append_command :: "string \<Rightarrow> plan_step" where
  "append_command command p =
     (if EN_MAX_PLAN_COMMANDS \<le> length (pl_commands p) \<or> EN_MAX_COMMAND_LEN \<le> length command
      then Inl EN_ERR_INVALID_ARGUMENT
      else Inr (p\<lparr>pl_commands := pl_commands p @ [(command, None)]\<rparr>))"

definition append_command_with_rollback :: "string \<Rightarrow> string \<Rightarrow> plan_step" where
  "append_command_with_rollback command rollback_command p =
     (if EN_MAX_COMMAND_LEN \<le> length rollback_command then Inl EN_ERR_INVALID_ARGUMENT
      else case append_command command p of
        Inl e \<Rightarrow> Inl e
      | Inr q \<Rightarrow> Inr (q\<lparr>pl_commands := (pl_commands q)[length (pl_commands q) - 1 := (command, Some rollback_command)],
            pl_has_command_rollbacks := True\<rparr>))"

definition append_rollback_command :: "string \<Rightarrow> plan_step" where
  "append_rollback_command command p =
     (if EN_MAX_PLAN_COMMANDS \<le> length (pl_rollback_commands p) \<or> EN_MAX_COMMAND_LEN \<le> length command
      then Inl EN_ERR_INVALID_ARGUMENT
      else Inr (p\<lparr>pl_rollback_commands := pl_rollback_commands p @ [command]\<rparr>))"

definition find_tunnel :: "en_yaml_config \<Rightarrow> string \<Rightarrow> en_tunnel option" where
  "find_tunnel config tunnel_id = find (\<lambda>t. strcmp (tn_tunnel_id t) tunnel_id = 0) (yc_tunnels config)"

definition valid_secret :: "string \<Rightarrow> bool" where
  "valid_secret s \<longleftrightarrow> list_all (\<lambda>c. 33 \<le> code c \<and> code c \<le> 126 \<and> c \<noteq> DQ \<and> c \<noteq> BSLASH) s"

definition valid_xfrm_selector :: "string \<Rightarrow> bool" where
  "valid_xfrm_selector s \<longleftrightarrow> s \<noteq> [] \<and>
     list_all (\<lambda>c. isalnum c \<or> c = CHR ''.'' \<or> c = CHR ''/'' \<or> c = CHR '':'' \<or> c = CHR ''_'' \<or> c = CHR ''-'') s"

text \<open>\<open>snprintf\<close> into a buffer of \<open>n\<close> bytes, refusing what does not fit.\<close>

definition checked :: "nat \<Rightarrow> string \<Rightarrow> (string \<Rightarrow> plan_step) \<Rightarrow> plan_step" where
  "checked n s k p = (if n \<le> length s then Inl EN_ERR_INVALID_ARGUMENT else k s p)"

text \<open>Use a rendered command; every failure is \<open>EN_ERR_INVALID_ARGUMENT\<close>, as the code maps it.\<close>

definition with_rendered :: "rendered \<Rightarrow> (string \<Rightarrow> plan_step) \<Rightarrow> plan_step" where
  "with_rendered r k p = (case r of Inl e \<Rightarrow> Inl EN_ERR_INVALID_ARGUMENT | Inr s \<Rightarrow> k s p)"

section \<open>The swanctl configuration\<close>

definition line :: "string \<Rightarrow> string" where
  "line s = s @ [LF]"

definition local_auth :: "en_tunnel \<Rightarrow> string" where
  "local_auth t = (if strcmp (tn_auth_method t) ''pubkey'' = 0
     then ''auth = pubkey'' @ [LF] @ ''      certs = '' @ tn_local_cert t else ''auth = psk'')"

definition remote_auth :: "en_tunnel \<Rightarrow> string" where
  "remote_auth t = (if strcmp (tn_auth_method t) ''pubkey'' = 0
     then (if tn_remote_cacerts t \<noteq> [] then ''auth = pubkey'' @ [LF] @ ''      cacerts = '' @ tn_remote_cacerts t
           else ''auth = pubkey'')
     else ''auth = psk'')"

definition local_identity :: "en_tunnel \<Rightarrow> string" where
  "local_identity t = (if tn_local_id t = [] then tn_local_endpoint t else tn_local_id t)"

definition remote_identity :: "en_tunnel \<Rightarrow> string" where
  "remote_identity t = (if tn_remote_id t = [] then tn_remote_endpoint t else tn_remote_id t)"

definition conf_mode :: "en_tunnel \<Rightarrow> string" where
  "conf_mode t = (if is_gre t then line (if transport_mode t then ''        mode = transport'' else ''        mode = tunnel'')
     else [])"

definition tunnel_block :: "en_tunnel \<Rightarrow> string \<Rightarrow> string \<Rightarrow> string" where
  "tunnel_block t local_ts remote_ts =
     line (''  '' @ tn_tunnel_id t @ '' {'') @
     line ''    version = 2'' @
     line (''    local_addrs = '' @ tn_local_endpoint t) @
     line (''    remote_addrs = '' @ tn_remote_endpoint t) @
     line ''    local {'' @
     line (''      '' @ local_auth t) @
     line (''      id = '' @ local_identity t) @
     line ''    }'' @
     line ''    remote {'' @
     line (''      '' @ remote_auth t) @
     line (''      id = '' @ remote_identity t) @
     line ''    }'' @
     line ''    children {'' @
     line (''      '' @ tn_tunnel_id t @ '' {'') @
     conf_mode t @
     line (''        local_ts = '' @ local_ts) @
     line (''        remote_ts = '' @ remote_ts) @
     line ''        start_action = trap'' @
     line ''      }'' @
     line ''    }'' @
     line ''  }''"

definition append_tunnel_conf :: "en_tunnel \<Rightarrow> plan_step" where
  "append_tunnel_conf t p =
     (if strcmp (tn_auth_method t) ''pubkey'' = 0 \<and>
         (256 \<le> length (local_auth t) \<or> (tn_remote_cacerts t \<noteq> [] \<and> 256 \<le> length (remote_auth t)))
      then Inl EN_ERR_INVALID_ARGUMENT
      else case traffic_selectors t of
        None \<Rightarrow> Inl EN_ERR_INVALID_ARGUMENT
      | Some (local_ts, remote_ts) \<Rightarrow> checked 1536 (tunnel_block t local_ts remote_ts) append_conf p)"

definition append_segment_conf :: "en_yaml_config \<Rightarrow> en_segment \<Rightarrow> plan_step" where
  "append_segment_conf config g p =
     (case find_tunnel config (sg_tunnel_id g) of
        None \<Rightarrow> Inl EN_ERR_NOT_FOUND
      | Some t \<Rightarrow> append_tunnel_conf t p)"

definition secret_block :: "en_tunnel \<Rightarrow> string" where
  "secret_block t =
     line (''  ike-'' @ tn_tunnel_id t @ '' {'') @
     line (''    id-1 = '' @ local_identity t) @
     line (''    id-2 = '' @ remote_identity t) @
     line (''    secret = '' @ [DQ] @ tn_psk t @ [DQ]) @
     line ''  }''"

definition append_segment_secret :: "en_yaml_config \<Rightarrow> en_segment \<Rightarrow> plan_step" where
  "append_segment_secret config g p =
     (case find_tunnel config (sg_tunnel_id g) of
        None \<Rightarrow> Inl EN_ERR_NOT_FOUND
      | Some t \<Rightarrow>
          if tn_psk t \<noteq> [] then
            (if \<not> valid_secret (tn_psk t) then Inl EN_ERR_INVALID_ARGUMENT
             else checked 512 (secret_block t) append_conf p)
          else Inr p)"

section \<open>Commands\<close>

text \<open>The renderers return \<open>EN_ERR_INVALID_ARGUMENT\<close> for a \<open>NULL\<close> tunnel.\<close>

definition tunnel_rendered :: "en_tunnel option \<Rightarrow> (en_tunnel \<Rightarrow> nat \<Rightarrow> rendered) \<Rightarrow> rendered" where
  "tunnel_rendered t f = (case t of None \<Rightarrow> Inl EN_ERR_INVALID_ARGUMENT | Some x \<Rightarrow> f x EN_MAX_COMMAND_LEN)"

definition append_initiate :: "en_yaml_config \<Rightarrow> en_segment \<Rightarrow> plan_step" where
  "append_initiate config g =
     (let t = find_tunnel config (sg_tunnel_id g) in
      with_rendered (tunnel_rendered t en_render_swanctl_initiate) (\<lambda>command.
      with_rendered (tunnel_rendered t en_render_swanctl_terminate) (\<lambda>rollback_command.
      append_command_with_rollback command rollback_command)))"

definition append_gre_setup :: "en_tunnel \<Rightarrow> plan_step" where
  "append_gre_setup t =
     and_then
       (with_rendered (en_render_vpp_gre_create t EN_MAX_COMMAND_LEN) (\<lambda>command.
        with_rendered (en_render_vpp_gre_delete t EN_MAX_COMMAND_LEN) (\<lambda>rollback_command.
        append_command_with_rollback command rollback_command)))
     (and_then (with_rendered (en_render_vpp_gre_set_address t EN_MAX_COMMAND_LEN) append_command)
     (and_then (if 0 < tn_gre_mtu t
                then with_rendered (en_render_vpp_gre_set_mtu t EN_MAX_COMMAND_LEN) append_command else Inr)
       (with_rendered (en_render_vpp_gre_set_up t EN_MAX_COMMAND_LEN) append_command)))"

text \<open>
  The GRE tunnels of the segments, each once: \<open>seen\<close> are the segments before. The removal loop
  runs over the reversed list, where the segments seen are the later ones.
\<close>

fun gre_tunnels :: "en_yaml_config \<Rightarrow> en_segment list \<Rightarrow> en_segment list \<Rightarrow> en_tunnel list" where
  "gre_tunnels config seen [] = []"
| "gre_tunnels config seen (g # gs) =
     (case find_tunnel config (sg_tunnel_id g) of
        None \<Rightarrow> gre_tunnels config (g # seen) gs
      | Some t \<Rightarrow>
          if \<not> is_gre t \<or> list_ex (\<lambda>h. strcmp (sg_tunnel_id h) (tn_tunnel_id t) = 0) seen
          then gre_tunnels config (g # seen) gs
          else t # gre_tunnels config (g # seen) gs)"

definition xfrm_add :: "string \<Rightarrow> string \<Rightarrow> string \<Rightarrow> string" where
  "xfrm_add dir src dst = ''ip xfrm policy add dir '' @ dir @ '' src '' @ src @ '' dst '' @ dst @
     '' priority 10000 action block''"

definition xfrm_delete :: "string \<Rightarrow> string \<Rightarrow> string \<Rightarrow> string" where
  "xfrm_delete dir src dst = ''ip xfrm policy delete dir '' @ dir @ '' src '' @ src @ '' dst '' @ dst @ '' priority 10000''"

definition append_block :: "string \<Rightarrow> string \<Rightarrow> string \<Rightarrow> plan_step" where
  "append_block dir src dst =
     checked EN_MAX_COMMAND_LEN (xfrm_add dir src dst) (\<lambda>command.
     checked EN_MAX_COMMAND_LEN (xfrm_delete dir src dst) (\<lambda>rollback_command.
     append_command_with_rollback command rollback_command))"

definition with_selectors ::
  "en_yaml_config \<Rightarrow> en_segment \<Rightarrow> (string \<Rightarrow> string \<Rightarrow> plan_step) \<Rightarrow> plan_step" where
  "with_selectors config g k p =
     (case find_tunnel config (sg_tunnel_id g) of
        None \<Rightarrow> Inl EN_ERR_INVALID_ARGUMENT
      | Some t \<Rightarrow>
          if \<not> valid_xfrm_selector (tn_local_traffic_selector t) \<or>
             \<not> valid_xfrm_selector (tn_remote_traffic_selector t) then Inl EN_ERR_INVALID_ARGUMENT
          else k (tn_local_traffic_selector t) (tn_remote_traffic_selector t) p)"

definition append_blocks :: "en_yaml_config \<Rightarrow> en_segment \<Rightarrow> plan_step" where
  "append_blocks config g = with_selectors config g (\<lambda>l r.
     and_then (append_block ''out'' l r) (append_block ''in'' r l))"

definition append_unblocks :: "en_yaml_config \<Rightarrow> en_segment \<Rightarrow> plan_step" where
  "append_unblocks config g = with_selectors config g (\<lambda>l r.
     and_then (checked EN_MAX_COMMAND_LEN (xfrm_delete ''out'' l r) append_rollback_command)
       (checked EN_MAX_COMMAND_LEN (xfrm_delete ''in'' r l) append_rollback_command))"

definition gre_egress :: "en_yaml_config \<Rightarrow> en_path \<Rightarrow> en_tunnel option" where
  "gre_egress config path =
     (case List.map_filter (\<lambda>g. case find_tunnel config (sg_tunnel_id g) of
          Some t \<Rightarrow> if is_gre t then Some t else None | None \<Rightarrow> None) (pt_segments path) of
        [] \<Rightarrow> None | t # _ \<Rightarrow> Some t)"

definition resolved_route :: "en_yaml_config \<Rightarrow> en_path \<Rightarrow> en_route \<Rightarrow> en_route option" where
  "resolved_route config path r =
     (case gre_egress config path of
        None \<Rightarrow> Some r
      | Some t \<Rightarrow> (case en_route_resolve_tunnel_egress r t of
          (err, q) \<Rightarrow> if err \<noteq> EN_ERR_NONE then None else Some q))"

definition append_route :: "en_yaml_config \<Rightarrow> en_path \<Rightarrow> en_route \<Rightarrow> plan_step" where
  "append_route config path r p =
     (case resolved_route config path r of
        None \<Rightarrow> Inl EN_ERR_INVALID_ARGUMENT
      | Some q \<Rightarrow>
          (case en_render_vpp_route_replace_entry q EN_MAX_COMMAND_LEN of
             Inl e \<Rightarrow> Inl e
           | Inr command \<Rightarrow>
               with_rendered (en_render_vpp_route_delete_entry q EN_MAX_COMMAND_LEN)
                 (append_command_with_rollback command) p))"

definition append_default_route :: "en_yaml_config \<Rightarrow> en_path \<Rightarrow> plan_step" where
  "append_default_route config path p =
     (let egress = find_tunnel config (pt_egress_tunnel_id path) in
      case en_render_vpp_route_replace path egress EN_MAX_COMMAND_LEN of
        Inl e \<Rightarrow> Inl e
      | Inr command \<Rightarrow>
          with_rendered (case egress of
              Some t \<Rightarrow> if is_gre t then en_render_vpp_gre_route_delete path t EN_MAX_COMMAND_LEN
                else en_render_vpp_route_delete path EN_MAX_COMMAND_LEN
            | None \<Rightarrow> en_render_vpp_route_delete path EN_MAX_COMMAND_LEN)
            (append_command_with_rollback command) p)"

text \<open>In the rollback list a route whose deletion cannot be rendered is skipped.\<close>

definition append_if_rendered :: "rendered \<Rightarrow> plan_step" where
  "append_if_rendered r p = (case r of Inl e \<Rightarrow> Inr p | Inr s \<Rightarrow> append_rollback_command s p)"

definition append_route_removal :: "en_yaml_config \<Rightarrow> en_path \<Rightarrow> en_route \<Rightarrow> plan_step" where
  "append_route_removal config path r p =
     (case resolved_route config path r of
        None \<Rightarrow> Inl EN_ERR_INVALID_ARGUMENT
      | Some q \<Rightarrow> append_if_rendered (en_render_vpp_route_delete_entry q EN_MAX_COMMAND_LEN) p)"

definition append_default_route_removal :: "en_yaml_config \<Rightarrow> en_path \<Rightarrow> plan_step" where
  "append_default_route_removal config path =
     (case find_tunnel config (pt_egress_tunnel_id path) of
        Some t \<Rightarrow>
          if is_gre t then append_if_rendered (en_render_vpp_route_delete_with_tunnel path (Some t) EN_MAX_COMMAND_LEN)
          else append_if_rendered (en_render_vpp_route_delete path EN_MAX_COMMAND_LEN)
      | None \<Rightarrow> append_if_rendered (en_render_vpp_route_delete path EN_MAX_COMMAND_LEN))"

definition append_terminate :: "en_yaml_config \<Rightarrow> en_segment \<Rightarrow> plan_step" where
  "append_terminate config g p =
     (case tunnel_rendered (find_tunnel config (sg_tunnel_id g)) en_render_swanctl_terminate of
        Inl e \<Rightarrow> Inl e | Inr s \<Rightarrow> append_rollback_command s p)"

section \<open>The plan\<close>

definition plan_conf :: "en_yaml_config \<Rightarrow> en_path \<Rightarrow> plan_step" where
  "plan_conf config path =
     and_then (append_conf (line ''connections {''))
     (and_then (steps (append_segment_conf config) (pt_segments path))
     (and_then (append_conf (line ''}'' @ [LF] @ line ''secrets {''))
     (and_then (steps (append_segment_secret config) (pt_segments path))
       (append_conf (line ''}'')))))"

definition plan_commands :: "en_yaml_config \<Rightarrow> en_intent \<Rightarrow> en_path \<Rightarrow> string \<Rightarrow> plan_step" where
  "plan_commands config intent path conf_filename =
     and_then (checked EN_MAX_COMMAND_LEN (''swanctl --load-conns --file '' @ conf_filename) append_command)
     (and_then (steps (append_initiate config) (pt_segments path))
     (and_then (steps append_gre_setup (gre_tunnels config [] (pt_segments path)))
     (and_then (if it_block_non_ipsec intent then steps (append_blocks config) (pt_segments path) else Inr)
       (if pt_routes path \<noteq> [] then steps (append_route config path) (pt_routes path)
        else append_default_route config path))))"

definition plan_rollback :: "en_yaml_config \<Rightarrow> en_intent \<Rightarrow> en_path \<Rightarrow> plan_step" where
  "plan_rollback config intent path =
     and_then (if pt_routes path \<noteq> [] then steps (append_route_removal config path) (rev (pt_routes path))
               else append_default_route_removal config path)
     (and_then (steps (\<lambda>t. with_rendered (en_render_vpp_gre_delete t EN_MAX_COMMAND_LEN) append_rollback_command)
                 (gre_tunnels config [] (rev (pt_segments path))))
     (and_then (steps (append_terminate config) (rev (pt_segments path)))
       (if it_block_non_ipsec intent then steps (append_unblocks config) (rev (pt_segments path)) else Inr)))"

definition en_apply_plan_from_config_with_file ::
  "en_yaml_config \<Rightarrow> en_intent \<Rightarrow> en_path \<Rightarrow> string \<Rightarrow> en_error_code + en_apply_plan" where
  "en_apply_plan_from_config_with_file config intent path conf_filename =
     (if EN_MAX_TUNNELS < length (yc_tunnels config) \<or> \<not> en_path_counts_valid path
      then Inl EN_ERR_INVALID_ARGUMENT
      else and_then (plan_conf config path)
        (and_then (plan_commands config intent path conf_filename) (plan_rollback config intent path)) empty_plan)"

definition en_apply_plan_from_config ::
  "en_yaml_config \<Rightarrow> en_intent \<Rightarrow> en_path \<Rightarrow> en_error_code + en_apply_plan" where
  "en_apply_plan_from_config config intent path =
     en_apply_plan_from_config_with_file config intent path ''eventnet-swanctl.conf''"

section \<open>Running a plan\<close>

definition plan_token_char :: "char \<Rightarrow> bool" where
  "plan_token_char c \<longleftrightarrow> isalnum c \<or> c = CHR ''/'' \<or> c = CHR ''.'' \<or> c = CHR ''_'' \<or> c = CHR ''-'' \<or>
     c = CHR '':'' \<or> c = CHR ''='' \<or> c = CHR ''%''"

definition valid_plan_token :: "string \<Rightarrow> bool" where
  "valid_plan_token s \<longleftrightarrow> s \<noteq> [] \<and> list_all plan_token_char s"

text \<open>
  \<open>execute argv\<close> stands for \<open>fork\<close>, \<open>execvp\<close> and \<open>waitpid\<close>: 0 iff the program ran and exited with
  status 0. The argument vector is \<open>None\<close> when the command is refused, and then nothing runs.
\<close>

definition plan_argv :: "string \<Rightarrow> string list option" where
  "plan_argv command =
     (let argv = strtok_all blank command in
      if command = [] \<or> EN_MAX_COMMAND_LEN \<le> length command then None
      else if 31 < length argv \<or> \<not> list_all valid_plan_token argv then None
      else if argv = [] then None
      else Some argv)"

definition run_plan_command_without_shell ::
  "(string list \<Rightarrow> ('w, int) state) \<Rightarrow> string \<Rightarrow> ('w, int) state" where
  "run_plan_command_without_shell execute command =
     (case plan_argv command of
        None \<Rightarrow> State_Monad.return (-1)
      | Some argv \<Rightarrow> do {
          status \<leftarrow> execute argv;
          State_Monad.return (if status = 0 then 0 else -1)
        })"

text \<open>Run the rollback commands in order; \<open>True\<close> if one of them failed.\<close>

primrec run_rollbacks :: "(string list \<Rightarrow> ('w, int) state) \<Rightarrow> string list \<Rightarrow> ('w, bool) state" where
  "run_rollbacks execute [] = State_Monad.return False"
| "run_rollbacks execute (c # cs) = do {
     rc \<leftarrow> run_plan_command_without_shell execute c;
     failed \<leftarrow> run_rollbacks execute cs;
     State_Monad.return (rc \<noteq> 0 \<or> failed)
   }"

definition rollback_sequence :: "en_apply_plan \<Rightarrow> (string \<times> string option) list \<Rightarrow> string list" where
  "rollback_sequence p executed =
     (if pl_has_command_rollbacks p then List.map_filter snd (rev executed)
      else rev (pl_rollback_commands p))"

text \<open>\<open>executed\<close>: the entries before the current one, in order.\<close>

primrec run_commands ::
  "(string list \<Rightarrow> ('w, int) state) \<Rightarrow> en_apply_plan \<Rightarrow> bool \<Rightarrow> (string \<times> string option) list \<Rightarrow>
   (string \<times> string option) list \<Rightarrow> ('w, en_error_code) state" where
  "run_commands execute p dry_run executed [] = State_Monad.return EN_ERR_NONE"
| "run_commands execute p dry_run executed (c # cs) =
     (if dry_run then run_commands execute p dry_run (executed @ [c]) cs
      else do {
        rc \<leftarrow> run_plan_command_without_shell execute (fst c);
        if rc \<noteq> 0 then do {
          rollback_failed \<leftarrow> run_rollbacks execute (rollback_sequence p executed);
          State_Monad.return (if rollback_failed then EN_ERR_ROLLBACK_FAILED else EN_ERR_STATE_CONFLICT)
        } else run_commands execute p dry_run (executed @ [c]) cs
      })"

definition en_apply_plan_run ::
  "(string list \<Rightarrow> ('w, int) state) \<Rightarrow> en_apply_plan \<Rightarrow> bool \<Rightarrow> ('w, en_error_code) state" where
  "en_apply_plan_run execute p dry_run =
     (if EN_MAX_PLAN_COMMANDS < length (pl_commands p) \<or> EN_MAX_PLAN_COMMANDS < length (pl_rollback_commands p)
      then State_Monad.return EN_ERR_INVALID_ARGUMENT
      else run_commands execute p dry_run [] (pl_commands p))"

text \<open>The text \<open>en_apply_plan_write_shell_script\<close> writes; the file operations are not modelled.\<close>

definition shell_script :: "en_apply_plan \<Rightarrow> string option" where
  "shell_script p =
     (if EN_MAX_PLAN_COMMANDS < length (pl_commands p) \<or> EN_MAX_PLAN_COMMANDS < length (pl_rollback_commands p)
      then None
      else Some (line ''#!/usr/bin/env sh'' @ line ''set -eu'' @ [LF] @
        line (''if [ '' @ [DQ] @ ''$(id -u)'' @ [DQ] @ '' != '' @ [DQ] @ ''0'' @ [DQ] @ '' ]; then'') @
        line (''  echo '' @ [DQ] @ ''warning: applying IPsec/VPP routes usually requires root'' @ [DQ] @ '' >&2'') @
        line ''fi'' @ line ''command -v swanctl >/dev/null'' @ line ''command -v vppctl >/dev/null'' @ [LF] @
        concat (map (line \<circ> fst) (pl_commands p)) @
        (if pl_rollback_commands p = [] then []
         else [LF] @ line ''# Rollback commands, run manually if validation fails:'' @
           concat (map (\<lambda>c. line (''# '' @ c)) (pl_rollback_commands p)))))"

section \<open>Every command of a plan is one the runner accepts\<close>

definition executable_command :: "string \<Rightarrow> bool" where
  "executable_command s \<longleftrightarrow> plan_argv s \<noteq> None"

definition plan_ok :: "en_apply_plan \<Rightarrow> bool" where
  "plan_ok p \<longleftrightarrow> length (pl_commands p) \<le> EN_MAX_PLAN_COMMANDS \<and>
     list_all (\<lambda>c. executable_command (fst c) \<and> (case snd c of None \<Rightarrow> True | Some r \<Rightarrow> executable_command r)) (pl_commands p) \<and>
     length (pl_rollback_commands p) \<le> EN_MAX_PLAN_COMMANDS \<and>
     list_all executable_command (pl_rollback_commands p) \<and>
     length (pl_swanctl_conf p) < EN_MAX_CONFIG_TEXT"

definition step_ok :: "plan_step \<Rightarrow> bool" where
  "step_ok f \<longleftrightarrow> (\<forall>p q. plan_ok p \<longrightarrow> f p = Inr q \<longrightarrow> plan_ok q)"

named_theorems plan_rules \<open>steps that keep the plan executable\<close>

lemma step_okI: "(\<And>p q. plan_ok p \<Longrightarrow> f p = Inr q \<Longrightarrow> plan_ok q) \<Longrightarrow> step_ok f"
  by (simp add: step_ok_def)

lemma step_okD: "step_ok f \<Longrightarrow> plan_ok p \<Longrightarrow> f p = Inr q \<Longrightarrow> plan_ok q"
  unfolding step_ok_def by blast

lemma step_and_then [plan_rules]:
  assumes "step_ok f" "step_ok g"
  shows "step_ok (and_then f g)"
proof (rule step_okI)
  fix p q
  assume "plan_ok p" "and_then f g p = Inr q"
  moreover from this(2) obtain r where "f p = Inr r" "g r = Inr q"
    by (auto simp: and_then_def split: sum.splits)
  ultimately show "plan_ok q" using step_okD [OF assms(1)] step_okD [OF assms(2)] by blast
qed

lemma step_Inr [plan_rules]: "step_ok Inr"
  by (simp add: step_ok_def)

lemma step_Inr_eta [plan_rules]: "step_ok (\<lambda>p. Inr p)"
  by (simp add: step_ok_def)

lemma step_Inl [plan_rules]: "step_ok (\<lambda>p. Inl e)"
  by (simp add: step_ok_def)

lemma step_if [plan_rules]: "(b \<Longrightarrow> step_ok f) \<Longrightarrow> (\<not> b \<Longrightarrow> step_ok g) \<Longrightarrow> step_ok (if b then f else g)"
  by simp

lemma step_if_arg [plan_rules]:
  "(b \<Longrightarrow> step_ok f) \<Longrightarrow> (\<not> b \<Longrightarrow> step_ok g) \<Longrightarrow> step_ok (\<lambda>p. if b then f p else g p)"
  by (cases b) simp_all

lemma step_steps [plan_rules]: "(\<And>x. x \<in> set xs \<Longrightarrow> step_ok (f x)) \<Longrightarrow> step_ok (steps f xs)"
proof (induction xs)
  case Nil
  show ?case by (simp add: step_ok_def)
next
  case (Cons x xs)
  then have "step_ok (and_then (f x) (steps f xs))" by (simp add: step_and_then)
  then show ?case by (simp add: step_ok_def)
qed

lemma step_conf [plan_rules]: "step_ok (append_conf text)"
  by (auto simp: step_ok_def append_conf_def plan_ok_def split: if_splits)

lemma step_command [plan_rules]: "executable_command c \<Longrightarrow> step_ok (append_command c)"
  by (auto simp: step_ok_def append_command_def plan_ok_def split: if_splits)

lemma step_command_rollback [plan_rules]:
  "executable_command c \<Longrightarrow> executable_command r \<Longrightarrow> step_ok (append_command_with_rollback c r)"
  by (auto simp: step_ok_def append_command_with_rollback_def append_command_def plan_ok_def split: if_splits)

lemma step_rollback_command [plan_rules]: "executable_command c \<Longrightarrow> step_ok (append_rollback_command c)"
  by (auto simp: step_ok_def append_rollback_command_def plan_ok_def split: if_splits)

lemma step_checked [plan_rules]: "(length s < n \<Longrightarrow> step_ok (k s)) \<Longrightarrow> step_ok (checked n s k)"
  by (auto simp: step_ok_def checked_def)

lemma step_rendered [plan_rules]: "(\<And>s. r = Inr s \<Longrightarrow> step_ok (k s)) \<Longrightarrow> step_ok (with_rendered r k)"
  by (auto simp: step_ok_def with_rendered_def split: sum.splits)

lemma step_case_option [plan_rules]:
  "step_ok f \<Longrightarrow> (\<And>y. x = Some y \<Longrightarrow> step_ok (g y)) \<Longrightarrow> step_ok (\<lambda>p. case x of None \<Rightarrow> f p | Some y \<Rightarrow> g y p)"
  by (cases x) simp_all

lemma step_case_sum [plan_rules]:
  "(\<And>e. x = Inl e \<Longrightarrow> step_ok (f e)) \<Longrightarrow> (\<And>y. x = Inr y \<Longrightarrow> step_ok (g y)) \<Longrightarrow>
   step_ok (\<lambda>p. case x of Inl e \<Rightarrow> f e p | Inr y \<Rightarrow> g y p)"
  by (cases x) simp_all

lemma token_plan_token: "valid_command_token w \<Longrightarrow> valid_plan_token w"
  by (auto simp: valid_command_token_def valid_plan_token_def token_char_def plan_token_char_def list_all_iff)

text \<open>What is rendered is words, so it is executable as it is.\<close>

lemma executable_words:
  assumes "is_command ws s" "length ws \<le> 31" "length s < EN_MAX_COMMAND_LEN"
  shows "executable_command s"
proof -
  have "s \<noteq> []" "ws \<noteq> []" using assms(1) by (cases ws rule: unwords.cases; auto simp: is_command_def valid_command_token_def)+
  moreover have "list_all valid_plan_token ws"
    using assms(1) by (auto simp: is_command_def list_all_iff intro: token_plan_token)
  ultimately show ?thesis
    using command_tokens [OF assms(1)] assms(2,3) by (simp add: executable_command_def plan_argv_def)
qed

lemma words_lengths [simp]:
  "length (swanctl_words None [a, b, c]) = 4" "length (gre_words t) \<le> 30" "length (gre_words t) \<le> 31"
  "length (route_add_words r) \<le> 31" "length (route_del_words r) \<le> 31"
  by (auto simp: words_defs Let_def)

lemma rendered_short:
  "en_render_swanctl_initiate_uri t uri n = Inr s \<Longrightarrow> length s < n"
  "en_render_swanctl_terminate_uri t uri n = Inr s \<Longrightarrow> length s < n"
  "en_render_vpp_route_replace_entry r n = Inr s \<Longrightarrow> length s < n"
  "en_render_vpp_route_delete_entry r n = Inr s \<Longrightarrow> length s < n"
  "en_render_vpp_gre_create t n = Inr s \<Longrightarrow> length s < n"
  "en_render_vpp_gre_delete t n = Inr s \<Longrightarrow> length s < n"
  "en_render_vpp_gre_set_address t n = Inr s \<Longrightarrow> length s < n"
  "en_render_vpp_gre_set_mtu t n = Inr s \<Longrightarrow> length s < n"
  "en_render_vpp_gre_set_up t n = Inr s \<Longrightarrow> length s < n"
  by (auto simp: en_render_swanctl_initiate_uri_def en_render_swanctl_terminate_uri_def
      en_render_vpp_route_replace_entry_def en_render_vpp_route_delete_entry_def Let_def
      en_render_vpp_gre_create_def en_render_vpp_gre_delete_def en_render_vpp_gre_set_address_def
      en_render_vpp_gre_set_mtu_def en_render_vpp_gre_set_up_def format_command_Inr split: if_splits)

lemma exec_swanctl:
  "tunnel_rendered t en_render_swanctl_initiate = Inr s \<Longrightarrow> executable_command s"
  "tunnel_rendered t en_render_swanctl_terminate = Inr s \<Longrightarrow> executable_command s"
  by (auto simp: tunnel_rendered_def en_render_swanctl_initiate_def en_render_swanctl_terminate_def
      split: option.splits intro!: executable_words render_initiate render_terminate
      intro: rendered_short [THEN order_less_le_trans])

lemma exec_gre:
  "en_render_vpp_gre_create t EN_MAX_COMMAND_LEN = Inr s \<Longrightarrow> executable_command s"
  "en_render_vpp_gre_delete t EN_MAX_COMMAND_LEN = Inr s \<Longrightarrow> executable_command s"
  "en_render_vpp_gre_set_address t EN_MAX_COMMAND_LEN = Inr s \<Longrightarrow> executable_command s"
  "en_render_vpp_gre_set_mtu t EN_MAX_COMMAND_LEN = Inr s \<Longrightarrow> executable_command s"
  "en_render_vpp_gre_set_up t EN_MAX_COMMAND_LEN = Inr s \<Longrightarrow> executable_command s"
  by (auto intro!: executable_words render_gre_create render_gre_delete render_gre_settings
      dest: rendered_short intro: order_trans)

lemma exec_route:
  "wf_route r \<Longrightarrow> en_render_vpp_route_replace_entry r EN_MAX_COMMAND_LEN = Inr s \<Longrightarrow> executable_command s"
  "en_render_vpp_route_delete_entry r EN_MAX_COMMAND_LEN = Inr s \<Longrightarrow> executable_command s"
  by (auto intro!: executable_words render_route_add render_route_del dest: rendered_short intro: order_trans)

lemma exec_default_route:
  assumes "en_render_vpp_route_replace path egress EN_MAX_COMMAND_LEN = Inr s"
  shows "executable_command s"
proof -
  obtain t r where r: "en_route_resolve_tunnel_egress
      ((default_route path)\<lparr>rt_next_hop := fit EN_MAX_ID_LEN (pt_route_next_hop path)\<rparr>) t = (EN_ERR_NONE, r)"
    "en_render_vpp_route_replace_entry r EN_MAX_COMMAND_LEN = Inr s"
    using assms by (auto simp: en_render_vpp_route_replace_def split: option.splits prod.splits if_splits)
  have "rt_table_id r = -1" "rt_metric r = -1"
    using r(1) by (auto simp: en_route_resolve_tunnel_egress_def default_route_def Let_def split: if_splits)
  then have "wf_route r" by (simp add: wf_route_def int32_def)
  then show ?thesis using r(2) by (rule exec_route)
qed

lemma exec_route_delete:
  assumes "en_render_vpp_route_delete path EN_MAX_COMMAND_LEN = Inr s"
  shows "executable_command s"
proof -
  have "is_command [''vppctl'', ''ip'', ''route'', ''del'', pt_route_destination_prefix path] s"
    using assms by (auto simp: en_render_vpp_route_delete_def format_command_Inr is_command_def split: if_splits)
  then show ?thesis
    by (rule executable_words)
      (use assms in \<open>auto simp: en_render_vpp_route_delete_def format_command_Inr split: if_splits\<close>)
qed

lemma exec_gre_route_delete:
  assumes "en_render_vpp_gre_route_delete path t EN_MAX_COMMAND_LEN = Inr s"
  shows "executable_command s"
proof -
  have "is_command [''vppctl'', ''ip'', ''route'', ''del'', pt_route_destination_prefix path, ''via'',
      tn_gre_remote_address t, tn_gre_interface t] s"
    using assms outer_tokens [of t]
    by (auto simp: en_render_vpp_gre_route_delete_def format_command_Inr is_command_def split: if_splits)
  then show ?thesis
    by (rule executable_words)
      (use assms in \<open>auto simp: en_render_vpp_gre_route_delete_def format_command_Inr split: if_splits\<close>)
qed

lemma exec_delete_with_tunnel:
  "en_render_vpp_route_delete_with_tunnel path egress EN_MAX_COMMAND_LEN = Inr s \<Longrightarrow> executable_command s"
  by (auto simp: en_render_vpp_route_delete_with_tunnel_def split: option.splits prod.splits if_splits
      intro: exec_route)

lemma selector_token: "valid_xfrm_selector s \<Longrightarrow> valid_command_token s"
  by (auto simp: valid_xfrm_selector_def valid_command_token_def token_char_def list_all_iff)

lemma xfrm_literals [simp]:
  "valid_command_token ''xfrm''" "valid_command_token ''policy''" "valid_command_token ''delete''"
  "valid_command_token ''dir''" "valid_command_token ''out''" "valid_command_token ''in''"
  "valid_command_token ''priority''" "valid_command_token ''10000''" "valid_command_token ''action''"
  "valid_command_token ''block''"
  by (simp_all add: valid_command_token_def token_char_def isalnum_def isdigit_def code_def)

lemma exec_xfrm:
  assumes "valid_command_token dir" "valid_xfrm_selector src" "valid_xfrm_selector dst"
  shows "length (xfrm_add dir src dst) < EN_MAX_COMMAND_LEN \<Longrightarrow> executable_command (xfrm_add dir src dst)"
    and "length (xfrm_delete dir src dst) < EN_MAX_COMMAND_LEN \<Longrightarrow> executable_command (xfrm_delete dir src dst)"
proof -
  have "is_command [''ip'', ''xfrm'', ''policy'', ''add'', ''dir'', dir, ''src'', src, ''dst'', dst,
      ''priority'', ''10000'', ''action'', ''block''] (xfrm_add dir src dst)"
    and "is_command [''ip'', ''xfrm'', ''policy'', ''delete'', ''dir'', dir, ''src'', src, ''dst'', dst,
      ''priority'', ''10000''] (xfrm_delete dir src dst)"
    using assms by (simp_all add: is_command_def xfrm_add_def xfrm_delete_def selector_token)
  then show "length (xfrm_add dir src dst) < EN_MAX_COMMAND_LEN \<Longrightarrow> executable_command (xfrm_add dir src dst)"
    and "length (xfrm_delete dir src dst) < EN_MAX_COMMAND_LEN \<Longrightarrow> executable_command (xfrm_delete dir src dst)"
    by (auto intro: executable_words)
qed

lemma exec_load:
  assumes "valid_command_token f" "length (''swanctl --load-conns --file '' @ f) < EN_MAX_COMMAND_LEN"
  shows "executable_command (''swanctl --load-conns --file '' @ f)"
proof -
  have "is_command [''swanctl'', ''--load-conns'', ''--file'', f] (''swanctl --load-conns --file '' @ f)"
    using assms(1) by (simp add: is_command_def)
  then show ?thesis by (rule executable_words) (use assms(2) in auto)
qed

section \<open>The builder\<close>

lemma step_segment_conf [plan_rules]: "step_ok (append_segment_conf config g)"
proof -
  have "step_ok (append_tunnel_conf t)" for t
    unfolding append_tunnel_conf_def [abs_def]
    by (cases "traffic_selectors t") (auto intro!: plan_rules)
  then show ?thesis
    unfolding append_segment_conf_def [abs_def] by (intro plan_rules)
qed

lemma step_segment_secret [plan_rules]: "step_ok (append_segment_secret config g)"
  unfolding append_segment_secret_def [abs_def] by (intro plan_rules)

lemma step_conf_text: "step_ok (plan_conf config path)"
  unfolding plan_conf_def by (intro plan_rules)

lemma step_initiate [plan_rules]: "step_ok (append_initiate config g)"
  unfolding append_initiate_def Let_def by (intro plan_rules exec_swanctl)

lemma step_gre [plan_rules]: "step_ok (append_gre_setup t)"
  unfolding append_gre_setup_def by (intro plan_rules exec_gre)

lemma step_selectors:
  "(\<And>l r. valid_xfrm_selector l \<Longrightarrow> valid_xfrm_selector r \<Longrightarrow> step_ok (k l r)) \<Longrightarrow> step_ok (with_selectors config g k)"
  unfolding with_selectors_def [abs_def] by (intro plan_rules) auto

lemma step_blocks [plan_rules]: "step_ok (append_blocks config g)"
  unfolding append_blocks_def append_block_def
  by (rule step_selectors) (intro plan_rules exec_xfrm; simp)

lemma step_unblocks [plan_rules]: "step_ok (append_unblocks config g)"
  unfolding append_unblocks_def
  by (rule step_selectors) (intro plan_rules exec_xfrm; simp)

lemma resolved_wf: "wf_route r \<Longrightarrow> resolved_route config path r = Some q \<Longrightarrow> wf_route q"
  by (auto simp: resolved_route_def en_route_resolve_tunnel_egress_def Let_def wf_route_def
      split: option.splits if_splits)

lemma step_route [plan_rules]: "wf_route r \<Longrightarrow> step_ok (append_route config path r)"
  unfolding append_route_def [abs_def]
  by (intro plan_rules exec_route) (auto intro: resolved_wf)

lemma step_if_rendered [plan_rules]: "(\<And>s. r = Inr s \<Longrightarrow> executable_command s) \<Longrightarrow> step_ok (append_if_rendered r)"
  unfolding append_if_rendered_def [abs_def] by (intro plan_rules)

lemma step_default_route [plan_rules]: "step_ok (append_default_route config path)"
  unfolding append_default_route_def [abs_def] Let_def
  by (intro plan_rules)
    (auto intro: exec_default_route exec_gre_route_delete exec_route_delete split: option.splits if_splits)

lemma step_route_removal [plan_rules]: "step_ok (append_route_removal config path r)"
  unfolding append_route_removal_def [abs_def] by (intro plan_rules exec_route)

lemma step_default_removal [plan_rules]: "step_ok (append_default_route_removal config path)"
  unfolding append_default_route_removal_def
  by (auto intro!: plan_rules intro: exec_delete_with_tunnel exec_route_delete split: option.splits)

lemma step_terminate [plan_rules]: "step_ok (append_terminate config g)"
  unfolding append_terminate_def [abs_def] by (intro plan_rules exec_swanctl)

lemma step_plan_commands:
  assumes "valid_command_token f" "\<forall>r\<in>set (pt_routes path). wf_route r"
  shows "step_ok (plan_commands config intent path f)"
  unfolding plan_commands_def using assms by (intro plan_rules exec_load) auto

lemma step_plan_rollback: "step_ok (plan_rollback config intent path)"
  unfolding plan_rollback_def by (intro plan_rules exec_gre)

lemma empty_plan_ok: "plan_ok empty_plan"
  by (simp add: plan_ok_def empty_plan_def)

lemma plan_executable:
  assumes "en_apply_plan_from_config_with_file config intent path f = Inr p"
    and "valid_command_token f" "\<forall>r\<in>set (pt_routes path). wf_route r"
  shows "plan_ok p"
proof -
  have "step_ok (and_then (plan_conf config path)
      (and_then (plan_commands config intent path f) (plan_rollback config intent path)))"
    by (intro step_and_then step_conf_text step_plan_commands step_plan_rollback assms)
  moreover have "and_then (plan_conf config path)
      (and_then (plan_commands config intent path f) (plan_rollback config intent path)) empty_plan = Inr p"
    using assms(1) by (simp add: en_apply_plan_from_config_with_file_def split: if_splits)
  ultimately show ?thesis using empty_plan_ok by (blast intro: step_okD)
qed

section \<open>Properties\<close>

text \<open>
  C33. Every command of a plan built from a configuration, every rollback command and every entry of
  the rollback list is one the runner executes: it splits into at most 31 admitted arguments and
  fits the command buffer. The counts and the configuration text are within their capacities. The
  file name given to the builder has to be an admitted argument, which it does not check.
\<close>

theorem built_plan_is_executable:
  assumes "en_apply_plan_from_config_with_file config intent path f = Inr p"
    and "valid_command_token f" "\<forall>r\<in>set (pt_routes path). wf_route r"
  shows "plan_ok p"
  using assms by (rule plan_executable)

text \<open>The runner is observed through the log of the programs it executed and whether each succeeded.\<close>

definition record_exec ::
  "(string list \<Rightarrow> ('w, int) state) \<Rightarrow> string list \<Rightarrow> ('w \<times> (string list \<times> bool) list, int) state" where
  "record_exec execute argv = State (\<lambda>(w, l). case run_state (execute argv) w of
     (status, w') \<Rightarrow> (status, (w', l @ [(argv, status = 0)])))"

definition words_of :: "string \<Rightarrow> string list" where
  "words_of c = strtok_all blank c"

lemma run_executable:
  assumes "executable_command c"
  shows "\<exists>rc w'. run_state (run_plan_command_without_shell (record_exec execute) c) (w, l) =
    (rc, (w', l @ [(words_of c, rc = 0)]))"
proof -
  obtain status w' where "run_state (execute (words_of c)) w = (status, w')" by (meson surj_pair)
  then show ?thesis
    using assms
    by (intro exI [of _ "if status = 0 then 0 else -1"] exI [of _ w'])
      (auto simp: executable_command_def plan_argv_def run_plan_command_without_shell_def record_exec_def
        words_of_def Let_def split: if_splits)
qed

lemma run_rollbacks_log:
  assumes "list_all executable_command cs"
  shows "\<exists>w' undo. run_state (run_rollbacks (record_exec execute) cs) (w, l) =
      ((\<exists>u\<in>set undo. \<not> snd u), (w', l @ undo)) \<and> map fst undo = map words_of cs"
  using assms
proof (induction cs arbitrary: w l)
  case Nil
  show ?case by simp
next
  case (Cons c cs)
  obtain rc w1 where 1: "run_state (run_plan_command_without_shell (record_exec execute) c) (w, l) =
      (rc, (w1, l @ [(words_of c, rc = 0)]))"
    using run_executable [of c execute w l] Cons.prems by auto
  obtain w2 undo where 2: "run_state (run_rollbacks (record_exec execute) cs) (w1, l @ [(words_of c, rc = 0)]) =
      ((\<exists>u\<in>set undo. \<not> snd u), (w2, (l @ [(words_of c, rc = 0)]) @ undo))" "map fst undo = map words_of cs"
    using Cons.IH [of w1 "l @ [(words_of c, rc = 0)]"] Cons.prems by auto
  then show ?case
    using 1 by (intro exI [of _ w2] exI [of _ "(words_of c, rc = 0) # undo"]) auto
qed

definition succeeded :: "(string \<times> string option) list \<Rightarrow> (string list \<times> bool) list" where
  "succeeded cs = map (\<lambda>c. (words_of (fst c), True)) cs"

text \<open>What a run of the entries \<open>cs\<close> after \<open>executed\<close> adds to the log.\<close>

definition run_log ::
  "en_apply_plan \<Rightarrow> (string \<times> string option) list \<Rightarrow> (string \<times> string option) list \<Rightarrow> en_error_code \<Rightarrow>
   (string list \<times> bool) list \<Rightarrow> bool" where
  "run_log p executed cs e calls \<longleftrightarrow>
     (if e = EN_ERR_NONE then calls = succeeded cs
      else \<exists>before failed after undo. cs = before @ failed # after \<and>
        calls = succeeded before @ (words_of (fst failed), False) # undo \<and>
        map fst undo = map words_of (rollback_sequence p (executed @ before)) \<and>
        e = (if \<exists>u\<in>set undo. \<not> snd u then EN_ERR_ROLLBACK_FAILED else EN_ERR_STATE_CONFLICT))"

lemma rollback_sequence_executable:
  "plan_ok p \<Longrightarrow> set executed \<subseteq> set (pl_commands p) \<Longrightarrow> list_all executable_command (rollback_sequence p executed)"
  by (fastforce simp: plan_ok_def rollback_sequence_def list_all_iff List.map_filter_def split: option.splits)

lemma run_log_failI:
  assumes "cs = before @ failed # after" "calls = succeeded before @ (words_of (fst failed), False) # undo"
    and "map fst undo = map words_of (rollback_sequence p (executed @ before))"
    and "e = (if \<exists>u\<in>set undo. \<not> snd u then EN_ERR_ROLLBACK_FAILED else EN_ERR_STATE_CONFLICT)"
  shows "run_log p executed cs e calls"
proof -
  have "e \<noteq> EN_ERR_NONE" using assms(4) by simp
  then show ?thesis unfolding run_log_def using assms by (simp only: if_False) blast
qed

lemma run_log_step:
  assumes "run_log p (executed @ [c]) cs e calls"
  shows "run_log p executed (c # cs) e ((words_of (fst c), True) # calls)"
proof (cases "e = EN_ERR_NONE")
  case True
  with assms show ?thesis by (simp add: run_log_def succeeded_def)
next
  case False
  then obtain before failed after undo where split: "cs = before @ failed # after"
    "calls = succeeded before @ (words_of (fst failed), False) # undo"
    "map fst undo = map words_of (rollback_sequence p ((executed @ [c]) @ before))"
    "e = (if \<exists>u\<in>set undo. \<not> snd u then EN_ERR_ROLLBACK_FAILED else EN_ERR_STATE_CONFLICT)"
    using assms by (auto simp: run_log_def)
  then show ?thesis
    by (intro run_log_failI [of _ "c # before" failed after _ undo]) (simp_all add: succeeded_def)
qed

lemma run_commands_log:
  assumes "plan_ok p" "set executed \<subseteq> set (pl_commands p)" "set cs \<subseteq> set (pl_commands p)"
    and "run_state (run_commands (record_exec execute) p False executed cs) (w, l) = (e, (w', l'))"
  shows "\<exists>calls. l' = l @ calls \<and> run_log p executed cs e calls"
  using assms(2-)
proof (induction cs arbitrary: executed w l)
  case Nil
  then show ?case by (simp add: run_log_def succeeded_def)
next
  case (Cons c cs)
  have "executable_command (fst c)"
    using assms(1) Cons.prems(2) by (auto simp: plan_ok_def list_all_iff)
  then obtain rc w1 where 1: "run_state (run_plan_command_without_shell (record_exec execute) (fst c)) (w, l) =
      (rc, (w1, l @ [(words_of (fst c), rc = 0)]))"
    using run_executable [of "fst c" execute w l] by auto
  show ?case
  proof (cases "rc = 0")
    case True
    then have "run_state (run_commands (record_exec execute) p False (executed @ [c]) cs)
        (w1, l @ [(words_of (fst c), True)]) = (e, (w', l'))"
      using Cons.prems(3) 1 by simp
    moreover have "set (executed @ [c]) \<subseteq> set (pl_commands p)" "set cs \<subseteq> set (pl_commands p)"
      using Cons.prems(1,2) by simp_all
    ultimately obtain calls where "l' = (l @ [(words_of (fst c), True)]) @ calls" "run_log p (executed @ [c]) cs e calls"
      using Cons.IH [of "executed @ [c]" w1 "l @ [(words_of (fst c), True)]"] by blast
    then show ?thesis
      by (intro exI [of _ "(words_of (fst c), True) # calls"]) (simp add: run_log_step)
  next
    case False
    obtain w2 undo where "run_state (run_rollbacks (record_exec execute) (rollback_sequence p executed))
          (w1, l @ [(words_of (fst c), False)]) =
        ((\<exists>u\<in>set undo. \<not> snd u), (w2, (l @ [(words_of (fst c), False)]) @ undo))"
      "map fst undo = map words_of (rollback_sequence p executed)"
      using run_rollbacks_log [OF rollback_sequence_executable [OF assms(1) Cons.prems(1)], of execute w1
          "l @ [(words_of (fst c), False)]"] by auto
    moreover from this(1) False 1 Cons.prems(3)
    have "l' = l @ (words_of (fst c), False) # undo"
      "e = (if \<exists>u\<in>set undo. \<not> snd u then EN_ERR_ROLLBACK_FAILED else EN_ERR_STATE_CONFLICT)"
      by auto
    ultimately show ?thesis
      by (intro exI [of _ "(words_of (fst c), False) # undo"] conjI run_log_failI [of _ "[]" c cs _ undo])
        (simp_all add: succeeded_def)
  qed
qed

text \<open>
  C34. The runner executes the commands in order and stops at the first that fails; then it runs the
  rollbacks of the commands before it, the last first (or, for a plan without per-command
  rollbacks, the rollback list reversed), all of them, and tells whether one of these failed. It
  succeeds iff every command did, and then it has executed the whole list and nothing else.
\<close>

theorem plan_run_rolls_back:
  assumes "plan_ok p" "run_state (en_apply_plan_run (record_exec execute) p False) (w, []) = (e, (w', calls))"
  shows "if e = EN_ERR_NONE then calls = succeeded (pl_commands p)
    else \<exists>before failed after undo. pl_commands p = before @ failed # after \<and>
      calls = succeeded before @ (words_of (fst failed), False) # undo \<and>
      map fst undo = map words_of (if pl_has_command_rollbacks p then List.map_filter snd (rev before) else rev (pl_rollback_commands p)) \<and>
      e = (if \<exists>u\<in>set undo. \<not> snd u then EN_ERR_ROLLBACK_FAILED else EN_ERR_STATE_CONFLICT)"
proof -
  have "run_state (run_commands (record_exec execute) p False [] (pl_commands p)) (w, []) = (e, (w', calls))"
    using assms by (simp add: en_apply_plan_run_def plan_ok_def)
  from run_commands_log [OF assms(1) _ _ this] have "run_log p [] (pl_commands p) e calls" by simp
  then show ?thesis unfolding run_log_def append_Nil append_Nil2 rollback_sequence_def .
qed

text \<open>The witnesses: a path over one GRE tunnel, and a runner that refuses the route command.\<close>

definition gre_config :: en_yaml_config where
  "gre_config = \<lparr>yc_nodes = [], yc_tunnels = [sample_gre], yc_paths = [demo_direct], yc_intents = [], yc_vpp_edges = []\<rparr>"

definition sample_plan :: "en_error_code + en_apply_plan" where
  "sample_plan = en_apply_plan_from_config gre_config zero_intent demo_direct"

lemma sample_plan_built: "case sample_plan of Inl e \<Rightarrow> False | Inr p \<Rightarrow> length (pl_commands p) = 6"
  by code_simp

theorem built_plan_is_executable_witness: "\<exists>p. sample_plan = Inr p \<and> plan_ok p"
proof -
  obtain p where p: "sample_plan = Inr p" using sample_plan_built by (auto split: sum.splits)
  then have "en_apply_plan_from_config_with_file gre_config zero_intent demo_direct ''eventnet-swanctl.conf'' = Inr p"
    by (simp add: sample_plan_def en_apply_plan_from_config_def)
  moreover have "valid_command_token ''eventnet-swanctl.conf''"
    by (simp add: valid_command_token_def token_char_def isalnum_def isdigit_def code_def)
  moreover have "pt_routes demo_direct = []" by (simp add: demo_defs zero_defs)
  ultimately show ?thesis using p built_plan_is_executable by auto
qed

definition refuse_routes :: "string list \<Rightarrow> (unit, int) state" where
  "refuse_routes argv = State_Monad.return (if ''add'' \<in> set argv then 1 else 0)"

definition tiny_plan :: en_apply_plan where
  "tiny_plan = \<lparr>pl_commands = [(''swanctl --initiate --child t'', Some ''swanctl --terminate --child t''),
     (''vppctl ip route add 10.0.2.0/24 via 192.0.2.1'', None)], pl_rollback_commands = [],
     pl_has_command_rollbacks = True, pl_swanctl_conf = []\<rparr>"

theorem plan_run_rolls_back_witness:
  "\<exists>before failed after (undo :: (string list \<times> bool) list). pl_commands tiny_plan = before @ failed # after \<and>
     map fst undo = map words_of (List.map_filter snd (rev before))"
proof -
  have ok: "plan_ok tiny_plan" by code_simp
  obtain e w' calls where
    run: "run_state (en_apply_plan_run (record_exec refuse_routes) tiny_plan False) ((), []) = (e, (w', calls))"
    by (metis surj_pair)
  have "fst (run_state (en_apply_plan_run (record_exec refuse_routes) tiny_plan False) ((), [])) = EN_ERR_STATE_CONFLICT"
    by code_simp
  with run have "e \<noteq> EN_ERR_NONE" by simp
  moreover have "pl_has_command_rollbacks tiny_plan" by (simp add: tiny_plan_def)
  ultimately show ?thesis using plan_run_rolls_back [OF ok run] by (simp only: if_False if_True) blast
qed

end
