(* ===== verification/YamlValidate.thy ===== *)
theory YamlValidate
  imports YamlConfig
begin

text \<open>
  The validation of a configuration, \<open>en_yaml_config_validate\<close> of \<open>src/src/yaml_config.c\<close>: an ordered
  sequence of checks of which the first that fails gives the error code and the message. Each loop
  of the code is one definition. \<open>well_formed_config\<close> states declaratively what an accepted
  configuration satisfies, and the checker accepts exactly that.
\<close>

section \<open>Verdicts\<close>

text \<open>\<open>None\<close> accepts; otherwise the error code and the message. \<open>checks\<close> is a sequence of checks.\<close>

type_synonym verdict = "(en_error_code \<times> string) option"

definition refuse :: "bool \<Rightarrow> en_error_code \<Rightarrow> string \<Rightarrow> verdict" where
  "refuse bad e message = (if bad then Some (e, message) else None)"

abbreviation invalid_if :: "bool \<Rightarrow> string \<Rightarrow> verdict" where
  "invalid_if bad message \<equiv> refuse bad EN_ERR_INVALID_ARGUMENT message"

abbreviation unknown_if :: "bool \<Rightarrow> string \<Rightarrow> verdict" where
  "unknown_if bad message \<equiv> refuse bad EN_ERR_NOT_FOUND message"

primrec checks :: "verdict list \<Rightarrow> verdict" where
  "checks [] = None"
| "checks (v # vs) = (case v of Some e \<Rightarrow> Some e | None \<Rightarrow> checks vs)"

definition check_all :: "('a \<Rightarrow> verdict) \<Rightarrow> 'a list \<Rightarrow> verdict" where
  "check_all f xs = checks (map f xs)"

text \<open>A loop whose body also compares the element with the later ones.\<close>

primrec check_rest :: "('a \<Rightarrow> 'a list \<Rightarrow> verdict) \<Rightarrow> 'a list \<Rightarrow> verdict" where
  "check_rest f [] = None"
| "check_rest f (x # xs) = (case f x xs of Some e \<Rightarrow> Some e | None \<Rightarrow> check_rest f xs)"

lemma refuse_None [simp]: "refuse bad e m = None \<longleftrightarrow> \<not> bad"
  by (simp add: refuse_def)

lemma checks_None [simp]: "checks [] = None" "checks (v # vs) = None \<longleftrightarrow> v = None \<and> checks vs = None"
  by (auto split: option.splits)

declare checks.simps(2) [simp del]

lemma checks_all: "checks vs = None \<longleftrightarrow> (\<forall>v\<in>set vs. v = None)"
  by (induction vs) auto

lemma check_all_None [simp]: "check_all f xs = None \<longleftrightarrow> (\<forall>x\<in>set xs. f x = None)"
  by (auto simp: check_all_def checks_all)

lemma check_rest_Cons_None: "check_rest f (x # xs) = None \<longleftrightarrow> f x xs = None \<and> check_rest f xs = None"
  by (simp split: option.splits)

declare check_rest.simps(2) [simp del]

text \<open>The usual shape: the body's own checks, and no later element that collides.\<close>

lemma check_rest_pairs:
  assumes "\<And>x zs. f x zs = None \<longleftrightarrow> P x \<and> (\<forall>z\<in>set zs. Q x z)"
  shows "check_rest f xs = None \<longleftrightarrow> (\<forall>x\<in>set xs. P x) \<and> sorted_wrt Q xs"
  by (induction xs) (auto simp: check_rest_Cons_None assms)

lemma sorted_wrt_distinct: "sorted_wrt (\<lambda>x z. k x \<noteq> k z) xs \<longleftrightarrow> distinct (map k xs)"
  by (induction xs) (auto simp: image_iff)

lemma sorted_wrt_neq: "sorted_wrt (\<lambda>x z. x \<noteq> z) xs \<longleftrightarrow> distinct xs"
  using sorted_wrt_distinct [of "\<lambda>x. x" xs] by simp

lemma check_codes: "checks vs = Some e \<Longrightarrow> Some e \<in> set vs"
  by (induction vs) (auto simp: checks.simps split: option.splits)

section \<open>Tokens and lookups\<close>

definition valid_config_token :: "string \<Rightarrow> bool" where
  "valid_config_token s \<longleftrightarrow> s \<noteq> [] \<and> length s < EN_MAX_ID_LEN \<and> list_all token_char s"

definition yaml_valid_secret :: "string \<Rightarrow> bool" where
  "yaml_valid_secret s \<longleftrightarrow> s = [] \<or> (length s < EN_MAX_ID_LEN \<and>
     list_all (\<lambda>c. \<not> (code c < 33 \<or> 126 < code c \<or> c = DQ \<or> c = BSLASH)) s)"

text \<open>An optional field: empty or a token.\<close>

definition bad_optional :: "string \<Rightarrow> bool" where
  "bad_optional s \<longleftrightarrow> s \<noteq> [] \<and> \<not> valid_config_token s"

definition config_counts_valid :: "en_yaml_config \<Rightarrow> bool" where
  "config_counts_valid c \<longleftrightarrow>
     length (yc_nodes c) \<le> EN_MAX_NODES \<and> length (yc_paths c) \<le> EN_MAX_PATHS \<and>
     length (yc_tunnels c) \<le> EN_MAX_TUNNELS \<and> length (yc_intents c) \<le> EN_MAX_CANDIDATES \<and>
     length (yc_vpp_edges c) \<le> EN_MAX_VPP_EDGES"

definition yaml_has_path :: "en_yaml_config \<Rightarrow> string \<Rightarrow> bool" where
  "yaml_has_path c x \<longleftrightarrow> list_ex (\<lambda>p. strcmp (pt_path_id p) x = 0) (yc_paths c)"

definition yaml_find_tunnel :: "en_yaml_config \<Rightarrow> string \<Rightarrow> en_tunnel option" where
  "yaml_find_tunnel c x = find (\<lambda>t. strcmp (tn_tunnel_id t) x = 0) (yc_tunnels c)"

definition yaml_has_tunnel :: "en_yaml_config \<Rightarrow> string \<Rightarrow> bool" where
  "yaml_has_tunnel c x \<longleftrightarrow> yaml_find_tunnel c x \<noteq> None"

definition yaml_has_node :: "en_yaml_config \<Rightarrow> string \<Rightarrow> bool" where
  "yaml_has_node c x \<longleftrightarrow> x \<noteq> [] \<and> list_ex (\<lambda>n. strcmp (nd_node_id n) x = 0) (yc_nodes c)"

definition yaml_has_vpp_edge :: "en_yaml_config \<Rightarrow> string \<Rightarrow> bool" where
  "yaml_has_vpp_edge c x \<longleftrightarrow> x \<noteq> [] \<and> list_ex (\<lambda>e. strcmp (ve_node_id e) x = 0) (yc_vpp_edges c)"

definition yaml_has_vpp_edge_interface :: "en_yaml_config \<Rightarrow> en_route \<Rightarrow> bool" where
  "yaml_has_vpp_edge_interface c r \<longleftrightarrow> rt_node_id r \<noteq> [] \<and> rt_interface_name r \<noteq> [] \<and>
     list_ex (\<lambda>e. strcmp (ve_node_id e) (rt_node_id r) = 0 \<and>
        (strcmp (ve_vpp_interface e) (rt_interface_name r) = 0 \<or>
         (ve_host_interface e \<noteq> [] \<and> strcmp (ve_host_interface e) (rt_interface_name r) = 0))) (yc_vpp_edges c)"

text \<open>Nodes are optional: references to them are checked only when the file declares some.\<close>

definition unknown_node :: "en_yaml_config \<Rightarrow> string \<Rightarrow> bool" where
  "unknown_node c x \<longleftrightarrow> 0 < length (yc_nodes c) \<and> \<not> yaml_has_node c x"

lemma yaml_has_iff:
  "yaml_has_path c x \<longleftrightarrow> x \<in> pt_path_id ` set (yc_paths c)"
  "yaml_has_tunnel c x \<longleftrightarrow> x \<in> tn_tunnel_id ` set (yc_tunnels c)"
  "yaml_has_node c x \<longleftrightarrow> x \<noteq> [] \<and> x \<in> nd_node_id ` set (yc_nodes c)"
  "yaml_has_vpp_edge c x \<longleftrightarrow> x \<noteq> [] \<and> x \<in> ve_node_id ` set (yc_vpp_edges c)"
  by (auto simp: yaml_has_path_def yaml_has_tunnel_def yaml_find_tunnel_def yaml_has_node_def
      yaml_has_vpp_edge_def list_ex_iff find_None_all)

section \<open>The checks\<close>

definition validate_counts :: "en_yaml_config \<Rightarrow> verdict" where
  "validate_counts c = checks
     [invalid_if (\<not> config_counts_valid c) ''config count exceeds capacity'',
      check_all (\<lambda>n. invalid_if (EN_MAX_ENDPOINTS < length (nd_endpoints n) \<or>
          EN_MAX_CAPABILITIES < length (nd_capabilities n)) ''node count exceeds capacity'') (yc_nodes c),
      check_all (\<lambda>p. invalid_if (\<not> en_path_counts_valid p) ''path count exceeds capacity'') (yc_paths c),
      check_all (\<lambda>i. invalid_if (\<not> en_intent_counts_valid i) ''intent count exceeds capacity'') (yc_intents c),
      check_all (\<lambda>e. invalid_if (EN_MAX_ALLOWED_VLANS < length (ve_allowed_vlans e))
          ''VLAN count exceeds capacity'') (yc_vpp_edges c),
      invalid_if (length (yc_paths c) = 0) ''at least one path is required'']"

definition validate_node :: "en_node \<Rightarrow> en_node list \<Rightarrow> verdict" where
  "validate_node n later = checks
     [invalid_if (nd_node_id n = [] \<or> \<not> valid_config_token (nd_node_id n)) ''node requires a valid id'',
      invalid_if (bad_optional (nd_role n)) ''node role contains invalid characters'',
      check_all (\<lambda>e. invalid_if (\<not> valid_config_token e) ''node endpoint contains invalid characters'')
        (nd_endpoints n),
      check_rest (\<lambda>k ks. checks
         [invalid_if (\<not> valid_config_token k) ''node capability contains invalid characters'',
          invalid_if (list_ex (\<lambda>k'. strcmp k k' = 0) ks) ''duplicate node capability'']) (nd_capabilities n),
      invalid_if (list_ex (\<lambda>m. strcmp (nd_node_id n) (nd_node_id m) = 0) later) ''duplicate node id'']"

definition validate_gre :: "en_tunnel \<Rightarrow> verdict" where
  "validate_gre t = checks
     [invalid_if (tn_gre_interface t = [] \<or> tn_gre_local_address t = [] \<or> tn_gre_remote_address t = [])
        ''gre_over_ipsec tunnel requires gre_interface, gre_local_address, and gre_remote_address'',
      invalid_if (\<not> valid_config_token (tn_gre_interface t) \<or> \<not> valid_config_token (tn_gre_local_address t) \<or>
          \<not> valid_config_token (tn_gre_remote_address t) \<or>
          tn_gre_instance t < - 1 \<or> 1048575 < tn_gre_instance t \<or> tn_gre_mtu t < 0 \<or> 65535 < tn_gre_mtu t)
        ''gre_over_ipsec tunnel has invalid GRE settings'',
      invalid_if (bad_optional (tn_gre_outer_local_endpoint t) \<or> bad_optional (tn_gre_outer_remote_endpoint t))
        ''gre_over_ipsec tunnel has invalid outer endpoint'']"

definition validate_tunnel :: "en_yaml_config \<Rightarrow> en_tunnel \<Rightarrow> en_tunnel list \<Rightarrow> verdict" where
  "validate_tunnel c t later = checks
     [invalid_if (tn_tunnel_id t = [] \<or> tn_local_node t = [] \<or> tn_remote_node t = [])
        ''tunnel requires id, local_node, and remote_node'',
      invalid_if (\<not> valid_config_token (tn_tunnel_id t) \<or> \<not> valid_config_token (tn_local_node t) \<or>
          \<not> valid_config_token (tn_remote_node t)) ''tunnel identifier contains invalid characters'',
      invalid_if (tn_tunnel_type t \<noteq> [] \<and> strcmp (tn_tunnel_type t) ''ipsec'' \<noteq> 0 \<and>
          strcmp (tn_tunnel_type t) ''gre_over_ipsec'' \<noteq> 0) ''tunnel type must be ipsec or gre_over_ipsec'',
      if strcmp (tn_tunnel_type t) ''gre_over_ipsec'' = 0 then validate_gre t else None,
      unknown_if (unknown_node c (tn_local_node t) \<or> unknown_node c (tn_remote_node t))
        ''tunnel references unknown node'',
      invalid_if (tn_auth_method t \<noteq> [] \<and> strcmp (tn_auth_method t) ''psk'' \<noteq> 0 \<and>
          strcmp (tn_auth_method t) ''pubkey'' \<noteq> 0) ''tunnel auth_method must be psk or pubkey'',
      invalid_if (strcmp (tn_auth_method t) ''pubkey'' = 0 \<and> tn_local_cert t = [])
        ''pubkey tunnel requires local_cert'',
      invalid_if (bad_optional (tn_local_cert t)) ''tunnel local_cert contains invalid characters'',
      invalid_if (bad_optional (tn_remote_cacerts t)) ''tunnel remote_cacerts contains invalid characters'',
      invalid_if (\<not> yaml_valid_secret (tn_psk t)) ''tunnel psk contains invalid characters'',
      invalid_if (list_ex (\<lambda>u. strcmp (tn_tunnel_id t) (tn_tunnel_id u) = 0) later) ''duplicate tunnel id'']"

definition validate_segment :: "en_yaml_config \<Rightarrow> en_segment \<Rightarrow> verdict" where
  "validate_segment c g = checks
     [invalid_if (bad_optional (sg_segment_id g) \<or> bad_optional (sg_from_node g) \<or>
          bad_optional (sg_to_node g) \<or> \<not> valid_config_token (sg_tunnel_id g))
        ''path segment identifier contains invalid characters'',
      unknown_if (\<not> yaml_has_tunnel c (sg_tunnel_id g)) ''path segment references unknown tunnel_id'',
      unknown_if ((sg_from_node g \<noteq> [] \<and> unknown_node c (sg_from_node g)) \<or>
          (sg_to_node g \<noteq> [] \<and> unknown_node c (sg_to_node g))) ''path segment references unknown node'']"

definition validate_route :: "en_yaml_config \<Rightarrow> bool \<Rightarrow> en_route \<Rightarrow> en_route list \<Rightarrow> verdict" where
  "validate_route c explicit r later = checks
     [invalid_if (explicit \<and> rt_node_id r = []) ''explicit path route requires node_id'',
      invalid_if (rt_destination_prefix r = []) ''path route requires destination_prefix'',
      invalid_if (bad_optional (rt_route_id r) \<or> \<not> valid_config_token (rt_node_id r) \<or>
          \<not> valid_config_token (rt_destination_prefix r) \<or> \<not> valid_config_token (rt_next_hop r) \<or>
          bad_optional (rt_interface_name r)) ''path route contains invalid characters'',
      invalid_if (rt_next_hop r = []) ''path route requires next_hop'',
      unknown_if (unknown_node c (rt_node_id r)) ''path route references unknown node'',
      invalid_if (rt_table_id r = INT_MIN \<or> rt_metric r = INT_MIN \<or> rt_table_id r < - 1 \<or> rt_metric r < - 1)
        ''path route table and metric must be non-negative'',
      invalid_if (rt_route_id r \<noteq> [] \<and> list_ex (\<lambda>q. strcmp (rt_route_id r) (rt_route_id q) = 0) later)
        ''duplicate route id within path'',
      unknown_if (0 < length (yc_vpp_edges c) \<and> \<not> yaml_has_vpp_edge c (rt_node_id r))
        ''path route node_id has no vpp_edge'',
      unknown_if (0 < length (yc_vpp_edges c) \<and> rt_interface_name r \<noteq> [] \<and> \<not> yaml_has_vpp_edge_interface c r)
        ''path route interface has no matching vpp_edge'']"

definition validate_config_path :: "en_yaml_config \<Rightarrow> en_path \<Rightarrow> en_path list \<Rightarrow> verdict" where
  "validate_config_path c p later = checks
     [invalid_if (pt_path_id p = [] \<or> pt_source p = [] \<or> pt_destination p = [])
        ''path requires id, source, and destination'',
      invalid_if (\<not> valid_config_token (pt_path_id p) \<or> \<not> valid_config_token (pt_source p) \<or>
          \<not> valid_config_token (pt_destination p) \<or> pt_priority p = INT_MIN)
        ''path identifier or priority is invalid'',
      unknown_if (unknown_node c (pt_source p) \<or> unknown_node c (pt_destination p)) ''path references unknown node'',
      invalid_if (list_ex (\<lambda>q. strcmp (pt_path_id p) (pt_path_id q) = 0) later) ''duplicate path id'',
      invalid_if (length (pt_segments p) = 0 \<and>
          ((\<not> pt_routes_explicit p \<and> (pt_route_destination_prefix p = [] \<or> pt_route_next_hop p = [])) \<or>
           (pt_routes_explicit p \<and> length (pt_routes p) = 0)))
        ''path without segments requires a legacy route or explicit routes'',
      check_all (validate_segment c) (pt_segments p),
      check_rest (validate_route c (pt_routes_explicit p)) (pt_routes p),
      check_rest (\<lambda>w ws. checks
         [unknown_if (unknown_node c w) ''path waypoint references unknown node'',
          invalid_if (list_ex (\<lambda>w'. strcmp w w' = 0) ws) ''duplicate waypoint within path'']) (pt_waypoints p),
      unknown_if (pt_egress_tunnel_id p \<noteq> [] \<and> \<not> yaml_has_tunnel c (pt_egress_tunnel_id p))
        ''path egress_tunnel_id references unknown tunnel'']"

text \<open>A bound that is set must be finite, not negative and at most \<open>upper\<close> where there is one.\<close>

definition bad_bound :: "bool \<Rightarrow> cdouble \<Rightarrow> cdouble option \<Rightarrow> bool" where
  "bad_bound has x upper \<longleftrightarrow>
     has \<and> (\<not> isfinite x \<or> x < Fin 0 \<or> (case upper of Some u \<Rightarrow> u < x | None \<Rightarrow> False))"

definition validate_constraints :: "en_yaml_config \<Rightarrow> en_path_constraints \<Rightarrow> verdict" where
  "validate_constraints c k = checks
     [check_all (\<lambda>w. checks
         [unknown_if (unknown_node c w) ''required waypoint references unknown node'',
          invalid_if (list_ex (\<lambda>v. strcmp w v = 0) (pc_forbidden_waypoints k))
            ''waypoint cannot be both required and forbidden'']) (pc_required_waypoints k),
      check_all (\<lambda>w. unknown_if (unknown_node c w) ''forbidden waypoint references unknown node'')
        (pc_forbidden_waypoints k),
      check_rest (\<lambda>x xs. checks
         [invalid_if (\<not> valid_config_token x) ''required capability contains invalid characters'',
          invalid_if (list_ex (\<lambda>y. strcmp x y = 0) xs) ''duplicate required capability''])
        (pc_required_capabilities k)]"

definition bad_timing :: "en_transition_policy \<Rightarrow> bool" where
  "bad_timing t \<longleftrightarrow>
     tp_max_pause_ms t = INT_MIN \<or> tp_drain_timeout_ms t = INT_MIN \<or> tp_timeout_ms t = INT_MIN \<or>
     tp_retry_count t = INT_MIN \<or> tp_retry_backoff_ms t = INT_MIN \<or> tp_max_pause_ms t < 0 \<or>
     tp_drain_timeout_ms t < 0 \<or> tp_timeout_ms t < 0 \<or> tp_retry_count t < 0 \<or> tp_retry_backoff_ms t < 0"

definition validate_intent :: "en_yaml_config \<Rightarrow> en_intent \<Rightarrow> en_intent list \<Rightarrow> verdict" where
  "validate_intent c i later =
     (let tr = it_traffic i; sel = it_path_selection i; k = ps_constraints sel in checks
     [invalid_if (it_intent_id i = []) ''intent requires id'',
      invalid_if (\<not> valid_config_token (it_intent_id i)) ''intent identifier contains invalid characters'',
      invalid_if (ts_has_vlan_id tr \<and> (ts_vlan_id tr = INT_MIN \<or> ts_vlan_id tr < 1 \<or> 4094 < ts_vlan_id tr))
        ''vlan_id must be between 1 and 4094'',
      invalid_if (it_deny_unmatched_vlan i \<and> \<not> ts_has_vlan_id tr) ''deny_unmatched_vlan requires vlan_id'',
      unknown_if (unknown_node c (ts_source tr)) ''intent source references unknown node'',
      unknown_if (unknown_node c (ts_destination tr)) ''intent destination references unknown node'',
      invalid_if (bad_timing (it_transition i)) ''transition timing must be non-negative'',
      invalid_if (bad_bound (pc_has_max_rtt_ms k) (pc_max_rtt_ms k) None \<or>
          bad_bound (pc_has_max_packet_loss_percent k) (pc_max_packet_loss_percent k) (Some (Fin 100)) \<or>
          bad_bound (pc_has_hysteresis_percent k) (pc_hysteresis_percent k) (Some (Fin 100)))
        ''path constraints must be finite and non-negative'',
      invalid_if (pc_failure_threshold k < 0 \<or> pc_recovery_threshold k < 0 \<or> pc_hold_down_ms k < 0)
        ''path thresholds must be non-negative'',
      invalid_if (list_ex (\<lambda>j. strcmp (it_intent_id i) (it_intent_id j) = 0) later) ''duplicate intent id'',
      unknown_if (ps_mode sel = EN_SELECT_EXPLICIT \<and> \<not> yaml_has_path c (ps_path_id sel))
        ''explicit intent references unknown path_id'',
      check_rest (\<lambda>x xs. checks
         [unknown_if (\<not> yaml_has_path c x) ''intent candidate references unknown path'',
          invalid_if (list_ex (\<lambda>y. strcmp x y = 0) xs) ''duplicate intent candidate path'']) (ps_candidates sel),
      validate_constraints c k])"

text \<open>Two edges of a node must differ in port, in VPP interface and in host interface.\<close>

definition edges_collide :: "en_vpp_edge \<Rightarrow> en_vpp_edge \<Rightarrow> bool" where
  "edges_collide e f \<longleftrightarrow>
     (let same_node = (strcmp (ve_node_id e) (ve_node_id f) = 0);
          same_port = (ve_port_id e = [] \<or> ve_port_id f = [] \<or> strcmp (ve_port_id e) (ve_port_id f) = 0);
          same_vpp_interface = (strcmp (ve_vpp_interface e) (ve_vpp_interface f) = 0);
          same_host_interface = (ve_host_interface e \<noteq> [] \<and> ve_host_interface f \<noteq> [] \<and>
            strcmp (ve_host_interface e) (ve_host_interface f) = 0)
      in same_node \<and> (same_port \<or> same_vpp_interface \<or> same_host_interface))"

definition validate_edge :: "en_vpp_edge \<Rightarrow> en_vpp_edge list \<Rightarrow> verdict" where
  "validate_edge e later = checks
     [invalid_if (ve_node_id e = [] \<or> ve_vpp_interface e = [] \<or> ve_next_hop e = [] \<or>
          \<not> valid_config_token (ve_node_id e) \<or> bad_optional (ve_port_id e))
        ''vpp edge requires node_id, vpp_interface, and next_hop'',
      invalid_if (bad_optional (ve_vpp_socket e)) ''vpp edge has invalid vpp_socket'',
      invalid_if (list_ex (edges_collide e) later) ''duplicate vpp edge node_id, port_id, or interface'',
      check_rest (\<lambda>v vs. checks
         [invalid_if (v < 1 \<or> 4094 < v) ''allowed VLAN must be between 1 and 4094'',
          invalid_if (list_ex (\<lambda>w. v = w) vs) ''duplicate allowed VLAN'']) (ve_allowed_vlans e)]"

definition en_yaml_config_validate :: "en_yaml_config option \<Rightarrow> verdict" where
  "en_yaml_config_validate config =
     (case config of
        None \<Rightarrow> Some (EN_ERR_INVALID_ARGUMENT, ''config is null'')
      | Some c \<Rightarrow> checks
          [validate_counts c, check_rest validate_node (yc_nodes c), check_rest (validate_tunnel c) (yc_tunnels c),
           check_rest (validate_config_path c) (yc_paths c), check_rest (validate_intent c) (yc_intents c),
           check_rest validate_edge (yc_vpp_edges c)])"

section \<open>What an accepted configuration satisfies\<close>

text \<open>The names a configuration declares; without nodes every name of a node is as good as declared.\<close>

definition node_name :: "en_yaml_config \<Rightarrow> string \<Rightarrow> bool" where
  "node_name c x \<longleftrightarrow> yc_nodes c = [] \<or> (x \<noteq> [] \<and> x \<in> nd_node_id ` set (yc_nodes c))"

abbreviation tunnel_name :: "en_yaml_config \<Rightarrow> string \<Rightarrow> bool" where
  "tunnel_name c x \<equiv> x \<in> tn_tunnel_id ` set (yc_tunnels c)"

abbreviation path_name :: "en_yaml_config \<Rightarrow> string \<Rightarrow> bool" where
  "path_name c x \<equiv> x \<in> pt_path_id ` set (yc_paths c)"

abbreviation optional_token :: "string \<Rightarrow> bool" where
  "optional_token s \<equiv> s = [] \<or> valid_config_token s"

definition node_ok :: "en_node \<Rightarrow> bool" where
  "node_ok n \<longleftrightarrow> valid_config_token (nd_node_id n) \<and> optional_token (nd_role n) \<and>
     (\<forall>x\<in>set (nd_endpoints n) \<union> set (nd_capabilities n). valid_config_token x) \<and> distinct (nd_capabilities n) \<and>
     length (nd_endpoints n) \<le> EN_MAX_ENDPOINTS \<and> length (nd_capabilities n) \<le> EN_MAX_CAPABILITIES"

definition gre_ok :: "en_tunnel \<Rightarrow> bool" where
  "gre_ok t \<longleftrightarrow> valid_config_token (tn_gre_interface t) \<and> valid_config_token (tn_gre_local_address t) \<and>
     valid_config_token (tn_gre_remote_address t) \<and> tn_gre_instance t \<in> {- 1..1048575} \<and> tn_gre_mtu t \<in> {0..65535} \<and>
     optional_token (tn_gre_outer_local_endpoint t) \<and> optional_token (tn_gre_outer_remote_endpoint t)"

definition tunnel_ok :: "en_yaml_config \<Rightarrow> en_tunnel \<Rightarrow> bool" where
  "tunnel_ok c t \<longleftrightarrow> valid_config_token (tn_tunnel_id t) \<and> valid_config_token (tn_local_node t) \<and>
     valid_config_token (tn_remote_node t) \<and> node_name c (tn_local_node t) \<and> node_name c (tn_remote_node t) \<and>
     tn_tunnel_type t \<in> {[], ''ipsec'', ''gre_over_ipsec''} \<and> (tn_tunnel_type t = ''gre_over_ipsec'' \<longrightarrow> gre_ok t) \<and>
     tn_auth_method t \<in> {[], ''psk'', ''pubkey''} \<and> (tn_auth_method t = ''pubkey'' \<longrightarrow> tn_local_cert t \<noteq> []) \<and>
     optional_token (tn_local_cert t) \<and> optional_token (tn_remote_cacerts t) \<and> yaml_valid_secret (tn_psk t)"

definition segment_ok :: "en_yaml_config \<Rightarrow> en_segment \<Rightarrow> bool" where
  "segment_ok c g \<longleftrightarrow> valid_config_token (sg_tunnel_id g) \<and> tunnel_name c (sg_tunnel_id g) \<and>
     optional_token (sg_segment_id g) \<and>
     (\<forall>x\<in>{sg_from_node g, sg_to_node g}. x = [] \<or> valid_config_token x \<and> node_name c x)"

text \<open>Where edges are declared, the node of a route has one, with the interface that the route names.\<close>

definition edges_serve :: "en_yaml_config \<Rightarrow> en_route \<Rightarrow> bool" where
  "edges_serve c r \<longleftrightarrow> yc_vpp_edges c \<noteq> [] \<longrightarrow>
     (\<exists>e\<in>set (yc_vpp_edges c). ve_node_id e = rt_node_id r \<and>
        (rt_interface_name r \<noteq> [] \<longrightarrow> rt_interface_name r \<in> {ve_vpp_interface e, ve_host_interface e}))"

definition route_ok :: "en_yaml_config \<Rightarrow> en_route \<Rightarrow> bool" where
  "route_ok c r \<longleftrightarrow> optional_token (rt_route_id r) \<and> valid_config_token (rt_node_id r) \<and>
     valid_config_token (rt_destination_prefix r) \<and> valid_config_token (rt_next_hop r) \<and>
     optional_token (rt_interface_name r) \<and> node_name c (rt_node_id r) \<and> - 1 \<le> rt_table_id r \<and> - 1 \<le> rt_metric r \<and>
     edges_serve c r"

definition path_ok :: "en_yaml_config \<Rightarrow> en_path \<Rightarrow> bool" where
  "path_ok c p \<longleftrightarrow> en_path_counts_valid p \<and> pt_priority p \<noteq> INT_MIN \<and>
     valid_config_token (pt_path_id p) \<and> valid_config_token (pt_source p) \<and> valid_config_token (pt_destination p) \<and>
     node_name c (pt_source p) \<and> node_name c (pt_destination p) \<and>
     (pt_segments p = [] \<longrightarrow> (if pt_routes_explicit p then pt_routes p \<noteq> []
        else pt_route_destination_prefix p \<noteq> [] \<and> pt_route_next_hop p \<noteq> [])) \<and>
     (\<forall>g\<in>set (pt_segments p). segment_ok c g) \<and> (\<forall>r\<in>set (pt_routes p). route_ok c r) \<and>
     distinct (filter (\<lambda>x. x \<noteq> []) (map rt_route_id (pt_routes p))) \<and>
     (\<forall>w\<in>set (pt_waypoints p). node_name c w) \<and> distinct (pt_waypoints p) \<and>
     (pt_egress_tunnel_id p = [] \<or> tunnel_name c (pt_egress_tunnel_id p))"

definition intent_ok :: "en_yaml_config \<Rightarrow> en_intent \<Rightarrow> bool" where
  "intent_ok c i \<longleftrightarrow> (let tr = it_traffic i; sel = it_path_selection i; k = ps_constraints sel in
     en_intent_counts_valid i \<and> valid_config_token (it_intent_id i) \<and>
     (ts_has_vlan_id tr \<longrightarrow> ts_vlan_id tr \<in> {1..4094}) \<and> (it_deny_unmatched_vlan i \<longrightarrow> ts_has_vlan_id tr) \<and>
     node_name c (ts_source tr) \<and> node_name c (ts_destination tr) \<and> en_transition_policy_valid (it_transition i) \<and>
     (pc_has_max_rtt_ms k \<longrightarrow> (\<exists>q\<ge>0. pc_max_rtt_ms k = Fin q)) \<and>
     (pc_has_max_packet_loss_percent k \<longrightarrow> (\<exists>q\<in>{0..100}. pc_max_packet_loss_percent k = Fin q)) \<and>
     (pc_has_hysteresis_percent k \<longrightarrow> (\<exists>q\<in>{0..100}. pc_hysteresis_percent k = Fin q)) \<and>
     0 \<le> pc_failure_threshold k \<and> 0 \<le> pc_recovery_threshold k \<and> 0 \<le> pc_hold_down_ms k \<and>
     (ps_mode sel = EN_SELECT_EXPLICIT \<longrightarrow> path_name c (ps_path_id sel)) \<and>
     (\<forall>x\<in>set (ps_candidates sel). path_name c x) \<and> distinct (ps_candidates sel) \<and>
     (\<forall>w\<in>set (pc_required_waypoints k) \<union> set (pc_forbidden_waypoints k). node_name c w) \<and>
     set (pc_required_waypoints k) \<inter> set (pc_forbidden_waypoints k) = {} \<and>
     (\<forall>x\<in>set (pc_required_capabilities k). valid_config_token x) \<and> distinct (pc_required_capabilities k))"

definition edge_ok :: "en_vpp_edge \<Rightarrow> bool" where
  "edge_ok e \<longleftrightarrow> valid_config_token (ve_node_id e) \<and> ve_vpp_interface e \<noteq> [] \<and> ve_next_hop e \<noteq> [] \<and>
     optional_token (ve_port_id e) \<and> optional_token (ve_vpp_socket e) \<and> distinct (ve_allowed_vlans e) \<and>
     set (ve_allowed_vlans e) \<subseteq> {1..4094} \<and> length (ve_allowed_vlans e) \<le> EN_MAX_ALLOWED_VLANS"

definition edges_apart :: "en_vpp_edge \<Rightarrow> en_vpp_edge \<Rightarrow> bool" where
  "edges_apart e f \<longleftrightarrow> ve_node_id e = ve_node_id f \<longrightarrow>
     ve_port_id e \<noteq> [] \<and> ve_port_id f \<noteq> [] \<and> ve_port_id e \<noteq> ve_port_id f \<and>
     ve_vpp_interface e \<noteq> ve_vpp_interface f \<and> (ve_host_interface e = [] \<or> ve_host_interface e \<noteq> ve_host_interface f)"

definition well_formed_config :: "en_yaml_config \<Rightarrow> bool" where
  "well_formed_config c \<longleftrightarrow> config_counts_valid c \<and> yc_paths c \<noteq> [] \<and>
     distinct (map nd_node_id (yc_nodes c)) \<and> distinct (map tn_tunnel_id (yc_tunnels c)) \<and>
     distinct (map pt_path_id (yc_paths c)) \<and> distinct (map it_intent_id (yc_intents c)) \<and>
     sorted_wrt edges_apart (yc_vpp_edges c) \<and>
     (\<forall>n\<in>set (yc_nodes c). node_ok n) \<and> (\<forall>t\<in>set (yc_tunnels c). tunnel_ok c t) \<and>
     (\<forall>p\<in>set (yc_paths c). path_ok c p) \<and> (\<forall>i\<in>set (yc_intents c). intent_ok c i) \<and>
     (\<forall>e\<in>set (yc_vpp_edges c). edge_ok e)"

section \<open>The checker decides well-formedness\<close>

lemma token_nonempty [simp]: "\<not> valid_config_token []"
  by (simp add: valid_config_token_def)

lemma token_conj: "s \<noteq> [] \<and> valid_config_token s \<and> R \<longleftrightarrow> valid_config_token s \<and> R"
  by auto

lemma unknown_node_iff: "unknown_node c x \<longleftrightarrow> \<not> node_name c x"
  by (auto simp: unknown_node_def node_name_def yaml_has_iff)

lemma bad_optional_iff: "bad_optional s \<longleftrightarrow> \<not> optional_token s"
  by (auto simp: bad_optional_def)

lemma check_distinct:
  "check_rest (\<lambda>x xs. checks [refuse (B x) e m, refuse (x \<in> set xs) e' m']) xs = None \<longleftrightarrow>
   (\<forall>x\<in>set xs. \<not> B x) \<and> distinct xs"
  by (subst check_rest_pairs [where P = "\<lambda>x. \<not> B x" and Q = "\<lambda>x y. x \<noteq> y"])
    (auto simp: sorted_wrt_neq)

lemma validate_nodes_iff:
  "check_rest validate_node ns = None \<longleftrightarrow>
   (\<forall>n\<in>set ns. valid_config_token (nd_node_id n) \<and> optional_token (nd_role n) \<and>
      (\<forall>x\<in>set (nd_endpoints n) \<union> set (nd_capabilities n). valid_config_token x) \<and> distinct (nd_capabilities n)) \<and>
   distinct (map nd_node_id ns)"
  unfolding sorted_wrt_distinct [symmetric]
  by (rule check_rest_pairs)
    (auto simp: validate_node_def check_distinct bad_optional_iff list_ex_iff)

lemma validate_gre_iff: "validate_gre t = None \<longleftrightarrow> gre_ok t"
  by (auto simp: validate_gre_def gre_ok_def bad_optional_iff)

lemma validate_tunnels_iff:
  "check_rest (validate_tunnel c) ts = None \<longleftrightarrow> (\<forall>t\<in>set ts. tunnel_ok c t) \<and> distinct (map tn_tunnel_id ts)"
  unfolding sorted_wrt_distinct [symmetric]
  by (rule check_rest_pairs)
    (auto simp: validate_tunnel_def tunnel_ok_def validate_gre_iff bad_optional_iff unknown_node_iff list_ex_iff)

lemma validate_segment_iff: "validate_segment c g = None \<longleftrightarrow> segment_ok c g"
  by (auto simp: validate_segment_def segment_ok_def bad_optional_iff unknown_node_iff yaml_has_iff)


lemma edges_serve_iff:
  "rt_node_id r \<noteq> [] \<Longrightarrow>
   edges_serve c r \<longleftrightarrow> (yc_vpp_edges c \<noteq> [] \<longrightarrow> yaml_has_vpp_edge c (rt_node_id r)) \<and>
     (yc_vpp_edges c \<noteq> [] \<longrightarrow> rt_interface_name r \<noteq> [] \<longrightarrow> yaml_has_vpp_edge_interface c r)"
  by (auto simp: edges_serve_def yaml_has_vpp_edge_def yaml_has_vpp_edge_interface_def list_ex_iff)

lemma validate_route_iff:
  "validate_route c explicit r rest = None \<longleftrightarrow>
   route_ok c r \<and> (\<forall>q\<in>set rest. rt_route_id r = [] \<or> rt_route_id r \<noteq> rt_route_id q)"
proof (cases "valid_config_token (rt_node_id r) \<and> valid_config_token (rt_destination_prefix r) \<and>
    valid_config_token (rt_next_hop r)")
  case True
  then have "rt_node_id r \<noteq> []" "rt_destination_prefix r \<noteq> []" "rt_next_hop r \<noteq> []" by auto
  with True show ?thesis
    by (simp add: validate_route_def route_ok_def bad_optional_iff unknown_node_iff list_ex_iff INT_MIN_def
        edges_serve_iff not_less)
      (intro iffI; elim conjE; intro conjI; auto)
next
  case False
  then show ?thesis by (auto simp: validate_route_def route_ok_def)
qed

lemma validate_routes_iff:
  "check_rest (validate_route c explicit) rs = None \<longleftrightarrow>
   (\<forall>r\<in>set rs. route_ok c r) \<and> distinct (filter (\<lambda>x. x \<noteq> []) (map rt_route_id rs))"
proof -
  have "sorted_wrt (\<lambda>r q. rt_route_id r = [] \<or> rt_route_id r \<noteq> rt_route_id q) rs \<longleftrightarrow>
      distinct (filter (\<lambda>x. x \<noteq> []) (map rt_route_id rs))"
    by (induction rs) auto
  then show ?thesis by (simp add: check_rest_pairs [OF validate_route_iff])
qed

lemma validate_paths_iff:
  "(\<forall>p\<in>set ps. en_path_counts_valid p) \<Longrightarrow>
   check_rest (validate_config_path c) ps = None \<longleftrightarrow> (\<forall>p\<in>set ps. path_ok c p) \<and> distinct (map pt_path_id ps)"
proof -
  have "check_rest (validate_config_path c) ps = None \<longleftrightarrow>
      (\<forall>p\<in>set ps. en_path_counts_valid p \<longrightarrow> path_ok c p) \<and> sorted_wrt (\<lambda>p q. pt_path_id p \<noteq> pt_path_id q) ps" 
    if "\<forall>p\<in>set ps. en_path_counts_valid p" for ps
    using that
  proof (induction ps)
    case (Cons p ps)
    have "validate_config_path c p ps = None \<longleftrightarrow> path_ok c p \<and> (\<forall>q\<in>set ps. pt_path_id p \<noteq> pt_path_id q)"
      using Cons.prems
      by (auto simp: validate_config_path_def path_ok_def check_distinct validate_routes_iff validate_segment_iff
          unknown_node_iff list_ex_iff yaml_has_iff)
    with Cons show ?case by (auto simp: check_rest_Cons_None)
  qed simp
  moreover assume "\<forall>p\<in>set ps. en_path_counts_valid p"
  ultimately show ?thesis by (simp add: sorted_wrt_distinct)
qed

lemma bad_bound_iff:
  "\<not> bad_bound has x None \<longleftrightarrow> (has \<longrightarrow> (\<exists>q\<ge>0. x = Fin q))"
  "\<not> bad_bound has x (Some (Fin u)) \<longleftrightarrow> (has \<longrightarrow> (\<exists>q\<in>{0..u}. x = Fin q))"
  by (cases x; auto simp: bad_bound_def isfinite_def)+

lemma vlan_iff: "has \<and> (v = INT_MIN \<or> v < 1 \<or> 4094 < v) \<longleftrightarrow> \<not> (has \<longrightarrow> v \<in> {1..4094})"
  by (auto simp: INT_MIN_def)

lemma bad_timing_iff: "bad_timing t \<longleftrightarrow> \<not> en_transition_policy_valid t"
  by (auto simp: bad_timing_def en_transition_policy_valid_def INT_MIN_def)

lemma validate_constraints_iff:
  "validate_constraints c k = None \<longleftrightarrow>
     (\<forall>w\<in>set (pc_required_waypoints k) \<union> set (pc_forbidden_waypoints k). node_name c w) \<and>
     set (pc_required_waypoints k) \<inter> set (pc_forbidden_waypoints k) = {} \<and>
     (\<forall>x\<in>set (pc_required_capabilities k). valid_config_token x) \<and> distinct (pc_required_capabilities k)"
  by (auto simp: validate_constraints_def check_distinct unknown_node_iff list_ex_iff)

lemma validate_intent_iff:
  "en_intent_counts_valid i \<Longrightarrow>
   validate_intent c i js = None \<longleftrightarrow> intent_ok c i \<and> (\<forall>j\<in>set js. it_intent_id i \<noteq> it_intent_id j)"
  unfolding validate_intent_def intent_ok_def Let_def
  by (simp add: check_distinct unknown_node_iff list_ex_iff yaml_has_iff validate_constraints_iff vlan_iff
      bad_timing_iff bad_bound_iff not_less token_conj del: atLeastAtMost_iff)
    (intro iffI; elim conjE; intro conjI; assumption)

lemma validate_intents_iff:
  "(\<forall>i\<in>set is. en_intent_counts_valid i) \<Longrightarrow>
   check_rest (validate_intent c) is = None \<longleftrightarrow> (\<forall>i\<in>set is. intent_ok c i) \<and> distinct (map it_intent_id is)"
  by (induction "is") (auto simp: check_rest_Cons_None validate_intent_iff)

lemma edges_collide_iff: "edges_collide e f \<longleftrightarrow> \<not> edges_apart e f"
  by (auto simp: edges_collide_def edges_apart_def)

lemma validate_edges_iff:
  "(\<forall>e\<in>set es. length (ve_allowed_vlans e) \<le> EN_MAX_ALLOWED_VLANS) \<Longrightarrow>
   check_rest validate_edge es = None \<longleftrightarrow> (\<forall>e\<in>set es. edge_ok e) \<and> sorted_wrt edges_apart es"
  by (induction es)
    (auto simp: check_rest_Cons_None validate_edge_def edge_ok_def check_distinct bad_optional_iff list_ex_iff
      edges_collide_iff)

lemma validate_counts_iff:
  "validate_counts c = None \<longleftrightarrow> config_counts_valid c \<and> yc_paths c \<noteq> [] \<and>
   (\<forall>n\<in>set (yc_nodes c). length (nd_endpoints n) \<le> EN_MAX_ENDPOINTS \<and>
      length (nd_capabilities n) \<le> EN_MAX_CAPABILITIES) \<and>
   (\<forall>p\<in>set (yc_paths c). en_path_counts_valid p) \<and> (\<forall>i\<in>set (yc_intents c). en_intent_counts_valid i) \<and>
   (\<forall>e\<in>set (yc_vpp_edges c). length (ve_allowed_vlans e) \<le> EN_MAX_ALLOWED_VLANS)"
  by (auto simp: validate_counts_def not_less)

lemma validate_iff: "en_yaml_config_validate (Some c) = None \<longleftrightarrow> well_formed_config c"
proof (cases "validate_counts c = None")
  case True
  then have "\<forall>p\<in>set (yc_paths c). en_path_counts_valid p" "\<forall>i\<in>set (yc_intents c). en_intent_counts_valid i"
    "\<forall>e\<in>set (yc_vpp_edges c). length (ve_allowed_vlans e) \<le> EN_MAX_ALLOWED_VLANS"
    by (simp_all add: validate_counts_iff)
  with True show ?thesis
    by (auto simp: en_yaml_config_validate_def validate_nodes_iff validate_tunnels_iff validate_paths_iff
        validate_intents_iff validate_edges_iff well_formed_config_def node_ok_def validate_counts_iff)
next
  case False
  moreover have "well_formed_config c \<Longrightarrow> validate_counts c = None"
    by (auto simp: well_formed_config_def validate_counts_iff node_ok_def path_ok_def intent_ok_def edge_ok_def Let_def)
  ultimately show ?thesis by (auto simp: en_yaml_config_validate_def)
qed

section \<open>Property\<close>

text \<open>
  C35. The validation accepts a configuration exactly when it is well formed: the ordered sequence of
  checks, with its early returns and its pairwise comparisons of the element with the later ones, decides
  the declarative predicate.
\<close>

theorem validation_decides_well_formedness:
  "en_yaml_config_validate (Some c) = None \<longleftrightarrow> well_formed_config c"
  by (rule validate_iff)

end
