(* ===== verification/TextScan.thy ===== *)
theory TextScan
  imports CLib EnTypes
begin

text \<open>
  What the parsers of command output share (\<open>src/src/vpp_observer.c\<close>, \<open>src/src/strongswan_observer.c\<close>,
  \<open>src/src/telemetry.c\<close>): labels, blanks and the loop that takes the output line by line in a
  buffer of 512 bytes. A parser is a step on one line that either goes on with a new state or
  returns; \<open>scan_lines\<close> is the loop, and \<open>scan_returns\<close> its invariant rule.
\<close>

section \<open>Labels and blanks\<close>

definition valid_label :: "string \<Rightarrow> bool" where
  "valid_label s \<longleftrightarrow> s \<noteq> [] \<and> list_all token_char s"

definition space_or_tab :: "char \<Rightarrow> bool" where
  "space_or_tab c \<longleftrightarrow> c = CHR '' '' \<or> c = TAB"

definition skip_space :: "string \<Rightarrow> string" where
  "skip_space s = dropWhile space_or_tab s"

definition indentation :: "string \<Rightarrow> nat" where
  "indentation s = length (takeWhile space_or_tab s)"

text \<open>The run of bytes up to the next white space, as the parsers copy it into a buffer of \<open>n\<close> bytes.\<close>

definition token_of :: "nat \<Rightarrow> string \<Rightarrow> string option" where
  "token_of n s =
     (let t = takeWhile (\<lambda>c. \<not> isspace c) s in if t = [] \<or> n \<le> length t then None else Some t)"

lemma token_of_Some: "token_of n s = Some t \<Longrightarrow> t \<noteq> [] \<and> length t < n \<and> list_all (\<lambda>c. \<not> isspace c) t"
  by (auto simp: token_of_def Let_def list_all_iff dest: set_takeWhileD split: if_splits)

lemma token_of_word:
  "t \<noteq> [] \<Longrightarrow> length t < n \<Longrightarrow> list_all (\<lambda>c. \<not> isspace c) t \<Longrightarrow> s = [] \<or> isspace (hd s) \<Longrightarrow>
   token_of n (t @ s) = Some t"
proof -
  assume "list_all (\<lambda>c. \<not> isspace c) t"
  then have all: "\<forall>c\<in>set t. \<not> isspace c" and "takeWhile (\<lambda>c. \<not> isspace c) t = t"
    by (simp_all add: takeWhile_eq_all_conv list_all_iff)
  moreover assume "t \<noteq> []" "length t < n" "s = [] \<or> isspace (hd s)"
  ultimately show ?thesis
    by (cases s) (simp_all add: token_of_def Let_def takeWhile_append all del: takeWhile_eq_all_conv)
qed

lemma label_not_space: "valid_label s \<Longrightarrow> list_all (\<lambda>c. \<not> isspace c) s"
  by (auto simp: valid_label_def list_all_iff token_char_def isspace_not_alnum isspace_def code_def)

section \<open>Lines\<close>

text \<open>The lines of a text; a final line feed does not start another one.\<close>

function split_lines :: "string \<Rightarrow> string list" where
  "split_lines [] = []"
| "split_lines (c # s) =
     takeWhile (\<lambda>x. x \<noteq> LF) (c # s) # split_lines (drop 1 (dropWhile (\<lambda>x. x \<noteq> LF) (c # s)))"
  by pat_completeness auto
termination
  by (relation "measure length")
    (auto simp: less_Suc_eq_le intro: le_trans [OF diff_le_self length_dropWhile_le])

definition strip_cr :: "string \<Rightarrow> string" where
  "strip_cr l = (if l \<noteq> [] \<and> last l = CR then butlast l else l)"

abbreviation line_capacity :: nat where "line_capacity \<equiv> 512"

definition text_lines :: "string \<Rightarrow> string list" where
  "text_lines s = map strip_cr (split_lines s)"

lemma split_lines_line:
  "LF \<notin> set l \<Longrightarrow> split_lines (l @ LF # s) = l # split_lines s"
proof (cases l)
  case (Cons c k)
  moreover assume "LF \<notin> set l"
  ultimately show ?thesis by (auto simp: takeWhile_append dropWhile_append)
qed simp

lemma split_lines_lines:
  "\<forall>l\<in>set ls. LF \<notin> set l \<Longrightarrow> split_lines (concat (map (\<lambda>l. l @ [LF]) ls)) = ls"
  by (induction ls) (simp_all add: split_lines_line)

text \<open>A line that the loop takes as it is, and the text of such lines.\<close>

definition plain_line :: "string \<Rightarrow> bool" where
  "plain_line l \<longleftrightarrow> LF \<notin> set l \<and> length l < line_capacity \<and> (l = [] \<or> last l \<noteq> CR)"

definition unlines :: "string list \<Rightarrow> string" where
  "unlines ls = concat (map (\<lambda>l. l @ [LF]) ls)"

lemma plain_line_simps [simp]:
  "plain_line l \<Longrightarrow> strip_cr l = l" "plain_line l \<Longrightarrow> length l < line_capacity"
  "plain_line l \<Longrightarrow> \<not> line_capacity \<le> length l"
  by (auto simp: plain_line_def strip_cr_def)

lemma split_unlines: "list_all plain_line ls \<Longrightarrow> split_lines (unlines ls) = ls"
  unfolding unlines_def by (rule split_lines_lines) (auto simp: plain_line_def list_all_iff)

lemma text_lines_unlines: "list_all plain_line ls \<Longrightarrow> text_lines (unlines ls) = ls"
  by (auto simp: text_lines_def split_unlines list_all_iff intro!: map_idI)

section \<open>The scanning loop\<close>

text \<open>
  \<open>step st line\<close> is \<open>Inl r\<close> to return \<open>r\<close> and \<open>Inr st'\<close> to go on; \<open>long st\<close> is returned at a line that
  does not fit the buffer, and \<open>finish st\<close> at the end of the text.
\<close>

fun scan_lines ::
  "('s \<Rightarrow> string \<Rightarrow> 'r + 's) \<Rightarrow> ('s \<Rightarrow> 'r) \<Rightarrow> ('s \<Rightarrow> 'r) \<Rightarrow> 's \<Rightarrow> string list \<Rightarrow> 'r" where
  "scan_lines step long finish st [] = finish st"
| "scan_lines step long finish st (l # ls) =
     (if line_capacity \<le> length l then long st
      else case step st (strip_cr l) of
        Inl r \<Rightarrow> r
      | Inr st' \<Rightarrow> scan_lines step long finish st' ls)"

text \<open>
  Every result comes from the end of the text, from a line that is too long, or from a step that
  returned, at a state that satisfies the invariant for the lines before.
\<close>

lemma scan_sound_from:
  assumes step: "\<And>seen st l st'. I seen st \<Longrightarrow> step st l = Inr st' \<Longrightarrow> I (seen @ [l]) st'"
  shows "I seen st \<Longrightarrow> scan_lines step long finish st ls = r \<Longrightarrow>
    (\<exists>st'. I (seen @ map strip_cr ls) st' \<and> r = finish st') \<or> (\<exists>pre st'. I (seen @ pre) st' \<and> r = long st') \<or>
    (\<exists>pre l post st'. map strip_cr ls = pre @ l # post \<and> I (seen @ pre) st' \<and> step st' l = Inl r)"
proof (induction ls arbitrary: seen st)
  case Nil
  then show ?case by auto
next
  case (Cons x xs)
  show ?case
  proof (cases "line_capacity \<le> length x")
    case True
    with Cons.prems have "I (seen @ []) st \<and> r = long st" by simp
    then show ?thesis by blast
  next
    case short: False
    show ?thesis
    proof (cases "step st (strip_cr x)")
      case (Inl r')
      with Cons.prems short have "I (seen @ []) st \<and> step st (strip_cr x) = Inl r" by simp
      moreover have "map strip_cr (x # xs) = [] @ strip_cr x # map strip_cr xs" by simp
      ultimately show ?thesis by blast
    next
      case (Inr st')
      with Cons.prems short step have "I (seen @ [strip_cr x]) st'"
        and "scan_lines step long finish st' xs = r" by simp_all
      from Cons.IH [OF this] show ?thesis
      proof (elim disjE exE conjE)
        fix pre l post st''
        assume "map strip_cr xs = pre @ l # post" "I ((seen @ [strip_cr x]) @ pre) st''" "step st'' l = Inl r"
        then have "map strip_cr (x # xs) = (strip_cr x # pre) @ l # post \<and> I (seen @ strip_cr x # pre) st'' \<and>
            step st'' l = Inl r" by simp
        then show ?thesis by blast
      next
        fix pre st''
        assume "I ((seen @ [strip_cr x]) @ pre) st''" "r = long st''"
        then have "I (seen @ strip_cr x # pre) st'' \<and> r = long st''" by simp
        then show ?thesis by blast
      next
        fix st''
        assume "I ((seen @ [strip_cr x]) @ map strip_cr xs) st''" "r = finish st''"
        then have "I (seen @ map strip_cr (x # xs)) st'' \<and> r = finish st''" by simp
        then show ?thesis by blast
      qed
    qed
  qed
qed

text \<open>The rule for a result that is neither the end of the text nor a long line.\<close>

lemma scan_returns:
  assumes "scan_lines step long finish st ls = r" "I [] st"
    and "\<And>seen st l st'. I seen st \<Longrightarrow> step st l = Inr st' \<Longrightarrow> I (seen @ [l]) st'"
    and "\<And>st. finish st \<noteq> r" "\<And>st. long st \<noteq> r"
  obtains seen l post st' where "map strip_cr ls = seen @ l # post" "I seen st'" "step st' l = Inl r"
proof -
  have "(\<exists>st'. I ([] @ map strip_cr ls) st' \<and> r = finish st') \<or> (\<exists>pre st'. I ([] @ pre) st' \<and> r = long st') \<or>
    (\<exists>pre l post st'. map strip_cr ls = pre @ l # post \<and> I ([] @ pre) st' \<and> step st' l = Inl r)"
    by (rule scan_sound_from [of I step]) (fact assms)+
  then show thesis using assms(4,5) that by (auto dest: sym)
qed

text \<open>The rule for lines that the loop passes over.\<close>

lemma scan_goes_on:
  assumes "list_all plain_line pre" "I [] st"
    and "\<And>seen l rest st. pre = seen @ l # rest \<Longrightarrow> I seen st \<Longrightarrow> \<exists>st'. step st l = Inr st' \<and> I (seen @ [l]) st'"
  shows "\<exists>st'. I pre st' \<and> scan_lines step long finish st (pre @ ls) = scan_lines step long finish st' ls"
  using assms(1,3)
proof (induction pre arbitrary: ls rule: rev_induct)
  case Nil
  with assms(2) show ?case by auto
next
  case (snoc x xs)
  then have "\<exists>st'. I xs st' \<and>
      scan_lines step long finish st (xs @ x # ls) = scan_lines step long finish st' (x # ls)"
    by (simp only: list_all_append append_assoc append_Cons)
  then obtain st' where st': "I xs st'"
    "scan_lines step long finish st (xs @ x # ls) = scan_lines step long finish st' (x # ls)" by blast
  from snoc.prems(2) [of xs x "[]" st'] st'(1) obtain st'' where "step st' x = Inr st''" "I (xs @ [x]) st''" by auto
  moreover have "plain_line x" using snoc.prems(1) by simp
  ultimately show ?case using st'(2) by (intro exI [of _ st'']) (simp add: not_le)
qed

section \<open>Numbers\<close>

text \<open>\<open>strtol\<close> in base 10: the value, saturated to 64 bits, and the rest; without digits, all of it.\<close>

definition saturate64 :: "int \<Rightarrow> int" where
  "saturate64 i = max (- (2 ^ 63)) (min (2 ^ 63 - 1) i)"

definition strtol10 :: "string \<Rightarrow> int \<times> string" where
  "strtol10 s =
     (let t = dropWhile isspace s;
          (neg, body) = (case t of
             c # u \<Rightarrow> if c = CHR ''-'' then (True, u) else if c = CHR ''+'' then (False, u) else (False, t)
           | [] \<Rightarrow> (False, []));
          digits = takeWhile isdigit body
      in if digits = [] then (0, s)
         else (saturate64 (if neg then - int (dec_value 0 digits) else int (dec_value 0 digits)),
               dropWhile isdigit body))"

lemma isdigit_not_sign: "isdigit c \<Longrightarrow> c \<noteq> CHR ''-'' \<and> c \<noteq> CHR ''+'' \<and> \<not> isspace c"
  by (auto simp: isdigit_def isspace_def code_def)

lemma strtol10_digits:
  assumes "s = [] \<or> \<not> isdigit (hd s)" "int n < 2 ^ 63"
  shows "strtol10 (nat_to_dec n @ s) = (int n, s)"
proof -
  obtain c u where d: "nat_to_dec n = c # u" using nat_to_dec_nonempty by (cases "nat_to_dec n") auto
  have all: "\<forall>x\<in>set (c # u). isdigit x" using nat_to_dec_digits [of n] d by simp
  then have "takeWhile isdigit ((c # u) @ s) = c # u" "dropWhile isdigit ((c # u) @ s) = s"
    using assms(1) by (cases s; auto simp: takeWhile_append dropWhile_append)+
  then show ?thesis
    using all isdigit_not_sign [of c] assms(2) dec_value_nat_to_dec [of n]
    by (simp add: strtol10_def d saturate64_def)
qed

end
