(* ===== verification/YamlScalar.thy ===== *)
theory YamlScalar
  imports YamlValidate TextScan "HOL-Library.Word"
begin

text \<open>
  Scalars of the configuration reader, from \<open>src/src/yaml_config.c\<close>: blanks, comments and quotes of a
  line, the split at the colon, copies into identifier buffers, and the conversions to numbers,
  Booleans and enumerations. A conversion that the code reports through a flag is an option.
\<close>

section \<open>Lines\<close>

definition SQ :: char where "SQ = CHR 0x27"

definition trim :: "string \<Rightarrow> string" where
  "trim s = rev (dropWhile isspace (rev (dropWhile isspace s)))"

text \<open>A comment starts at a \<open>#\<close> outside quotes; \<open>quote\<close> is the quote that is open.\<close>

fun strip_comment_from :: "char option \<Rightarrow> string \<Rightarrow> string" where
  "strip_comment_from quote [] = []"
| "strip_comment_from quote (c # s) =
     (let quote' = (if (c = DQ \<or> c = SQ) \<and> (quote = None \<or> quote = Some c)
                    then (if quote = None then Some c else None) else quote)
      in if quote' = None \<and> c = CHR ''#'' then [] else c # strip_comment_from quote' s)"

definition strip_comment :: "string \<Rightarrow> string" where
  "strip_comment s = strip_comment_from None s"

definition indent_of :: "string \<Rightarrow> nat" where
  "indent_of s = length (takeWhile (\<lambda>c. c = CHR '' '') s)"

definition quoted_by :: "char \<Rightarrow> string \<Rightarrow> bool" where
  "quoted_by q s \<longleftrightarrow> 2 \<le> length s \<and> hd s = q \<and> last s = q"

definition clean_scalar :: "string \<Rightarrow> string" where
  "clean_scalar s = (let v = trim s in if quoted_by DQ v \<or> quoted_by SQ v then butlast (tl v) else v)"

text \<open>Split at the first colon. The key replaces the text in place, so it is also what the text reads afterwards.\<close>

definition split_key_value :: "string \<Rightarrow> (string \<times> string) option" where
  "split_key_value s =
     (if CHR '':'' \<in> set s
      then Some (trim (takeWhile (\<lambda>c. c \<noteq> CHR '':'') s),
                 clean_scalar (trim (drop 1 (dropWhile (\<lambda>c. c \<noteq> CHR '':'') s))))
      else None)"

section \<open>Copies\<close>

text \<open>A source that does not fit leaves the empty string.\<close>

definition copy_id :: "nat \<Rightarrow> string \<Rightarrow> string" where
  "copy_id n s = (if n \<le> length s then [] else s)"

definition copy_address_without_cidr :: "nat \<Rightarrow> string \<Rightarrow> string" where
  "copy_address_without_cidr n s =
     (let a = takeWhile (\<lambda>c. c \<noteq> CHR ''/'') s in if n \<le> length a then [] else a)"

section \<open>Numbers\<close>

text \<open>\<open>parse_integer\<close> gives \<open>INT_MIN\<close> for what is no decimal \<open>int\<close> above it.\<close>

definition parse_integer :: "string \<Rightarrow> int" where
  "parse_integer s =
     (if s = [] then INT_MIN
      else case strtol10 s of (parsed, rest) \<Rightarrow>
        if rest = s \<or> rest \<noteq> [] \<or> parsed < INT_MIN + 1 \<or> INT_MAX < parsed then INT_MIN else parsed)"

text \<open>\<open>atoi\<close>: the low 32 bits of what \<open>strtol\<close> gives, as a signed number.\<close>

definition atoi :: "string \<Rightarrow> int" where
  "atoi s = sint (word_of_int (fst (strtol10 s)) :: 32 word)"

text \<open>
  \<open>strtod\<close>: a decimal or hexadecimal number, exactly, and then rounded. \<open>None\<close> stands for no number, an
  infinity, a NaN and a range error, which \<open>parse_number\<close> does not tell apart.
\<close>

definition digit_value :: "char \<Rightarrow> nat" where
  "digit_value c =
     (if isdigit c then code c - 48
      else if 97 \<le> code (tolower c) \<and> code (tolower c) \<le> 102 then code (tolower c) - 87 else 16)"

definition digits :: "nat \<Rightarrow> string \<Rightarrow> string \<times> string" where
  "digits base s = (takeWhile (\<lambda>c. digit_value c < base) s, dropWhile (\<lambda>c. digit_value c < base) s)"

definition positional :: "nat \<Rightarrow> string \<Rightarrow> nat" where
  "positional base ds = foldl (\<lambda>a c. a * base + digit_value c) 0 ds"

definition split_sign :: "string \<Rightarrow> bool \<times> string" where
  "split_sign s = (case s of [] \<Rightarrow> (False, [])
     | c # u \<Rightarrow> if c = CHR ''-'' then (True, u) else if c = CHR ''+'' then (False, u) else (False, s))"

definition exponent :: "char \<Rightarrow> string \<Rightarrow> int \<times> string" where
  "exponent e s = (case s of [] \<Rightarrow> (0, [])
     | c # u \<Rightarrow>
         let (neg, v) = split_sign u; (ds, rest) = digits 10 v; n = int (positional 10 ds)
         in if tolower c = e \<and> ds \<noteq> [] then (if neg then - n else n, rest) else (0, s))"

definition power_of :: "nat \<Rightarrow> int \<Rightarrow> rat" where
  "power_of b e = (if 0 \<le> e then of_nat b ^ nat e else 1 / of_nat b ^ nat (- e))"

definition magnitude :: "nat \<Rightarrow> char \<Rightarrow> nat \<Rightarrow> string \<Rightarrow> (rat \<times> string) option" where
  "magnitude base e ebase s =
     (let (whole, r) = digits base s;
          (frac, r') = (case r of c # u \<Rightarrow> if c = CHR ''.'' then digits base u else ([], r) | [] \<Rightarrow> ([], []));
          (n, r'') = exponent e r'
      in if whole = [] \<and> frac = [] then None
         else Some (of_nat (positional base (whole @ frac)) / of_nat (base ^ length frac) * power_of ebase n, r''))"

definition strtod :: "string \<Rightarrow> (cdouble \<times> string) option" where
  "strtod s =
     (let (neg, body) = split_sign (dropWhile isspace s);
          hex = (if starts_with body ''0x'' \<or> starts_with body ''0X'' then magnitude 16 (CHR ''p'') 2 (drop 2 body) else None)
      in case (case hex of Some m \<Rightarrow> Some m | None \<Rightarrow> magnitude 10 (CHR ''e'') 10 body) of
           None \<Rightarrow> None
         | Some (q, rest) \<Rightarrow>
             (let v = round64 (if neg then - q else q) in
              if \<not> isfinite v \<or> (0 < q \<and> q < pow2 (- 1022) \<and> v \<noteq> Fin (if neg then - q else q)) then None
              else Some (v, rest)))"

definition parse_number :: "string \<Rightarrow> cdouble" where
  "parse_number s =
     (if s = [] then NaN
      else case strtod s of None \<Rightarrow> NaN
        | Some (v, rest) \<Rightarrow> if rest = s \<or> rest \<noteq> [] \<or> \<not> isfinite v then NaN else v)"

section \<open>Words of the configuration language\<close>

text \<open>\<open>strcmp(key, "a") == 0 || strcmp(key, "b") == 0 ...\<close>.\<close>

definition one_of :: "string \<Rightarrow> string list \<Rightarrow> bool" where
  "one_of s names \<longleftrightarrow> list_ex (\<lambda>n. strcmp s n = 0) names"

definition parse_bool :: "string \<Rightarrow> bool option" where
  "parse_bool s =
     (if one_of s [''true'', ''yes'', ''1''] then Some True
      else if one_of s [''false'', ''no'', ''0''] then Some False else None)"

definition parse_selection_mode :: "string \<Rightarrow> en_path_selection_mode option" where
  "parse_selection_mode s =
     (if one_of s [''explicit''] then Some EN_SELECT_EXPLICIT
      else if one_of s [''priority''] then Some EN_SELECT_PRIORITY
      else if one_of s [''evaluated''] then Some EN_SELECT_EVALUATED else None)"

definition parse_transition_strategy :: "string \<Rightarrow> en_transition_strategy option" where
  "parse_transition_strategy s =
     (if one_of s [''immediate''] then Some EN_TRANSITION_IMMEDIATE
      else if one_of s [''graceful''] then Some EN_TRANSITION_GRACEFUL
      else if one_of s [''flow-preserve''] then Some EN_TRANSITION_FLOW_PRESERVE else None)"

definition parse_comparison_key :: "string \<Rightarrow> en_comparison_key option" where
  "parse_comparison_key s =
     (if one_of s [''packet_loss'', ''packet_loss_percent''] then Some EN_COMPARE_PACKET_LOSS
      else if one_of s [''latency'', ''rtt'', ''rtt_ms''] then Some EN_COMPARE_LATENCY
      else if one_of s [''hop_count''] then Some EN_COMPARE_HOP_COUNT
      else if one_of s [''administrative_priority'', ''priority''] then Some EN_COMPARE_ADMIN_PRIORITY
      else if one_of s [''path_id''] then Some EN_COMPARE_PATH_ID else None)"

text \<open>The text that \<open>set_error\<close> leaves in a buffer of \<open>n\<close> bytes; line 0 stands for no line.\<close>

definition set_error :: "nat \<Rightarrow> nat \<Rightarrow> string \<Rightarrow> string" where
  "set_error n line_no message =
     fit n (if line_no = 0 then message else ''line '' @ nat_to_dec line_no @ '': '' @ message)"

section \<open>Facts\<close>

lemma one_of_iff: "one_of s names \<longleftrightarrow> s \<in> set names"
  by (auto simp: one_of_def list_ex_iff)

lemma copy_id_fits [simp]: "0 < n \<Longrightarrow> length (copy_id n s) < n"
  by (simp add: copy_id_def)

lemma copy_id_id [simp]: "length s < n \<Longrightarrow> copy_id n s = s"
  by (simp add: copy_id_def)

lemma parse_integer_range: "parse_integer s = INT_MIN \<or> - INT_MAX \<le> parse_integer s \<and> parse_integer s \<le> INT_MAX"
  by (auto simp: parse_integer_def INT_MIN_def INT_MAX_def split: prod.splits)

lemma parse_number_finite: "parse_number s = NaN \<or> isfinite (parse_number s)"
  by (auto simp: parse_number_def split: option.splits)

text \<open>A text without blanks at its ends is trimmed already.\<close>

definition trimmed :: "string \<Rightarrow> bool" where
  "trimmed s \<longleftrightarrow> s \<noteq> [] \<and> \<not> isspace (hd s) \<and> \<not> isspace (last s)"

lemma trim_trimmed: "trimmed s \<Longrightarrow> trim s = s"
proof -
  assume s: "trimmed s"
  then have "dropWhile isspace s = s" by (cases s) (simp_all add: trimmed_def)
  moreover have "dropWhile isspace (rev s) = rev s"
    using s by (cases "rev s") (auto simp: trimmed_def last_rev hd_rev [symmetric])
  ultimately show ?thesis by (simp add: trim_def)
qed

lemma trim_blanks: "list_all isspace b \<Longrightarrow> trim (b @ s) = trim s"
  by (simp add: trim_def dropWhile_append list_all_iff)

lemma trim_Nil [simp]: "trim [] = []"
  by (simp add: trim_def)

end
