(* ===== verification/YamlParse.thy ===== *)
theory YamlParse
  imports YamlScalar
begin

text \<open>
  The configuration reader of \<open>src/src/yaml_config.c\<close>: a line-driven parser with a section, a context and
  pointers to the items that the next fields go to, the normalisation of what was read, and
  \<open>en_yaml_config_load_file\<close>. A pointer into one of the arrays is an index, \<open>None\<close> for \<open>NULL\<close>; a pointer
  to a segment or a route is the index of its path and its own. A dereference of \<open>NULL\<close> is the outcome
  \<open>Undefined\<close>, and the theory shows that no file leads there.
\<close>

section \<open>State\<close>

datatype yaml_top_section =
    YAML_SECTION_NONE | YAML_SECTION_NODES | YAML_SECTION_TUNNELS | YAML_SECTION_PATHS
  | YAML_SECTION_INTENTS | YAML_SECTION_VPP_EDGES

datatype yaml_context =
    YAML_CONTEXT_NONE | YAML_CONTEXT_PATH_WAYPOINTS | YAML_CONTEXT_PATH_SEGMENTS
  | YAML_CONTEXT_PATH_ROUTES | YAML_CONTEXT_INTENT_TRAFFIC | YAML_CONTEXT_INTENT_SELECTION
  | YAML_CONTEXT_INTENT_CANDIDATES | YAML_CONTEXT_INTENT_CONSTRAINTS
  | YAML_CONTEXT_INTENT_FORBIDDEN_WAYPOINTS | YAML_CONTEXT_INTENT_REQUIRED_WAYPOINTS
  | YAML_CONTEXT_INTENT_REQUIRED_CAPABILITIES | YAML_CONTEXT_INTENT_COMPARISON_ORDER
  | YAML_CONTEXT_INTENT_TRANSITION | YAML_CONTEXT_INTENT_FALLBACK
  | YAML_CONTEXT_VPP_EDGE_ALLOWED_VLANS | YAML_CONTEXT_NODE_ENDPOINTS
  | YAML_CONTEXT_NODE_CAPABILITIES

text \<open>\<open>yaml_parse_state_t\<close>, with the configuration that it points into as the first field.\<close>

record yaml_parser =
  ys_config :: en_yaml_config
  ys_top :: yaml_top_section
  ys_context :: yaml_context
  ys_list_parent :: yaml_context
  ys_list_indent :: nat
  ys_path :: "nat option"
  ys_node :: "nat option"
  ys_segment :: "(nat \<times> nat) option"
  ys_route :: "(nat \<times> nat) option"
  ys_tunnel :: "nat option"
  ys_intent :: "nat option"
  ys_vpp_edge :: "nat option"

text \<open>A refusal has the error code and the message for \<open>set_error\<close>, \<open>None\<close> where the code reports none.\<close>

datatype 'a outcome = Parsed 'a | Refused en_error_code "string option" | Undefined

type_synonym parsed = "yaml_parser outcome"

abbreviation bad_line :: "string \<Rightarrow> 'a outcome" where
  "bad_line message \<equiv> Refused EN_ERR_INVALID_ARGUMENT (Some message)"

definition empty_config :: en_yaml_config where
  "empty_config = \<lparr>yc_nodes = [], yc_tunnels = [], yc_paths = [], yc_intents = [], yc_vpp_edges = []\<rparr>"

definition initial_parser :: yaml_parser where
  "initial_parser = \<lparr>ys_config = empty_config, ys_top = YAML_SECTION_NONE, ys_context = YAML_CONTEXT_NONE,
     ys_list_parent = YAML_CONTEXT_NONE, ys_list_indent = 0, ys_path = None, ys_node = None,
     ys_segment = None, ys_route = None, ys_tunnel = None, ys_intent = None, ys_vpp_edge = None\<rparr>"

definition zero_node :: en_node where
  "zero_node = \<lparr>nd_node_id = [], nd_role = [], nd_endpoints = [], nd_capabilities = [],
     nd_administrative_state = EN_ADMIN_ENABLED\<rparr>"

definition zero_vpp_edge :: en_vpp_edge where
  "zero_vpp_edge = \<lparr>ve_node_id = [], ve_port_id = [], ve_host_interface = [], ve_vpp_interface = [],
     ve_namespace_interface = [], ve_namespace_address = [], ve_vpp_address = [], ve_vpp_socket = [],
     ve_next_hop = [], ve_allowed_vlans = []\<rparr>"

section \<open>Reading and writing through the pointers\<close>

definition deref :: "'a list \<Rightarrow> nat option \<Rightarrow> 'a option" where
  "deref xs p = map_option ((!) xs) p"

definition store :: "'a list \<Rightarrow> nat option \<Rightarrow> 'a \<Rightarrow> 'a list" where
  "store xs p x = (case p of None \<Rightarrow> xs | Some i \<Rightarrow> xs[i := x])"

definition cur_node :: "yaml_parser \<Rightarrow> en_node option" where
  "cur_node y = deref (yc_nodes (ys_config y)) (ys_node y)"

definition cur_tunnel :: "yaml_parser \<Rightarrow> en_tunnel option" where
  "cur_tunnel y = deref (yc_tunnels (ys_config y)) (ys_tunnel y)"

definition cur_path :: "yaml_parser \<Rightarrow> en_path option" where
  "cur_path y = deref (yc_paths (ys_config y)) (ys_path y)"

definition cur_intent :: "yaml_parser \<Rightarrow> en_intent option" where
  "cur_intent y = deref (yc_intents (ys_config y)) (ys_intent y)"

definition cur_vpp_edge :: "yaml_parser \<Rightarrow> en_vpp_edge option" where
  "cur_vpp_edge y = deref (yc_vpp_edges (ys_config y)) (ys_vpp_edge y)"

definition cur_segment :: "yaml_parser \<Rightarrow> en_segment option" where
  "cur_segment y = map_option (\<lambda>(i, j). pt_segments (yc_paths (ys_config y) ! i) ! j) (ys_segment y)"

definition cur_route :: "yaml_parser \<Rightarrow> en_route option" where
  "cur_route y = map_option (\<lambda>(i, j). pt_routes (yc_paths (ys_config y) ! i) ! j) (ys_route y)"

definition put_node :: "en_node \<Rightarrow> yaml_parser \<Rightarrow> yaml_parser" where
  "put_node n y = (let c = ys_config y in y\<lparr>ys_config := c\<lparr>yc_nodes := store (yc_nodes c) (ys_node y) n\<rparr>\<rparr>)"

definition put_tunnel :: "en_tunnel \<Rightarrow> yaml_parser \<Rightarrow> yaml_parser" where
  "put_tunnel t y = (let c = ys_config y in y\<lparr>ys_config := c\<lparr>yc_tunnels := store (yc_tunnels c) (ys_tunnel y) t\<rparr>\<rparr>)"

definition put_yaml_path :: "en_path \<Rightarrow> yaml_parser \<Rightarrow> yaml_parser" where
  "put_yaml_path p y = (let c = ys_config y in y\<lparr>ys_config := c\<lparr>yc_paths := store (yc_paths c) (ys_path y) p\<rparr>\<rparr>)"

definition put_yaml_intent :: "en_intent \<Rightarrow> yaml_parser \<Rightarrow> yaml_parser" where
  "put_yaml_intent i y = (let c = ys_config y in y\<lparr>ys_config := c\<lparr>yc_intents := store (yc_intents c) (ys_intent y) i\<rparr>\<rparr>)"

definition put_vpp_edge :: "en_vpp_edge \<Rightarrow> yaml_parser \<Rightarrow> yaml_parser" where
  "put_vpp_edge e y =
     (let c = ys_config y in y\<lparr>ys_config := c\<lparr>yc_vpp_edges := store (yc_vpp_edges c) (ys_vpp_edge y) e\<rparr>\<rparr>)"

definition put_segment :: "en_segment \<Rightarrow> yaml_parser \<Rightarrow> yaml_parser" where
  "put_segment g y = (case ys_segment y of None \<Rightarrow> y
     | Some (i, j) \<Rightarrow> (let c = ys_config y; p = yc_paths c ! i in
         y\<lparr>ys_config := c\<lparr>yc_paths := (yc_paths c)[i := p\<lparr>pt_segments := (pt_segments p)[j := g]\<rparr>]\<rparr>\<rparr>))"

definition put_route :: "en_route \<Rightarrow> yaml_parser \<Rightarrow> yaml_parser" where
  "put_route r y = (case ys_route y of None \<Rightarrow> y
     | Some (i, j) \<Rightarrow> (let c = ys_config y; p = yc_paths c ! i in
         y\<lparr>ys_config := c\<lparr>yc_paths := (yc_paths c)[i := p\<lparr>pt_routes := (pt_routes p)[j := r]\<rparr>]\<rparr>\<rparr>))"

text \<open>Update the item a pointer refers to; \<open>null\<close> is the outcome where it is \<open>NULL\<close>.\<close>

definition through :: "'a option \<Rightarrow> parsed \<Rightarrow> ('a \<Rightarrow> parsed) \<Rightarrow> parsed" where
  "through item null k = (case item of None \<Rightarrow> null | Some x \<Rightarrow> k x)"

definition enter :: "yaml_context \<Rightarrow> yaml_parser \<Rightarrow> parsed" where
  "enter c y = Parsed (y\<lparr>ys_context := c\<rparr>)"

definition enter_list :: "yaml_context \<Rightarrow> nat \<Rightarrow> yaml_context \<Rightarrow> yaml_parser \<Rightarrow> parsed" where
  "enter_list parent indent c y = Parsed (y\<lparr>ys_list_parent := parent, ys_list_indent := indent, ys_context := c\<rparr>)"

abbreviation id_field :: "string \<Rightarrow> string" where
  "id_field v \<equiv> copy_id EN_MAX_ID_LEN v"

section \<open>Fields\<close>

definition parse_vpp_edge_kv :: "string \<Rightarrow> string \<Rightarrow> yaml_parser \<Rightarrow> parsed" where
  "parse_vpp_edge_kv key v y = through (cur_vpp_edge y) (bad_line ''vpp edge field without vpp edge item'') (\<lambda>e.
     if one_of key [''id'', ''node'', ''node_id''] then Parsed (put_vpp_edge (e\<lparr>ve_node_id := id_field v\<rparr>) y)
     else if one_of key [''port_id'', ''port''] then Parsed (put_vpp_edge (e\<lparr>ve_port_id := id_field v\<rparr>) y)
     else if one_of key [''host_interface'', ''host_if''] then Parsed (put_vpp_edge (e\<lparr>ve_host_interface := id_field v\<rparr>) y)
     else if one_of key [''vpp_interface'', ''vpp_if''] then Parsed (put_vpp_edge (e\<lparr>ve_vpp_interface := id_field v\<rparr>) y)
     else if one_of key [''namespace_interface'', ''ns_interface'', ''ns_if'']
     then Parsed (put_vpp_edge (e\<lparr>ve_namespace_interface := id_field v\<rparr>) y)
     else if one_of key [''namespace_address'', ''ns_address'', ''ns_addr'']
     then Parsed (put_vpp_edge (e\<lparr>ve_namespace_address := id_field v\<rparr>) y)
     else if one_of key [''vpp_address'', ''vpp_addr''] then Parsed (put_vpp_edge (e\<lparr>ve_vpp_address := id_field v\<rparr>) y)
     else if one_of key [''vpp_socket'', ''vpp_api_socket'', ''vpp_cli_socket'']
     then Parsed (put_vpp_edge (e\<lparr>ve_vpp_socket := id_field v\<rparr>) y)
     else if one_of key [''next_hop''] then Parsed (put_vpp_edge (e\<lparr>ve_next_hop := id_field v\<rparr>) y)
     else if one_of key [''allowed_vlans''] then enter YAML_CONTEXT_VPP_EDGE_ALLOWED_VLANS y
     else Parsed y)"

definition tunnel_field :: "string \<Rightarrow> string \<Rightarrow> en_tunnel \<Rightarrow> en_tunnel" where
  "tunnel_field key v t =
     (if one_of key [''id'', ''tunnel_id''] then t\<lparr>tn_tunnel_id := id_field v\<rparr>
      else if one_of key [''type'', ''tunnel_type''] then t\<lparr>tn_tunnel_type := id_field v\<rparr>
      else if one_of key [''local_node''] then t\<lparr>tn_local_node := id_field v\<rparr>
      else if one_of key [''remote_node''] then t\<lparr>tn_remote_node := id_field v\<rparr>
      else if one_of key [''local_endpoint''] then t\<lparr>tn_local_endpoint := id_field v\<rparr>
      else if one_of key [''remote_endpoint''] then t\<lparr>tn_remote_endpoint := id_field v\<rparr>
      else if one_of key [''local_id''] then t\<lparr>tn_local_id := id_field v\<rparr>
      else if one_of key [''remote_id''] then t\<lparr>tn_remote_id := id_field v\<rparr>
      else if one_of key [''psk''] then t\<lparr>tn_psk := id_field v\<rparr>
      else if one_of key [''auth'', ''auth_method''] then t\<lparr>tn_auth_method := id_field v\<rparr>
      else if one_of key [''local_cert'', ''certificate''] then t\<lparr>tn_local_cert := id_field v\<rparr>
      else if one_of key [''remote_cacerts'', ''ca_certificates''] then t\<lparr>tn_remote_cacerts := id_field v\<rparr>
      else if one_of key [''local_ts'', ''local_traffic_selector''] then t\<lparr>tn_local_traffic_selector := id_field v\<rparr>
      else if one_of key [''remote_ts'', ''remote_traffic_selector''] then t\<lparr>tn_remote_traffic_selector := id_field v\<rparr>
      else if one_of key [''protocol''] then t\<lparr>tn_protocol := id_field v\<rparr>
      else if one_of key [''gre_interface''] then t\<lparr>tn_gre_interface := id_field v\<rparr>
      else if one_of key [''gre_outer_local_endpoint''] then t\<lparr>tn_gre_outer_local_endpoint := id_field v\<rparr>
      else if one_of key [''gre_outer_remote_endpoint''] then t\<lparr>tn_gre_outer_remote_endpoint := id_field v\<rparr>
      else if one_of key [''gre_local_address''] then t\<lparr>tn_gre_local_address := id_field v\<rparr>
      else if one_of key [''gre_remote_address''] then t\<lparr>tn_gre_remote_address := id_field v\<rparr>
      else if one_of key [''gre_instance''] then t\<lparr>tn_gre_instance := atoi v\<rparr>
      else if one_of key [''mtu'', ''gre_mtu''] then t\<lparr>tn_gre_mtu := atoi v\<rparr>
      else if one_of key [''vpp_local_sa_id''] then t\<lparr>tn_vpp_local_sa_id := atoi v\<rparr>
      else if one_of key [''vpp_remote_sa_id''] then t\<lparr>tn_vpp_remote_sa_id := atoi v\<rparr>
      else if one_of key [''vpp_local_spi''] then t\<lparr>tn_vpp_local_spi := atoi v\<rparr>
      else if one_of key [''vpp_remote_spi''] then t\<lparr>tn_vpp_remote_spi := atoi v\<rparr>
      else if one_of key [''vpp_crypto_algorithm''] then t\<lparr>tn_vpp_crypto_algorithm := id_field v\<rparr>
      else if one_of key [''vpp_crypto_key''] then t\<lparr>tn_vpp_crypto_key := id_field v\<rparr>
      else if one_of key [''vpp_integrity_algorithm''] then t\<lparr>tn_vpp_integrity_algorithm := id_field v\<rparr>
      else if one_of key [''vpp_integrity_key''] then t\<lparr>tn_vpp_integrity_key := id_field v\<rparr>
      else t)"

definition parse_tunnel_kv :: "string \<Rightarrow> string \<Rightarrow> yaml_parser \<Rightarrow> parsed" where
  "parse_tunnel_kv key v y = through (cur_tunnel y) (bad_line ''tunnel field without tunnel item'') (\<lambda>t.
     Parsed (put_tunnel (tunnel_field key v t) y))"

definition parse_node_kv :: "string \<Rightarrow> string \<Rightarrow> yaml_parser \<Rightarrow> parsed" where
  "parse_node_kv key v y = through (cur_node y) (bad_line ''node field without node item'') (\<lambda>n.
     if one_of key [''id'', ''node_id'', ''name''] then Parsed (put_node (n\<lparr>nd_node_id := id_field v\<rparr>) y)
     else if one_of key [''role''] then Parsed (put_node (n\<lparr>nd_role := id_field v\<rparr>) y)
     else if one_of key [''endpoints'', ''addresses''] then enter YAML_CONTEXT_NODE_ENDPOINTS y
     else if one_of key [''capabilities'', ''capability''] then enter YAML_CONTEXT_NODE_CAPABILITIES y
     else if one_of key [''administrative_state'', ''admin_state''] then
       (if one_of v [''enabled''] then Parsed (put_node (n\<lparr>nd_administrative_state := EN_ADMIN_ENABLED\<rparr>) y)
        else if one_of v [''disabled''] then Parsed (put_node (n\<lparr>nd_administrative_state := EN_ADMIN_DISABLED\<rparr>) y)
        else bad_line ''node administrative_state must be enabled or disabled'')
     else Parsed y)"

definition parse_path_kv :: "string \<Rightarrow> string \<Rightarrow> yaml_parser \<Rightarrow> parsed" where
  "parse_path_kv key v y = through (cur_path y) (bad_line ''path field without path item'') (\<lambda>p.
     if one_of key [''id'', ''path_id''] then Parsed (put_yaml_path (p\<lparr>pt_path_id := id_field v\<rparr>) y)
     else if one_of key [''source''] then Parsed (put_yaml_path (p\<lparr>pt_source := id_field v\<rparr>) y)
     else if one_of key [''destination''] then Parsed (put_yaml_path (p\<lparr>pt_destination := id_field v\<rparr>) y)
     else if one_of key [''route_destination_prefix'', ''dst_prefix'']
     then Parsed (put_yaml_path (p\<lparr>pt_route_destination_prefix := id_field v\<rparr>) y)
     else if one_of key [''route_next_hop'', ''next_hop''] then Parsed (put_yaml_path (p\<lparr>pt_route_next_hop := id_field v\<rparr>) y)
     else if one_of key [''egress_tunnel_id''] then Parsed (put_yaml_path (p\<lparr>pt_egress_tunnel_id := id_field v\<rparr>) y)
     else if one_of key [''priority''] then Parsed (put_yaml_path (p\<lparr>pt_priority := parse_integer v\<rparr>) y)
     else if one_of key [''waypoints''] then enter YAML_CONTEXT_PATH_WAYPOINTS y
     else if one_of key [''segments''] then enter YAML_CONTEXT_PATH_SEGMENTS y
     else if one_of key [''routes''] then enter YAML_CONTEXT_PATH_ROUTES y
     else Parsed y)"

definition parse_segment_kv :: "string \<Rightarrow> string \<Rightarrow> yaml_parser \<Rightarrow> parsed" where
  "parse_segment_kv key v y = through (cur_segment y) (bad_line ''segment field without segment item'') (\<lambda>g.
     if one_of key [''id'', ''segment_id''] then Parsed (put_segment (g\<lparr>sg_segment_id := id_field v\<rparr>) y)
     else if one_of key [''from'', ''from_node''] then Parsed (put_segment (g\<lparr>sg_from_node := id_field v\<rparr>) y)
     else if one_of key [''to'', ''to_node''] then Parsed (put_segment (g\<lparr>sg_to_node := id_field v\<rparr>) y)
     else if one_of key [''tunnel_id''] then Parsed (put_segment (g\<lparr>sg_tunnel_id := id_field v\<rparr>) y)
     else Parsed y)"

definition parse_route_kv :: "string \<Rightarrow> string \<Rightarrow> yaml_parser \<Rightarrow> parsed" where
  "parse_route_kv key v y = through (cur_route y) (bad_line ''route field without route item'') (\<lambda>r.
     if one_of key [''id'', ''route_id''] then Parsed (put_route (r\<lparr>rt_route_id := id_field v\<rparr>) y)
     else if one_of key [''node'', ''node_id''] then Parsed (put_route (r\<lparr>rt_node_id := id_field v\<rparr>) y)
     else if one_of key [''destination_prefix'', ''dst_prefix'', ''prefix'', ''to'']
     then Parsed (put_route (r\<lparr>rt_destination_prefix := id_field v\<rparr>) y)
     else if one_of key [''next_hop'', ''via''] then Parsed (put_route (r\<lparr>rt_next_hop := id_field v\<rparr>) y)
     else if one_of key [''interface'', ''iface'', ''via_interface'']
     then Parsed (put_route (r\<lparr>rt_interface_name := id_field v\<rparr>) y)
     else if one_of key [''table'', ''table_id'', ''vrf''] then Parsed (put_route (r\<lparr>rt_table_id := parse_integer v\<rparr>) y)
     else if one_of key [''metric'', ''preference''] then Parsed (put_route (r\<lparr>rt_metric := parse_integer v\<rparr>) y)
     else Parsed y)"

text \<open>A Boolean field; a word that is none is refused without a message.\<close>

definition with_bool :: "string \<Rightarrow> (bool \<Rightarrow> parsed) \<Rightarrow> parsed" where
  "with_bool v k = (case parse_bool v of None \<Rightarrow> Refused EN_ERR_INVALID_ARGUMENT None | Some b \<Rightarrow> k b)"

definition parse_intent_kv :: "string \<Rightarrow> string \<Rightarrow> yaml_parser \<Rightarrow> parsed" where
  "parse_intent_kv key v y = through (cur_intent y) (bad_line ''intent field without intent item'') (\<lambda>i.
     if one_of key [''id'', ''intent_id''] then Parsed (put_yaml_intent (i\<lparr>it_intent_id := id_field v\<rparr>) y)
     else if one_of key [''block_non_ipsec'']
     then with_bool v (\<lambda>b. Parsed (put_yaml_intent (i\<lparr>it_block_non_ipsec := b\<rparr>) y))
     else if one_of key [''deny_unmatched_vlan'']
     then with_bool v (\<lambda>b. Parsed (put_yaml_intent (i\<lparr>it_deny_unmatched_vlan := b\<rparr>) y))
     else if one_of key [''source''] then Parsed (put_yaml_intent (i\<lparr>it_traffic := (it_traffic i)\<lparr>ts_source := id_field v\<rparr>\<rparr>) y)
     else if one_of key [''destination'']
     then Parsed (put_yaml_intent (i\<lparr>it_traffic := (it_traffic i)\<lparr>ts_destination := id_field v\<rparr>\<rparr>) y)
     else if one_of key [''vlan_id'', ''vlan'', ''vlan_tag'']
     then Parsed (put_yaml_intent (i\<lparr>it_traffic := (it_traffic i)\<lparr>ts_has_vlan_id := True, ts_vlan_id := parse_integer v\<rparr>\<rparr>) y)
     else Parsed y)"

text \<open>
  The remaining functions dereference the intent without a check. Where they do so for some keys only,
  the model counts every key as a dereference.
\<close>

definition parse_selection_kv :: "string \<Rightarrow> string \<Rightarrow> yaml_parser \<Rightarrow> parsed" where
  "parse_selection_kv key v y =
     (if one_of key [''mode''] then through (cur_intent y) Undefined (\<lambda>i.
        case parse_selection_mode v of
          None \<Rightarrow> bad_line ''unknown path selection mode''
        | Some m \<Rightarrow> Parsed (put_yaml_intent (i\<lparr>it_path_selection := (it_path_selection i)\<lparr>ps_mode := m\<rparr>\<rparr>) y))
      else if one_of key [''path_id''] then through (cur_intent y) Undefined (\<lambda>i.
        Parsed (put_yaml_intent (i\<lparr>it_path_selection := (it_path_selection i)\<lparr>ps_path_id := id_field v\<rparr>\<rparr>) y))
      else if one_of key [''candidates''] then enter YAML_CONTEXT_INTENT_CANDIDATES y
      else if one_of key [''comparison_order''] then enter YAML_CONTEXT_INTENT_COMPARISON_ORDER y
      else if one_of key [''constraints''] then enter YAML_CONTEXT_INTENT_CONSTRAINTS y
      else Parsed y)"

definition put_constraints :: "en_intent \<Rightarrow> en_path_constraints \<Rightarrow> yaml_parser \<Rightarrow> yaml_parser" where
  "put_constraints i k = put_yaml_intent (i\<lparr>it_path_selection := (it_path_selection i)\<lparr>ps_constraints := k\<rparr>\<rparr>)"

definition constraints_field :: "string \<Rightarrow> string \<Rightarrow> en_path_constraints \<Rightarrow> en_path_constraints" where
  "constraints_field key v k =
     (if one_of key [''max_rtt_ms''] then k\<lparr>pc_has_max_rtt_ms := True, pc_max_rtt_ms := parse_number v\<rparr>
      else if one_of key [''max_packet_loss_percent'']
      then k\<lparr>pc_has_max_packet_loss_percent := True, pc_max_packet_loss_percent := parse_number v\<rparr>
      else if one_of key [''failure_threshold''] then k\<lparr>pc_failure_threshold := parse_integer v\<rparr>
      else if one_of key [''recovery_threshold''] then k\<lparr>pc_recovery_threshold := parse_integer v\<rparr>
      else if one_of key [''hold_down_ms''] then k\<lparr>pc_hold_down_ms := parse_integer v\<rparr>
      else if one_of key [''hysteresis_percent'']
      then k\<lparr>pc_has_hysteresis_percent := True, pc_hysteresis_percent := parse_number v\<rparr>
      else k)"

definition parse_constraints_kv :: "string \<Rightarrow> string \<Rightarrow> yaml_parser \<Rightarrow> parsed" where
  "parse_constraints_kv key v y = through (cur_intent y) Undefined (\<lambda>i.
     Parsed (put_constraints i (constraints_field key v (ps_constraints (it_path_selection i))) y))"

definition put_transition :: "en_intent \<Rightarrow> en_transition_policy \<Rightarrow> yaml_parser \<Rightarrow> yaml_parser" where
  "put_transition i t = put_yaml_intent (i\<lparr>it_transition := t\<rparr>)"

definition parse_transition_kv :: "string \<Rightarrow> string \<Rightarrow> yaml_parser \<Rightarrow> parsed" where
  "parse_transition_kv key v y = through (cur_intent y) Undefined (\<lambda>i. let t = it_transition i in
     if one_of key [''strategy''] then
       (case parse_transition_strategy v of
          None \<Rightarrow> Refused EN_ERR_INVALID_ARGUMENT None
        | Some s \<Rightarrow> Parsed (put_transition i (t\<lparr>tp_strategy := s\<rparr>) y))
     else if one_of key [''max_pause_ms''] then Parsed (put_transition i (t\<lparr>tp_max_pause_ms := parse_integer v\<rparr>) y)
     else if one_of key [''drain_timeout_ms''] then Parsed (put_transition i (t\<lparr>tp_drain_timeout_ms := parse_integer v\<rparr>) y)
     else if one_of key [''timeout_ms''] then Parsed (put_transition i (t\<lparr>tp_timeout_ms := parse_integer v\<rparr>) y)
     else if one_of key [''retry_count''] then Parsed (put_transition i (t\<lparr>tp_retry_count := parse_integer v\<rparr>) y)
     else if one_of key [''retry_backoff_ms''] then Parsed (put_transition i (t\<lparr>tp_retry_backoff_ms := parse_integer v\<rparr>) y)
     else Parsed y)"

definition parse_fallback_kv :: "string \<Rightarrow> string \<Rightarrow> yaml_parser \<Rightarrow> parsed" where
  "parse_fallback_kv key v y = through (cur_intent y) Undefined (\<lambda>i.
     if one_of key [''enabled''] then with_bool v (\<lambda>b.
       Parsed (put_yaml_intent (i\<lparr>it_fallback := (it_fallback i)\<lparr>fp_enabled := b\<rparr>\<rparr>) y))
     else if one_of key [''path_id'']
     then Parsed (put_yaml_intent (i\<lparr>it_fallback := (it_fallback i)\<lparr>fp_path_id := id_field v\<rparr>\<rparr>) y)
     else Parsed y)"

section \<open>List items\<close>

text \<open>
  An item of a list: its key and value if it has a colon, and the text that is left of it. \<open>item_text\<close> is
  what the code reads after the split, which cut the item at the colon.
\<close>

type_synonym yaml_item = "(string \<times> string) option \<times> string"

definition item_of :: "string \<Rightarrow> yaml_item" where
  "item_of s = (case split_key_value s of None \<Rightarrow> (None, s) | Some (k, v) \<Rightarrow> (Some (k, v), k))"

definition item_too_long :: "yaml_item \<Rightarrow> bool" where
  "item_too_long it = (case it of (Some (k, v), s) \<Rightarrow> EN_MAX_ID_LEN \<le> length v | (None, s) \<Rightarrow> EN_MAX_ID_LEN \<le> length s)"

definition first_field :: "(string \<Rightarrow> string \<Rightarrow> yaml_parser \<Rightarrow> parsed) \<Rightarrow> yaml_item \<Rightarrow> yaml_parser \<Rightarrow> parsed" where
  "first_field parse it y = (case fst it of None \<Rightarrow> Parsed y | Some (k, v) \<Rightarrow> parse k v y)"

text \<open>An entry of a list of identifiers of capacity \<open>cap\<close>.\<close>

definition push :: "nat \<Rightarrow> string \<Rightarrow> string list \<Rightarrow> yaml_item \<Rightarrow> (string list \<Rightarrow> parsed) \<Rightarrow> parsed" where
  "push cap message xs it k =
     (if cap \<le> length xs then bad_line message else k (xs @ [id_field (clean_scalar (snd it))]))"

abbreviation unexpected_item :: parsed where
  "unexpected_item \<equiv> bad_line ''unexpected list item''"

definition parse_node_item :: "nat \<Rightarrow> yaml_item \<Rightarrow> yaml_parser \<Rightarrow> parsed" where
  "parse_node_item indent it y =
     (let c = ys_config y in
      if indent = 2 then
        (if EN_MAX_NODES \<le> length (yc_nodes c) then bad_line ''too many nodes''
         else first_field parse_node_kv it (y\<lparr>ys_node := Some (length (yc_nodes c)),
            ys_config := c\<lparr>yc_nodes := yc_nodes c @ [zero_node\<lparr>nd_administrative_state := EN_ADMIN_ENABLED\<rparr>]\<rparr>,
            ys_context := YAML_CONTEXT_NONE\<rparr>))
      else if ys_context y = YAML_CONTEXT_NODE_ENDPOINTS then
        through (cur_node y) (bad_line ''too many node endpoints'') (\<lambda>n.
          push EN_MAX_ENDPOINTS ''too many node endpoints'' (nd_endpoints n) it (\<lambda>xs.
            Parsed (put_node (n\<lparr>nd_endpoints := xs\<rparr>) y)))
      else if ys_context y = YAML_CONTEXT_NODE_CAPABILITIES then
        through (cur_node y) (bad_line ''too many node capabilities'') (\<lambda>n.
          push EN_MAX_CAPABILITIES ''too many node capabilities'' (nd_capabilities n) it (\<lambda>xs.
            Parsed (put_node (n\<lparr>nd_capabilities := xs\<rparr>) y)))
      else unexpected_item)"

definition new_tunnel :: en_tunnel where
  "new_tunnel = zero_tunnel\<lparr>tn_protocol := ''ipsec'', tn_tunnel_type := ''ipsec'', tn_gre_instance := - 1,
     tn_vpp_local_sa_id := - 1, tn_vpp_remote_sa_id := - 1, tn_vpp_local_spi := - 1, tn_vpp_remote_spi := - 1,
     tn_auth_method := ''psk'', tn_state := EN_TUNNEL_CONFIGURED, tn_health := EN_HEALTH_UNKNOWN\<rparr>"

definition parse_tunnel_item :: "nat \<Rightarrow> yaml_item \<Rightarrow> yaml_parser \<Rightarrow> parsed" where
  "parse_tunnel_item indent it y =
     (let c = ys_config y in
      if indent = 2 then
        (if EN_MAX_TUNNELS \<le> length (yc_tunnels c) then bad_line ''too many tunnels''
         else first_field parse_tunnel_kv it (y\<lparr>ys_tunnel := Some (length (yc_tunnels c)),
            ys_config := c\<lparr>yc_tunnels := yc_tunnels c @ [new_tunnel]\<rparr>, ys_context := YAML_CONTEXT_NONE\<rparr>))
      else unexpected_item)"

definition parse_path_item :: "nat \<Rightarrow> yaml_item \<Rightarrow> yaml_parser \<Rightarrow> parsed" where
  "parse_path_item indent it y =
     (let c = ys_config y in
      if indent = 2 then
        (if EN_MAX_PATHS \<le> length (yc_paths c) then bad_line ''too many paths''
         else first_field parse_path_kv it (y\<lparr>ys_path := Some (length (yc_paths c)),
            ys_config := c\<lparr>yc_paths := yc_paths c @ [zero_path\<lparr>pt_administrative_state := EN_ADMIN_ENABLED,
              pt_operational_state := EN_PATH_UNKNOWN\<rparr>]\<rparr>, ys_context := YAML_CONTEXT_NONE\<rparr>))
      else if ys_context y = YAML_CONTEXT_PATH_WAYPOINTS then
        through (cur_path y) (bad_line ''too many path waypoints'') (\<lambda>p.
          push EN_MAX_WAYPOINTS ''too many path waypoints'' (pt_waypoints p) it (\<lambda>xs.
            Parsed (put_yaml_path (p\<lparr>pt_waypoints := xs\<rparr>) y)))
      else if ys_context y = YAML_CONTEXT_PATH_SEGMENTS then
        through (cur_path y) (bad_line ''too many path segments'') (\<lambda>p.
          if EN_MAX_SEGMENTS \<le> length (pt_segments p) then bad_line ''too many path segments''
          else first_field parse_segment_kv it
            ((put_yaml_path (p\<lparr>pt_segments := pt_segments p @ [zero_segment]\<rparr>) y)
              \<lparr>ys_segment := map_option (\<lambda>i. (i, length (pt_segments p))) (ys_path y)\<rparr>))
      else if ys_context y = YAML_CONTEXT_PATH_ROUTES then
        through (cur_path y) (bad_line ''too many path routes'') (\<lambda>p.
          if EN_MAX_ROUTES \<le> length (pt_routes p) then bad_line ''too many path routes''
          else first_field parse_route_kv it
            ((put_yaml_path (p\<lparr>pt_routes := pt_routes p @ [zero_route\<lparr>rt_table_id := - 1, rt_metric := - 1\<rparr>],
                pt_routes_explicit := True\<rparr>) y)
              \<lparr>ys_route := map_option (\<lambda>i. (i, length (pt_routes p))) (ys_path y)\<rparr>))
      else unexpected_item)"

definition new_intent :: en_intent where
  "new_intent = zero_intent\<lparr>it_transition := (it_transition zero_intent)\<lparr>tp_strategy := EN_TRANSITION_IMMEDIATE,
     tp_max_pause_ms := 50, tp_drain_timeout_ms := 40, tp_timeout_ms := 5000\<rparr>,
     it_fallback := (it_fallback zero_intent)\<lparr>fp_enabled := True\<rparr>\<rparr>"

definition parse_intent_item :: "nat \<Rightarrow> yaml_item \<Rightarrow> yaml_parser \<Rightarrow> parsed" where
  "parse_intent_item indent it y =
     (let c = ys_config y in
      if indent = 2 then
        (if EN_MAX_CANDIDATES \<le> length (yc_intents c) then bad_line ''too many intents''
         else first_field parse_intent_kv it (y\<lparr>ys_intent := Some (length (yc_intents c)),
            ys_config := c\<lparr>yc_intents := yc_intents c @ [new_intent]\<rparr>, ys_context := YAML_CONTEXT_NONE\<rparr>))
      else if ys_context y = YAML_CONTEXT_INTENT_CANDIDATES then
        through (cur_intent y) (bad_line ''too many path candidates'') (\<lambda>i. let sel = it_path_selection i in
          push EN_MAX_CANDIDATES ''too many path candidates'' (ps_candidates sel) it (\<lambda>xs.
            Parsed (put_yaml_intent (i\<lparr>it_path_selection := sel\<lparr>ps_candidates := xs\<rparr>\<rparr>) y)))
      else if ys_context y = YAML_CONTEXT_INTENT_FORBIDDEN_WAYPOINTS then
        through (cur_intent y) Undefined (\<lambda>i. let k = ps_constraints (it_path_selection i) in
          push EN_MAX_WAYPOINTS ''too many forbidden waypoints'' (pc_forbidden_waypoints k) it (\<lambda>xs.
            Parsed (put_constraints i (k\<lparr>pc_forbidden_waypoints := xs\<rparr>) y)))
      else if ys_context y = YAML_CONTEXT_INTENT_REQUIRED_WAYPOINTS then
        through (cur_intent y) Undefined (\<lambda>i. let k = ps_constraints (it_path_selection i) in
          push EN_MAX_WAYPOINTS ''too many required waypoints'' (pc_required_waypoints k) it (\<lambda>xs.
            Parsed (put_constraints i (k\<lparr>pc_required_waypoints := xs\<rparr>) y)))
      else if ys_context y = YAML_CONTEXT_INTENT_REQUIRED_CAPABILITIES then
        through (cur_intent y) Undefined (\<lambda>i. let k = ps_constraints (it_path_selection i) in
          push EN_MAX_CAPABILITIES ''too many required capabilities'' (pc_required_capabilities k) it (\<lambda>xs.
            Parsed (put_constraints i (k\<lparr>pc_required_capabilities := xs\<rparr>) y)))
      else if ys_context y = YAML_CONTEXT_INTENT_COMPARISON_ORDER then
        through (cur_intent y) Undefined (\<lambda>i. let sel = it_path_selection i in
          if EN_MAX_COMPARISONS \<le> length (ps_comparison_order sel) then bad_line ''too many comparison keys''
          else case parse_comparison_key (clean_scalar (snd it)) of
            None \<Rightarrow> bad_line ''unknown comparison key''
          | Some k \<Rightarrow> Parsed (put_yaml_intent (i\<lparr>it_path_selection :=
              sel\<lparr>ps_comparison_order := ps_comparison_order sel @ [k]\<rparr>\<rparr>) y))
      else unexpected_item)"

definition new_vpp_edge_item :: "yaml_item \<Rightarrow> yaml_parser \<Rightarrow> parsed" where
  "new_vpp_edge_item it y =
     (let c = ys_config y in
      if EN_MAX_VPP_EDGES \<le> length (yc_vpp_edges c) then bad_line ''too many vpp edges''
      else first_field parse_vpp_edge_kv it (y\<lparr>ys_vpp_edge := Some (length (yc_vpp_edges c)),
         ys_config := c\<lparr>yc_vpp_edges := yc_vpp_edges c @ [zero_vpp_edge]\<rparr>, ys_context := YAML_CONTEXT_NONE\<rparr>))"

definition allowed_vlan_item :: "yaml_item \<Rightarrow> yaml_parser \<Rightarrow> parsed" where
  "allowed_vlan_item it y =
     through (cur_vpp_edge y) (bad_line ''too many allowed VLANs'') (\<lambda>e.
       let vlan_id = parse_integer (clean_scalar (snd it)) in
       if EN_MAX_ALLOWED_VLANS \<le> length (ve_allowed_vlans e) then bad_line ''too many allowed VLANs''
       else if vlan_id < 1 \<or> 4094 < vlan_id then bad_line ''allowed VLAN must be between 1 and 4094''
       else if list_ex (\<lambda>w. w = vlan_id) (ve_allowed_vlans e) then bad_line ''duplicate allowed VLAN''
       else Parsed (put_vpp_edge (e\<lparr>ve_allowed_vlans := ve_allowed_vlans e @ [vlan_id]\<rparr>) y))"

definition parse_vpp_edge_item :: "nat \<Rightarrow> yaml_item \<Rightarrow> yaml_parser \<Rightarrow> parsed" where
  "parse_vpp_edge_item indent it y =
     (if indent = 2 then new_vpp_edge_item it y
      else if ys_context y = YAML_CONTEXT_VPP_EDGE_ALLOWED_VLANS then allowed_vlan_item it y
      else unexpected_item)"

text \<open>A line \<open>- item\<close>. The code tests section and context together; each test names one section.\<close>

definition parse_item :: "nat \<Rightarrow> string \<Rightarrow> yaml_parser \<Rightarrow> parsed" where
  "parse_item indent s y =
     (let it = item_of s in
      if item_too_long it then bad_line ''YAML value exceeds fixed field capacity''
      else case ys_top y of
        YAML_SECTION_NODES \<Rightarrow> parse_node_item indent it y
      | YAML_SECTION_TUNNELS \<Rightarrow> parse_tunnel_item indent it y
      | YAML_SECTION_PATHS \<Rightarrow> parse_path_item indent it y
      | YAML_SECTION_INTENTS \<Rightarrow> parse_intent_item indent it y
      | YAML_SECTION_VPP_EDGES \<Rightarrow> parse_vpp_edge_item indent it y
      | YAML_SECTION_NONE \<Rightarrow> unexpected_item)"

section \<open>Fields of an item\<close>

definition leave_list :: "nat \<Rightarrow> yaml_parser \<Rightarrow> yaml_parser" where
  "leave_list indent y =
     (if (ys_context y = YAML_CONTEXT_INTENT_CANDIDATES \<or> ys_context y = YAML_CONTEXT_INTENT_COMPARISON_ORDER \<or>
          ys_context y = YAML_CONTEXT_INTENT_FORBIDDEN_WAYPOINTS \<or> ys_context y = YAML_CONTEXT_INTENT_REQUIRED_WAYPOINTS \<or>
          ys_context y = YAML_CONTEXT_INTENT_REQUIRED_CAPABILITIES) \<and> indent \<le> ys_list_indent y
      then y\<lparr>ys_context := ys_list_parent y\<rparr> else y)"

definition parse_intent_entry :: "nat \<Rightarrow> string \<Rightarrow> string \<Rightarrow> yaml_parser \<Rightarrow> parsed" where
  "parse_intent_entry indent key v z =
     (if cur_intent z = None then bad_line ''intent field without intent item''
      else let y = leave_list indent z in
        if one_of key [''id'', ''intent_id'', ''block_non_ipsec'', ''deny_unmatched_vlan''] then parse_intent_kv key v y
        else if one_of key [''traffic''] then enter YAML_CONTEXT_INTENT_TRAFFIC y
        else if one_of key [''path_selection''] then enter YAML_CONTEXT_INTENT_SELECTION y
        else if one_of key [''candidates'']
        then enter_list YAML_CONTEXT_INTENT_SELECTION indent YAML_CONTEXT_INTENT_CANDIDATES y
        else if one_of key [''constraints''] then enter YAML_CONTEXT_INTENT_CONSTRAINTS y
        else if one_of key [''comparison_order'']
        then enter_list YAML_CONTEXT_INTENT_SELECTION indent YAML_CONTEXT_INTENT_COMPARISON_ORDER y
        else if one_of key [''transition''] then enter YAML_CONTEXT_INTENT_TRANSITION y
        else if one_of key [''fallback''] then enter YAML_CONTEXT_INTENT_FALLBACK y
        else case ys_context y of
          YAML_CONTEXT_INTENT_TRAFFIC \<Rightarrow> parse_intent_kv key v y
        | YAML_CONTEXT_INTENT_SELECTION \<Rightarrow> parse_selection_kv key v y
        | YAML_CONTEXT_INTENT_CONSTRAINTS \<Rightarrow>
            (if one_of key [''forbidden_waypoints'']
             then enter_list YAML_CONTEXT_INTENT_CONSTRAINTS indent YAML_CONTEXT_INTENT_FORBIDDEN_WAYPOINTS y
             else if one_of key [''required_waypoints'']
             then enter_list YAML_CONTEXT_INTENT_CONSTRAINTS indent YAML_CONTEXT_INTENT_REQUIRED_WAYPOINTS y
             else if one_of key [''required_capabilities'', ''capabilities'']
             then enter_list YAML_CONTEXT_INTENT_CONSTRAINTS indent YAML_CONTEXT_INTENT_REQUIRED_CAPABILITIES y
             else parse_constraints_kv key v y)
        | YAML_CONTEXT_INTENT_TRANSITION \<Rightarrow> parse_transition_kv key v y
        | YAML_CONTEXT_INTENT_FALLBACK \<Rightarrow> parse_fallback_kv key v y
        | _ \<Rightarrow> parse_intent_kv key v y)"

definition parse_entry :: "nat \<Rightarrow> string \<Rightarrow> yaml_parser \<Rightarrow> parsed" where
  "parse_entry indent s y =
     (case split_key_value s of
        None \<Rightarrow> bad_line ''expected key: value''
      | Some (key, v) \<Rightarrow>
          if EN_MAX_ID_LEN \<le> length v then bad_line ''YAML value exceeds fixed field capacity''
          else case ys_top y of
            YAML_SECTION_TUNNELS \<Rightarrow> parse_tunnel_kv key v y
          | YAML_SECTION_NODES \<Rightarrow> parse_node_kv key v y
          | YAML_SECTION_PATHS \<Rightarrow>
              (if ys_context y = YAML_CONTEXT_PATH_SEGMENTS \<and> ys_segment y \<noteq> None \<and> 6 \<le> indent
               then parse_segment_kv key v y
               else if ys_context y = YAML_CONTEXT_PATH_ROUTES \<and> ys_route y \<noteq> None \<and> 6 \<le> indent
               then parse_route_kv key v y
               else parse_path_kv key v y)
          | YAML_SECTION_VPP_EDGES \<Rightarrow> parse_vpp_edge_kv key v y
          | YAML_SECTION_INTENTS \<Rightarrow> parse_intent_entry indent key v y
          | YAML_SECTION_NONE \<Rightarrow> Parsed y)"

section \<open>Lines and files\<close>

text \<open>A section header leaves the section without a current item.\<close>

definition open_section :: "string \<Rightarrow> yaml_parser \<Rightarrow> yaml_parser option" where
  "open_section s y =
     (if strcmp s ''nodes:'' = 0
      then Some (y\<lparr>ys_top := YAML_SECTION_NODES, ys_context := YAML_CONTEXT_NONE, ys_node := None\<rparr>)
      else if strcmp s ''tunnels:'' = 0
      then Some (y\<lparr>ys_top := YAML_SECTION_TUNNELS, ys_context := YAML_CONTEXT_NONE, ys_tunnel := None\<rparr>)
      else if strcmp s ''paths:'' = 0
      then Some (y\<lparr>ys_top := YAML_SECTION_PATHS, ys_context := YAML_CONTEXT_NONE, ys_path := None\<rparr>)
      else if strcmp s ''intents:'' = 0
      then Some (y\<lparr>ys_top := YAML_SECTION_INTENTS, ys_context := YAML_CONTEXT_NONE, ys_intent := None\<rparr>)
      else if strcmp s ''vpp_edges:'' = 0
      then Some (y\<lparr>ys_top := YAML_SECTION_VPP_EDGES, ys_context := YAML_CONTEXT_NONE, ys_vpp_edge := None\<rparr>)
      else None)"

definition parse_line :: "string \<Rightarrow> yaml_parser \<Rightarrow> parsed" where
  "parse_line line y =
     (let l = strip_comment line; indent = indent_of l; s = trim l in
      if s = [] then Parsed y
      else case (if indent = 0 then open_section s y else None) of
        Some y' \<Rightarrow> Parsed y'
      | None \<Rightarrow>
          if ys_top y = YAML_SECTION_NONE
          then bad_line ''expected top-level nodes:, tunnels:, paths:, intents:, or vpp_edges:''
          else if starts_with s ''- '' then parse_item indent (trim (drop 2 s)) y
          else parse_entry indent s y)"

text \<open>
  The loop over the lines. A line is what \<open>fgets\<close> reads without its line feed, which \<open>trim\<close> would remove
  as white space; the buffer of 512 bytes holds it with the line feed if it has at most 510 bytes, and a
  last line without one is refused at 511 bytes as well. The text has no NUL bytes.
\<close>

fun parse_lines :: "nat \<Rightarrow> nat \<Rightarrow> string list \<Rightarrow> yaml_parser \<Rightarrow> (nat \<times> yaml_parser) outcome" where
  "parse_lines error_len line_no [] y = Parsed (line_no, y)"
| "parse_lines error_len line_no (l # ls) y =
     (if 511 \<le> length l
      then bad_line (set_error error_len (Suc line_no) ''YAML physical line exceeds capacity'')
      else case parse_line l y of
        Parsed y' \<Rightarrow> parse_lines error_len (Suc line_no) ls y'
      | Refused e m \<Rightarrow> Refused e (map_option (set_error error_len (Suc line_no)) m)
      | Undefined \<Rightarrow> Undefined)"

definition normalize_path :: "en_yaml_config \<Rightarrow> en_path \<Rightarrow> en_path" where
  "normalize_path c p0 =
     (let p1 = (if pt_egress_tunnel_id p0 = [] \<and> 0 < length (pt_segments p0)
                then p0\<lparr>pt_egress_tunnel_id := id_field (sg_tunnel_id (pt_segments p0 ! 0))\<rparr> else p0);
          tunnel = yaml_find_tunnel c (pt_egress_tunnel_id p1);
          p2 = (case tunnel of Some t \<Rightarrow>
                  if pt_route_destination_prefix p1 = [] \<and> tn_remote_traffic_selector t \<noteq> []
                  then p1\<lparr>pt_route_destination_prefix := id_field (tn_remote_traffic_selector t)\<rparr> else p1
                | None \<Rightarrow> p1);
          p3 = (case tunnel of Some t \<Rightarrow>
                  if pt_route_next_hop p2 = [] \<and> tn_remote_endpoint t \<noteq> []
                  then p2\<lparr>pt_route_next_hop := id_field (tn_remote_endpoint t)\<rparr> else p2
                | None \<Rightarrow> p2);
          p4 = (if length (pt_routes p3) = 0 \<and> pt_route_destination_prefix p3 \<noteq> []
                then p3\<lparr>pt_routes := [zero_route\<lparr>rt_route_id := ''default'', rt_node_id := id_field (pt_source p3),
                  rt_destination_prefix := id_field (pt_route_destination_prefix p3),
                  rt_next_hop := id_field (pt_route_next_hop p3), rt_table_id := - 1, rt_metric := - 1\<rparr>]\<rparr>
                else p3);
          p5 = (if pt_route_destination_prefix p4 = [] \<and> 0 < length (pt_routes p4)
                then p4\<lparr>pt_route_destination_prefix := id_field (rt_destination_prefix (pt_routes p4 ! 0))\<rparr> else p4)
      in if pt_route_next_hop p5 = [] \<and> 0 < length (pt_routes p5)
         then p5\<lparr>pt_route_next_hop := id_field (rt_next_hop (pt_routes p5 ! 0))\<rparr> else p5)"

definition normalize_edge :: "en_vpp_edge \<Rightarrow> en_vpp_edge" where
  "normalize_edge e0 =
     (let e1 = (if ve_vpp_interface e0 = [] \<and> ve_host_interface e0 \<noteq> []
                then e0\<lparr>ve_vpp_interface := fit EN_MAX_ID_LEN (''host-'' @ take 58 (id_field (ve_host_interface e0)))\<rparr> else e0)
      in if ve_next_hop e1 = [] \<and> ve_namespace_address e1 \<noteq> []
         then e1\<lparr>ve_next_hop := copy_address_without_cidr EN_MAX_ID_LEN (ve_namespace_address e1)\<rparr> else e1)"

definition yaml_normalize :: "en_yaml_config \<Rightarrow> en_yaml_config" where
  "yaml_normalize c = c\<lparr>yc_paths := map (normalize_path c) (yc_paths c),
     yc_vpp_edges := map normalize_edge (yc_vpp_edges c)\<rparr>"

text \<open>
  \<open>fopen\<close> gives \<open>None\<close> when the file cannot be opened, otherwise the text that can be read and whether
  reading ended in an error. Without a filename or a configuration the call is refused; \<open>dest\<close> says
  whether there is a configuration to fill.
\<close>

definition en_yaml_config_load_file ::
  "(string \<Rightarrow> (string \<times> bool) option) \<Rightarrow> string option \<Rightarrow> bool \<Rightarrow> nat \<Rightarrow> en_yaml_config outcome" where
  "en_yaml_config_load_file fopen filename dest error_len =
     (case filename of
        None \<Rightarrow> bad_line (set_error error_len 0 ''invalid argument'')
      | Some f \<Rightarrow>
          if \<not> dest then bad_line (set_error error_len 0 ''invalid argument'')
          else case fopen f of
            None \<Rightarrow> Refused EN_ERR_NOT_FOUND (Some (set_error error_len 0 ''failed to open yaml file''))
          | Some (s, read_error) \<Rightarrow>
              (case parse_lines error_len 0 (split_lines s) initial_parser of
                 Refused e m \<Rightarrow> Refused e m
               | Undefined \<Rightarrow> Undefined
               | Parsed (line_no, y) \<Rightarrow>
                   if read_error
                   then Refused EN_ERR_STATE_CONFLICT (Some (set_error error_len line_no ''failed to read YAML file''))
                   else let c = yaml_normalize (ys_config y) in
                     case en_yaml_config_validate (Some c) of
                       Some (e, m) \<Rightarrow> Refused e (Some (set_error error_len 0 m))
                     | None \<Rightarrow> Parsed c))"

end
