(* ===== verification/YamlSafety.thy ===== *)
theory YamlSafety
  imports YamlParse
begin

text \<open>
  The configuration reader stays inside its arrays: every pointer of the parser refers to an item that
  exists, every list is within its capacity, and no pointer is dereferenced when it is \<open>NULL\<close>. The
  invariant \<open>parser_ok\<close> is kept by every line of every file.
\<close>

section \<open>The invariant\<close>

definition within_capacity :: "en_yaml_config \<Rightarrow> bool" where
  "within_capacity c \<longleftrightarrow> config_counts_valid c \<and> list_all wf_node (yc_nodes c) \<and>
     list_all en_path_counts_valid (yc_paths c) \<and> list_all en_intent_counts_valid (yc_intents c) \<and>
     list_all (\<lambda>e. length (ve_allowed_vlans e) \<le> EN_MAX_ALLOWED_VLANS) (yc_vpp_edges c)"

definition points_into :: "nat option \<Rightarrow> 'a list \<Rightarrow> bool" where
  "points_into p xs \<longleftrightarrow> (case p of None \<Rightarrow> True | Some i \<Rightarrow> i < length xs)"

definition points_inside :: "(nat \<times> nat) option \<Rightarrow> en_path list \<Rightarrow> (en_path \<Rightarrow> 'a list) \<Rightarrow> bool" where
  "points_inside p ps f \<longleftrightarrow> (case p of None \<Rightarrow> True | Some (i, j) \<Rightarrow> i < length ps \<and> j < length (f (ps ! i)))"

text \<open>The contexts in which an item dereferences the current intent.\<close>

definition intent_list :: "yaml_context \<Rightarrow> bool" where
  "intent_list c \<longleftrightarrow> c = YAML_CONTEXT_INTENT_FORBIDDEN_WAYPOINTS \<or> c = YAML_CONTEXT_INTENT_REQUIRED_WAYPOINTS \<or>
     c = YAML_CONTEXT_INTENT_REQUIRED_CAPABILITIES \<or> c = YAML_CONTEXT_INTENT_COMPARISON_ORDER"

definition pointers_ok :: "yaml_parser \<Rightarrow> bool" where
  "pointers_ok y \<longleftrightarrow> (let c = ys_config y in
     points_into (ys_node y) (yc_nodes c) \<and> points_into (ys_tunnel y) (yc_tunnels c) \<and>
     points_into (ys_path y) (yc_paths c) \<and> points_into (ys_intent y) (yc_intents c) \<and>
     points_into (ys_vpp_edge y) (yc_vpp_edges c) \<and>
     points_inside (ys_segment y) (yc_paths c) pt_segments \<and> points_inside (ys_route y) (yc_paths c) pt_routes)"

definition parser_ok :: "yaml_parser \<Rightarrow> bool" where
  "parser_ok y \<longleftrightarrow> within_capacity (ys_config y) \<and> pointers_ok y \<and>
     (intent_list (ys_context y) \<longrightarrow> ys_intent y \<noteq> None)"

definition safe :: "parsed \<Rightarrow> bool" where
  "safe r \<longleftrightarrow> (case r of Parsed y \<Rightarrow> parser_ok y | Refused e m \<Rightarrow> True | Undefined \<Rightarrow> False)"

named_theorems safe_rules \<open>outcomes that keep the invariant\<close>

lemma safe_simps [simp]: "safe (Parsed y) = parser_ok y" "safe (Refused e m)" "\<not> safe Undefined"
  by (simp_all add: safe_def)

lemma safe_Parsed [safe_rules]: "parser_ok y \<Longrightarrow> safe (Parsed y)"
  by simp

lemma safe_Refused [safe_rules]: "safe (Refused e m)"
  by simp

lemma safe_if [safe_rules]: "(b \<Longrightarrow> safe f) \<Longrightarrow> (\<not> b \<Longrightarrow> safe g) \<Longrightarrow> safe (if b then f else g)"
  by simp

lemma safe_through [safe_rules]:
  "(item = None \<Longrightarrow> safe null) \<Longrightarrow> (\<And>x. item = Some x \<Longrightarrow> safe (k x)) \<Longrightarrow> safe (through item null k)"
  by (cases item) (simp_all add: through_def)

lemma safe_case_option [safe_rules]:
  "(x = None \<Longrightarrow> safe f) \<Longrightarrow> (\<And>z. x = Some z \<Longrightarrow> safe (g z)) \<Longrightarrow> safe (case x of None \<Rightarrow> f | Some z \<Rightarrow> g z)"
  by (cases x) simp_all

lemma safe_with_bool [safe_rules]: "(\<And>b. safe (k b)) \<Longrightarrow> safe (with_bool v k)"
  by (auto simp: with_bool_def split: option.splits)

lemma safe_push [safe_rules]:
  "(\<And>x. length xs < cap \<Longrightarrow> safe (k (xs @ [x]))) \<Longrightarrow> safe (push cap message xs it k)"
  by (simp add: push_def)

lemma safe_enter [safe_rules]: "parser_ok (y\<lparr>ys_context := c\<rparr>) \<Longrightarrow> safe (enter c y)"
  by (simp add: enter_def)

lemma safe_enter_list [safe_rules]:
  "parser_ok (y\<lparr>ys_list_parent := parent, ys_list_indent := indent, ys_context := c\<rparr>) \<Longrightarrow>
   safe (enter_list parent indent c y)"
  by (simp add: enter_list_def)

section \<open>Reading and writing keep the invariant\<close>

lemma points_into_simps [simp]:
  "points_into None xs" "points_into (Some (length xs)) (xs @ [x])"
  "points_into p (store xs q x) = points_into p xs"
  "points_into p xs \<Longrightarrow> points_into p (xs @ ys)"
  by (auto simp: points_into_def store_def split: option.splits)

lemma points_inside_simps [simp]:
  "points_inside None ps f" "points_inside p ps f \<Longrightarrow> points_inside p (ps @ [q]) f"
  by (auto simp: points_inside_def nth_append split: option.splits)

lemma store_length [simp]: "length (store xs p x) = length xs"
  by (simp add: store_def split: option.splits)

lemma list_all_store: "list_all P xs \<Longrightarrow> P x \<Longrightarrow> list_all P (store xs p x)"
  by (simp add: store_def list_all_update split: option.splits)

lemma deref_ok: "points_into p xs \<Longrightarrow> list_all P xs \<Longrightarrow> deref xs p = Some x \<Longrightarrow> P x"
  by (auto simp: deref_def points_into_def list_all_length split: option.splits)

lemma points_inside_update:
  "points_inside q ps f \<Longrightarrow> length (f (ps ! i)) \<le> length (f p) \<Longrightarrow> points_inside q (ps[i := p]) f"
  by (auto simp: points_inside_def nth_list_update split: option.splits)
    (metis le_trans not_le nth_list_update_eq nth_list_update_neq)

lemma points_inside_store:
  "points_inside q ps f \<Longrightarrow> deref ps p = Some z \<Longrightarrow> length (f z) \<le> length (f x) \<Longrightarrow> points_inside q (store ps p x) f"
  by (auto simp: store_def deref_def points_inside_update split: option.splits)

lemmas capacity_defs = within_capacity_def config_counts_valid_def

lemma ok_put_node:
  "parser_ok y \<Longrightarrow> wf_node n \<Longrightarrow> parser_ok (put_node n y)"
  by (simp add: parser_ok_def put_node_def Let_def capacity_defs pointers_ok_def list_all_store)

lemma ok_put_tunnel: "parser_ok y \<Longrightarrow> parser_ok (put_tunnel t y)"
  by (simp add: parser_ok_def put_tunnel_def Let_def capacity_defs pointers_ok_def)

lemma ok_put_yaml_intent: "parser_ok y \<Longrightarrow> en_intent_counts_valid i \<Longrightarrow> parser_ok (put_yaml_intent i y)"
  by (simp add: parser_ok_def put_yaml_intent_def Let_def capacity_defs pointers_ok_def list_all_store)

lemma ok_put_vpp_edge:
  "parser_ok y \<Longrightarrow> length (ve_allowed_vlans e) \<le> EN_MAX_ALLOWED_VLANS \<Longrightarrow> parser_ok (put_vpp_edge e y)"
  by (simp add: parser_ok_def put_vpp_edge_def Let_def capacity_defs pointers_ok_def list_all_store)

lemma ok_put_yaml_path:
  "parser_ok y \<Longrightarrow> cur_path y = Some q \<Longrightarrow> en_path_counts_valid p \<Longrightarrow>
   length (pt_segments q) \<le> length (pt_segments p) \<Longrightarrow> length (pt_routes q) \<le> length (pt_routes p) \<Longrightarrow>
   parser_ok (put_yaml_path p y)"
  by (simp add: parser_ok_def put_yaml_path_def Let_def capacity_defs pointers_ok_def list_all_store cur_path_def
      points_inside_store)

lemma cur_ok:
  assumes "parser_ok y"
  shows "cur_node y = Some n \<Longrightarrow> wf_node n"
    and "cur_path y = Some p \<Longrightarrow> en_path_counts_valid p"
    and "cur_intent y = Some i \<Longrightarrow> en_intent_counts_valid i"
    and "cur_vpp_edge y = Some e \<Longrightarrow> length (ve_allowed_vlans e) \<le> EN_MAX_ALLOWED_VLANS"
  using assms deref_ok [of "ys_node y" "yc_nodes (ys_config y)" wf_node]
    deref_ok [of "ys_path y" "yc_paths (ys_config y)" en_path_counts_valid]
    deref_ok [of "ys_intent y" "yc_intents (ys_config y)" en_intent_counts_valid]
    deref_ok [of "ys_vpp_edge y" "yc_vpp_edges (ys_config y)" "\<lambda>e. length (ve_allowed_vlans e) \<le> EN_MAX_ALLOWED_VLANS"]
  by (simp_all add: parser_ok_def pointers_ok_def Let_def within_capacity_def cur_node_def cur_path_def
      cur_intent_def cur_vpp_edge_def)

lemma path_counts_nth: "list_all en_path_counts_valid ps \<Longrightarrow> i < length ps \<Longrightarrow> en_path_counts_valid (ps ! i)"
  by (simp add: list_all_length)

lemma ok_put_segment: "parser_ok y \<Longrightarrow> parser_ok (put_segment g y)"
proof (cases "ys_segment y")
  case (Some ij)
  moreover assume "parser_ok y"
  ultimately show ?thesis
    by (cases ij)
      (auto simp: parser_ok_def put_segment_def Let_def capacity_defs pointers_ok_def points_into_def points_inside_update
        points_inside_def [of "Some _"] en_path_counts_valid_def dest: path_counts_nth intro!: list_all_update
        split: option.splits)
qed (simp add: put_segment_def)

lemma ok_put_route: "parser_ok y \<Longrightarrow> parser_ok (put_route g y)"
proof (cases "ys_route y")
  case (Some ij)
  moreover assume "parser_ok y"
  ultimately show ?thesis
    by (cases ij)
      (auto simp: parser_ok_def put_route_def Let_def capacity_defs pointers_ok_def points_into_def points_inside_update
        points_inside_def [of "Some _"] en_path_counts_valid_def dest: path_counts_nth intro!: list_all_update
        split: option.splits)
qed (simp add: put_route_def)

section \<open>Fields\<close>

lemmas ok_put = ok_put_node ok_put_tunnel ok_put_yaml_intent ok_put_vpp_edge ok_put_segment ok_put_route

lemma ok_context: "parser_ok y \<Longrightarrow> \<not> intent_list c \<Longrightarrow> parser_ok (y\<lparr>ys_context := c\<rparr>)"
  by (simp add: parser_ok_def pointers_ok_def)

lemma ok_context_intent: "parser_ok y \<Longrightarrow> ys_intent y \<noteq> None \<Longrightarrow> parser_ok (y\<lparr>ys_context := c\<rparr>)"
  by (simp add: parser_ok_def pointers_ok_def)

lemma ok_list_context:
  "parser_ok y \<Longrightarrow> ys_intent y \<noteq> None \<Longrightarrow>
   parser_ok (y\<lparr>ys_list_parent := parent, ys_list_indent := indent, ys_context := c\<rparr>)"
  by (simp add: parser_ok_def pointers_ok_def)

lemma intent_list_simps [simp]:
  "\<not> intent_list YAML_CONTEXT_NONE" "\<not> intent_list YAML_CONTEXT_NODE_ENDPOINTS"
  "\<not> intent_list YAML_CONTEXT_NODE_CAPABILITIES" "\<not> intent_list YAML_CONTEXT_PATH_WAYPOINTS"
  "\<not> intent_list YAML_CONTEXT_PATH_SEGMENTS" "\<not> intent_list YAML_CONTEXT_PATH_ROUTES"
  "\<not> intent_list YAML_CONTEXT_VPP_EDGE_ALLOWED_VLANS"
  by (simp_all add: intent_list_def)

lemma cur_intent_pointer: "cur_intent y = Some i \<Longrightarrow> ys_intent y \<noteq> None"
  by (auto simp: cur_intent_def deref_def)

text \<open>Writing an item back with the lists that it had.\<close>

lemma ok_node_field:
  "parser_ok y \<Longrightarrow> cur_node y = Some n \<Longrightarrow> nd_endpoints m = nd_endpoints n \<Longrightarrow> nd_capabilities m = nd_capabilities n \<Longrightarrow>
   parser_ok (put_node m y)"
  using cur_ok(1) [of y n] by (intro ok_put_node) (auto simp: wf_node_def)

lemma ok_vpp_edge_field:
  "parser_ok y \<Longrightarrow> cur_vpp_edge y = Some e \<Longrightarrow> ve_allowed_vlans f = ve_allowed_vlans e \<Longrightarrow>
   parser_ok (put_vpp_edge f y)"
  using cur_ok(4) [of y e] by (intro ok_put_vpp_edge) auto

lemma ok_path_field:
  "parser_ok y \<Longrightarrow> cur_path y = Some p \<Longrightarrow> pt_segments q = pt_segments p \<Longrightarrow> pt_routes q = pt_routes p \<Longrightarrow>
   pt_waypoints q = pt_waypoints p \<Longrightarrow> parser_ok (put_yaml_path q y)"
  using cur_ok(2) [of y p] by (intro ok_put_yaml_path) (auto simp: en_path_counts_valid_def)

definition intent_lists :: "en_intent \<Rightarrow> string list list \<times> en_comparison_key list" where
  "intent_lists i = (let sel = it_path_selection i; k = ps_constraints sel in
     ([ps_candidates sel, pc_forbidden_waypoints k, pc_required_waypoints k, pc_required_capabilities k],
      ps_comparison_order sel))"

lemma ok_intent_field:
  "parser_ok y \<Longrightarrow> cur_intent y = Some i \<Longrightarrow> intent_lists j = intent_lists i \<Longrightarrow> parser_ok (put_yaml_intent j y)"
  using cur_ok(3) [of y i]
  by (intro ok_put_yaml_intent) (auto simp: en_intent_counts_valid_def intent_lists_def Let_def)

lemmas ok_field = ok_node_field ok_vpp_edge_field ok_path_field ok_intent_field ok_put_tunnel ok_put_segment ok_put_route

lemma safe_node_kv: "parser_ok y \<Longrightarrow> safe (parse_node_kv key v y)"
  unfolding parse_node_kv_def by (intro safe_rules ok_field ok_context) (assumption | simp)+

lemma safe_tunnel_kv: "parser_ok y \<Longrightarrow> safe (parse_tunnel_kv key v y)"
  unfolding parse_tunnel_kv_def by (intro safe_rules ok_field)

lemma safe_vpp_edge_kv: "parser_ok y \<Longrightarrow> safe (parse_vpp_edge_kv key v y)"
  unfolding parse_vpp_edge_kv_def by (intro safe_rules ok_field ok_context) (assumption | simp)+

lemma safe_segment_kv: "parser_ok y \<Longrightarrow> safe (parse_segment_kv key v y)"
  unfolding parse_segment_kv_def by (intro safe_rules ok_field)

lemma safe_route_kv: "parser_ok y \<Longrightarrow> safe (parse_route_kv key v y)"
  unfolding parse_route_kv_def by (intro safe_rules ok_field)

lemma safe_path_kv: "parser_ok y \<Longrightarrow> safe (parse_path_kv key v y)"
  unfolding parse_path_kv_def by (intro safe_rules ok_field ok_context) (assumption | simp)+

lemma safe_intent_kv: "parser_ok y \<Longrightarrow> safe (parse_intent_kv key v y)"
  unfolding parse_intent_kv_def
  by (intro safe_rules ok_field) (assumption | simp add: intent_lists_def)+

text \<open>Where there is a current intent.\<close>

definition at_intent :: "yaml_parser \<Rightarrow> bool" where
  "at_intent y \<longleftrightarrow> parser_ok y \<and> cur_intent y \<noteq> None"

lemma at_intentD: "at_intent y \<Longrightarrow> parser_ok y" "at_intent y \<Longrightarrow> ys_intent y \<noteq> None"
  "at_intent y \<Longrightarrow> cur_intent y = None \<Longrightarrow> safe Undefined"
  by (auto simp: at_intent_def dest: cur_intent_pointer)

lemma safe_selection_kv: "at_intent y \<Longrightarrow> safe (parse_selection_kv key v y)"
  unfolding parse_selection_kv_def
  by (intro safe_rules ok_field ok_context_intent) (assumption | erule (1) at_intentD | erule at_intentD | simp add: intent_lists_def Let_def)+

lemma constraints_field_lists:
  "pc_forbidden_waypoints (constraints_field key v k) = pc_forbidden_waypoints k"
  "pc_required_waypoints (constraints_field key v k) = pc_required_waypoints k"
  "pc_required_capabilities (constraints_field key v k) = pc_required_capabilities k"
  by (simp_all add: constraints_field_def)

lemma safe_constraints_kv: "at_intent y \<Longrightarrow> safe (parse_constraints_kv key v y)"
  unfolding parse_constraints_kv_def put_constraints_def
  by (intro safe_rules ok_field)
    (assumption | erule (1) at_intentD | erule at_intentD | simp add: intent_lists_def Let_def constraints_field_lists)+

lemma safe_transition_kv: "at_intent y \<Longrightarrow> safe (parse_transition_kv key v y)"
  unfolding parse_transition_kv_def put_transition_def Let_def
  by (intro safe_rules ok_field)
    (assumption | erule (1) at_intentD | erule at_intentD | simp add: intent_lists_def Let_def)+

lemma safe_fallback_kv: "at_intent y \<Longrightarrow> safe (parse_fallback_kv key v y)"
  unfolding parse_fallback_kv_def
  by (intro safe_rules ok_field)
    (assumption | erule (1) at_intentD | erule at_intentD | simp add: intent_lists_def Let_def)+

section \<open>Items, lines and files\<close>

lemma safe_first_field:
  "(\<And>k v z. parser_ok z \<Longrightarrow> safe (parse k v z)) \<Longrightarrow> parser_ok y \<Longrightarrow> safe (first_field parse it y)"
  by (simp add: first_field_def split: option.splits)

lemma within_capacity_add:
  "within_capacity c \<Longrightarrow> length (yc_nodes c) < EN_MAX_NODES \<Longrightarrow> wf_node n \<Longrightarrow>
   within_capacity (c\<lparr>yc_nodes := yc_nodes c @ [n]\<rparr>)"
  "within_capacity c \<Longrightarrow> length (yc_tunnels c) < EN_MAX_TUNNELS \<Longrightarrow>
   within_capacity (c\<lparr>yc_tunnels := yc_tunnels c @ [t]\<rparr>)"
  "within_capacity c \<Longrightarrow> length (yc_paths c) < EN_MAX_PATHS \<Longrightarrow> en_path_counts_valid p \<Longrightarrow>
   within_capacity (c\<lparr>yc_paths := yc_paths c @ [p]\<rparr>)"
  "within_capacity c \<Longrightarrow> length (yc_intents c) < EN_MAX_CANDIDATES \<Longrightarrow> en_intent_counts_valid i \<Longrightarrow>
   within_capacity (c\<lparr>yc_intents := yc_intents c @ [i]\<rparr>)"
  "within_capacity c \<Longrightarrow> length (yc_vpp_edges c) < EN_MAX_VPP_EDGES \<Longrightarrow> length (ve_allowed_vlans e) \<le> EN_MAX_ALLOWED_VLANS \<Longrightarrow>
   within_capacity (c\<lparr>yc_vpp_edges := yc_vpp_edges c @ [e]\<rparr>)"
  by (simp_all add: capacity_defs)

lemma zero_counts:
  "wf_node zero_node" "en_path_counts_valid zero_path" "en_intent_counts_valid new_intent"
  "length (ve_allowed_vlans zero_vpp_edge) \<le> EN_MAX_ALLOWED_VLANS"
  by (simp_all add: wf_node_def zero_node_def en_path_counts_valid_def en_intent_counts_valid_def new_intent_def
      zero_defs zero_vpp_edge_def)

text \<open>A new item, which becomes the current one.\<close>

lemma ok_add:
  assumes "parser_ok y"
  shows "length (yc_nodes (ys_config y)) < EN_MAX_NODES \<Longrightarrow>
      parser_ok (y\<lparr>ys_node := Some (length (yc_nodes (ys_config y))),
        ys_config := (ys_config y)\<lparr>yc_nodes := yc_nodes (ys_config y) @ [zero_node\<lparr>nd_administrative_state := a\<rparr>]\<rparr>,
        ys_context := YAML_CONTEXT_NONE\<rparr>)"
    and "length (yc_tunnels (ys_config y)) < EN_MAX_TUNNELS \<Longrightarrow>
      parser_ok (y\<lparr>ys_tunnel := Some (length (yc_tunnels (ys_config y))),
        ys_config := (ys_config y)\<lparr>yc_tunnels := yc_tunnels (ys_config y) @ [t]\<rparr>, ys_context := YAML_CONTEXT_NONE\<rparr>)"
    and "length (yc_paths (ys_config y)) < EN_MAX_PATHS \<Longrightarrow>
      parser_ok (y\<lparr>ys_path := Some (length (yc_paths (ys_config y))),
        ys_config := (ys_config y)\<lparr>yc_paths := yc_paths (ys_config y) @ [zero_path\<lparr>pt_administrative_state := a,
          pt_operational_state := u\<rparr>]\<rparr>, ys_context := YAML_CONTEXT_NONE\<rparr>)"
    and "length (yc_intents (ys_config y)) < EN_MAX_CANDIDATES \<Longrightarrow>
      parser_ok (y\<lparr>ys_intent := Some (length (yc_intents (ys_config y))),
        ys_config := (ys_config y)\<lparr>yc_intents := yc_intents (ys_config y) @ [new_intent]\<rparr>,
        ys_context := YAML_CONTEXT_NONE\<rparr>)"
    and "length (yc_vpp_edges (ys_config y)) < EN_MAX_VPP_EDGES \<Longrightarrow>
      parser_ok (y\<lparr>ys_vpp_edge := Some (length (yc_vpp_edges (ys_config y))),
        ys_config := (ys_config y)\<lparr>yc_vpp_edges := yc_vpp_edges (ys_config y) @ [zero_vpp_edge]\<rparr>,
        ys_context := YAML_CONTEXT_NONE\<rparr>)"
  using assms zero_counts
  by (simp_all add: parser_ok_def pointers_ok_def Let_def capacity_defs wf_node_def en_path_counts_valid_def)

lemma path_pointer: "parser_ok y \<Longrightarrow> points_into (ys_path y) (yc_paths (ys_config y))"
  by (simp add: parser_ok_def pointers_ok_def Let_def)

lemma ok_new_segment:
  "parser_ok y \<Longrightarrow> cur_path y = Some p \<Longrightarrow> length (pt_segments p) < EN_MAX_SEGMENTS \<Longrightarrow>
   parser_ok ((put_yaml_path (p\<lparr>pt_segments := pt_segments p @ [g]\<rparr>) y)
     \<lparr>ys_segment := map_option (\<lambda>i. (i, length (pt_segments p))) (ys_path y)\<rparr>)"
proof -
  assume y: "parser_ok y" "cur_path y = Some p" "length (pt_segments p) < EN_MAX_SEGMENTS"
  let ?p = "p\<lparr>pt_segments := pt_segments p @ [g]\<rparr>"
  have "parser_ok (put_yaml_path ?p y)"
    using y cur_ok(2) [of y p] by (intro ok_put_yaml_path) (auto simp: en_path_counts_valid_def)
  moreover have "points_inside (map_option (\<lambda>i. (i, length (pt_segments p))) (ys_path y))
      (store (yc_paths (ys_config y)) (ys_path y) ?p) pt_segments"
    using path_pointer [OF y(1)] by (auto simp: points_inside_def store_def points_into_def split: option.splits)
  ultimately show ?thesis by (simp add: parser_ok_def pointers_ok_def put_yaml_path_def Let_def)
qed

lemma ok_new_route:
  "parser_ok y \<Longrightarrow> cur_path y = Some p \<Longrightarrow> length (pt_routes p) < EN_MAX_ROUTES \<Longrightarrow>
   parser_ok ((put_yaml_path (p\<lparr>pt_routes := pt_routes p @ [r], pt_routes_explicit := b\<rparr>) y)
     \<lparr>ys_route := map_option (\<lambda>i. (i, length (pt_routes p))) (ys_path y)\<rparr>)"
proof -
  assume y: "parser_ok y" "cur_path y = Some p" "length (pt_routes p) < EN_MAX_ROUTES"
  let ?p = "p\<lparr>pt_routes := pt_routes p @ [r], pt_routes_explicit := b\<rparr>"
  have "parser_ok (put_yaml_path ?p y)"
    using y cur_ok(2) [of y p] by (intro ok_put_yaml_path) (auto simp: en_path_counts_valid_def)
  moreover have "points_inside (map_option (\<lambda>i. (i, length (pt_routes p))) (ys_path y))
      (store (yc_paths (ys_config y)) (ys_path y) ?p) pt_routes"
    using path_pointer [OF y(1)] by (auto simp: points_inside_def store_def points_into_def split: option.splits)
  ultimately show ?thesis by (simp add: parser_ok_def pointers_ok_def put_yaml_path_def Let_def)
qed

lemma safe_node_item: "parser_ok y \<Longrightarrow> safe (parse_node_item indent it y)"
  unfolding parse_node_item_def Let_def
  by (intro safe_rules safe_first_field safe_node_kv ok_add ok_put_node)
    (auto dest!: cur_ok(1) simp: wf_node_def)

lemma safe_tunnel_item: "parser_ok y \<Longrightarrow> safe (parse_tunnel_item indent it y)"
  unfolding parse_tunnel_item_def Let_def
  by (intro safe_rules safe_first_field safe_tunnel_kv ok_add) auto

lemma safe_path_item: "parser_ok y \<Longrightarrow> safe (parse_path_item indent it y)"
  unfolding parse_path_item_def Let_def
  by (intro safe_rules safe_first_field safe_path_kv safe_segment_kv safe_route_kv ok_add ok_new_segment ok_new_route
      ok_put_yaml_path)
    (auto dest: cur_ok(2) simp: en_path_counts_valid_def)

lemma safe_vpp_edge_item: "parser_ok y \<Longrightarrow> safe (parse_vpp_edge_item indent it y)"
  unfolding parse_vpp_edge_item_def new_vpp_edge_item_def allowed_vlan_item_def Let_def
  by (intro safe_rules safe_first_field safe_vpp_edge_kv ok_add ok_put_vpp_edge) auto

lemma intent_listD: "parser_ok y \<Longrightarrow> ys_context y = c \<Longrightarrow> intent_list c \<Longrightarrow> cur_intent y = None \<Longrightarrow> safe Undefined"
  by (auto simp: parser_ok_def cur_intent_def deref_def)

lemma ok_put_constraints:
  "parser_ok y \<Longrightarrow> cur_intent y = Some i \<Longrightarrow> length (pc_forbidden_waypoints k) \<le> EN_MAX_WAYPOINTS \<Longrightarrow>
   length (pc_required_waypoints k) \<le> EN_MAX_WAYPOINTS \<Longrightarrow> length (pc_required_capabilities k) \<le> EN_MAX_CAPABILITIES \<Longrightarrow>
   parser_ok (put_constraints i k y)"
  using cur_ok(3) [of y i] unfolding put_constraints_def
  by (intro ok_put_yaml_intent) (auto simp: en_intent_counts_valid_def Let_def)

lemma intent_item_ok:
  "parser_ok y \<Longrightarrow> cur_intent y = Some i \<Longrightarrow> length (ps_candidates (it_path_selection i)) < EN_MAX_CANDIDATES \<Longrightarrow>
   parser_ok (put_yaml_intent (i\<lparr>it_path_selection := (it_path_selection i)\<lparr>ps_candidates :=
     ps_candidates (it_path_selection i) @ [x]\<rparr>\<rparr>) y)"
  "parser_ok y \<Longrightarrow> cur_intent y = Some i \<Longrightarrow> length (ps_comparison_order (it_path_selection i)) < EN_MAX_COMPARISONS \<Longrightarrow>
   parser_ok (put_yaml_intent (i\<lparr>it_path_selection := (it_path_selection i)\<lparr>ps_comparison_order :=
     ps_comparison_order (it_path_selection i) @ [c]\<rparr>\<rparr>) y)"
  using cur_ok(3) [of y i]
  by (auto intro!: ok_put_yaml_intent simp: en_intent_counts_valid_def Let_def)

lemma constraints_counts:
  "parser_ok y \<Longrightarrow> cur_intent y = Some i \<Longrightarrow> length (pc_forbidden_waypoints (ps_constraints (it_path_selection i))) \<le> EN_MAX_WAYPOINTS"
  "parser_ok y \<Longrightarrow> cur_intent y = Some i \<Longrightarrow> length (pc_required_waypoints (ps_constraints (it_path_selection i))) \<le> EN_MAX_WAYPOINTS"
  "parser_ok y \<Longrightarrow> cur_intent y = Some i \<Longrightarrow> length (pc_required_capabilities (ps_constraints (it_path_selection i))) \<le> EN_MAX_CAPABILITIES"
  using cur_ok(3) [of y i] by (auto simp: en_intent_counts_valid_def Let_def)

lemma safe_intent_item: "parser_ok y \<Longrightarrow> safe (parse_intent_item indent it y)"
  unfolding parse_intent_item_def Let_def
  by (intro safe_rules safe_first_field safe_intent_kv ok_add intent_item_ok ok_put_constraints)
    (auto simp: intent_list_def constraints_counts dest: intent_listD)

lemma safe_item: "parser_ok y \<Longrightarrow> safe (parse_item indent s y)"
  unfolding parse_item_def Let_def
  by (intro safe_if safe_Refused)
    (auto split: yaml_top_section.splits intro: safe_node_item safe_tunnel_item safe_path_item safe_intent_item
      safe_vpp_edge_item)

lemma at_intent_leave: "at_intent y \<Longrightarrow> at_intent (leave_list indent y)"
  by (auto simp: at_intent_def leave_list_def cur_intent_def intro!: ok_context_intent dest: cur_intent_pointer)
    (auto simp: deref_def)

lemma safe_enter_at_intent:
  "at_intent y \<Longrightarrow> safe (enter c y)" "at_intent y \<Longrightarrow> safe (enter_list parent indent c y)"
  by (intro safe_rules ok_context_intent ok_list_context; erule at_intentD)+

lemma safe_intent_entry: "parser_ok y \<Longrightarrow> safe (parse_intent_entry indent key v y)"
proof (cases "cur_intent y = None")
  case False
  assume "parser_ok y"
  with False have "at_intent (leave_list indent y)" by (simp add: at_intent_def at_intent_leave [unfolded at_intent_def])
  moreover from this have "parser_ok (leave_list indent y)" by (rule at_intentD)
  ultimately show ?thesis
    unfolding parse_intent_entry_def Let_def if_not_P [OF False]
    by (cases "ys_context (leave_list indent y)"; simp only: yaml_context.case)
      (intro safe_if safe_enter_at_intent safe_intent_kv safe_selection_kv safe_constraints_kv safe_transition_kv
        safe_fallback_kv; assumption)+
qed (simp add: parse_intent_entry_def)

lemma safe_entry: "parser_ok y \<Longrightarrow> safe (parse_entry indent s y)"
  unfolding parse_entry_def
  by (auto split: option.splits yaml_top_section.splits intro: safe_tunnel_kv safe_node_kv safe_segment_kv safe_route_kv
      safe_path_kv safe_vpp_edge_kv safe_intent_entry)

lemma open_section_ok: "parser_ok y \<Longrightarrow> open_section s y = Some z \<Longrightarrow> parser_ok z"
  by (auto simp: open_section_def parser_ok_def pointers_ok_def Let_def split: if_splits)

lemma safe_line: "parser_ok y \<Longrightarrow> safe (parse_line line y)"
  unfolding parse_line_def Let_def
  by (auto split: option.splits if_splits intro: safe_item safe_entry open_section_ok)

lemma initial_ok: "parser_ok initial_parser"
  by (simp add: parser_ok_def initial_parser_def empty_config_def capacity_defs pointers_ok_def points_into_def
      points_inside_def)

lemma parse_lines_ok:
  "parser_ok y \<Longrightarrow>
   (case parse_lines error_len n ls y of Parsed (m, z) \<Rightarrow> parser_ok z | Refused e m \<Rightarrow> True | Undefined \<Rightarrow> False)"
proof (induction error_len n ls y rule: parse_lines.induct)
  case (2 error_len n l ls y)
  with safe_line [of y l] show ?case
    by (cases "511 \<le> length l") (auto simp: safe_def split: outcome.splits)
qed simp

lemma load_Parsed:
  "en_yaml_config_load_file fopen filename dest error_len = Parsed c \<Longrightarrow>
   dest \<and> en_yaml_config_validate (Some c) = None"
  by (auto simp: en_yaml_config_load_file_def Let_def split: option.splits outcome.splits if_splits)

lemma lines_not_Undefined: "parse_lines error_len n ls initial_parser \<noteq> Undefined"
  using parse_lines_ok [OF initial_ok, of error_len n ls] by (auto split: outcome.splits)

lemma load_not_Undefined: "en_yaml_config_load_file fopen filename dest error_len \<noteq> Undefined"
  by (auto simp: en_yaml_config_load_file_def Let_def lines_not_Undefined split: option.splits outcome.splits if_splits)

section \<open>Properties\<close>

text \<open>
  C36. Whatever lines the file has, the reader never dereferences \<open>NULL\<close>, and after every line that it takes
  the configuration is within the capacities of its arrays and every pointer refers to an item that exists:
  the lines are arbitrary, so this covers each prefix of a file.
\<close>

theorem reader_stays_in_bounds:
  "case parse_lines error_len n ls initial_parser of
     Parsed (m, y) \<Rightarrow> within_capacity (ys_config y) \<and> pointers_ok y
   | Refused e message \<Rightarrow> True
   | Undefined \<Rightarrow> False"
  using parse_lines_ok [OF initial_ok, of error_len n ls]
  by (auto simp: parser_ok_def split: outcome.splits prod.splits)

section \<open>Loading\<close>

lemma loaded_wf: "en_yaml_config_load_file fopen filename dest error_len = Parsed c \<Longrightarrow> well_formed_config c"
  using load_Parsed [of fopen filename dest error_len c] by (simp add: validate_iff)

text \<open>A sample file and the configuration it loads as, for witnesses.\<close>

definition sample_file :: string where
  "sample_file = unlines
     [''tunnels:'', ''  - id: tun-a-b   # direct'', ''    local_node: site-a'', ''    remote_node: site-b'',
      ''    remote_endpoint: 203.0.113.20'', ''    remote_ts: 10.0.2.0/24'',
      ''paths:'', ''  - id: path-direct'', ''    source: site-a'', ''    destination: site-b'',
      ''    segments:'', ''      - id: seg-a-b'', ''        tunnel_id: tun-a-b'',
      ''intents:'', ''  - id: intent-a-b'', ''    traffic:'', ''      source: site-a'', ''      destination: site-b'',
      ''    path_selection:'', ''      mode: priority'', ''      candidates:'', ''        - path-direct'']"

definition sample_fopen :: "string \<Rightarrow> (string \<times> bool) option" where
  "sample_fopen f = (if f = ''eventnet.yaml'' then Some (sample_file, False) else None)"

definition sample_config :: en_yaml_config where
  "sample_config = \<lparr>yc_nodes = [],
     yc_tunnels = [new_tunnel\<lparr>tn_tunnel_id := ''tun-a-b'', tn_local_node := ''site-a'', tn_remote_node := ''site-b'',
       tn_remote_endpoint := ''203.0.113.20'', tn_remote_traffic_selector := ''10.0.2.0/24''\<rparr>],
     yc_paths = [zero_path\<lparr>pt_path_id := ''path-direct'', pt_source := ''site-a'', pt_destination := ''site-b'',
       pt_route_destination_prefix := ''10.0.2.0/24'', pt_route_next_hop := ''203.0.113.20'',
       pt_egress_tunnel_id := ''tun-a-b'',
       pt_routes := [zero_route\<lparr>rt_route_id := ''default'', rt_node_id := ''site-a'',
         rt_destination_prefix := ''10.0.2.0/24'', rt_next_hop := ''203.0.113.20'', rt_table_id := - 1, rt_metric := - 1\<rparr>],
       pt_segments := [zero_segment\<lparr>sg_segment_id := ''seg-a-b'', sg_tunnel_id := ''tun-a-b''\<rparr>],
       pt_operational_state := EN_PATH_UNKNOWN\<rparr>],
     yc_intents = [new_intent\<lparr>it_intent_id := ''intent-a-b'',
       it_traffic := \<lparr>ts_source = ''site-a'', ts_destination = ''site-b'', ts_has_vlan_id = False, ts_vlan_id = 0\<rparr>,
       it_path_selection := (it_path_selection new_intent)\<lparr>ps_mode := EN_SELECT_PRIORITY,
         ps_candidates := [''path-direct'']\<rparr>\<rparr>],
     yc_vpp_edges = []\<rparr>"

lemma sample_load: "en_yaml_config_load_file sample_fopen (Some ''eventnet.yaml'') True 256 = Parsed sample_config"
  by code_simp

end
