(* ===== verification/YamlLayout.thy ===== *)
theory YamlLayout
  imports YamlSafety
begin

text \<open>
  What the configuration reader makes of a file in the documented layout: one field or item per line, two
  more blanks per level. A printed \<open>nodes:\<close> section reads back as the nodes it was printed from.
\<close>

section \<open>Lines in the layout\<close>

definition plain :: "string \<Rightarrow> bool" where
  "plain s \<longleftrightarrow> list_all (\<lambda>c. c \<noteq> CHR ''#'' \<and> c \<noteq> DQ \<and> c \<noteq> SQ) s"

definition blanks :: "nat \<Rightarrow> string" where
  "blanks n = replicate n (CHR '' '')"

definition field_line :: "nat \<Rightarrow> string \<Rightarrow> string \<Rightarrow> string" where
  "field_line n key v = blanks n @ key @ (if v = [] then '':'' else '': '' @ v)"

definition item_line :: "nat \<Rightarrow> string \<Rightarrow> string" where
  "item_line n s = blanks n @ ''- '' @ s"

lemma strip_plain: "plain s \<Longrightarrow> strip_comment s = s"
proof -
  have "list_all (\<lambda>c. c \<noteq> CHR ''#'' \<and> c \<noteq> DQ \<and> c \<noteq> SQ) s \<Longrightarrow> strip_comment_from None s = s"
    by (induction s) (simp_all add: Let_def)
  then show "plain s \<Longrightarrow> strip_comment s = s" by (simp add: plain_def strip_comment_def)
qed

lemma plain_append [simp]: "plain (a @ b) \<longleftrightarrow> plain a \<and> plain b" "plain []"
  by (simp_all add: plain_def)

lemma plain_Cons [simp]: "plain (c # s) \<longleftrightarrow> c \<noteq> CHR ''#'' \<and> c \<noteq> DQ \<and> c \<noteq> SQ \<and> plain s"
  by (simp add: plain_def)

lemma plain_blanks [simp]: "plain (blanks n)"
  by (simp add: plain_def blanks_def list_all_iff char_consts SQ_def)

lemma indent_blanks: "s = [] \<or> hd s \<noteq> CHR '' '' \<Longrightarrow> indent_of (blanks n @ s) = n"
  by (cases s) (simp_all add: indent_of_def blanks_def takeWhile_append)

lemma trim_blanks_line: "trim (blanks n @ s) = trim s"
  by (rule trim_blanks) (simp add: blanks_def list_all_iff isspace_def code_def)

lemma space_facts: "isspace (CHR '' '')" "\<not> isspace (CHR ''-'')" "\<not> isspace (CHR '':'')"
  by (simp_all add: isspace_def code_def)

lemma trimmed_item: "trimmed s \<Longrightarrow> trimmed (''- '' @ s)"
  by (simp add: trimmed_def space_facts)

lemma parse_item_line:
  "trimmed s \<Longrightarrow> plain s \<Longrightarrow> 0 < n \<Longrightarrow> ys_top y \<noteq> YAML_SECTION_NONE \<Longrightarrow>
   parse_line (item_line n s) y = parse_item n s y"
proof -
  assume s: "trimmed s" "plain s" "0 < n" "ys_top y \<noteq> YAML_SECTION_NONE"
  have "strip_comment (item_line n s) = item_line n s"
    using s by (intro strip_plain) (simp add: item_line_def char_consts SQ_def)
  moreover have "indent_of (item_line n s) = n"
    unfolding item_line_def by (rule indent_blanks) simp
  moreover have "trim (item_line n s) = ''- '' @ s"
    unfolding item_line_def trim_blanks_line by (rule trim_trimmed [OF trimmed_item [OF s(1)]])
  ultimately show ?thesis using s trim_trimmed [OF s(1)] by (simp add: parse_line_def)
qed

text \<open>A field: the key has no colon, no blanks at its ends and does not start like an item.\<close>

definition field_key :: "string \<Rightarrow> bool" where
  "field_key k \<longleftrightarrow> trimmed k \<and> plain k \<and> CHR '':'' \<notin> set k \<and> hd k \<noteq> CHR ''-''"

lemma until_colon:
  "CHR '':'' \<notin> set k \<Longrightarrow> takeWhile (\<lambda>c. c \<noteq> CHR '':'') (k @ CHR '':'' # s) = k"
  "CHR '':'' \<notin> set k \<Longrightarrow> dropWhile (\<lambda>c. c \<noteq> CHR '':'') (k @ CHR '':'' # s) = CHR '':'' # s"
  by (induction k) auto

lemma split_field:
  assumes "field_key k" "v = [] \<or> (trimmed v \<and> plain v)"
  shows "split_key_value (k @ (if v = [] then '':'' else '': '' @ v)) = Some (k, v)"
proof -
  note k = until_colon [of k]
  have tk: "trim k = k" using assms(1) by (simp add: field_key_def trim_trimmed)
  have clean: "clean_scalar v = v" if "trimmed v" "plain v"
  proof -
    have "hd v \<noteq> DQ" "hd v \<noteq> SQ" using that by (cases v; simp add: trimmed_def)+
    then show ?thesis by (simp add: clean_scalar_def quoted_by_def trim_trimmed [OF that(1)])
  qed
  have "clean_scalar [] = []" by (simp add: clean_scalar_def quoted_by_def)
  moreover have "trim (CHR '' '' # v) = trim v" using trim_blanks [of "'' ''" v] by (simp add: space_facts)
  ultimately show ?thesis
    using assms k [of "[]"] k [of "CHR '' '' # v"] tk clean trim_trimmed [of v]
    by (auto simp: split_key_value_def field_key_def)
qed

lemma parse_field_line:
  assumes "field_key k" "v = [] \<or> (trimmed v \<and> plain v \<and> length v < EN_MAX_ID_LEN)" "0 < n" "ys_top y \<noteq> YAML_SECTION_NONE"
  shows "parse_line (field_line n k v) y = parse_entry n (k @ (if v = [] then '':'' else '': '' @ v)) y"
proof -
  let ?s = "k @ (if v = [] then '':'' else '': '' @ v)"
  have k: "k \<noteq> []" "trimmed k" "plain k" "hd k \<noteq> CHR ''-''" using assms(1) by (auto simp: field_key_def trimmed_def)
  have "strip_comment (field_line n k v) = field_line n k v"
    using k assms(2) by (intro strip_plain) (auto simp: field_line_def char_consts SQ_def)
  moreover have "hd k \<noteq> CHR '' ''" using k(2) space_facts(1) by (auto simp: trimmed_def)
  then have "indent_of (field_line n k v) = n"
    unfolding field_line_def using k(1) by (intro indent_blanks) auto
  moreover have "trimmed ?s" using k assms(2) by (auto simp: trimmed_def space_facts)
  then have "trim (field_line n k v) = ?s"
    unfolding field_line_def trim_blanks_line by (rule trim_trimmed)
  moreover have "\<not> starts_with ?s ''- ''" using k by (cases k) auto
  ultimately show ?thesis using k(1) assms(3,4) by (simp add: parse_line_def)
qed

text \<open>The bytes of a token are no blanks, quotes or comment signs.\<close>

lemma token_char_plain: "token_char c \<Longrightarrow> \<not> isspace c \<and> c \<noteq> CHR ''#'' \<and> c \<noteq> DQ \<and> c \<noteq> SQ"
  by (auto simp: token_char_def isalnum_def isdigit_def isspace_def code_def char_consts SQ_def)

lemma token_chars_plain: "list_all token_char s \<Longrightarrow> list_all (\<lambda>c. \<not> isspace c) s \<and> plain s"
  by (induction s) (simp_all add: token_char_plain)

lemma token_plain: "valid_config_token s \<Longrightarrow> trimmed s \<and> plain s"
proof -
  assume s: "valid_config_token s"
  then have "\<forall>c\<in>set s. \<not> isspace c \<and> c \<noteq> CHR ''#'' \<and> c \<noteq> DQ \<and> c \<noteq> SQ" and "s \<noteq> []"
    by (simp_all add: valid_config_token_def list_all_iff token_char_plain)
  then show ?thesis by (simp add: trimmed_def plain_def list_all_iff)
qed

lemma token_short: "valid_config_token s \<Longrightarrow> length s < EN_MAX_ID_LEN"
  by (simp add: valid_config_token_def)

section \<open>Sequences of lines\<close>

fun reads :: "string list \<Rightarrow> yaml_parser \<Rightarrow> yaml_parser \<Rightarrow> bool" where
  "reads [] y z \<longleftrightarrow> y = z"
| "reads (l # ls) y z \<longleftrightarrow> length l < 511 \<and> (case parse_line l y of Parsed x \<Rightarrow> reads ls x z | _ \<Rightarrow> False)"

lemma reads_parse_lines: "reads ls y z \<Longrightarrow> parse_lines error_len n ls y = Parsed (n + length ls, z)"
  by (induction ls arbitrary: n y) (auto simp: not_le split: outcome.splits)

lemma reads_append: "reads ls y x \<Longrightarrow> reads ms x z \<Longrightarrow> reads (ls @ ms) y z"
  by (induction ls arbitrary: y) (auto split: outcome.splits)

section \<open>Nodes\<close>

definition node_lines :: "en_node \<Rightarrow> string list" where
  "node_lines n =
     item_line 2 (''id: '' @ nd_node_id n) # field_line 4 ''role'' (nd_role n) #
     field_line 4 ''endpoints'' [] # map (item_line 6) (nd_endpoints n) @
     field_line 4 ''capabilities'' [] # map (item_line 6) (nd_capabilities n) @
     [field_line 4 ''administrative_state''
        (case nd_administrative_state n of EN_ADMIN_ENABLED \<Rightarrow> ''enabled'' | EN_ADMIN_DISABLED \<Rightarrow> ''disabled'')]"

definition at_node :: "en_node list \<Rightarrow> en_node \<Rightarrow> yaml_parser \<Rightarrow> bool" where
  "at_node ns n y \<longleftrightarrow> ys_top y = YAML_SECTION_NODES \<and> ys_node y = Some (length ns) \<and>
     yc_nodes (ys_config y) = ns @ [n]"

lemma at_node_put: "at_node ns n y \<Longrightarrow> at_node ns m (put_node m y) \<and> ys_context (put_node m y) = ys_context y"
  by (simp add: at_node_def put_node_def Let_def store_def)

lemma at_node_cur: "at_node ns n y \<Longrightarrow> cur_node y = Some n"
  by (simp add: at_node_def cur_node_def deref_def)

lemma no_space_trim: "list_all (\<lambda>c. \<not> isspace c) s \<Longrightarrow> trim s = s"
proof -
  assume "list_all (\<lambda>c. \<not> isspace c) s"
  then have "dropWhile isspace s = s" "dropWhile isspace (rev s) = rev s"
    by (cases s, simp_all) (cases "rev s"; simp add: list_all_iff; metis in_set_conv_decomp rev_swap set_rev)
  then show ?thesis by (simp add: trim_def)
qed

lemma plain_clean: "list_all (\<lambda>c. \<not> isspace c) s \<Longrightarrow> plain s \<Longrightarrow> clean_scalar s = s"
  by (cases s) (auto simp: clean_scalar_def no_space_trim quoted_by_def plain_def)

text \<open>What an item without blanks leaves in the buffer: the bytes before its first colon.\<close>

abbreviation before_colon :: "string \<Rightarrow> string" where
  "before_colon s \<equiv> takeWhile (\<lambda>c. c \<noteq> CHR '':'') s"

lemma item_of_token:
  assumes "valid_config_token e"
  shows "clean_scalar (snd (item_of e)) = before_colon e" "\<not> item_too_long (item_of e)"
proof -
  have e: "list_all (\<lambda>c. \<not> isspace c) e" "plain e" "length e < EN_MAX_ID_LEN"
    using assms token_chars_plain [of e] by (simp_all add: valid_config_token_def)
  have sub: "list_all (\<lambda>c. \<not> isspace c) a \<and> plain a" if "set a \<subseteq> set e" for a
    using e that unfolding plain_def list_all_iff by blast
  define a b where "a = before_colon e" and "b = drop 1 (dropWhile (\<lambda>c. c \<noteq> CHR '':'') e)"
  have a: "trim a = a" "clean_scalar a = a"
    using sub [of a] by (auto simp: a_def dest: set_takeWhileD intro!: no_space_trim plain_clean)
  have "set b \<subseteq> set e" by (auto simp: b_def dest!: in_set_dropD dest: set_dropWhileD)
  then have b: "trim b = b" "clean_scalar b = b" using sub [of b] by (auto intro: no_space_trim plain_clean)
  have "length b \<le> length e"
    using length_dropWhile_le [of "\<lambda>c. c \<noteq> CHR '':''" e] by (simp add: b_def)
  have "clean_scalar (snd (item_of e)) = before_colon e \<and> \<not> item_too_long (item_of e)"
  proof (cases "CHR '':'' \<in> set e")
    case True
    then have "item_of e = (Some (a, b), a)"
      by (simp add: item_of_def split_key_value_def a_def [symmetric] b_def [symmetric] a b del: drop_Suc One_nat_def)
    with a e \<open>length b \<le> length e\<close>
    show "clean_scalar (snd (item_of e)) = before_colon e \<and> \<not> item_too_long (item_of e)"
      by (simp_all add: item_too_long_def a_def)
  next
    case False
    then have "item_of e = (None, e)" "before_colon e = e"
      by (auto simp: item_of_def split_key_value_def takeWhile_eq_all_conv)
    then show "clean_scalar (snd (item_of e)) = before_colon e \<and> \<not> item_too_long (item_of e)"
      using e plain_clean [of e] by (simp add: item_too_long_def del: takeWhile_eq_all_conv)
  qed
  then show "clean_scalar (snd (item_of e)) = before_colon e" "\<not> item_too_long (item_of e)" by simp_all
qed

lemma endpoint_line:
  assumes "ys_top y = YAML_SECTION_NODES" "ys_context y = YAML_CONTEXT_NODE_ENDPOINTS"
    and "cur_node y = Some n" "length (nd_endpoints n) < EN_MAX_ENDPOINTS" "valid_config_token e" "2 < k"
  shows "parse_line (item_line k e) y = Parsed (put_node (n\<lparr>nd_endpoints := nd_endpoints n @ [before_colon e]\<rparr>) y)"
proof -
  have "length (before_colon e) < EN_MAX_ID_LEN"
    using token_short [OF assms(5)] le_less_trans [OF length_takeWhile_le] by blast
  then show ?thesis
    using assms token_plain [OF assms(5)] item_of_token [OF assms(5)]
    by (simp add: parse_item_line parse_item_def parse_node_item_def through_def push_def)
qed

lemma capability_line:
  assumes "at_node ns n y" "valid_config_token e" "ys_context y = YAML_CONTEXT_NODE_CAPABILITIES"
    "length (nd_capabilities n) < EN_MAX_CAPABILITIES" "2 < k"
  shows "parse_line (item_line k e) y = Parsed (put_node (n\<lparr>nd_capabilities := nd_capabilities n @ [before_colon e]\<rparr>) y)"
proof -
  have "length (before_colon e) < EN_MAX_ID_LEN"
    using token_short [OF assms(2)] le_less_trans [OF length_takeWhile_le] by blast
  then show ?thesis
    using assms token_plain [OF assms(2)] item_of_token [OF assms(2)] at_node_cur [OF assms(1)]
    by (simp add: parse_item_line at_node_def parse_item_def parse_node_item_def through_def push_def)
qed

lemma field_keys:
  "field_key ''id''" "field_key ''role''" "field_key ''endpoints''" "field_key ''capabilities''"
  "field_key ''administrative_state''"
  by code_simp+

lemma field_line_short:
  "length k \<le> 32 \<Longrightarrow> n \<le> 32 \<Longrightarrow> v = [] \<or> length v < EN_MAX_ID_LEN \<Longrightarrow> length (field_line n k v) < 511"
  "n \<le> 32 \<Longrightarrow> length s < 72 \<Longrightarrow> length (item_line n s) < 511"
  by (auto simp: field_line_def item_line_def blanks_def)

text \<open>A field of a node, as \<open>parse_node_kv\<close> takes it.\<close>

lemma node_field:
  assumes "at_node ns n y" "field_key k" "v = [] \<or> valid_config_token v"
  shows "parse_line (field_line 4 k v) y = parse_node_kv k v y"
proof -
  have v: "v = [] \<or> (trimmed v \<and> plain v)" "v = [] \<or> (trimmed v \<and> plain v \<and> length v < EN_MAX_ID_LEN)"
    using assms(3) token_plain [of v] token_short [of v] by auto
  have "ys_top y = YAML_SECTION_NODES" using assms(1) by (simp add: at_node_def)
  with parse_field_line [OF assms(2) v(2), of 4 y] v(2) show ?thesis
    by (auto simp only: parse_entry_def split_field [OF assms(2) v(1)]) auto
qed

lemma new_node_line:
  assumes "ys_top y = YAML_SECTION_NODES" "yc_nodes (ys_config y) = ns" "length ns < EN_MAX_NODES" "valid_config_token x"
  shows "\<exists>z. parse_line (item_line 2 (''id: '' @ x)) y = Parsed z \<and> at_node ns (zero_node\<lparr>nd_node_id := x\<rparr>) z"
proof -
  have x: "trimmed x" "plain x" "length x < EN_MAX_ID_LEN" "x \<noteq> []"
    using assms(4) token_plain [of x] by (auto simp: valid_config_token_def)
  have "split_key_value (''id: '' @ x) = Some (''id'', x)"
    using split_field [OF field_keys(1), of x] x by simp
  moreover have "trimmed (''id: '' @ x)" "plain (''id: '' @ x)"
    using x by (simp_all add: trimmed_def space_facts char_consts SQ_def isspace_def code_def)
  ultimately show ?thesis
    using assms x
    by (simp add: parse_item_line parse_item_def item_of_def item_too_long_def parse_node_item_def first_field_def
        parse_node_kv_def cur_node_def deref_def through_def one_of_iff at_node_def put_node_def Let_def store_def
        zero_node_def)
qed

text \<open>The colon ends an item, so what the lists hold is assumed to have none.\<close>

definition colon_free :: "string \<Rightarrow> bool" where
  "colon_free s \<longleftrightarrow> CHR '':'' \<notin> set s"

lemma before_colon_free: "colon_free s \<Longrightarrow> before_colon s = s"
  by (auto simp: colon_free_def takeWhile_eq_all_conv)

lemma endpoint_lines:
  "at_node ns n y \<Longrightarrow> ys_context y = YAML_CONTEXT_NODE_ENDPOINTS \<Longrightarrow>
   length (nd_endpoints n) + length es \<le> EN_MAX_ENDPOINTS \<Longrightarrow> (\<forall>e\<in>set es. valid_config_token e \<and> colon_free e) \<Longrightarrow>
   \<exists>z. reads (map (item_line 6) es) y z \<and> at_node ns (n\<lparr>nd_endpoints := nd_endpoints n @ es\<rparr>) z"
proof (induction es arbitrary: n y)
  case (Cons e es)
  let ?m = "n\<lparr>nd_endpoints := nd_endpoints n @ [e]\<rparr>"
  have "length (nd_endpoints n) < EN_MAX_ENDPOINTS" using Cons.prems(3) by simp
  with endpoint_line [OF _ Cons.prems(2) at_node_cur [OF Cons.prems(1)], of e 6] Cons.prems(1,4)
  have l: "parse_line (item_line 6 e) y = Parsed (put_node ?m y)" by (simp add: before_colon_free at_node_def)
  have "length (nd_endpoints ?m) + length es \<le> EN_MAX_ENDPOINTS" using Cons.prems(3) by simp
  moreover have "ys_context (put_node ?m y) = YAML_CONTEXT_NODE_ENDPOINTS" "at_node ns ?m (put_node ?m y)"
    using at_node_put [OF Cons.prems(1)] Cons.prems(2) by auto
  moreover have "\<forall>e\<in>set es. valid_config_token e \<and> colon_free e" using Cons.prems(4) by simp
  ultimately obtain z where
    "reads (map (item_line 6) es) (put_node ?m y) z" "at_node ns (?m\<lparr>nd_endpoints := nd_endpoints ?m @ es\<rparr>) z"
    using Cons.IH [of ?m "put_node ?m y"] by blast
  then show ?case
    using l Cons.prems(4) token_short [of e]
    by (intro exI [of _ z]) (auto simp: field_line_short)
qed auto

lemma capability_lines:
  "at_node ns n y \<Longrightarrow> ys_context y = YAML_CONTEXT_NODE_CAPABILITIES \<Longrightarrow>
   length (nd_capabilities n) + length es \<le> EN_MAX_CAPABILITIES \<Longrightarrow> (\<forall>e\<in>set es. valid_config_token e \<and> colon_free e) \<Longrightarrow>
   \<exists>z. reads (map (item_line 6) es) y z \<and> at_node ns (n\<lparr>nd_capabilities := nd_capabilities n @ es\<rparr>) z"
proof (induction es arbitrary: n y)
  case (Cons e es)
  let ?m = "n\<lparr>nd_capabilities := nd_capabilities n @ [e]\<rparr>"
  have "length (nd_capabilities n) < EN_MAX_CAPABILITIES" using Cons.prems(3) by simp
  with capability_line [OF Cons.prems(1) _ Cons.prems(2), of e 6] Cons.prems(4)
  have l: "parse_line (item_line 6 e) y = Parsed (put_node ?m y)" by (simp add: before_colon_free)
  have "length (nd_capabilities ?m) + length es \<le> EN_MAX_CAPABILITIES" using Cons.prems(3) by simp
  moreover have "ys_context (put_node ?m y) = YAML_CONTEXT_NODE_CAPABILITIES" "at_node ns ?m (put_node ?m y)"
    using at_node_put [OF Cons.prems(1)] Cons.prems(2) by auto
  moreover have "\<forall>e\<in>set es. valid_config_token e \<and> colon_free e" using Cons.prems(4) by simp
  ultimately obtain z where
    "reads (map (item_line 6) es) (put_node ?m y) z" "at_node ns (?m\<lparr>nd_capabilities := nd_capabilities ?m @ es\<rparr>) z"
    using Cons.IH [of ?m "put_node ?m y"] by blast
  then show ?case
    using l Cons.prems(4) token_short [of e]
    by (intro exI [of _ z]) (auto simp: field_line_short)
qed auto

definition printable_node :: "en_node \<Rightarrow> bool" where
  "printable_node n \<longleftrightarrow> node_ok n \<and> (\<forall>x\<in>set (nd_endpoints n) \<union> set (nd_capabilities n). colon_free x)"

lemma enter_line:
  assumes "at_node ns n y" "(k, c) \<in> {(''endpoints'', YAML_CONTEXT_NODE_ENDPOINTS), (''capabilities'', YAML_CONTEXT_NODE_CAPABILITIES)}"
  shows "parse_line (field_line 4 k []) y = Parsed (y\<lparr>ys_context := c\<rparr>) \<and> at_node ns n (y\<lparr>ys_context := c\<rparr>)"
  using assms node_field [OF assms(1), of k "[]"] field_keys
  by (auto simp: parse_node_kv_def at_node_cur through_def one_of_iff enter_def at_node_def)

lemma node_lines_read:
  assumes y: "ys_top y = YAML_SECTION_NODES" "yc_nodes (ys_config y) = ns" "length ns < EN_MAX_NODES" and n: "printable_node n"
  shows "\<exists>z. reads (node_lines n) y z \<and> at_node ns n z"
proof -
  have id: "valid_config_token (nd_node_id n)" and role: "optional_token (nd_role n)"
    and es: "\<forall>x\<in>set (nd_endpoints n). valid_config_token x \<and> colon_free x" "length (nd_endpoints n) \<le> EN_MAX_ENDPOINTS"
    and cs: "\<forall>x\<in>set (nd_capabilities n). valid_config_token x \<and> colon_free x" "length (nd_capabilities n) \<le> EN_MAX_CAPABILITIES"
    using n by (auto simp: printable_node_def node_ok_def)
  let ?n1 = "zero_node\<lparr>nd_node_id := nd_node_id n\<rparr>" let ?n2 = "?n1\<lparr>nd_role := nd_role n\<rparr>"
  let ?n3 = "?n2\<lparr>nd_endpoints := nd_endpoints n\<rparr>" let ?n4 = "?n3\<lparr>nd_capabilities := nd_capabilities n\<rparr>"
  let ?adm = "case nd_administrative_state n of EN_ADMIN_ENABLED \<Rightarrow> ''enabled'' | EN_ADMIN_DISABLED \<Rightarrow> ''disabled''"
  obtain y1 where y1: "parse_line (item_line 2 (''id: '' @ nd_node_id n)) y = Parsed y1" "at_node ns ?n1 y1"
    using new_node_line [OF y id] by blast
  have y2: "parse_line (field_line 4 ''role'' (nd_role n)) y1 = Parsed (put_node ?n2 y1)" "at_node ns ?n2 (put_node ?n2 y1)"
    using node_field [OF y1(2) field_keys(2), of "nd_role n"] role at_node_put [OF y1(2), of ?n2] token_short [of "nd_role n"]
    by (auto simp: parse_node_kv_def at_node_cur [OF y1(2)] through_def one_of_iff)
  let ?y3 = "(put_node ?n2 y1)\<lparr>ys_context := YAML_CONTEXT_NODE_ENDPOINTS\<rparr>"
  have y3: "parse_line (field_line 4 ''endpoints'' []) (put_node ?n2 y1) = Parsed ?y3" "at_node ns ?n2 ?y3"
    using enter_line [OF y2(2)] by blast+
  obtain y4 where y4: "reads (map (item_line 6) (nd_endpoints n)) ?y3 y4" "at_node ns ?n3 y4"
    using endpoint_lines [OF y3(2) _ _ es(1)] es(2) by (auto simp: zero_node_def)
  let ?y5 = "y4\<lparr>ys_context := YAML_CONTEXT_NODE_CAPABILITIES\<rparr>"
  have y5: "parse_line (field_line 4 ''capabilities'' []) y4 = Parsed ?y5" "at_node ns ?n3 ?y5"
    using enter_line [OF y4(2)] by blast+
  obtain y6 where y6: "reads (map (item_line 6) (nd_capabilities n)) ?y5 y6" "at_node ns ?n4 y6"
    using capability_lines [OF y5(2) _ _ cs(1)] cs(2) by (auto simp: zero_node_def)
  have n4: "?n4\<lparr>nd_administrative_state := nd_administrative_state n\<rparr> = n" by simp
  have "valid_config_token ?adm" by (cases "nd_administrative_state n"; simp; code_simp)
  then have y7: "parse_line (field_line 4 ''administrative_state'' ?adm) y6 = Parsed (put_node n y6)"
    using node_field [OF y6(2) field_keys(5), of ?adm] arg_cong [OF n4, of "\<lambda>m. put_node m y6"]
    by (cases "nd_administrative_state n")
      (simp_all add: parse_node_kv_def at_node_cur [OF y6(2)] through_def one_of_iff)
  have "at_node ns n (put_node n y6)" using at_node_put [OF y6(2)] by blast
  moreover have "reads [field_line 4 ''administrative_state'' ?adm] y6 (put_node n y6)"
    using y7 field_line_short(1) [of "''administrative_state''" 4 ?adm]
    by (cases "nd_administrative_state n") simp_all
  then have "reads (node_lines n) y (put_node n y6)"
    using y1(1) y2(1) y3(1) y5(1) token_short [OF id] role token_short [of "nd_role n"]
      reads_append [OF y4(1)] reads_append [OF y6(1)]
    by (auto simp: node_lines_def field_line_short)
  ultimately show ?thesis by blast
qed

definition nodes_section :: "en_node list \<Rightarrow> string list" where
  "nodes_section ns = ''nodes:'' # concat (map node_lines ns)"

lemma nodes_read:
  "ys_top y = YAML_SECTION_NODES \<Longrightarrow> length (yc_nodes (ys_config y)) + length ns \<le> EN_MAX_NODES \<Longrightarrow> list_all printable_node ns \<Longrightarrow>
   \<exists>z. reads (concat (map node_lines ns)) y z \<and> yc_nodes (ys_config z) = yc_nodes (ys_config y) @ ns"
proof (induction ns arbitrary: y)
  case (Cons n ns)
  then obtain x where x: "reads (node_lines n) y x" "at_node (yc_nodes (ys_config y)) n x"
    using node_lines_read [of y "yc_nodes (ys_config y)" n] by auto
  then have "ys_top x = YAML_SECTION_NODES" "yc_nodes (ys_config x) = yc_nodes (ys_config y) @ [n]"
    by (simp_all add: at_node_def)
  with Cons.IH [of x] Cons.prems obtain z where
    "reads (concat (map node_lines ns)) x z" "yc_nodes (ys_config z) = yc_nodes (ys_config y) @ n # ns" by auto
  with reads_append [OF x(1)] show ?case by auto
qed simp

lemma nodes_header:
  "parse_line ''nodes:'' y = Parsed (y\<lparr>ys_top := YAML_SECTION_NODES, ys_context := YAML_CONTEXT_NONE, ys_node := None\<rparr>)"
proof -
  have "strip_comment ''nodes:'' = ''nodes:''" "trim ''nodes:'' = ''nodes:''" "indent_of ''nodes:'' = 0" by code_simp+
  then show ?thesis by (simp add: parse_line_def open_section_def)
qed

lemma token_no_LF: "valid_config_token s \<or> s = [] \<Longrightarrow> LF \<notin> set s"
  by (auto simp: valid_config_token_def list_all_iff token_char_def isalnum_def isdigit_def code_def char_consts)

lemma nodes_section_no_LF: "list_all printable_node ns \<Longrightarrow> \<forall>l\<in>set (nodes_section ns). LF \<notin> set l"
proof -
  have "LF \<notin> set l" if "printable_node n" "l \<in> set (node_lines n)" for n l
  proof -
    have t: "LF \<notin> set (nd_node_id n)" "LF \<notin> set (nd_role n)" "\<forall>x\<in>set (nd_endpoints n) \<union> set (nd_capabilities n). LF \<notin> set x"
      using that(1) by (auto simp: printable_node_def node_ok_def intro!: token_no_LF)
    have "LF \<notin> set (blanks k)" for k by (simp add: blanks_def char_consts)
    with t that(2) show ?thesis
      by (cases "nd_administrative_state n")
        (auto simp: node_lines_def item_line_def field_line_def char_consts split: if_splits)
  qed
  then show "list_all printable_node ns \<Longrightarrow> \<forall>l\<in>set (nodes_section ns). LF \<notin> set l"
    by (auto simp: nodes_section_def list_all_iff char_consts)
qed

section \<open>Properties\<close>

text \<open>
  C37. A \<open>nodes:\<close> section printed from nodes in the documented layout reads back as these nodes, in order,
  with every field: as a text, through the split into lines, comments, indentation and the contexts of the
  parser. The nodes are ones the validation accepts, and their endpoints and capabilities have no colon.
\<close>

theorem nodes_section_reads_back:
  assumes "list_all printable_node ns" "length ns \<le> EN_MAX_NODES"
  shows "\<exists>z. parse_lines error_len 0 (split_lines (unlines (nodes_section ns))) initial_parser =
      Parsed (length (nodes_section ns), z) \<and> yc_nodes (ys_config z) = ns"
proof -
  let ?y = "initial_parser\<lparr>ys_top := YAML_SECTION_NODES, ys_context := YAML_CONTEXT_NONE, ys_node := None\<rparr>"
  have "ys_top ?y = YAML_SECTION_NODES" "yc_nodes (ys_config ?y) = []"
    by (simp_all add: initial_parser_def empty_config_def)
  with nodes_read [of ?y ns] assms obtain z where z: "reads (concat (map node_lines ns)) ?y z" "yc_nodes (ys_config z) = ns"
    by auto
  then have "reads (nodes_section ns) initial_parser z" by (simp add: nodes_section_def nodes_header)
  from reads_parse_lines [OF this, of error_len 0] z(2) show ?thesis
    using split_lines_lines [OF nodes_section_no_LF [OF assms(1)]] by (simp add: unlines_def)
qed

definition sample_nodes :: "en_node list" where
  "sample_nodes = [zero_node\<lparr>nd_node_id := ''site-a'', nd_role := ''edge'', nd_endpoints := [''203.0.113.10'', ''203.0.113.14''],
       nd_capabilities := [''ipsec'']\<rparr>,
     zero_node\<lparr>nd_node_id := ''hub-1'', nd_capabilities := [''ipsec'', ''gre''], nd_administrative_state := EN_ADMIN_DISABLED\<rparr>]"

theorem nodes_section_reads_back_witness:
  "\<exists>z. parse_lines 256 0 (split_lines (unlines (nodes_section sample_nodes))) initial_parser =
      Parsed (length (nodes_section sample_nodes), z) \<and> yc_nodes (ys_config z) = sample_nodes"
proof (rule nodes_section_reads_back)
  show "list_all printable_node sample_nodes" by code_simp
  show "length sample_nodes \<le> EN_MAX_NODES" by (simp add: sample_nodes_def)
qed

text \<open>
  An endpoint is stored up to its first colon: the split of every list item at a colon, which serves
  the items that are fields, cuts the others as well. An endpoint without a colon is stored whole; an IPv6
  address or an endpoint with a port, which the validation accepts, is not.
\<close>

lemma endpoint_item_stops_at_colon:
  assumes "ys_top y = YAML_SECTION_NODES" "ys_context y = YAML_CONTEXT_NODE_ENDPOINTS"
    and "cur_node y = Some n" "length (nd_endpoints n) < EN_MAX_ENDPOINTS" "valid_config_token e" "2 < k"
  shows "parse_line (item_line k e) y =
    Parsed (put_node (n\<lparr>nd_endpoints := nd_endpoints n @ [takeWhile (\<lambda>c. c \<noteq> CHR '':'') e]\<rparr>) y)"
  using assms by (rule endpoint_line)

definition at_endpoints :: yaml_parser where
  "at_endpoints = initial_parser\<lparr>ys_config := empty_config\<lparr>yc_nodes := [zero_node]\<rparr>, ys_node := Some 0,
     ys_top := YAML_SECTION_NODES, ys_context := YAML_CONTEXT_NODE_ENDPOINTS\<rparr>"

lemma endpoint_item_stops_at_colon_witness:
  "parse_line ''      - 2001:db8::1'' at_endpoints =
   Parsed (put_node (zero_node\<lparr>nd_endpoints := [''2001'']\<rparr>) at_endpoints)"
proof -
  have "parse_line (item_line 6 ''2001:db8::1'') at_endpoints = Parsed (put_node (zero_node\<lparr>nd_endpoints :=
      nd_endpoints zero_node @ [takeWhile (\<lambda>c. c \<noteq> CHR '':'') ''2001:db8::1'']\<rparr>) at_endpoints)"
    by (rule endpoint_item_stops_at_colon)
      (simp_all add: at_endpoints_def cur_node_def deref_def zero_node_def, code_simp)
  then show ?thesis by (simp add: item_line_def blanks_def zero_node_def numeral_eq_Suc)
qed

end
