(* ===== verification/Startup.thy ===== *)
theory Startup
  imports ControllerCore ApplyPlan YamlLayout
begin

text \<open>
  How the programs start (\<open>examples/eventnetd.c\<close>, \<open>examples/netns_plan.c\<close>): load a configuration, create a
  controller over it, build the apply plan of one of its paths. The theory composes the reader with
  the controller and with the plan builder: what loading accepts is what the two need.
\<close>

section \<open>A controller over a loaded configuration\<close>

lemma well_formed_parts:
  assumes "well_formed_config c"
  shows "config_counts_valid c" "\<forall>n\<in>set (yc_nodes c). wf_node n" "\<forall>p\<in>set (yc_paths c). wf_path p"
  using assms
  by (auto simp: well_formed_config_def node_ok_def wf_node_def path_ok_def wf_path_def valid_config_token_def)

definition create_from_config ::
  "bool \<Rightarrow> en_yaml_config \<Rightarrow> 'w en_strongswan_adapter \<Rightarrow> 'w en_vpp_adapter \<Rightarrow> 'w en_health_probe \<Rightarrow> 'w en_controller option" where
  "create_from_config memory c =
     en_controller_create_with_nodes_and_tunnels memory (Some (yc_nodes c)) (length (yc_nodes c))
       (Some (yc_paths c)) (length (yc_paths c)) (Some (yc_tunnels c)) (length (yc_tunnels c))"

lemma create_well_formed:
  assumes "well_formed_config c"
  shows "\<exists>k. create_from_config True c ssw vp hp = Some k \<and>
    nodes (cstate k) = yc_nodes c \<and> paths (cstate k) = yc_paths c \<and> desired_tunnels (cstate k) = yc_tunnels c"
  using well_formed_parts [OF assms]
  by (auto simp: create_from_config_def en_controller_create_with_nodes_and_tunnels_def elements_def
      config_counts_valid_def list_all_iff wf_node_def wf_path_def)

text \<open>
  From a loaded configuration a controller can be created, if there is memory: it satisfies the state
  invariant, it is idle, holds exactly the nodes, paths and tunnels of the file, and every candidate and every
  explicit path of an intent of the file is a path that it finds.
\<close>

theorem loaded_config_starts_controller:
  assumes "en_yaml_config_load_file fopen filename dest error_len = Parsed c"
  shows "\<exists>k. create_from_config True c ssw vp hp = Some k \<and> wf_state (cstate k) \<and>
    transition_state (cstate k) = EN_TRANSITION_IDLE \<and> nodes (cstate k) = yc_nodes c \<and>
    paths (cstate k) = yc_paths c \<and> desired_tunnels (cstate k) = yc_tunnels c \<and>
    (\<forall>i\<in>set (yc_intents c). \<forall>x\<in>set (ps_candidates (it_path_selection i)). en_find_path (cstate k) (Some x) \<noteq> None)"
proof -
  have c: "well_formed_config c" by (rule loaded_wf [OF assms])
  then obtain k where k: "create_from_config True c ssw vp hp = Some k"
    "nodes (cstate k) = yc_nodes c" "paths (cstate k) = yc_paths c" "desired_tunnels (cstate k) = yc_tunnels c"
    using create_well_formed by blast
  have "\<forall>p\<in>set (elements (Some (yc_paths c)) (length (yc_paths c))). length (pt_path_id p) < EN_MAX_ID_LEN"
    using well_formed_parts(3) [OF c] by (simp add: elements_def wf_path_def)
  moreover have "transition_state (cstate k) = EN_TRANSITION_IDLE"
    using k(1) by (auto simp: create_from_config_def en_controller_create_with_nodes_and_tunnels_def split: if_splits)
  moreover have "\<forall>i\<in>set (yc_intents c). \<forall>x\<in>set (ps_candidates (it_path_selection i)). x \<in> pt_path_id ` set (yc_paths c)"
    using c by (auto simp: well_formed_config_def intent_ok_def Let_def)
  ultimately show ?thesis
    using k created_wf [OF k(1) [unfolded create_from_config_def]]
    by (fastforce simp: en_find_path_def find_index_None)
qed

theorem loaded_config_starts_controller_witness:
  "\<exists>k. create_from_config True sample_config en_strongswan_mock_adapter en_vpp_mock_adapter
      en_health_probe_mock_adapter = Some k \<and> wf_state (cstate k)"
  using loaded_config_starts_controller [OF sample_load] by blast

section \<open>Plans over a loaded configuration\<close>

text \<open>A step that fails with nothing but \<open>EN_ERR_INVALID_ARGUMENT\<close>.\<close>

definition refuses_only :: "plan_step \<Rightarrow> bool" where
  "refuses_only f \<longleftrightarrow> (\<forall>p e. f p = Inl e \<longrightarrow> e = EN_ERR_INVALID_ARGUMENT)"

named_theorems refuse_rules \<open>steps whose only error is an invalid argument\<close>

lemma refuses_and_then [refuse_rules]: "refuses_only f \<Longrightarrow> refuses_only g \<Longrightarrow> refuses_only (and_then f g)"
  by (auto simp: refuses_only_def and_then_def split: sum.splits)

lemma refuses_Inr [refuse_rules]: "refuses_only Inr" "refuses_only (\<lambda>p. Inr p)" "refuses_only (\<lambda>p. Inl EN_ERR_INVALID_ARGUMENT)"
  by (simp_all add: refuses_only_def)

lemma refuses_if [refuse_rules]:
  "(b \<Longrightarrow> refuses_only f) \<Longrightarrow> (\<not> b \<Longrightarrow> refuses_only g) \<Longrightarrow> refuses_only (if b then f else g)"
  "(b \<Longrightarrow> refuses_only f) \<Longrightarrow> (\<not> b \<Longrightarrow> refuses_only g) \<Longrightarrow> refuses_only (\<lambda>p. if b then f p else g p)"
  by (cases b; simp)+

lemma refuses_steps [refuse_rules]: "(\<And>x. x \<in> set xs \<Longrightarrow> refuses_only (f x)) \<Longrightarrow> refuses_only (steps f xs)"
proof (induction xs)
  case (Cons x xs)
  then have "refuses_only (and_then (f x) (steps f xs))" by (simp add: refuses_and_then)
  then show ?case by (simp add: refuses_only_def)
qed (simp add: refuses_only_def)

lemma refuses_appends [refuse_rules]:
  "refuses_only (append_conf s)" "refuses_only (append_command s)" "refuses_only (append_rollback_command s)"
  "refuses_only (append_command_with_rollback s r)"
  by (auto simp: refuses_only_def append_conf_def append_command_def append_rollback_command_def
      append_command_with_rollback_def split: sum.splits if_splits)

lemma refuses_checked [refuse_rules]: "(\<And>s. refuses_only (k s)) \<Longrightarrow> refuses_only (checked n s k)"
  by (auto simp: refuses_only_def checked_def)

lemma refuses_rendered [refuse_rules]: "(\<And>s. refuses_only (k s)) \<Longrightarrow> refuses_only (with_rendered r k)"
  by (auto simp: refuses_only_def with_rendered_def split: sum.splits)

lemma refuses_option [refuse_rules]:
  "(x = None \<Longrightarrow> refuses_only f) \<Longrightarrow> (\<And>y. x = Some y \<Longrightarrow> refuses_only (g y)) \<Longrightarrow>
   refuses_only (\<lambda>p. case x of None \<Rightarrow> f p | Some y \<Rightarrow> g y p)"
  "(x = None \<Longrightarrow> refuses_only f) \<Longrightarrow> (\<And>y. x = Some y \<Longrightarrow> refuses_only (g y)) \<Longrightarrow>
   refuses_only (case x of None \<Rightarrow> f | Some y \<Rightarrow> g y)"
  by (cases x; simp)+

text \<open>The renderers have no other error.\<close>

lemma format_error: "format_command n s = Inl e \<Longrightarrow> e = EN_ERR_INVALID_ARGUMENT"
  by (simp add: format_command_def split: if_splits)

lemma replace_entry_error: "en_render_vpp_route_replace_entry r n = Inl e \<Longrightarrow> e = EN_ERR_INVALID_ARGUMENT"
  by (auto simp: en_render_vpp_route_replace_entry_def Let_def split: if_splits dest: format_error)

lemma rendered_errors:
  "en_render_vpp_route_replace p t n = Inl e \<Longrightarrow> e = EN_ERR_INVALID_ARGUMENT"
  "tunnel_rendered t en_render_swanctl_terminate = Inl e \<Longrightarrow> e = EN_ERR_INVALID_ARGUMENT"
  by (auto simp: en_render_vpp_route_replace_def tunnel_rendered_def en_render_swanctl_terminate_def
      en_render_swanctl_terminate_uri_def split: option.splits if_splits prod.splits
      dest: format_error replace_entry_error)

lemma refuses_case_rendered:
  "(\<And>e. r = Inl e \<Longrightarrow> e = EN_ERR_INVALID_ARGUMENT) \<Longrightarrow> (\<And>s. refuses_only (k s)) \<Longrightarrow>
   refuses_only (\<lambda>p. case r of Inl e \<Rightarrow> Inl e | Inr s \<Rightarrow> k s p)"
  by (auto simp: refuses_only_def split: sum.splits)

lemma refuses_if_rendered: "refuses_only (append_if_rendered r)"
  by (auto simp: refuses_only_def append_if_rendered_def append_rollback_command_def split: sum.splits if_splits)

lemma refuses_tunnel_conf: "refuses_only (append_tunnel_conf t)"
  by (auto simp: refuses_only_def append_tunnel_conf_def checked_def append_conf_def split: option.splits if_splits)

lemma refuses_blocks: "refuses_only (append_blocks config g)" "refuses_only (append_unblocks config g)"
  unfolding append_blocks_def append_unblocks_def with_selectors_def append_block_def case_prod_beta
  by (intro refuse_rules)+

lemma refuses_routes:
  "refuses_only (append_route config path r)" "refuses_only (append_default_route config path)"
  "refuses_only (append_route_removal config path r)" "refuses_only (append_default_route_removal config path)"
  unfolding append_route_def append_default_route_def Let_def append_route_removal_def append_default_route_removal_def
  by (intro refuse_rules refuses_case_rendered refuses_if_rendered replace_entry_error rendered_errors; assumption)+

lemma refuses_terminate: "refuses_only (append_terminate config g)"
  unfolding append_terminate_def by (intro refuses_case_rendered refuse_rules rendered_errors; assumption)

text \<open>Every segment names a tunnel of the configuration, so the lookups of the builder succeed.\<close>

lemma refuses_segment:
  assumes "well_formed_config c" "path \<in> set (yc_paths c)" "g \<in> set (pt_segments path)"
  shows "refuses_only (append_segment_conf c g)" "refuses_only (append_segment_secret c g)"
proof -
  have "sg_tunnel_id g \<in> tn_tunnel_id ` set (yc_tunnels c)"
    using assms by (auto simp: well_formed_config_def path_ok_def segment_ok_def)
  then have "find_tunnel c (sg_tunnel_id g) \<noteq> None" by (auto simp: find_tunnel_def find_None_all)
  then obtain t where t: "find_tunnel c (sg_tunnel_id g) = Some t" by auto
  have "append_segment_conf c g = append_tunnel_conf t" by (rule ext) (simp add: append_segment_conf_def t)
  then show "refuses_only (append_segment_conf c g)" by (simp add: refuses_tunnel_conf)
  show "refuses_only (append_segment_secret c g)"
    unfolding append_segment_secret_def t option.case by (intro refuse_rules)
qed

lemma plan_refuses_only:
  assumes "well_formed_config c" "path \<in> set (yc_paths c)"
  shows "refuses_only (and_then (plan_conf c path)
    (and_then (plan_commands c intent path f) (plan_rollback c intent path)))"
  unfolding plan_conf_def plan_commands_def plan_rollback_def append_initiate_def append_gre_setup_def Let_def
  by (intro refuse_rules refuses_segment [OF assms] refuses_blocks refuses_routes refuses_terminate; simp)

text \<open>
  For every path of a loaded configuration and every intent, building the apply plan never fails to
  find a tunnel: it either gives up with an invalid argument, or gives a plan whose every command and
  rollback command the runner executes. The file name is an admitted argument, and the tables and metrics of
  the routes are \<open>int\<close>s.
\<close>

theorem loaded_config_plans:
  assumes "en_yaml_config_load_file fopen filename dest error_len = Parsed c" "path \<in> set (yc_paths c)"
    and "valid_command_token f" "\<forall>r\<in>set (pt_routes path). wf_route r"
  shows "case en_apply_plan_from_config_with_file c intent path f of
    Inl e \<Rightarrow> e = EN_ERR_INVALID_ARGUMENT | Inr p \<Rightarrow> plan_ok p"
proof (cases "en_apply_plan_from_config_with_file c intent path f")
  case (Inl e)
  then show ?thesis
    using plan_refuses_only [OF loaded_wf [OF assms(1)] assms(2), of intent f]
    by (auto simp: en_apply_plan_from_config_with_file_def refuses_only_def split: if_splits)
next
  case (Inr p)
  then show ?thesis using plan_executable [OF Inr assms(3,4)] by simp
qed

lemma sample_path_planned:
  "yc_paths sample_config \<noteq> []" "list_all wf_route (pt_routes (hd (yc_paths sample_config)))"
  "valid_command_token ''eventnet.conf''"
  by code_simp+

theorem loaded_config_plans_witness:
  "case en_apply_plan_from_config_with_file sample_config zero_intent (hd (yc_paths sample_config)) ''eventnet.conf'' of
     Inl e \<Rightarrow> e = EN_ERR_INVALID_ARGUMENT | Inr p \<Rightarrow> plan_ok p"
  using sample_path_planned
  by (intro loaded_config_plans [OF sample_load]) (simp_all add: list_all_iff)

end
