(* ===== verification/VppApiAdapter.thy ===== *)
theory VppApiAdapter
  imports Samples
begin

text \<open>
  The message adapter of \<open>src/vpp_api_adapter.c\<close>, which turns a path into route, VRF and VLAN
  operations on VPP and undoes them when one fails. The operations are callbacks on a device
  of any type; a callback the code compares with \<open>NULL\<close> is an \<open>option\<close>.
\<close>

section \<open>Operations and their guards\<close>

record 'd en_vpp_api_message_ops =
  op_add_route :: "(en_route \<Rightarrow> ('d, en_error_code) state) option"
  op_remove_route :: "(en_route \<Rightarrow> ('d, en_error_code) state) option"
  op_create_vlan_subinterface :: "(en_vpp_edge \<Rightarrow> int \<Rightarrow> ('d, en_error_code) state) option"
  op_remove_vlan_subinterface :: "(en_vpp_edge \<Rightarrow> int \<Rightarrow> ('d, en_error_code) state) option"
  op_set_vlan_interface_table :: "(en_vpp_edge \<Rightarrow> int \<Rightarrow> int \<Rightarrow> ('d, en_error_code) state) option"
  op_ensure_vrf :: "(int \<Rightarrow> ('d, en_error_code) state) option"

definition valid_observation_token :: "string \<Rightarrow> bool" where
  "valid_observation_token s \<longleftrightarrow> s \<noteq> [] \<and> list_all token_char s"

definition path_contains_node :: "en_path \<Rightarrow> string \<Rightarrow> bool" where
  "path_contains_node p n \<longleftrightarrow>
     strcmp (pt_source p) n = 0 \<or> strcmp (pt_destination p) n = 0 \<or>
     list_ex (\<lambda>w. strcmp w n = 0) (pt_waypoints p) \<or>
     list_ex (\<lambda>g. strcmp (sg_from_node g) n = 0 \<or> strcmp (sg_to_node g) n = 0) (pt_segments p)"

definition edge_allows_vlan :: "en_vpp_edge \<Rightarrow> int \<Rightarrow> bool" where
  "edge_allows_vlan e vlan \<longleftrightarrow> ve_allowed_vlans e = [] \<or> list_ex (\<lambda>v. v = vlan) (ve_allowed_vlans e)"

text \<open>\<open>-1\<close>: the node has no table; \<open>-2\<close>: its routes name two.\<close>

fun node_table :: "string \<Rightarrow> en_route list \<Rightarrow> int option \<Rightarrow> int" where
  "node_table n [] found = (case found of None \<Rightarrow> -1 | Some t \<Rightarrow> t)"
| "node_table n (r # rs) found =
     (if strcmp (rt_node_id r) n \<noteq> 0 \<or> rt_table_id r < 0 then node_table n rs found
      else if found \<noteq> None \<and> found \<noteq> Some (rt_table_id r) then -2
      else node_table n rs (Some (rt_table_id r)))"

definition table_for_node :: "en_path \<Rightarrow> string \<Rightarrow> int" where
  "table_for_node p n = node_table n (pt_routes p) None"

definition edge_matches_route :: "en_vpp_edge \<Rightarrow> en_route \<Rightarrow> bool" where
  "edge_matches_route e r \<longleftrightarrow> strcmp (ve_node_id e) (rt_node_id r) = 0 \<and>
     (rt_interface_name r = [] \<or> strcmp (rt_interface_name r) (ve_vpp_interface e) = 0 \<or>
      strcmp (rt_interface_name r) (ve_host_interface e) = 0)"

definition valid_route_operation :: "en_route \<Rightarrow> bool" where
  "valid_route_operation r \<longleftrightarrow> rt_destination_prefix r \<noteq> [] \<and> rt_next_hop r \<noteq> [] \<and>
     (rt_route_id r = [] \<or> valid_observation_token (rt_route_id r)) \<and>
     (rt_node_id r = [] \<or> valid_observation_token (rt_node_id r)) \<and>
     valid_observation_token (rt_destination_prefix r) \<and> valid_observation_token (rt_next_hop r) \<and>
     (rt_interface_name r = [] \<or> valid_observation_token (rt_interface_name r)) \<and> -1 \<le> rt_table_id r"

definition implicit_route :: "en_path \<Rightarrow> en_route" where
  "implicit_route p = zero_route\<lparr>rt_route_id := fit EN_MAX_ID_LEN (pt_path_id p),
     rt_node_id := fit EN_MAX_ID_LEN (pt_source p),
     rt_destination_prefix := fit EN_MAX_ID_LEN (pt_route_destination_prefix p),
     rt_next_hop := fit EN_MAX_ID_LEN (pt_route_next_hop p), rt_table_id := -1\<rparr>"

definition operation_guards ::
  "'d en_vpp_api_message_ops \<Rightarrow> en_path \<Rightarrow> en_traffic_selector \<Rightarrow> en_vpp_edge list \<Rightarrow> bool \<Rightarrow> bool" where
  "operation_guards ops p t edges remove \<longleftrightarrow>
     length edges \<le> EN_MAX_VPP_EDGES \<and> op_remove_route ops \<noteq> None \<and>
     (remove \<or> op_add_route ops \<noteq> None) \<and>
     length (pt_routes p) \<le> EN_MAX_ROUTES \<and>
     \<not> (ts_has_vlan_id t \<and> (ts_vlan_id t < 0 \<or> 4095 < ts_vlan_id t)) \<and>
     (remove \<or> list_all (\<lambda>r. \<not> (0 < rt_table_id r \<and> op_ensure_vrf ops = None)) (pt_routes p)) \<and>
     \<not> (ts_has_vlan_id t \<and> (if remove then op_remove_vlan_subinterface ops = None
         else op_create_vlan_subinterface ops = None \<or> op_remove_vlan_subinterface ops = None)) \<and>
     (ts_has_vlan_id t \<and> \<not> remove \<longrightarrow>
        list_all (\<lambda>e. \<not> path_contains_node p (ve_node_id e) \<or>
          \<not> (table_for_node p (ve_node_id e) < -1 \<or>
             0 < table_for_node p (ve_node_id e) \<and> op_set_vlan_interface_table ops = None)) edges)"

fun check_routes :: "en_vpp_edge list \<Rightarrow> en_route list \<Rightarrow> en_error_code" where
  "check_routes edges [] = EN_ERR_NONE"
| "check_routes edges (r # rs) =
     (if \<not> valid_route_operation r then EN_ERR_INVALID_ARGUMENT
      else if rt_interface_name r \<noteq> [] \<and> \<not> list_ex (\<lambda>e. edge_matches_route e r) edges
      then EN_ERR_NOT_FOUND
      else check_routes edges rs)"

definition check_path :: "en_path \<Rightarrow> en_vpp_edge list \<Rightarrow> en_error_code" where
  "check_path p edges =
     (if pt_routes p = []
      then (if valid_route_operation (implicit_route p) then EN_ERR_NONE else EN_ERR_INVALID_ARGUMENT)
      else check_routes edges (pt_routes p))"

section \<open>Applying and undoing\<close>

text \<open>A call of a callback that the guards have found set.\<close>

definition call :: "('d, en_error_code) state option \<Rightarrow> ('d, en_error_code) state" where
  "call f = (case f of None \<Rightarrow> State_Monad.return EN_ERR_INVALID_ARGUMENT | Some m \<Rightarrow> m)"

abbreviation add_route where
  "add_route ops r \<equiv> call (map_option (\<lambda>f. f r) (op_add_route ops))"
abbreviation remove_route where
  "remove_route ops r \<equiv> call (map_option (\<lambda>f. f r) (op_remove_route ops))"
abbreviation create_vlan where
  "create_vlan ops e v \<equiv> call (map_option (\<lambda>f. f e v) (op_create_vlan_subinterface ops))"
abbreviation remove_vlan where
  "remove_vlan ops e v \<equiv> call (map_option (\<lambda>f. f e v) (op_remove_vlan_subinterface ops))"

primrec each :: "('a \<Rightarrow> ('d, 'e) state) \<Rightarrow> 'a list \<Rightarrow> ('d, unit) state" where
  "each f [] = skip"
| "each f (x # xs) = do { _ \<leftarrow> f x; each f xs }"

definition rollback_install ::
  "'d en_vpp_api_message_ops \<Rightarrow> en_route list \<Rightarrow> en_vpp_edge list \<Rightarrow> int \<Rightarrow> ('d, unit) state" where
  "rollback_install ops routes edges vlan = do {
     _ \<leftarrow> each (remove_route ops) (rev routes);
     if 0 \<le> vlan \<and> op_remove_vlan_subinterface ops \<noteq> None
     then each (\<lambda>e. remove_vlan ops e vlan) (rev edges) else skip
   }"

fun create_vlans ::
  "'d en_vpp_api_message_ops \<Rightarrow> en_path \<Rightarrow> en_traffic_selector \<Rightarrow> bool \<Rightarrow> en_vpp_edge list \<Rightarrow>
   en_vpp_edge list \<Rightarrow> ('d, en_error_code \<times> en_vpp_edge list) state" where
  "create_vlans ops p t remove [] created = State_Monad.return (EN_ERR_NONE, created)"
| "create_vlans ops p t remove (e # es) created =
     (if \<not> path_contains_node p (ve_node_id e) then create_vlans ops p t remove es created
      else if ts_has_vlan_id t \<and> \<not> edge_allows_vlan e (ts_vlan_id t)
      then State_Monad.return (EN_ERR_INVALID_ARGUMENT, created)
      else if \<not> remove \<and> ts_has_vlan_id t then do {
        status \<leftarrow> create_vlan ops e (ts_vlan_id t);
        if status \<noteq> EN_ERR_NONE then do {
          _ \<leftarrow> each (\<lambda>e. remove_vlan ops e (ts_vlan_id t)) (rev created);
          State_Monad.return (status, created)
        } else create_vlans ops p t remove es (created @ [e])
      } else create_vlans ops p t remove es created)"

definition prepare_vrf ::
  "'d en_vpp_api_message_ops \<Rightarrow> bool \<Rightarrow> en_route list \<Rightarrow> en_route \<Rightarrow> ('d, en_error_code) state" where
  "prepare_vrf ops remove previous r =
     (if \<not> remove \<and> 0 < rt_table_id r \<and> op_ensure_vrf ops \<noteq> None \<and>
         \<not> list_ex (\<lambda>q. rt_table_id q = rt_table_id r) previous
      then call (map_option (\<lambda>f. f (rt_table_id r)) (op_ensure_vrf ops))
      else State_Monad.return EN_ERR_NONE)"

definition same_table_target :: "en_route \<Rightarrow> en_route \<Rightarrow> bool" where
  "same_table_target r q \<longleftrightarrow> strcmp (rt_node_id q) (rt_node_id r) = 0 \<and>
     (rt_interface_name r = [] \<or>
      (rt_interface_name q \<noteq> [] \<and> strcmp (rt_interface_name q) (rt_interface_name r) = 0))"

definition bind_vlan_table ::
  "'d en_vpp_api_message_ops \<Rightarrow> en_traffic_selector \<Rightarrow> en_vpp_edge list \<Rightarrow> bool \<Rightarrow> en_route list \<Rightarrow>
   en_route \<Rightarrow> ('d, en_error_code) state" where
  "bind_vlan_table ops t edges remove previous r =
     (if \<not> remove \<and> ts_has_vlan_id t \<and> 0 < rt_table_id r \<and> op_set_vlan_interface_table ops \<noteq> None \<and>
         \<not> list_ex (\<lambda>q. same_table_target r q \<and> 0 \<le> rt_table_id q) previous
      then (case find (\<lambda>e. edge_matches_route e r) edges of
              None \<Rightarrow> State_Monad.return EN_ERR_NONE
            | Some e \<Rightarrow> call (map_option (\<lambda>f. f e (ts_vlan_id t) (rt_table_id r)) (op_set_vlan_interface_table ops)))
      else State_Monad.return EN_ERR_NONE)"

definition rollback_vlan :: "en_traffic_selector \<Rightarrow> int" where
  "rollback_vlan t = (if ts_has_vlan_id t then ts_vlan_id t else -1)"

definition route_call ::
  "'d en_vpp_api_message_ops \<Rightarrow> bool \<Rightarrow> en_route \<Rightarrow> ('d, en_error_code) state" where
  "route_call ops remove r = (if remove then remove_route ops r else add_route ops r)"

fun apply_routes ::
  "'d en_vpp_api_message_ops \<Rightarrow> en_traffic_selector \<Rightarrow> en_vpp_edge list \<Rightarrow> bool \<Rightarrow> en_vpp_edge list \<Rightarrow>
   en_route list \<Rightarrow> en_route list \<Rightarrow> en_route list \<Rightarrow> ('d, en_error_code) state" where
  "apply_routes ops t edges remove created previous undo [] = State_Monad.return EN_ERR_NONE"
| "apply_routes ops t edges remove created previous undo (r # rs) = do {
     vrf \<leftarrow> prepare_vrf ops remove previous r;
     if vrf \<noteq> EN_ERR_NONE then do {
       _ \<leftarrow> rollback_install ops undo created (rollback_vlan t);
       State_Monad.return vrf
     } else do {
       table \<leftarrow> bind_vlan_table ops t edges remove previous r;
       if table \<noteq> EN_ERR_NONE then do {
         _ \<leftarrow> rollback_install ops undo created (rollback_vlan t);
         State_Monad.return table
       } else do {
         status \<leftarrow> route_call ops remove r;
         if status \<noteq> EN_ERR_NONE then do {
           _ \<leftarrow> (if \<not> remove then rollback_install ops undo created (rollback_vlan t) else skip);
           State_Monad.return status
         } else apply_routes ops t edges remove created (previous @ [r])
             (if remove then undo else undo @ [r]) rs
       }
     }
   }"

definition apply_implicit ::
  "'d en_vpp_api_message_ops \<Rightarrow> en_traffic_selector \<Rightarrow> bool \<Rightarrow> en_vpp_edge list \<Rightarrow> en_route \<Rightarrow>
   ('d, en_error_code) state" where
  "apply_implicit ops t remove created r = do {
     status \<leftarrow> route_call ops remove r;
     if status \<noteq> EN_ERR_NONE then do {
       _ \<leftarrow> (if \<not> remove then rollback_install ops [] created (rollback_vlan t) else skip);
       State_Monad.return status
     } else State_Monad.return EN_ERR_NONE
   }"

fun remove_vlans ::
  "'d en_vpp_api_message_ops \<Rightarrow> en_path \<Rightarrow> int \<Rightarrow> en_vpp_edge list \<Rightarrow> ('d, en_error_code) state" where
  "remove_vlans ops p vlan [] = State_Monad.return EN_ERR_NONE"
| "remove_vlans ops p vlan (e # es) =
     (if \<not> path_contains_node p (ve_node_id e) then remove_vlans ops p vlan es
      else do {
        status \<leftarrow> remove_vlan ops e vlan;
        if status \<noteq> EN_ERR_NONE then State_Monad.return status else remove_vlans ops p vlan es
      })"

definition en_vpp_api_apply_path_operations ::
  "'d en_vpp_api_message_ops \<Rightarrow> en_path \<Rightarrow> en_traffic_selector \<Rightarrow> en_vpp_edge list \<Rightarrow> bool \<Rightarrow>
   ('d, en_error_code) state" where
  "en_vpp_api_apply_path_operations ops p t edges remove =
     (if \<not> operation_guards ops p t edges remove then State_Monad.return EN_ERR_INVALID_ARGUMENT
      else if check_path p edges \<noteq> EN_ERR_NONE then State_Monad.return (check_path p edges)
      else do {
        (vlans, created) \<leftarrow> create_vlans ops p t remove edges [];
        if vlans \<noteq> EN_ERR_NONE then State_Monad.return vlans
        else do {
          status \<leftarrow> (if pt_routes p \<noteq> [] then apply_routes ops t edges remove created [] [] (pt_routes p)
                    else apply_implicit ops t remove created (implicit_route p));
          if status \<noteq> EN_ERR_NONE then State_Monad.return status
          else if remove \<and> ts_has_vlan_id t then remove_vlans ops p (ts_vlan_id t) edges
          else State_Monad.return EN_ERR_NONE
        }
      })"

section \<open>The message adapter\<close>

record 'd en_vpp_api_message_ctx =
  mx_operations :: "'d en_vpp_api_message_ops"
  mx_traffic :: en_traffic_selector
  mx_edges :: "en_vpp_edge list"

definition message_path_call ::
  "bool \<Rightarrow> 'd en_vpp_api_message_ctx option \<Rightarrow> string option \<Rightarrow> en_path \<Rightarrow> ('d, en_error_code) state" where
  "message_path_call remove ctx key p =
     (case (ctx, key) of
        (Some m, Some k) \<Rightarrow>
          if k = [] then State_Monad.return EN_ERR_INVALID_ARGUMENT
          else en_vpp_api_apply_path_operations (mx_operations m) p (mx_traffic m) (mx_edges m) remove
      | _ \<Rightarrow> State_Monad.return EN_ERR_INVALID_ARGUMENT)"

definition message_install_path where "message_install_path = message_path_call False"
definition message_remove_path where "message_remove_path = message_path_call True"

definition en_vpp_api_message_adapter :: "'w en_vpp_api_message_ctx option \<Rightarrow> 'w en_vpp_adapter" where
  "en_vpp_api_message_adapter ctx = \<lparr>
     install_path = Some (\<lambda>key p. on_dev (message_install_path ctx (Some key) p)),
     remove_path = Some (\<lambda>key p. on_dev (message_remove_path ctx (Some key) p)),
     active_path = None\<rparr>"

section \<open>Recording the operations\<close>

text \<open>
  \<open>record_ops ops\<close> does what \<open>ops\<close> does and logs every call with whether it succeeded. The
  properties of the adapter are statements on this log, for every device.
\<close>

datatype vpp_call =
    AddRoute en_route | RemoveRoute en_route | CreateVlan en_vpp_edge int
  | RemoveVlan en_vpp_edge int | SetTable en_vpp_edge int int | EnsureVrf int

type_synonym call_log = "(vpp_call \<times> bool) list"

definition record_call ::
  "vpp_call \<Rightarrow> ('d, en_error_code) state \<Rightarrow> ('d \<times> call_log, en_error_code) state" where
  "record_call k m = State (\<lambda>(d, l). case run_state m d of
     (e, d') \<Rightarrow> (e, (d', l @ [(k, e = EN_ERR_NONE)])))"

definition record_ops :: "'d en_vpp_api_message_ops \<Rightarrow> ('d \<times> call_log) en_vpp_api_message_ops" where
  "record_ops ops = \<lparr>
     op_add_route = map_option (\<lambda>f r. record_call (AddRoute r) (f r)) (op_add_route ops),
     op_remove_route = map_option (\<lambda>f r. record_call (RemoveRoute r) (f r)) (op_remove_route ops),
     op_create_vlan_subinterface =
       map_option (\<lambda>f e v. record_call (CreateVlan e v) (f e v)) (op_create_vlan_subinterface ops),
     op_remove_vlan_subinterface =
       map_option (\<lambda>f e v. record_call (RemoveVlan e v) (f e v)) (op_remove_vlan_subinterface ops),
     op_set_vlan_interface_table =
       map_option (\<lambda>f e v t. record_call (SetTable e v t) (f e v t)) (op_set_vlan_interface_table ops),
     op_ensure_vrf = map_option (\<lambda>f t. record_call (EnsureVrf t) (f t)) (op_ensure_vrf ops)\<rparr>"

text \<open>What a log has put in place, in order.\<close>

fun added_route :: "vpp_call \<times> bool \<Rightarrow> en_route option" where
  "added_route (AddRoute r, True) = Some r" | "added_route _ = None"

fun created_vlan :: "vpp_call \<times> bool \<Rightarrow> en_vpp_edge option" where
  "created_vlan (CreateVlan e v, True) = Some e" | "created_vlan _ = None"

fun is_removal :: "vpp_call \<times> bool \<Rightarrow> bool" where
  "is_removal (RemoveRoute r, b) = True" | "is_removal (RemoveVlan e v, b) = True" | "is_removal _ = False"

definition added :: "call_log \<Rightarrow> en_route list" where
  "added l = List.map_filter added_route l"

definition created_edges :: "call_log \<Rightarrow> en_vpp_edge list" where
  "created_edges l = List.map_filter created_vlan l"

text \<open>
  Nothing was removed, or the removals at the end of the log take back exactly what the log
  before them has put in place, the last first: routes, then sub-interfaces.
\<close>

definition no_removal :: "call_log \<Rightarrow> bool" where
  "no_removal l \<longleftrightarrow> list_all (\<lambda>c. \<not> is_removal c) l"

definition compensated :: "int \<Rightarrow> call_log \<Rightarrow> bool" where
  "compensated vlan l \<longleftrightarrow> (\<exists>before after. l = before @ after \<and> no_removal before \<and>
     map fst after = map RemoveRoute (rev (added before)) @
       map (\<lambda>e. RemoveVlan e vlan) (rev (created_edges before)))"

section \<open>Installation is all or nothing\<close>

lemma log_append [simp]:
  "added (a @ b) = added a @ added b" "created_edges (a @ b) = created_edges a @ created_edges b"
  "no_removal (a @ b) = (no_removal a \<and> no_removal b)"
  by (simp_all add: added_def created_edges_def no_removal_def List.map_filter_def)

lemma log_single [simp]:
  "added [(AddRoute r, b)] = (if b then [r] else [])" "created_edges [(AddRoute r, b)] = []"
  "no_removal [(AddRoute r, b)]"
  "added [(CreateVlan e v, b)] = []" "created_edges [(CreateVlan e v, b)] = (if b then [e] else [])"
  "no_removal [(CreateVlan e v, b)]"
  "added [(SetTable e v t, b)] = []" "created_edges [(SetTable e v t, b)] = []" "no_removal [(SetTable e v t, b)]"
  "added [(EnsureVrf t, b)] = []" "created_edges [(EnsureVrf t, b)] = []" "no_removal [(EnsureVrf t, b)]"
  by (cases b; simp add: added_def created_edges_def no_removal_def map_filter_simps)+

lemma log_Nil [simp]: "added [] = []" "created_edges [] = []" "no_removal []"
  by (simp_all add: added_def created_edges_def no_removal_def map_filter_simps)

text \<open>The log so far: \<open>rs\<close> added, \<open>es\<close> created, nothing removed.\<close>

definition in_place :: "en_route list \<Rightarrow> en_vpp_edge list \<Rightarrow> 'd \<times> call_log \<Rightarrow> bool" where
  "in_place rs es s \<longleftrightarrow> no_removal (snd s) \<and> added (snd s) = rs \<and> created_edges (snd s) = es"

lemma recorded_call:
  "triple (in_place rs es) (record_call k m) (\<lambda>e s. \<exists>l. snd s = l @ [(k, e = EN_ERR_NONE)] \<and>
     no_removal l \<and> added l = rs \<and> created_edges l = es)"
  by (auto simp: triple_def record_call_def in_place_def split: prod.splits)

lemma each_recorded:
  "\<exists>d' bs. run_state (each (\<lambda>x. record_call (k x) (f x)) xs) (d, l) = ((), (d', l @ bs)) \<and> map fst bs = map k xs"
proof (induction xs arbitrary: d l)
  case Nil
  show ?case by simp
next
  case (Cons x xs)
  obtain e d1 where f: "run_state (f x) d = (e, d1)" by (meson surj_pair)
  obtain d' bs where "run_state (each (\<lambda>x. record_call (k x) (f x)) xs) (d1, l @ [(k x, e = EN_ERR_NONE)]) =
      ((), (d', (l @ [(k x, e = EN_ERR_NONE)]) @ bs))" "map fst bs = map k xs"
    using Cons [of d1 "l @ [(k x, e = EN_ERR_NONE)]"] by blast
  then show ?case
    by (intro exI [of _ d'] exI [of _ "(k x, e = EN_ERR_NONE) # bs"]) (simp add: record_call_def f)
qed

lemma remove_route_record: "op_remove_route ops \<noteq> None \<Longrightarrow>
   remove_route (record_ops ops) = (\<lambda>r. record_call (RemoveRoute r) (remove_route ops r))"
  by (auto simp: record_ops_def call_def)

lemma remove_vlan_record: "op_remove_vlan_subinterface ops \<noteq> None \<Longrightarrow>
   (\<lambda>e. remove_vlan (record_ops ops) e v) = (\<lambda>e. record_call (RemoveVlan e v) (remove_vlan ops e v))"
  by (auto simp: record_ops_def call_def)

lemma compensatedI:
  "l' = before @ after \<Longrightarrow> no_removal before \<Longrightarrow> map fst after = map RemoveRoute (rev (added before)) @
     map (\<lambda>e. RemoveVlan e vlan) (rev (created_edges before)) \<Longrightarrow> compensated vlan l'"
  by (auto simp: compensated_def)

lemma each_remove_vlan:
  "op_remove_vlan_subinterface ops \<noteq> None \<Longrightarrow>
   \<exists>d' bs. run_state (each (\<lambda>e. remove_vlan (record_ops ops) e v) es) (d, l) = ((), (d', l @ bs)) \<and>
     map fst bs = map (\<lambda>e. RemoveVlan e v) es"
  unfolding remove_vlan_record by (rule each_recorded)

lemma rollback_compensates:
  assumes "op_remove_route ops \<noteq> None" and "ts_has_vlan_id t \<Longrightarrow> op_remove_vlan_subinterface ops \<noteq> None \<and> 0 \<le> ts_vlan_id t"
    and "\<not> ts_has_vlan_id t \<Longrightarrow> es = []"
  shows "triple (in_place rs es) (rollback_install (record_ops ops) rs es (rollback_vlan t))
    (\<lambda>_ s. compensated (ts_vlan_id t) (snd s))"
proof (rule tripleI)
  fix s :: "'a \<times> call_log" and a u
  assume place: "in_place rs es s"
    and run: "run_state (rollback_install (record_ops ops) rs es (rollback_vlan t)) s = (a, u)"
  obtain d l where s: "s = (d, l)" by (cases s)
  obtain d1 b1 where routes: "run_state (each (remove_route (record_ops ops)) (rev rs)) (d, l) = ((), (d1, l @ b1))"
    "map fst b1 = map RemoveRoute (rev rs)"
    using each_recorded [of RemoveRoute "remove_route ops" "rev rs" d l] remove_route_record [OF assms(1)] by auto
  show "compensated (ts_vlan_id t) (snd u)"
  proof (cases "ts_has_vlan_id t")
    case True
    then have set: "op_remove_vlan_subinterface ops \<noteq> None" "0 \<le> ts_vlan_id t" using assms(2) by auto
    obtain d2 b2 where "run_state (each (\<lambda>e. remove_vlan (record_ops ops) e (ts_vlan_id t)) (rev es)) (d1, l @ b1) =
        ((), (d2, (l @ b1) @ b2))" "map fst b2 = map (\<lambda>e. RemoveVlan e (ts_vlan_id t)) (rev es)"
      using each_remove_vlan [OF set(1), of "ts_vlan_id t" "rev es" d1 "l @ b1"] by auto
    then have "snd u = l @ (b1 @ b2)"
      "map fst (b1 @ b2) = map RemoveRoute (rev rs) @ map (\<lambda>e. RemoveVlan e (ts_vlan_id t)) (rev es)"
      using run routes True set by (auto simp: s rollback_install_def rollback_vlan_def record_ops_def)
    with place show ?thesis
      by (intro compensatedI [of _ l "b1 @ b2"]) (auto simp: in_place_def s)
  next
    case False
    then have "snd u = l @ b1" using run routes by (auto simp: s rollback_install_def rollback_vlan_def)
    with place routes assms(3) [OF False] show ?thesis
      by (intro compensatedI [of _ l b1]) (auto simp: in_place_def s)
  qed
qed

definition installing ::
  "en_route list \<Rightarrow> en_vpp_edge list \<Rightarrow> int \<Rightarrow> en_error_code \<Rightarrow> 'd \<times> call_log \<Rightarrow> bool" where
  "installing rs es vlan e s \<longleftrightarrow> (if e = EN_ERR_NONE then in_place rs es s else compensated vlan (snd s))"

lemma in_place_extend:
  "no_removal l \<Longrightarrow> added l = rs \<Longrightarrow> created_edges l = es \<Longrightarrow> in_place rs es (d, l)"
  by (simp add: in_place_def)

lemma call_record:
  "f \<noteq> None \<Longrightarrow> call (map_option (\<lambda>g. g x) (map_option (\<lambda>f x. record_call (k x) (f x)) f)) =
     record_call (k x) (call (map_option (\<lambda>f. f x) f))"
  by (auto simp: call_def)

lemma add_route_triple:
  assumes "op_add_route ops \<noteq> None"
  shows "triple (in_place rs es) (add_route (record_ops ops) r)
    (\<lambda>e. in_place (if e = EN_ERR_NONE then rs @ [r] else rs) es)"
  using assms by (auto simp: triple_def record_ops_def call_def record_call_def in_place_def split: prod.splits)

lemma create_vlan_triple:
  assumes "op_create_vlan_subinterface ops \<noteq> None"
  shows "triple (in_place rs es) (create_vlan (record_ops ops) x v)
    (\<lambda>e. in_place rs (if e = EN_ERR_NONE then es @ [x] else es))"
  using assms by (auto simp: triple_def record_ops_def call_def record_call_def in_place_def split: prod.splits)

lemma prepare_vrf_triple:
  "preserves (in_place rs es) (prepare_vrf (record_ops ops) remove previous r)"
  by (auto simp: preserves_def triple_def prepare_vrf_def record_ops_def call_def record_call_def
      in_place_def split: prod.splits)

lemma bind_table_triple:
  "preserves (in_place rs es) (bind_vlan_table (record_ops ops) t edges remove previous r)"
  by (auto simp: preserves_def triple_def bind_vlan_table_def record_ops_def call_def record_call_def
      in_place_def split: prod.splits option.splits)

lemma apply_routes_triple:
  assumes "op_remove_route ops \<noteq> None" "op_add_route ops \<noteq> None"
    and vlan: "ts_has_vlan_id t \<Longrightarrow> op_remove_vlan_subinterface ops \<noteq> None \<and> 0 \<le> ts_vlan_id t"
    and none: "\<not> ts_has_vlan_id t \<Longrightarrow> es = []"
  shows "triple (in_place undo es) (apply_routes (record_ops ops) t edges False es previous undo rs)
    (installing (undo @ rs) es (ts_vlan_id t))"
proof (induction rs arbitrary: previous undo)
  case Nil
  show ?case by (auto intro!: triple_return simp: installing_def)
next
  case (Cons r rs)
  have fail: "triple (in_place undo es)
      (rollback_install (record_ops ops) undo es (rollback_vlan t) \<bind> (\<lambda>_. State_Monad.return e))
      (installing (undo @ r # rs) es (ts_vlan_id t))" if "e \<noteq> EN_ERR_NONE" for e
    by (rule triple_bind [OF rollback_compensates [OF assms(1) vlan none]])
      (auto intro!: triple_return simp: installing_def that)
  have add: "triple (in_place undo es) (route_call (record_ops ops) False r)
      (\<lambda>e. in_place (if e = EN_ERR_NONE then undo @ [r] else undo) es)"
    using add_route_triple [OF assms(2)] by (simp add: route_call_def)
  show ?case
    unfolding apply_routes.simps
    by (rule triple_seq [OF prepare_vrf_triple], rule triple_if, erule fail,
        rule triple_seq [OF bind_table_triple], rule triple_if, erule fail,
        rule triple_bind [OF add], rule triple_if)
      (use fail Cons [of "undo @ [r]"] in auto)
qed

lemma apply_implicit_triple:
  assumes "op_remove_route ops \<noteq> None" "op_add_route ops \<noteq> None"
    and vlan: "ts_has_vlan_id t \<Longrightarrow> op_remove_vlan_subinterface ops \<noteq> None \<and> 0 \<le> ts_vlan_id t"
    and none: "\<not> ts_has_vlan_id t \<Longrightarrow> es = []"
  shows "triple (in_place [] es) (apply_implicit (record_ops ops) t False es r)
    (installing [r] es (ts_vlan_id t))"
proof -
  have "triple (in_place [] es)
      (rollback_install (record_ops ops) [] es (rollback_vlan t) \<bind> (\<lambda>_. State_Monad.return e))
      (installing [r] es (ts_vlan_id t))" if "e \<noteq> EN_ERR_NONE" for e
    by (rule triple_bind [OF rollback_compensates [OF assms(1) vlan none]])
      (auto intro!: triple_return simp: installing_def that)
  then show ?thesis
    unfolding apply_implicit_def route_call_def if_False
    by (intro triple_bind [OF add_route_triple [OF assms(2)]] triple_if)
      (auto intro!: triple_return simp: installing_def)
qed

text \<open>The edges a VLAN sub-interface is made on.\<close>

definition vlan_edges :: "en_path \<Rightarrow> en_traffic_selector \<Rightarrow> en_vpp_edge list \<Rightarrow> en_vpp_edge list" where
  "vlan_edges p t edges = (if ts_has_vlan_id t then filter (\<lambda>e. path_contains_node p (ve_node_id e)) edges else [])"

lemma create_vlans_triple:
  assumes set: "ts_has_vlan_id t \<Longrightarrow> op_create_vlan_subinterface ops \<noteq> None \<and>
      op_remove_vlan_subinterface ops \<noteq> None"
    and allowed: "\<forall>e\<in>set es. path_contains_node p (ve_node_id e) \<longrightarrow> ts_has_vlan_id t \<longrightarrow> edge_allows_vlan e (ts_vlan_id t)"
  shows "triple (in_place [] cs) (create_vlans (record_ops ops) p t False es cs)
    (\<lambda>r s. installing [] (snd r) (ts_vlan_id t) (fst r) s \<and>
       (fst r = EN_ERR_NONE \<longrightarrow> snd r = cs @ vlan_edges p t es))"
  using allowed
proof (induction es arbitrary: cs)
  case Nil
  show ?case by (auto intro!: triple_return simp: installing_def vlan_edges_def)
next
  case (Cons e es)
  show ?case
  proof (cases "path_contains_node p (ve_node_id e) \<and> ts_has_vlan_id t")
    case True
    let ?undo = "each (\<lambda>e. remove_vlan (record_ops ops) e (ts_vlan_id t)) (rev cs)"
    have undo: "triple (in_place [] cs) ?undo (\<lambda>_ s. compensated (ts_vlan_id t) (snd s))"
    proof (rule tripleI)
      fix s :: "'a \<times> call_log" and a u
      assume place: "in_place [] cs s" and run: "run_state ?undo s = (a, u)"
      obtain d l where s: "s = (d, l)" by (cases s)
      obtain d' bs where "run_state ?undo (d, l) = ((), (d', l @ bs))"
        "map fst bs = map (\<lambda>e. RemoveVlan e (ts_vlan_id t)) (rev cs)"
        using each_remove_vlan [of ops "ts_vlan_id t" "rev cs" d l] set True by blast
      with run place show "compensated (ts_vlan_id t) (snd u)"
        by (intro compensatedI [of _ l bs]) (auto simp: in_place_def s)
    qed
    have fail: "triple (in_place [] cs) (?undo \<bind> (\<lambda>_. State_Monad.return (x, cs)))
        (\<lambda>r s. installing [] (snd r) (ts_vlan_id t) (fst r) s \<and>
          (fst r = EN_ERR_NONE \<longrightarrow> snd r = cs @ vlan_edges p t (e # es)))" if "x \<noteq> EN_ERR_NONE" for x
      by (rule triple_bind [OF undo], rule triple_return) (simp add: installing_def that)
    have rest: "triple (in_place [] (cs @ [e])) (create_vlans (record_ops ops) p t False es (cs @ [e]))
        (\<lambda>r s. installing [] (snd r) (ts_vlan_id t) (fst r) s \<and>
          (fst r = EN_ERR_NONE \<longrightarrow> snd r = cs @ vlan_edges p t (e # es)))"
      using Cons.IH [of "cs @ [e]"] Cons.prems True by (simp add: vlan_edges_def)
    from True Cons.prems have "edge_allows_vlan e (ts_vlan_id t)" by simp
    with True show ?thesis
      unfolding create_vlans.simps
      by (simp, intro triple_bind [OF create_vlan_triple] triple_if)
        (use set fail rest in auto)
  next
    case False
    with Cons show ?thesis by (auto simp: vlan_edges_def)
  qed
qed

section \<open>Properties\<close>

lemma create_vlans_leave [simp]:
  "\<not> ts_has_vlan_id t \<Longrightarrow> run_state (create_vlans ops p t remove es cs) s = ((EN_ERR_NONE, cs), s)"
  by (induction es) simp_all

lemma install_triple:
  assumes "operation_guards ops p t edges False" "check_path p edges = EN_ERR_NONE"
    and allowed: "\<forall>e\<in>set edges. path_contains_node p (ve_node_id e) \<longrightarrow> ts_has_vlan_id t \<longrightarrow> edge_allows_vlan e (ts_vlan_id t)"
  shows "triple (in_place [] []) (en_vpp_api_apply_path_operations (record_ops ops) p t edges False)
    (\<lambda>e. installing (if pt_routes p = [] then [implicit_route p] else pt_routes p)
       (vlan_edges p t edges) (ts_vlan_id t) e)"
proof -
  have ops: "op_remove_route ops \<noteq> None" "op_add_route ops \<noteq> None"
    and vlan: "ts_has_vlan_id t \<Longrightarrow> op_create_vlan_subinterface ops \<noteq> None \<and>
      op_remove_vlan_subinterface ops \<noteq> None \<and> 0 \<le> ts_vlan_id t"
    using assms(1) by (auto simp: operation_guards_def)
  have guards: "operation_guards (record_ops ops) p t edges False"
    using assms(1) by (simp add: operation_guards_def record_ops_def)
  let ?Q = "installing (if pt_routes p = [] then [implicit_route p] else pt_routes p) (vlan_edges p t edges) (ts_vlan_id t)"
  have routes: "triple (in_place [] (vlan_edges p t edges))
      (do {
         status \<leftarrow> (if pt_routes p \<noteq> []
           then apply_routes (record_ops ops) t edges False (vlan_edges p t edges) [] [] (pt_routes p)
           else apply_implicit (record_ops ops) t False (vlan_edges p t edges) (implicit_route p));
         if status \<noteq> EN_ERR_NONE then State_Monad.return status
         else if False \<and> ts_has_vlan_id t then remove_vlans (record_ops ops) p (ts_vlan_id t) edges
         else State_Monad.return EN_ERR_NONE }) ?Q"
    by (rule triple_bind [where R = ?Q])
      (use apply_routes_triple [OF ops, of t "vlan_edges p t edges" "[]" edges "[]" "pt_routes p"]
        apply_implicit_triple [OF ops, of t "vlan_edges p t edges" "implicit_route p"] vlan
       in \<open>auto simp: vlan_edges_def intro!: triple_return split: if_splits\<close>)
  have failed: "triple (\<lambda>s. installing [] cs (ts_vlan_id t) e s \<and> P) (State_Monad.return e) ?Q" if "e \<noteq> EN_ERR_NONE" for e cs P
    using that by (auto intro!: triple_return simp: installing_def)
  show ?thesis
    unfolding en_vpp_api_apply_path_operations_def
    apply (simp only: guards assms(2) not_True_eq_False simp_thms if_False)
    apply (rule triple_bind [OF create_vlans_triple [OF _ allowed]])
    subgoal using vlan by blast
    subgoal for r
      by (cases r; cases "snd r = vlan_edges p t edges")
        (use failed routes in \<open>auto simp: installing_def triple_def split: if_splits\<close>)
    done
qed

lemma create_vlans_allowed:
  "fst (fst (run_state (create_vlans ops p t remove es cs) s)) = EN_ERR_NONE \<Longrightarrow> ts_has_vlan_id t \<Longrightarrow>
   \<forall>e\<in>set es. path_contains_node p (ve_node_id e) \<longrightarrow> edge_allows_vlan e (ts_vlan_id t)"
  by (induction es arbitrary: cs s) (auto split: if_splits prod.splits)

lemma install_success_admitted:
  assumes "run_state (en_vpp_api_apply_path_operations ops p t edges False) s = (EN_ERR_NONE, u)"
  shows "operation_guards ops p t edges False" "check_path p edges = EN_ERR_NONE"
    "ts_has_vlan_id t \<Longrightarrow> \<forall>e\<in>set edges. path_contains_node p (ve_node_id e) \<longrightarrow> edge_allows_vlan e (ts_vlan_id t)"
  using assms create_vlans_allowed [of ops p t False edges "[]" s]
  by (auto simp: en_vpp_api_apply_path_operations_def split: if_splits prod.splits)

lemma guards_record: "operation_guards (record_ops ops) p t edges remove = operation_guards ops p t edges remove"
  by (simp add: operation_guards_def record_ops_def)

text \<open>
  C12. Installing a path is all or nothing on every device: when an operation fails, the calls that
  follow it undo exactly the routes that were added and the sub-interfaces that were created, in
  reverse order. The path's edges have to allow the traffic's VLAN.
\<close>

theorem failed_install_compensates:
  assumes "run_state (en_vpp_api_apply_path_operations (record_ops ops) p t edges False) (d, []) = (e, (d', calls))"
    and "e \<noteq> EN_ERR_NONE"
    and "\<forall>x\<in>set edges. path_contains_node p (ve_node_id x) \<longrightarrow> ts_has_vlan_id t \<longrightarrow> edge_allows_vlan x (ts_vlan_id t)"
  shows "compensated (ts_vlan_id t) calls"
proof (cases "operation_guards ops p t edges False \<and> check_path p edges = EN_ERR_NONE")
  case True
  have "in_place [] [] (d, [])" by (simp add: in_place_def)
  from tripleD [OF install_triple [OF conjunct1 [OF True] conjunct2 [OF True] assms(3)] this assms(1)] assms(2)
  show ?thesis by (simp add: installing_def)
next
  case False
  with assms(1) have "calls = []"
    by (auto simp: en_vpp_api_apply_path_operations_def guards_record split: if_splits)
  then show ?thesis by (simp add: compensatedI [of _ "[]" "[]"])
qed

text \<open>
  An installation that succeeds has added every route of the path, in order, and created a
  sub-interface on exactly the edges the path passes when the traffic has a VLAN, each of which
  allows that VLAN; and it has removed nothing.
\<close>

theorem install_adds_every_route:
  assumes "run_state (en_vpp_api_apply_path_operations (record_ops ops) p t edges False) (d, []) = (EN_ERR_NONE, (d', calls))"
  shows "no_removal calls \<and> added calls = (if pt_routes p = [] then [implicit_route p] else pt_routes p) \<and>
    created_edges calls = vlan_edges p t edges \<and>
    (\<forall>x\<in>set (vlan_edges p t edges). edge_allows_vlan x (ts_vlan_id t))"
proof -
  have ok: "operation_guards ops p t edges False" "check_path p edges = EN_ERR_NONE"
    and allowed: "\<forall>x\<in>set edges. path_contains_node p (ve_node_id x) \<longrightarrow> ts_has_vlan_id t \<longrightarrow> edge_allows_vlan x (ts_vlan_id t)"
    using install_success_admitted [OF assms] by (auto simp: guards_record)
  have "in_place [] [] (d, [])" by (simp add: in_place_def)
  from tripleD [OF install_triple [OF ok allowed] this assms] allowed show ?thesis
    by (auto simp: installing_def in_place_def vlan_edges_def)
qed

text \<open>The device of the witnesses accepts everything but, if told so, new routes.\<close>

definition sample_message_ops :: "bool \<Rightarrow> unit en_vpp_api_message_ops" where
  "sample_message_ops refuse_routes = \<lparr>
     op_add_route = Some (\<lambda>_. State_Monad.return (if refuse_routes then EN_ERR_FORWARDING_UPDATE_FAILED else EN_ERR_NONE)),
     op_remove_route = Some (\<lambda>_. State_Monad.return EN_ERR_NONE),
     op_create_vlan_subinterface = Some (\<lambda>_ _. State_Monad.return EN_ERR_NONE),
     op_remove_vlan_subinterface = Some (\<lambda>_ _. State_Monad.return EN_ERR_NONE),
     op_set_vlan_interface_table = None, op_ensure_vrf = None\<rparr>"

definition sample_edge :: "string \<Rightarrow> int list \<Rightarrow> en_vpp_edge" where
  "sample_edge n vlans = \<lparr>ve_node_id = n, ve_port_id = ''p'', ve_host_interface = ''eth0'',
     ve_vpp_interface = ''host-eth0'', ve_namespace_interface = [], ve_namespace_address = [],
     ve_vpp_address = [], ve_vpp_socket = [], ve_next_hop = [], ve_allowed_vlans = vlans\<rparr>"

definition sample_vlan_traffic :: en_traffic_selector where
  "sample_vlan_traffic = \<lparr>ts_source = ''lan-a'', ts_destination = ''lan-b'', ts_has_vlan_id = True, ts_vlan_id = 10\<rparr>"

definition sample_install ::
  "bool \<Rightarrow> en_vpp_edge list \<Rightarrow> en_error_code \<times> (unit \<times> call_log)" where
  "sample_install refuse_routes edges = run_state
     (en_vpp_api_apply_path_operations (record_ops (sample_message_ops refuse_routes)) demo_direct sample_vlan_traffic
        edges False) ((), [])"

lemmas sample_install_eval = sample_install_def en_vpp_api_apply_path_operations_def operation_guards_def
  record_ops_def sample_message_ops_def sample_edge_def sample_vlan_traffic_def demo_defs zero_defs
  path_contains_node_def table_for_node_def check_path_def valid_route_operation_def implicit_route_def
  valid_observation_token_def token_char_def isalnum_def isdigit_def edge_allows_vlan_def call_def record_call_def
  apply_implicit_def route_call_def rollback_install_def rollback_vlan_def code_def

text \<open>
  An edge that does not allow the VLAN is found only in the loop that creates the
  sub-interfaces: the installation fails and those already created stay, so the restriction in the
  property on compensation is needed.
\<close>

lemma disallowed_vlan_leaves_subinterface:
  "sample_install False [sample_edge ''site-a'' [], sample_edge ''site-b'' [20]] =
   (EN_ERR_INVALID_ARGUMENT, ((), [(CreateVlan (sample_edge ''site-a'' []) 10, True)]))"
  by (simp add: sample_install_eval)

lemma sample_install_refused:
  "sample_install True [sample_edge ''site-a'' [], sample_edge ''site-b'' [10]] =
   (EN_ERR_FORWARDING_UPDATE_FAILED, ((),
     [(CreateVlan (sample_edge ''site-a'' []) 10, True), (CreateVlan (sample_edge ''site-b'' [10]) 10, True),
      (AddRoute (implicit_route demo_direct), False),
      (RemoveVlan (sample_edge ''site-b'' [10]) 10, True), (RemoveVlan (sample_edge ''site-a'' []) 10, True)]))"
  by (simp add: sample_install_eval)

theorem failed_install_compensates_witness:
  "compensated 10
     [(CreateVlan (sample_edge ''site-a'' []) 10, True), (CreateVlan (sample_edge ''site-b'' [10]) 10, True),
      (AddRoute (implicit_route demo_direct), False),
      (RemoveVlan (sample_edge ''site-b'' [10]) 10, True), (RemoveVlan (sample_edge ''site-a'' []) 10, True)]"
  using failed_install_compensates [OF sample_install_refused [unfolded sample_install_def]]
  by (simp add: sample_edge_def edge_allows_vlan_def sample_vlan_traffic_def)

lemma sample_install_accepted:
  "sample_install False [sample_edge ''site-a'' [], sample_edge ''hub-1'' [20]] =
   (EN_ERR_NONE, ((), [(CreateVlan (sample_edge ''site-a'' []) 10, True), (AddRoute (implicit_route demo_direct), True)]))"
  by (simp add: sample_install_eval)

theorem install_adds_every_route_witness:
  "created_edges [(CreateVlan (sample_edge ''site-a'' []) 10, True), (AddRoute (implicit_route demo_direct), True)] =
   vlan_edges demo_direct sample_vlan_traffic [sample_edge ''site-a'' [], sample_edge ''hub-1'' [20]]"
  using install_adds_every_route [OF sample_install_accepted [unfolded sample_install_def]] by blast

end
