(* ===== verification/JsonOutput.thy ===== *)
theory JsonOutput
  imports CLib CDouble EnTypes "HOL-Library.Word"
begin

text \<open>
  \<open>src/src/json_output.c\<close> and the values of the vendored JSON library yyjson that the sources build
  and read. The writer \<open>yyjson_mut_write\<close> and the reader \<open>yyjson_read_opts\<close> are parameters: the writer
  gives \<open>None\<close> when it fails, the reader when the text is not one JSON value. Allocation does not
  fail. Integers are 64-bit words, tagged unsigned or signed as the library tags them. What a round trip needs of them is \<open>reads_back\<close>.
\<close>

datatype json_value = JString string | JUint "64 word" | JSint "64 word" | JReal cdouble | JOther

type_synonym json_object = "(string \<times> json_value) list"
type_synonym json_writer = "json_object \<Rightarrow> string option"

text \<open>A document whose root is no object is \<open>JRoot\<close>; of an object the fields are kept, in order.\<close>

datatype json_document = JObject json_object | JRoot
type_synonym json_reader = "string \<Rightarrow> json_document option"

section \<open>Output\<close>

definition en_json_mut_doc_to_buffer :: "json_writer \<Rightarrow> json_object \<Rightarrow> nat \<Rightarrow> en_error_code + string" where
  "en_json_mut_doc_to_buffer write doc output_len =
     (if output_len = 0 then Inl EN_ERR_INVALID_ARGUMENT
      else case write doc of
        None \<Rightarrow> Inl EN_ERR_INVALID_ARGUMENT
      | Some serialized \<Rightarrow>
          if output_len < length serialized + 1 then Inl EN_ERR_INVALID_ARGUMENT else Inr serialized)"

text \<open>The same with a line feed appended, as every event is written.\<close>

definition event_line :: "json_writer \<Rightarrow> json_object \<Rightarrow> nat \<Rightarrow> en_error_code + string" where
  "event_line write doc output_len =
     (case en_json_mut_doc_to_buffer write doc output_len of
        Inl e \<Rightarrow> Inl e
      | Inr output \<Rightarrow>
          if output_len < length output + 2 then Inl EN_ERR_INVALID_ARGUMENT else Inr (output @ [LF]))"

lemma event_line_Inr:
  "event_line write doc n = Inr s \<longleftrightarrow> (\<exists>t. write doc = Some t \<and> length t + 2 \<le> n \<and> s = t @ [LF])"
  by (auto simp: event_line_def en_json_mut_doc_to_buffer_def split: option.splits if_splits)

section \<open>Access\<close>

definition yyjson_obj_get :: "json_object \<Rightarrow> string \<Rightarrow> json_value option" where
  "yyjson_obj_get doc key = map_option snd (find (\<lambda>f. fst f = key) doc)"

fun yyjson_get_str :: "json_value option \<Rightarrow> string option" where
  "yyjson_get_str (Some (JString s)) = Some s"
| "yyjson_get_str v = None"

fun yyjson_is_num :: "json_value option \<Rightarrow> bool" where
  "yyjson_is_num (Some (JUint n)) = True"
| "yyjson_is_num (Some (JSint i)) = True"
| "yyjson_is_num (Some (JReal d)) = True"
| "yyjson_is_num v = False"

fun yyjson_is_int :: "json_value option \<Rightarrow> bool" where
  "yyjson_is_int (Some (JUint n)) = True"
| "yyjson_is_int (Some (JSint i)) = True"
| "yyjson_is_int v = False"

text \<open>The bits of an integer read as a signed number, whatever its tag.\<close>

fun yyjson_get_sint :: "json_value option \<Rightarrow> int" where
  "yyjson_get_sint (Some (JUint w)) = sint w"
| "yyjson_get_sint (Some (JSint w)) = sint w"
| "yyjson_get_sint v = 0"

fun yyjson_get_num :: "json_value option \<Rightarrow> cdouble" where
  "yyjson_get_num (Some (JUint w)) = round64 (of_int (uint w))"
| "yyjson_get_num (Some (JSint w)) = round64 (of_int (sint w))"
| "yyjson_get_num (Some (JReal d)) = d"
| "yyjson_get_num v = Fin 0"

text \<open>\<open>yyjson_mut_obj_add_int\<close> and \<open>yyjson_mut_obj_add_sint\<close>.\<close>

definition json_int :: "int \<Rightarrow> json_value" where
  "json_int i = JSint (word_of_int i)"

section \<open>The round trip of the library\<close>

text \<open>
  The reader turns what the writer wrote, with a line feed after it, into the same fields; an
  integer that is not negative reads as an unsigned one.
\<close>

definition read_back :: "json_value \<Rightarrow> json_value" where
  "read_back v = (case v of JSint w \<Rightarrow> if 0 \<le> sint w then JUint w else JSint w | _ \<Rightarrow> v)"

definition reads_back :: "json_writer \<Rightarrow> json_reader \<Rightarrow> bool" where
  "reads_back write read \<longleftrightarrow>
     (\<forall>doc s. write doc = Some s \<longrightarrow> read (s @ [LF]) = Some (JObject (map (apsnd read_back) doc)))"

lemma obj_get_read_back:
  "yyjson_obj_get (map (apsnd read_back) doc) key = map_option read_back (yyjson_obj_get doc key)"
  by (induction doc) (auto simp: yyjson_obj_get_def)

lemma obj_get_Cons [simp]:
  "yyjson_obj_get [] key = None"
  "yyjson_obj_get ((k, v) # doc) key = (if k = key then Some v else yyjson_obj_get doc key)"
  by (simp_all add: yyjson_obj_get_def)

lemma obj_get_append: "yyjson_obj_get (a @ b) key =
    (case yyjson_obj_get a key of Some v \<Rightarrow> Some v | None \<Rightarrow> yyjson_obj_get b key)"
  by (induction a) auto

lemma read_back_json_int:
  assumes "0 \<le> i" "i < 2 ^ 63"
  shows "read_back (json_int i) = JUint (word_of_int i)" "uint (word_of_int i :: 64 word) = i"
    "sint (word_of_int i :: 64 word) = i"
proof -
  show u: "uint (word_of_int i :: 64 word) = i" using assms by (simp add: uint_word_of_int)
  show s: "sint (word_of_int i :: 64 word) = i"
    using assms by (simp add: sint_uint u signed_take_bit_int_eq_self)
  show "read_back (json_int i) = JUint (word_of_int i)"
    using assms s by (simp add: read_back_def json_int_def)
qed

end
