(* ===== verification/VppObserver.thy ===== *)
theory VppObserver
  imports TextScan JsonOutput
begin

text \<open>
  \<open>src/src/vpp_observer.c\<close>: reading \<open>show ip fib\<close> and \<open>show interface\<close>, and the event lines of an
  observation. A parser returns the error code, the observation it has filled in so far and the
  message it hands to \<open>set_error\<close>, if any.
\<close>

record en_vpp_route_observation =
  vo_destination_prefix :: string
  vo_next_hop :: string
  vo_interface_name :: string
  vo_table_id :: int
  vo_present :: bool

record en_vpp_interface_observation =
  vi_interface_name :: string
  vi_present :: bool
  vi_up :: bool

type_synonym 'o parse_result = "en_error_code \<times> 'o \<times> string option"

section \<open>Routes\<close>

definition ends_header :: "string \<Rightarrow> bool" where
  "ends_header s \<longleftrightarrow> (case s of [] \<Rightarrow> True | c # _ \<Rightarrow> c = CR \<or> c = LF \<or> c = CHR '' '' \<or> c = CHR '','')"

definition route_header :: "string \<Rightarrow> string \<Rightarrow> bool" where
  "route_header line prefix \<longleftrightarrow>
     (let value = skip_space line in starts_with value prefix \<and> ends_header (drop (length prefix) value))"

definition token_after :: "string \<Rightarrow> string \<Rightarrow> nat \<Rightarrow> string option" where
  "token_after line marker n =
     (case strstr line marker of
        None \<Rightarrow> None
      | Some s \<Rightarrow> token_of n (skip_space (drop (length marker) s)))"

definition has_word :: "string \<Rightarrow> string \<Rightarrow> bool" where
  "has_word line word \<longleftrightarrow> list_ex (\<lambda>t. strcmp t word = 0) (strtok_all blank (fit 512 line))"

definition vrf_marker :: string where "vrf_marker = ''ipv4-VRF:''"

text \<open>The table a line announces: \<open>None\<close> without a marker, \<open>Some None\<close> when it is no identifier.\<close>

definition announced_table :: "string \<Rightarrow> int option option" where
  "announced_table line =
     (case strstr line vrf_marker of
        None \<Rightarrow> None
      | Some s \<Rightarrow> (case strtol10 (drop (length vrf_marker) s) of
          (parsed, end) \<Rightarrow>
            if end = drop (length vrf_marker) s \<or> parsed < 0 \<or> INT_MAX < parsed \<or>
               (case end of [] \<Rightarrow> False | c # _ \<Rightarrow> c \<noteq> CHR '','' \<and> \<not> isspace c)
            then Some None else Some (Some parsed)))"

record fib_state =
  fs_inside :: bool
  fs_header_indent :: nat
  fs_current_table :: int

definition empty_route :: "string \<Rightarrow> en_vpp_route_observation" where
  "empty_route prefix = \<lparr>vo_destination_prefix = fit EN_MAX_ID_LEN prefix, vo_next_hop = [], vo_interface_name = [],
     vo_table_id = -1, vo_present = False\<rparr>"

definition fib_finish ::
  "string \<Rightarrow> fib_state \<Rightarrow> en_vpp_route_observation parse_result" where
  "fib_finish prefix st = (EN_ERR_NOT_FOUND, empty_route prefix,
     Some (if fs_inside st then ''VPP route has no next-hop'' else ''VPP route was not found''))"

text \<open>The interface is the text after the last blank of the line.\<close>

definition line_interface :: "string \<Rightarrow> string" where
  "line_interface line =
     (case strrchr line (CHR '' '') of
        None \<Rightarrow> []
      | Some s \<Rightarrow> if tl s = [] then [] else fit EN_MAX_ID_LEN (skip_space s))"

definition next_hop_line ::
  "string \<Rightarrow> fib_state \<Rightarrow> string \<Rightarrow> string \<Rightarrow> en_vpp_route_observation parse_result" where
  "next_hop_line prefix st line next_hop =
     (let seen = (empty_route prefix)\<lparr>vo_next_hop := next_hop, vo_interface_name := line_interface line\<rparr>
      in if \<not> valid_label next_hop \<or> \<not> valid_label (line_interface line)
         then (EN_ERR_INVALID_ARGUMENT, seen, Some ''VPP route contains invalid identity'')
         else (EN_ERR_NONE, seen\<lparr>vo_table_id := fs_current_table st, vo_present := True\<rparr>, None))"

definition at_line :: "fib_state \<Rightarrow> string \<Rightarrow> fib_state" where
  "at_line st line =
     (case announced_table line of Some (Some t) \<Rightarrow> st\<lparr>fs_current_table := t\<rparr> | _ \<Rightarrow> st)"

lemma at_line_simps [simp]:
  "fs_inside (at_line st l) = fs_inside st" "fs_header_indent (at_line st l) = fs_header_indent st"
  by (simp_all add: at_line_def split: option.splits)

definition fib_line ::
  "string \<Rightarrow> int \<Rightarrow> fib_state \<Rightarrow> string \<Rightarrow> en_vpp_route_observation parse_result + fib_state" where
  "fib_line prefix table_id st line =
     (let st = at_line st line in
      if announced_table line = Some None
      then Inl (EN_ERR_INVALID_ARGUMENT, empty_route prefix, Some ''invalid VPP table identifier'')
      else if route_header line prefix \<and> (table_id < 0 \<or> fs_current_table st = table_id)
      then Inr (st\<lparr>fs_inside := True, fs_header_indent := indentation line\<rparr>)
      else if fs_inside st \<and> indentation line \<le> fs_header_indent st \<and> skip_space line \<noteq> []
      then Inl (fib_finish prefix st)
      else if fs_inside st then
        (case token_after line ''via '' EN_MAX_ID_LEN of
           Some next_hop \<Rightarrow> Inl (next_hop_line prefix st line next_hop)
         | None \<Rightarrow> Inr st)
      else Inr st)"

definition line_too_long :: "'o \<Rightarrow> 's \<Rightarrow> 'o parse_result" where
  "line_too_long obs st = (EN_ERR_INVALID_ARGUMENT, obs, Some ''VPP output line exceeds capacity'')"

definition en_vpp_parse_show_ip_fib_in_table ::
  "string \<Rightarrow> string \<Rightarrow> int \<Rightarrow> en_vpp_route_observation \<Rightarrow> en_vpp_route_observation parse_result" where
  "en_vpp_parse_show_ip_fib_in_table output prefix table_id observation =
     (if \<not> valid_label prefix
      then (EN_ERR_INVALID_ARGUMENT, observation, Some ''invalid VPP observation argument'')
      else scan_lines (fib_line prefix table_id) (line_too_long (empty_route prefix)) (fib_finish prefix)
        \<lparr>fs_inside = False, fs_header_indent = 0, fs_current_table = -1\<rparr> (split_lines output))"

definition en_vpp_parse_show_ip_fib ::
  "string \<Rightarrow> string \<Rightarrow> en_vpp_route_observation \<Rightarrow> en_vpp_route_observation parse_result" where
  "en_vpp_parse_show_ip_fib output prefix = en_vpp_parse_show_ip_fib_in_table output prefix (-1)"

section \<open>Interfaces\<close>

definition names_interface :: "string \<Rightarrow> string \<Rightarrow> bool" where
  "names_interface name line \<longleftrightarrow>
     (let first = skip_space line in starts_with first name \<and>
        (case drop (length name) first of [] \<Rightarrow> False | c # _ \<Rightarrow> c = CHR '' '' \<or> c = TAB))"

definition interface_line ::
  "string \<Rightarrow> unit \<Rightarrow> string \<Rightarrow> en_vpp_interface_observation parse_result + unit" where
  "interface_line name st line =
     (if names_interface name line
      then Inl (EN_ERR_NONE, \<lparr>vi_interface_name = fit EN_MAX_ID_LEN name, vi_present = True,
        vi_up = has_word line ''up''\<rparr>, None)
      else Inr ())"

definition empty_interface :: "string \<Rightarrow> en_vpp_interface_observation" where
  "empty_interface name = \<lparr>vi_interface_name = fit EN_MAX_ID_LEN name, vi_present = False, vi_up = False\<rparr>"

definition en_vpp_parse_show_interface ::
  "string \<Rightarrow> string \<Rightarrow> en_vpp_interface_observation \<Rightarrow> en_vpp_interface_observation parse_result" where
  "en_vpp_parse_show_interface output name observation =
     (if name = [] then (EN_ERR_INVALID_ARGUMENT, observation, Some ''invalid VPP interface observation argument'')
      else scan_lines (interface_line name) (line_too_long (empty_interface name))
        (\<lambda>_. (EN_ERR_NOT_FOUND, empty_interface name, Some ''VPP interface was not found'')) () (split_lines output))"

section \<open>Events\<close>

definition empty_or_label :: "string \<Rightarrow> bool" where
  "empty_or_label s \<longleftrightarrow> s = [] \<or> valid_label s"

definition route_event :: "en_vpp_route_observation \<Rightarrow> string \<Rightarrow> string \<Rightarrow> int \<Rightarrow> json_object" where
  "route_event obs path_id route_id timestamp_ms =
     [(''schema'', JString ''ibuki.event.vpp.route.v1''), (''path_id'', JString path_id), (''tunnel_id'', JString route_id)] @
     (if vo_destination_prefix obs \<noteq> [] \<and> vo_next_hop obs \<noteq> []
      then [(''destination_prefix'', JString (vo_destination_prefix obs)), (''next_hop'', JString (vo_next_hop obs))]
      else []) @
     (if 0 \<le> vo_table_id obs then [(''table_id'', json_int (vo_table_id obs))] else []) @
     [(''state'', JString (if vo_present obs then ''up'' else ''down'')), (''timestamp_ms'', json_int timestamp_ms)]"

definition en_vpp_route_observation_to_event_json ::
  "json_writer \<Rightarrow> en_vpp_route_observation \<Rightarrow> string \<Rightarrow> string \<Rightarrow> int \<Rightarrow> nat \<Rightarrow> en_error_code + string" where
  "en_vpp_route_observation_to_event_json write obs path_id route_id timestamp_ms output_len =
     (if \<not> valid_label path_id \<or> \<not> valid_label route_id \<or> \<not> empty_or_label (vo_destination_prefix obs) \<or>
         \<not> empty_or_label (vo_next_hop obs) \<or> \<not> empty_or_label (vo_interface_name obs) \<or>
         output_len = 0 \<or> timestamp_ms < 0
      then Inl EN_ERR_INVALID_ARGUMENT
      else event_line write (route_event obs path_id route_id timestamp_ms) output_len)"

definition interface_event :: "en_vpp_interface_observation \<Rightarrow> string \<Rightarrow> int \<Rightarrow> json_object" where
  "interface_event obs path_id timestamp_ms =
     [(''schema'', JString ''ibuki.event.vpp.interface.v1''), (''path_id'', JString path_id),
      (''interface_name'', JString (vi_interface_name obs)),
      (''state'', JString (if vi_present obs \<and> vi_up obs then ''up'' else ''down'')),
      (''timestamp_ms'', json_int timestamp_ms)]"

definition en_vpp_interface_observation_to_event_json ::
  "json_writer \<Rightarrow> en_vpp_interface_observation \<Rightarrow> string \<Rightarrow> int \<Rightarrow> nat \<Rightarrow> en_error_code + string" where
  "en_vpp_interface_observation_to_event_json write obs path_id timestamp_ms output_len =
     (if \<not> valid_label path_id \<or> \<not> valid_label (vi_interface_name obs) \<or> output_len = 0 \<or> timestamp_ms < 0
      then Inl EN_ERR_INVALID_ARGUMENT
      else event_line write (interface_event obs path_id timestamp_ms) output_len)"


section \<open>What a listing says\<close>

text \<open>The table in force after some lines, and the lines below a header that belong to it.\<close>

definition listing_table :: "int \<Rightarrow> string list \<Rightarrow> int" where
  "listing_table t ls =
     foldl (\<lambda>t l. case announced_table l of Some (Some n) \<Rightarrow> n | _ \<Rightarrow> t) t ls"

definition below :: "string \<Rightarrow> string \<Rightarrow> bool" where
  "below header l \<longleftrightarrow> indentation header < indentation l \<or> skip_space l = []"

definition route_section :: "string \<Rightarrow> int \<Rightarrow> string list \<Rightarrow> string \<Rightarrow> string list \<Rightarrow> bool" where
  "route_section prefix table_id pre header mid \<longleftrightarrow>
     route_header header prefix \<and> (table_id < 0 \<or> listing_table (-1) (pre @ [header]) = table_id) \<and>
     list_all (\<lambda>l. below header l \<and> token_after l ''via '' EN_MAX_ID_LEN = None) mid"

definition fib_invariant :: "string \<Rightarrow> int \<Rightarrow> string list \<Rightarrow> fib_state \<Rightarrow> bool" where
  "fib_invariant prefix table_id seen st \<longleftrightarrow>
     fs_current_table st = listing_table (-1) seen \<and>
     (fs_inside st \<longrightarrow> (\<exists>pre header mid. seen = pre @ header # mid \<and>
        route_section prefix table_id pre header mid \<and> fs_header_indent st = indentation header))"

lemma listing_table_snoc:
  "listing_table t (ls @ [l]) = (case announced_table l of Some (Some n) \<Rightarrow> n | _ \<Rightarrow> listing_table t ls)"
  unfolding listing_table_def by simp

lemma at_line_table:
  "fs_current_table st = listing_table t seen \<Longrightarrow> fs_current_table (at_line st l) = listing_table t (seen @ [l])"
  by (simp add: at_line_def listing_table_snoc split: option.splits)

lemma fib_step_invariant:
  assumes "fib_invariant prefix table_id seen st" "fib_line prefix table_id st l = Inr st'"
  shows "fib_invariant prefix table_id (seen @ [l]) st'"
proof (cases "route_header l prefix \<and> (table_id < 0 \<or> listing_table (-1) (seen @ [l]) = table_id)")
  case True
  with assms have "fs_current_table st' = listing_table (-1) (seen @ [l]) \<and> fs_header_indent st' = indentation l"
    by (auto simp: fib_line_def fib_invariant_def Let_def at_line_table split: if_splits)
  with True have "route_section prefix table_id seen l [] \<and> fs_header_indent st' = indentation l \<and>
      fs_current_table st' = listing_table (-1) (seen @ [l])"
    by (simp add: route_section_def)
  then show ?thesis unfolding fib_invariant_def by blast
next
  case other: False
  with assms have cur: "fs_current_table st' = listing_table (-1) (seen @ [l])"
    and same: "fs_inside st' = fs_inside st" "fs_header_indent st' = fs_header_indent st"
    and stay: "fs_inside st \<Longrightarrow> (fs_header_indent st < indentation l \<or> skip_space l = []) \<and>
      token_after l ''via '' EN_MAX_ID_LEN = None"
    by (auto simp: fib_line_def fib_invariant_def Let_def at_line_table split: if_splits option.splits)
  show ?thesis
  proof (cases "fs_inside st")
    case True
    then obtain pre header mid where "seen = pre @ header # mid" "route_section prefix table_id pre header mid"
      "fs_header_indent st = indentation header"
      using assms(1) by (auto simp: fib_invariant_def)
    with stay True same have "seen @ [l] = pre @ header # (mid @ [l]) \<and>
        route_section prefix table_id pre header (mid @ [l]) \<and> fs_header_indent st' = indentation header"
      by (simp add: route_section_def below_def)
    with cur show ?thesis unfolding fib_invariant_def by blast
  qed (use cur same in \<open>simp add: fib_invariant_def\<close>)
qed

text \<open>The step that returns a route.\<close>

lemma fib_line_success:
  assumes "fib_line prefix table_id st l = Inl (EN_ERR_NONE, obs, msg)"
  shows "\<exists>next_hop. fs_inside st \<and> token_after l ''via '' EN_MAX_ID_LEN = Some next_hop \<and>
    (fs_header_indent st < indentation l \<or> skip_space l = []) \<and>
    next_hop_line prefix (at_line st l) l next_hop = (EN_ERR_NONE, obs, msg)"
  using assms by (auto simp: fib_line_def Let_def fib_finish_def split: if_splits option.splits)

lemma next_hop_line_success:
  "next_hop_line prefix st l next_hop = (EN_ERR_NONE, obs, msg) \<longleftrightarrow>
   valid_label next_hop \<and> valid_label (line_interface l) \<and> msg = None \<and>
   vo_destination_prefix obs = fit EN_MAX_ID_LEN prefix \<and> vo_next_hop obs = next_hop \<and>
   vo_interface_name obs = line_interface l \<and> vo_table_id obs = fs_current_table st \<and> vo_present obs"
  by (cases obs) (auto simp: next_hop_line_def Let_def empty_route_def)

text \<open>
  A route the parser reports is in the output: under a header line for the prefix, in the
  requested table, comes the first line with a next hop, indented deeper than the header; the next
  hop and the interface are that line's and are admitted labels, and the table is the one in force
  there.
\<close>

theorem observed_route_is_listed:
  assumes "en_vpp_parse_show_ip_fib_in_table output prefix table_id obs0 = (EN_ERR_NONE, obs, msg)"
  shows "\<exists>pre header mid line post. text_lines output = pre @ header # mid @ line # post \<and>
    route_section prefix table_id pre header mid \<and> below header line \<and>
    token_after line ''via '' EN_MAX_ID_LEN = Some (vo_next_hop obs) \<and> line_interface line = vo_interface_name obs \<and>
    valid_label (vo_next_hop obs) \<and> valid_label (vo_interface_name obs) \<and> vo_present obs \<and>
    vo_table_id obs = listing_table (-1) (pre @ header # mid @ [line]) \<and>
    vo_destination_prefix obs = fit EN_MAX_ID_LEN prefix"
proof -
  let ?I = "fib_invariant prefix table_id"
  let ?st = "\<lparr>fs_inside = False, fs_header_indent = 0, fs_current_table = -1\<rparr>"
  from assms have run: "scan_lines (fib_line prefix table_id) (line_too_long (empty_route prefix)) (fib_finish prefix)
      ?st (split_lines output) = (EN_ERR_NONE, obs, msg)"
    by (simp add: en_vpp_parse_show_ip_fib_in_table_def split: if_splits)
  have start: "?I [] ?st" by (simp add: fib_invariant_def listing_table_def)
  obtain seen line post st where split: "text_lines output = seen @ line # post" and inv: "?I seen st"
    and ret: "fib_line prefix table_id st line = Inl (EN_ERR_NONE, obs, msg)"
    by (rule scan_returns [of _ _ _ _ _ _ ?I, OF run start fib_step_invariant])
      (auto simp: text_lines_def fib_finish_def line_too_long_def)
  from inv have cur: "fs_current_table (at_line st line) = listing_table (-1) (seen @ [line])"
    by (auto simp: fib_invariant_def intro: at_line_table)
  from fib_line_success [OF ret] inv obtain pre header mid where
    sect: "seen = pre @ header # mid" "route_section prefix table_id pre header mid"
    and line: "below header line" "token_after line ''via '' EN_MAX_ID_LEN = Some (vo_next_hop obs)"
    and found: "next_hop_line prefix (at_line st line) line (vo_next_hop obs) = (EN_ERR_NONE, obs, msg)"
    by (auto simp: fib_invariant_def below_def next_hop_line_success)
  from split sect have "text_lines output = pre @ header # mid @ line # post" by simp
  moreover from found have "valid_label (vo_next_hop obs) \<and> valid_label (vo_interface_name obs) \<and>
      line_interface line = vo_interface_name obs \<and> vo_present obs \<and>
      vo_table_id obs = listing_table (-1) (pre @ header # mid @ [line]) \<and>
      vo_destination_prefix obs = fit EN_MAX_ID_LEN prefix"
    using cur sect(1) by (auto simp: next_hop_line_success)
  ultimately show ?thesis using sect(2) line by blast
qed

text \<open>The other direction: a parser passes over what is before the section and finds the route.\<close>

fun passes_over :: "string \<Rightarrow> int \<Rightarrow> int \<Rightarrow> string list \<Rightarrow> bool" where
  "passes_over prefix table_id t [] = True"
| "passes_over prefix table_id t (l # ls) =
     (let t' = listing_table t [l] in announced_table l \<noteq> Some None \<and>
        \<not> (route_header l prefix \<and> (table_id < 0 \<or> t' = table_id)) \<and> passes_over prefix table_id t' ls)"

lemma listing_table_Cons: "listing_table t (l # ls) = listing_table (listing_table t [l]) ls"
  by (simp add: listing_table_def)

lemma passes_over_split:
  "passes_over prefix table_id t (seen @ l # rest) \<Longrightarrow> announced_table l \<noteq> Some None \<and>
     \<not> (route_header l prefix \<and> (table_id < 0 \<or> listing_table t (seen @ [l]) = table_id))"
proof (induction seen arbitrary: t)
  case (Cons x xs)
  then have "passes_over prefix table_id (listing_table t [x]) (xs @ l # rest)" by (simp add: Let_def)
  from Cons.IH [OF this] show ?case by (simp add: listing_table_Cons [of t x "xs @ [l]"])
qed (simp add: Let_def)

definition continues :: "string \<Rightarrow> string \<Rightarrow> bool" where
  "continues prefix l \<longleftrightarrow> announced_table l \<noteq> Some None \<and> \<not> route_header l prefix"

text \<open>
  A route that is listed is found: in a listing of lines that fit the buffer, whose table
  markers are well-formed, the first section for the prefix in the requested table gives exactly
  its first next hop, the interface of that line and the table in force.
\<close>

lemma listed_route_is_observed:
  assumes "list_all plain_line (pre @ header # mid @ line # post)" "valid_label prefix"
    and "passes_over prefix table_id (-1) pre" "announced_table header \<noteq> Some None"
    and "route_section prefix table_id pre header mid" "list_all (continues prefix) (mid @ [line])"
    and "below header line" "token_after line ''via '' EN_MAX_ID_LEN = Some next_hop"
    and "valid_label next_hop" "valid_label (line_interface line)"
  shows "en_vpp_parse_show_ip_fib_in_table (unlines (pre @ header # mid @ line # post)) prefix table_id obs0 =
    (EN_ERR_NONE, \<lparr>vo_destination_prefix = fit EN_MAX_ID_LEN prefix, vo_next_hop = next_hop,
       vo_interface_name = line_interface line,
       vo_table_id = listing_table (-1) (pre @ header # mid @ [line]), vo_present = True\<rparr>, None)"
    (is "?parse = ?result")
proof -
  let ?scan = "scan_lines (fib_line prefix table_id) (line_too_long (empty_route prefix)) (fib_finish prefix)"
  define st where "st = \<lparr>fs_inside = False, fs_header_indent = 0, fs_current_table = -1\<rparr>"
  have "\<exists>st'. (\<not> fs_inside st' \<and> fs_current_table st' = listing_table (-1) pre) \<and>
      ?scan st (pre @ header # mid @ line # post) = ?scan st' (header # mid @ line # post)"
  proof (rule scan_goes_on [where I = "\<lambda>seen st. \<not> fs_inside st \<and> fs_current_table st = listing_table (-1) seen"])
    fix seen l rest and st :: fib_state
    assume "pre = seen @ l # rest" and st: "\<not> fs_inside st \<and> fs_current_table st = listing_table (-1) seen"
    with assms(3) have "announced_table l \<noteq> Some None \<and>
        \<not> (route_header l prefix \<and> (table_id < 0 \<or> listing_table (-1) (seen @ [l]) = table_id))"
      using passes_over_split by blast
    moreover have "fs_current_table (at_line st l) = listing_table (-1) (seen @ [l])" using st by (simp add: at_line_table)
    ultimately show "\<exists>st'. fib_line prefix table_id st l = Inr st' \<and>
        \<not> fs_inside st' \<and> fs_current_table st' = listing_table (-1) (seen @ [l])"
      using st by (auto simp: fib_line_def Let_def)
  qed (use assms(1) in \<open>simp_all add: st_def listing_table_def\<close>)
  then obtain st1 where st1: "\<not> fs_inside st1" "fs_current_table st1 = listing_table (-1) pre"
    "?scan st (pre @ header # mid @ line # post) = ?scan st1 (header # mid @ line # post)" by blast
  define st2 where "st2 = at_line st1 header\<lparr>fs_inside := True, fs_header_indent := indentation header\<rparr>"
  have cur2: "fs_current_table st2 = listing_table (-1) (pre @ [header])"
    using st1(2) by (simp add: st2_def at_line_table)
  with assms(1,4,5) have step1: "?scan st1 (header # mid @ line # post) = ?scan st2 (mid @ line # post)"
    by (simp add: fib_line_def Let_def route_section_def st2_def not_le)
  let ?I = "\<lambda>seen st. fs_inside st \<and> fs_header_indent st = indentation header \<and>
    fs_current_table st = listing_table (-1) ((pre @ [header]) @ seen)"
  have "\<exists>st'. ?I mid st' \<and> ?scan st2 (mid @ line # post) = ?scan st' (line # post)"
  proof (rule scan_goes_on [where I = ?I])
    fix seen l rest and st :: fib_state
    assume "mid = seen @ l # rest" and st: "?I seen st"
    with assms(5,6) have "continues prefix l \<and> below header l \<and> token_after l ''via '' EN_MAX_ID_LEN = None"
      by (simp add: route_section_def)
    moreover have "fs_current_table (at_line st l) = listing_table (-1) ((pre @ [header]) @ seen @ [l])"
      using st by (simp add: at_line_table)
    ultimately show "\<exists>st'. fib_line prefix table_id st l = Inr st' \<and> ?I (seen @ [l]) st'"
      using st by (auto simp: fib_line_def Let_def continues_def below_def)
  qed (use assms(1) cur2 in \<open>simp_all add: st2_def\<close>)
  then obtain st3 where st3: "?I mid st3" "?scan st2 (mid @ line # post) = ?scan st3 (line # post)" by blast
  then have "fs_current_table (at_line st3 line) = listing_table (-1) (pre @ header # mid @ [line])"
    using at_line_table [of st3 "-1" "(pre @ [header]) @ mid" line] by simp
  then have "?scan st3 (line # post) = ?result"
    using assms(1,6-10) st3(1)
    by (auto simp: fib_line_def Let_def continues_def below_def next_hop_line_def empty_route_def)
  with st1(3) step1 st3(2) assms(1,2) show ?thesis
    by (simp add: en_vpp_parse_show_ip_fib_in_table_def split_unlines st_def)
qed

text \<open>The interface parser is a search for the first line that starts with the name.\<close>

text \<open>
  Reading the interface list is the search for the first line that names the interface: it is
  up iff \<open>up\<close> is a word of that line, and not found iff no line names it.
\<close>

lemma interface_parser_is_search:
  assumes "name \<noteq> []" "\<forall>l\<in>set (split_lines output). length l < line_capacity"
  shows "en_vpp_parse_show_interface output name obs0 =
    (case find (names_interface name) (text_lines output) of
       None \<Rightarrow> (EN_ERR_NOT_FOUND, empty_interface name, Some ''VPP interface was not found'')
     | Some line \<Rightarrow> (EN_ERR_NONE, \<lparr>vi_interface_name = fit EN_MAX_ID_LEN name, vi_present = True,
         vi_up = has_word line ''up''\<rparr>, None))"
proof -
  have "scan_lines (interface_line name) (line_too_long (empty_interface name))
      (\<lambda>_. (EN_ERR_NOT_FOUND, empty_interface name, Some ''VPP interface was not found'')) () ls =
    (case find (names_interface name) (map strip_cr ls) of
       None \<Rightarrow> (EN_ERR_NOT_FOUND, empty_interface name, Some ''VPP interface was not found'')
     | Some line \<Rightarrow> (EN_ERR_NONE, \<lparr>vi_interface_name = fit EN_MAX_ID_LEN name, vi_present = True,
         vi_up = has_word line ''up''\<rparr>, None))"
    if "\<forall>l\<in>set ls. length l < line_capacity" for ls
    using that by (induction ls) (auto simp: interface_line_def not_le)
  with assms show ?thesis by (simp add: en_vpp_parse_show_interface_def text_lines_def)
qed

section \<open>Witnesses\<close>

definition sample_listing :: "string list" where
  "sample_listing = [''ipv4-VRF:100, fib_index:1, flow hash:[src dst]'', ''10.0.2.0/24'', ''  unicast-ip4-chain'',
     ''    via 203.0.113.1 host-eth0'', ''10.0.3.0/24'']"

lemma sample_listing_parses:
  "en_vpp_parse_show_ip_fib_in_table (unlines sample_listing) ''10.0.2.0/24'' 100 (empty_route []) =
   (EN_ERR_NONE, \<lparr>vo_destination_prefix = ''10.0.2.0/24'', vo_next_hop = ''203.0.113.1'',
      vo_interface_name = ''host-eth0'', vo_table_id = 100, vo_present = True\<rparr>, None)"
  by code_simp

theorem observed_route_is_listed_witness:
  "\<exists>pre header mid line post. text_lines (unlines sample_listing) = pre @ header # mid @ line # post \<and>
     route_section ''10.0.2.0/24'' 100 pre header mid"
  using observed_route_is_listed [OF sample_listing_parses] by blast

lemma listed_route_is_observed_witness:
  "fst (en_vpp_parse_show_ip_fib_in_table (unlines (take 1 sample_listing @ sample_listing ! 1 # [sample_listing ! 2] @
     sample_listing ! 3 # drop 4 sample_listing)) ''10.0.2.0/24'' 100 (empty_route [])) = EN_ERR_NONE"
  by (subst listed_route_is_observed [of _ _ _ _ _ "''10.0.2.0/24''" 100 "''203.0.113.1''"]; code_simp)

definition sample_interfaces :: string where
  "sample_interfaces = unlines [''Name   Idx   State'', ''host-eth0   1   up   9000'']"

lemma interface_parser_is_search_witness:
  "en_vpp_parse_show_interface sample_interfaces ''host-eth0'' (empty_interface []) =
   (EN_ERR_NONE, \<lparr>vi_interface_name = ''host-eth0'', vi_present = True, vi_up = True\<rparr>, None)"
proof -
  have "\<forall>l\<in>set (split_lines sample_interfaces). length l < line_capacity" by code_simp
  note interface_parser_is_search [OF _ this, of "''host-eth0''" "empty_interface []"]
  moreover have "find (names_interface ''host-eth0'') (text_lines sample_interfaces) = Some ''host-eth0   1   up   9000''"
    by code_simp
  moreover have "has_word ''host-eth0   1   up   9000'' ''up''" by code_simp
  ultimately show ?thesis by (simp add: fit_def)
qed

end
