(* ===== verification/VppApiContext.thy ===== *)
theory VppApiContext
  imports VppApiAdapter VppObserver
begin

text \<open>
  The rest of \<open>src/src/vpp_api_adapter.c\<close>: the adapter over a table of callbacks \<open>en_vpp_api_ctx_t\<close>,
  the checks of what its observers return, and the event line of an observed route. A callback gets
  the observation to fill in and returns it; \<open>None\<close> is a \<open>NULL\<close> pointer.
\<close>

record 'd en_vpp_api_ctx =
  ax_install_path :: "(string \<Rightarrow> en_path \<Rightarrow> ('d, en_error_code) state) option"
  ax_remove_path :: "(string \<Rightarrow> en_path \<Rightarrow> ('d, en_error_code) state) option"
  ax_active_path :: "(string \<Rightarrow> ('d, string option) state) option"
  ax_observe_route :: "(string \<Rightarrow> en_vpp_route_observation \<Rightarrow>
    ('d, en_error_code \<times> en_vpp_route_observation) state) option"
  ax_observe_interface :: "(string \<Rightarrow> en_vpp_interface_observation \<Rightarrow>
    ('d, en_error_code \<times> en_vpp_interface_observation) state) option"

section \<open>The adapter\<close>

definition api_install_path where
  "api_install_path ctx key p = (case ctx of None \<Rightarrow> State_Monad.return EN_ERR_INVALID_ARGUMENT
     | Some m \<Rightarrow> (case ax_install_path m of
         None \<Rightarrow> State_Monad.return EN_ERR_INVALID_ARGUMENT | Some f \<Rightarrow> f key p))"

definition api_remove_path where
  "api_remove_path ctx key p = (case ctx of None \<Rightarrow> State_Monad.return EN_ERR_INVALID_ARGUMENT
     | Some m \<Rightarrow> (case ax_remove_path m of
         None \<Rightarrow> State_Monad.return EN_ERR_INVALID_ARGUMENT | Some f \<Rightarrow> f key p))"

definition api_active_path where
  "api_active_path ctx key = (case ctx of None \<Rightarrow> State_Monad.return None
     | Some m \<Rightarrow> (case ax_active_path m of None \<Rightarrow> State_Monad.return None | Some f \<Rightarrow> f key))"

definition en_vpp_api_adapter :: "'w en_vpp_api_ctx option \<Rightarrow> 'w en_vpp_adapter" where
  "en_vpp_api_adapter ctx = \<lparr>
     install_path = Some (\<lambda>key p. on_dev (api_install_path ctx key p)),
     remove_path = Some (\<lambda>key p. on_dev (api_remove_path ctx key p)),
     active_path = Some (\<lambda>key. on_dev (api_active_path ctx key))\<rparr>"

section \<open>Observation\<close>

definition route_observation_valid :: "string \<Rightarrow> en_vpp_route_observation \<Rightarrow> bool" where
  "route_observation_valid dest o1 \<longleftrightarrow> \<not> (vo_destination_prefix o1 = [] \<or> vo_destination_prefix o1 \<noteq> dest \<or>
     \<not> valid_observation_token (vo_destination_prefix o1) \<or> vo_table_id o1 < -1 \<or>
     (vo_present o1 \<and> (\<not> valid_observation_token (vo_next_hop o1) \<or>
        (vo_interface_name o1 \<noteq> [] \<and> \<not> valid_observation_token (vo_interface_name o1)))))"

definition en_vpp_api_observe_route ::
  "'d en_vpp_api_ctx option \<Rightarrow> string option \<Rightarrow> en_vpp_route_observation \<Rightarrow>
   ('d, en_error_code \<times> en_vpp_route_observation) state" where
  "en_vpp_api_observe_route ctx dest obs =
     (case (case ctx of None \<Rightarrow> None | Some m \<Rightarrow> ax_observe_route m) of
        None \<Rightarrow> State_Monad.return (EN_ERR_INVALID_ARGUMENT, obs)
      | Some f \<Rightarrow> (case dest of
          None \<Rightarrow> State_Monad.return (EN_ERR_INVALID_ARGUMENT, obs)
        | Some p \<Rightarrow>
            if p = [] then State_Monad.return (EN_ERR_INVALID_ARGUMENT, obs)
            else do {
              (err, seen) \<leftarrow> f p obs;
              if err \<noteq> EN_ERR_NONE then State_Monad.return (err, seen)
              else State_Monad.return
                (if \<not> route_observation_valid p seen then EN_ERR_STATE_CONFLICT else EN_ERR_NONE, seen)
            }))"

definition en_vpp_api_observe_interface ::
  "'d en_vpp_api_ctx option \<Rightarrow> string option \<Rightarrow> en_vpp_interface_observation \<Rightarrow>
   ('d, en_error_code \<times> en_vpp_interface_observation) state" where
  "en_vpp_api_observe_interface ctx name obs =
     (case (case ctx of None \<Rightarrow> None | Some m \<Rightarrow> ax_observe_interface m, name) of
        (Some f, Some n) \<Rightarrow>
          if \<not> valid_observation_token n then State_Monad.return (EN_ERR_INVALID_ARGUMENT, obs)
          else do {
            (err, seen) \<leftarrow> f n obs;
            if err \<noteq> EN_ERR_NONE then State_Monad.return (err, seen)
            else State_Monad.return
              (if vi_interface_name seen = [] \<or> vi_interface_name seen \<noteq> n \<or>
                  \<not> valid_observation_token (vi_interface_name seen)
               then EN_ERR_STATE_CONFLICT else EN_ERR_NONE, seen)
          }
      | _ \<Rightarrow> State_Monad.return (EN_ERR_INVALID_ARGUMENT, obs))"

definition zero_route_observation :: en_vpp_route_observation where
  "zero_route_observation = \<lparr>vo_destination_prefix = [], vo_next_hop = [], vo_interface_name = [],
     vo_table_id = 0, vo_present = False\<rparr>"

definition en_vpp_api_observe_event_json ::
  "json_writer \<Rightarrow> 'd en_vpp_api_ctx option \<Rightarrow> string option \<Rightarrow> string \<Rightarrow> string \<Rightarrow> int \<Rightarrow> nat \<Rightarrow>
   ('d, en_error_code + string) state" where
  "en_vpp_api_observe_event_json write ctx dest path_id route_id timestamp_ms output_len = do {
     (err, obs) \<leftarrow> en_vpp_api_observe_route ctx dest zero_route_observation;
     State_Monad.return
       (if err \<noteq> EN_ERR_NONE then Inl err
        else en_vpp_route_observation_to_event_json write obs path_id route_id timestamp_ms output_len)
   }"

section \<open>Properties\<close>

lemma valid_observation_token_label: "valid_observation_token s \<longleftrightarrow> valid_label s"
  by (simp add: valid_observation_token_def valid_label_def)

lemma observe_route_success:
  assumes "run_state (en_vpp_api_observe_route ctx dest obs0) d = ((EN_ERR_NONE, obs), d')"
  shows "\<exists>p. dest = Some p \<and> route_observation_valid p obs"
  using assms
  by (auto simp: en_vpp_api_observe_route_def split: option.splits if_splits prod.splits)

text \<open>
  Whatever the callback reports, an observation that is passed on is for the requested prefix,
  and its labels and table are admitted; so its event is refused only for the identifiers the
  caller gives, a negative time stamp or a writer or buffer that does not hold it.
\<close>

lemma observed_event_is_written:
  assumes "run_state (en_vpp_api_observe_route ctx (Some dest) zero_route_observation) d = ((EN_ERR_NONE, obs), d')"
    and "vo_present obs" "valid_label path_id" "valid_label route_id" "0 \<le> timestamp_ms"
    and "write (route_event obs path_id route_id timestamp_ms) = Some s" "length s + 2 \<le> n"
  shows "vo_destination_prefix obs = dest \<and> -1 \<le> vo_table_id obs \<and> valid_label (vo_next_hop obs) \<and>
    run_state (en_vpp_api_observe_event_json write ctx (Some dest) path_id route_id timestamp_ms n) d =
      (Inr (s @ [LF]), d')"
proof -
  from observe_route_success [OF assms(1)] have v: "route_observation_valid dest obs" by simp
  with assms(2) have "valid_label (vo_destination_prefix obs)" "valid_label (vo_next_hop obs)"
    "empty_or_label (vo_interface_name obs)" "vo_destination_prefix obs = dest" "-1 \<le> vo_table_id obs"
    by (auto simp: route_observation_valid_def valid_observation_token_label empty_or_label_def)
  moreover from this assms(3-7) have "en_vpp_route_observation_to_event_json write obs path_id route_id timestamp_ms n =
      Inr (s @ [LF])"
    by (auto simp: en_vpp_route_observation_to_event_json_def event_line_Inr empty_or_label_def)
  ultimately show ?thesis
    using assms(1) by (simp add: en_vpp_api_observe_event_json_def)
qed

definition sample_observer :: "unit en_vpp_api_ctx" where
  "sample_observer = \<lparr>ax_install_path = None, ax_remove_path = None, ax_active_path = None,
     ax_observe_route = Some (\<lambda>p obs. State_Monad.return (EN_ERR_NONE,
       obs\<lparr>vo_destination_prefix := p, vo_next_hop := ''203.0.113.1'', vo_present := True\<rparr>)),
     ax_observe_interface = None\<rparr>"

lemma observed_event_is_written_witness:
  "run_state (en_vpp_api_observe_event_json (\<lambda>_. Some ''{}'') (Some sample_observer) (Some ''10.0.2.0/24'')
     ''path-direct'' ''r1'' 1000 64) () = (Inr (''{}'' @ [LF]), ())"
proof -
  let ?obs = "zero_route_observation\<lparr>vo_destination_prefix := ''10.0.2.0/24'', vo_next_hop := ''203.0.113.1'', vo_present := True\<rparr>"
  note labels = valid_label_def token_char_def isalnum_def isdigit_def code_def
  have "run_state (en_vpp_api_observe_route (Some sample_observer) (Some ''10.0.2.0/24'') zero_route_observation) () =
      ((EN_ERR_NONE, ?obs), ())"
    by (simp add: en_vpp_api_observe_route_def sample_observer_def route_observation_valid_def
        valid_observation_token_label labels zero_route_observation_def)
  from observed_event_is_written [OF this, of "''path-direct''" "''r1''" 1000 "\<lambda>_. Some ''{}''" "''{}''" 64]
  show ?thesis by (auto simp: labels)
qed

end
