(* ===== verification/StrongswanObserver.thy ===== *)
theory StrongswanObserver
  imports TextScan JsonOutput
begin

text \<open>
  \<open>src/src/strongswan_observer.c\<close>: reading \<open>swanctl --list-sas\<close> for the state of a child SA, and the
  event line of an observation.
\<close>

record en_strongswan_sa_observation =
  so_child_id :: string
  so_state :: en_tunnel_state
  so_health :: en_health_state

section \<open>Lines\<close>

fun same_text :: "string \<Rightarrow> string \<Rightarrow> bool" where
  "same_text (l # ls) (r # rs) = (if tolower l \<noteq> tolower r then False else same_text ls rs)"
| "same_text ls rs = (ls = [] \<and> rs = [])"

text \<open>The indentation of a line that opens the section of the child.\<close>

definition child_header :: "string \<Rightarrow> string \<Rightarrow> nat option" where
  "child_header line child_id =
     (let value = skip_space line in
      if \<not> starts_with value child_id then None
      else case drop (length child_id) value of
        c # _ \<Rightarrow> if c = CHR '':'' then Some (indentation line) else None
      | [] \<Rightarrow> None)"

definition state_value :: "string \<Rightarrow> nat \<Rightarrow> string option" where
  "state_value line n =
     (let marker = skip_space line in
      if \<not> starts_with marker ''state:'' then None else token_of n (skip_space (drop 6 marker)))"

definition map_state :: "string \<Rightarrow> en_tunnel_state \<times> en_health_state" where
  "map_state v =
     (if same_text v ''INSTALLED'' then (EN_TUNNEL_ESTABLISHED, EN_HEALTH_HEALTHY)
      else if same_text v ''REKEYING'' then (EN_TUNNEL_REKEYING, EN_HEALTH_HEALTHY)
      else if same_text v ''CONNECTING'' \<or> same_text v ''ROUTED'' then (EN_TUNNEL_ESTABLISHING, EN_HEALTH_UNKNOWN)
      else if same_text v ''DELETING'' \<or> same_text v ''DESTROYING'' then (EN_TUNNEL_DELETING, EN_HEALTH_DEGRADED)
      else (EN_TUNNEL_FAILED, EN_HEALTH_FAILED))"

lemma same_text_iff: "same_text l r \<longleftrightarrow> map tolower l = map tolower r"
  by (induction l r rule: same_text.induct) auto

section \<open>The parser\<close>

record sa_scan =
  ss_inside :: bool
  ss_child_indent :: nat
  ss_observed :: "(en_tunnel_state \<times> en_health_state) option"

type_synonym sa_result = "en_error_code \<times> en_strongswan_sa_observation \<times> string option"

text \<open>What has been stored so far; before a state is found the fields are zero.\<close>

definition sa_observation :: "string \<Rightarrow> sa_scan \<Rightarrow> en_strongswan_sa_observation" where
  "sa_observation child_id st = (case ss_observed st of
     None \<Rightarrow> \<lparr>so_child_id = fit EN_MAX_ID_LEN child_id, so_state = EN_TUNNEL_ABSENT, so_health = EN_HEALTH_UNKNOWN\<rparr>
   | Some (s, h) \<Rightarrow> \<lparr>so_child_id = fit EN_MAX_ID_LEN child_id, so_state = s, so_health = h\<rparr>)"

definition sa_finish :: "string \<Rightarrow> sa_scan \<Rightarrow> sa_result" where
  "sa_finish child_id st =
     (if \<not> ss_inside st \<or> ss_observed st = None
      then (EN_ERR_NOT_FOUND, sa_observation child_id st, Some ''swanctl child SA was not found or has no state'')
      else (EN_ERR_NONE, sa_observation child_id st, None))"

definition sa_too_long :: "string \<Rightarrow> sa_scan \<Rightarrow> sa_result" where
  "sa_too_long child_id st =
     (EN_ERR_INVALID_ARGUMENT, sa_observation child_id st, Some ''swanctl output line exceeds capacity'')"

definition sa_line :: "string \<Rightarrow> sa_scan \<Rightarrow> string \<Rightarrow> sa_result + sa_scan" where
  "sa_line child_id st line =
     (case child_header line child_id of
        Some i \<Rightarrow> Inr (st\<lparr>ss_inside := True, ss_child_indent := i\<rparr>)
      | None \<Rightarrow>
          if ss_inside st \<and> indentation line \<le> ss_child_indent st \<and> skip_space line \<noteq> []
          then Inl (sa_finish child_id st)
          else if ss_inside st then
            (case state_value line 32 of
               Some v \<Rightarrow> Inr (st\<lparr>ss_observed := Some (map_state v)\<rparr>)
             | None \<Rightarrow> Inr st)
          else Inr st)"

definition sa_start :: sa_scan where
  "sa_start = \<lparr>ss_inside = False, ss_child_indent = 0, ss_observed = None\<rparr>"

definition en_strongswan_parse_list_sas ::
  "string \<Rightarrow> string \<Rightarrow> en_strongswan_sa_observation \<Rightarrow> sa_result" where
  "en_strongswan_parse_list_sas output child_id observation =
     (if \<not> valid_label child_id
      then (EN_ERR_INVALID_ARGUMENT, observation, Some ''invalid swanctl observation argument'')
      else scan_lines (sa_line child_id) (sa_too_long child_id) (sa_finish child_id) sa_start (split_lines output))"

section \<open>Events\<close>

definition event_state :: "en_tunnel_state \<Rightarrow> string" where
  "event_state s = (if s = EN_TUNNEL_ESTABLISHED then ''installed''
     else if s = EN_TUNNEL_REKEYING then ''rekeying'' else ''failed'')"

definition tunnel_event :: "en_strongswan_sa_observation \<Rightarrow> string \<Rightarrow> int \<Rightarrow> json_object" where
  "tunnel_event obs path_id timestamp_ms =
     [(''schema'', JString ''ibuki.event.tunnel.v1''), (''path_id'', JString path_id),
      (''tunnel_id'', JString (so_child_id obs)), (''state'', JString (event_state (so_state obs))),
      (''timestamp_ms'', json_int timestamp_ms)]"

definition en_strongswan_observation_to_event_json ::
  "json_writer \<Rightarrow> en_strongswan_sa_observation \<Rightarrow> string \<Rightarrow> int \<Rightarrow> nat \<Rightarrow> en_error_code + string" where
  "en_strongswan_observation_to_event_json write obs path_id timestamp_ms output_len =
     (if \<not> valid_label path_id \<or> \<not> valid_label (so_child_id obs) \<or> output_len = 0 \<or> timestamp_ms < 0
      then Inl EN_ERR_INVALID_ARGUMENT
      else event_line write (tunnel_event obs path_id timestamp_ms) output_len)"

section \<open>What a listing says\<close>

text \<open>The section of the child: its header and the lines below it, none of which opens it again.\<close>

definition child_section :: "string \<Rightarrow> string \<Rightarrow> string list \<Rightarrow> bool" where
  "child_section child_id header mid \<longleftrightarrow> child_header header child_id \<noteq> None \<and>
     list_all (\<lambda>l. child_header l child_id = None \<and> (indentation header < indentation l \<or> skip_space l = [])) mid"

text \<open>The state a line of the section announces, if any, and the last one of several lines.\<close>

definition announced_state :: "string \<Rightarrow> (en_tunnel_state \<times> en_health_state) option" where
  "announced_state line = map_option map_state (state_value line 32)"

definition last_state :: "string list \<Rightarrow> (en_tunnel_state \<times> en_health_state) option" where
  "last_state ls = (case rev (List.map_filter announced_state ls) of [] \<Rightarrow> None | s # _ \<Rightarrow> Some s)"

lemma last_state_snoc:
  "last_state (ls @ [l]) = (case announced_state l of Some s \<Rightarrow> Some s | None \<Rightarrow> last_state ls)"
  by (simp add: last_state_def map_filter_def split: option.splits)

text \<open>The lines end in a section whose header has that indentation; a line of a section announces \<open>r\<close>.\<close>

definition in_section :: "string \<Rightarrow> string list \<Rightarrow> nat \<Rightarrow> bool" where
  "in_section child_id seen i \<longleftrightarrow> (\<exists>pre header mid. seen = pre @ header # mid \<and>
     child_section child_id header mid \<and> i = indentation header)"

definition announces :: "string \<Rightarrow> string list \<Rightarrow> en_tunnel_state \<times> en_health_state \<Rightarrow> bool" where
  "announces child_id seen r \<longleftrightarrow> (\<exists>pre header mid line post. seen = pre @ header # mid @ line # post \<and>
     child_section child_id header (mid @ [line]) \<and> announced_state line = Some r)"

definition sa_invariant :: "string \<Rightarrow> string list \<Rightarrow> sa_scan \<Rightarrow> bool" where
  "sa_invariant child_id seen st \<longleftrightarrow>
     (ss_observed st \<noteq> None \<longrightarrow> ss_inside st) \<and>
     (ss_inside st \<longrightarrow> in_section child_id seen (ss_child_indent st)) \<and>
     (\<forall>r. ss_observed st = Some r \<longrightarrow> announces child_id seen r)"

lemma announces_append: "announces child_id seen r \<Longrightarrow> announces child_id (seen @ rest) r"
  unfolding announces_def by (metis append_assoc append_Cons)

lemma section_opens: "child_header l child_id = Some i \<Longrightarrow> in_section child_id (seen @ [l]) i"
  unfolding in_section_def
  by (intro exI [of _ seen] exI [of _ l] exI [of _ "[]"])
    (auto simp: child_section_def child_header_def Let_def split: if_splits list.splits)

lemma section_line:
  assumes "in_section child_id seen i" "child_header l child_id = None" "i < indentation l \<or> skip_space l = []"
  shows "in_section child_id (seen @ [l]) i"
    and "announced_state l = Some r \<Longrightarrow> announces child_id (seen @ [l]) r"
proof -
  from assms obtain pre header mid where sect: "seen @ [l] = pre @ header # (mid @ [l])"
    "child_section child_id header (mid @ [l])" "i = indentation header"
    by (auto simp: in_section_def child_section_def)
  then show "in_section child_id (seen @ [l]) i" unfolding in_section_def by blast
  assume "announced_state l = Some r"
  with sect have "seen @ [l] = pre @ header # mid @ l # [] \<and> child_section child_id header (mid @ [l]) \<and>
      announced_state l = Some r" by simp
  then show "announces child_id (seen @ [l]) r" unfolding announces_def by blast
qed

lemma sa_step_invariant:
  assumes "sa_invariant child_id seen st" "sa_line child_id st l = Inr st'"
  shows "sa_invariant child_id (seen @ [l]) st'"
proof (cases "child_header l child_id")
  case (Some i)
  with assms section_opens [OF Some, of seen] show ?thesis
    by (auto simp: sa_line_def sa_invariant_def announces_append)
next
  case None
  with assms section_line [of child_id seen "ss_child_indent st" l] show ?thesis
    by (auto simp: sa_line_def sa_invariant_def announces_append announced_state_def split: if_splits option.splits)
qed

text \<open>
  A state the parser reports was read in the output: in a section of the child (its header and
  lines indented deeper), a line announces exactly the reported state and health.
\<close>

lemma observed_child_is_listed:
  assumes "en_strongswan_parse_list_sas output child_id obs0 = (EN_ERR_NONE, obs, msg)"
  shows "announces child_id (text_lines output) (so_state obs, so_health obs) \<and>
    so_child_id obs = fit EN_MAX_ID_LEN child_id"
proof -
  let ?I = "sa_invariant child_id"
  from assms have run: "scan_lines (sa_line child_id) (sa_too_long child_id) (sa_finish child_id) sa_start
      (split_lines output) = (EN_ERR_NONE, obs, msg)"
    by (simp add: en_strongswan_parse_list_sas_def split: if_splits)
  have found: "?I seen st \<Longrightarrow> sa_finish child_id st = (EN_ERR_NONE, obs, msg) \<Longrightarrow>
      announces child_id seen (so_state obs, so_health obs) \<and> so_child_id obs = fit EN_MAX_ID_LEN child_id"
    for seen st
    by (auto simp: sa_invariant_def sa_finish_def sa_observation_def split: if_splits)
  have start: "?I [] sa_start" by (simp add: sa_invariant_def sa_start_def)
  have "(\<exists>st'. ?I ([] @ text_lines output) st' \<and> (EN_ERR_NONE, obs, msg) = sa_finish child_id st') \<or>
    (\<exists>pre st'. ?I ([] @ pre) st' \<and> (EN_ERR_NONE, obs, msg) = sa_too_long child_id st') \<or>
    (\<exists>pre l post st'. text_lines output = pre @ l # post \<and> ?I ([] @ pre) st' \<and>
       sa_line child_id st' l = Inl (EN_ERR_NONE, obs, msg))"
    unfolding text_lines_def
    by (rule scan_sound_from [of ?I "sa_line child_id", OF sa_step_invariant _ run]) (use start in simp_all)
  then consider st' where "?I (text_lines output) st'" "sa_finish child_id st' = (EN_ERR_NONE, obs, msg)"
    | pre l post st' where "text_lines output = pre @ l # post" "?I pre st'"
        "sa_finish child_id st' = (EN_ERR_NONE, obs, msg)"
    by (auto simp: sa_too_long_def sa_line_def split: option.splits if_splits)
  then show ?thesis
  proof cases
    case 1
    then show ?thesis by (rule found)
  next
    case 2
    from found [OF 2(2,3)] show ?thesis unfolding 2(1) by (auto intro: announces_append)
  qed
qed

text \<open>
  In a listing with one section of the child the last state announced there is reported, and
  without one the child is not found; what comes before the section and after it, from the first
  line that is not indented deeper, has no influence.
\<close>

lemma child_section_decides:
  assumes "list_all plain_line (pre @ header # mid @ post)" "valid_label child_id"
    and "list_all (\<lambda>l. child_header l child_id = None) (pre @ post)" "child_section child_id header mid"
    and "post = [] \<or> (indentation (hd post) \<le> indentation header \<and> skip_space (hd post) \<noteq> [])"
  shows "en_strongswan_parse_list_sas (unlines (pre @ header # mid @ post)) child_id obs0 =
    sa_finish child_id \<lparr>ss_inside = True, ss_child_indent = indentation header, ss_observed = last_state mid\<rparr>"
proof -
  let ?scan = "scan_lines (sa_line child_id) (sa_too_long child_id) (sa_finish child_id)"
  have "\<exists>st'. st' = sa_start \<and> ?scan sa_start (pre @ header # mid @ post) = ?scan st' (header # mid @ post)"
    by (rule scan_goes_on [where I = "\<lambda>seen st. st = sa_start"])
      (use assms(1,3) in \<open>auto simp: sa_line_def sa_start_def\<close>)
  moreover define st where "st = \<lparr>ss_inside = True, ss_child_indent = indentation header, ss_observed = None\<rparr>"
  moreover have "?scan sa_start (header # mid @ post) = ?scan st (mid @ post)"
    using assms(1,4)
    by (auto simp: sa_line_def sa_start_def st_def child_section_def child_header_def Let_def not_le
        split: if_splits list.splits)
  moreover have "\<exists>st'. st' = st\<lparr>ss_observed := last_state mid\<rparr> \<and> ?scan st (mid @ post) = ?scan st' post"
  proof (rule scan_goes_on [where I = "\<lambda>seen st'. st' = st\<lparr>ss_observed := last_state seen\<rparr>"])
    fix seen l rest st'
    assume "mid = seen @ l # rest" and st': "st' = st\<lparr>ss_observed := last_state seen\<rparr>"
    with assms(4) have "child_header l child_id = None \<and> (indentation header < indentation l \<or> skip_space l = [])"
      by (simp add: child_section_def)
    then show "\<exists>st''. sa_line child_id st' l = Inr st'' \<and> st'' = st\<lparr>ss_observed := last_state (seen @ [l])\<rparr>"
      by (auto simp: sa_line_def st' st_def last_state_snoc announced_state_def split: option.splits)
  qed (use assms(1) in \<open>simp_all add: st_def last_state_def\<close>)
  moreover have "?scan (st\<lparr>ss_observed := last_state mid\<rparr>) post = sa_finish child_id (st\<lparr>ss_observed := last_state mid\<rparr>)"
    using assms(1,3,5) by (cases post) (simp_all add: sa_line_def st_def not_le)
  ultimately show ?thesis
    using assms(1,2) by (simp add: en_strongswan_parse_list_sas_def split_unlines st_def)
qed

end
