(* ===== verification/Telemetry.thy ===== *)
theory Telemetry
  imports TextScan JsonOutput VppObserver StrongswanObserver Samples
begin

text \<open>
  \<open>src/src/telemetry.c\<close>: reading telemetry records and events from JSON lines. A line gives a health
  record or the message handed to \<open>set_error\<close>; what a failing call leaves in the caller's record is
  not modelled. The JSON reader is the parameter \<open>read\<close>.
\<close>

section \<open>Fields\<close>

text \<open>A string field that is copied into a buffer of \<open>n\<close> bytes.\<close>

definition label_field :: "string option \<Rightarrow> nat \<Rightarrow> bool" where
  "label_field v n \<longleftrightarrow> (case v of None \<Rightarrow> False | Some s \<Rightarrow> length s < n \<and> valid_label s)"

definition no_embedded_nul :: "json_object \<Rightarrow> bool" where
  "no_embedded_nul doc \<longleftrightarrow> list_all (\<lambda>(k, v). CHR 0x00 \<notin> set k \<and>
     (case v of JString s \<Rightarrow> CHR 0x00 \<notin> set s | _ \<Rightarrow> True)) doc"

definition int_field :: "json_value option \<Rightarrow> bool" where
  "int_field v \<longleftrightarrow> yyjson_is_int v \<and> 0 \<le> yyjson_get_sint v \<and> yyjson_get_sint v \<le> INT_MAX"

definition optional_int :: "json_value option \<Rightarrow> bool" where
  "optional_int v \<longleftrightarrow> v = None \<or> int_field v"

definition str_at :: "json_object \<Rightarrow> string \<Rightarrow> string" where
  "str_at doc key = (case yyjson_get_str (yyjson_obj_get doc key) of Some s \<Rightarrow> s | None \<Rightarrow> [])"

section \<open>The kinds of records\<close>

type_synonym telemetry_result = "string + en_path_health"

definition health_state_of :: "string \<Rightarrow> en_health_state option" where
  "health_state_of state =
     (if state = ''healthy'' then Some EN_HEALTH_HEALTHY
      else if state = ''degraded'' then Some EN_HEALTH_DEGRADED
      else if state = ''failed'' \<or> state = ''unhealthy'' then Some EN_HEALTH_FAILED else None)"

definition metrics_in_range :: "cdouble \<Rightarrow> cdouble \<Rightarrow> cdouble \<Rightarrow> bool" where
  "metrics_in_range rtt loss jitter \<longleftrightarrow> isfinite rtt \<and> isfinite loss \<and> isfinite jitter \<and>
     \<not> rtt < Fin 0 \<and> \<not> loss < Fin 0 \<and> \<not> Fin 100 < loss \<and> \<not> jitter < Fin 0"

text \<open>A count, or what the state says when there is none.\<close>

definition count_field :: "json_value option \<Rightarrow> bool \<Rightarrow> int" where
  "count_field v holds = (if v \<noteq> None then yyjson_get_sint v else if holds then 1 else 0)"

definition health_record :: "json_object \<Rightarrow> en_path_health \<Rightarrow> telemetry_result" where
  "health_record doc r =
     (let rtt = yyjson_obj_get doc ''rtt_ms''; loss = yyjson_obj_get doc ''packet_loss_percent'';
          jitter = yyjson_obj_get doc ''jitter_ms'';
          successes = yyjson_obj_get doc ''consecutive_successes'';
          failures = yyjson_obj_get doc ''consecutive_failures'' in
      case yyjson_get_str (yyjson_obj_get doc ''state'') of
        None \<Rightarrow> Inl ''telemetry record has invalid fields''
      | Some state \<Rightarrow>
          if \<not> yyjson_is_num rtt \<or> \<not> yyjson_is_num loss \<or> \<not> yyjson_is_num jitter
          then Inl ''telemetry record has invalid fields''
          else case health_state_of state of
            None \<Rightarrow> Inl ''unsupported telemetry state''
          | Some h \<Rightarrow>
              if \<not> metrics_in_range (yyjson_get_num rtt) (yyjson_get_num loss) (yyjson_get_num jitter)
              then Inl ''telemetry metrics are outside valid range''
              else if \<not> optional_int successes \<or> \<not> optional_int failures
              then Inl ''telemetry consecutive counts are invalid''
              else Inr (r\<lparr>ph_rtt_ms := yyjson_get_num rtt, ph_packet_loss_percent := yyjson_get_num loss,
                ph_jitter_ms := yyjson_get_num jitter, ph_state := h,
                ph_consecutive_successes := count_field successes (h = EN_HEALTH_HEALTHY),
                ph_consecutive_failures := count_field failures (h = EN_HEALTH_FAILED)\<rparr>))"

text \<open>An event sets the state, with a loss of nothing or of everything.\<close>

definition with_event_state :: "en_health_state \<Rightarrow> en_path_health \<Rightarrow> en_path_health" where
  "with_event_state h r = r\<lparr>ph_state := h,
     ph_packet_loss_percent := (if h = EN_HEALTH_FAILED then Fin 100 else Fin 0)\<rparr>"

definition path_event_record :: "json_object \<Rightarrow> en_path_health \<Rightarrow> telemetry_result" where
  "path_event_record doc r =
     (case yyjson_get_str (yyjson_obj_get doc ''event'') of
        None \<Rightarrow> Inl ''unsupported path event''
      | Some event \<Rightarrow>
          if event \<noteq> ''path_failed'' \<and> event \<noteq> ''path_recovered'' then Inl ''unsupported path event''
          else Inr (with_event_state
            (if event = ''path_recovered'' then EN_HEALTH_HEALTHY else EN_HEALTH_FAILED) r))"

definition interface_event_record :: "json_object \<Rightarrow> en_path_health \<Rightarrow> telemetry_result" where
  "interface_event_record doc r =
     (let name = yyjson_get_str (yyjson_obj_get doc ''interface_name'') in
      case yyjson_get_str (yyjson_obj_get doc ''state'') of
        None \<Rightarrow> Inl ''telemetry interface event has invalid fields''
      | Some state \<Rightarrow>
          if \<not> label_field name EN_MAX_ID_LEN then Inl ''telemetry interface event has invalid fields''
          else if state \<noteq> ''up'' \<and> state \<noteq> ''down'' then Inl ''unsupported interface event state''
          else let h = (if state = ''up'' then EN_HEALTH_HEALTHY else EN_HEALTH_FAILED) in
            Inr ((with_event_state h r)\<lparr>ph_observed_interface_name := str_at doc ''interface_name'',
              ph_has_interface_observation := True, ph_interface_state := h\<rparr>))"

definition observation_state_of :: "string \<Rightarrow> en_health_state option" where
  "observation_state_of state =
     (if state = ''installed'' \<or> state = ''rekeying'' \<or> state = ''up'' then Some EN_HEALTH_HEALTHY
      else if state = ''deleted'' \<or> state = ''down'' \<or> state = ''failed'' then Some EN_HEALTH_FAILED else None)"

text \<open>The identity of a route comes with both fields or with neither.\<close>

definition route_identity_valid :: "json_object \<Rightarrow> bool" where
  "route_identity_valid doc \<longleftrightarrow>
     (let d = yyjson_obj_get doc ''destination_prefix''; n = yyjson_obj_get doc ''next_hop'' in
      (d \<noteq> None) = (n \<noteq> None) \<and>
      (d \<noteq> None \<longrightarrow> label_field (yyjson_get_str d) EN_MAX_ID_LEN \<and> label_field (yyjson_get_str n) EN_MAX_ID_LEN))"

definition observation_record :: "bool \<Rightarrow> json_object \<Rightarrow> en_path_health \<Rightarrow> telemetry_result" where
  "observation_record is_route doc r =
     (let tunnel_id = yyjson_get_str (yyjson_obj_get doc ''tunnel_id'');
          table = yyjson_obj_get doc ''table_id'' in
      case yyjson_get_str (yyjson_obj_get doc ''state'') of
        None \<Rightarrow> Inl ''telemetry event has invalid fields''
      | Some state \<Rightarrow>
          if \<not> label_field tunnel_id EN_MAX_ID_LEN then Inl ''telemetry event has invalid fields''
          else case observation_state_of state of
            None \<Rightarrow> Inl ''unsupported tunnel or route event state''
          | Some h \<Rightarrow>
              let r' = with_event_state h r in
              if \<not> is_route then Inr (r'\<lparr>ph_observed_tunnel_id := str_at doc ''tunnel_id''\<rparr>)
              else if table \<noteq> None \<and> \<not> int_field table then Inl ''telemetry route table_id is invalid''
              else if \<not> route_identity_valid doc then Inl ''telemetry route identity is invalid''
              else Inr (r'\<lparr>ph_has_table_id := table \<noteq> None,
                ph_table_id := (if table \<noteq> None then yyjson_get_sint table else 0),
                ph_has_route_observation := True,
                ph_observed_destination_prefix := str_at doc ''destination_prefix'',
                ph_observed_next_hop := str_at doc ''next_hop'', ph_route_state := h\<rparr>))"

section \<open>The common fields\<close>

definition real_timestamp :: "cdouble \<Rightarrow> int option" where
  "real_timestamp d = (case d of
     Fin q \<Rightarrow> if 0 \<le> q \<and> q < 2 ^ 63 \<and> of_int \<lfloor>q\<rfloor> = q then Some \<lfloor>q\<rfloor> else None
   | _ \<Rightarrow> None)"

definition timestamp_of :: "json_value option \<Rightarrow> int option" where
  "timestamp_of v = (case v of
     Some (JUint w) \<Rightarrow> if uint w \<le> 2 ^ 63 - 1 then Some (uint w) else None
   | Some (JSint w) \<Rightarrow> if 0 \<le> sint w then Some (sint w) else None
   | _ \<Rightarrow> real_timestamp (yyjson_get_num v))"

definition optional_label :: "json_object \<Rightarrow> string \<Rightarrow> bool" where
  "optional_label doc key \<longleftrightarrow> yyjson_obj_get doc key = None \<or>
     label_field (yyjson_get_str (yyjson_obj_get doc key)) EN_MAX_ID_LEN"

definition common_fields :: "json_object \<Rightarrow> bool \<Rightarrow> en_path_health \<Rightarrow> telemetry_result" where
  "common_fields doc is_health r =
     (let sequence = yyjson_obj_get doc ''sequence'' in
      if \<not> optional_label doc ''source'' then Inl ''telemetry source is invalid''
      else if \<not> optional_label doc ''target'' then Inl ''telemetry target is invalid''
      else if \<not> optional_int sequence then Inl ''telemetry sequence is invalid''
      else case timestamp_of (yyjson_obj_get doc ''timestamp_ms'') of
        None \<Rightarrow> Inl ''telemetry timestamp is outside valid range''
      | Some t \<Rightarrow>
          let r' = r\<lparr>ph_source_node := str_at doc ''source'', ph_target := str_at doc ''target'',
            ph_sequence := (if sequence \<noteq> None then yyjson_get_sint sequence else 0), ph_last_updated_ms := t\<rparr> in
          Inr (if is_health then r' else r'\<lparr>
            ph_consecutive_successes := (if ph_state r = EN_HEALTH_HEALTHY then 1 else 0),
            ph_consecutive_failures := (if ph_state r = EN_HEALTH_FAILED then 1 else 0)\<rparr>))"

section \<open>A line\<close>

definition schema_record :: "string \<Rightarrow> (json_object \<Rightarrow> en_path_health \<Rightarrow> telemetry_result) option" where
  "schema_record schema =
     (if schema = ''ibuki.telemetry.path_health.v1'' then Some health_record
      else if schema = ''ibuki.event.path.v1'' then Some path_event_record
      else if schema = ''ibuki.event.tunnel.v1'' then Some (observation_record False)
      else if schema = ''ibuki.event.vpp.route.v1'' then Some (observation_record True)
      else if schema = ''ibuki.event.vpp.interface.v1'' then Some interface_event_record else None)"

definition en_telemetry_parse_json_line :: "json_reader \<Rightarrow> string \<Rightarrow> telemetry_result" where
  "en_telemetry_parse_json_line read line =
     (case read line of
        Some (JObject doc) \<Rightarrow>
          let schema = yyjson_get_str (yyjson_obj_get doc ''schema'') in
          if \<not> no_embedded_nul doc then Inl ''telemetry strings contain embedded NUL''
          else if \<not> (case schema of None \<Rightarrow> False | Some s \<Rightarrow> valid_label s)
          then Inl ''telemetry record has no schema''
          else (case schema_record (str_at doc ''schema'') of
            None \<Rightarrow> Inl ''unsupported telemetry schema''
          | Some kind \<Rightarrow>
              if \<not> label_field (yyjson_get_str (yyjson_obj_get doc ''path_id'')) EN_MAX_ID_LEN \<or>
                 \<not> yyjson_is_num (yyjson_obj_get doc ''timestamp_ms'')
              then Inl ''telemetry record has invalid fields''
              else case kind doc (zero_health\<lparr>ph_path_id := str_at doc ''path_id''\<rparr>) of
                Inl message \<Rightarrow> Inl message
              | Inr r \<Rightarrow> common_fields doc (str_at doc ''schema'' = ''ibuki.telemetry.path_health.v1'') r)
      | _ \<Rightarrow> Inl ''telemetry record is not a complete JSON object'')"

section \<open>A file\<close>

text \<open>\<open>fgets\<close> with a buffer of 1024 bytes: up to 1023 bytes, no further than a line feed.\<close>

definition fgets_line :: "string \<Rightarrow> string" where
  "fgets_line s =
     (let w = take 1023 s; l = takeWhile (\<lambda>c. c \<noteq> LF) w in if length l < length w then l @ [LF] else l)"

lemma fgets_line_length: "length (fgets_line s) \<le> length s \<and> (s \<noteq> [] \<longrightarrow> 0 < length (fgets_line s))"
proof -
  have "length (takeWhile (\<lambda>c. c \<noteq> LF) (take 1023 s)) \<le> length (take 1023 s)" by (rule length_takeWhile_le)
  moreover have "length (take 1023 s) \<le> length s" by simp
  ultimately show ?thesis by (cases s) (auto simp: fgets_line_def Let_def)
qed

function fgets_lines :: "string \<Rightarrow> string list" where
  "fgets_lines s = (if s = [] then [] else fgets_line s # fgets_lines (drop (length (fgets_line s)) s))"
  by auto
termination
  by (relation "measure length") (use fgets_line_length in auto)

declare fgets_lines.simps [simp del]

definition input_limit :: nat where "input_limit = 4 * 1024 * 1024"

definition blank_line :: "string \<Rightarrow> bool" where
  "blank_line l \<longleftrightarrow> dropWhile isspace l = []"

fun load_lines ::
  "json_reader \<Rightarrow> nat \<Rightarrow> nat \<Rightarrow> en_path_health list \<Rightarrow> string list \<Rightarrow> (en_error_code \<times> string) + en_path_health list" where
  "load_lines read capacity bytes records [] =
     (if records = [] then Inl (EN_ERR_NOT_FOUND, ''no telemetry records found'') else Inr records)"
| "load_lines read capacity bytes records (l # ls) =
     (if input_limit - length l < bytes then Inl (EN_ERR_INVALID_ARGUMENT, ''telemetry input exceeds size limit'')
      else if blank_line l then load_lines read capacity (bytes + length l) records ls
      else if capacity \<le> length records then Inl (EN_ERR_INVALID_ARGUMENT, ''too many telemetry records'')
      else case en_telemetry_parse_json_line read l of
        Inl message \<Rightarrow> Inl (EN_ERR_INVALID_ARGUMENT, message)
      | Inr r \<Rightarrow> load_lines read capacity (bytes + length l) (records @ [r]) ls)"

text \<open>\<open>content\<close> is what \<open>en_telemetry_open_jsonl\<close> gives to read, \<open>None\<close> when it refuses the file.\<close>

definition en_telemetry_load_jsonl ::
  "json_reader \<Rightarrow> string option \<Rightarrow> nat \<Rightarrow> (en_error_code \<times> string) + en_path_health list" where
  "en_telemetry_load_jsonl read content capacity =
     (if capacity = 0 then Inl (EN_ERR_INVALID_ARGUMENT, ''invalid telemetry argument'')
      else case content of
        None \<Rightarrow> Inl (EN_ERR_NOT_FOUND, ''failed to open telemetry file'')
      | Some text \<Rightarrow> load_lines read capacity 0 [] (fgets_lines text))"

section \<open>What is accepted\<close>

definition metric_ok :: "cdouble \<Rightarrow> bool" where
  "metric_ok d \<longleftrightarrow> (\<exists>q. d = Fin q \<and> 0 \<le> q)"

definition loss_ok :: "cdouble \<Rightarrow> bool" where
  "loss_ok d \<longleftrightarrow> (\<exists>q. d = Fin q \<and> 0 \<le> q \<and> q \<le> 100)"

definition count_ok :: "int \<Rightarrow> bool" where
  "count_ok i \<longleftrightarrow> 0 \<le> i \<and> i \<le> INT_MAX"

definition short_label :: "string \<Rightarrow> bool" where
  "short_label s \<longleftrightarrow> s = [] \<or> (length s < EN_MAX_ID_LEN \<and> valid_label s)"

text \<open>A record the rest of the program may rely on.\<close>

definition wf_telemetry :: "en_path_health \<Rightarrow> bool" where
  "wf_telemetry r \<longleftrightarrow> ph_path_id r \<noteq> [] \<and>
     list_all short_label [ph_path_id r, ph_source_node r, ph_target r, ph_observed_destination_prefix r,
       ph_observed_next_hop r, ph_observed_tunnel_id r, ph_observed_interface_name r] \<and>
     ph_state r \<in> {EN_HEALTH_HEALTHY, EN_HEALTH_DEGRADED, EN_HEALTH_FAILED} \<and>
     metric_ok (ph_rtt_ms r) \<and> loss_ok (ph_packet_loss_percent r) \<and> metric_ok (ph_jitter_ms r) \<and>
     list_all count_ok [ph_consecutive_successes r, ph_consecutive_failures r, ph_table_id r, ph_sequence r] \<and>
     0 \<le> ph_last_updated_ms r \<and> ph_last_updated_ms r < 2 ^ 63 \<and>
     (ph_has_route_observation r \<longrightarrow> ph_route_state r = ph_state r) \<and>
     (ph_has_interface_observation r \<longrightarrow> ph_interface_state r = ph_state r)"

lemma metrics_in_range_ok:
  "metrics_in_range rtt loss jitter \<Longrightarrow> metric_ok rtt \<and> loss_ok loss \<and> metric_ok jitter"
  by (auto simp: metrics_in_range_def isfinite_iff metric_ok_def loss_ok_def not_less)

lemma short_str_at:
  "label_field (yyjson_get_str (yyjson_obj_get doc key)) EN_MAX_ID_LEN \<Longrightarrow> short_label (str_at doc key)"
  "optional_label doc key \<Longrightarrow> short_label (str_at doc key)"
  by (auto simp: label_field_def str_at_def short_label_def optional_label_def split: option.splits)

lemma label_str_at_nonempty:
  "label_field (yyjson_get_str (yyjson_obj_get doc key)) n \<Longrightarrow> str_at doc key \<noteq> []"
  by (auto simp: label_field_def str_at_def valid_label_def split: option.splits)

lemma route_identity_labels:
  "route_identity_valid doc \<Longrightarrow> short_label (str_at doc ''destination_prefix'') \<and> short_label (str_at doc ''next_hop'')"
  by (auto simp: route_identity_valid_def Let_def intro: short_str_at) (auto simp: str_at_def short_label_def)

lemma count_ok_field: "int_field v \<Longrightarrow> count_ok (yyjson_get_sint v)"
  by (simp add: int_field_def count_ok_def)

lemma count_ok_optional: "optional_int v \<Longrightarrow> v \<noteq> None \<Longrightarrow> count_ok (yyjson_get_sint v)"
  by (auto simp: optional_int_def count_ok_field)

lemma count_ok_small [simp]: "count_ok 0" "count_ok 1"
  by (simp_all add: count_ok_def INT_MAX_def)

lemma sint_64_less: "sint (w :: 64 word) < 2 ^ 63"
  using sint_less [of w] by simp

lemma timestamp_range: "timestamp_of v = Some t \<Longrightarrow> 0 \<le> t \<and> t < 2 ^ 63"
  using sint_64_less
  by (auto simp: timestamp_of_def real_timestamp_def floor_less_iff
      split: option.splits json_value.splits cdouble.splits if_splits)

lemmas kind_defs = health_record_def path_event_record_def interface_event_record_def observation_record_def

text \<open>Every kind of record leaves the fields of the others zero, and what it sets is in range.\<close>

definition kind_ok :: "en_path_health \<Rightarrow> bool" where
  "kind_ok r \<longleftrightarrow> ph_source_node r = [] \<and> ph_target r = [] \<and> ph_path_id r \<noteq> [] \<and>
     list_all short_label [ph_path_id r, ph_observed_destination_prefix r,
       ph_observed_next_hop r, ph_observed_tunnel_id r, ph_observed_interface_name r] \<and>
     ph_state r \<in> {EN_HEALTH_HEALTHY, EN_HEALTH_DEGRADED, EN_HEALTH_FAILED} \<and>
     metric_ok (ph_rtt_ms r) \<and> loss_ok (ph_packet_loss_percent r) \<and> metric_ok (ph_jitter_ms r) \<and>
     list_all count_ok [ph_consecutive_successes r, ph_consecutive_failures r, ph_table_id r] \<and>
     (ph_has_route_observation r \<longrightarrow> ph_route_state r = ph_state r) \<and>
     (ph_has_interface_observation r \<longrightarrow> ph_interface_state r = ph_state r)"

lemma zero_metrics [simp]: "metric_ok (Fin 0)" "loss_ok (Fin 0)" "loss_ok (Fin 100)" "short_label []"
  by (simp_all add: metric_ok_def loss_ok_def short_label_def)

lemma count_field_ok: "optional_int v \<Longrightarrow> count_ok (count_field v b)"
  by (auto simp: count_field_def dest: count_ok_optional)

lemma health_record_Inr:
  assumes "health_record doc r = Inr r'"
  shows "\<exists>rtt loss jitter h s f.
     r' = r\<lparr>ph_rtt_ms := rtt, ph_packet_loss_percent := loss, ph_jitter_ms := jitter, ph_state := h,
       ph_consecutive_successes := s, ph_consecutive_failures := f\<rparr> \<and>
     metric_ok rtt \<and> loss_ok loss \<and> metric_ok jitter \<and> count_ok s \<and> count_ok f \<and>
     h \<in> {EN_HEALTH_HEALTHY, EN_HEALTH_DEGRADED, EN_HEALTH_FAILED}"
proof -
  let ?n = "\<lambda>k. yyjson_get_num (yyjson_obj_get doc k)" and ?v = "yyjson_obj_get doc"
  from assms obtain state h where "health_state_of state = Some h"
    "metrics_in_range (?n ''rtt_ms'') (?n ''packet_loss_percent'') (?n ''jitter_ms'')"
    "optional_int (?v ''consecutive_successes'')" "optional_int (?v ''consecutive_failures'')"
    "r' = r\<lparr>ph_rtt_ms := ?n ''rtt_ms'', ph_packet_loss_percent := ?n ''packet_loss_percent'',
      ph_jitter_ms := ?n ''jitter_ms'', ph_state := h,
      ph_consecutive_successes := count_field (?v ''consecutive_successes'') (h = EN_HEALTH_HEALTHY),
      ph_consecutive_failures := count_field (?v ''consecutive_failures'') (h = EN_HEALTH_FAILED)\<rparr>"
    by (auto simp: health_record_def Let_def split: option.splits if_splits)
  moreover from this(1) have "h \<in> {EN_HEALTH_HEALTHY, EN_HEALTH_DEGRADED, EN_HEALTH_FAILED}"
    by (auto simp: health_state_of_def split: if_splits)
  ultimately show ?thesis using metrics_in_range_ok count_field_ok by blast
qed

lemma observation_state_cases: "observation_state_of s = Some h \<Longrightarrow> h = EN_HEALTH_HEALTHY \<or> h = EN_HEALTH_FAILED"
  by (auto simp: observation_state_of_def split: if_splits)

lemma observation_record_route:
  assumes "observation_record True doc q = Inr r"
  shows "\<exists>state h t d n has. observation_state_of state = Some h \<and> count_ok t \<and> short_label d \<and> short_label n \<and>
    r = (with_event_state h q)\<lparr>ph_has_table_id := has, ph_table_id := t,
      ph_has_route_observation := True, ph_observed_destination_prefix := d,
      ph_observed_next_hop := n, ph_route_state := h\<rparr>"
proof -
  let ?t = "yyjson_obj_get doc ''table_id''"
  from assms obtain state h where "observation_state_of state = Some h" "route_identity_valid doc"
    "?t = None \<or> int_field ?t"
    "r = (with_event_state h q)\<lparr>ph_has_table_id := ?t \<noteq> None,
      ph_table_id := (if ?t \<noteq> None then yyjson_get_sint ?t else 0),
      ph_has_route_observation := True, ph_observed_destination_prefix := str_at doc ''destination_prefix'',
      ph_observed_next_hop := str_at doc ''next_hop'', ph_route_state := h\<rparr>"
    by (auto simp: observation_record_def Let_def split: option.splits if_splits)
  moreover from this(3) have "count_ok (if ?t \<noteq> None then yyjson_get_sint ?t else 0)" by (auto simp: count_ok_field)
  ultimately show ?thesis using route_identity_labels by blast
qed

lemma kind_record_ok:
  assumes "schema_record s = Some kind" "kind doc (zero_health\<lparr>ph_path_id := p\<rparr>) = Inr r" "p \<noteq> []" "short_label p"
  shows "kind_ok r"
proof -
  from assms(1) consider "kind = health_record" | "kind = path_event_record" | "kind = observation_record False"
    | "kind = observation_record True" | "kind = interface_event_record"
    by (auto simp: schema_record_def split: if_splits)
  then show ?thesis
  proof cases
    case 1
    with assms(2) health_record_Inr obtain rtt loss jitter h s f where
      "r = zero_health\<lparr>ph_path_id := p, ph_rtt_ms := rtt, ph_packet_loss_percent := loss, ph_jitter_ms := jitter,
        ph_state := h, ph_consecutive_successes := s, ph_consecutive_failures := f\<rparr>"
      "metric_ok rtt" "loss_ok loss" "metric_ok jitter" "count_ok s" "count_ok f"
      "h \<in> {EN_HEALTH_HEALTHY, EN_HEALTH_DEGRADED, EN_HEALTH_FAILED}" by blast
    with assms(3,4) show ?thesis by (simp add: kind_ok_def zero_health_def)
  next
    case 2
    with assms(2-4) show ?thesis
      by (auto simp: path_event_record_def Let_def kind_ok_def zero_health_def with_event_state_def
          split: option.splits if_splits)
  next
    case 3
    let ?tunnel = "yyjson_get_str (yyjson_obj_get doc ''tunnel_id'')"
    from 3 assms(2) obtain state h where "label_field ?tunnel EN_MAX_ID_LEN" "observation_state_of state = Some h"
      "r = (with_event_state h (zero_health\<lparr>ph_path_id := p\<rparr>))\<lparr>ph_observed_tunnel_id := str_at doc ''tunnel_id''\<rparr>"
      by (auto simp: observation_record_def Let_def split: option.splits if_splits)
    with assms(3,4) short_str_at(1) observation_state_cases show ?thesis
      by (fastforce simp: kind_ok_def zero_health_def with_event_state_def)
  next
    case 4
    from 4 assms(2) obtain state h t d n has where facts: "observation_state_of state = Some h" "count_ok t" "short_label d" "short_label n"
      "r = (with_event_state h (zero_health\<lparr>ph_path_id := p\<rparr>))\<lparr>ph_has_table_id := has, ph_table_id := t,
        ph_has_route_observation := True, ph_observed_destination_prefix := d,
        ph_observed_next_hop := n, ph_route_state := h\<rparr>"
      using observation_record_route [of doc _ r] by blast
    with assms(3,4) observation_state_cases [OF facts(1)] show ?thesis
      by (fastforce simp: kind_ok_def zero_health_def with_event_state_def)
  next
    case 5
    from 5 assms(2) obtain h where "label_field (yyjson_get_str (yyjson_obj_get doc ''interface_name'')) EN_MAX_ID_LEN"
      "h = EN_HEALTH_HEALTHY \<or> h = EN_HEALTH_FAILED"
      "r = (with_event_state h (zero_health\<lparr>ph_path_id := p\<rparr>))\<lparr>
        ph_observed_interface_name := str_at doc ''interface_name'',
        ph_has_interface_observation := True, ph_interface_state := h\<rparr>"
      by (auto simp: interface_event_record_def Let_def split: option.splits if_splits)
    with assms(3,4) short_str_at(1) show ?thesis
      by (fastforce simp: kind_ok_def zero_health_def with_event_state_def)
  qed
qed

lemma common_fields_wf:
  assumes "common_fields doc b r = Inr r'" "kind_ok r"
  shows "wf_telemetry r'"
proof -
  from assms(1) obtain t where t: "timestamp_of (yyjson_obj_get doc ''timestamp_ms'') = Some t"
    and labels: "optional_label doc ''source''" "optional_label doc ''target''"
    and seq: "optional_int (yyjson_obj_get doc ''sequence'')"
    by (auto simp: common_fields_def Let_def split: option.splits if_splits)
  define n where "n = (if yyjson_obj_get doc ''sequence'' \<noteq> None then yyjson_get_sint (yyjson_obj_get doc ''sequence'') else 0)"
  have n: "count_ok n" using count_ok_optional [OF seq] by (simp add: n_def)
  have "r' = (let q = r\<lparr>ph_source_node := str_at doc ''source'', ph_target := str_at doc ''target'',
      ph_sequence := n, ph_last_updated_ms := t\<rparr> in
      if b then q else q\<lparr>ph_consecutive_successes := (if ph_state r = EN_HEALTH_HEALTHY then 1 else 0),
        ph_consecutive_failures := (if ph_state r = EN_HEALTH_FAILED then 1 else 0)\<rparr>)"
    using assms(1) t labels seq by (simp add: common_fields_def n_def Let_def)
  with assms(2) n short_str_at(2) [OF labels(1)] short_str_at(2) [OF labels(2)] timestamp_range [OF t]
  show ?thesis by (cases b) (simp_all add: Let_def kind_ok_def wf_telemetry_def)
qed

text \<open>
  Whatever the reader returns, a line that is accepted gives a record within all bounds: labels
  that fit their buffers, finite metrics that are not negative, a loss of at most 100 percent,
  counts, table and sequence in the range of \<open>int\<close>, a time stamp in the range of \<open>long long\<close>, and a
  state that agrees with the observation it reports.
\<close>

theorem accepted_record_wf:
  assumes "en_telemetry_parse_json_line read line = Inr r"
  shows "wf_telemetry r"
proof -
  from assms obtain doc kind r' where
    "label_field (yyjson_get_str (yyjson_obj_get doc ''path_id'')) EN_MAX_ID_LEN"
    "schema_record (str_at doc ''schema'') = Some kind"
    "kind doc (zero_health\<lparr>ph_path_id := str_at doc ''path_id''\<rparr>) = Inr r'"
    "common_fields doc (str_at doc ''schema'' = ''ibuki.telemetry.path_health.v1'') r' = Inr r"
    by (auto simp: en_telemetry_parse_json_line_def Let_def split: option.splits json_document.splits
        if_splits sum.splits)
  with kind_record_ok common_fields_wf show ?thesis
    by (metis short_str_at(1) label_str_at_nonempty)
qed

section \<open>Events written and read back\<close>

lemma label_no_nul: "valid_label s \<Longrightarrow> CHR 0x00 \<notin> set s"
  by (auto simp: valid_label_def list_all_iff token_char_def isalnum_def isdigit_def code_def)

lemma read_event:
  assumes "reads_back write read" "event_line write doc n = Inr line"
  shows "read line = Some (JObject (map (apsnd read_back) doc))"
  using assms by (auto simp: event_line_Inr reads_back_def)

lemma read_back_JString [simp]: "read_back (JString s) = JString s"
  by (simp add: read_back_def)

lemmas read_simps = en_telemetry_parse_json_line_def no_embedded_nul_def schema_record_def str_at_def label_field_def
  valid_label_def [of "CHR ''i'' # _"] token_char_def isalnum_def isdigit_def code_def common_fields_def optional_label_def
  optional_int_def timestamp_of_def

text \<open>
  A tunnel event written for an observation of strongSwan is read back as the record of that
  tunnel and path at that time: healthy iff the SA is established or rekeying, failed otherwise.
\<close>

theorem tunnel_event_roundtrip:
  assumes "reads_back write read"
    and "en_strongswan_observation_to_event_json write obs path_id timestamp_ms n = Inr line"
    and "length path_id < EN_MAX_ID_LEN" "length (so_child_id obs) < EN_MAX_ID_LEN" "timestamp_ms < 2 ^ 63"
  shows "en_telemetry_parse_json_line read line = Inr
    (let up = so_state obs = EN_TUNNEL_ESTABLISHED \<or> so_state obs = EN_TUNNEL_REKEYING in
     (with_event_state (if up then EN_HEALTH_HEALTHY else EN_HEALTH_FAILED) zero_health)\<lparr>
       ph_path_id := path_id, ph_observed_tunnel_id := so_child_id obs, ph_last_updated_ms := timestamp_ms,
       ph_consecutive_successes := (if up then 1 else 0), ph_consecutive_failures := (if up then 0 else 1)\<rparr>)"
proof -
  from assms(2) have labels: "valid_label path_id" "valid_label (so_child_id obs)" and t: "0 \<le> timestamp_ms"
    and ev: "event_line write (tunnel_event obs path_id timestamp_ms) n = Inr line"
    by (auto simp: en_strongswan_observation_to_event_json_def split: if_splits)
  note ts = read_back_json_int [OF t assms(5)]
  show ?thesis
    using assms(3,4) labels label_no_nul [OF labels(1)] label_no_nul [OF labels(2)] ts assms(5)
    by (simp add: read_event [OF assms(1) ev] tunnel_event_def event_state_def read_simps observation_record_def
        observation_state_of_def with_event_state_def zero_health_def Let_def)
qed

text \<open>
  A route event written for an observation of VPP is read back as the record of that route: its
  table and identity as observed, healthy iff the route is present.
\<close>

lemma route_event_roundtrip:
  assumes "reads_back write read"
    and "en_vpp_route_observation_to_event_json write obs path_id route_id timestamp_ms n = Inr line"
    and "length path_id < EN_MAX_ID_LEN" "length route_id < EN_MAX_ID_LEN"
    and "length (vo_destination_prefix obs) < EN_MAX_ID_LEN" "length (vo_next_hop obs) < EN_MAX_ID_LEN"
    and "vo_table_id obs \<le> INT_MAX" "timestamp_ms < 2 ^ 63"
  shows "en_telemetry_parse_json_line read line = Inr
    (let known = vo_destination_prefix obs \<noteq> [] \<and> vo_next_hop obs \<noteq> [];
         h = (if vo_present obs then EN_HEALTH_HEALTHY else EN_HEALTH_FAILED) in
     (with_event_state h zero_health)\<lparr>
       ph_path_id := path_id, ph_has_table_id := 0 \<le> vo_table_id obs, ph_table_id := max 0 (vo_table_id obs),
       ph_has_route_observation := True,
       ph_observed_destination_prefix := (if known then vo_destination_prefix obs else []),
       ph_observed_next_hop := (if known then vo_next_hop obs else []), ph_route_state := h,
       ph_last_updated_ms := timestamp_ms,
       ph_consecutive_successes := (if vo_present obs then 1 else 0),
       ph_consecutive_failures := (if vo_present obs then 0 else 1)\<rparr>)"
proof -
  from assms(2) have labels: "valid_label path_id" "valid_label route_id" and t: "0 \<le> timestamp_ms"
    and ids: "empty_or_label (vo_destination_prefix obs)" "empty_or_label (vo_next_hop obs)"
    and ev: "event_line write (route_event obs path_id route_id timestamp_ms) n = Inr line"
    by (auto simp: en_vpp_route_observation_to_event_json_def split: if_splits)
  note ts = read_back_json_int [OF t assms(8)]
  have "0 \<le> vo_table_id obs \<Longrightarrow> vo_table_id obs < 2 ^ 63" using assms(7) by (simp add: INT_MAX_def)
  note tb = read_back_json_int [OF _ this]
  note parse = read_event [OF assms(1) ev] route_event_def read_simps observation_record_def int_field_def
    route_identity_valid_def observation_state_of_def with_event_state_def zero_health_def Let_def
  show ?thesis
  proof (cases "vo_destination_prefix obs \<noteq> [] \<and> vo_next_hop obs \<noteq> []")
    case True
    with ids have "valid_label (vo_destination_prefix obs)" "valid_label (vo_next_hop obs)"
      by (auto simp: empty_or_label_def)
    note all = True this label_no_nul [OF this(1)] label_no_nul [OF this(2)]
    show ?thesis
      by (cases "0 \<le> vo_table_id obs"; cases "vo_present obs")
        (use assms(3-8) labels label_no_nul [OF labels(1)] label_no_nul [OF labels(2)] ts tb all in
          \<open>simp_all add: parse\<close>)
  next
    case False
    then have "(vo_destination_prefix obs \<noteq> [] \<and> vo_next_hop obs \<noteq> []) = False" by blast
    note parse = parse [unfolded route_event_def this if_False append_Nil]
    show ?thesis
      unfolding \<open>(vo_destination_prefix obs \<noteq> [] \<and> vo_next_hop obs \<noteq> []) = False\<close>
      by (cases "0 \<le> vo_table_id obs"; cases "vo_present obs")
        (use assms(3-8) labels label_no_nul [OF labels(1)] label_no_nul [OF labels(2)] ts tb in
          \<open>simp_all add: parse\<close>)
  qed
qed

text \<open>
  An interface event written for an observation of VPP is read back as the record of that
  interface: healthy iff it is present and up.
\<close>

lemma interface_event_roundtrip:
  assumes "reads_back write read"
    and "en_vpp_interface_observation_to_event_json write obs path_id timestamp_ms n = Inr line"
    and "length path_id < EN_MAX_ID_LEN" "length (vi_interface_name obs) < EN_MAX_ID_LEN" "timestamp_ms < 2 ^ 63"
  shows "en_telemetry_parse_json_line read line = Inr
    (let up = vi_present obs \<and> vi_up obs; h = (if up then EN_HEALTH_HEALTHY else EN_HEALTH_FAILED) in
     (with_event_state h zero_health)\<lparr>
       ph_path_id := path_id, ph_observed_interface_name := vi_interface_name obs,
       ph_has_interface_observation := True, ph_interface_state := h, ph_last_updated_ms := timestamp_ms,
       ph_consecutive_successes := (if up then 1 else 0), ph_consecutive_failures := (if up then 0 else 1)\<rparr>)"
proof -
  from assms(2) have labels: "valid_label path_id" "valid_label (vi_interface_name obs)" and t: "0 \<le> timestamp_ms"
    and ev: "event_line write (interface_event obs path_id timestamp_ms) n = Inr line"
    by (auto simp: en_vpp_interface_observation_to_event_json_def split: if_splits)
  note ts = read_back_json_int [OF t assms(5)]
  show ?thesis
    by (cases "vi_present obs \<and> vi_up obs")
      (use assms(3,4,5) labels label_no_nul [OF labels(1)] label_no_nul [OF labels(2)] ts in
        \<open>simp_all add: read_event [OF assms(1) ev] interface_event_def read_simps interface_event_record_def
          with_event_state_def zero_health_def Let_def\<close>)
qed

section \<open>Files\<close>

lemma fgets_line_bound: "length (fgets_line s) \<le> 1023"
proof -
  have "length (takeWhile (\<lambda>c. c \<noteq> LF) (take 1023 s)) \<le> length (take 1023 s)" by (rule length_takeWhile_le)
  then show ?thesis by (auto simp: fgets_line_def Let_def)
qed

lemma fgets_line_prefix: "fgets_line s = take (length (fgets_line s)) s"
proof -
  let ?w = "take 1023 s" and ?l = "takeWhile (\<lambda>c. c \<noteq> LF) (take 1023 s)"
  have take_l: "take (length ?l) ?w = ?l" by (rule takeWhile_eq_take [symmetric])
  have le: "length ?l \<le> length ?w" by (rule length_takeWhile_le)
  show ?thesis
  proof (cases "length ?l < length ?w")
    case True
    then have "?w ! length ?l = LF" using nth_length_takeWhile by blast
    with True take_l have "take (Suc (length ?l)) ?w = ?l @ [LF]" by (simp add: take_Suc_conv_app_nth)
    moreover have "length ?l < 1023" using True by (simp split: if_splits)
    then have "take (Suc (length ?l)) ?w = take (Suc (length ?l)) s" by (simp add: min_def)
    ultimately show ?thesis using True by (simp add: fgets_line_def Let_def)
  next
    case False
    with le have "length ?l = length ?w" by linarith
    with take_l have "?l = ?w" by (metis order_refl take_all)
    then have "fgets_line s = take 1023 s" by (simp only: fgets_line_def Let_def less_irrefl if_False)
    then show ?thesis by (simp add: min_def)
  qed
qed

text \<open>Reading takes the file apart without losing anything.\<close>

lemma concat_fgets_lines: "concat (fgets_lines s) = s"
proof (induction s rule: fgets_lines.induct)
  case (1 s)
  show ?case
  proof (cases "s = []")
    case False
    with 1 have "concat (fgets_lines s) = fgets_line s @ drop (length (fgets_line s)) s"
      by (subst fgets_lines.simps) simp
    then show ?thesis using fgets_line_prefix [of s] by (metis append_take_drop_id)
  qed (simp add: fgets_lines.simps)
qed

lemma fgets_lines_bound: "l \<in> set (fgets_lines s) \<Longrightarrow> length l \<le> 1023"
proof (induction s rule: fgets_lines.induct)
  case (1 s)
  then show ?case by (subst (asm) fgets_lines.simps) (auto simp: fgets_line_bound split: if_splits)
qed

lemma load_lines_Inr:
  assumes "\<forall>l\<in>set ls. length l \<le> 1023" "bytes \<le> input_limit" "length records \<le> capacity"
  shows "load_lines read capacity bytes records ls = Inr rs \<longleftrightarrow>
    bytes + length (concat ls) \<le> input_limit \<and> rs \<noteq> [] \<and> length rs \<le> capacity \<and>
    (\<exists>new. rs = records @ new \<and> map Inr new = map (en_telemetry_parse_json_line read) (filter (\<lambda>l. \<not> blank_line l) ls))"
  using assms
proof (induction read capacity bytes records ls rule: load_lines.induct)
  case (1 read capacity bytes records)
  then show ?case by auto
next
  case (2 read capacity bytes records l ls)
  have small: "1023 \<le> input_limit" by (simp add: input_limit_def)
  show ?case
  proof (cases "input_limit - length l < bytes")
    case True
    with small 2(3) have "\<not> bytes + length (concat (l # ls)) \<le> input_limit" by auto
    with True show ?thesis by simp
  next
    case fits: False
    then have le: "bytes + length l \<le> input_limit" using small 2(3) by auto
    show ?thesis
    proof (cases "blank_line l")
      case True
      with fits 2 le show ?thesis by (simp add: add.assoc)
    next
      case False
      show ?thesis
      proof (cases "capacity \<le> length records")
        case True
        with 2 have "\<not> length (records @ r # new) \<le> capacity" for r and new :: "en_path_health list" by simp
        with True fits False show ?thesis by (auto simp: map_eq_Cons_conv)
      next
        case room: False
        show ?thesis
        proof (cases "en_telemetry_parse_json_line read l")
          case (Inl m)
          with fits False room show ?thesis by (auto simp: map_eq_Cons_conv)
        next
          case (Inr r)
          with fits False room le 2(3,5) 2(2) [OF fits False room Inr] show ?thesis
            by (auto simp: add.assoc map_eq_Cons_conv)
        qed
      qed
    qed
  qed
qed

text \<open>
  A telemetry file is accepted iff it is readable, at most 4 MiB, and its lines that are not
  blank are between one and the capacity and all parse; then the records are exactly theirs, in
  order. Every byte of the file belongs to one line.
\<close>

lemma load_is_parse_of_lines:
  assumes "0 < capacity"
  shows "en_telemetry_load_jsonl read content capacity = Inr rs \<longleftrightarrow>
    (\<exists>text. content = Some text \<and> concat (fgets_lines text) = text \<and> length text \<le> input_limit \<and>
       rs \<noteq> [] \<and> length rs \<le> capacity \<and>
       map Inr rs = map (en_telemetry_parse_json_line read) (filter (\<lambda>l. \<not> blank_line l) (fgets_lines text)))"
proof (cases content)
  case (Some t)
  have "load_lines read capacity 0 [] (fgets_lines t) = Inr rs \<longleftrightarrow>
    0 + length (concat (fgets_lines t)) \<le> input_limit \<and> rs \<noteq> [] \<and> length rs \<le> capacity \<and>
    (\<exists>new. rs = [] @ new \<and> map Inr new =
       map (en_telemetry_parse_json_line read) (filter (\<lambda>l. \<not> blank_line l) (fgets_lines t)))"
    by (rule load_lines_Inr) (auto dest: fgets_lines_bound)
  with Some assms show ?thesis by (simp add: en_telemetry_load_jsonl_def concat_fgets_lines)
qed (simp add: en_telemetry_load_jsonl_def)

section \<open>Witnesses\<close>

text \<open>A writer that knows one document, and the reader that reads it back.\<close>

definition one_writer :: "json_object \<Rightarrow> json_writer" where
  "one_writer doc d = (if d = doc then Some ''event'' else None)"

definition one_reader :: "json_object \<Rightarrow> json_reader" where
  "one_reader doc s = (if s = ''event'' @ [LF] then Some (JObject (map (apsnd read_back) doc)) else None)"

lemma one_reads_back: "reads_back (one_writer doc) (one_reader doc)"
  by (simp add: reads_back_def one_writer_def one_reader_def)

definition sample_sa :: en_strongswan_sa_observation where
  "sample_sa = \<lparr>so_child_id = ''tun-hub'', so_state = EN_TUNNEL_REKEYING, so_health = EN_HEALTH_HEALTHY\<rparr>"

lemmas label_eval = valid_label_def token_char_def isalnum_def isdigit_def code_def

theorem tunnel_event_roundtrip_witness:
  "\<exists>r. en_telemetry_parse_json_line (one_reader (tunnel_event sample_sa ''path-via-hub'' 1000)) (''event'' @ [LF]) = Inr r \<and>
     ph_observed_tunnel_id r = ''tun-hub'' \<and> ph_state r = EN_HEALTH_HEALTHY"
proof -
  let ?doc = "tunnel_event sample_sa ''path-via-hub'' 1000"
  have "en_strongswan_observation_to_event_json (one_writer ?doc) sample_sa ''path-via-hub'' 1000 100 = Inr (''event'' @ [LF])"
    by (simp add: en_strongswan_observation_to_event_json_def event_line_def en_json_mut_doc_to_buffer_def
        one_writer_def sample_sa_def label_eval)
  from tunnel_event_roundtrip [OF one_reads_back this] show ?thesis
    by (simp add: sample_sa_def with_event_state_def Let_def)
qed

definition sample_route_seen :: en_vpp_route_observation where
  "sample_route_seen = \<lparr>vo_destination_prefix = ''10.0.2.0/24'', vo_next_hop = ''203.0.113.1'',
     vo_interface_name = ''host-eth0'', vo_table_id = 100, vo_present = True\<rparr>"

lemma route_event_roundtrip_witness:
  "\<exists>r. en_telemetry_parse_json_line (one_reader (route_event sample_route_seen ''path-via-hub'' ''r1'' 1000)) (''event'' @ [LF]) = Inr r \<and>
     ph_table_id r = 100 \<and> ph_route_state r = EN_HEALTH_HEALTHY"
proof -
  let ?doc = "route_event sample_route_seen ''path-via-hub'' ''r1'' 1000"
  have "en_vpp_route_observation_to_event_json (one_writer ?doc) sample_route_seen ''path-via-hub'' ''r1'' 1000 100 =
      Inr (''event'' @ [LF])"
    by (simp add: en_vpp_route_observation_to_event_json_def event_line_def en_json_mut_doc_to_buffer_def
        one_writer_def sample_route_seen_def empty_or_label_def label_eval)
  from route_event_roundtrip [OF one_reads_back this] show ?thesis
    by (simp add: sample_route_seen_def with_event_state_def Let_def INT_MAX_def)
qed

definition sample_interface_seen :: en_vpp_interface_observation where
  "sample_interface_seen = \<lparr>vi_interface_name = ''host-eth0'', vi_present = True, vi_up = False\<rparr>"

theorem interface_event_roundtrip_witness:
  "\<exists>r. en_telemetry_parse_json_line (one_reader (interface_event sample_interface_seen ''path-via-hub'' 1000)) (''event'' @ [LF]) = Inr r \<and>
     ph_interface_state r = EN_HEALTH_FAILED"
proof -
  let ?doc = "interface_event sample_interface_seen ''path-via-hub'' 1000"
  have "en_vpp_interface_observation_to_event_json (one_writer ?doc) sample_interface_seen ''path-via-hub'' 1000 100 =
      Inr (''event'' @ [LF])"
    by (simp add: en_vpp_interface_observation_to_event_json_def event_line_def en_json_mut_doc_to_buffer_def
        one_writer_def sample_interface_seen_def label_eval)
  from interface_event_roundtrip [OF one_reads_back this] show ?thesis
    by (simp add: sample_interface_seen_def with_event_state_def Let_def)
qed

definition sample_measurement :: json_object where
  "sample_measurement = [(''schema'', JString ''ibuki.telemetry.path_health.v1''), (''path_id'', JString ''path-direct''),
     (''state'', JString ''degraded''), (''rtt_ms'', JReal (Fin 20)), (''packet_loss_percent'', JReal (Fin (1 / 2))),
     (''jitter_ms'', JReal (Fin 1)), (''sequence'', JUint 7), (''timestamp_ms'', JUint 1000)]"

definition sample_telemetry :: telemetry_result where
  "sample_telemetry = en_telemetry_parse_json_line (one_reader sample_measurement) (''event'' @ [LF])"

definition sample_measured :: en_path_health where
  "sample_measured = zero_health\<lparr>ph_path_id := ''path-direct'', ph_state := EN_HEALTH_DEGRADED, ph_rtt_ms := Fin 20,
     ph_packet_loss_percent := Fin (1 / 2), ph_jitter_ms := Fin 1, ph_sequence := 7, ph_last_updated_ms := 1000\<rparr>"

lemma sample_telemetry_accepted: "sample_telemetry = Inr sample_measured"
  by code_simp

theorem accepted_record_wf_witness: "wf_telemetry sample_measured"
  using accepted_record_wf [OF sample_telemetry_accepted [unfolded sample_telemetry_def]] .

lemma load_is_parse_of_lines_witness:
  "en_telemetry_load_jsonl (one_reader sample_measurement) (Some (LF # ''event'' @ [LF])) 8 = Inr [sample_measured]"
proof -
  have "fgets_lines (LF # ''event'' @ [LF]) = [[LF], ''event'' @ [LF]]" by code_simp
  moreover have "blank_line [LF]" "\<not> blank_line (''event'' @ [LF])" by code_simp+
  ultimately show ?thesis
    using sample_telemetry_accepted
    by (subst load_is_parse_of_lines) (simp_all add: sample_telemetry_def input_limit_def)
qed

end
