(* ===== verification/ViciAdapter.thy ===== *)
theory ViciAdapter
  imports StrongswanObserver MockAdapters
begin

text \<open>
  \<open>src/src/strongswan_vici_adapter.c\<close> and \<open>src/src/strongswan_vici_client.c\<close>: tunnels over the VICI
  protocol of strongSwan. The library \<open>libvici\<close> is the parameter \<open>vici_library\<close>: its calls act on
  its own state, and what its parser hands to the callbacks is a list of child sections with their
  values, in the order of the calls. The state \<open>EN_TUNNEL_DOWN\<close> that \<open>client_remove_tunnel\<close> reports is a
  parameter: \<open>types.h\<close> does not define it. The texts of the error buffers are not modelled.
\<close>

section \<open>The adapter\<close>

record 'd en_strongswan_vici_ctx =
  vc_ensure_tunnel :: "(en_tunnel \<Rightarrow> en_tunnel \<Rightarrow> ('d, en_error_code \<times> en_tunnel) state) option"
  vc_remove_tunnel :: "(en_tunnel \<Rightarrow> en_tunnel \<Rightarrow> ('d, en_error_code \<times> en_tunnel) state) option"
  vc_observe_tunnel :: "(string \<Rightarrow> en_strongswan_sa_observation \<Rightarrow>
    ('d, en_error_code \<times> en_strongswan_sa_observation) state) option"

text \<open>Both operations call their callback and check that it reports on the tunnel asked for.\<close>

definition checked_tunnel_call ::
  "(en_tunnel \<Rightarrow> en_tunnel \<Rightarrow> ('d, en_error_code \<times> en_tunnel) state) option \<Rightarrow> en_tunnel \<Rightarrow> en_tunnel \<Rightarrow>
   ('d, en_error_code \<times> en_tunnel) state" where
  "checked_tunnel_call callback desired observed =
     (case callback of
        None \<Rightarrow> State_Monad.return (EN_ERR_INVALID_ARGUMENT, observed)
      | Some f \<Rightarrow>
          if tn_tunnel_id desired = [] then State_Monad.return (EN_ERR_INVALID_ARGUMENT, observed)
          else do {
            (err, seen) \<leftarrow> f desired observed;
            if err \<noteq> EN_ERR_NONE then State_Monad.return (err, seen)
            else State_Monad.return
              (if strcmp (tn_tunnel_id seen) (tn_tunnel_id desired) = 0 then EN_ERR_NONE else EN_ERR_STATE_CONFLICT,
               seen)
          })"

definition vici_ensure_tunnel where
  "vici_ensure_tunnel ctx = checked_tunnel_call (Option.bind ctx vc_ensure_tunnel)"

definition vici_remove_tunnel where
  "vici_remove_tunnel ctx = checked_tunnel_call (Option.bind ctx vc_remove_tunnel)"

definition en_strongswan_vici_adapter :: "'w en_strongswan_vici_ctx option \<Rightarrow> 'w en_strongswan_adapter" where
  "en_strongswan_vici_adapter ctx = \<lparr>
     ensure_tunnel = (\<lambda>desired observed. on_dev (vici_ensure_tunnel ctx desired observed)),
     remove_tunnel = Some (\<lambda>desired observed. on_dev (vici_remove_tunnel ctx desired observed))\<rparr>"

definition en_strongswan_vici_observe_tunnel ::
  "'d en_strongswan_vici_ctx option \<Rightarrow> string \<Rightarrow> en_strongswan_sa_observation \<Rightarrow>
   ('d, en_error_code \<times> en_strongswan_sa_observation) state" where
  "en_strongswan_vici_observe_tunnel ctx child_id obs =
     (case Option.bind ctx vc_observe_tunnel of
        None \<Rightarrow> State_Monad.return (EN_ERR_INVALID_ARGUMENT, obs)
      | Some f \<Rightarrow>
          if child_id = [] then State_Monad.return (EN_ERR_INVALID_ARGUMENT, obs)
          else do {
            (err, seen) \<leftarrow> f child_id obs;
            if err \<noteq> EN_ERR_NONE then State_Monad.return (err, seen)
            else State_Monad.return
              (if strcmp (so_child_id seen) child_id = 0 then EN_ERR_NONE else EN_ERR_STATE_CONFLICT, seen)
          })"

definition zero_sa :: en_strongswan_sa_observation where
  "zero_sa = \<lparr>so_child_id = [], so_state = EN_TUNNEL_ABSENT, so_health = EN_HEALTH_UNKNOWN\<rparr>"

definition en_strongswan_vici_observe_event_json ::
  "json_writer \<Rightarrow> 'd en_strongswan_vici_ctx option \<Rightarrow> string \<Rightarrow> string \<Rightarrow> int \<Rightarrow> nat \<Rightarrow> ('d, en_error_code + string) state" where
  "en_strongswan_vici_observe_event_json write ctx child_id path_id timestamp_ms output_len = do {
     (err, obs) \<leftarrow> en_strongswan_vici_observe_tunnel ctx child_id zero_sa;
     State_Monad.return
       (if err \<noteq> EN_ERR_NONE then Inl err
        else en_strongswan_observation_to_event_json write obs path_id timestamp_ms output_len)
   }"

section \<open>The client\<close>

type_synonym vici_values = "(string \<times> string) list"

text \<open>
  \<open>lib_submit request child\<close> is one request, for a child or not, with its response, \<open>None\<close> when it fails; the
  response holds the values at its top. \<open>lib_list_sas child\<close> is the request that streams the SAs: the child
  sections delivered, with whether it was answered. \<open>lib_register\<close> and \<open>lib_unregister\<close> set and clear the callback
  of an event and return whether the call succeeds; \<open>lib_on_close\<close> sets and clears the callback for the end of the
  connection. \<open>lib_monitor\<close> is what happens while the monitor waits: the events delivered, each with the time of
  the clock, and whether the connection has been seen to close at the \<open>n\<close>-th check.
\<close>

record 'd vici_library =
  lib_begin :: "string \<Rightarrow> ('d, bool) state"
  lib_submit :: "string \<Rightarrow> string option \<Rightarrow> ('d, vici_values option) state"
  lib_register :: "string \<Rightarrow> ('d, bool) state"
  lib_list_sas :: "string \<Rightarrow> ('d, (string \<times> vici_values) list \<times> bool) state"
  lib_unregister :: "string \<Rightarrow> ('d, bool) state"
  lib_on_close :: "bool \<Rightarrow> ('d, unit) state"
  lib_monitor :: "('d, (int \<times> (string \<times> vici_values) list) list \<times> (nat \<Rightarrow> bool)) state"

definition valid_child_id :: "string \<Rightarrow> bool" where
  "valid_child_id s \<longleftrightarrow> s \<noteq> [] \<and>
     list_all (\<lambda>c. isalnum c \<or> c = CHR '':'' \<or> c = CHR ''.'' \<or> c = CHR ''_'' \<or> c = CHR ''-'') s"

definition vici_find_str :: "vici_values \<Rightarrow> string \<Rightarrow> string \<Rightarrow> string" where
  "vici_find_str response fallback key = (case map_of response key of None \<Rightarrow> fallback | Some v \<Rightarrow> v)"

definition child_command ::
  "('d, 'z) vici_library_scheme \<Rightarrow> string \<Rightarrow> string \<Rightarrow> ('d, en_error_code) state" where
  "child_command lib command child_id =
     (if \<not> valid_child_id child_id \<or> EN_MAX_ID_LEN \<le> length command
      then State_Monad.return EN_ERR_INVALID_ARGUMENT
      else do {
        begun \<leftarrow> lib_begin lib command;
        if \<not> begun then State_Monad.return EN_ERR_STATE_CONFLICT
        else do {
          response \<leftarrow> lib_submit lib command (Some child_id);
          State_Monad.return (case response of
            None \<Rightarrow> EN_ERR_STATE_CONFLICT
          | Some r \<Rightarrow> if strcmp (vici_find_str r ''no'' ''success'') ''yes'' \<noteq> 0
              then EN_ERR_STATE_CONFLICT else EN_ERR_NONE)
        }
      })"

definition en_strongswan_vici_client_initiate where
  "en_strongswan_vici_client_initiate lib = child_command lib ''initiate''"

definition en_strongswan_vici_client_terminate where
  "en_strongswan_vici_client_terminate lib = child_command lib ''terminate''"

text \<open>What the callbacks capture: the text of the state is kept when it fits 31 bytes.\<close>

record child_observation =
  co_child_id :: string
  co_state :: string
  co_in_target :: bool
  co_found :: bool

definition capture_child_value :: "string \<times> string \<Rightarrow> child_observation \<Rightarrow> child_observation" where
  "capture_child_value nv cap =
     (if \<not> co_in_target cap then cap
      else if strcmp (fst nv) ''state'' = 0 \<and> length (snd nv) < 32
      then cap\<lparr>co_state := snd nv, co_found := True\<rparr> else cap)"

definition capture_child :: "string \<times> vici_values \<Rightarrow> child_observation \<Rightarrow> child_observation" where
  "capture_child section cap =
     (fold capture_child_value (snd section) (cap\<lparr>co_in_target := strcmp (fst section) (co_child_id cap) = 0\<rparr>))
       \<lparr>co_in_target := False\<rparr>"

definition capture_of :: "string \<Rightarrow> (string \<times> vici_values) list \<Rightarrow> child_observation" where
  "capture_of child_id sections = fold capture_child sections
     \<lparr>co_child_id = child_id, co_state = [], co_in_target = False, co_found = False\<rparr>"

text \<open>The text the observer's parser reads.\<close>

definition sas_text :: "string \<Rightarrow> string \<Rightarrow> string" where
  "sas_text child_id state = unlines [child_id @ '':'', ''  state: '' @ state]"

definition en_strongswan_vici_client_observe_child ::
  "('d, 'z) vici_library_scheme \<Rightarrow> string \<Rightarrow> en_strongswan_sa_observation \<Rightarrow>
   ('d, en_error_code \<times> en_strongswan_sa_observation) state" where
  "en_strongswan_vici_client_observe_child lib child_id obs =
     (if \<not> valid_child_id child_id then State_Monad.return (EN_ERR_INVALID_ARGUMENT, obs)
      else do {
        registered \<leftarrow> lib_register lib ''list-sa'';
        if \<not> registered then State_Monad.return (EN_ERR_STATE_CONFLICT, obs)
        else do {
          begun \<leftarrow> lib_begin lib ''list-sas'';
          if \<not> begun then do {
            _ \<leftarrow> lib_unregister lib ''list-sa'';
            State_Monad.return (EN_ERR_STATE_CONFLICT, obs)
          } else do {
            (sections, responded) \<leftarrow> lib_list_sas lib child_id;
            _ \<leftarrow> lib_unregister lib ''list-sa'';
            State_Monad.return
              (let cap = capture_of child_id sections in
               if \<not> responded then (EN_ERR_STATE_CONFLICT, obs)
               else if \<not> co_found cap then (EN_ERR_NOT_FOUND, obs)
               else if 128 \<le> length (sas_text child_id (co_state cap)) then (EN_ERR_INVALID_ARGUMENT, obs)
               else case en_strongswan_parse_list_sas (sas_text child_id (co_state cap)) child_id obs of
                 (err, seen, message) \<Rightarrow> (err, seen))
          }
        }
      })"

definition client_ensure_tunnel ::
  "('d, 'z) vici_library_scheme \<Rightarrow> en_tunnel \<Rightarrow> en_tunnel \<Rightarrow> ('d, en_error_code \<times> en_tunnel) state" where
  "client_ensure_tunnel lib desired observed = do {
     err \<leftarrow> en_strongswan_vici_client_initiate lib (tn_tunnel_id desired);
     if err \<noteq> EN_ERR_NONE then State_Monad.return (err, observed)
     else do {
       (err', obs) \<leftarrow> en_strongswan_vici_client_observe_child lib (tn_tunnel_id desired) zero_sa;
       State_Monad.return
         (if err' \<noteq> EN_ERR_NONE then (err', observed)
          else (EN_ERR_NONE, desired\<lparr>tn_state := so_state obs, tn_health := so_health obs\<rparr>))
     }
   }"

definition client_remove_tunnel ::
  "en_tunnel_state \<Rightarrow> ('d, 'z) vici_library_scheme \<Rightarrow> en_tunnel \<Rightarrow> en_tunnel \<Rightarrow> ('d, en_error_code \<times> en_tunnel) state" where
  "client_remove_tunnel tunnel_down lib desired observed = do {
     err \<leftarrow> en_strongswan_vici_client_terminate lib (tn_tunnel_id desired);
     State_Monad.return
       (if err \<noteq> EN_ERR_NONE then (err, observed)
        else (EN_ERR_NONE, desired\<lparr>tn_state := tunnel_down, tn_health := EN_HEALTH_FAILED\<rparr>))
   }"

definition client_observe_tunnel where
  "client_observe_tunnel lib child_id obs = en_strongswan_vici_client_observe_child lib child_id obs"

text \<open>\<open>enabled\<close> is whether the program is built with \<open>EVENTNET_ENABLE_STRONGSWAN_VICI\<close>.\<close>

definition en_strongswan_vici_bind_client ::
  "bool \<Rightarrow> en_tunnel_state \<Rightarrow> ('d, 'z) vici_library_scheme \<Rightarrow> 'd en_strongswan_vici_ctx \<Rightarrow>
   en_error_code \<times> 'd en_strongswan_vici_ctx" where
  "en_strongswan_vici_bind_client enabled tunnel_down lib ctx =
     (if \<not> enabled then (EN_ERR_STATE_CONFLICT, ctx)
      else (EN_ERR_NONE, \<lparr>vc_ensure_tunnel = Some (client_ensure_tunnel lib),
        vc_remove_tunnel = Some (client_remove_tunnel tunnel_down lib),
        vc_observe_tunnel = Some (client_observe_tunnel lib)\<rparr>))"

section \<open>Monitoring\<close>

text \<open>
  A \<open>child-updown\<close> event makes one event line, or none. \<open>timestamp\<close> is what \<open>en_now_ms\<close> reads.
\<close>

definition capture_monitor_event ::
  "json_writer \<Rightarrow> string \<Rightarrow> string \<Rightarrow> int \<Rightarrow> (string \<times> vici_values) list \<Rightarrow> string option" where
  "capture_monitor_event write child_id path_id timestamp sections =
     (let cap = capture_of child_id sections; event = sas_text child_id (co_state cap) in
      if \<not> co_found cap \<or> 512 \<le> length event then None
      else case en_strongswan_parse_list_sas event child_id zero_sa of
        (err, obs, message) \<Rightarrow>
          if err \<noteq> EN_ERR_NONE then None
          else case en_strongswan_observation_to_event_json write obs path_id timestamp 512 of
            Inl e \<Rightarrow> None | Inr line \<Rightarrow> Some line)"

text \<open>
  The loop that waits without a limit: \<open>ends n\<close> is what the check reads after \<open>n\<close> pauses of 100
  milliseconds. The result is the number of pauses, and \<open>None\<close> is a loop that never ends.
\<close>

partial_function (option) monitor_wait :: "(nat \<Rightarrow> bool) \<Rightarrow> nat \<Rightarrow> nat option" where
  "monitor_wait ends n = (if ends n then Some n else monitor_wait ends (Suc n))"

text \<open>
  The messages that arrive while the call waits are handed to the callback in their order.
\<close>

definition deliver_events ::
  "json_writer \<Rightarrow> string \<Rightarrow> string \<Rightarrow> (string \<Rightarrow> ('d, unit) state) \<Rightarrow> (int \<times> (string \<times> vici_values) list) list \<Rightarrow>
   ('d, unit) state" where
  "deliver_events write child_id path_id event_fn messages = foldr (\<lambda>(timestamp, sections) rest.
     do {
       _ \<leftarrow> (case capture_monitor_event write child_id path_id timestamp sections of
         None \<Rightarrow> skip | Some event \<Rightarrow> event_fn event);
       rest
     }) messages skip"

text \<open>
  \<open>stop n\<close> is what the loop reads from \<open>stop_fn\<close> after \<open>n\<close> pauses; with a duration there is one wait,
  and whether the connection has closed is read after it. The outcome is \<open>None\<close> when the call never returns.
\<close>

definition en_strongswan_vici_client_monitor_child_until ::
  "json_writer \<Rightarrow> ('d, 'z) vici_library_scheme \<Rightarrow> string \<Rightarrow> string \<Rightarrow> int \<Rightarrow> (string \<Rightarrow> ('d, unit) state) \<Rightarrow> (nat \<Rightarrow> bool) \<Rightarrow>
   ('d, en_error_code option) state" where
  "en_strongswan_vici_client_monitor_child_until write lib child_id path_id duration_ms event_fn stop =
     (if \<not> valid_child_id child_id \<or> path_id = [] \<or> duration_ms < 0
      then State_Monad.return (Some EN_ERR_INVALID_ARGUMENT)
      else do {
        registered \<leftarrow> lib_register lib ''child-updown'';
        if \<not> registered then State_Monad.return (Some EN_ERR_STATE_CONFLICT)
        else do {
          _ \<leftarrow> lib_on_close lib True;
          (messages, down) \<leftarrow> lib_monitor lib;
          _ \<leftarrow> deliver_events write child_id path_id event_fn messages;
          case (if duration_ms = 0 then monitor_wait (\<lambda>n. down n \<or> stop n) 0 else Some 0) of
            None \<Rightarrow> State_Monad.return None
          | Some n \<Rightarrow> do {
              unregistered \<leftarrow> lib_unregister lib ''child-updown'';
              _ \<leftarrow> lib_on_close lib False;
              State_Monad.return (Some (if down n \<or> \<not> unregistered then EN_ERR_STATE_CONFLICT else EN_ERR_NONE))
            }
        }
      })"

definition en_strongswan_vici_client_monitor_child where
  "en_strongswan_vici_client_monitor_child write lib child_id path_id duration_ms event_fn =
     en_strongswan_vici_client_monitor_child_until write lib child_id path_id duration_ms event_fn (\<lambda>_. False)"

section \<open>Properties of the client\<close>

lemma monitor_wait_skips: "(\<And>m. n \<le> m \<Longrightarrow> m < n + k \<Longrightarrow> \<not> ends m) \<Longrightarrow> monitor_wait ends n = monitor_wait ends (n + k)"
proof (induction k arbitrary: n)
  case (Suc k)
  have "\<not> ends n" by (rule Suc.prems) simp_all
  then have "monitor_wait ends n = monitor_wait ends (Suc n)" by (subst monitor_wait.simps) simp
  also have "\<dots> = monitor_wait ends (Suc n + k)" by (rule Suc.IH) (use Suc.prems in auto)
  finally show ?case by simp
qed simp

lemma monitor_wait_sound: "monitor_wait ends n = Some k \<Longrightarrow> n \<le> k \<and> ends k \<and> (\<forall>m. n \<le> m \<and> m < k \<longrightarrow> \<not> ends m)"
proof (induction ends n k rule: monitor_wait.raw_induct [rotated 1, consumes 1, case_names step])
  case (step wait ends n k)
  show ?case
  proof (cases "ends n")
    case True
    with step(2) show ?thesis by auto
  next
    case False
    with step(1) [of ends "Suc n" k] step(2) have "Suc n \<le> k \<and> ends k \<and> (\<forall>m. Suc n \<le> m \<and> m < k \<longrightarrow> \<not> ends m)" by simp
    with False show ?thesis by (metis Suc_leD Suc_le_eq order_le_imp_less_or_eq)
  qed
qed

lemma monitor_wait_first:
  assumes "ends n" "\<forall>m<n. \<not> ends m"
  shows "monitor_wait ends 0 = Some n"
proof -
  have "monitor_wait ends 0 = monitor_wait ends (0 + n)" by (rule monitor_wait_skips) (use assms(2) in auto)
  with assms(1) show ?thesis by (subst (asm) (2) monitor_wait.simps) simp
qed

lemma monitor_wait_None: "monitor_wait ends 0 = None \<longleftrightarrow> (\<forall>n. \<not> ends n)"
proof
  assume none: "monitor_wait ends 0 = None"
  show "\<forall>n. \<not> ends n"
  proof (rule ccontr)
    assume "\<not> (\<forall>n. \<not> ends n)"
    then obtain k where "ends k" by blast
    then have "ends (LEAST k. ends k) \<and> (\<forall>m<(LEAST k. ends k). \<not> ends m)" using LeastI not_less_Least by metis
    with monitor_wait_first none show False by (metis option.distinct(1))
  qed
next
  assume "\<forall>n. \<not> ends n"
  then show "monitor_wait ends 0 = None" using monitor_wait_sound by (metis option.exhaust)
qed

text \<open>
  Monitoring without a limit returns iff the connection closes or a stop is requested at some
  check; then it returns at the first such check, with success iff that was a stop, not a closed
  connection, and the event could be unregistered.
\<close>

theorem monitor_returns_iff_ended:
  assumes "valid_child_id child_id" "path_id \<noteq> []" "run_state (lib_register lib ''child-updown'') d = (True, d1)"
    "run_state (lib_on_close lib True) d1 = ((), d2)" "run_state (lib_monitor lib) d2 = ((messages, down), d3)"
    "run_state (deliver_events write child_id path_id event_fn messages) d3 = ((), d4)"
    "run_state (lib_unregister lib ''child-updown'') d4 = (unregistered, d5)"
  shows "(fst (run_state (en_strongswan_vici_client_monitor_child_until write lib child_id path_id 0 event_fn stop) d) = None \<longleftrightarrow>
      (\<forall>n. \<not> down n \<and> \<not> stop n)) \<and>
    (\<forall>n. (down n \<or> stop n) \<and> (\<forall>m<n. \<not> down m \<and> \<not> stop m) \<longrightarrow>
      fst (run_state (en_strongswan_vici_client_monitor_child_until write lib child_id path_id 0 event_fn stop) d) =
        Some (if down n \<or> \<not> unregistered then EN_ERR_STATE_CONFLICT else EN_ERR_NONE))"
    (is "(fst ?run = None \<longleftrightarrow> ?never) \<and> (\<forall>n. ?first n \<longrightarrow> _)")
proof -
  let ?w = "monitor_wait (\<lambda>n. down n \<or> stop n) 0"
  have run: "fst ?run = map_option (\<lambda>n. if down n \<or> \<not> unregistered then EN_ERR_STATE_CONFLICT else EN_ERR_NONE) ?w"
    using assms
    by (cases ?w) (simp_all add: en_strongswan_vici_client_monitor_child_until_def split: prod.splits)
  have "?w = None \<longleftrightarrow> ?never" using monitor_wait_None [of "\<lambda>n. down n \<or> stop n"] by simp
  moreover have "?w = Some n" if "?first n" for n
    using that by (intro monitor_wait_first) auto
  ultimately show ?thesis unfolding run by simp
qed

section \<open>What is observed\<close>

lemma capture_values:
  "co_in_target cap \<Longrightarrow> let c = fold capture_child_value vs cap in
   co_child_id c = co_child_id cap \<and> (co_found c \<longrightarrow>
     (co_found cap \<and> co_state c = co_state cap) \<or> ((''state'', co_state c) \<in> set vs \<and> length (co_state c) < 32))"
proof (induction vs arbitrary: cap)
  case (Cons nv vs)
  have "co_in_target (capture_child_value nv cap)" using Cons.prems by (simp add: capture_child_value_def)
  from Cons.IH [OF this] Cons.prems show ?case
    by (auto simp: capture_child_value_def Let_def split: if_splits) (metis prod.collapse)+
qed simp

lemma capture_values_ignored: "\<not> co_in_target cap \<Longrightarrow> fold capture_child_value vs cap = cap"
  by (induction vs arbitrary: cap) (simp_all add: capture_child_value_def)

lemma capture_sections:
  "let c = fold capture_child sections cap in co_child_id c = co_child_id cap \<and> (co_found c \<longrightarrow>
     (co_found cap \<and> co_state c = co_state cap) \<or>
     (\<exists>vs. (co_child_id cap, vs) \<in> set sections \<and> (''state'', co_state c) \<in> set vs \<and> length (co_state c) < 32))"
proof (induction sections arbitrary: cap)
  case (Cons x xs)
  have "co_child_id (capture_child x cap) = co_child_id cap \<and> (co_found (capture_child x cap) \<longrightarrow>
     (co_found cap \<and> co_state (capture_child x cap) = co_state cap) \<or>
     (fst x = co_child_id cap \<and> (''state'', co_state (capture_child x cap)) \<in> set (snd x) \<and>
      length (co_state (capture_child x cap)) < 32))"
    using capture_values [of "cap\<lparr>co_in_target := fst x = co_child_id cap\<rparr>" "snd x"]
    by (cases "fst x = co_child_id cap") (auto simp: capture_child_def capture_values_ignored Let_def)
  with Cons.IH [of "capture_child x cap"] show ?case by (auto simp: Let_def) (metis prod.collapse)+
qed simp

lemma capture_of_found:
  assumes "co_found (capture_of child_id sections)"
  shows "\<exists>vs. (child_id, vs) \<in> set sections \<and> (''state'', co_state (capture_of child_id sections)) \<in> set vs \<and>
    length (co_state (capture_of child_id sections)) < 32"
  using capture_sections [of sections "\<lparr>co_child_id = child_id, co_state = [], co_in_target = False, co_found = False\<rparr>"] assms
  by (auto simp: capture_of_def Let_def)

definition is_word :: "string \<Rightarrow> bool" where
  "is_word v \<longleftrightarrow> v \<noteq> [] \<and> list_all (\<lambda>c. \<not> isspace c) v"

lemma child_id_label: "valid_child_id s \<Longrightarrow> valid_label s"
  by (auto simp: valid_child_id_def valid_label_def list_all_iff token_char_def)

lemma label_plain: "list_all token_char s \<Longrightarrow> LF \<notin> set s \<and> CR \<notin> set s \<and> TAB \<notin> set s \<and> CHR '' '' \<notin> set s"
  by (auto simp: list_all_iff token_char_def isalnum_def isdigit_def code_def char_consts)

lemma word_plain: "is_word v \<Longrightarrow> LF \<notin> set v \<and> (\<forall>c\<in>set v. c \<noteq> CR)"
  by (auto simp: is_word_def list_all_iff isspace_def code_def char_consts)

lemma skip_space_word: "s \<noteq> [] \<Longrightarrow> \<not> space_or_tab (hd s) \<Longrightarrow> skip_space (s @ r) = s @ r \<and> indentation (s @ r) = 0"
  by (cases s) (simp_all add: skip_space_def indentation_def)

text \<open>
  The text the client writes is read back by the observer's parser, unless the child is named
  \<open>state\<close>: its state line would be taken for its header.
\<close>

lemma sas_text_parses:
  assumes "valid_child_id child_id" "is_word v" "length v < 32" "length child_id < EN_MAX_ID_LEN" "child_id \<noteq> ''state''"
  shows "en_strongswan_parse_list_sas (sas_text child_id v) child_id obs =
    (EN_ERR_NONE, \<lparr>so_child_id = child_id, so_state = fst (map_state v), so_health = snd (map_state v)\<rparr>, None)"
proof -
  note lab = child_id_label [OF assms(1)]
  from lab have ne: "child_id \<noteq> []" and chars: "list_all token_char child_id" by (auto simp: valid_label_def)
  note plain = label_plain [OF chars]
  from plain ne have hd: "\<not> space_or_tab (hd child_id)" by (cases child_id) (auto simp: space_or_tab_def)
  have l1: "plain_line (child_id @ '':'')" using plain assms(4) by (auto simp: plain_line_def char_consts)
  have l2: "plain_line (''  state: '' @ v)"
    using word_plain [OF assms(2)] assms(2,3) by (auto simp: plain_line_def is_word_def char_consts)
  have head: "child_header (child_id @ '':'') child_id = Some 0"
    using skip_space_word [OF ne hd, of "'':''"] by (simp add: child_header_def Let_def)
  have skip: "skip_space (''  state: '' @ v) = ''state: '' @ v" "indentation (''  state: '' @ v) = 2"
    by (simp_all add: skip_space_def indentation_def space_or_tab_def char_consts)
  have "''state: '' @ v = child_id @ CHR '':'' # rest \<Longrightarrow> False" for rest
    using assms(5) plain by (auto simp: Cons_eq_append_conv)
  then have nohead: "child_header (''  state: '' @ v) child_id = None"
    unfolding child_header_def skip Let_def by (auto simp: starts_with_iff split: list.splits)
  from assms(2) have "v \<noteq> []" "list_all (\<lambda>c. \<not> isspace c) v" by (simp_all add: is_word_def)
  then have tok: "token_of 32 v = Some v" using token_of_word [of v 32 "[]"] assms(3) by simp
  have "skip_space v = v"
    using \<open>v \<noteq> []\<close> \<open>list_all (\<lambda>c. \<not> isspace c) v\<close>
    by (cases v) (auto simp: skip_space_def space_or_tab_def isspace_def code_def char_consts)
  moreover have "skip_space (CHR '' '' # v) = skip_space v" by (simp add: skip_space_def space_or_tab_def)
  ultimately have val: "state_value (''  state: '' @ v) 32 = Some v"
    unfolding state_value_def skip Let_def using tok by simp
  have sect: "child_section child_id (child_id @ '':'') [''  state: '' @ v]"
    using head nohead skip skip_space_word [OF ne hd, of "'':''"] by (simp add: child_section_def)
  have "en_strongswan_parse_list_sas (unlines ([] @ (child_id @ '':'') # [''  state: '' @ v] @ [])) child_id obs =
    sa_finish child_id \<lparr>ss_inside = True, ss_child_indent = indentation (child_id @ '':''),
      ss_observed = last_state [''  state: '' @ v]\<rparr>"
    by (rule child_section_decides) (use l1 l2 lab sect in simp_all)
  moreover have "last_state [''  state: '' @ v] = Some (map_state v)"
    using val by (simp add: last_state_def announced_state_def map_filter_def)
  ultimately show ?thesis
    using assms(4) by (simp add: sas_text_def sa_finish_def sa_observation_def fit_id split: prod.splits)
qed

text \<open>
  What the client reports for a child was delivered by strongSwan: some section of that child
  holds a state, and the reported state and health are that state's. The states delivered for the
  child are words, as strongSwan's are, and the child is not named \<open>state\<close>.
\<close>

lemma client_reports_delivered_state:
  assumes "run_state (en_strongswan_vici_client_observe_child lib child_id obs0) d = ((EN_ERR_NONE, obs), d')"
    and "\<And>d sections ok d'. run_state (lib_list_sas lib child_id) d = ((sections, ok), d') \<Longrightarrow>
      \<forall>(name, vs)\<in>set sections. \<forall>(key, v)\<in>set vs. key = ''state'' \<longrightarrow> is_word v"
    and "length child_id < EN_MAX_ID_LEN" "child_id \<noteq> ''state''"
  shows "\<exists>d1 sections ok d2 vs v. run_state (lib_list_sas lib child_id) d1 = ((sections, ok), d2) \<and>
    (child_id, vs) \<in> set sections \<and> (''state'', v) \<in> set vs \<and>
    so_child_id obs = child_id \<and> (so_state obs, so_health obs) = map_state v"
proof -
  from assms(1) obtain d1 sections d2 where valid: "valid_child_id child_id"
    and list: "run_state (lib_list_sas lib child_id) d1 = ((sections, True), d2)"
    and found: "co_found (capture_of child_id sections)"
    and parse: "(case en_strongswan_parse_list_sas (sas_text child_id (co_state (capture_of child_id sections))) child_id obs0 of
      (err, seen, message) \<Rightarrow> (err, seen)) = (EN_ERR_NONE, obs)"
    by (auto simp: en_strongswan_vici_client_observe_child_def Let_def split: if_splits prod.splits)
  from capture_of_found [OF found] obtain vs where vs: "(child_id, vs) \<in> set sections"
    "(''state'', co_state (capture_of child_id sections)) \<in> set vs" "length (co_state (capture_of child_id sections)) < 32"
    by blast
  with assms(2) [OF list] have "is_word (co_state (capture_of child_id sections))" by fastforce
  from parse [unfolded sas_text_parses [OF valid this vs(3) assms(3,4)]] list vs show ?thesis by fastforce
qed

section \<open>Witnesses\<close>

definition sample_vici :: "unit vici_library" where
  "sample_vici = \<lparr>lib_begin = (\<lambda>_. State_Monad.return True),
     lib_submit = (\<lambda>_ _. State_Monad.return (Some [(''success'', ''yes'')])),
     lib_register = (\<lambda>_. State_Monad.return True),
     lib_list_sas = (\<lambda>_. State_Monad.return ([(''other'', [(''state'', ''DELETING'')]),
       (''tun-hub'', [(''uniqueid'', ''2''), (''state'', ''INSTALLED'')])], True)),
     lib_unregister = (\<lambda>_. State_Monad.return True),
     lib_on_close = (\<lambda>_. State_Monad.return ()),
     lib_monitor = State_Monad.return ([], \<lambda>_. False)\<rparr>"

definition sample_observed :: "(en_error_code \<times> en_strongswan_sa_observation) \<times> unit" where
  "sample_observed = run_state (en_strongswan_vici_client_observe_child sample_vici ''tun-hub'' zero_sa) ()"

lemma sample_observed_eval: "sample_observed = ((EN_ERR_NONE,
    \<lparr>so_child_id = ''tun-hub'', so_state = EN_TUNNEL_ESTABLISHED, so_health = EN_HEALTH_HEALTHY\<rparr>), ())"
  by code_simp

lemma client_reports_delivered_state_witness:
  "\<exists>d1 sections ok d2 vs v. run_state (lib_list_sas sample_vici ''tun-hub'') d1 = ((sections, ok), d2) \<and>
    (''tun-hub'', vs) \<in> set sections \<and> (''state'', v) \<in> set vs \<and>
    (EN_TUNNEL_ESTABLISHED, EN_HEALTH_HEALTHY) = map_state v"
proof -
  have words: "\<forall>(name, vs)\<in>set sections. \<forall>(key, v)\<in>set vs. key = ''state'' \<longrightarrow> is_word v"
    if "run_state (lib_list_sas sample_vici ''tun-hub'') d = ((sections, ok), d')" for d sections ok d'
    using that by (auto simp: sample_vici_def is_word_def isspace_def code_def)
  show ?thesis
    using client_reports_delivered_state [OF sample_observed_eval [unfolded sample_observed_def] words] by auto
qed

theorem monitor_returns_iff_ended_witness:
  "fst (run_state (en_strongswan_vici_client_monitor_child_until (\<lambda>_. None) sample_vici ''tun-hub'' ''path-via-hub'' 0
     (\<lambda>_. skip) (\<lambda>n. 3 \<le> n)) ()) = Some EN_ERR_NONE"
proof -
  have "valid_child_id ''tun-hub''" by code_simp
  then show ?thesis
    using monitor_returns_iff_ended [of "''tun-hub''" "''path-via-hub''" sample_vici "()" "()" "()" "[]" "\<lambda>_. False" "()"
      "\<lambda>_. None" "\<lambda>_. skip" "()" True "()" "\<lambda>n. 3 \<le> n"]
    by (auto simp: sample_vici_def deliver_events_def)
qed

end
