(* ===== verification/CommandAdapters.thy ===== *)
theory CommandAdapters
  imports RenderCommands VppObserver StrongswanObserver MockAdapters
begin

text \<open>
  The adapters of \<open>src/src/command_adapters.c\<close>, which act through \<open>swanctl\<close>, \<open>vppctl\<close> and \<open>ip\<close>. Running a
  program is the parameter \<open>host\<close>, which acts on its own state \<open>'h\<close>; a dry run prints and does nothing.
  An adapter's context is a record, and what the code changes in it is returned.
\<close>

section \<open>The host\<close>

text \<open>
  \<open>host_exec argv\<close> stands for \<open>fork\<close>, \<open>execvp\<close> and \<open>waitpid\<close>, and \<open>host_capture argv n\<close> for the same with the
  standard output read through a pipe into a buffer of \<open>n\<close> bytes: 0 iff the program ran and exited with status 0. \<open>host_shell\<close> is
  \<open>system\<close>. The output is text, without a NUL byte. The model is of the variant for POSIX systems.
\<close>

record 'h host =
  host_exec :: "string list \<Rightarrow> ('h, int) state"
  host_capture :: "string list \<Rightarrow> nat \<Rightarrow> ('h, int \<times> string) state"
  host_shell :: "string \<Rightarrow> ('h, int) state"

text \<open>Sequences with an early return; \<open>fail_as\<close> replaces the error.\<close>

definition on_success :: "('h, en_error_code) state \<Rightarrow> ('h, en_error_code) state \<Rightarrow> ('h, en_error_code) state" where
  "on_success m k = do { e \<leftarrow> m; if e = EN_ERR_NONE then k else State_Monad.return e }"

definition fail_as :: "en_error_code \<Rightarrow> ('h, en_error_code) state \<Rightarrow> ('h, en_error_code) state" where
  "fail_as e m = do { r \<leftarrow> m; State_Monad.return (if r = EN_ERR_NONE then EN_ERR_NONE else e) }"

primrec each_ok :: "('a \<Rightarrow> ('h, en_error_code) state) \<Rightarrow> 'a list \<Rightarrow> ('h, en_error_code) state" where
  "each_ok f [] = State_Monad.return EN_ERR_NONE"
| "each_ok f (x # xs) = on_success (f x) (each_ok f xs)"

text \<open>Use a formatted command; where it does not fit, the error is \<open>EN_ERR_INVALID_ARGUMENT\<close>.\<close>

definition with_command :: "rendered \<Rightarrow> (string \<Rightarrow> ('h, en_error_code) state) \<Rightarrow> ('h, en_error_code) state" where
  "with_command r k = (case r of Inl e \<Rightarrow> State_Monad.return e | Inr s \<Rightarrow> k s)"

section \<open>Running a command\<close>

abbreviation COMMAND_LEN :: nat where "COMMAND_LEN \<equiv> 512"
abbreviation OUTPUT_LEN :: nat where "OUTPUT_LEN \<equiv> 65536"

definition exec_argv :: "string \<Rightarrow> string list option" where
  "exec_argv command =
     (let argv = strtok_all blank command in
      if COMMAND_LEN \<le> length command then None
      else if 16 \<le> length argv \<or> \<not> list_all valid_command_token argv then None
      else if argv = [] then None
      else Some argv)"

definition exit_code :: "int \<Rightarrow> en_error_code" where
  "exit_code rc = (if rc = 0 then EN_ERR_NONE else EN_ERR_STATE_CONFLICT)"

definition run_exec_command :: "'h host \<Rightarrow> string \<Rightarrow> bool \<Rightarrow> ('h, en_error_code) state" where
  "run_exec_command host command dry_run =
     (if command = [] then State_Monad.return EN_ERR_INVALID_ARGUMENT
      else if dry_run then State_Monad.return EN_ERR_NONE
      else case exec_argv command of
        None \<Rightarrow> State_Monad.return EN_ERR_INVALID_ARGUMENT
      | Some argv \<Rightarrow> do { rc \<leftarrow> host_exec host argv; State_Monad.return (exit_code rc) })"

definition run_exec_capture :: "'h host \<Rightarrow> string \<Rightarrow> nat \<Rightarrow> ('h, en_error_code \<times> string) state" where
  "run_exec_capture host command output_len =
     (if output_len < 2 then State_Monad.return (EN_ERR_INVALID_ARGUMENT, [])
      else case exec_argv command of
        None \<Rightarrow> State_Monad.return (EN_ERR_INVALID_ARGUMENT, [])
      | Some argv \<Rightarrow> do {
          (rc, output) \<leftarrow> host_capture host argv output_len;
          State_Monad.return (exit_code rc, fit output_len output)
        })"

definition run_shell_command :: "'h host \<Rightarrow> string \<Rightarrow> bool \<Rightarrow> ('h, en_error_code) state" where
  "run_shell_command host command dry_run =
     (if dry_run then State_Monad.return EN_ERR_NONE
      else do { rc \<leftarrow> host_shell host command; State_Monad.return (exit_code rc) })"

section \<open>Templates\<close>

text \<open>Every occurrence from the left, as the loop over \<open>strstr\<close> finds them.\<close>

lemma strstr_length: "strstr s needle = Some r \<Longrightarrow> length r \<le> length s \<and> starts_with r needle"
  by (induction s needle rule: strstr.induct) (auto split: if_splits)

function replaced :: "string \<Rightarrow> string \<Rightarrow> string \<Rightarrow> string" where
  "replaced needle replacement s =
     (if needle = [] then s
      else case strstr s needle of
        None \<Rightarrow> s
      | Some r \<Rightarrow> take (length s - length r) s @ replacement @
          replaced needle replacement (drop (length needle) r))"
  by pat_completeness auto
termination
proof (relation "measure (\<lambda>(n, r, s). length s)")
  fix needle replacement s r :: string
  assume "needle \<noteq> []" "strstr s needle = Some r"
  then have "length r \<le> length s" "length needle \<le> length r"
    using strstr_length [of s needle r] by (auto simp: starts_with_iff)
  with \<open>needle \<noteq> []\<close> show "((needle, replacement, drop (length needle) r), needle, replacement, s)
      \<in> measure (\<lambda>(n, r, s). length s)" by (cases needle) auto
qed simp

declare replaced.simps [simp del]

definition replace_all :: "nat \<Rightarrow> string \<Rightarrow> string \<Rightarrow> string \<Rightarrow> string" where
  "replace_all text_len needle replacement s = fit text_len (fit COMMAND_LEN (replaced needle replacement s))"

definition expand_template ::
  "nat \<Rightarrow> string \<Rightarrow> en_tunnel option \<Rightarrow> en_path option \<Rightarrow> string option \<Rightarrow> string" where
  "expand_template n template tunnel path traffic_key =
     (let s0 = fit n template;
          s1 = (case tunnel of None \<Rightarrow> s0 | Some t \<Rightarrow>
            replace_all n ''{remote_ts}'' (tn_remote_traffic_selector t)
              (replace_all n ''{local_ts}'' (tn_local_traffic_selector t)
              (replace_all n ''{remote_endpoint}'' (tn_remote_endpoint t)
              (replace_all n ''{local_endpoint}'' (tn_local_endpoint t)
              (replace_all n ''{remote_node}'' (tn_remote_node t)
              (replace_all n ''{local_node}'' (tn_local_node t)
              (replace_all n ''{tunnel_id}'' (tn_tunnel_id t) s0)))))));
          s2 = (case path of None \<Rightarrow> s1 | Some p \<Rightarrow>
            replace_all n ''{destination}'' (pt_destination p)
              (replace_all n ''{source}'' (pt_source p) (replace_all n ''{path_id}'' (pt_path_id p) s1)))
      in case traffic_key of None \<Rightarrow> s2 | Some k \<Rightarrow> replace_all n ''{traffic_key}'' k s2)"

text \<open>The bytes that make a command one for the shell.\<close>

definition shell_char :: "char \<Rightarrow> bool" where
  "shell_char c \<longleftrightarrow> c \<in> set ('';&|<>`$()'' @ [CHR 0x27, DQ, BSLASH])"

definition run_template ::
  "'h host \<Rightarrow> string \<Rightarrow> bool \<Rightarrow> en_tunnel option \<Rightarrow> en_path option \<Rightarrow> string option \<Rightarrow> ('h, en_error_code) state" where
  "run_template host template dry_run tunnel path traffic_key =
     (if template = [] then State_Monad.return EN_ERR_NONE
      else let command = expand_template COMMAND_LEN template tunnel path traffic_key in
        if \<not> list_ex shell_char command then run_exec_command host command dry_run
        else run_shell_command host command dry_run)"

section \<open>Tunnels\<close>

record en_strongswan_command_ctx =
  sc_dry_run :: bool
  sc_verify_tunnel :: bool
  sc_connections_loaded :: bool
  sc_block_non_ipsec :: bool
  sc_swanctl_uri :: string
  sc_swanctl_config_file :: string
  sc_ensure_tunnel_command :: string
  sc_verify_tunnel_command :: string
  sc_remove_tunnel_command :: string
  sc_xfrm_block_tunnels :: "string list"

text \<open>The XFRM policies that block traffic outside a tunnel.\<close>

definition xfrm_add_command :: "string \<Rightarrow> string \<Rightarrow> string \<Rightarrow> rendered" where
  "xfrm_add_command dir src dst = format_command COMMAND_LEN
     (''ip xfrm policy add dir '' @ dir @ '' src '' @ src @ '' dst '' @ dst @ '' priority 10000 action block'')"

definition xfrm_delete_command :: "string \<Rightarrow> string \<Rightarrow> string \<Rightarrow> rendered" where
  "xfrm_delete_command dir src dst = format_command COMMAND_LEN
     (''ip xfrm policy delete dir '' @ dir @ '' src '' @ src @ '' dst '' @ dst @ '' priority 10000'')"

definition has_xfrm_block :: "en_strongswan_command_ctx \<Rightarrow> string \<Rightarrow> bool" where
  "has_xfrm_block ctx tunnel_id \<longleftrightarrow> list_ex (\<lambda>b. strcmp b tunnel_id = 0) (sc_xfrm_block_tunnels ctx)"

text \<open>The listing up to the next empty line, and the search of an entry with all the marks.\<close>

fun entry_text :: "string \<Rightarrow> string" where
  "entry_text [] = []"
| "entry_text (c # s) = (if starts_with (c # s) [LF, LF] then [] else c # entry_text s)"

definition range_contains :: "string \<Rightarrow> string \<Rightarrow> bool" where
  "range_contains s needle \<longleftrightarrow> needle \<noteq> [] \<and> strstr s needle \<noteq> None"

function find_policy :: "string \<Rightarrow> string list \<Rightarrow> string \<Rightarrow> bool" where
  "find_policy selector marks s =
     (if selector = [] then False
      else case strstr s selector of
        None \<Rightarrow> False
      | Some r \<Rightarrow>
          if list_all (range_contains (entry_text r)) marks then True
          else find_policy selector marks (drop (length selector) r))"
  by pat_completeness auto
termination
proof (relation "measure (\<lambda>(sel, m, s). length s)")
  fix selector s r :: string and marks
  assume "selector \<noteq> []" "strstr s selector = Some r"
  then have "length r \<le> length s" "length selector \<le> length r"
    using strstr_length [of s selector r] by (auto simp: starts_with_iff)
  with \<open>selector \<noteq> []\<close> show "((selector, marks, drop (length selector) r), selector, marks, s)
      \<in> measure (\<lambda>(sel, m, s). length s)" by (cases selector) auto
qed simp

declare find_policy.simps [simp del]

definition xfrm_policy_exists ::
  "'h host \<Rightarrow> en_strongswan_command_ctx \<Rightarrow> string \<Rightarrow> string \<Rightarrow> string \<Rightarrow> ('h, bool) state" where
  "xfrm_policy_exists host ctx direction source destination =
     (if sc_dry_run ctx then State_Monad.return False
      else do {
        (err, output) \<leftarrow> run_exec_capture host ''ip xfrm policy list'' OUTPUT_LEN;
        State_Monad.return (if err \<noteq> EN_ERR_NONE then False
          else find_policy (fit 256 (''src '' @ source @ '' dst '' @ destination))
            [fit 64 (''dir '' @ direction), ''priority 10000'', ''action block''] output)
      })"

definition apply_xfrm_block ::
  "'h host \<Rightarrow> en_strongswan_command_ctx \<Rightarrow> en_tunnel \<Rightarrow> ('h, en_error_code \<times> en_strongswan_command_ctx) state" where
  "apply_xfrm_block host ctx t =
     (let l = tn_local_traffic_selector t; r = tn_remote_traffic_selector t in
      if tn_tunnel_id t = [] \<or> l = [] \<or> r = [] \<or> \<not> valid_command_token (tn_tunnel_id t) \<or>
         \<not> valid_command_token l \<or> \<not> valid_command_token r
      then State_Monad.return (EN_ERR_INVALID_ARGUMENT, ctx)
      else if has_xfrm_block ctx (tn_tunnel_id t) then State_Monad.return (EN_ERR_NONE, ctx)
      else do {
        outgoing \<leftarrow> xfrm_policy_exists host ctx ''out'' l r;
        incoming \<leftarrow> xfrm_policy_exists host ctx ''in'' r l;
        if outgoing \<noteq> incoming then State_Monad.return (EN_ERR_STATE_CONFLICT, ctx)
        else if outgoing \<and> incoming then State_Monad.return (EN_ERR_NONE, ctx)
        else do {
          e \<leftarrow> on_success
            (with_command (xfrm_add_command ''out'' l r)
              (\<lambda>c. fail_as EN_ERR_STATE_CONFLICT (run_exec_command host c (sc_dry_run ctx))))
            (with_command (xfrm_add_command ''in'' r l)
              (\<lambda>c. fail_as EN_ERR_STATE_CONFLICT (run_exec_command host c (sc_dry_run ctx))));
          State_Monad.return
            (if e \<noteq> EN_ERR_NONE then (e, ctx)
             else if EN_MAX_TUNNELS \<le> length (sc_xfrm_block_tunnels ctx) then (EN_ERR_INVALID_ARGUMENT, ctx)
             else (EN_ERR_NONE, ctx\<lparr>sc_xfrm_block_tunnels :=
               sc_xfrm_block_tunnels ctx @ [fit EN_MAX_ID_LEN (tn_tunnel_id t)]\<rparr>))
        }
      })"

definition remove_xfrm_block ::
  "'h host \<Rightarrow> en_strongswan_command_ctx \<Rightarrow> en_tunnel \<Rightarrow> ('h, en_error_code \<times> en_strongswan_command_ctx) state" where
  "remove_xfrm_block host ctx t =
     (let l = tn_local_traffic_selector t; r = tn_remote_traffic_selector t in
      if \<not> has_xfrm_block ctx (tn_tunnel_id t) then State_Monad.return (EN_ERR_NONE, ctx)
      else do {
        e \<leftarrow> on_success
          (with_command (xfrm_delete_command ''out'' l r)
            (\<lambda>c. fail_as EN_ERR_STATE_CONFLICT (run_exec_command host c (sc_dry_run ctx))))
          (with_command (xfrm_delete_command ''in'' r l)
            (\<lambda>c. fail_as EN_ERR_STATE_CONFLICT (run_exec_command host c (sc_dry_run ctx))));
        State_Monad.return
          (if e \<noteq> EN_ERR_NONE then (e, ctx)
           else (EN_ERR_NONE, ctx\<lparr>sc_xfrm_block_tunnels := remove1 (tn_tunnel_id t) (sc_xfrm_block_tunnels ctx)\<rparr>))
      })"

section \<open>The tunnel adapter\<close>

definition load_connections ::
  "'h host \<Rightarrow> en_strongswan_command_ctx \<Rightarrow> ('h, en_error_code \<times> en_strongswan_command_ctx) state" where
  "load_connections host ctx =
     (if sc_swanctl_config_file ctx \<noteq> [] \<and> \<not> sc_connections_loaded ctx then do {
        e \<leftarrow> with_command
          (en_render_swanctl_load_conns_uri (Some (sc_swanctl_uri ctx)) (Some (sc_swanctl_config_file ctx)) COMMAND_LEN)
          (\<lambda>c. run_exec_command host c (sc_dry_run ctx));
        State_Monad.return (if e \<noteq> EN_ERR_NONE then (e, ctx) else (EN_ERR_NONE, ctx\<lparr>sc_connections_loaded := True\<rparr>))
      }
      else State_Monad.return (EN_ERR_NONE, ctx))"

definition initiate_tunnel :: "'h host \<Rightarrow> en_strongswan_command_ctx \<Rightarrow> en_tunnel \<Rightarrow> ('h, en_error_code) state" where
  "initiate_tunnel host ctx t =
     (if sc_ensure_tunnel_command ctx \<noteq> []
      then run_template host (sc_ensure_tunnel_command ctx) (sc_dry_run ctx) (Some t) None None
      else with_command (en_render_swanctl_initiate_uri t (Some (sc_swanctl_uri ctx)) COMMAND_LEN)
        (\<lambda>c. run_exec_command host c (sc_dry_run ctx)))"

definition sa_is_up :: "string \<Rightarrow> string \<Rightarrow> bool" where
  "sa_is_up listing tunnel_id =
     (case en_strongswan_parse_list_sas listing tunnel_id
         \<lparr>so_child_id = [], so_state = EN_TUNNEL_ABSENT, so_health = EN_HEALTH_UNKNOWN\<rparr> of
        (err, obs, _) \<Rightarrow> err = EN_ERR_NONE \<and> (so_state obs = EN_TUNNEL_ESTABLISHED \<or> so_state obs = EN_TUNNEL_REKEYING))"

definition confirm_tunnel :: "'h host \<Rightarrow> en_strongswan_command_ctx \<Rightarrow> en_tunnel \<Rightarrow> ('h, en_error_code) state" where
  "confirm_tunnel host ctx t =
     (if sc_verify_tunnel_command ctx \<noteq> []
      then run_template host (sc_verify_tunnel_command ctx) (sc_dry_run ctx) (Some t) None None
      else if sc_verify_tunnel ctx then
        with_command (en_render_swanctl_list_sas_uri t (Some (sc_swanctl_uri ctx)) COMMAND_LEN) (\<lambda>c.
          if sc_dry_run ctx then run_exec_command host c True
          else do {
            (err, listing) \<leftarrow> run_exec_capture host c 8192;
            State_Monad.return (if err \<noteq> EN_ERR_NONE then err
              else if sa_is_up listing (tn_tunnel_id t) then EN_ERR_NONE else EN_ERR_STATE_CONFLICT)
          })
      else State_Monad.return EN_ERR_NONE)"

definition strongswan_ensure ::
  "'h host \<Rightarrow> en_tunnel \<Rightarrow> en_tunnel \<Rightarrow> en_strongswan_command_ctx \<Rightarrow>
   ('h, (en_error_code \<times> en_tunnel) \<times> en_strongswan_command_ctx) state" where
  "strongswan_ensure host desired observed ctx = do {
     (err, ctx) \<leftarrow> load_connections host ctx;
     if err \<noteq> EN_ERR_NONE then State_Monad.return ((err, observed), ctx)
     else do {
       err \<leftarrow> on_success (initiate_tunnel host ctx desired) (confirm_tunnel host ctx desired);
       if err \<noteq> EN_ERR_NONE then State_Monad.return ((err, observed), ctx)
       else do {
         (err, ctx) \<leftarrow> (if sc_block_non_ipsec ctx then apply_xfrm_block host ctx desired
                         else State_Monad.return (EN_ERR_NONE, ctx));
         State_Monad.return
           (if err \<noteq> EN_ERR_NONE then ((err, observed), ctx)
            else ((EN_ERR_NONE, desired\<lparr>tn_state := EN_TUNNEL_ESTABLISHED, tn_health := EN_HEALTH_HEALTHY\<rparr>), ctx))
       }
     }
   }"

definition strongswan_remove ::
  "'h host \<Rightarrow> en_tunnel \<Rightarrow> en_tunnel \<Rightarrow> en_strongswan_command_ctx \<Rightarrow>
   ('h, (en_error_code \<times> en_tunnel) \<times> en_strongswan_command_ctx) state" where
  "strongswan_remove host desired observed ctx = do {
     err \<leftarrow> (if sc_remove_tunnel_command ctx \<noteq> []
             then run_template host (sc_remove_tunnel_command ctx) (sc_dry_run ctx) (Some desired) None None
             else with_command (en_render_swanctl_terminate_uri desired (Some (sc_swanctl_uri ctx)) COMMAND_LEN)
               (\<lambda>c. run_exec_command host c (sc_dry_run ctx)));
     if err \<noteq> EN_ERR_NONE then State_Monad.return ((err, observed), ctx)
     else do {
       (err, ctx) \<leftarrow> (if sc_block_non_ipsec ctx then remove_xfrm_block host ctx desired
                       else State_Monad.return (EN_ERR_NONE, ctx));
       State_Monad.return
         (if err \<noteq> EN_ERR_NONE then ((err, observed), ctx)
          else ((EN_ERR_NONE, desired\<lparr>tn_state := EN_TUNNEL_ABSENT, tn_health := EN_HEALTH_UNKNOWN\<rparr>), ctx))
     }
   }"

section \<open>The health probe\<close>

record en_health_command_ctx =
  hc_dry_run :: bool
  hc_validate_path_command :: string

definition health_validate ::
  "'h host \<Rightarrow> en_health_command_ctx \<Rightarrow> en_path \<Rightarrow> en_path_health \<Rightarrow> ('h, en_error_code \<times> en_path_health) state" where
  "health_validate host ctx p h = do {
     err \<leftarrow> run_template host (hc_validate_path_command ctx) (hc_dry_run ctx) None (Some p) None;
     State_Monad.return (err, let up = (err = EN_ERR_NONE) in
       h\<lparr>ph_path_id := fit EN_MAX_ID_LEN (pt_path_id p),
         ph_state := (if up then EN_HEALTH_HEALTHY else EN_HEALTH_FAILED),
         ph_rtt_ms := Fin 0, ph_packet_loss_percent := (if up then Fin 0 else Fin 100), ph_jitter_ms := Fin 0,
         ph_consecutive_successes := (if up then 1 else 0), ph_consecutive_failures := (if up then 0 else 1)\<rparr>)
   }"

end
