(* ===== verification/CommandForwarding.thy ===== *)
theory CommandForwarding
  imports CommandAdapters
begin

text \<open>
  The forwarding adapter of \<open>src/src/command_adapters.c\<close>: GRE interfaces, VLAN sub-interfaces, the ACLs against other
  VLANs, route tables and routes, all through \<open>vppctl\<close>, and the table of the paths it has installed. \<open>tunnels\<close> and
  \<open>edges\<close> are the configuration's arrays; the pointer to an installed path is the path, whose fields the adapter
  reads are never changed after the configuration is loaded.
\<close>

record active_entry =
  av_traffic_key :: string
  av_active_path :: string
  av_path_object :: en_path

record en_vpp_command_ctx =
  xc_dry_run :: bool
  xc_verify_route :: bool
  xc_has_vlan_id :: bool
  xc_deny_unmatched_vlan :: bool
  xc_vlan_id :: int
  xc_vppctl_socket :: string
  xc_install_path_command :: string
  xc_tunnels :: "en_tunnel list"
  xc_edges :: "en_vpp_edge list"
  xc_active :: "active_entry list"

section \<open>vppctl\<close>

definition socket_command :: "en_vpp_command_ctx \<Rightarrow> string \<Rightarrow> rendered" where
  "socket_command ctx arguments =
     format_command COMMAND_LEN (''vppctl -s '' @ xc_vppctl_socket ctx @ '' '' @ arguments)"

definition run_vpp_command :: "'h host \<Rightarrow> en_vpp_command_ctx \<Rightarrow> string \<Rightarrow> ('h, en_error_code) state" where
  "run_vpp_command host ctx command =
     (if xc_vppctl_socket ctx = [] then run_exec_command host command (xc_dry_run ctx)
      else if \<not> valid_command_token (xc_vppctl_socket ctx) then State_Monad.return EN_ERR_INVALID_ARGUMENT
      else if \<not> starts_with command ''vppctl '' then State_Monad.return EN_ERR_INVALID_ARGUMENT
      else with_command (socket_command ctx (drop 7 command)) (\<lambda>c. run_exec_command host c (xc_dry_run ctx)))"

definition capture_vpp_command ::
  "'h host \<Rightarrow> en_vpp_command_ctx \<Rightarrow> string \<Rightarrow> ('h, en_error_code \<times> string) state" where
  "capture_vpp_command host ctx arguments =
     (if xc_vppctl_socket ctx \<noteq> [] \<and> \<not> valid_command_token (xc_vppctl_socket ctx)
      then State_Monad.return (EN_ERR_INVALID_ARGUMENT, [])
      else case (if xc_vppctl_socket ctx \<noteq> [] then socket_command ctx arguments
                 else format_command COMMAND_LEN (''vppctl '' @ arguments)) of
        Inl _ \<Rightarrow> State_Monad.return (EN_ERR_INVALID_ARGUMENT, [])
      | Inr c \<Rightarrow> run_exec_capture host c OUTPUT_LEN)"

text \<open>A rendered command is run; any failure becomes the error \<open>e\<close>.\<close>

definition vpp_command :: "'h host \<Rightarrow> en_vpp_command_ctx \<Rightarrow> rendered \<Rightarrow> ('h, en_error_code) state" where
  "vpp_command host ctx r = with_command r (run_vpp_command host ctx)"

text \<open>The adapter's own commands: one that does not fit is an invalid argument, one that fails a conflict.\<close>

definition local_command :: "'h host \<Rightarrow> en_vpp_command_ctx \<Rightarrow> nat \<Rightarrow> string \<Rightarrow> ('h, en_error_code) state" where
  "local_command host ctx n command =
     with_command (format_command n command) (\<lambda>c. fail_as EN_ERR_STATE_CONFLICT (run_vpp_command host ctx c))"

section \<open>Tunnels of a path\<close>

definition find_ctx_index :: "en_vpp_command_ctx \<Rightarrow> string \<Rightarrow> nat option" where
  "find_ctx_index ctx tunnel_id = find_index (\<lambda>t. strcmp (tn_tunnel_id t) tunnel_id = 0) (xc_tunnels ctx)"

definition find_ctx_tunnel :: "en_vpp_command_ctx \<Rightarrow> string \<Rightarrow> en_tunnel option" where
  "find_ctx_tunnel ctx tunnel_id = map_option ((!) (xc_tunnels ctx)) (find_ctx_index ctx tunnel_id)"

definition path_gre_tunnel :: "en_vpp_command_ctx \<Rightarrow> en_path \<Rightarrow> en_tunnel option" where
  "path_gre_tunnel ctx p =
     (case find (\<lambda>s. case find_ctx_tunnel ctx (sg_tunnel_id s) of None \<Rightarrow> False | Some t \<Rightarrow> is_gre t) (pt_segments p) of
        Some s \<Rightarrow> find_ctx_tunnel ctx (sg_tunnel_id s)
      | None \<Rightarrow> (case find_ctx_tunnel ctx (pt_egress_tunnel_id p) of
          None \<Rightarrow> None | Some t \<Rightarrow> if is_gre t then Some t else None))"

definition path_route_tunnel :: "en_vpp_command_ctx \<Rightarrow> en_path \<Rightarrow> en_tunnel option" where
  "path_route_tunnel ctx p =
     (case pt_segments p of
        s # _ \<Rightarrow> find_ctx_tunnel ctx (sg_tunnel_id s)
      | [] \<Rightarrow> find_ctx_tunnel ctx (pt_egress_tunnel_id p))"

text \<open>The GRE tunnels of the segments, each once (by pointer, which is the index), at most \<open>EN_MAX_SEGMENTS\<close>.\<close>

definition collect_tunnel :: "en_vpp_command_ctx \<Rightarrow> nat option \<Rightarrow> nat list \<Rightarrow> nat list" where
  "collect_tunnel ctx tunnel acc =
     (case tunnel of
        None \<Rightarrow> acc
      | Some i \<Rightarrow>
          if \<not> is_gre (xc_tunnels ctx ! i) then acc
          else if i \<notin> set acc \<and> length acc < EN_MAX_SEGMENTS then acc @ [i] else acc)"

definition ctx_gre_tunnels :: "en_vpp_command_ctx \<Rightarrow> en_path \<Rightarrow> en_tunnel list" where
  "ctx_gre_tunnels ctx p = map ((!) (xc_tunnels ctx))
     (if pt_segments p \<noteq> []
      then fold (\<lambda>s. collect_tunnel ctx (find_ctx_index ctx (sg_tunnel_id s))) (pt_segments p) []
      else collect_tunnel ctx (find_ctx_index ctx (pt_egress_tunnel_id p)) [])"

section \<open>GRE interfaces\<close>

definition set_up_gre :: "'h host \<Rightarrow> en_vpp_command_ctx \<Rightarrow> en_tunnel \<Rightarrow> ('h, en_error_code) state" where
  "set_up_gre host ctx t =
     on_success (vpp_command host ctx (en_render_vpp_gre_set_address t COMMAND_LEN))
     (on_success (if 0 < tn_gre_mtu t then vpp_command host ctx (en_render_vpp_gre_set_mtu t COMMAND_LEN)
                  else State_Monad.return EN_ERR_NONE)
     (vpp_command host ctx (en_render_vpp_gre_set_up t COMMAND_LEN)))"

text \<open>The label \<open>rollback\<close>: the created tunnels, the last one first; what a deletion returns is ignored.\<close>

primrec delete_created :: "'h host \<Rightarrow> en_vpp_command_ctx \<Rightarrow> en_tunnel list \<Rightarrow> ('h, en_error_code) state" where
  "delete_created host ctx [] = State_Monad.return EN_ERR_FORWARDING_UPDATE_FAILED"
| "delete_created host ctx (t # created) = do {
     _ \<leftarrow> vpp_command host ctx (en_render_vpp_gre_delete t COMMAND_LEN);
     delete_created host ctx created
   }"

primrec create_gre_tunnels ::
  "'h host \<Rightarrow> en_vpp_command_ctx \<Rightarrow> en_tunnel list \<Rightarrow> en_tunnel list \<Rightarrow> ('h, en_error_code) state" where
  "create_gre_tunnels host ctx created [] = State_Monad.return EN_ERR_NONE"
| "create_gre_tunnels host ctx created (t # ts) = do {
     e \<leftarrow> vpp_command host ctx (en_render_vpp_gre_create t COMMAND_LEN);
     if e \<noteq> EN_ERR_NONE then delete_created host ctx created
     else do {
       e \<leftarrow> set_up_gre host ctx t;
       if e \<noteq> EN_ERR_NONE then delete_created host ctx (t # created)
       else create_gre_tunnels host ctx (t # created) ts
     }
   }"

definition ensure_vpp_gre_tunnels :: "'h host \<Rightarrow> en_vpp_command_ctx \<Rightarrow> en_path \<Rightarrow> ('h, en_error_code) state" where
  "ensure_vpp_gre_tunnels host ctx p = create_gre_tunnels host ctx [] (ctx_gre_tunnels ctx p)"

definition remove_vpp_gre_tunnels :: "'h host \<Rightarrow> en_vpp_command_ctx \<Rightarrow> en_path \<Rightarrow> ('h, en_error_code) state" where
  "remove_vpp_gre_tunnels host ctx p = each_ok
     (\<lambda>t. fail_as EN_ERR_FORWARDING_UPDATE_FAILED (vpp_command host ctx (en_render_vpp_gre_delete t COMMAND_LEN)))
     (rev (ctx_gre_tunnels ctx p))"

text \<open>A listing of the interfaces shows the interface, and it is up.\<close>

definition interface_is_up :: "string \<Rightarrow> string \<Rightarrow> bool" where
  "interface_is_up listing name =
     (case en_vpp_parse_show_interface listing name \<lparr>vi_interface_name = [], vi_present = False, vi_up = False\<rparr> of
        (err, obs, _) \<Rightarrow> err = EN_ERR_NONE \<and> vi_up obs)"

definition check_interface :: "'h host \<Rightarrow> en_vpp_command_ctx \<Rightarrow> string \<Rightarrow> ('h, en_error_code) state" where
  "check_interface host ctx name = do {
     (err, listing) \<leftarrow> capture_vpp_command host ctx ''show interface'';
     State_Monad.return (if err = EN_ERR_NONE \<and> interface_is_up listing name then EN_ERR_NONE else EN_ERR_STATE_CONFLICT)
   }"

definition verify_vpp_gre_tunnels :: "'h host \<Rightarrow> en_vpp_command_ctx \<Rightarrow> en_path \<Rightarrow> ('h, en_error_code) state" where
  "verify_vpp_gre_tunnels host ctx p =
     (if xc_dry_run ctx then State_Monad.return EN_ERR_NONE
      else case path_gre_tunnel ctx p of
        None \<Rightarrow> State_Monad.return EN_ERR_NONE
      | Some t \<Rightarrow> check_interface host ctx (tn_gre_interface t))"

section \<open>Route tables and routes\<close>

text \<open>
  The tables of the routes, each once in the order of the routes. There are at most \<open>EN_MAX_ROUTES\<close> of them, as
  there are at most that many routes, so the check against the capacity never fires.
\<close>

definition add_table :: "'h host \<Rightarrow> en_vpp_command_ctx \<Rightarrow> int \<Rightarrow> ('h, en_error_code) state" where
  "add_table host ctx table_id = with_command (format_command 128 (''vppctl ip table add '' @ int_to_dec table_id)) (\<lambda>c.
     if xc_dry_run ctx then fail_as EN_ERR_STATE_CONFLICT (run_vpp_command host ctx c)
     else do {
       (err, output) \<leftarrow> capture_vpp_command host ctx ''show ip fib'';
       if err = EN_ERR_NONE \<and> strstr output (''ipv4-VRF:'' @ int_to_dec table_id) \<noteq> None
       then State_Monad.return EN_ERR_NONE
       else fail_as EN_ERR_STATE_CONFLICT (run_vpp_command host ctx c)
     })"

fun ensure_tables :: "'h host \<Rightarrow> en_vpp_command_ctx \<Rightarrow> int list \<Rightarrow> en_route list \<Rightarrow> ('h, en_error_code) state" where
  "ensure_tables host ctx tables [] = State_Monad.return EN_ERR_NONE"
| "ensure_tables host ctx tables (r # rs) =
     (if rt_table_id r \<le> 0 \<or> rt_table_id r \<in> set tables then ensure_tables host ctx tables rs
      else if EN_MAX_ROUTES \<le> length tables then State_Monad.return EN_ERR_INVALID_ARGUMENT
      else on_success (add_table host ctx (rt_table_id r)) (ensure_tables host ctx (tables @ [rt_table_id r]) rs))"

definition ensure_vpp_route_tables :: "'h host \<Rightarrow> en_vpp_command_ctx \<Rightarrow> en_path \<Rightarrow> ('h, en_error_code) state" where
  "ensure_vpp_route_tables host ctx p = ensure_tables host ctx [] (pt_routes p)"

definition fib_next_hop :: "string \<Rightarrow> string \<Rightarrow> int \<Rightarrow> string option" where
  "fib_next_hop listing dest table_id =
     (case en_vpp_parse_show_ip_fib_in_table listing dest table_id
         \<lparr>vo_destination_prefix = [], vo_next_hop = [], vo_interface_name = [], vo_table_id = 0, vo_present = False\<rparr> of
        (err, obs, _) \<Rightarrow> if err = EN_ERR_NONE then Some (vo_next_hop obs) else None)"

definition verify_vpp_route ::
  "'h host \<Rightarrow> en_vpp_command_ctx \<Rightarrow> string \<Rightarrow> string \<Rightarrow> string \<Rightarrow> int \<Rightarrow> ('h, en_error_code) state" where
  "verify_vpp_route host ctx dest expected_next_hop interface_name table_id =
     (if dest = [] \<or> \<not> valid_command_token dest \<or>
         (expected_next_hop \<noteq> [] \<and> \<not> valid_command_token expected_next_hop) \<or>
         (interface_name \<noteq> [] \<and> \<not> valid_command_token interface_name)
      then State_Monad.return EN_ERR_INVALID_ARGUMENT
      else do {
        (err, output) \<leftarrow> capture_vpp_command host ctx ''show ip fib'';
        if err \<noteq> EN_ERR_NONE then State_Monad.return EN_ERR_STATE_CONFLICT
        else case fib_next_hop output dest table_id of
          None \<Rightarrow> State_Monad.return EN_ERR_STATE_CONFLICT
        | Some next_hop \<Rightarrow>
            if expected_next_hop \<noteq> [] \<and> strcmp next_hop expected_next_hop \<noteq> 0
            then State_Monad.return EN_ERR_STATE_CONFLICT
            else if interface_name \<noteq> [] then check_interface host ctx interface_name
            else State_Monad.return EN_ERR_NONE
      })"

text \<open>A route with what it leaves open taken from the tunnel of the path, if there is one.\<close>

definition egress_route :: "en_vpp_command_ctx \<Rightarrow> en_path \<Rightarrow> en_route \<Rightarrow> en_error_code \<times> en_route" where
  "egress_route ctx p r =
     (case path_route_tunnel ctx p of None \<Rightarrow> (EN_ERR_NONE, r) | Some t \<Rightarrow> en_route_resolve_tunnel_egress r t)"

definition on_egress_route ::
  "en_vpp_command_ctx \<Rightarrow> en_path \<Rightarrow> en_error_code \<Rightarrow> (en_route \<Rightarrow> ('h, en_error_code) state) \<Rightarrow> en_route \<Rightarrow>
   ('h, en_error_code) state" where
  "on_egress_route ctx p failure k r =
     (case egress_route ctx p r of (err, r') \<Rightarrow> if err \<noteq> EN_ERR_NONE then State_Monad.return failure else k r')"

definition explicit_routes :: "en_path \<Rightarrow> bool" where
  "explicit_routes p \<longleftrightarrow> pt_routes_explicit p \<and> pt_routes p \<noteq> []"

section \<open>VLAN sub-interfaces\<close>

definition vpp_edge_used_by_path :: "en_vpp_edge \<Rightarrow> en_path \<Rightarrow> bool" where
  "vpp_edge_used_by_path e p \<longleftrightarrow> ve_node_id e \<noteq> [] \<and>
     (strcmp (ve_node_id e) (pt_source p) = 0 \<or> strcmp (ve_node_id e) (pt_destination p) = 0 \<or>
      list_ex (\<lambda>w. strcmp (ve_node_id e) w = 0) (pt_waypoints p) \<or>
      list_ex (\<lambda>s. strcmp (ve_node_id e) (sg_from_node s) = 0 \<or> strcmp (ve_node_id e) (sg_to_node s) = 0) (pt_segments p) \<or>
      list_ex (\<lambda>r. strcmp (ve_node_id e) (rt_node_id r) = 0) (pt_routes p))"

text \<open>The table of the routes at a node: -1 for none, -2 for different ones.\<close>

fun table_from :: "string \<Rightarrow> int option \<Rightarrow> en_route list \<Rightarrow> int" where
  "table_from node_id found [] = (case found of None \<Rightarrow> -1 | Some t \<Rightarrow> t)"
| "table_from node_id found (r # rs) =
     (if strcmp (rt_node_id r) node_id \<noteq> 0 \<or> rt_table_id r < 0 then table_from node_id found rs
      else if found \<noteq> None \<and> found \<noteq> Some (rt_table_id r) then -2
      else table_from node_id (Some (rt_table_id r)) rs)"

definition vpp_table_for_node :: "en_path \<Rightarrow> string \<Rightarrow> int" where
  "vpp_table_for_node p node_id = (if node_id = [] then -2 else table_from node_id None (pt_routes p))"

definition vlan_interface_name :: "en_vpp_command_ctx \<Rightarrow> en_vpp_edge \<Rightarrow> string" where
  "vlan_interface_name ctx e = ve_vpp_interface e @ ''.'' @ int_to_dec (xc_vlan_id ctx)"

definition vlan_name_fits :: "en_vpp_command_ctx \<Rightarrow> en_vpp_edge \<Rightarrow> bool" where
  "vlan_name_fits ctx e \<longleftrightarrow> length (ve_vpp_interface e) < EN_MAX_ID_LEN - 12 \<and>
     length (vlan_interface_name ctx e) < EN_MAX_ID_LEN"

definition edges_of :: "en_vpp_command_ctx \<Rightarrow> en_path \<Rightarrow> en_vpp_edge list" where
  "edges_of ctx p = filter (\<lambda>e. vpp_edge_used_by_path e p) (xc_edges ctx)"

definition verify_vlan_interface :: "'h host \<Rightarrow> en_vpp_command_ctx \<Rightarrow> en_vpp_edge \<Rightarrow> ('h, en_error_code) state" where
  "verify_vlan_interface host ctx e =
     (if \<not> vlan_name_fits ctx e then State_Monad.return EN_ERR_INVALID_ARGUMENT
      else check_interface host ctx (vlan_interface_name ctx e))"

definition verify_vpp_vlan_interfaces :: "'h host \<Rightarrow> en_vpp_command_ctx \<Rightarrow> en_path \<Rightarrow> ('h, en_error_code) state" where
  "verify_vpp_vlan_interfaces host ctx p =
     (if \<not> xc_has_vlan_id ctx then State_Monad.return EN_ERR_NONE
      else each_ok (verify_vlan_interface host ctx) (edges_of ctx p))"

definition vlan_in_range :: "int \<Rightarrow> bool" where
  "vlan_in_range v \<longleftrightarrow> 1 \<le> v \<and> v \<le> 4094"

definition vlan_interface_exists :: "'h host \<Rightarrow> en_vpp_command_ctx \<Rightarrow> string \<Rightarrow> ('h, bool) state" where
  "vlan_interface_exists host ctx name =
     (if xc_dry_run ctx then State_Monad.return False
      else do {
        (err, output) \<leftarrow> capture_vpp_command host ctx (''show interface '' @ name);
        State_Monad.return (err = EN_ERR_NONE \<and> strstr output name \<noteq> None)
      })"

definition ensure_vlan_interface :: "'h host \<Rightarrow> en_vpp_command_ctx \<Rightarrow> en_vpp_edge \<Rightarrow> ('h, en_error_code) state" where
  "ensure_vlan_interface host ctx e =
     (if ve_allowed_vlans e \<noteq> [] \<and> xc_vlan_id ctx \<notin> set (ve_allowed_vlans e)
      then State_Monad.return EN_ERR_STATE_CONFLICT
      else if ve_vpp_interface e = [] \<or> \<not> valid_command_token (ve_vpp_interface e) \<or> \<not> vlan_name_fits ctx e \<or>
         \<not> valid_command_token (vlan_interface_name ctx e)
      then State_Monad.return EN_ERR_INVALID_ARGUMENT
      else do {
        exists \<leftarrow> vlan_interface_exists host ctx (vlan_interface_name ctx e);
        on_success
          (if exists then State_Monad.return EN_ERR_NONE
           else local_command host ctx 256
             (''vppctl create sub-interfaces '' @ ve_vpp_interface e @ '' '' @ int_to_dec (xc_vlan_id ctx)))
          (local_command host ctx 256 (''vppctl set interface '' @ vlan_interface_name ctx e @ '' up''))
      })"

definition ensure_vpp_vlan_interfaces :: "'h host \<Rightarrow> en_vpp_command_ctx \<Rightarrow> en_path \<Rightarrow> ('h, en_error_code) state" where
  "ensure_vpp_vlan_interfaces host ctx p =
     (if \<not> xc_has_vlan_id ctx then State_Monad.return EN_ERR_NONE
      else if \<not> vlan_in_range (xc_vlan_id ctx) then State_Monad.return EN_ERR_INVALID_ARGUMENT
      else if list_ex (\<lambda>e. vpp_table_for_node p (ve_node_id e) < -1) (edges_of ctx p)
      then State_Monad.return EN_ERR_STATE_CONFLICT
      else each_ok (ensure_vlan_interface host ctx) (edges_of ctx p))"

definition bind_edge_table :: "'h host \<Rightarrow> en_vpp_command_ctx \<Rightarrow> en_path \<Rightarrow> en_vpp_edge \<Rightarrow> ('h, en_error_code) state" where
  "bind_edge_table host ctx p e =
     (let table_id = vpp_table_for_node p (ve_node_id e); name = vlan_interface_name ctx e in
      if table_id < -1 then State_Monad.return EN_ERR_STATE_CONFLICT
      else if 0 < table_id then
        (if EN_MAX_ID_LEN \<le> length name \<or> \<not> valid_command_token name then State_Monad.return EN_ERR_INVALID_ARGUMENT
         else local_command host ctx 256 (''vppctl set interface ip table '' @ name @ '' '' @ int_to_dec table_id))
      else State_Monad.return EN_ERR_NONE)"

definition ensure_vpp_vlan_interface_tables ::
  "'h host \<Rightarrow> en_vpp_command_ctx \<Rightarrow> en_path \<Rightarrow> ('h, en_error_code) state" where
  "ensure_vpp_vlan_interface_tables host ctx p =
     (if \<not> xc_has_vlan_id ctx then State_Monad.return EN_ERR_INVALID_ARGUMENT
      else each_ok (bind_edge_table host ctx p) (edges_of ctx p))"

section \<open>ACLs against other VLANs\<close>

text \<open>The number of an edge's ACL comes from its place among all edges.\<close>

definition numbered_edges :: "en_vpp_command_ctx \<Rightarrow> en_path \<Rightarrow> (nat \<times> en_vpp_edge) list" where
  "numbered_edges ctx p = filter (\<lambda>(i, e). vpp_edge_used_by_path e p) (enumerate 0 (xc_edges ctx))"

definition acl_number :: "en_vpp_command_ctx \<Rightarrow> nat \<Rightarrow> string" where
  "acl_number ctx i = int_to_dec (10000 + xc_vlan_id ctx + int i)"

definition deny_command :: "string \<Rightarrow> string" where
  "deny_command acl = ''vppctl set acl-plugin acl index '' @ acl @
     '' deny src 0.0.0.0/0 dst 0.0.0.0/0 , deny src ::/0 dst ::/0 tag ibuki-vlan-deny-'' @ acl"

definition install_acl ::
  "'h host \<Rightarrow> en_vpp_command_ctx \<Rightarrow> nat \<times> en_vpp_edge \<Rightarrow> ('h, en_error_code) state" where
  "install_acl host ctx = (\<lambda>(i, e).
     if ve_vpp_interface e = [] \<or> \<not> valid_command_token (ve_vpp_interface e) then State_Monad.return EN_ERR_INVALID_ARGUMENT
     else on_success (local_command host ctx 512 (deny_command (acl_number ctx i)))
       (local_command host ctx 256
         (''vppctl set acl-plugin interface '' @ ve_vpp_interface e @ '' input acl '' @ acl_number ctx i)))"

definition ensure_vpp_unmatched_vlan_acl :: "'h host \<Rightarrow> en_vpp_command_ctx \<Rightarrow> en_path \<Rightarrow> ('h, en_error_code) state" where
  "ensure_vpp_unmatched_vlan_acl host ctx p =
     (if \<not> xc_deny_unmatched_vlan ctx then State_Monad.return EN_ERR_NONE
      else if \<not> xc_has_vlan_id ctx \<or> \<not> vlan_in_range (xc_vlan_id ctx) then State_Monad.return EN_ERR_INVALID_ARGUMENT
      else each_ok (install_acl host ctx) (numbered_edges ctx p))"

definition vpp_vlan_edge_is_shared :: "en_vpp_command_ctx \<Rightarrow> string \<Rightarrow> en_vpp_edge \<Rightarrow> bool" where
  "vpp_vlan_edge_is_shared ctx key e \<longleftrightarrow>
     list_ex (\<lambda>a. strcmp (av_traffic_key a) key \<noteq> 0 \<and> vpp_edge_used_by_path e (av_path_object a)) (xc_active ctx)"

definition uninstall_acl ::
  "'h host \<Rightarrow> en_vpp_command_ctx \<Rightarrow> string \<Rightarrow> nat \<times> en_vpp_edge \<Rightarrow> ('h, en_error_code) state" where
  "uninstall_acl host ctx key = (\<lambda>(i, e).
     if vpp_vlan_edge_is_shared ctx key e then State_Monad.return EN_ERR_NONE
     else if ve_vpp_interface e = [] \<or> \<not> valid_command_token (ve_vpp_interface e)
     then State_Monad.return EN_ERR_INVALID_ARGUMENT
     else on_success
       (local_command host ctx 256
         (''vppctl set acl-plugin interface '' @ ve_vpp_interface e @ '' input acl '' @ acl_number ctx i @ '' del''))
       (local_command host ctx 256 (''vppctl delete acl-plugin acl index '' @ acl_number ctx i)))"

definition remove_vpp_unmatched_vlan_acl ::
  "'h host \<Rightarrow> en_vpp_command_ctx \<Rightarrow> string \<Rightarrow> en_path \<Rightarrow> ('h, en_error_code) state" where
  "remove_vpp_unmatched_vlan_acl host ctx key p =
     (if \<not> xc_deny_unmatched_vlan ctx then State_Monad.return EN_ERR_NONE
      else if \<not> xc_has_vlan_id ctx \<or> \<not> vlan_in_range (xc_vlan_id ctx) then State_Monad.return EN_ERR_INVALID_ARGUMENT
      else each_ok (uninstall_acl host ctx key) (numbered_edges ctx p))"

section \<open>Installed paths\<close>

definition vpp_active_path :: "string \<Rightarrow> en_vpp_command_ctx \<Rightarrow> string option" where
  "vpp_active_path key ctx = map_option av_active_path (find (\<lambda>a. strcmp (av_traffic_key a) key = 0) (xc_active ctx))"

definition remember_active_path :: "string \<Rightarrow> en_path \<Rightarrow> en_vpp_command_ctx \<Rightarrow> en_vpp_command_ctx" where
  "remember_active_path key p ctx =
     (case find_index (\<lambda>a. strcmp (av_traffic_key a) key = 0) (xc_active ctx) of
        Some i \<Rightarrow> ctx\<lparr>xc_active := (xc_active ctx)[i := (xc_active ctx ! i)
          \<lparr>av_active_path := fit EN_MAX_ID_LEN (pt_path_id p), av_path_object := p\<rparr>]\<rparr>
      | None \<Rightarrow>
          if length (xc_active ctx) < EN_MAX_CANDIDATES
          then ctx\<lparr>xc_active := xc_active ctx @ [\<lparr>av_traffic_key = fit EN_MAX_TRAFFIC_KEY_LEN key,
            av_active_path = fit EN_MAX_ID_LEN (pt_path_id p), av_path_object = p\<rparr>]\<rparr>
          else ctx)"

definition forget_active_path :: "string \<Rightarrow> string \<Rightarrow> en_vpp_command_ctx \<Rightarrow> en_vpp_command_ctx" where
  "forget_active_path key path_id ctx =
     (case find_index (\<lambda>a. strcmp (av_traffic_key a) key = 0 \<and> strcmp (av_active_path a) path_id = 0) (xc_active ctx) of
        Some i \<Rightarrow> ctx\<lparr>xc_active := take i (xc_active ctx) @ drop (Suc i) (xc_active ctx)\<rparr>
      | None \<Rightarrow> ctx)"

section \<open>Installing a path\<close>

definition prepare_install ::
  "'h host \<Rightarrow> en_vpp_command_ctx \<Rightarrow> string \<Rightarrow> en_path \<Rightarrow> ('h, en_error_code) state" where
  "prepare_install host ctx key p =
     (if xc_install_path_command ctx \<noteq> []
      then run_template host (xc_install_path_command ctx) (xc_dry_run ctx) None (Some p) (Some key)
      else on_success (ensure_vpp_gre_tunnels host ctx p)
        (on_success (ensure_vpp_vlan_interfaces host ctx p) (ensure_vpp_unmatched_vlan_acl host ctx p)))"

definition install_routes :: "'h host \<Rightarrow> en_vpp_command_ctx \<Rightarrow> en_path \<Rightarrow> ('h, en_error_code) state" where
  "install_routes host ctx p =
     (if explicit_routes p
      then on_success (ensure_vpp_route_tables host ctx p)
        (on_success (ensure_vpp_vlan_interface_tables host ctx p)
        (each_ok (on_egress_route ctx p EN_ERR_FORWARDING_UPDATE_FAILED
            (\<lambda>r. vpp_command host ctx (en_render_vpp_route_replace_entry r COMMAND_LEN))) (pt_routes p)))
      else if xc_install_path_command ctx = []
      then vpp_command host ctx (en_render_vpp_route_replace p (find_ctx_tunnel ctx (pt_egress_tunnel_id p)) COMMAND_LEN)
      else State_Monad.return EN_ERR_NONE)"

definition verify_routes :: "'h host \<Rightarrow> en_vpp_command_ctx \<Rightarrow> en_path \<Rightarrow> ('h, en_error_code) state" where
  "verify_routes host ctx p =
     (if explicit_routes p
      then each_ok (on_egress_route ctx p EN_ERR_STATE_CONFLICT (\<lambda>r. fail_as EN_ERR_STATE_CONFLICT
        (verify_vpp_route host ctx (rt_destination_prefix r) (rt_next_hop r) (rt_interface_name r) (rt_table_id r))))
        (pt_routes p)
      else case path_route_tunnel ctx p of
        Some _ \<Rightarrow> on_egress_route ctx p EN_ERR_STATE_CONFLICT (\<lambda>r. fail_as EN_ERR_STATE_CONFLICT
          (verify_vpp_route host ctx (rt_destination_prefix r) (rt_next_hop r) (rt_interface_name r) (-1)))
          (zero_route\<lparr>rt_destination_prefix := fit EN_MAX_ID_LEN (pt_route_destination_prefix p)\<rparr>)
      | None \<Rightarrow> fail_as EN_ERR_STATE_CONFLICT
          (verify_vpp_route host ctx (pt_route_destination_prefix p) (pt_route_next_hop p) [] (-1)))"

definition verify_install :: "'h host \<Rightarrow> en_vpp_command_ctx \<Rightarrow> en_path \<Rightarrow> ('h, en_error_code) state" where
  "verify_install host ctx p =
     (if \<not> xc_verify_route ctx \<or> xc_dry_run ctx then State_Monad.return EN_ERR_NONE
      else on_success (verify_routes host ctx p)
        (on_success (fail_as EN_ERR_STATE_CONFLICT (verify_vpp_gre_tunnels host ctx p))
          (fail_as EN_ERR_STATE_CONFLICT (verify_vpp_vlan_interfaces host ctx p))))"

definition vpp_install ::
  "'h host \<Rightarrow> string \<Rightarrow> en_path \<Rightarrow> en_vpp_command_ctx \<Rightarrow> ('h, en_error_code \<times> en_vpp_command_ctx) state" where
  "vpp_install host key p ctx = do {
     err \<leftarrow> on_success (prepare_install host ctx key p)
       (on_success (install_routes host ctx p) (verify_install host ctx p));
     State_Monad.return (err, if err \<noteq> EN_ERR_NONE then ctx else remember_active_path key p ctx)
   }"

section \<open>Removing a path\<close>

definition remove_routes :: "'h host \<Rightarrow> en_vpp_command_ctx \<Rightarrow> en_path \<Rightarrow> ('h, en_error_code) state" where
  "remove_routes host ctx p =
     (if explicit_routes p
      then each_ok (on_egress_route ctx p EN_ERR_FORWARDING_UPDATE_FAILED
        (\<lambda>r. vpp_command host ctx (en_render_vpp_route_delete_entry r COMMAND_LEN))) (pt_routes p)
      else vpp_command host ctx
        (en_render_vpp_route_delete_with_tunnel p (find_ctx_tunnel ctx (pt_egress_tunnel_id p)) COMMAND_LEN))"

definition vpp_remove ::
  "'h host \<Rightarrow> string \<Rightarrow> en_path \<Rightarrow> en_vpp_command_ctx \<Rightarrow> ('h, en_error_code \<times> en_vpp_command_ctx) state" where
  "vpp_remove host key p ctx = do {
     err \<leftarrow> on_success (remove_routes host ctx p)
       (on_success (if xc_install_path_command ctx = [] then remove_vpp_gre_tunnels host ctx p
                    else State_Monad.return EN_ERR_NONE)
         (if xc_deny_unmatched_vlan ctx \<and> vpp_active_path key ctx = Some (pt_path_id p)
          then remove_vpp_unmatched_vlan_acl host ctx key p else State_Monad.return EN_ERR_NONE));
     State_Monad.return (err, if err \<noteq> EN_ERR_NONE then ctx else forget_active_path key (pt_path_id p) ctx)
   }"

section \<open>The adapters\<close>

text \<open>
  The state behind the adapters' \<open>ctx\<close> pointers, \<open>None\<close> where the program passes \<open>NULL\<close>, and the host's.
\<close>

record 'h command_device =
  cd_host :: 'h
  cd_strongswan :: "en_strongswan_command_ctx option"
  cd_vpp :: "en_vpp_command_ctx option"
  cd_health :: "en_health_command_ctx option"

definition on_strongswan_ctx ::
  "'a \<Rightarrow> (en_strongswan_command_ctx \<Rightarrow> ('h, 'a \<times> en_strongswan_command_ctx) state) \<Rightarrow> ('h command_device, 'a) state" where
  "on_strongswan_ctx missing f = State (\<lambda>d. case cd_strongswan d of
     None \<Rightarrow> (missing, d)
   | Some ctx \<Rightarrow> (case run_state (f ctx) (cd_host d) of
       ((a, ctx'), h) \<Rightarrow> (a, d\<lparr>cd_host := h, cd_strongswan := Some ctx'\<rparr>)))"

definition on_vpp_ctx ::
  "'a \<Rightarrow> (en_vpp_command_ctx \<Rightarrow> ('h, 'a \<times> en_vpp_command_ctx) state) \<Rightarrow> ('h command_device, 'a) state" where
  "on_vpp_ctx missing f = State (\<lambda>d. case cd_vpp d of
     None \<Rightarrow> (missing, d)
   | Some ctx \<Rightarrow> (case run_state (f ctx) (cd_host d) of
       ((a, ctx'), h) \<Rightarrow> (a, d\<lparr>cd_host := h, cd_vpp := Some ctx'\<rparr>)))"

definition on_health_ctx ::
  "'a \<Rightarrow> (en_health_command_ctx \<Rightarrow> ('h, 'a) state) \<Rightarrow> ('h command_device, 'a) state" where
  "on_health_ctx missing f = State (\<lambda>d. case cd_health d of
     None \<Rightarrow> (missing, d)
   | Some ctx \<Rightarrow> (case run_state (f ctx) (cd_host d) of (a, h) \<Rightarrow> (a, d\<lparr>cd_host := h\<rparr>)))"

definition command_install :: "'h host \<Rightarrow> string \<Rightarrow> en_path \<Rightarrow> ('h command_device, en_error_code) state" where
  "command_install host key p = on_vpp_ctx EN_ERR_INVALID_ARGUMENT (vpp_install host key p)"

definition command_remove :: "'h host \<Rightarrow> string \<Rightarrow> en_path \<Rightarrow> ('h command_device, en_error_code) state" where
  "command_remove host key p = on_vpp_ctx EN_ERR_INVALID_ARGUMENT (vpp_remove host key p)"

definition command_active :: "string \<Rightarrow> ('h command_device, string option) state" where
  "command_active key = on_vpp_ctx None (\<lambda>ctx. State_Monad.return (vpp_active_path key ctx, ctx))"

definition en_vpp_command_adapter :: "'h host \<Rightarrow> 'h command_device en_vpp_adapter" where
  "en_vpp_command_adapter host = \<lparr>
     install_path = Some (\<lambda>key p. on_dev (command_install host key p)),
     remove_path = Some (\<lambda>key p. on_dev (command_remove host key p)),
     active_path = Some (\<lambda>key. on_dev (command_active key))\<rparr>"

definition en_strongswan_command_adapter :: "'h host \<Rightarrow> 'h command_device en_strongswan_adapter" where
  "en_strongswan_command_adapter host = \<lparr>
     ensure_tunnel = (\<lambda>desired observed. on_dev
       (on_strongswan_ctx (EN_ERR_INVALID_ARGUMENT, observed) (strongswan_ensure host desired observed))),
     remove_tunnel = Some (\<lambda>desired observed. on_dev
       (on_strongswan_ctx (EN_ERR_INVALID_ARGUMENT, observed) (strongswan_remove host desired observed)))\<rparr>"

definition en_health_command_probe :: "'h host \<Rightarrow> 'h command_device en_health_probe" where
  "en_health_command_probe host = \<lparr>validate_path = Some (\<lambda>p h. on_dev
     (on_health_ctx (EN_ERR_INVALID_ARGUMENT, h) (\<lambda>ctx. health_validate host ctx p h)))\<rparr>"

end
