(* ===== verification/CommandContracts.thy ===== *)
theory CommandContracts
  imports CommandForwarding
begin

text \<open>
  What the controller may expect of a forwarding adapter, as the locale \<open>forwarding_plane\<close>: the table of installed
  paths is a finite map from traffic keys to path identifiers of which only a successful operation changes anything,
  and only at its own key. The mock and the command adapter are interpretations.
\<close>

section \<open>Keyed lists are maps\<close>

definition lookup_by :: "('a \<Rightarrow> string) \<Rightarrow> ('a \<Rightarrow> string) \<Rightarrow> 'a list \<Rightarrow> string \<rightharpoonup> string" where
  "lookup_by k v xs key = map_option v (find (\<lambda>x. k x = key) xs)"

lemma lookup_update:
  assumes "find_index (\<lambda>x. k x = key) xs = Some i" "k y = key"
  shows "lookup_by k v (xs[i := y]) = (lookup_by k v xs)(key \<mapsto> v y)"
proof
  fix q
  have "k (xs ! i) = key" using assms(1) find_index_hit by fastforce
  then show "lookup_by k v (xs[i := y]) q = ((lookup_by k v xs)(key \<mapsto> v y)) q"
    using assms find_update [of "\<lambda>x. k x = key" xs i y] find_update_other [of "\<lambda>x. k x = q" xs i y]
    by (auto simp: lookup_by_def)
qed

lemma lookup_append:
  "find_index (\<lambda>x. k x = k y) xs = None \<Longrightarrow> lookup_by k v (xs @ [y]) = (lookup_by k v xs)(k y \<mapsto> v y)"
  by (rule ext) (auto simp: lookup_by_def find_append_hit find_index_None split: option.splits dest: find_Some_mem)

lemma find_delete:
  "distinct (map k xs) \<Longrightarrow> i < length xs \<Longrightarrow>
   find (\<lambda>x. k x = q) (take i xs @ drop (Suc i) xs) = (if q = k (xs ! i) then None else find (\<lambda>x. k x = q) xs)"
proof (induction xs arbitrary: i)
  case (Cons x xs)
  show ?case
  proof (cases i)
    case 0
    with Cons.prems show ?thesis by (auto simp: find_None_all image_iff)
  next
    case (Suc j)
    with Cons.prems Cons.IH [of j] show ?thesis by auto
  qed
qed simp

lemma lookup_delete:
  "distinct (map k xs) \<Longrightarrow> i < length xs \<Longrightarrow>
   lookup_by k v (take i xs @ drop (Suc i) xs) = (lookup_by k v xs)(k (xs ! i) := None)"
  by (rule ext) (simp add: lookup_by_def find_delete)

lemma distinct_delete: "distinct xs \<Longrightarrow> distinct (take i xs @ drop (Suc i) xs)"
  by (metis distinct_append distinct_take distinct_drop disjoint_iff id_take_nth_drop linorder_not_less
      append_Nil2 drop_all less_imp_le_nat drop_Suc drop_tl le_SucI in_set_dropD set_take_disj_set_drop_if_distinct le_Suc_eq order_refl)

lemma dom_lookup: "dom (lookup_by k v xs) = k ` set xs"
proof (rule set_eqI)
  fix q
  have "q \<in> dom (lookup_by k v xs) \<longleftrightarrow> find (\<lambda>x. k x = q) xs \<noteq> None" by (auto simp: lookup_by_def)
  then show "q \<in> dom (lookup_by k v xs) \<longleftrightarrow> q \<in> k ` set xs" by (auto simp: find_None_all)
qed

lemma card_lookup: "distinct (map k xs) \<Longrightarrow> card (dom (lookup_by k v xs)) = length xs"
  by (metis dom_lookup distinct_card length_map list.set_map)

section \<open>The contract\<close>

text \<open>Keys and path identifiers that their buffers hold whole, and a table with room for a key.\<close>

definition storable :: "string \<Rightarrow> en_path \<Rightarrow> bool" where
  "storable key p \<longleftrightarrow> length key < EN_MAX_TRAFFIC_KEY_LEN \<and> length (pt_path_id p) < EN_MAX_ID_LEN"

definition has_room :: "string \<Rightarrow> (string \<rightharpoonup> string) \<Rightarrow> bool" where
  "has_room key m \<longleftrightarrow> key \<in> dom m \<or> card (dom m) < EN_MAX_CANDIDATES"

datatype forwarding_op = Install string en_path | Remove string en_path

primrec storable_op :: "forwarding_op \<Rightarrow> bool" where
  "storable_op (Install key p) = storable key p"
| "storable_op (Remove key p) = storable key p"

text \<open>What one operation with its result means for the map, and what a sequence does.\<close>

definition put_path :: "string \<Rightarrow> en_path \<Rightarrow> (string \<rightharpoonup> string) \<Rightarrow> (string \<rightharpoonup> string)" where
  "put_path key p m = (if has_room key m then m(key \<mapsto> pt_path_id p) else m)"

definition drop_path :: "string \<Rightarrow> en_path \<Rightarrow> (string \<rightharpoonup> string) \<Rightarrow> (string \<rightharpoonup> string)" where
  "drop_path key p m = (if m key = Some (pt_path_id p) then m(key := None) else m)"

primrec op_spec :: "forwarding_op \<Rightarrow> (string \<rightharpoonup> string) \<Rightarrow> (string \<rightharpoonup> string)" where
  "op_spec (Install key p) = put_path key p"
| "op_spec (Remove key p) = drop_path key p"

fun forwarding_spec :: "(forwarding_op \<times> en_error_code) list \<Rightarrow> (string \<rightharpoonup> string) \<Rightarrow> (string \<rightharpoonup> string)" where
  "forwarding_spec [] m = m"
| "forwarding_spec ((op, e) # ops) m = forwarding_spec ops (if e = EN_ERR_NONE then op_spec op m else m)"

primrec run_op ::
  "(string \<Rightarrow> en_path \<Rightarrow> ('d, en_error_code) state) \<Rightarrow> (string \<Rightarrow> en_path \<Rightarrow> ('d, en_error_code) state) \<Rightarrow>
   forwarding_op \<Rightarrow> ('d, en_error_code) state" where
  "run_op inst rem (Install key p) = inst key p"
| "run_op inst rem (Remove key p) = rem key p"

primrec run_ops ::
  "(string \<Rightarrow> en_path \<Rightarrow> ('d, en_error_code) state) \<Rightarrow> (string \<Rightarrow> en_path \<Rightarrow> ('d, en_error_code) state) \<Rightarrow>
   forwarding_op list \<Rightarrow> ('d, en_error_code list) state" where
  "run_ops inst rem [] = State_Monad.return []"
| "run_ops inst rem (op # ops) = do {
     e \<leftarrow> run_op inst rem op;
     es \<leftarrow> run_ops inst rem ops;
     State_Monad.return (e # es)
   }"

locale forwarding_plane =
  fixes inst rem :: "string \<Rightarrow> en_path \<Rightarrow> ('d, en_error_code) state"
    and act :: "string \<Rightarrow> ('d, string option) state"
    and valid :: "'d \<Rightarrow> bool"
    and table :: "'d \<Rightarrow> (string \<rightharpoonup> string)"
  assumes active_reads: "valid d \<Longrightarrow> run_state (act key) d = (table d key, d)"
    and install_step: "valid d \<Longrightarrow> storable key p \<Longrightarrow> run_state (inst key p) d = (e, d') \<Longrightarrow>
      valid d' \<and> table d' = (if e = EN_ERR_NONE then put_path key p (table d) else table d)"
    and remove_step: "valid d \<Longrightarrow> storable key p \<Longrightarrow> run_state (rem key p) d = (e, d') \<Longrightarrow>
      valid d' \<and> table d' = (if e = EN_ERR_NONE then drop_path key p (table d) else table d)"
begin

lemma op_step:
  assumes "valid d" "storable_op op" "run_state (run_op inst rem op) d = (e, d')"
  shows "valid d' \<and> table d' = (if e = EN_ERR_NONE then op_spec op (table d) else table d)"
proof (cases op)
  case (Install key p)
  with assms show ?thesis
    using install_step [of d key p e d'] by simp
next
  case (Remove key p)
  with assms show ?thesis
    using remove_step [of d key p e d'] by simp
qed

text \<open>The refinement: any sequence of operations is the map with the successful ones applied in order.\<close>

lemma ops_refine:
  "valid d \<Longrightarrow> list_all storable_op ops \<Longrightarrow> run_state (run_ops inst rem ops) d = (es, d') \<Longrightarrow>
   valid d' \<and> length es = length ops \<and> table d' = forwarding_spec (zip ops es) (table d)"
proof (induction ops arbitrary: d es)
  case (Cons op ops)
  obtain e d1 where step: "run_state (run_op inst rem op) d = (e, d1)" by fastforce
  obtain es' d2 where rest: "run_state (run_ops inst rem ops) d1 = (es', d2)" by fastforce
  have "valid d1" "table d1 = (if e = EN_ERR_NONE then op_spec op (table d) else table d)"
    using op_step [OF Cons.prems(1) _ step] Cons.prems(2) by auto
  with Cons.IH [of d1 es'] Cons.prems step rest show ?case by auto
qed simp

lemma active_after:
  assumes "valid d" "list_all storable_op ops" "run_state (run_ops inst rem ops) d = (es, d')"
  shows "length es = length ops \<and> run_state (act key) d' = (forwarding_spec (zip ops es) (table d) key, d')"
  using ops_refine [OF assms] active_reads [of d' key] by simp

text \<open>Make before break: installing a new path for a key and then removing the old one leaves the new one active.\<close>

lemma make_before_break:
  assumes "valid d" "table d key = Some (pt_path_id old)" "storable key old" "storable key new"
    and "pt_path_id new \<noteq> pt_path_id old"
    and "run_state (inst key new) d = (EN_ERR_NONE, d1)" "run_state (rem key old) d1 = (e, d2)"
  shows "run_state (act key) d2 = (Some (pt_path_id new), d2) \<and> (\<forall>q. q \<noteq> key \<longrightarrow> table d2 q = table d q)"
proof -
  have 1: "valid d1 \<and> table d1 = (table d)(key \<mapsto> pt_path_id new)"
    using install_step [OF assms(1,4,6)] assms(2) by (auto simp: put_path_def has_room_def)
  with remove_step [OF _ assms(3,7)] assms(5) have "valid d2 \<and> table d2 = table d1"
    by (auto simp: drop_path_def)
  with 1 active_reads show ?thesis by auto
qed

end

section \<open>Tables in lists\<close>

text \<open>Both adapters keep the table in an array of at most \<open>EN_MAX_CANDIDATES\<close> entries, searched from the front.\<close>

lemma storable_fits:
  "storable key p \<Longrightarrow> fit EN_MAX_TRAFFIC_KEY_LEN key = key \<and> fit EN_MAX_ID_LEN (pt_path_id p) = pt_path_id p"
  by (simp add: storable_def fit_id)

lemma keyed_overwrite:
  assumes "distinct (map k xs)" "find_index (\<lambda>x. k x = key) xs = Some i" "k y = key" "v y = pt_path_id p"
  shows "distinct (map k (xs[i := y])) \<and> lookup_by k v (xs[i := y]) = put_path key p (lookup_by k v xs)"
proof -
  have "key \<in> dom (lookup_by k v xs)"
    using find_index_hit [OF assms(2)] find_index_less [OF assms(2)] by (auto simp: dom_lookup intro!: image_eqI)
  with distinct_map_update [OF assms(1), of y i] lookup_update [OF assms(2,3)] assms show ?thesis
    by (simp add: put_path_def has_room_def)
qed

lemma keyed_append:
  assumes "distinct (map k xs)" "find_index (\<lambda>x. k x = key) xs = None" "k y = key" "v y = pt_path_id p"
  shows "distinct (map k (xs @ [y])) \<and>
    put_path key p (lookup_by k v xs) =
      (if length xs < EN_MAX_CANDIDATES then lookup_by k v (xs @ [y]) else lookup_by k v xs)"
proof -
  have "key \<notin> dom (lookup_by k v xs)" using assms(2) by (auto simp: dom_lookup find_index_None)
  with distinct_map_append [OF assms(1), of y] lookup_append [of k y xs v] card_lookup [OF assms(1)] assms
  show ?thesis by (auto simp: put_path_def has_room_def)
qed

lemma keyed_match:
  assumes "distinct (map k xs)" "find_index (\<lambda>x. k x = key \<and> v x = value') xs = Some i"
  shows "lookup_by k v xs key = Some value' \<and> k (xs ! i) = key \<and> i < length xs"
proof -
  have i: "i < length xs" "k (xs ! i) = key" "v (xs ! i) = value'"
    using find_index_hit [OF assms(2)] find_index_less [OF assms(2)] by auto
  have "find (\<lambda>x. k x = key) xs \<noteq> None" using i nth_mem [OF i(1)] by (auto simp: find_None_all)
  then obtain y where y: "find (\<lambda>x. k x = key) xs = Some y" by blast
  then have "y \<in> set xs" "k y = key" using find_Some_mem by fastforce+
  with i assms(1) have "y = xs ! i" by (metis distinct_map inj_on_def nth_mem)
  with y i show ?thesis by (simp add: lookup_by_def)
qed

lemma keyed_no_match:
  "find_index (\<lambda>x. k x = key \<and> v x = value') xs = None \<Longrightarrow> lookup_by k v xs key \<noteq> Some value'"
  by (auto simp: lookup_by_def find_index_None dest!: find_Some_mem)

lemma keyed_delete:
  assumes "distinct (map k xs)"
  shows "case find_index (\<lambda>x. k x = key \<and> v x = pt_path_id p) xs of
      None \<Rightarrow> drop_path key p (lookup_by k v xs) = lookup_by k v xs
    | Some i \<Rightarrow> i < length xs \<and> distinct (map k (take i xs @ drop (Suc i) xs)) \<and>
        lookup_by k v (take i xs @ drop (Suc i) xs) = drop_path key p (lookup_by k v xs)"
proof (cases "find_index (\<lambda>x. k x = key \<and> v x = pt_path_id p) xs")
  case None
  with keyed_no_match [OF None] show ?thesis by (simp add: drop_path_def)
next
  case (Some i)
  have "distinct (map k (take i xs @ drop (Suc i) xs))"
    using distinct_delete [OF assms, of i] by (simp add: take_map drop_map)
  with keyed_match [OF assms Some] lookup_delete [OF assms, of i v] Some show ?thesis
    by (simp add: drop_path_def)
qed

section \<open>The mock adapter\<close>

definition mock_table :: "en_vpp_mock \<Rightarrow> (string \<rightharpoonup> string)" where
  "mock_table m = lookup_by mr_traffic_key mr_active_path (vm_routes m)"

definition wf_mock :: "en_vpp_mock \<Rightarrow> bool" where
  "wf_mock m \<longleftrightarrow> distinct (map mr_traffic_key (vm_routes m)) \<and> length (vm_routes m) \<le> EN_MAX_CANDIDATES"

lemma mock_active_table: "mock_active key m = mock_table m key"
  by (simp add: mock_active_def mock_table_def lookup_by_def)

lemma mock_install_step:
  assumes "wf_mock m" "storable key p" "mock_install key p m = (e, m')"
  shows "wf_mock m' \<and> mock_table m' = (if e = EN_ERR_NONE then put_path key p (mock_table m) else mock_table m)"
proof (cases "vm_fail_next_update m")
  case True
  with assms show ?thesis by (auto simp: mock_install_def wf_mock_def mock_table_def)
next
  case False
  note fits = storable_fits [OF assms(2)]
  have d: "distinct (map mr_traffic_key (vm_routes m))" using assms(1) by (simp add: wf_mock_def)
  show ?thesis
  proof (cases "find_index (\<lambda>r. mr_traffic_key r = key) (vm_routes m)")
    case (Some i)
    with assms False fits find_index_hit [OF Some]
      keyed_overwrite [OF d Some, of "(vm_routes m ! i)\<lparr>mr_active_path := pt_path_id p\<rparr>" mr_active_path p]
    show ?thesis by (auto simp: mock_install_def wf_mock_def mock_table_def)
  next
    case None
    with assms False fits keyed_append [OF d None, of "\<lparr>mr_traffic_key = key, mr_active_path = pt_path_id p\<rparr>" mr_active_path p]
    show ?thesis by (auto simp: mock_install_def wf_mock_def mock_table_def split: if_splits)
  qed
qed

lemma mock_remove_step:
  assumes "wf_mock m" "mock_remove key p m = (e, m')"
  shows "wf_mock m' \<and> mock_table m' = (if e = EN_ERR_NONE then drop_path key p (mock_table m) else mock_table m)"
proof -
  have "distinct (map mr_traffic_key (vm_routes m))" using assms(1) by (simp add: wf_mock_def)
  note del = keyed_delete [OF this, of key p mr_active_path]
  show ?thesis
    using assms del by (auto simp: mock_remove_def wf_mock_def mock_table_def split: option.splits)
qed

interpretation mock_forwarding: forwarding_plane
  "\<lambda>key p. State (mock_install key p)" "\<lambda>key p. State (mock_remove key p)"
  "\<lambda>key. State (\<lambda>m. (mock_active key m, m))" wf_mock mock_table
  by unfold_locales (simp add: mock_active_table, (rule mock_install_step mock_remove_step; simp)+)

section \<open>The command adapter\<close>

definition command_table :: "en_vpp_command_ctx \<Rightarrow> (string \<rightharpoonup> string)" where
  "command_table ctx = lookup_by av_traffic_key av_active_path (xc_active ctx)"

definition wf_active :: "en_vpp_command_ctx \<Rightarrow> bool" where
  "wf_active ctx \<longleftrightarrow> distinct (map av_traffic_key (xc_active ctx)) \<and> length (xc_active ctx) \<le> EN_MAX_CANDIDATES"

lemma vpp_active_table: "vpp_active_path key ctx = command_table ctx key"
  by (simp add: vpp_active_path_def command_table_def lookup_by_def)

lemma remember_step:
  assumes "wf_active ctx" "storable key p"
  shows "wf_active (remember_active_path key p ctx) \<and>
    command_table (remember_active_path key p ctx) = put_path key p (command_table ctx)"
proof -
  note fits = storable_fits [OF assms(2)]
  have d: "distinct (map av_traffic_key (xc_active ctx))" using assms(1) by (simp add: wf_active_def)
  show ?thesis
  proof (cases "find_index (\<lambda>a. av_traffic_key a = key) (xc_active ctx)")
    case (Some i)
    with assms fits find_index_hit [OF Some] keyed_overwrite [OF d Some,
        of "(xc_active ctx ! i)\<lparr>av_active_path := pt_path_id p, av_path_object := p\<rparr>" av_active_path p]
    show ?thesis by (simp add: remember_active_path_def wf_active_def command_table_def)
  next
    case None
    with assms fits keyed_append [OF d None,
        of "\<lparr>av_traffic_key = key, av_active_path = pt_path_id p, av_path_object = p\<rparr>" av_active_path p]
    show ?thesis by (simp add: remember_active_path_def wf_active_def command_table_def)
  qed
qed

lemma forget_step:
  assumes "wf_active ctx"
  shows "wf_active (forget_active_path key (pt_path_id p) ctx) \<and>
    command_table (forget_active_path key (pt_path_id p) ctx) = drop_path key p (command_table ctx)"
proof -
  have "distinct (map av_traffic_key (xc_active ctx))" using assms by (simp add: wf_active_def)
  from keyed_delete [OF this, of key p av_active_path] assms show ?thesis
    by (auto simp: forget_active_path_def wf_active_def command_table_def split: option.splits)
qed

lemma vpp_install_ctx:
  "run_state (vpp_install host key p ctx) h = ((e, ctx'), h') \<Longrightarrow>
   ctx' = (if e = EN_ERR_NONE then remember_active_path key p ctx else ctx)"
  by (auto simp: vpp_install_def split: prod.splits)

lemma vpp_remove_ctx:
  "run_state (vpp_remove host key p ctx) h = ((e, ctx'), h') \<Longrightarrow>
   ctx' = (if e = EN_ERR_NONE then forget_active_path key (pt_path_id p) ctx else ctx)"
  by (auto simp: vpp_remove_def split: prod.splits)

definition device_table :: "'h command_device \<Rightarrow> (string \<rightharpoonup> string)" where
  "device_table d = (case cd_vpp d of None \<Rightarrow> Map.empty | Some ctx \<Rightarrow> command_table ctx)"

definition wf_device :: "'h command_device \<Rightarrow> bool" where
  "wf_device d \<longleftrightarrow> (case cd_vpp d of None \<Rightarrow> False | Some ctx \<Rightarrow> wf_active ctx)"

interpretation command_forwarding: forwarding_plane
  "command_install host" "command_remove host" command_active wf_device device_table
proof unfold_locales
  fix d :: "'a command_device" and key
  assume "wf_device d"
  then show "run_state (command_active key) d = (device_table d key, d)"
    by (auto simp: command_active_def on_vpp_ctx_def wf_device_def device_table_def vpp_active_table split: option.splits)
next
  fix d d' :: "'a command_device" and key p e
  assume wf: "wf_device d" "storable key p" and run: "run_state (command_install host key p) d = (e, d')"
  then obtain ctx where ctx: "cd_vpp d = Some ctx" "wf_active ctx" by (auto simp: wf_device_def split: option.splits)
  obtain e1 ctx' h where "run_state (vpp_install host key p ctx) (cd_host d) = ((e1, ctx'), h)"
    by (metis surj_pair)
  with run ctx vpp_install_ctx [OF this] remember_step [OF ctx(2) wf(2)]
  show "wf_device d' \<and> device_table d' = (if e = EN_ERR_NONE then put_path key p (device_table d) else device_table d)"
    by (auto simp: command_install_def on_vpp_ctx_def wf_device_def device_table_def)
next
  fix d d' :: "'a command_device" and key p e
  assume wf: "wf_device d" and run: "run_state (command_remove host key p) d = (e, d')"
  then obtain ctx where ctx: "cd_vpp d = Some ctx" "wf_active ctx" by (auto simp: wf_device_def split: option.splits)
  obtain e1 ctx' h where "run_state (vpp_remove host key p ctx) (cd_host d) = ((e1, ctx'), h)"
    by (metis surj_pair)
  with run ctx vpp_remove_ctx [OF this] forget_step [OF ctx(2)]
  show "wf_device d' \<and> device_table d' = (if e = EN_ERR_NONE then drop_path key p (device_table d) else device_table d)"
    by (auto simp: command_remove_def on_vpp_ctx_def wf_device_def device_table_def)
qed

text \<open>
  C13. The table of installed paths refines a map. After any sequence of installations and removals through the command
  adapter, whatever the programs it runs do, the adapter reports for every traffic key the path that the successful
  operations, applied in order to a map, leave there: an installation sets its key (a new key where fewer than
  \<open>EN_MAX_CANDIDATES\<close> are stored), a removal clears its key where it still holds that very path, and a failed operation
  changes nothing.
\<close>

theorem forwarding_table_refines_map:
  assumes "cd_vpp d = Some ctx" "wf_active ctx" "list_all storable_op ops"
    and "run_state (run_ops (command_install host) (command_remove host) ops) d = (results, d')"
  shows "length results = length ops \<and>
    run_state (command_active key) d' =
      (forwarding_spec (zip ops results) (\<lambda>k. vpp_active_path k ctx) key, d')"
proof -
  have "wf_device d" "device_table d = (\<lambda>k. vpp_active_path k ctx)"
    using assms(1,2) by (auto simp: wf_device_def device_table_def vpp_active_table)
  with command_forwarding.active_after [OF _ assms(3,4), of key] show ?thesis by simp
qed

text \<open>
  Make before break on the command adapter: when a key's traffic is moved by installing the new path and then
  removing the old one, the new path stays the active one even though both operations name the same key, and no other
  key's path changes.
\<close>

lemma switch_keeps_new_path:
  assumes "cd_vpp d = Some ctx" "wf_active ctx" "vpp_active_path key ctx = Some (pt_path_id old)"
    and "storable key old" "storable key new" "pt_path_id new \<noteq> pt_path_id old"
    and "run_state (command_install host key new) d = (EN_ERR_NONE, d1)"
    and "run_state (command_remove host key old) d1 = (e, d2)"
  shows "run_state (command_active key) d2 = (Some (pt_path_id new), d2)"
proof -
  have "wf_device d" "device_table d key = Some (pt_path_id old)"
    using assms(1-3) by (auto simp: wf_device_def device_table_def vpp_active_table)
  with command_forwarding.make_before_break [OF _ _ assms(4-8)] show ?thesis by simp
qed

end
