(* ===== verification/CommandSafety.thy ===== *)
theory CommandSafety
  imports CommandContracts
begin

text \<open>
  What the command adapters ask of the host, seen in the log of a host that records every call: which programs they
  run with which arguments, and how a failed setup of the GRE interfaces of a path is undone.
\<close>

section \<open>A host that records its calls\<close>

datatype host_call = Exec "string list" | Capture "string list" | Shell string

type_synonym host_log = "(host_call \<times> bool) list"

definition log_host :: "'h host \<Rightarrow> ('h \<times> host_log) host" where
  "log_host host = \<lparr>
     host_exec = (\<lambda>argv. State (\<lambda>(h, l). case run_state (host_exec host argv) h of
       (rc, h') \<Rightarrow> (rc, h', l @ [(Exec argv, rc = 0)]))),
     host_capture = (\<lambda>argv n. State (\<lambda>(h, l). case run_state (host_capture host argv n) h of
       ((rc, s), h') \<Rightarrow> ((rc, s), h', l @ [(Capture argv, rc = 0)]))),
     host_shell = (\<lambda>command. State (\<lambda>(h, l). case run_state (host_shell host command) h of
       (rc, h') \<Rightarrow> (rc, h', l @ [(Shell command, rc = 0)])))\<rparr>"

section \<open>Only the tools, only with plain words\<close>

text \<open>A call that runs one of the programs with at most 14 arguments of admitted bytes, and never the shell.\<close>

definition plain_argv :: "string list \<Rightarrow> string list \<Rightarrow> bool" where
  "plain_argv programs argv \<longleftrightarrow> argv \<noteq> [] \<and> hd argv \<in> set programs \<and> length argv < 16 \<and>
     list_all valid_command_token argv"

primrec runs_only :: "string list \<Rightarrow> host_call \<Rightarrow> bool" where
  "runs_only programs (Exec argv) = plain_argv programs argv"
| "runs_only programs (Capture argv) = plain_argv programs argv"
| "runs_only programs (Shell command) = False"

definition log_only :: "string list \<Rightarrow> 'h \<times> host_log \<Rightarrow> bool" where
  "log_only programs s \<longleftrightarrow> list_all (\<lambda>(c, ok). runs_only programs c) (snd s)"

named_theorems tools \<open>actions that run only the tools\<close>

lemma strtok_first_word:
  "word_over sep w \<Longrightarrow> sep (CHR '' '') \<Longrightarrow> strtok_all sep (w @ '' '' @ s) = w # strtok_all sep s"
  using tokens_aux_word [of sep w "[]" "CHR '' '' # s"] by (simp add: strtok_all_def word_over_def)

text \<open>A command line that starts with the name of one of the programs.\<close>

definition tool_command :: "string list \<Rightarrow> string \<Rightarrow> bool" where
  "tool_command programs c \<longleftrightarrow> list_ex (\<lambda>w. starts_with c (w @ '' '')) programs"

lemma tool_argv:
  assumes "exec_argv c = Some argv" "tool_command programs c" "list_all valid_command_token programs"
  shows "plain_argv programs argv"
proof -
  obtain w where w: "w \<in> set programs" "starts_with c (w @ '' '')" "valid_command_token w"
    using assms(2,3) by (auto simp: tool_command_def list_ex_iff list_all_iff)
  obtain s where c: "c = w @ '' '' @ s" using starts_with_drop [OF w(2)] by auto
  have tokens: "strtok_all blank c = w # strtok_all blank s"
    unfolding c using w(3) by (intro strtok_first_word) (auto simp: valid_token_word blank_def)
  show ?thesis
    using assms(1) w(1) unfolding exec_argv_def tokens Let_def by (auto simp: plain_argv_def split: if_splits)
qed

lemma exec_tool [tools]:
  assumes "tool_command programs c" "list_all valid_command_token programs"
  shows "preserves (log_only programs) (run_exec_command (log_host host) c dry)"
proof (rule preservesI)
  fix d r t
  assume "log_only programs d" and "run_state (run_exec_command (log_host host) c dry) d = (r, t)"
  then show "log_only programs t"
    using tool_argv [OF _ assms]
    by (auto simp: run_exec_command_def log_only_def log_host_def split: if_splits option.splits prod.splits)
qed

lemma capture_tool [tools]:
  assumes "tool_command programs c" "list_all valid_command_token programs"
  shows "preserves (log_only programs) (run_exec_capture (log_host host) c n)"
proof (rule preservesI)
  fix d r t
  assume "log_only programs d" and "run_state (run_exec_capture (log_host host) c n) d = (r, t)"
  then show "log_only programs t"
    using tool_argv [OF _ assms]
    by (auto simp: run_exec_capture_def log_only_def log_host_def split: if_splits option.splits prod.splits)
qed

lemma preserves_on_success [tools]:
  "preserves I m \<Longrightarrow> preserves I k \<Longrightarrow> preserves I (on_success m k)"
  unfolding on_success_def by (auto intro!: wp)

lemma preserves_fail_as [tools]: "preserves I m \<Longrightarrow> preserves I (fail_as e m)"
  unfolding fail_as_def by (auto intro!: wp)

lemma preserves_each_ok [tools]:
  "(\<And>x. x \<in> set xs \<Longrightarrow> preserves I (f x)) \<Longrightarrow> preserves I (each_ok f xs)"
  by (induction xs) (auto intro!: wp preserves_on_success)

lemma preserves_with_command [tools]:
  "(\<And>c. r = Inr c \<Longrightarrow> preserves I (k c)) \<Longrightarrow> preserves I (with_command r k)"
  unfolding with_command_def by (cases r) (auto intro!: wp)

text \<open>\<open>vppctl\<close>, with or without a socket.\<close>

lemma vppctl_tool [simp]: "list_all valid_command_token [''vppctl'']"
  by simp

lemma run_vpp_tool [tools]:
  "tool_command [''vppctl''] c \<Longrightarrow> preserves (log_only [''vppctl'']) (run_vpp_command (log_host host) ctx c)"
  unfolding run_vpp_command_def
  by (auto intro!: wp tools simp: socket_command_def format_command_Inr tool_command_def)

lemma capture_vpp_tool [tools]: "preserves (log_only [''vppctl'']) (capture_vpp_command (log_host host) ctx c)"
  unfolding capture_vpp_command_def
  by (auto intro!: wp tools simp: socket_command_def format_command_Inr tool_command_def split: sum.splits if_splits)

lemma vpp_command_tool [tools]:
  "(\<And>c. r = Inr c \<Longrightarrow> tool_command [''vppctl''] c) \<Longrightarrow>
   preserves (log_only [''vppctl'']) (vpp_command (log_host host) ctx r)"
  unfolding vpp_command_def by (auto intro!: tools)

lemma local_command_tool [tools]:
  "tool_command [''vppctl''] c \<Longrightarrow> preserves (log_only [''vppctl'']) (local_command (log_host host) ctx n c)"
  unfolding local_command_def by (auto intro!: tools simp: format_command_Inr)

text \<open>Every rendered command of VPP starts with \<open>vppctl\<close>.\<close>

lemmas rendered_tool_defs = en_render_vpp_gre_create_def en_render_vpp_gre_delete_def en_render_vpp_gre_set_address_def
  en_render_vpp_gre_set_mtu_def en_render_vpp_gre_set_up_def en_render_vpp_route_replace_entry_def
  en_render_vpp_route_delete_entry_def en_render_vpp_route_replace_def en_render_vpp_route_delete_with_tunnel_def
  format_command_Inr tool_command_def Let_def

lemma rendered_tool:
  "en_render_vpp_gre_create t n = Inr c \<Longrightarrow> tool_command [''vppctl''] c"
  "en_render_vpp_gre_delete t n = Inr c \<Longrightarrow> tool_command [''vppctl''] c"
  "en_render_vpp_gre_set_address t n = Inr c \<Longrightarrow> tool_command [''vppctl''] c"
  "en_render_vpp_gre_set_mtu t n = Inr c \<Longrightarrow> tool_command [''vppctl''] c"
  "en_render_vpp_gre_set_up t n = Inr c \<Longrightarrow> tool_command [''vppctl''] c"
  "en_render_vpp_route_replace_entry r n = Inr c \<Longrightarrow> tool_command [''vppctl''] c"
  "en_render_vpp_route_delete_entry r n = Inr c \<Longrightarrow> tool_command [''vppctl''] c"
  "en_render_vpp_route_replace p o1 n = Inr c \<Longrightarrow> tool_command [''vppctl''] c"
  "en_render_vpp_route_delete_with_tunnel p o1 n = Inr c \<Longrightarrow> tool_command [''vppctl''] c"
  by (auto simp: rendered_tool_defs split: if_splits option.splits prod.splits)

subsection \<open>The forwarding adapter\<close>

abbreviation vppctl_only :: "('h \<times> host_log, 'a) state \<Rightarrow> bool" where
  "vppctl_only m \<equiv> preserves (log_only [''vppctl'']) m"

lemma gre_tools [tools]:
  "vppctl_only (delete_created (log_host host) ctx created)"
  "vppctl_only (set_up_gre (log_host host) ctx t)"
  unfolding set_up_gre_def
  by (induction created) (auto intro!: wp tools dest: rendered_tool)

lemma create_gre_tool [tools]: "vppctl_only (create_gre_tunnels (log_host host) ctx created ts)"
  by (induction ts arbitrary: created) (auto intro!: wp tools dest: rendered_tool)

lemma check_interface_tool [tools]: "vppctl_only (check_interface (log_host host) ctx name)"
  unfolding check_interface_def by (auto intro!: wp tools)

lemma route_table_tool [tools]:
  "vppctl_only (add_table (log_host host) ctx t)"
  "vppctl_only (ensure_tables (log_host host) ctx tables rs)"
proof -
  show add: "vppctl_only (add_table (log_host host) ctx t)" for t
    unfolding add_table_def by (auto intro!: wp tools simp: format_command_Inr tool_command_def)
  show "vppctl_only (ensure_tables (log_host host) ctx tables rs)"
    by (induction rs arbitrary: tables) (auto intro!: wp tools add)
qed

lemma on_egress_tool [tools]:
  "(\<And>r. vppctl_only (k r)) \<Longrightarrow> vppctl_only (on_egress_route ctx p e k r)"
  unfolding on_egress_route_def by (auto intro!: wp)

lemma verify_tools [tools]:
  "vppctl_only (verify_vpp_gre_tunnels (log_host host) ctx p)"
  "vppctl_only (verify_vpp_route (log_host host) ctx dest nh ifc t)"
  "vppctl_only (verify_vpp_vlan_interfaces (log_host host) ctx p)"
  unfolding verify_vpp_gre_tunnels_def verify_vpp_route_def verify_vpp_vlan_interfaces_def verify_vlan_interface_def
  by (auto intro!: wp tools)

lemma vlan_tools [tools]:
  "vppctl_only (ensure_vpp_vlan_interfaces (log_host host) ctx p)"
  "vppctl_only (ensure_vpp_vlan_interface_tables (log_host host) ctx p)"
  unfolding ensure_vpp_vlan_interfaces_def ensure_vlan_interface_def vlan_interface_exists_def
    ensure_vpp_vlan_interface_tables_def bind_edge_table_def Let_def
  by (auto intro!: wp tools simp: tool_command_def)

lemma acl_tools [tools]:
  "vppctl_only (ensure_vpp_unmatched_vlan_acl (log_host host) ctx p)"
  "vppctl_only (remove_vpp_unmatched_vlan_acl (log_host host) ctx key p)"
  unfolding ensure_vpp_unmatched_vlan_acl_def install_acl_def remove_vpp_unmatched_vlan_acl_def uninstall_acl_def
  by (auto intro!: wp tools simp: tool_command_def deny_command_def)

lemma install_tools:
  "xc_install_path_command ctx = [] \<Longrightarrow> vppctl_only (vpp_install (log_host host) key p ctx)"
  "xc_install_path_command ctx = [] \<Longrightarrow> vppctl_only (vpp_remove (log_host host) key p ctx)"
  unfolding vpp_install_def prepare_install_def install_routes_def verify_install_def verify_routes_def
    ensure_vpp_gre_tunnels_def ensure_vpp_route_tables_def vpp_remove_def remove_routes_def remove_vpp_gre_tunnels_def
  by (auto intro!: wp tools dest: rendered_tool split: option.splits)

subsection \<open>The tunnel adapter\<close>

abbreviation tunnel_tools :: "string list" where
  "tunnel_tools \<equiv> [''swanctl'', ''ip'']"

lemma swanctl_tool:
  "en_render_swanctl_load_conns_uri u f n = Inr c \<Longrightarrow> tool_command tunnel_tools c"
  "en_render_swanctl_initiate_uri t u n = Inr c \<Longrightarrow> tool_command tunnel_tools c"
  "en_render_swanctl_terminate_uri t u n = Inr c \<Longrightarrow> tool_command tunnel_tools c"
  "en_render_swanctl_list_sas_uri t u n = Inr c \<Longrightarrow> tool_command tunnel_tools c"
  "xfrm_add_command d x y = Inr c \<Longrightarrow> tool_command tunnel_tools c"
  "xfrm_delete_command d x y = Inr c \<Longrightarrow> tool_command tunnel_tools c"
  by (auto simp: en_render_swanctl_load_conns_uri_def en_render_swanctl_initiate_uri_def
      en_render_swanctl_terminate_uri_def en_render_swanctl_list_sas_uri_def xfrm_add_command_def
      xfrm_delete_command_def format_command_Inr tool_command_def split: if_splits option.splits)

lemma tunnel_tokens [simp]: "list_all valid_command_token tunnel_tools"
  by simp

lemma xfrm_tools [tools]:
  "preserves (log_only tunnel_tools) (apply_xfrm_block (log_host host) ctx t)"
  "preserves (log_only tunnel_tools) (remove_xfrm_block (log_host host) ctx t)"
  unfolding apply_xfrm_block_def remove_xfrm_block_def xfrm_policy_exists_def Let_def
  by (auto intro!: wp tools dest: swanctl_tool simp: tool_command_def)

lemma ensure_tools:
  "sc_ensure_tunnel_command ctx = [] \<Longrightarrow> sc_verify_tunnel_command ctx = [] \<Longrightarrow>
   preserves (log_only tunnel_tools) (strongswan_ensure (log_host host) desired observed ctx)"
  "sc_remove_tunnel_command ctx = [] \<Longrightarrow>
   preserves (log_only tunnel_tools) (strongswan_remove (log_host host) desired observed ctx)"
  unfolding strongswan_ensure_def strongswan_remove_def load_connections_def initiate_tunnel_def confirm_tunnel_def
  by (auto intro!: wp tools dest: swanctl_tool split: if_splits)

text \<open>The calls an action makes of a host in the state \<open>h\<close>.\<close>

definition calls :: "('h \<times> host_log, 'a) state \<Rightarrow> 'h \<Rightarrow> host_log" where
  "calls m h = snd (snd (run_state m (h, [])))"

lemma calls_only: "preserves (log_only programs) m \<Longrightarrow> list_all (\<lambda>(c, ok). runs_only programs c) (calls m h)"
  using preservesD [of "log_only programs" m "(h, [])"] by (cases "run_state m (h, [])") (auto simp: calls_def log_only_def)

text \<open>
  C14. Without templates the command adapters never start a shell, and the forwarding adapter runs nothing but \<open>vppctl\<close>,
  the tunnel adapter nothing but \<open>swanctl\<close> and \<open>ip\<close>, each with fewer than 16 words of admitted bytes: whatever the
  configuration, the path, the traffic key and the programs' output are, no field of theirs reaches a shell or adds a
  program.
\<close>

theorem adapters_run_only_their_tools:
  assumes "xc_install_path_command vctx = []" "sc_ensure_tunnel_command sctx = []"
    and "sc_verify_tunnel_command sctx = []" "sc_remove_tunnel_command sctx = []"
  shows "list_all (\<lambda>(c, ok). runs_only [''vppctl''] c)
      (calls (vpp_install (log_host host) key p vctx) h @ calls (vpp_remove (log_host host) key p vctx) h) \<and>
    list_all (\<lambda>(c, ok). runs_only [''swanctl'', ''ip''] c)
      (calls (strongswan_ensure (log_host host) desired observed sctx) h @
       calls (strongswan_remove (log_host host) desired observed sctx) h)"
  using calls_only [OF install_tools(1) [OF assms(1)], of host key p h]
    calls_only [OF install_tools(2) [OF assms(1)], of host key p h]
    calls_only [OF ensure_tools(1) [OF assms(2,3)], of host desired observed h]
    calls_only [OF ensure_tools(2) [OF assms(4)], of host desired observed h]
  by simp

section \<open>A sample host and configuration\<close>

text \<open>A host on which every program succeeds but the one whose arguments contain the word \<open>bad\<close>.\<close>

definition sample_host :: "string \<Rightarrow> string \<Rightarrow> unit host" where
  "sample_host bad output = \<lparr>
     host_exec = (\<lambda>argv. State_Monad.return (if list_ex (\<lambda>a. a = bad) argv then 1 else 0)),
     host_capture = (\<lambda>argv n. State_Monad.return (0, output)),
     host_shell = (\<lambda>command. State_Monad.return 0)\<rparr>"

definition sample_vpp_ctx :: "bool \<Rightarrow> en_vpp_command_ctx" where
  "sample_vpp_ctx dry_run = \<lparr>xc_dry_run = dry_run, xc_verify_route = False, xc_has_vlan_id = False,
     xc_deny_unmatched_vlan = False, xc_vlan_id = 0, xc_vppctl_socket = ''/run/vpp.sock'', xc_install_path_command = [],
     xc_tunnels = [sample_gre, sample_gre\<lparr>tn_tunnel_id := ''tun-b-c'', tn_gre_interface := ''gre8'', tn_gre_instance := 8\<rparr>],
     xc_edges = [], xc_active = []\<rparr>"

definition sample_gre_path :: en_path where
  "sample_gre_path = zero_path\<lparr>pt_path_id := ''path-gre'', pt_source := ''site-a'', pt_destination := ''site-c'',
     pt_route_destination_prefix := ''10.0.3.0/24'', pt_route_next_hop := ''169.254.0.2'', pt_egress_tunnel_id := ''tun-a-b'',
     pt_segments := [\<lparr>sg_segment_id = ''s1'', sg_from_node = ''site-a'', sg_to_node = ''site-b'', sg_tunnel_id = ''tun-a-b''\<rparr>,
       \<lparr>sg_segment_id = ''s2'', sg_from_node = ''site-b'', sg_to_node = ''site-c'', sg_tunnel_id = ''tun-b-c''\<rparr>]\<rparr>"

definition sample_strongswan_ctx :: "bool \<Rightarrow> en_strongswan_command_ctx" where
  "sample_strongswan_ctx block = \<lparr>sc_dry_run = False, sc_verify_tunnel = True, sc_connections_loaded = False,
     sc_block_non_ipsec = block, sc_swanctl_uri = [], sc_swanctl_config_file = ''/etc/ibuki.conf'',
     sc_ensure_tunnel_command = [], sc_verify_tunnel_command = [], sc_remove_tunnel_command = [],
     sc_xfrm_block_tunnels = []\<rparr>"

theorem adapters_run_only_their_tools_witness:
  "list_all (\<lambda>(c, ok). runs_only [''vppctl''] c)
     (calls (vpp_install (log_host (sample_host ''bad'' [])) ''lan-a->lan-c'' sample_gre_path (sample_vpp_ctx False)) ())"
proof -
  have "xc_install_path_command (sample_vpp_ctx False) = []" "sc_ensure_tunnel_command (sample_strongswan_ctx True) = []"
    "sc_verify_tunnel_command (sample_strongswan_ctx True) = []" "sc_remove_tunnel_command (sample_strongswan_ctx True) = []"
    by (simp_all add: sample_vpp_ctx_def sample_strongswan_ctx_def)
  from adapters_run_only_their_tools [OF this, of "sample_host ''bad'' []" "''lan-a->lan-c''" sample_gre_path "()"]
  show ?thesis by simp
qed

end
