(* ===== verification/CommandRollback.thy ===== *)
theory CommandRollback
  imports CommandSafety
begin

text \<open>
  How a failed setup of the GRE interfaces of a path is undone, what a successful check of a tunnel means, and the
  installations that cannot succeed.
\<close>

section \<open>One logged command\<close>

definition socket_words :: "en_vpp_command_ctx \<Rightarrow> string list \<Rightarrow> string list" where
  "socket_words ctx ws = (if xc_vppctl_socket ctx = [] then ws else hd ws # ''-s'' # xc_vppctl_socket ctx # tl ws)"

definition wf_socket :: "en_vpp_command_ctx \<Rightarrow> bool" where
  "wf_socket ctx \<longleftrightarrow> length (xc_vppctl_socket ctx) < 256"

text \<open>What the words of a command come to: it is refused, or run once and logged.\<close>

definition logs_call :: "string list \<Rightarrow> ('h \<times> host_log, en_error_code) state \<Rightarrow> bool" where
  "logs_call argv m \<longleftrightarrow> (\<forall>h l. \<exists>e h' l'. run_state m (h, l) = (e, h', l') \<and>
     (l' = l @ [(Exec argv, e = EN_ERR_NONE)] \<or> (l' = l \<and> e \<noteq> EN_ERR_NONE)))"

lemma exec_logs:
  assumes "is_command ws c"
  shows "logs_call ws (run_exec_command (log_host host) c False)"
proof -
  have "exec_argv c = None \<or> exec_argv c = Some ws"
    using command_tokens [OF assms] by (auto simp: exec_argv_def Let_def)
  then show ?thesis
    by (auto simp: logs_call_def run_exec_command_def log_host_def exit_code_def split: prod.splits)
qed

lemma socket_is_command:
  "is_command (''vppctl'' # ws) c \<Longrightarrow> ws \<noteq> [] \<Longrightarrow> valid_command_token sock \<Longrightarrow>
   is_command (''vppctl'' # ''-s'' # sock # ws) (''vppctl -s '' @ sock @ '' '' @ drop 7 c) \<and> starts_with c ''vppctl ''"
proof -
  assume c: "is_command (''vppctl'' # ws) c" and ws: "ws \<noteq> []" and sock: "valid_command_token sock"
  have eq: "c = ''vppctl '' @ unwords ws" using c ws by (cases ws) (simp_all add: is_command_def)
  have "valid_command_token ''-s''" by (simp add: valid_command_token_def token_char_def isalnum_def isdigit_def code_def)
  with c ws sock show ?thesis unfolding eq by (cases ws) (simp_all add: is_command_def)
qed

lemma vpp_logs:
  assumes "\<And>c. r = Inr c \<Longrightarrow> is_command (''vppctl'' # ws) c" "r \<noteq> Inl EN_ERR_NONE" "ws \<noteq> []"
    and "\<not> xc_dry_run ctx"
  shows "logs_call (socket_words ctx (''vppctl'' # ws)) (vpp_command (log_host host) ctx r)"
proof (cases r)
  case (Inl e)
  then show ?thesis using assms(2) by (auto simp: logs_call_def vpp_command_def with_command_def)
next
  case (Inr c)
  note c = assms(1) [OF Inr]
  show ?thesis
  proof (cases "xc_vppctl_socket ctx = []")
    case True
    with Inr exec_logs [OF c] assms(4) show ?thesis
      by (simp add: vpp_command_def with_command_def run_vpp_command_def socket_words_def)
  next
    case False
    show ?thesis
    proof (cases "valid_command_token (xc_vppctl_socket ctx)")
      case True
      note sc = socket_is_command [OF c assms(3) True]
      show ?thesis
        using False True Inr sc exec_logs [OF conjunct1 [OF sc], of host] assms(4)
        by (auto simp: vpp_command_def with_command_def run_vpp_command_def socket_words_def socket_command_def
            format_command_def logs_call_def)
    next
      case bad: False
      with False Inr show ?thesis
        by (auto simp: vpp_command_def with_command_def run_vpp_command_def logs_call_def)
    qed
  qed
qed

section \<open>GRE interfaces\<close>

definition gre_argv :: "en_vpp_command_ctx \<Rightarrow> en_tunnel \<Rightarrow> string list" where
  "gre_argv ctx t = socket_words ctx (gre_words t)"

text \<open>The calls of a log that created a GRE interface.\<close>

definition gre_create :: "en_vpp_command_ctx \<Rightarrow> string list \<Rightarrow> bool" where
  "gre_create ctx argv \<longleftrightarrow>
     take 3 (drop (if xc_vppctl_socket ctx = [] then 1 else 3) argv) = [''create'', ''gre'', ''tunnel'']"

fun created_gre :: "en_vpp_command_ctx \<Rightarrow> host_log \<Rightarrow> string list list" where
  "created_gre ctx [] = []"
| "created_gre ctx ((Exec argv, True) # l) = (if gre_create ctx argv then [argv] else []) @ created_gre ctx l"
| "created_gre ctx (_ # l) = created_gre ctx l"

lemma created_gre_append [simp]: "created_gre ctx (l @ m) = created_gre ctx l @ created_gre ctx m"
  by (induction ctx l rule: created_gre.induct) auto

text \<open>The buffers of the configuration.\<close>

definition gre_fits :: "en_tunnel \<Rightarrow> bool" where
  "gre_fits t \<longleftrightarrow> length (outer_local t) < EN_MAX_ID_LEN \<and> length (outer_remote t) < EN_MAX_ID_LEN"

definition wf_vpp_ctx :: "en_vpp_command_ctx \<Rightarrow> bool" where
  "wf_vpp_ctx ctx \<longleftrightarrow> length (xc_vppctl_socket ctx) < 256 \<and> list_all gre_fits (xc_tunnels ctx)"

text \<open>A tunnel that was created can be deleted: the command is rendered, fits and is run.\<close>

definition deletable :: "en_vpp_command_ctx \<Rightarrow> en_tunnel \<Rightarrow> bool" where
  "deletable ctx t \<longleftrightarrow> valid_gre_tunnel t \<and> gre_fits t \<and>
     (xc_vppctl_socket ctx = [] \<or> valid_command_token (xc_vppctl_socket ctx))"

lemma exec_argv_command: "is_command ws c \<Longrightarrow> length c < COMMAND_LEN \<Longrightarrow> length ws < 16 \<Longrightarrow> exec_argv c = Some ws"
  using command_tokens [of ws c] by (auto simp: exec_argv_def is_command_def Let_def)

lemma instance_option_length: "valid_gre_tunnel t \<Longrightarrow> length (gre_instance_option t) \<le> 21"
  using int_to_dec_length [of "tn_gre_instance t"]
  by (auto simp: gre_instance_option_def valid_gre_tunnel_def int32_def INT_MAX_def INT_MIN_def)

lemma delete_runs:
  assumes "deletable ctx t" "wf_vpp_ctx ctx" "\<not> xc_dry_run ctx"
  shows "\<exists>e h'. run_state (vpp_command (log_host host) ctx (en_render_vpp_gre_delete t COMMAND_LEN)) (h, l) =
    (e, h', l @ [(Exec (gre_argv ctx t @ [''del'']), e = EN_ERR_NONE)])"
proof -
  let ?text = "''vppctl create gre tunnel src '' @ outer_local t @ '' dst '' @ outer_remote t @ gre_instance_option t @ '' del''"
  have bound: "length ?text < 200"
    using assms(1) instance_option_length [of t] by (simp add: deletable_def gre_fits_def)
  then have r: "en_render_vpp_gre_delete t COMMAND_LEN = Inr ?text"
    using assms(1) by (simp add: en_render_vpp_gre_delete_def deletable_def format_command_def)
  note c = render_gre_delete [OF r]
  have n: "length (gre_words t) \<le> 10" by (simp add: gre_words_def opt_def)
  obtain ws where ws: "gre_words t @ [''del''] = ''vppctl'' # ws" "ws \<noteq> []" by (simp add: gre_words_def)
  show ?thesis
  proof (cases "xc_vppctl_socket ctx = []")
    case True
    have "exec_argv ?text = Some (gre_words t @ [''del''])"
      using exec_argv_command [OF c] bound n by simp
    with True r assms(3) show ?thesis
      by (simp add: vpp_command_def with_command_def run_vpp_command_def run_exec_command_def log_host_def gre_argv_def
          socket_words_def exit_code_def split: prod.splits)
  next
    case False
    let ?s = "xc_vppctl_socket ctx"
    have tok: "valid_command_token ?s" using assms(1) False by (simp add: deletable_def)
    have sc: "is_command (''vppctl'' # ''-s'' # ?s # ws) (''vppctl -s '' @ ?s @ '' '' @ drop 7 ?text)"
      "starts_with ?text ''vppctl ''"
      using socket_is_command [OF c [unfolded ws(1)] ws(2) tok] by simp_all
    have len: "length (''vppctl -s '' @ ?s @ '' '' @ drop 7 ?text) < COMMAND_LEN"
      using bound assms(2) by (simp add: wf_vpp_ctx_def)
    have "exec_argv (''vppctl -s '' @ ?s @ '' '' @ drop 7 ?text) = Some (''vppctl'' # ''-s'' # ?s # ws)"
      using exec_argv_command [OF sc(1) len] n arg_cong [OF ws(1), of length] by simp
    moreover have "gre_argv ctx t @ [''del''] = ''vppctl'' # ''-s'' # ?s # ws"
      using False ws(1) by (auto simp: gre_argv_def socket_words_def gre_words_def)
    ultimately show ?thesis
      using False tok r sc(2) len assms(3)
      by (simp add: vpp_command_def with_command_def run_vpp_command_def socket_command_def format_command_def
          run_exec_command_def log_host_def exit_code_def split: prod.splits)
  qed
qed

lemma logs_callD:
  "logs_call argv m \<Longrightarrow> run_state m (h, l) = (e, h', l') \<Longrightarrow>
   l' = l @ [(Exec argv, e = EN_ERR_NONE)] \<or> (l' = l \<and> e \<noteq> EN_ERR_NONE)"
  unfolding logs_call_def by (metis Pair_inject)

lemma gre_words_Cons: "\<exists>ws. gre_words t = ''vppctl'' # ''create'' # ''gre'' # ''tunnel'' # ws"
  by (simp add: gre_words_def)

lemma gre_argv_creates: "gre_create ctx (gre_argv ctx t)"
  using gre_words_Cons [of t] by (auto simp: gre_create_def gre_argv_def socket_words_def)

lemma create_call:
  assumes "run_state (vpp_command (log_host host) ctx (en_render_vpp_gre_create t COMMAND_LEN)) (h, l) = (e, h', l')"
    and "\<not> xc_dry_run ctx"
  shows "\<exists>new. l' = l @ new \<and> created_gre ctx new = (if e = EN_ERR_NONE then [gre_argv ctx t] else [])"
proof -
  obtain ws where ws: "gre_words t = ''vppctl'' # ws" "ws \<noteq> []" using gre_words_Cons [of t] by auto
  have "logs_call (gre_argv ctx t) (vpp_command (log_host host) ctx (en_render_vpp_gre_create t COMMAND_LEN))"
    unfolding gre_argv_def ws(1)
    by (rule vpp_logs) (use render_gre_create [of t COMMAND_LEN] ws assms(2) in
        \<open>auto simp: en_render_vpp_gre_create_def format_command_def split: if_splits\<close>)
  from logs_callD [OF this assms(1)] show ?thesis
    using gre_argv_creates [of ctx t] by (cases "e = EN_ERR_NONE") auto
qed

lemma created_is_deletable:
  assumes "run_state (vpp_command host ctx (en_render_vpp_gre_create t COMMAND_LEN)) s = (EN_ERR_NONE, s')" "gre_fits t"
  shows "deletable ctx t"
  using assms by (auto simp: vpp_command_def with_command_def en_render_vpp_gre_create_def format_command_def deletable_def
      run_vpp_command_def split: if_splits sum.splits)

definition adds_no_gre :: "en_vpp_command_ctx \<Rightarrow> host_log \<Rightarrow> 'h \<times> host_log \<Rightarrow> bool" where
  "adds_no_gre ctx l0 s \<longleftrightarrow> (\<exists>new. snd s = l0 @ new \<and> created_gre ctx new = [])"

lemma setting_call:
  fixes host :: "'h host"
  assumes "\<And>c. r = Inr c \<Longrightarrow> is_command (''vppctl'' # ''set'' # ws) c" "r \<noteq> Inl EN_ERR_NONE" "\<not> xc_dry_run ctx"
  shows "preserves (adds_no_gre ctx l0) (vpp_command (log_host host) ctx r)"
proof (rule preservesI)
  fix s :: "'h \<times> host_log" and e t
  assume "adds_no_gre ctx l0 s" and run: "run_state (vpp_command (log_host host) ctx r) s = (e, t)"
  then obtain h new where new: "s = (h, l0 @ new)" "created_gre ctx new = []"
    by (cases s) (auto simp: adds_no_gre_def)
  obtain h' l' where t: "t = (h', l')" by (cases t)
  have "\<not> gre_create ctx (socket_words ctx (''vppctl'' # ''set'' # ws))"
    by (simp add: gre_create_def socket_words_def)
  then have "created_gre ctx [(Exec (socket_words ctx (''vppctl'' # ''set'' # ws)), ok)] = []" for ok by (cases ok) auto
  with logs_callD [OF vpp_logs [OF assms(1,2) _ assms(3)] run [unfolded new(1) t]] new(2)
  show "adds_no_gre ctx l0 t" by (auto simp: adds_no_gre_def t)
qed

lemma rendered_settings:
  "en_render_vpp_gre_set_address t n \<noteq> Inl EN_ERR_NONE" "en_render_vpp_gre_set_mtu t n \<noteq> Inl EN_ERR_NONE"
  "en_render_vpp_gre_set_up t n \<noteq> Inl EN_ERR_NONE"
  by (simp_all add: en_render_vpp_gre_set_address_def en_render_vpp_gre_set_mtu_def en_render_vpp_gre_set_up_def
      format_command_def)

lemma run_on_success:
  "run_state (on_success m k) s = (case run_state m s of (e, s') \<Rightarrow> if e = EN_ERR_NONE then run_state k s' else (e, s'))"
  by (simp add: on_success_def split: prod.splits)

lemma set_up_calls:
  assumes "run_state (set_up_gre (log_host host) ctx t) (h, l) = (e, h', l')" "\<not> xc_dry_run ctx"
  shows "\<exists>new. l' = l @ new \<and> created_gre ctx new = []"
proof -
  have "preserves (adds_no_gre ctx l) (set_up_gre (log_host host) ctx t)"
    unfolding set_up_gre_def
    by (intro preserves_on_success preserves_if preserves_return
        setting_call [OF render_gre_settings(1) rendered_settings(1) assms(2)]
        setting_call [OF render_gre_settings(2) rendered_settings(2) assms(2)]
        setting_call [OF render_gre_settings(3) rendered_settings(3) assms(2)])
  from preservesD [OF this _ assms(1)] show ?thesis by (simp add: adds_no_gre_def)
qed

lemma delete_created_calls:
  assumes "list_all (deletable ctx) created" "wf_vpp_ctx ctx" "\<not> xc_dry_run ctx"
    and "run_state (delete_created (log_host host) ctx created) (h, l) = (e, h', l')"
  shows "e = EN_ERR_FORWARDING_UPDATE_FAILED \<and>
    (\<exists>undo. l' = l @ undo \<and> map fst undo = map (\<lambda>t. Exec (gre_argv ctx t @ [''del''])) created)"
  using assms(1,4)
proof (induction created arbitrary: h l)
  case (Cons t created)
  obtain e1 h1 where "run_state (vpp_command (log_host host) ctx (en_render_vpp_gre_delete t COMMAND_LEN)) (h, l) =
      (e1, h1, l @ [(Exec (gre_argv ctx t @ [''del'']), e1 = EN_ERR_NONE)])"
    using delete_runs [OF _ assms(2,3), of t host h l] Cons.prems(1) by auto
  with Cons.IH [of h1 "l @ [(Exec (gre_argv ctx t @ [''del'']), e1 = EN_ERR_NONE)]"] Cons.prems
  show ?case by auto
qed simp

lemma delete_undoes:
  assumes "wf_vpp_ctx ctx" "\<not> xc_dry_run ctx" "list_all (deletable ctx) created"
    and "created_gre ctx l = map (gre_argv ctx) (rev created)"
    and "run_state (delete_created (log_host host) ctx created) (h, l) = (e, h', l')"
  shows "e = EN_ERR_FORWARDING_UPDATE_FAILED \<and>
    (\<exists>setup undo. l' = setup @ undo \<and> map fst undo = map (\<lambda>a. Exec (a @ [''del''])) (rev (created_gre ctx setup)))"
proof -
  obtain undo where u: "e = EN_ERR_FORWARDING_UPDATE_FAILED" "l' = l @ undo"
      "map fst undo = map (\<lambda>t. Exec (gre_argv ctx t @ [''del''])) created"
    using delete_created_calls [OF assms(3,1,2,5)] by blast
  then have "map fst undo = map (\<lambda>a. Exec (a @ [''del''])) (rev (created_gre ctx l))"
    by (simp add: assms(4) rev_map comp_def)
  with u show ?thesis by blast
qed

text \<open>The collected tunnels are tunnels of the context.\<close>

definition in_range :: "en_vpp_command_ctx \<Rightarrow> nat list \<Rightarrow> bool" where
  "in_range ctx = list_all (\<lambda>i. i < length (xc_tunnels ctx))"

lemma in_range_Nil [simp]: "in_range ctx []"
  by (simp add: in_range_def)

lemma collect_in_range: "in_range ctx acc \<Longrightarrow> in_range ctx (collect_tunnel ctx (find_ctx_index ctx i) acc)"
  using find_index_less [of "\<lambda>t. strcmp (tn_tunnel_id t) i = 0" "xc_tunnels ctx"]
  by (auto simp: in_range_def collect_tunnel_def find_ctx_index_def split: option.splits)

lemma fold_in_range:
  "in_range ctx acc \<Longrightarrow>
   in_range ctx (fold (\<lambda>s. collect_tunnel ctx (find_ctx_index ctx (sg_tunnel_id s))) ss acc)"
  by (induction ss arbitrary: acc) (simp_all add: collect_in_range)

lemma in_range_all: "in_range ctx is \<Longrightarrow> list_all Q (xc_tunnels ctx) \<Longrightarrow> list_all Q (map ((!) (xc_tunnels ctx)) is)"
  by (auto simp: in_range_def list_all_iff)

lemma ctx_gre_tunnels_all: "list_all Q (xc_tunnels ctx) \<Longrightarrow> list_all Q (ctx_gre_tunnels ctx p)"
  unfolding ctx_gre_tunnels_def
  by (rule in_range_all) (simp_all add: fold_in_range collect_in_range)

lemma create_loop:
  assumes "wf_vpp_ctx ctx" "\<not> xc_dry_run ctx"
    and "list_all (deletable ctx) created" "list_all gre_fits ts"
    and "created_gre ctx l = map (gre_argv ctx) (rev created)"
    and "run_state (create_gre_tunnels (log_host host) ctx created ts) (h, l) = (e, h', l')" "e \<noteq> EN_ERR_NONE"
  shows "e = EN_ERR_FORWARDING_UPDATE_FAILED \<and>
    (\<exists>setup undo. l' = setup @ undo \<and> map fst undo = map (\<lambda>a. Exec (a @ [''del''])) (rev (created_gre ctx setup)))"
  using assms(3-7)
proof (induction ts arbitrary: created h l)
  note undone = delete_undoes [OF assms(1,2)]
  case (Cons t ts)
  obtain e1 h1 l1 where 1: "run_state (vpp_command (log_host host) ctx (en_render_vpp_gre_create t COMMAND_LEN)) (h, l) = (e1, h1, l1)"
    by (metis surj_pair)
  obtain new where new: "l1 = l @ new" "created_gre ctx new = (if e1 = EN_ERR_NONE then [gre_argv ctx t] else [])"
    using create_call [OF 1 assms(2)] by blast
  show ?case
  proof (cases "e1 = EN_ERR_NONE")
    case False
    with Cons.prems 1 have "run_state (delete_created (log_host host) ctx created) (h1, l1) = (e, h', l')" by simp
    from undone [OF Cons.prems(1) _ this] new False Cons.prems(3) show ?thesis by simp
  next
    case True
    have del: "list_all (deletable ctx) (t # created)"
      using created_is_deletable [OF 1 [unfolded True]] Cons.prems(1,2) by simp
    obtain e2 h2 l2 where 2: "run_state (set_up_gre (log_host host) ctx t) (h1, l1) = (e2, h2, l2)"
      by (metis surj_pair)
    obtain new2 where new2: "l2 = l1 @ new2" "created_gre ctx new2 = []"
      using set_up_calls [OF 2 assms(2)] by blast
    have inv: "created_gre ctx l2 = map (gre_argv ctx) (rev (t # created))"
      using new new2 True Cons.prems(3) by simp
    show ?thesis
    proof (cases "e2 = EN_ERR_NONE")
      case ok: True
      with Cons.prems 1 2 True have "run_state (create_gre_tunnels (log_host host) ctx (t # created) ts) (h2, l2) = (e, h', l')"
        by simp
      with Cons.IH [OF del _ inv] Cons.prems show ?thesis by simp
    next
      case False
      with Cons.prems 1 2 True have "run_state (delete_created (log_host host) ctx (t # created)) (h2, l2) = (e, h', l')"
        by simp
      from undone [OF del inv this] show ?thesis .
    qed
  qed
qed simp

text \<open>
  C15. When the setup of the GRE interfaces of a path fails at any command, the error is \<open>EN_ERR_FORWARDING_UPDATE_FAILED\<close>,
  and after the commands of the setup the adapter has run, for exactly the interfaces that were created and in the reverse
  order of their creation, the command that created them with the word \<open>del\<close> appended; no other path's interface is
  deleted.
\<close>

theorem failed_gre_setup_is_undone:
  assumes "wf_vpp_ctx ctx" "\<not> xc_dry_run ctx"
    and "run_state (ensure_vpp_gre_tunnels (log_host host) ctx p) (h, []) = (e, h', log')" "e \<noteq> EN_ERR_NONE"
  shows "e = EN_ERR_FORWARDING_UPDATE_FAILED \<and>
    (\<exists>setup undo. log' = setup @ undo \<and>
      map fst undo = map (\<lambda>a. Exec (a @ [''del''])) (rev (created_gre ctx setup)))"
proof -
  have "list_all gre_fits (ctx_gre_tunnels ctx p)"
    using assms(1) ctx_gre_tunnels_all by (auto simp: wf_vpp_ctx_def)
  with create_loop [OF assms(1,2), of "[]" "ctx_gre_tunnels ctx p" "[]"] assms(3,4) show ?thesis
    by (simp add: ensure_vpp_gre_tunnels_def)
qed

lemma sample_wf_vpp: "wf_vpp_ctx (sample_vpp_ctx dry_run)"
  by (simp add: wf_vpp_ctx_def sample_vpp_ctx_def gre_fits_def sample_gre_def zero_tunnel_def outer_local_def outer_remote_def)

text \<open>The address of the first interface cannot be set.\<close>

theorem failed_gre_setup_is_undone_witness:
  "\<exists>setup undo. calls (ensure_vpp_gre_tunnels (log_host (sample_host ''address'' [])) (sample_vpp_ctx False) sample_gre_path) () =
      setup @ undo \<and>
    map fst undo = map (\<lambda>a. Exec (a @ [''del''])) (rev (created_gre (sample_vpp_ctx False) setup))"
proof -
  let ?m = "ensure_vpp_gre_tunnels (log_host (sample_host ''address'' [])) (sample_vpp_ctx False) sample_gre_path"
  obtain e h log' where run: "run_state ?m ((), []) = (e, h, log')" by (metis surj_pair)
  have "fst (run_state ?m ((), [])) \<noteq> EN_ERR_NONE" by code_simp
  with run have "e \<noteq> EN_ERR_NONE" by simp
  moreover have "\<not> xc_dry_run (sample_vpp_ctx False)" by (simp add: sample_vpp_ctx_def)
  ultimately show ?thesis
    using failed_gre_setup_is_undone [OF sample_wf_vpp _ run] run by (simp add: calls_def)
qed

end
