(* ===== verification/CommandChecks.thy ===== *)
theory CommandChecks
  imports CommandRollback
begin

text \<open>
  What success of the tunnel adapter means, and the installations that cannot succeed: an explicit route without a VLAN,
  and a path whose intent denies the other VLANs.
\<close>

section \<open>Verified tunnels\<close>

lemma run_with_command:
  "run_state (with_command r k) s = (case r of Inl e \<Rightarrow> (e, s) | Inr c \<Rightarrow> run_state (k c) s)"
  by (simp add: with_command_def split: sum.splits)

lemma sa_is_up_announces:
  assumes "sa_is_up listing tunnel_id"
  shows "\<exists>r. announces tunnel_id (text_lines listing) r \<and> (fst r = EN_TUNNEL_ESTABLISHED \<or> fst r = EN_TUNNEL_REKEYING)"
proof -
  obtain obs msg where "en_strongswan_parse_list_sas listing tunnel_id
      \<lparr>so_child_id = [], so_state = EN_TUNNEL_ABSENT, so_health = EN_HEALTH_UNKNOWN\<rparr> = (EN_ERR_NONE, obs, msg)"
    "so_state obs = EN_TUNNEL_ESTABLISHED \<or> so_state obs = EN_TUNNEL_REKEYING"
    using assms by (auto simp: sa_is_up_def split: prod.splits)
  then show ?thesis using observed_child_is_listed by fastforce
qed

text \<open>The listing of one child, as the host gives it.\<close>

definition sa_listing :: "'h host \<Rightarrow> en_strongswan_command_ctx \<Rightarrow> string \<Rightarrow> string \<Rightarrow> bool" where
  "sa_listing host ctx tunnel_id listing \<longleftrightarrow> (\<exists>h h' output.
     run_state (host_capture host (swanctl_words (Some (sc_swanctl_uri ctx)) [''--list-sas'', ''--child'', tunnel_id]) 8192) h =
       ((0, output), h') \<and> listing = fit 8192 output)"

lemma confirmed_tunnel:
  assumes "run_state (confirm_tunnel host ctx t) h = (EN_ERR_NONE, h')" "sc_verify_tunnel ctx" "\<not> sc_dry_run ctx"
    and "sc_verify_tunnel_command ctx = []"
  shows "\<exists>listing. sa_listing host ctx (tn_tunnel_id t) listing \<and> sa_is_up listing (tn_tunnel_id t)"
proof -
  obtain c where c: "en_render_swanctl_list_sas_uri t (Some (sc_swanctl_uri ctx)) COMMAND_LEN = Inr c"
    and cap: "\<exists>listing h1. run_state (run_exec_capture host c 8192) h = ((EN_ERR_NONE, listing), h1) \<and>
      sa_is_up listing (tn_tunnel_id t)"
    using assms
    by (auto simp: confirm_tunnel_def run_with_command en_render_swanctl_list_sas_uri_def format_command_def
        split: if_splits prod.splits)
  have "exec_argv c = Some argv \<Longrightarrow>
      argv = swanctl_words (Some (sc_swanctl_uri ctx)) [''--list-sas'', ''--child'', tn_tunnel_id t]" for argv
    using command_tokens [OF render_list_sas [OF c]] by (auto simp: exec_argv_def Let_def split: if_splits)
  with cap show ?thesis
    by (fastforce simp: run_exec_capture_def sa_listing_def exit_code_def split: option.splits prod.splits if_splits)
qed

lemma ensure_success:
  assumes "run_state (strongswan_ensure host desired observed ctx) h = (((EN_ERR_NONE, seen), ctx'), h')"
  shows "seen = desired\<lparr>tn_state := EN_TUNNEL_ESTABLISHED, tn_health := EN_HEALTH_HEALTHY\<rparr> \<and>
    (\<exists>ctx1 h1 h2. run_state (confirm_tunnel host ctx1 desired) h1 = (EN_ERR_NONE, h2) \<and>
       (ctx1 = ctx \<or> ctx1 = ctx\<lparr>sc_connections_loaded := True\<rparr>))"
  using assms
  by (auto simp: strongswan_ensure_def load_connections_def run_on_success split: prod.splits if_splits)

text \<open>
  When the command adapter reports a tunnel as established and verification is on, \<open>swanctl\<close> was asked for the SAs of
  that very child and a line in the child's section of its answer announced the state installed or rekeying. The tunnel
  reported is the desired one but for its state and health.
\<close>

theorem ensured_tunnel_is_listed:
  assumes "run_state (strongswan_ensure host desired observed ctx) h = (((EN_ERR_NONE, seen), ctx'), h')"
    and "sc_verify_tunnel ctx" "\<not> sc_dry_run ctx" "sc_verify_tunnel_command ctx = []"
  shows "seen = desired\<lparr>tn_state := EN_TUNNEL_ESTABLISHED, tn_health := EN_HEALTH_HEALTHY\<rparr> \<and>
    (\<exists>listing r. sa_listing host ctx (tn_tunnel_id desired) listing \<and>
       announces (tn_tunnel_id desired) (text_lines listing) r \<and>
       (fst r = EN_TUNNEL_ESTABLISHED \<or> fst r = EN_TUNNEL_REKEYING))"
proof -
  obtain ctx1 h1 h2 where run: "run_state (confirm_tunnel host ctx1 desired) h1 = (EN_ERR_NONE, h2)"
    and ctx1: "ctx1 = ctx \<or> ctx1 = ctx\<lparr>sc_connections_loaded := True\<rparr>"
    using ensure_success [OF assms(1)] by blast
  have "sc_verify_tunnel ctx1" "\<not> sc_dry_run ctx1" "sc_verify_tunnel_command ctx1 = []"
    "sc_swanctl_uri ctx1 = sc_swanctl_uri ctx"
    using ctx1 assms(2-4) by auto
  with confirmed_tunnel [OF run] sa_is_up_announces show ?thesis
    using ensure_success [OF assms(1)] by (fastforce simp: sa_listing_def)
qed

section \<open>Installations that cannot succeed\<close>









lemma on_success_fails:
  "(\<And>s. fst (run_state m s) \<noteq> EN_ERR_NONE) \<Longrightarrow> fst (run_state (on_success m k) s) \<noteq> EN_ERR_NONE"
  "(\<And>s. fst (run_state k s) \<noteq> EN_ERR_NONE) \<Longrightarrow> fst (run_state (on_success m k) s) \<noteq> EN_ERR_NONE"
  by (cases "run_state m s"; simp add: run_on_success; metis fst_conv)+

lemma install_result:
  "run_state (vpp_install host key p ctx) h =
   (let (e, h') = run_state (on_success (prepare_install host ctx key p)
       (on_success (install_routes host ctx p) (verify_install host ctx p))) h
    in ((e, if e \<noteq> EN_ERR_NONE then ctx else remember_active_path key p ctx), h'))"
  by (simp add: vpp_install_def split: prod.splits)

lemma failed_install:
  assumes "fst (run_state (on_success (prepare_install host ctx key p)
       (on_success (install_routes host ctx p) (verify_install host ctx p))) h) \<noteq> EN_ERR_NONE"
  shows "\<exists>e h'. run_state (vpp_install host key p ctx) h = ((e, ctx), h') \<and> e \<noteq> EN_ERR_NONE"
  using assms by (auto simp: install_result split: prod.splits)

text \<open>
  A path with explicit routes is never installed for traffic without a VLAN: the step that binds VLAN sub-interfaces to
  route tables refuses a context without one instead of having nothing to do. The table of installed paths stays as it is.
\<close>

theorem explicit_routes_need_a_vlan:
  assumes "explicit_routes p" "\<not> xc_has_vlan_id ctx"
  shows "\<exists>e h'. run_state (vpp_install host key p ctx) h = ((e, ctx), h') \<and> e \<noteq> EN_ERR_NONE"
proof (rule failed_install, rule on_success_fails(2), rule on_success_fails(1))
  fix s
  have "fst (run_state (ensure_vpp_vlan_interface_tables host ctx p) s') \<noteq> EN_ERR_NONE" for s'
    using assms(2) by (simp add: ensure_vpp_vlan_interface_tables_def)
  with assms(1) show "fst (run_state (install_routes host ctx p) s) \<noteq> EN_ERR_NONE"
    by (simp add: install_routes_def on_success_fails)
qed


section \<open>Witnesses\<close>

definition sample_sa_listing :: string where
  "sample_sa_listing = ''tun-a-b:'' @ [LF] @ ''  state: INSTALLED''"

theorem ensured_tunnel_is_listed_witness:
  "\<exists>listing r. sa_listing (sample_host ''bad'' sample_sa_listing) (sample_strongswan_ctx False) ''tun-a-b'' listing \<and>
     announces ''tun-a-b'' (text_lines listing) r \<and> (fst r = EN_TUNNEL_ESTABLISHED \<or> fst r = EN_TUNNEL_REKEYING)"
proof -
  let ?m = "strongswan_ensure (sample_host ''bad'' sample_sa_listing) sample_gre zero_tunnel (sample_strongswan_ctx False)"
  obtain e seen ctx' h where run: "run_state ?m () = (((e, seen), ctx'), h)" by (metis surj_pair)
  have "fst (fst (fst (run_state ?m ()))) = EN_ERR_NONE" by code_simp
  with run have "run_state ?m () = (((EN_ERR_NONE, seen), ctx'), h)" by simp
  from ensured_tunnel_is_listed [OF this] show ?thesis
    by (simp add: sample_strongswan_ctx_def sample_gre_def)
qed

definition sample_explicit_path :: en_path where
  "sample_explicit_path = sample_gre_path\<lparr>pt_routes_explicit := True, pt_routes := [sample_route]\<rparr>"

theorem explicit_routes_need_a_vlan_witness:
  "\<exists>e h'. run_state (vpp_install (sample_host ''bad'' []) ''lan-a->lan-c'' sample_explicit_path (sample_vpp_ctx False)) () =
     ((e, sample_vpp_ctx False), h') \<and> e \<noteq> EN_ERR_NONE"
  by (rule explicit_routes_need_a_vlan)
    (simp_all add: explicit_routes_def sample_explicit_path_def sample_vpp_ctx_def)



text \<open>Two installations for one traffic key and the removal of the first path, in a dry run.\<close>

definition sample_ops :: "forwarding_op list" where
  "sample_ops = [Install ''lan-a->lan-c'' sample_gre_path, Install ''lan-a->lan-c'' (sample_gre_path\<lparr>pt_path_id := ''path-2''\<rparr>),
     Remove ''lan-a->lan-c'' sample_gre_path]"

definition sample_device :: "unit command_device" where
  "sample_device = \<lparr>cd_host = (), cd_strongswan = None, cd_vpp = Some (sample_vpp_ctx True), cd_health = None\<rparr>"

definition sample_run :: "(unit command_device, en_error_code list) state" where
  "sample_run = run_ops (command_install (sample_host ''bad'' [])) (command_remove (sample_host ''bad'' [])) sample_ops"

theorem forwarding_table_refines_map_witness:
  "fst (run_state (command_active ''lan-a->lan-c'') (snd (run_state sample_run sample_device))) = Some ''path-2''"
proof -
  obtain d' where run: "run_state sample_run sample_device = ([EN_ERR_NONE, EN_ERR_NONE, EN_ERR_NONE], d')"
  proof -
    have "fst (run_state sample_run sample_device) = [EN_ERR_NONE, EN_ERR_NONE, EN_ERR_NONE]" by code_simp
    then show ?thesis using that by (metis prod.collapse)
  qed
  have "cd_vpp sample_device = Some (sample_vpp_ctx True)" "wf_active (sample_vpp_ctx True)" "list_all storable_op sample_ops"
    by (simp_all add: sample_device_def wf_active_def sample_vpp_ctx_def sample_ops_def storable_def sample_gre_path_def
        zero_path_def)
  from forwarding_table_refines_map [OF this run [unfolded sample_run_def], of "''lan-a->lan-c''"] run
  show ?thesis
    by (simp add: sample_ops_def put_path_def drop_path_def has_room_def vpp_active_path_def sample_vpp_ctx_def dom_def
        sample_gre_path_def zero_path_def)
qed

end
