(* ===== verification/DaemonTelemetry.thy ===== *)
theory DaemonTelemetry
  imports MockAdapters YamlSafety Telemetry
begin

text \<open>
  The telemetry of the daemon \<open>src/examples/eventnetd.c\<close>: which paths of the configuration it has measured, and
  which records it accepts. The health mock holds one record per path of the configuration.
\<close>

section \<open>Lookups\<close>

text \<open>Without an identifier the first intent is taken.\<close>

definition find_intent :: "en_yaml_config \<Rightarrow> string option \<Rightarrow> en_intent option" where
  "find_intent config intent_id =
     find (\<lambda>i. case intent_id of None \<Rightarrow> True | Some x \<Rightarrow> strcmp (it_intent_id i) x = 0) (yc_intents config)"

definition intent_references_path :: "en_intent \<Rightarrow> string \<Rightarrow> bool" where
  "intent_references_path intent path_id \<longleftrightarrow>
     (let s = it_path_selection intent in
      if path_id = [] then False
      else if ps_mode s = EN_SELECT_EXPLICIT \<and> strcmp (ps_path_id s) path_id = 0 then True
      else if list_ex (\<lambda>x. strcmp x path_id = 0) (ps_candidates s) then True
      else fp_enabled (it_fallback intent) \<and> strcmp (fp_path_id (it_fallback intent)) path_id = 0)"

definition find_telemetry_path :: "en_yaml_config \<Rightarrow> string \<Rightarrow> en_path option" where
  "find_telemetry_path config path_id = find (\<lambda>p. strcmp (pt_path_id p) path_id = 0) (yc_paths config)"

definition find_telemetry_tunnel :: "en_yaml_config \<Rightarrow> string \<Rightarrow> en_tunnel option" where
  "find_telemetry_tunnel config tunnel_id = find (\<lambda>t. strcmp (tn_tunnel_id t) tunnel_id = 0) (yc_tunnels config)"

definition telemetry_edge_allows_vlan :: "en_vpp_edge \<Rightarrow> int \<Rightarrow> bool" where
  "telemetry_edge_allows_vlan edge vlan_id \<longleftrightarrow>
     ve_allowed_vlans edge = [] \<or> list_ex (\<lambda>v. v = vlan_id) (ve_allowed_vlans edge)"

definition telemetry_edge_belongs_to_path :: "en_path \<Rightarrow> string \<Rightarrow> bool" where
  "telemetry_edge_belongs_to_path path node_id \<longleftrightarrow>
     strcmp node_id (pt_source path) = 0 \<or> strcmp node_id (pt_destination path) = 0 \<or>
     list_ex (\<lambda>g. strcmp node_id (sg_from_node g) = 0 \<or> strcmp node_id (sg_to_node g) = 0) (pt_segments path)"

section \<open>The interface of a record\<close>

text \<open>
  The loop over the edges: an edge of another place or VLAN, or of another interface, is skipped. A
  sub-interface name that does not fit ends the search without a match.
\<close>

definition edge_skipped :: "en_intent \<Rightarrow> en_path \<Rightarrow> string \<Rightarrow> en_vpp_edge \<Rightarrow> bool" where
  "edge_skipped intent path interface_name edge \<longleftrightarrow>
     \<not> telemetry_edge_belongs_to_path path (ve_node_id edge) \<or>
     (ts_has_vlan_id (it_traffic intent) \<and> \<not> telemetry_edge_allows_vlan edge (ts_vlan_id (it_traffic intent))) \<or>
     ve_vpp_interface edge = [] \<or> \<not> starts_with interface_name (ve_vpp_interface edge)"

definition expected_name :: "en_intent \<Rightarrow> en_vpp_edge \<Rightarrow> string" where
  "expected_name intent edge = ve_vpp_interface edge @ ''.'' @ int_to_dec (ts_vlan_id (it_traffic intent))"

fun match_edges :: "en_intent \<Rightarrow> en_path \<Rightarrow> string \<Rightarrow> en_vpp_edge list \<Rightarrow> bool" where
  "match_edges intent path interface_name [] = False"
| "match_edges intent path interface_name (edge # edges) =
     (if edge_skipped intent path interface_name edge then match_edges intent path interface_name edges
      else if ts_has_vlan_id (it_traffic intent) then
        if EN_MAX_ID_LEN \<le> length (expected_name intent edge) then False
        else if strcmp interface_name (expected_name intent edge) = 0 then True
        else match_edges intent path interface_name edges
      else if take 1 (drop (length (ve_vpp_interface edge)) interface_name) \<in> {[], ''.''} then True
      else match_edges intent path interface_name edges)"

definition telemetry_interface_matches_path ::
  "en_yaml_config \<Rightarrow> en_intent \<Rightarrow> en_path \<Rightarrow> string \<Rightarrow> bool" where
  "telemetry_interface_matches_path config intent path interface_name \<longleftrightarrow>
     interface_name \<noteq> [] \<and> match_edges intent path interface_name (yc_vpp_edges config)"

section \<open>The identity of a record\<close>

definition tunnel_matches :: "en_path \<Rightarrow> en_path_health \<Rightarrow> bool" where
  "tunnel_matches path r \<longleftrightarrow> list_ex (\<lambda>g. strcmp (ph_observed_tunnel_id r) (sg_tunnel_id g) = 0) (pt_segments path)"

definition target_matches :: "en_yaml_config \<Rightarrow> en_path \<Rightarrow> en_path_health \<Rightarrow> bool" where
  "target_matches config path r \<longleftrightarrow>
     strcmp (ph_target r) (pt_destination path) = 0 \<or>
     (pt_route_next_hop path \<noteq> [] \<and> strcmp (ph_target r) (pt_route_next_hop path) = 0) \<or>
     list_ex (\<lambda>g. case find_telemetry_tunnel config (sg_tunnel_id g) of
        None \<Rightarrow> False
      | Some t \<Rightarrow> strcmp (ph_target r) (tn_local_endpoint t) = 0 \<or> strcmp (ph_target r) (tn_remote_endpoint t) = 0)
      (pt_segments path)"

definition route_matches :: "en_path \<Rightarrow> en_path_health \<Rightarrow> bool" where
  "route_matches path r \<longleftrightarrow>
     ((\<not> ph_has_table_id r \<or> pt_routes path = []) \<and>
      strcmp (ph_observed_destination_prefix r) (pt_route_destination_prefix path) = 0 \<and>
      strcmp (ph_observed_next_hop r) (pt_route_next_hop path) = 0) \<or>
     list_ex (\<lambda>t. strcmp (ph_observed_destination_prefix r) (rt_destination_prefix t) = 0 \<and>
        strcmp (ph_observed_next_hop r) (rt_next_hop t) = 0 \<and>
        (\<not> ph_has_table_id r \<or> rt_table_id t < 0 \<or> rt_table_id t = ph_table_id r)) (pt_routes path)"

text \<open>\<open>None\<close> when the record is accepted, else the reason.\<close>

definition telemetry_identity_matches :: "en_yaml_config \<Rightarrow> en_intent \<Rightarrow> en_path_health \<Rightarrow> string option" where
  "telemetry_identity_matches config intent r =
     (case find_telemetry_path config (ph_path_id r) of
        None \<Rightarrow> Some ''telemetry path is not defined''
      | Some path \<Rightarrow>
          if ph_source_node r \<noteq> [] \<and> strcmp (ph_source_node r) (pt_source path) \<noteq> 0
          then Some ''telemetry source does not match path source''
          else if ph_observed_tunnel_id r \<noteq> [] \<and> \<not> tunnel_matches path r
          then Some ''telemetry tunnel does not belong to path''
          else if ph_observed_interface_name r \<noteq> [] \<and>
            \<not> telemetry_interface_matches_path config intent path (ph_observed_interface_name r)
          then Some ''telemetry interface does not belong to path''
          else if ph_target r \<noteq> [] \<and> \<not> target_matches config path r
          then Some ''telemetry target does not match path endpoints''
          else if ph_observed_destination_prefix r \<noteq> [] \<or> ph_observed_next_hop r \<noteq> [] then
            if ph_observed_destination_prefix r = [] \<or> ph_observed_next_hop r = []
            then Some ''telemetry route identity is incomplete''
            else if \<not> route_matches path r then Some ''telemetry route does not match path route''
            else None
          else None)"

section \<open>The health table\<close>

text \<open>A path that nothing has been heard of counts as failed.\<close>

definition unknown_health :: "en_path \<Rightarrow> en_path_health" where
  "unknown_health p = zero_health\<lparr>ph_path_id := fit EN_MAX_ID_LEN (pt_path_id p),
     ph_state := EN_HEALTH_FAILED, ph_packet_loss_percent := Fin 100\<rparr>"

definition set_unknown_health :: "en_yaml_config \<Rightarrow> en_path_health list" where
  "set_unknown_health config = fold (\<lambda>p. en_health_probe_mock_set (unknown_health p)) (yc_paths config) []"

definition set_batch :: "en_path_health list \<Rightarrow> en_path_health list \<Rightarrow> en_path_health list" where
  "set_batch batch overrides = fold en_health_probe_mock_set batch overrides"

text \<open>The table covers the configuration: one record per path, in its order.\<close>

definition covers :: "en_yaml_config \<Rightarrow> en_path_health list \<Rightarrow> bool" where
  "covers config overrides \<longleftrightarrow> map ph_path_id overrides = map pt_path_id (yc_paths config)"

lemma merge_health_id: "ph_path_id h = ph_path_id c \<Longrightarrow> ph_path_id (merge_health c h) = ph_path_id c"
  by (simp add: merge_health_def merge_observation_def merge_measurement_def merge_prefix_def merge_interface_def
      merge_route_def Let_def)

lemma mock_set_known:
  assumes "ph_path_id h \<in> ph_path_id ` set overrides"
  shows "map ph_path_id (en_health_probe_mock_set h overrides) = map ph_path_id overrides"
proof -
  obtain i where i: "find_index (\<lambda>r. strcmp (ph_path_id r) (ph_path_id h) = 0) overrides = Some i"
    using assms find_index_None [of "\<lambda>r. strcmp (ph_path_id r) (ph_path_id h) = 0" overrides] by fastforce
  then have "ph_path_id h = ph_path_id (overrides ! i)" using find_index_hit [OF i] by simp
  then have "ph_path_id (merge_health (overrides ! i) h) = ph_path_id (overrides ! i)" by (rule merge_health_id)
  then show ?thesis by (simp add: en_health_probe_mock_set_def i [simplified] map_update_same)
qed

lemma mock_set_new:
  "ph_path_id h \<notin> ph_path_id ` set overrides \<Longrightarrow> length overrides < EN_MAX_PATHS \<Longrightarrow>
   en_health_probe_mock_set h overrides = overrides @ [h]"
  by (simp add: en_health_probe_mock_set_def find_index_None image_iff split: option.splits)
    (metis (mono_tags, lifting) find_index_hit find_index_less nth_mem strcmp_eq_0)

lemma unknown_id: "length (pt_path_id p) < EN_MAX_ID_LEN \<Longrightarrow> ph_path_id (unknown_health p) = pt_path_id p"
  by (simp add: unknown_health_def fit_id)

lemma unknown_fold:
  "distinct (map ph_path_id overrides @ map pt_path_id ps) \<Longrightarrow> length overrides + length ps \<le> EN_MAX_PATHS \<Longrightarrow>
   \<forall>p\<in>set ps. length (pt_path_id p) < EN_MAX_ID_LEN \<Longrightarrow>
   fold (\<lambda>p. en_health_probe_mock_set (unknown_health p)) ps overrides = overrides @ map unknown_health ps"
proof (induction ps arbitrary: overrides)
  case (Cons p ps)
  have "en_health_probe_mock_set (unknown_health p) overrides = overrides @ [unknown_health p]"
    using Cons.prems by (intro mock_set_new) (auto simp: unknown_id)
  moreover have "fold (\<lambda>p. en_health_probe_mock_set (unknown_health p)) ps (overrides @ [unknown_health p]) =
      (overrides @ [unknown_health p]) @ map unknown_health ps"
    using Cons.prems by (intro Cons.IH) (auto simp: unknown_id)
  ultimately show ?case by simp
qed simp

lemma well_formed_paths:
  assumes "well_formed_config c"
  shows "distinct (map pt_path_id (yc_paths c))" "length (yc_paths c) \<le> EN_MAX_PATHS"
    "\<forall>p\<in>set (yc_paths c). length (pt_path_id p) < EN_MAX_ID_LEN"
  using assms by (auto simp: well_formed_config_def config_counts_valid_def path_ok_def valid_config_token_def)

lemma set_unknown_health_eq:
  "well_formed_config c \<Longrightarrow> set_unknown_health c = map unknown_health (yc_paths c)"
  using unknown_fold [of "[]" "yc_paths c"] well_formed_paths by (simp add: set_unknown_health_def)

lemma unknown_covers: "well_formed_config c \<Longrightarrow> covers c (set_unknown_health c)"
  using well_formed_paths(3) [of c] by (simp add: set_unknown_health_eq covers_def unknown_id)

lemma identity_known:
  assumes "telemetry_identity_matches config intent r = None"
  shows "ph_path_id r \<in> pt_path_id ` set (yc_paths config)"
proof -
  obtain p where "find_telemetry_path config (ph_path_id r) = Some p"
    using assms by (cases "find_telemetry_path config (ph_path_id r)") (auto simp: telemetry_identity_matches_def)
  from find_Some_mem [OF this [unfolded find_telemetry_path_def]] show ?thesis by force
qed

lemma covers_ids: "covers c xs \<Longrightarrow> ph_path_id ` set xs = pt_path_id ` set (yc_paths c)"
  unfolding covers_def by (metis list.set_map)

lemma set_batch_covers:
  "covers c overrides \<Longrightarrow> \<forall>r\<in>set batch. telemetry_identity_matches c intent r = None \<Longrightarrow>
   covers c (set_batch batch overrides)"
proof (induction batch arbitrary: overrides)
  case (Cons r batch)
  have "ph_path_id r \<in> ph_path_id ` set overrides"
    using Cons.prems identity_known [of c intent r] by (simp add: covers_ids)
  then have "covers c (en_health_probe_mock_set r overrides)"
    using Cons.prems(1) mock_set_known [of r overrides] by (simp add: covers_def)
  with Cons show ?case by (simp add: set_batch_def)
qed (simp add: set_batch_def)

end
