(* ===== verification/DaemonState.thy ===== *)
theory DaemonState
  imports DaemonTelemetry CommandForwarding ControllerCore
begin

text \<open>
  The state file of \<open>src/examples/eventnetd.c\<close>: the applied path of the intent's traffic, saved after every
  reconciliation and restored at the start. The theory holds the daemon's outside state, the file system
  calls the daemon makes, \<open>persist_state\<close> and \<open>restore_state\<close>.
\<close>

section \<open>Files\<close>

datatype file_kind = REGULAR | SYMLINK | OTHER_KIND

record disk_file =
  df_kind :: file_kind
  df_shared :: bool
  df_content :: string

text \<open>
  \<open>df_shared\<close> says that the group or others may write. \<open>dk_faults n\<close> says whether the \<open>n\<close>-th system call fails,
  and for a write after how many bytes; a call also fails for the reasons below.
\<close>

record disk =
  dk_files :: "string \<Rightarrow> disk_file option"
  dk_faults :: "nat \<Rightarrow> nat option"
  dk_calls :: nat

definition fault :: "(disk, nat option) state" where
  "fault = State (\<lambda>d. (dk_faults d (dk_calls d), d\<lparr>dk_calls := Suc (dk_calls d)\<rparr>))"

definition set_file :: "string \<Rightarrow> disk_file option \<Rightarrow> (disk, unit) state" where
  "set_file name f = modify (\<lambda>d. d\<lparr>dk_files := (dk_files d)(name := f)\<rparr>)"

text \<open>\<open>unlink\<close> and \<open>remove\<close>, whose result the daemon ignores.\<close>

definition unlink :: "string \<Rightarrow> (disk, unit) state" where
  "unlink name = do { f \<leftarrow> fault; if f = None then set_file name None else skip }"

text \<open>
  What reading an existing state file gives: \<open>open\<close> with \<open>O_NOFOLLOW\<close>, the check of its kind and mode, \<open>fdopen\<close>. The
  content is text without a NUL byte, and reading it does not fail.
\<close>

datatype state_source = NO_FILE | REFUSED | CONTENT string

definition open_state :: "string \<Rightarrow> (disk, state_source) state" where
  "open_state name = do {
     opened \<leftarrow> fault;
     files \<leftarrow> gets dk_files;
     case files name of
       None \<Rightarrow> State_Monad.return (if opened = None then NO_FILE else REFUSED)
     | Some file \<Rightarrow>
         if opened \<noteq> None \<or> df_kind file = SYMLINK then State_Monad.return REFUSED
         else do {
           checked \<leftarrow> fault;
           if checked \<noteq> None \<or> df_kind file \<noteq> REGULAR \<or> df_shared file then State_Monad.return REFUSED
           else do {
             stream \<leftarrow> fault;
             State_Monad.return (if stream = None then CONTENT (df_content file) else REFUSED)
           }
         }
   }"

section \<open>The outside state of the daemon\<close>

text \<open>
  \<open>da_status\<close> are the lines of the status output, \<open>None\<close> without one; \<open>da_shutdown n\<close> is the \<open>n\<close>-th reading of the
  flag that the handler of \<open>SIGINT\<close> and \<open>SIGTERM\<close> sets.
\<close>

record status_line =
  sl_excluded :: "(string \<times> string) list"
  sl_fields :: json_object

record 'h daemon =
  da_mocks :: mocks
  da_command :: "'h command_device"
  da_disk :: disk
  da_status :: "status_line list option"
  da_shutdown :: "nat \<Rightarrow> bool"
  da_polls :: nat

definition on_disk :: "(disk, 'a) state \<Rightarrow> ('h daemon, 'a) world_act" where
  "on_disk m = on_dev (State (\<lambda>d. case run_state m (da_disk d) of (a, k) \<Rightarrow> (a, d\<lparr>da_disk := k\<rparr>)))"

section \<open>Saving\<close>

definition temporary_name :: "int \<Rightarrow> string \<Rightarrow> string" where
  "temporary_name pid filename = filename @ ''.tmp-eventnetd-'' @ int_to_dec pid"

text \<open>\<open>open\<close> with \<open>O_CREAT | O_EXCL\<close>, then \<open>fdopen\<close>; whichever fails, the name is unlinked.\<close>

definition create_temporary :: "string \<Rightarrow> (disk, bool) state" where
  "create_temporary name = do {
     opened \<leftarrow> fault;
     files \<leftarrow> gets dk_files;
     if opened \<noteq> None \<or> files name \<noteq> None then do { _ \<leftarrow> unlink name; State_Monad.return False }
     else do {
       _ \<leftarrow> set_file name (Some \<lparr>df_kind = REGULAR, df_shared = False, df_content = []\<rparr>);
       stream \<leftarrow> fault;
       if stream \<noteq> None then do { _ \<leftarrow> unlink name; State_Monad.return False }
       else State_Monad.return True
     }
   }"

text \<open>\<open>fprintf\<close>, \<open>fflush\<close> and \<open>fclose\<close> of a new file.\<close>

definition write_file :: "string \<Rightarrow> string \<Rightarrow> (disk, bool) state" where
  "write_file name content = do {
     f \<leftarrow> fault;
     _ \<leftarrow> set_file name (Some \<lparr>df_kind = REGULAR, df_shared = False,
       df_content = (case f of None \<Rightarrow> content | Some n \<Rightarrow> take n content)\<rparr>);
     State_Monad.return (f = None)
   }"

definition rename :: "string \<Rightarrow> string \<Rightarrow> (disk, bool) state" where
  "rename old new = do {
     f \<leftarrow> fault;
     if f \<noteq> None then State_Monad.return False
     else do {
       files \<leftarrow> gets dk_files;
       _ \<leftarrow> set_file new (files old);
       _ \<leftarrow> set_file old None;
       State_Monad.return True
     }
   }"

definition state_line :: "string \<Rightarrow> string \<Rightarrow> string" where
  "state_line traffic_key path_id = traffic_key @ [TAB] @ path_id @ [LF]"

definition persist_state ::
  "int \<Rightarrow> string option \<Rightarrow> en_intent \<Rightarrow> en_reconcile_result \<Rightarrow> (disk, int) state" where
  "persist_state pid filename_ptr intent result =
     (case filename_ptr of
        None \<Rightarrow> State_Monad.return 0
      | Some filename \<Rightarrow>
          let temporary = temporary_name pid filename in
          if 512 \<le> length temporary then State_Monad.return 1
          else do {
            created \<leftarrow> create_temporary temporary;
            if \<not> created then State_Monad.return 1
            else do {
              written \<leftarrow> write_file temporary (state_line (transition_key intent) (rr_selected_path result));
              if \<not> written then do { _ \<leftarrow> unlink temporary; State_Monad.return 1 }
              else do {
                renamed \<leftarrow> rename temporary filename;
                if \<not> renamed then do { _ \<leftarrow> unlink temporary; State_Monad.return 1 }
                else State_Monad.return 0
              }
            }
          })"

section \<open>Restoring\<close>

definition valid_state_field :: "string \<Rightarrow> bool \<Rightarrow> bool" where
  "valid_state_field s path_id \<longleftrightarrow> s \<noteq> [] \<and>
     list_all (\<lambda>c. token_char c \<or> (\<not> path_id \<and> (c = CHR ''>'' \<or> c = CHR ''|'' \<or> c = CHR ''=''))) s"

text \<open>\<open>fgets\<close> with a buffer of \<open>n\<close> bytes.\<close>

definition fgets_chunk :: "nat \<Rightarrow> string \<Rightarrow> string" where
  "fgets_chunk n s =
     (let w = take (n - 1) s; l = takeWhile (\<lambda>c. c \<noteq> LF) w in if length l < length w then l @ [LF] else l)"

lemma fgets_chunk_length:
  assumes "2 \<le> n" "s \<noteq> []"
  shows "0 < length (fgets_chunk n s)" "length (fgets_chunk n s) \<le> length s"
proof -
  have "length (takeWhile (\<lambda>c. c \<noteq> LF) (take (n - 1) s)) \<le> length (take (n - 1) s)" by (rule length_takeWhile_le)
  moreover have "length (take (n - 1) s) \<le> length s" by simp
  ultimately show "0 < length (fgets_chunk n s)" "length (fgets_chunk n s) \<le> length s"
    using assms by (cases s; cases "n - 1"; auto simp: fgets_chunk_def Let_def)+
qed

function fgets_chunks :: "nat \<Rightarrow> string \<Rightarrow> string list" where
  "fgets_chunks n s = (if s = [] \<or> n < 2 then [] else fgets_chunk n s # fgets_chunks n (drop (length (fgets_chunk n s)) s))"
  by auto
termination
  by (relation "measure (\<lambda>(n, s). length s)") (use fgets_chunk_length in auto)

declare fgets_chunks.simps [simp del]

definition STATE_LINE_LEN :: nat where "STATE_LINE_LEN = EN_MAX_TRAFFIC_KEY_LEN + EN_MAX_ID_LEN + 4"

text \<open>One line; a buffer that is full without a line feed is a line that is too long.\<close>

definition restore_line :: "en_intent \<Rightarrow> string \<Rightarrow> ('w, int) act" where
  "restore_line intent line =
     (let key = takeWhile (\<lambda>c. c \<noteq> TAB) line;
          rest = drop (Suc (length key)) line;
          path_id = takeWhile (\<lambda>c. c \<noteq> CR \<and> c \<noteq> LF) rest in
      if LF \<notin> set line \<and> length line = STATE_LINE_LEN - 1 then State_Monad.return 1
      else if TAB \<notin> set line \<or> TAB \<in> set rest then State_Monad.return 1
      else do {
        s \<leftarrow> gets (\<lambda>s. s);
        case en_controller_find_path s (Some path_id) of
          None \<Rightarrow> State_Monad.return 1
        | Some p \<Rightarrow>
            if \<not> valid_state_field key False \<or> \<not> valid_state_field path_id True \<or>
               strcmp key (transition_key intent) \<noteq> 0 \<or> \<not> intent_references_path intent path_id \<or>
               pt_administrative_state p \<noteq> EN_ADMIN_ENABLED \<or> \<not> en_controller_path_nodes_enabled s p
            then State_Monad.return 1
            else if en_controller_applied_path s key \<noteq> None then State_Monad.return 1
            else do {
              e \<leftarrow> en_controller_restore_applied_path (Some key) (Some path_id);
              State_Monad.return (if e \<noteq> EN_ERR_NONE then 1 else 0)
            }
      })"

primrec restore_lines :: "en_intent \<Rightarrow> string list \<Rightarrow> ('w, int) act" where
  "restore_lines intent [] = State_Monad.return 0"
| "restore_lines intent (l # ls) = do {
     status \<leftarrow> restore_line intent l;
     if status \<noteq> 0 then State_Monad.return status else restore_lines intent ls
   }"

definition restore_state :: "en_intent \<Rightarrow> string option \<Rightarrow> ('h daemon, int) act" where
  "restore_state intent filename_ptr =
     (case filename_ptr of
        None \<Rightarrow> State_Monad.return 0
      | Some filename \<Rightarrow> do {
          source \<leftarrow> on_world (on_disk (open_state filename));
          case source of
            NO_FILE \<Rightarrow> State_Monad.return 0
          | REFUSED \<Rightarrow> State_Monad.return 1
          | CONTENT text \<Rightarrow> restore_lines intent (fgets_chunks STATE_LINE_LEN text)
        })"


section \<open>What saving does to the files\<close>

lemma run_fault [simp]: "run_state fault d = (dk_faults d (dk_calls d), d\<lparr>dk_calls := Suc (dk_calls d)\<rparr>)"
  by (simp add: fault_def)

lemma run_set_file [simp]: "run_state (set_file name f) d = ((), d\<lparr>dk_files := (dk_files d)(name := f)\<rparr>)"
  by (simp add: set_file_def)

lemma temporary_differs: "temporary_name pid f \<noteq> f"
proof
  assume "temporary_name pid f = f"
  from arg_cong [OF this, of length] show False by (simp add: temporary_name_def)
qed

lemmas disk_steps = create_temporary_def write_file_def rename_def unlink_def

text \<open>Calls that change no file but \<open>name\<close>.\<close>

definition files_but :: "string set \<Rightarrow> (string \<Rightarrow> disk_file option) \<Rightarrow> disk \<Rightarrow> bool" where
  "files_but names files d \<longleftrightarrow> (\<forall>n. n \<notin> names \<longrightarrow> dk_files d n = files n)"

lemma files_but_kept [wp]:
  "preserves (files_but names files) fault"
  "name \<in> names \<Longrightarrow> preserves (files_but names files) (set_file name f)"
  by (rule preservesI; auto simp: files_but_def)+

lemma files_but_steps [wp]:
  "name \<in> names \<Longrightarrow> preserves (files_but names files) (unlink name)"
  "name \<in> names \<Longrightarrow> preserves (files_but names files) (create_temporary name)"
  "name \<in> names \<Longrightarrow> preserves (files_but names files) (write_file name content)"
  unfolding disk_steps by (intro wp; assumption)+

lemma write_file_outcome:
  "triple (files_but {name} files) (write_file name content)
     (\<lambda>ok d. files_but {name} files d \<and> (ok \<longrightarrow> dk_files d name = Some \<lparr>df_kind = REGULAR, df_shared = False, df_content = content\<rparr>))"
  by (rule tripleI) (auto simp: write_file_def files_but_def)

definition saved :: "(string \<Rightarrow> disk_file option) \<Rightarrow> string \<Rightarrow> string \<Rightarrow> string \<Rightarrow> int \<Rightarrow> disk \<Rightarrow> bool" where
  "saved files filename temporary content e d \<longleftrightarrow> (e = 0 \<or> e = 1) \<and>
     dk_files d filename = (if e = 0 then Some \<lparr>df_kind = REGULAR, df_shared = False, df_content = content\<rparr> else files filename) \<and>
     files_but {filename, temporary} files d \<and> (e = 0 \<longrightarrow> dk_files d temporary = None)"

lemma saved_failed:
  "filename \<noteq> temporary \<Longrightarrow> files_but {temporary} files d \<Longrightarrow> saved files filename temporary content 1 d"
  by (simp add: saved_def files_but_def)

lemma persist_saved:
  assumes "filename \<noteq> temporary_name pid filename"
  shows "triple (files_but {temporary_name pid filename} files) (persist_state pid (Some filename) intent r)
    (saved files filename (temporary_name pid filename) (state_line (transition_key intent) (rr_selected_path r)))"
proof -
  let ?t = "temporary_name pid filename" and ?c = "state_line (transition_key intent) (rr_selected_path r)"
  let ?P = "files_but {?t} files" and ?Q = "saved files filename ?t ?c"
  have fail: "triple ?P (State_Monad.return 1) ?Q"
    by (rule triple_return) (rule saved_failed [OF assms])
  have cleanup: "triple ?P (do { _ \<leftarrow> unlink ?t; State_Monad.return 1 }) ?Q"
    by (rule triple_seq [OF _ fail]) (intro wp; simp)
  have renamed: "triple (\<lambda>d. ?P d \<and> (ok \<longrightarrow> dk_files d ?t = Some \<lparr>df_kind = REGULAR, df_shared = False, df_content = ?c\<rparr>))
      (if \<not> ok then do { _ \<leftarrow> unlink ?t; State_Monad.return 1 }
       else do { renamed \<leftarrow> rename ?t filename;
         if \<not> renamed then do { _ \<leftarrow> unlink ?t; State_Monad.return 1 } else State_Monad.return 0 }) ?Q" for ok
  proof (cases ok)
    case True
    have "triple (\<lambda>d. ?P d \<and> dk_files d ?t = Some \<lparr>df_kind = REGULAR, df_shared = False, df_content = ?c\<rparr>)
        (rename ?t filename) (\<lambda>ok d. if ok then ?Q 0 d else ?P d)"
      by (rule tripleI) (use assms in \<open>auto simp: rename_def files_but_def saved_def split: if_splits\<close>)
    then have "triple (\<lambda>d. ?P d \<and> dk_files d ?t = Some \<lparr>df_kind = REGULAR, df_shared = False, df_content = ?c\<rparr>)
        (do { renamed \<leftarrow> rename ?t filename;
         if \<not> renamed then do { _ \<leftarrow> unlink ?t; State_Monad.return 1 } else State_Monad.return 0 }) ?Q"
      by (rule triple_bind) (auto intro!: triple_if triple_return cleanup [THEN triple_strengthen_pre])
    with True show ?thesis by simp
  next
    case False
    with cleanup show ?thesis by (auto intro: triple_strengthen_pre)
  qed
  have rest: "triple ?P (do { written \<leftarrow> write_file ?t ?c;
      if \<not> written then do { _ \<leftarrow> unlink ?t; State_Monad.return 1 }
       else do { renamed \<leftarrow> rename ?t filename;
         if \<not> renamed then do { _ \<leftarrow> unlink ?t; State_Monad.return 1 } else State_Monad.return 0 } }) ?Q"
    by (rule triple_bind [OF write_file_outcome renamed])
  show ?thesis
    unfolding persist_state_def option.case Let_def
    by (rule triple_if [OF fail], rule triple_seq, intro wp, simp, rule triple_if [OF fail], rule rest)
qed

lemma persist_outcome:
  assumes "run_state (persist_state pid (Some filename) intent r) d = (e, d')"
  shows "(e = 0 \<or> e = 1) \<and>
    dk_files d' filename = (if e = 0 then Some \<lparr>df_kind = REGULAR, df_shared = False,
      df_content = state_line (transition_key intent) (rr_selected_path r)\<rparr> else dk_files d filename) \<and>
    (\<forall>name. name \<noteq> filename \<longrightarrow> name \<noteq> temporary_name pid filename \<longrightarrow> dk_files d' name = dk_files d name) \<and>
    (e = 0 \<longrightarrow> dk_files d' (temporary_name pid filename) = None)"
proof -
  have "files_but {temporary_name pid filename} (dk_files d) d" by (simp add: files_but_def)
  from tripleD [OF persist_saved [OF temporary_differs [symmetric]] this assms] show ?thesis
    by (auto simp: saved_def files_but_def)
qed

text \<open>
  C17. Saving is atomic. It succeeds or fails; on success the state file is a private regular file that holds
  exactly the line of the traffic key and the path, on failure it is the file it was, whichever system call
  fails. No other file but the temporary one changes, and that is gone after a success.
\<close>

theorem persist_is_atomic:
  assumes "run_state (persist_state pid (Some filename) intent r) d = (e, d')"
  shows "(e = 0 \<or> e = 1) \<and>
    dk_files d' filename = (if e = 0 then Some \<lparr>df_kind = REGULAR, df_shared = False,
      df_content = state_line (transition_key intent) (rr_selected_path r)\<rparr> else dk_files d filename) \<and>
    (\<forall>name. name \<noteq> filename \<longrightarrow> name \<noteq> temporary_name pid filename \<longrightarrow> dk_files d' name = dk_files d name) \<and>
    (e = 0 \<longrightarrow> dk_files d' (temporary_name pid filename) = None)"
  using assms by (rule persist_outcome)

end
