(* ===== verification/DaemonRestart.thy ===== *)
theory DaemonRestart
  imports DaemonState Startup
begin

text \<open>
  A restart of the daemon: what it has saved is what it restores. The theory shows that the path of a successful
  submission is one the intent names, that the configuration stays as it was loaded, and composes them.
\<close>

section \<open>A selected path is one the intent names\<close>

lemma candidate_referenced: "x \<in> set (ps_candidates (it_path_selection intent)) \<Longrightarrow> x \<noteq> [] \<Longrightarrow> intent_references_path intent x"
  by (auto simp: intent_references_path_def Let_def list_ex_iff)

lemma selected_named:
  assumes "run_state (en_select_path c intent) w = ((EN_ERR_NONE, r), w')" "wf_state c"
  shows "sr_selected_path r \<in> set (ps_candidates (it_path_selection intent)) \<or>
    (ps_mode (it_path_selection intent) = EN_SELECT_EXPLICIT \<and> sr_selected_path r = ps_path_id (it_path_selection intent))"
  using assms(1)
proof (cases rule: en_select_path_modes)
  case 1
  then show ?thesis using explicit_None assms(2) by blast
next
  case 2
  from priority_None [OF 2(2) assms(2) later_refl] show ?thesis using nth_mem by metis
next
  case 3
  from 3(2) assms(2) start_result_simps(1) show ?thesis
  proof (rule evaluated_None)
    fix b eligible cand i
    assume inv: "eval_inv w c (selection_ctx_of c intent) (it_path_selection intent)
        (set (ps_candidates (it_path_selection intent))) (Some b) eligible r"
      and cand: "cand \<in> set (ps_candidates (it_path_selection intent))"
      and sel: "if retained_by_hysteresis c (selection_ctx_of c intent) (it_path_selection intent) eligible b
        then sc_active_path_id (selection_ctx_of c intent) = Some (sr_selected_path r)
        else sr_selected_path r = cand"
    show ?thesis
    proof (cases "retained_by_hysteresis c (selection_ctx_of c intent) (it_path_selection intent) eligible b")
      case True
      then have eligible by (auto simp: retained_by_hysteresis_def split: option.splits)
      with inv True sel show ?thesis unfolding eval_inv_def by force
    next
      case False
      with sel cand show ?thesis by simp
    qed
  qed
qed

lemma named_referenced:
  assumes "x \<in> set (ps_candidates (it_path_selection intent)) \<or>
    (ps_mode (it_path_selection intent) = EN_SELECT_EXPLICIT \<and> x = ps_path_id (it_path_selection intent))" "x \<noteq> []"
  shows "intent_references_path intent x"
  using assms by (auto simp: intent_references_path_def Let_def list_ex_iff)

text \<open>The path that a successful submission reports is the selected one.\<close>

definition reports :: "en_intent \<Rightarrow> en_error_code \<times> en_reconcile_result \<Rightarrow> bool" where
  "reports intent r \<longleftrightarrow> (fst r = EN_ERR_NONE \<longrightarrow>
     rr_selected_path (snd r) \<in> set (ps_candidates (it_path_selection intent)) \<or>
     (ps_mode (it_path_selection intent) = EN_SELECT_EXPLICIT \<and>
      rr_selected_path (snd r) = ps_path_id (it_path_selection intent)))"

lemma apply_selection_reports:
  assumes "reports intent (EN_ERR_NONE, res\<lparr>rr_selected_path := sr_selected_path sel\<rparr>)"
    and "length (sr_selected_path sel) < EN_MAX_ID_LEN"
  shows "triple (\<lambda>_. True) (apply_selection intent sel res0) (\<lambda>r s. reports intent r)"
proof -
  have ok: "reports intent (e, reconcile_result intent (en_copy_id EN_MAX_ID_LEN (Some (sr_selected_path sel))) state sel)" for e state
    using assms by (simp add: reports_def reconcile_result_def cap_simps)
  have bad: "reports intent (EN_ERR_NOT_FOUND, res0)" by (simp add: reports_def)
  show ?thesis
    unfolding apply_selection_def Let_def
    by (intro triple_seq preserves_True triple_case_option triple_if triple_return ok bad)
qed

lemma reconcile_reports:
  "triple (on_st wf_state) (reconcile intent res) (\<lambda>r s. reports intent r)"
proof -
  have early: "triple (on_st wf_state) (State_Monad.return (e, res)) (\<lambda>r s. reports intent r)" if "e \<noteq> EN_ERR_NONE" for e
    by (rule triple_return) (simp add: reports_def that)
  let ?sel = "\<lambda>r. fst r = EN_ERR_NONE \<longrightarrow> length (sr_selected_path (snd r)) < EN_MAX_ID_LEN \<and>
    reports intent (EN_ERR_NONE, res\<lparr>rr_selected_path := sr_selected_path (snd r)\<rparr>)"
  have select: "triple (\<lambda>s. wf_state (st s) \<and> c = st s) (on_world (en_select_path c intent)) (\<lambda>r s. ?sel r)" for c
  proof (rule tripleI)
    fix s r t
    assume s: "wf_state (st s) \<and> c = st s" and run: "run_state (on_world (en_select_path c intent)) s = (r, t)"
    show "?sel r"
    proof
      assume "fst r = EN_ERR_NONE"
      then have sel: "run_state (en_select_path c intent) (world s) = ((EN_ERR_NONE, snd r), world t)"
        using run by (auto simp: run_on_world prod_eq_iff)
      with selected_named [OF sel] selected_passes [OF sel] s
      show "length (sr_selected_path (snd r)) < EN_MAX_ID_LEN \<and>
        reports intent (EN_ERR_NONE, res\<lparr>rr_selected_path := sr_selected_path (snd r)\<rparr>)"
        by (auto simp: reports_def passes_def intro: find_path_wf)
    qed
  qed
  have rest: "triple (\<lambda>s. ?sel (e, sel)) (if e \<noteq> EN_ERR_NONE then do {
         state \<leftarrow> gets (\<lambda>s. transition_state (st s));
         _ \<leftarrow> en_error_append e msg;
         State_Monad.return (e, reconcile_result intent [] state sel)
       } else apply_selection intent sel res) (\<lambda>r s. reports intent r)" for e sel msg
  proof (cases "e = EN_ERR_NONE \<and> ?sel (e, sel)")
    case True
    with apply_selection_reports [where res = res and sel = sel and intent = intent] show ?thesis by (auto intro: triple_strengthen_pre)
  next
    case False
    then show ?thesis by (cases "e = EN_ERR_NONE") (auto simp: triple_def reports_def split: prod.splits)
  qed
  have selected: "triple (\<lambda>s. wf_state (st s) \<and> c = st s) (do {
       (err', selection) \<leftarrow> on_world (en_select_path c intent);
       if err' \<noteq> EN_ERR_NONE then do {
         state \<leftarrow> gets (\<lambda>s. transition_state (st s));
         _ \<leftarrow> en_error_append err' msg;
         State_Monad.return (err', reconcile_result intent [] state selection)
       } else apply_selection intent selection res }) (\<lambda>r s. reports intent r)" for c msg
    by (rule triple_bind [OF select], rule triple_case_prod, simp only: rest)
  show ?thesis
    unfolding reconcile_def
    by (intro triple_seq [OF preserves_audit] triple_seq [OF submit_wf.observe_kept] triple_if early triple_read selected)
qed

lemma submission_reports:
  assumes "wf_state (st s)"
    and "run_state (en_controller_submit_intent (Some intent) (Some r0)) s = ((EN_ERR_NONE, Some r), t)"
  shows "reports intent (EN_ERR_NONE, r)"
proof -
  obtain c where "put_intent intent (st s) = Some c"
    "run_state (reconcile intent r0) (upd_st (\<lambda>_. c) s) = ((EN_ERR_NONE, r), t)"
    using assms(2) by (auto simp: en_controller_submit_intent_def split: if_splits option.splits prod.splits)
  with tripleD [OF reconcile_reports _ this(2)] put_intent_wf [OF assms(1)] show ?thesis by simp
qed

section \<open>The controller stays configured\<close>

definition configured :: "en_yaml_config \<Rightarrow> en_controller_state \<Rightarrow> bool" where
  "configured config c \<longleftrightarrow> wf_state c \<and> nodes c = yc_nodes config \<and>
     map configured_path (paths c) = map configured_path (yc_paths config)"

lemma configured_operational:
  "configured config c \<Longrightarrow> configured config (c\<lparr>paths := (paths c)[i := (paths c ! i)\<lparr>pt_operational_state := v\<rparr>]\<rparr>)"
  by (simp add: configured_def wf_set_operational map_update_same)

lemma configured_other [simp, intro]:
  "configured config (c\<lparr>transition_state := t\<rparr>) = configured config c"
  "configured config c \<Longrightarrow> length e \<le> EN_MAX_ERRORS \<Longrightarrow> configured config (c\<lparr>errors := e\<rparr>)"
  "configured config c \<Longrightarrow> length key < EN_MAX_TRAFFIC_KEY_LEN \<Longrightarrow> configured config (put_applied key p now c)"
  by (simp_all add: configured_def wf_errors wf_put_applied)

lemma configured_observed: "configured config c \<Longrightarrow> put_observed t c = Some c' \<Longrightarrow> configured config c'"
  by (auto simp: configured_def put_observed_wf) (auto simp: put_observed_def split: option.splits if_splits)

lemma configured_health: "configured config c \<Longrightarrow> configured config (put_health h c)"
  by (auto simp: configured_def put_health_wf) (auto simp: put_health_def split: option.splits)

interpretation keeps_configured:
  transition_stable "with_adapters A (on_st (configured config))" A "transition_key intent" target UNIV
  by unfold_locales
    (auto intro!: wp configured_operational transition_key_length configured_health dest: configured_observed)

lemma put_intent_configured: "configured config c \<Longrightarrow> put_intent intent c = Some c' \<Longrightarrow> configured config c'"
  by (auto simp: configured_def put_intent_wf) (auto simp: put_intent_def split: option.splits if_splits)

interpretation submit_configured: submission_stable "on_st (configured config)" intent
  by unfold_locales
    (auto intro!: wp drop_adapters [OF keeps_configured.observe_candidates_ok]
      drop_adapters [OF keeps_configured.transition_ok] dest: put_intent_configured)

lemma configured_find_path:
  assumes "configured config c" "configured config d"
  shows "en_find_path c x = en_find_path d x"
proof -
  have "map configured_path (paths c) = map configured_path (paths d)" using assms by (simp add: configured_def)
  then have len: "length (paths c) = length (paths d)" by (rule map_eq_imp_length_eq)
  have "pt_path_id (paths c ! i) = pt_path_id (paths d ! i)" if "i < length (paths c)" for i
    using \<open>map configured_path (paths c) = map configured_path (paths d)\<close> that len
    by (intro configured_path_fields(1)) (metis nth_map)
  with len show ?thesis unfolding en_find_path_def by (intro find_index_cong) simp_all
qed

text \<open>A new controller is configured.\<close>

definition fresh_state :: "en_yaml_config \<Rightarrow> en_controller_state" where
  "fresh_state config = \<lparr>nodes = yc_nodes config, paths = yc_paths config, intents = [],
     desired_tunnels = yc_tunnels config, observed_tunnels = [], health = [], applied = [],
     transition_state = EN_TRANSITION_IDLE, errors = []\<rparr>"

lemma fresh_configured: "well_formed_config config \<Longrightarrow> configured config (fresh_state config)"
  using well_formed_parts [of config]
  by (auto simp: configured_def fresh_state_def wf_state_def wf_config_def wf_registries_def config_counts_valid_def
      list_all_iff)

lemma create_fresh:
  "create_from_config memory config ssw vp hp = Some k \<Longrightarrow> cstate k = fresh_state config \<and> audit_events k = [] \<and>
   strongswan k = ssw \<and> vpp k = vp \<and> health_probe k = hp"
  by (auto simp: create_from_config_def en_controller_create_with_nodes_and_tunnels_def elements_def fresh_state_def
      split: if_splits)

section \<open>Reading back the line\<close>

lemma state_field_plain: "valid_state_field s b \<Longrightarrow> TAB \<notin> set s \<and> CR \<notin> set s \<and> LF \<notin> set s"
  by (auto simp: valid_state_field_def list_all_iff token_char_def isalnum_def isdigit_def code_def char_consts)

lemma takeWhile_stop: "\<forall>c\<in>set s. P c \<Longrightarrow> \<not> P d \<Longrightarrow> takeWhile P (s @ d # t) = s"
  by (induction s) auto

lemma one_chunk:
  assumes "LF \<notin> set s" "length s + 2 \<le> n"
  shows "fgets_chunks n (s @ [LF]) = [s @ [LF]]"
proof -
  have "takeWhile (\<lambda>c. c \<noteq> LF) (s @ [LF]) = s" using assms(1) by (intro takeWhile_stop) auto
  then have "fgets_chunk n (s @ [LF]) = s @ [LF]" using assms(2) by (simp add: fgets_chunk_def)
  then show ?thesis using assms(2) by (subst fgets_chunks.simps) (simp add: fgets_chunks.simps [of n "[]"])
qed

lemma state_line_chunk:
  assumes "valid_state_field key False" "valid_state_field path_id True"
    and "length key < EN_MAX_TRAFFIC_KEY_LEN" "length path_id < EN_MAX_ID_LEN"
  shows "fgets_chunks STATE_LINE_LEN (state_line key path_id) = [state_line key path_id]"
  using one_chunk [of "key @ [TAB] @ path_id" STATE_LINE_LEN] assms state_field_plain
  by (auto simp: state_line_def STATE_LINE_LEN_def char_consts)

definition restorable :: "en_intent \<Rightarrow> string \<Rightarrow> en_controller_state \<Rightarrow> bool" where
  "restorable intent path_id c \<longleftrightarrow> valid_state_field (transition_key intent) False \<and> valid_state_field path_id True \<and>
     intent_references_path intent path_id \<and>
     (\<exists>i. en_find_path c (Some path_id) = Some i \<and> pt_administrative_state (paths c ! i) = EN_ADMIN_ENABLED \<and>
        path_nodes_enabled c (paths c ! i))"

lemma restore_applied_run:
  assumes "en_find_path (st s) (Some path_id) = Some i" "pt_administrative_state (paths (st s) ! i) = EN_ADMIN_ENABLED"
    and "path_nodes_enabled (st s) (paths (st s) ! i)" "key \<noteq> []" "path_id \<noteq> []"
  shows "\<exists>now w. run_state (en_controller_restore_applied_path (Some key) (Some path_id)) s =
    (EN_ERR_NONE, upd_st (put_applied key path_id now)
      (upd_st (\<lambda>c. c\<lparr>paths := (paths c)[i := (paths c ! i)\<lparr>pt_operational_state := EN_PATH_ACTIVE\<rparr>]\<rparr>) s)\<lparr>world := w\<rparr>)"
proof -
  let ?s = "upd_st (\<lambda>c. c\<lparr>paths := (paths c)[i := (paths c ! i)\<lparr>pt_operational_state := EN_PATH_ACTIVE\<rparr>]\<rparr>) s"
  obtain now w where "run_state (en_set_applied_path key path_id) ?s = ((), upd_st (put_applied key path_id now) ?s\<lparr>world := w\<rparr>)"
    using run_set_applied by blast
  with assms show ?thesis
    by (intro exI [of _ now] exI [of _ w]) (simp add: en_controller_restore_applied_path_def set_operational_state_def)
qed

lemma state_line_parts:
  assumes "TAB \<notin> set key" "TAB \<notin> set path_id" "CR \<notin> set path_id" "LF \<notin> set path_id"
  shows "takeWhile (\<lambda>c. c \<noteq> TAB) (state_line key path_id) = key"
    "drop (Suc (length key)) (state_line key path_id) = path_id @ [LF]"
    "takeWhile (\<lambda>c. c \<noteq> CR \<and> c \<noteq> LF) (path_id @ [LF]) = path_id"
    "TAB \<in> set (state_line key path_id)" "TAB \<notin> set (path_id @ [LF])" "LF \<in> set (state_line key path_id)"
proof -
  show "takeWhile (\<lambda>c. c \<noteq> TAB) (state_line key path_id) = key"
    unfolding state_line_def append_Cons append_Nil by (rule takeWhile_stop) (use assms(1) in auto)
  show "takeWhile (\<lambda>c. c \<noteq> CR \<and> c \<noteq> LF) (path_id @ [LF]) = path_id"
    using assms(3,4) by (intro takeWhile_stop) auto
qed (use assms in \<open>auto simp: state_line_def char_consts\<close>)

lemma restore_line_run:
  assumes ok: "restorable intent path_id (st s)" and fresh: "applied (st s) = []"
    and len: "length path_id < EN_MAX_ID_LEN"
  shows "\<exists>t. run_state (restore_line intent (state_line (transition_key intent) path_id)) s = (0, t) \<and>
    en_get_applied_path (st t) (transition_key intent) = Some path_id"
proof -
  let ?k = "transition_key intent"
  obtain i where i: "en_find_path (st s) (Some path_id) = Some i"
    "pt_administrative_state (paths (st s) ! i) = EN_ADMIN_ENABLED" "path_nodes_enabled (st s) (paths (st s) ! i)"
    using ok by (auto simp: restorable_def)
  have valid: "valid_state_field ?k False" "valid_state_field path_id True" "intent_references_path intent path_id"
    using ok by (simp_all add: restorable_def)
  then have ne: "?k \<noteq> []" "path_id \<noteq> []" by (auto simp: valid_state_field_def)
  note parts = state_line_parts [of ?k path_id] and plain = state_field_plain [OF valid(1)] state_field_plain [OF valid(2)]
  obtain now w where run: "run_state (en_controller_restore_applied_path (Some ?k) (Some path_id)) s =
    (EN_ERR_NONE, upd_st (put_applied ?k path_id now)
      (upd_st (\<lambda>c. c\<lparr>paths := (paths c)[i := (paths c ! i)\<lparr>pt_operational_state := EN_PATH_ACTIVE\<rparr>]\<rparr>) s)\<lparr>world := w\<rparr>)"
    (is "_ = (_, ?t)") using restore_applied_run [OF i ne] by blast
  have "run_state (restore_line intent (state_line ?k path_id)) s = (0, ?t)"
    using parts plain valid i fresh run
    by (simp add: restore_line_def Let_def en_controller_find_path_def en_controller_path_nodes_enabled_def
        en_controller_applied_path_def en_get_applied_path_def find_applied_def)
  moreover have "en_get_applied_path (st ?t) ?k = Some path_id"
    using fresh len get_applied_put [OF transition_key_length len]
    by (simp add: applied_room_def find_applied_def)
  ultimately show ?thesis by blast
qed

section \<open>Restart\<close>

lemma node_token:
  assumes "well_formed_config config" "yc_nodes config \<noteq> []" "node_name config x"
  shows "x \<noteq> [] \<and> list_all token_char x"
  using assms by (auto simp: well_formed_config_def node_ok_def node_name_def valid_config_token_def)

lemma key_valid:
  assumes "well_formed_config config" "yc_nodes config \<noteq> []" "intent \<in> set (yc_intents config)"
  shows "valid_state_field (transition_key intent) False"
proof -
  let ?ok = "\<lambda>c. token_char c \<or> c = CHR ''>'' \<or> c = CHR ''|'' \<or> c = CHR ''=''" and ?t = "it_traffic intent"
  have "intent_ok config intent" using assms by (simp add: well_formed_config_def)
  then have "node_name config (ts_source ?t)" "node_name config (ts_destination ?t)" by (simp_all add: intent_ok_def Let_def)
  then have ends: "list_all token_char (ts_source ?t)" "list_all token_char (ts_destination ?t)" "ts_source ?t \<noteq> []"
    using node_token [OF assms(1,2)] by auto
  have vlan: "list_all ?ok (int_to_dec i)" for i
    using int_to_dec_chars [of _ i] by (auto simp: list_all_iff token_char_def isalnum_def)
  have marks: "list_all ?ok ''->''" "list_all ?ok ''|vlan=''" by code_simp+
  obtain full where key: "transition_key intent = take 151 full" "list_all ?ok full" "full \<noteq> []"
  proof
    let ?full = "ts_source ?t @ ''->'' @ ts_destination ?t @
      (if ts_has_vlan_id ?t then ''|vlan='' @ int_to_dec (ts_vlan_id ?t) else [])"
    show "transition_key intent = take 151 ?full"
      by (simp add: transition_key_def en_make_traffic_key_def fit_def)
    have "list_all ?ok (ts_source ?t)" "list_all ?ok (ts_destination ?t)" using ends by (simp_all add: list_all_iff)
    then show "list_all ?ok ?full" using vlan marks by simp
    show "?full \<noteq> []" using ends by simp
  qed
  then show ?thesis by (auto simp: valid_state_field_def list_all_iff dest: in_set_takeD)
qed

lemma path_id_valid:
  assumes "well_formed_config config" "p \<in> pt_path_id ` set (yc_paths config)"
  shows "valid_state_field p True" "length p < EN_MAX_ID_LEN" "p \<noteq> []"
  using assms by (auto simp: well_formed_config_def path_ok_def valid_config_token_def valid_state_field_def list_all_iff)

lemma configured_ids: "configured config c \<Longrightarrow> pt_path_id ` set (paths c) = pt_path_id ` set (yc_paths config)"
proof -
  assume "configured config c"
  then have "map pt_path_id (map configured_path (paths c)) = map pt_path_id (map configured_path (yc_paths config))"
    by (simp add: configured_def)
  then have "map pt_path_id (paths c) = map pt_path_id (yc_paths config)"
    by (simp add: comp_def configured_path_def)
  then show ?thesis by (metis list.set_map)
qed

lemma configured_enabled:
  assumes c: "configured config c" and d: "configured config d" and i: "i < length (paths c)"
    and sat: "satisfies_policy c k (paths c ! i)"
  shows "pt_administrative_state (paths d ! i) = EN_ADMIN_ENABLED \<and> path_nodes_enabled d (paths d ! i)"
proof -
  have eq: "map configured_path (paths c) = map configured_path (paths d)" using c d by (simp add: configured_def)
  then have "length (paths c) = length (paths d)" by (rule map_eq_imp_length_eq)
  with eq i have "configured_path (paths c ! i) = configured_path (paths d ! i)" by (metis nth_map)
  then obtain v where v: "paths d ! i = (paths c ! i)\<lparr>pt_operational_state := v\<rparr>"
    by (metis configured_path_def en_path.surjective en_path.update_convs(13))
  have "nodes c = nodes d" using c d by (simp add: configured_def)
  moreover from this have "node_enabled c = node_enabled d" by (intro ext) (simp add: node_enabled_def en_find_node_def)
  ultimately have "path_nodes_enabled d (paths d ! i) = path_nodes_enabled c (paths c ! i)"
    by (simp add: v path_nodes_enabled_def)
  moreover have "path_nodes_enabled c (paths c ! i)" using sat by (simp add: satisfies_policy_def path_nodes_enabled_iff)
  moreover have "pt_administrative_state (paths d ! i) = EN_ADMIN_ENABLED" using sat v by (simp add: satisfies_policy_def)
  ultimately show ?thesis by simp
qed

text \<open>What a submission reports can be restored into any controller over the same configuration.\<close>

lemma submission_restorable:
  assumes config: "well_formed_config config" and key: "valid_state_field (transition_key intent) False"
    and s: "configured config (st s)" "applied_room (transition_key intent) (st s)"
    and run: "run_state (en_controller_submit_intent (Some intent) (Some r0)) s = ((EN_ERR_NONE, Some r), t)"
    and u: "configured config d"
  shows "restorable intent (rr_selected_path r) d \<and> length (rr_selected_path r) < EN_MAX_ID_LEN"
proof -
  let ?p = "rr_selected_path r"
  have wf: "wf_state (st s)" using s(1) by (simp add: configured_def)
  obtain i where i: "en_find_path (st s) (Some ?p) = Some i"
    "satisfies_policy (st s) (ps_constraints (it_path_selection intent)) (paths (st s) ! i)"
    using submission_settled [OF wf s(2) run] by auto
  have id: "i < length (paths (st s))" "pt_path_id (paths (st s) ! i) = ?p" using find_path_id [OF i(1)] by auto
  have "pt_path_id (paths (st s) ! i) \<in> pt_path_id ` set (paths (st s))" using id(1) by simp
  then have known: "?p \<in> pt_path_id ` set (yc_paths config)" unfolding id(2) configured_ids [OF s(1)] .
  have "?p \<in> set (ps_candidates (it_path_selection intent)) \<or>
    (ps_mode (it_path_selection intent) = EN_SELECT_EXPLICIT \<and> ?p = ps_path_id (it_path_selection intent))"
    using submission_reports [OF wf run] by (simp add: reports_def)
  then have named: "intent_references_path intent ?p"
    using path_id_valid(3) [OF config known] by (rule named_referenced)
  have found: "en_find_path d (Some ?p) = Some i" using i(1) configured_find_path [OF s(1) u] by simp
  note parts = key path_id_valid [OF config known] configured_enabled [OF s(1) u id(1) i(2)] named found
  show ?thesis
    unfolding restorable_def by (intro conjI exI [of _ i]) (use parts in simp_all)
qed

text \<open>A disk whose system calls from now on succeed.\<close>

definition calls_succeed :: "disk \<Rightarrow> bool" where
  "calls_succeed d \<longleftrightarrow> dk_faults d (dk_calls d) = None \<and> dk_faults d (Suc (dk_calls d)) = None \<and>
     dk_faults d (Suc (Suc (dk_calls d))) = None"

lemma run_on_disk:
  "run_state (on_world (on_disk m)) s = (case run_state m (da_disk (dev (world s))) of
     (a, k) \<Rightarrow> (a, s\<lparr>world := (world s)\<lparr>dev := (dev (world s))\<lparr>da_disk := k\<rparr>\<rparr>\<rparr>))"
  by (simp add: run_on_world on_disk_def on_dev_def split: prod.splits)

lemma open_state_content:
  assumes "dk_files d name = Some \<lparr>df_kind = REGULAR, df_shared = False, df_content = content\<rparr>" "calls_succeed d"
  shows "run_state (open_state name) d = (CONTENT content, d\<lparr>dk_calls := Suc (Suc (Suc (dk_calls d)))\<rparr>)"
  using assms by (simp add: open_state_def calls_succeed_def)

text \<open>
  C18. The state file carries the applied path over a restart. A daemon over a loaded configuration submits its
  intent with success and saves; a daemon started later over the same configuration, with nothing applied
  yet, restores exactly the path that was applied for the traffic of the intent. The traffic key consists of bytes
  the format admits, which every configuration that declares its nodes guarantees.
\<close>

theorem saved_state_restores:
  assumes "en_yaml_config_load_file fopen filename dest error_len = Parsed config" "intent \<in> set (yc_intents config)"
    and "yc_nodes config \<noteq> [] \<or> valid_state_field (transition_key intent) False"
    and "configured config (st s)" "applied_room (transition_key intent) (st s)"
    and "run_state (en_controller_submit_intent (Some intent) (Some r0)) s = ((EN_ERR_NONE, Some r), t)"
    and "run_state (persist_state pid (Some file) intent r) d = (0, d')" "calls_succeed d'"
    and "configured config (st u)" "applied (st u) = []" "da_disk (dev (world u)) = d'"
  shows "\<exists>v. run_state (restore_state intent (Some file)) u = (0, v) \<and>
    en_get_applied_path (st v) (transition_key intent) = Some (rr_selected_path r) \<and>
    en_get_applied_path (st t) (transition_key intent) = Some (rr_selected_path r)"
proof -
  let ?k = "transition_key intent" and ?p = "rr_selected_path r"
  have config: "well_formed_config config" by (rule loaded_wf [OF assms(1)])
  have key: "valid_state_field ?k False" using assms(2,3) key_valid [OF config] by blast
  have r: "restorable intent ?p (st u)" "length ?p < EN_MAX_ID_LEN"
    using submission_restorable [OF config key assms(4-6) assms(9)] by simp_all
  have "dk_files d' file = Some \<lparr>df_kind = REGULAR, df_shared = False, df_content = state_line ?k ?p\<rparr>"
    using persist_outcome [OF assms(7)] by simp
  from open_state_content [OF this assms(8)] obtain d2 where
    "run_state (open_state file) d' = (CONTENT (state_line ?k ?p), d2)" by blast
  then have opened: "run_state (on_world (on_disk (open_state file))) u =
      (CONTENT (state_line ?k ?p), u\<lparr>world := (world u)\<lparr>dev := (dev (world u))\<lparr>da_disk := d2\<rparr>\<rparr>\<rparr>)" (is "_ = (_, ?u)")
    by (simp add: run_on_disk assms(11))
  have "restorable intent ?p (st ?u)" "applied (st ?u) = []" using r assms(10) by simp_all
  from restore_line_run [OF this r(2)] obtain v where v: "run_state (restore_line intent (state_line ?k ?p)) ?u = (0, v)"
    "en_get_applied_path (st v) ?k = Some ?p" by blast
  have "fgets_chunks STATE_LINE_LEN (state_line ?k ?p) = [state_line ?k ?p]"
    using r by (intro state_line_chunk) (simp_all add: restorable_def transition_key_length)
  then have "run_state (restore_state intent (Some file)) u = (0, v)" using opened v by (simp add: restore_state_def)
  moreover have "wf_state (st s)" using assms(4) by (simp add: configured_def)
  then have "en_get_applied_path (st t) ?k = Some ?p" using submission_settled assms(5,6) by blast
  ultimately show ?thesis using v(2) by blast
qed

text \<open>A daemon that starts over the sample configuration, on a disk without files.\<close>

definition empty_disk :: disk where
  "empty_disk = \<lparr>dk_files = (\<lambda>_. None), dk_faults = (\<lambda>_. None), dk_calls = 0\<rparr>"

definition sample_daemon :: "disk \<Rightarrow> unit daemon" where
  "sample_daemon d = \<lparr>da_mocks = sample_mocks False,
     da_command = \<lparr>cd_host = (), cd_strongswan = None, cd_vpp = None, cd_health = None\<rparr>,
     da_disk = d, da_status = None, da_shutdown = (\<lambda>_. False), da_polls = 0\<rparr>"

definition start_on :: "'w en_vpp_adapter \<Rightarrow> 'w en_health_probe \<Rightarrow> 'w \<Rightarrow> 'w machine" where
  "start_on vp hp d = \<lparr>ctl = \<lparr>cstate = fresh_state sample_config, audit_events = [],
     strongswan = en_strongswan_mock_adapter, vpp = vp, health_probe = hp\<rparr>, world = sample_world d\<rparr>"

definition idle_machine :: "unit daemon machine" where
  "idle_machine = start_on \<lparr>install_path = None, remove_path = None, active_path = None\<rparr> \<lparr>validate_path = None\<rparr>
     (sample_daemon (snd (run_state (persist_state 7 (Some ''state'') (hd (yc_intents sample_config))
        (zero_reconcile_result\<lparr>rr_selected_path := ''path-direct''\<rparr>)) empty_disk)))"

lemma sample_well_formed: "well_formed_config sample_config"
  by (rule loaded_wf [OF sample_load])

lemma start_on_configured: "configured sample_config (st (start_on vp hp d))"
  using fresh_configured [OF sample_well_formed] by (simp add: start_on_def st_def)

lemma persist_cong:
  "rr_selected_path r = rr_selected_path r' \<Longrightarrow> persist_state pid f intent r = persist_state pid f intent r'"
  by (simp only: persist_state_def)

theorem saved_state_restores_witness:
  "\<exists>v. run_state (restore_state (hd (yc_intents sample_config)) (Some ''state'')) idle_machine = (0, v) \<and>
     en_get_applied_path (st v) (transition_key (hd (yc_intents sample_config))) = Some ''path-direct''"
proof -
  let ?i = "hd (yc_intents sample_config)"
  let ?s = "start_on en_vpp_mock_adapter en_health_probe_mock_adapter (sample_mocks False)"
  have "(case fst (run_state (en_controller_submit_intent (Some ?i) (Some zero_reconcile_result)) ?s) of
      (e, Some r) \<Rightarrow> e = EN_ERR_NONE \<and> rr_selected_path r = ''path-direct'' | _ \<Rightarrow> False)" by code_simp
  then obtain r t where run: "run_state (en_controller_submit_intent (Some ?i) (Some zero_reconcile_result)) ?s =
      ((EN_ERR_NONE, Some r), t)" and r: "rr_selected_path r = ''path-direct''"
    by (cases "run_state (en_controller_submit_intent (Some ?i) (Some zero_reconcile_result)) ?s")
      (auto split: prod.splits option.splits)
  let ?z = "zero_reconcile_result\<lparr>rr_selected_path := ''path-direct''\<rparr>"
  have "fst (run_state (persist_state 7 (Some ''state'') ?i ?z) empty_disk) = 0" by code_simp
  moreover have "persist_state 7 (Some ''state'') ?i r = persist_state 7 (Some ''state'') ?i ?z"
    using r by (intro persist_cong) simp
  ultimately have persist: "run_state (persist_state 7 (Some ''state'') ?i r) empty_disk =
      (0, da_disk (dev (world idle_machine)))"
    by (simp add: idle_machine_def start_on_def sample_daemon_def sample_world_def prod_eq_iff)
  have clean: "calls_succeed (da_disk (dev (world idle_machine)))" by code_simp
  have intent: "?i \<in> set (yc_intents sample_config)" by (simp add: sample_config_def)
  have key: "yc_nodes sample_config \<noteq> [] \<or> valid_state_field (transition_key ?i) False" by code_simp
  have room: "applied_room (transition_key ?i) (st ?s)" "applied (st idle_machine) = []"
    by (simp_all add: applied_room_def start_on_def idle_machine_def fresh_state_def st_def)
  have conf: "configured sample_config (st idle_machine)" unfolding idle_machine_def by (rule start_on_configured)
  show ?thesis
    using saved_state_restores [OF sample_load intent key start_on_configured room(1) run persist clean conf room(2) refl] r
    by auto
qed

text \<open>On a disk whose third call, the write, stops after four bytes, the old file stays.\<close>

definition full_disk :: disk where
  "full_disk = \<lparr>dk_files = (\<lambda>n. if n = ''state'' then Some \<lparr>df_kind = REGULAR, df_shared = False, df_content = ''old''\<rparr> else None),
     dk_faults = (\<lambda>n. if n = 2 then Some 4 else None), dk_calls = 0\<rparr>"

theorem persist_is_atomic_witness:
  "fst (run_state (persist_state 7 (Some ''state'') (hd (yc_intents sample_config)) zero_reconcile_result) full_disk) = 1 \<and>
   dk_files (snd (run_state (persist_state 7 (Some ''state'') (hd (yc_intents sample_config)) zero_reconcile_result) full_disk)) ''state'' =
     Some \<lparr>df_kind = REGULAR, df_shared = False, df_content = ''old''\<rparr>"
proof -
  let ?run = "run_state (persist_state 7 (Some ''state'') (hd (yc_intents sample_config)) zero_reconcile_result) full_disk"
  have "fst ?run = 1" by code_simp
  then have "?run = (1, snd ?run)" by (simp add: prod_eq_iff)
  from persist_is_atomic [OF this] \<open>fst ?run = 1\<close> show ?thesis by (simp add: full_disk_def)
qed

end
