(* ===== verification/DaemonStream.thy ===== *)
theory DaemonStream
  imports DaemonRestart CommandForwarding
begin

text \<open>
  The stream of telemetry of \<open>src/examples/eventnetd.c\<close>, \<open>run_stream\<close>: each line is limited, parsed, checked against the
  configuration and its age, collected into a batch, and every full batch is a submission of the intent. The
  controller runs on the mock adapters or on the command adapters, and always on the health mock.
\<close>

section \<open>Adapters on a part of the outside state\<close>

text \<open>An action on the part of the outside state that \<open>get\<close> reads and \<open>put\<close> writes.\<close>

definition focused :: "('w \<Rightarrow> 'v) \<Rightarrow> ('v \<Rightarrow> 'w \<Rightarrow> 'w) \<Rightarrow> ('v, 'a) world_act \<Rightarrow> ('w, 'a) world_act" where
  "focused get put m = State (\<lambda>w.
     case run_state m (\<lparr>clock = clock w, ticks = ticks w, slept = slept w, dev = get (dev w)\<rparr>) of
       (a, v) \<Rightarrow> (a, \<lparr>clock = clock v, ticks = ticks v, slept = slept v, dev = put (dev v) (dev w)\<rparr>))"

definition strongswan_focused ::
  "('w \<Rightarrow> 'v) \<Rightarrow> ('v \<Rightarrow> 'w \<Rightarrow> 'w) \<Rightarrow> 'v en_strongswan_adapter \<Rightarrow> 'w en_strongswan_adapter" where
  "strongswan_focused get put a = \<lparr>ensure_tunnel = (\<lambda>t t'. focused get put (ensure_tunnel a t t')),
     remove_tunnel = map_option (\<lambda>f t t'. focused get put (f t t')) (remove_tunnel a)\<rparr>"

definition vpp_focused :: "('w \<Rightarrow> 'v) \<Rightarrow> ('v \<Rightarrow> 'w \<Rightarrow> 'w) \<Rightarrow> 'v en_vpp_adapter \<Rightarrow> 'w en_vpp_adapter" where
  "vpp_focused get put a = \<lparr>install_path = map_option (\<lambda>f key p. focused get put (f key p)) (install_path a),
     remove_path = map_option (\<lambda>f key p. focused get put (f key p)) (remove_path a),
     active_path = map_option (\<lambda>f key. focused get put (f key)) (active_path a)\<rparr>"

definition probe_focused :: "('w \<Rightarrow> 'v) \<Rightarrow> ('v \<Rightarrow> 'w \<Rightarrow> 'w) \<Rightarrow> 'v en_health_probe \<Rightarrow> 'w en_health_probe" where
  "probe_focused get put a = \<lparr>validate_path = map_option (\<lambda>f p h. focused get put (f p h)) (validate_path a)\<rparr>"

abbreviation put_mocks :: "mocks \<Rightarrow> 'h daemon \<Rightarrow> 'h daemon" where
  "put_mocks m d \<equiv> d\<lparr>da_mocks := m\<rparr>"

abbreviation put_command :: "'h command_device \<Rightarrow> 'h daemon \<Rightarrow> 'h daemon" where
  "put_command c d \<equiv> d\<lparr>da_command := c\<rparr>"

section \<open>Options and environment\<close>

record stream_options =
  so_max_age_ms :: int
  so_count :: int
  so_batch_size :: int
  so_backend :: string
  so_swanctl_uri :: "string option"
  so_swanctl_config_file :: "string option"
  so_vppctl_socket :: "string option"
  so_verify_swanctl :: bool
  so_verify_vpp :: bool
  so_apply :: bool
  so_state_filename :: "string option"
  so_max_records_per_second :: int

text \<open>The JSON reader, the host of the commands, the process identifier, and whether \<open>calloc\<close> succeeds.\<close>

record 'h daemon_env =
  de_read :: json_reader
  de_host :: "'h host"
  de_pid :: int
  de_memory :: bool

definition option_field :: "string option \<Rightarrow> string" where
  "option_field x = (case x of None \<Rightarrow> [] | Some s \<Rightarrow> fit 256 s)"

definition stream_strongswan :: "en_intent \<Rightarrow> stream_options \<Rightarrow> en_strongswan_command_ctx" where
  "stream_strongswan intent opts = \<lparr>sc_dry_run = \<not> so_apply opts, sc_verify_tunnel = so_verify_swanctl opts,
     sc_connections_loaded = False, sc_block_non_ipsec = it_block_non_ipsec intent,
     sc_swanctl_uri = option_field (so_swanctl_uri opts),
     sc_swanctl_config_file = option_field (so_swanctl_config_file opts),
     sc_ensure_tunnel_command = [], sc_verify_tunnel_command = [], sc_remove_tunnel_command = [],
     sc_xfrm_block_tunnels = []\<rparr>"

definition stream_vpp :: "en_yaml_config \<Rightarrow> en_intent \<Rightarrow> stream_options \<Rightarrow> en_vpp_command_ctx" where
  "stream_vpp config intent opts = \<lparr>xc_dry_run = \<not> so_apply opts, xc_verify_route = so_verify_vpp opts,
     xc_has_vlan_id = ts_has_vlan_id (it_traffic intent), xc_deny_unmatched_vlan = it_deny_unmatched_vlan intent,
     xc_vlan_id = ts_vlan_id (it_traffic intent), xc_vppctl_socket = option_field (so_vppctl_socket opts),
     xc_install_path_command = [], xc_tunnels = yc_tunnels config, xc_edges = yc_vpp_edges config, xc_active = []\<rparr>"

text \<open>The contexts are local to \<open>run_stream\<close>; the health mock has no record yet.\<close>

definition stream_devices :: "en_yaml_config \<Rightarrow> en_intent \<Rightarrow> stream_options \<Rightarrow> 'h daemon \<Rightarrow> 'h daemon" where
  "stream_devices config intent opts d = d\<lparr>
     da_mocks := \<lparr>mc_vpp = Some \<lparr>vm_fail_next_update = False, vm_routes = [], vm_install_count = 0, vm_remove_count = 0\<rparr>,
       mc_health = Some ([], ts_has_vlan_id (it_traffic intent))\<rparr>,
     da_command := (da_command d)\<lparr>cd_strongswan := Some (stream_strongswan intent opts),
       cd_vpp := Some (stream_vpp config intent opts), cd_health := None\<rparr>\<rparr>"

definition stream_adapters :: "'h daemon_env \<Rightarrow> bool \<Rightarrow> 'h daemon adapters" where
  "stream_adapters env command =
     (if command then
        (strongswan_focused da_command put_command (en_strongswan_command_adapter (de_host env)),
         vpp_focused da_command put_command (en_vpp_command_adapter (de_host env)),
         probe_focused da_mocks put_mocks en_health_probe_mock_adapter)
      else
        (en_strongswan_mock_adapter, vpp_focused da_mocks put_mocks en_vpp_mock_adapter,
         probe_focused da_mocks put_mocks en_health_probe_mock_adapter))"

section \<open>The parts of an iteration\<close>

definition poll_shutdown :: "('h daemon, bool) world_act" where
  "poll_shutdown = on_dev (State (\<lambda>d. (da_shutdown d (da_polls d), d\<lparr>da_polls := Suc (da_polls d)\<rparr>)))"

definition shutdown_requested :: "('h daemon, bool) act" where
  "shutdown_requested = on_world poll_shutdown"

text \<open>At most \<open>limit\<close> records in a window of a second. The window is its start and the records in it.\<close>

definition rate_limit :: "int \<Rightarrow> int \<times> int \<Rightarrow> ('w, int \<times> int) act" where
  "rate_limit limit window =
     (if limit \<le> 0 then State_Monad.return window
      else do {
        now \<leftarrow> on_world en_now_ms;
        let (start, n) = (if fst window = 0 \<or> 1000 \<le> now - fst window then (now, 0) else window);
        if limit \<le> n then do {
          _ \<leftarrow> on_world (sleep_ms (1000 - (now - start)));
          start' \<leftarrow> on_world en_now_ms;
          State_Monad.return (start', 1)
        }
        else State_Monad.return (start, n + 1)
      })"

definition mock_health_of :: "'h daemon machine \<Rightarrow> en_path_health list" where
  "mock_health_of s = (case mc_health (da_mocks (dev (world s))) of None \<Rightarrow> [] | Some (overrides, _) \<Rightarrow> overrides)"

definition change_health ::
  "(en_path_health list \<Rightarrow> en_path_health list) \<Rightarrow> ('h daemon, unit) act" where
  "change_health f = modify (\<lambda>s. s\<lparr>world := (world s)\<lparr>dev := (dev (world s))\<lparr>da_mocks := (da_mocks (dev (world s)))
     \<lparr>mc_health := map_option (apfst f) (mc_health (da_mocks (dev (world s))))\<rparr>\<rparr>\<rparr>\<rparr>)"

definition status_document :: "int \<Rightarrow> en_reconcile_result \<Rightarrow> status_line" where
  "status_document now r = \<lparr>
     sl_excluded = zip (sr_excluded_path_ids (rr_explanation r)) (sr_excluded_reasons (rr_explanation r)),
     sl_fields = [(''schema'', JString ''ibuki.status.v1''), (''timestamp_ms'', json_int now),
       (''intent_id'', JString (rr_intent_id r)), (''selected_path'', JString (rr_selected_path r)),
       (''transition_state'', JString (en_transition_state_name (rr_transition_state r))),
       (''reason'', JString (sr_reason (rr_explanation r)))]\<rparr>"

text \<open>What writing the line to the stream returns is ignored.\<close>

definition write_status_json :: "en_reconcile_result \<Rightarrow> ('h daemon, unit) act" where
  "write_status_json r = do {
     output \<leftarrow> gets (\<lambda>s. da_status (dev (world s)));
     case output of
       None \<Rightarrow> skip
     | Some ls \<Rightarrow> do {
         now \<leftarrow> on_world en_now_ms;
         modify (\<lambda>s. s\<lparr>world := (world s)\<lparr>dev := (dev (world s))\<lparr>da_status := Some (ls @ [status_document now r])\<rparr>\<rparr>\<rparr>)
       }
   }"

text \<open>The result is a local variable of the daemon, so it is never \<open>NULL\<close>.\<close>

definition submit :: "en_intent \<Rightarrow> ('w, en_error_code \<times> en_reconcile_result) act" where
  "submit intent = do {
     (e, r) \<leftarrow> en_controller_submit_intent (Some intent) (Some zero_reconcile_result);
     State_Monad.return (e, case r of None \<Rightarrow> zero_reconcile_result | Some x \<Rightarrow> x)
   }"

section \<open>The stream\<close>

record stream_state =
  ss_batch :: "en_path_health list"
  ss_iteration :: int
  ss_successful :: int
  ss_window :: "int \<times> int"

datatype progress = GOES_ON stream_state | EXITS int

definition run_batch ::
  "'h daemon_env \<Rightarrow> en_intent \<Rightarrow> stream_options \<Rightarrow> stream_state \<Rightarrow> ('h daemon, progress) act" where
  "run_batch env intent opts ss = do {
     _ \<leftarrow> change_health (set_batch (ss_batch ss));
     let ss = ss\<lparr>ss_batch := [], ss_iteration := ss_iteration ss + 1\<rparr>;
     (err, r) \<leftarrow> submit intent;
     if err = EN_ERR_NO_CANDIDATE then State_Monad.return (GOES_ON ss)
     else if err \<noteq> EN_ERR_NONE then State_Monad.return (EXITS 1)
     else do {
       _ \<leftarrow> write_status_json r;
       e \<leftarrow> on_world (on_disk (persist_state (de_pid env) (so_state_filename opts) intent r));
       State_Monad.return (if e \<noteq> 0 then EXITS 1 else GOES_ON (ss\<lparr>ss_successful := ss_successful ss + 1\<rparr>))
     }
   }"

definition take_record ::
  "'h daemon_env \<Rightarrow> en_intent \<Rightarrow> stream_options \<Rightarrow> stream_state \<Rightarrow> en_path_health \<Rightarrow> ('h daemon, progress) act" where
  "take_record env intent opts ss r = do {
     now \<leftarrow> on_world en_now_ms;
     let age = now - ph_last_updated_ms r;
     if 0 < so_max_age_ms opts \<and> (age < 0 \<or> so_max_age_ms opts < age) then State_Monad.return (GOES_ON ss)
     else let ss = ss\<lparr>ss_batch := (if length (ss_batch ss) < EN_MAX_PATHS then ss_batch ss @ [r] else ss_batch ss)\<rparr> in
       if int (length (ss_batch ss)) < so_batch_size opts then State_Monad.return (GOES_ON ss)
       else run_batch env intent opts ss
   }"

definition stream_line ::
  "'h daemon_env \<Rightarrow> en_yaml_config \<Rightarrow> en_intent \<Rightarrow> stream_options \<Rightarrow> string \<Rightarrow> stream_state \<Rightarrow> ('h daemon, progress) act" where
  "stream_line env config intent opts l ss = do {
     window \<leftarrow> rate_limit (so_max_records_per_second opts) (ss_window ss);
     case en_telemetry_parse_json_line (de_read env) l of
       Inl _ \<Rightarrow> State_Monad.return (EXITS 1)
     | Inr r \<Rightarrow>
         if telemetry_identity_matches config intent r \<noteq> None then State_Monad.return (EXITS 1)
         else take_record env intent opts (ss\<lparr>ss_window := window\<rparr>) r
   }"

text \<open>\<open>lines\<close> are what the calls of \<open>fgets\<close> give until one gives \<open>NULL\<close>.\<close>

primrec stream_loop ::
  "'h daemon_env \<Rightarrow> en_yaml_config \<Rightarrow> en_intent \<Rightarrow> stream_options \<Rightarrow> string list \<Rightarrow> stream_state \<Rightarrow> ('h daemon, progress) act" where
  "stream_loop env config intent opts [] ss = do { _ \<leftarrow> shutdown_requested; State_Monad.return (GOES_ON ss) }"
| "stream_loop env config intent opts (l # ls) ss = do {
     stop \<leftarrow> shutdown_requested;
     if stop \<or> \<not> (so_count opts = 0 \<or> ss_iteration ss < so_count opts) then State_Monad.return (GOES_ON ss)
     else do {
       p \<leftarrow> stream_line env config intent opts l ss;
       case p of EXITS e \<Rightarrow> State_Monad.return (EXITS e) | GOES_ON ss' \<Rightarrow> stream_loop env config intent opts ls ss'
     }
   }"

definition stream_end :: "stream_options \<Rightarrow> stream_state \<Rightarrow> ('h daemon, int) act" where
  "stream_end opts ss = do {
     short \<leftarrow> (if 0 < so_count opts \<and> ss_iteration ss < so_count opts
              then do { stop \<leftarrow> shutdown_requested; State_Monad.return (\<not> stop) }
              else State_Monad.return False);
     State_Monad.return (if short then 1 else if ss_successful ss = 0 then 1 else 0)
   }"

definition start_stream :: stream_state where
  "start_stream = \<lparr>ss_batch = [], ss_iteration = 0, ss_successful = 0, ss_window = (0, 0)\<rparr>"

text \<open>With the controller created.\<close>

definition stream_body ::
  "'h daemon_env \<Rightarrow> en_yaml_config \<Rightarrow> en_intent \<Rightarrow> stream_options \<Rightarrow> string list \<Rightarrow> ('h daemon, int) act" where
  "stream_body env config intent opts lines = do {
     restored \<leftarrow> restore_state intent (so_state_filename opts);
     if restored \<noteq> 0 then State_Monad.return 1
     else do {
       _ \<leftarrow> change_health (\<lambda>_. set_unknown_health config);
       p \<leftarrow> stream_loop env config intent opts lines start_stream;
       case p of EXITS e \<Rightarrow> State_Monad.return e | GOES_ON ss \<Rightarrow> stream_end opts ss
     }
   }"

definition run_stream ::
  "'h daemon_env \<Rightarrow> string list \<Rightarrow> en_yaml_config \<Rightarrow> en_intent \<Rightarrow> stream_options \<Rightarrow> ('h daemon, int) world_act" where
  "run_stream env lines config intent opts = State (\<lambda>w0.
     let w = w0\<lparr>dev := stream_devices config intent opts (dev w0)\<rparr> in
     if strcmp (so_backend opts) ''command'' \<noteq> 0 \<and> strcmp (so_backend opts) ''mock'' \<noteq> 0 then (2, w)
     else case stream_adapters env (strcmp (so_backend opts) ''command'' = 0) of (ssw, vp, hp) \<Rightarrow>
       (case create_from_config (de_memory env) config ssw vp hp of
          None \<Rightarrow> (1, w)
        | Some k \<Rightarrow> (case run_state (stream_body env config intent opts lines) (\<lparr>ctl = k, world = w\<rparr>) of
            (e, s) \<Rightarrow> (e, world s))))"

end
