(* ===== verification/DaemonOptions.thy ===== *)
theory DaemonOptions
  imports DaemonTelemetry
begin

text \<open>
  The command line of \<open>src/examples/eventnetd.c\<close>: the numbers, the options in the order in which \<open>main\<close> compares them, and the
  check of their combination. The arguments are those after the program's name.
\<close>

section \<open>Numbers\<close>

definition LLONG_MAX :: int where "LLONG_MAX = 9223372036854775807"

text \<open>\<open>strtoll\<close> in base 10, before the cut to 64 bits: the value and the rest; \<open>None\<close> without digits.\<close>

definition strtoll10 :: "string \<Rightarrow> (int \<times> string) option" where
  "strtoll10 s =
     (let t = dropWhile isspace s;
          (neg, body) = (case t of
             c # u \<Rightarrow> if c = CHR ''-'' then (True, u) else if c = CHR ''+'' then (False, u) else (False, t)
           | [] \<Rightarrow> (False, []));
          digits = takeWhile isdigit body
      in if digits = [] then None
         else Some (if neg then - int (dec_value 0 digits) else int (dec_value 0 digits), dropWhile isdigit body))"

definition parse_long_long_argument :: "string \<Rightarrow> int \<Rightarrow> int \<Rightarrow> int option" where
  "parse_long_long_argument s minimum maximum =
     (if s = [] then None
      else case strtoll10 s of
        None \<Rightarrow> None
      | Some (parsed, rest) \<Rightarrow>
          if saturate64 parsed \<noteq> parsed \<or> rest \<noteq> [] \<or> parsed < minimum \<or> maximum < parsed then None else Some parsed)"

text \<open>The conversion to \<open>int\<close> is exact, because the bounds are \<open>int\<close>s.\<close>

definition parse_int_argument :: "string \<Rightarrow> int \<Rightarrow> int \<Rightarrow> int option" where
  "parse_int_argument s minimum maximum = parse_long_long_argument s minimum maximum"

definition valid_option_string :: "string \<Rightarrow> nat \<Rightarrow> bool" where
  "valid_option_string s capacity \<longleftrightarrow> length s < capacity"

section \<open>The options\<close>

record daemon_options =
  op_yaml_filename :: string
  op_telemetry_filename :: "string option"
  op_socket_path :: "string option"
  op_status_filename :: "string option"
  op_intent_id :: "string option"
  op_backend :: string
  op_swanctl_uri :: "string option"
  op_swanctl_config_file :: "string option"
  op_vppctl_socket :: "string option"
  op_state_filename :: "string option"
  op_vici_monitor_child :: "string option"
  op_vici_monitor_path :: "string option"
  op_verify_swanctl :: bool
  op_verify_vpp :: bool
  op_apply :: bool
  op_stdin_mode :: bool
  op_reload_config :: bool
  op_reload_on_sighup :: bool
  op_max_age_ms :: int
  op_interval_ms :: int
  op_count :: int
  op_batch_size :: int
  op_socket_accept_count :: int
  op_socket_retry_count :: int
  op_max_records_per_second :: int
  op_socket_allowed_uid :: int
  op_socket_retry_backoff_ms :: int
  op_parallel_socket :: bool
  op_parallel_timeout_ms :: int
  op_vici_monitor_duration_ms :: int

definition default_options :: daemon_options where
  "default_options = \<lparr>op_yaml_filename = ''samples/linux-vm-netns.yaml'', op_telemetry_filename = None,
     op_socket_path = None, op_status_filename = None, op_intent_id = None, op_backend = ''mock'',
     op_swanctl_uri = None, op_swanctl_config_file = None, op_vppctl_socket = None,
     op_state_filename = None, op_vici_monitor_child = None, op_vici_monitor_path = None,
     op_verify_swanctl = False, op_verify_vpp = False, op_apply = False, op_stdin_mode = False,
     op_reload_config = False, op_reload_on_sighup = False, op_max_age_ms = 60000, op_interval_ms = 0,
     op_count = 1, op_batch_size = 1, op_socket_accept_count = 1, op_socket_retry_count = 0,
     op_max_records_per_second = 0, op_socket_allowed_uid = - 1, op_socket_retry_backoff_ms = 0,
     op_parallel_socket = False, op_parallel_timeout_ms = 30000, op_vici_monitor_duration_ms = 0\<rparr>"

text \<open>
  What an option does: set a flag; take the next argument, which for some must be shorter than a capacity; take a number
  in a range; print the usage.
\<close>

datatype option_action =
    FLAG "daemon_options \<Rightarrow> daemon_options"
  | STRING "nat option" "string \<Rightarrow> daemon_options \<Rightarrow> daemon_options"
  | LONG_LONG int int "int \<Rightarrow> daemon_options \<Rightarrow> daemon_options"
  | INTEGER int int "int \<Rightarrow> daemon_options \<Rightarrow> daemon_options"
  | SHOW_USAGE

definition option_table :: "(string \<times> option_action) list" where
  "option_table = [
     (''--telemetry'', STRING None (\<lambda>v o'. o'\<lparr>op_telemetry_filename := Some v\<rparr>)),
     (''--telemetry-socket'', STRING None (\<lambda>v o'. o'\<lparr>op_socket_path := Some v\<rparr>)),
     (''--status-jsonl'', STRING None (\<lambda>v o'. o'\<lparr>op_status_filename := Some v\<rparr>)),
     (''--intent'', STRING None (\<lambda>v o'. o'\<lparr>op_intent_id := Some v\<rparr>)),
     (''--max-age-ms'', LONG_LONG 0 LLONG_MAX (\<lambda>i o'. o'\<lparr>op_max_age_ms := i\<rparr>)),
     (''--interval-ms'', LONG_LONG 0 LLONG_MAX (\<lambda>i o'. o'\<lparr>op_interval_ms := i\<rparr>)),
     (''--count'', INTEGER 0 INT_MAX (\<lambda>i o'. o'\<lparr>op_count := i\<rparr>)),
     (''--batch-size'', INTEGER 1 (int EN_MAX_PATHS) (\<lambda>i o'. o'\<lparr>op_batch_size := i\<rparr>)),
     (''--socket-accept-count'', INTEGER 0 INT_MAX (\<lambda>i o'. o'\<lparr>op_socket_accept_count := i\<rparr>)),
     (''--socket-retry-count'', INTEGER 0 INT_MAX (\<lambda>i o'. o'\<lparr>op_socket_retry_count := i\<rparr>)),
     (''--socket-retry-backoff-ms'', LONG_LONG 0 LLONG_MAX (\<lambda>i o'. o'\<lparr>op_socket_retry_backoff_ms := i\<rparr>)),
     (''--max-records-per-second'', INTEGER 0 INT_MAX (\<lambda>i o'. o'\<lparr>op_max_records_per_second := i\<rparr>)),
     (''--socket-uid'', LONG_LONG (- 1) LLONG_MAX (\<lambda>i o'. o'\<lparr>op_socket_allowed_uid := i\<rparr>)),
     (''--socket-parallel'', FLAG (\<lambda>o'. o'\<lparr>op_parallel_socket := True\<rparr>)),
     (''--socket-parallel-timeout-ms'', LONG_LONG 1 LLONG_MAX (\<lambda>i o'. o'\<lparr>op_parallel_timeout_ms := i\<rparr>)),
     (''--backend'', STRING None (\<lambda>v o'. o'\<lparr>op_backend := v\<rparr>)),
     (''--swanctl-uri'', STRING (Some 256) (\<lambda>v o'. o'\<lparr>op_swanctl_uri := Some v\<rparr>)),
     (''--swanctl-config'', STRING (Some 256) (\<lambda>v o'. o'\<lparr>op_swanctl_config_file := Some v\<rparr>)),
     (''--vppctl-socket'', STRING (Some 256) (\<lambda>v o'. o'\<lparr>op_vppctl_socket := Some v\<rparr>)),
     (''--vici-monitor-child'', STRING (Some 256) (\<lambda>v o'. o'\<lparr>op_vici_monitor_child := Some v\<rparr>)),
     (''--vici-monitor-path'', STRING (Some 256) (\<lambda>v o'. o'\<lparr>op_vici_monitor_path := Some v\<rparr>)),
     (''--vici-monitor-duration-ms'', LONG_LONG 0 LLONG_MAX (\<lambda>i o'. o'\<lparr>op_vici_monitor_duration_ms := i\<rparr>)),
     (''--verify-swanctl'', FLAG (\<lambda>o'. o'\<lparr>op_verify_swanctl := True\<rparr>)),
     (''--verify-vpp'', FLAG (\<lambda>o'. o'\<lparr>op_verify_vpp := True\<rparr>)),
     (''--state-file'', STRING None (\<lambda>v o'. o'\<lparr>op_state_filename := Some v\<rparr>)),
     (''--apply'', FLAG (\<lambda>o'. o'\<lparr>op_apply := True\<rparr>)),
     (''--telemetry-stdin'', FLAG (\<lambda>o'. o'\<lparr>op_stdin_mode := True\<rparr>)),
     (''--reload-config'', FLAG (\<lambda>o'. o'\<lparr>op_reload_config := True\<rparr>)),
     (''--reload-on-sighup'', FLAG (\<lambda>o'. o'\<lparr>op_reload_on_sighup := True\<rparr>)),
     (''--once'', FLAG (\<lambda>o'. o'\<lparr>op_count := 1\<rparr>)),
     (''--help'', SHOW_USAGE)]"

text \<open>A run of the parser ends with the options, with exit status 2, or with the usage and 0.\<close>

datatype parsed_options = OPTIONS daemon_options | INVALID | USAGE

text \<open>The comparisons go down the table; an argument that is no option is the name of the configuration.\<close>

fun parse_args :: "string list \<Rightarrow> daemon_options \<Rightarrow> parsed_options" where
  "parse_args [] opts = OPTIONS opts"
| "parse_args [a] opts = (case map_of option_table a of
     None \<Rightarrow> OPTIONS (opts\<lparr>op_yaml_filename := a\<rparr>)
   | Some (FLAG f) \<Rightarrow> OPTIONS (f opts)
   | Some SHOW_USAGE \<Rightarrow> USAGE
   | Some _ \<Rightarrow> INVALID)"
| "parse_args (a # v # args) opts = (case map_of option_table a of
     None \<Rightarrow> parse_args (v # args) (opts\<lparr>op_yaml_filename := a\<rparr>)
   | Some (FLAG f) \<Rightarrow> parse_args (v # args) (f opts)
   | Some SHOW_USAGE \<Rightarrow> USAGE
   | Some (STRING capacity f) \<Rightarrow>
       if \<not> (case capacity of None \<Rightarrow> True | Some n \<Rightarrow> valid_option_string v n) then INVALID else parse_args args (f v opts)
   | Some (LONG_LONG lo hi f) \<Rightarrow> (case parse_long_long_argument v lo hi of None \<Rightarrow> INVALID | Some i \<Rightarrow> parse_args args (f i opts))
   | Some (INTEGER lo hi f) \<Rightarrow> (case parse_int_argument v lo hi of None \<Rightarrow> INVALID | Some i \<Rightarrow> parse_args args (f i opts)))"

section \<open>The combination\<close>

definition options_invalid :: "daemon_options \<Rightarrow> bool" where
  "options_invalid o' \<longleftrightarrow>
     (\<not> op_stdin_mode o' \<and> op_telemetry_filename o' = None \<and> op_socket_path o' = None) \<or>
     (op_stdin_mode o' \<and> (op_telemetry_filename o' \<noteq> None \<or> op_socket_path o' \<noteq> None)) \<or>
     (op_telemetry_filename o' \<noteq> None \<and> op_socket_path o' \<noteq> None) \<or>
     op_count o' < 0 \<or> op_batch_size o' \<le> 0 \<or> int EN_MAX_PATHS < op_batch_size o' \<or> op_interval_ms o' < 0 \<or>
     op_max_age_ms o' < 0 \<or> op_socket_accept_count o' < 0 \<or> op_socket_retry_count o' < 0 \<or>
     op_socket_retry_backoff_ms o' < 0 \<or> op_max_records_per_second o' < 0 \<or> op_socket_allowed_uid o' < - 1 \<or>
     ((op_socket_accept_count o' = 0 \<or> 1 < op_socket_accept_count o') \<and> op_state_filename o' = None) \<or>
     (op_reload_config o' \<and> (op_stdin_mode o' \<or> op_socket_path o' \<noteq> None \<or> op_state_filename o' = None)) \<or>
     (op_reload_on_sighup o' \<and> (\<not> op_reload_config o' \<or> op_stdin_mode o' \<or> op_socket_path o' \<noteq> None)) \<or>
     op_parallel_timeout_ms o' < 1 \<or>
     (op_parallel_socket o' \<and> (op_socket_path o' = None \<or> op_socket_accept_count o' < 2)) \<or>
     ((op_vici_monitor_child o' = None) \<noteq> (op_vici_monitor_path o' = None)) \<or>
     (op_vici_monitor_child o' \<noteq> None \<and>
       (op_stdin_mode o' \<or> op_telemetry_filename o' \<noteq> None \<or> op_socket_path o' \<noteq> None \<or> op_reload_config o'))"

text \<open>The options with which \<open>main\<close> goes on, or its exit status.\<close>

definition accept_options :: "string list \<Rightarrow> int + daemon_options" where
  "accept_options args = (case parse_args args default_options of
     INVALID \<Rightarrow> Inl 2
   | USAGE \<Rightarrow> Inl 0
   | OPTIONS opts \<Rightarrow> if options_invalid opts then Inl 2 else Inr opts)"

section \<open>What accepted options satisfy\<close>

definition numbers_in_range :: "daemon_options \<Rightarrow> bool" where
  "numbers_in_range o' \<longleftrightarrow> op_count o' \<in> {0..INT_MAX} \<and> op_batch_size o' \<in> {1..int EN_MAX_PATHS} \<and>
     op_max_age_ms o' \<in> {0..LLONG_MAX} \<and> op_interval_ms o' \<in> {0..LLONG_MAX} \<and>
     op_socket_accept_count o' \<in> {0..INT_MAX} \<and> op_socket_retry_count o' \<in> {0..INT_MAX} \<and>
     op_socket_retry_backoff_ms o' \<in> {0..LLONG_MAX} \<and> op_max_records_per_second o' \<in> {0..INT_MAX} \<and>
     op_socket_allowed_uid o' \<in> {- 1..LLONG_MAX} \<and> op_parallel_timeout_ms o' \<in> {1..LLONG_MAX} \<and>
     op_vici_monitor_duration_ms o' \<in> {0..LLONG_MAX} \<and>
     list_all (\<lambda>x. case x of None \<Rightarrow> True | Some s \<Rightarrow> length s < 256)
       [op_swanctl_uri o', op_swanctl_config_file o', op_vppctl_socket o', op_vici_monitor_child o', op_vici_monitor_path o']"

definition action_ok :: "option_action \<Rightarrow> bool" where
  "action_ok a \<longleftrightarrow> (case a of
     FLAG f \<Rightarrow> \<forall>o'. numbers_in_range o' \<longrightarrow> numbers_in_range (f o')
   | STRING capacity f \<Rightarrow> \<forall>v o'. numbers_in_range o' \<longrightarrow> (case capacity of None \<Rightarrow> True | Some n \<Rightarrow> length v < n) \<longrightarrow> numbers_in_range (f v o')
   | LONG_LONG lo hi f \<Rightarrow> \<forall>i o'. numbers_in_range o' \<longrightarrow> lo \<le> i \<and> i \<le> hi \<longrightarrow> numbers_in_range (f i o')
   | INTEGER lo hi f \<Rightarrow> \<forall>i o'. numbers_in_range o' \<longrightarrow> lo \<le> i \<and> i \<le> hi \<longrightarrow> numbers_in_range (f i o')
   | SHOW_USAGE \<Rightarrow> True)"

lemma default_in_range: "numbers_in_range default_options"
  by (simp add: numbers_in_range_def default_options_def INT_MAX_def LLONG_MAX_def)

lemma table_ok: "list_all (\<lambda>(k, a). action_ok a) option_table"
  unfolding option_table_def
  by (simp add: action_ok_def numbers_in_range_def INT_MAX_def)

lemma action_in_table: "map_of option_table a = Some x \<Longrightarrow> action_ok x"
  using table_ok by (auto simp: list_all_iff dest: map_of_SomeD)

lemma parsed_bounds: "parse_long_long_argument s lo hi = Some i \<Longrightarrow> lo \<le> i \<and> i \<le> hi"
  by (auto simp: parse_long_long_argument_def split: if_splits option.splits prod.splits)

lemma parse_args_in_range: "parse_args args opts = OPTIONS o' \<Longrightarrow> numbers_in_range opts \<Longrightarrow> numbers_in_range o'"
proof (induction args opts rule: parse_args.induct)
  case (2 a opts)
  then show ?case
    by (auto split: option.splits option_action.splits dest!: action_in_table simp: action_ok_def)
      (simp add: numbers_in_range_def)
next
  case (3 a v args opts)
  have yaml: "numbers_in_range (opts\<lparr>op_yaml_filename := a\<rparr>)" using "3.prems"(2) by (simp add: numbers_in_range_def)
  show ?case
  proof (cases "map_of option_table a")
    case None
    with 3 yaml show ?thesis by simp
  next
    case (Some x)
    have ok: "action_ok x" by (rule action_in_table [OF Some])
    show ?thesis
    proof (cases x)
      case (FLAG f)
      with ok "3.prems"(2) have "numbers_in_range (f opts)" by (simp add: action_ok_def)
      with "3.IH"(2) "3.prems"(1) Some FLAG show ?thesis by simp
    next
      case (STRING capacity f)
      with ok "3.prems"(2) have ok': "(case capacity of None \<Rightarrow> True | Some n \<Rightarrow> valid_option_string v n) \<Longrightarrow> numbers_in_range (f v opts)"
        by (cases capacity) (simp_all add: action_ok_def valid_option_string_def)
      from Some STRING "3.prems"(1) have run: "(case capacity of None \<Rightarrow> True | Some n \<Rightarrow> valid_option_string v n)"
        "parse_args args (f v opts) = OPTIONS o'" by (simp_all split: if_splits)
      from "3.IH"(3) [OF Some STRING] run ok' show ?thesis by blast
    next
      case (LONG_LONG lo hi f)
      with Some "3.prems"(1) obtain i where i: "parse_long_long_argument v lo hi = Some i" "parse_args args (f i opts) = OPTIONS o'"
        by (auto split: option.splits)
      from ok "3.prems"(2) parsed_bounds [OF i(1)] LONG_LONG have "numbers_in_range (f i opts)" by (simp add: action_ok_def)
      with "3.IH"(4) i Some LONG_LONG show ?thesis by simp
    next
      case (INTEGER lo hi f)
      with Some "3.prems"(1) obtain i where i: "parse_int_argument v lo hi = Some i" "parse_args args (f i opts) = OPTIONS o'"
        by (auto split: option.splits)
      from ok "3.prems"(2) parsed_bounds i(1) INTEGER have "numbers_in_range (f i opts)"
        by (simp add: action_ok_def parse_int_argument_def)
      with "3.IH"(5) i Some INTEGER show ?thesis by simp
    next
      case SHOW_USAGE
      with Some "3.prems"(1) show ?thesis by simp
    qed
  qed
qed simp

lemma accepted_valid: "accept_options args = Inr o' \<Longrightarrow> numbers_in_range o' \<and> \<not> options_invalid o'"
  using parse_args_in_range [OF _ default_in_range]
  by (auto simp: accept_options_def split: parsed_options.splits if_splits)

text \<open>
  C23. The daemon starts only with options that make sense together: exactly one source of telemetry, every number in
  the range of its option, strings that fit their buffers, a state file wherever the daemon reloads or serves more than
  one connection, and \<open>poll\<close> only over at least two connections. In particular no accepted command line has
  a child for the VICI monitor: the check asks for a telemetry input and forbids it with the monitor, so the
  monitor that the options and the documents describe cannot be started.
\<close>

theorem accepted_options_consistent:
  assumes "accept_options args = Inr o'"
  shows "numbers_in_range o' \<and> op_vici_monitor_child o' = None \<and> op_vici_monitor_path o' = None \<and>
    length (filter id [op_stdin_mode o', op_telemetry_filename o' \<noteq> None, op_socket_path o' \<noteq> None]) = 1 \<and>
    (op_reload_config o' \<or> op_socket_accept_count o' \<noteq> 1 \<longrightarrow> op_state_filename o' \<noteq> None) \<and>
    (op_reload_config o' \<longrightarrow> op_telemetry_filename o' \<noteq> None) \<and> (op_reload_on_sighup o' \<longrightarrow> op_reload_config o') \<and>
    (op_parallel_socket o' \<longrightarrow> op_socket_path o' \<noteq> None \<and> 2 \<le> op_socket_accept_count o')"
proof -
  have valid: "\<not> options_invalid o'" using accepted_valid [OF assms] by (rule conjunct2)
  have "numbers_in_range o'" using accepted_valid [OF assms] by (rule conjunct1)
  moreover have "op_vici_monitor_child o' = None" "op_vici_monitor_path o' = None"
    using valid unfolding options_invalid_def by argo+
  moreover have "length (filter id [op_stdin_mode o', op_telemetry_filename o' \<noteq> None, op_socket_path o' \<noteq> None]) = 1"
    using valid unfolding options_invalid_def
    by (cases "op_stdin_mode o'"; cases "op_telemetry_filename o'"; cases "op_socket_path o'") simp_all
  moreover have "op_reload_config o' \<or> op_socket_accept_count o' \<noteq> 1 \<longrightarrow> op_state_filename o' \<noteq> None"
    using valid unfolding options_invalid_def by linarith
  moreover have "op_reload_config o' \<longrightarrow> op_telemetry_filename o' \<noteq> None" "op_reload_on_sighup o' \<longrightarrow> op_reload_config o'"
    using valid unfolding options_invalid_def by argo+
  moreover have "op_parallel_socket o' \<longrightarrow> op_socket_path o' \<noteq> None \<and> 2 \<le> op_socket_accept_count o'"
    using valid unfolding options_invalid_def by linarith
  ultimately show ?thesis by blast
qed

definition sample_arguments :: "string list" where
  "sample_arguments = [''conf.yaml'', ''--telemetry-stdin'', ''--count'', ''10'', ''--batch-size'', ''3'']"

definition sample_accepted :: daemon_options where
  "sample_accepted = default_options\<lparr>op_yaml_filename := ''conf.yaml'', op_stdin_mode := True, op_count := 10, op_batch_size := 3\<rparr>"

lemma sample_numbers: "parse_int_argument ''10'' 0 INT_MAX = Some 10" "parse_int_argument ''3'' 1 (int EN_MAX_PATHS) = Some 3"
  by code_simp+

lemma sample_parsed: "parse_args sample_arguments default_options = OPTIONS sample_accepted"
  by (simp add: sample_arguments_def option_table_def sample_numbers [simplified] sample_accepted_def)

lemma sample_accepts: "accept_options sample_arguments = Inr sample_accepted"
  unfolding accept_options_def sample_parsed parsed_options.case
  by (simp add: options_invalid_def sample_accepted_def default_options_def)

theorem accepted_options_consistent_witness:
  "accept_options sample_arguments = Inr sample_accepted \<and> numbers_in_range sample_accepted \<and> op_batch_size sample_accepted = 3"
  using accepted_options_consistent [OF sample_accepts] sample_accepts by (simp add: sample_accepted_def)

end
