(* ===== verification/DaemonSocket.thy ===== *)
theory DaemonSocket
  imports DaemonStream DaemonOptions
begin

text \<open>
  Telemetry over a Unix socket, \<open>run_socket\<close> and \<open>run_socket_parallel\<close> of \<open>src/examples/eventnetd.c\<close>: one client after the
  other, each its own stream or all one shared batch, or all clients at once through \<open>poll\<close>. What the system calls give is
  an argument: the clients that connect and the outcomes of \<open>poll\<close> are lists. Writing to and rereading
  temporary files does not fail.
\<close>

section \<open>Clients\<close>

text \<open>
  \<open>cl_uid\<close> is the peer's user, \<open>None\<close> when it cannot be read; \<open>cl_opens\<close> says whether a stream can be made for the
  client; \<open>cl_lines\<close> are the lines \<open>fgets\<close> reads of it, and \<open>cl_error\<close> says that reading stopped with an error.
\<close>

record socket_client =
  cl_uid :: "int option"
  cl_opens :: bool
  cl_lines :: "string list"
  cl_error :: bool

datatype accept_result = ACCEPT_FAILS | CLIENT socket_client

record socket_options =
  sp_path :: string
  sp_accept_count :: int
  sp_allowed_uid :: int
  sp_retry_count :: int
  sp_retry_backoff_ms :: int
  sp_parallel :: bool

text \<open>The cast to \<open>uid_t\<close> keeps the low 32 bits.\<close>

definition peer_allowed :: "int \<Rightarrow> int option \<Rightarrow> bool" where
  "peer_allowed allowed uid \<longleftrightarrow> allowed < 0 \<or> uid = Some (allowed mod 2 ^ 32)"

definition reconnect_delay :: "int \<Rightarrow> int \<Rightarrow> int" where
  "reconnect_delay backoff attempt =
     (if 0 < backoff \<and> LLONG_MAX div attempt < backoff then LLONG_MAX else backoff * attempt)"

section \<open>One client after the other\<close>

definition shared_limit :: int where "shared_limit = 4 * 1024 * 1024"

text \<open>The lines of a client appended to the shared batch.\<close>

fun collect_lines :: "string list \<Rightarrow> string \<Rightarrow> int \<times> string" where
  "collect_lines [] shared = (0, shared)"
| "collect_lines (l # ls) shared =
     (if shared_limit - int (length shared) < int (length l) then (1, shared) else collect_lines ls (shared @ l))"

record accept_state =
  as_connections :: int
  as_attempt :: int
  as_shared :: string

definition serve_client ::
  "'h daemon_env \<Rightarrow> en_yaml_config \<Rightarrow> en_intent \<Rightarrow> stream_options \<Rightarrow> bool \<Rightarrow> socket_client \<Rightarrow> accept_state \<Rightarrow>
   ('h daemon, int \<times> accept_state) world_act" where
  "serve_client env config intent opts shared_batch c a =
     (if shared_batch then
        (case collect_lines (cl_lines c) (as_shared a) of (e, shared) \<Rightarrow>
           State_Monad.return (if cl_error c then 1 else e, a\<lparr>as_shared := shared\<rparr>))
      else do {
        e \<leftarrow> run_stream env (cl_lines c) config intent opts;
        State_Monad.return (e, a)
      })"

text \<open>After the last client of the list a signal to stop interrupts \<open>accept4\<close>.\<close>

primrec accept_loop ::
  "'h daemon_env \<Rightarrow> en_yaml_config \<Rightarrow> en_intent \<Rightarrow> stream_options \<Rightarrow> socket_options \<Rightarrow> accept_result list \<Rightarrow> accept_state \<Rightarrow>
   ('h daemon, int \<times> accept_state) world_act" where
  "accept_loop env config intent opts sopts [] a = do { _ \<leftarrow> poll_shutdown; State_Monad.return (0, a) }"
| "accept_loop env config intent opts sopts (x # xs) a = do {
     stop \<leftarrow> poll_shutdown;
     if stop \<or> \<not> (sp_accept_count sopts = 0 \<or> as_connections a < sp_accept_count sopts) then State_Monad.return (0, a)
     else case x of
       ACCEPT_FAILS \<Rightarrow> State_Monad.return (1, a)
     | CLIENT c \<Rightarrow>
         if \<not> peer_allowed (sp_allowed_uid sopts) (cl_uid c) then State_Monad.return (2, a)
         else if \<not> cl_opens c then State_Monad.return (1, a)
         else do {
           (e, a) \<leftarrow> serve_client env config intent opts (1 < sp_accept_count sopts) c a;
           if e = 0 then accept_loop env config intent opts sopts xs (a\<lparr>as_connections := as_connections a + 1, as_attempt := 0\<rparr>)
           else if as_attempt a < sp_retry_count sopts then do {
             _ \<leftarrow> sleep_ms (reconnect_delay (sp_retry_backoff_ms sopts) (as_attempt a + 1));
             accept_loop env config intent opts sopts xs (a\<lparr>as_attempt := as_attempt a + 1\<rparr>)
           }
           else State_Monad.return (e, a)
         }
   }"

section \<open>All clients at once\<close>

text \<open>What \<open>poll\<close> and \<open>read\<close> give for a client in a round; \<open>QUIET\<close> when it has no event.\<close>

datatype client_event = QUIET | BROKEN | RECEIVED string | ENDED | AGAIN | READ_FAILS
datatype poll_outcome = POLL_INTERRUPTED | POLL_FAILS | POLL_TIMEOUT | POLL_READY "client_event list"

text \<open>The clients, each open or not, with what it has sent.\<close>

type_synonym poll_clients = "(bool \<times> string) list"

fun poll_round :: "client_event list \<Rightarrow> poll_clients \<Rightarrow> nat \<Rightarrow> (poll_clients \<times> nat) option" where
  "poll_round (e # es) ((is_open, text) # cs) total_bytes =
     (let rest = (\<lambda>c n. map_option (apfst ((#) c)) (poll_round es cs n)) in
      if \<not> is_open then rest (is_open, text) total_bytes
      else case e of
        QUIET \<Rightarrow> rest (is_open, text) total_bytes
      | BROKEN \<Rightarrow> None
      | RECEIVED s \<Rightarrow> if shared_limit - int (length s) < int total_bytes then None
          else rest (is_open, text @ s) (total_bytes + length s)
      | ENDED \<Rightarrow> rest (False, text) total_bytes
      | AGAIN \<Rightarrow> rest (is_open, text) total_bytes
      | READ_FAILS \<Rightarrow> None)"
| "poll_round es cs total_bytes = Some (cs, total_bytes)"

text \<open>After the last outcome of the list \<open>poll\<close> times out. \<open>None\<close> stands for the status 1.\<close>

fun poll_loop :: "poll_outcome list \<Rightarrow> poll_clients \<Rightarrow> nat \<Rightarrow> string list option" where
  "poll_loop [] cs total_bytes = (if list_ex fst cs then None else Some (map snd cs))"
| "poll_loop (p # ps) cs total_bytes =
     (if \<not> list_ex fst cs then Some (map snd cs)
      else case p of
        POLL_INTERRUPTED \<Rightarrow> poll_loop ps cs total_bytes
      | POLL_FAILS \<Rightarrow> None
      | POLL_TIMEOUT \<Rightarrow> None
      | POLL_READY es \<Rightarrow> (case poll_round es cs total_bytes of
          None \<Rightarrow> None
        | Some (cs', total') \<Rightarrow> poll_loop ps cs' total'))"

text \<open>The clients that connect first: all are accepted, or the status.\<close>

primrec accept_all :: "int \<Rightarrow> nat \<Rightarrow> accept_result list \<Rightarrow> int" where
  "accept_all allowed n [] = (if n = 0 then 0 else 1)"
| "accept_all allowed n (x # xs) =
     (if n = 0 then 0
      else case x of
        ACCEPT_FAILS \<Rightarrow> 1
      | CLIENT c \<Rightarrow>
          if \<not> peer_allowed allowed (cl_uid c) then 2
          else if \<not> cl_opens c then 1
          else accept_all allowed (n - 1) xs)"

definition run_socket_parallel ::
  "'h daemon_env \<Rightarrow> en_yaml_config \<Rightarrow> en_intent \<Rightarrow> stream_options \<Rightarrow> socket_options \<Rightarrow> accept_result list \<Rightarrow> poll_outcome list \<Rightarrow>
   ('h daemon, int) world_act" where
  "run_socket_parallel env config intent opts sopts accepted_clients polls =
     (let n = nat (sp_accept_count sopts); status = accept_all (sp_allowed_uid sopts) n accepted_clients in
      if sp_accept_count sopts < 2 then State_Monad.return 2
      else if status \<noteq> 0 then State_Monad.return status
      else case poll_loop polls (replicate n (True, [])) 0 of
        None \<Rightarrow> State_Monad.return 1
      | Some texts \<Rightarrow> run_stream env (fgets_lines (concat texts)) config intent (opts\<lparr>so_count := 0\<rparr>))"

section \<open>The socket\<close>

text \<open>
  \<open>sk_existing\<close>: what \<open>lstat\<close> finds at the path, and whether it is a socket; \<open>sk_listens\<close>: whether the socket is created,
  bound and listens.
\<close>

record socket_env =
  sk_existing :: "bool option"
  sk_listens :: bool
  sk_accepts :: "accept_result list"
  sk_polls :: "poll_outcome list"

abbreviation SUN_PATH_LEN :: nat where "SUN_PATH_LEN \<equiv> 108"

definition run_socket ::
  "'h daemon_env \<Rightarrow> socket_env \<Rightarrow> en_yaml_config \<Rightarrow> en_intent \<Rightarrow> stream_options \<Rightarrow> socket_options \<Rightarrow> ('h daemon, int) world_act" where
  "run_socket env sk config intent opts sopts =
     (if SUN_PATH_LEN \<le> length (sp_path sopts) then State_Monad.return 2
      else if sk_existing sk = Some False then State_Monad.return 2
      else if \<not> sk_listens sk then State_Monad.return 1
      else if sp_parallel sopts then run_socket_parallel env config intent opts sopts (sk_accepts sk) (sk_polls sk)
      else do {
        (e, a) \<leftarrow> accept_loop env config intent opts sopts (sk_accepts sk)
          \<lparr>as_connections = 0, as_attempt = 0, as_shared = []\<rparr>;
        if 1 < sp_accept_count sopts \<and> e = 0
        then run_stream env (fgets_lines (as_shared a)) config intent (opts\<lparr>so_count := 0\<rparr>)
        else State_Monad.return e
      })"

section \<open>The delay of a retry\<close>

text \<open>The multiplication never overflows: the delay is the product, cut off at the largest \<open>long long\<close>.\<close>

lemma reconnect_delay_min:
  assumes "0 \<le> backoff" "0 < attempt"
  shows "reconnect_delay backoff attempt = min LLONG_MAX (backoff * attempt)"
proof -
  let ?q = "LLONG_MAX div attempt"
  have eq: "LLONG_MAX = ?q * attempt + LLONG_MAX mod attempt" by (rule div_mult_mod_eq [symmetric])
  have m: "0 \<le> LLONG_MAX mod attempt" "LLONG_MAX mod attempt < attempt" using assms by simp_all
  have q: "?q * attempt \<le> LLONG_MAX" "LLONG_MAX < (?q + 1) * attempt"
    unfolding distrib_right mult_1 using eq m by linarith+
  have q0: "0 \<le> ?q" using assms by (simp add: pos_imp_zdiv_nonneg_iff LLONG_MAX_def)
  show ?thesis
  proof (cases "?q < backoff")
    case True
    then have "(?q + 1) * attempt \<le> backoff * attempt" using assms by (intro mult_right_mono) simp_all
    with True q q0 show ?thesis by (simp add: reconnect_delay_def)
  next
    case False
    then have "backoff * attempt \<le> ?q * attempt" using assms by (intro mult_right_mono) simp_all
    with False q show ?thesis by (simp add: reconnect_delay_def)
  qed
qed

section \<open>What the clients send\<close>

text \<open>The bytes that a client sends in the rounds, up to its end.\<close>

definition event_at :: "nat \<Rightarrow> client_event list \<Rightarrow> client_event" where
  "event_at i es = (if i < length es then es ! i else QUIET)"

fun client_stream :: "nat \<Rightarrow> poll_outcome list \<Rightarrow> string" where
  "client_stream i [] = []"
| "client_stream i (POLL_READY es # ps) =
     (case event_at i es of RECEIVED s \<Rightarrow> s @ client_stream i ps | ENDED \<Rightarrow> [] | _ \<Rightarrow> client_stream i ps)"
| "client_stream i (p # ps) = client_stream i ps"

definition after_event :: "client_event \<Rightarrow> bool \<times> string \<Rightarrow> bool \<times> string" where
  "after_event e c = (if \<not> fst c then c
     else case e of RECEIVED s \<Rightarrow> (True, snd c @ s) | ENDED \<Rightarrow> (False, snd c) | _ \<Rightarrow> c)"

lemma event_at_Cons: "event_at (Suc i) (e # es) = event_at i es" "event_at 0 (e # es) = e" "event_at i [] = QUIET"
  by (simp_all add: event_at_def)

lemma poll_round_clients:
  "poll_round es cs n = Some (cs', n') \<Longrightarrow> length cs' = length cs \<and> (\<forall>i<length cs. cs' ! i = after_event (event_at i es) (cs ! i))"
proof (induction es cs n arbitrary: cs' n' rule: poll_round.induct)
  case (1 e es is_open sent cs n)
  obtain c m ds where step: "poll_round es cs m = Some (ds, n')" "cs' = c # ds" "c = after_event e (is_open, sent)"
    using "1.prems" by (auto simp: Let_def after_event_def split: if_splits client_event.splits)
  then have ih: "length ds = length cs" "\<forall>i<length cs. ds ! i = after_event (event_at i es) (cs ! i)"
    using 1 by (auto simp: Let_def split: if_splits client_event.splits)
  show ?case
    using ih step by (auto simp: nth_Cons event_at_Cons split: nat.split)
qed (auto simp: event_at_Cons after_event_def)

lemma poll_loop_streams:
  "poll_loop ps cs n = Some texts \<Longrightarrow> length texts = length cs \<and>
   (\<forall>i<length cs. texts ! i = snd (cs ! i) @ (if fst (cs ! i) then client_stream i ps else []))"
proof (induction ps arbitrary: cs n)
  case Nil
  then show ?case by (auto simp: list_ex_length split: if_splits)
next
  case (Cons p ps)
  show ?case
  proof (cases "list_ex fst cs")
    case False
    with Cons.prems show ?thesis by (auto simp: list_ex_length)
  next
    case True
    show ?thesis
    proof (cases p)
      case (POLL_READY es)
      with Cons.prems True obtain ds m where r: "poll_round es cs n = Some (ds, m)" "poll_loop ps ds m = Some texts"
        by (auto split: option.splits)
      note round = poll_round_clients [OF r(1)]
      have "texts ! i = snd (cs ! i) @ (if fst (cs ! i) then client_stream i (p # ps) else [])" if i: "i < length cs" for i
        using Cons.IH [OF r(2)] round i
        by (cases "event_at i es") (auto simp: POLL_READY after_event_def split: if_splits)
      then show ?thesis using Cons.IH [OF r(2)] round by simp
    qed (use Cons True in auto)
  qed
qed

text \<open>
  C24. The shared batch does not depend on how the reads of the clients interleave: when the parallel mode has read
  all clients, the text of each is what that client sent up to its end, so two schedules of \<open>poll\<close> in which every client
  sends the same bytes give the same batch, and the stream runs on it.
\<close>

theorem parallel_batch_ignores_schedule:
  assumes "poll_loop ps (replicate n (True, [])) 0 = Some texts" "poll_loop qs (replicate n (True, [])) 0 = Some texts'"
    and "\<forall>i<n. client_stream i ps = client_stream i qs"
  shows "texts = texts' \<and> texts = map (\<lambda>i. client_stream i ps) [0..<n]"
proof -
  have "length texts = n" "\<forall>i<n. texts ! i = client_stream i ps" "length texts' = n" "\<forall>i<n. texts' ! i = client_stream i qs"
    using poll_loop_streams [OF assms(1)] poll_loop_streams [OF assms(2)] by simp_all
  with assms(3) show ?thesis by (auto intro!: nth_equalityI)
qed

definition one_by_one :: "poll_outcome list" where
  "one_by_one = [POLL_READY [RECEIVED ''a'', QUIET], POLL_INTERRUPTED, POLL_READY [RECEIVED ''b'', QUIET],
     POLL_READY [ENDED, RECEIVED ''c''], POLL_READY [QUIET, ENDED]]"

definition together :: "poll_outcome list" where
  "together = [POLL_READY [RECEIVED ''ab'', AGAIN], POLL_READY [QUIET, RECEIVED ''c''], POLL_READY [ENDED, ENDED]]"

theorem parallel_batch_ignores_schedule_witness:
  "poll_loop one_by_one (replicate 2 (True, [])) 0 = Some [''ab'', ''c''] \<and>
   poll_loop together (replicate 2 (True, [])) 0 = Some [''ab'', ''c'']"
proof -
  have first: "poll_loop one_by_one (replicate 2 (True, [])) 0 = Some [''ab'', ''c'']" by code_simp
  have "poll_loop together (replicate 2 (True, [])) 0 \<noteq> None" by code_simp
  then obtain texts where second: "poll_loop together (replicate 2 (True, [])) 0 = Some texts" by blast
  have "list_all (\<lambda>i. client_stream i one_by_one = client_stream i together) [0, 1]" by code_simp
  then have "\<forall>i<2. client_stream i one_by_one = client_stream i together" by (auto simp: less_2_cases_iff)
  from parallel_batch_ignores_schedule [OF first second this] first second show ?thesis by simp
qed

section \<open>The lines of a shared batch\<close>

lemma fgets_line_append:
  assumes "s \<noteq> []" "last s = LF"
  shows "fgets_line (s @ t) = fgets_line s"
proof (cases "1023 \<le> length s")
  case True
  then have "take 1023 (s @ t) = take 1023 s" by simp
  then show ?thesis by (simp only: fgets_line_def)
next
  case False
  have mem: "LF \<in> set s" using assms last_in_set by metis
  have short: "length (takeWhile (\<lambda>c. c \<noteq> LF) u) < length u" if "LF \<in> set u" for u
    using that by (induction u) auto
  have "take 1023 (s @ t) = s @ take (1023 - length s) t" "take 1023 s = s" using False by simp_all
  moreover have "takeWhile (\<lambda>c. c \<noteq> LF) (s @ u) = takeWhile (\<lambda>c. c \<noteq> LF) s" for u
    using mem by (rule takeWhile_append1) simp
  moreover have "length (takeWhile (\<lambda>c. c \<noteq> LF) s) < length s + n" for n
    using short [OF mem] by simp
  ultimately show ?thesis by (simp only: fgets_line_def Let_def length_append add_0_right) (metis add_0_right)
qed

lemma fgets_line_grows: "\<exists>r. s = fgets_line s @ r"
proof -
  let ?w = "take 1023 s"
  have w: "s = ?w @ drop 1023 s" by simp
  show ?thesis
  proof (cases "length (takeWhile (\<lambda>c. c \<noteq> LF) ?w) < length ?w")
    case True
    then obtain c r where r: "dropWhile (\<lambda>c. c \<noteq> LF) ?w = c # r"
      by (metis append_Nil2 length_append list.exhaust list.size(3) nat_less_le takeWhile_dropWhile_id)
    then have "c = LF" using hd_dropWhile [of "\<lambda>c. c \<noteq> LF" ?w] by auto
    have "s = takeWhile (\<lambda>c. c \<noteq> LF) ?w @ dropWhile (\<lambda>c. c \<noteq> LF) ?w @ drop 1023 s"
      by (metis append.assoc append_take_drop_id takeWhile_dropWhile_id)
    with True r \<open>c = LF\<close> show ?thesis by (intro exI [of _ "r @ drop 1023 s"]) (simp add: fgets_line_def Let_def)
  next
    case False
    have "length (takeWhile (\<lambda>c. c \<noteq> LF) ?w) \<le> length ?w" by (rule length_takeWhile_le)
    with False have "length (takeWhile (\<lambda>c. c \<noteq> LF) ?w) = length ?w" by linarith
    moreover have "?w = takeWhile (\<lambda>c. c \<noteq> LF) ?w @ dropWhile (\<lambda>c. c \<noteq> LF) ?w" by simp
    ultimately have "dropWhile (\<lambda>c. c \<noteq> LF) ?w = []" by (metis append_Nil2 append_eq_append_conv)
    then have line: "fgets_line s = ?w"
      using False takeWhile_dropWhile_id [of "\<lambda>c. c \<noteq> LF" ?w] by (simp only: fgets_line_def Let_def append_Nil2 if_False)
    show ?thesis unfolding line by (intro exI [of _ "drop 1023 s"]) (rule w)
  qed
qed

lemma fgets_lines_append:
  "s = [] \<or> last s = LF \<Longrightarrow> fgets_lines (s @ t) = fgets_lines s @ fgets_lines t"
proof (induction s rule: fgets_lines.induct)
  case (1 s)
  show ?case
  proof (cases "s = []")
    case True
    then show ?thesis by (simp add: fgets_lines.simps [of "[]"])
  next
    case False
    then have lf: "last s = LF" using "1.prems" by simp
    obtain r where r: "s = fgets_line s @ r" using fgets_line_grows by blast
    then have drop: "drop (length (fgets_line s)) s = r" by (metis append_eq_conv_conj)
    have "r = [] \<or> last r = LF" using lf r by (metis last_appendR)
    from "1.IH" [OF False] this drop have ih: "fgets_lines (r @ t) = fgets_lines r @ fgets_lines t" by simp
    have "fgets_lines (s @ t) = fgets_line (s @ t) # fgets_lines (drop (length (fgets_line (s @ t))) (s @ t))"
      using False by (subst fgets_lines.simps) simp
    also have "\<dots> = fgets_line s # fgets_lines (r @ t)"
      using fgets_line_append [OF False lf] r by (metis append.assoc append_eq_conv_conj)
    also have "\<dots> = (fgets_line s # fgets_lines r) @ fgets_lines t" using ih by simp
    also have "fgets_line s # fgets_lines r = fgets_lines s" using False drop by (subst (2) fgets_lines.simps) simp
    finally show ?thesis .
  qed
qed

lemma shared_batch_lines:
  "\<forall>s\<in>set texts. s = [] \<or> last s = LF \<Longrightarrow> fgets_lines (concat texts) = concat (map fgets_lines texts)"
  by (induction texts) (simp_all add: fgets_lines_append fgets_lines.simps [of "[]"])

end
