(* ===== verification/TransitionValidation.thy ===== *)
theory TransitionValidation
  imports ControllerCore
begin

text \<open>
  A transition succeeds only after the health probe found its target usable, and a submission that finds nothing applied
  for its traffic succeeds only through such a transition. Whatever survives the steps of a transition holds when the
  probe is called.
\<close>

section \<open>The probe call of a transition\<close>

text \<open>A call of the probe of \<open>A\<close> on the path \<open>target\<close> of a machine with \<open>I\<close>, which found the path usable.\<close>

definition validated :: "('w machine \<Rightarrow> bool) \<Rightarrow> 'w adapters \<Rightarrow> nat \<Rightarrow> bool" where
  "validated I A target \<longleftrightarrow> (\<exists>u validate h w. I u \<and> validate_path (snd (snd A)) = Some validate \<and>
     run_state (validate (path_at target u) zero_health) (world u) = ((EN_ERR_NONE, h), w) \<and>
     (ph_state h = EN_HEALTH_HEALTHY \<or> ph_state h = EN_HEALTH_DEGRADED))"

lemma validated_mono: "validated I A target \<Longrightarrow> (\<And>s. I s \<Longrightarrow> J s) \<Longrightarrow> validated J A target"
  unfolding validated_def by blast

context transition_stable
begin

lemma ready_validated:
  "triple I (transition_ready i) (\<lambda>e s. I s \<and> (e = EN_ERR_NONE \<longrightarrow> validated I A i))"
proof (rule tripleI, intro conjI impI)
  fix s e t
  assume I: "I s" and run: "run_state (transition_ready i) s = (e, t)"
  show "I t" using ready_ok I run by (rule preservesD)
  assume ok: "e = EN_ERR_NONE"
  let ?u = "snd (run_state (set_transition_state EN_TRANSITION_VALIDATING) s)"
  let ?v = "snd (run_state (en_audit_append ''READY'' ''validate target path'' (Some (pt_path_id (path_at i ?u)))) ?u)"
  have "I ?u" using preservesD [OF state_ok I] by (metis prod.collapse)
  then have v: "I ?v" using preservesD [OF audit_ok] by (metis prod.collapse)
  have "st ?v = st ?u"
    using preservesD [OF preserves_audit [where J = "\<lambda>c. c = st ?u"], of ?u] by (metis prod.collapse)
  then have same: "path_at i ?v = path_at i ?u" by (simp add: path_at_def)
  have probe: "validate_path (health_probe (ctl ?v)) = validate_path (snd (snd A))"
    using fixed_adapters [OF v] by (simp add: adapter_fields)
  obtain validate h where "validate_path (snd (snd A)) = Some validate"
    "fst (run_state (validate (path_at i ?u) zero_health) (world ?v)) = (EN_ERR_NONE, h)"
    "ph_state h = EN_HEALTH_HEALTHY \<or> ph_state h = EN_HEALTH_DEGRADED"
    using run ok probe by (auto simp: transition_ready_def run_on_world split: option.splits prod.splits if_splits)
  then show "validated I A i"
    unfolding validated_def using v same by (metis prod.collapse)
qed

lemma abort_returns: "triple (\<lambda>_. True) (abort_with lg err key rid i) (\<lambda>e s. e = err)"
  unfolding abort_with_def by (intro triple_seq [OF preserves_True] triple_return) simp

lemma transition_validated:
  assumes key: "transition_key intent = key"
  shows "triple I (en_transition_path intent target) (\<lambda>e s. e = EN_ERR_NONE \<longrightarrow> validated I A target)"
proof (cases "validated I A target")
  case False
  have ready: "triple I (retry_phase intent ph target (transition_ready target)) (\<lambda>e s. I s \<and> (e = EN_ERR_NONE \<longrightarrow> False))" for ph
    using ready_validated [of target] False
    by (intro retry_phase_triple) (simp_all, unfold transition_retry_wait_def, intro wp primitive_ok calls_ok)
  have abort: "triple P (abort_with lg err key rid target) (\<lambda>e s. e \<noteq> EN_ERR_NONE)" if "err \<noteq> EN_ERR_NONE" for P lg err rid
    by (rule triple_weaken [OF abort_returns]) (simp_all add: that)
  have checked: "triple I (retry_phase intent ph target (transition_ready target) \<bind> (\<lambda>err.
      if err \<noteq> EN_ERR_NONE then abort_with (lg err) err key rid target
      else transition_switch intent target key rid)) (\<lambda>e s. e \<noteq> EN_ERR_NONE)" for ph lg rid
    by (rule triple_bind [OF ready], rule triple_if, rule abort, assumption) (simp add: triple_def)
  have "triple I (en_transition_path intent target) (\<lambda>e s. e \<noteq> EN_ERR_NONE)"
    unfolding en_transition_path_def Let_def key
    by (intro triple_seq [OF preserves_gets] triple_if triple_return triple_seq [OF state_ok] triple_seq [OF audit_ok]
        triple_seq [OF retry_ok [OF prepare_ok]] abort checked) simp_all
  then show ?thesis by (rule triple_weaken) simp_all
qed (simp add: triple_def)

end

section \<open>The state the probe is called in\<close>

text \<open>Two properties that survive the steps of a transition do so together.\<close>

lemma preserves_both: "preserves I m \<Longrightarrow> preserves J m \<Longrightarrow> preserves (\<lambda>s. I s \<and> J s) m"
  by (auto simp: preserves_def triple_def)

lemma stable_both:
  assumes "transition_stable I A key target ids" "transition_stable J A key target UNIV"
  shows "transition_stable (\<lambda>s. I s \<and> J s) A key target ids"
proof (rule transition_stable.intro, goal_cases)
  case (1 s)
  then show ?case using transition_stable.fixed_adapters [OF assms(1)] by blast
next
  case (2 s w)
  then show ?case using transition_stable.world_ok [OF assms(1)] transition_stable.world_ok [OF assms(2)] by blast
next
  case (8 s)
  then show ?case using transition_stable.target_id [OF assms(1)] by blast
next
  case (9 p s)
  then show ?case using transition_stable.current_id [OF assms(1)] by blast
next
  case (10 s t c)
  then show ?case using transition_stable.observed_ok [OF assms(1)] transition_stable.observed_ok [OF assms(2)] by blast
next
  case (11 s h)
  then show ?case using transition_stable.health_ok [OF assms(1)] transition_stable.health_ok [OF assms(2)] by blast
qed (intro preserves_both transition_stable.primitive_ok [OF assms(1)] transition_stable.primitive_ok [OF assms(2)]
    transition_stable.applied_ok [OF assms(1)] transition_stable.applied_ok [OF assms(2)] UNIV_I; assumption)+

text \<open>The world of the machine, reached from \<open>w0\<close> by steps of the transition.\<close>

definition reached :: "'w adapters \<Rightarrow> string \<Rightarrow> 'w world \<Rightarrow> 'w machine \<Rightarrow> bool" where
  "reached A key w0 s \<longleftrightarrow> adapters s = A \<and> (outside_step A key)\<^sup>*\<^sup>* w0 (world s)"

lemma reached_step: "reached A key w0 s \<Longrightarrow> outside_step A key (world s) w \<Longrightarrow> reached A key w0 (s\<lparr>world := w\<rparr>)"
  by (auto simp: reached_def)

lemma reached_clock: "preserves (reached A key w0) (on_world en_now_ms)"
proof (rule preservesI)
  fix s a t
  assume "reached A key w0 s" and run: "run_state (on_world en_now_ms) s = (a, t)"
  then have "reached A key w0 (s\<lparr>world := snd (run_state en_now_ms (world s))\<rparr>)" by (intro reached_step clock_step)
  with run show "reached A key w0 t" by (simp add: run_on_world split: prod.splits)
qed

lemma reached_modify: "adapters (f s) = adapters s \<Longrightarrow> world (f s) = world s \<Longrightarrow> reached A key w0 s \<Longrightarrow> reached A key w0 (f s)"
  by (simp add: reached_def)

interpretation keeps_reached: transition_stable "reached A key w0" A key target UNIV
proof unfold_locales
  show "preserves (reached A key w0) (en_audit_append ty msg r)" for ty msg r
    unfolding en_audit_append_def by (intro wp reached_clock) (simp add: reached_modify)
  show "preserves (reached A key w0) (en_error_append e msg)" for e msg
    unfolding en_error_append_def by (intro wp) (simp add: reached_modify)
  show "preserves (reached A key w0) (set_transition_state x)" for x
    unfolding set_transition_state_def by (intro wp) (simp add: reached_modify)
  show "preserves (reached A key w0) (set_operational_state i v)" for i v
    unfolding set_operational_state_def by (intro wp) (simp add: reached_modify)
  show "preserves (reached A key w0) (en_set_applied_path key p)" for p
    unfolding en_set_applied_path_def by (intro wp reached_clock) (simp_all add: reached_modify)
qed (auto intro: reached_step simp: reached_modify, simp_all add: reached_def)

text \<open>The selection does nothing to the world but read the clock.\<close>

lemma selection_reads_clock:
  assumes now: "preserves J en_now_ms"
  shows "preserves J (en_select_path c intent)"
proof -
  have excl: "preserves J (exclusion_reason c x k p h)" for x k p h
    unfolding exclusion_reason_def Let_def by (intro wp now)
  have prio: "preserves J (select_priority c x k cands r)" for x k cands r
    by (induction cands arbitrary: r) (auto intro!: wp excl simp: Let_def)
  have eval: "preserves J (evaluate_candidates c x s cands best eligible r)" for x s cands best eligible r
    by (induction cands arbitrary: best eligible r) (auto intro!: wp excl simp: Let_def)
  have sum: "preserves J (case y of Inl a \<Rightarrow> State_Monad.return (f a) | Inr (a, b, c) \<Rightarrow> g a b c)"
    if "\<And>a b c. preserves J (g a b c)" for y :: "'x + 'y \<times> 'z \<times> 'u" and f :: "'x \<Rightarrow> 'v" and g
    using that by (auto intro!: wp split: sum.split)
  have "preserves J (select_evaluated c x s r)" for x s r
    unfolding select_evaluated_def by (intro wp sum eval)
  then show ?thesis
    unfolding en_select_path_def Let_def select_explicit_def
    by (cases "ps_mode (it_path_selection intent)") (auto intro!: wp prio excl simp: Let_def)
qed

lemma reached_select: "preserves (reached A key w0) (on_world (en_select_path c intent))"
proof -
  have "preserves ((outside_step A key)\<^sup>*\<^sup>* w0) en_now_ms"
  proof (rule preservesI)
    fix w a v
    assume "(outside_step A key)\<^sup>*\<^sup>* w0 w" "run_state en_now_ms w = (a, v)"
    with clock_step [of A key w] show "(outside_step A key)\<^sup>*\<^sup>* w0 v" by auto
  qed
  from selection_reads_clock [OF this] show ?thesis
    by (auto simp: preserves_def triple_def run_on_world reached_def split: prod.splits)
qed

interpretation submit_reached: submission_stable "reached A (transition_key intent) w0" intent
  by unfold_locales
    (auto intro!: keeps_reached.audit_ok keeps_reached.error_ok keeps_reached.state_ok keeps_reached.observe_candidates_ok
      keeps_reached.transition_ok [OF refl] reached_select simp: reached_modify)

section \<open>What a transition and a submission have validated\<close>

text \<open>The probe was called on the target as it is configured in \<open>c0\<close>, in a world the run reached from \<open>w0\<close>.\<close>

definition probe_found_usable ::
  "'w adapters \<Rightarrow> string \<Rightarrow> 'w world \<Rightarrow> en_controller_state \<Rightarrow> nat \<Rightarrow> bool" where
  "probe_found_usable A key w0 c0 target \<longleftrightarrow> (\<exists>p validate w h w'.
     configured_path p = configured_path (paths c0 ! target) \<and> validate_path (snd (snd A)) = Some validate \<and>
     (outside_step A key)\<^sup>*\<^sup>* w0 w \<and> run_state (validate p zero_health) w = ((EN_ERR_NONE, h), w') \<and>
     (ph_state h = EN_HEALTH_HEALTHY \<or> ph_state h = EN_HEALTH_DEGRADED))"

lemma transition_usable:
  assumes wf: "wf_state (st s)" "target < length (paths (st s))" and w: "reached A (transition_key intent) w0 s"
    and run: "run_state (en_transition_path intent target) s = (EN_ERR_NONE, t)"
  shows "probe_found_usable A (transition_key intent) w0 (st s) target"
proof -
  let ?T = "\<lambda>u. with_adapters A (on_st (transitioning (st s) (transition_key intent) target)) u"
  let ?J = "\<lambda>u. ?T u \<and> reached A (transition_key intent) w0 u"
  have stable: "transition_stable ?J A (transition_key intent) target (transition_ids (st s) (transition_key intent) target)"
    by (rule stable_both [OF keeps_frame.transition_stable_axioms keeps_reached.transition_stable_axioms])
  have "?J s" using transitioning_refl [OF wf] w by (simp add: reached_def)
  from tripleD [OF transition_stable.transition_validated [OF stable refl] this run]
  obtain u validate h w' where u: "?J u" "validate_path (snd (snd A)) = Some validate"
    "run_state (validate (path_at target u) zero_health) (world u) = ((EN_ERR_NONE, h), w')"
    "ph_state h = EN_HEALTH_HEALTHY \<or> ph_state h = EN_HEALTH_DEGRADED"
    by (auto simp: validated_def)
  moreover have "configured_path (path_at target u) = configured_path (paths (st s) ! target)"
    using u(1) wf(2) by (auto simp: path_at_def transitioning_def intro: frame_path)
  moreover have "(outside_step A (transition_key intent))\<^sup>*\<^sup>* w0 (world u)" using u(1) by (simp add: reached_def)
  ultimately show ?thesis unfolding probe_found_usable_def by blast
qed

lemma apply_selection_usable:
  assumes c0: "observing c0 (st s)" "applied c0 = []" and w: "reached A (transition_key intent) w0 s"
    and run: "run_state (apply_selection intent sel res) s = ((EN_ERR_NONE, r), t)"
  shows "\<exists>target. en_find_path c0 (Some (rr_selected_path r)) = Some target \<and>
    probe_found_usable A (transition_key intent) w0 c0 target"
proof -
  let ?I = "\<lambda>s. on_st (observing c0) s \<and> reached A (transition_key intent) w0 s"
  obtain a u where u: "run_state (set_transition_state EN_TRANSITION_CANDIDATE_SELECTED) s = (a, u)" by (meson surj_pair)
  obtain b v where v: "run_state (en_audit_append ''PATH_SELECTED'' (sr_reason sel) (Some (sr_selected_path sel))) u = (b, v)"
    by (meson surj_pair)
  have "preserves ?I (set_transition_state EN_TRANSITION_CANDIDATE_SELECTED)"
    by (intro preserves_both keeps_reached.state_ok preserves_set_transition_state) simp
  moreover have "preserves ?I (en_audit_append ty msg ref)" for ty msg ref
    by (intro preserves_both keeps_reached.audit_ok preserves_audit)
  ultimately have I: "?I v" using preservesD [OF _ _ u] preservesD [OF _ _ v] c0(1) w by blast
  have none: "en_get_applied_path (st v) (transition_key intent) = None"
    using I c0(2) by (auto simp: observing_def en_get_applied_path_def find_applied_def)
  obtain target where target: "en_find_path (st v) (Some (sr_selected_path sel)) = Some target"
    using run u v by (auto simp: apply_selection_def split: option.splits)
  obtain e t' where e: "run_state (en_transition_path intent target) v = (e, t')" by (meson surj_pair)
  have done': "e = EN_ERR_NONE" "t' = t" "rr_selected_path r = en_copy_id EN_MAX_ID_LEN (Some (sr_selected_path sel))"
    using run u v target none e by (auto simp: apply_selection_def Let_def en_streq_def reconcile_result_def)
  have wf: "wf_state (st v)" using I by (simp add: observing_def)
  have "target < length (paths (st v))" using find_path_id [OF target] by simp
  from transition_usable [OF wf this _ e [unfolded done'(1)]] I
  have "probe_found_usable A (transition_key intent) w0 c0 target"
    by (simp add: probe_found_usable_def observing_def)
  moreover have "rr_selected_path r = sr_selected_path sel"
    using done'(3) find_path_wf [OF wf target] by (simp add: cap_simps)
  ultimately show ?thesis using target I by (auto simp: observing_find_path)
qed

lemma reconcile_usable:
  assumes c0: "applied c0 = []"
  shows "triple (\<lambda>s. on_st (observing c0) s \<and> reached A (transition_key intent) w0 s) (reconcile intent res)
    (\<lambda>r s. fst r = EN_ERR_NONE \<longrightarrow> (\<exists>target. en_find_path c0 (Some (rr_selected_path (snd r))) = Some target \<and>
       probe_found_usable A (transition_key intent) w0 c0 target))"
  (is "triple ?I _ ?Q")
proof -
  have applied: "triple ?I (apply_selection intent sel res) ?Q" for sel
  proof (rule tripleI, rule impI)
    fix s r t
    assume s: "?I s" and run: "run_state (apply_selection intent sel res) s = (r, t)" "fst r = EN_ERR_NONE"
    then have "run_state (apply_selection intent sel res) s = ((EN_ERR_NONE, snd r), t)" by (simp add: prod_eq_iff)
    from apply_selection_usable [OF _ c0 _ this] s
    show "\<exists>target. en_find_path c0 (Some (rr_selected_path (snd r))) = Some target \<and>
      probe_found_usable A (transition_key intent) w0 c0 target" by blast
  qed
  have early: "triple P (State_Monad.return (e, x)) ?Q" if "e \<noteq> EN_ERR_NONE" for P e x
    by (rule triple_return) (simp add: that)
  have failed: "triple P (gets f \<bind> (\<lambda>state. en_error_append e msg \<bind> (\<lambda>_. State_Monad.return (e, g state)))) ?Q"
    if "e \<noteq> EN_ERR_NONE" for P :: "'a machine \<Rightarrow> bool" and f :: "'a machine \<Rightarrow> 'x" and e msg g
    by (rule tripleI) (use that in \<open>auto split: prod.splits\<close>)
  have select: "preserves ?I (on_world (en_select_path c intent))" for c
    by (intro preserves_both reached_select preserves_on_world)
  have selected: "triple ?I (on_world (en_select_path c intent) \<bind> (\<lambda>(err', selection).
       if err' \<noteq> EN_ERR_NONE then gets (\<lambda>s. transition_state (st s)) \<bind> (\<lambda>state. en_error_append err' msg \<bind> (\<lambda>_.
         State_Monad.return (err', reconcile_result intent [] state selection)))
       else apply_selection intent selection res)) ?Q" for c msg
    by (rule triple_seq [OF select]) (auto split: prod.split intro!: failed applied)
  show ?thesis
    unfolding reconcile_def
    by (intro triple_seq [OF preserves_both [OF preserves_audit keeps_reached.audit_ok]]
        triple_seq [OF preserves_both [OF observing_candidates keeps_reached.observe_candidates_ok]] triple_if early
        triple_seq [OF preserves_gets] selected)
qed

lemma submission_usable:
  assumes "wf_state (st s)" "applied (st s) = []"
    and run: "run_state (en_controller_submit_intent (Some intent) (Some r0)) s = ((EN_ERR_NONE, Some r), t)"
  shows "\<exists>target. en_find_path (st s) (Some (rr_selected_path r)) = Some target \<and>
    probe_found_usable (adapters s) (transition_key intent) (world s) (st s) target"
proof -
  obtain c where c: "put_intent intent (st s) = Some c"
    "run_state (reconcile intent r0) (upd_st (\<lambda>_. c) s) = ((EN_ERR_NONE, r), t)"
    using run by (auto simp: en_controller_submit_intent_def split: if_splits option.splits prod.splits)
  have "observing (st s) c" by (rule observing_put_intent [OF assms(1) c(1)])
  moreover have "reached (adapters s) (transition_key intent) (world s) (upd_st (\<lambda>_. c) s)" by (simp add: reached_def)
  ultimately show ?thesis
    using tripleD [OF reconcile_usable [OF assms(2)] _ c(2), of "adapters s" "world s"] by simp
qed

section \<open>Property\<close>

text \<open>
  C5. No transition succeeds without a validation of its target: the health probe of the controller was called on the
  target, as it is configured, in a world that the steps of the transition reached, and reported it healthy or
  degraded.
\<close>

theorem transition_validates_target:
  assumes "wf_state (st s)" "target < length (paths (st s))"
    and "run_state (en_transition_path intent target) s = (EN_ERR_NONE, t)"
  shows "\<exists>p validate w h w'. configured_path p = configured_path (paths (st s) ! target) \<and>
    validate_path (health_probe (ctl s)) = Some validate \<and>
    (outside_step (adapters s) (transition_key intent))\<^sup>*\<^sup>* (world s) w \<and>
    run_state (validate p zero_health) w = ((EN_ERR_NONE, h), w') \<and>
    (ph_state h = EN_HEALTH_HEALTHY \<or> ph_state h = EN_HEALTH_DEGRADED)"
proof -
  have "reached (adapters s) (transition_key intent) (world s) s" by (simp add: reached_def)
  from transition_usable [OF assms(1,2) this assms(3)] show ?thesis
    by (simp add: probe_found_usable_def adapters_def)
qed

theorem transition_validates_target_witness:
  "\<exists>p validate w h w'. pt_path_id p = ''path-direct'' \<and>
     validate_path (health_probe (ctl (sample_machine False (sample_active ''path-via-hub'')))) = Some validate \<and>
     run_state (validate p zero_health) w = ((EN_ERR_NONE, h), w') \<and>
     (ph_state h = EN_HEALTH_HEALTHY \<or> ph_state h = EN_HEALTH_DEGRADED)"
proof -
  let ?c = "sample_active ''path-via-hub''"
  have "wf_state (st (sample_machine False ?c))" "1 < length (paths (st (sample_machine False ?c)))"
    using sample_admitted by simp_all
  from transition_validates_target [OF this sample_transition_run [of False, unfolded sample_transition_code]]
  obtain p validate w h w' where p: "configured_path p = configured_path (paths ?c ! 1)"
    and found: "validate_path (health_probe (ctl (sample_machine False ?c))) = Some validate"
      "run_state (validate p zero_health) w = ((EN_ERR_NONE, h), w')"
      "ph_state h = EN_HEALTH_HEALTHY \<or> ph_state h = EN_HEALTH_DEGRADED"
    by (auto simp: st_sample_machine)
  have "pt_path_id p = ''path-direct''" using configured_path_fields(1) [OF p] sample_target by (rule trans)
  with found show ?thesis by blast
qed

end
