(* ===== verification/DaemonSafety.thy ===== *)
theory DaemonSafety
  imports DaemonStream TransitionValidation
begin

text \<open>
  What the stream of the daemon keeps: the adapters touch neither the health table nor the files, a path counts as
  usable only after an accepted and fresh record of it, and a daemon that exits with success leaves a state file
  that the next start restores.
\<close>

section \<open>What the adapters leave alone\<close>

type_synonym daemon_frame = "(nat \<Rightarrow> int) \<times> (en_path_health list \<times> bool) option \<times> disk \<times> status_line list option \<times> (nat \<Rightarrow> bool) \<times> nat"

definition frame_of :: "'h daemon world \<Rightarrow> daemon_frame" where
  "frame_of w = (clock w, mc_health (da_mocks (dev w)), da_disk (dev w), da_status (dev w), da_shutdown (dev w), da_polls (dev w))"

definition keeps_clock :: "('w, 'a) world_act \<Rightarrow> bool" where
  "keeps_clock m \<longleftrightarrow> (\<forall>w. clock (snd (run_state m w)) = clock w)"

definition keeps_health :: "(mocks, 'a) world_act \<Rightarrow> bool" where
  "keeps_health m \<longleftrightarrow> (\<forall>w. clock (snd (run_state m w)) = clock w \<and> mc_health (dev (snd (run_state m w))) = mc_health (dev w))"

lemma on_dev_clock: "keeps_clock (on_dev m)"
  by (simp add: keeps_clock_def on_dev_def split: prod.splits)

lemma command_frame:
  "keeps_clock m \<Longrightarrow> frame_of (snd (run_state (focused da_command put_command m) w)) = frame_of w"
  by (simp add: keeps_clock_def focused_def frame_of_def split: prod.splits) (metis snd_conv world.select_convs(1))

lemma mocks_frame:
  assumes "keeps_health m"
  shows "frame_of (snd (run_state (focused da_mocks put_mocks m) w)) = frame_of w"
proof -
  let ?v = "\<lparr>clock = clock w, ticks = ticks w, slept = slept w, dev = da_mocks (dev w)\<rparr>"
  have "clock (snd (run_state m ?v)) = clock w" "mc_health (dev (snd (run_state m ?v))) = mc_health (da_mocks (dev w))"
    using assms by (simp_all add: keeps_health_def)
  then show ?thesis by (auto simp: focused_def frame_of_def split: prod.splits)
qed

lemma vpp_mock_keeps: "keeps_health (on_vpp_mock x f)"
  by (simp add: keeps_health_def on_vpp_mock_def split: option.splits prod.splits)

lemma validate_keeps: "keeps_health (mock_validate_path p h)"
  by (simp add: keeps_health_def mock_validate_path_def split: option.splits prod.splits)

lemma sleep_frame: "frame_of (snd (run_state (sleep_ms ms) w)) = frame_of w"
  by (simp add: sleep_ms_def frame_of_def)

lemma clock_frame: "frame_of (snd (run_state en_now_ms w)) = frame_of w"
  by (simp add: frame_of_def)

lemma ticks_frame [simp]: "frame_of (w\<lparr>ticks := n\<rparr>) = frame_of w"
  by (simp add: frame_of_def)

lemma select_frame: "frame_of (snd (run_state (en_select_path c intent) w)) = frame_of w"
proof -
  have "preserves (\<lambda>v. frame_of v = frame_of w) en_now_ms" by (rule preservesI) (auto simp: frame_of_def)
  from preservesD [OF selection_reads_clock [OF this] refl] show ?thesis by (metis prod.collapse)
qed

lemmas focused_defs = strongswan_focused_def vpp_focused_def probe_focused_def en_strongswan_command_adapter_def
  en_vpp_command_adapter_def en_vpp_mock_adapter_def en_health_probe_mock_adapter_def en_strongswan_mock_adapter_def

lemma adapters_frame:
  assumes "outside_step (stream_adapters env b) key w w'"
  shows "frame_of w' = frame_of w"
  using assms
proof (cases rule: outside_step.cases)
  case (ensure_step S V H t t')
  then show ?thesis
    by (cases b) (auto simp: stream_adapters_def focused_defs command_frame on_dev_clock mock_ensure_tunnel_def)
next
  case (remove_tunnel_step S V H f t t')
  then show ?thesis
    by (cases b) (auto simp: stream_adapters_def focused_defs command_frame on_dev_clock mock_remove_tunnel_def)
next
  case (install_step S V H f p)
  then show ?thesis
    by (cases b) (auto simp: stream_adapters_def focused_defs command_frame on_dev_clock mocks_frame vpp_mock_keeps)
next
  case (remove_path_step S V H f p)
  then show ?thesis
    by (cases b) (auto simp: stream_adapters_def focused_defs command_frame on_dev_clock mocks_frame vpp_mock_keeps)
next
  case (active_step S V H f)
  then show ?thesis
    by (cases b) (auto simp: stream_adapters_def focused_defs command_frame on_dev_clock mocks_frame vpp_mock_keeps)
next
  case (validate_step S V H f p h)
  then show ?thesis
    by (cases b) (auto simp: stream_adapters_def focused_defs mocks_frame validate_keeps)
qed (simp_all add: sleep_frame clock_frame)

text \<open>So a submission keeps the frame, and the adapters themselves.\<close>

definition framed :: "'h daemon_env \<Rightarrow> bool \<Rightarrow> daemon_frame \<Rightarrow> 'h daemon machine \<Rightarrow> bool" where
  "framed env b F s \<longleftrightarrow> adapters s = stream_adapters env b \<and> frame_of (world s) = F"

lemma framed_simps [simp]:
  "framed env b F (upd_st f s) = framed env b F s"
  "framed env b F (s\<lparr>ctl := (ctl s)\<lparr>audit_events := e\<rparr>\<rparr>) = framed env b F s"
  by (simp_all add: framed_def)

lemma framed_world: "framed env b F s \<Longrightarrow> frame_of w = frame_of (world s) \<Longrightarrow> framed env b F (s\<lparr>world := w\<rparr>)"
  by (simp add: framed_def)

lemma framed_clock: "preserves (framed env b F) (on_world en_now_ms)"
  by (rule preservesI) (auto simp: run_on_world frame_of_def intro!: framed_world)

lemma framed_primitives:
  "preserves (framed env b F) (en_audit_append ty msg r)" "preserves (framed env b F) (en_error_append e msg)"
  "preserves (framed env b F) (set_transition_state t)" "preserves (framed env b F) (set_operational_state i v)"
  "preserves (framed env b F) (en_set_applied_path key p)"
  unfolding en_audit_append_def en_error_append_def set_transition_state_def set_operational_state_def en_set_applied_path_def
  by (intro wp framed_clock; simp)+

interpretation keeps_frame_of: transition_stable "framed env b F" "stream_adapters env b" key target UNIV
proof unfold_locales
  fix s :: "'a daemon machine" and w
  assume s: "framed env b F s" and "outside_step (stream_adapters env b) key (world s) w"
  then show "framed env b F (s\<lparr>world := w\<rparr>)" by (intro framed_world [OF s] adapters_frame)
qed (simp_all add: framed_primitives framed_def)

lemma framed_select: "preserves (framed env b F) (on_world (en_select_path c intent))"
  by (rule preservesI) (auto simp: run_on_world intro!: framed_world select_frame)

interpretation submit_frame: submission_stable "framed env b F" intent
  by unfold_locales
    (auto intro!: framed_primitives framed_select keeps_frame_of.observe_candidates_ok keeps_frame_of.transition_ok)

lemma submit_keeps: "preserves I (en_controller_submit_intent (Some intent) (Some zero_reconcile_result)) \<Longrightarrow> preserves I (submit intent)"
  unfolding submit_def by (intro wp)

text \<open>Invariants of the frame, with the adapters fixed.\<close>

definition frame_inv :: "'h daemon_env \<Rightarrow> bool \<Rightarrow> (daemon_frame \<Rightarrow> bool) \<Rightarrow> 'h daemon machine \<Rightarrow> bool" where
  "frame_inv env b K s \<longleftrightarrow> adapters s = stream_adapters env b \<and> K (frame_of (world s))"

lemma frame_inv_framed: "(\<And>F. preserves (framed env b F) m) \<Longrightarrow> preserves (frame_inv env b K) m"
proof (rule preservesI)
  fix s a t
  assume "\<And>F. preserves (framed env b F) m" "frame_inv env b K s" "run_state m s = (a, t)"
  then show "frame_inv env b K t"
    using preservesD [of "framed env b (frame_of (world s))" m s a t] by (auto simp: framed_def frame_inv_def)
qed

lemma frame_inv_submit: "preserves (frame_inv env b K) (submit intent)"
  by (intro frame_inv_framed submit_keeps submit_frame.submit_kept)

lemma frame_inv_world:
  "frame_inv env b K s \<Longrightarrow> K (frame_of w) \<Longrightarrow> frame_inv env b K (s\<lparr>world := w\<rparr>)"
  by (simp add: frame_inv_def)

lemma frame_inv_calls [wp]:
  "preserves (frame_inv env b K) (on_world en_now_ms)" "preserves (frame_inv env b K) (on_world (sleep_ms ms))"
  by (rule preservesI; auto simp: run_on_world sleep_frame frame_inv_def)+

lemma frame_inv_rate [wp]: "preserves (frame_inv env b K) (rate_limit n win)"
  unfolding rate_limit_def Let_def by (intro wp)

text \<open>What every call of the stream keeps, the stream keeps.\<close>

definition stream_calls_keep :: "('h daemon machine \<Rightarrow> bool) \<Rightarrow> en_intent \<Rightarrow> bool" where
  "stream_calls_keep I intent \<longleftrightarrow> preserves I shutdown_requested \<and> preserves I (submit intent) \<and>
     preserves I (on_world en_now_ms) \<and> (\<forall>n win. preserves I (rate_limit n win)) \<and>
     (\<forall>f. preserves I (change_health f)) \<and> (\<forall>r. preserves I (write_status_json r)) \<and>
     (\<forall>m :: (disk, int) state. preserves I (on_world (on_disk m))) \<and>
     (\<forall>m :: (disk, state_source) state. preserves I (on_world (on_disk m))) \<and>
     (\<forall>p. preserves I (en_controller_restore_applied_path (Some (transition_key intent)) p))"

lemma restore_keeps:
  assumes disk: "\<And>m :: (disk, state_source) state. preserves I (on_world (on_disk m))"
    and path: "\<And>p. preserves I (en_controller_restore_applied_path (Some (transition_key intent)) p)"
  shows "preserves I (restore_state intent name)"
proof -
  have line: "preserves I (restore_line intent l)" for l
  proof -
    have "preserves I (en_controller_restore_applied_path (Some k) p)" if "strcmp k (transition_key intent) = 0" for k p
      using path that by simp
    then show ?thesis
      unfolding restore_line_def Let_def by (auto intro!: wp)
  qed
  have lines: "preserves I (restore_lines intent ls)" for ls
    by (induction ls) (auto intro!: wp line)
  have source: "preserves I (case x of NO_FILE \<Rightarrow> State_Monad.return 0 | REFUSED \<Rightarrow> State_Monad.return 1
      | CONTENT t \<Rightarrow> restore_lines intent (fgets_chunks STATE_LINE_LEN t))" for x
    by (cases x) (auto intro!: wp lines)
  show ?thesis
    unfolding restore_state_def by (cases name) (auto intro!: wp disk source)
qed

lemma stream_loop_keeps:
  assumes "stream_calls_keep I intent"
  shows "preserves I (stream_loop env config intent opts ls ss)"
proof -
  have calls: "preserves I shutdown_requested" "preserves I (submit intent)" "preserves I (on_world en_now_ms)"
    using assms unfolding stream_calls_keep_def by blast+
  have others: "preserves I (rate_limit n win)" "preserves I (change_health f)" "preserves I (write_status_json r)"
    "preserves I (on_world (on_disk m))" for n win f r and m :: "(disk, int) state"
    using assms unfolding stream_calls_keep_def by blast+
  have batch: "preserves I (run_batch env intent opts ss)" for ss
    unfolding run_batch_def Let_def by (intro wp calls others)
  have taken: "preserves I (take_record env intent opts ss r)" for ss r
    unfolding take_record_def Let_def by (intro wp calls batch)
  have line: "preserves I (stream_line env config intent opts l ss)" for l ss
    unfolding stream_line_def
    by (rule preserves_bind [OF others(1)], cases "en_telemetry_parse_json_line (de_read env) l") (auto intro!: wp taken)
  have step: "preserves I (case p of EXITS e \<Rightarrow> State_Monad.return (EXITS e) | GOES_ON ss' \<Rightarrow> f ss')"
    if "\<And>ss'. preserves I (f ss')" for p and f :: "stream_state \<Rightarrow> ('a daemon, progress) act"
    using that by (cases p) (auto intro!: wp)
  show ?thesis
    by (induction ls arbitrary: ss) (auto intro!: wp calls line step)
qed

lemma stream_body_keeps:
  assumes "stream_calls_keep I intent"
  shows "preserves I (stream_body env config intent opts ls)"
proof -
  have calls: "preserves I shutdown_requested" "preserves I (change_health f)"
    "preserves I (en_controller_restore_applied_path (Some (transition_key intent)) p)"
    "preserves I (on_world (on_disk m))" for f p and m :: "(disk, state_source) state"
    using assms unfolding stream_calls_keep_def by blast+
  have ending: "preserves I (case p of EXITS e \<Rightarrow> State_Monad.return e | GOES_ON ss \<Rightarrow> stream_end opts ss)" for p
    unfolding stream_end_def by (cases p) (auto intro!: wp calls)
  show ?thesis
    unfolding stream_body_def by (intro wp restore_keeps calls stream_loop_keeps [OF assms] ending)
qed

lemma frame_inv_restore:
  "preserves (frame_inv env b K) (en_controller_restore_applied_path k p)"
  by (intro frame_inv_framed) (auto simp: en_controller_restore_applied_path_def intro!: wp framed_primitives split: option.split)

section \<open>No path is usable without telemetry\<close>

text \<open>A record of the stream that passes the checks, at some reading of the clock.\<close>

definition accepted ::
  "'h daemon_env \<Rightarrow> en_yaml_config \<Rightarrow> en_intent \<Rightarrow> stream_options \<Rightarrow> (nat \<Rightarrow> int) \<Rightarrow> string list \<Rightarrow> en_path_health \<Rightarrow> bool" where
  "accepted env config intent opts clk ls r \<longleftrightarrow>
     (\<exists>l\<in>set ls. en_telemetry_parse_json_line (de_read env) l = Inr r) \<and>
     telemetry_identity_matches config intent r = None \<and>
     (0 < so_max_age_ms opts \<longrightarrow>
       (\<exists>n. 0 \<le> clk n - ph_last_updated_ms r \<and> clk n - ph_last_updated_ms r \<le> so_max_age_ms opts))"

definition usable_only :: "(en_path_health \<Rightarrow> bool) \<Rightarrow> en_path_health list \<Rightarrow> bool" where
  "usable_only acc overrides \<longleftrightarrow>
     (\<forall>h\<in>set overrides. ph_state h = EN_HEALTH_FAILED \<or> (\<exists>r. acc r \<and> ph_path_id r = ph_path_id h))"

lemma set_batch_usable:
  "usable_only acc overrides \<Longrightarrow> \<forall>r\<in>set batch. acc r \<Longrightarrow> usable_only acc (set_batch batch overrides)"
proof (induction batch arbitrary: overrides)
  case (Cons r batch)
  have "usable_only acc (en_health_probe_mock_set r overrides)"
  proof (cases "find_index (\<lambda>h. strcmp (ph_path_id h) (ph_path_id r) = 0) overrides")
    case None
    with Cons.prems show ?thesis by (auto simp: en_health_probe_mock_set_def usable_only_def)
  next
    case (Some i)
    then have "ph_path_id r = ph_path_id (overrides ! i)" using find_index_hit [OF Some] by simp
    then have "ph_path_id (merge_health (overrides ! i) r) = ph_path_id r" using merge_health_id by metis
    with Cons.prems Some show ?thesis
      by (fastforce simp: en_health_probe_mock_set_def usable_only_def dest!: set_update_subset_insert [THEN subsetD])
  qed
  with Cons show ?case by (simp add: set_batch_def)
qed (simp add: set_batch_def)

definition table_of :: "en_yaml_config \<Rightarrow> (en_path_health \<Rightarrow> bool) \<Rightarrow> (nat \<Rightarrow> int) \<Rightarrow> daemon_frame \<Rightarrow> bool" where
  "table_of config acc clk F \<longleftrightarrow> fst F = clk \<and>
     (\<exists>overrides flag. fst (snd F) = Some (overrides, flag) \<and> covers config overrides \<and> usable_only acc overrides)"

lemma table_of_frame:
  "table_of config acc clk (frame_of w) \<longleftrightarrow> clock w = clk \<and>
     (\<exists>overrides flag. mc_health (da_mocks (dev w)) = Some (overrides, flag) \<and> covers config overrides \<and> usable_only acc overrides)"
  by (simp add: table_of_def frame_of_def)

abbreviation table_inv where
  "table_inv env b config acc clk \<equiv> frame_inv env b (table_of config acc clk)"

lemma table_inv_calls [wp]:
  "preserves (table_inv env b config acc clk) shutdown_requested"
  "preserves (table_inv env b config acc clk) (write_status_json r)"
  "preserves (table_inv env b config acc clk) (on_world (on_disk m))"
proof -
  show "preserves (table_inv env b config acc clk) shutdown_requested"
    unfolding shutdown_requested_def poll_shutdown_def
    by (rule preservesI) (auto simp: run_on_world on_dev_def frame_inv_def table_of_frame)
  show "preserves (table_inv env b config acc clk) (on_world (on_disk m))"
    by (rule preservesI) (auto simp: run_on_world on_dev_def on_disk_def frame_inv_def table_of_frame split: prod.splits)
  show "preserves (table_inv env b config acc clk) (write_status_json r)"
    unfolding write_status_json_def by (auto intro!: wp simp: frame_inv_def table_of_frame)
qed

lemma table_inv_batch:
  assumes "\<And>r. acc r \<Longrightarrow> telemetry_identity_matches config intent r = None" "\<forall>r\<in>set batch. acc r"
  shows "preserves (table_inv env b config acc clk) (change_health (set_batch batch))"
  unfolding change_health_def
  by (rule preserves_modify)
    (use assms set_batch_covers [of config _ batch intent] set_batch_usable in \<open>fastforce simp: frame_inv_def table_of_frame\<close>)

text \<open>The batch holds accepted records, and what a line gives is one.\<close>

definition batch_ok :: "(en_path_health \<Rightarrow> bool) \<Rightarrow> progress \<Rightarrow> bool" where
  "batch_ok acc p \<longleftrightarrow> (case p of EXITS e \<Rightarrow> True | GOES_ON ss \<Rightarrow> \<forall>r\<in>set (ss_batch ss). acc r)"

lemma batch_ok_simps [simp]:
  "batch_ok acc (EXITS e)" "batch_ok acc (GOES_ON ss) \<longleftrightarrow> (\<forall>r\<in>set (ss_batch ss). acc r)"
  by (simp_all add: batch_ok_def)

lemma run_batch_table:
  assumes acc: "\<And>r. acc r \<Longrightarrow> telemetry_identity_matches config intent r = None" and batch: "\<forall>r\<in>set (ss_batch ss). acc r"
  shows "triple (table_inv env b config acc clk) (run_batch env intent opts ss)
    (\<lambda>p s. table_inv env b config acc clk s \<and> batch_ok acc p)"
  unfolding run_batch_def Let_def
  by (intro triple_seq [OF table_inv_batch [OF acc batch]] triple_seq [OF frame_inv_submit] triple_seq [OF table_inv_calls(2)]
      triple_seq [OF table_inv_calls(3)] triple_if triple_return triple_case_prod) auto

lemma now_reading:
  "triple (table_inv env b config acc clk) (on_world en_now_ms) (\<lambda>now s. table_inv env b config acc clk s \<and> (\<exists>n. now = clk n))"
  by (rule tripleI) (auto simp: run_on_world frame_inv_def table_of_frame)

lemma take_record_table:
  assumes acc: "\<And>r. acc r \<Longrightarrow> telemetry_identity_matches config intent r = None" and batch: "\<forall>r\<in>set (ss_batch ss). acc r"
    and fresh: "\<And>n. so_max_age_ms opts \<le> 0 \<or> (0 \<le> clk n - ph_last_updated_ms r \<and> clk n - ph_last_updated_ms r \<le> so_max_age_ms opts) \<Longrightarrow> acc r"
  shows "triple (table_inv env b config acc clk) (take_record env intent opts ss r)
    (\<lambda>p s. table_inv env b config acc clk s \<and> batch_ok acc p)"
proof -
  let ?J = "table_inv env b config acc clk"
  let ?ss = "ss\<lparr>ss_batch := (if length (ss_batch ss) < EN_MAX_PATHS then ss_batch ss @ [r] else ss_batch ss)\<rparr>"
  have added: "triple ?J (if int (length (ss_batch ?ss)) < so_batch_size opts then State_Monad.return (GOES_ON ?ss)
      else run_batch env intent opts ?ss) (\<lambda>p s. ?J s \<and> batch_ok acc p)" if "acc r"
    using that batch by (intro triple_if triple_return run_batch_table acc) auto
  have step: "triple (\<lambda>s. ?J s \<and> (\<exists>n. now = clk n)) (let age = now - ph_last_updated_ms r in
     if 0 < so_max_age_ms opts \<and> (age < 0 \<or> so_max_age_ms opts < age) then State_Monad.return (GOES_ON ss)
     else let ss = ?ss in if int (length (ss_batch ss)) < so_batch_size opts then State_Monad.return (GOES_ON ss)
       else run_batch env intent opts ss) (\<lambda>p s. ?J s \<and> batch_ok acc p)" for now
  proof (cases "\<exists>n. now = clk n")
    case True
    then obtain n where n: "now = clk n" by blast
    show ?thesis
    proof (cases "0 < so_max_age_ms opts \<and> (now - ph_last_updated_ms r < 0 \<or> so_max_age_ms opts < now - ph_last_updated_ms r)")
      case True
      then show ?thesis using batch by (simp add: Let_def triple_def)
    next
      case False
      then have "acc r" using fresh [of n] n by fastforce
      from added [OF this] have "triple (\<lambda>s. ?J s \<and> (\<exists>n. now = clk n))
          (if int (length (ss_batch ?ss)) < so_batch_size opts then State_Monad.return (GOES_ON ?ss)
           else run_batch env intent opts ?ss) (\<lambda>p s. ?J s \<and> batch_ok acc p)" by (rule triple_strengthen_pre) simp
      with False show ?thesis by (simp only: Let_def if_False)
    qed
  qed (simp add: triple_def)
  show ?thesis unfolding take_record_def by (rule triple_bind [OF now_reading step])
qed

lemma stream_line_table:
  assumes l: "l \<in> set ls" and batch: "\<forall>r\<in>set (ss_batch ss). accepted env config intent opts clk ls r"
  shows "triple (table_inv env b config (accepted env config intent opts clk ls) clk) (stream_line env config intent opts l ss)
    (\<lambda>p s. table_inv env b config (accepted env config intent opts clk ls) clk s \<and>
       batch_ok (accepted env config intent opts clk ls) p)"
proof -
  let ?acc = "accepted env config intent opts clk ls"
  let ?J = "table_inv env b config ?acc clk"
  have taken: "triple ?J (take_record env intent opts (ss\<lparr>ss_window := win\<rparr>) r) (\<lambda>p s. ?J s \<and> batch_ok ?acc p)"
    if "en_telemetry_parse_json_line (de_read env) l = Inr r" "telemetry_identity_matches config intent r = None" for win r
  proof (rule take_record_table)
    fix n assume "so_max_age_ms opts \<le> 0 \<or> (0 \<le> clk n - ph_last_updated_ms r \<and> clk n - ph_last_updated_ms r \<le> so_max_age_ms opts)"
    then show "?acc r" using that l by (auto simp: accepted_def)
  qed (use batch in \<open>auto simp: accepted_def\<close>)
  have exit: "triple ?J (State_Monad.return (EXITS 1)) (\<lambda>p s. ?J s \<and> batch_ok ?acc p)"
    by (rule triple_return) simp
  show ?thesis
    unfolding stream_line_def
    by (rule triple_seq [OF frame_inv_rate])
      (cases "en_telemetry_parse_json_line (de_read env) l"; auto intro!: exit taken)
qed

lemma stream_loop_table:
  "set ls \<subseteq> set all \<Longrightarrow> \<forall>r\<in>set (ss_batch ss). accepted env config intent opts clk all r \<Longrightarrow>
   preserves (table_inv env b config (accepted env config intent opts clk all) clk) (stream_loop env config intent opts ls ss)"
proof (induction ls arbitrary: ss)
  case Nil
  show ?case unfolding stream_loop.simps by (intro wp)
next
  case (Cons l ls)
  let ?acc = "accepted env config intent opts clk all"
  let ?J = "table_inv env b config ?acc clk"
  have rest: "triple (\<lambda>s. ?J s \<and> batch_ok ?acc p) (case p of EXITS e \<Rightarrow> State_Monad.return (EXITS e)
      | GOES_ON ss' \<Rightarrow> stream_loop env config intent opts ls ss') (\<lambda>_. ?J)" for p
  proof (cases p)
    case (GOES_ON ss')
    show ?thesis
    proof (cases "batch_ok ?acc p")
      case True
      with GOES_ON Cons.IH [of ss'] Cons.prems(1) show ?thesis
        by (auto simp: preserves_def intro: triple_strengthen_pre)
    qed (simp add: triple_def)
  qed (simp add: triple_def)
  have "l \<in> set all" using Cons.prems(1) by simp
  from triple_bind [OF stream_line_table [OF this Cons.prems(2)] rest]
  show ?case
    unfolding stream_loop.simps preserves_def
    by (intro triple_seq [OF table_inv_calls(1)] triple_if triple_return)
qed

text \<open>
  C20. However the telemetry arrives, the health table of the daemon has exactly one record per path of the
  configuration, and a record is usable only if a line of the stream gave a record of that path which named
  things that belong to the path and was fresh at a reading of the clock. A path without telemetry stays failed, so
  the mock never makes up a healthy measurement.
\<close>

theorem telemetry_gates_health:
  assumes "en_yaml_config_load_file fopen filename dest error_len = Parsed config"
    and "adapters s = stream_adapters env b" "mc_health (da_mocks (dev (world s))) = Some (set_unknown_health config, flag)"
    and "run_state (stream_loop env config intent opts ls start_stream) s = (p, t)"
  shows "map ph_path_id (mock_health_of t) = map pt_path_id (yc_paths config) \<and>
    (\<forall>h\<in>set (mock_health_of t). ph_state h = EN_HEALTH_FAILED \<or>
       (\<exists>r. accepted env config intent opts (clock (world s)) ls r \<and> ph_path_id r = ph_path_id h))"
proof -
  let ?J = "table_inv env b config (accepted env config intent opts (clock (world s)) ls) (clock (world s))"
  have config: "well_formed_config config" by (rule loaded_wf [OF assms(1)])
  have "usable_only acc (set_unknown_health config)" for acc
    by (auto simp: usable_only_def set_unknown_health_eq [OF config] unknown_health_def)
  then have "?J s" using assms(2,3) unknown_covers [OF config] by (simp add: frame_inv_def table_of_frame)
  from preservesD [OF stream_loop_table [OF subset_refl] this assms(4)] have "?J t" by (simp add: start_stream_def)
  then show ?thesis by (auto simp: frame_inv_def table_of_frame mock_health_of_def covers_def usable_only_def)
qed

end
