(* ===== verification/DaemonOutcome.thy ===== *)
theory DaemonOutcome
  imports DaemonSafety CommandSafety
begin

text \<open>
  What success of the daemon's stream means: a submission succeeded, and the state file holds a path that the next
  start over the same configuration restores.
\<close>

section \<open>Invariants of the stream\<close>

text \<open>The controller is configured and has room for the traffic of the intent.\<close>

definition ready :: "en_yaml_config \<Rightarrow> en_intent \<Rightarrow> en_controller_state \<Rightarrow> bool" where
  "ready config intent c \<longleftrightarrow> configured config c \<and> applied_room (transition_key intent) c"

lemma ready_other [simp, intro]:
  "ready config intent (c\<lparr>transition_state := t\<rparr>) = ready config intent c"
  "ready config intent c \<Longrightarrow> length e \<le> EN_MAX_ERRORS \<Longrightarrow> ready config intent (c\<lparr>errors := e\<rparr>)"
  "ready config intent c \<Longrightarrow> ready config intent (put_applied (transition_key intent) p now c)"
  "ready config intent c \<Longrightarrow> ready config intent (c\<lparr>paths := (paths c)[i := (paths c ! i)\<lparr>pt_operational_state := v\<rparr>]\<rparr>)"
  by (simp_all add: ready_def configured_operational transition_key_length)
    (simp_all add: applied_room_def find_applied_def)

lemma ready_registries:
  "ready config intent c \<Longrightarrow> put_observed t c = Some c' \<Longrightarrow> ready config intent c'"
  "ready config intent c \<Longrightarrow> ready config intent (put_health h c)"
  by (auto simp: ready_def configured_health dest: configured_observed)
    (auto simp: put_observed_def put_health_def applied_room_def find_applied_def split: option.splits if_splits)

interpretation keeps_ready:
  transition_stable "with_adapters A (on_st (ready config intent))" A "transition_key intent" target UNIV
  by unfold_locales (auto intro!: wp ready_registries(2) dest: ready_registries(1))

lemma put_intent_ready:
  "ready config intent c \<Longrightarrow> put_intent intent' c = Some c' \<Longrightarrow> ready config intent c'"
  by (auto simp: ready_def put_intent_configured)
    (auto simp: put_intent_def applied_room_def find_applied_def split: option.splits if_splits)

interpretation submit_ready: submission_stable "on_st (ready config intent)" intent
  by unfold_locales
    (auto intro!: wp drop_adapters [OF keeps_ready.observe_candidates_ok]
      drop_adapters [OF keeps_ready.transition_ok] dest: put_intent_ready)

text \<open>A file that the next start restores.\<close>

definition saved_path :: "en_yaml_config \<Rightarrow> en_intent \<Rightarrow> string \<Rightarrow> disk \<Rightarrow> bool" where
  "saved_path config intent file d \<longleftrightarrow>
     (\<exists>p. restorable intent p (fresh_state config) \<and> length p < EN_MAX_ID_LEN \<and>
       dk_files d file = Some \<lparr>df_kind = REGULAR, df_shared = False, df_content = state_line (transition_key intent) p\<rparr>)"

definition worth_saving :: "en_yaml_config \<Rightarrow> en_intent \<Rightarrow> en_reconcile_result \<Rightarrow> bool" where
  "worth_saving config intent r \<longleftrightarrow>
     restorable intent (rr_selected_path r) (fresh_state config) \<and> length (rr_selected_path r) < EN_MAX_ID_LEN"

definition outcome_frame :: "en_yaml_config \<Rightarrow> en_intent \<Rightarrow> string \<Rightarrow> int \<Rightarrow> daemon_frame \<Rightarrow> bool" where
  "outcome_frame config intent file n F \<longleftrightarrow> (0 < n \<longrightarrow> saved_path config intent file (fst (snd (snd F))))"

abbreviation outcome_inv where
  "outcome_inv env b config intent file n \<equiv>
     \<lambda>s. frame_inv env b (outcome_frame config intent file n) s \<and> on_st (ready config intent) s"

lemma outcome_frame_of [simp]:
  "outcome_frame config intent file n (frame_of w) \<longleftrightarrow> (0 < n \<longrightarrow> saved_path config intent file (da_disk (dev w)))"
  by (simp add: outcome_frame_def frame_of_def)

lemma st_modify_world: "preserves (on_st J) (modify (\<lambda>s. s\<lparr>world := f s\<rparr>))"
  by (rule preserves_modify) simp

lemma outcome_calls [wp]:
  "preserves (outcome_inv env b config intent file n) shutdown_requested"
  "preserves (outcome_inv env b config intent file n) (write_status_json r)"
  "preserves (outcome_inv env b config intent file n) (change_health f)"
  "preserves (outcome_inv env b config intent file n) (rate_limit k win)"
  "preserves (outcome_inv env b config intent file n) (on_world en_now_ms)"
proof -
  show "preserves (outcome_inv env b config intent file n) shutdown_requested"
    unfolding shutdown_requested_def poll_shutdown_def
    by (intro preserves_both wp) (rule preservesI; auto simp: run_on_world on_dev_def frame_inv_def)
  show "preserves (outcome_inv env b config intent file n) (write_status_json r)"
    unfolding write_status_json_def by (intro preserves_both wp) (auto simp: frame_inv_def)
  show "preserves (outcome_inv env b config intent file n) (change_health f)"
    unfolding change_health_def by (auto intro!: wp simp: frame_inv_def)
  show "preserves (outcome_inv env b config intent file n) (rate_limit k win)"
    unfolding rate_limit_def Let_def by (intro preserves_both wp)
  show "preserves (outcome_inv env b config intent file n) (on_world en_now_ms)"
    by (intro preserves_both wp)
qed

lemma submit_outcome:
  assumes "well_formed_config config" "valid_state_field (transition_key intent) False"
  shows "triple (outcome_inv env b config intent file n) (submit intent) (\<lambda>er s. outcome_inv env b config intent file n s \<and>
    (fst er = EN_ERR_NONE \<longrightarrow> worth_saving config intent (snd er)))"
proof -
  have kept: "preserves (outcome_inv env b config intent file n) (submit intent)"
    by (intro preserves_both frame_inv_submit submit_keeps submit_ready.submit_kept)
  have "triple (on_st (ready config intent)) (submit intent)
      (\<lambda>er s. fst er = EN_ERR_NONE \<longrightarrow> worth_saving config intent (snd er))"
  proof (rule tripleI, rule impI)
    fix s er t assume s: "on_st (ready config intent) s" and run: "run_state (submit intent) s = (er, t)" and ok: "fst er = EN_ERR_NONE"
    obtain e rp t' where sub: "run_state (en_controller_submit_intent (Some intent) (Some zero_reconcile_result)) s = ((e, rp), t')"
      by (metis surj_pair)
    with run have er: "er = (e, case rp of None \<Rightarrow> zero_reconcile_result | Some x \<Rightarrow> x)" by (simp add: submit_def)
    with ok sub have sub: "run_state (en_controller_submit_intent (Some intent) (Some zero_reconcile_result)) s = ((EN_ERR_NONE, rp), t')"
      by simp
    have wf: "wf_state (st s)" and c: "configured config (st s)" "applied_room (transition_key intent) (st s)"
      using s by (simp_all add: ready_def configured_def)
    from submission_outcome [OF wf sub] obtain r where r: "rp = Some r" by blast
    with submission_restorable [OF assms c sub [unfolded r] fresh_configured [OF assms(1)]] er
    show "worth_saving config intent (snd er)" by (simp add: worth_saving_def)
  qed
  with kept show ?thesis by (auto simp: preserves_def triple_def)
qed

lemma persist_step:
  assumes "worth_saving config intent r"
  shows "triple (outcome_inv env b config intent file n) (on_world (on_disk (persist_state pid (Some file) intent r)))
    (\<lambda>e s. e = 0 \<longrightarrow> outcome_inv env b config intent file m s)"
proof (rule tripleI)
  fix s e t assume s: "outcome_inv env b config intent file n s"
    and run: "run_state (on_world (on_disk (persist_state pid (Some file) intent r))) s = (e, t)"
  obtain e' d where p: "run_state (persist_state pid (Some file) intent r) (da_disk (dev (world s))) = (e', d)" by (metis surj_pair)
  with run have t: "e' = e" "t = s\<lparr>world := (world s)\<lparr>dev := (dev (world s))\<lparr>da_disk := d\<rparr>\<rparr>\<rparr>"
    by (auto simp: run_on_disk)
  have "saved_path config intent file d" if "e = 0"
    using persist_outcome [OF p] that t assms by (auto simp: saved_path_def worth_saving_def)
  with s t show "e = 0 \<longrightarrow> outcome_inv env b config intent file m t" by (simp add: frame_inv_def)
qed

definition good :: "'h daemon_env \<Rightarrow> bool \<Rightarrow> en_yaml_config \<Rightarrow> en_intent \<Rightarrow> string \<Rightarrow> progress \<Rightarrow> 'h daemon machine \<Rightarrow> bool" where
  "good env b config intent file p s \<longleftrightarrow> (case p of EXITS e \<Rightarrow> e \<noteq> 0
     | GOES_ON ss \<Rightarrow> 0 \<le> ss_successful ss \<and> outcome_inv env b config intent file (ss_successful ss) s)"

lemma good_simps [simp]:
  "good env b config intent file (EXITS e) s \<longleftrightarrow> e \<noteq> 0"
  "good env b config intent file (GOES_ON ss) s \<longleftrightarrow> 0 \<le> ss_successful ss \<and> outcome_inv env b config intent file (ss_successful ss) s"
  by (simp_all add: good_def)

lemma good_GOES_ON:
  "0 \<le> ss_successful ss \<Longrightarrow>
   good env b config intent file (GOES_ON ss) = outcome_inv env b config intent file (ss_successful ss)"
  by (rule ext) simp

lemma run_batch_good:
  assumes config: "well_formed_config config" "valid_state_field (transition_key intent) False"
    and file_opt: "so_state_filename opts = Some file" and n: "0 \<le> ss_successful ss"
  shows "triple (outcome_inv env b config intent file (ss_successful ss)) (run_batch env intent opts ss) (good env b config intent file)"
proof -
  let ?n = "ss_successful ss" and ?ss = "ss\<lparr>ss_batch := [], ss_iteration := ss_iteration ss + 1\<rparr>"
  let ?I = "outcome_inv env b config intent file ?n" and ?Q = "good env b config intent file"
  let ?save = "\<lambda>r. do { _ \<leftarrow> write_status_json r;
       e \<leftarrow> on_world (on_disk (persist_state (de_pid env) (so_state_filename opts) intent r));
       State_Monad.return (if e \<noteq> 0 then EXITS 1 else GOES_ON (?ss\<lparr>ss_successful := ?n + 1\<rparr>)) }"
  have save: "triple ?I (?save r) ?Q" if "worth_saving config intent r" for r
    unfolding file_opt
    by (rule triple_seq [OF outcome_calls(2)], rule triple_bind [OF persist_step [OF that, where m = "?n + 1"]])
      (use n in \<open>auto intro!: triple_return\<close>)
  have rest: "triple (\<lambda>s. ?I s \<and> (fst er = EN_ERR_NONE \<longrightarrow> worth_saving config intent (snd er)))
      (case er of (e, r) \<Rightarrow> if e = EN_ERR_NO_CANDIDATE then State_Monad.return (GOES_ON ?ss)
       else if e \<noteq> EN_ERR_NONE then State_Monad.return (EXITS 1) else ?save r) ?Q" for er
  proof (cases "fst er = EN_ERR_NONE")
    case True
    show ?thesis
    proof (cases "worth_saving config intent (snd er)")
      case True
      with save [of "snd er"] \<open>fst er = EN_ERR_NONE\<close> show ?thesis by (simp add: case_prod_beta)
    next
      case False
      with \<open>fst er = EN_ERR_NONE\<close> show ?thesis by (intro tripleI) blast
    qed
  next
    case False
    with n show ?thesis by (cases er) (auto intro!: triple_return)
  qed
  note submitted = triple_bind [OF submit_outcome [OF config] rest]
  have "run_batch env intent opts ss = do {
       _ \<leftarrow> change_health (set_batch (ss_batch ss));
       er \<leftarrow> submit intent;
       case er of (e, r) \<Rightarrow> if e = EN_ERR_NO_CANDIDATE then State_Monad.return (GOES_ON ?ss)
       else if e \<noteq> EN_ERR_NONE then State_Monad.return (EXITS 1) else ?save r }"
    unfolding run_batch_def Let_def by (simp cong: if_cong prod.case_cong)
  with triple_seq [OF outcome_calls(3) submitted] show ?thesis by simp
qed

lemma stream_line_good:
  assumes config: "well_formed_config config" "valid_state_field (transition_key intent) False"
    and file_opt: "so_state_filename opts = Some file" and n: "0 \<le> ss_successful ss"
  shows "triple (outcome_inv env b config intent file (ss_successful ss)) (stream_line env config intent opts l ss) (good env b config intent file)"
proof -
  let ?I = "outcome_inv env b config intent file (ss_successful ss)" and ?Q = "good env b config intent file"
  have exit: "triple ?I (State_Monad.return (EXITS 1)) ?Q" by (rule triple_return) simp
  have batch: "triple ?I (run_batch env intent opts ss') ?Q" "triple ?I (State_Monad.return (GOES_ON ss')) ?Q"
    if "ss_successful ss' = ss_successful ss" for ss'
    using run_batch_good [OF config file_opt, of ss'] n that by (auto intro!: triple_return)
  have taken: "triple ?I (take_record env intent opts (ss\<lparr>ss_window := win\<rparr>) r) ?Q" for win r
    unfolding take_record_def Let_def by (rule triple_seq [OF outcome_calls(5)]) (intro triple_if batch; simp)
  show ?thesis
    unfolding stream_line_def
    by (rule triple_seq [OF outcome_calls(4)])
      (cases "en_telemetry_parse_json_line (de_read env) l"; auto intro!: exit taken)
qed

lemma stream_loop_good:
  assumes config: "well_formed_config config" "valid_state_field (transition_key intent) False"
    and file_opt: "so_state_filename opts = Some file"
  shows "0 \<le> ss_successful ss \<Longrightarrow> triple (outcome_inv env b config intent file (ss_successful ss))
    (stream_loop env config intent opts ls ss) (good env b config intent file)"
proof (induction ls arbitrary: ss)
  case Nil
  then show ?case unfolding stream_loop.simps by (intro triple_seq [OF outcome_calls(1)] triple_return) simp
next
  case (Cons l ls)
  let ?Q = "good env b config intent file"
  have rest: "triple (?Q p) (case p of EXITS e \<Rightarrow> State_Monad.return (EXITS e)
      | GOES_ON ss' \<Rightarrow> stream_loop env config intent opts ls ss') ?Q" for p
  proof (cases p)
    case (GOES_ON ss')
    show ?thesis
    proof (cases "0 \<le> ss_successful ss'")
      case True
      with GOES_ON Cons.IH [OF True] show ?thesis by (simp add: good_GOES_ON)
    next
      case False
      with GOES_ON show ?thesis by (simp add: triple_def)
    qed
  qed (simp add: triple_def)
  show ?case
    unfolding stream_loop.simps
    by (intro triple_seq [OF outcome_calls(1)] triple_if triple_return
        triple_bind [OF stream_line_good [OF config file_opt Cons.prems] rest]) (use Cons.prems in simp)
qed

section \<open>From the start to the end\<close>

lemma restore_outcome:
  "preserves (outcome_inv env b config intent file 0) (restore_state intent name)"
proof (rule restore_keeps)
  have "preserves (on_st (ready config intent)) (en_controller_restore_applied_path (Some (transition_key intent)) p)" for p
    unfolding en_controller_restore_applied_path_def by (cases p) (auto intro!: wp)
  then show "preserves (outcome_inv env b config intent file 0) (en_controller_restore_applied_path (Some (transition_key intent)) p)" for p
    by (rule preserves_both [OF frame_inv_restore])
  show "preserves (outcome_inv env b config intent file 0) (on_world (on_disk m))" for m :: "(disk, state_source) state"
    by (rule preservesI) (auto simp: run_on_disk frame_inv_def split: prod.splits)
qed

lemma stream_body_good:
  assumes config: "well_formed_config config" "valid_state_field (transition_key intent) False"
    and file_opt: "so_state_filename opts = Some file"
  shows "triple (outcome_inv env b config intent file 0) (stream_body env config intent opts ls)
    (\<lambda>e s. e = 0 \<longrightarrow> saved_path config intent file (da_disk (dev (world s))))"
proof -
  let ?I = "\<lambda>n. outcome_inv env b config intent file n" and ?Q = "\<lambda>e s. e = (0::int) \<longrightarrow> saved_path config intent file (da_disk (dev (world s)))"
  have exit: "triple P (State_Monad.return e) ?Q" if "e \<noteq> 0" for e P
    using that by (intro triple_return) simp
  have finish: "triple (?I (ss_successful ss)) (stream_end opts ss) ?Q" if "0 \<le> ss_successful ss" for ss
  proof -
    have done': "triple (?I (ss_successful ss)) (State_Monad.return (if short then 1 else if ss_successful ss = 0 then 1 else 0)) ?Q" for short
      using that by (intro triple_return) (auto simp: frame_inv_def)
    show ?thesis
      unfolding stream_end_def by (rule triple_seq [OF _ done']) (intro wp)
  qed
  have rest: "triple (good env b config intent file p) (case p of EXITS e \<Rightarrow> State_Monad.return e | GOES_ON ss \<Rightarrow> stream_end opts ss) ?Q" for p
  proof (cases p)
    case (GOES_ON ss)
    show ?thesis
    proof (cases "0 \<le> ss_successful ss")
      case True
      with GOES_ON finish [OF True] show ?thesis by (simp add: good_GOES_ON)
    next
      case False
      with GOES_ON show ?thesis by (simp add: triple_def)
    qed
  next
    case (EXITS e)
    then show ?thesis by (simp add: triple_def)
  qed
  have loop: "triple (?I 0) (stream_loop env config intent opts ls start_stream) (good env b config intent file)"
    using stream_loop_good [OF config file_opt, of start_stream] by (simp add: start_stream_def)
  show ?thesis
    unfolding stream_body_def file_opt
    by (intro triple_seq [OF restore_outcome] triple_if exit triple_seq [OF outcome_calls(3)] triple_bind [OF loop rest]) simp
qed

lemma run_stream_saves:
  assumes config: "well_formed_config config" "valid_state_field (transition_key intent) False"
    and file_opt: "so_state_filename opts = Some file"
    and run: "run_state (run_stream env ls config intent opts) w = (0, w')"
  shows "saved_path config intent file (da_disk (dev w'))"
proof -
  let ?b = "strcmp (so_backend opts) ''command'' = 0"
  let ?w = "w\<lparr>dev := stream_devices config intent opts (dev w)\<rparr>"
  obtain ssw vp hp where A: "stream_adapters env ?b = (ssw, vp, hp)" by (metis surj_pair)
  with run obtain k s where k: "create_from_config (de_memory env) config ssw vp hp = Some k"
    "run_state (stream_body env config intent opts ls) (\<lparr>ctl = k, world = ?w\<rparr>) = (0, s)" "w' = world s"
    by (auto simp: run_stream_def Let_def split: if_splits option.splits prod.splits)
  let ?s = "\<lparr>ctl = k, world = ?w\<rparr>"
  have "adapters ?s = stream_adapters env ?b" "st ?s = fresh_state config"
    using create_fresh [OF k(1)] A by (simp_all add: adapters_def st_def)
  then have "outcome_inv env ?b config intent file 0 ?s"
    using fresh_configured [OF config(1)]
    by (simp add: frame_inv_def ready_def applied_room_def) (simp add: fresh_state_def)
  from tripleD [OF stream_body_good [OF config file_opt] this k(2)] k(3) show ?thesis by simp
qed

lemma find_path_cong: "configured config c \<Longrightarrow> configured config d \<Longrightarrow> restorable intent p c \<Longrightarrow> restorable intent p d"
proof -
  assume c: "configured config c" and d: "configured config d" and r: "restorable intent p c"
  then obtain i where i: "en_find_path c (Some p) = Some i" "pt_administrative_state (paths c ! i) = EN_ADMIN_ENABLED"
    "path_nodes_enabled c (paths c ! i)" by (auto simp: restorable_def)
  then have "i < length (paths c)" using find_path_id [OF i(1)] by simp
  then have "satisfies_policy c zero_constraints (paths c ! i)"
    using i by (simp add: satisfies_policy_def path_nodes_enabled_iff zero_constraints_def)
  from configured_enabled [OF c d \<open>i < length (paths c)\<close> this] i(1) configured_find_path [OF c d] r
  show "restorable intent p d" by (auto simp: restorable_def)
qed

lemma saved_path_restores:
  assumes saved: "saved_path config intent file (da_disk (dev (world u)))" and config: "well_formed_config config"
    and u: "configured config (st u)" "applied (st u) = []" and clean: "calls_succeed (da_disk (dev (world u)))"
  shows "\<exists>v p. run_state (restore_state intent (Some file)) u = (0, v) \<and>
    en_get_applied_path (st v) (transition_key intent) = Some p \<and> intent_references_path intent p"
proof -
  obtain p where p: "restorable intent p (fresh_state config)" "length p < EN_MAX_ID_LEN"
    "dk_files (da_disk (dev (world u))) file =
      Some \<lparr>df_kind = REGULAR, df_shared = False, df_content = state_line (transition_key intent) p\<rparr>"
    using saved by (auto simp: saved_path_def)
  let ?l = "state_line (transition_key intent) p"
  obtain d where "run_state (open_state file) (da_disk (dev (world u))) = (CONTENT ?l, d)"
    using open_state_content [OF p(3) clean] by blast
  then have opened: "run_state (on_world (on_disk (open_state file))) u =
      (CONTENT ?l, u\<lparr>world := (world u)\<lparr>dev := (dev (world u))\<lparr>da_disk := d\<rparr>\<rparr>\<rparr>)" (is "_ = (_, ?u)")
    by (simp add: run_on_disk)
  have r: "restorable intent p (st ?u)" "applied (st ?u) = []"
    using find_path_cong [OF fresh_configured [OF config] u(1) p(1)] u(2) by simp_all
  from restore_line_run [OF r p(2)] obtain v where v: "run_state (restore_line intent ?l) ?u = (0, v)"
    "en_get_applied_path (st v) (transition_key intent) = Some p" by blast
  have "fgets_chunks STATE_LINE_LEN ?l = [?l]"
    using p by (intro state_line_chunk) (simp_all add: restorable_def transition_key_length)
  then have "run_state (restore_state intent (Some file)) u = (0, v)" using opened v by (simp add: restore_state_def)
  with v(2) p(1) show ?thesis by (auto simp: restorable_def)
qed

text \<open>
  C19. A run over a stream of telemetry records (run_stream, with a state file) that ends with status 0 over a loaded
  configuration leaves a state file from which every later start over the same configuration, with an empty table of
  applied paths and no failing system call, restores without an error a path that the intent names: the status 0 of
  the stream means that a submission succeeded, that its path was saved, and that nothing overwrote the file since.
  It says nothing of a daemon that ends with 0 without a stream, as one stopped before its first client does.
\<close>

theorem successful_run_can_restart:
  assumes "en_yaml_config_load_file fopen filename dest error_len = Parsed config" "intent \<in> set (yc_intents config)"
    and "yc_nodes config \<noteq> [] \<or> valid_state_field (transition_key intent) False"
    and "so_state_filename opts = Some file" "run_state (run_stream env ls config intent opts) w = (0, w')"
    and "configured config (st u)" "applied (st u) = []" "da_disk (dev (world u)) = da_disk (dev w')"
    and "calls_succeed (da_disk (dev w'))"
  shows "\<exists>v p. run_state (restore_state intent (Some file)) u = (0, v) \<and>
    en_get_applied_path (st v) (transition_key intent) = Some p \<and> intent_references_path intent p"
proof -
  have config: "well_formed_config config" by (rule loaded_wf [OF assms(1)])
  have "valid_state_field (transition_key intent) False" using assms(2,3) key_valid [OF config] by blast
  from run_stream_saves [OF config this assms(4,5)] assms(8)
  have "saved_path config intent file (da_disk (dev (world u)))" by simp
  from saved_path_restores [OF this config assms(6,7)] assms(8,9) show ?thesis by simp
qed

text \<open>A run over one record of the direct path, whose reader knows one line.\<close>

definition sample_reader :: json_reader where
  "sample_reader l = (if l = ''up'' then Some (JObject
     [(''schema'', JString ''ibuki.telemetry.path_health.v1''), (''path_id'', JString ''path-direct''),
      (''source'', JString ''site-a''), (''target'', JString ''site-b''), (''sequence'', JUint 1),
      (''timestamp_ms'', JUint 900), (''state'', JString ''healthy''), (''rtt_ms'', JReal (Fin 10)),
      (''packet_loss_percent'', JReal (Fin 0)), (''jitter_ms'', JReal (Fin 1))]) else None)"

definition sample_env :: "unit daemon_env" where
  "sample_env = \<lparr>de_read = sample_reader, de_host = sample_host [] [], de_pid = 7, de_memory = True\<rparr>"

definition sample_options :: stream_options where
  "sample_options = \<lparr>so_max_age_ms = 60000, so_count = 1, so_batch_size = 1, so_backend = ''mock'', so_swanctl_uri = None,
     so_swanctl_config_file = None, so_vppctl_socket = None, so_verify_swanctl = False, so_verify_vpp = False,
     so_apply = False, so_state_filename = Some ''state'', so_max_records_per_second = 5\<rparr>"

definition sample_stream_run :: "int \<times> unit daemon world" where
  "sample_stream_run = run_state (run_stream sample_env [''up''] sample_config (hd (yc_intents sample_config)) sample_options)
     (sample_world (sample_daemon empty_disk))"

lemma sample_run_succeeds: "fst sample_stream_run = 0 \<and> calls_succeed (da_disk (dev (snd sample_stream_run)))"
  by code_simp

theorem successful_run_can_restart_witness:
  "\<exists>v p. run_state (restore_state (hd (yc_intents sample_config)) (Some ''state''))
      (start_on \<lparr>install_path = None, remove_path = None, active_path = None\<rparr> \<lparr>validate_path = None\<rparr>
        (sample_daemon (da_disk (dev (snd sample_stream_run))))) = (0, v) \<and>
    en_get_applied_path (st v) (transition_key (hd (yc_intents sample_config))) = Some p \<and>
    intent_references_path (hd (yc_intents sample_config)) p"
proof (rule successful_run_can_restart [OF sample_load])
  show "run_state (run_stream sample_env [''up''] sample_config (hd (yc_intents sample_config)) sample_options)
      (sample_world (sample_daemon empty_disk)) = (0, snd sample_stream_run)"
    using sample_run_succeeds by (simp add: sample_stream_run_def prod_eq_iff)
  show "hd (yc_intents sample_config) \<in> set (yc_intents sample_config)" by (simp add: sample_config_def)
  show "yc_nodes sample_config \<noteq> [] \<or> valid_state_field (transition_key (hd (yc_intents sample_config))) False" by code_simp
  show "calls_succeed (da_disk (dev (snd sample_stream_run)))" using sample_run_succeeds by simp
  show "so_state_filename sample_options = Some ''state''" by (simp add: sample_options_def)
qed (simp_all only: start_on_configured, simp_all add: start_on_def st_def fresh_state_def sample_world_def sample_daemon_def)

text \<open>The same line read by a controller whose table says that nothing has been heard yet.\<close>

definition sample_stream_machine :: "unit daemon machine" where
  "sample_stream_machine = (case stream_adapters sample_env False of (ssw, vp, hp) \<Rightarrow>
     \<lparr>ctl = \<lparr>cstate = fresh_state sample_config, audit_events = [], strongswan = ssw, vpp = vp, health_probe = hp\<rparr>,
      world = sample_world ((sample_daemon empty_disk)\<lparr>da_mocks := (sample_mocks False)
        \<lparr>mc_health := Some (set_unknown_health sample_config, False)\<rparr>\<rparr>)\<rparr>)"

theorem telemetry_gates_health_witness:
  "map ph_path_id (mock_health_of (snd (run_state (stream_loop sample_env sample_config (hd (yc_intents sample_config))
     sample_options [''up''] start_stream) sample_stream_machine))) = [''path-direct'']"
proof -
  let ?run = "run_state (stream_loop sample_env sample_config (hd (yc_intents sample_config))
     sample_options [''up''] start_stream) sample_stream_machine"
  have "adapters sample_stream_machine = stream_adapters sample_env False"
    by (simp add: sample_stream_machine_def adapters_def split: prod.split)
  moreover have "mc_health (da_mocks (dev (world sample_stream_machine))) = Some (set_unknown_health sample_config, False)"
    by (simp add: sample_stream_machine_def sample_world_def split: prod.split)
  moreover have "?run = (fst ?run, snd ?run)" by simp
  ultimately have "map ph_path_id (mock_health_of (snd ?run)) = map pt_path_id (yc_paths sample_config)"
    using telemetry_gates_health [OF sample_load] by blast
  then show ?thesis by (simp add: sample_config_def)
qed

end
