(* ===== verification/DaemonMain.thy ===== *)
theory DaemonMain
  imports DaemonSocket DaemonOutcome
begin

text \<open>
  \<open>main\<close> of \<open>src/examples/eventnetd.c\<close>: from the arguments to the exit status, with the loop that reloads the configuration.
  The build is the default one, without \<open>libvici\<close>.
\<close>

section \<open>What the process finds\<close>

text \<open>
  \<open>me_handlers\<close>: whether the signal handlers are installed; \<open>me_files n\<close>: what \<open>fopen\<close> gives at the \<open>n\<close>-th load
  of the configuration; \<open>me_telemetry n\<close>: the text of the telemetry file at the \<open>n\<close>-th opening, \<open>None\<close> when that fails;
  \<open>me_reload i n\<close>: the \<open>n\<close>-th reading of the flag of \<open>SIGHUP\<close> in the wait of iteration \<open>i\<close>.
\<close>

record 'h main_env =
  me_stream :: "'h daemon_env"
  me_handlers :: bool
  me_files :: "nat \<Rightarrow> string \<Rightarrow> (string \<times> bool) option"
  me_telemetry :: "nat \<Rightarrow> string option"
  me_stdin :: string
  me_socket :: socket_env
  me_reload :: "nat \<Rightarrow> nat \<Rightarrow> bool"

definition options_stream :: "daemon_options \<Rightarrow> int \<Rightarrow> stream_options" where
  "options_stream o' n = \<lparr>so_max_age_ms = op_max_age_ms o', so_count = n, so_batch_size = op_batch_size o',
     so_backend = op_backend o', so_swanctl_uri = op_swanctl_uri o', so_swanctl_config_file = op_swanctl_config_file o',
     so_vppctl_socket = op_vppctl_socket o', so_verify_swanctl = op_verify_swanctl o', so_verify_vpp = op_verify_vpp o',
     so_apply = op_apply o', so_state_filename = op_state_filename o',
     so_max_records_per_second = op_max_records_per_second o'\<rparr>"

definition options_socket :: "daemon_options \<Rightarrow> string \<Rightarrow> socket_options" where
  "options_socket o' path = \<lparr>sp_path = path, sp_accept_count = op_socket_accept_count o',
     sp_allowed_uid = op_socket_allowed_uid o', sp_retry_count = op_socket_retry_count o',
     sp_retry_backoff_ms = op_socket_retry_backoff_ms o', sp_parallel = op_parallel_socket o'\<rparr>"

text \<open>
  The status output: \<open>open\<close> with \<open>O_CREAT | O_APPEND | O_NOFOLLOW\<close>, the check of its kind and mode, \<open>fdopen\<close>. The lines
  that the daemon appends are \<open>da_status\<close>.
\<close>

definition open_status_output :: "string \<Rightarrow> (disk, bool) state" where
  "open_status_output name = do {
     opened \<leftarrow> fault;
     files \<leftarrow> gets dk_files;
     if opened \<noteq> None then State_Monad.return False
     else do {
       _ \<leftarrow> (if files name = None
            then set_file name (Some \<lparr>df_kind = REGULAR, df_shared = False, df_content = []\<rparr>) else skip);
       found \<leftarrow> gets (\<lambda>d. dk_files d name);
       case found of
         None \<Rightarrow> State_Monad.return False
       | Some f \<Rightarrow>
           if df_kind f = SYMLINK then State_Monad.return False
           else do {
             checked \<leftarrow> fault;
             if checked \<noteq> None \<or> df_kind f \<noteq> REGULAR \<or> df_shared f then State_Monad.return False
             else do {
               stream \<leftarrow> fault;
               State_Monad.return (stream = None)
             }
           }
     }
   }"

section \<open>The reload loop\<close>

text \<open>The wait for \<open>SIGHUP\<close>: it reads only the flag of that signal.\<close>

partial_function (option) wait_for_reload :: "(nat \<Rightarrow> bool) \<Rightarrow> nat \<Rightarrow> 'w world \<Rightarrow> 'w world option" where
  "wait_for_reload received n w =
     (if received n then Some w else wait_for_reload received (Suc n) (snd (run_state (sleep_ms 100) w)))"

definition reload_pause :: "'h main_env \<Rightarrow> daemon_options \<Rightarrow> nat \<Rightarrow> 'h daemon world \<Rightarrow> 'h daemon world option" where
  "reload_pause env o' i w =
     (if op_reload_on_sighup o' then wait_for_reload (me_reload env i) 0 w
      else if 0 < i then Some (snd (run_state (sleep_ms (op_interval_ms o')) w))
      else Some w)"

text \<open>
  An iteration after its pause: an exit status, or the configuration that is active after it. The first load of the
  process comes before the loop.
\<close>

definition reload_round ::
  "'h main_env \<Rightarrow> daemon_options \<Rightarrow> nat \<Rightarrow> en_yaml_config \<Rightarrow> ('h daemon, int + en_yaml_config) world_act" where
  "reload_round env o' i active =
     (let config = (case en_yaml_config_load_file (me_files env (Suc i)) (Some (op_yaml_filename o')) True 256 of
         Parsed loaded \<Rightarrow> loaded | _ \<Rightarrow> active) in
      case find_intent config (op_intent_id o') of
        None \<Rightarrow> State_Monad.return (Inl 1)
      | Some intent \<Rightarrow> (case me_telemetry env i of
          None \<Rightarrow> State_Monad.return (Inl 1)
        | Some sent \<Rightarrow> do {
            e \<leftarrow> run_stream (me_stream env) (fgets_lines sent) config intent (options_stream o' 1);
            State_Monad.return (if e \<noteq> 0 then Inl e else Inr config)
          }))"

definition reload_continues :: "daemon_options \<Rightarrow> nat \<Rightarrow> bool" where
  "reload_continues o' i \<longleftrightarrow> (op_reload_on_sighup o' \<and> op_count o' = 0) \<or> int i < op_count o'"

text \<open>\<open>None\<close> when the loop never ends. Without a count, the iterations stay below the largest \<open>int\<close>.\<close>

partial_function (option) reload_loop ::
  "'h main_env \<Rightarrow> daemon_options \<Rightarrow> nat \<Rightarrow> en_yaml_config \<Rightarrow> 'h daemon world \<Rightarrow> (int \<times> 'h daemon world) option" where
  "reload_loop env o' i active w =
     (if \<not> reload_continues o' i then Some (0, w)
      else if fst (run_state poll_shutdown w) then Some (0, snd (run_state poll_shutdown w))
      else case reload_pause env o' i (snd (run_state poll_shutdown w)) of
        None \<Rightarrow> None
      | Some v \<Rightarrow> (case run_state (reload_round env o' i active) v of
          (Inl e, v') \<Rightarrow> Some (e, v')
        | (Inr config, v') \<Rightarrow> reload_loop env o' (Suc i) config v'))"

section \<open>The loop over a file\<close>

text \<open>The rest of \<open>main\<close>, which no accepted command line reaches: it would read the telemetry without a file.\<close>

definition fresh_records :: "int \<Rightarrow> int \<Rightarrow> en_path_health list \<Rightarrow> en_path_health list" where
  "fresh_records now max_age_ms records =
     filter (\<lambda>r. \<not> (0 < max_age_ms \<and> (now - ph_last_updated_ms r < 0 \<or> max_age_ms < now - ph_last_updated_ms r))) records"

definition load_health ::
  "json_reader \<Rightarrow> string option \<Rightarrow> int \<Rightarrow> en_yaml_config \<Rightarrow> en_intent \<Rightarrow> ('h daemon, int) act" where
  "load_health read content max_age_ms config intent =
     (case en_telemetry_load_jsonl read content EN_MAX_PATHS of
        Inl _ \<Rightarrow> State_Monad.return 1
      | Inr records \<Rightarrow> do {
          _ \<leftarrow> modify (\<lambda>s. s\<lparr>world := (world s)\<lparr>dev := (dev (world s))\<lparr>da_mocks := (da_mocks (dev (world s)))
            \<lparr>mc_health := Some (set_unknown_health config, ts_has_vlan_id (it_traffic intent))\<rparr>\<rparr>\<rparr>\<rparr>);
          now \<leftarrow> on_world en_now_ms;
          let good = takeWhile (\<lambda>r. telemetry_identity_matches config intent r = None) records;
          _ \<leftarrow> change_health (fold en_health_probe_mock_set (fresh_records now max_age_ms good));
          State_Monad.return (if length good < length records then 1 else 0)
        })"

primrec direct_loop ::
  "'h daemon_env \<Rightarrow> daemon_options \<Rightarrow> en_yaml_config \<Rightarrow> en_intent \<Rightarrow> nat \<Rightarrow> ('h daemon, int) act" where
  "direct_loop env o' config intent 0 = State_Monad.return 0"
| "direct_loop env o' config intent (Suc left) = do {
     stop \<leftarrow> shutdown_requested;
     if stop then State_Monad.return 0
     else do {
       _ \<leftarrow> (if 0 < op_max_records_per_second o' \<and> int (Suc left) \<noteq> op_count o'
            then on_world (sleep_ms (1000 div op_max_records_per_second o')) else skip);
       h \<leftarrow> load_health (de_read env) None (op_max_age_ms o') config intent;
       if h \<noteq> 0 then State_Monad.return 1
       else do {
         (err, r) \<leftarrow> submit intent;
         if err \<noteq> EN_ERR_NONE then State_Monad.return 1
         else do {
           _ \<leftarrow> write_status_json r;
           e \<leftarrow> on_world (on_disk (persist_state (de_pid env) (op_state_filename o') intent r));
           if e \<noteq> 0 then State_Monad.return 1
           else do {
             _ \<leftarrow> (if left \<noteq> 0 then on_world (sleep_ms (op_interval_ms o')) else skip);
             direct_loop env o' config intent left
           }
         }
       }
     }
   }"

definition direct_devices :: "en_yaml_config \<Rightarrow> en_intent \<Rightarrow> stream_options \<Rightarrow> 'h daemon \<Rightarrow> 'h daemon" where
  "direct_devices config intent opts d = (stream_devices config intent opts d)\<lparr>
     da_mocks := (da_mocks (stream_devices config intent opts d))\<lparr>mc_health := Some ([], False)\<rparr>\<rparr>"

definition run_direct ::
  "'h daemon_env \<Rightarrow> daemon_options \<Rightarrow> en_yaml_config \<Rightarrow> en_intent \<Rightarrow> ('h daemon, int) world_act" where
  "run_direct env o' config intent = State (\<lambda>w0.
     let w = w0\<lparr>dev := direct_devices config intent (options_stream o' (op_count o')) (dev w0)\<rparr> in
     if strcmp (op_backend o') ''command'' \<noteq> 0 \<and> strcmp (op_backend o') ''mock'' \<noteq> 0 then (2, w)
     else case stream_adapters env (strcmp (op_backend o') ''command'' = 0) of (ssw, vp, hp) \<Rightarrow>
       (case create_from_config (de_memory env) config ssw vp hp of
          None \<Rightarrow> (1, w)
        | Some k \<Rightarrow> (case run_state (restore_state intent (op_state_filename o')) (\<lparr>ctl = k, world = w\<rparr>) of
            (restored, s) \<Rightarrow>
              if restored \<noteq> 0 then (1, world s)
              else case run_state (direct_loop env o' config intent (nat (op_count o'))) s of (e, t) \<Rightarrow> (e, world t))))"

section \<open>The process\<close>

definition dispatch ::
  "'h main_env \<Rightarrow> daemon_options \<Rightarrow> en_yaml_config \<Rightarrow> en_intent \<Rightarrow> 'h daemon world \<Rightarrow> (int \<times> 'h daemon world) option" where
  "dispatch env o' config intent w =
     (let opts = options_stream o' (op_count o') in
      if op_vici_monitor_child o' \<noteq> None then Some (2, w)
      else if op_stdin_mode o' then Some (run_state (run_stream (me_stream env) (fgets_lines (me_stdin env)) config intent opts) w)
      else case op_socket_path o' of
        Some path \<Rightarrow>
          Some (run_state (run_socket (me_stream env) (me_socket env) config intent opts (options_socket o' path)) w)
      | None \<Rightarrow>
          if op_reload_config o' then reload_loop env o' 0 config w
          else case op_telemetry_filename o' of
            None \<Rightarrow> Some (run_state (run_direct (me_stream env) o' config intent) w)
          | Some _ \<Rightarrow> (case me_telemetry env 0 of
              None \<Rightarrow> Some (1, w)
            | Some sent \<Rightarrow> Some (run_state (run_stream (me_stream env) (fgets_lines sent) config intent opts) w)))"

definition eventnetd_main :: "'h main_env \<Rightarrow> string list \<Rightarrow> 'h daemon world \<Rightarrow> (int \<times> 'h daemon world) option" where
  "eventnetd_main env args w =
     (case accept_options args of
        Inl status \<Rightarrow> Some (status, w)
      | Inr o' \<Rightarrow>
          if \<not> me_handlers env then Some (1, w)
          else case en_yaml_config_load_file (me_files env 0) (Some (op_yaml_filename o')) True 256 of
            Parsed config \<Rightarrow> (case find_intent config (op_intent_id o') of
              None \<Rightarrow> Some (1, w)
            | Some intent \<Rightarrow> (case op_status_filename o' of
                None \<Rightarrow> dispatch env o' config intent (w\<lparr>dev := (dev w)\<lparr>da_status := None\<rparr>\<rparr>)
              | Some name \<Rightarrow> (case run_state (on_disk (open_status_output name)) w of (is_open, v) \<Rightarrow>
                  if is_open then dispatch env o' config intent (v\<lparr>dev := (dev v)\<lparr>da_status := Some []\<rparr>\<rparr>)
                  else Some (1, v))))
          | _ \<Rightarrow> Some (1, w))"

end
