(* ===== verification/DaemonTermination.thy ===== *)
theory DaemonTermination
  imports DaemonMain
begin

text \<open>
  When the daemon ends, and with which exit status. The model gives a stream or a socket what it delivers, which ends; that
  a stream that stays open keeps the daemon waiting is outside it. So what is shown of termination is about telemetry files:
  the reload loop returns when every wait for \<open>SIGHUP\<close> is followed by one and the loop has a count or a signal to stop.
\<close>

section \<open>The signals that a stream reads\<close>

definition polled :: "(nat \<Rightarrow> bool) \<Rightarrow> nat \<Rightarrow> daemon_frame \<Rightarrow> bool" where
  "polled stops n F \<longleftrightarrow> fst (snd (snd (snd (snd F)))) = stops \<and> n \<le> snd (snd (snd (snd (snd F))))"

lemma polled_frame [simp]: "polled stops n (frame_of w) \<longleftrightarrow> da_shutdown (dev w) = stops \<and> n \<le> da_polls (dev w)"
  by (simp add: polled_def frame_of_def)

lemma polled_disk: "preserves (frame_inv env b (polled stops n)) (on_world (on_disk m))"
  by (rule preservesI) (auto simp: run_on_disk frame_inv_def split: prod.splits)

lemma polled_calls: "stream_calls_keep (frame_inv env b (polled stops n)) intent"
proof -
  let ?I = "frame_inv env b (polled stops n)"
  have "preserves ?I shutdown_requested"
    unfolding shutdown_requested_def poll_shutdown_def
    by (rule preservesI) (auto simp: run_on_world on_dev_def frame_inv_def)
  moreover have "preserves ?I (change_health f)" for f
    unfolding change_health_def by (auto intro!: wp simp: frame_inv_def)
  moreover have "preserves ?I (write_status_json r)" for r
    unfolding write_status_json_def by (auto intro!: wp simp: frame_inv_def)
  ultimately show ?thesis
    unfolding stream_calls_keep_def by (auto intro!: frame_inv_submit frame_inv_restore polled_disk wp)
qed

lemma run_stream_cases:
  assumes "run_state (run_stream env ls config intent opts) w = (e, w')"
  obtains (refused) "e \<in> {1, 2}" "w' = w\<lparr>dev := stream_devices config intent opts (dev w)\<rparr>"
  | (body) k s where "adapters (\<lparr>ctl = k, world = w\<lparr>dev := stream_devices config intent opts (dev w)\<rparr>\<rparr>) =
        stream_adapters env (strcmp (so_backend opts) ''command'' = 0)"
      "run_state (stream_body env config intent opts ls)
        (\<lparr>ctl = k, world = w\<lparr>dev := stream_devices config intent opts (dev w)\<rparr>\<rparr>) = (e, s)" "w' = world s"
proof -
  let ?b = "strcmp (so_backend opts) ''command'' = 0"
  obtain ssw vp hp where A: "stream_adapters env ?b = (ssw, vp, hp)" by (metis surj_pair)
  show thesis
  proof (cases "create_from_config (de_memory env) config ssw vp hp")
    case None
    with assms A show thesis by (intro refused) (auto simp: run_stream_def Let_def split: if_splits)
  next
    case (Some k)
    show thesis
    proof (cases "\<not> ?b \<and> strcmp (so_backend opts) ''mock'' \<noteq> 0")
      case True
      with assms show thesis by (intro refused) (auto simp: run_stream_def Let_def)
    next
      case False
      let ?s = "\<lparr>ctl = k, world = w\<lparr>dev := stream_devices config intent opts (dev w)\<rparr>\<rparr>"
      obtain s where s: "run_state (stream_body env config intent opts ls) ?s = (e, s)" "w' = world s"
        using assms A Some False
        by (cases "run_state (stream_body env config intent opts ls) ?s") (auto simp: run_stream_def Let_def split: if_splits)
      have "adapters ?s = stream_adapters env ?b" using create_fresh [OF Some] A by (simp add: adapters_def)
      from body [OF this s] show thesis .
    qed
  qed
qed

lemma run_stream_polls:
  assumes "run_state (run_stream env ls config intent opts) w = (e, w')"
  shows "da_shutdown (dev w') = da_shutdown (dev w) \<and> da_polls (dev w) \<le> da_polls (dev w')"
  using assms
proof (cases rule: run_stream_cases)
  case refused
  then show ?thesis by (simp add: stream_devices_def)
next
  case (body k s)
  let ?s = "\<lparr>ctl = k, world = w\<lparr>dev := stream_devices config intent opts (dev w)\<rparr>\<rparr>"
  let ?I = "frame_inv env (strcmp (so_backend opts) ''command'' = 0) (polled (da_shutdown (dev w)) (da_polls (dev w)))"
  have "?I ?s" using body(1) by (simp add: frame_inv_def stream_devices_def)
  from preservesD [OF stream_body_keeps [OF polled_calls] this body(2)] body(3) show ?thesis by (simp add: frame_inv_def)
qed

section \<open>Exit statuses\<close>

lemma any_triple: "(\<And>a. triple (\<lambda>_. True) (f a) Q) \<Longrightarrow> triple (\<lambda>_. True) (State_Monad.bind m f) Q"
  by (rule triple_seq [OF preserves_True])

lemma stream_loop_exits:
  "triple (\<lambda>_. True) (stream_loop env config intent opts ls ss) (\<lambda>p _. case p of EXITS e \<Rightarrow> e = 1 | GOES_ON _ \<Rightarrow> True)"
proof (induction ls arbitrary: ss)
  case Nil
  show ?case unfolding stream_loop.simps by (intro any_triple wp) simp
next
  case (Cons l ls)
  let ?Q = "\<lambda>p _. case p of EXITS e \<Rightarrow> e = (1 :: int) | GOES_ON _ \<Rightarrow> True"
  have batch: "triple (\<lambda>_. True) (run_batch env intent opts ss) ?Q" for ss
    unfolding run_batch_def Let_def by (intro any_triple wp) simp_all
  have taken: "triple (\<lambda>_. True) (take_record env intent opts ss r) ?Q" for ss r
    unfolding take_record_def Let_def by (intro any_triple wp batch) simp_all
  have line: "triple (\<lambda>_. True) (stream_line env config intent opts l ss) ?Q" for ss
    unfolding stream_line_def
    by (rule any_triple, cases "en_telemetry_parse_json_line (de_read env) l") (auto intro!: wp taken)
  have rest: "triple (\<lambda>s. ?Q p s) (case p of EXITS e \<Rightarrow> State_Monad.return (EXITS e)
      | GOES_ON ss' \<Rightarrow> stream_loop env config intent opts ls ss') ?Q" for p
    using Cons.IH by (cases p) (simp_all add: triple_def)
  show ?case
    unfolding stream_loop.simps by (intro any_triple triple_if triple_return triple_bind [OF line rest]) simp
qed

lemma stream_body_status: "triple (\<lambda>_. True) (stream_body env config intent opts ls) (\<lambda>e _. e \<in> {0, 1})"
proof -
  have rest: "triple (\<lambda>_. case p of EXITS e \<Rightarrow> e = 1 | GOES_ON _ \<Rightarrow> True)
      (case p of EXITS e \<Rightarrow> State_Monad.return e | GOES_ON ss \<Rightarrow> stream_end opts ss) (\<lambda>e _. e \<in> {0, 1})" for p
  proof (cases p)
    case (GOES_ON ss)
    then show ?thesis by (auto simp: stream_end_def intro!: any_triple triple_return triple_if split: if_splits)
  qed (simp add: triple_def)
  show ?thesis
    unfolding stream_body_def by (intro any_triple triple_if triple_return triple_bind [OF stream_loop_exits rest]) simp
qed

definition exit_statuses :: "int set" where "exit_statuses = {0, 1, 2}"

lemma run_stream_status: "fst (run_state (run_stream env ls config intent opts) w) \<in> exit_statuses"
proof -
  obtain e w' where run: "run_state (run_stream env ls config intent opts) w = (e, w')" by (metis surj_pair)
  then have "e \<in> exit_statuses"
  proof (cases rule: run_stream_cases)
    case (body k s)
    from tripleD [OF stream_body_status TrueI this(2)] show ?thesis by (auto simp: exit_statuses_def)
  qed (auto simp: exit_statuses_def)
  with run show ?thesis by simp
qed

lemma run_stream_triple: "triple (\<lambda>_. True) (run_stream env ls config intent opts) (\<lambda>e _. e \<in> exit_statuses)"
  unfolding triple_def by (intro allI impI run_stream_status)

lemma statuses [simp]: "0 \<in> exit_statuses" "1 \<in> exit_statuses" "2 \<in> exit_statuses"
  by (simp_all add: exit_statuses_def)

lemma collect_status: "fst (collect_lines ls shared) \<in> exit_statuses"
  by (induction ls shared rule: collect_lines.induct) simp_all

lemma accept_loop_status:
  "triple (\<lambda>_. True) (accept_loop env config intent opts sopts xs a) (\<lambda>ea _. fst ea \<in> exit_statuses)"
proof (induction xs arbitrary: a)
  case Nil
  show ?case unfolding accept_loop.simps by (intro any_triple wp) simp
next
  case (Cons x xs)
  have served: "triple (\<lambda>_. True) (serve_client env config intent opts sb c a) (\<lambda>ea _. fst ea \<in> exit_statuses)" for sb c
  proof -
    have "triple (\<lambda>_. e \<in> exit_statuses) (State_Monad.return (e, a)) (\<lambda>ea _. fst ea \<in> exit_statuses)" for e
      by (simp add: triple_def)
    then have "triple (\<lambda>_. True) (do { e \<leftarrow> run_stream env (cl_lines c) config intent opts; State_Monad.return (e, a) })
        (\<lambda>ea _. fst ea \<in> exit_statuses)" by (rule triple_bind [OF run_stream_triple])
    with collect_status [of "cl_lines c" "as_shared a"] show ?thesis
      by (auto simp: serve_client_def intro!: wp split: prod.split)
  qed
  have rest: "triple (\<lambda>_. fst ea \<in> exit_statuses) (case ea of (e, a) \<Rightarrow>
      if e = 0 then accept_loop env config intent opts sopts xs (a\<lparr>as_connections := as_connections a + 1, as_attempt := 0\<rparr>)
      else if as_attempt a < sp_retry_count sopts then do {
        _ \<leftarrow> sleep_ms (reconnect_delay (sp_retry_backoff_ms sopts) (as_attempt a + 1));
        accept_loop env config intent opts sopts xs (a\<lparr>as_attempt := as_attempt a + 1\<rparr>) }
      else State_Monad.return (e, a)) (\<lambda>ea _. fst ea \<in> exit_statuses)" for ea
  proof (cases "fst ea \<in> exit_statuses")
    case True
    then show ?thesis by (cases ea) (auto intro!: any_triple triple_if triple_return Cons.IH)
  qed (simp add: triple_def)
  show ?case
    unfolding accept_loop.simps
    by (cases x) (auto intro!: any_triple triple_if triple_return triple_bind [OF served rest])
qed

lemma accept_all_status: "accept_all allowed n xs \<in> exit_statuses"
  by (induction xs arbitrary: n) (auto split: accept_result.split)

lemma run_socket_status: "fst (run_state (run_socket env sk config intent opts sopts) w) \<in> exit_statuses"
proof -
  have "triple (\<lambda>_. True) (run_socket_parallel env config intent opts sopts accepted_clients polls) (\<lambda>e _. e \<in> exit_statuses)"
    for accepted_clients polls
    unfolding run_socket_parallel_def Let_def
    by (intro wp run_stream_triple) (simp_all add: accept_all_status)
  moreover have "triple (\<lambda>_. fst ea \<in> exit_statuses) (case ea of (e, a) \<Rightarrow>
      if 1 < sp_accept_count sopts \<and> e = 0
      then run_stream env (fgets_lines (as_shared a)) config intent (opts\<lparr>so_count := 0\<rparr>)
      else State_Monad.return e) (\<lambda>e _. e \<in> exit_statuses)" for ea
    by (cases ea) (auto intro!: triple_if triple_return triple_strengthen_pre [OF run_stream_triple])
  ultimately have "triple (\<lambda>_. True) (run_socket env sk config intent opts sopts) (\<lambda>e _. e \<in> exit_statuses)"
    unfolding run_socket_def by (intro triple_if triple_return triple_bind [OF accept_loop_status]) simp_all
  then show ?thesis by (simp add: triple_def)
qed

section \<open>The waits\<close>

lemma wait_returns: "received (n + k) \<Longrightarrow> \<exists>v. wait_for_reload received n w = Some v \<and> dev v = dev w"
proof (induction k arbitrary: n w)
  case 0
  then show ?case by (subst wait_for_reload.simps) simp
next
  case (Suc k)
  let ?v = "snd (run_state (sleep_ms 100) w)"
  have "dev ?v = dev w" by (simp add: sleep_ms_def)
  moreover obtain u where "wait_for_reload received (Suc n) ?v = Some u" "dev u = dev ?v" 
    using Suc.IH [of "Suc n" ?v] Suc.prems by auto
  ultimately show ?case by (subst wait_for_reload.simps) auto
qed

lemma wait_signalled: "wait_for_reload received n w = Some v \<Longrightarrow> \<exists>k\<ge>n. received k"
proof (induction received n w v rule: wait_for_reload.raw_induct [rotated 1, consumes 1, case_names step])
  case (step wait received n w v)
  show ?case
  proof (cases "received n")
    case False
    with step(2) have "wait received (Suc n) (snd (run_state (sleep_ms 100) w)) = Some v" by simp
    from step(1) [OF this] show ?thesis by (auto intro: Suc_leD)
  qed auto
qed

lemma pause_returns:
  assumes "op_reload_on_sighup o' \<Longrightarrow> \<exists>k. me_reload env i k"
  shows "\<exists>v. reload_pause env o' i w = Some v \<and> dev v = dev w"
  using assms wait_returns [of "me_reload env i" 0] by (auto simp: reload_pause_def sleep_ms_def)

section \<open>The reload loop\<close>

lemma round_polls:
  assumes "run_state (reload_round env o' i active) v = (r, v')"
  shows "da_shutdown (dev v') = da_shutdown (dev v) \<and> da_polls (dev v) \<le> da_polls (dev v') \<and>
    (case r of Inl e \<Rightarrow> e \<in> exit_statuses | Inr config \<Rightarrow> True)"
proof -
  let ?config = "case en_yaml_config_load_file (me_files env (Suc i)) (Some (op_yaml_filename o')) True 256 of
    Parsed loaded \<Rightarrow> loaded | _ \<Rightarrow> active"
  have ends: ?thesis if "(r, v') = (Inl 1, v)" using that by simp
  show ?thesis
  proof (cases "find_intent ?config (op_intent_id o')")
    case None
    with assms show ?thesis by (intro ends) (simp add: reload_round_def Let_def)
  next
    case (Some intent)
    show ?thesis
    proof (cases "me_telemetry env i")
      case None
      with Some assms show ?thesis by (intro ends) (simp add: reload_round_def Let_def)
    next
      case (Some sent)
      obtain e u where run: "run_state (run_stream (me_stream env) (fgets_lines sent) ?config intent (options_stream o' 1)) v = (e, u)"
        by (metis surj_pair)
      with assms \<open>find_intent ?config (op_intent_id o') = Some intent\<close> Some
      have "v' = u" "r = (if e \<noteq> 0 then Inl e else Inr ?config)" by (simp_all add: reload_round_def Let_def)
      moreover have "e \<in> exit_statuses"
        using run_stream_status [of "me_stream env" "fgets_lines sent" ?config intent "options_stream o' 1" v] run by simp
      ultimately show ?thesis using run_stream_polls [OF run] by simp
    qed
  qed
qed

lemma loop_returns:
  assumes waits: "\<And>i. op_reload_on_sighup o' \<Longrightarrow> \<exists>k. me_reload env i k"
  shows "\<not> reload_continues o' (i + k) \<or> (\<forall>m\<ge>da_polls (dev w) + k. da_shutdown (dev w) m) \<Longrightarrow>
    \<exists>e w'. reload_loop env o' i active w = Some (e, w') \<and> e \<in> exit_statuses"
proof (induction k arbitrary: i active w)
  case 0
  then show ?case by (subst reload_loop.simps) (auto simp: poll_shutdown_def on_dev_def)
next
  case (Suc k)
  let ?w = "snd (run_state poll_shutdown w)"
  have polled: "da_shutdown (dev ?w) = da_shutdown (dev w)" "da_polls (dev ?w) = Suc (da_polls (dev w))"
    by (simp_all add: poll_shutdown_def on_dev_def)
  show ?case
  proof (cases "reload_continues o' i \<and> \<not> fst (run_state poll_shutdown w)")
    case False
    then show ?thesis by (subst reload_loop.simps) auto
  next
    case True
    obtain v where v: "reload_pause env o' i ?w = Some v" "dev v = dev ?w" using pause_returns [OF waits] by blast
    obtain r v' where r: "run_state (reload_round env o' i active) v = (r, v')" by (metis surj_pair)
    note kept = round_polls [OF r]
    have loop: "reload_loop env o' i active w =
        (case r of Inl e \<Rightarrow> Some (e, v') | Inr config \<Rightarrow> reload_loop env o' (Suc i) config v')"
      using True v(1) r by (subst reload_loop.simps) simp
    show ?thesis
    proof (cases r)
      case (Inl e)
      with kept loop show ?thesis by simp
    next
      case (Inr config)
      have "\<not> reload_continues o' (Suc i + k) \<or> (\<forall>m\<ge>da_polls (dev v') + k. da_shutdown (dev v') m)"
        using Suc.prems kept polled v(2) by auto
      from Suc.IH [OF this, of config] loop Inr show ?thesis by simp
    qed
  qed
qed

lemma dispatch_returns:
  assumes valid: "numbers_in_range o'" "\<not> options_invalid o'"
    and waits: "op_reload_on_sighup o' \<Longrightarrow> (\<forall>i. \<exists>k. me_reload env i k) \<and>
      (op_count o' = 0 \<longrightarrow> (\<exists>n. \<forall>m\<ge>n. da_shutdown (dev w) m))"
  shows "\<exists>e w'. dispatch env o' config intent w = Some (e, w') \<and> e \<in> exit_statuses"
proof -
  have stream: "\<exists>e w'. Some (run_state (run_stream se ls config intent opts) w) = Some (e, w') \<and> e \<in> exit_statuses" for se ls opts
    using run_stream_status [of se ls config intent opts w] by (metis prod.collapse)
  have socket: "\<exists>e w'. Some (run_state (run_socket se sk config intent opts sopts) w) = Some (e, w') \<and> e \<in> exit_statuses" for se sk opts sopts
    using run_socket_status [of se sk config intent opts sopts w] by (metis prod.collapse)
  have reload: "\<exists>e w'. reload_loop env o' 0 config w = Some (e, w') \<and> e \<in> exit_statuses"
  proof -
    have count: "0 \<le> op_count o'" using valid(1) by (simp add: numbers_in_range_def)
    have "\<exists>k. \<not> reload_continues o' (0 + k) \<or> (\<forall>m\<ge>da_polls (dev w) + k. da_shutdown (dev w) m)"
    proof (cases "op_count o' = 0 \<and> op_reload_on_sighup o'")
      case True
      with waits obtain n where "\<forall>m\<ge>n. da_shutdown (dev w) m" by blast
      then have "\<forall>m\<ge>da_polls (dev w) + n. da_shutdown (dev w) m" by simp
      then show ?thesis by blast
    next
      case False
      then have "\<not> reload_continues o' (0 + nat (op_count o'))" using count by (auto simp: reload_continues_def)
      then show ?thesis by blast
    qed
    with loop_returns [of o' env] waits show ?thesis by blast
  qed
  show ?thesis
  proof (cases "op_vici_monitor_child o' \<noteq> None \<or> op_stdin_mode o' \<or> op_socket_path o' \<noteq> None")
    case True
    with stream socket show ?thesis by (auto simp: dispatch_def Let_def)
  next
    case False
    then have "op_telemetry_filename o' \<noteq> None" using valid(2) by (auto simp: options_invalid_def)
    with False stream reload show ?thesis by (auto simp: dispatch_def Let_def split: option.split)
  qed
qed

text \<open>
  C21. A daemon that reads its telemetry from a file, once or again and again when it reloads, ends with exit status 0, 1 or 2,
  provided that every wait for \<open>SIGHUP\<close> is followed by that signal and, when it waits without a count of iterations, that
  \<open>SIGINT\<close> or \<open>SIGTERM\<close> arrives at some time. A file ends; the standard input and the sockets, which may stay open, are not
  claimed.
\<close>

theorem daemon_returns:
  assumes "accept_options args = Inr o'" "op_telemetry_filename o' \<noteq> None"
    and "op_reload_on_sighup o' \<longrightarrow> (\<forall>i. \<exists>k. me_reload env i k)"
    and "op_reload_on_sighup o' \<and> op_count o' = 0 \<longrightarrow> (\<exists>n. \<forall>m\<ge>n. da_shutdown (dev w) m)"
  shows "\<exists>e w'. eventnetd_main env args w = Some (e, w') \<and> e \<in> exit_statuses"
proof -
  have disp: "\<exists>e w'. dispatch env o' config intent v = Some (e, w') \<and> e \<in> exit_statuses"
    if "da_shutdown (dev v) = da_shutdown (dev w)" for config intent v
    using accepted_valid [OF assms(1)] assms(3,4) that by (intro dispatch_returns) auto
  have status: "da_shutdown (dev v) = da_shutdown (dev w)" if "run_state (on_disk m) w = (b, v)" for m :: "(disk, bool) state" and b v
    using that by (auto simp: on_disk_def on_dev_def split: prod.splits)
  show ?thesis
    using assms(1) disp status
    by (auto simp: eventnetd_main_def split: outcome.split option.split prod.split)
qed

text \<open>
  C22. A daemon that waits for \<open>SIGHUP\<close> does not end when \<open>SIGINT\<close> or \<open>SIGTERM\<close> arrives in the wait: as long as no
  \<open>SIGHUP\<close> comes it never ends, whatever the later readings of the flag to stop would be. The documents say that
  these signals are accepted in every input mode.
\<close>

theorem sighup_wait_ignores_stop:
  assumes "accept_options args = Inr o'" "op_reload_on_sighup o'" "op_status_filename o' = None" "me_handlers env"
    and "en_yaml_config_load_file (me_files env 0) (Some (op_yaml_filename o')) True 256 = Parsed config"
    and "find_intent config (op_intent_id o') = Some intent"
    and "\<not> da_shutdown (dev w) (da_polls (dev w))" "\<forall>k. \<not> me_reload env 0 k"
  shows "eventnetd_main env args w = None"
proof -
  let ?w = "w\<lparr>dev := (dev w)\<lparr>da_status := None\<rparr>\<rparr>"
  have valid: "0 \<le> op_count o'" "\<not> options_invalid o'" using accepted_valid [OF assms(1)] by (simp_all add: numbers_in_range_def)
  have "reload_pause env o' 0 v = None" for v :: "'a daemon world"
    using wait_signalled [of "me_reload env 0" 0 v] assms(2,8) by (cases "reload_pause env o' 0 v") (auto simp: reload_pause_def)
  moreover have "reload_continues o' 0" using assms(2) valid(1) by (auto simp: reload_continues_def)
  moreover have "\<not> fst (run_state poll_shutdown ?w)" using assms(7) by (simp add: poll_shutdown_def on_dev_def)
  ultimately have never: "reload_loop env o' 0 config ?w = None" by (subst reload_loop.simps) simp
  have "op_reload_config o'" "\<not> op_stdin_mode o'" "op_socket_path o' = None" "op_vici_monitor_child o' = None"
    using valid(2) assms(2) unfolding options_invalid_def by argo+
  with never have "dispatch env o' config intent ?w = None" by (simp add: dispatch_def Let_def)
  with assms show ?thesis by (simp add: eventnetd_main_def)
qed

section \<open>Samples\<close>

definition sighup_arguments :: "string list" where
  "sighup_arguments = [''eventnet.yaml'', ''--telemetry'', ''t'', ''--state-file'', ''state'', ''--reload-config'',
     ''--reload-on-sighup'', ''--count'', ''0'']"

definition sighup_options :: daemon_options where
  "sighup_options = default_options\<lparr>op_yaml_filename := ''eventnet.yaml'', op_telemetry_filename := Some ''t'',
     op_state_filename := Some ''state'', op_reload_config := True, op_reload_on_sighup := True, op_count := 0\<rparr>"

lemma sighup_parsed: "parse_args sighup_arguments default_options = OPTIONS sighup_options"
proof -
  have "parse_int_argument ''0'' 0 INT_MAX = Some 0" by code_simp
  then show ?thesis
    by (simp add: sighup_arguments_def option_table_def [simplified] sighup_options_def)
qed

lemma sighup_accepts: "accept_options sighup_arguments = Inr sighup_options"
  unfolding accept_options_def sighup_parsed parsed_options.case
  by (simp add: options_invalid_def sighup_options_def default_options_def)

definition sighup_env :: "(nat \<Rightarrow> nat \<Rightarrow> bool) \<Rightarrow> unit main_env" where
  "sighup_env reload = \<lparr>me_stream = sample_env, me_handlers = True, me_files = (\<lambda>_. sample_fopen),
     me_telemetry = (\<lambda>_. Some (''up'' @ [LF])), me_stdin = [],
     me_socket = \<lparr>sk_existing = None, sk_listens = True, sk_accepts = [], sk_polls = []\<rparr>, me_reload = reload\<rparr>"

definition stopped_world :: "nat \<Rightarrow> unit daemon world" where
  "stopped_world n = sample_world ((sample_daemon empty_disk)\<lparr>da_shutdown := (\<lambda>m. n \<le> m)\<rparr>)"

theorem daemon_returns_witness:
  "\<exists>e w'. eventnetd_main (sighup_env (\<lambda>i k. k = 3)) sighup_arguments (stopped_world 5) = Some (e, w') \<and> e \<in> exit_statuses"
  by (rule daemon_returns [OF sighup_accepts])
    (auto simp: sighup_env_def stopped_world_def sample_world_def sighup_options_def)

theorem sighup_wait_ignores_stop_witness:
  "eventnetd_main (sighup_env (\<lambda>i k. False)) sighup_arguments (stopped_world 1) = None"
  by (rule sighup_wait_ignores_stop [OF sighup_accepts, where config = sample_config and intent = "hd (yc_intents sample_config)"])
    (simp_all add: sighup_options_def default_options_def sighup_env_def sample_load stopped_world_def sample_world_def
      sample_daemon_def find_intent_def sample_config_def)

section \<open>The rate limit\<close>

text \<open>
  Records that pass the rate limiter one after the other. \<open>f\<close> is the clock and \<open>begun\<close> its reading when the stream begins, with
  the window \<open>(0, 0)\<close>; between two records anything may happen that does not take back readings of the clock. \<open>slept_out\<close>:
  when the limiter has slept, its next reading of the clock is later by at least that time.
\<close>

definition slept_out :: "'w machine \<Rightarrow> 'w machine \<Rightarrow> bool" where
  "slept_out u t \<longleftrightarrow> (\<forall>ms. slept (world t) = ms # slept (world u) \<longrightarrow>
     clock (world u) (ticks (world u)) + ms \<le> clock (world u) (Suc (ticks (world u))))"

inductive paced :: "int \<Rightarrow> (nat \<Rightarrow> int) \<Rightarrow> int \<Rightarrow> nat \<Rightarrow> int \<times> int \<Rightarrow> 'w machine \<Rightarrow> bool" for limit f begun where
  begins: "clock (world s) = f \<Longrightarrow> begun = f (ticks (world s)) \<Longrightarrow> paced limit f begun 0 (0, 0) s"
| passed: "paced limit f begun k win s \<Longrightarrow> clock (world u) = f \<Longrightarrow> ticks (world s) \<le> ticks (world u) \<Longrightarrow>
    run_state (rate_limit limit win) u = (win', t) \<Longrightarrow> slept_out u t \<Longrightarrow> paced limit f begun (Suc k) win' t"

text \<open>
  The invariant: \<open>w\<close> windows of at least a second each lie before the current one, each with at most \<open>limit\<close> records.
\<close>

definition windows_inv :: "int \<Rightarrow> (nat \<Rightarrow> int) \<Rightarrow> int \<Rightarrow> nat \<Rightarrow> int \<times> int \<Rightarrow> 'w machine \<Rightarrow> bool" where
  "windows_inv limit f begun k win s \<longleftrightarrow> begun \<le> f (ticks (world s)) \<and>
     (if k = 0 then win = (0, 0)
      else \<exists>w\<ge>0. int k \<le> limit * w + snd win \<and> begun + 1000 * w \<le> fst win \<and> 1 \<le> snd win \<and> snd win \<le> limit \<and>
        0 < fst win \<and> fst win \<le> f (ticks (world s)))"

lemma rate_limit_run:
  assumes "0 < limit" "run_state (rate_limit limit (start, n)) u = (win', t)" "slept_out u t"
  shows "if start = 0 \<or> start + 1000 \<le> clock (world u) (ticks (world u))
      then win' = (clock (world u) (ticks (world u)), 1) \<and> ticks (world t) = Suc (ticks (world u))
    else if n < limit then win' = (start, n + 1) \<and> ticks (world t) = Suc (ticks (world u))
    else win' = (clock (world u) (Suc (ticks (world u))), 1) \<and> start + 1000 \<le> clock (world u) (Suc (ticks (world u))) \<and>
      ticks (world t) = Suc (Suc (ticks (world u)))"
  using assms by (auto simp: rate_limit_def run_on_world sleep_ms_def slept_out_def Let_def split: if_splits)

lemma windows_kept:
  assumes limit: "0 < limit" and f: "mono f" "\<And>m. 0 < f m"
  shows "paced limit f begun k win s \<Longrightarrow> windows_inv limit f begun k win s"
proof (induction rule: paced.induct)
  case (begins s)
  then show ?case by (simp add: windows_inv_def)
next
  case (passed k win s u win' t)
  let ?now = "f (ticks (world u))" and ?next = "f (Suc (ticks (world u)))"
  obtain start n where win: "win = (start, n)" by (cases win)
  note run = rate_limit_run [OF limit passed.hyps(4) [unfolded win] passed.hyps(5), unfolded passed.hyps(2)]
  have later: "f (ticks (world s)) \<le> ?now" "?now \<le> ?next" "?next \<le> f (Suc (Suc (ticks (world u))))"
    using f(1) passed.hyps(3) by (simp_all add: monoD)
  have begun: "begun \<le> ?now" using passed.IH later(1) by (simp add: windows_inv_def)
  have pos: "0 < ?now" "0 < ?next" using f(2) by simp_all
  show ?case
  proof (cases "k = 0")
    case True
    then have "start = 0" using passed.IH win by (simp add: windows_inv_def)
    with run True begun later pos limit show ?thesis by (auto simp: windows_inv_def intro!: exI [of _ 0])
  next
    case False
    then obtain w where w: "0 \<le> w" "int k \<le> limit * w + n" "begun + 1000 * w \<le> start" "1 \<le> n" "n \<le> limit"
      "0 < start" "start \<le> f (ticks (world s))" using passed.IH win by (auto simp: windows_inv_def)
    have full: "int (Suc k) \<le> limit * (w + 1) + 1" using w(2,5) by (simp add: algebra_simps)
    consider (new) "start + 1000 \<le> ?now" | (counted) "\<not> start + 1000 \<le> ?now" "n < limit"
      | (full) "\<not> start + 1000 \<le> ?now" "\<not> n < limit" by blast
    then show ?thesis
    proof cases
      case new
      with run w full begun later pos limit show ?thesis
        by (auto simp: windows_inv_def intro!: exI [of _ "w + 1"])
    next
      case counted
      with run w begun later pos limit show ?thesis by (auto simp: windows_inv_def intro!: exI [of _ w])
    next
      case full
      with run w \<open>int (Suc k) \<le> limit * (w + 1) + 1\<close> begun later pos limit show ?thesis
        by (auto simp: windows_inv_def intro!: exI [of _ "w + 1"])
    qed
  qed
qed

text \<open>
  C25. With a limit the daemon takes at most that many records in a second: when a number of records have passed one after
  the other, then before the last of them at least a second has gone by for every full \<open>limit\<close> of records before it. The clock
  is that of the daemon; it does not go back, and it counts the time for which the limiter sleeps.
\<close>

theorem rate_limit_throttles:
  assumes "paced limit f begun (Suc k) win s" "0 < limit" "mono f" "\<And>m. 0 < f m"
  shows "begun + 1000 * (int k div limit) \<le> f (ticks (world s)) \<and> 1 \<le> snd win \<and> snd win \<le> limit"
proof -
  obtain w where w: "0 \<le> w" "int (Suc k) \<le> limit * w + snd win" "begun + 1000 * w \<le> fst win" "1 \<le> snd win" "snd win \<le> limit"
    "fst win \<le> f (ticks (world s))"
    using windows_kept [OF assms(2-4,1)] by (auto simp: windows_inv_def)
  have "int k \<le> limit * w + (limit - 1)" using w(2,5) by simp
  then have "int k div limit \<le> (limit * w + (limit - 1)) div limit" using assms(2) by (intro zdiv_mono1)
  also have "\<dots> = w" using assms(2) by (simp add: div_pos_pos_trivial)
  finally show ?thesis using w by simp
qed

text \<open>Two records with a limit of one, when the clock shows 600 ms more at each reading: the limiter sleeps for the second one.\<close>

definition slow_clock :: "nat \<Rightarrow> int" where
  "slow_clock n = 1000 + 600 * int n"

theorem rate_limit_throttles_witness:
  "\<exists>t :: unit daemon machine. slept (world t) = [400] \<and> 2000 \<le> slow_clock (ticks (world t))"
proof -
  let ?s = "sample_stream_machine\<lparr>world := (world sample_stream_machine)\<lparr>clock := slow_clock, ticks := 0, slept := []\<rparr>\<rparr>"
  let ?u = "snd (run_state (rate_limit 1 (0, 0)) ?s)"
  let ?t = "snd (run_state (rate_limit 1 (1000, 1)) ?u)"
  have u: "run_state (rate_limit 1 (0, 0)) ?s = ((1000, 1), ?u)" "world ?u = (world ?s)\<lparr>ticks := 1\<rparr>"
    by (simp_all add: rate_limit_def run_on_world sleep_ms_def slow_clock_def)
  have t: "run_state (rate_limit 1 (1000, 1)) ?u = ((2200, 1), ?t)" "world ?t = (world ?s)\<lparr>ticks := 3, slept := [400]\<rparr>"
    using u(2) by (simp_all add: rate_limit_def run_on_world sleep_ms_def slow_clock_def eval_nat_numeral)
  have "paced 1 slow_clock 1000 0 (0, 0) ?s" by (rule paced.begins) (simp_all add: slow_clock_def)
  then have "paced 1 slow_clock 1000 (Suc 0) (1000, 1) ?u"
    by (rule paced.passed [OF _ _ _ u(1)]) (simp_all add: u(2) slept_out_def)
  then have paced: "paced 1 slow_clock 1000 (Suc 1) (2200, 1) ?t"
    unfolding One_nat_def by (rule paced.passed [OF _ _ _ t(1)]) (simp_all add: u(2) t(2) slept_out_def slow_clock_def)
  have "mono slow_clock" "\<And>m. 0 < slow_clock m" by (simp_all add: mono_def slow_clock_def)
  from rate_limit_throttles [OF paced _ this] have "2000 \<le> slow_clock (ticks (world ?t))" by simp
  moreover have "slept (world ?t) = [400]" by (simp add: t(2))
  ultimately show ?thesis by blast
qed

end
