(* ===== verification/NetnsPlan.thy ===== *)
theory NetnsPlan
  imports Startup DaemonTelemetry VppApiAdapter
begin

text \<open>
  The planner \<open>src/examples/netns_plan.c\<close>: the scripts it writes for a path of a configuration. A script is a list of
  lines. The planner's own copies of \<open>find_tunnel\<close>, \<open>find_intent\<close> and of the VLAN check of an edge are the
  definitions of the other theories.
\<close>

section \<open>Lines\<close>

text \<open>
  \<open>COMMAND\<close> is a line of words; \<open>ATTEMPT\<close> the same with its failure ignored; \<open>NOTE\<close> prints its text; the others are
  the lines with a form of their own. In fixed text a backquote stands for a double quote, a tilde for
  a single quote and a caret for a backslash, none of which the scripts contain.
\<close>

datatype plan_line =
    COMMAND "string list"
  | ATTEMPT "string list"
  | NOTE string
  | OPEN_NOTE string
  | SET_MTU int string
  | SOCKET_CASE string string
  | UNSUPPORTED string string
  | FIXED string

definition shell :: "string \<Rightarrow> string" where
  "shell = map (\<lambda>c. if c = CHR ''`'' then DQ else if c = CHR ''~'' then CHR 0x27 else if c = CHR ''^'' then BSLASH else c)"

fun line_text :: "plan_line \<Rightarrow> string" where
  "line_text (COMMAND ws) = unwords ws"
| "line_text (ATTEMPT ws) = unwords ws @ '' 2>/dev/null || true''"
| "line_text (NOTE s) = shell ''printf ~'' @ s @ shell ''^n~''"
| "line_text (OPEN_NOTE s) = shell ''printf ~'' @ s @ [LF] @ shell ''~''"
| "line_text (SET_MTU mtu i) = shell ''if [ `$DRY_RUN` = `1` ]; then run_vpp set interface mtu '' @ int_to_dec mtu @ '' '' @ i @
     ''; elif run_vpp set interface mtu '' @ int_to_dec mtu @ '' '' @ i @
     '' 2>/dev/null; then :; else run_vpp set interface mtu '' @ i @ '' '' @ int_to_dec mtu @ ''; fi''"
| "line_text (SOCKET_CASE node socket) = ''    '' @ node @ shell '') socket=~'' @ socket @ shell ''~ ;;''"
| "line_text (UNSUPPORTED what p) = shell ''echo ~unsupported path for current '' @ what @ '' runtime: '' @ p @ shell ''~ >&2''"
| "line_text (FIXED s) = shell s"

definition script_text :: "plan_line list \<Rightarrow> string" where
  "script_text ls = unlines (map line_text ls)"

section \<open>Lookups\<close>

definition find_path :: "en_yaml_config \<Rightarrow> string \<Rightarrow> en_path option" where
  "find_path config path_id = find (\<lambda>p. strcmp (pt_path_id p) path_id = 0) (yc_paths config)"

definition tunnel_gre :: "en_yaml_config \<Rightarrow> string \<Rightarrow> en_tunnel option" where
  "tunnel_gre config tunnel_id = (case find_tunnel config tunnel_id of
     None \<Rightarrow> None | Some t \<Rightarrow> if is_gre t then Some t else None)"

definition find_first_gre_tunnel :: "en_yaml_config \<Rightarrow> en_path \<Rightarrow> en_tunnel option" where
  "find_first_gre_tunnel config path =
     (case List.map_filter (\<lambda>g. tunnel_gre config (sg_tunnel_id g)) (pt_segments path) of
        t # _ \<Rightarrow> Some t
      | [] \<Rightarrow> if pt_segments path = [] then tunnel_gre config (pt_egress_tunnel_id path) else None)"

definition path_has_gre_tunnel :: "en_yaml_config \<Rightarrow> en_path \<Rightarrow> bool" where
  "path_has_gre_tunnel config path \<longleftrightarrow>
     (if list_ex (\<lambda>g. tunnel_gre config (sg_tunnel_id g) \<noteq> None) (pt_segments path) then True
      else if pt_segments path = [] then tunnel_gre config (pt_egress_tunnel_id path) \<noteq> None else False)"

definition find_vpp_edge :: "en_yaml_config \<Rightarrow> string \<Rightarrow> en_vpp_edge option" where
  "find_vpp_edge config node_id = find (\<lambda>e. strcmp (ve_node_id e) node_id = 0) (yc_vpp_edges config)"

definition find_vpp_edge_for_route :: "en_yaml_config \<Rightarrow> en_route \<Rightarrow> en_vpp_edge option" where
  "find_vpp_edge_for_route config r = find (\<lambda>e. strcmp (ve_node_id e) (rt_node_id r) = 0 \<and>
     (rt_interface_name r = [] \<or> strcmp (rt_interface_name r) (ve_vpp_interface e) = 0 \<or>
      strcmp (rt_interface_name r) (ve_host_interface e) = 0)) (yc_vpp_edges config)"

definition path_uses_node :: "en_path \<Rightarrow> string \<Rightarrow> bool" where
  "path_uses_node path node_id \<longleftrightarrow> node_id \<noteq> [] \<and>
     (strcmp (pt_source path) node_id = 0 \<or> strcmp (pt_destination path) node_id = 0 \<or>
      list_ex (\<lambda>w. strcmp w node_id = 0) (pt_waypoints path) \<or>
      list_ex (\<lambda>g. strcmp (sg_from_node g) node_id = 0 \<or> strcmp (sg_to_node g) node_id = 0) (pt_segments path) \<or>
      list_ex (\<lambda>r. strcmp (rt_node_id r) node_id = 0) (pt_routes path))"

text \<open>The two loops over the routes: a route and an earlier one of the same node with another table.\<close>

definition tables_conflict :: "en_route \<Rightarrow> en_route \<Rightarrow> bool" where
  "tables_conflict prior r \<longleftrightarrow> 0 \<le> rt_table_id r \<and> 0 \<le> rt_table_id prior \<and>
     strcmp (rt_node_id prior) (rt_node_id r) = 0 \<and> rt_table_id prior \<noteq> rt_table_id r"

definition path_has_conflicting_tables :: "en_path \<Rightarrow> bool" where
  "path_has_conflicting_tables path \<longleftrightarrow>
     list_ex (\<lambda>i. list_ex (\<lambda>prior. tables_conflict prior (pt_routes path ! i)) (take i (pt_routes path)))
       [0..<length (pt_routes path)]"

definition path_uses_namespaced_vpp :: "en_yaml_config \<Rightarrow> en_path \<Rightarrow> bool" where
  "path_uses_namespaced_vpp config path \<longleftrightarrow>
     list_ex (\<lambda>e. ve_vpp_socket e \<noteq> [] \<and> path_uses_node path (ve_node_id e)) (yc_vpp_edges config)"

definition runtime_kind :: "en_yaml_config \<Rightarrow> en_path \<Rightarrow> string" where
  "runtime_kind config path =
     (if path_has_gre_tunnel config path then ''vpp''
      else if pt_segments path = [] \<and> \<not> pt_routes_explicit path \<and> pt_route_destination_prefix path \<noteq> [] \<and>
        pt_route_next_hop path \<noteq> [] then ''vpp''
      else if map sg_tunnel_id (pt_segments path) = [''tun-a-b''] then ''direct''
      else if map sg_tunnel_id (pt_segments path) = [''tun-a-hub'', ''tun-hub-b''] then ''hub''
      else if yc_vpp_edges config \<noteq> [] \<and> pt_segments path \<noteq> [] then ''vpp''
      else ''unsupported'')"

section \<open>GRE tunnels\<close>

definition gre_outer_local :: "en_tunnel \<Rightarrow> string" where
  "gre_outer_local t = (if tn_gre_outer_local_endpoint t = [] then tn_local_endpoint t else tn_gre_outer_local_endpoint t)"

definition gre_outer_remote :: "en_tunnel \<Rightarrow> string" where
  "gre_outer_remote t = (if tn_gre_outer_remote_endpoint t = [] then tn_remote_endpoint t else tn_gre_outer_remote_endpoint t)"

abbreviation on_node :: "string \<Rightarrow> string list \<Rightarrow> plan_line" where
  "on_node node ws \<equiv> COMMAND (''run_vpp_node'' # node # ws)"

abbreviation try_on_node :: "string \<Rightarrow> string list \<Rightarrow> plan_line" where
  "try_on_node node ws \<equiv> ATTEMPT (''run_vpp_node'' # node # ws)"

definition sa_words :: "en_tunnel \<Rightarrow> int \<Rightarrow> int \<Rightarrow> string list" where
  "sa_words t sa spi = [''ipsec'', ''sa'', ''add'', int_to_dec sa, ''spi'', int_to_dec spi, ''esp'', ''crypto-key'', tn_vpp_crypto_key t,
     ''crypto-alg'', tn_vpp_crypto_algorithm t, ''integ-key'', tn_vpp_integrity_key t, ''integ-alg'', tn_vpp_integrity_algorithm t,
     ''use-anti-replay'', ''udp-encap'']"

definition vpp_native :: "en_tunnel \<Rightarrow> bool" where
  "vpp_native t \<longleftrightarrow> 0 \<le> tn_vpp_local_sa_id t \<and> 0 \<le> tn_vpp_remote_sa_id t \<and> 0 < tn_vpp_local_spi t \<and> 0 < tn_vpp_remote_spi t \<and>
     tn_vpp_crypto_algorithm t \<noteq> [] \<and> tn_vpp_crypto_key t \<noteq> [] \<and> tn_vpp_integrity_algorithm t \<noteq> [] \<and> tn_vpp_integrity_key t \<noteq> []"

definition gre_tunnel_words :: "en_tunnel \<Rightarrow> string \<Rightarrow> string \<Rightarrow> bool \<Rightarrow> string list" where
  "gre_tunnel_words t from to del = [''create'', ''gre'', ''tunnel'', ''src'', from, ''dst'', to] @
     (if 0 \<le> tn_gre_instance t then [''instance'', int_to_dec (tn_gre_instance t)] else []) @ (if del then [''del''] else [])"

definition remote_address :: "en_tunnel \<Rightarrow> string" where
  "remote_address t = (if CHR ''/'' \<notin> set (tn_gre_remote_address t) then tn_gre_remote_address t @ ''/30'' else tn_gre_remote_address t)"

definition interface_up :: "en_tunnel \<Rightarrow> string \<Rightarrow> string \<Rightarrow> plan_line list" where
  "interface_up t node address =
     [on_node node [''set'', ''interface'', ''ip'', ''address'', tn_gre_interface t, address],
      on_node node [''set'', ''interface'', ''state'', tn_gre_interface t, ''up'']]"

definition native_setup :: "en_tunnel \<Rightarrow> plan_line list" where
  "native_setup t =
     (let l = tn_local_node t; r = tn_remote_node t; n = int_to_dec (if 0 \<le> tn_gre_instance t then tn_gre_instance t else 0);
          ipip = (\<lambda>from to. [''create'', ''ipip'', ''tunnel'', ''src'', from, ''dst'', to, ''instance'', n]);
          protect = (\<lambda>sa_in sa_out. [''ipsec'', ''tunnel'', ''protect'', tn_gre_interface t, ''sa-in'', int_to_dec sa_in, ''sa-out'', int_to_dec sa_out]) in
      [on_node l (ipip (gre_outer_local t) (gre_outer_remote t))] @ interface_up t l (tn_gre_local_address t) @
      [on_node l (protect (tn_vpp_remote_sa_id t) (tn_vpp_local_sa_id t)),
       on_node r (ipip (gre_outer_remote t) (gre_outer_local t))] @ interface_up t r (remote_address t) @
      [on_node r (protect (tn_vpp_local_sa_id t) (tn_vpp_remote_sa_id t))])"

definition kernel_setup :: "en_tunnel \<Rightarrow> plan_line list" where
  "kernel_setup t =
     (let l = tn_local_node t; r = tn_remote_node t; from = gre_outer_local t; to = gre_outer_remote t in
      [try_on_node l (gre_tunnel_words t from to True), on_node l (gre_tunnel_words t from to False)] @ interface_up t l (tn_gre_local_address t) @
      [try_on_node r (gre_tunnel_words t to from True), on_node r (gre_tunnel_words t to from False)] @ interface_up t r (remote_address t))"

definition gre_note :: "en_tunnel \<Rightarrow> plan_line" where
  "gre_note t = NOTE (''# GRE over IPsec: '' @ tn_tunnel_id t @ '' ('' @ tn_local_endpoint t @ '' -> '' @ tn_remote_endpoint t @ '')'')"

definition segment_gre_setup :: "en_tunnel \<Rightarrow> plan_line list" where
  "segment_gre_setup t =
     [gre_note t] @
     (if vpp_native t then
        [NOTE (''# VPP Native IPsec protection: '' @ tn_tunnel_id t),
         on_node (tn_local_node t) (sa_words t (tn_vpp_local_sa_id t) (tn_vpp_local_spi t)),
         on_node (tn_local_node t) (sa_words t (tn_vpp_remote_sa_id t) (tn_vpp_remote_spi t)),
         on_node (tn_remote_node t) (sa_words t (tn_vpp_remote_sa_id t) (tn_vpp_remote_spi t)),
         on_node (tn_remote_node t) (sa_words t (tn_vpp_local_sa_id t) (tn_vpp_local_spi t))]
      else []) @
     (if vpp_native t then native_setup t else kernel_setup t)"

text \<open>
  The GRE tunnels of the segments, each once: the code compares pointers into the configuration, whose identifiers are
  distinct. There are at most as many segments as the table of those seen holds.
\<close>

definition path_gre_tunnels :: "en_yaml_config \<Rightarrow> en_path \<Rightarrow> en_tunnel list" where
  "path_gre_tunnels config path =
     fold (\<lambda>g seen. case tunnel_gre config (sg_tunnel_id g) of
         None \<Rightarrow> seen
       | Some t \<Rightarrow> if list_ex (\<lambda>u. strcmp (tn_tunnel_id u) (tn_tunnel_id t) = 0) seen \<or> EN_MAX_SEGMENTS \<le> length seen then seen
           else seen @ [t]) (pt_segments path) []"

definition egress_gre_setup :: "en_tunnel \<Rightarrow> plan_line list" where
  "egress_gre_setup t =
     [gre_note t, ATTEMPT (''run_vpp'' # gre_tunnel_words t (gre_outer_local t) (gre_outer_remote t) True),
      COMMAND (''run_vpp'' # gre_tunnel_words t (gre_outer_local t) (gre_outer_remote t) False),
      COMMAND [''run_vpp'', ''set'', ''interface'', ''ip'', ''address'', tn_gre_interface t, tn_gre_local_address t]] @
     (if 0 < tn_gre_mtu t then [SET_MTU (tn_gre_mtu t) (tn_gre_interface t)] else []) @
     [COMMAND [''run_vpp'', ''set'', ''interface'', ''state'', tn_gre_interface t, ''up'']]"

definition write_vpp_gre_setup :: "en_yaml_config \<Rightarrow> en_path \<Rightarrow> plan_line list" where
  "write_vpp_gre_setup config path =
     concat (map segment_gre_setup (path_gre_tunnels config path)) @
     (if pt_segments path = [] then
        (case tunnel_gre config (pt_egress_tunnel_id path) of None \<Rightarrow> [] | Some t \<Rightarrow> egress_gre_setup t)
      else [])"

definition write_vpp_node_dispatch :: "en_yaml_config \<Rightarrow> plan_line list" where
  "write_vpp_node_dispatch config =
     [FIXED ''run_vpp_node() {'', FIXED ''  node=`$1`; shift'', FIXED ''  socket=``'', FIXED ''  case `$node` in''] @
     map (\<lambda>e. SOCKET_CASE (ve_node_id e) (ve_vpp_socket e)) (filter (\<lambda>e. ve_vpp_socket e \<noteq> []) (yc_vpp_edges config)) @
     [FIXED ''  esac'',
      FIXED ''  if [ -n `$socket` ]; then VPPCTL_SOCKET=`$socket` run_vpp `$@`; else run_vpp `$@`; fi'',
      FIXED ''}'', FIXED []]"

section \<open>The plan of routes\<close>

definition plan_head :: "plan_line list" where
  "plan_head =
     [FIXED ''#!/usr/bin/env sh'', FIXED ''set -eu'', FIXED [], FIXED ''VPPCTL=`${VPPCTL:-vppctl}`'',
      FIXED ''VPPCTL_SOCKET=`${VPPCTL_SOCKET:-}`'', FIXED ''DRY_RUN=`${DRY_RUN:-1}`'', FIXED [], FIXED ''run_vpp() {'',
      FIXED ''  if [ `$DRY_RUN` = `1` ]; then'',
      FIXED ''    if [ -n `$VPPCTL_SOCKET` ]; then printf ~[dry-run] %s -s %s %s^n~ `$VPPCTL` `$VPPCTL_SOCKET` `$*`; else printf ~[dry-run] %s %s^n~ `$VPPCTL` `$*`; fi'',
      FIXED ''  else'',
      FIXED ''    if [ -n `$VPPCTL_SOCKET` ]; then if output=$(`$VPPCTL` -s `$VPPCTL_SOCKET` `$@` 2>&1); then status=0; else status=$?; fi; else if output=$(`$VPPCTL` `$@` 2>&1); then status=0; else status=$?; fi; fi'',
      FIXED ''    printf ~%s^n~ `$output`'',
      FIXED ''    if [ `$status` -ne 0 ] || printf ~%s^n~ `$output` | grep -Eiq ~unknown input|parse error|unknown interface|failed|error:~; then return 1; fi'',
      FIXED ''  fi'', FIXED ''}'', FIXED []]"

definition ensure_table_function :: "plan_line list" where
  "ensure_table_function =
     [FIXED ''ensure_vpp_table() {'', FIXED ''  table=`$1`'', FIXED ''  if [ `$DRY_RUN` = `1` ]; then'',
      FIXED ''    run_vpp ip table add `$table`'',
      FIXED ''  elif ! run_vpp show ip fib | grep -q `ipv4-VRF:$table`; then'',
      FIXED ''    run_vpp ip table add `$table`'', FIXED ''  fi'', FIXED ''}'', FIXED []]"

text \<open>The positive tables of the routes, each at its first route.\<close>

definition tables_from :: "nat list \<Rightarrow> en_route list \<Rightarrow> int list" where
  "tables_from is rs = List.map_filter (\<lambda>i. if 0 < rt_table_id (rs ! i) \<and>
     \<not> list_ex (\<lambda>p. rt_table_id p = rt_table_id (rs ! i)) (take i rs) then Some (rt_table_id (rs ! i)) else None) is"

definition ensure_tables_lines :: "en_path \<Rightarrow> plan_line list" where
  "ensure_tables_lines path =
     map (\<lambda>t. COMMAND [''ensure_vpp_table'', int_to_dec t]) (tables_from [0..<length (pt_routes path)] (pt_routes path))"

definition table_words :: "en_route \<Rightarrow> string list" where
  "table_words r = (if 0 \<le> rt_table_id r then [''table'', int_to_dec (rt_table_id r)] else [])"

definition metric_words :: "en_route \<Rightarrow> string list" where
  "metric_words r = (if 0 \<le> rt_metric r then [''preference'', int_to_dec (rt_metric r)] else [])"

definition route_add :: "en_route \<Rightarrow> string list \<Rightarrow> plan_line" where
  "route_add r interface_words = on_node (rt_node_id r)
     ([''ip'', ''route'', ''add'', rt_destination_prefix r] @ table_words r @ [''via'', rt_next_hop r] @ interface_words @ metric_words r)"

definition explicit_route_lines :: "en_route \<Rightarrow> plan_line list" where
  "explicit_route_lines r =
     [NOTE (''# explicit route '' @ rt_route_id r @ '' on node '' @ rt_node_id r),
      route_add r (if rt_interface_name r \<noteq> [] then [rt_interface_name r] else [])]"

abbreviation vpp_route :: "string \<Rightarrow> string list \<Rightarrow> plan_line" where
  "vpp_route pfx ws \<equiv> COMMAND ([''run_vpp'', ''ip'', ''route'', ''add'', pfx, ''via''] @ ws)"

abbreviation vpp_route_on :: "string \<Rightarrow> string \<Rightarrow> string list \<Rightarrow> plan_line" where
  "vpp_route_on node pfx ws \<equiv> on_node node ([''ip'', ''route'', ''add'', pfx, ''via''] @ ws)"

definition return_note :: "string \<Rightarrow> plan_line" where
  "return_note node = NOTE (''# node '' @ node @ '': source return route'')"

text \<open>What both plans start with: the first and the last tunnel, whether the plan is refused, and the prefixes.\<close>

definition end_tunnels :: "en_yaml_config \<Rightarrow> en_path \<Rightarrow> en_tunnel option \<times> en_tunnel option" where
  "end_tunnels config path = (if pt_segments path = [] then (None, None)
     else (find_tunnel config (sg_tunnel_id (hd (pt_segments path))), find_tunnel config (sg_tunnel_id (last (pt_segments path)))))"

definition plan_refused :: "en_yaml_config \<Rightarrow> en_path \<Rightarrow> bool" where
  "plan_refused config path \<longleftrightarrow>
     (case end_tunnels config path of (first, final) \<Rightarrow>
       (pt_segments path \<noteq> [] \<and> \<not> pt_routes_explicit path \<and> (first = None \<or> final = None)) \<or>
       (pt_segments path = [] \<and>
         ((\<not> pt_routes_explicit path \<and> (pt_route_destination_prefix path = [] \<or> pt_route_next_hop path = [])) \<or>
          (pt_routes_explicit path \<and> pt_routes path = []))))"

definition source_prefix :: "en_yaml_config \<Rightarrow> en_path \<Rightarrow> string" where
  "source_prefix config path = (case fst (end_tunnels config path) of None \<Rightarrow> [] | Some t \<Rightarrow> tn_local_traffic_selector t)"

text \<open>With a first tunnel and without a last one the code would use a null pointer; a loaded configuration has both.\<close>

definition destination_prefix :: "en_yaml_config \<Rightarrow> en_path \<Rightarrow> string" where
  "destination_prefix config path =
     (if fst (end_tunnels config path) = None \<or> pt_route_destination_prefix path \<noteq> [] then pt_route_destination_prefix path
      else case snd (end_tunnels config path) of None \<Rightarrow> [] | Some t \<Rightarrow> tn_remote_traffic_selector t)"

definition local_next_hop :: "en_tunnel \<Rightarrow> string" where
  "local_next_hop t = takeWhile (\<lambda>c. c \<noteq> CHR ''/'') (fit EN_MAX_ID_LEN (tn_gre_local_address t))"

definition single_segment_lines :: "en_yaml_config \<Rightarrow> en_path \<Rightarrow> en_tunnel \<Rightarrow> plan_line list" where
  "single_segment_lines config path t =
     [NOTE (''# node '' @ pt_source path @ '': destination route'')] @
     (if is_gre t then
        [vpp_route_on (pt_source path) (destination_prefix config path) [tn_gre_remote_address t, tn_gre_interface t]] @
        (if source_prefix config path \<noteq> [] then
           [return_note (pt_destination path),
            vpp_route_on (pt_destination path) (source_prefix config path) [local_next_hop t, tn_gre_interface t]]
         else [])
      else
        [vpp_route_on (pt_source path) (destination_prefix config path) [tn_remote_endpoint t],
         return_note (pt_destination path),
         vpp_route_on (pt_destination path) (source_prefix config path) [tn_local_endpoint t]])"

text \<open>The routes at the nodes between two segments; \<open>None\<close> when a tunnel is missing, with the lines written so far.\<close>

fun waypoint_lines :: "en_yaml_config \<Rightarrow> en_path \<Rightarrow> en_segment list \<Rightarrow> bool \<times> plan_line list" where
  "waypoint_lines config path (incoming # outgoing # gs) =
     (case (find_tunnel config (sg_tunnel_id incoming), find_tunnel config (sg_tunnel_id outgoing)) of
        (Some t, Some u) \<Rightarrow> (case waypoint_lines config path (outgoing # gs) of (whole, ls) \<Rightarrow>
          (whole, [return_note (sg_to_node incoming), vpp_route (source_prefix config path) [tn_local_endpoint t],
             NOTE (''# node '' @ sg_from_node outgoing @ '': destination route''),
             vpp_route (destination_prefix config path) [tn_remote_endpoint u]] @ ls))
      | _ \<Rightarrow> (False, []))"
| "waypoint_lines config path gs = (True, [])"

definition chain_lines :: "en_yaml_config \<Rightarrow> en_path \<Rightarrow> en_tunnel \<Rightarrow> en_tunnel \<Rightarrow> bool \<times> plan_line list" where
  "chain_lines config path first final =
     (case waypoint_lines config path (pt_segments path) of (whole, ls) \<Rightarrow>
       (whole, [NOTE (''# node '' @ pt_source path @ '': destination route to first waypoint''),
          vpp_route (destination_prefix config path) [tn_remote_endpoint first]] @ ls @
        (if whole then [return_note (pt_destination path), vpp_route (source_prefix config path) [tn_local_endpoint final]] else [])))"

text \<open>
  A writer that returns before it opens its file is \<open>None\<close>; otherwise it gives its status and what it writes.
\<close>

type_synonym written = "(int \<times> plan_line list) option"

definition write_vpp_route_plan :: "en_yaml_config \<Rightarrow> en_path \<Rightarrow> written" where
  "write_vpp_route_plan config path =
     (if plan_refused config path then None
      else if path_has_gre_tunnel config path \<and> (source_prefix config path = [] \<or> destination_prefix config path = []) then None
      else let head = plan_head @ write_vpp_node_dispatch config @ ensure_table_function @
          [NOTE (''VPP route plan for path: '' @ pt_path_id path), NOTE (''source_prefix: '' @ source_prefix config path),
           NOTE (''destination_prefix: '' @ destination_prefix config path), FIXED []] @
          (if path_has_gre_tunnel config path then write_vpp_gre_setup config path else []) in
        if pt_routes_explicit path then
          Some (0, head @ ensure_tables_lines path @ concat (map explicit_route_lines (pt_routes path)))
        else case end_tunnels config path of
          (Some first, Some final) \<Rightarrow>
            if length (pt_segments path) = 1 then Some (0, head @ single_segment_lines config path first)
            else (case chain_lines config path first final of (whole, ls) \<Rightarrow> Some (if whole then 0 else 1, head @ ls))
        | _ \<Rightarrow> Some (0, head @
            [OPEN_NOTE (''# node '' @ pt_source path @ '': legacy destination route''),
             vpp_route_on (pt_source path) (destination_prefix config path) [pt_route_next_hop path]]))"

end
