(* ===== verification/NetnsRuntime.thy ===== *)
theory NetnsRuntime
  imports NetnsPlan
begin

text \<open>
  The rest of the planner \<open>src/examples/netns_plan.c\<close>: the plan of routes with VLANs, the scripts that apply and roll
  back a path, its summary, and \<open>main\<close>, which selects the path and writes the files.
\<close>

section \<open>The plan of routes over the edges\<close>

text \<open>Where no edge belongs to the node, the names of the demonstration topology.\<close>

definition source_hop :: "en_yaml_config \<Rightarrow> en_path \<Rightarrow> string \<times> string" where
  "source_hop config path = (case find_vpp_edge config (pt_source path) of
     None \<Rightarrow> (''172.16.1.2'', ''host-vpp-site-a'') | Some e \<Rightarrow> (ve_next_hop e, ve_vpp_interface e))"

definition destination_hop :: "en_yaml_config \<Rightarrow> en_path \<Rightarrow> string \<times> string" where
  "destination_hop config path = (case find_vpp_edge config (pt_destination path) of
     None \<Rightarrow> (''172.16.2.2'', ''host-vpp-site-b'') | Some e \<Rightarrow> (ve_next_hop e, ve_vpp_interface e))"

definition vlan_refused :: "en_yaml_config \<Rightarrow> en_intent \<Rightarrow> en_path \<Rightarrow> bool" where
  "vlan_refused config intent path \<longleftrightarrow> ts_has_vlan_id (it_traffic intent) \<and>
     (list_ex (\<lambda>e. path_uses_node path (ve_node_id e) \<and> \<not> edge_allows_vlan e (ts_vlan_id (it_traffic intent))) (yc_vpp_edges config) \<or>
      path_has_conflicting_tables path)"

definition vlan_functions :: "plan_line list" where
  "vlan_functions =
     [FIXED ''ensure_vlan_subinterface() {'', FIXED ''  parent=`$1`'', FIXED ''  vlan=`$2`'',
      FIXED ''  if [ `$DRY_RUN` = `1` ]; then'', FIXED ''    run_vpp create sub-interfaces `$parent` `$vlan`'',
      FIXED ''  elif ! `$VPPCTL` show interface `$parent.$vlan` >/dev/null 2>&1; then'',
      FIXED ''    run_vpp create sub-interfaces `$parent` `$vlan`'', FIXED ''  fi'',
      FIXED ''  run_vpp set interface `$parent.$vlan` up'', FIXED ''}'', FIXED [],
      FIXED ''set_vlan_interface_table() {'', FIXED ''  interface=`$1`'', FIXED ''  table=`$2`'',
      FIXED ''  run_vpp set interface ip table `$interface` `$table`'', FIXED ''}'', FIXED [],
      FIXED ''ensure_unmatched_vlan_acl() {'', FIXED ''  parent=`$1`'', FIXED ''  acl_index=`$2`'',
      FIXED ''  run_vpp set acl-plugin acl index `$acl_index` deny src 0.0.0.0/0 dst 0.0.0.0/0 , deny src ::/0 dst ::/0 tag ibuki-vlan-deny-`$acl_index`'',
      FIXED ''  run_vpp set acl-plugin interface `$parent` input acl `$acl_index`'', FIXED ''}'', FIXED []]"

definition vlan_interface :: "string \<Rightarrow> int \<Rightarrow> string" where
  "vlan_interface i vlan = i @ ''.'' @ int_to_dec vlan"

definition used_edges :: "en_yaml_config \<Rightarrow> en_path \<Rightarrow> en_vpp_edge list" where
  "used_edges config path = filter (\<lambda>e. path_uses_node path (ve_node_id e) \<and> ve_vpp_interface e \<noteq> []) (yc_vpp_edges config)"

definition underlay_lines :: "en_yaml_config \<Rightarrow> en_path \<Rightarrow> plan_line list" where
  "underlay_lines config path =
     (case fst (end_tunnels config path) of
        Some t \<Rightarrow> if is_gre t then
            [NOTE ''# GRE underlay routes'',
             vpp_route_on (pt_source path) (gre_outer_remote t @ ''/32'') [fst (source_hop config path), snd (source_hop config path)],
             vpp_route_on (pt_destination path) (gre_outer_local t @ ''/32'') [fst (destination_hop config path), snd (destination_hop config path)]]
          else []
      | None \<Rightarrow> [])"

definition vlan_policy_lines :: "en_yaml_config \<Rightarrow> en_intent \<Rightarrow> en_path \<Rightarrow> plan_line list" where
  "vlan_policy_lines config intent path =
     (let vlan = ts_vlan_id (it_traffic intent); edges = used_edges config path in
      (if pt_routes_explicit path then ensure_tables_lines path else []) @
      [NOTE (''VLAN policy: vlan_id='' @ int_to_dec vlan)] @
      map (\<lambda>e. COMMAND [''ensure_vlan_subinterface'', ve_vpp_interface e, int_to_dec vlan]) edges @
      (if it_deny_unmatched_vlan intent then
         NOTE ''VLAN unmatched traffic policy: deny parent interface'' #
         map (\<lambda>(k, e). COMMAND [''ensure_unmatched_vlan_acl'', ve_vpp_interface e, int_to_dec (10000 + vlan + int k)])
           (List.enumerate 0 edges)
       else []))"

text \<open>The table of the VLAN interface of a route, at the first route of its node that has a table.\<close>

definition interface_table_line :: "en_yaml_config \<Rightarrow> int \<Rightarrow> en_route list \<Rightarrow> nat \<Rightarrow> plan_line option" where
  "interface_table_line config vlan rs i =
     (let r = rs ! i in
      if rt_table_id r \<le> 0 then None
      else case find_vpp_edge_for_route config r of
        None \<Rightarrow> None
      | Some e \<Rightarrow>
          if ve_vpp_interface e = [] then None
          else if list_ex (\<lambda>p. strcmp (rt_node_id p) (rt_node_id r) = 0 \<and> 0 \<le> rt_table_id p) (take i rs) then None
          else Some (COMMAND [''set_vlan_interface_table'', vlan_interface (ve_vpp_interface e) vlan, int_to_dec (rt_table_id r)]))"

definition edge_words :: "en_intent \<Rightarrow> en_vpp_edge \<Rightarrow> string list" where
  "edge_words intent e = (if ve_vpp_interface e = [] then []
     else if ts_has_vlan_id (it_traffic intent) then [vlan_interface (ve_vpp_interface e) (ts_vlan_id (it_traffic intent))]
     else [ve_vpp_interface e])"

definition edge_route_lines :: "en_yaml_config \<Rightarrow> en_intent \<Rightarrow> en_route \<Rightarrow> plan_line list" where
  "edge_route_lines config intent r =
     (case find_vpp_edge_for_route config r of
        None \<Rightarrow> [NOTE (''# skip explicit route '' @ rt_route_id r @ '': no vpp_edge for node '' @ rt_node_id r)]
      | Some e \<Rightarrow>
          [NOTE (''# explicit netns route '' @ rt_route_id r @ '' on node '' @ rt_node_id r @ '' via '' @ ve_vpp_interface e),
           try_on_node (rt_node_id r) [''ip'', ''route'', ''del'', rt_destination_prefix r],
           route_add r (edge_words intent e)])"

definition explicit_edge_lines :: "en_yaml_config \<Rightarrow> en_intent \<Rightarrow> en_path \<Rightarrow> plan_line list" where
  "explicit_edge_lines config intent path =
     (let vlan = ts_has_vlan_id (it_traffic intent); rs = pt_routes path in
      (if vlan then List.map_filter (interface_table_line config (ts_vlan_id (it_traffic intent)) rs) [0..<length rs]
       else ensure_tables_lines path) @
      concat (map (edge_route_lines config intent) rs))"

definition direct_edge_line :: "en_yaml_config \<Rightarrow> en_intent \<Rightarrow> en_path \<Rightarrow> plan_line" where
  "direct_edge_line config intent path =
     (let i = snd (source_hop config path) in
      vpp_route_on (pt_source path) (destination_prefix config path)
        [pt_route_next_hop path, if ts_has_vlan_id (it_traffic intent) then vlan_interface i (ts_vlan_id (it_traffic intent)) else i])"

definition segment_edge_lines :: "en_yaml_config \<Rightarrow> en_intent \<Rightarrow> en_path \<Rightarrow> plan_line list" where
  "segment_edge_lines config intent path =
     (case (source_hop config path, destination_hop config path) of ((shop, sif), (dhop, dif)) \<Rightarrow>
       let sp = source_prefix config path; dp = destination_prefix config path; vlan = ts_vlan_id (it_traffic intent) in
       case fst (end_tunnels config path) of
         Some t \<Rightarrow>
           if is_gre t then
             [vpp_route_on (pt_source path) dp [tn_gre_remote_address t, tn_gre_interface t],
              vpp_route_on (pt_destination path) sp [local_next_hop t, tn_gre_interface t]]
           else if ts_has_vlan_id (it_traffic intent) then
             [vpp_route_on (pt_source path) sp [shop, vlan_interface sif vlan],
              vpp_route_on (pt_destination path) dp [dhop, vlan_interface dif vlan]]
           else
             [try_on_node (pt_source path) [''ip'', ''route'', ''del'', dp],
              vpp_route_on (pt_source path) dp [shop, sif],
              try_on_node (pt_destination path) [''ip'', ''route'', ''del'', sp],
              vpp_route_on (pt_destination path) sp [dhop, dif]]
       | None \<Rightarrow> [])"

definition write_vpp_netns_route_plan :: "en_yaml_config \<Rightarrow> en_intent \<Rightarrow> en_path \<Rightarrow> written" where
  "write_vpp_netns_route_plan config intent path =
     (if plan_refused config path then None
      else if vlan_refused config intent path then None
      else Some (0, plan_head @ write_vpp_node_dispatch config @ ensure_table_function @ vlan_functions @
        [NOTE (''VPP netns route plan for path: '' @ pt_path_id path),
         NOTE (''source_prefix: '' @ source_prefix config path @ '' via '' @ pt_source path @ '' '' @ snd (source_hop config path)),
         NOTE (''destination_prefix: '' @ destination_prefix config path @ '' via '' @ pt_destination path @ '' '' @ snd (destination_hop config path)),
         FIXED []] @
        (if path_has_gre_tunnel config path then underlay_lines config path @ write_vpp_gre_setup config path else []) @
        (if ts_has_vlan_id (it_traffic intent) then vlan_policy_lines config intent path else []) @
        (if pt_routes_explicit path then explicit_edge_lines config intent path
         else if pt_segments path = [] then [direct_edge_line config intent path]
         else segment_edge_lines config intent path)))"

section \<open>The scripts\<close>

definition write_xfrm_block_runtime :: "en_yaml_config \<Rightarrow> en_path \<Rightarrow> plan_line list" where
  "write_xfrm_block_runtime config path =
     concat (map (\<lambda>g. case find_tunnel config (sg_tunnel_id g) of
        None \<Rightarrow> []
      | Some t \<Rightarrow>
          (let block = (\<lambda>node dir src dst. COMMAND [''ip'', ''netns'', ''exec'', node, ''ip'', ''xfrm'', ''policy'', ''add'', ''dir'', dir,
             ''src'', src, ''dst'', dst, ''priority'', ''10000'', ''action'', ''block'']);
               l = tn_local_traffic_selector t; r = tn_remote_traffic_selector t in
           [block (sg_from_node g) ''out'' l r, block (sg_from_node g) ''in'' r l,
            block (sg_to_node g) ''out'' r l, block (sg_to_node g) ''in'' l r])) (pt_segments path))"

definition script_head :: "plan_line list" where
  "script_head =
     [FIXED ''#!/usr/bin/env sh'', FIXED ''set -eu'', FIXED [],
      FIXED ''ROOT_DIR=$(CDPATH= cd -- `$(dirname -- `$0`)/../..` && pwd)'', FIXED ''cd `$ROOT_DIR`'', FIXED []]"

definition rollback_script_line :: plan_line where
  "rollback_script_line = FIXED ''ROLLBACK_SCRIPT=$(CDPATH= cd -- `$(dirname -- `$0`)` && pwd)/rollback-selected.sh''"

definition rollback_trap :: "plan_line list" where
  "rollback_trap =
     [FIXED ''rollback_on_error() {'', FIXED ''  status=$?'',
      FIXED ''  if [ `$status` -ne 0 ]; then sh `$ROLLBACK_SCRIPT` || true; fi'', FIXED ''  exit `$status`'', FIXED ''}'',
      FIXED ''trap rollback_on_error EXIT'', FIXED [], FIXED ''SWANCTL=`${SWANCTL:-swanctl}`'', FIXED ''SWANCTL_URI=`${SWANCTL_URI:-}`'',
      FIXED ''run_swanctl() {'',
      FIXED ''  if [ -n `$SWANCTL_URI` ]; then `$SWANCTL` --uri `$SWANCTL_URI` `$@`; else `$SWANCTL` `$@`; fi'', FIXED ''}'', FIXED []]"

definition failure_lines :: "plan_line list" where
  "failure_lines = [FIXED ''if [ `${EVENTNET_INJECT_FAILURE:-0}` = `after-runtime` ]; then'',
     FIXED ''  printf ~%s^n~ ~injected runtime failure for rollback smoke~ >&2'', FIXED ''  exit 97'', FIXED ''fi'']"

definition ipsec_lines :: "string \<Rightarrow> string \<Rightarrow> string \<Rightarrow> plan_line list" where
  "ipsec_lines sudo other mode =
     [FIXED (sudo @ ''sh scripts/vm-netns-ipsec.sh '' @ other @ '' stop 2>/dev/null || true''),
      FIXED (sudo @ ''sh scripts/vm-netns-ipsec.sh '' @ mode @ '' start''), FIXED (sudo @ ''sh scripts/vm-netns-ipsec.sh '' @ mode @ '' smoke'')]"

definition topology_script :: "en_yaml_config \<Rightarrow> en_path \<Rightarrow> string" where
  "topology_script config path = (if path_uses_namespaced_vpp config path then ''vm-vpp-ns-topology.sh setup'' else ''vm-vpp-netns.sh setup'')"

text \<open>\<open>out_dir\<close> is put into the scripts as it is.\<close>

definition run_plan_line :: "bool \<Rightarrow> string \<Rightarrow> plan_line" where
  "run_plan_line sudo out_dir = COMMAND ((if sudo then [''sudo''] else []) @ [''DRY_RUN=0'', ''sh'', out_dir @ ''/vpp-netns-route-plan.sh''])"

definition block_lines :: "en_yaml_config \<Rightarrow> en_intent \<Rightarrow> en_path \<Rightarrow> plan_line list" where
  "block_lines config intent path =
     (if it_block_non_ipsec intent then [FIXED [], FIXED ''# Block cleartext traffic outside the selected IPsec selectors.''] @
        write_xfrm_block_runtime config path else [])"

definition write_apply_script :: "string \<Rightarrow> en_yaml_config \<Rightarrow> en_intent \<Rightarrow> en_path \<Rightarrow> string \<Rightarrow> written" where
  "write_apply_script out_dir config intent path kind =
     Some (0, script_head @ [rollback_script_line] @ rollback_trap @
        [NOTE (''eventnet selected path: '' @ pt_path_id path), NOTE (''eventnet runtime kind: '' @ kind), FIXED []] @
        (if strcmp kind ''direct'' = 0 then ipsec_lines ''sudo '' ''hub'' ''direct''
         else if strcmp kind ''hub'' = 0 then ipsec_lines ''sudo '' ''direct'' ''hub''
         else if strcmp kind ''vpp'' = 0 then
           [FIXED (''sudo sh scripts/'' @ topology_script config path), run_plan_line (path_uses_namespaced_vpp config path) out_dir]
         else [UNSUPPORTED ''netns'' (pt_path_id path), FIXED ''exit 1'']) @
        (if path_uses_namespaced_vpp config path \<and> strcmp kind ''vpp'' \<noteq> 0 then [run_plan_line True out_dir] else []) @
        block_lines config intent path @ [FIXED []] @ failure_lines)"

definition lan_function :: "plan_line list" where
  "lan_function =
     [FIXED ''ensure_dummy_lan() {'', FIXED ''  ns=`$1`'', FIXED ''  addr=`$2`'',
      FIXED ''  ip netns exec `$ns` ip link show lan0 >/dev/null 2>&1 || ^'',
      FIXED ''    ip netns exec `$ns` ip link add lan0 type dummy'', FIXED ''  ip netns exec `$ns` ip addr flush dev lan0'',
      FIXED ''  ip netns exec `$ns` ip addr add `$addr` dev lan0'', FIXED ''  ip netns exec `$ns` ip link set lan0 up'', FIXED ''}'', FIXED []]"

definition runtime_function :: "bool \<Rightarrow> plan_line list" where
  "runtime_function namespaced =
     FIXED ''apply_vpp_netns_runtime() {'' #
     (if namespaced then
        [FIXED ''  printf ~^n== neighbor warm-up (excluded from measured pings) ==^n~'',
         FIXED ''  ip netns exec client-a ping -c 1 -W 5 -I 10.10.1.2 10.10.2.2 || true'',
         FIXED ''  ip netns exec client-b ping -c 1 -W 5 -I 10.10.2.2 10.10.1.2 || true'',
         FIXED ''  printf ~^n== integrated VPP/IPsec forwarding: client-a -> client-b ==^n~'',
         FIXED ''  ip netns exec client-a ping -c 3 -I 10.10.1.2 10.10.2.2'',
         FIXED ''  printf ~^n== integrated VPP/IPsec forwarding: client-b -> client-a ==^n~'',
         FIXED ''  ip netns exec client-b ping -c 3 -I 10.10.2.2 10.10.1.2'']
      else
        [FIXED ''  ip netns exec site-a ip route replace 10.10.2.0/24 via 172.16.1.1'',
         FIXED ''  ip netns exec site-b ip route replace 10.10.1.0/24 via 172.16.2.1'',
         FIXED ''  printf ~^n== integrated VPP forwarding: site-a -> site-b ==^n~'',
         FIXED ''  ip netns exec site-a ping -c 3 -I 10.10.1.1 10.10.2.1'',
         FIXED ''  printf ~^n== integrated VPP forwarding: site-b -> site-a ==^n~'',
         FIXED ''  ip netns exec site-b ping -c 3 -I 10.10.2.1 10.10.1.1'']) @
     [FIXED ''}'', FIXED []]"

definition gre_start_line :: "bool \<Rightarrow> string \<Rightarrow> en_tunnel \<Rightarrow> plan_line" where
  "gre_start_line namespaced out_dir t =
     COMMAND ((if namespaced then [''sudo'', ''GRE_CHILD='' @ tn_tunnel_id t] else []) @
       [''GRE_IKE_LOCAL_ENDPOINT='' @ tn_local_endpoint t, ''GRE_IKE_REMOTE_ENDPOINT='' @ tn_remote_endpoint t,
        ''GRE_OUTER_LOCAL_ENDPOINT='' @ gre_outer_local t, ''GRE_OUTER_REMOTE_ENDPOINT='' @ gre_outer_remote t,
        ''GRE_LOCAL_ID='' @ (if tn_local_id t = [] then tn_local_node t else tn_local_id t),
        ''GRE_REMOTE_ID='' @ (if tn_remote_id t = [] then tn_remote_node t else tn_remote_id t),
        (if namespaced then ''OUT_DIR='' else ''GRE_OUT_DIR='') @ out_dir, ''sh'', ''scripts/vm-netns-ipsec.sh'', ''gre'', ''start''])"

definition write_integrated_script :: "string \<Rightarrow> en_yaml_config \<Rightarrow> en_intent \<Rightarrow> en_path \<Rightarrow> string \<Rightarrow> written" where
  "write_integrated_script out_dir config intent path kind =
     (let namespaced = path_uses_namespaced_vpp config path in
      Some (0, script_head @
        [rollback_script_line, FIXED ''if [ `$(id -u)` != `0` ]; then'',
         FIXED ''  printf ~Re-running integrated runtime as root...^n~'', FIXED ''  exec sudo sh `$0` `$@`'', FIXED ''fi'', FIXED []] @
        rollback_trap @ lan_function @ runtime_function namespaced @
        [NOTE (''eventnet integrated selected path: '' @ pt_path_id path), NOTE (''eventnet integrated runtime kind: '' @ kind), FIXED [],
         FIXED ''ensure_dummy_lan site-a 10.10.1.1/24'', FIXED ''ensure_dummy_lan site-b 10.10.2.1/24'', FIXED []] @
        (if strcmp kind ''direct'' = 0 then ipsec_lines [] ''hub'' ''direct''
         else if strcmp kind ''hub'' = 0 then ipsec_lines [] ''direct'' ''hub''
         else if strcmp kind ''vpp'' = 0 then
           [FIXED ((if namespaced then ''sudo'' else []) @ '' sh scripts/'' @ topology_script config path)] @
           (if path_has_gre_tunnel config path then
              (case find_first_gre_tunnel config path of None \<Rightarrow> [] | Some t \<Rightarrow> [gre_start_line namespaced out_dir t])
            else []) @ [run_plan_line namespaced out_dir]
         else [UNSUPPORTED ''integrated'' (pt_path_id path), FIXED ''exit 1'']) @
        (if namespaced \<and> strcmp kind ''vpp'' \<noteq> 0 then
           [FIXED ''sudo env SKIP_GRE=1 VPP_TOPOLOGY_MODE=ipsec VPP_NS_NODES=~site-a site-b~ sh scripts/vm-vpp-ns-topology.sh setup'',
            run_plan_line True out_dir]
         else []) @
        block_lines config intent path @ [FIXED [], FIXED ''apply_vpp_netns_runtime''] @ failure_lines @
        [FIXED ''printf ~^nIntegrated controller runtime passed: IPsec path and VPP forwarding were controlled from one generated plan.^n~'']))"

definition write_rollback_script :: "en_yaml_config \<Rightarrow> en_path \<Rightarrow> string \<Rightarrow> written" where
  "write_rollback_script config path kind =
     Some (0, script_head @ [FIXED ''if [ `$(id -u)` != `0` ]; then exec sudo sh `$0` `$@`; fi'', FIXED [],
        NOTE (''eventnet runtime rollback: '' @ kind)] @
        (if strcmp kind ''direct'' = 0 then [FIXED ''sh scripts/vm-netns-ipsec.sh direct stop'']
         else if strcmp kind ''hub'' = 0 then [FIXED ''sh scripts/vm-netns-ipsec.sh hub stop'']
         else if strcmp kind ''vpp'' = 0 then
           [FIXED ''SWANCTL=`${SWANCTL:-swanctl}`'', FIXED ''SWANCTL_URI=`${SWANCTL_URI:-}`'',
            FIXED ''run_swanctl() { if [ -n `$SWANCTL_URI` ]; then `$SWANCTL` --uri `$SWANCTL_URI` `$@`; else `$SWANCTL` `$@`; fi; }''] @
           (if path_has_gre_tunnel config path then
              FIXED ''sh scripts/vm-netns-ipsec.sh gre stop'' #
              List.map_filter (\<lambda>g. map_option (\<lambda>t. ATTEMPT (''vppctl'' # gre_tunnel_words t (gre_outer_local t) (gre_outer_remote t) True))
                (tunnel_gre config (sg_tunnel_id g))) (rev (pt_segments path))
            else []) @ [FIXED ''sh scripts/vm-vpp-netns.sh clean'']
         else [FIXED ''printf ~%s^n~ ~unsupported runtime rollback~ >&2'', FIXED ''exit 1'']) @
        [FIXED ''printf ~%s^n~ ~eventnet runtime rollback completed~''])"

section \<open>The summary\<close>

definition summary_field :: "string \<Rightarrow> string \<Rightarrow> string" where
  "summary_field label v = label @ '': '' @ v"

definition route_summary :: "en_route \<Rightarrow> string list" where
  "route_summary r =
     [summary_field ''  - id'' (rt_route_id r), summary_field ''    node_id'' (rt_node_id r),
      summary_field ''    destination_prefix'' (rt_destination_prefix r), summary_field ''    next_hop'' (rt_next_hop r),
      summary_field ''    interface'' (rt_interface_name r)] @
     (if 0 \<le> rt_table_id r then [summary_field ''    table'' (int_to_dec (rt_table_id r))] else []) @
     (if 0 \<le> rt_metric r then [summary_field ''    metric'' (int_to_dec (rt_metric r))] else [])"

definition edge_summary :: "en_vpp_edge \<Rightarrow> string list" where
  "edge_summary e =
     [summary_field ''  - node_id'' (ve_node_id e)] @ (if ve_port_id e \<noteq> [] then [summary_field ''    port_id'' (ve_port_id e)] else []) @
     [summary_field ''    vpp_interface'' (ve_vpp_interface e), summary_field ''    next_hop'' (ve_next_hop e)] @
     (if ve_allowed_vlans e \<noteq> [] then ''    allowed_vlans:'' # map (\<lambda>v. ''      - '' @ int_to_dec v) (ve_allowed_vlans e) else [])"

definition segment_summary :: "en_yaml_config \<Rightarrow> en_segment \<Rightarrow> string list" where
  "segment_summary config g =
     [summary_field ''  - id'' (sg_segment_id g), summary_field ''    from'' (sg_from_node g), summary_field ''    to'' (sg_to_node g),
      summary_field ''    tunnel_id'' (sg_tunnel_id g)] @
     (case find_tunnel config (sg_tunnel_id g) of
        None \<Rightarrow> []
      | Some t \<Rightarrow>
          [summary_field ''    type'' (if tn_tunnel_type t = [] then ''ipsec'' else tn_tunnel_type t),
           summary_field ''    local_endpoint'' (tn_local_endpoint t), summary_field ''    remote_endpoint'' (tn_remote_endpoint t),
           summary_field ''    local_ts'' (tn_local_traffic_selector t), summary_field ''    remote_ts'' (tn_remote_traffic_selector t)] @
          (if is_gre t then
             [summary_field ''    gre_interface'' (tn_gre_interface t), summary_field ''    gre_local_address'' (tn_gre_local_address t),
              summary_field ''    gre_remote_address'' (tn_gre_remote_address t)] @
             (if 0 < tn_gre_mtu t then [summary_field ''    gre_mtu'' (int_to_dec (tn_gre_mtu t))] else [])
           else []))"

definition write_summary :: "en_yaml_config \<Rightarrow> en_intent \<Rightarrow> en_path \<Rightarrow> string \<Rightarrow> string list" where
  "write_summary config intent path kind =
     ([summary_field ''selected_path'' (pt_path_id path), summary_field ''runtime_kind'' kind,
        summary_field ''traffic_source'' (ts_source (it_traffic intent)), summary_field ''traffic_destination'' (ts_destination (it_traffic intent))] @
        (if ts_has_vlan_id (it_traffic intent) then [summary_field ''vlan_id'' (int_to_dec (ts_vlan_id (it_traffic intent)))] else []) @
        (if it_deny_unmatched_vlan intent then [''deny_unmatched_vlan: true''] else []) @
        ''required_waypoints:'' # map (\<lambda>w. ''  - '' @ w) (pc_required_waypoints (ps_constraints (it_path_selection intent))) @
        [summary_field ''source'' (pt_source path), summary_field ''destination'' (pt_destination path),
         summary_field ''route_destination_prefix'' (pt_route_destination_prefix path), summary_field ''route_next_hop'' (pt_route_next_hop path)] @
        ''routes:'' # concat (map route_summary (pt_routes path)) @
        ''vpp_edges:'' # concat (map edge_summary (yc_vpp_edges config)) @
        ''segments:'' # concat (map (segment_summary config) (pt_segments path)))"

end
