(* ===== verification/NetnsOrder.thy ===== *)
theory NetnsOrder
  imports NetnsRuntime
begin

text \<open>
  The order of the commands in the planner's script of routes: the forwarding tables are made first, each once, and an
  interface is bound to a table only after that.
\<close>

section \<open>The programs of the lines\<close>

fun program :: "plan_line \<Rightarrow> string option" where
  "program (COMMAND (w # ws)) = Some w"
| "program _ = None"

text \<open>Lines that make no table, bind no interface and add no route of an explicit path to a table.\<close>

definition prepares :: "plan_line \<Rightarrow> bool" where
  "prepares l \<longleftrightarrow> program l \<noteq> Some ''ensure_vpp_table'' \<and> program l \<noteq> Some ''set_vlan_interface_table'' \<and>
     (\<forall>r ws. 0 \<le> rt_table_id r \<longrightarrow> l \<noteq> route_add r ws)"

definition makes_no_table :: "plan_line \<Rightarrow> bool" where
  "makes_no_table l \<longleftrightarrow> program l \<noteq> Some ''ensure_vpp_table''"

lemma prepares_simps [simp]:
  "prepares (FIXED s)" "prepares (NOTE s)" "prepares (OPEN_NOTE s)" "prepares (ATTEMPT ws)" "prepares (SOCKET_CASE n s)"
  "prepares (SET_MTU m i)" "prepares (COMMAND (''run_vpp'' # ws))"
  by (simp_all add: prepares_def route_add_def)

lemma prepares_on_node [simp]:
  "w \<noteq> ''ip'' \<Longrightarrow> prepares (on_node node (w # ws))" "prepares (on_node node (''ip'' # ''route'' # ''add'' # pfx # ''via'' # ws))"
  by (auto simp: prepares_def route_add_def table_words_def)

lemma prepares_head:
  "list_all prepares plan_head" "list_all prepares ensure_table_function" "list_all prepares vlan_functions"
  "list_all prepares (write_vpp_node_dispatch config)"
  by (simp_all add: plan_head_def ensure_table_function_def vlan_functions_def write_vpp_node_dispatch_def list_all_iff)

lemma prepares_segment: "list_all prepares (segment_gre_setup t)"
  by (simp add: segment_gre_setup_def gre_note_def sa_words_def native_setup_def interface_up_def Let_def kernel_setup_def
      gre_tunnel_words_def)

lemma prepares_gre: "list_all prepares (write_vpp_gre_setup config path)" "list_all prepares (underlay_lines config path)"
proof -
  have egress: "list_all prepares (egress_gre_setup t)" for t by (simp add: egress_gre_setup_def gre_note_def)
  have "list_all prepares (concat (map segment_gre_setup ts))" for ts by (induction ts) (simp_all add: prepares_segment)
  then show "list_all prepares (write_vpp_gre_setup config path)"
    by (simp add: write_vpp_gre_setup_def egress split: option.split)
  show "list_all prepares (underlay_lines config path)"
    by (cases "fst (end_tunnels config path)") (simp_all add: underlay_lines_def)
qed

section \<open>The tables\<close>

lemma tables_from_append: "tables_from (is @ js) rs = tables_from is rs @ tables_from js rs"
  by (simp add: tables_from_def List.map_filter_def)

lemma tables_upto:
  "n \<le> length rs \<Longrightarrow> distinct (tables_from [0..<n] rs) \<and>
   set (tables_from [0..<n] rs) = {t. 0 < t \<and> t \<in> rt_table_id ` set (take n rs)}"
proof (induction n)
  case 0
  then show ?case by (simp add: tables_from_def List.map_filter_def)
next
  case (Suc n)
  then have IH: "distinct (tables_from [0..<n] rs)"
    "set (tables_from [0..<n] rs) = {t. 0 < t \<and> t \<in> rt_table_id ` set (take n rs)}" by simp_all
  have take: "take (Suc n) rs = take n rs @ [rs ! n]" using Suc.prems by (simp add: take_Suc_conv_app_nth)
  show ?case
    using IH by (auto simp: tables_from_append take tables_from_def [of "[n]"] List.map_filter_def list_ex_iff intro: rev_image_eqI)
qed

lemma tables_once:
  assumes "r \<in> set (pt_routes path)" "0 < rt_table_id r"
  obtains ts us where "tables_from [0..<length (pt_routes path)] (pt_routes path) = ts @ rt_table_id r # us"
    "rt_table_id r \<notin> set ts \<union> set us"
proof -
  let ?all = "tables_from [0..<length (pt_routes path)] (pt_routes path)"
  have "distinct ?all" "rt_table_id r \<in> set ?all"
    using tables_upto [of "length (pt_routes path)" "pt_routes path"] assms by simp_all
  then show ?thesis using that by (metis Un_iff distinct_append distinct.simps(2) not_distinct_conv_prefix split_list disjoint_iff list.set_intros(1))
qed

section \<open>The script\<close>

text \<open>The script is a preparation, the tables, and lines that make no table.\<close>

lemma edge_lines_no_table: "list_all makes_no_table (edge_route_lines config intent r)"
  by (simp add: edge_route_lines_def makes_no_table_def route_add_def split: option.splits)

lemma interface_lines_no_table: "interface_table_line config vlan rs i = Some l \<Longrightarrow> makes_no_table l"
  by (auto simp: interface_table_line_def Let_def makes_no_table_def split: if_splits option.splits)

lemma explicit_plan_parts:
  assumes plan: "write_vpp_netns_route_plan config intent path = Some (e, ls)" and explicit: "pt_routes_explicit path"
  obtains xs ys where "ls = xs @ ensure_tables_lines path @ ys" "list_all prepares xs" "list_all makes_no_table ys"
    "\<Union>(set ` edge_route_lines config intent ` set (pt_routes path)) \<subseteq> set ys"
proof -
  let ?vlan = "ts_has_vlan_id (it_traffic intent)" and ?id = "ts_vlan_id (it_traffic intent)"
  let ?head = "plan_head @ write_vpp_node_dispatch config @ ensure_table_function @ vlan_functions @
        [NOTE (''VPP netns route plan for path: '' @ pt_path_id path),
         NOTE (''source_prefix: '' @ source_prefix config path @ '' via '' @ pt_source path @ '' '' @ snd (source_hop config path)),
         NOTE (''destination_prefix: '' @ destination_prefix config path @ '' via '' @ pt_destination path @ '' '' @ snd (destination_hop config path)),
         FIXED []] @
        (if path_has_gre_tunnel config path then underlay_lines config path @ write_vpp_gre_setup config path else [])"
  let ?routes = "concat (map (edge_route_lines config intent) (pt_routes path))"
  let ?bind = "List.map_filter (interface_table_line config ?id (pt_routes path)) [0..<length (pt_routes path)]"
  have head: "list_all prepares ?head" by (simp add: prepares_head prepares_gre)
  have routes: "list_all makes_no_table ?routes" using edge_lines_no_table by (fastforce simp: list_all_iff)
  show ?thesis
  proof (cases ?vlan)
    case True
    define policy where "policy = drop (length (ensure_tables_lines path)) (vlan_policy_lines config intent path)"
    have "vlan_policy_lines config intent path = ensure_tables_lines path @ policy"
      using explicit by (simp add: policy_def vlan_policy_lines_def Let_def)
    then have "ls = ?head @ ensure_tables_lines path @ policy @ ?bind @ ?routes"
      using plan explicit True by (auto simp: write_vpp_netns_route_plan_def explicit_edge_lines_def Let_def split: if_splits)
    moreover have "list_all makes_no_table policy"
      by (auto simp: policy_def vlan_policy_lines_def Let_def explicit makes_no_table_def list_all_iff)
    moreover have "list_all makes_no_table ?bind"
      using interface_lines_no_table by (fastforce simp: List.map_filter_def list_all_iff)
    ultimately show ?thesis using head routes by (intro that [of ?head "policy @ ?bind @ ?routes"]) auto
  next
    case False
    then have "ls = ?head @ ensure_tables_lines path @ ?routes"
      using plan explicit by (auto simp: write_vpp_netns_route_plan_def explicit_edge_lines_def Let_def split: if_splits)
    then show ?thesis using head routes by (intro that [of ?head ?routes]) auto
  qed
qed

text \<open>
  C28. For every explicit route into a table the planned script makes that table exactly once; before that it binds no
  interface to a table and adds no route to one, and the route itself, on the interface of its edge, comes after it.
\<close>

theorem tables_precede_routes:
  assumes "write_vpp_netns_route_plan config intent path = Some (e, ls)" "pt_routes_explicit path"
    and "r \<in> set (pt_routes path)" "0 < rt_table_id r" "find_vpp_edge_for_route config r = Some edge"
  shows "\<exists>before after. ls = before @ COMMAND [''ensure_vpp_table'', int_to_dec (rt_table_id r)] # after \<and>
    COMMAND [''ensure_vpp_table'', int_to_dec (rt_table_id r)] \<notin> set before \<union> set after \<and>
    (\<forall>l\<in>set before. \<forall>ws. l \<noteq> COMMAND (''set_vlan_interface_table'' # ws)) \<and>
    (\<forall>l\<in>set before. \<forall>r' ws. 0 \<le> rt_table_id r' \<longrightarrow> l \<noteq> route_add r' ws) \<and>
    route_add r (edge_words intent edge) \<in> set after"
proof -
  let ?mk = "\<lambda>t. COMMAND [''ensure_vpp_table'', int_to_dec t]"
  obtain xs ys where parts: "ls = xs @ ensure_tables_lines path @ ys" "list_all prepares xs" "list_all makes_no_table ys"
    "\<Union>(set ` edge_route_lines config intent ` set (pt_routes path)) \<subseteq> set ys"
    by (rule explicit_plan_parts [OF assms(1,2)])
  obtain ts us where tables: "tables_from [0..<length (pt_routes path)] (pt_routes path) = ts @ rt_table_id r # us"
    "rt_table_id r \<notin> set ts \<union> set us"
    by (rule tables_once [OF assms(3,4)])
  have once: "?mk (rt_table_id r) \<notin> set (map ?mk vs)" if "rt_table_id r \<notin> set vs" for vs
    using that int_to_dec_inj by fastforce
  have early: "?mk (rt_table_id r) \<notin> set xs" "?mk (rt_table_id r) \<notin> set ys"
    using parts(2,3) by (auto simp: list_all_iff prepares_def makes_no_table_def)
  have bound: "l \<noteq> COMMAND (''set_vlan_interface_table'' # ws)" if "l \<in> set (xs @ map ?mk ts)" for l ws
    using that parts(2) by (auto simp: list_all_iff prepares_def)
  have added: "l \<noteq> route_add r' ws" if "l \<in> set (xs @ map ?mk ts)" "0 \<le> rt_table_id r'" for l r' ws
    using that parts(2) by (auto simp: list_all_iff prepares_def route_add_def)
  have "route_add r (edge_words intent edge) \<in> set (edge_route_lines config intent r)"
    by (simp add: edge_route_lines_def assms(5))
  then have "route_add r (edge_words intent edge) \<in> set ys" using parts(4) assms(3) by blast
  then show ?thesis
    using once [of ts] once [of us] tables(2) early bound added
    by (intro exI [of _ "xs @ map ?mk ts"] exI [of _ "map ?mk us @ ys"]) (auto simp: parts(1) ensure_tables_lines_def tables(1))
qed

definition order_route :: en_route where
  "order_route = \<lparr>rt_route_id = ''r1'', rt_node_id = ''site-a'', rt_destination_prefix = ''10.0.2.0/24'', rt_next_hop = ''172.16.1.2'',
     rt_interface_name = [], rt_table_id = 10, rt_metric = - 1\<rparr>"

definition order_edge :: en_vpp_edge where
  "order_edge = zero_vpp_edge\<lparr>ve_node_id := ''site-a'', ve_host_interface := ''eth1'', ve_vpp_interface := ''host-vpp-site-a'',
     ve_next_hop := ''172.16.1.2'', ve_allowed_vlans := [20]\<rparr>"

definition order_config :: en_yaml_config where
  "order_config = sample_config\<lparr>yc_vpp_edges := [order_edge]\<rparr>"

definition order_intent :: en_intent where
  "order_intent = (hd (yc_intents sample_config))\<lparr>it_traffic := \<lparr>ts_source = ''site-a'', ts_destination = ''site-b'', ts_has_vlan_id = True, ts_vlan_id = 20\<rparr>\<rparr>"

definition order_path :: en_path where
  "order_path = (hd (yc_paths sample_config))\<lparr>pt_routes := [order_route], pt_routes_explicit := True\<rparr>"

lemma order_planned:
  "write_vpp_netns_route_plan order_config order_intent order_path =
     Some (0, snd (the (write_vpp_netns_route_plan order_config order_intent order_path)))"
proof -
  have "\<not> plan_refused order_config order_path" "\<not> vlan_refused order_config order_intent order_path" by code_simp+
  then show ?thesis by (simp add: write_vpp_netns_route_plan_def)
qed

theorem tables_precede_routes_witness:
  "\<exists>before after. snd (the (write_vpp_netns_route_plan order_config order_intent order_path)) =
     before @ COMMAND [''ensure_vpp_table'', ''10''] # after \<and>
     COMMAND [''run_vpp_node'', ''site-a'', ''ip'', ''route'', ''add'', ''10.0.2.0/24'', ''table'', ''10'', ''via'', ''172.16.1.2'', ''host-vpp-site-a.20''] \<in> set after"
proof -
  have "pt_routes_explicit order_path" "order_route \<in> set (pt_routes order_path)" "0 < rt_table_id order_route"
    by (simp_all add: order_path_def order_route_def)
  moreover have "find_vpp_edge_for_route order_config order_route = Some order_edge" by code_simp
  moreover have "int_to_dec (rt_table_id order_route) = ''10''" "route_add order_route (edge_words order_intent order_edge) =
     COMMAND [''run_vpp_node'', ''site-a'', ''ip'', ''route'', ''add'', ''10.0.2.0/24'', ''table'', ''10'', ''via'', ''172.16.1.2'', ''host-vpp-site-a.20'']"
    by code_simp+
  ultimately show ?thesis using tables_precede_routes [OF order_planned] by metis
qed

end
