(* ===== verification/PlanFiles.thy ===== *)
theory PlanFiles
  imports ApplyPlan DaemonState
begin

text \<open>
  The file operations of \<open>src/src/apply_plan.c\<close>: the configuration of strongSwan is replaced atomically and is never
  written through a symbolic link; the script of a plan is written in place.
\<close>

definition plan_temporary_name :: "int \<Rightarrow> string \<Rightarrow> string" where
  "plan_temporary_name pid filename = filename @ ''.tmp-plan-'' @ int_to_dec pid"

definition plan_too_large :: "en_apply_plan \<Rightarrow> bool" where
  "plan_too_large p \<longleftrightarrow> EN_MAX_PLAN_COMMANDS < length (pl_commands p) \<or> EN_MAX_PLAN_COMMANDS < length (pl_rollback_commands p)"

text \<open>\<open>open\<close> with \<open>O_EXCL\<close>, \<open>fdopen\<close> and \<open>fchmod\<close>; a file that was created is unlinked when a later call fails.\<close>

definition create_private :: "string \<Rightarrow> (disk, bool) state" where
  "create_private name = do {
     opened \<leftarrow> fault;
     files \<leftarrow> gets dk_files;
     if opened \<noteq> None \<or> files name \<noteq> None then State_Monad.return False
     else do {
       _ \<leftarrow> set_file name (Some \<lparr>df_kind = REGULAR, df_shared = False, df_content = []\<rparr>);
       stream \<leftarrow> fault;
       if stream \<noteq> None then do { _ \<leftarrow> unlink name; State_Monad.return False }
       else do {
         mode \<leftarrow> fault;
         if mode \<noteq> None then do { _ \<leftarrow> unlink name; State_Monad.return False }
         else State_Monad.return True
       }
     }
   }"

definition en_apply_plan_write_swanctl_conf :: "int \<Rightarrow> en_apply_plan \<Rightarrow> string \<Rightarrow> (disk, en_error_code) state" where
  "en_apply_plan_write_swanctl_conf pid p filename =
     (if plan_too_large p then State_Monad.return EN_ERR_INVALID_ARGUMENT
      else do {
        seen \<leftarrow> fault;
        files \<leftarrow> gets dk_files;
        if seen = None \<and> map_option df_kind (files filename) = Some SYMLINK then State_Monad.return EN_ERR_STATE_CONFLICT
        else let temporary = plan_temporary_name pid filename in
          if 512 \<le> length temporary then State_Monad.return EN_ERR_INVALID_ARGUMENT
          else do {
            created \<leftarrow> create_private temporary;
            if \<not> created then State_Monad.return EN_ERR_STATE_CONFLICT
            else do {
              written \<leftarrow> write_file temporary (pl_swanctl_conf p);
              if \<not> written then do { _ \<leftarrow> unlink temporary; State_Monad.return EN_ERR_STATE_CONFLICT }
              else do {
                renamed \<leftarrow> rename temporary filename;
                if \<not> renamed then do { _ \<leftarrow> unlink temporary; State_Monad.return EN_ERR_STATE_CONFLICT }
                else State_Monad.return EN_ERR_NONE
              }
            }
          }
      })"

text \<open>
  \<open>fopen\<close> for writing and the output to it, whose failures are not looked at: what is written may end early. An existing
  file at the name is a regular one.
\<close>

definition write_text :: "string \<Rightarrow> string \<Rightarrow> (disk, bool) state" where
  "write_text name content = do {
     opened \<leftarrow> fault;
     if opened \<noteq> None then State_Monad.return False
     else do {
       f \<leftarrow> fault;
       files \<leftarrow> gets dk_files;
       _ \<leftarrow> set_file name (Some \<lparr>df_kind = REGULAR, df_shared = (case files name of None \<Rightarrow> False | Some old \<Rightarrow> df_shared old),
         df_content = (case f of None \<Rightarrow> content | Some n \<Rightarrow> take n content)\<rparr>);
       State_Monad.return True
     }
   }"

definition en_apply_plan_write_shell_script :: "en_apply_plan \<Rightarrow> string \<Rightarrow> (disk, en_error_code) state" where
  "en_apply_plan_write_shell_script p filename =
     (case shell_script p of
        None \<Rightarrow> State_Monad.return EN_ERR_INVALID_ARGUMENT
      | Some content \<Rightarrow> do {
          opened \<leftarrow> write_text filename content;
          State_Monad.return (if opened then EN_ERR_NONE else EN_ERR_STATE_CONFLICT)
        })"

section \<open>What writing the configuration does to the files\<close>

lemma plan_temporary_differs: "plan_temporary_name pid f \<noteq> f"
  by (simp add: plan_temporary_name_def)

text \<open>
  Whichever call fails, the file is the old one, or exactly the configuration of the plan; no other file but the
  temporary one is touched, and a symbolic link stays one as long as \<open>lstat\<close> does not fail.
\<close>

lemma swanctl_conf_replaced:
  assumes "run_state (en_apply_plan_write_swanctl_conf pid p f) d = (e, d')"
  shows "dk_files d' f = (if e = EN_ERR_NONE then Some \<lparr>df_kind = REGULAR, df_shared = False, df_content = pl_swanctl_conf p\<rparr>
      else dk_files d f)"
    and "n \<noteq> f \<Longrightarrow> n \<noteq> plan_temporary_name pid f \<Longrightarrow> dk_files d' n = dk_files d n"
  using assms plan_temporary_differs [of pid f] plan_temporary_differs [of pid f, symmetric]
  by (auto simp: en_apply_plan_write_swanctl_conf_def Let_def create_private_def write_file_def rename_def unlink_def
      fault_def set_file_def split: if_splits prod.splits)

lemma swanctl_link_refused:
  assumes "run_state (en_apply_plan_write_swanctl_conf pid p f) d = (e, d')"
    and "map_option df_kind (dk_files d f) = Some SYMLINK" "dk_faults d (dk_calls d) = None"
  shows "e \<noteq> EN_ERR_NONE \<and> dk_files d' = dk_files d"
  using assms by (auto simp: en_apply_plan_write_swanctl_conf_def fault_def split: if_splits)

end
