(* ===== verification/NetnsMain.thy ===== *)
theory NetnsMain
  imports NetnsRuntime PlanFiles DaemonRestart
begin

text \<open>
  \<open>main\<close> of \<open>src/examples/netns_plan.c\<close>: the arguments, the choice of the path, and the files it writes. What it prints
  is not modelled.
\<close>

section \<open>Arguments\<close>

record netns_options =
  ne_filename :: string
  ne_intent_id :: "string option"
  ne_path_id :: "string option"
  ne_active_path_id :: "string option"
  ne_failed_paths :: "string list"
  ne_out_dir :: string

definition netns_defaults :: netns_options where
  "netns_defaults = \<lparr>ne_filename = ''samples/linux-vm-netns.yaml'', ne_intent_id = None, ne_path_id = None,
     ne_active_path_id = None, ne_failed_paths = [], ne_out_dir = ''out/netns-runtime''\<rparr>"

text \<open>
  The value of an option; \<open>Inl None\<close> when the word takes none. An option without a value after it is taken for the name
  of the file.
\<close>

definition netns_value :: "netns_options \<Rightarrow> string \<Rightarrow> string \<Rightarrow> int option + netns_options" where
  "netns_value opts a v =
     (if strcmp a ''--intent'' = 0 then Inr (opts\<lparr>ne_intent_id := Some v\<rparr>)
      else if strcmp a ''--path'' = 0 then Inr (opts\<lparr>ne_path_id := Some v\<rparr>)
      else if strcmp a ''--active-path'' = 0 then Inr (opts\<lparr>ne_active_path_id := Some v\<rparr>)
      else if strcmp a ''--fail-path'' = 0 then
        (if EN_MAX_PATHS \<le> length (ne_failed_paths opts) then Inl (Some 1)
         else Inr (opts\<lparr>ne_failed_paths := ne_failed_paths opts @ [v]\<rparr>))
      else if strcmp a ''--out-dir'' = 0 then Inr (opts\<lparr>ne_out_dir := v\<rparr>)
      else Inl None)"

definition netns_flag :: "netns_options \<Rightarrow> string \<Rightarrow> int + netns_options" where
  "netns_flag opts a = (if strcmp a ''--help'' = 0 \<or> strcmp a ''-h'' = 0 then Inl 0 else Inr (opts\<lparr>ne_filename := a\<rparr>))"

fun netns_arguments :: "netns_options \<Rightarrow> string list \<Rightarrow> int + netns_options" where
  "netns_arguments opts (a # v # rest) =
     (case netns_value opts a v of
        Inr opts' \<Rightarrow> netns_arguments opts' rest
      | Inl (Some e) \<Rightarrow> Inl e
      | Inl None \<Rightarrow> (case netns_flag opts a of Inl e \<Rightarrow> Inl e | Inr opts' \<Rightarrow> netns_arguments opts' (v # rest)))"
| "netns_arguments opts [a] = netns_flag opts a"
| "netns_arguments opts [] = Inr opts"

section \<open>The choice of the path\<close>

definition failed_health :: "string \<Rightarrow> en_path_health" where
  "failed_health path_id = zero_health\<lparr>ph_path_id := fit EN_MAX_ID_LEN path_id, ph_state := EN_HEALTH_FAILED,
     ph_rtt_ms := Fin 0, ph_packet_loss_percent := Fin 100, ph_consecutive_failures := 3, ph_consecutive_successes := 0\<rparr>"

definition set_failed_health :: "string \<Rightarrow> en_path_health list \<Rightarrow> en_path_health list" where
  "set_failed_health path_id = en_health_probe_mock_set (failed_health path_id)"

definition planner_mocks :: "string list \<Rightarrow> mocks" where
  "planner_mocks failed_paths =
     \<lparr>mc_vpp = Some \<lparr>vm_fail_next_update = False, vm_routes = [], vm_install_count = 0, vm_remove_count = 0\<rparr>,
      mc_health = Some (fold set_failed_health failed_paths [], False)\<rparr>"

text \<open>
  A choice is an exit status, or the path and the reason; \<open>w\<close> is the world of the controller before it, \<open>memory\<close> says
  whether the controller can be allocated.
\<close>

type_synonym choice = "int + en_path \<times> string"

definition path_choice :: "en_yaml_config \<Rightarrow> string \<Rightarrow> (en_path \<Rightarrow> string) \<Rightarrow> choice" where
  "path_choice config path_id reason = (case find_path config path_id of None \<Rightarrow> Inl 1 | Some p \<Rightarrow> Inr (p, fit 128 (reason p)))"

definition uses_fallback :: "netns_options \<Rightarrow> en_intent \<Rightarrow> bool" where
  "uses_fallback opts intent \<longleftrightarrow>
     (case ne_active_path_id opts of
        None \<Rightarrow> False
      | Some a \<Rightarrow> ne_failed_paths opts \<noteq> [] \<and> fp_enabled (it_fallback intent) \<and> fp_path_id (it_fallback intent) \<noteq> [] \<and>
          list_ex (\<lambda>f. strcmp a f = 0) (ne_failed_paths opts))"

definition submitted_choice :: "bool \<Rightarrow> en_yaml_config \<Rightarrow> en_intent \<Rightarrow> netns_options \<Rightarrow> mocks world \<Rightarrow> choice" where
  "submitted_choice memory config intent opts w =
     (case create_from_config memory config en_strongswan_mock_adapter en_vpp_mock_adapter en_health_probe_mock_adapter of
        None \<Rightarrow> Inl 1
      | Some k \<Rightarrow>
          (case run_state (en_controller_submit_intent (Some intent) (Some zero_reconcile_result))
              \<lparr>ctl = k, world = w\<lparr>dev := planner_mocks (ne_failed_paths opts)\<rparr>\<rparr> of
             ((EN_ERR_NONE, Some r), _) \<Rightarrow>
               path_choice config (fit EN_MAX_ID_LEN (rr_selected_path r)) (\<lambda>_. sr_reason (rr_explanation r))
           | _ \<Rightarrow> Inl 1))"

definition choose_path :: "bool \<Rightarrow> en_yaml_config \<Rightarrow> en_intent \<Rightarrow> netns_options \<Rightarrow> mocks world \<Rightarrow> choice" where
  "choose_path memory config intent opts w =
     (case ne_path_id opts of
        Some forced \<Rightarrow> path_choice config forced (\<lambda>_. ''forced path'')
      | None \<Rightarrow>
          if uses_fallback opts intent then
            path_choice config (fp_path_id (it_fallback intent))
              (\<lambda>p. ''active path '' @ the (ne_active_path_id opts) @ '' failed; using fallback '' @ pt_path_id p)
          else submitted_choice memory config intent opts w)"

section \<open>The files\<close>

text \<open>
  \<open>mkdir\<close>, for which an existing directory is none of the failures. The directories are not among the files of the model.
\<close>

definition make_directory :: "string \<Rightarrow> (disk, bool) state" where
  "make_directory name = do { f \<leftarrow> fault; State_Monad.return (f = None) }"

definition directory_names :: "string \<Rightarrow> string list" where
  "directory_names path = map (\<lambda>i. take i path) (filter (\<lambda>i. path ! i = CHR ''/'') [1..<length path]) @ [path]"

primrec make_directories :: "string list \<Rightarrow> (disk, bool) state" where
  "make_directories [] = State_Monad.return True"
| "make_directories (name # names) = do {
     made \<leftarrow> make_directory name;
     if made then make_directories names else State_Monad.return False
   }"

definition ensure_directory_tree :: "string \<Rightarrow> (disk, bool) state" where
  "ensure_directory_tree path =
     (if path = [] \<or> 512 \<le> length path then State_Monad.return False else make_directories (directory_names path))"

definition make_script_executable :: "string \<Rightarrow> (disk, bool) state" where
  "make_script_executable name = do {
     f \<leftarrow> fault;
     files \<leftarrow> gets dk_files;
     case files name of
       None \<Rightarrow> State_Monad.return False
     | Some old \<Rightarrow>
         if f \<noteq> None then State_Monad.return False
         else do { _ \<leftarrow> set_file name (Some (old\<lparr>df_shared := False\<rparr>)); State_Monad.return True }
   }"

text \<open>A writer's lines, its status, and the mode of its script.\<close>

definition put_script :: "string \<Rightarrow> written \<Rightarrow> (disk, bool) state" where
  "put_script name w =
     (case w of
        None \<Rightarrow> State_Monad.return False
      | Some (status, ls) \<Rightarrow> do {
          opened \<leftarrow> write_text name (script_text ls);
          if opened \<and> status = 0 then make_script_executable name else State_Monad.return False
        })"

definition write_swanctl_plan :: "int \<Rightarrow> string \<Rightarrow> en_yaml_config \<Rightarrow> en_intent \<Rightarrow> en_path \<Rightarrow> (disk, bool) state" where
  "write_swanctl_plan pid name config intent path =
     (case en_apply_plan_from_config_with_file config intent path name of
        Inl _ \<Rightarrow> State_Monad.return False
      | Inr p \<Rightarrow> do { e \<leftarrow> en_apply_plan_write_swanctl_conf pid p name; State_Monad.return (e = EN_ERR_NONE) })"

text \<open>The steps of \<open>main\<close> after the choice, each of which ends it with status 1 when it fails.\<close>

primrec all_steps :: "(disk, bool) state list \<Rightarrow> (disk, bool) state" where
  "all_steps [] = State_Monad.return True"
| "all_steps (m # ms) = do { ok \<leftarrow> m; if ok then all_steps ms else State_Monad.return False }"

definition plan_file :: "string \<Rightarrow> string \<Rightarrow> string" where
  "plan_file out_dir name = fit 256 (out_dir @ ''/'' @ name)"

definition planner_steps :: "int \<Rightarrow> string \<Rightarrow> en_yaml_config \<Rightarrow> en_intent \<Rightarrow> en_path \<Rightarrow> (disk, bool) state list" where
  "planner_steps pid out config intent path =
     (let kind = runtime_kind config path in
      [ensure_directory_tree out,
       put_script (plan_file out ''apply-selected.sh'') (write_apply_script out config intent path kind),
       put_script (plan_file out ''apply-integrated.sh'') (write_integrated_script out config intent path kind),
       put_script (plan_file out ''rollback-selected.sh'') (write_rollback_script config path kind),
       write_text (plan_file out ''selected-path.txt'') (unlines (write_summary config intent path kind)),
       put_script (plan_file out ''vpp-route-plan.sh'') (write_vpp_route_plan config path),
       put_script (plan_file out ''vpp-netns-route-plan.sh'') (write_vpp_netns_route_plan config intent path)] @
      (if path_has_gre_tunnel config path then [write_swanctl_plan pid (plan_file out ''gre-swanctl.conf'') config intent path] else []))"

definition planner_status :: "en_yaml_config \<Rightarrow> en_path \<Rightarrow> int" where
  "planner_status config path = (if strcmp (runtime_kind config path) ''unsupported'' = 0 then 2 else 0)"

record netns_env =
  nv_memory :: bool
  nv_pid :: int
  nv_files :: "string \<Rightarrow> (string \<times> bool) option"
  nv_world :: "mocks world"

definition netns_main :: "netns_env \<Rightarrow> string list \<Rightarrow> (disk, int) state" where
  "netns_main env args =
     (case netns_arguments netns_defaults args of
        Inl e \<Rightarrow> State_Monad.return e
      | Inr opts \<Rightarrow> (case en_yaml_config_load_file (nv_files env) (Some (ne_filename opts)) True 256 of
          Parsed config \<Rightarrow> (case find_intent config (ne_intent_id opts) of
            None \<Rightarrow> State_Monad.return 1
          | Some intent \<Rightarrow> (case choose_path (nv_memory env) config intent opts (nv_world env) of
              Inl e \<Rightarrow> State_Monad.return e
            | Inr (path, reason) \<Rightarrow> do {
                ok \<leftarrow> all_steps (planner_steps (nv_pid env) (ne_out_dir opts) config intent path);
                State_Monad.return (if ok then planner_status config path else 1)
              }))
        | _ \<Rightarrow> State_Monad.return 1))"

end
