(* ===== verification/NetnsSafety.thy ===== *)
theory NetnsSafety
  imports NetnsMain DaemonSafety
begin

text \<open>
  What the planner guarantees: the path it chooses, the order of the commands it writes, and what its exit status
  means.
\<close>

section \<open>The choice of the path\<close>

abbreviation planner_adapters :: "mocks adapters" where
  "planner_adapters \<equiv> (en_strongswan_mock_adapter, en_vpp_mock_adapter, en_health_probe_mock_adapter)"

lemma value_bound:
  "netns_value opts a v = Inr opts' \<Longrightarrow> length (ne_failed_paths opts) \<le> EN_MAX_PATHS \<Longrightarrow>
   length (ne_failed_paths opts') \<le> EN_MAX_PATHS"
  by (auto simp: netns_value_def split: if_splits)

lemma flag_failed: "netns_flag opts a = Inr opts' \<Longrightarrow> ne_failed_paths opts' = ne_failed_paths opts"
  by (auto simp: netns_flag_def split: if_splits)

lemma arguments_bound:
  "netns_arguments opts args = Inr opts' \<Longrightarrow> length (ne_failed_paths opts) \<le> EN_MAX_PATHS \<Longrightarrow>
   length (ne_failed_paths opts') \<le> EN_MAX_PATHS"
proof (induction opts args rule: netns_arguments.induct)
  case (1 opts a v rest)
  then show ?case
    by (auto split: sum.splits option.splits dest: value_bound flag_failed)
qed (auto dest: flag_failed)

text \<open>The mock reports every path that was given as failed.\<close>

lemma merge_failed:
  assumes "ph_state c = EN_HEALTH_FAILED" "ph_state h = EN_HEALTH_FAILED"
    "\<not> ph_has_route_observation h" "\<not> ph_has_interface_observation h" "ph_path_id c = ph_path_id h"
  shows "ph_state (merge_health c h) = EN_HEALTH_FAILED" "ph_path_id (merge_health c h) = ph_path_id h"
  using assms by (auto simp: merge_health_def merge_measurement_def)

lemma failed_health_fields [simp]:
  "ph_state (failed_health f) = EN_HEALTH_FAILED" "ph_path_id (failed_health f) = fit EN_MAX_ID_LEN f"
  "\<not> ph_has_route_observation (failed_health f)" "\<not> ph_has_interface_observation (failed_health f)"
  by (simp_all add: failed_health_def zero_health_def)

definition reports_failed :: "en_path_health list \<Rightarrow> bool" where
  "reports_failed ov \<longleftrightarrow> (\<forall>h\<in>set ov. ph_state h = EN_HEALTH_FAILED)"

lemma set_failed:
  assumes "reports_failed ov" "length ov < EN_MAX_PATHS"
  shows "reports_failed (set_failed_health f ov) \<and> length (set_failed_health f ov) \<le> Suc (length ov) \<and>
    ph_path_id ` set (set_failed_health f ov) = insert (fit EN_MAX_ID_LEN f) (ph_path_id ` set ov)"
proof (cases "find_index (\<lambda>o'. strcmp (ph_path_id o') (ph_path_id (failed_health f)) = 0) ov")
  case None
  then show ?thesis using assms by (auto simp: set_failed_health_def en_health_probe_mock_set_def reports_failed_def)
next
  case (Some i)
  then have i: "i < length ov" "ph_path_id (ov ! i) = fit EN_MAX_ID_LEN f" using find_index_Some by fastforce+
  let ?m = "merge_health (ov ! i) (failed_health f)"
  have m: "ph_state ?m = EN_HEALTH_FAILED" "ph_path_id ?m = fit EN_MAX_ID_LEN f"
    using merge_failed [of "ov ! i" "failed_health f"] i assms(1) by (simp_all add: reports_failed_def)
  have "map ph_path_id (ov[i := ?m]) = map ph_path_id ov" using i m by (simp add: map_update list_update_same_conv)
  then have "ph_path_id ` set (ov[i := ?m]) = ph_path_id ` set ov" by (metis list.set_map)
  moreover have "fit EN_MAX_ID_LEN f \<in> ph_path_id ` set ov" using i by (metis image_eqI nth_mem)
  moreover have "reports_failed (ov[i := ?m])"
    using assms(1) m set_update_subset_insert [of ov i ?m] by (fastforce simp: reports_failed_def)
  ultimately show ?thesis using Some by (simp add: set_failed_health_def en_health_probe_mock_set_def insert_absorb)
qed

lemma all_set_failed:
  "reports_failed ov \<Longrightarrow> length ov + length fs \<le> EN_MAX_PATHS \<Longrightarrow>
   reports_failed (fold set_failed_health fs ov) \<and> fit EN_MAX_ID_LEN ` set fs \<subseteq> ph_path_id ` set (fold set_failed_health fs ov) \<and>
   ph_path_id ` set ov \<subseteq> ph_path_id ` set (fold set_failed_health fs ov)"
proof (induction fs arbitrary: ov)
  case Nil
  then show ?case by simp
next
  case (Cons f fs)
  have ov: "reports_failed (set_failed_health f ov)" "length (set_failed_health f ov) \<le> Suc (length ov)"
    "ph_path_id ` set (set_failed_health f ov) = insert (fit EN_MAX_ID_LEN f) (ph_path_id ` set ov)"
    using set_failed [of ov f] Cons.prems by simp_all
  then have "length (set_failed_health f ov) + length fs \<le> EN_MAX_PATHS" using Cons.prems by simp
  from Cons.IH [OF ov(1) this] ov(3) show ?case by auto
qed

text \<open>No step of a transition on the mocks changes what the mock reports.\<close>

lemma mocks_health:
  "mc_health (dev (snd (run_state (on_vpp_mock x f) w))) = mc_health (dev w)"
  "mc_health (dev (snd (run_state (mock_validate_path p h) w))) = mc_health (dev w)"
  using vpp_mock_keeps [of x f] validate_keeps [of p h] by (simp_all add: keeps_health_def)

lemma mocks_step:
  assumes "outside_step planner_adapters key w w'"
  shows "mc_health (dev w') = mc_health (dev w)"
  using assms
proof (cases rule: outside_step.cases)
  case (install_step S V H f p)
  then show ?thesis by (auto simp: en_vpp_mock_adapter_def mocks_health)
next
  case (remove_path_step S V H f p)
  then show ?thesis by (auto simp: en_vpp_mock_adapter_def mocks_health)
next
  case (active_step S V H f)
  then show ?thesis by (auto simp: en_vpp_mock_adapter_def mocks_health)
next
  case (validate_step S V H f p h)
  then show ?thesis by (auto simp: en_health_probe_mock_adapter_def mocks_health)
qed (auto simp: en_strongswan_mock_adapter_def mock_ensure_tunnel_def mock_remove_tunnel_def sleep_ms_def)

lemma mocks_steps: "(outside_step planner_adapters key)\<^sup>*\<^sup>* w w' \<Longrightarrow> mc_health (dev w') = mc_health (dev w)"
  by (induction rule: rtranclp_induct) (auto dest: mocks_step)

lemma usable_not_failed:
  assumes usable: "probe_found_usable planner_adapters key (w\<lparr>dev := planner_mocks fs\<rparr>) c target"
    and fs: "length fs \<le> EN_MAX_PATHS" and id: "length (pt_path_id (paths c ! target)) < EN_MAX_ID_LEN"
  shows "pt_path_id (paths c ! target) \<notin> set fs"
proof
  assume failed: "pt_path_id (paths c ! target) \<in> set fs"
  obtain p v h v' where p: "configured_path p = configured_path (paths c ! target)"
    and v: "(outside_step planner_adapters key)\<^sup>*\<^sup>* (w\<lparr>dev := planner_mocks fs\<rparr>) v"
    and run: "run_state (mock_validate_path p zero_health) v = ((EN_ERR_NONE, h), v')"
    and h: "ph_state h = EN_HEALTH_HEALTHY \<or> ph_state h = EN_HEALTH_DEGRADED"
    using usable by (auto simp: probe_found_usable_def en_health_probe_mock_adapter_def)
  let ?ov = "fold set_failed_health fs []"
  have ov: "reports_failed ?ov" "fit EN_MAX_ID_LEN ` set fs \<subseteq> ph_path_id ` set ?ov"
    using all_set_failed [of "[]" fs] fs by (simp_all add: reports_failed_def)
  have pid: "pt_path_id p = pt_path_id (paths c ! target)" by (rule configured_path_fields(1) [OF p])
  then have "pt_path_id p \<in> fit EN_MAX_ID_LEN ` set fs"
    using failed id by (intro image_eqI [where x = "pt_path_id p"]) (simp_all add: fit_def)
  with ov(2) obtain f where f: "find (\<lambda>h. strcmp (ph_path_id h) (pt_path_id p) = 0) ?ov = Some f"
    by (cases "find (\<lambda>h. strcmp (ph_path_id h) (pt_path_id p) = 0) ?ov") (auto simp: find_None_all)
  then have "ph_state f = EN_HEALTH_FAILED" using ov(1) by (auto simp: reports_failed_def dest: find_Some_mem)
  moreover have "mc_health (dev v) = Some (?ov, False)" using mocks_steps [OF v] by (simp add: planner_mocks_def)
  ultimately have "ph_state h = EN_HEALTH_FAILED"
    using run f by (auto simp: mock_validate_path_def probe_override_def observed_override_def)
  with h show False by simp
qed

lemma path_choice_found:
  "path_choice config x reason = Inr (p, y) \<Longrightarrow> p \<in> set (yc_paths config) \<and> pt_path_id p = x"
  by (auto simp: path_choice_def find_path_def split: option.splits dest: find_Some_mem)

lemma submitted_sound:
  assumes config: "well_formed_config config" and fs: "length (ne_failed_paths opts) \<le> EN_MAX_PATHS"
    and chosen: "submitted_choice memory config intent opts w = Inr (path, reason)"
  shows "path \<in> set (yc_paths config) \<and>
    satisfies_policy (fresh_state config) (ps_constraints (it_path_selection intent)) path \<and>
    pt_path_id path \<notin> set (ne_failed_paths opts)"
proof -
  let ?w = "w\<lparr>dev := planner_mocks (ne_failed_paths opts)\<rparr>" and ?c = "fresh_state config"
  obtain k r t where k: "create_from_config memory config en_strongswan_mock_adapter en_vpp_mock_adapter
      en_health_probe_mock_adapter = Some k"
    and run: "run_state (en_controller_submit_intent (Some intent) (Some zero_reconcile_result)) \<lparr>ctl = k, world = ?w\<rparr> =
      ((EN_ERR_NONE, Some r), t)"
    and choice: "path_choice config (fit EN_MAX_ID_LEN (rr_selected_path r)) (\<lambda>_. sr_reason (rr_explanation r)) = Inr (path, reason)"
    using chosen by (auto simp: submitted_choice_def split: option.splits prod.splits en_error_code.splits)
  let ?s = "\<lparr>ctl = k, world = ?w\<rparr>"
  have s: "st ?s = ?c" "adapters ?s = planner_adapters"
    using create_fresh [OF k] by (simp_all add: st_def adapters_def)
  have wf: "wf_state (st ?s)" using fresh_configured [OF config] s by (simp add: configured_def)
  have none: "applied (st ?s) = []" by (simp add: s fresh_state_def)
  obtain target where target: "en_find_path ?c (Some (rr_selected_path r)) = Some target"
    and usable: "probe_found_usable planner_adapters (transition_key intent) ?w ?c target"
    using submission_usable [OF wf none run] s by auto
  have "applied_room (transition_key intent) (st ?s)" by (simp add: applied_room_def none)
  then have sat: "satisfies_policy ?c (ps_constraints (it_path_selection intent)) (paths ?c ! target)"
    using submission_settled [OF wf _ run] target s by auto
  have id: "pt_path_id (paths ?c ! target) = rr_selected_path r" "target < length (paths ?c)"
    using find_path_id [OF target] by simp_all
  have len: "length (rr_selected_path r) < EN_MAX_ID_LEN" using find_path_wf [OF _ target] wf s by simp
  then have "pt_path_id path = rr_selected_path r" "path \<in> set (yc_paths config)"
    using path_choice_found [OF choice] by (simp_all add: fit_def)
  moreover have "paths ?c ! target \<in> set (yc_paths config)" using id(2) by (simp add: fresh_state_def)
  ultimately have "path = paths ?c ! target"
    using id(1) well_formed_paths(1) [OF config] by (metis eq_key_imp_eq_value distinct_map inj_onD)
  with sat usable_not_failed [OF usable fs] id(1) len \<open>path \<in> set (yc_paths config)\<close> show ?thesis by simp
qed

text \<open>
  C26. The planner plans a path of the configuration: the one that is forced; otherwise, when the active path is
  among the failed ones and a fallback is enabled, the fallback; otherwise one that satisfies the policy of the
  intent and is none of the paths that were given as failed.
\<close>

theorem planner_choice_sound:
  assumes "en_yaml_config_load_file fopen filename dest error_len = Parsed config"
    and "netns_arguments netns_defaults args = Inr opts"
    and "choose_path memory config intent opts w = Inr (path, reason)"
  shows "path \<in> set (yc_paths config) \<and>
    (case ne_path_id opts of
       Some forced \<Rightarrow> pt_path_id path = forced
     | None \<Rightarrow>
         if uses_fallback opts intent then pt_path_id path = fp_path_id (it_fallback intent)
         else satisfies_policy (fresh_state config) (ps_constraints (it_path_selection intent)) path \<and>
           pt_path_id path \<notin> set (ne_failed_paths opts))"
proof -
  have "length (ne_failed_paths opts) \<le> EN_MAX_PATHS"
    using arguments_bound [OF assms(2)] by (simp add: netns_defaults_def)
  then show ?thesis
    using assms(3) submitted_sound [OF loaded_wf [OF assms(1)]] path_choice_found
    by (auto simp: choose_path_def split: option.splits if_splits)
qed

definition sample_planner :: netns_options where
  "sample_planner = netns_defaults\<lparr>ne_filename := ''eventnet.yaml'', ne_path_id := Some ''path-direct'', ne_failed_paths := [''path-old'']\<rparr>"

lemma netns_sample_arguments:
  "netns_arguments netns_defaults [''--path'', ''path-direct'', ''--fail-path'', ''path-old'', ''eventnet.yaml''] = Inr sample_planner"
  by code_simp

lemma sample_choice:
  "choose_path True sample_config (hd (yc_intents sample_config)) sample_planner (sample_world (sample_mocks False)) =
     Inr (hd (yc_paths sample_config), ''forced path'')"
  by code_simp

theorem planner_choice_sound_witness:
  "hd (yc_paths sample_config) \<in> set (yc_paths sample_config) \<and> pt_path_id (hd (yc_paths sample_config)) = ''path-direct''"
  using planner_choice_sound [OF sample_load netns_sample_arguments sample_choice] by (simp add: sample_planner_def)

end
