(* ===== verification/NetnsOutcome.thy ===== *)
theory NetnsOutcome
  imports NetnsMain
begin

text \<open>
  What the exit status of the planner means: with 0 or 2 the path could be planned, the VLAN of the intent is allowed on
  every edge of it, and without faults of the system the files hold the scripts. Also what writing the configuration of
  strongSwan does to the files.
\<close>

section \<open>The steps of the program\<close>

lemma all_steps_Cons:
  "run_state (all_steps (m # ms)) d = (True, d') \<longleftrightarrow> (\<exists>d1. run_state m d = (True, d1) \<and> run_state (all_steps ms) d1 = (True, d'))"
  by (auto split: prod.splits if_splits)

lemma all_steps_append:
  "run_state (all_steps (ms @ ns)) d = (True, d') \<longleftrightarrow>
   (\<exists>d1. run_state (all_steps ms) d = (True, d1) \<and> run_state (all_steps ns) d1 = (True, d'))"
proof (induction ms arbitrary: d)
  case (Cons m ms)
  show ?case unfolding append_Cons all_steps_Cons Cons.IH by blast
qed simp

lemma put_script_written:
  "run_state (put_script name w) d = (True, d') \<Longrightarrow> \<exists>ls. w = Some (0, ls)"
  by (auto simp: put_script_def split: option.splits prod.splits if_splits)

text \<open>A step that succeeds where no system call fails: none fails after it, and it sets the file \<open>name\<close>.\<close>

definition faultless :: "disk \<Rightarrow> bool" where
  "faultless d \<longleftrightarrow> dk_faults d = (\<lambda>_. None)"

definition puts :: "string set \<Rightarrow> ((string \<Rightarrow> disk_file option) \<Rightarrow> bool) \<Rightarrow> (disk, bool) state \<Rightarrow> bool" where
  "puts names P m \<longleftrightarrow> (\<forall>d d'. faultless d \<longrightarrow> run_state m d = (True, d') \<longrightarrow>
     faultless d' \<and> P (dk_files d') \<and> (\<forall>n. n \<notin> names \<longrightarrow> dk_files d' n = dk_files d n))"

lemma putsD:
  "puts names P m \<Longrightarrow> faultless d \<Longrightarrow> run_state m d = (True, d') \<Longrightarrow>
   faultless d' \<and> P (dk_files d') \<and> (\<forall>n. n \<notin> names \<longrightarrow> dk_files d' n = dk_files d n)"
  unfolding puts_def by blast

lemma puts_text:
  "puts {name} (\<lambda>files. \<exists>shared. files name = Some \<lparr>df_kind = REGULAR, df_shared = shared, df_content = content\<rparr>) (write_text name content)"
  by (auto simp: puts_def write_text_def fault_def faultless_def set_file_def)

lemma puts_script:
  "puts {name} (\<lambda>files. \<exists>ls. w = Some (0, ls) \<and>
     files name = Some \<lparr>df_kind = REGULAR, df_shared = False, df_content = script_text ls\<rparr>) (put_script name w)"
  by (auto simp: puts_def put_script_def write_text_def make_script_executable_def fault_def faultless_def set_file_def
      split: option.splits if_splits)

lemma puts_directories: "puts {} (\<lambda>_. True) (make_directories names)"
proof (induction names)
  case Nil
  then show ?case by (simp add: puts_def)
next
  case (Cons name names)
  show ?case
    unfolding puts_def
  proof (intro allI impI)
    fix d d'
    assume d: "faultless d" and run: "run_state (make_directories (name # names)) d = (True, d')"
    then have "run_state (make_directories names) (d\<lparr>dk_calls := Suc (dk_calls d)\<rparr>) = (True, d')"
      by (simp add: make_directory_def fault_def faultless_def)
    from putsD [OF Cons.IH _ this] d
    show "faultless d' \<and> True \<and> (\<forall>n. n \<notin> {} \<longrightarrow> dk_files d' n = dk_files d n)" by (simp add: faultless_def)
  qed
qed

lemma puts_tree: "puts {} (\<lambda>_. True) (ensure_directory_tree out)"
  using puts_directories by (auto simp: ensure_directory_tree_def puts_def)

lemma puts_swanctl:
  "puts {name, plan_temporary_name pid name} (\<lambda>files. \<exists>p. en_apply_plan_from_config_with_file config intent path name = Inr p \<and>
     files name = Some \<lparr>df_kind = REGULAR, df_shared = False, df_content = pl_swanctl_conf p\<rparr>)
     (write_swanctl_plan pid name config intent path)"
  by (auto simp: puts_def write_swanctl_plan_def en_apply_plan_write_swanctl_conf_def Let_def create_private_def write_file_def
      rename_def unlink_def fault_def faultless_def set_file_def plan_temporary_differs plan_temporary_differs [symmetric]
      split: sum.splits if_splits prod.splits)

section \<open>The files\<close>

text \<open>The scripts by name, in the order they are written.\<close>

definition planner_scripts :: "string \<Rightarrow> en_yaml_config \<Rightarrow> en_intent \<Rightarrow> en_path \<Rightarrow> (string \<times> written) list" where
  "planner_scripts out config intent path =
     (let kind = runtime_kind config path in
      [(''apply-selected.sh'', write_apply_script out config intent path kind),
       (''apply-integrated.sh'', write_integrated_script out config intent path kind),
       (''rollback-selected.sh'', write_rollback_script config path kind),
       (''vpp-route-plan.sh'', write_vpp_route_plan config path),
       (''vpp-netns-route-plan.sh'', write_vpp_netns_route_plan config intent path)])"

lemma plan_file_id: "length out \<le> 200 \<Longrightarrow> length name \<le> 30 \<Longrightarrow> plan_file out name = out @ ''/'' @ name"
  by (simp add: plan_file_def fit_def)

lemma steps_files:
  assumes out: "length out \<le> 200" and d: "faultless d"
    and run: "run_state (all_steps (planner_steps pid out config intent path)) d = (True, d')"
    and script: "(name, w) \<in> set (planner_scripts out config intent path)"
  shows "\<exists>ls. w = Some (0, ls) \<and>
    dk_files d' (out @ ''/'' @ name) = Some \<lparr>df_kind = REGULAR, df_shared = False, df_content = script_text ls\<rparr>"
proof -
  let ?kind = "runtime_kind config path" and ?p = "\<lambda>n. plan_file out n"
  let ?gre = "if path_has_gre_tunnel config path then [write_swanctl_plan pid (?p ''gre-swanctl.conf'') config intent path] else []"
  have steps: "planner_steps pid out config intent path = [ensure_directory_tree out,
       put_script (?p ''apply-selected.sh'') (write_apply_script out config intent path ?kind),
       put_script (?p ''apply-integrated.sh'') (write_integrated_script out config intent path ?kind),
       put_script (?p ''rollback-selected.sh'') (write_rollback_script config path ?kind),
       write_text (?p ''selected-path.txt'') (unlines (write_summary config intent path ?kind)),
       put_script (?p ''vpp-route-plan.sh'') (write_vpp_route_plan config path),
       put_script (?p ''vpp-netns-route-plan.sh'') (write_vpp_netns_route_plan config intent path)] @ ?gre"
    by (simp add: planner_steps_def Let_def)
  from run [unfolded steps append_Cons append_Nil all_steps_Cons] obtain d0 d1 d2 d3 d4 d5 d6 where
    r0: "run_state (ensure_directory_tree out) d = (True, d0)"
    and r1: "run_state (put_script (?p ''apply-selected.sh'') (write_apply_script out config intent path ?kind)) d0 = (True, d1)"
    and r2: "run_state (put_script (?p ''apply-integrated.sh'') (write_integrated_script out config intent path ?kind)) d1 = (True, d2)"
    and r3: "run_state (put_script (?p ''rollback-selected.sh'') (write_rollback_script config path ?kind)) d2 = (True, d3)"
    and r4: "run_state (write_text (?p ''selected-path.txt'') (unlines (write_summary config intent path ?kind))) d3 = (True, d4)"
    and r5: "run_state (put_script (?p ''vpp-route-plan.sh'') (write_vpp_route_plan config path)) d4 = (True, d5)"
    and r6: "run_state (put_script (?p ''vpp-netns-route-plan.sh'') (write_vpp_netns_route_plan config intent path)) d5 = (True, d6)"
    and r7: "run_state (all_steps ?gre) d6 = (True, d')"
    by blast
  note f0 = putsD [OF puts_tree d r0]
  note f1 = putsD [OF puts_script conjunct1 [OF f0] r1]
  note f2 = putsD [OF puts_script conjunct1 [OF f1] r2]
  note f3 = putsD [OF puts_script conjunct1 [OF f2] r3]
  note f4 = putsD [OF puts_text conjunct1 [OF f3] r4]
  note f5 = putsD [OF puts_script conjunct1 [OF f4] r5]
  note f6 = putsD [OF puts_script conjunct1 [OF f5] r6]
  have f7: "\<forall>n. n \<notin> {?p ''gre-swanctl.conf'', plan_temporary_name pid (?p ''gre-swanctl.conf'')} \<longrightarrow> dk_files d' n = dk_files d6 n"
  proof (cases "path_has_gre_tunnel config path")
    case True
    then have "run_state (write_swanctl_plan pid (?p ''gre-swanctl.conf'') config intent path) d6 = (True, d')"
      using r7 by (auto split: prod.splits if_splits)
    from putsD [OF puts_swanctl conjunct1 [OF f6] this] show ?thesis by blast
  qed (use r7 in simp)
  have p: "?p n = out @ ''/'' @ n" if "n \<in> {''apply-selected.sh'', ''apply-integrated.sh'', ''rollback-selected.sh'',
      ''selected-path.txt'', ''vpp-route-plan.sh'', ''vpp-netns-route-plan.sh'', ''gre-swanctl.conf''}" for n
    using that by (intro plan_file_id out) auto
  show ?thesis
    using script f1 f2 f3 f4 f5 f6 f7
    by (auto simp: planner_scripts_def Let_def p plan_temporary_name_def)
qed

section \<open>What success means\<close>

lemma all_steps_each: "run_state (all_steps ms) d = (True, d') \<Longrightarrow> m \<in> set ms \<Longrightarrow> \<exists>d1 d2. run_state m d1 = (True, d2)"
proof (induction ms arbitrary: d)
  case (Cons x ms)
  then show ?case unfolding all_steps_Cons by auto
qed simp

lemma planner_run:
  assumes "run_state (netns_main env args) d = (e, d')" "netns_arguments netns_defaults args = Inr opts" "e = 0 \<or> e = 2"
  obtains config intent path reason where
    "en_yaml_config_load_file (nv_files env) (Some (ne_filename opts)) True 256 = Parsed config"
    "find_intent config (ne_intent_id opts) = Some intent"
    "choose_path (nv_memory env) config intent opts (nv_world env) = Inr (path, reason)"
    "run_state (all_steps (planner_steps (nv_pid env) (ne_out_dir opts) config intent path)) d = (True, d')"
    "e = planner_status config path"
proof -
  have choice: "choose_path memory config intent opts w = Inl x \<Longrightarrow> x = 1" for memory config intent w x
    by (auto simp: choose_path_def submitted_choice_def path_choice_def split: option.splits if_splits prod.splits en_error_code.splits)
  show ?thesis
    using assms that
    by (auto simp: netns_main_def split: outcome.splits option.splits sum.splits prod.splits if_splits dest: choice)
qed

lemma planned_scripts:
  assumes "run_state (all_steps (planner_steps pid out config intent path)) d = (True, d')"
  shows "\<exists>ls. write_vpp_route_plan config path = Some (0, ls)" "\<exists>ls. write_vpp_netns_route_plan config intent path = Some (0, ls)"
  using all_steps_each [OF assms, of "put_script (plan_file out ''vpp-route-plan.sh'') (write_vpp_route_plan config path)"]
    all_steps_each [OF assms, of "put_script (plan_file out ''vpp-netns-route-plan.sh'') (write_vpp_netns_route_plan config intent path)"]
  by (auto simp: planner_steps_def Let_def dest: put_script_written)

lemma planned_not_refused:
  assumes "write_vpp_route_plan config path = Some (0, ls)" "write_vpp_netns_route_plan config intent path = Some (0, ls')"
  shows "\<not> vlan_refused config intent path" "pt_segments path = [] \<Longrightarrow> \<not> path_has_gre_tunnel config path"
  using assms by (auto simp: write_vpp_route_plan_def write_vpp_netns_route_plan_def source_prefix_def end_tunnels_def split: if_splits)

text \<open>
  C27. The planner exits with 0 or 2 only for the intent and the path it chose from the configuration, with 2 when no
  runtime supports the path. Then every edge that the path uses allows the VLAN of the intent, no node of it has two
  tables for it, and the path is not one without segments over a GRE tunnel; where no system call fails, each of
  the five scripts stands complete in its file. Longer names of the directory are cut.
\<close>

theorem planner_success_means:
  assumes "run_state (netns_main env args) d = (e, d')" "netns_arguments netns_defaults args = Inr opts" "e = 0 \<or> e = 2"
  shows "\<exists>config intent path reason.
    en_yaml_config_load_file (nv_files env) (Some (ne_filename opts)) True 256 = Parsed config \<and>
    find_intent config (ne_intent_id opts) = Some intent \<and>
    choose_path (nv_memory env) config intent opts (nv_world env) = Inr (path, reason) \<and>
    (e = 2) = (runtime_kind config path = ''unsupported'') \<and>
    (ts_has_vlan_id (it_traffic intent) \<longrightarrow> \<not> path_has_conflicting_tables path \<and>
       (\<forall>g\<in>set (yc_vpp_edges config). path_uses_node path (ve_node_id g) \<longrightarrow> edge_allows_vlan g (ts_vlan_id (it_traffic intent)))) \<and>
    (pt_segments path = [] \<longrightarrow> \<not> path_has_gre_tunnel config path) \<and>
    (faultless d \<and> length (ne_out_dir opts) \<le> 200 \<longrightarrow>
       (\<forall>(name, w)\<in>set (planner_scripts (ne_out_dir opts) config intent path). \<exists>ls. w = Some (0, ls) \<and>
          dk_files d' (ne_out_dir opts @ ''/'' @ name) =
            Some \<lparr>df_kind = REGULAR, df_shared = False, df_content = script_text ls\<rparr>))"
proof -
  obtain config intent path reason where
    run: "en_yaml_config_load_file (nv_files env) (Some (ne_filename opts)) True 256 = Parsed config"
    "find_intent config (ne_intent_id opts) = Some intent"
    "choose_path (nv_memory env) config intent opts (nv_world env) = Inr (path, reason)"
    and steps: "run_state (all_steps (planner_steps (nv_pid env) (ne_out_dir opts) config intent path)) d = (True, d')"
    and e: "e = planner_status config path"
    using planner_run [OF assms] by metis
  obtain ls ls' where "write_vpp_route_plan config path = Some (0, ls)" "write_vpp_netns_route_plan config intent path = Some (0, ls')"
    using planned_scripts [OF steps] by blast
  note allowed = planned_not_refused [OF this]
  have status: "(e = 2) = (runtime_kind config path = ''unsupported'')" using e by (simp add: planner_status_def)
  have vlan: "ts_has_vlan_id (it_traffic intent) \<longrightarrow> \<not> path_has_conflicting_tables path \<and>
     (\<forall>g\<in>set (yc_vpp_edges config). path_uses_node path (ve_node_id g) \<longrightarrow> edge_allows_vlan g (ts_vlan_id (it_traffic intent)))"
    using allowed(1) by (auto simp: vlan_refused_def list_ex_iff)
  have files: "\<forall>(name, w)\<in>set (planner_scripts (ne_out_dir opts) config intent path). \<exists>ls. w = Some (0, ls) \<and>
      dk_files d' (ne_out_dir opts @ ''/'' @ name) = Some \<lparr>df_kind = REGULAR, df_shared = False, df_content = script_text ls\<rparr>"
    if "faultless d" "length (ne_out_dir opts) \<le> 200"
    using steps_files [OF that(2,1) steps] by blast
  show ?thesis
    by (intro exI [of _ config] exI [of _ intent] exI [of _ path] exI [of _ reason] conjI run status vlan impI allowed(2))
      (assumption, rule files, blast+)
qed

text \<open>A run on the sample configuration in which no call fails.\<close>

definition succeeds :: "(disk, bool) state \<Rightarrow> bool" where
  "succeeds m \<longleftrightarrow> (\<forall>d. faultless d \<longrightarrow> (\<exists>d'. run_state m d = (True, d') \<and> faultless d'))"

lemma succeeds_steps: "list_all succeeds ms \<Longrightarrow> succeeds (all_steps ms)"
proof (induction ms)
  case (Cons m ms)
  then have m: "succeeds m" and ms: "succeeds (all_steps ms)" by simp_all
  show ?case unfolding succeeds_def all_steps_Cons using m ms unfolding succeeds_def by blast
qed (simp add: succeeds_def)

lemma succeeds_script: "w = Some (0, ls) \<Longrightarrow> succeeds (put_script name w)"
  by (simp add: succeeds_def put_script_def write_text_def make_script_executable_def fault_def faultless_def set_file_def)

lemma succeeds_text: "succeeds (write_text name content)"
  by (simp add: succeeds_def write_text_def fault_def faultless_def set_file_def)

lemma succeeds_directory: "succeeds (ensure_directory_tree ''out'')"
proof -
  have "directory_names ''out'' = [''out'']" by code_simp
  then show ?thesis by (simp add: succeeds_def ensure_directory_tree_def make_directory_def fault_def faultless_def)
qed

definition planner_env :: netns_env where
  "planner_env = \<lparr>nv_memory = True, nv_pid = 7, nv_files = sample_fopen, nv_world = sample_world (sample_mocks False)\<rparr>"

definition sample_opts :: netns_options where
  "sample_opts = netns_defaults\<lparr>ne_filename := ''eventnet.yaml'', ne_path_id := Some ''path-direct'', ne_out_dir := ''out''\<rparr>"

lemma single_segment_planned:
  "\<not> plan_refused config path \<Longrightarrow> \<not> path_has_gre_tunnel config path \<Longrightarrow> \<not> pt_routes_explicit path \<Longrightarrow>
   end_tunnels config path = (Some t, Some u) \<Longrightarrow> length (pt_segments path) = 1 \<Longrightarrow> \<exists>ls. write_vpp_route_plan config path = Some (0, ls)"
  by (simp add: write_vpp_route_plan_def)

lemma netns_sample_run:
  "fst (run_state (netns_main planner_env [''--path'', ''path-direct'', ''--out-dir'', ''out'', ''eventnet.yaml'']) empty_disk) = 0"
proof -
  let ?i = "hd (yc_intents sample_config)" and ?p = "hd (yc_paths sample_config)"
  have opts: "netns_arguments netns_defaults [''--path'', ''path-direct'', ''--out-dir'', ''out'', ''eventnet.yaml''] = Inr sample_opts"
    by code_simp
  have intent: "find_intent sample_config (ne_intent_id sample_opts) = Some ?i" by code_simp
  have path: "choose_path True sample_config ?i sample_opts (sample_world (sample_mocks False)) = Inr (?p, ''forced path'')" by code_simp
  have parts: "\<not> plan_refused sample_config ?p" "\<not> path_has_gre_tunnel sample_config ?p" "\<not> vlan_refused sample_config ?i ?p"
    "length (pt_segments ?p) = 1" "planner_status sample_config ?p = 0" "\<not> pt_routes_explicit ?p"
    "fst (end_tunnels sample_config ?p) \<noteq> None" "snd (end_tunnels sample_config ?p) \<noteq> None"
    by code_simp+
  obtain t u where "end_tunnels sample_config ?p = (Some t, Some u)" using parts(7,8) by (cases "end_tunnels sample_config ?p") auto
  from single_segment_planned [OF parts(1,2,6) this parts(4)] obtain ls where "write_vpp_route_plan sample_config ?p = Some (0, ls)" by blast
  moreover obtain ls' where "write_vpp_netns_route_plan sample_config ?i ?p = Some (0, ls')"
    using parts by (simp add: write_vpp_netns_route_plan_def)
  ultimately have "list_all succeeds (planner_steps 7 ''out'' sample_config ?i ?p)"
    using parts(2)
    by (simp add: planner_steps_def Let_def succeeds_directory succeeds_text succeeds_script write_apply_script_def
        write_integrated_script_def write_rollback_script_def)
  from succeeds_steps [OF this] have ok: "succeeds (all_steps (planner_steps 7 ''out'' sample_config ?i ?p))" .
  have "faultless empty_disk" by (simp add: faultless_def empty_disk_def)
  then obtain d' where
    "run_state (all_steps (planner_steps 7 ''out'' sample_config ?i ?p)) empty_disk = (True, d')"
    using ok unfolding succeeds_def by blast
  then show ?thesis
    using opts intent path parts(5) sample_load
    by (simp add: netns_main_def planner_env_def sample_opts_def)
qed

theorem planner_success_means_witness:
  "\<exists>config intent ls. en_yaml_config_load_file sample_fopen (Some ''eventnet.yaml'') True 256 = Parsed config \<and>
     write_vpp_netns_route_plan config intent (hd (yc_paths config)) = Some (0, ls) \<and>
     dk_files (snd (run_state (netns_main planner_env [''--path'', ''path-direct'', ''--out-dir'', ''out'', ''eventnet.yaml'']) empty_disk))
       ''out/vpp-netns-route-plan.sh'' = Some \<lparr>df_kind = REGULAR, df_shared = False, df_content = script_text ls\<rparr>"
proof -
  let ?args = "[''--path'', ''path-direct'', ''--out-dir'', ''out'', ''eventnet.yaml'']"
  let ?d = "snd (run_state (netns_main planner_env ?args) empty_disk)"
  have run: "run_state (netns_main planner_env ?args) empty_disk = (0, ?d)" using netns_sample_run by (simp add: prod_eq_iff)
  have opts: "netns_arguments netns_defaults ?args = Inr sample_opts" by code_simp
  have fields: "nv_files planner_env = sample_fopen" "ne_filename sample_opts = ''eventnet.yaml''" "ne_out_dir sample_opts = ''out''"
    "ne_path_id sample_opts = Some ''path-direct''"
    by (simp_all add: planner_env_def sample_opts_def netns_defaults_def)
  have fine: "faultless empty_disk" by (simp add: faultless_def empty_disk_def)
  obtain config intent path reason where
    config: "en_yaml_config_load_file sample_fopen (Some ''eventnet.yaml'') True 256 = Parsed config"
    and path: "choose_path (nv_memory planner_env) config intent sample_opts (nv_world planner_env) = Inr (path, reason)"
    and files: "\<forall>(name, w)\<in>set (planner_scripts ''out'' config intent path). \<exists>ls. w = Some (0, ls) \<and>
          dk_files ?d (''out'' @ ''/'' @ name) = Some \<lparr>df_kind = REGULAR, df_shared = False, df_content = script_text ls\<rparr>"
    using planner_success_means [OF run opts disjI1 [OF refl]] fine unfolding fields by auto
  have c: "config = sample_config" using config sample_load by simp
  have "path = hd (yc_paths config)"
    using path by (simp add: c choose_path_def fields path_choice_def split: option.splits) (auto simp: find_path_def sample_config_def)
  moreover have "(''vpp-netns-route-plan.sh'', write_vpp_netns_route_plan config intent path) \<in> set (planner_scripts ''out'' config intent path)"
    by (simp add: planner_scripts_def Let_def)
  with files obtain ls where "write_vpp_netns_route_plan config intent path = Some (0, ls)"
    "dk_files ?d (''out'' @ ''/'' @ ''vpp-netns-route-plan.sh'') = Some \<lparr>df_kind = REGULAR, df_shared = False, df_content = script_text ls\<rparr>"
    by blast
  ultimately show ?thesis using config by auto
qed

end
