(* ===== verification/JsonStream.thy ===== *)
theory JsonStream
  imports JsonOutput DaemonState
begin

text \<open>
  \<open>en_json_mut_doc_write_line\<close> of \<open>src/src/json_output.c\<close>: a document and a line feed on an open stream, which the
  examples use for their JSON lines. The theory holds the streams: the standard output, and files opened by name.
\<close>

section \<open>Streams\<close>

text \<open>A stream is the name of the file it appends to, \<open>None\<close> for the standard output.\<close>

record out_streams =
  ou_disk :: disk
  ou_stdout :: string

definition on_output_disk :: "(disk, 'a) state \<Rightarrow> (out_streams, 'a) state" where
  "on_output_disk m = State (\<lambda>u. case run_state m (ou_disk u) of (a, d) \<Rightarrow> (a, u\<lparr>ou_disk := d\<rparr>))"

definition append_file :: "string \<Rightarrow> string \<Rightarrow> disk \<Rightarrow> disk" where
  "append_file name s d = d\<lparr>dk_files := (dk_files d)(name := map_option (\<lambda>f. f\<lparr>df_content := df_content f @ s\<rparr>) (dk_files d name))\<rparr>"

definition append_stream :: "string option \<Rightarrow> string \<Rightarrow> out_streams \<Rightarrow> out_streams" where
  "append_stream stream s u = (case stream of
     None \<Rightarrow> u\<lparr>ou_stdout := ou_stdout u @ s\<rparr>
   | Some name \<Rightarrow> u\<lparr>ou_disk := append_file name s (ou_disk u)\<rparr>)"

definition stream_text :: "string option \<Rightarrow> out_streams \<Rightarrow> string" where
  "stream_text stream u = (case stream of
     None \<Rightarrow> ou_stdout u
   | Some name \<Rightarrow> (case dk_files (ou_disk u) name of None \<Rightarrow> [] | Some f \<Rightarrow> df_content f))"

text \<open>A write fails after as many bytes as the fault says.\<close>

definition put_stream :: "string option \<Rightarrow> string \<Rightarrow> (out_streams, bool) state" where
  "put_stream stream s = do {
     f \<leftarrow> on_output_disk fault;
     _ \<leftarrow> modify (append_stream stream (case f of None \<Rightarrow> s | Some n \<Rightarrow> take n s));
     State_Monad.return (f = None)
   }"

definition flush_stream :: "(out_streams, bool) state" where
  "flush_stream = do { f \<leftarrow> on_output_disk fault; State_Monad.return (f = None) }"

section \<open>A line\<close>

text \<open>\<open>serialized\<close> is what the writer of yyjson makes of the document, \<open>None\<close> when it refuses it.\<close>

definition en_json_mut_doc_write_line :: "string option \<Rightarrow> string option \<Rightarrow> (out_streams, en_error_code) state" where
  "en_json_mut_doc_write_line stream serialized =
     (case serialized of
        None \<Rightarrow> State_Monad.return EN_ERR_INVALID_ARGUMENT
      | Some s \<Rightarrow> do {
          written \<leftarrow> put_stream stream s;
          if \<not> written then State_Monad.return EN_ERR_INVALID_ARGUMENT
          else do {
            ended \<leftarrow> put_stream stream [LF];
            if \<not> ended then State_Monad.return EN_ERR_INVALID_ARGUMENT
            else do {
              flushed \<leftarrow> flush_stream;
              State_Monad.return (if flushed then EN_ERR_NONE else EN_ERR_INVALID_ARGUMENT)
            }
          }
        })"

section \<open>What a line does to a stream\<close>

text \<open>The stream is open on a regular file, if it is a file at all.\<close>

definition stream_open :: "string option \<Rightarrow> out_streams \<Rightarrow> bool" where
  "stream_open stream u \<longleftrightarrow> (case stream of None \<Rightarrow> True | Some name \<Rightarrow> dk_files (ou_disk u) name \<noteq> None)"

definition quiet :: "out_streams \<Rightarrow> bool" where
  "quiet u \<longleftrightarrow> dk_faults (ou_disk u) = (\<lambda>_. None)"

lemma run_output_fault [simp]:
  "run_state (on_output_disk fault) u = (dk_faults (ou_disk u) (dk_calls (ou_disk u)),
     u\<lparr>ou_disk := (ou_disk u)\<lparr>dk_calls := Suc (dk_calls (ou_disk u))\<rparr>\<rparr>)"
  by (simp add: on_output_disk_def)

lemmas stream_defs = append_stream_def append_file_def stream_open_def stream_text_def quiet_def

lemma append_stream_facts [simp]:
  "stream_open stream (append_stream stream s u) = stream_open stream u"
  "quiet (append_stream stream s u) = quiet u"
  "stream_open stream u \<Longrightarrow> stream_text stream (append_stream stream s u) = stream_text stream u @ s"
  by (auto simp: stream_defs split: option.splits)

lemma counted_facts [simp]:
  "stream_open stream (u\<lparr>ou_disk := (ou_disk u)\<lparr>dk_calls := n\<rparr>\<rparr>) = stream_open stream u"
  "quiet (u\<lparr>ou_disk := (ou_disk u)\<lparr>dk_calls := n\<rparr>\<rparr>) = quiet u"
  "stream_text stream (u\<lparr>ou_disk := (ou_disk u)\<lparr>dk_calls := n\<rparr>\<rparr>) = stream_text stream u"
  by (auto simp: stream_defs split: option.splits)

text \<open>Without faults the whole line is there, or nothing when the writer refuses the document.\<close>

lemma put_stream_quiet:
  assumes "quiet u" "stream_open stream u"
  obtains v where "run_state (put_stream stream s) u = (True, v)" "quiet v" "stream_open stream v"
    "stream_text stream v = stream_text stream u @ s"
proof -
  let ?v = "append_stream stream s (u\<lparr>ou_disk := (ou_disk u)\<lparr>dk_calls := Suc (dk_calls (ou_disk u))\<rparr>\<rparr>)"
  have "run_state (put_stream stream s) u = (True, ?v)"
    using assms(1) by (simp add: put_stream_def quiet_def)
  with assms that show ?thesis by simp
qed

lemma write_line_quiet:
  assumes "quiet u" "stream_open stream u"
  shows "\<exists>v. run_state (en_json_mut_doc_write_line stream serialized) u =
      (if serialized = None then EN_ERR_INVALID_ARGUMENT else EN_ERR_NONE, v) \<and> quiet v \<and> stream_open stream v \<and>
    stream_text stream v = stream_text stream u @ (case serialized of None \<Rightarrow> [] | Some s \<Rightarrow> s @ [LF])"
proof (cases serialized)
  case None
  with assms show ?thesis by (simp add: en_json_mut_doc_write_line_def)
next
  case (Some s)
  obtain v where v: "run_state (put_stream stream s) u = (True, v)" "quiet v" "stream_open stream v"
    "stream_text stream v = stream_text stream u @ s"
    using put_stream_quiet [OF assms] by blast
  obtain w where w: "run_state (put_stream stream [LF]) v = (True, w)" "quiet w" "stream_open stream w"
    "stream_text stream w = stream_text stream v @ [LF]"
    using put_stream_quiet [OF v(2,3)] by blast
  from Some v w show ?thesis
    by (simp add: en_json_mut_doc_write_line_def flush_stream_def) (simp add: quiet_def)
qed

text \<open>With faults, what was there before still starts the text.\<close>

lemma put_stream_extends:
  assumes "stream_open stream u" "run_state (put_stream stream s) u = (ok, v)"
  shows "stream_open stream v \<and> starts_with (stream_text stream v) (stream_text stream u)"
  using assms by (auto simp: put_stream_def starts_with_iff)

lemma write_line_extends:
  assumes "stream_open stream u" "run_state (en_json_mut_doc_write_line stream serialized) u = (e, v)"
  shows "stream_open stream v \<and> starts_with (stream_text stream v) (stream_text stream u)"
proof (cases serialized)
  case None
  with assms show ?thesis by (auto simp: en_json_mut_doc_write_line_def starts_with_iff)
next
  case (Some s)
  obtain ok a where a: "run_state (put_stream stream s) u = (ok, a)" by (meson surj_pair)
  obtain ok' b where b: "run_state (put_stream stream [LF]) a = (ok', b)" by (meson surj_pair)
  note ab = put_stream_extends [OF assms(1) a] put_stream_extends [OF _ b]
  with Some assms(2) a b show ?thesis
    by (auto simp: en_json_mut_doc_write_line_def flush_stream_def starts_with_iff split: if_splits)
qed

end
