(* ===== verification/AgentProbe.thy ===== *)
theory AgentProbe
  imports JsonStream YamlScalar DaemonOptions
begin

text \<open>
  The measurements of \<open>src/examples/eventnet_agent.c\<close>: the checks of labels, targets and numbers, a run of \<open>ping\<close> and
  what is read off its output, the counters the agent keeps per probe, and the record it writes. What \<open>ping\<close> does is a
  parameter. Windows is left out.
\<close>

section \<open>Labels and targets\<close>

text \<open>\<open>valid_label\<close> of the agent is the one of \<^verbatim>\<open>TextScan\<close>, with the same characters.\<close>

definition target_char :: "char \<Rightarrow> bool" where
  "target_char c \<longleftrightarrow> isdigit c \<or> c = CHR ''.'' \<or> c = CHR '':''"

definition valid_target :: "string option \<Rightarrow> bool" where
  "valid_target target \<longleftrightarrow> (case target of None \<Rightarrow> False | Some t \<Rightarrow> t \<noteq> [] \<and> list_all target_char t)"

section \<open>Numbers\<close>

definition parse_integer_argument :: "string \<Rightarrow> int \<Rightarrow> int \<Rightarrow> int option" where
  "parse_integer_argument s minimum maximum =
     (if s = [] then None
      else case strtoll10 s of
        None \<Rightarrow> None
      | Some (parsed, rest) \<Rightarrow>
          if saturate64 parsed \<noteq> parsed \<or> rest \<noteq> [] \<or> parsed < minimum \<or> maximum < parsed then None else Some parsed)"

definition parse_decimal_argument :: "string \<Rightarrow> cdouble \<Rightarrow> cdouble \<Rightarrow> cdouble option" where
  "parse_decimal_argument s minimum maximum =
     (if s = [] then None
      else case strtod s of
        None \<Rightarrow> None
      | Some (parsed, rest) \<Rightarrow>
          if rest \<noteq> [] \<or> \<not> isfinite parsed \<or> parsed < minimum \<or> maximum < parsed then None else Some parsed)"

definition max_rtt_ms :: cdouble where "max_rtt_ms = Fin 86400000"

definition ms_unit :: "string \<Rightarrow> bool" where
  "ms_unit s \<longleftrightarrow> (let u = dropWhile isspace s in starts_with u ''ms'' \<and> dropWhile isspace (drop 2 u) = [])"

definition parse_ping_rtt :: "string \<Rightarrow> cdouble option" where
  "parse_ping_rtt s =
     (if s = [] then None
      else case strtod s of
        None \<Rightarrow> None
      | Some (parsed, rest) \<Rightarrow>
          if \<not> isfinite parsed \<or> parsed < Fin 0 \<or> max_rtt_ms < parsed \<or> \<not> ms_unit rest then None else Some parsed)"

section \<open>A run of ping\<close>

text \<open>
  \<open>NO_PIPE\<close>, \<open>NO_CHILD\<close>, \<open>NO_STREAM\<close>: \<open>pipe\<close>, \<open>fork\<close>, \<open>fdopen\<close> failed. Else what the child wrote to either of its two
  outputs, and its exit status when \<open>waitpid\<close> reports one.
\<close>

datatype ping_run = NO_PIPE | NO_CHILD | NO_STREAM | PINGED string "int option"

text \<open>The last line with a time that parses counts.\<close>

definition ping_line :: "string \<Rightarrow> cdouble option \<Rightarrow> cdouble option" where
  "ping_line l seen = (case strstr l ''time='' of
     None \<Rightarrow> seen
   | Some time_value \<Rightarrow> (case parse_ping_rtt (drop 5 time_value) of None \<Rightarrow> seen | Some rtt \<Rightarrow> Some rtt))"

text \<open>The round-trip time and the loss; \<open>success\<close> is that nothing was lost.\<close>

definition measure_ping :: "ping_run \<Rightarrow> cdouble \<times> cdouble" where
  "measure_ping run = (case run of
     PINGED printed status \<Rightarrow>
       (case fold ping_line (fgets_chunks 512 printed) None of
          Some rtt \<Rightarrow> if status = Some 0 then (rtt, Fin 0) else (Fin 0, Fin 100)
        | None \<Rightarrow> (Fin 0, Fin 100))
   | _ \<Rightarrow> (Fin 0, Fin 100))"

section \<open>Time\<close>

text \<open>What \<open>timespec_get\<close> gives in seconds and nanoseconds, or else \<open>time\<close> in seconds.\<close>

datatype clock_reading = TIMESPEC int int | SECONDS int

definition now_ms :: "clock_reading \<Rightarrow> int" where
  "now_ms r = (case r of TIMESPEC sec nsec \<Rightarrow> sec * 1000 + nsec div 1000000 | SECONDS sec \<Rightarrow> sec * 1000)"

text \<open>The seconds and nanoseconds of the sleep.\<close>

definition wait_ms :: "int \<Rightarrow> (int \<times> int) option" where
  "wait_ms milliseconds =
     (if 0 < milliseconds then Some (milliseconds div 1000, milliseconds mod 1000 * 1000000) else None)"

section \<open>The counters of a probe\<close>

record tracker =
  tk_previous_rtt :: cdouble
  tk_has_previous_rtt :: bool
  tk_successes :: int
  tk_failures :: int

definition new_tracker :: tracker where
  "new_tracker = \<lparr>tk_previous_rtt = Fin 0, tk_has_previous_rtt = False, tk_successes = 0, tk_failures = 0\<rparr>"

definition jitter_of :: "tracker \<Rightarrow> cdouble \<Rightarrow> cdouble \<Rightarrow> cdouble" where
  "jitter_of t rtt loss =
     (if tk_has_previous_rtt t \<and> loss < Fin 100 \<and> Fin 0 < rtt then
        if tk_previous_rtt t < rtt then d_sub rtt (tk_previous_rtt t) else d_sub (tk_previous_rtt t) rtt
      else Fin 0)"

definition track :: "cdouble \<times> cdouble \<Rightarrow> tracker \<Rightarrow> tracker" where
  "track m t = (case m of (rtt, loss) \<Rightarrow>
     let t' = (if loss < Fin 100 \<and> Fin 0 < rtt then t\<lparr>tk_previous_rtt := rtt, tk_has_previous_rtt := True\<rparr> else t) in
     if Fin 100 \<le> loss then t'\<lparr>tk_failures := tk_failures t' + 1, tk_successes := 0\<rparr>
     else t'\<lparr>tk_successes := tk_successes t' + 1, tk_failures := 0\<rparr>)"

section \<open>The record\<close>

record agent_probe =
  pb_path_id :: string
  pb_source :: "string option"
  pb_target :: string

record measurement =
  ms_sequence :: int
  ms_rtt :: cdouble
  ms_loss :: cdouble
  ms_jitter :: cdouble
  ms_successes :: int
  ms_failures :: int
  ms_now :: int

definition measurement_event :: "agent_probe \<Rightarrow> measurement \<Rightarrow> json_object" where
  "measurement_event p m =
     [(''schema'', JString ''ibuki.telemetry.path_health.v1''), (''path_id'', JString (pb_path_id p))] @
     (case pb_source p of None \<Rightarrow> [] | Some s \<Rightarrow> [(''source'', JString s)]) @
     [(''target'', JString (pb_target p)), (''sequence'', json_int (ms_sequence m)), (''rtt_ms'', JReal (ms_rtt m)),
      (''packet_loss_percent'', JReal (ms_loss m)), (''jitter_ms'', JReal (ms_jitter m)),
      (''state'', JString (if Fin 100 \<le> ms_loss m then ''failed'' else ''healthy'')),
      (''consecutive_successes'', json_int (ms_successes m)), (''consecutive_failures'', json_int (ms_failures m)),
      (''timestamp_ms'', json_int (ms_now m))]"

definition write_measurement ::
  "json_writer \<Rightarrow> string option \<Rightarrow> agent_probe \<Rightarrow> measurement \<Rightarrow> (out_streams, unit) state" where
  "write_measurement write stream p m = do {
     _ \<leftarrow> en_json_mut_doc_write_line stream (write (measurement_event p m));
     skip
   }"

section \<open>Ranges\<close>

lemma round_half_even_le: "of_int (round_half_even x) \<le> x + 1 / 2"
  using of_int_floor_le [of x] by (auto simp: round_half_even_def Let_def) linarith+

text \<open>A rounded value is at most twice the value, or the last place of the smallest ones.\<close>

lemma round_pos_le:
  assumes "0 < q"
  shows "round_pos q \<le> 2 * max q 1"
proof -
  define u where "u = max (ilog2 q - 52) (- 1074)"
  have "pow2 u \<le> max q 1"
  proof (cases "u = - 1074")
    case True
    then show ?thesis by (simp add: pow2_def)
  next
    case False
    then have "u = ilog2 q - 52" by (simp add: u_def max_def split: if_splits)
    then have "pow2 u \<le> pow2 (ilog2 q)" by (simp add: pow2_mono)
    also have "\<dots> \<le> q" by (rule pow2_ilog2_le [OF assms])
    finally show ?thesis by simp
  qed
  moreover have "of_int (round_half_even (q / pow2 u)) * pow2 u \<le> (q / pow2 u + 1 / 2) * pow2 u"
    by (rule mult_right_mono [OF round_half_even_le]) (simp add: less_imp_le)
  moreover have "(q / pow2 u + 1 / 2) * pow2 u = q + pow2 u / 2"
    using pow2_pos [of u] by (simp add: distrib_right less_imp_neq [symmetric])
  moreover have "round_pos q = of_int (round_half_even (q / pow2 u)) * pow2 u"
    by (simp add: round_pos_def u_def Let_def)
  moreover have "q \<le> max q 1" by simp
  ultimately show ?thesis using pow2_pos [of u] by linarith
qed

lemma round64_finite:
  assumes "0 \<le> q" "q \<le> 2 ^ 64"
  obtains v where "round64 q = Fin v" "0 \<le> v"
proof (cases "q = 0")
  case True
  with that show ?thesis by simp
next
  case False
  have "round_pos q \<le> 2 * max q 1" using False assms(1) by (intro round_pos_le) simp
  also have "\<dots> \<le> 2 * 2 ^ 64" using assms(2) by simp
  also have "\<dots> < pow2 1024" by (simp add: pow2_def)
  finally have "round_pos q < pow2 1024" .
  with False assms(1) have "round64 q = Fin (round_pos q)" by (simp add: round64_def Let_def)
  with that round_pos_nonneg [OF assms(1)] show ?thesis by blast
qed

text \<open>What a probe may measure, and the counters that follow from it.\<close>

definition rtt_ok :: "cdouble \<Rightarrow> bool" where
  "rtt_ok d \<longleftrightarrow> (\<exists>q. d = Fin q \<and> 0 \<le> q \<and> q \<le> 86400000)"

definition measured :: "cdouble \<times> cdouble \<Rightarrow> bool" where
  "measured m \<longleftrightarrow> rtt_ok (fst m) \<and> loss_ok (snd m)"

lemma measured_Pair [simp]: "measured (rtt, loss) \<longleftrightarrow> rtt_ok rtt \<and> loss_ok loss"
  by (simp add: measured_def)

lemma rtt_okI: "isfinite d \<Longrightarrow> \<not> d < Fin 0 \<Longrightarrow> \<not> max_rtt_ms < d \<Longrightarrow> rtt_ok d"
  by (auto simp: max_rtt_ms_def rtt_ok_def isfinite_iff not_less)

lemma parse_ping_rtt_ok:
  assumes "parse_ping_rtt s = Some rtt"
  shows "rtt_ok rtt"
proof -
  show ?thesis
  proof (cases "strtod s")
    case None
    with assms show ?thesis by (cases "s = []") (simp_all add: parse_ping_rtt_def)
  next
    case (Some p)
    with assms have "isfinite (fst p) \<and> \<not> fst p < Fin 0 \<and> \<not> max_rtt_ms < fst p \<and> fst p = rtt"
      by (cases p) (simp add: parse_ping_rtt_def split: if_split_asm)
    then show ?thesis using rtt_okI by blast
  qed
qed

lemma ping_lines_ok: "list_all rtt_ok (case_option [] (\<lambda>r. [r]) seen) \<Longrightarrow> fold ping_line ls seen = Some rtt \<Longrightarrow> rtt_ok rtt"
proof (induction ls arbitrary: seen)
  case (Cons l ls)
  from Cons.prems(1) have "list_all rtt_ok (case_option [] (\<lambda>r. [r]) (ping_line l seen))"
    by (auto simp: ping_line_def dest: parse_ping_rtt_ok split: option.splits)
  with Cons show ?case by simp
qed simp

lemma measure_ping_ok: "measured (measure_ping run)"
proof -
  have "rtt_ok rtt" if "fold ping_line ls None = Some rtt" for ls rtt
    using ping_lines_ok [of None ls rtt] that by simp
  then show ?thesis
    by (auto simp: measure_ping_def loss_ok_def split: ping_run.splits option.splits)
      (simp_all add: rtt_ok_def)
qed

section \<open>The counters\<close>

definition trailing :: "('a \<Rightarrow> bool) \<Rightarrow> 'a list \<Rightarrow> nat" where
  "trailing P xs = length (takeWhile P (rev xs))"

lemma trailing_snoc [simp]: "trailing P [] = 0" "trailing P (xs @ [x]) = (if P x then Suc (trailing P xs) else 0)"
  by (simp_all add: trailing_def)

lemma trailing_le: "trailing P xs \<le> length xs"
  unfolding trailing_def using length_takeWhile_le [of P "rev xs"] by simp

definition all_lost :: "cdouble \<times> cdouble \<Rightarrow> bool" where
  "all_lost m \<longleftrightarrow> Fin 100 \<le> snd m"

text \<open>The measurements that count for the jitter.\<close>

definition timed :: "cdouble \<times> cdouble \<Rightarrow> bool" where
  "timed m \<longleftrightarrow> snd m < Fin 100 \<and> Fin 0 < fst m"

definition last_timed :: "(cdouble \<times> cdouble) list \<Rightarrow> cdouble option" where
  "last_timed ms = map_option fst (find timed (rev ms))"

definition jitter_between :: "cdouble option \<Rightarrow> cdouble \<times> cdouble \<Rightarrow> cdouble" where
  "jitter_between previous m = (case previous of
     None \<Rightarrow> Fin 0
   | Some p \<Rightarrow> if timed m then (if p < fst m then d_sub (fst m) p else d_sub p (fst m)) else Fin 0)"

text \<open>
  What the tracker holds after a list of measurements: how many of the last ones in a row were lost, or were not, and
  the latest measured time.
\<close>

definition tracks :: "(cdouble \<times> cdouble) list \<Rightarrow> tracker \<Rightarrow> bool" where
  "tracks ms t \<longleftrightarrow>
     tk_failures t = int (trailing all_lost ms) \<and> tk_successes t = int (trailing (\<lambda>m. \<not> all_lost m) ms) \<and>
     tk_has_previous_rtt t = (last_timed ms \<noteq> None) \<and> (\<forall>r. last_timed ms = Some r \<longrightarrow> tk_previous_rtt t = r)"

lemma tracks_new: "tracks [] new_tracker"
  by (simp add: tracks_def new_tracker_def last_timed_def)

lemma tracks_track: "tracks ms t \<Longrightarrow> tracks (ms @ [m]) (track m t)"
  by (cases m) (simp add: tracks_def track_def Let_def all_lost_def timed_def last_timed_def)

lemma tracks_jitter: "tracks ms t \<Longrightarrow> jitter_of t (fst m) (snd m) = jitter_between (last_timed ms) m"
  by (cases "last_timed ms") (simp_all add: tracks_def jitter_of_def jitter_between_def timed_def)

lemma tracks_fold: "tracks ms (fold track ms new_tracker)"
  by (induction ms rule: rev_induct) (simp_all add: tracks_new tracks_track)

lemma last_timed_ok:
  assumes "list_all measured ms" "last_timed ms = Some r"
  shows "rtt_ok r"
proof -
  from assms(2) obtain m where "find timed (rev ms) = Some m" and r: "r = fst m" by (auto simp: last_timed_def)
  then have "m \<in> set ms" using find_Some_mem [of timed "rev ms" m] by simp
  with assms(1) r show ?thesis by (auto simp: list_all_iff measured_def)
qed

lemma rtt_difference:
  assumes "rtt_ok a" "rtt_ok b" "\<not> a < b"
  shows "metric_ok (d_sub a b)"
proof -
  obtain x y where xy: "a = Fin x" "b = Fin y" "0 \<le> x" "x \<le> 86400000" "0 \<le> y" using assms(1,2) by (auto simp: rtt_ok_def)
  with assms(3) have "0 \<le> x - y" "x - y \<le> 2 ^ 64" by auto
  then obtain v where "round64 (x - y) = Fin v" "0 \<le> v" using round64_finite by blast
  with xy show ?thesis by (simp add: d_sub_def metric_ok_def)
qed

lemma jitter_between_ok:
  assumes "measured m" "\<forall>r. previous = Some r \<longrightarrow> rtt_ok r"
  shows "metric_ok (jitter_between previous m)"
proof (cases previous)
  case None
  then show ?thesis by (simp add: jitter_between_def metric_ok_def)
next
  case (Some p)
  with assms have "rtt_ok p" "rtt_ok (fst m)" by (auto simp: measured_def)
  with rtt_difference cdouble_less_asym show ?thesis
    unfolding jitter_between_def Some by (auto simp: metric_ok_def [of "Fin 0"])
qed

section \<open>The record\<close>

definition probe_ok :: "agent_probe \<Rightarrow> bool" where
  "probe_ok p \<longleftrightarrow> valid_label (pb_path_id p) \<and> valid_target (Some (pb_target p)) \<and>
     (\<forall>s. pb_source p = Some s \<longrightarrow> valid_label s)"

definition probe_fits :: "agent_probe \<Rightarrow> bool" where
  "probe_fits p \<longleftrightarrow> length (pb_path_id p) < EN_MAX_ID_LEN \<and> length (pb_target p) < EN_MAX_ID_LEN \<and>
     (\<forall>s. pb_source p = Some s \<longrightarrow> length s < EN_MAX_ID_LEN)"

definition measurement_ok :: "measurement \<Rightarrow> bool" where
  "measurement_ok m \<longleftrightarrow> metric_ok (ms_rtt m) \<and> loss_ok (ms_loss m) \<and> metric_ok (ms_jitter m) \<and>
     count_ok (ms_sequence m) \<and> count_ok (ms_successes m) \<and> count_ok (ms_failures m) \<and> 0 \<le> ms_now m \<and> ms_now m < 2 ^ 63"

text \<open>The record the reader makes of a measurement.\<close>

definition measurement_record :: "agent_probe \<Rightarrow> measurement \<Rightarrow> en_path_health" where
  "measurement_record p m = zero_health\<lparr>ph_path_id := pb_path_id p, ph_source_node := (case pb_source p of None \<Rightarrow> [] | Some s \<Rightarrow> s),
     ph_target := pb_target p, ph_sequence := ms_sequence m, ph_rtt_ms := ms_rtt m, ph_packet_loss_percent := ms_loss m,
     ph_jitter_ms := ms_jitter m, ph_state := (if Fin 100 \<le> ms_loss m then EN_HEALTH_FAILED else EN_HEALTH_HEALTHY),
     ph_consecutive_successes := ms_successes m, ph_consecutive_failures := ms_failures m, ph_last_updated_ms := ms_now m\<rparr>"

lemma target_label: "valid_target (Some t) \<Longrightarrow> valid_label t"
  by (auto simp: valid_target_def target_char_def valid_label_def token_char_def isalnum_def list_all_iff)

lemma count_read_back:
  assumes "count_ok i"
  shows "int_field (Some (read_back (json_int i)))" "yyjson_get_sint (Some (read_back (json_int i))) = i"
    "read_back (json_int i) \<noteq> JString s"
  using assms read_back_json_int [of i] by (simp_all add: count_ok_def int_field_def INT_MAX_def)

lemma metrics_read: "metric_ok r \<Longrightarrow> loss_ok l \<Longrightarrow> metric_ok j \<Longrightarrow> metrics_in_range r l j"
  by (auto simp: metrics_in_range_def metric_ok_def loss_ok_def)

text \<open>A measurement that is written in range is read back as itself.\<close>

lemma probe_strings:
  assumes "probe_ok p"
  shows "CHR 0x00 \<notin> set (pb_path_id p)" "CHR 0x00 \<notin> set (pb_target p)"
    "\<And>s. pb_source p = Some s \<Longrightarrow> CHR 0x00 \<notin> set s" "valid_label (pb_path_id p)" "valid_label (pb_target p)"
    "\<And>s. pb_source p = Some s \<Longrightarrow> valid_label s"
  using assms by (auto simp: probe_ok_def dest: label_no_nul target_label)

lemma measurement_reads_back:
  assumes "reads_back write read" "write (measurement_event p m) = Some s"
    and "probe_ok p" "probe_fits p" "measurement_ok m"
  shows "en_telemetry_parse_json_line read (s @ [LF]) = Inr (measurement_record p m)"
proof -
  note strings = probe_strings [OF assms(3)]
  have m: "metric_ok (ms_rtt m)" "loss_ok (ms_loss m)" "metric_ok (ms_jitter m)" "count_ok (ms_sequence m)"
    "count_ok (ms_successes m)" "count_ok (ms_failures m)" "0 \<le> ms_now m" "ms_now m < 2 ^ 63"
    using assms(5) by (simp_all add: measurement_ok_def)
  note counts = count_read_back [OF m(4)] count_read_back [OF m(5)] count_read_back [OF m(6)]
  note now = read_back_json_int [OF m(7,8)]
  note range = metrics_read [OF m(1-3)]
  have late: "ms_now m \<le> 9223372036854775807" using m(8) by simp
  have read: "read (s @ [LF]) = Some (JObject (map (apsnd read_back) (measurement_event p m)))"
    using assms(1,2) by (simp add: reads_back_def)
  have real: "read_back (JReal d) = JReal d" for d by (simp add: read_back_def)
  have nul: "no_embedded_nul (map (apsnd read_back) (measurement_event p m))"
    using strings counts now
    by (auto simp: measurement_event_def no_embedded_nul_def real split: option.splits json_value.splits)
  define doc where "doc = map (apsnd read_back) (measurement_event p m)"
  have schema: "valid_label ''ibuki.telemetry.path_health.v1''" by code_simp
  have get: "yyjson_obj_get doc ''schema'' = Some (JString ''ibuki.telemetry.path_health.v1'')"
    "yyjson_obj_get doc ''path_id'' = Some (JString (pb_path_id p))"
    "yyjson_obj_get doc ''source'' = map_option JString (pb_source p)"
    "yyjson_obj_get doc ''target'' = Some (JString (pb_target p))"
    "yyjson_obj_get doc ''sequence'' = Some (read_back (json_int (ms_sequence m)))"
    "yyjson_obj_get doc ''rtt_ms'' = Some (JReal (ms_rtt m))"
    "yyjson_obj_get doc ''packet_loss_percent'' = Some (JReal (ms_loss m))"
    "yyjson_obj_get doc ''jitter_ms'' = Some (JReal (ms_jitter m))"
    "yyjson_obj_get doc ''state'' = Some (JString (if Fin 100 \<le> ms_loss m then ''failed'' else ''healthy''))"
    "yyjson_obj_get doc ''consecutive_successes'' = Some (read_back (json_int (ms_successes m)))"
    "yyjson_obj_get doc ''consecutive_failures'' = Some (read_back (json_int (ms_failures m)))"
    "yyjson_obj_get doc ''timestamp_ms'' = Some (JUint (word_of_int (ms_now m)))"
    by (cases "pb_source p"; simp add: doc_def measurement_event_def real now(1))+
  show ?thesis
    using assms(4) strings schema
    unfolding en_telemetry_parse_json_line_def read [folded doc_def]
    by (cases "pb_source p"; cases "Fin 100 \<le> ms_loss m")
      (simp_all add: nul [folded doc_def] get counts now range m(7) late schema_record_def str_at_def
        label_field_def health_record_def health_state_of_def common_fields_def optional_label_def optional_int_def
        timestamp_of_def count_field_def measurement_record_def probe_fits_def zero_health_def Let_def)
qed

end
