(* ===== verification/AgentMain.thy ===== *)
theory AgentMain
  imports AgentProbe NetnsMain
begin

text \<open>
  \<open>main\<close> of \<open>src/examples/eventnet_agent.c\<close>: the command line, the probes it names or derives from the configuration, the
  opening of the output, and the rounds of measurements.
\<close>

section \<open>The command line\<close>

record agent_options =
  ao_path_id :: "string option"
  ao_yaml_file :: "string option"
  ao_intent_id :: "string option"
  ao_source :: "string option"
  ao_target :: "string option"
  ao_output :: "string option"
  ao_append_output :: bool
  ao_interval_ms :: int
  ao_count :: int
  ao_simulate :: bool
  ao_simulated_rtt_ms :: cdouble
  ao_simulated_loss :: cdouble
  ao_probes :: "agent_probe list"

definition agent_defaults :: agent_options where
  "agent_defaults = \<lparr>ao_path_id = None, ao_yaml_file = None, ao_intent_id = None, ao_source = None, ao_target = None,
     ao_output = None, ao_append_output = False, ao_interval_ms = 1000, ao_count = 1, ao_simulate = False,
     ao_simulated_rtt_ms = Fin 10, ao_simulated_loss = Fin 0, ao_probes = []\<rparr>"

text \<open>
  The loop over the arguments: an exit status, or the options. A probe takes the source that is set when it is read.
\<close>

fun agent_arguments :: "agent_options \<Rightarrow> string list \<Rightarrow> int + agent_options" where
  "agent_arguments opts [] = Inr opts"
| "agent_arguments opts [a] =
     (if strcmp a ''--append'' = 0 then Inr (opts\<lparr>ao_append_output := True\<rparr>)
      else if strcmp a ''--help'' = 0 \<or> strcmp a ''-h'' = 0 then Inl 0
      else Inl 2)"
| "agent_arguments opts (a # v # rest) =
     (if strcmp a ''--path'' = 0 then agent_arguments (opts\<lparr>ao_path_id := Some v\<rparr>) rest
      else if strcmp a ''--source'' = 0 then agent_arguments (opts\<lparr>ao_source := Some v\<rparr>) rest
      else if strcmp a ''--target'' = 0 then agent_arguments (opts\<lparr>ao_target := Some v\<rparr>) rest
      else if strcmp a ''--yaml'' = 0 then agent_arguments (opts\<lparr>ao_yaml_file := Some v\<rparr>) rest
      else if strcmp a ''--intent'' = 0 then agent_arguments (opts\<lparr>ao_intent_id := Some v\<rparr>) rest
      else if strcmp a ''--probe'' = 0 \<and> rest \<noteq> [] then
        if EN_MAX_PATHS \<le> length (ao_probes opts) then Inl 2
        else agent_arguments (opts\<lparr>ao_probes := ao_probes opts @
          [\<lparr>pb_path_id = v, pb_source = ao_source opts, pb_target = hd rest\<rparr>]\<rparr>) (tl rest)
      else if strcmp a ''--output'' = 0 then agent_arguments (opts\<lparr>ao_output := Some v\<rparr>) rest
      else if strcmp a ''--append'' = 0 then agent_arguments (opts\<lparr>ao_append_output := True\<rparr>) (v # rest)
      else if strcmp a ''--count'' = 0 then
        (case parse_integer_argument v 1 INT_MAX of
           None \<Rightarrow> Inl 2 | Some n \<Rightarrow> agent_arguments (opts\<lparr>ao_count := n\<rparr>) rest)
      else if strcmp a ''--interval-ms'' = 0 then
        (case parse_integer_argument v 0 INT_MAX of
           None \<Rightarrow> Inl 2 | Some n \<Rightarrow> agent_arguments (opts\<lparr>ao_interval_ms := n\<rparr>) rest)
      else if strcmp a ''--simulate'' = 0 \<and> rest \<noteq> [] then
        (case (parse_decimal_argument v (Fin 0) max_rtt_ms, parse_decimal_argument (hd rest) (Fin 0) (Fin 100)) of
           (Some rtt, Some loss) \<Rightarrow> agent_arguments (opts\<lparr>ao_simulate := True, ao_simulated_rtt_ms := rtt,
             ao_simulated_loss := loss\<rparr>) (tl rest)
         | _ \<Rightarrow> Inl 2)
      else if strcmp a ''--help'' = 0 \<or> strcmp a ''-h'' = 0 then Inl 0
      else Inl 2)"

definition agent_options_refused :: "agent_options \<Rightarrow> bool" where
  "agent_options_refused opts \<longleftrightarrow>
     (ao_yaml_file opts \<noteq> None \<and> ao_probes opts \<noteq> []) \<or>
     (ao_yaml_file opts \<noteq> None \<and> (ao_path_id opts \<noteq> None \<or> ao_target opts \<noteq> None)) \<or>
     (ao_yaml_file opts \<noteq> None \<and> ao_source opts \<noteq> None) \<or>
     (ao_intent_id opts \<noteq> None \<and> ao_yaml_file opts = None) \<or>
     (ao_probes opts = [] \<and> ao_yaml_file opts = None \<and>
        (case ao_path_id opts of None \<Rightarrow> True | Some p \<Rightarrow> \<not> valid_label p \<or> \<not> valid_target (ao_target opts))) \<or>
     (ao_probes opts \<noteq> [] \<and> (ao_path_id opts \<noteq> None \<or> ao_target opts \<noteq> None)) \<or>
     (case ao_source opts of None \<Rightarrow> False | Some s \<Rightarrow> \<not> valid_label s) \<or> ao_count opts \<le> 0 \<or> ao_interval_ms opts < 0 \<or>
     (ao_append_output opts \<and> ao_output opts = None)"

section \<open>The probes\<close>

definition probe_selected :: "en_intent option \<Rightarrow> en_path \<Rightarrow> bool" where
  "probe_selected selected_intent path = (case selected_intent of
     None \<Rightarrow> True
   | Some i \<Rightarrow> (let s = it_path_selection i in
       if ps_mode s = EN_SELECT_EXPLICIT then strcmp (ps_path_id s) (pt_path_id path) = 0
       else list_ex (\<lambda>c. strcmp c (pt_path_id path) = 0) (ps_candidates s)))"

definition terminal_tunnel :: "en_yaml_config \<Rightarrow> en_path \<Rightarrow> en_tunnel option" where
  "terminal_tunnel config path =
     (if pt_segments path = [] then None
      else find (\<lambda>t. strcmp (tn_tunnel_id t) (sg_tunnel_id (last (pt_segments path))) = 0) (yc_tunnels config))"

definition probe_target :: "en_yaml_config \<Rightarrow> en_path \<Rightarrow> string" where
  "probe_target config path =
     (case terminal_tunnel config path of None \<Rightarrow> pt_route_next_hop path | Some t \<Rightarrow> tn_remote_endpoint t)"

text \<open>The loop over the paths: \<open>None\<close> for exit status 2.\<close>

fun yaml_probes :: "en_yaml_config \<Rightarrow> en_intent option \<Rightarrow> agent_probe list \<Rightarrow> en_path list \<Rightarrow> agent_probe list option" where
  "yaml_probes config selected probes [] = Some probes"
| "yaml_probes config selected probes (path # ps) =
     (if \<not> probe_selected selected path then yaml_probes config selected probes ps
      else if EN_MAX_PATHS \<le> length probes then None
      else if \<not> valid_target (Some (probe_target config path)) then None
      else yaml_probes config selected (probes @ [\<lparr>pb_path_id = pt_path_id path, pb_source = Some (pt_source path),
        pb_target = probe_target config path\<rparr>]) ps)"

definition yaml_agent_probes :: "(string \<Rightarrow> (string \<times> bool) option) \<Rightarrow> agent_options \<Rightarrow> string \<Rightarrow> agent_probe list option" where
  "yaml_agent_probes fopen opts filename =
     (case en_yaml_config_load_file fopen (Some filename) True 256 of
        Parsed config \<Rightarrow>
          (case ao_intent_id opts of
             None \<Rightarrow> yaml_probes config None (ao_probes opts) (yc_paths config)
           | Some i \<Rightarrow> (case find (\<lambda>x. strcmp (it_intent_id x) i = 0) (yc_intents config) of
               None \<Rightarrow> None
             | Some intent \<Rightarrow> yaml_probes config (Some intent) (ao_probes opts) (yc_paths config)))
      | _ \<Rightarrow> None)"

text \<open>Every probe is checked, also against those before it.\<close>

fun check_probes :: "agent_probe list \<Rightarrow> agent_probe list \<Rightarrow> bool" where
  "check_probes before [] = True"
| "check_probes before (p # ps) =
     (if \<not> valid_label (pb_path_id p) \<or> \<not> valid_target (Some (pb_target p)) then False
      else if list_ex (\<lambda>q. strcmp (pb_path_id q) (pb_path_id p) = 0) before then False
      else check_probes (before @ [p]) ps)"

definition agent_plan :: "(string \<Rightarrow> (string \<times> bool) option) \<Rightarrow> agent_options \<Rightarrow> agent_probe list option" where
  "agent_plan fopen opts =
     (if agent_options_refused opts then None
      else case (case ao_yaml_file opts of
          None \<Rightarrow> Some (ao_probes opts)
        | Some f \<Rightarrow> (case yaml_agent_probes fopen opts f of
            None \<Rightarrow> None | Some probes \<Rightarrow> if probes = [] then None else Some probes)) of
        None \<Rightarrow> None
      | Some probes \<Rightarrow> if check_probes [] probes then Some probes else None)"

text \<open>Without a list of probes the one of \<open>--path\<close>, \<open>--source\<close> and \<open>--target\<close>, which are set then.\<close>

definition agent_probes :: "agent_options \<Rightarrow> agent_probe list \<Rightarrow> agent_probe list" where
  "agent_probes opts probes =
     (if probes = [] then [\<lparr>pb_path_id = the (ao_path_id opts), pb_source = ao_source opts, pb_target = the (ao_target opts)\<rparr>]
      else probes)"

section \<open>The output\<close>

definition open_agent_output :: "string \<Rightarrow> bool \<Rightarrow> (disk, bool) state" where
  "open_agent_output name appending = do {
     opened \<leftarrow> fault;
     files \<leftarrow> gets dk_files;
     if opened \<noteq> None then State_Monad.return False
     else do {
       _ \<leftarrow> (if files name = None
            then set_file name (Some \<lparr>df_kind = REGULAR, df_shared = False, df_content = []\<rparr>) else skip);
       found \<leftarrow> gets (\<lambda>d. dk_files d name);
       case found of
         None \<Rightarrow> State_Monad.return False
       | Some f \<Rightarrow>
           if df_kind f = SYMLINK then State_Monad.return False
           else do {
             checked \<leftarrow> fault;
             if checked \<noteq> None \<or> df_kind f \<noteq> REGULAR \<or> df_shared f then State_Monad.return False
             else do {
               truncated \<leftarrow> (if appending then State_Monad.return None else fault);
               if truncated \<noteq> None then State_Monad.return False
               else do {
                 _ \<leftarrow> (if appending then skip else set_file name (Some (f\<lparr>df_content := []\<rparr>)));
                 stream \<leftarrow> fault;
                 State_Monad.return (stream = None)
               }
             }
           }
     }
   }"

section \<open>The rounds\<close>

text \<open>
  \<open>ae_ping n target\<close> is the \<open>n\<close>-th run of \<open>ping\<close>, \<open>ae_clock n\<close> the \<open>n\<close>-th reading of the clock, \<open>ae_files\<close> what \<open>fopen\<close>
  gives. \<open>ag_pinged\<close> and \<open>ag_waits\<close> are the targets and the sleeps so far; \<open>ag_trackers\<close> is the static arrays, one tracker
  per index.
\<close>

record agent_env =
  ae_ping :: "nat \<Rightarrow> string \<Rightarrow> ping_run"
  ae_clock :: "nat \<Rightarrow> clock_reading"
  ae_write :: json_writer
  ae_files :: "string \<Rightarrow> (string \<times> bool) option"

record agent =
  ag_streams :: out_streams
  ag_trackers :: "tracker list"
  ag_pinged :: "string list"
  ag_readings :: nat
  ag_waits :: "(int \<times> int) list"

definition measure_probe :: "agent_env \<Rightarrow> agent_options \<Rightarrow> string \<Rightarrow> (agent, cdouble \<times> cdouble) state" where
  "measure_probe env opts target =
     (if ao_simulate opts then State_Monad.return (ao_simulated_rtt_ms opts, ao_simulated_loss opts)
      else do {
        pinged \<leftarrow> gets ag_pinged;
        _ \<leftarrow> modify (\<lambda>s. s\<lparr>ag_pinged := ag_pinged s @ [target]\<rparr>);
        State_Monad.return (measure_ping (ae_ping env (length pinged) target))
      })"

definition on_streams :: "(out_streams, 'a) state \<Rightarrow> (agent, 'a) state" where
  "on_streams m = State (\<lambda>s. case run_state m (ag_streams s) of (a, u) \<Rightarrow> (a, s\<lparr>ag_streams := u\<rparr>))"

text \<open>One probe: measure, jitter, counters, record.\<close>

definition probe_step :: "agent_env \<Rightarrow> agent_options \<Rightarrow> int \<Rightarrow> nat \<Rightarrow> agent_probe \<Rightarrow> (agent, unit) state" where
  "probe_step env opts sequence index p = do {
     m \<leftarrow> measure_probe env opts (pb_target p);
     before \<leftarrow> gets (\<lambda>s. ag_trackers s ! index);
     _ \<leftarrow> modify (\<lambda>s. s\<lparr>ag_trackers := (ag_trackers s)[index := track m (ag_trackers s ! index)]\<rparr>);
     after \<leftarrow> gets (\<lambda>s. ag_trackers s ! index);
     n \<leftarrow> gets ag_readings;
     _ \<leftarrow> modify (\<lambda>s. s\<lparr>ag_readings := Suc (ag_readings s)\<rparr>);
     on_streams (write_measurement (ae_write env) (ao_output opts) p
       \<lparr>ms_sequence = sequence, ms_rtt = fst m, ms_loss = snd m, ms_jitter = jitter_of before (fst m) (snd m),
        ms_successes = tk_successes after, ms_failures = tk_failures after, ms_now = now_ms (ae_clock env n)\<rparr>)
   }"

primrec probe_steps :: "agent_env \<Rightarrow> agent_options \<Rightarrow> int \<Rightarrow> nat \<Rightarrow> agent_probe list \<Rightarrow> (agent, unit) state" where
  "probe_steps env opts sequence index [] = skip"
| "probe_steps env opts sequence index (p # ps) = do {
     _ \<leftarrow> probe_step env opts sequence index p;
     probe_steps env opts sequence (Suc index) ps
   }"

definition pause :: "agent_options \<Rightarrow> int \<Rightarrow> (agent, unit) state" where
  "pause opts sequence = modify (\<lambda>s. case (if sequence < ao_count opts then wait_ms (ao_interval_ms opts) else None) of
     None \<Rightarrow> s | Some d \<Rightarrow> s\<lparr>ag_waits := ag_waits s @ [d]\<rparr>)"

text \<open>\<open>False\<close> when the increment of \<open>sequence\<close> overflows, which is undefined.\<close>

function agent_rounds :: "agent_env \<Rightarrow> agent_options \<Rightarrow> agent_probe list \<Rightarrow> int \<Rightarrow> (agent, bool) state" where
  "agent_rounds env opts probes sequence =
     (if ao_count opts < sequence then State_Monad.return True
      else do {
        _ \<leftarrow> probe_steps env opts sequence 0 probes;
        _ \<leftarrow> pause opts sequence;
        if sequence = INT_MAX then State_Monad.return False
        else agent_rounds env opts probes (sequence + 1)
      })"
  by pat_completeness auto
termination
  by (relation "measure (\<lambda>(env, opts, probes, sequence). nat (ao_count opts + 1 - sequence))") auto

declare agent_rounds.simps [simp del]

section \<open>The process\<close>

definition new_agent :: "out_streams \<Rightarrow> agent" where
  "new_agent u = \<lparr>ag_streams = u, ag_trackers = replicate EN_MAX_PATHS new_tracker, ag_pinged = [], ag_readings = 0, ag_waits = []\<rparr>"

text \<open>The exit status; \<open>None\<close> after undefined behaviour.\<close>

definition agent_main :: "agent_env \<Rightarrow> string list \<Rightarrow> out_streams \<Rightarrow> int option \<times> agent" where
  "agent_main env args u =
     (case agent_arguments agent_defaults args of
        Inl e \<Rightarrow> (Some e, new_agent u)
      | Inr opts \<Rightarrow> (case agent_plan (ae_files env) opts of
          None \<Rightarrow> (Some 2, new_agent u)
        | Some probes \<Rightarrow>
            (case (case ao_output opts of
                None \<Rightarrow> (True, u)
              | Some name \<Rightarrow> run_state (on_output_disk (open_agent_output name (ao_append_output opts))) u) of
               (False, v) \<Rightarrow> (Some 1, new_agent v)
             | (True, v) \<Rightarrow> (case run_state (agent_rounds env opts (agent_probes opts probes) 1) (new_agent v) of
                 (defined, s) \<Rightarrow> (if defined then Some 0 else None, s)))))"

end
