(* ===== verification/AgentSafety.thy ===== *)
theory AgentSafety
  imports AgentMain
begin

text \<open>
  What the agent of \<open>src/examples/eventnet_agent.c\<close> guarantees: the targets it hands to \<open>ping\<close>, the records it writes and
  their order, and that the daemon accepts the records of the probes that come from its configuration.
\<close>

section \<open>The options\<close>

definition options_ok :: "agent_options \<Rightarrow> bool" where
  "options_ok opts \<longleftrightarrow> length (ao_probes opts) \<le> EN_MAX_PATHS \<and> ao_count opts \<in> {1..INT_MAX} \<and>
     ao_interval_ms opts \<in> {0..INT_MAX} \<and> rtt_ok (ao_simulated_rtt_ms opts) \<and> loss_ok (ao_simulated_loss opts)"

lemma defaults_ok: "options_ok agent_defaults"
  by (simp add: options_ok_def agent_defaults_def INT_MAX_def rtt_ok_def loss_ok_def)

lemma integer_argument_range: "parse_integer_argument s lo hi = Some i \<Longrightarrow> lo \<le> i \<and> i \<le> hi"
  by (auto simp: parse_integer_argument_def split: if_splits option.splits)

lemma decimal_argument_range:
  "parse_decimal_argument s lo hi = Some d \<Longrightarrow> isfinite d \<and> \<not> d < lo \<and> \<not> hi < d"
  by (auto simp: parse_decimal_argument_def split: if_splits option.splits)

lemma decimal_argument_ok:
  "parse_decimal_argument s (Fin 0) max_rtt_ms = Some d \<Longrightarrow> rtt_ok d"
  "parse_decimal_argument s (Fin 0) (Fin 100) = Some d \<Longrightarrow> loss_ok d"
  by (auto dest!: decimal_argument_range intro: rtt_okI simp: loss_ok_def isfinite_iff not_less)

lemma options_ok_updates [simp]:
  "options_ok (opts\<lparr>ao_path_id := x\<rparr>) = options_ok opts" "options_ok (opts\<lparr>ao_source := x\<rparr>) = options_ok opts"
  "options_ok (opts\<lparr>ao_target := x\<rparr>) = options_ok opts" "options_ok (opts\<lparr>ao_yaml_file := x\<rparr>) = options_ok opts"
  "options_ok (opts\<lparr>ao_intent_id := x\<rparr>) = options_ok opts" "options_ok (opts\<lparr>ao_output := x\<rparr>) = options_ok opts"
  "options_ok (opts\<lparr>ao_append_output := b\<rparr>) = options_ok opts"
  by (simp_all add: options_ok_def)

lemma options_ok_probe: "options_ok opts \<Longrightarrow> \<not> EN_MAX_PATHS \<le> length (ao_probes opts) \<Longrightarrow>
    options_ok (opts\<lparr>ao_probes := ao_probes opts @ [p]\<rparr>)"
  by (simp add: options_ok_def)

lemma options_ok_numbers:
  "options_ok opts \<Longrightarrow> parse_integer_argument v 1 INT_MAX = Some n \<Longrightarrow> options_ok (opts\<lparr>ao_count := n\<rparr>)"
  "options_ok opts \<Longrightarrow> parse_integer_argument v 0 INT_MAX = Some n \<Longrightarrow> options_ok (opts\<lparr>ao_interval_ms := n\<rparr>)"
  "options_ok opts \<Longrightarrow> parse_decimal_argument v (Fin 0) max_rtt_ms = Some r \<Longrightarrow>
   parse_decimal_argument w (Fin 0) (Fin 100) = Some l \<Longrightarrow>
   options_ok (opts\<lparr>ao_simulate := b, ao_simulated_rtt_ms := r, ao_simulated_loss := l\<rparr>)"
  by (auto simp: options_ok_def dest: integer_argument_range decimal_argument_ok)

lemma arguments_ok: "agent_arguments opts args = Inr opts' \<Longrightarrow> options_ok opts \<Longrightarrow> options_ok opts'"
proof (induction "length args" arbitrary: opts args rule: less_induct)
  case less
  have IH: "agent_arguments q ys = Inr opts' \<Longrightarrow> length ys < length args \<Longrightarrow> options_ok q \<Longrightarrow> options_ok opts'" for q ys
    using less.hyps by blast
  consider "args = []" | a where "args = [a]" | a v rest where "args = a # v # rest"
    by (metis list.exhaust)
  then show ?case
  proof cases
    case 3
    have shorter: "length rest < length args" "length (tl rest) < length args" "length (v # rest) < length args"
      using 3 by auto
    from less.prems 3 show ?thesis
      by (auto split: if_splits option.splits dest!: IH [OF _ shorter(1)] IH [OF _ shorter(2)] IH [OF _ shorter(3)]
          intro: options_ok_probe options_ok_numbers)
  qed (use less.prems in \<open>auto split: if_splits\<close>)
qed

section \<open>The probes\<close>

definition probe_names_valid :: "agent_probe list \<Rightarrow> bool" where
  "probe_names_valid ps \<longleftrightarrow> distinct (map pb_path_id ps) \<and>
     (\<forall>p\<in>set ps. valid_label (pb_path_id p) \<and> valid_target (Some (pb_target p)))"

lemma check_probes_sound:
  "check_probes before ps \<Longrightarrow> probe_names_valid ps \<and> set (map pb_path_id before) \<inter> set (map pb_path_id ps) = {}"
proof (induction before ps rule: check_probes.induct)
  case (2 before p ps)
  have ex: "list_ex (\<lambda>q. pb_path_id q = pb_path_id p) before \<longleftrightarrow> pb_path_id p \<in> pb_path_id ` set before"
    unfolding list_ex_iff by (metis image_iff)
  from "2.prems" have p: "valid_label (pb_path_id p)" "valid_target (Some (pb_target p))"
    "pb_path_id p \<notin> pb_path_id ` set before" "check_probes (before @ [p]) ps"
    by (simp_all add: ex split: if_split_asm)
  then have "probe_names_valid ps \<and> set (map pb_path_id (before @ [p])) \<inter> set (map pb_path_id ps) = {}"
    using "2.IH" ex by simp
  with p show ?case by (auto simp: probe_names_valid_def)
qed (simp add: probe_names_valid_def)

definition path_probe :: "en_yaml_config \<Rightarrow> en_path \<Rightarrow> agent_probe" where
  "path_probe config path = \<lparr>pb_path_id = pt_path_id path, pb_source = Some (pt_source path), pb_target = probe_target config path\<rparr>"

lemma yaml_probes_from:
  "yaml_probes config selected probes ps = Some out \<Longrightarrow> length probes \<le> EN_MAX_PATHS \<Longrightarrow>
   length out \<le> EN_MAX_PATHS \<and>
   set out \<subseteq> set probes \<union> path_probe config ` {path \<in> set ps. probe_selected selected path}"
proof (induction config selected probes ps rule: yaml_probes.induct)
  case (2 config selected probes path ps)
  then show ?case
    by (cases "probe_selected selected path"; cases "EN_MAX_PATHS \<le> length probes";
        cases "valid_target (Some (probe_target config path))")
      (auto simp: path_probe_def)
qed simp

text \<open>What the options name, or what the configuration gives.\<close>

lemma plan_cases:
  assumes "agent_plan fopen opts = Some probes"
  shows "\<not> agent_options_refused opts \<and> check_probes [] probes \<and>
    (case ao_yaml_file opts of None \<Rightarrow> probes = ao_probes opts
     | Some f \<Rightarrow> yaml_agent_probes fopen opts f = Some probes \<and> probes \<noteq> [])"
  using assms by (cases "ao_yaml_file opts") (auto simp: agent_plan_def split: if_splits option.splits)

lemma yaml_plan_from:
  assumes "yaml_agent_probes fopen opts f = Some probes"
  obtains config selected where "en_yaml_config_load_file fopen (Some f) True 256 = Parsed config"
    "yaml_probes config selected (ao_probes opts) (yc_paths config) = Some probes"
    "case ao_intent_id opts of None \<Rightarrow> selected = None
     | Some i \<Rightarrow> (\<exists>intent. find_intent config (Some i) = Some intent \<and> selected = Some intent)"
  using assms by (auto simp: yaml_agent_probes_def find_intent_def split: outcome.splits option.splits)

lemma plan_probes:
  assumes "agent_plan fopen opts = Some probes" "options_ok opts"
  defines "ps \<equiv> agent_probes opts probes"
  shows "probe_names_valid ps" "ps \<noteq> []" "length ps \<le> EN_MAX_PATHS"
proof -
  note plan = plan_cases [OF assms(1)]
  have names: "probe_names_valid probes" using plan check_probes_sound by blast
  have few: "length probes \<le> EN_MAX_PATHS"
  proof (cases "ao_yaml_file opts")
    case None
    with plan assms(2) show ?thesis by (simp add: options_ok_def)
  next
    case (Some f)
    with plan have "yaml_agent_probes fopen opts f = Some probes" by simp
    then obtain config selected where "yaml_probes config selected (ao_probes opts) (yc_paths config) = Some probes"
      by (rule yaml_plan_from)
    with yaml_probes_from assms(2) show ?thesis by (auto simp: options_ok_def)
  qed
  have single: "probe_names_valid (agent_probes opts [])" if "probes = []"
  proof -
    from plan that have "ao_yaml_file opts = None" "ao_probes opts = []" by (auto split: option.splits)
    with plan obtain p t where "ao_path_id opts = Some p" "ao_target opts = Some t" "valid_label p" "valid_target (Some t)"
      by (auto simp: agent_options_refused_def valid_target_def split: option.splits)
    then show ?thesis by (simp add: agent_probes_def probe_names_valid_def)
  qed
  show "probe_names_valid ps" "ps \<noteq> []" "length ps \<le> EN_MAX_PATHS"
    using names single few by (auto simp: ps_def agent_probes_def)
qed

section \<open>The rounds\<close>

definition tracker_ok :: "nat \<Rightarrow> tracker \<Rightarrow> bool" where
  "tracker_ok n t \<longleftrightarrow> (\<exists>ms. list_all measured ms \<and> length ms \<le> n \<and> tracks ms t)"

lemma tracker_ok_new: "tracker_ok n new_tracker"
  using tracks_new by (force simp: tracker_ok_def)

lemma tracker_ok_mono: "tracker_ok n t \<Longrightarrow> n \<le> m \<Longrightarrow> tracker_ok m t"
  by (auto simp: tracker_ok_def)

lemma tracker_ok_track:
  assumes "tracker_ok n t" "measured m"
  shows "tracker_ok (Suc n) (track m t)" "metric_ok (jitter_of t (fst m) (snd m))"
    "0 \<le> tk_successes (track m t) \<and> tk_successes (track m t) \<le> int (Suc n)"
    "0 \<le> tk_failures (track m t) \<and> tk_failures (track m t) \<le> int (Suc n)"
proof -
  from assms(1) obtain ms where ms: "list_all measured ms" "length ms \<le> n" "tracks ms t" by (auto simp: tracker_ok_def)
  have after: "tracks (ms @ [m]) (track m t)" by (rule tracks_track [OF ms(3)])
  with ms assms(2) show "tracker_ok (Suc n) (track m t)"
    unfolding tracker_ok_def by (intro exI [of _ "ms @ [m]"]) simp
  have "\<forall>r. last_timed ms = Some r \<longrightarrow> rtt_ok r" using last_timed_ok [OF ms(1)] by blast
  then show "metric_ok (jitter_of t (fst m) (snd m))"
    using tracks_jitter [OF ms(3)] jitter_between_ok [OF assms(2)] by simp
  have bound: "int (trailing P (ms @ [m])) \<le> int (Suc n)" for P
    using trailing_le [of P "ms @ [m]"] ms(2) by (simp del: trailing_snoc)
  show "0 \<le> tk_successes (track m t) \<and> tk_successes (track m t) \<le> int (Suc n)"
    "0 \<le> tk_failures (track m t) \<and> tk_failures (track m t) \<le> int (Suc n)"
    using after bound by (simp_all only: tracks_def of_nat_0_le_iff)
qed

text \<open>The lines of the records, as far as the writer accepts them.\<close>

type_synonym entry = "agent_probe \<times> measurement"

definition entry_line :: "json_writer \<Rightarrow> entry \<Rightarrow> string" where
  "entry_line write e = (case write (measurement_event (fst e) (snd e)) of None \<Rightarrow> [] | Some s \<Rightarrow> s @ [LF])"

definition entry_lines :: "json_writer \<Rightarrow> entry list \<Rightarrow> string" where
  "entry_lines write es = concat (map (entry_line write) es)"

definition entry_key :: "entry \<Rightarrow> agent_probe \<times> int" where
  "entry_key e = (fst e, ms_sequence (snd e))"

definition clock_ok :: "agent_env \<Rightarrow> bool" where
  "clock_ok env \<longleftrightarrow> (\<forall>n. 0 \<le> now_ms (ae_clock env n) \<and> now_ms (ae_clock env n) < 2 ^ 63)"

text \<open>
  In the round after \<open>k\<close> rounds, before the probe of the given index: the text since the start is the lines of the
  entries, and the trackers have seen a measurement of the round iff their index is below.
\<close>

definition rounds_inv ::
  "agent_env \<Rightarrow> string option \<Rightarrow> string \<Rightarrow> nat \<Rightarrow> nat \<Rightarrow> entry list \<Rightarrow> agent \<Rightarrow> bool" where
  "rounds_inv env stream before k index es s \<longleftrightarrow>
     quiet (ag_streams s) \<and> stream_open stream (ag_streams s) \<and>
     stream_text stream (ag_streams s) = before @ entry_lines (ae_write env) es \<and>
     (\<forall>e\<in>set es. measurement_ok (snd e)) \<and> length (ag_trackers s) = EN_MAX_PATHS \<and>
     (\<forall>i<EN_MAX_PATHS. tracker_ok (if i < index then Suc k else k) (ag_trackers s ! i))"

lemma run_on_streams:
  "run_state (on_streams m) s = (case run_state m (ag_streams s) of (a, u) \<Rightarrow> (a, s\<lparr>ag_streams := u\<rparr>))"
  by (simp add: on_streams_def)

lemma measure_probe_run:
  assumes "options_ok opts"
  obtains m p where "run_state (measure_probe env opts target) s = (m, s\<lparr>ag_pinged := ag_pinged s @ p\<rparr>)" "measured m"
    "set p \<subseteq> {target}"
proof (cases "ao_simulate opts")
  case True
  with assms that [of "(ao_simulated_rtt_ms opts, ao_simulated_loss opts)" "[]"] show ?thesis
    by (simp add: measure_probe_def options_ok_def)
next
  case False
  with that [of "measure_ping (ae_ping env (length (ag_pinged s)) target)" "[target]"] show ?thesis
    by (simp add: measure_probe_def measure_ping_ok)
qed

lemma probe_step_run:
  assumes "options_ok opts" "clock_ok env" "rounds_inv env (ao_output opts) before k index es s" "index < EN_MAX_PATHS"
    and "int k + 1 \<le> INT_MAX"
  shows "\<exists>m t. run_state (probe_step env opts (int k + 1) index p) s = ((), t) \<and> ms_sequence m = int k + 1 \<and>
    rounds_inv env (ao_output opts) before k (Suc index) (es @ [(p, m)]) t"
proof -
  obtain x q where x: "run_state (measure_probe env opts (pb_target p)) s = (x, s\<lparr>ag_pinged := ag_pinged s @ q\<rparr>)" "measured x"
    using measure_probe_run [OF assms(1)] by blast
  define tr where "tr = ag_trackers s ! index"
  define m where "m = \<lparr>ms_sequence = int k + 1, ms_rtt = fst x, ms_loss = snd x, ms_jitter = jitter_of tr (fst x) (snd x),
    ms_successes = tk_successes (track x tr), ms_failures = tk_failures (track x tr),
    ms_now = now_ms (ae_clock env (ag_readings s))\<rparr>"
  note inv = assms(3) [unfolded rounds_inv_def]
  have "tracker_ok (if index < index then Suc k else k) (ag_trackers s ! index)" using inv assms(4) by blast
  then have tr: "tracker_ok k tr" by (simp add: tr_def)
  note track = tracker_ok_track [OF tr x(2)]
  have m: "measurement_ok m"
    using track assms(2,5) x(2) by (auto simp: measurement_ok_def m_def count_ok_def clock_ok_def measured_def rtt_ok_def metric_ok_def)
  obtain v where v: "run_state (write_measurement (ae_write env) (ao_output opts) p m) (ag_streams s) = ((), v)" "quiet v"
    "stream_open (ao_output opts) v"
    "stream_text (ao_output opts) v = stream_text (ao_output opts) (ag_streams s) @ entry_line (ae_write env) (p, m)"
    using write_line_quiet [of "ag_streams s" "ao_output opts" "ae_write env (measurement_event p m)"] inv
    by (auto simp: write_measurement_def entry_line_def)
  let ?t = "s\<lparr>ag_pinged := ag_pinged s @ q, ag_trackers := (ag_trackers s)[index := track x tr], ag_readings := Suc (ag_readings s),
    ag_streams := v\<rparr>"
  have "run_state (probe_step env opts (int k + 1) index p) s = ((), ?t)"
    using x v(1) inv assms(4) by (simp add: probe_step_def tr_def [symmetric] run_on_streams m_def)
  moreover have "rounds_inv env (ao_output opts) before k (Suc index) (es @ [(p, m)]) ?t"
    unfolding rounds_inv_def
  proof (intro conjI allI impI ballI)
    fix i assume "i < EN_MAX_PATHS"
    then show "tracker_ok (if i < Suc index then Suc k else k) (ag_trackers ?t ! i)"
      using inv track(1) by (cases "i = index") (auto simp: less_Suc_eq)
  qed (use inv v m in \<open>auto simp: entry_lines_def\<close>)
  ultimately show ?thesis by (intro exI [of _ m] exI [of _ ?t]) (simp add: m_def)
qed

lemma probe_steps_run:
  assumes "options_ok opts" "clock_ok env" "int k + 1 \<le> INT_MAX"
  shows "rounds_inv env (ao_output opts) before k index es s \<Longrightarrow> index + length ps \<le> EN_MAX_PATHS \<Longrightarrow>
    \<exists>es' t. run_state (probe_steps env opts (int k + 1) index ps) s = ((), t) \<and>
      map entry_key es' = map (\<lambda>p. (p, int k + 1)) ps \<and>
      rounds_inv env (ao_output opts) before k (index + length ps) (es @ es') t"
proof (induction ps arbitrary: index es s)
  case Nil
  then show ?case by (intro exI [of _ "[]"] exI [of _ s]) simp
next
  case (Cons p ps)
  then obtain m t where step: "run_state (probe_step env opts (int k + 1) index p) s = ((), t)" "ms_sequence m = int k + 1"
    "rounds_inv env (ao_output opts) before k (Suc index) (es @ [(p, m)]) t"
    using probe_step_run [OF assms(1,2) Cons.prems(1) _ assms(3)] by force
  with Cons.IH [OF step(3)] Cons.prems(2) obtain es' u where
    "run_state (probe_steps env opts (int k + 1) (Suc index) ps) t = ((), u)"
    "map entry_key es' = map (\<lambda>p. (p, int k + 1)) ps"
    "rounds_inv env (ao_output opts) before k (Suc index + length ps) ((es @ [(p, m)]) @ es') u" by auto
  with step show ?case by (intro exI [of _ "(p, m) # es'"] exI [of _ u]) (simp add: entry_key_def [of "(p, m)"])
qed

lemma round_ends:
  assumes "rounds_inv env stream before k n es s"
  shows "rounds_inv env stream before (Suc k) 0 es s"
  unfolding rounds_inv_def
proof (intro conjI allI impI)
  fix i assume "i < EN_MAX_PATHS"
  with assms have "tracker_ok (if i < n then Suc k else k) (ag_trackers s ! i)" by (simp add: rounds_inv_def)
  then show "tracker_ok (if i < 0 then Suc (Suc k) else Suc k) (ag_trackers s ! i)"
    by (auto intro: tracker_ok_mono split: if_splits)
qed (use assms in \<open>simp_all add: rounds_inv_def\<close>)

lemma pause_run: "\<exists>w. run_state (pause opts sequence) s = ((), s\<lparr>ag_waits := w\<rparr>)"
  by (auto simp: pause_def split: option.splits intro: exI [of _ "ag_waits s"])

definition schedule :: "agent_probe list \<Rightarrow> int \<Rightarrow> int \<Rightarrow> (agent_probe \<times> int) list" where
  "schedule ps first count = concat (map (\<lambda>j. map (\<lambda>p. (p, j)) ps) [first..count])"

lemma schedule_step: "first \<le> count \<Longrightarrow> schedule ps first count = map (\<lambda>p. (p, first)) ps @ schedule ps (first + 1) count"
  by (simp add: schedule_def upto_rec1)

lemma schedule_end [simp]: "count < first \<Longrightarrow> schedule ps first count = []"
  by (simp add: schedule_def)

lemma agent_rounds_run:
  assumes "options_ok opts" "clock_ok env" "ao_count opts \<noteq> INT_MAX" "length ps \<le> EN_MAX_PATHS"
  shows "rounds_inv env (ao_output opts) before k 0 es s \<Longrightarrow> int k \<le> ao_count opts \<Longrightarrow>
    \<exists>es' t. run_state (agent_rounds env opts ps (int k + 1)) s = (True, t) \<and>
      map entry_key es' = schedule ps (int k + 1) (ao_count opts) \<and>
      rounds_inv env (ao_output opts) before (nat (ao_count opts)) 0 (es @ es') t"
proof (induction "nat (ao_count opts) - k" arbitrary: k es s)
  case 0
  then have k: "int k = ao_count opts" "nat (ao_count opts) = k" by simp_all
  with 0 show ?case
    by (intro exI [of _ "[]"] exI [of _ s]) (subst agent_rounds.simps, auto)
next
  case (Suc d)
  have count: "ao_count opts < INT_MAX" using assms(1,3) by (simp add: options_ok_def)
  from Suc.hyps(2) have k: "int k + 1 \<le> ao_count opts" "int k + 1 \<noteq> INT_MAX" using count by linarith+
  obtain es1 t where steps: "run_state (probe_steps env opts (int k + 1) 0 ps) s = ((), t)"
    "map entry_key es1 = map (\<lambda>p. (p, int k + 1)) ps" "rounds_inv env (ao_output opts) before k (length ps) (es @ es1) t"
    using probe_steps_run [OF assms(1,2) _ Suc.prems(1), of ps] k count assms(4) by auto
  obtain w where w: "run_state (pause opts (int k + 1)) t = ((), t\<lparr>ag_waits := w\<rparr>)" using pause_run by blast
  have "rounds_inv env (ao_output opts) before (Suc k) 0 (es @ es1) (t\<lparr>ag_waits := w\<rparr>)"
    using round_ends [OF steps(3)] by (simp add: rounds_inv_def)
  with Suc.hyps(1) [of "Suc k"] Suc.hyps(2) k obtain es2 u where rest:
    "run_state (agent_rounds env opts ps (int (Suc k) + 1)) (t\<lparr>ag_waits := w\<rparr>) = (True, u)"
    "map entry_key es2 = schedule ps (int (Suc k) + 1) (ao_count opts)"
    "rounds_inv env (ao_output opts) before (nat (ao_count opts)) 0 ((es @ es1) @ es2) u" by fastforce
  have "run_state (agent_rounds env opts ps (int k + 1)) s = (True, u)"
    using steps(1) w rest(1) k by (subst agent_rounds.simps) (simp add: add.commute)
  moreover have "map entry_key (es1 @ es2) = schedule ps (int k + 1) (ao_count opts)"
    using steps(2) rest(2) schedule_step [OF k(1)] by (simp add: add.commute)
  ultimately show ?case using rest(3) by (intro exI [of _ "es1 @ es2"] exI [of _ u]) simp
qed

text \<open>The last increment overflows iff the count is the largest \<open>int\<close>.\<close>

lemma rounds_return:
  "sequence \<le> ao_count opts \<Longrightarrow> ao_count opts \<le> INT_MAX \<Longrightarrow>
   fst (run_state (agent_rounds env opts ps sequence) s) \<longleftrightarrow> ao_count opts \<noteq> INT_MAX"
proof (induction "nat (ao_count opts - sequence)" arbitrary: sequence s)
  case 0
  obtain t where t: "run_state (probe_steps env opts sequence 0 ps) s = ((), t)" by (metis surj_pair unit.exhaust)
  obtain w where w: "run_state (pause opts sequence) t = ((), w)" by (metis surj_pair unit.exhaust)
  from 0 have "sequence = ao_count opts" by simp
  with t w show ?case
    by (subst agent_rounds.simps) (simp add: agent_rounds.simps [of _ _ _ "ao_count opts + 1"])
next
  case (Suc d)
  obtain t where t: "run_state (probe_steps env opts sequence 0 ps) s = ((), t)" by (metis surj_pair unit.exhaust)
  obtain w where w: "run_state (pause opts sequence) t = ((), w)" by (metis surj_pair unit.exhaust)
  from Suc.hyps(2) have less: "sequence < ao_count opts" "d = nat (ao_count opts - (sequence + 1))" by linarith+
  then have "sequence \<noteq> INT_MAX" "\<not> ao_count opts < sequence" using Suc.prems(2) by simp_all
  with t w less Suc.hyps(1) [OF less(2)] Suc.prems show ?case by (subst agent_rounds.simps) simp
qed

section \<open>The output\<close>

lemma open_output_quiet:
  assumes "quiet u" "run_state (on_output_disk (open_agent_output name appending)) u = (ok, v)"
  shows "quiet v \<and> (ok \<longrightarrow> stream_open (Some name) v \<and>
    stream_text (Some name) v = (if appending then stream_text (Some name) u else []))"
  using assms
  by (auto simp: on_output_disk_def open_agent_output_def quiet_def stream_open_def stream_text_def
      split: prod.splits option.splits if_splits)

definition output_start :: "agent_options \<Rightarrow> out_streams \<Rightarrow> string" where
  "output_start opts u =
     (if ao_output opts = None \<or> ao_append_output opts then stream_text (ao_output opts) u else [])"

lemma rounds_start:
  assumes "quiet v" "stream_open stream v"
  shows "rounds_inv env stream (stream_text stream v) 0 0 [] (new_agent v)"
  using assms by (simp add: rounds_inv_def new_agent_def entry_lines_def tracker_ok_new)

lemma main_rounds:
  assumes "agent_arguments agent_defaults args = Inr opts" "agent_plan (ae_files env) opts = Some probes"
    and "quiet u" "clock_ok env" "agent_main env args u = (Some 0, s)"
  shows "\<exists>es. map entry_key es = schedule (agent_probes opts probes) 1 (ao_count opts) \<and>
    rounds_inv env (ao_output opts) (output_start opts u) (nat (ao_count opts)) 0 es s"
proof -
  have ok: "options_ok opts" by (rule arguments_ok [OF assms(1) defaults_ok])
  obtain opened v where v: "(case ao_output opts of None \<Rightarrow> (True, u)
      | Some name \<Rightarrow> run_state (on_output_disk (open_agent_output name (ao_append_output opts))) u) = (opened, v)"
    by (meson surj_pair)
  have opened: "opened" using assms(1,2,5) v by (auto simp: agent_main_def split: bool.splits)
  have start: "quiet v" "stream_open (ao_output opts) v" "stream_text (ao_output opts) v = output_start opts u"
    using v opened assms(3) open_output_quiet [of u _ "ao_append_output opts" opened v]
    by (cases "ao_output opts"; auto simp: output_start_def stream_open_def)+
  obtain b t where t: "run_state (agent_rounds env opts (agent_probes opts probes) 1) (new_agent v) = (b, t)"
    by (meson surj_pair)
  have b: "b" "t = s" using assms(1,2,5) v opened t by (auto simp: agent_main_def split: if_splits)
  have "ao_count opts \<noteq> INT_MAX"
    using rounds_return [of 1 opts env "agent_probes opts probes" "new_agent v"] ok t b by (auto simp: options_ok_def)
  with agent_rounds_run [OF ok assms(4) _ plan_probes(3) [OF assms(2) ok] rounds_start [OF start(1,2)]] ok t b
  show ?thesis by (fastforce simp: start(3) options_ok_def)
qed

end
