(* ===== verification/AgentOutcome.thy ===== *)
theory AgentOutcome
  imports AgentSafety
begin

text \<open>The properties of the agent of \<open>src/examples/eventnet_agent.c\<close> as a process, from its arguments to its output.\<close>

section \<open>What ping is given\<close>

definition pinged_valid :: "agent \<Rightarrow> bool" where
  "pinged_valid s \<longleftrightarrow> list_all (\<lambda>t. valid_target (Some t)) (ag_pinged s)"

lemma pinged_streams [wp]: "preserves pinged_valid (on_streams m)"
  by (rule preservesI) (auto simp: run_on_streams pinged_valid_def split: prod.splits)

lemma pinged_measure: "valid_target (Some target) \<Longrightarrow> preserves pinged_valid (measure_probe env opts target)"
  by (rule preservesI) (auto simp: measure_probe_def pinged_valid_def split: if_splits)

lemma pinged_step: "valid_target (Some (pb_target p)) \<Longrightarrow> preserves pinged_valid (probe_step env opts sequence index p)"
  unfolding probe_step_def by (intro wp pinged_measure) (simp_all add: pinged_valid_def)

lemma pinged_steps:
  "\<forall>p\<in>set ps. valid_target (Some (pb_target p)) \<Longrightarrow> preserves pinged_valid (probe_steps env opts sequence index ps)"
  by (induction ps arbitrary: index) (auto intro!: wp pinged_step)

lemma pinged_pause: "preserves pinged_valid (pause opts sequence)"
  unfolding pause_def by (intro wp) (auto simp: pinged_valid_def split: option.splits)

lemma pinged_rounds:
  "\<forall>p\<in>set ps. valid_target (Some (pb_target p)) \<Longrightarrow> preserves pinged_valid (agent_rounds env opts ps sequence)"
proof (induction env opts ps sequence rule: agent_rounds.induct)
  case (1 env opts ps sequence)
  then show ?case
    by (subst agent_rounds.simps) (intro wp pinged_steps pinged_pause; simp)
qed

text \<open>
  Whatever the arguments, the configuration and the file system, every target the agent hands to \<open>ping\<close> is not empty and
  consists of digits, dots and colons: no argument of the agent becomes an option of \<open>ping\<close>.
\<close>

theorem agent_pings_addresses:
  "list_all (\<lambda>t. valid_target (Some t)) (ag_pinged (snd (agent_main env args u)))"
proof -
  have new: "pinged_valid (new_agent v)" for v by (simp add: pinged_valid_def new_agent_def)
  have "pinged_valid (snd (agent_main env args u))"
  proof (cases "agent_arguments agent_defaults args")
    case (Inr opts)
    show ?thesis
    proof (cases "agent_plan (ae_files env) opts")
      case (Some probes)
      have "\<forall>p\<in>set (agent_probes opts probes). valid_target (Some (pb_target p))"
        using plan_probes(1) [OF Some arguments_ok [OF Inr defaults_ok]] by (simp add: probe_names_valid_def)
      then have "pinged_valid (snd (run_state (agent_rounds env opts (agent_probes opts probes) 1) (new_agent v)))" for v
        using pinged_rounds [of "agent_probes opts probes"] new by (simp add: preserves_def triple_def)
      with Inr Some new show ?thesis by (auto simp: agent_main_def split: prod.split bool.split) (metis snd_conv)+
    qed (simp add: agent_main_def Inr new)
  qed (simp add: agent_main_def new)
  then show ?thesis by (simp add: pinged_valid_def)
qed

section \<open>What the agent writes\<close>

text \<open>
  C32. When no write fails and the JSON writer takes every record, a run that ends with status 0 has written, after what a file
  opened for appending held, one line for every probe in every round from 1 to the count, in the order of the rounds and of
  the probes: the record of that probe with the number of the round, in the ranges that the telemetry reader accepts. The
  agent does not look at the outcome of a write, so its status says nothing when one fails.
\<close>

theorem agent_writes_rounds:
  assumes "agent_arguments agent_defaults args = Inr opts" "agent_plan (ae_files env) opts = Some probes"
    and "quiet u" "\<And>p m. ae_write env (measurement_event p m) \<noteq> None" "clock_ok env" "agent_main env args u = (Some 0, s)"
  shows "\<exists>es. map entry_key es = schedule (agent_probes opts probes) 1 (ao_count opts) \<and>
    (\<forall>e\<in>set es. measurement_ok (snd e)) \<and>
    stream_text (ao_output opts) (ag_streams s) =
      output_start opts u @ concat (map (\<lambda>e. the (ae_write env (measurement_event (fst e) (snd e))) @ [LF]) es)"
proof -
  have line: "entry_line (ae_write env) e = the (ae_write env (measurement_event (fst e) (snd e))) @ [LF]" for e
    using assms(4) [of "fst e" "snd e"] by (auto simp: entry_line_def)
  have "entry_lines (ae_write env) es = concat (map (\<lambda>e. the (ae_write env (measurement_event (fst e) (snd e))) @ [LF]) es)" for es
    by (simp add: entry_lines_def line cong: map_cong)
  then show ?thesis using main_rounds [OF assms(1-3,5,6)] by (auto simp: rounds_inv_def)
qed

lemma status_of_rounds:
  assumes "agent_arguments agent_defaults args = Inr opts" "agent_plan (ae_files env) opts = Some probes" "ao_output opts = None"
  shows "\<exists>s. agent_main env args u = (if ao_count opts = INT_MAX then None else Some 0, s)"
proof -
  obtain b t where "run_state (agent_rounds env opts (agent_probes opts probes) 1) (new_agent u) = (b, t)" by (meson surj_pair)
  with arguments_ok [OF assms(1) defaults_ok] rounds_return [of 1 opts env "agent_probes opts probes" "new_agent u"] assms
  show ?thesis by (auto simp: agent_main_def options_ok_def)
qed

text \<open>
  With accepted arguments and the standard output, the agent returns status 0, except with the largest count, where the
  increment of the sequence number after the last round overflows.
\<close>

theorem agent_returns:
  assumes "agent_arguments agent_defaults args = Inr opts" "agent_plan (ae_files env) opts = Some probes" "ao_output opts = None"
  shows "fst (agent_main env args u) = (if ao_count opts = INT_MAX then None else Some 0)"
  using status_of_rounds [OF assms, of u] by auto

section \<open>The daemon accepts what the agent writes\<close>

lemma schedule_probes: "map entry_key es = schedule ps first count \<Longrightarrow> e \<in> set es \<Longrightarrow> fst e \<in> set ps"
proof -
  assume "map entry_key es = schedule ps first count" "e \<in> set es"
  then have "entry_key e \<in> set (schedule ps first count)" by (metis image_eqI list.set_map)
  then show ?thesis by (auto simp: schedule_def entry_key_def)
qed

lemma find_by_key:
  "distinct (map f xs) \<Longrightarrow> x \<in> set xs \<Longrightarrow> find (\<lambda>y. f y = f x) xs = Some x"
  by (induction xs) auto

definition endpoints_fit :: "en_yaml_config \<Rightarrow> bool" where
  "endpoints_fit config \<longleftrightarrow> (\<forall>t\<in>set (yc_tunnels config). length (tn_remote_endpoint t) < EN_MAX_ID_LEN) \<and>
     (\<forall>p\<in>set (yc_paths config). length (pt_route_next_hop p) < EN_MAX_ID_LEN)"

lemma path_probe_facts:
  assumes "well_formed_config config" "endpoints_fit config" "path \<in> set (yc_paths config)"
    and "valid_target (Some (probe_target config path))"
  shows "probe_ok (path_probe config path)" "probe_fits (path_probe config path)"
proof -
  have path: "path_ok config path" using assms(1,3) by (simp add: well_formed_config_def)
  have "length (probe_target config path) < EN_MAX_ID_LEN"
    using assms(2,3) by (auto simp: endpoints_fit_def probe_target_def terminal_tunnel_def dest!: find_Some_mem split: option.splits if_splits)
  with path assms(4) show "probe_ok (path_probe config path)" "probe_fits (path_probe config path)"
    by (simp_all add: probe_ok_def probe_fits_def path_probe_def path_ok_def valid_config_token_def valid_label_def)
qed

lemma path_probe_identity:
  assumes "well_formed_config config" "path \<in> set (yc_paths config)" "valid_target (Some (probe_target config path))"
  shows "telemetry_identity_matches config intent (measurement_record (path_probe config path) m) = None"
proof -
  have "find_telemetry_path config (pt_path_id path) = Some path"
    using assms(1,2) find_by_key [of pt_path_id "yc_paths config" path] by (simp add: find_telemetry_path_def well_formed_config_def)
  moreover have "target_matches config path (measurement_record (path_probe config path) m)"
  proof (cases "terminal_tunnel config path")
    case None
    with assms(3) show ?thesis
      by (auto simp: target_matches_def measurement_record_def path_probe_def probe_target_def valid_target_def)
  next
    case (Some t)
    then have "pt_segments path \<noteq> []" "find_telemetry_tunnel config (sg_tunnel_id (last (pt_segments path))) = Some t"
      by (auto simp: terminal_tunnel_def find_telemetry_tunnel_def split: if_splits)
    then show ?thesis
      using Some by (auto simp: target_matches_def measurement_record_def path_probe_def probe_target_def list_ex_iff
          intro!: bexI [of _ "last (pt_segments path)"])
  qed
  ultimately show ?thesis
    by (simp add: telemetry_identity_matches_def measurement_record_def path_probe_def zero_health_def)
qed

text \<open>
  C31. The agent started on a configuration file, which names the paths of an intent or all of them, writes records which the
  telemetry reader accepts and which the daemon on the same configuration takes as a measurement of that path: neither the path
  nor the source nor the target of the record is refused. With an intent, its path selection names the path. The endpoints are
  what the buffers of the configuration hold.
\<close>

theorem agent_feeds_daemon:
  assumes "agent_arguments agent_defaults args = Inr opts" "ao_yaml_file opts = Some f"
    and "en_yaml_config_load_file (ae_files env) (Some f) True 256 = Parsed config" "endpoints_fit config"
    and "quiet u" "clock_ok env" "reads_back (ae_write env) read" "agent_main env args u = (Some 0, s)"
  shows "\<exists>es. es \<noteq> [] \<and> stream_text (ao_output opts) (ag_streams s) = output_start opts u @ entry_lines (ae_write env) es \<and>
    (\<forall>e\<in>set es. \<forall>l. ae_write env (measurement_event (fst e) (snd e)) = Some l \<longrightarrow>
      (\<exists>r. en_telemetry_parse_json_line read (l @ [LF]) = Inr r \<and> ph_path_id r = pb_path_id (fst e) \<and>
        (\<forall>intent. telemetry_identity_matches config intent r = None) \<and>
        (\<forall>i intent. ao_intent_id opts = Some i \<longrightarrow> find_intent config (Some i) = Some intent \<longrightarrow>
           intent_references_path intent (ph_path_id r))))"
proof -
  have wf: "well_formed_config config" by (rule loaded_wf [OF assms(3)])
  have ok: "options_ok opts" by (rule arguments_ok [OF assms(1) defaults_ok])
  obtain probes where plan: "agent_plan (ae_files env) opts = Some probes"
    using assms(1,8) by (auto simp: agent_main_def split: option.splits)
  note cases = plan_cases [OF plan, unfolded assms(2) option.case]
  obtain c selected where "en_yaml_config_load_file (ae_files env) (Some f) True 256 = Parsed c"
    and made: "yaml_probes c selected (ao_probes opts) (yc_paths c) = Some probes"
    and selected: "case ao_intent_id opts of None \<Rightarrow> selected = None
      | Some i \<Rightarrow> (\<exists>intent. find_intent c (Some i) = Some intent \<and> selected = Some intent)"
    using cases yaml_plan_from by blast
  with assms(3) have c: "c = config" by simp
  have none: "ao_probes opts = []" using cases assms(2) by (auto simp: agent_options_refused_def)
  have from_path: "\<exists>path\<in>set (yc_paths config). p = path_probe config path \<and> probe_selected selected path \<and>
      valid_target (Some (probe_target config path))" if "p \<in> set probes" for p
  proof -
    from yaml_probes_from [OF made] that none c obtain path where "path \<in> set (yc_paths config)" "probe_selected selected path"
      "p = path_probe config path" by auto
    moreover have "valid_target (Some (pb_target p))"
      using check_probes_sound [of "[]" probes] cases that by (simp add: probe_names_valid_def)
    ultimately show ?thesis by (auto simp: path_probe_def)
  qed
  obtain es where es: "map entry_key es = schedule (agent_probes opts probes) 1 (ao_count opts)"
    "\<forall>e\<in>set es. measurement_ok (snd e)"
    "stream_text (ao_output opts) (ag_streams s) = output_start opts u @ entry_lines (ae_write env) es"
    using main_rounds [OF assms(1) plan assms(5,6,8)] by (auto simp: rounds_inv_def)
  have ps: "agent_probes opts probes = probes" "probes \<noteq> []" using cases by (simp_all add: agent_probes_def)
  have "es \<noteq> []" using es(1) ps ok by (auto simp: options_ok_def schedule_step)
  moreover have "\<exists>r. en_telemetry_parse_json_line read (l @ [LF]) = Inr r \<and> ph_path_id r = pb_path_id (fst e) \<and>
      (\<forall>intent. telemetry_identity_matches config intent r = None) \<and>
      (\<forall>i intent. ao_intent_id opts = Some i \<longrightarrow> find_intent config (Some i) = Some intent \<longrightarrow>
         intent_references_path intent (ph_path_id r))"
    if e: "e \<in> set es" and l: "ae_write env (measurement_event (fst e) (snd e)) = Some l" for e l
  proof -
    from schedule_probes [OF es(1) e] ps from_path obtain path where path: "path \<in> set (yc_paths config)"
      "fst e = path_probe config path" "probe_selected selected path" "valid_target (Some (probe_target config path))" by auto
    note probe = path_probe_facts [OF wf assms(4) path(1,4)]
    have "measurement_ok (snd e)" using es(2) e by blast
    from measurement_reads_back [OF assms(7) l [unfolded path(2)] probe this]
    have parsed: "en_telemetry_parse_json_line read (l @ [LF]) = Inr (measurement_record (path_probe config path) (snd e))" .
    have "path_ok config path" using wf path(1) by (simp add: well_formed_config_def)
    then have "pt_path_id path \<noteq> []" by (auto simp: path_ok_def)
    then have "intent_references_path intent (pt_path_id path)"
      if "ao_intent_id opts = Some i" "find_intent config (Some i) = Some intent" for i intent
      using selected that path(3) c
      by (auto simp: probe_selected_def intent_references_path_def Let_def list_ex_iff split: if_splits)
    with parsed path_probe_identity [OF wf path(1,4)] show ?thesis
      by (auto simp: measurement_record_def path_probe_def path(2))
  qed
  ultimately show ?thesis using es(3) by blast
qed

section \<open>Witnesses\<close>

definition sample_args :: "string \<Rightarrow> string list" where
  "sample_args n = [''--yaml'', ''eventnet.yaml'', ''--intent'', ''intent-a-b'', ''--count'', n]"

definition sample_agent_options :: "int \<Rightarrow> agent_options" where
  "sample_agent_options n = agent_defaults\<lparr>ao_yaml_file := Some ''eventnet.yaml'', ao_intent_id := Some ''intent-a-b'', ao_count := n\<rparr>"

definition sample_probe :: agent_probe where
  "sample_probe = \<lparr>pb_path_id = ''path-direct'', pb_source = Some ''site-a'', pb_target = ''203.0.113.20''\<rparr>"

definition sample_event :: json_object where
  "sample_event = measurement_event sample_probe \<lparr>ms_sequence = 1, ms_rtt = Fin 0, ms_loss = Fin 100, ms_jitter = Fin 0,
     ms_successes = 0, ms_failures = 1, ms_now = 1000\<rparr>"

definition sample_agent :: agent_env where
  "sample_agent = \<lparr>ae_ping = (\<lambda>_ _. NO_CHILD), ae_clock = (\<lambda>_. TIMESPEC 1 0), ae_write = one_writer sample_event,
     ae_files = sample_fopen\<rparr>"

definition sample_streams :: out_streams where
  "sample_streams = \<lparr>ou_disk = empty_disk, ou_stdout = []\<rparr>"

lemma sample_agent_arguments:
  "agent_arguments agent_defaults (sample_args ''2'') = Inr (sample_agent_options 2)"
  "agent_arguments agent_defaults (sample_args ''2147483647'') = Inr (sample_agent_options INT_MAX)"
proof -
  have "parse_integer_argument ''2'' 1 INT_MAX = Some 2" "parse_integer_argument ''2147483647'' 1 INT_MAX = Some INT_MAX"
    by (simp_all add: parse_integer_argument_def strtoll10_def saturate64_def isdigit_def isspace_def code_def INT_MAX_def)
  then show "agent_arguments agent_defaults (sample_args ''2'') = Inr (sample_agent_options 2)"
    "agent_arguments agent_defaults (sample_args ''2147483647'') = Inr (sample_agent_options INT_MAX)"
    by (simp_all add: sample_args_def sample_agent_options_def agent_defaults_def)
qed

lemma agent_sample_plan: "agent_plan sample_fopen (sample_agent_options n) = (if 0 < n then Some [sample_probe] else None)"
proof -
  have "yaml_probes sample_config (Some (hd (yc_intents sample_config))) [] (yc_paths sample_config) = Some [sample_probe]"
    "check_probes [] [sample_probe]" "find (\<lambda>x. strcmp (it_intent_id x) ''intent-a-b'' = 0) (yc_intents sample_config) = Some (hd (yc_intents sample_config))"
    by code_simp+
  then show ?thesis
    by (simp add: agent_plan_def agent_options_refused_def sample_agent_options_def agent_defaults_def yaml_agent_probes_def sample_load
        del: check_probes.simps)
qed

lemma sample_agent_facts: "quiet sample_streams" "clock_ok sample_agent" "endpoints_fit sample_config"
  "reads_back (ae_write sample_agent) (one_reader sample_event)"
proof -
  show "endpoints_fit sample_config" by code_simp
qed (simp_all add: quiet_def sample_streams_def empty_disk_def clock_ok_def sample_agent_def now_ms_def one_reads_back)

lemma sample_agent_main:
  "\<exists>s. agent_main (sample_agent\<lparr>ae_write := write\<rparr>) (sample_args ''2'') sample_streams = (Some 0, s)"
proof -
  have "agent_plan (ae_files (sample_agent\<lparr>ae_write := write\<rparr>)) (sample_agent_options 2) = Some [sample_probe]"
    by (simp add: sample_agent_def agent_sample_plan)
  moreover have "ao_output (sample_agent_options 2) = None" "ao_count (sample_agent_options 2) = 2"
    by (simp_all add: sample_agent_options_def agent_defaults_def)
  ultimately show ?thesis using status_of_rounds [OF sample_agent_arguments(1)] by (fastforce simp: INT_MAX_def)
qed

theorem agent_returns_witness:
  "fst (agent_main sample_agent (sample_args ''2147483647'') sample_streams) = None"
proof -
  have "agent_plan (ae_files sample_agent) (sample_agent_options INT_MAX) = Some [sample_probe]"
    by (simp add: sample_agent_def agent_sample_plan INT_MAX_def)
  moreover have "ao_output (sample_agent_options INT_MAX) = None" "ao_count (sample_agent_options INT_MAX) = INT_MAX"
    by (simp_all add: sample_agent_options_def agent_defaults_def)
  ultimately show ?thesis using agent_returns [OF sample_agent_arguments(2)] by simp
qed

theorem agent_writes_rounds_witness:
  "\<exists>s es. agent_main (sample_agent\<lparr>ae_write := (\<lambda>_. Some ''record'')\<rparr>) (sample_args ''2'') sample_streams = (Some 0, s) \<and>
     map entry_key es = [(sample_probe, 1), (sample_probe, 2)] \<and>
     ou_stdout (ag_streams s) = concat (map (\<lambda>e. ''record'' @ [LF]) es)"
proof -
  let ?env = "sample_agent\<lparr>ae_write := (\<lambda>_. Some ''record'')\<rparr>"
  obtain s where s: "agent_main ?env (sample_args ''2'') sample_streams = (Some 0, s)" using sample_agent_main by blast
  have plan: "agent_plan (ae_files ?env) (sample_agent_options 2) = Some [sample_probe]"
    by (simp add: sample_agent_def agent_sample_plan)
  have opts: "ao_output (sample_agent_options 2) = None" "ao_count (sample_agent_options 2) = 2"
    by (simp_all add: sample_agent_options_def agent_defaults_def)
  have clock: "clock_ok ?env" using sample_agent_facts(2) by (simp add: clock_ok_def)
  have writes: "ae_write ?env (measurement_event p m) \<noteq> None" for p m by simp
  have "schedule (agent_probes (sample_agent_options 2) [sample_probe]) 1 2 = [(sample_probe, 1), (sample_probe, 2)]"
    by (simp add: schedule_step agent_probes_def)
  moreover obtain es where
    "map entry_key es = schedule (agent_probes (sample_agent_options 2) [sample_probe]) 1 (ao_count (sample_agent_options 2))"
    "stream_text (ao_output (sample_agent_options 2)) (ag_streams s) = output_start (sample_agent_options 2) sample_streams @
      concat (map (\<lambda>e. the (ae_write ?env (measurement_event (fst e) (snd e))) @ [LF]) es)"
    using agent_writes_rounds [OF sample_agent_arguments(1) plan sample_agent_facts(1) writes clock s] by blast
  ultimately have "map entry_key es = [(sample_probe, 1), (sample_probe, 2)]"
    "ou_stdout (ag_streams s) = concat (map (\<lambda>e. ''record'' @ [LF]) es)"
    by (simp_all only: opts) (simp add: opts stream_text_def output_start_def sample_streams_def)
  with s show ?thesis by (intro exI conjI)
qed

theorem agent_feeds_daemon_witness:
  "\<exists>s es. agent_main sample_agent (sample_args ''2'') sample_streams = (Some 0, s) \<and> es \<noteq> [] \<and>
     ou_stdout (ag_streams s) = entry_lines (ae_write sample_agent) es"
proof -
  have "sample_agent\<lparr>ae_write := ae_write sample_agent\<rparr> = sample_agent" by simp
  then obtain s where s: "agent_main sample_agent (sample_args ''2'') sample_streams = (Some 0, s)" using sample_agent_main by metis
  have opts: "ao_output (sample_agent_options 2) = None" "ao_yaml_file (sample_agent_options 2) = Some ''eventnet.yaml''"
    by (simp_all add: sample_agent_options_def agent_defaults_def)
  have "en_yaml_config_load_file (ae_files sample_agent) (Some ''eventnet.yaml'') True 256 = Parsed sample_config"
    using sample_load by (simp add: sample_agent_def)
  from agent_feeds_daemon [OF sample_agent_arguments(1) opts(2) this sample_agent_facts(3,1,2,4) s] s show ?thesis
    by (auto simp: opts stream_text_def output_start_def sample_streams_def)
qed

end
