(* ===== verification/ScenarioRun.thy ===== *)
theory ScenarioRun
  imports JsonStream YamlScalar NetnsMain
begin

text \<open>
  The scenario runner \<open>src/examples/eventnet_scenario.c\<close>: one intent of a configuration is submitted to a controller on the
  mocks, with injected health, and the selected path is compared with an expected one. What the program prints is not
  modelled. \<open>find_intent\<close> and \<open>find_path\<close> are the same functions as in the daemon and the planner.
\<close>

section \<open>Injected health\<close>

record injected_health =
  ih_path_id :: string
  ih_state :: en_health_state
  ih_rtt_ms :: cdouble
  ih_packet_loss_percent :: cdouble
  ih_has_rtt_ms :: bool
  ih_has_packet_loss_percent :: bool

definition zero_injected :: injected_health where
  "zero_injected = \<lparr>ih_path_id = [], ih_state = EN_HEALTH_UNKNOWN, ih_rtt_ms = Fin 0, ih_packet_loss_percent = Fin 0,
     ih_has_rtt_ms = False, ih_has_packet_loss_percent = False\<rparr>"

definition parse_health_state :: "string \<Rightarrow> en_health_state option" where
  "parse_health_state s =
     (if strcmp s ''unknown'' = 0 then Some EN_HEALTH_UNKNOWN
      else if strcmp s ''healthy'' = 0 then Some EN_HEALTH_HEALTHY
      else if strcmp s ''degraded'' = 0 then Some EN_HEALTH_DEGRADED
      else if strcmp s ''unhealthy'' = 0 then Some EN_HEALTH_UNHEALTHY
      else if strcmp s ''failed'' = 0 then Some EN_HEALTH_FAILED else None)"

definition parse_health_number :: "string \<Rightarrow> cdouble \<Rightarrow> cdouble \<Rightarrow> cdouble option" where
  "parse_health_number s minimum maximum =
     (if s = [] then None
      else case strtod s of
        None \<Rightarrow> None
      | Some (parsed, rest) \<Rightarrow>
          if rest \<noteq> [] \<or> \<not> isfinite parsed \<or> parsed < minimum \<or> maximum < parsed then None else Some parsed)"

text \<open>An item between two commas: a state, or a key with its value.\<close>

definition health_item :: "string \<Rightarrow> injected_health \<Rightarrow> injected_health option" where
  "health_item item h =
     (let key = takeWhile (\<lambda>c. c \<noteq> CHR ''='') item; v = drop (Suc (length key)) item in
      if CHR ''='' \<notin> set item then map_option (\<lambda>x. h\<lparr>ih_state := x\<rparr>) (parse_health_state item)
      else if strcmp key ''state'' = 0 then map_option (\<lambda>x. h\<lparr>ih_state := x\<rparr>) (parse_health_state v)
      else if strcmp key ''rtt'' = 0 \<or> strcmp key ''rtt_ms'' = 0 then
        map_option (\<lambda>x. h\<lparr>ih_rtt_ms := x, ih_has_rtt_ms := True\<rparr>) (parse_health_number v (Fin 0) (Fin 86400000))
      else if strcmp key ''loss'' = 0 \<or> strcmp key ''packet_loss'' = 0 then
        map_option (\<lambda>x. h\<lparr>ih_packet_loss_percent := x, ih_has_packet_loss_percent := True\<rparr>)
          (parse_health_number v (Fin 0) (Fin 100))
      else None)"

text \<open>The text up to the first comma, and what follows it; the loops end at an empty rest.\<close>

definition first_item :: "string \<Rightarrow> string" where
  "first_item s = takeWhile (\<lambda>c. c \<noteq> CHR '','') s"

definition later_items :: "string \<Rightarrow> string" where
  "later_items s = drop 1 (dropWhile (\<lambda>c. c \<noteq> CHR '','') s)"

lemma later_items_shorter [termination_simp]: "s \<noteq> [] \<Longrightarrow> length (later_items s) < length s"
proof -
  assume "s \<noteq> []"
  then have "0 < length s" by simp
  moreover have "length (dropWhile (\<lambda>c. c \<noteq> CHR '','') s) \<le> length s" by (rule length_dropWhile_le)
  ultimately show ?thesis unfolding later_items_def length_drop by linarith
qed

function health_items :: "string \<Rightarrow> injected_health \<Rightarrow> injected_health option" where
  "health_items s h =
     (if s = [] then Some h
      else case health_item (first_item s) h of None \<Rightarrow> None | Some h' \<Rightarrow> health_items (later_items s) h')"
  by pat_completeness auto
termination
  by (relation "measure (\<lambda>(s, h). length s)") (simp_all only: wf_measure in_measure prod.case later_items_shorter not_False_eq_True)

declare health_items.simps [simp del]

definition scenario_id_char :: "char \<Rightarrow> bool" where
  "scenario_id_char c \<longleftrightarrow> isalnum c \<or> c = CHR ''_'' \<or> c = CHR ''-'' \<or> c = CHR ''.''"

definition parse_health_arg :: "string \<Rightarrow> injected_health \<Rightarrow> injected_health option" where
  "parse_health_arg s slot =
     (let buf = fit 256 s; path_id = takeWhile (\<lambda>c. c \<noteq> CHR ''='') buf in
      if CHR ''='' \<notin> set buf then None
      else if path_id = [] \<or> EN_MAX_ID_LEN \<le> length path_id \<or> \<not> list_all scenario_id_char path_id then None
      else health_items (drop (Suc (length path_id)) buf) (slot\<lparr>ih_path_id := path_id, ih_state := EN_HEALTH_HEALTHY\<rparr>))"

definition health_override :: "injected_health \<Rightarrow> en_path_health" where
  "health_override h =
     (let bad = (ih_state h = EN_HEALTH_FAILED \<or> ih_state h = EN_HEALTH_UNHEALTHY) in
      zero_health\<lparr>ph_path_id := fit EN_MAX_ID_LEN (ih_path_id h), ph_state := ih_state h,
        ph_rtt_ms := (if ih_has_rtt_ms h then ih_rtt_ms h else Fin 10),
        ph_packet_loss_percent := (if ih_has_packet_loss_percent h then ih_packet_loss_percent h
          else if bad then Fin 100 else Fin 0),
        ph_consecutive_failures := (if bad then 3 else 0), ph_consecutive_successes := (if bad then 0 else 3)\<rparr>)"

definition apply_health_override :: "injected_health \<Rightarrow> en_path_health list \<Rightarrow> en_path_health list" where
  "apply_health_override h overrides = en_health_probe_mock_set (health_override h) overrides"

section \<open>Options\<close>

record scenario_options =
  sc_filename :: string
  sc_intent_id :: "string option"
  sc_mode :: "string option"
  sc_active_path :: "string option"
  sc_failed_path :: "string option"
  sc_expected_path :: "string option"
  sc_comparison_order :: "string option"
  sc_explain_json :: "string option"
  sc_generate :: bool
  sc_injected :: "injected_health list"

definition scenario_defaults :: scenario_options where
  "scenario_defaults = \<lparr>sc_filename = ''samples/linux-vm-netns.yaml'', sc_intent_id = None, sc_mode = None,
     sc_active_path = None, sc_failed_path = None, sc_expected_path = None, sc_comparison_order = None,
     sc_explain_json = None, sc_generate = False, sc_injected = []\<rparr>"

definition append_health :: "string \<Rightarrow> scenario_options \<Rightarrow> scenario_options option" where
  "append_health health_arg opts =
     (if EN_MAX_PATHS \<le> length (sc_injected opts) then None
      else map_option (\<lambda>h. opts\<lparr>sc_injected := sc_injected opts @ [h]\<rparr>) (parse_health_arg health_arg zero_injected))"

text \<open>
  The slot of a step may hold what \<open>--health\<close> left there, but the three arguments of \<open>relay-best\<close> set every field of it.
\<close>

definition apply_named_step :: "scenario_options \<Rightarrow> string \<Rightarrow> scenario_options option" where
  "apply_named_step opts step =
     (if strcmp step ''direct-ok'' = 0 then Some (opts\<lparr>sc_expected_path := Some ''path-direct''\<rparr>)
      else if strcmp step ''direct-failed'' = 0 \<or> strcmp step ''fallback'' = 0 then
        Some (opts\<lparr>sc_active_path := Some ''path-direct'', sc_failed_path := Some ''path-direct'',
          sc_expected_path := Some ''path-via-hub''\<rparr>)
      else if strcmp step ''direct-recovered'' = 0 \<or> strcmp step ''recovery'' = 0 then
        Some (opts\<lparr>sc_active_path := Some ''path-via-hub'', sc_expected_path := Some ''path-direct''\<rparr>)
      else if strcmp step ''relay-best'' = 0 then
        Option.bind (append_health ''path-direct=healthy,rtt=80,loss=0.5''
          (opts\<lparr>sc_mode := Some ''evaluated'', sc_comparison_order := Some ''packet_loss,latency,hop_count,path_id'',
            sc_expected_path := Some ''path-via-relay-c''\<rparr>)) (\<lambda>o1.
        Option.bind (append_health ''path-via-relay-c=healthy,rtt=30,loss=0.1'' o1)
          (append_health ''path-via-hub=healthy,rtt=50,loss=0.2''))
      else None)"

text \<open>The loop over the arguments: an exit status, or the options and the steps.\<close>

fun scenario_arguments ::
  "scenario_options \<Rightarrow> string list \<Rightarrow> string list \<Rightarrow> int + scenario_options \<times> string list" where
  "scenario_arguments opts named [] = Inr (opts, named)"
| "scenario_arguments opts named (a # rest) =
     (if rest \<noteq> [] \<and> strcmp a ''--intent'' = 0 then scenario_arguments (opts\<lparr>sc_intent_id := Some (hd rest)\<rparr>) named (tl rest)
      else if rest \<noteq> [] \<and> strcmp a ''--mode'' = 0 then scenario_arguments (opts\<lparr>sc_mode := Some (hd rest)\<rparr>) named (tl rest)
      else if rest \<noteq> [] \<and> strcmp a ''--active-path'' = 0 then
        scenario_arguments (opts\<lparr>sc_active_path := Some (hd rest)\<rparr>) named (tl rest)
      else if rest \<noteq> [] \<and> strcmp a ''--fail-path'' = 0 then
        scenario_arguments (opts\<lparr>sc_failed_path := Some (hd rest)\<rparr>) named (tl rest)
      else if rest \<noteq> [] \<and> strcmp a ''--health'' = 0 then
        (case append_health (hd rest) opts of None \<Rightarrow> Inl 2 | Some opts' \<Rightarrow> scenario_arguments opts' named (tl rest))
      else if rest \<noteq> [] \<and> strcmp a ''--compare'' = 0 then
        scenario_arguments (opts\<lparr>sc_comparison_order := Some (hd rest)\<rparr>) named (tl rest)
      else if rest \<noteq> [] \<and> strcmp a ''--expect'' = 0 then
        scenario_arguments (opts\<lparr>sc_expected_path := Some (hd rest)\<rparr>) named (tl rest)
      else if rest \<noteq> [] \<and> strcmp a ''--explain-json'' = 0 then
        scenario_arguments (opts\<lparr>sc_explain_json := Some (hd rest)\<rparr>) named (tl rest)
      else if rest \<noteq> [] \<and> strcmp a ''--step'' = 0 then
        (if EN_MAX_EVENTS \<le> length named then Inl 2 else scenario_arguments opts (named @ [hd rest]) (tl rest))
      else if strcmp a ''--generate-runtime'' = 0 then scenario_arguments (opts\<lparr>sc_generate := True\<rparr>) named rest
      else if strcmp a ''--help'' = 0 \<or> strcmp a ''-h'' = 0 then Inl 0
      else scenario_arguments (opts\<lparr>sc_filename := a\<rparr>) named rest)"

section \<open>The intent of the scenario\<close>

definition put_selection :: "(en_path_selection \<Rightarrow> en_path_selection) \<Rightarrow> en_intent \<Rightarrow> en_intent" where
  "put_selection f intent = intent\<lparr>it_path_selection := f (it_path_selection intent)\<rparr>"

definition force_selection_mode :: "string \<Rightarrow> en_intent \<Rightarrow> en_intent option" where
  "force_selection_mode mode intent =
     (if strcmp mode ''explicit'' = 0 then Some (put_selection (\<lambda>s. s\<lparr>ps_mode := EN_SELECT_EXPLICIT\<rparr>) intent)
      else if strcmp mode ''priority'' = 0 then Some (put_selection (\<lambda>s. s\<lparr>ps_mode := EN_SELECT_PRIORITY\<rparr>) intent)
      else if strcmp mode ''evaluated'' = 0 then Some (put_selection (\<lambda>s. s\<lparr>ps_mode := EN_SELECT_EVALUATED\<rparr>) intent)
      else None)"

definition parse_comparison_key_arg :: "string \<Rightarrow> en_comparison_key option" where
  "parse_comparison_key_arg s =
     (if one_of s [''packet_loss'', ''loss''] then Some EN_COMPARE_PACKET_LOSS
      else if one_of s [''latency'', ''rtt'', ''rtt_ms''] then Some EN_COMPARE_LATENCY
      else if one_of s [''hop_count'', ''hops''] then Some EN_COMPARE_HOP_COUNT
      else if one_of s [''priority'', ''administrative_priority''] then Some EN_COMPARE_ADMIN_PRIORITY
      else if one_of s [''path_id''] then Some EN_COMPARE_PATH_ID else None)"

function order_keys :: "en_comparison_key list \<Rightarrow> string \<Rightarrow> en_comparison_key list option" where
  "order_keys seen s =
     (if s = [] then Some seen
      else case parse_comparison_key_arg (first_item s) of
        None \<Rightarrow> None
      | Some key \<Rightarrow> if EN_MAX_COMPARISONS \<le> length seen then None else order_keys (seen @ [key]) (later_items s))"
  by pat_completeness auto
termination
  by (relation "measure (\<lambda>(seen, s). length s)") (simp_all only: wf_measure in_measure prod.case later_items_shorter not_False_eq_True)

declare order_keys.simps [simp del]

definition force_comparison_order :: "string \<Rightarrow> en_intent \<Rightarrow> en_intent option" where
  "force_comparison_order names intent =
     map_option (\<lambda>keys. put_selection (\<lambda>s. s\<lparr>ps_comparison_order := keys\<rparr>) intent) (order_keys [] (fit 256 names))"

definition scenario_intent :: "scenario_options \<Rightarrow> en_intent \<Rightarrow> en_intent option" where
  "scenario_intent opts base =
     Option.bind (case sc_mode opts of None \<Rightarrow> Some base | Some mode \<Rightarrow> force_selection_mode mode base) (\<lambda>i.
       case sc_comparison_order opts of None \<Rightarrow> Some i | Some names \<Rightarrow> force_comparison_order names i)"

end
