(* ===== verification/ScenarioMain.thy ===== *)
theory ScenarioMain
  imports ScenarioRun
begin

text \<open>
  The run of a scenario and \<open>main\<close> of \<open>src/examples/eventnet_scenario.c\<close>: the submission or the fallback, the line of the
  explanation file, the runtime script, and the steps.
\<close>

section \<open>The run\<close>

text \<open>The selected path, when the active path is the failed one and the intent has a fallback, is the fallback.\<close>

definition scenario_falls_back :: "scenario_options \<Rightarrow> en_intent \<Rightarrow> bool" where
  "scenario_falls_back opts intent \<longleftrightarrow>
     (case (sc_active_path opts, sc_failed_path opts) of
        (Some a, Some f) \<Rightarrow> fp_enabled (it_fallback intent) \<and> fp_path_id (it_fallback intent) \<noteq> [] \<and> strcmp a f = 0
      | _ \<Rightarrow> False)"

definition failed_injection :: "string \<Rightarrow> injected_health" where
  "failed_injection path_id = zero_injected\<lparr>ih_path_id := fit EN_MAX_ID_LEN path_id, ih_state := EN_HEALTH_FAILED,
     ih_packet_loss_percent := Fin 100\<rparr>"

definition scenario_injections :: "scenario_options \<Rightarrow> injected_health list" where
  "scenario_injections opts =
     sc_injected opts @ (case sc_failed_path opts of None \<Rightarrow> [] | Some f \<Rightarrow> [failed_injection f])"

definition scenario_mocks :: "scenario_options \<Rightarrow> mocks" where
  "scenario_mocks opts =
     \<lparr>mc_vpp = Some \<lparr>vm_fail_next_update = False, vm_routes = [], vm_install_count = 0, vm_remove_count = 0\<rparr>,
      mc_health = Some (fold apply_health_override (scenario_injections opts) [], False)\<rparr>"

text \<open>The controller of a scenario knows the paths and the tunnels of the configuration, and no nodes.\<close>

definition create_for_scenario :: "bool \<Rightarrow> en_yaml_config \<Rightarrow> mocks en_controller option" where
  "create_for_scenario memory config =
     en_controller_create_with_tunnels memory (Some (yc_paths config)) (length (yc_paths config))
       (Some (yc_tunnels config)) (length (yc_tunnels config))
       en_strongswan_mock_adapter en_vpp_mock_adapter en_health_probe_mock_adapter"

definition fallback_result :: "en_intent \<Rightarrow> string \<Rightarrow> string \<Rightarrow> en_path \<Rightarrow> en_reconcile_result" where
  "fallback_result intent active failed fallback = zero_reconcile_result\<lparr>
     rr_intent_id := fit EN_MAX_ID_LEN (it_intent_id intent), rr_selected_path := fit EN_MAX_ID_LEN (pt_path_id fallback),
     rr_transition_state := EN_TRANSITION_COMPLETED,
     rr_explanation := (rr_explanation zero_reconcile_result)\<lparr>
       sr_selected_path := fit EN_MAX_ID_LEN (pt_path_id fallback),
       sr_reason := fit 128 (''active path '' @ active @ '' failed; using fallback '' @ pt_path_id fallback),
       sr_excluded_path_ids := [fit EN_MAX_ID_LEN failed], sr_excluded_reasons := [''active path failed event'']\<rparr>\<rparr>"

section \<open>The explanation\<close>

record explain_event =
  xe_excluded :: "json_object list"
  xe_injected :: "json_object list"
  xe_fields :: json_object

definition json_or_empty :: "string option \<Rightarrow> json_value" where
  "json_or_empty s = JString (case s of None \<Rightarrow> [] | Some x \<Rightarrow> x)"

definition explanation :: "scenario_options \<Rightarrow> en_reconcile_result \<Rightarrow> string option \<Rightarrow> bool \<Rightarrow> explain_event" where
  "explanation opts result step_name expect_pass = \<lparr>
     xe_excluded = map (\<lambda>(p, r). [(''path_id'', JString p), (''reason'', JString r)])
       (zip (sr_excluded_path_ids (rr_explanation result)) (sr_excluded_reasons (rr_explanation result))),
     xe_injected = map (\<lambda>h. [(''path_id'', JString (ih_path_id h)), (''state'', JString (en_health_state_name (ih_state h))),
       (''rtt_ms'', JReal (if ih_has_rtt_ms h then ih_rtt_ms h else Fin 10)),
       (''packet_loss_percent'', JReal (if ih_has_packet_loss_percent h then ih_packet_loss_percent h else Fin 0))])
       (sc_injected opts),
     xe_fields = [(''schema'', JString ''eventnet.scenario.explain.v1''),
       (''scenario_step'', JString (case step_name of None \<Rightarrow> ''single'' | Some s \<Rightarrow> s)), (''yaml'', JString (sc_filename opts)),
       (''intent'', JString (rr_intent_id result)),
       (''selection_mode'', JString (case sc_mode opts of None \<Rightarrow> ''yaml'' | Some m \<Rightarrow> m)),
       (''active_path'', json_or_empty (sc_active_path opts)), (''failed_path'', json_or_empty (sc_failed_path opts)),
       (''selected_path'', JString (rr_selected_path result)),
       (''transition_state'', JString (en_transition_state_name (rr_transition_state result))),
       (''reason'', JString (sr_reason (rr_explanation result))), (''expect'', json_or_empty (sc_expected_path opts)),
       (''result'', JString (if expect_pass then ''pass'' else ''fail''))]\<rparr>"

text \<open>
  \<open>se_write\<close> is the writer of yyjson on such a document, \<open>se_files\<close> what \<open>fopen\<close> gives for the configuration, \<open>se_world\<close> the
  world of the controller, \<open>se_script\<close> the exit status of a command, \<open>None\<close> when \<open>fork\<close> or \<open>waitpid\<close> fails or the child does
  not exit.
\<close>

record scenario_env =
  se_memory :: bool
  se_files :: "string \<Rightarrow> (string \<times> bool) option"
  se_world :: "mocks world"
  se_script :: "string list \<Rightarrow> int option"
  se_write :: "explain_event \<Rightarrow> string option"

text \<open>\<open>sn_controller\<close>: there is a controller that was created and not destroyed.\<close>

record scenario =
  sn_streams :: out_streams
  sn_commands :: "string list list"
  sn_controller :: bool

definition on_scenario_streams :: "(out_streams, 'a) state \<Rightarrow> (scenario, 'a) state" where
  "on_scenario_streams m = State (\<lambda>s. case run_state m (sn_streams s) of (a, u) \<Rightarrow> (a, s\<lparr>sn_streams := u\<rparr>))"

text \<open>\<open>fopen\<close> to append; a link stands for the file it leads to.\<close>

definition open_append :: "string \<Rightarrow> (disk, bool) state" where
  "open_append name = do {
     f \<leftarrow> fault;
     files \<leftarrow> gets dk_files;
     if f \<noteq> None then State_Monad.return False
     else do {
       _ \<leftarrow> (if files name = None
            then set_file name (Some \<lparr>df_kind = REGULAR, df_shared = False, df_content = []\<rparr>) else skip);
       State_Monad.return True
     }
   }"

definition append_json_event ::
  "scenario_env \<Rightarrow> scenario_options \<Rightarrow> en_reconcile_result \<Rightarrow> string option \<Rightarrow> bool \<Rightarrow> (scenario, bool) state" where
  "append_json_event env opts result step_name expect_pass =
     (case sc_explain_json opts of
        None \<Rightarrow> State_Monad.return True
      | Some name \<Rightarrow> on_scenario_streams (do {
          opened \<leftarrow> on_output_disk (open_append name);
          if \<not> opened then State_Monad.return False
          else do {
            e \<leftarrow> en_json_mut_doc_write_line (Some name) (se_write env (explanation opts result step_name expect_pass));
            State_Monad.return (e = EN_ERR_NONE)
          }
        }))"

section \<open>The runtime script\<close>

definition runtime_command :: "scenario_options \<Rightarrow> en_reconcile_result \<Rightarrow> string list" where
  "runtime_command opts result =
     [''sh'', ''scripts/vm-generate-netns-runtime.sh'', sc_filename opts] @
     (case (sc_active_path opts, sc_failed_path opts) of
        (Some a, Some f) \<Rightarrow>
          if strcmp a f = 0 then [''--active-path'', a, ''--fail-path'', f] else [''--path'', rr_selected_path result]
      | _ \<Rightarrow> [''--path'', rr_selected_path result])"

definition generate_runtime :: "scenario_env \<Rightarrow> scenario_options \<Rightarrow> en_reconcile_result \<Rightarrow> (scenario, int) state" where
  "generate_runtime env opts result = do {
     _ \<leftarrow> modify (\<lambda>s. s\<lparr>sn_commands := sn_commands s @ [runtime_command opts result]\<rparr>);
     State_Monad.return (if se_script env (runtime_command opts result) = Some 0 then 0 else 1)
   }"

section \<open>A scenario\<close>

definition expectation_met :: "scenario_options \<Rightarrow> en_reconcile_result \<Rightarrow> bool" where
  "expectation_met opts result \<longleftrightarrow>
     (case sc_expected_path opts of None \<Rightarrow> True | Some e \<Rightarrow> strcmp (rr_selected_path result) e = 0)"

text \<open>
  \<open>en_controller_destroy\<close> frees the controller; what follows it is \<open>rest\<close>. Destroying a controller that was destroyed is
  undefined: \<open>None\<close>.
\<close>

definition destroying :: "(scenario, int option) state \<Rightarrow> (scenario, int option) state" where
  "destroying rest = do {
     live \<leftarrow> gets sn_controller;
     if \<not> live then State_Monad.return None
     else do {
       _ \<leftarrow> modify (\<lambda>s. s\<lparr>sn_controller := False\<rparr>);
       rest
     }
   }"

text \<open>After the fallback was taken: the script, the event, the expectation.\<close>

definition finish_fallback ::
  "scenario_env \<Rightarrow> scenario_options \<Rightarrow> string option \<Rightarrow> en_reconcile_result \<Rightarrow> (scenario, int option) state" where
  "finish_fallback env opts step_name result = do {
     generated \<leftarrow> (if sc_generate opts then generate_runtime env opts result else State_Monad.return 0);
     if generated \<noteq> 0 then destroying (State_Monad.return (Some 1))
     else destroying (do {
       written \<leftarrow> append_json_event env opts result step_name (expectation_met opts result);
       if \<not> written then destroying (State_Monad.return (Some 1))
       else State_Monad.return (if expectation_met opts result then Some 0 else Some 1)
     })
   }"

text \<open>After a submission.\<close>

definition finish_submission ::
  "scenario_env \<Rightarrow> scenario_options \<Rightarrow> string option \<Rightarrow> en_reconcile_result \<Rightarrow> (scenario, int option) state" where
  "finish_submission env opts step_name result = do {
     generated \<leftarrow> (if sc_generate opts then generate_runtime env opts result else State_Monad.return 0);
     if generated \<noteq> 0 then State_Monad.return (Some 1)
     else if \<not> expectation_met opts result then do {
       _ \<leftarrow> append_json_event env opts result step_name False;
       State_Monad.return (Some 1)
     }
     else do {
       written \<leftarrow> append_json_event env opts result step_name True;
       State_Monad.return (Some (if written then 0 else 1))
     }
   }"

definition run_scenario :: "scenario_env \<Rightarrow> scenario_options \<Rightarrow> string option \<Rightarrow> (scenario, int option) state" where
  "run_scenario env opts step_name =
     (case en_yaml_config_load_file (se_files env) (Some (sc_filename opts)) True 256 of
        Parsed config \<Rightarrow>
          (case find_intent config (sc_intent_id opts) of
             None \<Rightarrow> State_Monad.return (Some 1)
           | Some base \<Rightarrow> (case scenario_intent opts base of
               None \<Rightarrow> State_Monad.return (Some 2)
             | Some intent \<Rightarrow> (case create_for_scenario (se_memory env) config of
                 None \<Rightarrow> State_Monad.return (Some 1)
               | Some k \<Rightarrow> do {
                   _ \<leftarrow> modify (\<lambda>s. s\<lparr>sn_controller := True\<rparr>);
                   if scenario_falls_back opts intent then
                     (case find_path config (fp_path_id (it_fallback intent)) of
                        None \<Rightarrow> destroying (State_Monad.return (Some 1))
                      | Some fallback \<Rightarrow> finish_fallback env opts step_name
                          (fallback_result intent (the (sc_active_path opts)) (the (sc_failed_path opts)) fallback))
                   else destroying
                     (case run_state (en_controller_submit_intent (Some intent) (Some zero_reconcile_result))
                       \<lparr>ctl = k, world = (se_world env)\<lparr>dev := scenario_mocks opts\<rparr>\<rparr> of
                        ((EN_ERR_NONE, Some result), _) \<Rightarrow> finish_submission env opts step_name result
                      | _ \<Rightarrow> State_Monad.return (Some 1))
                 })))
      | _ \<Rightarrow> State_Monad.return (Some 1))"

section \<open>The process\<close>

definition step_base :: "scenario_options \<Rightarrow> scenario_options" where
  "step_base opts = opts\<lparr>sc_active_path := None, sc_failed_path := None, sc_expected_path := None, sc_injected := [],
     sc_generate := False\<rparr>"

text \<open>\<open>envs i\<close> is what the \<open>i\<close>-th step finds.\<close>

primrec run_steps ::
  "(nat \<Rightarrow> scenario_env) \<Rightarrow> scenario_options \<Rightarrow> nat \<Rightarrow> string list \<Rightarrow> (scenario, int option) state" where
  "run_steps envs base i [] = State_Monad.return (Some 0)"
| "run_steps envs base i (name # names) =
     (case apply_named_step (step_base base) name of
        None \<Rightarrow> State_Monad.return (Some 2)
      | Some opts \<Rightarrow> do {
          rc \<leftarrow> run_scenario (envs i) opts (Some name);
          if rc \<noteq> Some 0 then State_Monad.return rc else run_steps envs base (Suc i) names
        })"

definition scenario_main :: "(nat \<Rightarrow> scenario_env) \<Rightarrow> string list \<Rightarrow> (scenario, int option) state" where
  "scenario_main envs args =
     (case scenario_arguments scenario_defaults [] args of
        Inl e \<Rightarrow> State_Monad.return (Some e)
      | Inr (base, names) \<Rightarrow>
          if names = [] then run_scenario (envs 0) base None
          else do {
            _ \<leftarrow> (case sc_explain_json base of
              None \<Rightarrow> skip | Some name \<Rightarrow> on_scenario_streams (on_output_disk (unlink name)));
            run_steps envs base 0 names
          })"

end
