(* ===== verification/ScenarioSafety.thy ===== *)
theory ScenarioSafety
  imports ScenarioMain NetnsSafety
begin

text \<open>
  What a scenario of \<open>src/examples/eventnet_scenario.c\<close> shows when it passes: which path was selected, and that no path with
  injected failed health was.
\<close>

section \<open>The injected health\<close>

text \<open>The state that was injected last for a path.\<close>

definition injected_state :: "string \<Rightarrow> injected_health list \<Rightarrow> en_health_state option" where
  "injected_state path_id hs =
     fold (\<lambda>h s. if fit EN_MAX_ID_LEN (ih_path_id h) = path_id then Some (ih_state h) else s) hs None"

definition plain_record :: "en_path_health \<Rightarrow> bool" where
  "plain_record h \<longleftrightarrow> \<not> ph_has_route_observation h \<and> \<not> ph_has_interface_observation h \<and> ph_last_updated_ms h = 0 \<and> ph_sequence h = 0"

definition state_at :: "string \<Rightarrow> en_path_health list \<Rightarrow> en_health_state option" where
  "state_at path_id overrides = map_option ph_state (find (\<lambda>h. ph_path_id h = path_id) overrides)"

lemma override_plain [simp]: "plain_record (health_override h)" "ph_state (health_override h) = ih_state h"
  "ph_path_id (health_override h) = fit EN_MAX_ID_LEN (ih_path_id h)"
  by (simp_all add: health_override_def plain_record_def zero_health_def Let_def)

lemma merge_plain:
  assumes "plain_record c" "plain_record h"
  shows "plain_record (merge_health c h)" "ph_state (merge_health c h) = ph_state h"
    "ph_path_id (merge_health c h) = ph_path_id h"
  using assms by (simp_all add: merge_health_def stale_def plain_record_def merge_measurement_def)

lemma override_step:
  assumes "list_all plain_record ov" "length ov < EN_MAX_PATHS"
  shows "list_all plain_record (apply_health_override h ov)" "length (apply_health_override h ov) \<le> Suc (length ov)"
    "state_at x (apply_health_override h ov) = (if fit EN_MAX_ID_LEN (ih_path_id h) = x then Some (ih_state h) else state_at x ov)"
proof -
  let ?h = "health_override h"
  let ?P = "\<lambda>o'. ph_path_id o' = ph_path_id ?h"
  have "list_all plain_record (apply_health_override h ov) \<and> length (apply_health_override h ov) \<le> Suc (length ov) \<and>
    state_at x (apply_health_override h ov) = (if ph_path_id ?h = x then Some (ih_state h) else state_at x ov)"
  proof (cases "find_index ?P ov")
    case None
    have "find ?P ov = None" using None by (simp add: find_is_index)
    then show ?thesis using assms None
      by (auto simp: apply_health_override_def en_health_probe_mock_set_def state_at_def find_append_hit split: option.split)
  next
    case (Some i)
    have i: "i < length ov" "ph_path_id (ov ! i) = ph_path_id ?h" using find_index_Some [OF Some] by auto
    have c: "plain_record (ov ! i)" using assms(1) i(1) by (simp add: list_all_length)
    let ?m = "merge_health (ov ! i) ?h"
    note m = merge_plain [OF c override_plain(1) [of h]]
    have "list_all plain_record (ov[i := ?m])"
      using assms(1) m(1) set_update_subset_insert [of ov i ?m] by (auto simp: list_all_iff)
    moreover have "state_at x (ov[i := ?m]) = (if ph_path_id ?h = x then Some (ih_state h) else state_at x ov)"
    proof (cases "ph_path_id ?h = x")
      case True
      then have "find_index (\<lambda>h. ph_path_id h = x) ov = Some i" using Some by simp
      from find_update [OF this, of ?m] m True show ?thesis by (simp add: state_at_def)
    next
      case False
      with i m find_update_other [of "\<lambda>h. ph_path_id h = x" ov i ?m] show ?thesis by (simp add: state_at_def)
    qed
    ultimately show ?thesis using Some by (simp add: apply_health_override_def en_health_probe_mock_set_def)
  qed
  then show "list_all plain_record (apply_health_override h ov)" "length (apply_health_override h ov) \<le> Suc (length ov)"
    "state_at x (apply_health_override h ov) = (if fit EN_MAX_ID_LEN (ih_path_id h) = x then Some (ih_state h) else state_at x ov)"
    by simp_all
qed

lemma overrides_state:
  "list_all plain_record ov \<Longrightarrow> length ov + length hs \<le> EN_MAX_PATHS \<Longrightarrow>
   state_at x (fold apply_health_override hs ov) =
     fold (\<lambda>h s. if fit EN_MAX_ID_LEN (ih_path_id h) = x then Some (ih_state h) else s) hs (state_at x ov)"
proof (induction hs arbitrary: ov)
  case (Cons h hs)
  then have "length ov < EN_MAX_PATHS" by simp
  note step = override_step [OF Cons.prems(1) this]
  have "length (apply_health_override h ov) + length hs \<le> EN_MAX_PATHS" using step(2) [of h] Cons.prems(2) by simp
  from Cons.IH [OF step(1) this] step(3) [where h = h and x = x] show ?case by simp
qed simp

lemma injected_overrides:
  "length hs \<le> EN_MAX_PATHS \<Longrightarrow> state_at x (fold apply_health_override hs []) = injected_state x hs"
  using overrides_state [of "[]" hs x] by (simp add: injected_state_def state_at_def)

section \<open>The submission\<close>

definition scenario_state :: "en_yaml_config \<Rightarrow> en_controller_state" where
  "scenario_state config = (fresh_state config)\<lparr>nodes := []\<rparr>"

lemma create_scenario:
  "create_for_scenario memory config = Some k \<Longrightarrow> cstate k = scenario_state config \<and> audit_events k = [] \<and>
   strongswan k = en_strongswan_mock_adapter \<and> vpp k = en_vpp_mock_adapter \<and> health_probe k = en_health_probe_mock_adapter"
  by (auto simp: create_for_scenario_def en_controller_create_with_tunnels_def en_controller_create_with_nodes_and_tunnels_def
      elements_def scenario_state_def fresh_state_def split: if_splits)

lemma scenario_wf: "well_formed_config config \<Longrightarrow> wf_state (scenario_state config)"
  using well_formed_parts [of config]
  by (auto simp: scenario_state_def fresh_state_def wf_state_def wf_config_def wf_registries_def config_counts_valid_def
      list_all_iff)

text \<open>A path that the probe of the scenario finds usable has no other injected state.\<close>

lemma usable_injected:
  assumes usable: "probe_found_usable planner_adapters key (w\<lparr>dev := scenario_mocks opts\<rparr>) c target"
    and few: "length (scenario_injections opts) \<le> EN_MAX_PATHS"
  shows "injected_state (pt_path_id (paths c ! target)) (scenario_injections opts) \<in> {None, Some EN_HEALTH_HEALTHY, Some EN_HEALTH_DEGRADED}"
proof -
  obtain p v h v' where p: "configured_path p = configured_path (paths c ! target)"
    and v: "(outside_step planner_adapters key)\<^sup>*\<^sup>* (w\<lparr>dev := scenario_mocks opts\<rparr>) v"
    and run: "run_state (mock_validate_path p zero_health) v = ((EN_ERR_NONE, h), v')"
    and h: "ph_state h = EN_HEALTH_HEALTHY \<or> ph_state h = EN_HEALTH_DEGRADED"
    using usable by (auto simp: probe_found_usable_def en_health_probe_mock_adapter_def)
  let ?ov = "fold apply_health_override (scenario_injections opts) []"
  have pid: "pt_path_id p = pt_path_id (paths c ! target)" by (rule configured_path_fields(1) [OF p])
  have mock: "mc_health (dev v) = Some (?ov, False)" using mocks_steps [OF v] by (simp add: scenario_mocks_def)
  show ?thesis
  proof (cases "find (\<lambda>h. ph_path_id h = pt_path_id p) ?ov")
    case None
    then have "state_at (pt_path_id p) ?ov = None" by (simp add: state_at_def)
    then show ?thesis using injected_overrides [OF few] pid by simp
  next
    case (Some f)
    then have "ph_state h = ph_state f"
      using run mock by (auto simp: mock_validate_path_def probe_override_def observed_override_def)
    moreover have "injected_state (pt_path_id p) (scenario_injections opts) = Some (ph_state f)"
      using injected_overrides [OF few, of "pt_path_id p"] Some by (simp add: state_at_def)
    ultimately show ?thesis using h pid by auto
  qed
qed

lemma scenario_submission:
  assumes config: "well_formed_config config"
    and k: "create_for_scenario memory config = Some k"
    and run: "run_state (en_controller_submit_intent (Some intent) (Some zero_reconcile_result))
      \<lparr>ctl = k, world = w\<lparr>dev := scenario_mocks opts\<rparr>\<rparr> = ((EN_ERR_NONE, Some r), t)"
  shows "\<exists>path\<in>set (yc_paths config). pt_path_id path = rr_selected_path r \<and>
    satisfies_policy (scenario_state config) (ps_constraints (it_path_selection intent)) path \<and>
    (length (scenario_injections opts) \<le> EN_MAX_PATHS \<longrightarrow>
      injected_state (pt_path_id path) (scenario_injections opts) \<in> {None, Some EN_HEALTH_HEALTHY, Some EN_HEALTH_DEGRADED})"
proof -
  let ?s = "\<lparr>ctl = k, world = w\<lparr>dev := scenario_mocks opts\<rparr>\<rparr>" and ?c = "scenario_state config"
  have s: "st ?s = ?c" "adapters ?s = planner_adapters"
    using create_scenario [OF k] by (simp_all add: st_def adapters_def)
  have wf: "wf_state (st ?s)" using scenario_wf [OF config] s by simp
  have none: "applied (st ?s) = []" by (simp add: s scenario_state_def fresh_state_def)
  obtain target where target: "en_find_path ?c (Some (rr_selected_path r)) = Some target"
    and usable: "probe_found_usable planner_adapters (transition_key intent) (w\<lparr>dev := scenario_mocks opts\<rparr>) ?c target"
    using submission_usable [OF wf none run] s by auto
  have "applied_room (transition_key intent) (st ?s)" by (simp add: applied_room_def none)
  then have "satisfies_policy ?c (ps_constraints (it_path_selection intent)) (paths ?c ! target)"
    using submission_settled [OF wf _ run] target s by auto
  moreover have "pt_path_id (paths ?c ! target) = rr_selected_path r" "paths ?c ! target \<in> set (yc_paths config)"
    using find_path_id [OF target] by (auto simp: scenario_state_def fresh_state_def)
  ultimately show ?thesis using usable_injected [OF usable] by auto
qed

end
