(* ===== verification/ScenarioHealth.thy ===== *)
theory ScenarioHealth
  imports ScenarioSafety
begin

text \<open>
  What the controller of a scenario of \<open>src/examples/eventnet_scenario.c\<close> knows of the health of its paths when it selects one:
  the injected records. So the path of a scenario that passes keeps to the limits of the intent.
\<close>

section \<open>The health at the selection\<close>

text \<open>
  What the probe of a scenario reports for a path, but for the time: the injected record of the path, or a healthy one.
\<close>

definition scenario_health :: "scenario_options \<Rightarrow> en_path \<Rightarrow> en_path_health" where
  "scenario_health opts p =
     (case find (\<lambda>h. ph_path_id h = pt_path_id p) (fold apply_health_override (scenario_injections opts) []) of
        Some h \<Rightarrow> h | None \<Rightarrow> default_health p 0 zero_health)"

lemma usable_any_time: "path_usable k a (Some (h\<lparr>ph_last_updated_ms := n\<rparr>)) = path_usable k a (Some h)"
  by (simp add: path_usable_def health_broken_def)

text \<open>The controller observes with the probe of the scenario, over the paths \<open>ps\<close>, and knows no other health.\<close>

definition observes :: "scenario_options \<Rightarrow> en_path list \<Rightarrow> mocks machine \<Rightarrow> bool" where
  "observes opts ps s \<longleftrightarrow> paths (st s) = ps \<and> wf_state (st s) \<and> applied (st s) = [] \<and>
     health_probe (ctl s) = en_health_probe_mock_adapter \<and> dev (world s) = scenario_mocks opts \<and>
     (\<forall>h\<in>set (health (st s)). \<exists>p\<in>set ps. \<exists>n. h = (scenario_health opts p)\<lparr>ph_last_updated_ms := n\<rparr> \<and> ph_path_id h = pt_path_id p)"

lemma health_known:
  "health_of c (Some x) = Some h \<longleftrightarrow> (\<exists>i. find_index (\<lambda>h. ph_path_id h = x) (health c) = Some i \<and> h = health c ! i)"
  by (auto simp: health_of_def en_find_health_def en_streq_iff split: option.splits)

lemma put_health_known:
  assumes "\<forall>h\<in>set (health c). ph_path_id h \<in> ids" "finite ids" "card ids \<le> EN_MAX_PATHS" "distinct (map ph_path_id (health c))"
    and "ph_path_id h \<in> ids"
  shows "ph_path_id ` set (health (put_health h c)) = insert (ph_path_id h) (ph_path_id ` set (health c))"
    "set (health (put_health h c)) \<subseteq> insert h (set (health c))"
proof -
  show "set (health (put_health h c)) \<subseteq> insert h (set (health c))"
    by (auto simp: put_health_def dest: subsetD [OF set_update_subset_insert] split: option.splits)
  show "ph_path_id ` set (health (put_health h c)) = insert (ph_path_id h) (ph_path_id ` set (health c))"
  proof (cases "en_find_health c (Some (ph_path_id h))")
    case None
    then have new: "ph_path_id h \<notin> ph_path_id ` set (health c)"
      by (auto simp: en_find_health_def en_streq_iff find_index_None)
    then have "insert (ph_path_id h) (ph_path_id ` set (health c)) \<subseteq> ids" using assms(1,5) by auto
    from card_mono [OF assms(2) this] new have "Suc (card (ph_path_id ` set (health c))) \<le> card ids" by simp
    moreover have "card (ph_path_id ` set (health c)) = length (health c)"
      using distinct_card [OF assms(4)] by simp
    ultimately have "length (health c) < EN_MAX_PATHS" using assms(3) by simp
    with None show ?thesis by (auto simp: put_health_def)
  next
    case (Some i)
    then have i: "i < length (health c)" "ph_path_id (health c ! i) = ph_path_id h"
      using find_index_Some [of _ "health c" i] by (auto simp: en_find_health_def en_streq_iff)
    then have "map ph_path_id ((health c)[i := h]) = map ph_path_id (health c)"
      by (simp add: map_update list_update_same_conv)
    then have "ph_path_id ` set ((health c)[i := h]) = ph_path_id ` set (health c)" by (metis list.set_map)
    moreover have "ph_path_id h \<in> ph_path_id ` set (health c)" using i by (metis imageI nth_mem)
    ultimately show ?thesis using Some by (auto simp: put_health_def)
  qed
qed

lemma probe_reports:
  assumes "run_state (mock_validate_path p zero_health) w = ((EN_ERR_NONE, h), w')" "dev w = scenario_mocks opts"
    and "length (pt_path_id p) < EN_MAX_ID_LEN"
  shows "dev w' = scenario_mocks opts \<and> (\<exists>n. h = (scenario_health opts p)\<lparr>ph_last_updated_ms := n\<rparr>) \<and> ph_path_id h = pt_path_id p"
  using assms
  by (auto simp: mock_validate_path_def en_now_ms_def scenario_mocks_def probe_override_def scenario_health_def default_health_def
      observed_override_def fit_def split: option.splits dest: find_Some_mem)

lemma observe_one_known:
  assumes I: "observes opts ps s" and run: "run_state (observe_one x) s = (EN_ERR_NONE, t)"
  shows "observes opts ps t \<and> ph_path_id ` set (health (st t)) = insert x (ph_path_id ` set (health (st s)))"
proof -
  have probe: "validate_path (health_probe (ctl s)) = Some mock_validate_path"
    using I by (simp add: observes_def en_health_probe_mock_adapter_def)
  obtain i where i: "en_find_path (st s) (Some x) = Some i"
    using run by (auto simp: observe_one_def split: option.splits)
  let ?p = "paths (st s) ! i"
  have p: "?p \<in> set ps" "pt_path_id ?p = x" "length (pt_path_id ?p) < EN_MAX_ID_LEN"
    using find_path_id [OF i] find_path_wf [OF _ i] I by (auto simp: observes_def)
  obtain e h w' where called: "run_state (mock_validate_path ?p zero_health) (world s) = ((e, h), w')" by (metis surj_pair)
  with run probe i have h: "run_state (mock_validate_path ?p zero_health) (world s) = ((EN_ERR_NONE, h), w')"
    and t: "t = upd_st (put_health h) (s\<lparr>world := w'\<rparr>)"
    by (auto simp: observe_one_def run_on_world store_health_def split: if_splits)
  have "dev (world s) = scenario_mocks opts" using I by (simp add: observes_def)
  note reported = probe_reports [OF h this p(3)]
  have r: "dev w' = scenario_mocks opts" "\<exists>n. h = (scenario_health opts ?p)\<lparr>ph_last_updated_ms := n\<rparr>" "ph_path_id h = x"
    using reported p(2) by blast+
  have wf: "length ps \<le> EN_MAX_PATHS" "distinct (map ph_path_id (health (st s)))"
    using I by (auto simp: observes_def wf_state_def wf_config_def wf_registries_def)
  have known: "\<forall>h\<in>set (health (st s)). ph_path_id h \<in> pt_path_id ` set ps"
    using I unfolding observes_def by (metis imageI)
  have few: "card (pt_path_id ` set ps) \<le> EN_MAX_PATHS"
    using le_trans [OF card_image_le [OF finite_set, of pt_path_id ps] le_trans [OF card_length wf(1)]] .
  have this_id: "ph_path_id h \<in> pt_path_id ` set ps" using p(1,2) r(3) by (metis imageI)
  note put = put_health_known [OF known _ few wf(2) this_id, simplified]
  have "st t = put_health h (st s)" "health_probe (ctl t) = health_probe (ctl s)" "dev (world t) = dev w'"
    by (simp_all add: t st_def upd_st_def)
  moreover have "paths (put_health h (st s)) = paths (st s)" "applied (put_health h (st s)) = applied (st s)"
    by (simp_all add: put_health_def split: option.split)
  moreover have "\<exists>q\<in>set ps. \<exists>n. g = (scenario_health opts q)\<lparr>ph_last_updated_ms := n\<rparr> \<and> ph_path_id g = pt_path_id q"
    if "g \<in> set (health (put_health h (st s)))" for g
  proof (cases "g = h")
    case True
    then show ?thesis using p(1,2) r(2,3) by blast
  next
    case False
    with that put(2) have "g \<in> set (health (st s))" by blast
    with I show ?thesis by (simp add: observes_def)
  qed
  ultimately show ?thesis
    using I put(1) r(1,3) put_health_wf [of "st s" h] by (simp add: observes_def)
qed

lemma observe_all_known:
  "observes opts ps s \<Longrightarrow> run_state (observe_all xs) s = (EN_ERR_NONE, t) \<Longrightarrow>
   observes opts ps t \<and> ph_path_id ` set (health (st t)) = set xs \<union> ph_path_id ` set (health (st s))"
proof (induction xs arbitrary: s)
  case (Cons x xs)
  obtain u where u: "run_state (observe_one x) s = (EN_ERR_NONE, u)" "run_state (observe_all xs) u = (EN_ERR_NONE, t)"
    using Cons.prems(2) by (auto split: prod.splits if_splits)
  from observe_one_known [OF Cons.prems(1) u(1)] Cons.IH [OF _ u(2)] show ?case by auto
qed simp

lemma observe_candidates_known:
  assumes "observes opts ps s" "run_state (observe_candidate_health intent) s = (EN_ERR_NONE, t)"
  shows "observes opts ps t"
    "ps_candidates (it_path_selection intent) \<noteq> [] \<Longrightarrow> set (ps_candidates (it_path_selection intent)) \<subseteq> ph_path_id ` set (health (st t))"
    "ps_candidates (it_path_selection intent) = [] \<Longrightarrow> ps_mode (it_path_selection intent) = EN_SELECT_EXPLICIT \<Longrightarrow>
      ps_path_id (it_path_selection intent) \<in> ph_path_id ` set (health (st t))"
  using assms observe_all_known [OF assms(1)] observe_one_known [OF assms(1)]
  by (auto simp: observe_candidate_health_def split: if_splits)

text \<open>The parts of a successful submission.\<close>

lemma submission_parts:
  assumes "run_state (en_controller_submit_intent (Some intent) (Some r0)) s = ((EN_ERR_NONE, Some r), t)"
  obtains c a s1 s2 sel w where "put_intent intent (st s) = Some c"
    "run_state (en_audit_append ''INTENT_CREATED'' ''intent accepted'' (Some (it_intent_id intent))) (upd_st (\<lambda>_. c) s) = (a, s1)"
    "run_state (observe_candidate_health intent) s1 = (EN_ERR_NONE, s2)"
    "run_state (en_select_path (st s2) intent) (world s2) = ((EN_ERR_NONE, sel), w)"
    "rr_selected_path r = en_copy_id EN_MAX_ID_LEN (Some (sr_selected_path sel))"
proof -
  obtain c where c: "put_intent intent (st s) = Some c" "run_state (reconcile intent r0) (upd_st (\<lambda>_. c) s) = ((EN_ERR_NONE, r), t)"
    using assms by (auto simp: en_controller_submit_intent_def split: if_splits option.splits prod.splits)
  obtain a s1 where a: "run_state (en_audit_append ''INTENT_CREATED'' ''intent accepted'' (Some (it_intent_id intent)))
      (upd_st (\<lambda>_. c) s) = (a, s1)" by (metis surj_pair)
  obtain s2 where s2: "run_state (observe_candidate_health intent) s1 = (EN_ERR_NONE, s2)"
    using c(2) a by (auto simp: reconcile_def split: prod.splits if_splits)
  obtain e sel w where "run_state (en_select_path (st s2) intent) (world s2) = ((e, sel), w)" by (metis surj_pair)
  with c(2) a s2 have sel: "run_state (en_select_path (st s2) intent) (world s2) = ((EN_ERR_NONE, sel), w)"
    and applied: "run_state (apply_selection intent sel r0) (s2\<lparr>world := w\<rparr>) = ((EN_ERR_NONE, r), t)"
    by (auto simp: reconcile_def run_on_world split: if_splits prod.splits)
  have "rr_selected_path r = en_copy_id EN_MAX_ID_LEN (Some (sr_selected_path sel))"
    using applied by (auto simp: apply_selection_def Let_def reconcile_result_def split: prod.splits if_splits option.splits)
  with c(1) a s2 sel show thesis by (rule that)
qed

lemma audit_observes: "preserves (observes opts ps) (en_audit_append ty msg x)"
  by (rule preservesI) (auto simp: en_audit_append_def run_on_world en_now_ms_def observes_def st_def split: if_splits prod.splits)

lemma put_intent_observes:
  assumes "wf_state (st s)" "put_intent intent (st s) = Some c" "observes opts ps s"
  shows "observes opts ps (upd_st (\<lambda>_. c) s)"
proof -
  have "paths c = paths (st s)" "applied c = applied (st s)" "health c = health (st s)"
    using assms(2) by (auto simp: put_intent_def split: option.splits if_splits)
  with assms put_intent_wf [OF assms(1,2)] show ?thesis by (simp add: observes_def upd_st_def)
qed

text \<open>A path that a scenario selects was observed, if it is a candidate or there is no list of them, and it keeps to the limits.\<close>

lemma scenario_selection:
  assumes I: "observes opts ps s" and run: "run_state (en_controller_submit_intent (Some intent) (Some r0)) s = ((EN_ERR_NONE, Some r), t)"
    and listed: "ps_candidates (it_path_selection intent) = [] \<or> rr_selected_path r \<in> set (ps_candidates (it_path_selection intent))"
  shows "\<exists>p\<in>set ps. pt_path_id p = rr_selected_path r \<and>
    path_usable (ps_constraints (it_path_selection intent)) False (Some (scenario_health opts p))"
proof -
  let ?sel = "it_path_selection intent"
  obtain c a s1 s2 sel w where c: "put_intent intent (st s) = Some c"
    "run_state (en_audit_append ''INTENT_CREATED'' ''intent accepted'' (Some (it_intent_id intent))) (upd_st (\<lambda>_. c) s) = (a, s1)"
    and s2: "run_state (observe_candidate_health intent) s1 = (EN_ERR_NONE, s2)"
    and sel: "run_state (en_select_path (st s2) intent) (world s2) = ((EN_ERR_NONE, sel), w)"
    and r: "rr_selected_path r = en_copy_id EN_MAX_ID_LEN (Some (sr_selected_path sel))"
    using submission_parts [OF run] by metis
  have "observes opts ps s1"
    using preservesD [OF audit_observes put_intent_observes [OF _ c(1) I] c(2)] I by (simp add: observes_def)
  note seen = observe_candidates_known [OF this s2]
  have wf: "wf_state (st s2)" using seen(1) by (simp add: observes_def)
  obtain i where i: "passes (world s2) (st s2) (selection_ctx_of (st s2) intent) (ps_constraints ?sel) (sr_selected_path sel) i"
    using selected_passes [OF sel wf] by blast
  then have find: "en_find_path (st s2) (Some (sr_selected_path sel)) = Some i" by (simp add: passes_def)
  note id = find_path_id [OF find]
  have same: "rr_selected_path r = sr_selected_path sel"
    using find_path_wf [OF wf find] r by (simp add: en_copy_id_def)
  have "sc_active_path_id (selection_ctx_of (st s2) intent) = None"
    using seen(1) by (simp add: selection_ctx_of_def Let_def observes_def en_get_applied_path_def find_applied_def)
  then have usable: "path_usable (ps_constraints ?sel) False (health_of (st s2) (Some (sr_selected_path sel)))"
    using passes_policy [OF i] id by (simp add: en_streq_def)
  have "sr_selected_path sel \<in> ph_path_id ` set (health (st s2))"
  proof (cases "ps_candidates ?sel = []")
    case True
    from sel have "ps_mode ?sel = EN_SELECT_EXPLICIT \<and> sr_selected_path sel = ps_path_id ?sel"
    proof (cases rule: en_select_path_modes)
      case 1
      then show ?thesis using explicit_None wf by blast
    next
      case 2
      from priority_None [OF 2(2) wf later_refl] True show ?thesis by simp
    next
      case 3
      from evaluated_None [OF 3(2) wf start_result_simps(1)] True show ?thesis by simp metis
    qed
    with seen(3) True show ?thesis by simp
  next
    case False
    with seen(2) listed same show ?thesis by auto
  qed
  then obtain h where h: "health_of (st s2) (Some (sr_selected_path sel)) = Some h" "h \<in> set (health (st s2))"
    "ph_path_id h = sr_selected_path sel"
    by (cases "find_index (\<lambda>h. ph_path_id h = sr_selected_path sel) (health (st s2))")
      (auto simp: health_known find_index_None dest: find_index_Some)
  then obtain p n where "p \<in> set ps" "h = (scenario_health opts p)\<lparr>ph_last_updated_ms := n\<rparr>" "ph_path_id h = pt_path_id p"
    using seen(1) by (auto simp: observes_def)
  with usable h(1,3) same show ?thesis by (auto simp: usable_any_time)
qed
lemma scenario_start_observes:
  assumes config: "well_formed_config config" and k: "create_for_scenario memory config = Some k"
  shows "observes opts (yc_paths config) \<lparr>ctl = k, world = w\<lparr>dev := scenario_mocks opts\<rparr>\<rparr>"
  using create_scenario [OF k] scenario_wf [OF config]
  by (simp add: observes_def st_def scenario_state_def fresh_state_def)

text \<open>The path of a configuration is its identifier's.\<close>

lemma scenario_limits:
  assumes config: "well_formed_config config" and k: "create_for_scenario memory config = Some k"
    and run: "run_state (en_controller_submit_intent (Some intent) (Some zero_reconcile_result))
      \<lparr>ctl = k, world = w\<lparr>dev := scenario_mocks opts\<rparr>\<rparr> = ((EN_ERR_NONE, Some r), t)"
    and path: "path \<in> set (yc_paths config)" "pt_path_id path = rr_selected_path r"
    and listed: "ps_candidates (it_path_selection intent) = [] \<or> pt_path_id path \<in> set (ps_candidates (it_path_selection intent))"
  shows "path_usable (ps_constraints (it_path_selection intent)) False (Some (scenario_health opts path))"
proof -
  obtain p where p: "p \<in> set (yc_paths config)" "pt_path_id p = rr_selected_path r"
    "path_usable (ps_constraints (it_path_selection intent)) False (Some (scenario_health opts p))"
    using scenario_selection [OF scenario_start_observes [OF config k] run] listed path(2) by auto
  then have "p = path"
    using well_formed_paths(1) [OF config] path by (metis eq_key_imp_eq_value distinct_map inj_onD)
  with p(3) show ?thesis by simp
qed

end
