(* ===== verification/ScenarioOutcome.thy ===== *)
theory ScenarioOutcome
  imports ScenarioHealth
begin

text \<open>What the exit status of the scenario runner means.\<close>

section \<open>A scenario that passes\<close>

lemma finish_fallback_pass:
  "run_state (finish_fallback env opts step_name r) s = (Some 0, t) \<Longrightarrow> expectation_met opts r"
  by (auto simp: finish_fallback_def destroying_def split: prod.splits if_splits)

lemma finish_submission_pass:
  "run_state (finish_submission env opts step_name r) s = (Some 0, t) \<Longrightarrow> expectation_met opts r"
  by (auto simp: finish_submission_def split: prod.splits if_splits)

lemma forced_constraints:
  assumes "scenario_intent opts base = Some intent"
  shows "ps_constraints (it_path_selection intent) = ps_constraints (it_path_selection base)"
    "it_fallback intent = it_fallback base" "it_traffic intent = it_traffic base"
    "ps_candidates (it_path_selection intent) = ps_candidates (it_path_selection base)"
  using assms
  by (auto simp: scenario_intent_def force_selection_mode_def force_comparison_order_def put_selection_def bind_eq_Some_conv
      split: option.splits if_splits)

text \<open>
  C29. A scenario that ends with status 0 has selected a path of the configuration, the expected one if one was given. It is the
  fallback of the intent, when the active path was failed. Otherwise the path is enabled and satisfies the intent's policy on
  waypoints and capabilities, in a controller without nodes; the health that the probe reports for it is not unhealthy and
  within the limits on RTT and loss, unless the intent has a list of candidates that does not name the path, as a path that is
  selected explicitly need not be; and with at most 16 injections, the failed path among them, no other state than healthy or
  degraded was injected for it last.
\<close>

theorem scenario_pass_means:
  assumes "run_state (run_scenario env opts step_name) s = (Some 0, t)"
  shows "\<exists>config base. en_yaml_config_load_file (se_files env) (Some (sc_filename opts)) True 256 = Parsed config \<and>
    find_intent config (sc_intent_id opts) = Some base \<and>
    (\<exists>path\<in>set (yc_paths config). (\<forall>e. sc_expected_path opts = Some e \<longrightarrow> pt_path_id path = e) \<and>
      (if scenario_falls_back opts base then pt_path_id path = fp_path_id (it_fallback base)
       else satisfies_policy (scenario_state config) (ps_constraints (it_path_selection base)) path \<and>
         (ps_candidates (it_path_selection base) = [] \<or> pt_path_id path \<in> set (ps_candidates (it_path_selection base)) \<longrightarrow>
           path_usable (ps_constraints (it_path_selection base)) False (Some (scenario_health opts path))) \<and>
         (length (scenario_injections opts) \<le> EN_MAX_PATHS \<longrightarrow>
           injected_state (pt_path_id path) (scenario_injections opts) \<in> {None, Some EN_HEALTH_HEALTHY, Some EN_HEALTH_DEGRADED})))"
  (is "\<exists>config base. _ \<and> _ \<and> (\<exists>path\<in>_. _ \<and> (if _ then _ else ?P config base path))")
proof -
  obtain config where config: "en_yaml_config_load_file (se_files env) (Some (sc_filename opts)) True 256 = Parsed config"
    using assms(1) by (auto simp: run_scenario_def split: outcome.splits)
  obtain base intent k where parts: "find_intent config (sc_intent_id opts) = Some base" "scenario_intent opts base = Some intent"
    "create_for_scenario (se_memory env) config = Some k"
    using assms(1) config by (auto simp: run_scenario_def split: option.splits)
  note forced = forced_constraints [OF parts(2)]
  note wf = loaded_wf [OF config]
  have falls: "scenario_falls_back opts intent \<longleftrightarrow> scenario_falls_back opts base"
    unfolding scenario_falls_back_def forced(2) ..
  have "\<exists>path\<in>set (yc_paths config). (\<forall>e. sc_expected_path opts = Some e \<longrightarrow> pt_path_id path = e) \<and>
      (if scenario_falls_back opts intent then pt_path_id path = fp_path_id (it_fallback base)
       else ?P config base path)"
  proof (cases "scenario_falls_back opts intent")
    case True
    then obtain fallback where "find_path config (fp_path_id (it_fallback intent)) = Some fallback"
      and run: "run_state (finish_fallback env opts step_name
        (fallback_result intent (the (sc_active_path opts)) (the (sc_failed_path opts)) fallback)) (s\<lparr>sn_controller := True\<rparr>) = (Some 0, t)"
      using assms(1) config parts by (auto simp: run_scenario_def destroying_def split: option.splits if_splits)
    then have path: "fallback \<in> set (yc_paths config)" "pt_path_id fallback = fp_path_id (it_fallback intent)"
      by (auto simp: find_path_def dest: find_Some_mem)
    then have "fit EN_MAX_ID_LEN (pt_path_id fallback) = pt_path_id fallback"
      using well_formed_paths(3) [OF wf] by (auto simp: fit_def)
    with finish_fallback_pass [OF run] path True forced show ?thesis
      by (intro bexI [of _ fallback]) (auto simp: expectation_met_def fallback_result_def)
  next
    case False
    obtain r u where r: "run_state (en_controller_submit_intent (Some intent) (Some zero_reconcile_result))
        \<lparr>ctl = k, world = (se_world env)\<lparr>dev := scenario_mocks opts\<rparr>\<rparr> = ((EN_ERR_NONE, Some r), u)"
      and run: "run_state (finish_submission env opts step_name r) (s\<lparr>sn_controller := False\<rparr>) = (Some 0, t)"
      using assms(1) config parts False
      by (auto simp: run_scenario_def destroying_def split: prod.splits option.splits en_error_code.splits)
    obtain path where path: "path \<in> set (yc_paths config)" "pt_path_id path = rr_selected_path r"
      "satisfies_policy (scenario_state config) (ps_constraints (it_path_selection intent)) path"
      "length (scenario_injections opts) \<le> EN_MAX_PATHS \<longrightarrow>
        injected_state (pt_path_id path) (scenario_injections opts) \<in> {None, Some EN_HEALTH_HEALTHY, Some EN_HEALTH_DEGRADED}"
      using scenario_submission [OF wf parts(3) r] by blast
    with finish_submission_pass [OF run] scenario_limits [OF wf parts(3) r path(1,2)] False show ?thesis
      unfolding forced by (intro bexI [of _ path]) (auto simp: expectation_met_def)
  qed
  with config parts(1) falls show ?thesis by simp
qed

section \<open>The release of the controller\<close>

lemma append_event_streams:
  "sn_streams s = sn_streams u \<Longrightarrow> fst (run_state (append_json_event env opts r n b) s) = fst (run_state (append_json_event env opts r n b) u)"
  by (simp add: append_json_event_def on_scenario_streams_def split: option.split prod.split)

lemma append_event_controller:
  "run_state (append_json_event env opts r n b) s = (x, t) \<Longrightarrow> sn_controller t = sn_controller s"
  by (auto simp: append_json_event_def on_scenario_streams_def split: option.splits prod.splits)

lemma generate_controller:
  "run_state (generate_runtime env opts r) s = (x, t) \<Longrightarrow>
   sn_controller t = sn_controller s \<and> sn_streams t = sn_streams s \<and> (x = 0 \<longleftrightarrow> se_script env (runtime_command opts r) = Some 0)"
  by (auto simp: generate_runtime_def split: if_splits)

lemma finish_submission_controller:
  "run_state (finish_submission env opts n r) s = (x, t) \<Longrightarrow> sn_controller t = sn_controller s \<and> x \<noteq> None"
  by (auto simp: finish_submission_def dest!: append_event_controller generate_controller split: prod.splits if_splits)

lemma finish_fallback_controller:
  assumes "run_state (finish_fallback env opts n r) s = (x, t)" "sn_controller s"
  shows "\<not> sn_controller t"
    "x = None \<longleftrightarrow> (sc_generate opts \<longrightarrow> se_script env (runtime_command opts r) = Some 0) \<and>
      \<not> fst (run_state (append_json_event env opts r n (expectation_met opts r)) s)"
proof -
  obtain g u where g: "run_state (if sc_generate opts then generate_runtime env opts r else State_Monad.return 0) s = (g, u)"
    by (metis surj_pair)
  then have u: "sn_controller u" "sn_streams u = sn_streams s"
    "g = 0 \<longleftrightarrow> (sc_generate opts \<longrightarrow> se_script env (runtime_command opts r) = Some 0)"
    using generate_controller [of env opts r s g u] assms(2) by (auto split: if_splits)
  obtain b v where v: "run_state (append_json_event env opts r n (expectation_met opts r)) (u\<lparr>sn_controller := False\<rparr>) = (b, v)"
    by (metis surj_pair)
  have "\<not> sn_controller v" using append_event_controller [OF v] by simp
  moreover have "b = fst (run_state (append_json_event env opts r n (expectation_met opts r)) s)"
    using append_event_streams [of "u\<lparr>sn_controller := False\<rparr>" s env opts r n "expectation_met opts r"] u(2) v by simp
  moreover have "x = (if g = 0 then if b then Some (if expectation_met opts r then 0 else 1) else None else Some 1)"
    "\<not> sn_controller t"
    using assms(1) g u(1) v \<open>\<not> sn_controller v\<close> by (auto simp: finish_fallback_def destroying_def split: if_splits)
  ultimately show "\<not> sn_controller t" "x = None \<longleftrightarrow> (sc_generate opts \<longrightarrow> se_script env (runtime_command opts r) = Some 0) \<and>
      \<not> fst (run_state (append_json_event env opts r n (expectation_met opts r)) s)"
    using u(3) by simp_all
qed

lemma create_scenario_memory:
  assumes "well_formed_config config"
  shows "(\<exists>k. create_for_scenario memory config = Some k) \<longleftrightarrow> memory"
proof -
  have "config_counts_valid config" "\<forall>p\<in>set (yc_paths config). en_path_counts_valid p"
    using assms by (simp_all add: well_formed_config_def path_ok_def)
  then show ?thesis
    by (auto simp: create_for_scenario_def en_controller_create_with_tunnels_def
        en_controller_create_with_nodes_and_tunnels_def config_counts_valid_def elements_def list_all_iff)
qed

lemma create_scenario_without: "create_for_scenario False config = None"
  by (simp add: create_for_scenario_def en_controller_create_with_tunnels_def en_controller_create_with_nodes_and_tunnels_def)

text \<open>
  C30. However a scenario ends, its controller, if one was created, has been destroyed. It is destroyed once, and the result is
  defined, except in one case: the active path is the failed one, the fallback is taken, the runtime script was generated if it
  was asked for, and the explanation cannot be written. Then the controller is destroyed a second time.
\<close>

theorem scenario_releases_controller:
  assumes "run_state (run_scenario env opts step_name) s = (r, t)" "\<not> sn_controller s"
  shows "\<not> sn_controller t \<and>
    (r = None \<longleftrightarrow> (\<exists>config base intent fallback result.
       en_yaml_config_load_file (se_files env) (Some (sc_filename opts)) True 256 = Parsed config \<and>
       find_intent config (sc_intent_id opts) = Some base \<and> scenario_intent opts base = Some intent \<and> se_memory env \<and>
       scenario_falls_back opts intent \<and> find_path config (fp_path_id (it_fallback intent)) = Some fallback \<and>
       result = fallback_result intent (the (sc_active_path opts)) (the (sc_failed_path opts)) fallback \<and>
       (sc_generate opts \<longrightarrow> se_script env (runtime_command opts result) = Some 0) \<and>
       \<not> fst (run_state (append_json_event env opts result step_name (expectation_met opts result)) s)))"
proof (cases "\<exists>config base intent. en_yaml_config_load_file (se_files env) (Some (sc_filename opts)) True 256 = Parsed config \<and>
    find_intent config (sc_intent_id opts) = Some base \<and> scenario_intent opts base = Some intent \<and> se_memory env")
  case False
  have "r \<noteq> None \<and> t = s"
    using assms(1) False by (auto simp: run_scenario_def create_scenario_without split: outcome.splits option.splits)
  with False assms(2) show ?thesis by blast
next
  case True
  then obtain config base intent where parts: "en_yaml_config_load_file (se_files env) (Some (sc_filename opts)) True 256 = Parsed config"
    "find_intent config (sc_intent_id opts) = Some base" "scenario_intent opts base = Some intent" "se_memory env" by blast
  then obtain k where k: "create_for_scenario (se_memory env) config = Some k"
    using create_scenario_memory [OF loaded_wf [OF parts(1)]] by blast
  let ?live = "s\<lparr>sn_controller := True\<rparr>" and ?freed = "s\<lparr>sn_controller := False\<rparr>"
  show ?thesis
  proof (cases "scenario_falls_back opts intent")
    case False
    obtain e result u where submitted: "run_state (en_controller_submit_intent (Some intent) (Some zero_reconcile_result))
        \<lparr>ctl = k, world = (se_world env)\<lparr>dev := scenario_mocks opts\<rparr>\<rparr> = ((e, result), u)" by (metis surj_pair)
    have "run_state (case ((e, result), u) of
        ((EN_ERR_NONE, Some result), _) \<Rightarrow> finish_submission env opts step_name result
      | _ \<Rightarrow> State_Monad.return (Some 1)) ?freed = (r, t)"
      using assms(1) parts k False submitted by (simp add: run_scenario_def destroying_def)
    then have "\<not> sn_controller t \<and> r \<noteq> None"
      by (cases e; cases result) (auto dest!: finish_submission_controller)
    with parts False show ?thesis by auto
  next
    case True
    show ?thesis
    proof (cases "find_path config (fp_path_id (it_fallback intent))")
      case None
      with assms(1) parts k True show ?thesis by (auto simp: run_scenario_def destroying_def)
    next
      case (Some fallback)
      let ?result = "fallback_result intent (the (sc_active_path opts)) (the (sc_failed_path opts)) fallback"
      have "run_state (finish_fallback env opts step_name ?result) ?live = (r, t)"
        using assms(1) parts k True Some by (simp add: run_scenario_def)
      note ended = finish_fallback_controller [OF this]
      have "fst (run_state (append_json_event env opts ?result step_name b) ?live) =
          fst (run_state (append_json_event env opts ?result step_name b) s)" for b
        by (rule append_event_streams) simp
      with ended parts True Some show ?thesis by auto
    qed
  qed
qed

section \<open>Witnesses\<close>

definition fallback_file :: string where
  "fallback_file = sample_file @ unlines [''    fallback:'', ''      enabled: true'', ''      path_id: path-direct'']"

definition fallback_fopen :: "string \<Rightarrow> (string \<times> bool) option" where
  "fallback_fopen f = (if f = ''eventnet.yaml'' then Some (fallback_file, False) else None)"

definition fallback_config :: en_yaml_config where
  "fallback_config = sample_config\<lparr>yc_intents :=
     [(hd (yc_intents sample_config))\<lparr>it_fallback := \<lparr>fp_enabled = True, fp_path_id = ''path-direct''\<rparr>\<rparr>]\<rparr>"

lemma fallback_load: "en_yaml_config_load_file fallback_fopen (Some ''eventnet.yaml'') True 256 = Parsed fallback_config"
  by code_simp

definition sample_scenario :: scenario_options where
  "sample_scenario = scenario_defaults\<lparr>sc_filename := ''eventnet.yaml'', sc_active_path := Some ''path-old'',
     sc_failed_path := Some ''path-old'', sc_expected_path := Some ''path-direct'', sc_explain_json := Some ''explain.jsonl''\<rparr>"

definition sample_scenario_env :: scenario_env where
  "sample_scenario_env = \<lparr>se_memory = True, se_files = fallback_fopen, se_world = sample_world (sample_mocks False),
     se_script = (\<lambda>_. Some 0), se_write = (\<lambda>_. Some ''event'')\<rparr>"

definition sample_scenario_start :: "(nat \<Rightarrow> nat option) \<Rightarrow> scenario" where
  "sample_scenario_start faults =
     \<lparr>sn_streams = \<lparr>ou_disk = \<lparr>dk_files = (\<lambda>_. None), dk_faults = faults, dk_calls = 0\<rparr>, ou_stdout = []\<rparr>, sn_commands = [], sn_controller = False\<rparr>"

lemma sample_scenario_parts:
  "scenario_arguments scenario_defaults [] [''--active-path'', ''path-old'', ''--fail-path'', ''path-old'', ''--expect'',
     ''path-direct'', ''--explain-json'', ''explain.jsonl'', ''eventnet.yaml''] = Inr (sample_scenario, [])"
  "find_intent fallback_config None = Some (hd (yc_intents fallback_config))"
  "scenario_intent sample_scenario (hd (yc_intents fallback_config)) = Some (hd (yc_intents fallback_config))"
  "scenario_falls_back sample_scenario (hd (yc_intents fallback_config))"
  "find_path fallback_config ''path-direct'' = Some (hd (yc_paths fallback_config))"
  "create_for_scenario True fallback_config \<noteq> None"
  by code_simp+

text \<open>When the explanation cannot be opened the run has no result.\<close>

theorem scenario_releases_controller_witness:
  "fst (run_state (run_scenario sample_scenario_env sample_scenario None) (sample_scenario_start (\<lambda>_. Some 0))) = None"
proof -
  let ?s = "sample_scenario_start (\<lambda>_. Some 0)" and ?i = "hd (yc_intents fallback_config)"
  let ?r = "fallback_result ?i ''path-old'' ''path-old'' (hd (yc_paths fallback_config))"
  obtain r t where run: "run_state (run_scenario sample_scenario_env sample_scenario None) ?s = (r, t)" by (metis surj_pair)
  have opts: "sc_filename sample_scenario = ''eventnet.yaml''" "sc_intent_id sample_scenario = None"
    "sc_active_path sample_scenario = Some ''path-old''" "sc_failed_path sample_scenario = Some ''path-old''"
    "\<not> sc_generate sample_scenario" "se_files sample_scenario_env = fallback_fopen" "se_memory sample_scenario_env"
    "fp_path_id (it_fallback ?i) = ''path-direct''" "\<not> sn_controller ?s"
    by (simp_all add: sample_scenario_def scenario_defaults_def sample_scenario_env_def fallback_config_def sample_scenario_start_def)
  have lost: "\<not> fst (run_state (append_json_event sample_scenario_env sample_scenario ?r None b) ?s)" for b
    by (simp add: append_json_event_def sample_scenario_def scenario_defaults_def on_scenario_streams_def open_append_def
        on_output_disk_def sample_scenario_start_def)
  have "r = None"
    unfolding scenario_releases_controller [OF run opts(9), THEN conjunct2] opts option.sel
    by (rule exI [of _ fallback_config], rule exI [of _ ?i], rule exI [of _ ?i], rule exI [of _ "hd (yc_paths fallback_config)"],
        rule exI [of _ ?r], intro conjI fallback_load sample_scenario_parts opts(7) refl lost)
      (simp_all add: opts sample_scenario_parts)
  with run show ?thesis by simp
qed

text \<open>A scenario without an active path: the controller selects the expected path.\<close>

definition plain_scenario :: scenario_options where
  "plain_scenario = scenario_defaults\<lparr>sc_filename := ''eventnet.yaml'', sc_expected_path := Some ''path-direct''\<rparr>"

lemma plain_scenario_parts:
  "scenario_intent plain_scenario (hd (yc_intents fallback_config)) = Some (hd (yc_intents fallback_config))"
  "\<not> scenario_falls_back plain_scenario (hd (yc_intents fallback_config))"
  "case create_for_scenario True fallback_config of None \<Rightarrow> False | Some k \<Rightarrow>
     (case fst (run_state (en_controller_submit_intent (Some (hd (yc_intents fallback_config))) (Some zero_reconcile_result))
        \<lparr>ctl = k, world = (sample_world (sample_mocks False))\<lparr>dev := scenario_mocks plain_scenario\<rparr>\<rparr>) of
      (e, Some r) \<Rightarrow> e = EN_ERR_NONE \<and> rr_selected_path r = ''path-direct'' | _ \<Rightarrow> False)"
  by code_simp+

lemma plain_scenario_listed:
  "''path-direct'' \<in> set (ps_candidates (it_path_selection (hd (yc_intents fallback_config)))) \<or>
   ps_candidates (it_path_selection (hd (yc_intents fallback_config))) = []"
  by code_simp

lemma plain_scenario_passes:
  "\<exists>t. run_state (run_scenario sample_scenario_env plain_scenario None) (sample_scenario_start (\<lambda>_. None)) = (Some 0, t)"
proof -
  let ?i = "hd (yc_intents fallback_config)"
  obtain k where k: "create_for_scenario True fallback_config = Some k"
    using plain_scenario_parts(3) by (cases "create_for_scenario True fallback_config") simp_all
  let ?m = "\<lparr>ctl = k, world = (sample_world (sample_mocks False))\<lparr>dev := scenario_mocks plain_scenario\<rparr>\<rparr>"
  obtain r u where r: "run_state (en_controller_submit_intent (Some ?i) (Some zero_reconcile_result)) ?m = ((EN_ERR_NONE, Some r), u)"
    "rr_selected_path r = ''path-direct''"
    using plain_scenario_parts(3) unfolding k option.case
    by (cases "run_state (en_controller_submit_intent (Some ?i) (Some zero_reconcile_result)) ?m") (auto split: prod.splits option.splits)
  have opts: "sc_filename plain_scenario = ''eventnet.yaml''" "sc_intent_id plain_scenario = None" "\<not> sc_generate plain_scenario"
    "sc_expected_path plain_scenario = Some ''path-direct''" "sc_explain_json plain_scenario = None"
    "se_files sample_scenario_env = fallback_fopen" "se_memory sample_scenario_env = True"
    "se_world sample_scenario_env = sample_world (sample_mocks False)"
    by (simp_all add: plain_scenario_def scenario_defaults_def sample_scenario_env_def)
  show ?thesis
    by (simp add: run_scenario_def opts fallback_load sample_scenario_parts(2) plain_scenario_parts(1,2) k r destroying_def
        finish_submission_def expectation_met_def append_json_event_def)
qed

theorem scenario_pass_means_witness:
  "\<exists>path\<in>set (yc_paths fallback_config). pt_path_id path = ''path-direct'' \<and>
     satisfies_policy (scenario_state fallback_config) (ps_constraints (it_path_selection (hd (yc_intents fallback_config)))) path \<and>
     path_usable (ps_constraints (it_path_selection (hd (yc_intents fallback_config)))) False
       (Some (scenario_health plain_scenario path))"
proof -
  obtain t where t: "run_state (run_scenario sample_scenario_env plain_scenario None) (sample_scenario_start (\<lambda>_. None)) = (Some 0, t)"
    using plain_scenario_passes by blast
  have opts: "sc_filename plain_scenario = ''eventnet.yaml''" "sc_intent_id plain_scenario = None"
    "sc_expected_path plain_scenario = Some ''path-direct''" "se_files sample_scenario_env = fallback_fopen"
    by (simp_all add: plain_scenario_def scenario_defaults_def sample_scenario_env_def)
  from scenario_pass_means [OF t, unfolded opts fallback_load] show ?thesis
    using sample_scenario_parts(2) plain_scenario_parts(2) plain_scenario_listed by auto
qed

end
