(* ===== verification/Protocol.thy ===== *)
theory Protocol
  imports Prelude
begin

text \<open>
  Protocols of the C libraries the program connects with. A protocol is a step relation over the calls of
  the library; a program that logs its calls keeps to it when the log is a run of the relation. Both the VPP API
  transport and the VICI client are judged by such a relation.
\<close>

section \<open>Runs\<close>

inductive follows :: "('s \<Rightarrow> 'c \<Rightarrow> 's \<Rightarrow> bool) \<Rightarrow> 's \<Rightarrow> 'c list \<Rightarrow> 's \<Rightarrow> bool" for step where
  none: "follows step s [] s"
| call: "step s c t \<Longrightarrow> follows step t cs u \<Longrightarrow> follows step s (c # cs) u"

inductive_simps follows_Nil [simp]: "follows step s [] t"
inductive_simps follows_Cons [simp]: "follows step s (c # cs) u"

lemma follows_append [simp]:
  "follows step s (cs @ ds) u \<longleftrightarrow> (\<exists>t. follows step s cs t \<and> follows step t ds u)"
  by (induction cs arbitrary: s) auto

text \<open>A protocol in which a call has one effect: its state is a function of the calls.\<close>

locale deterministic_protocol =
  fixes step :: "'s \<Rightarrow> 'c \<Rightarrow> 's \<Rightarrow> bool"
  assumes step_unique: "step s c t \<Longrightarrow> step s c u \<Longrightarrow> t = u"
begin

lemma follows_unique: "follows step s cs t \<Longrightarrow> follows step s cs u \<Longrightarrow> t = u"
  by (induction rule: follows.induct) (use step_unique in \<open>simp, metis follows_Cons\<close>)

end

section \<open>Actions that log their calls\<close>

definition logged :: "('r \<Rightarrow> 'c) \<Rightarrow> ('w, 'r) state \<Rightarrow> ('w \<times> 'c list, 'r) state" where
  "logged call m = State (\<lambda>(w, cs). case run_state m w of (r, w') \<Rightarrow> (r, (w', cs @ [call r])))"

definition unlogged :: "('w, 'r) state \<Rightarrow> ('w \<times> 'c list, 'r) state" where
  "unlogged m = State (\<lambda>(w, cs). case run_state m w of (r, w') \<Rightarrow> (r, (w', cs)))"

lemma run_logged [simp, run_simps]:
  "run_state (logged call m) (w, cs) = (case run_state m w of (r, w') \<Rightarrow> (r, (w', cs @ [call r])))"
  by (simp add: logged_def)

lemma run_unlogged [simp, run_simps]:
  "run_state (unlogged m) (w, cs) = (case run_state m w of (r, w') \<Rightarrow> (r, (w', cs)))"
  by (simp add: unlogged_def)

text \<open>\<open>led_to step start s\<close>: the calls logged so far lead from \<open>start\<close> to \<open>s\<close>.\<close>

definition led_to :: "('s \<Rightarrow> 'c \<Rightarrow> 's \<Rightarrow> bool) \<Rightarrow> 's \<Rightarrow> 's \<Rightarrow> 'w \<times> 'c list \<Rightarrow> bool" where
  "led_to step start s wc \<longleftrightarrow> follows step start (snd wc) s"

lemma logged_at: "(\<And>r. step s (call r) (t r)) \<Longrightarrow> triple (led_to step start s) (logged call m) (\<lambda>r. led_to step start (t r))"
  by (rule tripleI) (auto simp: led_to_def split: prod.splits, blast)

lemma logged_stays: "(\<And>r. step s (call r) s) \<Longrightarrow> preserves (led_to step start s) (logged call m)"
  unfolding preserves_def by (rule logged_at)

lemma unlogged_stays [wp]: "preserves (led_to step start s) (unlogged m)"
  by (rule preservesI) (auto simp: led_to_def split: prod.splits)

end
