(* ===== verification/VppApiTransport.thy ===== *)
theory VppApiTransport
  imports Protocol EnTypes
begin

text \<open>
  \<open>src/src/vpp_api_transport.c\<close>: the connection to the binary API of VPP. The library \<open>libvapi\<close> is
  the parameter \<open>vapi\<close>: its calls act on its own state, a context is an opaque pointer, \<open>None\<close> is \<open>NULL\<close>. The
  transport is always there, so the guards against a \<open>NULL\<close> transport have no counterpart.
\<close>

section \<open>The library\<close>

text \<open>
  \<open>va_enabled\<close> is whether the program is built with \<open>EVENTNET_ENABLE_VPP_API\<close>. An allocation returns the pointer,
  \<open>None\<close> when it fails. \<open>va_dispatch_one\<close> returns the messages for which the library calls the
  callback for events, with its status. A status is true for \<open>VAPI_OK\<close>.
\<close>

record ('w, 'm) vapi =
  va_enabled :: bool
  va_ctx_alloc :: "('w, nat option) state"
  va_connect :: "nat option \<Rightarrow> string \<Rightarrow> string option \<Rightarrow> int \<Rightarrow> int \<Rightarrow> ('w, bool) state"
  va_ctx_free :: "nat option \<Rightarrow> ('w, unit) state"
  va_disconnect :: "nat option \<Rightarrow> ('w, bool) state"
  va_dispatch_one :: "nat option \<Rightarrow> ('w, (nat \<times> 'm) list \<times> bool) state"
  va_msg_alloc :: "nat option \<Rightarrow> nat \<Rightarrow> ('w, 'm option) state"
  va_send :: "nat option \<Rightarrow> 'm \<Rightarrow> ('w, bool) state"
  va_msg_free :: "nat option \<Rightarrow> 'm \<Rightarrow> ('w, unit) state"
  va_is_msg_available :: "nat option \<Rightarrow> nat \<Rightarrow> ('w, bool) state"
  va_get_fd :: "nat option \<Rightarrow> ('w, int option) state"
  va_set_generic_event_cb :: "nat option \<Rightarrow> ('w, unit) state"
  va_clear_generic_event_cb :: "nat option \<Rightarrow> ('w, unit) state"

section \<open>The transport\<close>

type_synonym ('w, 'e, 'm) en_vpp_api_event_fn = "'e option \<Rightarrow> nat \<Rightarrow> 'm \<Rightarrow> ('w, unit) state"

record ('w, 'e, 'm) en_vpp_api_transport =
  tr_context :: "nat option"
  tr_connected :: bool
  tr_application_name :: string
  tr_max_outstanding_requests :: int
  tr_response_queue_size :: int
  tr_event_callback :: "('w, 'e, 'm) en_vpp_api_event_fn option"
  tr_event_context :: "'e option"

definition en_vpp_api_transport_init :: "('w, 'e, 'm) en_vpp_api_transport" where
  "en_vpp_api_transport_init = \<lparr>tr_context = None, tr_connected = False, tr_application_name = [],
     tr_max_outstanding_requests = 0, tr_response_queue_size = 0, tr_event_callback = None, tr_event_context = None\<rparr>"

definition generic_event_callback :: "('w, 'e, 'm) en_vpp_api_transport \<Rightarrow> nat \<times> 'm \<Rightarrow> ('w, unit) state" where
  "generic_event_callback t event = (case tr_event_callback t of
     None \<Rightarrow> skip
   | Some f \<Rightarrow> f (tr_event_context t) (fst event) (snd event))"

definition open_refused :: "string option \<Rightarrow> int \<Rightarrow> int \<Rightarrow> bool" where
  "open_refused name max_outstanding queue_size \<longleftrightarrow> (case name of
     None \<Rightarrow> True
   | Some n \<Rightarrow> n = [] \<or> EN_MAX_ID_LEN \<le> length n \<or> max_outstanding \<le> 0 \<or> queue_size \<le> 0)"

definition en_vpp_api_transport_open ::
  "('w, 'm) vapi \<Rightarrow> ('w, 'e, 'm) en_vpp_api_transport \<Rightarrow> string option \<Rightarrow> string option \<Rightarrow> int \<Rightarrow> int \<Rightarrow>
   ('w, en_error_code \<times> ('w, 'e, 'm) en_vpp_api_transport) state" where
  "en_vpp_api_transport_open lib t name chroot max_outstanding queue_size =
     (if open_refused name max_outstanding queue_size then State_Monad.return (EN_ERR_INVALID_ARGUMENT, t)
      else if tr_connected t then State_Monad.return (EN_ERR_STATE_CONFLICT, t)
      else if \<not> va_enabled lib then State_Monad.return (EN_ERR_NOT_FOUND, t)
      else do {
        context \<leftarrow> va_ctx_alloc lib;
        case context of
          None \<Rightarrow> State_Monad.return (EN_ERR_STATE_CONFLICT, t)
        | Some c \<Rightarrow> do {
            connected \<leftarrow> va_connect lib (Some c) (the name) chroot max_outstanding queue_size;
            if \<not> connected then do {
              _ \<leftarrow> va_ctx_free lib (Some c);
              State_Monad.return (EN_ERR_STATE_CONFLICT, t\<lparr>tr_context := None\<rparr>)
            } else State_Monad.return (EN_ERR_NONE, t\<lparr>tr_context := Some c,
              tr_application_name := the name, tr_max_outstanding_requests := max_outstanding,
              tr_response_queue_size := queue_size, tr_connected := True\<rparr>)
          }
      })"

definition en_vpp_api_transport_dispatch ::
  "('w, 'm) vapi \<Rightarrow> ('w, 'e, 'm) en_vpp_api_transport \<Rightarrow> ('w, en_error_code) state" where
  "en_vpp_api_transport_dispatch lib t =
     (if \<not> tr_connected t then State_Monad.return EN_ERR_STATE_CONFLICT
      else if \<not> va_enabled lib then State_Monad.return EN_ERR_NOT_FOUND
      else do {
        (events, dispatched) \<leftarrow> va_dispatch_one lib (tr_context t);
        _ \<leftarrow> foldr (\<lambda>event m. State_Monad.bind (generic_event_callback t event) (\<lambda>_. m)) events skip;
        State_Monad.return (if dispatched then EN_ERR_NONE else EN_ERR_STATE_CONFLICT)
      })"

section \<open>Messages\<close>

definition en_vpp_api_transport_alloc_message ::
  "('w, 'm) vapi \<Rightarrow> ('w, 'e, 'm) en_vpp_api_transport \<Rightarrow> nat \<Rightarrow> 'm option \<Rightarrow> ('w, en_error_code \<times> 'm option) state" where
  "en_vpp_api_transport_alloc_message lib t message_size message =
     (if message_size = 0 \<or> \<not> tr_connected t then State_Monad.return (EN_ERR_INVALID_ARGUMENT, message)
      else if \<not> va_enabled lib then State_Monad.return (EN_ERR_NOT_FOUND, None)
      else do {
        m \<leftarrow> va_msg_alloc lib (tr_context t) message_size;
        State_Monad.return (if m \<noteq> None then EN_ERR_NONE else EN_ERR_STATE_CONFLICT, m)
      })"

definition en_vpp_api_transport_send_message ::
  "('w, 'm) vapi \<Rightarrow> ('w, 'e, 'm) en_vpp_api_transport \<Rightarrow> 'm option \<Rightarrow> ('w, en_error_code) state" where
  "en_vpp_api_transport_send_message lib t message = (case message of
     None \<Rightarrow> State_Monad.return EN_ERR_INVALID_ARGUMENT
   | Some m \<Rightarrow>
       if \<not> tr_connected t then State_Monad.return EN_ERR_INVALID_ARGUMENT
       else if \<not> va_enabled lib then State_Monad.return EN_ERR_NOT_FOUND
       else do {
         sent \<leftarrow> va_send lib (tr_context t) m;
         State_Monad.return (if sent then EN_ERR_NONE else EN_ERR_STATE_CONFLICT)
       })"

definition en_vpp_api_transport_free_message ::
  "('w, 'm) vapi \<Rightarrow> ('w, 'e, 'm) en_vpp_api_transport \<Rightarrow> 'm option \<Rightarrow> ('w, en_error_code) state" where
  "en_vpp_api_transport_free_message lib t message = (case message of
     None \<Rightarrow> State_Monad.return EN_ERR_INVALID_ARGUMENT
   | Some m \<Rightarrow>
       if \<not> tr_connected t then State_Monad.return EN_ERR_INVALID_ARGUMENT
       else if \<not> va_enabled lib then State_Monad.return EN_ERR_NOT_FOUND
       else do {
         _ \<leftarrow> va_msg_free lib (tr_context t) m;
         State_Monad.return EN_ERR_NONE
       })"

definition en_vpp_api_transport_is_message_available ::
  "('w, 'm) vapi \<Rightarrow> ('w, 'e, 'm) en_vpp_api_transport \<Rightarrow> nat \<Rightarrow> bool \<Rightarrow> ('w, en_error_code \<times> bool) state" where
  "en_vpp_api_transport_is_message_available lib t message_id available =
     (if \<not> tr_connected t then State_Monad.return (EN_ERR_INVALID_ARGUMENT, available)
      else if \<not> va_enabled lib then State_Monad.return (EN_ERR_NOT_FOUND, False)
      else do {
        a \<leftarrow> va_is_msg_available lib (tr_context t) message_id;
        State_Monad.return (EN_ERR_NONE, a)
      })"

text \<open>A failed \<open>vapi_get_fd\<close> leaves the caller's descriptor as it was.\<close>

definition en_vpp_api_transport_get_fd ::
  "('w, 'm) vapi \<Rightarrow> ('w, 'e, 'm) en_vpp_api_transport \<Rightarrow> int \<Rightarrow> ('w, en_error_code \<times> int) state" where
  "en_vpp_api_transport_get_fd lib t fd =
     (if \<not> tr_connected t then State_Monad.return (EN_ERR_INVALID_ARGUMENT, fd)
      else if \<not> va_enabled lib then State_Monad.return (EN_ERR_NOT_FOUND, fd)
      else do {
        r \<leftarrow> va_get_fd lib (tr_context t);
        State_Monad.return (case r of None \<Rightarrow> (EN_ERR_STATE_CONFLICT, fd) | Some n \<Rightarrow> (EN_ERR_NONE, n))
      })"

section \<open>Events and the end of the connection\<close>

definition en_vpp_api_transport_set_event_callback ::
  "('w, 'm) vapi \<Rightarrow> ('w, 'e, 'm) en_vpp_api_transport \<Rightarrow> ('w, 'e, 'm) en_vpp_api_event_fn option \<Rightarrow> 'e option \<Rightarrow>
   ('w, en_error_code \<times> ('w, 'e, 'm) en_vpp_api_transport) state" where
  "en_vpp_api_transport_set_event_callback lib t callback event_context =
     (if \<not> tr_connected t then State_Monad.return (EN_ERR_INVALID_ARGUMENT, t)
      else if \<not> va_enabled lib then State_Monad.return (EN_ERR_NOT_FOUND, t)
      else do {
        _ \<leftarrow> (case callback of
          None \<Rightarrow> va_clear_generic_event_cb lib (tr_context t)
        | Some f \<Rightarrow> va_set_generic_event_cb lib (tr_context t));
        State_Monad.return (EN_ERR_NONE, t\<lparr>tr_event_callback := callback, tr_event_context := event_context\<rparr>)
      })"

definition forget_events :: "('w, 'e, 'm) en_vpp_api_transport \<Rightarrow> ('w, 'e, 'm) en_vpp_api_transport" where
  "forget_events t = t\<lparr>tr_event_callback := None, tr_event_context := None, tr_connected := False\<rparr>"

definition en_vpp_api_transport_close ::
  "('w, 'm) vapi \<Rightarrow> ('w, 'e, 'm) en_vpp_api_transport \<Rightarrow> ('w, en_error_code \<times> ('w, 'e, 'm) en_vpp_api_transport) state" where
  "en_vpp_api_transport_close lib t =
     (if \<not> tr_connected t then State_Monad.return (EN_ERR_NONE, t)
      else if \<not> va_enabled lib then State_Monad.return (EN_ERR_NONE, forget_events t)
      else do {
        _ \<leftarrow> va_clear_generic_event_cb lib (tr_context t);
        disconnected \<leftarrow> va_disconnect lib (tr_context t);
        if \<not> disconnected then State_Monad.return (EN_ERR_STATE_CONFLICT, t)
        else do {
          _ \<leftarrow> va_ctx_free lib (tr_context t);
          State_Monad.return (EN_ERR_NONE, forget_events (t\<lparr>tr_context := None\<rparr>))
        }
      })"

definition en_vpp_api_transport_is_connected :: "('w, 'e, 'm) en_vpp_api_transport \<Rightarrow> bool" where
  "en_vpp_api_transport_is_connected t = tr_connected t"

section \<open>The probe\<close>

text \<open>
  \<open>main\<close> of \<open>examples/vpp_api_transport_probe.c\<close> without what it prints: the exit status, with the transport as the
  program leaves it. \<open>args\<close> are the arguments after the program's name.
\<close>

definition transport_probe ::
  "('w, 'm) vapi \<Rightarrow> string list \<Rightarrow> ('w, int \<times> ('w, 'e, 'm) en_vpp_api_transport) state" where
  "transport_probe lib args =
     (let asks_help = args \<noteq> [] \<and> (strcmp (hd args) ''--help'' = 0 \<or> strcmp (hd args) ''-h'' = 0) in
      if 2 < length args \<or> asks_help
      then State_Monad.return (if 2 < length args then 2 else 0, en_vpp_api_transport_init)
      else do {
        (err, t) \<leftarrow> en_vpp_api_transport_open lib en_vpp_api_transport_init
          (Some (if args \<noteq> [] then hd args else ''ibuki-vpp-probe''))
          (if 1 < length args then Some (args ! 1) else None) 8 8;
        if err \<noteq> EN_ERR_NONE then State_Monad.return (1, t)
        else do {
          (err, fd) \<leftarrow> en_vpp_api_transport_get_fd lib t (-1);
          (closing, t') \<leftarrow> en_vpp_api_transport_close lib t;
          State_Monad.return (if err \<noteq> EN_ERR_NONE \<or> closing \<noteq> EN_ERR_NONE then 1 else 0, t')
        }
      })"

end
