(* ===== verification/TransportSafety.thy ===== *)
theory TransportSafety
  imports VppApiTransport
begin

text \<open>
  Whatever a client of the VPP API transport does, the library is used as its protocol asks: a context is
  connected after it was allocated, used while it is connected, disconnected with no callback registered, and
  freed once.
\<close>

section \<open>The protocol\<close>

datatype vapi_call =
  CtxAlloc "nat option"
| Connect "nat option" bool
| CtxFree "nat option"
| Request "nat option"
| SetCallback "nat option"
| ClearCallback "nat option"
| Disconnect "nat option" bool

text \<open>\<open>Connected c b\<close>: \<open>b\<close> is whether the callback for events is registered.\<close>

datatype vapi_session = Idle | Allocated nat | Connected nat bool

inductive vapi_step :: "vapi_session \<Rightarrow> vapi_call \<Rightarrow> vapi_session \<Rightarrow> bool" where
  alloc_fails: "vapi_step Idle (CtxAlloc None) Idle"
| alloc: "vapi_step Idle (CtxAlloc (Some c)) (Allocated c)"
| connect: "vapi_step (Allocated c) (Connect (Some c) ok) (if ok then Connected c False else Allocated c)"
| ctx_free: "vapi_step (Allocated c) (CtxFree (Some c)) Idle"
| request: "vapi_step (Connected c b) (Request (Some c)) (Connected c b)"
| set_callback: "vapi_step (Connected c b) (SetCallback (Some c)) (Connected c True)"
| clear_callback: "vapi_step (Connected c b) (ClearCallback (Some c)) (Connected c False)"
| disconnect: "vapi_step (Connected c False) (Disconnect (Some c) ok) (if ok then Allocated c else Connected c False)"

inductive_simps vapi_step_simps [simp]:
  "vapi_step s (CtxAlloc x) t"
  "vapi_step s (Connect x ok) t"
  "vapi_step s (CtxFree x) t"
  "vapi_step s (Request x) t"
  "vapi_step s (SetCallback x) t"
  "vapi_step s (ClearCallback x) t"
  "vapi_step s (Disconnect x ok) t"

interpretation vapi_protocol: deterministic_protocol vapi_step
proof unfold_locales
  fix s c t u
  assume "vapi_step s c t" "vapi_step s c u"
  then show "t = u" by (cases c) auto
qed

fun held :: "vapi_session \<Rightarrow> nat option" where
  "held Idle = None"
| "held (Allocated c) = Some c"
| "held (Connected c b) = Some c"

text \<open>Of each context as many are allocated as are freed, but for the one that is held.\<close>

definition of_bool_nat :: "bool \<Rightarrow> nat" where
  "of_bool_nat b = (if b then 1 else 0)"

lemma follows_balanced:
  "follows vapi_step s cs t \<Longrightarrow>
   count_list cs (CtxAlloc (Some c)) + of_bool_nat (held s = Some c) =
   count_list cs (CtxFree (Some c)) + of_bool_nat (held t = Some c)"
proof (induction rule: follows.induct)
  case (call s x t cs u)
  from call.hyps(1) call.IH show ?case by cases (auto simp: of_bool_nat_def split: if_splits)
qed simp

section \<open>A library that logs its calls\<close>

definition logged_vapi :: "('w, 'm) vapi \<Rightarrow> ('w \<times> vapi_call list, 'm) vapi" where
  "logged_vapi lib = \<lparr>
     va_enabled = va_enabled lib,
     va_ctx_alloc = logged CtxAlloc (va_ctx_alloc lib),
     va_connect = (\<lambda>c name chroot m q. logged (Connect c) (va_connect lib c name chroot m q)),
     va_ctx_free = (\<lambda>c. logged (\<lambda>_. CtxFree c) (va_ctx_free lib c)),
     va_disconnect = (\<lambda>c. logged (Disconnect c) (va_disconnect lib c)),
     va_dispatch_one = (\<lambda>c. logged (\<lambda>_. Request c) (va_dispatch_one lib c)),
     va_msg_alloc = (\<lambda>c n. logged (\<lambda>_. Request c) (va_msg_alloc lib c n)),
     va_send = (\<lambda>c m. logged (\<lambda>_. Request c) (va_send lib c m)),
     va_msg_free = (\<lambda>c m. logged (\<lambda>_. Request c) (va_msg_free lib c m)),
     va_is_msg_available = (\<lambda>c i. logged (\<lambda>_. Request c) (va_is_msg_available lib c i)),
     va_get_fd = (\<lambda>c. logged (\<lambda>_. Request c) (va_get_fd lib c)),
     va_set_generic_event_cb = (\<lambda>c. logged (\<lambda>_. SetCallback c) (va_set_generic_event_cb lib c)),
     va_clear_generic_event_cb = (\<lambda>c. logged (\<lambda>_. ClearCallback c) (va_clear_generic_event_cb lib c))\<rparr>"

section \<open>Clients\<close>

text \<open>What a client can do with its transport; the callback for events acts on the client's own state.\<close>

datatype ('w, 'e, 'm) transport_op =
  Open "string option" "string option" int int
| Dispatch
| AllocMessage nat "'m option"
| SendMessage "'m option"
| FreeMessage "'m option"
| IsMessageAvailable nat bool
| GetFd int
| SetEventCallback "('w, 'e, 'm) en_vpp_api_event_fn option" "'e option"
| Close

type_synonym ('w, 'e, 'm) logged_transport = "('w \<times> vapi_call list, 'e, 'm) en_vpp_api_transport"

definition afterwards :: "('s, 'r) state \<Rightarrow> ('r \<Rightarrow> en_error_code) \<Rightarrow> 't \<Rightarrow> ('s, en_error_code \<times> 't) state" where
  "afterwards m status t = do { r \<leftarrow> m; State_Monad.return (status r, t) }"

fun perform_op ::
  "('w, 'm) vapi \<Rightarrow> ('w, 'e, 'm) transport_op \<Rightarrow> ('w, 'e, 'm) logged_transport \<Rightarrow>
   ('w \<times> vapi_call list, en_error_code \<times> ('w, 'e, 'm) logged_transport) state" where
  "perform_op lib (Open name chroot m q) t = en_vpp_api_transport_open (logged_vapi lib) t name chroot m q"
| "perform_op lib Dispatch t = afterwards (en_vpp_api_transport_dispatch (logged_vapi lib) t) (\<lambda>err. err) t"
| "perform_op lib (AllocMessage n m) t = afterwards (en_vpp_api_transport_alloc_message (logged_vapi lib) t n m) fst t"
| "perform_op lib (SendMessage m) t = afterwards (en_vpp_api_transport_send_message (logged_vapi lib) t m) (\<lambda>err. err) t"
| "perform_op lib (FreeMessage m) t = afterwards (en_vpp_api_transport_free_message (logged_vapi lib) t m) (\<lambda>err. err) t"
| "perform_op lib (IsMessageAvailable i a) t =
     afterwards (en_vpp_api_transport_is_message_available (logged_vapi lib) t i a) fst t"
| "perform_op lib (GetFd fd) t = afterwards (en_vpp_api_transport_get_fd (logged_vapi lib) t fd) fst t"
| "perform_op lib (SetEventCallback f e) t = en_vpp_api_transport_set_event_callback (logged_vapi lib) t
     (map_option (\<lambda>g c i m. unlogged (g c i m)) f) e"
| "perform_op lib Close t = en_vpp_api_transport_close (logged_vapi lib) t"

fun perform_ops ::
  "('w, 'm) vapi \<Rightarrow> ('w, 'e, 'm) transport_op list \<Rightarrow> ('w, 'e, 'm) logged_transport \<Rightarrow>
   ('w \<times> vapi_call list, en_error_code list \<times> ('w, 'e, 'm) logged_transport) state" where
  "perform_ops lib [] t = State_Monad.return ([], t)"
| "perform_ops lib (x # xs) t = do {
     (err, t') \<leftarrow> perform_op lib x t;
     (errs, t'') \<leftarrow> perform_ops lib xs t';
     State_Monad.return (err # errs, t'')
   }"

section \<open>Every client keeps to the protocol\<close>

definition session_of :: "('w, 'e, 'm) logged_transport \<Rightarrow> bool \<Rightarrow> vapi_session" where
  "session_of t b = (case tr_context t of None \<Rightarrow> Idle | Some c \<Rightarrow> Connected c b)"

definition transport_ok :: "('w, 'm) vapi \<Rightarrow> ('w, 'e, 'm) logged_transport \<Rightarrow> bool \<Rightarrow> bool" where
  "transport_ok lib t b \<longleftrightarrow> (tr_connected t \<longleftrightarrow> tr_context t \<noteq> None) \<and> (tr_connected t \<longrightarrow> va_enabled lib) \<and>
     (b \<longrightarrow> tr_event_callback t \<noteq> None) \<and> (\<exists>f. tr_event_callback t = map_option (\<lambda>g c i m. unlogged (g c i m)) f)"

abbreviation session_at :: "vapi_session \<Rightarrow> 'w \<times> vapi_call list \<Rightarrow> bool" where
  "session_at \<equiv> led_to vapi_step Idle"

text \<open>The state of the session after an operation, for its triple.\<close>

definition at_rest :: "('w, 'm) vapi \<Rightarrow> 'r \<times> ('w, 'e, 'm) logged_transport \<Rightarrow> 'w \<times> vapi_call list \<Rightarrow> bool" where
  "at_rest lib r wc \<longleftrightarrow> (\<exists>b. transport_ok lib (snd r) b \<and> session_at (session_of (snd r) b) wc)"

lemma request_stays: "preserves (session_at (Connected c b)) (logged (\<lambda>_. Request (Some c)) m)"
  by (rule logged_stays) simp

lemma events_stay:
  assumes "transport_ok lib t b"
  shows "preserves (session_at s)
    (foldr (\<lambda>event m. State_Monad.bind (generic_event_callback t event) (\<lambda>_. m)) events skip)"
proof (induction events)
  case (Cons event events)
  from assms obtain f where "tr_event_callback t = map_option (\<lambda>g c i m. unlogged (g c i m)) f"
    by (auto simp: transport_ok_def)
  then have "preserves (session_at s) (generic_event_callback t event)"
    by (cases f) (simp_all add: generic_event_callback_def preserves_return unlogged_stays)
  with Cons show ?case by (simp add: preserves_bind)
qed (simp add: preserves_return)

lemma settledI: "transport_ok lib t b \<Longrightarrow> session_at (session_of t b) wc \<Longrightarrow> at_rest lib (r, t) wc"
  by (auto simp: at_rest_def)

lemma settled_return:
  "transport_ok lib t b \<Longrightarrow> session_of t b = s \<Longrightarrow> triple (session_at s) (State_Monad.return (r, t)) (at_rest lib)"
  by (rule triple_return) (auto intro: settledI)

lemma alloc_at: "triple (session_at Idle) (va_ctx_alloc (logged_vapi lib))
    (\<lambda>r. session_at (case r of None \<Rightarrow> Idle | Some c \<Rightarrow> Allocated c))"
  unfolding logged_vapi_def vapi.simps by (rule logged_at) (simp split: option.splits)

lemma transport_connect_at: "triple (session_at (Allocated c)) (va_connect (logged_vapi lib) (Some c) name chroot m q)
    (\<lambda>ok. session_at (if ok then Connected c False else Allocated c))"
  unfolding logged_vapi_def vapi.simps by (rule logged_at) simp

lemma free_at: "triple (session_at (Allocated c)) (va_ctx_free (logged_vapi lib) (Some c)) (\<lambda>_. session_at Idle)"
  unfolding logged_vapi_def vapi.simps by (rule logged_at) simp

lemma set_at: "triple (session_at (Connected c b)) (va_set_generic_event_cb (logged_vapi lib) (Some c))
    (\<lambda>_. session_at (Connected c True))"
  unfolding logged_vapi_def vapi.simps by (rule logged_at) simp

lemma clear_at: "triple (session_at (Connected c b)) (va_clear_generic_event_cb (logged_vapi lib) (Some c))
    (\<lambda>_. session_at (Connected c False))"
  unfolding logged_vapi_def vapi.simps by (rule logged_at) simp

lemma transport_disconnect_at: "triple (session_at (Connected c False)) (va_disconnect (logged_vapi lib) (Some c))
    (\<lambda>ok. session_at (if ok then Allocated c else Connected c False))"
  unfolding logged_vapi_def vapi.simps by (rule logged_at) simp

lemma enabled_logged [simp]: "va_enabled (logged_vapi lib) = va_enabled lib"
  by (simp add: logged_vapi_def)

lemma open_settled:
  assumes "transport_ok lib t b"
  shows "triple (session_at (session_of t b)) (en_vpp_api_transport_open (logged_vapi lib) t name chroot m q) (at_rest lib)"
    (is "triple ?P _ _")
proof (cases "open_refused name m q \<or> tr_connected t \<or> \<not> va_enabled lib")
  case True
  then show ?thesis
    using settled_return [OF assms refl] by (auto simp: en_vpp_api_transport_open_def)
next
  case False
  with assms have none: "tr_context t = None" "session_of t b = Idle" by (simp_all add: transport_ok_def session_of_def)
  have failed: "transport_ok lib (t\<lparr>tr_context := None\<rparr>) False" "session_of (t\<lparr>tr_context := None\<rparr>) False = Idle"
    using assms False by (simp_all add: transport_ok_def session_of_def)
  have opened: "transport_ok lib (t\<lparr>tr_context := Some c, tr_application_name := x, tr_max_outstanding_requests := m,
      tr_response_queue_size := q, tr_connected := True\<rparr>) False"
    "session_of (t\<lparr>tr_context := Some c, tr_application_name := x, tr_max_outstanding_requests := m,
      tr_response_queue_size := q, tr_connected := True\<rparr>) False = Connected c False" for c x
    using assms False by (simp_all add: transport_ok_def session_of_def)
  show ?thesis
    unfolding en_vpp_api_transport_open_def none(2) enabled_logged
    using False
    by (auto intro!: triple_bind [OF alloc_at] triple_case_option triple_bind [OF transport_connect_at] triple_bind [OF free_at])
      (rule settled_return [OF assms none(2)] settled_return [OF failed] settled_return [OF opened])+
qed

lemma set_event_callback_settled:
  assumes "transport_ok lib t b"
  shows "triple (session_at (session_of t b))
    (en_vpp_api_transport_set_event_callback (logged_vapi lib) t (map_option (\<lambda>g c i m. unlogged (g c i m)) f) e) (at_rest lib)"
proof (cases "tr_connected t \<and> va_enabled lib")
  case False
  then show ?thesis
    using settled_return [OF assms refl] by (auto simp: en_vpp_api_transport_set_event_callback_def)
next
  case True
  with assms obtain c where c: "tr_context t = Some c" "session_of t b = Connected c b"
    by (auto simp: transport_ok_def session_of_def)
  let ?t = "t\<lparr>tr_event_callback := map_option (\<lambda>g c i m. unlogged (g c i m)) f, tr_event_context := e\<rparr>"
  have "transport_ok lib ?t (f \<noteq> None)" "session_of ?t (f \<noteq> None) = Connected c (f \<noteq> None)"
    using assms True c by (auto simp: transport_ok_def session_of_def)
  note settled = settled_return [OF this]
  show ?thesis
    unfolding en_vpp_api_transport_set_event_callback_def c(2) enabled_logged
    using True settled
    by (cases f) (auto simp: c(1) intro!: triple_bind [OF set_at] triple_bind [OF clear_at])
qed

lemma close_settled:
  assumes "transport_ok lib t b"
  shows "triple (session_at (session_of t b)) (en_vpp_api_transport_close (logged_vapi lib) t) (at_rest lib)"
proof (cases "tr_connected t")
  case False
  then show ?thesis
    using settled_return [OF assms refl] by (auto simp: en_vpp_api_transport_close_def)
next
  case True
  with assms obtain c where c: "tr_context t = Some c" "session_of t b = Connected c b" and enabled: "va_enabled lib"
    by (auto simp: transport_ok_def session_of_def)
  have kept: "transport_ok lib t False" "session_of t False = Connected c False"
    using assms True c by (auto simp: transport_ok_def session_of_def)
  let ?t = "forget_events (t\<lparr>tr_context := None\<rparr>)"
  have "transport_ok lib ?t False" "session_of ?t False = Idle"
    using assms by (auto simp: transport_ok_def session_of_def forget_events_def)
  note settled = settled_return [OF this] settled_return [OF kept]
  show ?thesis
    unfolding en_vpp_api_transport_close_def c enabled_logged
    using True enabled settled
    by (auto intro!: triple_bind [OF clear_at] triple_bind [OF transport_disconnect_at] triple_bind [OF free_at])
qed

text \<open>The other operations only make requests of a connected context.\<close>

lemma afterwards_settled:
  assumes "transport_ok lib t b" "preserves (session_at (session_of t b)) m"
  shows "triple (session_at (session_of t b)) (afterwards m status t) (at_rest lib)"
  unfolding afterwards_def
  by (rule triple_seq [OF assms(2)]) (rule settled_return [OF assms(1) refl])

lemmas request_defs = en_vpp_api_transport_dispatch_def en_vpp_api_transport_alloc_message_def
  en_vpp_api_transport_send_message_def en_vpp_api_transport_free_message_def
  en_vpp_api_transport_is_message_available_def en_vpp_api_transport_get_fd_def

lemma requests_stay:
  assumes "transport_ok lib t b"
  shows "preserves (session_at (session_of t b)) (en_vpp_api_transport_dispatch (logged_vapi lib) t)"
    "preserves (session_at (session_of t b)) (en_vpp_api_transport_alloc_message (logged_vapi lib) t n m)"
    "preserves (session_at (session_of t b)) (en_vpp_api_transport_send_message (logged_vapi lib) t m)"
    "preserves (session_at (session_of t b)) (en_vpp_api_transport_free_message (logged_vapi lib) t m)"
    "preserves (session_at (session_of t b)) (en_vpp_api_transport_is_message_available (logged_vapi lib) t i a)"
    "preserves (session_at (session_of t b)) (en_vpp_api_transport_get_fd (logged_vapi lib) t fd)"
proof -
  have connected: "\<exists>c. tr_context t = Some c \<and> session_of t b = Connected c b" if "tr_connected t"
    using assms that by (auto simp: transport_ok_def session_of_def)
  note stay = request_stays preserves_return preserves_bind preserves_if preserves_case_option preserves_case_prod
    events_stay [OF assms]
  show "preserves (session_at (session_of t b)) (en_vpp_api_transport_dispatch (logged_vapi lib) t)"
    using connected by (auto simp: request_defs logged_vapi_def intro!: stay)
  show "preserves (session_at (session_of t b)) (en_vpp_api_transport_alloc_message (logged_vapi lib) t n m)"
    using connected by (auto simp: request_defs logged_vapi_def intro!: stay)
  show "preserves (session_at (session_of t b)) (en_vpp_api_transport_send_message (logged_vapi lib) t m)"
    using connected by (auto simp: request_defs logged_vapi_def intro!: stay)
  show "preserves (session_at (session_of t b)) (en_vpp_api_transport_free_message (logged_vapi lib) t m)"
    using connected by (auto simp: request_defs logged_vapi_def intro!: stay)
  show "preserves (session_at (session_of t b)) (en_vpp_api_transport_is_message_available (logged_vapi lib) t i a)"
    using connected by (auto simp: request_defs logged_vapi_def intro!: stay)
  show "preserves (session_at (session_of t b)) (en_vpp_api_transport_get_fd (logged_vapi lib) t fd)"
    using connected by (auto simp: request_defs logged_vapi_def intro!: stay)
qed

lemma perform_op_settled:
  assumes "transport_ok lib t b"
  shows "triple (session_at (session_of t b)) (perform_op lib x t) (at_rest lib)"
  by (cases x) (simp_all add: open_settled set_event_callback_settled close_settled afterwards_settled requests_stay assms)

lemma perform_ops_settled:
  "transport_ok lib t b \<Longrightarrow> triple (session_at (session_of t b)) (perform_ops lib xs t) (at_rest lib)"
proof (induction xs arbitrary: t b)
  case Nil
  then show ?case by (simp add: settled_return)
next
  case (Cons x xs)
  have rest: "triple (at_rest lib (err, t'))
    (State_Monad.bind (perform_ops lib xs t') (\<lambda>(errs, t''). State_Monad.return (err # errs, t''))) (at_rest lib)" for err t'
  proof (rule tripleI, goal_cases)
    case (1 wc r wc')
    then obtain b' where b': "transport_ok lib t' b'" "session_at (session_of t' b') wc" by (auto simp: at_rest_def)
    obtain errs t'' where xs: "run_state (perform_ops lib xs t') wc = ((errs, t''), wc')" and r: "r = (err # errs, t'')"
      using 1(2) by (auto split: prod.splits)
    from tripleD [OF Cons.IH [OF b'(1)] b'(2) xs] show ?case by (simp add: r at_rest_def)
  qed
  have "perform_ops lib (x # xs) t = State_Monad.bind (perform_op lib x t) (\<lambda>r.
    State_Monad.bind (perform_ops lib xs (snd r)) (\<lambda>(errs, t''). State_Monad.return (fst r # errs, t'')))"
    by (simp add: case_prod_unfold)
  moreover have "triple (at_rest lib r) (State_Monad.bind (perform_ops lib xs (snd r))
    (\<lambda>(errs, t''). State_Monad.return (fst r # errs, t''))) (at_rest lib)" for r
    using rest by (cases r) simp
  ultimately show ?case by (simp only:) (rule triple_bind [OF perform_op_settled [OF Cons.prems]])
qed

section \<open>The properties\<close>

lemma init_ok: "transport_ok lib en_vpp_api_transport_init False"
  by (simp add: transport_ok_def en_vpp_api_transport_init_def)

lemma session_of_init: "session_of en_vpp_api_transport_init False = Idle"
  by (simp add: session_of_def en_vpp_api_transport_init_def)

lemma held_session_of [simp]: "held (session_of t b) = tr_context t"
  by (simp add: session_of_def split: option.splits)

lemma ops_balanced:
  assumes "run_state (perform_ops lib xs en_vpp_api_transport_init) (w, []) = ((errs, t), (w', calls))"
  shows "\<exists>b. transport_ok lib t b \<and> (\<forall>s. follows vapi_step Idle calls s \<longleftrightarrow> s = session_of t b)"
    "count_list calls (CtxAlloc (Some c)) =
       count_list calls (CtxFree (Some c)) + of_bool_nat (tr_connected t \<and> tr_context t = Some c)"
proof -
  have "session_at (session_of en_vpp_api_transport_init False) (w, [])" by (simp add: session_of_init led_to_def)
  from tripleD [OF perform_ops_settled [OF init_ok] this assms]
  obtain b where b: "transport_ok lib t b" "follows vapi_step Idle calls (session_of t b)"
    by (auto simp: at_rest_def led_to_def)
  then show "\<exists>b. transport_ok lib t b \<and> (\<forall>s. follows vapi_step Idle calls s \<longleftrightarrow> s = session_of t b)"
    using vapi_protocol.follows_unique by blast
  have "of_bool_nat (tr_context t = Some c) = of_bool_nat (tr_connected t \<and> tr_context t = Some c)"
    using b(1) by (auto simp: transport_ok_def of_bool_nat_def)
  with follows_balanced [OF b(2), of c] show "count_list calls (CtxAlloc (Some c)) =
       count_list calls (CtxFree (Some c)) + of_bool_nat (tr_connected t \<and> tr_context t = Some c)"
    by (simp add: of_bool_nat_def)
qed

text \<open>
  C39. Whatever operations a client performs on an initialised transport, the calls of \<open>libvapi\<close> keep to its
  protocol and leave the one session that the transport records: every call uses the context of the connection, a context is disconnected only with no callback
  registered, and of each context exactly as many are freed as were allocated, but for the one that a connected
  transport holds.
\<close>

theorem transport_keeps_protocol:
  "case run_state (perform_ops lib xs en_vpp_api_transport_init) (w, []) of ((errs, t), (w', calls)) \<Rightarrow>
     (\<exists>b. transport_ok lib t b \<and> (\<forall>s. follows vapi_step Idle calls s \<longleftrightarrow> s = session_of t b)) \<and>
     (\<forall>c. count_list calls (CtxAlloc (Some c)) =
       count_list calls (CtxFree (Some c)) + of_bool_nat (tr_connected t \<and> tr_context t = Some c))"
  using ops_balanced by (auto split: prod.splits)

text \<open>A transport that was closed is as new, but for the name and the sizes of its last connection.\<close>

lemma close_disconnects:
  "run_state (en_vpp_api_transport_close lib t) w = ((EN_ERR_NONE, t'), w') \<Longrightarrow> \<not> tr_connected t'"
  by (auto simp: en_vpp_api_transport_close_def forget_events_def split: prod.splits if_splits)

lemma closed_as_new:
  assumes "run_state (en_vpp_api_transport_close lib t) w = ((EN_ERR_NONE, t'), w')" "tr_connected t" "va_enabled lib"
  shows "t' = en_vpp_api_transport_init\<lparr>tr_application_name := tr_application_name t,
    tr_max_outstanding_requests := tr_max_outstanding_requests t, tr_response_queue_size := tr_response_queue_size t\<rparr>"
  using assms by (auto simp: en_vpp_api_transport_close_def en_vpp_api_transport_init_def forget_events_def
    split: prod.splits if_splits)

text \<open>A context that is not freed when its transport is initialised again is never freed.\<close>

lemma init_leaks:
  assumes "follows vapi_step Idle calls (Connected c b)"
    "run_state (perform_ops lib xs en_vpp_api_transport_init) (w, []) = ((errs, t), (w', later))"
  shows "count_list (calls @ later) (CtxFree (Some c)) < count_list (calls @ later) (CtxAlloc (Some c))"
  using follows_balanced [OF assms(1), of c] ops_balanced(2) [OF assms(2), of c] by (simp add: of_bool_nat_def)

text \<open>The probe that ends with status 0 has released its context.\<close>

lemma probe_releases:
  assumes "run_state (transport_probe (logged_vapi lib) args) (w, []) = ((0, t), (w', calls))"
  shows "follows vapi_step Idle calls Idle"
proof (cases "2 < length args \<or> args \<noteq> [] \<and> (hd args = ''--help'' \<or> hd args = ''-h'')")
  case True
  with assms show ?thesis by (auto simp: transport_probe_def Let_def)
next
  case False
  with assms obtain name chroot t1 wc1 fd wc2 wc3 where
    opened: "run_state (en_vpp_api_transport_open (logged_vapi lib) en_vpp_api_transport_init name chroot 8 8) (w, []) =
      ((EN_ERR_NONE, t1), wc1)"
    and fd: "run_state (en_vpp_api_transport_get_fd (logged_vapi lib) t1 (-1)) wc1 = ((EN_ERR_NONE, fd), wc2)"
    and closed: "run_state (en_vpp_api_transport_close (logged_vapi lib) t1) wc2 = ((EN_ERR_NONE, t), (w', calls))"
    by (auto simp: transport_probe_def Let_def split: prod.splits if_splits)
  have "session_at (session_of en_vpp_api_transport_init False) (w, [])" by (simp add: session_of_init led_to_def)
  from tripleD [OF open_settled [OF init_ok] this opened]
  obtain b where b: "transport_ok lib t1 b" "session_at (session_of t1 b) wc1" by (auto simp: at_rest_def)
  from preservesD [OF requests_stay(6) [OF b(1)] b(2) fd] have "session_at (session_of t1 b) wc2" .
  from tripleD [OF close_settled [OF b(1)] this closed]
  obtain b' where "transport_ok lib t b'" "session_at (session_of t b') (w', calls)" by (auto simp: at_rest_def)
  with close_disconnects [OF closed] show ?thesis by (simp add: transport_ok_def session_of_def led_to_def)
qed

end
