(* ===== verification/ViciClient.thy ===== *)
theory ViciClient
  imports ViciAdapter DaemonOptions
begin

text \<open>
  The connection of the VICI client of \<open>src/src/strongswan_vici_client.c\<close>, and the probe
  \<open>src/examples/strongswan_vici_probe.c\<close>. The library is \<open>vici_library\<close> with the calls that open and close a
  connection. What the probe prints is not modelled, but for the events it monitors.
\<close>

section \<open>The connection\<close>

text \<open>
  \<open>lib_connect uri\<close> is whether \<open>vici_connect\<close> returns a connection. A client exists as long as its connection, so the
  guards against \<open>NULL\<close> clients have no counterpart.
\<close>

record 'd vici_connections = "'d vici_library" +
  lib_init :: "('d, unit) state"
  lib_connect :: "string option \<Rightarrow> ('d, bool) state"
  lib_disconnect :: "('d, unit) state"
  lib_deinit :: "('d, unit) state"

text \<open>\<open>memory\<close> is whether \<open>calloc\<close> succeeds.\<close>

definition en_strongswan_vici_client_open ::
  "bool \<Rightarrow> 'd vici_connections \<Rightarrow> string option \<Rightarrow> ('d, en_error_code) state" where
  "en_strongswan_vici_client_open memory lib uri = do {
     _ \<leftarrow> lib_init lib;
     connected \<leftarrow> (if memory then lib_connect lib uri else State_Monad.return False);
     if \<not> connected then do {
       _ \<leftarrow> lib_deinit lib;
       State_Monad.return EN_ERR_STATE_CONFLICT
     } else State_Monad.return EN_ERR_NONE
   }"

definition en_strongswan_vici_client_close :: "'d vici_connections \<Rightarrow> ('d, unit) state" where
  "en_strongswan_vici_client_close lib = do { _ \<leftarrow> lib_disconnect lib; lib_deinit lib }"

definition version_text :: "vici_values \<Rightarrow> string" where
  "version_text r = vici_find_str r [] ''daemon'' @ '' '' @ vici_find_str r [] ''version'' @ '' ('' @
     vici_find_str r [] ''sysname'' @ '', '' @ vici_find_str r [] ''release'' @ '', '' @ vici_find_str r [] ''machine'' @ '')''"

text \<open>The status and what is left in the buffer of \<open>output_len\<close> bytes.\<close>

definition en_strongswan_vici_client_version ::
  "('d, 'z) vici_library_scheme \<Rightarrow> nat \<Rightarrow> ('d, en_error_code \<times> string) state" where
  "en_strongswan_vici_client_version lib output_len =
     (if output_len = 0 then State_Monad.return (EN_ERR_INVALID_ARGUMENT, [])
      else do {
        begun \<leftarrow> lib_begin lib ''version'';
        if \<not> begun then State_Monad.return (EN_ERR_STATE_CONFLICT, [])
        else do {
          response \<leftarrow> lib_submit lib ''version'' None;
          State_Monad.return (case response of
            None \<Rightarrow> (EN_ERR_STATE_CONFLICT, [])
          | Some r \<Rightarrow> (if output_len \<le> length (version_text r) then EN_ERR_INVALID_ARGUMENT else EN_ERR_NONE,
              fit output_len (version_text r)))
        }
      })"

section \<open>The probe\<close>

text \<open>
  How a run ends: with a status, or never, or, when the number of attempts overflows an \<open>int\<close>, without a defined
  behaviour.
\<close>

datatype probe_end = Exit int | Waits | Overflows

definition parse_nonnegative_long_long :: "string \<Rightarrow> int option" where
  "parse_nonnegative_long_long s =
     (if s = [] then None
      else case strtoll10 s of
        None \<Rightarrow> None
      | Some (parsed, rest) \<Rightarrow> if saturate64 parsed \<noteq> parsed \<or> rest \<noteq> [] \<or> parsed < 0 then None else Some parsed)"

definition parse_nonnegative_int :: "string \<Rightarrow> int option" where
  "parse_nonnegative_int s =
     (case parse_nonnegative_long_long s of
        None \<Rightarrow> None
      | Some parsed \<Rightarrow> if INT_MAX < parsed then None else Some parsed)"

text \<open>
  One attempt opens a connection, monitors and closes the connection; it gives \<open>None\<close> when it never ends, otherwise
  whether the monitor completed.
\<close>

definition monitor_attempt ::
  "json_writer \<Rightarrow> bool \<Rightarrow> 'd vici_connections \<Rightarrow> (string \<Rightarrow> ('d, unit) state) \<Rightarrow> string option \<Rightarrow> string \<Rightarrow> string \<Rightarrow> int \<Rightarrow>
   ('d, bool option) state" where
  "monitor_attempt write memory lib print_event uri child_id path_id duration_ms = do {
     err \<leftarrow> en_strongswan_vici_client_open memory lib uri;
     if err \<noteq> EN_ERR_NONE then State_Monad.return (Some False)
     else do {
       status \<leftarrow> en_strongswan_vici_client_monitor_child write lib child_id path_id duration_ms print_event;
       case status of
         None \<Rightarrow> State_Monad.return None
       | Some e \<Rightarrow> do {
           _ \<leftarrow> en_strongswan_vici_client_close lib;
           State_Monad.return (Some (e = EN_ERR_NONE))
         }
     }
   }"

text \<open>
  The loop over the attempts, with \<open>n\<close> attempts after this one. Between two attempts the probe sleeps. After the last
  attempt \<open>attempt\<close> is incremented, which overflows when it is the largest \<open>int\<close>.
\<close>

fun monitor_attempts ::
  "json_writer \<Rightarrow> bool \<Rightarrow> 'd vici_connections \<Rightarrow> (string \<Rightarrow> ('d, unit) state) \<Rightarrow> string option \<Rightarrow> string \<Rightarrow> string \<Rightarrow> int \<Rightarrow>
   nat \<Rightarrow> int \<Rightarrow> ('d, probe_end) state" where
  "monitor_attempts write memory lib print_event uri child_id path_id duration_ms n attempt = do {
     completed \<leftarrow> monitor_attempt write memory lib print_event uri child_id path_id duration_ms;
     case completed of
       None \<Rightarrow> State_Monad.return Waits
     | Some True \<Rightarrow> State_Monad.return (if attempt = INT_MAX then Overflows else Exit 0)
     | Some False \<Rightarrow>
         if attempt = INT_MAX then State_Monad.return Overflows
         else case n of
           0 \<Rightarrow> State_Monad.return (Exit 1)
         | Suc n' \<Rightarrow> monitor_attempts write memory lib print_event uri child_id path_id duration_ms n' (attempt + 1)
   }"

definition run_monitor ::
  "json_writer \<Rightarrow> bool \<Rightarrow> 'd vici_connections \<Rightarrow> (string \<Rightarrow> ('d, unit) state) \<Rightarrow> string option \<Rightarrow> string \<Rightarrow> string \<Rightarrow> int \<Rightarrow>
   int \<Rightarrow> ('d, probe_end) state" where
  "run_monitor write memory lib print_event uri child_id path_id duration_ms retry_count =
     monitor_attempts write memory lib print_event uri child_id path_id duration_ms (nat retry_count) 0"

text \<open>
  The arguments of the monitor: the duration and the number of retries, \<open>None\<close> when they are refused. The pause between
  the attempts is read but has no effect here.
\<close>

definition monitor_arguments :: "string list \<Rightarrow> (int \<times> int) option" where
  "monitor_arguments args =
     (if length args < 5 then None
      else case parse_nonnegative_long_long (args ! 4) of
        None \<Rightarrow> None
      | Some duration_ms \<Rightarrow>
          if strcmp (args ! 1) ''monitor'' = 0 \<and> duration_ms < 1 then None
          else case (if 5 < length args then parse_nonnegative_int (args ! 5) else Some 0) of
            None \<Rightarrow> None
          | Some retry_count \<Rightarrow>
              if 6 < length args \<and> parse_nonnegative_long_long (args ! 6) = None then None
              else Some (duration_ms, retry_count))"

definition child_action ::
  "('d, 'z) vici_library_scheme \<Rightarrow> string \<Rightarrow> string \<Rightarrow> ('d, en_error_code) state" where
  "child_action lib action child_id =
     (if strcmp action ''initiate'' = 0 then en_strongswan_vici_client_initiate lib child_id
      else if strcmp action ''terminate'' = 0 then en_strongswan_vici_client_terminate lib child_id
      else do {
        (err, obs) \<leftarrow> en_strongswan_vici_client_observe_child lib child_id zero_sa;
        State_Monad.return err
      })"

definition connected_action ::
  "('d, 'z) vici_library_scheme \<Rightarrow> string \<Rightarrow> string option \<Rightarrow> ('d, int) state" where
  "connected_action lib action child_id =
     (if strcmp action ''version'' = 0 then do {
        (err, version) \<leftarrow> en_strongswan_vici_client_version lib 256;
        State_Monad.return (if err \<noteq> EN_ERR_NONE then 1 else 0)
      }
      else if strcmp action ''initiate'' = 0 \<or> strcmp action ''terminate'' = 0 \<or> strcmp action ''observe'' = 0 then
        (case child_id of
           None \<Rightarrow> State_Monad.return 2
         | Some c \<Rightarrow> do {
             err \<leftarrow> child_action lib action c;
             State_Monad.return (if err \<noteq> EN_ERR_NONE then 1 else 0)
           })
      else State_Monad.return 2)"

text \<open>\<open>main\<close> on the arguments after the program's name.\<close>

definition vici_probe ::
  "json_writer \<Rightarrow> bool \<Rightarrow> 'd vici_connections \<Rightarrow> (string \<Rightarrow> ('d, unit) state) \<Rightarrow> string list \<Rightarrow> ('d, probe_end) state" where
  "vici_probe write memory lib print_event args =
     (let uri = (if args \<noteq> [] then Some (hd args) else None);
          action = (if 1 < length args then args ! 1 else ''version'');
          child_id = (if 2 < length args then Some (args ! 2) else None)
      in if strcmp action ''monitor'' = 0 \<or> strcmp action ''monitor-forever'' = 0 then
           (case monitor_arguments args of
              None \<Rightarrow> State_Monad.return (Exit 2)
            | Some (duration_ms, retry_count) \<Rightarrow>
                run_monitor write memory lib print_event uri (args ! 2) (args ! 3) duration_ms retry_count)
         else do {
           err \<leftarrow> en_strongswan_vici_client_open memory lib uri;
           if err \<noteq> EN_ERR_NONE then State_Monad.return (Exit 1)
           else do {
             status \<leftarrow> connected_action lib action child_id;
             _ \<leftarrow> en_strongswan_vici_client_close lib;
             State_Monad.return (Exit status)
           }
         })"

end
