(* ===== verification/ViciSafety.thy ===== *)
theory ViciSafety
  imports Protocol ViciClient
begin

text \<open>
  The client uses \<open>libvici\<close> as its protocol asks: the library is initialised and released in pairs, requests go to an
  open connection, a callback is registered once and removed before the connection is closed. So the callbacks, which point
  into the stack of the call that registered them, never outlive it, unless the library refuses to remove one: then the
  client closes the connection all the same.
\<close>

section \<open>The protocol\<close>

datatype vici_call =
  ViciInit
| ViciConnect bool
| ViciRequest
| ViciRegister string bool
| ViciUnregister string bool
| ViciOnClose bool
| ViciDisconnect
| ViciDeinit

text \<open>
  \<open>Joined es h refused\<close>: the events with a callback, whether there is one for the end of the connection, and whether the
  library has refused to remove a callback of this connection.
\<close>

datatype vici_session = Down | Ready | Joined "string list" bool bool

inductive vici_step :: "vici_session \<Rightarrow> vici_call \<Rightarrow> vici_session \<Rightarrow> bool" where
  init: "vici_step Down ViciInit Ready"
| connect: "vici_step Ready (ViciConnect ok) (if ok then Joined [] False False else Ready)"
| deinit: "vici_step Ready ViciDeinit Down"
| request: "vici_step (Joined es h d) ViciRequest (Joined es h d)"
| register: "e \<notin> set es \<Longrightarrow>
    vici_step (Joined es h d) (ViciRegister e ok) (if ok then Joined (e # es) h d else Joined es h d)"
| unregister: "e \<in> set es \<Longrightarrow>
    vici_step (Joined es h d) (ViciUnregister e ok) (if ok then Joined (removeAll e es) h d else Joined es h True)"
| on_close: "vici_step (Joined es h d) (ViciOnClose b) (Joined es b d)"
| disconnect: "es = [] \<or> d \<Longrightarrow> vici_step (Joined es False d) ViciDisconnect Ready"

inductive_simps vici_step_simps [simp]:
  "vici_step s ViciInit t"
  "vici_step s (ViciConnect ok) t"
  "vici_step s ViciDeinit t"
  "vici_step s ViciRequest t"
  "vici_step s (ViciRegister e ok) t"
  "vici_step s (ViciUnregister e ok) t"
  "vici_step s (ViciOnClose b) t"
  "vici_step s ViciDisconnect t"

interpretation vici_protocol: deterministic_protocol vici_step
proof unfold_locales
  fix s c t u
  assume "vici_step s c t" "vici_step s c u"
  then show "t = u" by (cases c) auto
qed

section \<open>A library that logs its calls\<close>

definition logged_vici :: "'w vici_connections \<Rightarrow> ('w \<times> vici_call list) vici_connections" where
  "logged_vici lib = \<lparr>
     lib_begin = (\<lambda>r. logged (\<lambda>_. ViciRequest) (lib_begin lib r)),
     lib_submit = (\<lambda>r c. logged (\<lambda>_. ViciRequest) (lib_submit lib r c)),
     lib_register = (\<lambda>e. logged (ViciRegister e) (lib_register lib e)),
     lib_list_sas = (\<lambda>c. logged (\<lambda>_. ViciRequest) (lib_list_sas lib c)),
     lib_unregister = (\<lambda>e. logged (ViciUnregister e) (lib_unregister lib e)),
     lib_on_close = (\<lambda>b. logged (\<lambda>_. ViciOnClose b) (lib_on_close lib b)),
     lib_monitor = unlogged (lib_monitor lib),
     lib_init = logged (\<lambda>_. ViciInit) (lib_init lib),
     lib_connect = (\<lambda>uri. logged ViciConnect (lib_connect lib uri)),
     lib_disconnect = logged (\<lambda>_. ViciDisconnect) (lib_disconnect lib),
     lib_deinit = logged (\<lambda>_. ViciDeinit) (lib_deinit lib)\<rparr>"

abbreviation vici_at :: "vici_session \<Rightarrow> 'w \<times> vici_call list \<Rightarrow> bool" where
  "vici_at \<equiv> led_to vici_step Down"

text \<open>The connection can be closed: no callback is left, or the library refused to remove the one that is.\<close>

definition closable :: "'w \<times> vici_call list \<Rightarrow> bool" where
  "closable wc \<longleftrightarrow> vici_at (Joined [] False False) wc \<or> (\<exists>es. vici_at (Joined es False True) wc)"

lemma init_at: "triple (vici_at Down) (lib_init (logged_vici lib)) (\<lambda>_. vici_at Ready)"
  unfolding logged_vici_def by (simp, rule logged_at) simp

lemma vici_connect_at: "triple (vici_at Ready) (lib_connect (logged_vici lib) uri)
    (\<lambda>ok. vici_at (if ok then Joined [] False False else Ready))"
  unfolding logged_vici_def by (simp, rule logged_at) simp

lemma vici_disconnect_at: "triple closable (lib_disconnect (logged_vici lib)) (\<lambda>_. vici_at Ready)"
proof (rule tripleI)
  fix wc u wc'
  assume "closable wc" and run: "run_state (lib_disconnect (logged_vici lib)) wc = (u, wc')"
  then obtain es d where at: "follows vici_step Down (snd wc) (Joined es False d)" "es = [] \<or> d"
    by (auto simp: closable_def led_to_def)
  have "snd wc' = snd wc @ [ViciDisconnect]" using run by (cases wc) (auto simp: logged_vici_def split: prod.splits)
  moreover have "follows vici_step Down (snd wc @ [ViciDisconnect]) Ready"
    unfolding follows_append using at vici_step.disconnect [OF at(2)]
    by (intro exI [of _ "Joined es False d"] conjI follows.call [of vici_step _ _ Ready] follows.none)
  ultimately show "vici_at Ready wc'" by (simp add: led_to_def)
qed

lemma deinit_at: "triple (vici_at Ready) (lib_deinit (logged_vici lib)) (\<lambda>_. vici_at Down)"
  unfolding logged_vici_def by (simp, rule logged_at) simp

lemma register_at: "e \<notin> set es \<Longrightarrow> triple (vici_at (Joined es h d)) (lib_register (logged_vici lib) e)
    (\<lambda>ok. vici_at (if ok then Joined (e # es) h d else Joined es h d))"
  unfolding logged_vici_def by (simp, rule logged_at) simp

lemma on_close_at: "triple (vici_at (Joined es h d)) (lib_on_close (logged_vici lib) b) (\<lambda>_. vici_at (Joined es b d))"
  unfolding logged_vici_def by (simp, rule logged_at) simp

lemma unregister_at: "triple (vici_at (Joined [e] h False)) (lib_unregister (logged_vici lib) e)
    (\<lambda>ok. vici_at (if ok then Joined [] h False else Joined [e] h True))"
  unfolding logged_vici_def by (simp, rule logged_at) (auto split: if_splits intro: exI [of _ False])

lemma requests_at:
  "preserves (vici_at (Joined es h d)) (lib_begin (logged_vici lib) r)"
  "preserves (vici_at (Joined es h d)) (lib_submit (logged_vici lib) r c)"
  "preserves (vici_at (Joined es h d)) (lib_list_sas (logged_vici lib) x)"
  "preserves (vici_at s) (lib_monitor (logged_vici lib))"
  unfolding logged_vici_def by (simp_all add: unlogged_stays logged_stays)

section \<open>The operations of the client\<close>

lemma open_at:
  "triple (vici_at Down) (en_strongswan_vici_client_open memory (logged_vici lib) uri)
     (\<lambda>err. vici_at (if err = EN_ERR_NONE then Joined [] False False else Down))"
proof -
  have "triple (vici_at Ready) (if memory then lib_connect (logged_vici lib) uri else State_Monad.return False)
      (\<lambda>ok. vici_at (if ok then Joined [] False False else Ready))"
    by (auto intro: vici_connect_at triple_return)
  then show ?thesis
    unfolding en_strongswan_vici_client_open_def
    by (auto intro!: triple_bind [OF init_at] triple_bind triple_if triple_return deinit_at)
qed

lemma close_at: "triple closable (en_strongswan_vici_client_close (logged_vici lib)) (\<lambda>_. vici_at Down)"
  unfolding en_strongswan_vici_client_close_def by (rule triple_bind [OF vici_disconnect_at deinit_at])

lemma closable_joined:
  "vici_at (Joined [] False False) wc \<Longrightarrow> closable wc"
  "vici_at (if ok then Joined [] False False else Joined [e] False True) wc \<Longrightarrow> closable wc"
  by (auto simp: closable_def split: if_splits)

lemma kept_closable: "preserves (vici_at (Joined [] False False)) m \<Longrightarrow> triple (vici_at (Joined [] False False)) m (\<lambda>_. closable)"
  by (auto simp: preserves_def triple_def closable_joined)

lemmas keep_at = preserves_return preserves_bind preserves_if preserves_case_option preserves_case_prod requests_at

lemma child_command_at: "preserves (vici_at (Joined es h d)) (child_command (logged_vici lib) r c)"
  unfolding child_command_def by (intro keep_at)

lemma version_at: "preserves (vici_at (Joined es h d)) (en_strongswan_vici_client_version (logged_vici lib) n)"
  unfolding en_strongswan_vici_client_version_def by (intro keep_at)

lemma observe_at:
  "triple (vici_at (Joined [] False False)) (en_strongswan_vici_client_observe_child (logged_vici lib) c obs) (\<lambda>_. closable)"
proof -
  let ?s = "Joined [''list-sa''] False False"
  have finish: "triple (vici_at ?s) (State_Monad.bind (lib_unregister (logged_vici lib) ''list-sa'')
      (\<lambda>_. State_Monad.return r)) (\<lambda>_. closable)" for r :: "'b"
    by (rule triple_bind [OF unregister_at]) (rule triple_return, erule closable_joined)
  have answer: "triple (vici_at ?s) (State_Monad.bind (lib_list_sas (logged_vici lib) c) f)
      (\<lambda>_. closable)" if "\<And>a. triple (vici_at ?s) (f a) (\<lambda>_. closable)" for f
    by (rule triple_seq [OF requests_at(3) that])
  have rest: "triple (vici_at (if ok then ?s else Joined [] False False))
     (if \<not> ok then State_Monad.return (EN_ERR_STATE_CONFLICT, obs) else State_Monad.bind (lib_begin (logged_vici lib) ''list-sas'') f)
     (\<lambda>_. closable)"
    if "\<And>b. triple (vici_at ?s) (f b) (\<lambda>_. closable)" for ok f
    by (cases ok) (auto intro: triple_return triple_seq [OF requests_at(1) that] closable_joined)
  show ?thesis
    unfolding en_strongswan_vici_client_observe_child_def
    by (intro triple_if triple_return triple_bind [OF register_at] rest answer triple_case_prod)
      (simp_all add: finish closable_joined)
qed

lemma deliver_at:
  assumes "\<And>e. preserves (vici_at s) (event_fn e)"
  shows "preserves (vici_at s) (deliver_events write c p event_fn messages)"
  unfolding deliver_events_def
  by (induction messages) (auto intro!: keep_at assms split: prod.splits)

lemma monitor_at:
  assumes "\<And>s e. preserves (vici_at s) (event_fn e)"
  shows "triple (vici_at (Joined [] False False)) (en_strongswan_vici_client_monitor_child write (logged_vici lib) c p n event_fn)
    (\<lambda>r. if r = None then vici_at (Joined [''child-updown''] True False) else closable)"
    (is "triple _ _ ?Q")
proof -
  let ?s = "Joined [''child-updown''] True False"
  have after: "triple (vici_at (if u then Joined [] True False else Joined [''child-updown''] True True))
      (State_Monad.bind (lib_on_close (logged_vici lib) False) (\<lambda>_. State_Monad.return (Some (f u)))) ?Q" for f u
    by (cases u) (auto intro!: triple_bind [OF on_close_at] triple_return simp: closable_def)
  have finish: "triple (vici_at ?s) (State_Monad.bind (lib_unregister (logged_vici lib) ''child-updown'')
      (\<lambda>u. State_Monad.bind (lib_on_close (logged_vici lib) False) (\<lambda>_. State_Monad.return (Some (f u))))) ?Q" for f
    by (rule triple_bind [OF unregister_at after])
  have waiting: "triple (vici_at ?s) (case w of None \<Rightarrow> State_Monad.return None | Some n \<Rightarrow>
      State_Monad.bind (lib_unregister (logged_vici lib) ''child-updown'')
      (\<lambda>u. State_Monad.bind (lib_on_close (logged_vici lib) False) (\<lambda>_. State_Monad.return (Some (f n u))))) ?Q"
    for w :: "nat option" and f
    using finish by (cases w) (auto intro: triple_return)
  have monitoring: "triple (vici_at (Joined [''child-updown''] False False)) (State_Monad.bind (lib_on_close (logged_vici lib) True)
      (\<lambda>_. State_Monad.bind (lib_monitor (logged_vici lib)) f)) ?Q" if "\<And>a. triple (vici_at ?s) (f a) ?Q" for f
    by (rule triple_bind [OF on_close_at]) (rule triple_seq [OF requests_at(4) that])
  have delivered: "triple (vici_at ?s) (State_Monad.bind (deliver_events write c p event_fn messages) f) ?Q"
    if "\<And>a. triple (vici_at ?s) (f a) ?Q" for messages f
    by (rule triple_seq [OF deliver_at that]) (rule assms)
  have rest: "triple (vici_at (if ok then Joined [''child-updown''] False False else Joined [] False False))
     (if \<not> ok then State_Monad.return (Some EN_ERR_STATE_CONFLICT) else m) ?Q"
    if "triple (vici_at (Joined [''child-updown''] False False)) m ?Q" for ok m
    using that by (cases ok) (auto intro: triple_return simp: closable_joined)
  show ?thesis
    unfolding en_strongswan_vici_client_monitor_child_def en_strongswan_vici_client_monitor_child_until_def
    by (intro triple_if triple_return triple_bind [OF register_at] rest monitoring triple_case_prod delivered waiting)
      (simp_all add: closable_joined)
qed

section \<open>The probe\<close>

lemma attempt_at:
  assumes "\<And>s e. preserves (vici_at s) (event_fn e)"
  shows "triple (vici_at Down) (monitor_attempt write memory (logged_vici lib) event_fn uri c p n)
    (\<lambda>r. vici_at (if r = None then Joined [''child-updown''] True False else Down))"
    (is "triple _ _ ?Q")
proof -
  have closing: "triple (if r = None then vici_at (Joined [''child-updown''] True False) else closable)
    (case r of None \<Rightarrow> State_Monad.return None | Some e \<Rightarrow>
      State_Monad.bind (en_strongswan_vici_client_close (logged_vici lib)) (\<lambda>_. State_Monad.return (Some (e = EN_ERR_NONE)))) ?Q" for r
    by (cases r) (auto intro!: triple_return triple_bind [OF close_at])
  have "triple (vici_at (if err = EN_ERR_NONE then Joined [] False False else Down))
    (if err \<noteq> EN_ERR_NONE then State_Monad.return (Some False) else
      State_Monad.bind (en_strongswan_vici_client_monitor_child write (logged_vici lib) c p n event_fn)
      (\<lambda>r. case r of None \<Rightarrow> State_Monad.return None | Some e \<Rightarrow>
        State_Monad.bind (en_strongswan_vici_client_close (logged_vici lib)) (\<lambda>_. State_Monad.return (Some (e = EN_ERR_NONE))))) ?Q" for err
    using triple_bind [OF monitor_at [OF assms] closing] by (cases "err = EN_ERR_NONE") (auto intro: triple_return)
  then show ?thesis unfolding monitor_attempt_def by (rule triple_bind [OF open_at])
qed

definition probe_session :: "probe_end \<Rightarrow> vici_session" where
  "probe_session r = (if r = Waits then Joined [''child-updown''] True False else Down)"

lemma attempts_at:
  assumes "\<And>s e. preserves (vici_at s) (event_fn e)"
  shows "triple (vici_at Down) (monitor_attempts write memory (logged_vici lib) event_fn uri c p d n attempt)
    (\<lambda>r. vici_at (probe_session r))"
proof (induction n arbitrary: attempt)
  case 0
  show ?case
    by (subst monitor_attempts.simps, rule triple_bind [OF attempt_at [OF assms]])
      (auto intro!: triple_return simp: probe_session_def split: option.splits bool.splits)
next
  case (Suc n)
  then show ?case
    by (subst monitor_attempts.simps, intro triple_bind [OF attempt_at [OF assms]])
      (auto intro!: triple_return simp: probe_session_def split: option.splits bool.splits)
qed

lemma connected_action_at:
  "triple (vici_at (Joined [] False False)) (connected_action (logged_vici lib) action c) (\<lambda>_. closable)"
proof -
  have closed: "triple closable (State_Monad.return r) (\<lambda>_. closable)" for r :: 'b
    by (rule triple_return)
  show ?thesis
    unfolding connected_action_def child_action_def en_strongswan_vici_client_initiate_def en_strongswan_vici_client_terminate_def
    by (cases c) (auto intro!: triple_bind [OF kept_closable [OF version_at]] triple_bind [OF kept_closable [OF child_command_at]]
        triple_bind [OF observe_at] closed kept_closable [OF preserves_return] split: prod.split)
qed

lemma probe_at:
  assumes "\<And>s e. preserves (vici_at s) (event_fn e)"
  shows "triple (vici_at Down) (vici_probe write memory (logged_vici lib) event_fn args) (\<lambda>r. vici_at (probe_session r))"
proof -
  have "triple (vici_at (if err = EN_ERR_NONE then Joined [] False False else Down))
    (if err \<noteq> EN_ERR_NONE then State_Monad.return (Exit 1) else
      State_Monad.bind (connected_action (logged_vici lib) action c)
      (\<lambda>status. State_Monad.bind (en_strongswan_vici_client_close (logged_vici lib)) (\<lambda>_. State_Monad.return (Exit status))))
    (\<lambda>r. vici_at (probe_session r))" for err action c
  proof (cases "err = EN_ERR_NONE")
    case True
    show ?thesis
      by (simp add: True, rule triple_bind [OF connected_action_at], rule triple_bind [OF close_at])
        (simp add: triple_return probe_session_def)
  next
    case False
    then show ?thesis by (simp add: triple_return probe_session_def)
  qed
  then have other: "triple (vici_at Down) (State_Monad.bind (en_strongswan_vici_client_open memory (logged_vici lib) uri)
    (\<lambda>err. if err \<noteq> EN_ERR_NONE then State_Monad.return (Exit 1) else
      State_Monad.bind (connected_action (logged_vici lib) action c)
      (\<lambda>status. State_Monad.bind (en_strongswan_vici_client_close (logged_vici lib)) (\<lambda>_. State_Monad.return (Exit status)))))
    (\<lambda>r. vici_at (probe_session r))" for uri action c
    by (rule triple_bind [OF open_at])
  show ?thesis
    unfolding vici_probe_def run_monitor_def Let_def
    by (intro triple_if triple_case_option triple_case_prod attempts_at [OF assms] other)
      (simp add: triple_return probe_session_def)
qed

text \<open>
  C40. Whatever the arguments of the probe and the answers of the library are, the calls of the probe keep to the protocol of
  \<open>libvici\<close>: a connection is closed with a callback registered only when the library has refused to remove it. A probe that
  ends has closed its connections and released the library. A probe that never ends is in the wait of the monitor, with its
  two callbacks registered.
\<close>

theorem vici_probe_keeps_protocol:
  assumes "run_state (vici_probe write memory (logged_vici lib) (\<lambda>event. unlogged (print event)) args) (w, []) = (r, (w', calls))"
  shows "follows vici_step Down calls s \<longleftrightarrow> s = (if r = Waits then Joined [''child-updown''] True False else Down)"
proof -
  have "vici_at Down (w, [])" by (simp add: led_to_def)
  from tripleD [OF probe_at [OF unlogged_stays] this assms]
  have "follows vici_step Down calls (probe_session r)" by (simp add: led_to_def)
  then show ?thesis using vici_protocol.follows_unique unfolding probe_session_def by blast
qed

section \<open>Witness\<close>

definition sample_connections :: "unit vici_connections" where
  "sample_connections = \<lparr>lib_begin = (\<lambda>_. State_Monad.return True),
     lib_submit = (\<lambda>_ _. State_Monad.return (Some [(''success'', ''yes'')])),
     lib_register = (\<lambda>_. State_Monad.return True),
     lib_list_sas = (\<lambda>_. State_Monad.return ([(''tun-hub'', [(''state'', ''INSTALLED'')])], True)),
     lib_unregister = (\<lambda>_. State_Monad.return True),
     lib_on_close = (\<lambda>_. State_Monad.return ()),
     lib_monitor = State_Monad.return ([(7, [(''tun-hub'', [(''state'', ''DELETING'')])])], \<lambda>_. False),
     lib_init = State_Monad.return (),
     lib_connect = (\<lambda>_. State_Monad.return True),
     lib_disconnect = State_Monad.return (),
     lib_deinit = State_Monad.return ()\<rparr>"

definition sample_observe_run :: "probe_end \<times> (unit \<times> vici_call list)" where
  "sample_observe_run = run_state (vici_probe (\<lambda>_. None) True (logged_vici sample_connections) (\<lambda>event. unlogged skip)
     [''unix:///run/charon.vici'', ''observe'', ''tun-hub'']) ((), [])"

lemma sample_observe_run_eval: "sample_observe_run = (Exit 0, ((), [ViciInit, ViciConnect True, ViciRegister ''list-sa'' True,
    ViciRequest, ViciRequest, ViciUnregister ''list-sa'' True, ViciDisconnect, ViciDeinit]))"
  by code_simp

theorem vici_probe_keeps_protocol_witness:
  "follows vici_step Down [ViciInit, ViciConnect True, ViciRegister ''list-sa'' True, ViciRequest, ViciRequest,
     ViciUnregister ''list-sa'' True, ViciDisconnect, ViciDeinit] Down"
  unfolding vici_probe_keeps_protocol [OF sample_observe_run_eval [unfolded sample_observe_run_def]]
  by (simp only: probe_end.distinct if_False)

text \<open>The monitor of the sample library waits for a second and ends with status 0.\<close>

lemma sample_monitor_ends: "fst (run_state (vici_probe (\<lambda>_. None) True sample_connections (\<lambda>event. skip)
    [''unix:///run/charon.vici'', ''monitor'', ''tun-hub'', ''path-via-hub'', ''1000'']) ()) = Exit 0"
  by code_simp

text \<open>A library that refuses to remove the callback: the connection is closed with the callback registered.\<close>

lemma refused_removal_dangles:
  "snd (snd (run_state (vici_probe (\<lambda>_. None) True
     (logged_vici (sample_connections\<lparr>lib_unregister := (\<lambda>_. State_Monad.return False)\<rparr>)) (\<lambda>event. unlogged skip)
     [''unix:///run/charon.vici'', ''observe'', ''tun-hub'']) ((), []))) = [ViciInit, ViciConnect True, ViciRegister ''list-sa'' True,
    ViciRequest, ViciRequest, ViciUnregister ''list-sa'' False, ViciDisconnect, ViciDeinit]"
  by code_simp

end
