(* ===== verification/ControllerDemo.thy ===== *)
theory ControllerDemo
  imports ControllerCore
begin

text \<open>
  The demonstration \<open>src/examples/demo.c\<close>: one intent on the three demonstration paths, with the mocks. The program is its
  exit status and what it prints to the standard output.
\<close>

definition make_demo_intent :: en_intent where
  "make_demo_intent = zero_intent\<lparr>it_intent_id := ''intent-a-b'',
     it_traffic := (it_traffic zero_intent)\<lparr>ts_source := ''site-a'', ts_destination := ''site-b''\<rparr>,
     it_path_selection := (it_path_selection zero_intent)\<lparr>ps_mode := EN_SELECT_PRIORITY,
       ps_candidates := [''path-direct'', ''path-via-relay-c'', ''path-via-hub'']\<rparr>,
     it_transition := (it_transition zero_intent)\<lparr>tp_strategy := EN_TRANSITION_GRACEFUL, tp_max_pause_ms := 10,
       tp_drain_timeout_ms := 10, tp_timeout_ms := 5000\<rparr>,
     it_fallback := \<lparr>fp_enabled = True, fp_path_id = ''path-via-hub''\<rparr>\<rparr>"

definition zero_mocks :: mocks where
  "zero_mocks = \<lparr>mc_vpp = Some \<lparr>vm_fail_next_update = False, vm_routes = [], vm_install_count = 0, vm_remove_count = 0\<rparr>,
     mc_health = Some ([], False)\<rparr>"

definition demo_report :: "en_reconcile_result \<Rightarrow> mocks machine \<Rightarrow> string list" where
  "demo_report result m =
     [''selected_path: '' @ rr_selected_path result, ''reason: '' @ sr_reason (rr_explanation result),
      ''transition_state: '' @ en_transition_state_name (rr_transition_state result), ''audit:''] @
     map (\<lambda>e. ''- '' @ au_event_type e @ '': '' @ au_message e @ '' ('' @ au_ref_id e @ '')'') (en_controller_audit_events m)"

definition controller_demo :: "bool \<Rightarrow> mocks world \<Rightarrow> int \<times> string list" where
  "controller_demo memory w =
     (let demo_paths = en_initial_demo_paths EN_MAX_PATHS in
      case en_controller_create memory (Some demo_paths) (length demo_paths) en_strongswan_mock_adapter en_vpp_mock_adapter
          en_health_probe_mock_adapter of
        None \<Rightarrow> (1, [])
      | Some k \<Rightarrow>
          (case run_state (en_controller_submit_intent (Some make_demo_intent) (Some zero_reconcile_result))
              \<lparr>ctl = k, world = w\<lparr>dev := zero_mocks\<rparr>\<rparr> of
             ((EN_ERR_NONE, Some result), m) \<Rightarrow> (0, demo_report result m)
           | _ \<Rightarrow> (1, [])))"

text \<open>A demonstration that succeeds has selected one of its paths, whatever the clock shows.\<close>

lemma demo_selects_demo_path:
  assumes "controller_demo memory w = (0, ls)"
  shows "\<exists>p\<in>{demo_hub, demo_direct, demo_relay}. hd ls = ''selected_path: '' @ pt_path_id p"
proof -
  have three: "en_initial_demo_paths EN_MAX_PATHS = [demo_hub, demo_direct, demo_relay]"
    by (simp add: en_initial_demo_paths_def)
  obtain k r m where k: "en_controller_create memory (Some [demo_hub, demo_direct, demo_relay]) 3
      en_strongswan_mock_adapter en_vpp_mock_adapter en_health_probe_mock_adapter = Some k"
    and run: "run_state (en_controller_submit_intent (Some make_demo_intent) (Some zero_reconcile_result))
      \<lparr>ctl = k, world = w\<lparr>dev := zero_mocks\<rparr>\<rparr> = ((EN_ERR_NONE, Some r), m)" (is "run_state _ ?s = _")
    and ls: "ls = demo_report r m"
    using assms by (auto simp: controller_demo_def three Let_def numeral_3_eq_3
      split: option.splits prod.splits en_error_code.splits)
  have ids: "\<forall>p\<in>set (elements (Some [demo_hub, demo_direct, demo_relay]) 3). length (pt_path_id p) < EN_MAX_ID_LEN"
    by code_simp
  have wf: "wf_state (st ?s)" using created_wf [OF k [unfolded en_controller_create_def]] ids by (simp add: st_def)
  have "paths (st ?s) = [demo_hub, demo_direct, demo_relay]" "applied (st ?s) = []"
    using k by (auto simp: st_def en_controller_create_def en_controller_create_with_nodes_and_tunnels_def elements_def split: if_splits)
  then obtain i where "en_find_path (st ?s) (Some (rr_selected_path r)) = Some i"
    "paths (st ?s) = [demo_hub, demo_direct, demo_relay]"
    using submission_settled [OF wf _ run] by (auto simp: applied_room_def)
  from find_path_id [OF this(1)] this(2) have "i < 3" "pt_path_id ([demo_hub, demo_direct, demo_relay] ! i) = rr_selected_path r" by auto
  then have "\<exists>p\<in>set [demo_hub, demo_direct, demo_relay]. rr_selected_path r = pt_path_id p"
    by (intro bexI [of _ "[demo_hub, demo_direct, demo_relay] ! i"] nth_mem) simp_all
  then show ?thesis by (simp add: ls demo_report_def)
qed

end
