(* ===== verification/ViciController.thy ===== *)
theory ViciController
  imports ViciClient DaemonStream ControllerDemo
begin

text \<open>
  The probe \<open>src/examples/strongswan_vici_controller_probe.c\<close>: an intent of a configuration is submitted to a controller
  whose tunnels are those of a VICI client, and then again at every event of a monitored child. What the program prints is not
  modelled. \<open>find_intent\<close> is the same function as in the daemon, and \<open>create_from_config\<close> is the call that creates the
  controller.
\<close>

section \<open>The devices\<close>

text \<open>The mocks, the library, and the counters of the monitor.\<close>

record 'd vici_device =
  vd_mocks :: mocks
  vd_vici :: 'd
  vd_event_count :: int
  vd_failure_count :: int

definition put_vici :: "'d \<Rightarrow> 'd vici_device \<Rightarrow> 'd vici_device" where
  "put_vici v d = d\<lparr>vd_vici := v\<rparr>"

definition put_vici_mocks :: "mocks \<Rightarrow> 'd vici_device \<Rightarrow> 'd vici_device" where
  "put_vici_mocks m d = d\<lparr>vd_mocks := m\<rparr>"

definition vici_adapters :: "'d en_strongswan_vici_ctx \<Rightarrow>
  'd vici_device en_strongswan_adapter \<times> 'd vici_device en_vpp_adapter \<times> 'd vici_device en_health_probe" where
  "vici_adapters ctx =
     (strongswan_focused vd_vici put_vici (en_strongswan_vici_adapter (Some ctx)),
      vpp_focused vd_mocks put_vici_mocks en_vpp_mock_adapter,
      probe_focused vd_mocks put_vici_mocks en_health_probe_mock_adapter)"

text \<open>The library as the monitor calls it, beside the controller.\<close>

definition on_client :: "('d, 'a) state \<Rightarrow> ('d vici_device, 'a) act" where
  "on_client m = on_world (focused vd_vici put_vici (on_dev m))"

definition machine_library :: "('d, 'z) vici_library_scheme \<Rightarrow> 'd vici_device machine vici_library" where
  "machine_library lib = \<lparr>
     lib_begin = (\<lambda>r. on_client (lib_begin lib r)),
     lib_submit = (\<lambda>r c. on_client (lib_submit lib r c)),
     lib_register = (\<lambda>e. on_client (lib_register lib e)),
     lib_list_sas = (\<lambda>c. on_client (lib_list_sas lib c)),
     lib_unregister = (\<lambda>e. on_client (lib_unregister lib e)),
     lib_on_close = (\<lambda>b. on_client (lib_on_close lib b)),
     lib_monitor = on_client (lib_monitor lib)\<rparr>"

section \<open>The events\<close>

definition change_device :: "('d vici_device \<Rightarrow> 'd vici_device) \<Rightarrow> ('d vici_device, unit) act" where
  "change_device f = modify (\<lambda>s. s\<lparr>world := (world s)\<lparr>dev := f (dev (world s))\<rparr>\<rparr>)"

abbreviation count_failure :: "('d vici_device, unit) act" where
  "count_failure \<equiv> change_device (\<lambda>d. d\<lparr>vd_failure_count := vd_failure_count d + 1\<rparr>)"

definition monitor_event :: "json_reader \<Rightarrow> en_intent \<Rightarrow> string \<Rightarrow> ('d vici_device, unit) act" where
  "monitor_event read intent event =
     (case en_telemetry_parse_json_line read event of
        Inl e \<Rightarrow> count_failure
      | Inr h \<Rightarrow> do {
          _ \<leftarrow> change_device (\<lambda>d. d\<lparr>vd_mocks := (vd_mocks d)\<lparr>mc_health :=
            map_option (\<lambda>(overrides, required). (en_health_probe_mock_set h overrides, required)) (mc_health (vd_mocks d))\<rparr>\<rparr>);
          (status, result) \<leftarrow> en_controller_submit_intent (Some intent) (Some zero_reconcile_result);
          if status \<noteq> EN_ERR_NONE then count_failure
          else change_device (\<lambda>d. d\<lparr>vd_event_count := vd_event_count d + 1\<rparr>)
        })"

section \<open>The process\<close>

record 'd vici_probe_env =
  vp_memory :: bool
  vp_files :: "string \<Rightarrow> (string \<times> bool) option"
  vp_write :: json_writer
  vp_read :: json_reader
  vp_library :: "'d vici_connections"
  vp_enabled :: bool
  vp_tunnel_down :: en_tunnel_state

text \<open>The duration, when the last argument is one.\<close>

definition monitor_duration :: "string \<Rightarrow> int option" where
  "monitor_duration s =
     (case strtoll10 s of
        None \<Rightarrow> None
      | Some (parsed, rest) \<Rightarrow> if saturate64 parsed \<noteq> parsed \<or> rest \<noteq> [] \<or> parsed < 0 then None else Some parsed)"

text \<open>The status after the submission; \<open>None\<close> when the monitor never ends.\<close>

definition monitor_events ::
  "'d vici_probe_env \<Rightarrow> en_intent \<Rightarrow> string list \<Rightarrow> ('d vici_device, en_error_code option) act" where
  "monitor_events env intent args =
     (case monitor_duration (args ! 6) of
        None \<Rightarrow> State_Monad.return (Some EN_ERR_INVALID_ARGUMENT)
      | Some duration_ms \<Rightarrow> do {
          status \<leftarrow> en_strongswan_vici_client_monitor_child (vp_write env) (machine_library (vp_library env))
            (args ! 4) (args ! 5) duration_ms (monitor_event (vp_read env) intent);
          case status of
            None \<Rightarrow> State_Monad.return None
          | Some e \<Rightarrow>
              if e \<noteq> EN_ERR_NONE then State_Monad.return (Some EN_ERR_STATE_CONFLICT)
              else do {
                failures \<leftarrow> gets (\<lambda>s. vd_failure_count (dev (world s)));
                State_Monad.return (Some (if failures \<noteq> 0 then EN_ERR_STATE_CONFLICT else EN_ERR_NONE))
              }
        })"

definition probe_controller ::
  "'d vici_probe_env \<Rightarrow> en_intent \<Rightarrow> string list \<Rightarrow> ('d vici_device, en_error_code option) act" where
  "probe_controller env intent args = do {
     (status, result) \<leftarrow> en_controller_submit_intent (Some intent) (Some zero_reconcile_result);
     if status = EN_ERR_NONE \<and> length args = 7 then monitor_events env intent args
     else State_Monad.return (Some status)
   }"

definition on_connections :: "('d, 'a) state \<Rightarrow> ('d vici_device, 'a) world_act" where
  "on_connections m = focused vd_vici put_vici (on_dev m)"

text \<open>With the client open; it is closed whatever happens, unless the monitor never ends.\<close>

definition connected_controller ::
  "'d vici_probe_env \<Rightarrow> en_yaml_config \<Rightarrow> en_intent \<Rightarrow> string list \<Rightarrow> ('d vici_device, int option) world_act" where
  "connected_controller env config intent args =
     (case en_strongswan_vici_bind_client (vp_enabled env) (vp_tunnel_down env) (vp_library env)
         \<lparr>vc_ensure_tunnel = None, vc_remove_tunnel = None, vc_observe_tunnel = None\<rparr> of
        (bound, ctx) \<Rightarrow>
          (case (if bound \<noteq> EN_ERR_NONE then None else case vici_adapters ctx of (ssw, vp, hp) \<Rightarrow>
              create_from_config (vp_memory env) config ssw vp hp) of
             None \<Rightarrow> do {
               _ \<leftarrow> on_connections (en_strongswan_vici_client_close (vp_library env));
               State_Monad.return (Some 1)
             }
           | Some k \<Rightarrow> do {
               status \<leftarrow> State (\<lambda>w. case run_state (probe_controller env intent args) \<lparr>ctl = k, world = w\<rparr> of
                 (status, s) \<Rightarrow> (status, world s));
               case status of
                 None \<Rightarrow> State_Monad.return None
               | Some e \<Rightarrow> do {
                   _ \<leftarrow> on_connections (en_strongswan_vici_client_close (vp_library env));
                   State_Monad.return (Some (if e \<noteq> EN_ERR_NONE then 1 else 0))
                 }
             }))"

text \<open>
  \<open>main\<close> on the arguments after the program's name; the mocks and the counters start empty. \<open>None\<close> when the monitor never
  ends.
\<close>

definition vici_controller_probe :: "'d vici_probe_env \<Rightarrow> string list \<Rightarrow> ('d vici_device, int option) world_act" where
  "vici_controller_probe env args =
     (if length args < 2 \<or> 7 < length args \<or>
         (3 < length args \<and> (length args \<noteq> 7 \<or> strcmp (args ! 3) ''--monitor'' \<noteq> 0))
      then State_Monad.return (Some 2)
      else case en_yaml_config_load_file (vp_files env) (Some (args ! 1)) True 256 of
        Parsed config \<Rightarrow>
          (case find_intent config (if length args = 3 then Some (args ! 2) else None) of
             None \<Rightarrow> State_Monad.return (Some 1)
           | Some intent \<Rightarrow> do {
               err \<leftarrow> on_connections (en_strongswan_vici_client_open (vp_memory env) (vp_library env) (Some (args ! 0)));
               if err \<noteq> EN_ERR_NONE then State_Monad.return (Some 1)
               else do {
                 _ \<leftarrow> modify (\<lambda>w. w\<lparr>dev := (dev w)\<lparr>vd_mocks := zero_mocks, vd_event_count := 0, vd_failure_count := 0\<rparr>\<rparr>);
                 connected_controller env config intent args
               }
             })
      | _ \<Rightarrow> State_Monad.return (Some 1))"

section \<open>The intent of the monitor\<close>

text \<open>
  The usage names an intent before \<open>--monitor\<close>, but with \<open>--monitor\<close> the program does not look at it: it is always the first
  intent of the configuration that is submitted.
\<close>

lemma monitor_ignores_intent:
  "vici_controller_probe env [uri, yaml, intent_id, ''--monitor'', child_id, path_id, duration] =
   vici_controller_probe env [uri, yaml, other_id, ''--monitor'', child_id, path_id, duration]"
proof -
  let ?as = "[uri, yaml, intent_id, ''--monitor'', child_id, path_id, duration]"
  let ?bs = "[uri, yaml, other_id, ''--monitor'', child_id, path_id, duration]"
  have events: "monitor_events env intent ?as = monitor_events env intent ?bs" for intent
    by (simp add: monitor_events_def split: option.split)
  have probe: "probe_controller env intent ?as = probe_controller env intent ?bs" for intent
    unfolding probe_controller_def events list.size ..
  have connected: "connected_controller env config intent ?as = connected_controller env config intent ?bs" for config intent
    unfolding connected_controller_def probe ..
  show ?thesis unfolding vici_controller_probe_def connected by (simp split: outcome.split option.split)
qed

end
