(* ===== verification/ObserverPrograms.thy ===== *)
theory ObserverPrograms
  imports StrongswanObserver VppApiContext ViciAdapter DaemonOptions
begin

text \<open>
  The observers \<open>src/examples/swanctl_observer.c\<close>, \<open>src/examples/vpp_observer.c\<close> and
  \<open>src/examples/vpp_interface_observer.c\<close>: a listing is read from a file or the standard input, parsed, and printed as text
  or as an event line. A program is its exit status and what it prints to the standard output.
\<close>

section \<open>Reading the listing\<close>

text \<open>
  A stream that was opened: its bytes, whether a read fails, and whether it can be positioned; \<open>calloc\<close> succeeds.
\<close>

record listing =
  li_bytes :: string
  li_read_fails :: bool
  li_seeks :: bool

record observer_files =
  ob_stdin :: listing
  ob_fopen :: "string \<Rightarrow> listing option"

definition opened_listing :: "observer_files \<Rightarrow> string \<Rightarrow> listing option" where
  "opened_listing files name = (if strcmp name ''-'' = 0 then Some (ob_stdin files) else ob_fopen files name)"

abbreviation LISTING_LIMIT :: nat where
  "LISTING_LIMIT \<equiv> 1024 * 1024"

text \<open>A C string ends at its first NUL.\<close>

definition c_string :: "string \<Rightarrow> string" where
  "c_string s = takeWhile (\<lambda>c. c \<noteq> CHR 0x00) s"

text \<open>
  The reading of the first two programs: the standard input is cut at the limit, a file beyond it is refused. \<open>None\<close> is a
  failure, also for an empty listing.
\<close>

definition read_listing :: "observer_files \<Rightarrow> string \<Rightarrow> string option" where
  "read_listing files name =
     (case opened_listing files name of
        None \<Rightarrow> None
      | Some l \<Rightarrow>
          if strcmp name ''-'' = 0
          then (if li_read_fails l \<or> li_bytes l = [] then None else Some (c_string (take LISTING_LIMIT (li_bytes l))))
          else if \<not> li_seeks l \<or> LISTING_LIMIT < length (li_bytes l) \<or> li_read_fails l \<or> li_bytes l = [] then None
          else Some (c_string (li_bytes l)))"

text \<open>
  The loop of \<open>read_output\<close>: \<open>rest\<close> is still to be read and \<open>seen\<close> is in the buffer. A full buffer is doubled, unless that
  exceeds the limit. A read that comes short sets the end of the file. The buffer has room after the doubling, so the second
  disjunct never holds.
\<close>

function read_chunks :: "string \<Rightarrow> string \<Rightarrow> nat \<Rightarrow> string option" where
  "read_chunks rest seen capacity =
     (let room = (if capacity \<le> length seen + 1 then capacity * 2 else capacity); n = room - length seen - 1 in
      if LISTING_LIMIT + 1 < room \<or> n = 0 then None
      else if length rest < n then Some (seen @ rest)
      else read_chunks (drop n rest) (seen @ take n rest) room)"
  by pat_completeness auto
termination
  by (relation "measure (\<lambda>(rest, seen, capacity). length rest)") (auto simp: Let_def)

declare read_chunks.simps [simp del]

definition read_output :: "listing \<Rightarrow> string option" where
  "read_output l =
     (if li_read_fails l then None
      else case read_chunks (li_bytes l) [] 4096 of
        None \<Rightarrow> None
      | Some s \<Rightarrow> if s = [] then None else Some (c_string s))"

text \<open>The third program takes a listing of less than 1048575 bytes, one less than its buffer holds.\<close>

lemma read_chunks_full:
  assumes "k \<le> 8" "length seen = 4096 * 2 ^ k - 1"
  shows "read_chunks rest seen (4096 * 2 ^ k) = (if length seen + length rest < LISTING_LIMIT - 1 then Some (seen @ rest) else None)"
  using assms
proof (induction "8 - k" arbitrary: k seen rest)
  case 0
  then have "k = 8" by simp
  with 0 show ?case by (subst read_chunks.simps) (simp add: Let_def)
next
  case (Suc m)
  then have k: "m = 8 - Suc k" "Suc k \<le> 8" by auto
  have "(2::nat) ^ Suc k \<le> 2 ^ 8" using k(2) by (intro power_increasing) simp_all
  then have small: "4096 * 2 ^ k * 2 \<le> (1048576::nat)" by simp
  have pos: "0 < (2::nat) ^ k" by simp
  let ?n = "4096 * 2 ^ k * 2 - length seen - 1"
  have n: "?n = 4096 * 2 ^ k" using Suc.prems pos by simp
  have unfold: "read_chunks rest seen (4096 * 2 ^ k) =
    (if length rest < ?n then Some (seen @ rest) else read_chunks (drop ?n rest) (seen @ take ?n rest) (4096 * 2 ^ k * 2))"
    using small n pos Suc.prems by (subst read_chunks.simps) (simp add: Let_def)
  show ?case
  proof (cases "length rest < ?n")
    case True
    then have "length seen + length rest < LISTING_LIMIT - 1" using n small Suc.prems pos by simp
    with True show ?thesis by (simp add: unfold)
  next
    case False
    have len: "length (seen @ take ?n rest) = 4096 * 2 ^ Suc k - 1" using False n Suc.prems pos by simp
    have "4096 * 2 ^ k * 2 = 4096 * (2::nat) ^ Suc k" by simp
    with Suc.hyps(1) [OF k len, of "drop ?n rest"] False show ?thesis
      unfolding unfold by (simp add: n)
  qed
qed

lemma read_chunks_all: "read_chunks s [] 4096 = (if length s < LISTING_LIMIT - 1 then Some s else None)"
proof (cases "length s < 4095")
  case True
  then show ?thesis by (subst read_chunks.simps) (simp add: Let_def)
next
  case False
  have "read_chunks s [] 4096 = read_chunks (drop 4095 s) (take 4095 s) (4096 * 2 ^ 0)"
    using False by (subst read_chunks.simps) (simp add: Let_def)
  also have "\<dots> = (if length s < LISTING_LIMIT - 1 then Some s else None)"
    using False read_chunks_full [of 0 "take 4095 s" "drop 4095 s"] by simp
  finally show ?thesis .
qed

section \<open>The programs\<close>

text \<open>\<open>seconds\<close> is what \<open>time\<close> returns; the arguments are those after the program's name.\<close>

definition sa_text :: "en_strongswan_sa_observation \<Rightarrow> string" where
  "sa_text obs = unlines [''child_id: '' @ so_child_id obs,
     ''state: '' @ (if so_state obs = EN_TUNNEL_ESTABLISHED then ''established''
       else if so_state obs = EN_TUNNEL_REKEYING then ''rekeying''
       else if so_state obs = EN_TUNNEL_ESTABLISHING then ''establishing''
       else if so_state obs = EN_TUNNEL_DELETING then ''deleting'' else ''failed''),
     ''health: '' @ (if so_health obs = EN_HEALTH_HEALTHY then ''healthy''
       else if so_health obs = EN_HEALTH_DEGRADED then ''degraded''
       else if so_health obs = EN_HEALTH_FAILED then ''failed'' else ''unknown'')]"

text \<open>An event goes to the standard output; a refused one ends the program with status 1.\<close>

definition print_event :: "en_error_code + string \<Rightarrow> int \<times> string" where
  "print_event event = (case event of Inl e \<Rightarrow> (1, []) | Inr s \<Rightarrow> (0, s))"

definition swanctl_observer :: "json_writer \<Rightarrow> observer_files \<Rightarrow> int \<Rightarrow> string list \<Rightarrow> int \<times> string" where
  "swanctl_observer write files seconds args =
     (if length args \<noteq> 2 \<and> length args \<noteq> 4 then (2, [])
      else case read_listing files (args ! 0) of
        None \<Rightarrow> (1, [])
      | Some output \<Rightarrow>
          (case en_strongswan_parse_list_sas output (args ! 1) zero_sa of
             (status, obs, message) \<Rightarrow>
               if status \<noteq> EN_ERR_NONE then (1, [])
               else if length args = 4 then
                 (if strcmp (args ! 2) ''--event'' \<noteq> 0 then (2, [])
                  else print_event (en_strongswan_observation_to_event_json write obs (args ! 3) (seconds * 1000) 512))
               else (0, sa_text obs)))"

definition parse_table_id :: "string \<Rightarrow> int option" where
  "parse_table_id s =
     (if s = [] then None
      else case strtoll10 s of
        None \<Rightarrow> None
      | Some (parsed, rest) \<Rightarrow>
          if saturate64 parsed \<noteq> parsed \<or> rest \<noteq> [] \<or> parsed < 0 \<or> INT_MAX < parsed then None else Some parsed)"

definition yes_no :: "bool \<Rightarrow> string" where
  "yes_no b = (if b then ''yes'' else ''no'')"

definition route_text :: "en_vpp_route_observation \<Rightarrow> string" where
  "route_text obs = unlines [''destination_prefix: '' @ vo_destination_prefix obs, ''present: '' @ yes_no (vo_present obs),
       ''next_hop: '' @ vo_next_hop obs, ''interface: '' @ vo_interface_name obs] @
     (if 0 \<le> vo_table_id obs then unlines [''table_id: '' @ int_to_dec (vo_table_id obs)] else [])"

definition vpp_observer :: "json_writer \<Rightarrow> observer_files \<Rightarrow> int \<Rightarrow> string list \<Rightarrow> int \<times> string" where
  "vpp_observer write files seconds args =
     (if length args \<noteq> 2 \<and> length args \<noteq> 5 \<and> length args \<noteq> 7 then (2, [])
      else case read_listing files (args ! 0) of
        None \<Rightarrow> (1, [])
      | Some output \<Rightarrow>
          (case (if length args = 7 then
                   (if strcmp (args ! 5) ''--table'' \<noteq> 0 then None else parse_table_id (args ! 6)) else Some (-1)) of
             None \<Rightarrow> (2, [])
           | Some table_id \<Rightarrow>
               (case en_vpp_parse_show_ip_fib_in_table output (args ! 1) table_id zero_route_observation of
                  (status, obs, message) \<Rightarrow>
                    if status \<noteq> EN_ERR_NONE then (1, [])
                    else if length args = 5 \<or> length args = 7 then
                      (if strcmp (args ! 2) ''--event'' \<noteq> 0 then (2, [])
                       else print_event (en_vpp_route_observation_to_event_json write obs (args ! 3) (args ! 4) (seconds * 1000) 512))
                    else (0, route_text obs))))"

definition zero_interface_observation :: en_vpp_interface_observation where
  "zero_interface_observation = \<lparr>vi_interface_name = [], vi_present = False, vi_up = False\<rparr>"

definition interface_text :: "en_vpp_interface_observation \<Rightarrow> string" where
  "interface_text obs = unlines [''interface: '' @ vi_interface_name obs, ''present: '' @ yes_no (vi_present obs),
     ''up: '' @ yes_no (vi_up obs)]"

text \<open>In an event, an interface that is not listed is reported as absent.\<close>

definition vpp_interface_observer :: "json_writer \<Rightarrow> observer_files \<Rightarrow> int \<Rightarrow> string list \<Rightarrow> int \<times> string" where
  "vpp_interface_observer write files seconds args =
     (if length args \<noteq> 2 \<and> length args \<noteq> 4 then (2, [])
      else case Option.bind (opened_listing files (args ! 0)) read_output of
        None \<Rightarrow> (1, [])
      | Some output \<Rightarrow>
          (case en_vpp_parse_show_interface output (args ! 1) zero_interface_observation of
             (status, seen, message) \<Rightarrow>
               let absent = (status = EN_ERR_NOT_FOUND \<and> length args = 4);
                   obs = (if absent then zero_interface_observation\<lparr>vi_interface_name := fit EN_MAX_ID_LEN (args ! 1)\<rparr> else seen)
               in if \<not> absent \<and> status \<noteq> EN_ERR_NONE then (1, [])
                  else if length args = 4 then
                    (if strcmp (args ! 2) ''--event'' \<noteq> 0 then (2, [])
                     else print_event (en_vpp_interface_observation_to_event_json write obs (args ! 3) (seconds * 1000) 512))
                  else (0, interface_text obs)))"

section \<open>What they report\<close>

text \<open>
  The strongSwan observer reports on a child exactly what the parser reads from the bytes of the listing: with status 0 the
  event line is the event of that observation.
\<close>

lemma swanctl_observer_event:
  assumes "swanctl_observer write files seconds [name, child, ''--event'', path_id] = (0, event)"
  shows "\<exists>output obs m. read_listing files name = Some output \<and>
    en_strongswan_parse_list_sas output child zero_sa = (EN_ERR_NONE, obs, m) \<and>
    en_strongswan_observation_to_event_json write obs path_id (seconds * 1000) 512 = Inr event"
  using assms
  by (auto simp: swanctl_observer_def print_event_def split: option.splits prod.splits sum.splits if_splits)

text \<open>
  A longer listing than a mebibyte is refused when it comes from a file, and cut when it comes from the standard input: the
  child can be in what is cut.
\<close>

lemma long_listings:
  assumes "LISTING_LIMIT < length (li_bytes l)" "\<not> li_read_fails l"
  shows "name \<noteq> ''-'' \<Longrightarrow> ob_fopen files name = Some l \<Longrightarrow> read_listing files name = None"
    "ob_stdin files = l \<Longrightarrow> read_listing files ''-'' = Some (c_string (take LISTING_LIMIT (li_bytes l)))"
  using assms by (auto simp: read_listing_def opened_listing_def)

text \<open>An interface that the listing does not have is an event of absence, which is no error.\<close>

lemma absent_interface_event:
  assumes "opened_listing files name = Some l" "read_output l = Some output"
    "en_vpp_parse_show_interface output interface zero_interface_observation = (EN_ERR_NOT_FOUND, seen, m)"
  shows "vpp_interface_observer write files seconds [name, interface, ''--event'', path_id] =
    print_event (en_vpp_interface_observation_to_event_json write
      (zero_interface_observation\<lparr>vi_interface_name := fit EN_MAX_ID_LEN interface\<rparr>) path_id (seconds * 1000) 512)"
  using assms by (simp add: vpp_interface_observer_def Let_def)

end
