(* ===== verification/YamlDemo.thy ===== *)
theory YamlDemo
  imports Protocol ControllerDemo PlanFiles NetnsPlan DaemonOptions DaemonRestart
begin

text \<open>
  The planner \<open>src/examples/yaml_demo.c\<close>: the intents of a configuration are submitted to a controller on the mocks; for
  each selected path an apply plan is built, written, and run when asked. What the program prints is not modelled.
  \<open>find_path\<close> is the same function as in the netns planner, and \<open>create_from_config\<close> is the call that creates the controller.
\<close>

section \<open>Options\<close>

record yaml_demo_options =
  yd_filename :: string
  yd_conf_filename :: string
  yd_script_filename :: "string option"
  yd_intent_filter :: "string option"
  yd_dry_run :: bool
  yd_validate_only :: bool
  yd_check_cert_files :: bool
  yd_check_cert_validity :: int

definition demo_defaults :: yaml_demo_options where
  "demo_defaults = \<lparr>yd_filename = ''samples/ipsec-routes.yaml'', yd_conf_filename = ''eventnet-swanctl.conf'',
     yd_script_filename = None, yd_intent_filter = None, yd_dry_run = True, yd_validate_only = False,
     yd_check_cert_files = False, yd_check_cert_validity = -1\<rparr>"

definition parse_nonnegative_seconds :: "string \<Rightarrow> int option" where
  "parse_nonnegative_seconds s =
     (if s = [] then None
      else case strtoll10 s of
        None \<Rightarrow> None
      | Some (parsed, rest) \<Rightarrow> if saturate64 parsed \<noteq> parsed \<or> rest \<noteq> [] \<or> parsed < 0 then None else Some parsed)"

text \<open>The loop over the arguments: an exit status, or the options.\<close>

fun demo_arguments :: "yaml_demo_options \<Rightarrow> string list \<Rightarrow> int + yaml_demo_options" where
  "demo_arguments opts [] = Inr opts"
| "demo_arguments opts (a # rest) =
     (if strcmp a ''--apply'' = 0 then demo_arguments (opts\<lparr>yd_dry_run := False\<rparr>) rest
      else if strcmp a ''--validate-only'' = 0 then demo_arguments (opts\<lparr>yd_validate_only := True\<rparr>) rest
      else if strcmp a ''--dry-run'' = 0 then demo_arguments (opts\<lparr>yd_dry_run := True\<rparr>) rest
      else if strcmp a ''--conf'' = 0 \<and> rest \<noteq> [] then demo_arguments (opts\<lparr>yd_conf_filename := hd rest\<rparr>) (tl rest)
      else if strcmp a ''--emit-script'' = 0 \<and> rest \<noteq> [] then
        demo_arguments (opts\<lparr>yd_script_filename := Some (hd rest)\<rparr>) (tl rest)
      else if strcmp a ''--check-cert-files'' = 0 then demo_arguments (opts\<lparr>yd_check_cert_files := True\<rparr>) rest
      else if strcmp a ''--check-cert-validity'' = 0 \<and> rest \<noteq> [] then
        (case parse_nonnegative_seconds (hd rest) of
           None \<Rightarrow> Inl 2
         | Some seconds \<Rightarrow> demo_arguments (opts\<lparr>yd_check_cert_validity := seconds\<rparr>) (tl rest))
      else if strcmp a ''--intent'' = 0 \<and> rest \<noteq> [] then
        demo_arguments (opts\<lparr>yd_intent_filter := Some (hd rest)\<rparr>) (tl rest)
      else if strcmp a ''--help'' = 0 \<or> strcmp a ''-h'' = 0 then Inl 0
      else demo_arguments (opts\<lparr>yd_filename := a\<rparr>) rest)"

section \<open>The world of the program\<close>

text \<open>
  \<open>ye_readable\<close> is \<open>access\<close> for reading, \<open>ye_popen\<close> a command of the shell that is read to its end, with the status of
  \<open>pclose\<close>, \<open>None\<close> when it cannot be started. \<open>ye_execute\<close> is how the plan runs a program.
\<close>

record 'h demo_env =
  ye_memory :: bool
  ye_files :: "string \<Rightarrow> (string \<times> bool) option"
  ye_world :: "mocks world"
  ye_readable :: "string \<Rightarrow> bool"
  ye_popen :: "string \<Rightarrow> ('h, int option) state"
  ye_execute :: "string list \<Rightarrow> ('h, int) state"
  ye_pid :: int

record 'h demo =
  yo_machine :: "mocks machine"
  yo_disk :: disk
  yo_host :: 'h

definition on_demo_disk :: "(disk, 'a) state \<Rightarrow> ('h demo, 'a) state" where
  "on_demo_disk m = State (\<lambda>s. case run_state m (yo_disk s) of (a, d) \<Rightarrow> (a, s\<lparr>yo_disk := d\<rparr>))"

definition on_demo_host :: "('h, 'a) state \<Rightarrow> ('h demo, 'a) state" where
  "on_demo_host m = State (\<lambda>s. case run_state m (yo_host s) of (a, h) \<Rightarrow> (a, s\<lparr>yo_host := h\<rparr>))"

definition on_demo_machine :: "(mocks machine, 'a) state \<Rightarrow> ('h demo, 'a) state" where
  "on_demo_machine m = State (\<lambda>s. case run_state m (yo_machine s) of (a, k) \<Rightarrow> (a, s\<lparr>yo_machine := k\<rparr>))"

section \<open>Certificates\<close>

text \<open>The command is cut to its buffer of 128 bytes.\<close>

definition openssl_command :: "string \<Rightarrow> int \<Rightarrow> string" where
  "openssl_command cert seconds = fit (EN_MAX_ID_LEN * 2)
     (''openssl x509 -in '' @ [CHR 0x27] @ cert @ [CHR 0x27] @ '' -noout -checkend '' @ int_to_dec seconds @ '' 2>/dev/null'')"

definition certificate_valid :: "'h demo_env \<Rightarrow> int \<Rightarrow> string \<Rightarrow> ('h, bool) state" where
  "certificate_valid env seconds cert = do {
     status \<leftarrow> ye_popen env (openssl_command cert seconds);
     State_Monad.return (status = Some 0)
   }"

definition check_certificates :: "'h demo_env \<Rightarrow> yaml_demo_options \<Rightarrow> en_tunnel \<Rightarrow> ('h, bool) state" where
  "check_certificates env opts t =
     (if strcmp (tn_auth_method t) ''pubkey'' \<noteq> 0 then State_Monad.return True
      else if yd_check_cert_files opts \<and> \<not> ye_readable env (tn_local_cert t) then State_Monad.return False
      else if yd_check_cert_files opts \<and> tn_remote_cacerts t \<noteq> [] \<and> \<not> ye_readable env (tn_remote_cacerts t)
      then State_Monad.return False
      else if yd_check_cert_validity opts < 0 then State_Monad.return True
      else do {
        valid \<leftarrow> certificate_valid env (yd_check_cert_validity opts) (tn_local_cert t);
        if \<not> valid then State_Monad.return False
        else if tn_remote_cacerts t \<noteq> [] then certificate_valid env (yd_check_cert_validity opts) (tn_remote_cacerts t)
        else State_Monad.return True
      })"

primrec check_tunnels :: "'h demo_env \<Rightarrow> yaml_demo_options \<Rightarrow> en_tunnel list \<Rightarrow> ('h, bool) state" where
  "check_tunnels env opts [] = State_Monad.return True"
| "check_tunnels env opts (t # ts) = do {
     valid \<leftarrow> check_certificates env opts t;
     if valid then check_tunnels env opts ts else State_Monad.return False
   }"

section \<open>The intents\<close>

definition intent_chosen :: "yaml_demo_options \<Rightarrow> en_intent \<Rightarrow> bool" where
  "intent_chosen opts intent \<longleftrightarrow>
     (case yd_intent_filter opts of None \<Rightarrow> True | Some f \<Rightarrow> strcmp (it_intent_id intent) f = 0)"

text \<open>The plan is written, and run when this is no dry run: whether all of it succeeded.\<close>

definition carry_out :: "'h demo_env \<Rightarrow> yaml_demo_options \<Rightarrow> en_apply_plan \<Rightarrow> ('h demo, bool) state" where
  "carry_out env opts plan = do {
     conf \<leftarrow> on_demo_disk (en_apply_plan_write_swanctl_conf (ye_pid env) plan (yd_conf_filename opts));
     if conf \<noteq> EN_ERR_NONE then State_Monad.return False
     else do {
       script \<leftarrow> (case yd_script_filename opts of
         None \<Rightarrow> State_Monad.return EN_ERR_NONE
       | Some name \<Rightarrow> on_demo_disk (en_apply_plan_write_shell_script plan name));
       if script \<noteq> EN_ERR_NONE then State_Monad.return False
       else if yd_dry_run opts then State_Monad.return True
       else do {
         run \<leftarrow> on_demo_host (en_apply_plan_run (ye_execute env) plan False);
         State_Monad.return (run = EN_ERR_NONE)
       }
     }
   }"

text \<open>A selected path that the configuration does not have is passed on as \<open>NULL\<close>, which the plan refuses.\<close>

definition demo_intent :: "'h demo_env \<Rightarrow> yaml_demo_options \<Rightarrow> en_yaml_config \<Rightarrow> en_intent \<Rightarrow> ('h demo, bool) state" where
  "demo_intent env opts config intent = do {
     submitted \<leftarrow> on_demo_machine (en_controller_submit_intent (Some intent) (Some zero_reconcile_result));
     case submitted of
       (EN_ERR_NONE, Some result) \<Rightarrow>
         (case find_path config (rr_selected_path result) of
            None \<Rightarrow> State_Monad.return False
          | Some path \<Rightarrow>
              (case en_apply_plan_from_config_with_file config intent path (yd_conf_filename opts) of
                 Inl e \<Rightarrow> State_Monad.return False
               | Inr plan \<Rightarrow> carry_out env opts plan))
     | _ \<Rightarrow> State_Monad.return False
   }"

text \<open>\<open>None\<close> is a failure; otherwise whether an intent matched.\<close>

primrec demo_intents ::
  "'h demo_env \<Rightarrow> yaml_demo_options \<Rightarrow> en_yaml_config \<Rightarrow> bool \<Rightarrow> en_intent list \<Rightarrow> ('h demo, bool option) state" where
  "demo_intents env opts config matched [] = State_Monad.return (Some matched)"
| "demo_intents env opts config matched (i # is) =
     (if \<not> intent_chosen opts i then demo_intents env opts config matched is
      else do {
        carried_out \<leftarrow> demo_intent env opts config i;
        if carried_out then demo_intents env opts config True is else State_Monad.return None
      })"

section \<open>The process\<close>

definition run_demo :: "'h demo_env \<Rightarrow> yaml_demo_options \<Rightarrow> en_yaml_config \<Rightarrow> ('h demo, int) state" where
  "run_demo env opts config = do {
     valid \<leftarrow> (if yd_check_cert_files opts \<or> 0 \<le> yd_check_cert_validity opts
       then on_demo_host (check_tunnels env opts (yc_tunnels config)) else State_Monad.return True);
     if \<not> valid then State_Monad.return 1
     else case create_from_config (ye_memory env) config en_strongswan_mock_adapter en_vpp_mock_adapter
         en_health_probe_mock_adapter of
       None \<Rightarrow> State_Monad.return 1
     | Some k \<Rightarrow> do {
         _ \<leftarrow> modify (\<lambda>s. s\<lparr>yo_machine := \<lparr>ctl = k, world = (ye_world env)\<lparr>dev := zero_mocks\<rparr>\<rparr>\<rparr>);
         matched \<leftarrow> demo_intents env opts config False (yc_intents config);
         State_Monad.return (if matched = Some True then 0 else 1)
       }
   }"

text \<open>\<open>main\<close> on the arguments after the program's name.\<close>

definition yaml_demo :: "'h demo_env \<Rightarrow> string list \<Rightarrow> ('h demo, int) state" where
  "yaml_demo env args =
     (case demo_arguments demo_defaults args of
        Inl status \<Rightarrow> State_Monad.return status
      | Inr opts \<Rightarrow>
          (case en_yaml_config_load_file (ye_files env) (Some (yd_filename opts)) True 256 of
             Parsed config \<Rightarrow> if yd_validate_only opts then State_Monad.return 0 else run_demo env opts config
           | _ \<Rightarrow> State_Monad.return 1))"

end
