(* ===== verification/YamlDemoOutcome.thy ===== *)
theory YamlDemoOutcome
  imports YamlDemo
begin

text \<open>What the planner \<open>yaml_demo\<close> writes and runs, and what its exit status means.\<close>

section \<open>A dry run\<close>

lemma run_on_demo:
  "run_state (on_demo_disk m) s = (case run_state m (yo_disk s) of (a, d) \<Rightarrow> (a, s\<lparr>yo_disk := d\<rparr>))"
  "run_state (on_demo_host n) s = (case run_state n (yo_host s) of (b, h) \<Rightarrow> (b, s\<lparr>yo_host := h\<rparr>))"
  "run_state (on_demo_machine k) s = (case run_state k (yo_machine s) of (c, t) \<Rightarrow> (c, s\<lparr>yo_machine := t\<rparr>))"
  by (simp_all add: on_demo_disk_def on_demo_host_def on_demo_machine_def)

definition host_is :: "'h \<Rightarrow> 'h demo \<Rightarrow> bool" where
  "host_is h s \<longleftrightarrow> yo_host s = h"

lemma host_kept [wp]:
  "preserves (host_is h) (on_demo_disk m)"
  "preserves (host_is h) (on_demo_machine k)"
  by (rule preservesI; auto simp: run_on_demo host_is_def split: prod.splits)+

lemma certificates_kept:
  "yd_check_cert_validity opts < 0 \<Longrightarrow> run_state (check_tunnels env opts ts) h = (b, h') \<Longrightarrow> h' = h"
  by (induction ts arbitrary: b) (auto simp: check_certificates_def split: prod.splits if_splits)

lemma check_kept:
  assumes "yd_check_cert_validity opts < 0"
  shows "preserves (host_is h) (on_demo_host (check_tunnels env opts ts))"
proof (rule preservesI, goal_cases)
  case (1 s b t)
  obtain h' where "run_state (check_tunnels env opts ts) (yo_host s) = (b, h')" "t = s\<lparr>yo_host := h'\<rparr>"
    using 1(2) by (auto simp: run_on_demo split: prod.splits)
  with certificates_kept [OF assms this(1)] 1(1) show ?case by (simp add: host_is_def)
qed

lemma carry_out_kept: "yd_dry_run opts \<Longrightarrow> preserves (host_is h) (carry_out env opts plan)"
  unfolding carry_out_def by (auto intro!: wp)

lemma demo_intent_kept: "yd_dry_run opts \<Longrightarrow> preserves (host_is h) (demo_intent env opts config intent)"
  unfolding demo_intent_def by (intro wp) (auto intro!: wp carry_out_kept split: en_error_code.splits option.splits sum.splits)

lemma demo_intents_kept: "yd_dry_run opts \<Longrightarrow> preserves (host_is h) (demo_intents env opts config matched is)"
  by (induction "is" arbitrary: matched) (auto intro!: wp demo_intent_kept)

text \<open>
  Without \<open>--apply\<close>, and without a check of the validity of certificates, the program runs no other program,
  whatever its other arguments and the configuration are.
\<close>

theorem dry_run_runs_nothing:
  assumes "demo_arguments demo_defaults args = Inr opts" "yd_dry_run opts" "yd_check_cert_validity opts < 0"
  shows "yo_host (snd (run_state (yaml_demo env args) s)) = yo_host s"
proof -
  have run: "yo_host (snd (run_state (run_demo env opts config) s)) = yo_host s" for config
  proof -
    have "preserves (host_is (yo_host s)) (run_demo env opts config)"
      unfolding run_demo_def
      by (intro wp demo_intents_kept [OF assms(2)] check_kept [OF assms(3)]) (simp add: host_is_def)
    from preservesD [OF this, of s] show ?thesis by (metis host_is_def prod.collapse)
  qed
  then show ?thesis by (auto simp: yaml_demo_def assms(1) split: outcome.splits)
qed

section \<open>Success\<close>

text \<open>The host is observed through the log of the programs a plan executed; \<open>openssl\<close> is no part of it.\<close>

definition recording :: "'w demo_env \<Rightarrow> ('w \<times> (string list \<times> bool) list) demo_env" where
  "recording env = \<lparr>ye_memory = ye_memory env, ye_files = ye_files env, ye_world = ye_world env,
     ye_readable = ye_readable env, ye_popen = (\<lambda>c. unlogged (ye_popen env c)), ye_execute = record_exec (ye_execute env),
     ye_pid = ye_pid env\<rparr>"

text \<open>The plan of an intent is that of a path of the configuration that the intent names.\<close>

definition plans_intent :: "yaml_demo_options \<Rightarrow> en_yaml_config \<Rightarrow> en_intent \<Rightarrow> en_apply_plan \<Rightarrow> bool" where
  "plans_intent opts config intent plan \<longleftrightarrow> (\<exists>path\<in>set (yc_paths config).
     en_apply_plan_from_config_with_file config intent path (yd_conf_filename opts) = Inr plan \<and>
     intent_references_path intent (pt_path_id path))"

definition conf_written :: "yaml_demo_options \<Rightarrow> en_apply_plan \<Rightarrow> disk \<Rightarrow> bool" where
  "conf_written opts plan d \<longleftrightarrow> dk_files d (yd_conf_filename opts) =
     Some \<lparr>df_kind = REGULAR, df_shared = False, df_content = pl_swanctl_conf plan\<rparr>"

definition plan_calls :: "yaml_demo_options \<Rightarrow> en_apply_plan \<Rightarrow> (string list \<times> bool) list" where
  "plan_calls opts plan = (if yd_dry_run opts then [] else succeeded (pl_commands plan))"

lemma write_text_frame: "run_state (write_text name content) d = (b, d') \<Longrightarrow> n \<noteq> name \<Longrightarrow> dk_files d' n = dk_files d n"
  by (auto simp: write_text_def fault_def set_file_def split: if_splits option.splits prod.splits)

lemma script_frame:
  "run_state (en_apply_plan_write_shell_script plan name) d = (e, d') \<Longrightarrow> n \<noteq> name \<Longrightarrow> dk_files d' n = dk_files d n"
  by (auto simp: en_apply_plan_write_shell_script_def split: option.splits prod.splits dest: write_text_frame)

lemma carry_out_success:
  assumes "run_state (carry_out (recording env) opts plan) s = (True, t)" "plan_ok plan"
    and "yd_script_filename opts \<noteq> Some (yd_conf_filename opts)"
  shows "yo_machine t = yo_machine s \<and> conf_written opts plan (yo_disk t) \<and>
    snd (yo_host t) = snd (yo_host s) @ plan_calls opts plan"
proof -
  obtain d where conf: "run_state (en_apply_plan_write_swanctl_conf (ye_pid env) plan (yd_conf_filename opts)) (yo_disk s) = (EN_ERR_NONE, d)"
    using assms(1) by (auto simp: carry_out_def run_on_demo recording_def split: prod.splits if_splits)
  have written: "conf_written opts plan d" using swanctl_conf_replaced(1) [OF conf] by (simp add: conf_written_def)
  let ?script = "case yd_script_filename opts of None \<Rightarrow> State_Monad.return EN_ERR_NONE
    | Some name \<Rightarrow> on_demo_disk (en_apply_plan_write_shell_script plan name)"
  obtain u where script: "run_state ?script (s\<lparr>yo_disk := d\<rparr>) = (EN_ERR_NONE, u)"
    and rest: "(if yd_dry_run opts then (True, u) else case run_state (en_apply_plan_run (record_exec (ye_execute env)) plan False) (yo_host u) of
      (e, h) \<Rightarrow> (e = EN_ERR_NONE, u\<lparr>yo_host := h\<rparr>)) = (True, t)"
    using assms(1) conf by (auto simp: carry_out_def run_on_demo recording_def split: prod.splits if_splits)
  have u: "yo_machine u = yo_machine s" "yo_host u = yo_host s" "conf_written opts plan (yo_disk u)"
    using script written assms(3) script_frame
    by (auto simp: run_on_demo conf_written_def split: option.splits prod.splits)
  show ?thesis
  proof (cases "yd_dry_run opts")
    case True
    with rest u show ?thesis by (simp add: plan_calls_def)
  next
    case False
    with rest obtain w w' l l' where run: "run_state (en_apply_plan_run (record_exec (ye_execute env)) plan False) (w, l) = (EN_ERR_NONE, (w', l'))"
      and t: "yo_host u = (w, l)" "t = u\<lparr>yo_host := (w', l')\<rparr>"
      by (cases "yo_host u") (auto split: prod.splits)
    have "run_state (run_commands (record_exec (ye_execute env)) plan False [] (pl_commands plan)) (w, l) = (EN_ERR_NONE, (w', l'))"
      using run assms(2) by (simp add: en_apply_plan_run_def plan_ok_def)
    from run_commands_log [OF assms(2) _ _ this] have "l' = l @ succeeded (pl_commands plan)" by (auto simp: run_log_def)
    with u t(2) False show ?thesis by (simp add: plan_calls_def t(1) flip: u(2))
  qed
qed

text \<open>What the intents need: a loaded configuration, a file name the plan accepts, and no script in its place.\<close>

definition demo_ready :: "yaml_demo_options \<Rightarrow> en_yaml_config \<Rightarrow> bool" where
  "demo_ready opts config \<longleftrightarrow> well_formed_config config \<and> (\<forall>path\<in>set (yc_paths config). list_all wf_route (pt_routes path)) \<and>
     valid_command_token (yd_conf_filename opts) \<and> yd_script_filename opts \<noteq> Some (yd_conf_filename opts)"

lemma certificates_unlogged:
  "preserves (\<lambda>h. snd h = l) (check_tunnels (recording env) opts ts)"
proof (induction ts)
  case (Cons t ts)
  have "preserves (\<lambda>h. snd h = l) (certificate_valid (recording env) seconds cert)" for seconds cert
    unfolding certificate_valid_def
    by (intro wp) (auto intro!: preservesI simp: recording_def unlogged_def split: prod.splits)
  with Cons show ?case by (auto intro!: wp simp: check_certificates_def)
qed (simp add: preserves_return)

lemma demo_intent_success:
  assumes run: "run_state (demo_intent (recording env) opts config intent) s = (True, t)"
    and ready: "demo_ready opts config" and s: "configured config (st (yo_machine s))"
  shows "\<exists>plan. plans_intent opts config intent plan \<and> conf_written opts plan (yo_disk t) \<and>
    snd (yo_host t) = snd (yo_host s) @ plan_calls opts plan \<and> configured config (st (yo_machine t))"
proof -
  obtain r m where sub: "run_state (en_controller_submit_intent (Some intent) (Some zero_reconcile_result)) (yo_machine s) =
      ((EN_ERR_NONE, Some r), m)"
    and rest: "run_state (case find_path config (rr_selected_path r) of None \<Rightarrow> State_Monad.return False
      | Some path \<Rightarrow> (case en_apply_plan_from_config_with_file config intent path (yd_conf_filename opts) of
          Inl e \<Rightarrow> State_Monad.return False | Inr plan \<Rightarrow> carry_out (recording env) opts plan)) (s\<lparr>yo_machine := m\<rparr>) = (True, t)"
    using run by (auto simp: demo_intent_def run_on_demo split: prod.splits en_error_code.splits option.splits)
  obtain path plan where path: "find_path config (rr_selected_path r) = Some path"
    and plan: "en_apply_plan_from_config_with_file config intent path (yd_conf_filename opts) = Inr plan"
    and out: "run_state (carry_out (recording env) opts plan) (s\<lparr>yo_machine := m\<rparr>) = (True, t)"
    using rest by (auto split: option.splits sum.splits)
  have mem: "path \<in> set (yc_paths config)" "pt_path_id path = rr_selected_path r"
    using path by (auto simp: find_path_def dest: find_Some_mem)
  have wf: "wf_state (st (yo_machine s))" using s by (simp add: configured_def)
  have ready': "well_formed_config config" "valid_command_token (yd_conf_filename opts)" "\<forall>r\<in>set (pt_routes path). wf_route r"
    "yd_script_filename opts \<noteq> Some (yd_conf_filename opts)"
    using ready mem(1) by (auto simp: demo_ready_def list_all_iff)
  have "rr_selected_path r \<noteq> []" using path_id_valid(3) [OF ready'(1)] mem by (metis imageI)
  moreover have "rr_selected_path r \<in> set (ps_candidates (it_path_selection intent)) \<or>
    (ps_mode (it_path_selection intent) = EN_SELECT_EXPLICIT \<and> rr_selected_path r = ps_path_id (it_path_selection intent))"
    using submission_reports [OF wf sub] by (simp add: reports_def)
  ultimately have "intent_references_path intent (pt_path_id path)" using named_referenced mem(2) by metis
  with mem plan have plans: "plans_intent opts config intent plan" by (auto simp: plans_intent_def)
  have "configured config (st m)"
    using preservesD [OF submit_configured.submit_kept _ sub] s by simp
  moreover have "plan_ok plan" by (rule plan_executable [OF plan ready'(2,3)])
  ultimately show ?thesis using carry_out_success [OF out _ ready'(4)] plans by (intro exI [of _ plan]) simp
qed

lemma demo_intents_success:
  assumes "run_state (demo_intents (recording env) opts config matched is) s = (Some b, t)"
    and "demo_ready opts config" "configured config (st (yo_machine s))"
  shows "\<exists>plans. list_all2 (plans_intent opts config) (filter (intent_chosen opts) is) plans \<and>
    (b \<longleftrightarrow> matched \<or> plans \<noteq> []) \<and> (plans \<noteq> [] \<longrightarrow> conf_written opts (last plans) (yo_disk t)) \<and>
    snd (yo_host t) = snd (yo_host s) @ concat (map (plan_calls opts) plans)"
  using assms(1,3)
proof (induction "is" arbitrary: matched s)
  case Nil
  then show ?case by simp
next
  case (Cons i "is")
  show ?case
  proof (cases "intent_chosen opts i")
    case False
    with Cons show ?thesis by simp
  next
    case True
    with Cons.prems(1) obtain u where u: "run_state (demo_intent (recording env) opts config i) s = (True, u)"
      and rest: "run_state (demo_intents (recording env) opts config True is) u = (Some b, t)"
      by (auto split: prod.splits if_splits)
    obtain plan where plan: "plans_intent opts config i plan" "conf_written opts plan (yo_disk u)"
      "snd (yo_host u) = snd (yo_host s) @ plan_calls opts plan" "configured config (st (yo_machine u))"
      using demo_intent_success [OF u assms(2) Cons.prems(2)] by blast
    obtain plans where plans: "list_all2 (plans_intent opts config) (filter (intent_chosen opts) is) plans"
      "b \<longleftrightarrow> True \<or> plans \<noteq> []" "plans \<noteq> [] \<longrightarrow> conf_written opts (last plans) (yo_disk t)"
      "snd (yo_host t) = snd (yo_host u) @ concat (map (plan_calls opts) plans)"
      using Cons.IH [OF rest plan(4)] by blast
    have "conf_written opts (last (plan # plans)) (yo_disk t)"
    proof (cases "plans = []")
      case True
      then have "filter (intent_chosen opts) is = []" using plans(1) by simp
      then have "yo_disk t = yo_disk u" using rest
      proof (induction "is")
        case (Cons a "is")
        then show ?case by (simp split: if_splits)
      qed simp
      with True plan(2) show ?thesis by simp
    qed (use plans(3) in simp)
    with True plan plans show ?thesis by (intro exI [of _ "plan # plans"]) simp
  qed
qed

text \<open>
  The rest of a run that is more than a validation: every chosen intent is planned, written and, unless this is a dry run,
  carried out.
\<close>

lemma run_demo_success:
  assumes config: "en_yaml_config_load_file (ye_files env) (Some (yd_filename opts)) True 256 = Parsed config"
    and run: "run_state (run_demo (recording env) opts config) s = (0, t)"
    and names: "valid_command_token (yd_conf_filename opts)" "yd_script_filename opts \<noteq> Some (yd_conf_filename opts)"
    and routes: "\<forall>path\<in>set (yc_paths config). list_all wf_route (pt_routes path)"
  shows "\<exists>plans. list_all2 (plans_intent opts config) (filter (intent_chosen opts) (yc_intents config)) plans \<and> plans \<noteq> [] \<and>
    conf_written opts (last plans) (yo_disk t) \<and>
    snd (yo_host t) = snd (yo_host s) @ concat (map (plan_calls opts) plans)"
proof -
  let ?checks = "if yd_check_cert_files opts \<or> 0 \<le> yd_check_cert_validity opts
    then on_demo_host (check_tunnels (recording env) opts (yc_tunnels config)) else State_Monad.return True"
  have ready: "demo_ready opts config"
    using loaded_wf [OF config] names routes by (simp add: demo_ready_def)
  obtain u k where checks: "run_state ?checks s = (True, u)"
    and k: "create_from_config (ye_memory (recording env)) config en_strongswan_mock_adapter en_vpp_mock_adapter en_health_probe_mock_adapter = Some k"
    and intents: "run_state (demo_intents (recording env) opts config False (yc_intents config))
      (u\<lparr>yo_machine := \<lparr>ctl = k, world = (ye_world (recording env))\<lparr>dev := zero_mocks\<rparr>\<rparr>\<rparr>) = (Some True, t)"
    using run by (auto simp: run_demo_def split: prod.splits option.splits if_splits)
  have "configured config (st (yo_machine (u\<lparr>yo_machine := \<lparr>ctl = k, world = (ye_world (recording env))\<lparr>dev := zero_mocks\<rparr>\<rparr>\<rparr>)))"
    using create_fresh [OF k] fresh_configured [OF loaded_wf [OF config]] by (simp add: st_def)
  from demo_intents_success [OF intents ready this] obtain plans where
    plans: "list_all2 (plans_intent opts config) (filter (intent_chosen opts) (yc_intents config)) plans" "plans \<noteq> []"
      "conf_written opts (last plans) (yo_disk t)" "snd (yo_host t) = snd (yo_host u) @ concat (map (plan_calls opts) plans)"
    by auto
  have "snd (yo_host u) = snd (yo_host s)"
  proof (cases "yd_check_cert_files opts \<or> 0 \<le> yd_check_cert_validity opts")
    case True
    then obtain h where "run_state (check_tunnels (recording env) opts (yc_tunnels config)) (yo_host s) = (True, h)"
      "u = s\<lparr>yo_host := h\<rparr>" using checks by (auto simp: run_on_demo split: prod.splits)
    with preservesD [OF certificates_unlogged refl] show ?thesis by simp
  qed (use checks in auto)
  with plans show ?thesis by auto
qed

text \<open>
  C38. When the demo planner ends with status 0 on accepted arguments, the configuration was loaded. With \<open>--validate-only\<close>
  nothing else has happened. Otherwise it has planned every chosen intent, at least one, in their order, each over a path of the
  configuration that the intent names; the configuration of strongSwan is that of the last plan, and, unless this was a dry
  run, exactly the commands of all plans were run, in order, and all succeeded. The file of strongSwan has to have a name that
  a command can carry as a word and may not be the file of the script; the numbers of the routes are \<open>int\<close>s of C.
\<close>

theorem yaml_demo_success_means:
  assumes "run_state (yaml_demo (recording env) args) s = (0, t)" "demo_arguments demo_defaults args = Inr opts"
    and "valid_command_token (yd_conf_filename opts)" "yd_script_filename opts \<noteq> Some (yd_conf_filename opts)"
    and "\<And>config. en_yaml_config_load_file (ye_files env) (Some (yd_filename opts)) True 256 = Parsed config \<Longrightarrow>
      \<forall>path\<in>set (yc_paths config). list_all wf_route (pt_routes path)"
  shows "\<exists>config. en_yaml_config_load_file (ye_files env) (Some (yd_filename opts)) True 256 = Parsed config \<and>
    (if yd_validate_only opts then t = s
     else \<exists>plans. list_all2 (plans_intent opts config) (filter (intent_chosen opts) (yc_intents config)) plans \<and> plans \<noteq> [] \<and>
       conf_written opts (last plans) (yo_disk t) \<and>
       snd (yo_host t) = snd (yo_host s) @ concat (map (plan_calls opts) plans))"
proof -
  have files: "ye_files (recording env) = ye_files env" by (simp add: recording_def)
  obtain config where config: "en_yaml_config_load_file (ye_files env) (Some (yd_filename opts)) True 256 = Parsed config"
    and run: "if yd_validate_only opts then t = s else run_state (run_demo (recording env) opts config) s = (0, t)"
    using assms(1,2) by (auto simp: yaml_demo_def files split: outcome.splits if_splits)
  show ?thesis
  proof (cases "yd_validate_only opts")
    case True
    with config run show ?thesis by simp
  next
    case False
    with run have "run_state (run_demo (recording env) opts config) s = (0, t)" by simp
    from run_demo_success [OF config this assms(3,4) assms(5) [OF config]] config False show ?thesis by auto
  qed
qed

section \<open>Witnesses\<close>

text \<open>One run that plans the intent of the sample configuration, and one that is a dry run.\<close>

definition sample_demo_env :: "unit demo_env" where
  "sample_demo_env = \<lparr>ye_memory = True, ye_files = sample_fopen, ye_world = sample_world zero_mocks, ye_readable = (\<lambda>_. True),
     ye_popen = (\<lambda>_. State_Monad.return (Some 0)), ye_execute = (\<lambda>_. State_Monad.return 0), ye_pid = 7\<rparr>"

definition sample_demo_start :: "(unit \<times> (string list \<times> bool) list) demo" where
  "sample_demo_start = \<lparr>yo_machine = start_on en_vpp_mock_adapter en_health_probe_mock_adapter zero_mocks,
     yo_disk = empty_disk, yo_host = ((), [])\<rparr>"

definition sample_demo_opts :: yaml_demo_options where
  "sample_demo_opts = demo_defaults\<lparr>yd_filename := ''eventnet.yaml'', yd_dry_run := False\<rparr>"

definition sample_demo_plan :: "en_error_code + en_apply_plan" where
  "sample_demo_plan = en_apply_plan_from_config_with_file sample_config (hd (yc_intents sample_config))
     (hd (yc_paths sample_config)) ''eventnet-swanctl.conf''"

text \<open>A plan whose programs all succeed runs to its end.\<close>

lemma always_run_commands:
  "list_all (\<lambda>c. executable_command (fst c)) cs \<Longrightarrow>
   fst (run_state (run_commands (record_exec (\<lambda>_. State_Monad.return 0)) p False executed cs) (w, l)) = EN_ERR_NONE"
proof (induction cs arbitrary: executed w l)
  case (Cons c cs)
  then have "fst (run_state (run_plan_command_without_shell (record_exec (\<lambda>_. State_Monad.return 0)) (fst c)) (w, l)) = 0"
    by (auto simp: executable_command_def plan_argv_def run_plan_command_without_shell_def record_exec_def Let_def split: if_splits)
  then obtain w' l' where "run_state (run_plan_command_without_shell (record_exec (\<lambda>_. State_Monad.return 0)) (fst c)) (w, l) = (0, (w', l'))"
    by (metis prod.collapse)
  with Cons show ?case by simp
qed simp

lemma always_runs: "plan_ok p \<Longrightarrow> fst (run_state (en_apply_plan_run (record_exec (\<lambda>_. State_Monad.return 0)) p False) ((), [])) = EN_ERR_NONE"
  using always_run_commands [of "pl_commands p" p "[]"]
  by (auto simp: en_apply_plan_run_def plan_ok_def list_all_iff)

lemma sample_demo_plan_built: "case sample_demo_plan of Inl e \<Rightarrow> False | Inr p \<Rightarrow> True"
  by code_simp

lemma sample_demo_plan_runs:
  "\<exists>p. sample_demo_plan = Inr p \<and> \<not> plan_too_large p \<and>
     fst (run_state (en_apply_plan_run (record_exec (\<lambda>_. State_Monad.return 0)) p False) ((), [])) = EN_ERR_NONE"
proof -
  obtain p where p: "sample_demo_plan = Inr p" using sample_demo_plan_built by (auto split: sum.splits)
  have "valid_command_token ''eventnet-swanctl.conf''" "\<forall>r\<in>set (pt_routes (hd (yc_paths sample_config))). wf_route r"
    by code_simp+
  from plan_executable [OF p [unfolded sample_demo_plan_def] this] have "plan_ok p" .
  with p always_runs show ?thesis by (auto simp: plan_too_large_def plan_ok_def)
qed

lemma sample_demo_selects:
  "case fst (run_state (en_controller_submit_intent (Some (hd (yc_intents sample_config))) (Some zero_reconcile_result))
     (start_on en_vpp_mock_adapter en_health_probe_mock_adapter zero_mocks)) of
   (e, Some r) \<Rightarrow> e = EN_ERR_NONE \<and> rr_selected_path r = ''path-direct'' | _ \<Rightarrow> False"
  by code_simp

lemma sample_demo_parts:
  "yc_intents sample_config = [hd (yc_intents sample_config)]"
  "find_path sample_config ''path-direct'' = Some (hd (yc_paths sample_config))"
  "create_from_config True sample_config en_strongswan_mock_adapter en_vpp_mock_adapter
     en_health_probe_mock_adapter = Some (ctl (start_on en_vpp_mock_adapter en_health_probe_mock_adapter zero_mocks))"
proof -
  show "yc_intents sample_config = [hd (yc_intents sample_config)]" by (simp add: sample_config_def)
  show "find_path sample_config ''path-direct'' = Some (hd (yc_paths sample_config))"
    by (simp add: find_path_def sample_config_def)
  obtain k :: "mocks en_controller" where k: "create_from_config True sample_config en_strongswan_mock_adapter en_vpp_mock_adapter
     en_health_probe_mock_adapter = Some k" using create_well_formed [OF sample_well_formed] by blast
  have "k = ctl (start_on en_vpp_mock_adapter en_health_probe_mock_adapter zero_mocks)"
    using create_fresh [OF k] by (cases k) (simp add: start_on_def)
  with k show "create_from_config True sample_config en_strongswan_mock_adapter en_vpp_mock_adapter
     en_health_probe_mock_adapter = Some (ctl (start_on en_vpp_mock_adapter en_health_probe_mock_adapter zero_mocks))" by simp
qed

lemma sample_conf_written:
  "\<not> plan_too_large p \<Longrightarrow> \<exists>d. run_state (en_apply_plan_write_swanctl_conf 7 p ''eventnet-swanctl.conf'') empty_disk = (EN_ERR_NONE, d)"
proof -
  assume p: "\<not> plan_too_large p"
  have "length (plan_temporary_name 7 ''eventnet-swanctl.conf'') < 512" by code_simp
  with p show ?thesis
    by (simp add: en_apply_plan_write_swanctl_conf_def create_private_def write_file_def rename_def unlink_def set_file_def
        fault_def empty_disk_def Let_def)
qed

lemma sample_demo_run: "\<exists>t. run_state (yaml_demo (recording sample_demo_env) [''--apply'', ''eventnet.yaml'']) sample_demo_start = (0, t)"
proof -
  let ?env = "recording sample_demo_env" and ?i = "hd (yc_intents sample_config)"
  let ?m = "start_on en_vpp_mock_adapter en_health_probe_mock_adapter zero_mocks"
  obtain p where p: "sample_demo_plan = Inr p" "\<not> plan_too_large p"
    "fst (run_state (en_apply_plan_run (record_exec (\<lambda>_. State_Monad.return 0)) p False) ((), [])) = EN_ERR_NONE"
    using sample_demo_plan_runs by blast
  obtain r m where sub: "run_state (en_controller_submit_intent (Some ?i) (Some zero_reconcile_result)) ?m = ((EN_ERR_NONE, Some r), m)"
    "rr_selected_path r = ''path-direct''"
    using sample_demo_selects
    by (cases "run_state (en_controller_submit_intent (Some ?i) (Some zero_reconcile_result)) ?m") (auto split: prod.splits option.splits)
  obtain d where d: "run_state (en_apply_plan_write_swanctl_conf 7 p ''eventnet-swanctl.conf'') empty_disk = (EN_ERR_NONE, d)"
    using sample_conf_written [OF p(2)] by blast
  obtain h where h: "run_state (en_apply_plan_run (record_exec (\<lambda>_. State_Monad.return 0)) p False) ((), []) = (EN_ERR_NONE, h)"
    using p(3) by (metis prod.collapse)
  have fields: "ye_files ?env = sample_fopen" "ye_memory ?env" "ye_world ?env = sample_world zero_mocks" "ye_pid ?env = 7"
    "ye_execute ?env = record_exec (\<lambda>_. State_Monad.return 0)"
    by (simp_all add: recording_def sample_demo_env_def)
  have opts: "demo_arguments demo_defaults [''--apply'', ''eventnet.yaml''] = Inr sample_demo_opts"
    by (simp add: sample_demo_opts_def demo_defaults_def)
  have opt_fields: "yd_filename sample_demo_opts = ''eventnet.yaml''" "yd_conf_filename sample_demo_opts = ''eventnet-swanctl.conf''"
    "yd_script_filename sample_demo_opts = None" "\<not> yd_dry_run sample_demo_opts" "\<not> yd_validate_only sample_demo_opts"
    "intent_chosen sample_demo_opts ?i" "\<not> yd_check_cert_files sample_demo_opts" "yd_check_cert_validity sample_demo_opts = -1"
    by (simp_all add: sample_demo_opts_def demo_defaults_def intent_chosen_def)
  let ?s = "sample_demo_start\<lparr>yo_machine := ?m\<rparr>"
  have "\<exists>t. run_state (demo_intent ?env sample_demo_opts sample_config ?i) ?s = (True, t)"
    using sub p(1) d h
    by (simp add: demo_intent_def carry_out_def run_on_demo fields opt_fields sample_demo_parts(2) sample_demo_plan_def sample_demo_start_def)
  then have "\<exists>t. run_state (demo_intents ?env sample_demo_opts sample_config False [?i]) ?s = (Some True, t)"
    by (auto simp: opt_fields)
  then obtain t where t: "run_state (demo_intents ?env sample_demo_opts sample_config False (yc_intents sample_config)) ?s = (Some True, t)"
    by (metis sample_demo_parts(1))
  have m: "\<lparr>ctl = ctl ?m, world = (sample_world zero_mocks)\<lparr>dev := zero_mocks\<rparr>\<rparr> = ?m"
    by (simp add: start_on_def sample_world_def)
  have "run_state (yaml_demo ?env [''--apply'', ''eventnet.yaml'']) sample_demo_start =
    run_state (run_demo ?env sample_demo_opts sample_config) sample_demo_start"
    by (simp only: yaml_demo_def opts fields opt_fields sample_load outcome.case sum.case if_False)
  also have "\<dots> = (0, t)"
    by (simp add: run_demo_def opt_fields fields sample_demo_parts(3) m t)
  finally show ?thesis by blast
qed

theorem yaml_demo_success_means_witness:
  "\<exists>config plans (t :: (unit \<times> (string list \<times> bool) list) demo). plans \<noteq> [] \<and>
    list_all2 (plans_intent sample_demo_opts config) (yc_intents config) plans \<and>
    conf_written sample_demo_opts (last plans) (yo_disk t) \<and>
    snd (yo_host t) = concat (map (plan_calls sample_demo_opts) plans)"
proof -
  obtain t where t: "run_state (yaml_demo (recording sample_demo_env) [''--apply'', ''eventnet.yaml'']) sample_demo_start = (0, t)"
    using sample_demo_run by blast
  have opts: "demo_arguments demo_defaults [''--apply'', ''eventnet.yaml''] = Inr sample_demo_opts"
    "\<not> yd_validate_only sample_demo_opts" "yd_script_filename sample_demo_opts \<noteq> Some (yd_conf_filename sample_demo_opts)"
    by (simp_all add: sample_demo_opts_def demo_defaults_def)
  have token: "valid_command_token (yd_conf_filename sample_demo_opts)" by code_simp
  have files: "ye_files sample_demo_env = sample_fopen" "yd_filename sample_demo_opts = ''eventnet.yaml''"
    by (simp_all add: sample_demo_env_def sample_demo_opts_def demo_defaults_def)
  have routes: "\<forall>path\<in>set (yc_paths config). list_all wf_route (pt_routes path)"
    if "en_yaml_config_load_file (ye_files sample_demo_env) (Some (yd_filename sample_demo_opts)) True 256 = Parsed config" for config
  proof -
    have "config = sample_config" using that unfolding files sample_load by simp
    moreover have "\<forall>path\<in>set (yc_paths sample_config). list_all wf_route (pt_routes path)" by code_simp
    ultimately show ?thesis by simp
  qed
  have chosen: "filter (intent_chosen sample_demo_opts) is = is" for "is"
    by (simp add: intent_chosen_def sample_demo_opts_def demo_defaults_def)
  show ?thesis
    using yaml_demo_success_means [OF t opts(1) token opts(3) routes] opts(2)
    unfolding chosen by (auto simp: sample_demo_start_def)
qed

theorem dry_run_runs_nothing_witness:
  "yo_host (snd (run_state (yaml_demo (recording sample_demo_env) [''--check-cert-files'', ''eventnet.yaml'']) sample_demo_start)) =
   ((), [])"
proof -
  have opts: "demo_arguments demo_defaults [''--check-cert-files'', ''eventnet.yaml''] =
      Inr (demo_defaults\<lparr>yd_check_cert_files := True, yd_filename := ''eventnet.yaml''\<rparr>)"
    by (simp add: demo_defaults_def)
  show ?thesis
    using dry_run_runs_nothing [OF opts, of "recording sample_demo_env" sample_demo_start]
    by (simp add: demo_defaults_def sample_demo_start_def)
qed

end
