(* ===== verification/Spec2Isabelle.thy ===== *)
theory Spec2Isabelle
  imports Startup VppApiContext Telemetry ViciAdapter CommandChecks DaemonTermination NetnsOrder NetnsSafety NetnsOutcome AgentOutcome ScenarioOutcome
    TransportSafety ViciSafety ViciController ObserverPrograms YamlDemoOutcome
begin

text \<open>
  EventNet: the controller library under \<open>src/src\<close> and \<open>src/include/eventnet\<close>, the daemon \<open>src/examples/eventnetd.c\<close> that
  runs it, the planner \<open>src/examples/netns_plan.c\<close> that writes scripts for a path, the agent
  \<open>src/examples/eventnet_agent.c\<close> that measures paths for the daemon, the scenario runner
  \<open>src/examples/eventnet_scenario.c\<close> that tries a configuration on the mocks, and the small programs around them.

  \<^bold>\<open>The program.\<close> A controller holds paths between sites, each a chain of IPsec tunnels. A client
  submits an intent (source, destination, traffic selector, constraints, candidate paths, transition
  and fallback policy). The controller probes the candidates, selects one, and switches the traffic
  to it: it brings up the tunnels, validates the path, commits the forwarding change, confirms it,
  and retires the previous path; a failure rolls back. What happens outside goes through three
  tables of callbacks: the tunnel adapter, the forwarding adapter and the health probe. Besides the
  mocks there are adapters over the commands of strongSwan, VPP and Linux, a forwarding adapter over
  VPP API messages and a tunnel adapter over the VICI protocol. Observers turn the output of these tools
  into events, which the telemetry reader reads back. A configuration comes from a file; from it a
  controller is created, or an apply plan of commands is built and run. The daemon reads telemetry from a
  file, a stream or a socket and submits its intent after every batch of records.

  \<^bold>\<open>The library.\<close>
  \<^item> \<open>Prelude\<close>: the state monad's vocabulary, triples over runs and their rules, lists used as
    registries, bounded retry loops. \<open>CLib\<close>: the C library functions used (strings, characters,
    \<open>snprintf\<close>, \<open>strtok\<close>). \<open>CDouble\<close>: the \<open>double\<close> values of metrics as dyadic numbers. \<open>TextScan\<close>: loops over
    the lines of a text, with their invariants.
  \<^item> \<open>EnTypes\<close>: \<open>types.h\<close> and the pure helpers of \<open>state.c\<close>; structures are records with a prefix
    per type (\<open>pt_\<close> path, \<open>tn_\<close> tunnel, \<open>it_\<close> intent, \<open>ph_\<close> health, \<open>rt_\<close> route), counted arrays are
    lists, character buffers are strings that hold what fits.
  \<^item> \<open>EnState\<close>: \<open>internal.h\<close>, \<open>state.c\<close>, \<open>audit.c\<close>. The machine state is the controller with its
    adapters and the world \<open>'w\<close> the adapters act on; an operation is a \<open>State_Monad\<close> action. The
    clock and sleeping act on the world as well. The invariant \<open>wf_state\<close> bounds every registry and
    keeps identifiers distinct; \<open>outside_step\<close> lists the calls the controller makes outside.
  \<^item> \<open>Topology\<close>: \<open>topology.c\<close>. \<open>MockAdapters\<close>: \<open>vpp_adapter_mock.c\<close>, \<open>strongswan_adapter_mock.c\<close>,
    \<open>health_probe.c\<close>. \<open>Samples\<close>: concrete inputs for the witnesses.
  \<^item> \<open>PathSelection\<close>: \<open>path_selection.c\<close>; one definition per mode and \<open>exclusion_reason\<close> in the order
    of its checks.
  \<^item> \<open>Transition\<close>: \<open>transition.c\<close>; the phases as actions composed by \<open>en_transition_path\<close>. The retry
    loops are bounded by the configured retry count, so they are structural recursions.
  \<^item> \<open>ControllerCore\<close>: \<open>controller.c\<close>; creation, observation and submission. \<open>TransitionValidation\<close>: success only after the
    health probe has found the target usable.
  \<^item> \<open>VppApiAdapter\<close>, \<open>VppApiContext\<close>: \<open>vpp_api_adapter.c\<close>; installation and removal over optional message
    operations, with compensation, and the calls through the context.
  \<^item> \<open>RenderCommands\<close>: \<open>render_commands.c\<close>. \<open>YamlConfig\<close>: the record of \<open>yaml_config.h\<close>. \<open>ApplyPlan\<close>:
    \<open>apply_plan.c\<close>; a plan is built by steps that may fail and run by a parameter \<open>execute\<close> that
    stands for \<open>fork\<close>, \<open>execvp\<close> and \<open>waitpid\<close>. \<open>PlanFiles\<close>: its file operations.
  \<^item> \<open>CommandAdapters\<close>, \<open>CommandForwarding\<close>: \<open>command_adapters.c\<close>; the tunnel, health and forwarding adapters over a
    parameter \<open>host\<close> that executes commands. \<open>CommandContracts\<close>, \<open>CommandSafety\<close>, \<open>CommandRollback\<close> and
    \<open>CommandChecks\<close> hold their properties.
  \<^item> \<open>YamlScalar\<close>, \<open>YamlParse\<close>: the reader of \<open>yaml_config.c\<close>, line by line; \<open>YamlValidate\<close>: its validation against
    a declarative well-formedness; \<open>YamlSafety\<close>: the reader never writes outside its arrays nor uses a pointer
    that is not set; \<open>YamlLayout\<close>: which spellings do not matter. \<open>Startup\<close>: from a loaded file to a controller or a plan.
  \<^item> \<open>JsonOutput\<close>: \<open>json_output.c\<close> over a parameter for the JSON writer. \<open>VppObserver\<close>, \<open>StrongswanObserver\<close>: the parsers of
    \<open>vpp_observer.c\<close> and \<open>strongswan_observer.c\<close> and their events. \<open>Telemetry\<close>: \<open>telemetry.c\<close> over a parameter for the JSON
    reader.
  \<^item> \<open>ViciAdapter\<close>, \<open>ViciClient\<close>: \<open>strongswan_vici_adapter.c\<close> and \<open>strongswan_vici_client.c\<close> over a parameter for \<open>libvici\<close>,
    and \<open>strongswan_vici_probe.c\<close>. \<open>VppApiTransport\<close>: \<open>vpp_api_transport.c\<close> over a parameter for \<open>libvapi\<close>, and its probe.
    \<open>Protocol\<close>: sequences of calls that a step relation allows, and actions that record their calls.
    \<open>ViciSafety\<close>, \<open>TransportSafety\<close>: the client and the transport keep to the protocols of the two libraries.

  \<^bold>\<open>The daemon.\<close>
  \<^item> \<open>DaemonTelemetry\<close>: which records the configuration and the intent admit, and the table of health.
    \<open>DaemonState\<close>: the state file over a model of the file system in which any call may fail.
    \<open>DaemonStream\<close>: \<open>run_stream\<close>, with the controller on the mocks or the command adapters.
    \<open>DaemonSocket\<close>: \<open>run_socket\<close> and \<open>run_socket_parallel\<close>. \<open>DaemonOptions\<close>: the command line. \<open>DaemonMain\<close>: \<open>main\<close> and the
    reload loop.
  \<^item> \<open>DaemonRestart\<close>: what is saved can be restored. \<open>DaemonSafety\<close>: what the adapters leave alone, and that no path is usable
    without telemetry. \<open>DaemonOutcome\<close>: what exit status 0 means. \<open>DaemonTermination\<close>: when the daemon ends.

  \<^bold>\<open>The planner.\<close>
  \<^item> \<open>NetnsPlan\<close>, \<open>NetnsRuntime\<close>: \<open>netns_plan.c\<close> up to its writers. A script is a list of lines, \<open>script_text\<close> is what is
    written; the fixed parts of the scripts are lines as well. \<open>NetnsMain\<close>: the arguments, the choice of the path and the files.
  \<^item> \<open>NetnsOrder\<close>: tables are made before they are used. \<open>NetnsSafety\<close>: which path is chosen. \<open>NetnsOutcome\<close>: what the exit
    status means.

  \<^bold>\<open>The agent.\<close>
  \<^item> \<open>JsonStream\<close>: \<open>en_json_mut_doc_write_line\<close> on a stream whose writes may fail. \<open>AgentProbe\<close>: a run of \<open>ping\<close>, the counters
    of a probe and its record, which the telemetry reader reads back. \<open>AgentMain\<close>: the arguments, the probes and the rounds.
  \<^item> \<open>AgentSafety\<close>, \<open>AgentOutcome\<close>: what is written, in which order, and that the daemon takes it as measurements of its paths.

  \<^bold>\<open>The scenario runner.\<close>
  \<^item> \<open>ScenarioRun\<close>: the injected health, the arguments and the forced selection. \<open>ScenarioMain\<close>: a scenario and the steps.
    \<open>ScenarioSafety\<close>, \<open>ScenarioHealth\<close>, \<open>ScenarioOutcome\<close>: what a scenario that passes shows, which health its controller knew
    when it selected the path, and that the controller is released.

  \<^bold>\<open>The small programs.\<close>
  \<^item> \<open>ControllerDemo\<close>: \<open>demo.c\<close>. \<open>YamlDemo\<close>: \<open>yaml_demo.c\<close>, which plans the intents of a configuration, writes the plan and runs
    it; \<open>YamlDemoOutcome\<close>: what its exit status 0 means, and that a dry run runs nothing.
  \<^item> \<open>ObserverPrograms\<close>: \<open>swanctl_observer.c\<close>, \<open>vpp_observer.c\<close> and \<open>vpp_interface_observer.c\<close>, which read a listing and print an
    observation or an event. \<open>ViciController\<close>: \<open>strongswan_vici_controller_probe.c\<close>, a controller over the VICI client.

  \<^bold>\<open>Interfaces.\<close> The locale \<open>transition_stable\<close> (theory \<open>Transition\<close>) is what a predicate on states
  has to satisfy to survive a transition: the controller's own updates and every outside step keep
  it. It is interpreted on the adapters being constant, on the state invariant, on the audit log
  being bounded and append-only, on the frame of the applied table, on the world being reached by outside steps, and for the daemon on its outside frame and on the
  configuration being the loaded one. The locale
  \<open>submission_stable\<close> (theory \<open>ControllerCore\<close>) extends it to a submission. The locale \<open>forwarding_plane\<close> (theory \<open>CommandContracts\<close>)
  is the contract of a forwarding table, interpreted on the command adapter. The locale \<open>deterministic_protocol\<close> (theory
  \<open>Protocol\<close>) is a protocol whose sequences of calls lead to one state, interpreted on those of \<open>libvapi\<close> and \<open>libvici\<close>. In the theories of the library
  the adapters are arbitrary: every property holds for all callbacks.

  \<^bold>\<open>Properties.\<close> Submission and transition: what success and failure leave behind, what is kept.
  Selection: the chosen path satisfies every constraint, is optimal in its mode unless hysteresis keeps the active path,
  hysteresis and hold-down, and the explanation of a failure. Forwarding by messages and by commands: compensation of a failed installation, what
  a success has installed, which programs are run.
  Commands: the rendered text splits into exactly the intended arguments, every command of a built
  plan is executable, and a run undoes what it did when a command fails. Configuration: the validation decides well-formedness, the
  reader is safe, a loaded file gives a controller. Observers and telemetry: what is reported was in
  the output, events are read back, accepted records are within bounds. Daemon: the state file is replaced atomically and
  restored, telemetry gates health, the options, the rate of the records, the end of the process. Planner: the path it chooses, the order of the commands,
  the meaning of its exit status. Agent: the targets it pings, the records it writes, and that they pass the checks of the daemon.
  Scenario runner, YAML demo: what the exit status means, and that the controller of a scenario is released. Transport and VICI
  probe: every context and connection is released, and no call is made outside the protocol of the library.

  \<^bold>\<open>Bounds.\<close> \<open>int\<close> stands for C's signed integers where the code only compares, copies or prints them,
  and bounds are stated where they matter. There is no fuel: every loop is bounded by a list or a
  count, except three that may not end, \<open>monitor_wait\<close>, \<open>wait_for_reload\<close> and \<open>reload_loop\<close>, which are partial functions to \<open>option\<close>;
  when they return is proved. What is read to its end is a list: that the daemon ends is therefore claimed for telemetry from a
  file only, since the standard input and a socket may stay open.

  \<^bold>\<open>Parameters.\<close> The JSON reader and writer, \<open>libvici\<close>, \<open>libvapi\<close>, the undeclared constant \<open>EN_TUNNEL_DOWN\<close> of the VICI
  adapter, the messages of the VPP API, what \<open>popen\<close> of \<open>openssl\<close> returns, the host that executes commands, what \<open>fopen\<close>
  gives, the clients of a socket with the outcomes of \<open>accept4\<close>, \<open>poll\<close> and \<open>read\<close>, what \<open>ping\<close> prints, the faults of the
  file system and the readings of the flags that signal handlers set. Text that is read holds no NUL byte.

  \<^bold>\<open>Not modelled.\<close> Printing, except for the records, scripts and observations that are the purpose of a program; the vendored
  yyjson library; the daemon's VICI monitor, which is compiled only together with a client that does not compile and which no
  accepted command line starts; the walk of \<open>libvici\<close> over the sections of a message; the parts for Windows; freeing memory has
  no counterpart, except for the contexts and connections of the two libraries and the controller of the scenario runner.
\<close>

end
